(* ===== verification/Prelude.thy ===== *)
theory Prelude
  imports Main "HOL-Library.Word"
begin

text \<open>
  The vocabulary every component of the development shares: the machine types of
  \<open>src/MappingCoreLib/Basics.h\<close>, the exceptions of \<open>src/MappingCoreLib/Sections.h\<close> as values,
  the way C++ containers are read and edited by index, and the little-endian view of
  multi-byte integers that the code gets from casting a byte pointer.

  Conventions. Sizes and indexes (\<open>size_t\<close>) are natural numbers. A byte of a stream or of a
  string is a \<open>char\<close> (the code itself casts freely between \<open>char*\<close> and \<open>u8*\<close>). Struct fields
  keep their width as words. A function that may throw returns \<open>Inl\<close> of the exception or
  \<open>Inr\<close> of its result; an access the C++ standard leaves undefined is \<open>Inl UndefinedBehavior\<close>.
\<close>

section \<open>Types\<close>

type_synonym u8 = "8 word"
type_synonym u16 = "16 word"
type_synonym u32 = "32 word"
type_synonym u64 = "64 word"

datatype err =
    OutOfRange
  | InvalidArgument
  | NegativeSectionSize
  | MaxSectionSizeExceeded
  | StrSerializationFailure
  | MaximumStringsExceeded
  | InsufficientStringCapacity nat nat
  | MaximumCharactersExceeded nat nat
  | MaximumOffsetAndCharsExceeded nat nat nat
  | LengthError
  | InvalidSize
  | SectionValidationException
  | ParsingFailed
  | UndefinedBehavior

type_synonym 'a result = "err + 'a"

abbreviation NUL :: char where
  "NUL \<equiv> CHR 0x00"

text \<open>\<open>Chk::MaxStrings\<close>, which counts the unused string id 0, and \<open>Chk::StringId::NoString\<close>.\<close>

definition MaxStrings :: nat where "MaxStrings = 65536"

definition NoString :: nat where "NoString = 0"

named_theorems section_defs \<open>definitions of the section operations\<close>

section \<open>Results\<close>

definition bind_result :: "'a result \<Rightarrow> ('a \<Rightarrow> 'b result) \<Rightarrow> 'b result" where
  "bind_result r f = (case r of Inl e \<Rightarrow> Inl e | Inr x \<Rightarrow> f x)"

lemma bind_result_simps [simp]:
  "bind_result (Inl e) f = Inl e"
  "bind_result (Inr x) f = f x"
  by (simp_all add: bind_result_def)

lemma bind_result_eq_Inr:
  "bind_result r f = Inr y \<longleftrightarrow> (\<exists>x. r = Inr x \<and> f x = Inr y)"
  by (cases r) simp_all

lemma bind_result_assoc:
  "bind_result (bind_result r f) g = bind_result r (\<lambda>x. bind_result (f x) g)"
  by (cases r) simp_all

text \<open>What a fallible step leaves of a state: its result, or the state as it was when it fails.\<close>

definition succeed :: "'a \<Rightarrow> 'a result \<Rightarrow> 'a" where
  "succeed s r = (case r of Inl _ \<Rightarrow> s | Inr s' \<Rightarrow> s')"

lemma succeed_simps [simp]: "succeed s (Inl e) = s" "succeed s (Inr s') = s'"
  by (simp_all add: succeed_def)

section \<open>Containers by index\<close>

text \<open>
  A bounds-checked read and write: the code's \<open>if ( i < n ) ... else throw std::out_of_range\<close>.
\<close>

definition at_or_throw :: "'a list \<Rightarrow> nat \<Rightarrow> 'a result" where
  "at_or_throw xs i = (if i < length xs then Inr (xs ! i) else Inl OutOfRange)"

definition set_or_throw :: "'a list \<Rightarrow> nat \<Rightarrow> 'a \<Rightarrow> 'a list result" where
  "set_or_throw xs i v = (if i < length xs then Inr (xs[i := v]) else Inl OutOfRange)"

text \<open>An unchecked \<open>operator[]\<close>: past the end it is undefined behaviour.\<close>

definition at_unchecked :: "'a list \<Rightarrow> nat \<Rightarrow> 'a result" where
  "at_unchecked xs i = (if i < length xs then Inr (xs ! i) else Inl UndefinedBehavior)"

text \<open>\<open>insert(begin()+i, x)\<close> and \<open>erase(begin()+i)\<close> of a \<open>std::deque\<close> or \<open>std::vector\<close>.\<close>

definition insert_at :: "nat \<Rightarrow> 'a \<Rightarrow> 'a list \<Rightarrow> 'a list" where
  "insert_at i x xs = take i xs @ x # drop i xs"

definition erase_at :: "nat \<Rightarrow> 'a list \<Rightarrow> 'a list" where
  "erase_at i xs = take i xs @ drop (Suc i) xs"

lemma length_insert_at [simp]: "length (insert_at i x xs) = Suc (length xs)"
  by (simp add: insert_at_def)

lemma length_erase_at [simp]: "i < length xs \<Longrightarrow> length (erase_at i xs) = length xs - 1"
  by (auto simp: erase_at_def)

lemma nth_insert_at:
  assumes "i \<le> length xs" "j \<le> length xs"
  shows "insert_at i x xs ! j = (if j < i then xs ! j else if j = i then x else xs ! (j - 1))"
proof -
  have len: "length (take i xs) = i" using assms by simp
  consider "j < i" | "j = i" | "i < j" by linarith
  then show ?thesis
  proof cases
    case 1
    then show ?thesis using len by (simp add: insert_at_def nth_append)
  next
    case 2
    then show ?thesis using len by (simp add: insert_at_def nth_append)
  next
    case 3
    then obtain k where k: "j = Suc (i + k)" using less_imp_Suc_add by blast
    have "i + k < length xs" using assms k by simp
    then show ?thesis using len k by (simp add: insert_at_def nth_append)
  qed
qed

lemma nth_erase_at:
  assumes "i < length xs" "j < length xs - 1"
  shows "erase_at i xs ! j = (if j < i then xs ! j else xs ! Suc j)"
proof (cases "j < i")
  case True
  then show ?thesis using assms by (simp add: erase_at_def nth_append)
next
  case False
  then have "Suc i + (j - i) = Suc j" by simp
  then show ?thesis using assms False by (simp add: erase_at_def nth_append)
qed

lemma erase_insert_at [simp]: "i \<le> length xs \<Longrightarrow> erase_at i (insert_at i x xs) = xs"
  by (simp add: erase_at_def insert_at_def)

lemma insert_erase_at: "i < length xs \<Longrightarrow> insert_at i (xs ! i) (erase_at i xs) = xs"
  by (simp add: erase_at_def insert_at_def min_def id_take_nth_drop [symmetric])

lemma set_insert_at: "i \<le> length xs \<Longrightarrow> set (insert_at i x xs) = insert x (set xs)"
  by (metis Un_insert_right append_take_drop_id insert_at_def list.simps(15) set_append)

text \<open>\<open>std::swap\<close> of two elements.\<close>

definition swap_at :: "nat \<Rightarrow> nat \<Rightarrow> 'a list \<Rightarrow> 'a list" where
  "swap_at i j xs = xs[i := xs ! j, j := xs ! i]"

lemma length_swap_at [simp]: "length (swap_at i j xs) = length xs"
  by (simp add: swap_at_def)

lemma bex_set_nth: "(\<exists>x\<in>set xs. P x) \<longleftrightarrow> (\<exists>i<length xs. P (xs ! i))"
  by (metis in_set_conv_nth)

section \<open>Linear searches\<close>

text \<open>\<open>for ( size_t i=first; i<limit; i++ ) if ( P(i) ) return i; return dflt;\<close>\<close>

definition find_index :: "(nat \<Rightarrow> bool) \<Rightarrow> nat \<Rightarrow> nat \<Rightarrow> nat option" where
  "find_index P first limit = List.find P [first..<limit]"

lemma find_index_Some:
  "find_index P first limit = Some i \<Longrightarrow> first \<le> i \<and> i < limit \<and> P i"
  by (auto simp: find_index_def find_Some_iff)

lemma find_index_least:
  assumes "find_index P first limit = Some i" "first \<le> j" "j < i"
  shows "\<not> P j"
proof -
  obtain k where k: "k < length [first..<limit]" "i = [first..<limit] ! k"
    "\<forall>m<k. \<not> P ([first..<limit] ! m)"
    using assms(1) by (auto simp: find_index_def find_Some_iff)
  then have "j - first < k" and "[first..<limit] ! (j - first) = j"
    using assms by auto
  then show ?thesis using k(3) by metis
qed

lemma find_index_None:
  "find_index P first limit = None \<longleftrightarrow> (\<forall>i. first \<le> i \<and> i < limit \<longrightarrow> \<not> P i)"
  by (auto simp: find_index_def find_None_iff)

section \<open>Little-endian integers in a byte buffer\<close>

definition byte :: "char \<Rightarrow> nat" where
  "byte c = of_char c"

definition to_byte :: "nat \<Rightarrow> char" where
  "to_byte n = char_of n"

lemma byte_less [simp]: "byte c < 256"
  by (simp add: byte_def)

lemma byte_to_byte [simp]: "byte (to_byte n) = n mod 256"
  by (simp add: byte_def to_byte_def)

lemma to_byte_byte [simp]: "to_byte (byte c) = c"
  by (simp add: byte_def to_byte_def)

lemma byte_eq_iff: "byte c = byte d \<longleftrightarrow> c = d"
  by (metis to_byte_byte)

lemma byte_NUL [simp]: "byte NUL = 0"
  by (simp add: byte_def)

lemma byte_eq_0_iff [simp]: "byte c = 0 \<longleftrightarrow> c = NUL"
  by (metis byte_NUL byte_eq_iff)

lemma to_byte_0 [simp]: "to_byte 0 = NUL"
  by (metis byte_NUL to_byte_byte)

text \<open>\<open>(u16 &)bytes[i]\<close> read and written on a little-endian machine.\<close>

definition read_u16 :: "string \<Rightarrow> nat \<Rightarrow> nat" where
  "read_u16 bs i = byte (bs ! i) + 256 * byte (bs ! Suc i)"

definition write_u16 :: "string \<Rightarrow> nat \<Rightarrow> nat \<Rightarrow> string" where
  "write_u16 bs i v = bs[i := to_byte v, Suc i := to_byte (v div 256)]"

lemma read_u16_bound: "read_u16 bs i < 65536"
  using byte_less [of "bs ! i"] byte_less [of "bs ! Suc i"]
  unfolding read_u16_def by linarith

lemma length_write_u16 [simp]: "length (write_u16 bs i v) = length bs"
  by (simp add: write_u16_def)

lemma read_write_u16:
  assumes "Suc i < length bs"
  shows "read_u16 (write_u16 bs i v) i = v mod 65536"
proof -
  have "v mod 256 + 256 * (v div 256 mod 256) = v mod (256 * 256)"
    by (simp only: mod_mult2_eq)
  then show ?thesis using assms by (simp add: read_u16_def write_u16_def)
qed

lemma read_write_u16_other:
  assumes "Suc i < j \<or> Suc j < i"
  shows "read_u16 (write_u16 bs i v) j = read_u16 bs j"
  using assms by (auto simp: read_u16_def write_u16_def)

lemma nth_write_u16_other: "j \<noteq> i \<Longrightarrow> j \<noteq> Suc i \<Longrightarrow> write_u16 bs i v ! j = bs ! j"
  by (simp add: write_u16_def)

lemma read_u16_append: "Suc i < length bs \<Longrightarrow> read_u16 (bs @ cs) i = read_u16 bs i"
  by (simp add: read_u16_def nth_append)

lemma write_u16_append: "Suc i < length bs \<Longrightarrow> write_u16 (bs @ cs) i v = write_u16 bs i v @ cs"
  by (simp add: write_u16_def list_update_append)

section \<open>Input streams\<close>

text \<open>\<open>is.read(buf, n)\<close> into a zeroed buffer: what was read, padded, and the rest of the stream.\<close>

definition stream_read :: "nat \<Rightarrow> string \<Rightarrow> string \<times> nat \<times> string" where
  "stream_read n is =
    (take n is @ replicate (n - length is) NUL, length (take n is), drop n is)"

lemma stream_read_all: "stream_read (length out) (out @ rest) = (out, length out, rest)"
  by (simp add: stream_read_def)

end
