(* ===== verification/EscapeStrings.thy ===== *)
theory EscapeStrings
  imports Prelude
begin

text \<open>
  \<open>src/MappingCoreLib/EscapeStrings.cpp\<close>: the three notations of a map string. A raw string is
  what the scenario file stores; an \<open>EscString\<close> uses backslash escapes; a \<open>ChkdString\<close> adds the
  editor's \<open><hh>\<close> notation, and a \<open>SingleLineChkdString\<close> also escapes line breaks. The printers
  (\<open>makeEscStr\<close>, \<open>makeChkdStr\<close>, \<open>MakeOneLineChkdStr\<close>) and the parsers (\<open>parseEscStr\<close>,
  \<open>parseChkdStr\<close> and their byte variants) are translated loop by loop; the loops over an index
  that an escape sequence moves forward are recursive functions with a termination proof.
  The locale \<open>escape_codec\<close> states what one printed chunk means to a parser, and proves once
  that parsing what was printed gives back the raw string.
  Out-of-memory exceptions (the \<open>catch\<close> clauses) are not modelled.
\<close>

section \<open>Reading characters and digits\<close>

text \<open>\<open>std::string::operator[]\<close>: the terminator at the end.\<close>

definition str_at :: "string \<Rightarrow> nat \<Rightarrow> char" where
  "str_at s i = (if i < length s then s ! i else NUL)"

text \<open>A \<open>std::string\<close> built from the address of a character stops at the first NUL.\<close>

definition from_ptr :: "string \<Rightarrow> nat \<Rightarrow> string" where
  "from_ptr s i = takeWhile (\<lambda>c. c \<noteq> NUL) (drop i s)"

definition getOneCharHexVal :: "char \<Rightarrow> nat option" where
  "getOneCharHexVal character =
    (let c = byte character in
     if 48 \<le> c \<and> c \<le> 57 then Some (c - 48)
     else if 65 \<le> c \<and> c \<le> 70 then Some (c - 65 + 10)
     else if 97 \<le> c \<and> c \<le> 102 then Some (c - 97 + 10)
     else None)"

definition getTwoCharHexVal :: "string \<Rightarrow> nat option" where
  "getTwoCharHexVal firstCharPtr =
    (let c0 = byte (str_at firstCharPtr 0); c1 = byte (str_at firstCharPtr 1);
         high = (if 48 \<le> c0 \<and> c0 \<le> 57 then Some ((c0 - 48) * 16 mod 256)
                 else if 65 \<le> c0 \<and> c0 \<le> 70 then Some ((c0 - 65 + 10) * 16 mod 256)
                 else if 97 \<le> c0 \<and> c0 \<le> 102 then Some ((c0 - 97 + 10) * 16 mod 256)
                 else None)
     in case high of
          None \<Rightarrow> None
        | Some value \<Rightarrow>
            if 48 \<le> c1 \<and> c1 \<le> 57 then Some ((value + (c1 - 48)) mod 256)
            else if 65 \<le> c1 \<and> c1 \<le> 70 then Some ((value + (c1 - 65 + 10)) mod 256)
            else if 97 \<le> c1 \<and> c1 \<le> 102 then Some ((value + (c1 - 97 + 10)) mod 256)
            else None)"

definition isOctDigit :: "char \<Rightarrow> bool" where
  "isOctDigit c \<longleftrightarrow> 48 \<le> byte c \<and> byte c \<le> 55"

definition getOneCharOctVal :: "char \<Rightarrow> nat option" where
  "getOneCharOctVal character =
    (if isOctDigit character then Some (byte character - 48) else None)"

definition getTwoCharOctVal :: "string \<Rightarrow> nat option" where
  "getTwoCharOctVal firstCharPtr =
    (if isOctDigit (str_at firstCharPtr 0) \<and> isOctDigit (str_at firstCharPtr 1)
     then Some (((byte (str_at firstCharPtr 0) - 48) * 8 mod 256
                 + (byte (str_at firstCharPtr 1) - 48)) mod 256)
     else None)"

definition getThreeCharOctVal :: "string \<Rightarrow> nat option" where
  "getThreeCharOctVal firstCharPtr =
    (if isOctDigit (str_at firstCharPtr 0) \<and> isOctDigit (str_at firstCharPtr 1)
        \<and> isOctDigit (str_at firstCharPtr 2)
     then Some ((((byte (str_at firstCharPtr 0) - 48) * 64 mod 256
                 + (byte (str_at firstCharPtr 1) - 48) * 8) mod 256
                 + (byte (str_at firstCharPtr 2) - 48)) mod 256)
     else None)"

section \<open>Printers\<close>

text \<open>The two hexadecimal digits the printers push for a character code.\<close>

definition hexDigits :: "nat \<Rightarrow> string" where
  "hexDigits c =
    [if c div 16 > 9 then to_byte (c div 16 + 65 - 10) else to_byte (c div 16 + 48),
     if c mod 16 > 9 then to_byte (c mod 16 + 65 - 10) else to_byte (c mod 16 + 48)]"

text \<open>Characters named by code, since a literal cannot spell them.\<close>

abbreviation BSL :: char where "BSL \<equiv> CHR 0x5C"
abbreviation QUOTE :: char where "QUOTE \<equiv> CHR 0x22"
abbreviation CR :: char where "CR \<equiv> CHR 0x0D"
abbreviation LF :: char where "LF \<equiv> CHR 0x0A"
abbreviation TAB :: char where "TAB \<equiv> CHR 0x09"
abbreviation LESS :: char where "LESS \<equiv> CHR 0x3C"
abbreviation GREATER :: char where "GREATER \<equiv> CHR 0x3E"

text \<open>The test \<open>currChar < 32 || currChar == 127\<close> of the printers.\<close>

definition isControlChar :: "char \<Rightarrow> bool" where
  "isControlChar currChar \<longleftrightarrow> byte currChar < 32 \<or> byte currChar = 127"

text \<open>What one pass of each printer's loop appends.\<close>

definition makeEscStr_step :: "string \<Rightarrow> nat \<Rightarrow> string" where
  "makeEscStr_step inRawString i =
    (let currChar = str_at inRawString i in
     if currChar = LF then [BSL, CHR ''n'']
     else if currChar = CR then [BSL, CHR ''r'']
     else if currChar = TAB then [BSL, CHR ''t'']
     else if currChar = QUOTE then [BSL, QUOTE]
     else if currChar = BSL then [BSL, BSL]
     else if isControlChar currChar
       then [BSL, CHR ''x''] @ hexDigits (byte currChar)
     else [currChar])"

definition makeEscStr :: "string \<Rightarrow> nat \<Rightarrow> string" where
  "makeEscStr inRawString inRawStringLength =
    concat (map (makeEscStr_step inRawString) [0..<inRawStringLength])"

definition MakeOneLineChkdStr_step :: "string \<Rightarrow> nat \<Rightarrow> nat \<Rightarrow> string" where
  "MakeOneLineChkdStr_step inRawString inRawStringLength i =
    (let currChar = str_at inRawString i in
     if currChar = CR \<and> i + 1 < inRawStringLength \<and> str_at inRawString (i + 1) = LF
       then [BSL, CHR ''r'']
     else if currChar = LF \<and> i \<noteq> 0 \<and> str_at inRawString (i - 1) = CR
       then [BSL, CHR ''n'']
     else if currChar = TAB then [BSL, CHR ''t'']
     else if isControlChar currChar
       then LESS # hexDigits (byte currChar) @ [GREATER]
     else if currChar = LESS then [BSL, LESS]
     else if currChar = BSL then [BSL, BSL]
     else [currChar])"

definition MakeOneLineChkdStr :: "string \<Rightarrow> nat \<Rightarrow> string" where
  "MakeOneLineChkdStr inRawString inRawStringLength =
    concat (map (MakeOneLineChkdStr_step inRawString inRawStringLength) [0..<inRawStringLength])"

definition partOfNewLine :: "string \<Rightarrow> nat \<Rightarrow> nat \<Rightarrow> bool" where
  "partOfNewLine inRawString inRawStringLength i =
    ((str_at inRawString i = CR \<and> i + 1 < inRawStringLength \<and> str_at inRawString (i + 1) = LF) \<or>
     (str_at inRawString i = LF \<and> i \<noteq> 0 \<and> str_at inRawString (i - 1) = CR))"

definition makeChkdStr_step :: "string \<Rightarrow> nat \<Rightarrow> nat \<Rightarrow> string" where
  "makeChkdStr_step inRawString inRawStringLength i =
    (let currChar = str_at inRawString i in
     if isControlChar currChar \<and> currChar \<noteq> TAB
        \<and> \<not> partOfNewLine inRawString inRawStringLength i
       then LESS # hexDigits (byte currChar) @ [GREATER]
     else if currChar = LESS then [BSL, LESS]
     else if currChar = BSL then [BSL, BSL]
     else [currChar])"

text \<open>\<open>isOneLine\<close> of the destination picks the printer.\<close>

definition makeChkdStr :: "string \<Rightarrow> nat \<Rightarrow> bool \<Rightarrow> string" where
  "makeChkdStr inRawString inRawStringLength isOneLine =
    (if isOneLine then MakeOneLineChkdStr inRawString inRawStringLength
     else concat (map (makeChkdStr_step inRawString inRawStringLength) [0..<inRawStringLength]))"

section \<open>Escape sequences\<close>

text \<open>
  The result of the two readers of one escape sequence: whether there is one, the character
  it stands for and the index of its last character (the reference parameters of the code).
\<close>

definition slashEscape :: "char \<Rightarrow> char" where
  "slashEscape firstEscChar =
    (if firstEscChar = CHR ''a'' then CHR 0x07
     else if firstEscChar = CHR ''b'' then CHR 0x08
     else if firstEscChar = CHR ''f'' then CHR 0x0C
     else if firstEscChar = CHR ''n'' then LF
     else if firstEscChar = CHR ''r'' then CR
     else if firstEscChar = CHR ''t'' then TAB
     else if firstEscChar = CHR ''v'' then CHR 0x0B
     else firstEscChar)"

definition getSlashEscCodeChar :: "string \<Rightarrow> nat \<Rightarrow> nat \<Rightarrow> bool \<times> char \<times> nat" where
  "getSlashEscCodeChar escString escStringLength slashPos =
    (if slashPos < escStringLength \<and> str_at escString slashPos = BSL then
       if slashPos + 1 = escStringLength then (True, BSL, slashPos)
       else
         let firstEscChar = str_at escString (slashPos + 1) in
         if firstEscChar = CHR ''X'' \<or> firstEscChar = CHR ''x'' then
           (case (if slashPos + 3 < escStringLength
                  then getTwoCharHexVal (from_ptr escString (slashPos + 2)) else None) of
              Some numValue \<Rightarrow> (True, to_byte numValue, slashPos + 3)
            | None \<Rightarrow>
                (case (if slashPos + 2 < escStringLength
                       then getOneCharHexVal (str_at escString (slashPos + 2)) else None) of
                   Some numValue \<Rightarrow> (True, to_byte numValue, slashPos + 2)
                 | None \<Rightarrow> (True, firstEscChar, slashPos + 1)))
         else if 48 \<le> byte firstEscChar \<and> byte firstEscChar \<le> 55 then
           (case (if slashPos + 3 < escStringLength
                  then getThreeCharOctVal (from_ptr escString (slashPos + 1)) else None) of
              Some numValue \<Rightarrow> (True, to_byte numValue, slashPos + 3)
            | None \<Rightarrow>
                (case (if slashPos + 2 < escStringLength
                       then getTwoCharOctVal (from_ptr escString (slashPos + 1)) else None) of
                   Some numValue \<Rightarrow> (True, to_byte numValue, slashPos + 2)
                 | None \<Rightarrow>
                     (case getOneCharOctVal firstEscChar of
                        Some numValue \<Rightarrow> (True, to_byte numValue, slashPos + 1)
                      | None \<Rightarrow> (True, NUL, 0))))
         else (True, slashEscape firstEscChar, slashPos + 1)
     else (False, NUL, 0))"

definition getChkdEscCodeChar :: "string \<Rightarrow> nat \<Rightarrow> nat \<Rightarrow> bool \<times> char \<times> nat" where
  "getChkdEscCodeChar chkdString chkdStringLength lessThanPos =
    (if lessThanPos < chkdStringLength \<and> str_at chkdString lessThanPos = LESS then
       if lessThanPos + 1 = chkdStringLength then (True, LESS, lessThanPos)
       else
         (case (if lessThanPos + 3 < chkdStringLength \<and> str_at chkdString (lessThanPos + 3) = GREATER
                then getTwoCharHexVal (from_ptr chkdString (lessThanPos + 1)) else None) of
            Some numValue \<Rightarrow> (True, to_byte numValue, lessThanPos + 3)
          | None \<Rightarrow>
              (case (if lessThanPos + 2 < chkdStringLength \<and> str_at chkdString (lessThanPos + 2) = GREATER
                     then getOneCharHexVal (str_at chkdString (lessThanPos + 1)) else None) of
                 Some numValue \<Rightarrow> (True, to_byte numValue, lessThanPos + 2)
               | None \<Rightarrow> (False, NUL, 0)))
     else (False, NUL, 0))"

text \<open>An escape sequence never ends before it starts: this is why the loops below stop.\<close>

lemma getSlashEscCodeChar_pos:
  "getSlashEscCodeChar s n p = (True, c, q) \<Longrightarrow> p \<le> q"
  by (auto simp: getSlashEscCodeChar_def Let_def getOneCharOctVal_def isOctDigit_def
      split: if_splits option.splits)

lemma getChkdEscCodeChar_pos:
  "getChkdEscCodeChar s n p = (True, c, q) \<Longrightarrow> p \<le> q"
  by (auto simp: getChkdEscCodeChar_def split: if_splits option.splits)

section \<open>Parsers\<close>

text \<open>
  Each loop has the index and what was pushed so far; \<open>None\<close> is the code's \<open>return false\<close> with
  an emptied result.
\<close>

function parseEscStr_loop :: "string \<Rightarrow> nat \<Rightarrow> string \<Rightarrow> string option" where
  "parseEscStr_loop s i out =
    (if i < length s then
       (case getSlashEscCodeChar s (length s) i of
          (ok, escapedChar, lastEscCharPos) \<Rightarrow>
            if str_at s i = BSL \<and> ok \<and> escapedChar \<noteq> NUL
              then parseEscStr_loop s (lastEscCharPos + 1) (out @ [escapedChar])
            else if str_at s i = NUL then None
            else parseEscStr_loop s (i + 1) (out @ [str_at s i]))
     else Some out)"
  by pat_completeness auto
termination
  by (relation "measure (\<lambda>(s, i, out). length s - i)") (auto dest!: getSlashEscCodeChar_pos [OF sym])

function parseEscBytes_loop :: "string \<Rightarrow> nat \<Rightarrow> string \<Rightarrow> string option" where
  "parseEscBytes_loop s i out =
    (if i < length s then
       (case getSlashEscCodeChar s (length s) i of
          (ok, escapedChar, lastEscCharPos) \<Rightarrow>
            if str_at s i = BSL \<and> ok
              then parseEscBytes_loop s (lastEscCharPos + 1) (out @ [escapedChar])
            else parseEscBytes_loop s (i + 1) (out @ [str_at s i]))
     else Some out)"
  by pat_completeness auto
termination
  by (relation "measure (\<lambda>(s, i, out). length s - i)") (auto dest!: getSlashEscCodeChar_pos [OF sym])

function parseChkdStr_loop :: "string \<Rightarrow> nat \<Rightarrow> string \<Rightarrow> string option" where
  "parseChkdStr_loop s i out =
    (if i < length s then
       (case (getSlashEscCodeChar s (length s) i, getChkdEscCodeChar s (length s) i) of
          ((slashOk, slashChar, slashLast), (chkdOk, chkdChar, chkdLast)) \<Rightarrow>
            if str_at s i = BSL \<and> slashOk \<and> slashChar \<noteq> NUL
              then parseChkdStr_loop s (slashLast + 1) (out @ [slashChar])
            else if str_at s i = LESS \<and> chkdOk \<and> chkdChar \<noteq> NUL
              then parseChkdStr_loop s (chkdLast + 1) (out @ [chkdChar])
            else if str_at s i = NUL then None
            else parseChkdStr_loop s (i + 1) (out @ [str_at s i]))
     else Some out)"
  by pat_completeness auto
termination
  by (relation "measure (\<lambda>(s, i, out). length s - i)")
    (auto dest!: getSlashEscCodeChar_pos [OF sym] getChkdEscCodeChar_pos [OF sym])

text \<open>
  \<open>parseChkdBytes\<close> pushes \<open>escapedChar\<close>, the last character an escape reader produced, also
  where no escape sequence starts; the variable is part of the loop's state.
\<close>

function parseChkdBytes_loop :: "string \<Rightarrow> nat \<Rightarrow> char \<Rightarrow> string \<Rightarrow> string option" where
  "parseChkdBytes_loop s i escapedChar out =
    (if i < length s then
       (case (getSlashEscCodeChar s (length s) i, getChkdEscCodeChar s (length s) i) of
          ((slashOk, slashChar, slashLast), (chkdOk, chkdChar, chkdLast)) \<Rightarrow>
            if str_at s i = BSL \<and> slashOk
              then parseChkdBytes_loop s (slashLast + 1) slashChar (out @ [slashChar])
            else if str_at s i = LESS then
              if chkdOk then parseChkdBytes_loop s (chkdLast + 1) chkdChar (out @ [chkdChar])
              else parseChkdBytes_loop s (i + 1) chkdChar (out @ [chkdChar])
            else parseChkdBytes_loop s (i + 1) escapedChar (out @ [escapedChar]))
     else Some out)"
  by pat_completeness auto
termination
  by (relation "measure (\<lambda>(s, i, e, out). length s - i)")
    (auto dest!: getSlashEscCodeChar_pos [OF sym] getChkdEscCodeChar_pos [OF sym])

declare parseEscStr_loop.simps [simp del] parseEscBytes_loop.simps [simp del]
  parseChkdStr_loop.simps [simp del] parseChkdBytes_loop.simps [simp del]

definition parseEscStr :: "string \<Rightarrow> string option" where
  "parseEscStr inEscString = parseEscStr_loop inEscString 0 []"

definition parseEscBytes :: "string \<Rightarrow> string option" where
  "parseEscBytes inEscString = parseEscBytes_loop inEscString 0 []"

definition parseChkdStr :: "string \<Rightarrow> string option" where
  "parseChkdStr inChkdString = parseChkdStr_loop inChkdString 0 []"

definition parseChkdBytes :: "string \<Rightarrow> string option" where
  "parseChkdBytes inChkdString = parseChkdBytes_loop inChkdString 0 NUL []"

section \<open>Conversions between the notations\<close>

datatype StringType = RawString | EscString | ChkdString | SingleLineChkdString

text \<open>A failed parse leaves the raw string empty.\<close>

definition toRaw :: "StringType \<Rightarrow> string \<Rightarrow> string" where
  "toRaw t s =
    (case t of
       RawString \<Rightarrow> s
     | EscString \<Rightarrow> (case parseEscStr s of None \<Rightarrow> [] | Some r \<Rightarrow> r)
     | ChkdString \<Rightarrow> (case parseChkdStr s of None \<Rightarrow> [] | Some r \<Rightarrow> r)
     | SingleLineChkdString \<Rightarrow> (case parseChkdStr s of None \<Rightarrow> [] | Some r \<Rightarrow> r))"

definition fromRaw :: "StringType \<Rightarrow> string \<Rightarrow> string" where
  "fromRaw t r =
    (case t of
       RawString \<Rightarrow> r
     | EscString \<Rightarrow> makeEscStr r (length r)
     | ChkdString \<Rightarrow> makeChkdStr r (length r) False
     | SingleLineChkdString \<Rightarrow> MakeOneLineChkdStr r (length r))"

definition convertStr :: "StringType \<Rightarrow> StringType \<Rightarrow> string \<Rightarrow> string" where
  "convertStr tIn tOut inString = (if tIn = tOut then inString else fromRaw tOut (toRaw tIn inString))"

section \<open>What a printed chunk means to a parser\<close>

text \<open>
  \<open>chunk raw i\<close> is what the printer's loop appends at index \<open>i\<close>; \<open>parse s i out\<close> is the
  parser's loop. The one law a printer and a parser need to agree on: at the start of a
  chunk, whatever surrounds it, the parser pushes the raw character and moves past the chunk.
\<close>

locale escape_codec =
  fixes parse :: "string \<Rightarrow> nat \<Rightarrow> string \<Rightarrow> string option"
    and chunk :: "string \<Rightarrow> nat \<Rightarrow> string"
    and printable :: "char \<Rightarrow> bool"
  assumes parse_end: "parse s (length s) out = Some out"
    and parse_chunk:
      "i < length raw \<Longrightarrow> printable (raw ! i) \<Longrightarrow>
       parse (pre @ chunk raw i @ post) (length pre) out =
       parse (pre @ chunk raw i @ post) (length pre + length (chunk raw i)) (out @ [raw ! i])"
begin

lemma parse_chunks:
  assumes "\<And>i. i < n \<Longrightarrow> printable (raw ! i)" "n \<le> length raw"
  shows "parse (concat (map (chunk raw) [0..<n]) @ post) 0 [] =
    parse (concat (map (chunk raw) [0..<n]) @ post) (length (concat (map (chunk raw) [0..<n])))
      (take n raw)"
  using assms
proof (induction n arbitrary: post)
  case 0
  then show ?case by simp
next
  case (Suc n)
  let ?pre = "concat (map (chunk raw) [0..<n])"
  have split: "concat (map (chunk raw) [0..<Suc n]) = ?pre @ chunk raw n"
    by simp
  have "parse (?pre @ chunk raw n @ post) 0 [] =
    parse (?pre @ chunk raw n @ post) (length ?pre) (take n raw)"
    using Suc.IH [of "chunk raw n @ post"] Suc.prems by simp
  also have "\<dots> = parse (?pre @ chunk raw n @ post) (length ?pre + length (chunk raw n))
      (take n raw @ [raw ! n])"
    using Suc.prems by (intro parse_chunk) simp_all
  also have "take n raw @ [raw ! n] = take (Suc n) raw"
    using Suc.prems by (simp add: take_Suc_conv_app_nth)
  finally show ?case unfolding split by (simp del: upt_Suc)
qed

lemma roundtrip:
  assumes "\<forall>c\<in>set raw. printable c"
  shows "parse (concat (map (chunk raw) [0..<length raw])) 0 [] = Some raw"
  using parse_chunks [of "length raw" raw "[]"] assms parse_end by simp

end

section \<open>The printed chunks\<close>

lemma str_at_append [simp]:
  "str_at (pre @ t) (length pre) = str_at t 0"
  "str_at (pre @ t) (Suc (length pre)) = str_at t 1"
  "str_at (pre @ t) (length pre + k) = str_at t k"
  by (simp_all add: str_at_def nth_append)

lemma str_at_Cons [simp]:
  "str_at (c # t) 0 = c"
  "str_at (c # t) (Suc k) = str_at t k"
  "str_at (c # t) (numeral n) = str_at t (pred_numeral n)"
  by (simp_all add: str_at_def numeral_eq_Suc)

lemma from_ptr_append [simp]:
  "from_ptr (pre @ t) (length pre + k) = from_ptr t k"
  "from_ptr (pre @ t) (Suc (length pre)) = from_ptr t 1"
  by (simp_all add: from_ptr_def)

lemma from_ptr_Cons [simp]:
  "from_ptr (c # t) (Suc k) = from_ptr t k"
  "from_ptr (c # t) (numeral n) = from_ptr t (pred_numeral n)"
  "c \<noteq> NUL \<Longrightarrow> from_ptr (c # t) 0 = c # from_ptr t 0"
  by (simp_all add: from_ptr_def numeral_eq_Suc)

lemma hexDigits_two: "\<exists>a b. hexDigits c = [a, b]"
  by (simp add: hexDigits_def)

lemma length_hexDigits [simp]: "length (hexDigits c) = 2"
  by (simp add: hexDigits_def)

lemma to_byte_eq_NUL_iff: "to_byte n = NUL \<longleftrightarrow> n mod 256 = 0"
  by (metis byte_NUL byte_eq_iff byte_to_byte)

lemma from_ptr_hexDigits:
  assumes "c < 256"
  shows "from_ptr (hexDigits c @ post) 0 = hexDigits c @ from_ptr post 0"
proof -
  have "c div 16 < 16" using assms by simp
  then show ?thesis
    by (auto simp: hexDigits_def to_byte_eq_NUL_iff)
qed

lemma getTwoCharHexVal_hexDigits:
  assumes "c < 256"
  shows "getTwoCharHexVal (hexDigits c @ post) = Some c"
proof -
  have h: "c div 16 < 16" and l: "c mod 16 < 16" and c: "c = c div 16 * 16 + c mod 16"
    using assms by simp_all
  show ?thesis
    by (cases "c div 16 > 9"; cases "c mod 16 > 9")
      (use h l c in \<open>auto simp: getTwoCharHexVal_def hexDigits_def Let_def\<close>)
qed

text \<open>The two readers of an escape sequence, at the start of a printed chunk.\<close>

lemma getSlashEscCodeChar_hex:
  assumes "s = pre @ BSL # CHR ''x'' # hexDigits c @ post" "c < 256"
  shows "getSlashEscCodeChar s (length s) (length pre) = (True, to_byte c, length pre + 3)"
proof -
  have "from_ptr s (length pre + 2) = hexDigits c @ from_ptr post 0"
    using assms from_ptr_append(1) [of pre "BSL # CHR ''x'' # hexDigits c @ post" 2]
    by (simp add: from_ptr_hexDigits del: add_2_eq_Suc')
  moreover have "str_at s (length pre) = BSL" "str_at s (length pre + 1) = CHR ''x''"
    "length s = length pre + 4 + length post"
    using assms(1) by simp_all
  ultimately show ?thesis
    using assms(2) by (simp add: getSlashEscCodeChar_def getTwoCharHexVal_hexDigits)
qed

lemma getSlashEscCodeChar_simple:
  assumes "s = pre @ BSL # d # post" "d \<noteq> CHR ''x''" "d \<noteq> CHR ''X''" "\<not> isOctDigit d"
  shows "getSlashEscCodeChar s (length s) (length pre) = (True, slashEscape d, length pre + 1)"
proof -
  have "str_at s (length pre) = BSL" "str_at s (length pre + 1) = d"
    "length s = length pre + 2 + length post"
    using assms(1) by simp_all
  moreover have "\<not> (48 \<le> byte d \<and> byte d \<le> 55)" using assms(4) by (simp add: isOctDigit_def)
  ultimately show ?thesis
    using assms(2,3) by (auto simp: getSlashEscCodeChar_def Let_def)
qed

lemma getChkdEscCodeChar_hex:
  assumes "s = pre @ LESS # hexDigits c @ GREATER # post" "c < 256"
  shows "getChkdEscCodeChar s (length s) (length pre) = (True, to_byte c, length pre + 3)"
proof -
  obtain a b where ab: "hexDigits c = [a, b]" using hexDigits_two by blast
  have "from_ptr s (length pre + 1) = hexDigits c @ from_ptr (GREATER # post) 0"
    using assms by (simp add: from_ptr_hexDigits)
  moreover have "str_at s (length pre) = LESS" "str_at s (length pre + 3) = GREATER"
    "length s = length pre + 4 + length post"
    using assms(1) ab by simp_all
  ultimately show ?thesis
    using assms(2) by (simp add: getChkdEscCodeChar_def getTwoCharHexVal_hexDigits)
qed

text \<open>One pass of each parser at a chunk.\<close>

lemma parseEscStr_loop_steps:
  "c \<noteq> NUL \<Longrightarrow> s = pre @ BSL # CHR ''x'' # hexDigits (byte c) @ post \<Longrightarrow>
    parseEscStr_loop s (length pre) out = parseEscStr_loop s (length pre + 4) (out @ [c])"
  "s = pre @ BSL # d # post \<Longrightarrow> d \<noteq> CHR ''x'' \<Longrightarrow> d \<noteq> CHR ''X'' \<Longrightarrow> \<not> isOctDigit d \<Longrightarrow>
    slashEscape d \<noteq> NUL \<Longrightarrow>
    parseEscStr_loop s (length pre) out = parseEscStr_loop s (length pre + 2) (out @ [slashEscape d])"
  "s = pre @ c # post \<Longrightarrow> c \<noteq> NUL \<Longrightarrow> c \<noteq> BSL \<Longrightarrow>
    parseEscStr_loop s (length pre) out = parseEscStr_loop s (length pre + 1) (out @ [c])"
proof goal_cases
  case 1
  then show ?case
    using getSlashEscCodeChar_hex [OF 1(2)] by (subst parseEscStr_loop.simps) (simp add: add.commute)
next
  case 2
  then show ?case
    using getSlashEscCodeChar_simple [OF 2(1-4)] by (subst parseEscStr_loop.simps) simp
next
  case 3
  then show ?case
    by (subst parseEscStr_loop.simps) (simp split: prod.split)
qed

lemma parseEscBytes_loop_steps:
  "s = pre @ BSL # CHR ''x'' # hexDigits (byte c) @ post \<Longrightarrow>
    parseEscBytes_loop s (length pre) out = parseEscBytes_loop s (length pre + 4) (out @ [c])"
  "s = pre @ BSL # d # post \<Longrightarrow> d \<noteq> CHR ''x'' \<Longrightarrow> d \<noteq> CHR ''X'' \<Longrightarrow> \<not> isOctDigit d \<Longrightarrow>
    parseEscBytes_loop s (length pre) out =
    parseEscBytes_loop s (length pre + 2) (out @ [slashEscape d])"
  "s = pre @ c # post \<Longrightarrow> c \<noteq> BSL \<Longrightarrow>
    parseEscBytes_loop s (length pre) out = parseEscBytes_loop s (length pre + 1) (out @ [c])"
proof goal_cases
  case 1
  then show ?case
    using getSlashEscCodeChar_hex [OF 1] by (subst parseEscBytes_loop.simps) (simp add: add.commute)
next
  case 2
  then show ?case
    using getSlashEscCodeChar_simple [OF 2(1-4)] by (subst parseEscBytes_loop.simps) simp
next
  case 3
  then show ?case
    by (subst parseEscBytes_loop.simps) (simp split: prod.split)
qed

lemma parseChkdStr_loop_steps:
  "c \<noteq> NUL \<Longrightarrow> s = pre @ LESS # hexDigits (byte c) @ GREATER # post \<Longrightarrow>
    parseChkdStr_loop s (length pre) out = parseChkdStr_loop s (length pre + 4) (out @ [c])"
  "s = pre @ BSL # d # post \<Longrightarrow> d \<noteq> CHR ''x'' \<Longrightarrow> d \<noteq> CHR ''X'' \<Longrightarrow> \<not> isOctDigit d \<Longrightarrow>
    slashEscape d \<noteq> NUL \<Longrightarrow>
    parseChkdStr_loop s (length pre) out = parseChkdStr_loop s (length pre + 2) (out @ [slashEscape d])"
  "s = pre @ c # post \<Longrightarrow> c \<noteq> NUL \<Longrightarrow> c \<noteq> BSL \<Longrightarrow> c \<noteq> LESS \<Longrightarrow>
    parseChkdStr_loop s (length pre) out = parseChkdStr_loop s (length pre + 1) (out @ [c])"
proof goal_cases
  case 1
  then show ?case
    using getChkdEscCodeChar_hex [OF 1(2)]
    by (subst parseChkdStr_loop.simps) (simp add: add.commute split: prod.split)
next
  case 2
  then show ?case
    using getSlashEscCodeChar_simple [OF 2(1-4)]
    by (subst parseChkdStr_loop.simps) (simp split: prod.split)
next
  case 3
  then show ?case
    by (subst parseChkdStr_loop.simps) (simp split: prod.split)
qed

text \<open>The letters the printers put after a backslash are neither hexadecimal nor octal.\<close>

lemma simple_escapes:
  "\<not> isOctDigit (CHR ''n'')" "\<not> isOctDigit (CHR ''r'')" "\<not> isOctDigit (CHR ''t'')"
  "\<not> isOctDigit QUOTE" "\<not> isOctDigit BSL" "\<not> isOctDigit LESS"
  "slashEscape (CHR ''n'') = LF" "slashEscape (CHR ''r'') = CR" "slashEscape (CHR ''t'') = TAB"
  "slashEscape QUOTE = QUOTE" "slashEscape BSL = BSL" "slashEscape LESS = LESS"
  by (simp_all add: isOctDigit_def byte_def slashEscape_def)

lemma str_at_nth: "i < length s \<Longrightarrow> str_at s i = s ! i"
  by (simp add: str_at_def)

interpretation esc: escape_codec parseEscStr_loop makeEscStr_step "\<lambda>c. c \<noteq> NUL"
proof unfold_locales
  show "parseEscStr_loop s (length s) out = Some out" for s out
    by (simp add: parseEscStr_loop.simps)
  show "parseEscStr_loop (pre @ makeEscStr_step raw i @ post) (length pre) out =
      parseEscStr_loop (pre @ makeEscStr_step raw i @ post)
        (length pre + length (makeEscStr_step raw i)) (out @ [raw ! i])"
    if "i < length raw" "raw ! i \<noteq> NUL" for i raw pre post out
    using that
    by (simp add: makeEscStr_step_def Let_def str_at_nth parseEscStr_loop_steps(1) [OF _ refl]
        parseEscStr_loop_steps(2,3) [OF refl] simple_escapes)
qed

interpretation esc_bytes: escape_codec parseEscBytes_loop makeEscStr_step "\<lambda>c. True"
proof unfold_locales
  show "parseEscBytes_loop s (length s) out = Some out" for s out
    by (simp add: parseEscBytes_loop.simps)
  show "parseEscBytes_loop (pre @ makeEscStr_step raw i @ post) (length pre) out =
      parseEscBytes_loop (pre @ makeEscStr_step raw i @ post)
        (length pre + length (makeEscStr_step raw i)) (out @ [raw ! i])"
    if "i < length raw" for i raw pre post out
    using that
    by (simp add: makeEscStr_step_def Let_def str_at_nth parseEscBytes_loop_steps [OF refl]
        simple_escapes)
qed

interpretation chkd: escape_codec parseChkdStr_loop
  "\<lambda>raw. makeChkdStr_step raw (length raw)" "\<lambda>c. c \<noteq> NUL"
proof unfold_locales
  show "parseChkdStr_loop s (length s) out = Some out" for s out
    by (simp add: parseChkdStr_loop.simps)
  show "parseChkdStr_loop (pre @ makeChkdStr_step raw (length raw) i @ post) (length pre) out =
      parseChkdStr_loop (pre @ makeChkdStr_step raw (length raw) i @ post)
        (length pre + length (makeChkdStr_step raw (length raw) i)) (out @ [raw ! i])"
    if "i < length raw" "raw ! i \<noteq> NUL" for i raw pre post out
    using that
    by (simp add: makeChkdStr_step_def Let_def str_at_nth parseChkdStr_loop_steps(1) [OF _ refl]
        parseChkdStr_loop_steps(2,3) [OF refl] simple_escapes)
qed

interpretation one_line: escape_codec parseChkdStr_loop
  "\<lambda>raw. MakeOneLineChkdStr_step raw (length raw)" "\<lambda>c. c \<noteq> NUL"
proof unfold_locales
  show "parseChkdStr_loop s (length s) out = Some out" for s out
    by (simp add: parseChkdStr_loop.simps)
  show "parseChkdStr_loop (pre @ MakeOneLineChkdStr_step raw (length raw) i @ post) (length pre) out =
      parseChkdStr_loop (pre @ MakeOneLineChkdStr_step raw (length raw) i @ post)
        (length pre + length (MakeOneLineChkdStr_step raw (length raw) i)) (out @ [raw ! i])"
    if "i < length raw" "raw ! i \<noteq> NUL" for i raw pre post out
    using that
    by (simp add: MakeOneLineChkdStr_step_def Let_def str_at_nth parseChkdStr_loop_steps(1) [OF _ refl]
        parseChkdStr_loop_steps(2,3) [OF refl] simple_escapes)
qed

section \<open>Properties of the notations\<close>

lemma parseEscStr_loop_no_NUL:
  "parseEscStr_loop s i out = Some r \<Longrightarrow> NUL \<notin> set out \<Longrightarrow> NUL \<notin> set r"
proof (induction s i out rule: parseEscStr_loop.induct)
  case (1 s i out)
  obtain ok c last where g: "getSlashEscCodeChar s (length s) i = (ok, c, last)"
    by (cases "getSlashEscCodeChar s (length s) i") auto
  note IH = "1.IH" [OF _ g [symmetric] refl]
  show ?case
    using "1.prems" IH unfolding parseEscStr_loop.simps [of s i out] g
    by (simp split: if_split_asm)
qed

lemma parseChkdStr_loop_no_NUL:
  "parseChkdStr_loop s i out = Some r \<Longrightarrow> NUL \<notin> set out \<Longrightarrow> NUL \<notin> set r"
proof (induction s i out rule: parseChkdStr_loop.induct)
  case (1 s i out)
  obtain ok c last where g: "getSlashEscCodeChar s (length s) i = (ok, c, last)"
    by (cases "getSlashEscCodeChar s (length s) i") auto
  obtain ok' c' last' where g': "getChkdEscCodeChar s (length s) i = (ok', c', last')"
    by (cases "getChkdEscCodeChar s (length s) i") auto
  have gg: "(getSlashEscCodeChar s (length s) i, getChkdEscCodeChar s (length s) i) =
      ((ok, c, last), (ok', c', last'))" by (simp add: g g')
  note IH = "1.IH" [OF _ gg [symmetric] refl refl refl refl]
  show ?case
    using "1.prems" IH unfolding parseChkdStr_loop.simps [of s i out] gg
    by (simp split: if_split_asm)
qed

lemma toRaw_no_NUL: "(t = RawString \<longrightarrow> NUL \<notin> set s) \<Longrightarrow> NUL \<notin> set (toRaw t s)"
  by (cases t) (auto simp: toRaw_def parseEscStr_def parseChkdStr_def
      dest: parseEscStr_loop_no_NUL [OF sym] parseChkdStr_loop_no_NUL [OF sym]
      split: option.splits)

lemma makeEscStr_parse: "NUL \<notin> set r \<Longrightarrow> parseEscStr (makeEscStr r (length r)) = Some r"
  using esc.roundtrip [of r] by (auto simp: parseEscStr_def makeEscStr_def)

lemma makeChkdStr_parse: "NUL \<notin> set r \<Longrightarrow> parseChkdStr (makeChkdStr r (length r) oneLine) = Some r"
  using chkd.roundtrip [of r] one_line.roundtrip [of r]
  by (auto simp: parseChkdStr_def makeChkdStr_def MakeOneLineChkdStr_def)

lemma toRaw_fromRaw: "NUL \<notin> set r \<Longrightarrow> toRaw t (fromRaw t r) = r"
  using makeChkdStr_parse [of r True] makeChkdStr_parse [of r False]
  by (cases t) (simp_all add: toRaw_def fromRaw_def makeEscStr_parse makeChkdStr_def)

text \<open>
  C23. Converting a string between any two of the four notations keeps the raw string it
  denotes: reading the converted string back gives exactly what the original stood for. The
  only hypothesis is the one \<open>RawString\<close> documents, that a raw string holds no NUL.
\<close>

theorem convertStr_preserves_raw:
  assumes "tIn = RawString \<longrightarrow> NUL \<notin> set s"
  shows "toRaw tOut (convertStr tIn tOut s) = toRaw tIn s"
  using toRaw_fromRaw [OF toRaw_no_NUL [OF assms]] by (simp add: convertStr_def)

theorem convertStr_preserves_raw_witness:
  "NUL \<notin> set [BSL, LF, LESS] \<and>
   toRaw ChkdString (convertStr RawString ChkdString [BSL, LF, LESS]) = [BSL, LF, LESS]"
proof -
  have "RawString = RawString \<longrightarrow> NUL \<notin> set [BSL, LF, LESS]" by simp
  then have "toRaw ChkdString (convertStr RawString ChkdString [BSL, LF, LESS])
      = toRaw RawString [BSL, LF, LESS]"
    by (rule convertStr_preserves_raw)
  then show ?thesis by (simp add: toRaw_def)
qed

lemma hexDigits_printable: "c < 256 \<Longrightarrow> x \<in> set (hexDigits c) \<Longrightarrow> \<not> isControlChar x"
proof -
  assume "c < 256" "x \<in> set (hexDigits c)"
  moreover from this have "c div 16 < 16" "c mod 16 < 16" by simp_all
  ultimately show ?thesis
    by (auto simp: hexDigits_def isControlChar_def split: if_splits)
qed

lemma letters_printable:
  "\<not> isControlChar BSL" "\<not> isControlChar LESS" "\<not> isControlChar GREATER" "\<not> isControlChar QUOTE"
  "\<not> isControlChar (CHR ''n'')" "\<not> isControlChar (CHR ''r'')" "\<not> isControlChar (CHR ''t'')"
  "\<not> isControlChar (CHR ''x'')"
  by (simp_all add: isControlChar_def byte_def)

lemma hexDigits_byte_printable: "list_all (\<lambda>x. \<not> isControlChar x) (hexDigits (byte c))"
  using hexDigits_printable [of "byte c"] by (auto simp: list_all_iff)

lemma makeEscStr_step_printable: "list_all (\<lambda>x. \<not> isControlChar x) (makeEscStr_step raw i)"
  by (simp add: makeEscStr_step_def Let_def letters_printable hexDigits_byte_printable)

lemma MakeOneLineChkdStr_step_printable:
  "list_all (\<lambda>x. \<not> isControlChar x) (MakeOneLineChkdStr_step raw n i)"
  by (simp add: MakeOneLineChkdStr_step_def Let_def letters_printable hexDigits_byte_printable)

text \<open>
  What \<open>makeEscStr\<close> and the single-line printer give holds no control character (no line
  break in particular), whatever the raw string is, so it is safe on one line of an editor.
\<close>

lemma printed_no_control_chars:
  "c \<in> set (makeEscStr raw n) \<or> c \<in> set (MakeOneLineChkdStr raw n) \<Longrightarrow> \<not> isControlChar c"
  using makeEscStr_step_printable MakeOneLineChkdStr_step_printable
  by (auto simp: makeEscStr_def MakeOneLineChkdStr_def list_all_iff)

lemma printed_no_control_chars_witness:
  "CHR ''r'' \<in> set (makeEscStr [CR] 1) \<and> \<not> isControlChar (CHR ''r'')"
proof -
  have "CHR ''r'' \<in> set (makeEscStr [CR] 1)"
    by (simp add: makeEscStr_def makeEscStr_step_def str_at_def)
  then show ?thesis using printed_no_control_chars [of "CHR ''r''" "[CR]" 1] by simp
qed

text \<open>
  The byte parser of the backslash notation inverts the printer on every byte string,
  NUL bytes included.
\<close>

lemma parseEscBytes_makeEscStr: "parseEscBytes (makeEscStr raw (length raw)) = Some raw"
  using esc_bytes.roundtrip [of raw] by (simp add: parseEscBytes_def makeEscStr_def)

lemma parseChkdBytes_loop_plain:
  assumes "\<forall>j<length s. s ! j \<noteq> BSL \<and> s ! j \<noteq> LESS" "i \<le> length s"
  shows "parseChkdBytes_loop s i e out = Some (out @ replicate (length s - i) e)"
  using assms
proof (induction "length s - i" arbitrary: i out)
  case 0
  then show ?case by (simp add: parseChkdBytes_loop.simps)
next
  case (Suc n)
  then have "i < length s" by simp
  moreover have "length s - i = Suc (length s - Suc i)" using Suc.hyps(2) by simp
  moreover have "parseChkdBytes_loop s (Suc i) e (out @ [e]) =
      Some ((out @ [e]) @ replicate (length s - Suc i) e)"
    using Suc.hyps(2) Suc.prems by (intro Suc.hyps(1)) simp_all
  ultimately show ?case
    using Suc.prems
    by (subst parseChkdBytes_loop.simps) (simp add: str_at_nth split: prod.split)
qed

text \<open>
  \<open>parseChkdBytes\<close> loses plain text: where no escape sequence starts it pushes the
  variable \<open>escapedChar\<close> instead of the character it reads, so a text without escapes gives
  NUL bytes only.
\<close>

lemma parseChkdBytes_loses_text:
  assumes "BSL \<notin> set s" "LESS \<notin> set s"
  shows "parseChkdBytes s = Some (replicate (length s) NUL)"
proof -
  have "\<forall>j<length s. s ! j \<noteq> BSL \<and> s ! j \<noteq> LESS" using assms by (metis nth_mem)
  then show ?thesis using parseChkdBytes_loop_plain [of s 0 NUL "[]"] by (simp add: parseChkdBytes_def)
qed

lemma parseChkdBytes_loses_text_witness:
  "BSL \<notin> set ''Hi'' \<and> LESS \<notin> set ''Hi'' \<and> parseChkdBytes ''Hi'' = Some [NUL, NUL]"
  using parseChkdBytes_loses_text [of "''Hi''"] by (simp add: numeral_2_eq_2)

end
