(* ===== verification/ScStr.thy ===== *)
theory ScStr
  imports EscapeStrings
begin

text \<open>
  The string objects of \<open>src/MappingCoreLib/Sections.cpp\<close>: \<open>StrProp\<close> (the font of an extended
  string) and \<open>ScStr\<close>, a NUL-terminated allocation. The parent and child links of \<open>ScStr\<close> are
  made only by \<open>StrSection::resolveParantage\<close>, a private member no code calls; every \<open>ScStr\<close> a
  section holds is therefore a root string, and the model has no links.
\<close>

section \<open>Font properties\<close>

record StrProp =
  red :: u8
  green :: u8
  blue :: u8
  fontSize :: nat
  isUsed :: bool
  hasPriority :: bool
  isBold :: bool
  isUnderlined :: bool
  isItalics :: bool

definition baseFontSize :: nat where "baseFontSize = 8"
definition fontStepSize :: nat where "fontStepSize = 2"

definition StrProp_default :: StrProp where
  "StrProp_default = \<lparr>red = 0, green = 0, blue = 0, fontSize = baseFontSize, isUsed = False,
     hasPriority = False, isBold = False, isUnderlined = False, isItalics = False\<rparr>"

section \<open>Strings\<close>

record ScStr =
  allocation :: string
  strProp :: StrProp

definition terminated :: "string \<Rightarrow> string" where
  "terminated str = (if length str = 0 \<or> last str \<noteq> NUL then str @ [NUL] else str)"

definition ScStr_new :: "string \<Rightarrow> ScStr" where
  "ScStr_new str = \<lparr>allocation = terminated str, strProp = StrProp_default\<rparr>"

definition ScStr_new_prop :: "string \<Rightarrow> StrProp \<Rightarrow> ScStr" where
  "ScStr_new_prop str prop = \<lparr>allocation = terminated str, strProp = prop\<rparr>"

definition ScStr_empty :: "ScStr \<Rightarrow> bool" where
  "ScStr_empty s \<longleftrightarrow> length (allocation s) \<le> 1"

definition ScStr_length :: "ScStr \<Rightarrow> nat" where
  "ScStr_length s = (if length (allocation s) > 0 then length (allocation s) - 1 else 0)"

text \<open>The characters a \<open>const char*\<close> to the allocation reaches.\<close>

definition c_str :: "string \<Rightarrow> string" where
  "c_str s = takeWhile (\<lambda>c. c \<noteq> NUL) s"

text \<open>\<open>compare<StringType>(str) == 0\<close>: \<open>strcmp\<close> with the raw form of the argument.\<close>

definition ScStr_equals :: "StringType \<Rightarrow> ScStr \<Rightarrow> string \<Rightarrow> bool" where
  "ScStr_equals t s str \<longleftrightarrow> c_str (allocation s) = c_str (convertStr t RawString str)"

definition ScStr_toString :: "StringType \<Rightarrow> ScStr \<Rightarrow> string" where
  "ScStr_toString t s = convertStr RawString t (c_str (allocation s))"

section \<open>Well-formed strings\<close>

text \<open>
  A string object is well formed when its allocation is some NUL-free text and a terminator:
  what every constructor call on a raw string gives.
\<close>

definition wf_ScStr :: "ScStr \<Rightarrow> bool" where
  "wf_ScStr s \<longleftrightarrow> allocation s = c_str (allocation s) @ [NUL]"

lemma c_str_no_NUL [simp]: "NUL \<notin> set (c_str s)"
  by (auto simp: c_str_def dest: set_takeWhileD)

lemma c_str_id [simp]: "NUL \<notin> set s \<Longrightarrow> c_str s = s"
  by (auto simp: c_str_def takeWhile_eq_all_conv)

lemma c_str_append: "NUL \<notin> set s \<Longrightarrow> c_str (s @ NUL # t) = s"
  unfolding c_str_def by (subst takeWhile_append2) auto

lemma terminated_no_NUL [simp]: "NUL \<notin> set s \<Longrightarrow> terminated s = s @ [NUL]"
  unfolding terminated_def by (metis last_in_set list.size(3))

lemma c_str_snoc_NUL: "c_str (s @ [NUL]) = c_str s"
  unfolding c_str_def by (induction s) simp_all

lemma c_str_terminated [simp]: "c_str (terminated s) = c_str s"
  by (simp add: terminated_def c_str_snoc_NUL)

lemma wf_ScStr_new [simp]: "NUL \<notin> set s \<Longrightarrow> wf_ScStr (ScStr_new s)"
  by (simp add: wf_ScStr_def ScStr_new_def c_str_append)

lemma wf_ScStr_length: "wf_ScStr s \<Longrightarrow> length (allocation s) = ScStr_length s + 1"
  by (metis ScStr_length_def Suc_eq_plus1 add_diff_cancel_right' length_append_singleton
      wf_ScStr_def zero_less_Suc)

lemma wf_ScStr_c_str_length: "wf_ScStr s \<Longrightarrow> length (c_str (allocation s)) = ScStr_length s"
  by (metis Suc_eq_plus1 add_right_cancel length_append_singleton wf_ScStr_def wf_ScStr_length)

lemma allocation_ScStr_new: "allocation (ScStr_new s) = terminated s"
  by (simp add: ScStr_new_def)

end
