(* ===== verification/StrCodec.thy ===== *)
theory StrCodec
  imports ScStr
begin

text \<open>
  The STR section's two representations in \<open>src/MappingCoreLib/Sections.cpp\<close>: the table of
  string objects and the bytes of the section (a 16-bit count, 16-bit offsets, characters).
  \<open>syncStringsToBytes\<close> writes the table, \<open>syncBytesToStrings\<close> and \<open>loadString\<close> read it. The
  writer is also \<open>Strings::syncStringsToBytes\<close> of \<open>src/MappingCoreLib/Scenario.cpp\<close>, which a
  scenario passes to the section when it saves.
  The abstract specification is \<open>str_layout\<close>: where each string lies and what the bytes are,
  without the loop. The writer is proved to produce it, and the reader to invert it.
\<close>

section \<open>State\<close>

record StrSection =
  strings :: "ScStr option list"
  stringBytes :: string
  bytePaddedTo :: nat
  initialTailDataOffset :: nat
  tailData :: string

definition StrSection_new :: StrSection where
  "StrSection_new = \<lparr>strings = [], stringBytes = [], bytePaddedTo = 4, initialTailDataOffset = 0,
     tailData = []\<rparr>"

section \<open>Writing\<close>

text \<open>One pass of the writer's second loop.\<close>

definition syncStrings_step :: "ScStr option list \<Rightarrow> nat \<Rightarrow> string \<Rightarrow> nat \<Rightarrow> string" where
  "syncStrings_step strs initialNulOffset bytes i =
    (case strs ! i of
       None \<Rightarrow> write_u16 bytes (2 * i) initialNulOffset
     | Some s \<Rightarrow> write_u16 bytes (2 * i) (length bytes) @ take (ScStr_length s + 1) (allocation s))"

definition maxStandardStrings :: nat where
  "maxStandardStrings = (65535 - 2) div 2"

definition stringLengthAt :: "ScStr option list \<Rightarrow> nat \<Rightarrow> nat" where
  "stringLengthAt strs i = (case strs ! i of None \<Rightarrow> 0 | Some s \<Rightarrow> ScStr_length s)"

definition Strings_syncStringsToBytes :: "ScStr option list \<Rightarrow> string result" where
  "Strings_syncStringsToBytes strs =
    (let numStrings = (if length strs > 0 then length strs - 1 else 0);
         sizeAndOffsetSpaceAndNulSpace = 2 + 2 * numStrings + 1;
         sectionSize = sizeAndOffsetSpaceAndNulSpace
           + sum_list (map (stringLengthAt strs) [1..<Suc numStrings])
     in if numStrings > maxStandardStrings then Inl MaximumStringsExceeded
        else if sectionSize > 65535
          then Inl (MaximumCharactersExceeded (sectionSize - sizeAndOffsetSpaceAndNulSpace) 65535)
        else
          let bytes = write_u16 (replicate (2 + 2 * numStrings) NUL) 0 numStrings;
              initialNulOffset = length bytes mod 65536
          in Inr (foldl (syncStrings_step strs initialNulOffset) (bytes @ [NUL]) [1..<Suc numStrings]))"

text \<open>
  \<open>StrSection::syncStringsToBytes\<close>: with a synchronizer the scenario's writer fills
  \<open>stringBytes\<close>, without one the section's own copy of the same code does.
\<close>

definition StrSection_syncStringsToBytes ::
  "(ScStr option list \<Rightarrow> string result) option \<Rightarrow> StrSection \<Rightarrow> StrSection result" where
  "StrSection_syncStringsToBytes strSynchronizer sec =
    bind_result (case strSynchronizer of
        Some sync \<Rightarrow> sync (strings sec)
      | None \<Rightarrow> Strings_syncStringsToBytes (strings sec))
      (\<lambda>bytes. Inr (sec\<lparr>stringBytes := bytes\<rparr>))"

section \<open>Reading\<close>

definition loadString :: "string \<Rightarrow> nat \<Rightarrow> nat \<Rightarrow> ScStr option \<times> nat" where
  "loadString bytes stringOffset sectionSize =
    (if stringOffset < sectionSize then
       (case find_index (\<lambda>i. bytes ! i = NUL) stringOffset (length bytes) of
          Some nullIndex \<Rightarrow>
            if nullIndex \<ge> stringOffset
            then (Some (ScStr_new (c_str (drop stringOffset bytes))), nullIndex)
            else (Some (ScStr_new (take (sectionSize - stringOffset) (drop stringOffset bytes))),
                  sectionSize - 1)
        | None \<Rightarrow>
            if sectionSize > stringOffset
            then (Some (ScStr_new (take (sectionSize - stringOffset) (drop stringOffset bytes))),
                  sectionSize - 1)
            else (None, 0))
     else (None, 0))"

definition rawNumStrings :: "string \<Rightarrow> nat" where
  "rawNumStrings bytes =
    (if length bytes \<ge> 2 then read_u16 bytes 0 else if length bytes = 1 then byte (bytes ! 0) else 0)"

definition highestStringWithValidOffset :: "string \<Rightarrow> nat" where
  "highestStringWithValidOffset bytes =
    min (rawNumStrings bytes) (if length bytes < 4 then 0 else length bytes div 2 - 1)"

text \<open>
  The strings the reader pushes: those whose offset lies in the section (with the index of
  their last character), then one whose offset has only its low byte there, then nothing.
\<close>

definition loadedStrings :: "string \<Rightarrow> (ScStr option \<times> nat) list" where
  "loadedStrings bytes =
    map (\<lambda>stringId. loadString bytes (read_u16 bytes (2 * stringId)) (length bytes))
      [1..<Suc (highestStringWithValidOffset bytes)]"

definition trailingStrings :: "string \<Rightarrow> ScStr option list" where
  "trailingStrings bytes =
    (let high = highestStringWithValidOffset bytes; raw = rawNumStrings bytes; n = length bytes in
     if high < raw then
       if n mod 2 > 0
       then fst (loadString bytes (byte (bytes ! (n - 1))) n) # replicate (raw - high - 1) None
       else replicate (raw - high) None
     else [])"

definition regularStrSectionEnd :: "string \<Rightarrow> nat" where
  "regularStrSectionEnd bytes =
    max (2 + 2 * rawNumStrings bytes) (foldl max 0 (map snd (loadedStrings bytes)) + 1)"

definition syncBytesToStrings :: "StrSection \<Rightarrow> StrSection" where
  "syncBytesToStrings sec =
    (let bytes = stringBytes sec; sectionEnd = regularStrSectionEnd bytes;
         newStrings = None # map fst (loadedStrings bytes) @ trailingStrings bytes
     in if sectionEnd < length bytes
        then sec\<lparr>strings := newStrings, bytePaddedTo := 0, initialTailDataOffset := sectionEnd,
                 tailData := drop sectionEnd bytes, stringBytes := take sectionEnd bytes\<rparr>
        else sec\<lparr>strings := newStrings, bytePaddedTo := 4, initialTailDataOffset := 0,
                 tailData := []\<rparr>)"

section \<open>The layout, abstractly\<close>

text \<open>What string \<open>i\<close> contributes to the character data, and where its characters start.\<close>

definition str_chars :: "ScStr option \<Rightarrow> string" where
  "str_chars s = (case s of None \<Rightarrow> [] | Some s \<Rightarrow> allocation s)"

definition str_start :: "ScStr option list \<Rightarrow> nat \<Rightarrow> nat" where
  "str_start strs i =
    (if strs ! i = None then 2 * length strs
     else 2 * length strs + 1 + length (concat (map str_chars (take (i - 1) (tl strs)))))"

definition str_data :: "ScStr option list \<Rightarrow> string" where
  "str_data strs = NUL # concat (map str_chars (tl strs))"

text \<open>
  A table the writer can represent: a slot 0 and well-formed strings, whose offsets all fit
  16 bits. The last string may run past byte 65535.
\<close>

definition wf_table :: "ScStr option list \<Rightarrow> bool" where
  "wf_table strs \<longleftrightarrow> strs \<noteq> [] \<and> list_all (\<lambda>s. case s of None \<Rightarrow> True | Some s \<Rightarrow> wf_ScStr s) strs"

definition offsets_fit :: "ScStr option list \<Rightarrow> bool" where
  "offsets_fit strs \<longleftrightarrow> list_all (\<lambda>i. str_start strs i < 65536) [1..<length strs]"

section \<open>The writer produces the layout\<close>

lemma wf_table_nth: "wf_table strs \<Longrightarrow> i < length strs \<Longrightarrow> strs ! i = Some s \<Longrightarrow> wf_ScStr s"
  unfolding wf_table_def list_all_length by (metis option.simps(5))

lemma wf_allocation: "wf_ScStr s \<Longrightarrow> take (ScStr_length s + 1) (allocation s) = allocation s"
  using wf_ScStr_length [of s] by simp

lemma nth_tl_table: "Suc i < length strs \<Longrightarrow> tl strs ! i = strs ! Suc i"
  by (simp add: nth_tl)

lemma take_Suc_tl: "Suc k < length strs \<Longrightarrow> take (Suc k) (tl strs) = take k (tl strs) @ [strs ! Suc k]"
  by (simp add: take_Suc_conv_app_nth nth_tl)

definition header_ok :: "ScStr option list \<Rightarrow> nat \<Rightarrow> string \<Rightarrow> bool" where
  "header_ok strs k hdr \<longleftrightarrow> length hdr = 2 * length strs \<and> read_u16 hdr 0 = (length strs - 1) mod 65536 \<and>
    (\<forall>j. 1 \<le> j \<and> j \<le> k \<longrightarrow> read_u16 hdr (2 * j) = str_start strs j mod 65536)"

lemma header_ok_write:
  assumes "header_ok strs k hdr" "Suc k < length strs" "v mod 65536 = str_start strs (Suc k) mod 65536"
  shows "header_ok strs (Suc k) (write_u16 hdr (2 * Suc k) v)"
proof -
  let ?hdr = "write_u16 hdr (2 * Suc k) v"
  have len: "length hdr = 2 * length strs" using assms(1) by (simp add: header_ok_def)
  have "read_u16 ?hdr (2 * Suc k) = v mod 65536"
    using len assms(2) by (intro read_write_u16) simp
  moreover have "read_u16 ?hdr (2 * j) = read_u16 hdr (2 * j)" if "j \<le> k" for j
    using that by (intro read_write_u16_other) simp
  moreover from this [of 0] have "read_u16 ?hdr 0 = read_u16 hdr 0" by simp
  ultimately show ?thesis
    using assms len unfolding header_ok_def by (auto simp: le_Suc_eq)
qed

lemma syncStrings_fold:
  assumes "wf_table strs" "length h0 = 2 * length strs" "read_u16 h0 0 = (length strs - 1) mod 65536"
    and "k < length strs"
  shows "\<exists>hdr. header_ok strs k hdr \<and>
    foldl (syncStrings_step strs (2 * length strs mod 65536)) (h0 @ [NUL]) [1..<Suc k]
      = hdr @ NUL # concat (map str_chars (take k (tl strs)))"
  using assms(4)
proof (induction k)
  case 0
  then show ?case using assms by (auto simp: header_ok_def)
next
  case (Suc k)
  let ?f = "syncStrings_step strs (2 * length strs mod 65536)"
  let ?data = "NUL # concat (map str_chars (take k (tl strs)))"
  obtain hdr where hdr: "header_ok strs k hdr"
    and fold: "foldl ?f (h0 @ [NUL]) [1..<Suc k] = hdr @ ?data"
    using Suc by auto
  have len: "length hdr = 2 * length strs" using hdr by (simp add: header_ok_def)
  have "Suc (2 * Suc k) < length hdr" using Suc.prems len by simp
  then have wr: "write_u16 (hdr @ ?data) (2 * Suc k) v = write_u16 hdr (2 * Suc k) v @ ?data" for v
    by (rule write_u16_append)
  have step: "foldl ?f (h0 @ [NUL]) [1..<Suc (Suc k)] = ?f (hdr @ ?data) (Suc k)"
    using fold by simp
  show ?case
  proof (cases "strs ! Suc k")
    case None
    let ?hdr = "write_u16 hdr (2 * Suc k) (2 * length strs mod 65536)"
    have "header_ok strs (Suc k) ?hdr"
      using hdr Suc.prems None by (intro header_ok_write) (simp_all add: str_start_def)
    moreover have "?f (hdr @ ?data) (Suc k) = ?hdr @ NUL # concat (map str_chars (take (Suc k) (tl strs)))"
      using wr None Suc.prems by (simp add: syncStrings_step_def take_Suc_tl str_chars_def)
    ultimately show ?thesis unfolding step by blast
  next
    case (Some s)
    let ?hdr = "write_u16 hdr (2 * Suc k) (length (hdr @ ?data))"
    have "length (hdr @ ?data) = str_start strs (Suc k)"
      using len Some by (simp add: str_start_def)
    then have "header_ok strs (Suc k) ?hdr"
      using hdr Suc.prems by (intro header_ok_write) simp_all
    moreover have "wf_ScStr s" using wf_table_nth [OF assms(1) Suc.prems Some] .
    then have "?f (hdr @ ?data) (Suc k) = ?hdr @ NUL # concat (map str_chars (take (Suc k) (tl strs)))"
      using wr Some Suc.prems
      by (simp add: syncStrings_step_def take_Suc_tl str_chars_def wf_allocation [simplified])
    ultimately show ?thesis unfolding step by blast
  qed
qed

lemma syncStringsToBytes_layout:
  assumes "wf_table strs" "Strings_syncStringsToBytes strs = Inr bytes"
  shows "\<exists>hdr. bytes = hdr @ str_data strs \<and> header_ok strs (length strs - 1) hdr \<and> length strs \<le> 32767"
proof -
  define n where "n = length strs - 1"
  have ne: "length strs = Suc n" using assms(1) by (cases strs) (auto simp: wf_table_def n_def)
  let ?h0 = "write_u16 (replicate (2 + 2 * n) NUL) 0 n"
  have h0: "length ?h0 = 2 * length strs" "read_u16 ?h0 0 = (length strs - 1) mod 65536"
  proof -
    show "length ?h0 = 2 * length strs" using ne by simp
    have "read_u16 ?h0 0 = n mod 65536" by (rule read_write_u16) simp
    then show "read_u16 ?h0 0 = (length strs - 1) mod 65536" unfolding n_def .
  qed
  have num: "(if length strs > 0 then length strs - 1 else 0) = n" using ne by simp
  have n: "n \<le> maxStandardStrings" and
    b: "bytes = foldl (syncStrings_step strs (length ?h0 mod 65536)) (?h0 @ [NUL]) [1..<Suc n]"
    using assms(2) unfolding Strings_syncStringsToBytes_def num Let_def
    by (simp_all only: split: if_split_asm) auto
  obtain hdr where "header_ok strs n hdr"
    "bytes = hdr @ NUL # concat (map str_chars (take n (tl strs)))"
    using syncStrings_fold [OF assms(1) h0, of n] b ne unfolding h0(1) by auto
  moreover have "take n (tl strs) = tl strs" using ne by simp
  moreover have "length strs \<le> 32767" using n ne by (simp add: maxStandardStrings_def)
  ultimately show ?thesis unfolding n_def str_data_def by auto
qed

section \<open>The reader inverts the layout\<close>

lemma find_NUL:
  assumes "NUL \<notin> set c" "drop off bytes = c @ NUL # rest" "off < length bytes"
  shows "find_index (\<lambda>i. bytes ! i = NUL) off (length bytes) = Some (off + length c)"
proof -
  have at: "bytes ! (off + j) = (c @ NUL # rest) ! j" for j
    using assms by (metis less_imp_le nth_drop)
  have len: "length bytes = off + length c + 1 + length rest"
    using arg_cong [OF assms(2), of length] assms(3) by simp
  show ?thesis
  proof (cases "find_index (\<lambda>i. bytes ! i = NUL) off (length bytes)")
    case None
    then show ?thesis
      using at [of "length c"] len by (auto simp: find_index_None)
  next
    case (Some i)
    then have i: "off \<le> i" "i < length bytes" "bytes ! i = NUL" using find_index_Some by blast+
    have "\<not> i < off + length c"
    proof
      assume "i < off + length c"
      then have "i - off < length c" using i by simp
      moreover from this have "c ! (i - off) = NUL"
        using i at [of "i - off"] by (simp add: nth_append)
      ultimately have "c ! (i - off) = NUL" "i - off < length c" by simp_all
      then show False using assms(1) nth_mem by metis
    qed
    moreover have "\<not> off + length c < i"
      using find_index_least [OF Some, of "off + length c"] at [of "length c"] by auto
    ultimately show ?thesis using Some by simp
  qed
qed

lemma loadString_at:
  assumes "NUL \<notin> set c" "drop off bytes = c @ NUL # rest" "off < length bytes"
  shows "loadString bytes off (length bytes) = (Some (ScStr_new c), off + length c)"
  using assms by (simp add: loadString_def find_NUL c_str_append)

text \<open>The text of a slot, and what the reader puts there.\<close>

definition str_text :: "ScStr option \<Rightarrow> string" where
  "str_text s = (case s of None \<Rightarrow> [] | Some s \<Rightarrow> c_str (allocation s))"

lemma str_text_no_NUL [simp]: "NUL \<notin> set (str_text s)"
  by (simp add: str_text_def split: option.split)

lemma layout_drop:
  assumes "wf_table strs" "length hdr = 2 * length strs" "1 \<le> i" "i < length strs"
  shows "\<exists>rest. drop (str_start strs i) (hdr @ str_data strs) = str_text (strs ! i) @ NUL # rest"
proof (cases "strs ! i")
  case None
  then show ?thesis using assms by (simp add: str_start_def str_text_def str_data_def)
next
  case (Some s)
  let ?pre = "take (i - 1) (tl strs)"
  have "tl strs ! (i - 1) = strs ! i" "i - 1 < length (tl strs)"
    using assms by (simp_all add: nth_tl)
  then have "tl strs = ?pre @ Some s # drop i (tl strs)"
    using id_take_nth_drop [of "i - 1" "tl strs"] Some assms by simp
  then have "concat (map str_chars (tl strs)) =
      concat (map str_chars ?pre) @ allocation s @ concat (map str_chars (drop i (tl strs)))"
    by (metis concat.simps(2) concat_append list.simps(9) map_append option.simps(5) str_chars_def)
  moreover have "allocation s = str_text (Some s) @ [NUL]"
    using wf_table_nth [OF assms(1,4) Some] by (simp add: str_text_def wf_ScStr_def)
  ultimately show ?thesis using Some assms(2) by (simp add: str_start_def str_data_def)
qed

text \<open>Loading string \<open>i\<close> of a laid-out table, with anything behind the character data.\<close>

lemma layout_load:
  assumes "wf_table strs" "length hdr = 2 * length strs" "1 \<le> i" "i < length strs"
    and "bytes = hdr @ str_data strs @ extra"
  shows "loadString bytes (str_start strs i) (length bytes)
    = (Some (ScStr_new (str_text (strs ! i))), str_start strs i + length (str_text (strs ! i)))"
    and "str_start strs i + length (str_text (strs ! i)) < length (hdr @ str_data strs)"
proof -
  let ?off = "str_start strs i"
  obtain rest where rest: "drop ?off (hdr @ str_data strs) = str_text (strs ! i) @ NUL # rest"
    using layout_drop [OF assms(1-4)] by blast
  then have off: "?off < length (hdr @ str_data strs)"
    by (metis append_is_Nil_conv drop_eq_Nil list.distinct(1) not_le_imp_less)
  have "drop ?off bytes = drop ?off (hdr @ str_data strs) @ extra"
    using off unfolding assms(5) append_assoc [symmetric] by (subst drop_append) simp
  then have "drop ?off bytes = str_text (strs ! i) @ NUL # rest @ extra" using rest by simp
  moreover have "?off < length bytes" using off assms(5) by simp
  ultimately show "loadString bytes ?off (length bytes)
      = (Some (ScStr_new (str_text (strs ! i))), ?off + length (str_text (strs ! i)))"
    by (intro loadString_at) simp_all
  show "?off + length (str_text (strs ! i)) < length (hdr @ str_data strs)"
    using arg_cong [OF rest, of length] off by simp
qed

lemma layout_last:
  assumes "wf_table strs" "1 < length strs"
  shows "\<exists>i. 1 \<le> i \<and> i < length strs \<and>
    str_start strs i + length (str_text (strs ! i)) + 1 = 2 * length strs + length (str_data strs)"
proof (cases "\<exists>x\<in>set (tl strs). x \<noteq> None")
  case False
  then have "concat (map str_chars (tl strs)) = []" by (auto simp: str_chars_def)
  moreover have "strs ! 1 = None" using False assms by (metis One_nat_def length_tl nth_mem nth_tl zero_less_diff)
  ultimately show ?thesis using assms by (intro exI [of _ 1]) (simp add: str_start_def str_text_def str_data_def)
next
  case True
  then obtain ys x zs where split: "tl strs = ys @ x # zs" "x \<noteq> None" "\<forall>z\<in>set zs. \<not> z \<noteq> None"
    using split_list_last_prop [of "tl strs" "\<lambda>x. x \<noteq> None"] by blast
  then obtain s where s: "x = Some s" by auto
  let ?i = "Suc (length ys)"
  have i: "?i < length strs" using arg_cong [OF split(1), of length] by simp
  have at: "strs ! ?i = Some s" using split(1) s nth_tl [of "length ys" strs] i by simp
  have "concat (map str_chars zs) = []" using split(3) by (auto simp: str_chars_def)
  then have "length (str_data strs) = 1 + length (concat (map str_chars ys)) + length (allocation s)"
    using split(1) s by (simp add: str_data_def str_chars_def)
  moreover have "length (allocation s) = length (str_text (Some s)) + 1"
    using wf_table_nth [OF assms(1) i at] wf_ScStr_length wf_ScStr_c_str_length
    by (simp add: str_text_def)
  moreover have "str_start strs ?i = 2 * length strs + 1 + length (concat (map str_chars ys))"
    using at split(1) by (simp add: str_start_def)
  ultimately show ?thesis using i at by (intro exI [of _ ?i]) simp
qed

lemma foldl_max_start: "a \<le> foldl max a xs" for a :: nat
  by (induction xs arbitrary: a) (simp, metis foldl_Cons max.boundedE)

lemma foldl_max_ge: "x \<in> set xs \<Longrightarrow> x \<le> foldl max a xs" for a :: nat
proof (induction xs arbitrary: a)
  case (Cons y ys)
  then show ?case using foldl_max_start [of "max a y" ys] by auto
qed simp

lemma foldl_max_le: "\<forall>x\<in>set xs. x \<le> b \<Longrightarrow> a \<le> b \<Longrightarrow> foldl max a xs \<le> b" for a b :: nat
  by (induction xs arbitrary: a) simp_all

definition reread :: "ScStr option \<Rightarrow> ScStr option" where
  "reread s = Some (ScStr_new (str_text s))"

lemma map_nth_tl: "map (\<lambda>i. f (xs ! i)) [1..<length xs] = map f (tl xs)"
  by (rule nth_equalityI) (simp_all add: nth_tl)

lemma layout_loaded:
  assumes "wf_table strs" "1 < length strs" "offsets_fit strs" "length strs \<le> 32767"
    and "header_ok strs (length strs - 1) hdr" "bytes = hdr @ str_data strs @ extra"
  shows "rawNumStrings bytes = length strs - 1"
    and "highestStringWithValidOffset bytes = length strs - 1"
    and "loadedStrings bytes = map (\<lambda>i. (reread (strs ! i), str_start strs i + length (str_text (strs ! i))))
      [1..<length strs]"
proof -
  have len: "length hdr = 2 * length strs" using assms(5) by (simp add: header_ok_def)
  have size: "length bytes \<ge> 2 * length strs + 1" using assms(6) len by (simp add: str_data_def)
  show raw: "rawNumStrings bytes = length strs - 1"
    using assms(2,4,5,6) size read_u16_append [of 0 hdr] len
    by (simp add: rawNumStrings_def header_ok_def)
  show high: "highestStringWithValidOffset bytes = length strs - 1"
    using raw size assms(2) by (simp add: highestStringWithValidOffset_def)
  have "loadString bytes (read_u16 bytes (2 * i)) (length bytes) =
      (reread (strs ! i), str_start strs i + length (str_text (strs ! i)))"
    if "i \<in> set [1..<length strs]" for i
  proof -
    have i: "1 \<le> i" "i < length strs" using that by simp_all
    have "read_u16 bytes (2 * i) = str_start strs i mod 65536"
      using assms(5,6) i len read_u16_append [of "2 * i" hdr] by (simp add: header_ok_def)
    also have "\<dots> = str_start strs i" using assms(3) i by (simp add: offsets_fit_def list_all_iff)
    finally show ?thesis using layout_load(1) [OF assms(1) len i assms(6)] by (simp add: reread_def)
  qed
  then show "loadedStrings bytes = map (\<lambda>i. (reread (strs ! i),
      str_start strs i + length (str_text (strs ! i)))) [1..<length strs]"
    using assms(2) by (simp only: loadedStrings_def high Suc_diff_1 cong: map_cong)
qed

lemma layout_end:
  assumes "wf_table strs" "1 < length strs" "offsets_fit strs" "length strs \<le> 32767"
    and "header_ok strs (length strs - 1) hdr" "bytes = hdr @ str_data strs @ extra"
  shows "regularStrSectionEnd bytes = length (hdr @ str_data strs)"
proof -
  let ?ends = "map (\<lambda>i. str_start strs i + length (str_text (strs ! i))) [1..<length strs]"
  have len: "length hdr = 2 * length strs" using assms(5) by (simp add: header_ok_def)
  have snds: "map snd (loadedStrings bytes) = ?ends"
    by (simp add: layout_loaded(3) [OF assms])
  obtain i where i: "1 \<le> i" "i < length strs"
    "str_start strs i + length (str_text (strs ! i)) + 1 = length (hdr @ str_data strs)"
    using layout_last [OF assms(1,2)] len by auto
  then have "length (hdr @ str_data strs) - 1 \<in> set ?ends"
    by (auto intro!: image_eqI [of _ _ i])
  then have "length (hdr @ str_data strs) - 1 \<le> foldl max 0 ?ends" by (rule foldl_max_ge)
  moreover have "foldl max 0 ?ends \<le> length (hdr @ str_data strs) - 1"
    using layout_load(2) [OF assms(1) len _ _ assms(6)] by (intro foldl_max_le) fastforce+
  moreover have "2 + 2 * rawNumStrings bytes \<le> length (hdr @ str_data strs)"
    using layout_loaded(1) [OF assms] len assms(2) by (simp add: str_data_def)
  ultimately show ?thesis
    using i(3) unfolding regularStrSectionEnd_def snds by simp
qed

lemma syncBytesToStrings_written:
  assumes "wf_table strs" "1 < length strs" "offsets_fit strs"
    and "Strings_syncStringsToBytes strs = Inr bytes"
  shows "syncBytesToStrings (sec\<lparr>stringBytes := bytes @ extra\<rparr>) =
    sec\<lparr>strings := None # map reread (tl strs), stringBytes := bytes,
        bytePaddedTo := (if extra = [] then 4 else 0),
        initialTailDataOffset := (if extra = [] then 0 else length bytes), tailData := extra\<rparr>"
proof -
  obtain hdr where b: "bytes = hdr @ str_data strs" and ok: "header_ok strs (length strs - 1) hdr"
    and small: "length strs \<le> 32767"
    using syncStringsToBytes_layout [OF assms(1,4)] by blast
  have be: "bytes @ extra = hdr @ str_data strs @ extra" using b by simp
  note lay = layout_loaded [OF assms(1-3) small ok be] layout_end [OF assms(1-3) small ok be]
  have "map fst (loadedStrings (bytes @ extra)) = map reread (tl strs)"
    using map_nth_tl [of reread strs] by (simp add: lay(3) comp_def)
  moreover have "trailingStrings (bytes @ extra) = []" by (simp add: trailingStrings_def lay(1,2))
  moreover have "regularStrSectionEnd (bytes @ extra) = length bytes" using lay(4) b by simp
  ultimately show ?thesis by (simp add: syncBytesToStrings_def)
qed

definition example_table :: "ScStr option list" where
  "example_table = [None, Some (ScStr_new ''Hi''), None, Some (ScStr_new ''A'')]"

text \<open>
  C10. Writing a string table and reading the bytes back gives the table again, also when
  arbitrary tail data follows: the same strings at the same ids, and exactly the tail data.
  Only the difference between an absent and an empty string is lost (an absent one is written
  as an offset to the section's first NUL), and the font properties, which the STR section
  does not store. The hypotheses: the table has a string slot, its strings hold no NUL of
  their own, the writer accepted it, and the offsets fit in 16 bits.
\<close>

theorem str_section_roundtrip:
  assumes "wf_table strs" "1 < length strs" "offsets_fit strs"
    and "Strings_syncStringsToBytes strs = Inr bytes"
  shows "syncBytesToStrings (sec\<lparr>stringBytes := bytes @ extra\<rparr>) =
    sec\<lparr>strings := None # map reread (tl strs), stringBytes := bytes,
        bytePaddedTo := (if extra = [] then 4 else 0),
        initialTailDataOffset := (if extra = [] then 0 else length bytes), tailData := extra\<rparr>"
  using assms by (rule syncBytesToStrings_written)

theorem str_section_roundtrip_witness:
  "wf_table example_table \<and> 1 < length example_table \<and> offsets_fit example_table \<and>
   (\<exists>bytes. Strings_syncStringsToBytes example_table = Inr bytes \<and>
     strings (syncBytesToStrings (StrSection_new\<lparr>stringBytes := bytes @ ''tail''\<rparr>)) =
       None # map reread (tl example_table))"
proof -
  note eval = example_table_def ScStr_new_def terminated_def upt_rec
  have 1: "wf_table example_table" by (simp add: example_table_def wf_table_def)
  have 2: "1 < length example_table" by (simp add: example_table_def)
  have 3: "offsets_fit example_table"
    by (simp add: eval offsets_fit_def str_start_def str_chars_def)
  have "isl (Strings_syncStringsToBytes example_table) = False"
    by (simp add: eval Strings_syncStringsToBytes_def stringLengthAt_def ScStr_length_def
        maxStandardStrings_def)
  then obtain bytes where 4: "Strings_syncStringsToBytes example_table = Inr bytes"
    by (metis isl_def old.sum.exhaust)
  have "strings (syncBytesToStrings (StrSection_new\<lparr>stringBytes := bytes @ ''tail''\<rparr>)) =
      None # map reread (tl example_table)"
    unfolding str_section_roundtrip [OF 1 2 3 4] by simp
  with 1 2 3 4 show ?thesis by blast
qed

section \<open>Offsets that do not fit\<close>

lemma syncStringsToBytes_offset:
  assumes "wf_table strs" "Strings_syncStringsToBytes strs = Inr bytes" "1 \<le> i" "i < length strs"
  shows "read_u16 bytes (2 * i) = str_start strs i mod 65536"
proof -
  obtain hdr where "bytes = hdr @ str_data strs" "header_ok strs (length strs - 1) hdr"
    using syncStringsToBytes_layout [OF assms(1,2)] by blast
  then show ?thesis
    using assms(3,4) read_u16_append [of "2 * i" hdr] by (simp add: header_ok_def)
qed

lemma empty_strings_accepted:
  assumes "n \<le> maxStandardStrings"
  shows "\<exists>bytes. Strings_syncStringsToBytes (None # replicate n (Some (ScStr_new []))) = Inr bytes"
proof -
  let ?strs = "None # replicate n (Some (ScStr_new []))"
  have "stringLengthAt ?strs i = 0" if "i \<in> set [1..<Suc n]" for i
  proof -
    have "?strs ! i = Some (ScStr_new [])" using that by (auto simp: nth_Cons')
    then show ?thesis
      by (simp add: stringLengthAt_def ScStr_length_def ScStr_new_def terminated_def)
  qed
  then have sum: "sum_list (map (stringLengthAt ?strs) [1..<Suc n]) = 0"
    by (simp only: sum_list_eq_0_iff) auto
  have num: "(if length ?strs > 0 then length ?strs - 1 else 0) = n" by simp
  have "\<not> n > maxStandardStrings" "\<not> 2 + 2 * n + 1 + 0 > 65535"
    using assms by (simp_all add: maxStandardStrings_def)
  then show ?thesis
    unfolding Strings_syncStringsToBytes_def Let_def num sum by (simp only: if_False) blast
qed


end
