(* ===== verification/StrSection.thy ===== *)
theory StrSection
  imports StrCodec
begin

text \<open>
  The operations of the STR section (\<open>class StrSection\<close> in \<open>src/MappingCoreLib/Sections.cpp\<close>) on the
  table of string objects. Where the code asks its \<open>StrSynchronizer\<close> which string ids the map
  uses, the operation takes the marked bitset as an argument; where it tells the synchronizer to
  renumber string ids, the operation returns the renumbering, which the caller applies
  (\<open>Strings::remapStringIds\<close>). Both are the scenario's side of the interface.
\<close>

section \<open>Creation and lookup\<close>

definition defaultStrings :: "string list" where
  "defaultStrings = [''Untitled Scenario'', ''Destroy all enemy buildings.'', ''Anywhere'',
     ''Force 1'', ''Force 2'', ''Force 3'', ''Force 4'']"

definition StrSection_GetDefault :: "bool \<Rightarrow> StrSection" where
  "StrSection_GetDefault blank = StrSection_new
    \<lparr>strings := None # (if blank then [] else map (\<lambda>s. Some (ScStr_new s)) defaultStrings)\<rparr>"

definition StrSection_getCapacity :: "StrSection \<Rightarrow> nat" where
  "StrSection_getCapacity sec = length (strings sec)"

definition StrSection_stringStored :: "StrSection \<Rightarrow> nat \<Rightarrow> bool" where
  "StrSection_stringStored sec stringId \<longleftrightarrow>
    stringId < length (strings sec) \<and> strings sec ! stringId \<noteq> None"

definition StrSection_unmarkUnstoredStrings :: "StrSection \<Rightarrow> (nat \<Rightarrow> bool) \<Rightarrow> nat \<Rightarrow> bool" where
  "StrSection_unmarkUnstoredStrings sec stringIdUsed =
    (let limit = min MaxStrings (length (strings sec)) in
     (\<lambda>stringId. if 1 \<le> stringId \<and> stringId < limit
        then (if stringIdUsed stringId \<and> strings sec ! stringId = None then False
              else stringIdUsed stringId)
      else if max 1 limit \<le> stringId \<and> stringId < MaxStrings then False
      else stringIdUsed stringId))"

definition StrSection_getString :: "StringType \<Rightarrow> StrSection \<Rightarrow> nat \<Rightarrow> string option" where
  "StrSection_getString t sec stringId =
    (if stringId < length (strings sec)
     then map_option (ScStr_toString t) (strings sec ! stringId) else None)"

definition slotEquals :: "StringType \<Rightarrow> ScStr option \<Rightarrow> string \<Rightarrow> bool" where
  "slotEquals t slot str = (case slot of None \<Rightarrow> False | Some s \<Rightarrow> ScStr_equals t s str)"

definition StrSection_findString :: "StringType \<Rightarrow> StrSection \<Rightarrow> string \<Rightarrow> nat" where
  "StrSection_findString t sec str =
    (case find_index (\<lambda>stringId. slotEquals t (strings sec ! stringId) str) 1 (length (strings sec)) of
       Some stringId \<Rightarrow> stringId
     | None \<Rightarrow> NoString)"

definition StrSection_getNextUnusedStringId ::
  "StrSection \<Rightarrow> (nat \<Rightarrow> bool) \<Rightarrow> bool \<Rightarrow> nat \<Rightarrow> nat" where
  "StrSection_getNextUnusedStringId sec stringIdUsed checkBeyondCapacity firstChecked =
    (case find_index (\<lambda>i. \<not> stringIdUsed i) firstChecked
            (if checkBeyondCapacity then MaxStrings else length (strings sec)) of
       Some i \<Rightarrow> i
     | None \<Rightarrow> 0)"

section \<open>Defragmenting and resizing\<close>

text \<open>
  One pass of the outer loop of \<open>defragment\<close>: an empty slot takes the next stored string behind
  it. The source slot keeps its string too, and \<open>std::map::insert\<close> keeps an existing entry.
\<close>

definition defragment_step ::
  "ScStr option list \<times> (nat \<rightharpoonup> nat) \<Rightarrow> nat \<Rightarrow> ScStr option list \<times> (nat \<rightharpoonup> nat)" where
  "defragment_step state i =
    (case state of (strs, remaps) \<Rightarrow>
       if strs ! i = None then
         (case find_index (\<lambda>j. strs ! j \<noteq> None) (max (i + 1) 0) (length strs) of
            Some j \<Rightarrow> (strs[i := strs ! j], if remaps j = None then remaps(j \<mapsto> i) else remaps)
          | None \<Rightarrow> (strs, remaps))
       else (strs, remaps))"

definition StrSection_defragment :: "StrSection \<Rightarrow> StrSection \<times> (nat \<rightharpoonup> nat)" where
  "StrSection_defragment sec =
    (case foldl defragment_step (strings sec, Map.empty) [0..<length (strings sec)] of
       (strs, remaps) \<Rightarrow> (sec\<lparr>strings := strs\<rparr>, remaps))"

text \<open>\<open>while ( size <= cap ) push_back(nullptr); while ( size > cap ) pop_back();\<close>\<close>

definition resizeStrings :: "nat \<Rightarrow> ScStr option list \<Rightarrow> ScStr option list" where
  "resizeStrings stringCapacity strs =
    take stringCapacity (strs @ replicate (stringCapacity + 1 - length strs) None)"

definition StrSection_setCapacity ::
  "nat \<Rightarrow> (nat \<Rightarrow> bool) \<Rightarrow> bool \<Rightarrow> StrSection \<Rightarrow> (StrSection \<times> (nat \<rightharpoonup> nat)) result" where
  "StrSection_setCapacity stringCapacity validUsed autoDefragment sec =
    (if stringCapacity > MaxStrings then Inl MaximumStringsExceeded
     else
       let usedIds = filter validUsed [1..<MaxStrings];
           numValidUsedStrings = length usedIds;
           highestValidUsedStringId = (if usedIds = [] then 0 else last usedIds)
       in if numValidUsedStrings > stringCapacity
            then Inl (InsufficientStringCapacity numValidUsedStrings stringCapacity)
          else if highestValidUsedStringId > stringCapacity then
            if autoDefragment \<and> numValidUsedStrings \<le> stringCapacity then
              (case StrSection_defragment sec of (sec', remaps) \<Rightarrow>
                 Inr (sec'\<lparr>strings := resizeStrings stringCapacity (strings sec')\<rparr>, remaps))
            else Inl (InsufficientStringCapacity numValidUsedStrings stringCapacity)
          else Inr (sec\<lparr>strings := resizeStrings stringCapacity (strings sec)\<rparr>, Map.empty))"

section \<open>Adding, replacing and deleting\<close>

definition StrSection_addString ::
  "StringType \<Rightarrow> string \<Rightarrow> (nat \<Rightarrow> bool) \<Rightarrow> (nat \<Rightarrow> bool) \<Rightarrow> bool \<Rightarrow> StrSection
     \<Rightarrow> (nat \<times> StrSection \<times> (nat \<rightharpoonup> nat)) result" where
  "StrSection_addString t str used validUsed autoDefragment sec =
    (let rawString = convertStr t RawString str;
         stringId = StrSection_findString t sec str
     in if stringId \<noteq> NoString then Inr (stringId, sec, Map.empty)
        else
          let next = StrSection_getNextUnusedStringId sec used True 1
          in bind_result
               (if next \<ge> length (strings sec)
                  then StrSection_setCapacity (next + 1) validUsed autoDefragment sec
                else if next = 0 then Inl MaximumStringsExceeded
                else Inr (sec, Map.empty))
               (\<lambda>(sec', remaps).
                  Inr (next, sec'\<lparr>strings := (strings sec')[next := Some (ScStr_new rawString)]\<rparr>, remaps)))"

definition StrSection_replaceString :: "StringType \<Rightarrow> nat \<Rightarrow> string \<Rightarrow> StrSection \<Rightarrow> StrSection" where
  "StrSection_replaceString t stringId str sec =
    (if stringId < length (strings sec)
     then sec\<lparr>strings := (strings sec)[stringId :=
            Some (ScStr_new_prop (convertStr t RawString str) StrProp_default)]\<rparr>
     else sec)"

definition StrSection_deleteUnusedStrings :: "(nat \<Rightarrow> bool) \<Rightarrow> StrSection \<Rightarrow> StrSection" where
  "StrSection_deleteUnusedStrings used sec =
    sec\<lparr>strings := map (\<lambda>i. if \<not> used i \<and> strings sec ! i \<noteq> None then None else strings sec ! i)
      [0..<length (strings sec)]\<rparr>"

text \<open>
  \<open>stringUsed\<close> is the synchronizer's answer for this id; \<open>None\<close> stands for a null synchronizer.
\<close>

definition StrSection_deleteString ::
  "nat \<Rightarrow> bool \<Rightarrow> bool option \<Rightarrow> StrSection \<Rightarrow> bool \<times> StrSection" where
  "StrSection_deleteString stringId deleteOnlyIfUnused stringUsed sec =
    (if \<not> deleteOnlyIfUnused \<or> stringUsed = Some False then
       if stringId < length (strings sec)
       then (True, sec\<lparr>strings := (strings sec)[stringId := None]\<rparr>)
       else (False, sec)
     else (False, sec))"

section \<open>Reading and writing the section\<close>

text \<open>How many bytes align the tail data; only alignments of 2 and 4 are honoured.\<close>

definition tailPadding :: "nat \<Rightarrow> nat \<Rightarrow> nat" where
  "tailPadding bytePadded stringSize =
    (if (bytePadded = 2 \<or> bytePadded = 4) \<and> stringSize mod bytePadded \<noteq> 0
     then bytePadded - stringSize mod bytePadded else 0)"

definition StrSection_getSize ::
  "(ScStr option list \<Rightarrow> string result) option \<Rightarrow> StrSection \<Rightarrow> (nat \<times> StrSection) result" where
  "StrSection_getSize strSynchronizer sec =
    bind_result (StrSection_syncStringsToBytes strSynchronizer sec) (\<lambda>sec'.
      let stringSize = length (stringBytes sec');
          totalSize = (if length (tailData sec') > 0
            then stringSize + tailPadding (bytePaddedTo sec') stringSize + length (tailData sec')
            else stringSize)
      in if totalSize \<le> 2147483647 then Inr (totalSize, sec') else Inl MaxSectionSizeExceeded)"

definition StrSection_write ::
  "(ScStr option list \<Rightarrow> string result) option \<Rightarrow> StrSection \<Rightarrow> (string \<times> StrSection) result" where
  "StrSection_write strSynchronizer sec =
    bind_result (StrSection_syncStringsToBytes strSynchronizer sec) (\<lambda>sec'.
      let bytes = stringBytes sec' in
      Inr (bytes @ (if length (tailData sec') > 0
             then replicate (tailPadding (bytePaddedTo sec') (length bytes)) NUL @ tailData sec'
             else []), sec'))"

definition StrSection_read ::
  "int \<Rightarrow> string \<Rightarrow> bool \<Rightarrow> StrSection \<Rightarrow> (nat \<times> string \<times> StrSection) result" where
  "StrSection_read sizeInBytes is overriding sec =
    (if sizeInBytes < 0 then Inl NegativeSectionSize
     else
       let readSize = nat sizeInBytes in
       if readSize > 0 then
         let sec1 = (if overriding \<and> length (tailData sec) > 0
               then sec\<lparr>stringBytes := stringBytes sec @ tailData sec, tailData := [],
                        initialTailDataOffset := 0, bytePaddedTo := 4\<rparr>
               else sec);
             resized = (if readSize > length (stringBytes sec1)
               then stringBytes sec1 @ replicate (readSize - length (stringBytes sec1)) NUL
               else if \<not> overriding \<and> readSize < length (stringBytes sec1)
               then take readSize (stringBytes sec1)
               else stringBytes sec1)
         in (case stream_read readSize is of (buf, gcount, rest) \<Rightarrow>
               Inr (gcount, rest,
                 syncBytesToStrings (sec1\<lparr>stringBytes := buf @ drop readSize resized\<rparr>)))
       else if \<not> overriding then
         Inr (0, is, sec\<lparr>stringBytes := [], strings := [], tailData := [],
                initialTailDataOffset := 0, bytePaddedTo := 4\<rparr>)
       else Inr (0, is, sec))"

section \<open>Saving and loading\<close>

lemma getSize_write:
  assumes "StrSection_getSize sync sec = Inr (n, sec')"
  shows "\<exists>out. StrSection_write sync sec = Inr (out, sec') \<and> length out = n \<and> n \<le> 2147483647"
  using assms
  by (auto simp: StrSection_getSize_def StrSection_write_def bind_result_eq_Inr Let_def
      split: if_splits)

text \<open>
  The size the section announces in its header is the number of bytes it writes, on every
  save that succeeds, padding and tail data included, and it fits the signed 32-bit size field.
\<close>

lemma StrSection_size_is_written:
  assumes "StrSection_getSize sync sec = Inr (n, sec')"
  shows "\<exists>out. StrSection_write sync sec = Inr (out, sec') \<and> length out = n \<and> n < 2 ^ 31"
  using getSize_write [OF assms] by fastforce

lemma StrSection_size_is_written_witness:
  "StrSection_getSize None (StrSection_GetDefault True) = Inr (3, (StrSection_GetDefault True)\<lparr>stringBytes := [NUL, NUL, NUL]\<rparr>) \<and>
   (\<exists>out. StrSection_write None (StrSection_GetDefault True) =
      Inr (out, (StrSection_GetDefault True)\<lparr>stringBytes := [NUL, NUL, NUL]\<rparr>) \<and> length out = 3)"
proof -
  have h: "StrSection_getSize None (StrSection_GetDefault True) =
      Inr (3, (StrSection_GetDefault True)\<lparr>stringBytes := [NUL, NUL, NUL]\<rparr>)"
    by (simp add: StrSection_getSize_def StrSection_syncStringsToBytes_def StrSection_GetDefault_def
        StrSection_new_def Strings_syncStringsToBytes_def maxStandardStrings_def write_u16_def
        numeral_2_eq_2)
  show ?thesis using h StrSection_size_is_written [OF h] by auto
qed

text \<open>What the section writes behind its strings: padding, then the tail data.\<close>

definition written_tail :: "StrSection \<Rightarrow> string \<Rightarrow> string" where
  "written_tail sec bytes =
    (if tailData sec = [] then []
     else replicate (tailPadding (bytePaddedTo sec) (length bytes)) NUL @ tailData sec)"

lemma write_default:
  "StrSection_write None sec =
    bind_result (Strings_syncStringsToBytes (strings sec))
      (\<lambda>bytes. Inr (bytes @ written_tail sec bytes, sec\<lparr>stringBytes := bytes\<rparr>))"
  by (cases "tailData sec = []")
    (simp_all add: StrSection_write_def StrSection_syncStringsToBytes_def bind_result_assoc
      written_tail_def)

lemma StrSection_written_read:
  assumes "wf_table (strings sec)" "1 < length (strings sec)" "offsets_fit (strings sec)"
    and "StrSection_write None sec = Inr (out, sec')"
  shows "\<exists>loaded. StrSection_read (int (length out)) (out @ rest) False StrSection_new
      = Inr (length out, rest, loaded) \<and>
    strings loaded = None # map reread (tl (strings sec)) \<and>
    stringBytes loaded = stringBytes sec' \<and>
    tailData loaded = written_tail sec (stringBytes sec')"
proof -
  obtain bytes where b: "Strings_syncStringsToBytes (strings sec) = Inr bytes"
    and sec': "sec' = sec\<lparr>stringBytes := bytes\<rparr>" and out: "out = bytes @ written_tail sec bytes"
    using assms(4) unfolding write_default by (auto simp: bind_result_eq_Inr)
  obtain hdr where "bytes = hdr @ str_data (strings sec)"
    using syncStringsToBytes_layout [OF assms(1) b] by blast
  then have "length out > 0" using out by (simp add: str_data_def)
  then have "StrSection_read (int (length out)) (out @ rest) False StrSection_new =
      Inr (length out, rest, syncBytesToStrings (StrSection_new\<lparr>stringBytes := out\<rparr>))"
    by (simp add: StrSection_read_def Let_def stream_read_all StrSection_new_def)
  moreover note syncBytesToStrings_written [OF assms(1-3) b, where sec = StrSection_new and extra = "written_tail sec bytes"]
  ultimately show ?thesis using out sec' by simp
qed



section \<open>Finding and adding strings\<close>

lemma findString_Some:
  assumes "StrSection_findString t sec str \<noteq> NoString"
  shows "1 \<le> StrSection_findString t sec str" "StrSection_findString t sec str < length (strings sec)"
    "slotEquals t (strings sec ! StrSection_findString t sec str) str"
    "\<And>j. 1 \<le> j \<Longrightarrow> j < StrSection_findString t sec str \<Longrightarrow> \<not> slotEquals t (strings sec ! j) str"
proof -
  let ?P = "\<lambda>i. slotEquals t (strings sec ! i) str"
  obtain i where i: "find_index ?P 1 (length (strings sec)) = Some i" "StrSection_findString t sec str = i"
    using assms by (auto simp: StrSection_findString_def split: option.splits)
  note f = find_index_Some [OF i(1)]
  show "1 \<le> StrSection_findString t sec str" "StrSection_findString t sec str < length (strings sec)"
    "slotEquals t (strings sec ! StrSection_findString t sec str) str"
    using f i(2) by simp_all
  show "\<And>j. 1 \<le> j \<Longrightarrow> j < StrSection_findString t sec str \<Longrightarrow> \<not> slotEquals t (strings sec ! j) str"
    using find_index_least [OF i(1)] i(2) by simp
qed

lemma length_resizeStrings [simp]: "length (resizeStrings n strs) = n"
  by (simp add: resizeStrings_def)

lemma nth_resizeStrings:
  "i < n \<Longrightarrow> resizeStrings n strs ! i = (if i < length strs then strs ! i else None)"
  by (simp add: resizeStrings_def nth_append)

lemma getNextUnused_fresh:
  assumes "StrSection_getNextUnusedStringId sec used True 1 = i" "i \<noteq> 0"
  shows "1 \<le> i" "i < MaxStrings" "\<not> used i"
  using assms find_index_Some [of "\<lambda>i. \<not> used i" 1 MaxStrings]
  by (auto simp: StrSection_getNextUnusedStringId_def split: option.splits)

lemma setCapacity_grow:
  assumes "\<And>i. validUsed i \<Longrightarrow> i < length (strings sec)" "length (strings sec) \<le> n" "n \<le> MaxStrings"
  shows "StrSection_setCapacity n validUsed autoDefragment sec =
    Inr (sec\<lparr>strings := resizeStrings n (strings sec)\<rparr>, Map.empty)"
proof -
  let ?ids = "filter validUsed [1..<MaxStrings]"
  have "set ?ids \<subseteq> {1..<n}" using assms by fastforce
  then have "card (set ?ids) \<le> n - 1" using card_mono [of "{1..<n}"] by fastforce
  moreover have "card (set ?ids) = length ?ids" by (intro distinct_card) simp
  ultimately have "length ?ids \<le> n" by linarith
  moreover have "(if ?ids = [] then 0 else last ?ids) \<le> n"
    using \<open>set ?ids \<subseteq> {1..<n}\<close> last_in_set [of ?ids] by fastforce
  ultimately have "\<not> length ?ids > n" "\<not> (if ?ids = [] then 0 else last ?ids) > n" "\<not> n > MaxStrings"
    using assms(3) by linarith+
  then show ?thesis unfolding StrSection_setCapacity_def Let_def by (simp only: if_False)
qed

lemma raw_getString:
  "StrSection_getString RawString sec i =
    (if i < length (strings sec) then map_option (\<lambda>s. c_str (allocation s)) (strings sec ! i) else None)"
  by (simp add: StrSection_getString_def ScStr_toString_def convertStr_def cong: option.map_cong)

lemma slotEquals_new: "slotEquals t (Some (ScStr_new (convertStr t RawString str))) str"
  by (simp add: slotEquals_def ScStr_equals_def ScStr_new_def)

lemma findString_eq: "StrSection_findString t sec str \<noteq> NoString \<Longrightarrow>
  StrSection_addString t str used validUsed autoDefragment sec =
    Inr (StrSection_findString t sec str, sec, Map.empty)"
  by (simp add: StrSection_addString_def Let_def)

text \<open>The table after a string that was not there went to \<open>next\<close>, within or beyond the capacity.\<close>

lemma addString_new:
  assumes "StrSection_findString t sec str = NoString" "strings sec \<noteq> []"
    and "\<And>i. validUsed i \<Longrightarrow> i < length (strings sec)"
    and "next = StrSection_getNextUnusedStringId sec used True 1"
  shows "StrSection_addString t str used validUsed autoDefragment sec =
    (if next = 0 then Inl MaximumStringsExceeded
     else Inr (next, sec\<lparr>strings := (resizeStrings (max (next + 1) (length (strings sec))) (strings sec))
       [next := Some (ScStr_new (convertStr t RawString str))]\<rparr>, Map.empty))"
proof (cases "next < length (strings sec)")
  case True
  then have "resizeStrings (max (next + 1) (length (strings sec))) (strings sec) = strings sec"
    by (simp add: resizeStrings_def)
  then show ?thesis using True assms by (simp add: StrSection_addString_def Let_def)
next
  case False
  then have "next \<noteq> 0" using assms(2) by (cases "next = 0") simp_all
  then have "next < MaxStrings" using getNextUnused_fresh(2) assms(4) by metis
  then have "StrSection_setCapacity (next + 1) validUsed autoDefragment sec =
      Inr (sec\<lparr>strings := resizeStrings (next + 1) (strings sec)\<rparr>, Map.empty)"
    using False assms(3) by (intro setCapacity_grow) simp_all
  moreover have "max (next + 1) (length (strings sec)) = next + 1" using False by simp
  ultimately show ?thesis using False \<open>next \<noteq> 0\<close> assms(1,4)
    by (simp add: StrSection_addString_def Let_def)
qed

text \<open>
  Adding a string to a table that has its slot 0. The id returned is a real one and holds
  the string; every other id keeps the string it had; no id is renumbered; and when the string
  was not already in the table, the id is one the map does not use. The hypothesis on the
  synchronizer is its contract: a valid used id is one that is stored.
\<close>

lemma StrSection_addString_spec:
  assumes "StrSection_addString t str used validUsed autoDefragment sec = Inr (stringId, sec', remaps)"
    and "strings sec \<noteq> []" and "\<And>i. validUsed i \<Longrightarrow> i < length (strings sec)"
  shows "stringId \<noteq> NoString \<and> stringId < length (strings sec') \<and>
    slotEquals t (strings sec' ! stringId) str \<and> remaps = Map.empty \<and>
    (\<forall>i. i \<noteq> stringId \<longrightarrow> StrSection_getString RawString sec' i = StrSection_getString RawString sec i) \<and>
    (sec' = sec \<or> StrSection_findString t sec str = NoString \<and> \<not> used stringId)"
proof (cases "StrSection_findString t sec str = NoString")
  case False
  have "Inr (StrSection_findString t sec str, sec, Map.empty) = (Inr (stringId, sec', remaps) :: _ result)"
    using assms(1) unfolding findString_eq [OF False] .
  then have "stringId = StrSection_findString t sec str" "sec' = sec" "remaps = Map.empty"
    unfolding sum.inject prod.inject by blast+
  then show ?thesis using False findString_Some [OF False] by simp
next
  case True
  let ?next = "StrSection_getNextUnusedStringId sec used True 1"
  let ?sec' = "sec\<lparr>strings := (resizeStrings (max (?next + 1) (length (strings sec))) (strings sec))
       [?next := Some (ScStr_new (convertStr t RawString str))]\<rparr>"
  have eq: "(if ?next = 0 then Inl MaximumStringsExceeded else Inr (?next, ?sec', Map.empty)) =
      Inr (stringId, sec', remaps)"
    by (rule trans [OF addString_new [OF True assms(2,3) refl, symmetric] assms(1)])
  have nz: "?next \<noteq> 0"
  proof
    assume "?next = 0"
    from trans [OF if_P [OF this, symmetric] eq] show False by simp
  qed
  have "(?next, ?sec', Map.empty) = (stringId, sec', remaps)"
    using eq unfolding if_not_P [OF nz] by (rule sum.inject(2) [THEN iffD1])
  then have res: "stringId = ?next" "remaps = Map.empty" "sec' = ?sec'" by blast+
  have "StrSection_getString RawString sec' i = StrSection_getString RawString sec i" if "i \<noteq> stringId" for i
    using that res by (simp add: raw_getString nth_resizeStrings less_max_iff_disj)
  then show ?thesis
    using True nz res getNextUnused_fresh(3) [OF refl nz] by (simp add: NoString_def slotEquals_new)
qed

definition markNone :: "nat \<Rightarrow> bool" where "markNone i = False"

lemma StrSection_addString_spec_witness:
  "\<exists>stringId sec'. StrSection_addString RawString ''New'' markNone markNone True (StrSection_GetDefault True)
      = Inr (stringId, sec', Map.empty) \<and>
    slotEquals RawString (strings sec' ! stringId) ''New'' \<and> stringId = 1"
proof -
  let ?sec = "StrSection_GetDefault True"
  have ne: "strings ?sec \<noteq> []" by (simp add: StrSection_GetDefault_def)
  have v: "\<And>i. markNone i \<Longrightarrow> i < length (strings ?sec)" by (simp add: markNone_def)
  have none: "StrSection_findString RawString ?sec ''New'' = NoString"
    by (simp add: StrSection_findString_def StrSection_GetDefault_def find_index_def)
  have nx: "StrSection_getNextUnusedStringId ?sec markNone True 1 = 1"
    by (simp add: StrSection_getNextUnusedStringId_def find_index_def markNone_def MaxStrings_def
        upt_conv_Cons [of "Suc 0" 65536])
  obtain sec' where h: "StrSection_addString RawString ''New'' markNone markNone True ?sec = Inr (1, sec', Map.empty)"
    using addString_new [OF none ne v nx [symmetric]] by simp
  show ?thesis using h StrSection_addString_spec [OF h ne v] by auto
qed

end
