(* ===== verification/IdUsers.thy ===== *)
theory IdUsers
  imports Prelude
begin

text \<open>
  The interface between the tables that own ids and the sections that refer to them. A scenario
  names strings and locations by id; every section that stores such ids answers the same four
  questions in the code (\<open>stringUsed\<close>, \<open>markUsedStrings\<close>, \<open>deleteString\<close>, \<open>remapStringIds\<close>, and
  the location counterparts). The locales below state what those answers promise of each other,
  against the set of ids the section refers to, and prove once what the callers rely on.
  Sections that are lists of users, or pairs of users, get the laws from their parts.
\<close>

section \<open>Bit masks and loops over arrays of ids\<close>

unbundle bit_operations_syntax

text \<open>\<open>(flags & flag) == flag\<close>\<close>

definition hasFlag :: "'a::len word \<Rightarrow> 'a word \<Rightarrow> bool" where
  "hasFlag flags flag \<longleftrightarrow> flags AND flag = flag"

text \<open>The renumbering a \<open>std::map<u32, u32>\<close> stands for: ids it does not hold stay.\<close>

definition renumber :: "(nat \<rightharpoonup> nat) \<Rightarrow> nat \<Rightarrow> nat" where
  "renumber m i = (case m i of None \<Rightarrow> i | Some j \<Rightarrow> j)"

lemma renumber_simps [simp]:
  "m i = None \<Longrightarrow> renumber m i = i"
  "m i = Some j \<Longrightarrow> renumber m i = j"
  by (simp_all add: renumber_def)

text \<open>\<open>auto found = m.find(x); if ( found != m.end() ) x = found->second;\<close> on a field of any width.\<close>

definition remapField :: "(nat \<rightharpoonup> nat) \<Rightarrow> 'a::len word \<Rightarrow> 'a word" where
  "remapField m x = (case m (unat x) of None \<Rightarrow> x | Some j \<Rightarrow> of_nat j)"

text \<open>\<open>if ( x == id ) x = 0;\<close>\<close>

definition clearField :: "nat \<Rightarrow> 'a::len word \<Rightarrow> 'a word" where
  "clearField i x = (if unat x = i then 0 else x)"

text \<open>\<open>if ( x > 0 && x < limit ) used[x] = true;\<close>\<close>

definition markField :: "nat \<Rightarrow> 'a::len word \<Rightarrow> (nat \<Rightarrow> bool) \<Rightarrow> nat \<Rightarrow> bool" where
  "markField limit x u = (if 0 < unat x \<and> unat x < limit then u(unat x := True) else u)"

lemma unat_clearField: "unat (clearField i x) = (if unat x = i then 0 else unat x)"
  by (simp add: clearField_def)

lemma unat_remapField:
  fixes x :: "'a::len word"
  assumes "ran m \<subseteq> {..<2 ^ LENGTH('a)}"
  shows "unat (remapField m x) = renumber m (unat x)"
proof (cases "m (unat x)")
  case (Some j)
  then have "j < 2 ^ LENGTH('a)" using assms by (auto simp: ran_def)
  then show ?thesis using Some by (simp add: remapField_def unat_of_nat)
qed (simp add: remapField_def)

lemma markField_iff: "markField limit x u i \<longleftrightarrow> u i \<or> (0 < i \<and> i < limit \<and> i = unat x)"
  by (auto simp: markField_def)

lemma foldl_mark_iff:
  assumes "\<And>x u. x \<in> set xs \<Longrightarrow> f u x i \<longleftrightarrow> u i \<or> P x"
  shows "foldl f u xs i \<longleftrightarrow> u i \<or> (\<exists>x\<in>set xs. P x)"
  using assms by (induction xs arbitrary: u) auto

section \<open>Users of ids\<close>

locale id_user =
  fixes limit :: nat
    and inv :: "'s \<Rightarrow> bool"
    and refs :: "'s \<Rightarrow> nat set"
    and used :: "'s \<Rightarrow> nat \<Rightarrow> bool"
    and mark :: "'s \<Rightarrow> (nat \<Rightarrow> bool) \<Rightarrow> nat \<Rightarrow> bool"
    and delete :: "nat \<Rightarrow> 's \<Rightarrow> 's"
  assumes used_iff: "inv s \<Longrightarrow> 0 < i \<Longrightarrow> i < limit \<Longrightarrow> used s i \<longleftrightarrow> i \<in> refs s"
    and mark_iff: "inv s \<Longrightarrow> mark s u i \<longleftrightarrow> u i \<or> (0 < i \<and> i < limit \<and> i \<in> refs s)"
    and inv_delete: "inv s \<Longrightarrow> inv (delete i s)"
    and refs_delete: "inv s \<Longrightarrow> 0 < i \<Longrightarrow> i < limit \<Longrightarrow> refs (delete i s) - {0} = refs s - {0, i}"
begin

lemma mark_used: "inv s \<Longrightarrow> 0 < i \<Longrightarrow> i < limit \<Longrightarrow> mark s u i \<longleftrightarrow> u i \<or> used s i"
  by (simp add: mark_iff used_iff)

lemma mark_no_id: "inv s \<Longrightarrow> mark s u 0 = u 0"
  by (simp add: mark_iff)

lemma mark_beyond: "inv s \<Longrightarrow> limit \<le> i \<Longrightarrow> mark s u i = u i"
  by (simp add: mark_iff)

lemma not_used_delete: "inv s \<Longrightarrow> 0 < i \<Longrightarrow> i < limit \<Longrightarrow> \<not> used (delete i s) i"
  using refs_delete [of s i] by (auto simp: used_iff inv_delete)

lemma used_delete_other:
  "inv s \<Longrightarrow> 0 < i \<Longrightarrow> i < limit \<Longrightarrow> 0 < j \<Longrightarrow> j < limit \<Longrightarrow> j \<noteq> i \<Longrightarrow>
    used (delete i s) j \<longleftrightarrow> used s j"
  using refs_delete [of s i] by (auto simp: used_iff inv_delete)

text \<open>A list of users is a user.\<close>

lemma lift_list:
  "id_user limit (\<lambda>xs. \<forall>x\<in>set xs. inv x) (\<lambda>xs. \<Union>x\<in>set xs. refs x) (\<lambda>xs i. \<exists>x\<in>set xs. used x i)
     (\<lambda>xs u. foldl (\<lambda>u x. mark x u) u xs) (\<lambda>i. map (delete i))"
proof
  fix xs u i
  assume "\<forall>x\<in>set xs. inv x"
  then show "foldl (\<lambda>u x. mark x u) u xs i \<longleftrightarrow>
      u i \<or> (0 < i \<and> i < limit \<and> i \<in> (\<Union>x\<in>set xs. refs x))"
    by (subst foldl_mark_iff [where P = "\<lambda>x. 0 < i \<and> i < limit \<and> i \<in> refs x"])
      (auto simp: mark_iff)
next
  fix xs i
  assume "\<forall>x\<in>set xs. inv x" "0 < i" "i < limit"
  then have eq: "\<And>x. x \<in> set xs \<Longrightarrow> refs (delete i x) - {0} = refs x - {0, i}"
    by (simp add: refs_delete)
  have "(\<Union>x\<in>set (map (delete i) xs). refs x) - {0} = (\<Union>x\<in>set xs. refs (delete i x) - {0})"
    by auto
  also have "\<dots> = (\<Union>x\<in>set xs. refs x - {0, i})"
    using eq by (rule SUP_cong [OF refl])
  also have "\<dots> = (\<Union>x\<in>set xs. refs x) - {0, i}"
    by auto
  finally show "(\<Union>x\<in>set (map (delete i) xs). refs x) - {0} = (\<Union>x\<in>set xs. refs x) - {0, i}" .
qed (auto simp: used_iff inv_delete)

end

locale id_remapper = id_user +
  fixes remap :: "(nat \<rightharpoonup> nat) \<Rightarrow> 's \<Rightarrow> 's"
  assumes inv_remap: "inv s \<Longrightarrow> ran m \<subseteq> {..<limit} \<Longrightarrow> inv (remap m s)"
    and refs_remap: "inv s \<Longrightarrow> ran m \<subseteq> {..<limit} \<Longrightarrow> refs (remap m s) = renumber m ` refs s"
begin

lemma used_remap:
  assumes "inv s" "ran m \<subseteq> {..<limit}" "0 < j" "j < limit"
  shows "used (remap m s) j \<longleftrightarrow> (\<exists>i. i \<in> refs s \<and> renumber m i = j)"
  using assms by (auto simp: used_iff inv_remap refs_remap)

text \<open>An id that is used is, after renumbering, used under its new number.\<close>

lemma used_follows_remap:
  assumes "inv s" "ran m \<subseteq> {..<limit}" "0 < i" "i < limit" "used s i" "0 < renumber m i"
  shows "used (remap m s) (renumber m i)"
proof -
  have "renumber m i < limit"
    using assms by (cases "m i") (auto simp: ran_def)
  then show ?thesis using assms used_remap used_iff by blast
qed

lemma lift_list_remap:
  "id_remapper limit (\<lambda>xs. \<forall>x\<in>set xs. inv x) (\<lambda>xs. \<Union>x\<in>set xs. refs x) (\<lambda>xs i. \<exists>x\<in>set xs. used x i)
     (\<lambda>xs u. foldl (\<lambda>u x. mark x u) u xs) (\<lambda>i. map (delete i)) (\<lambda>m. map (remap m))"
proof -
  have "id_remapper_axioms limit (\<lambda>xs. \<forall>x\<in>set xs. inv x) (\<lambda>xs. \<Union>x\<in>set xs. refs x) (\<lambda>m. map (remap m))"
    by unfold_locales (auto simp: inv_remap refs_remap)
  with lift_list show ?thesis by (rule id_remapper.intro)
qed

end

text \<open>Two users kept in one object are a user.\<close>

lemma lift_pair:
  assumes "id_remapper limit inv1 refs1 used1 mark1 delete1 remap1"
    and "id_remapper limit inv2 refs2 used2 mark2 delete2 remap2"
  shows "id_remapper limit (\<lambda>(a, b). inv1 a \<and> inv2 b) (\<lambda>(a, b). refs1 a \<union> refs2 b)
     (\<lambda>(a, b) i. used1 a i \<or> used2 b i) (\<lambda>(a, b) u. mark2 b (mark1 a u))
     (\<lambda>i (a, b). (delete1 i a, delete2 i b)) (\<lambda>m (a, b). (remap1 m a, remap2 m b))"
proof -
  note laws = id_user.used_iff id_user.mark_iff id_user.inv_delete id_user.refs_delete
    id_remapper.inv_remap id_remapper.refs_remap
  note u = assms [THEN id_remapper.axioms(1)]
  show ?thesis
  proof unfold_locales
    fix s i
    assume "case s of (a, b) \<Rightarrow> inv1 a \<and> inv2 b" "0 < i" "i < limit"
    then show "(case case s of (a, b) \<Rightarrow> (delete1 i a, delete2 i b) of (a, b) \<Rightarrow> refs1 a \<union> refs2 b) - {0} =
        (case s of (a, b) \<Rightarrow> refs1 a \<union> refs2 b) - {0, i}"
      using laws(4) [OF u(1)] laws(4) [OF u(2)] by (cases s) (simp add: Un_Diff)
  qed (auto simp: laws(1-3) [OF u(1)] laws(1-3) [OF u(2)] laws(5,6) [OF assms(1)] laws(5,6) [OF assms(2)])
qed

text \<open>A single field of a struct, of any width that holds the ids, is a user.\<close>

lemma field_user:
  assumes "limit \<le> 2 ^ LENGTH('a)"
  shows "id_remapper limit (\<lambda>_. True) (\<lambda>x::'a::len word. {unat x}) (\<lambda>x i. unat x = i)
    (markField limit) clearField remapField"
proof unfold_locales
  fix m :: "nat \<rightharpoonup> nat" and x :: "'a word"
  assume "ran m \<subseteq> {..<limit}"
  then have "ran m \<subseteq> {..<2 ^ LENGTH('a)}" using assms by auto
  then show "{unat (remapField m x)} = renumber m ` {unat x}" by (simp add: unat_remapField)
qed (auto simp: markField_iff unat_clearField)

text \<open>A section whose fields are a user is one, and so is a user that a mask switches off.\<close>

lemma lift_view:
  assumes "id_remapper limit ok refs used mark delete remap"
    and "\<And>i s. get (delete' i s) = delete i (get s)"
    and "\<And>m s. get (remap' m s) = remap m (get s)"
  shows "id_remapper limit (\<lambda>s. ok (get s)) (\<lambda>s. refs (get s)) (\<lambda>s. used (get s)) (\<lambda>s. mark (get s))
    delete' remap'"
  using assms by (simp add: id_remapper_def id_user_def id_remapper_axioms_def)

lemma lift_masked:
  assumes "id_remapper limit ok refs used mark delete remap"
  shows "id_remapper limit ok (\<lambda>s. if c then refs s else {}) (\<lambda>s i. c \<and> used s i)
    (\<lambda>s u. if c then mark s u else u) delete remap"
  using assms by (cases c) (simp_all add: id_remapper_def id_user_def id_remapper_axioms_def)

text \<open>The same where the section is such a view only as long as its invariant holds.\<close>

lemma lift_view_on:
  assumes "id_remapper limit ok refs used mark delete remap"
    and "\<And>s. ok' s \<Longrightarrow> ok (get s)"
    and "\<And>s i. ok' s \<Longrightarrow> ok' (delete' i s) \<and> get (delete' i s) = delete i (get s)"
    and "\<And>s m. ok' s \<Longrightarrow> ok' (remap' m s) \<and> get (remap' m s) = remap m (get s)"
    and "\<And>s i. ok' s \<Longrightarrow> used' s i = used (get s) i"
    and "\<And>s u. ok' s \<Longrightarrow> mark' s u = mark (get s) u"
  shows "id_remapper limit ok' (\<lambda>s. refs (get s)) used' mark' delete' remap'"
  using assms by (simp add: id_remapper_def id_user_def id_remapper_axioms_def)

section \<open>Users without a deletion law\<close>

text \<open>
  What renumbering relies on is less: that the ids a user refers to are the ones it reports, marks
  and renumbers. Every \<open>id_remapper\<close> is such a referrer, and so are users whose deletion breaks its law.
\<close>

locale id_referrer =
  fixes limit :: nat
    and inv :: "'s \<Rightarrow> bool"
    and refs :: "'s \<Rightarrow> nat set"
    and used :: "'s \<Rightarrow> nat \<Rightarrow> bool"
    and mark :: "'s \<Rightarrow> (nat \<Rightarrow> bool) \<Rightarrow> nat \<Rightarrow> bool"
    and remap :: "(nat \<rightharpoonup> nat) \<Rightarrow> 's \<Rightarrow> 's"
  assumes used_refs: "inv s \<Longrightarrow> 0 < i \<Longrightarrow> i < limit \<Longrightarrow> used s i \<longleftrightarrow> i \<in> refs s"
    and mark_refs: "inv s \<Longrightarrow> mark s u i \<longleftrightarrow> u i \<or> (0 < i \<and> i < limit \<and> i \<in> refs s)"
    and inv_renumber: "inv s \<Longrightarrow> ran m \<subseteq> {..<limit} \<Longrightarrow> inv (remap m s)"
    and refs_renumber: "inv s \<Longrightarrow> ran m \<subseteq> {..<limit} \<Longrightarrow> refs (remap m s) = renumber m ` refs s"
begin

text \<open>With a table that moves its entries by the same renumbering, every reference keeps its entry.\<close>

lemma entries_follow:
  assumes "inv s" "ran m \<subseteq> {..<limit}"
    and "\<And>i. i \<in> refs s \<Longrightarrow> entry' (renumber m i) = entry i"
  shows "entry' ` refs (remap m s) = entry ` refs s"
proof -
  have "entry' ` refs (remap m s) = (\<lambda>i. entry' (renumber m i)) ` refs s"
    using assms(1,2) by (simp add: refs_renumber image_image)
  also have "\<dots> = entry ` refs s" by (rule image_cong [OF refl]) (rule assms(3))
  finally show ?thesis .
qed

lemma mark_is_used: "inv s \<Longrightarrow> 0 < i \<Longrightarrow> i < limit \<Longrightarrow> mark s u i \<longleftrightarrow> u i \<or> used s i"
  by (simp add: used_refs mark_refs)

end

sublocale id_remapper \<subseteq> referrer: id_referrer limit inv refs used mark remap
  by unfold_locales (simp_all add: used_iff mark_iff inv_remap refs_remap)

end
