(* ===== verification/Triggers.thy ===== *)
theory Triggers
  imports IdUsers
begin

text \<open>
  Conditions, actions and triggers (\<open>Chk::Condition\<close>, \<open>Chk::Action\<close> and \<open>Chk::Trigger\<close> in
  \<open>src/MappingCoreLib/Chk.h\<close> and \<open>Chk.cpp\<close>): their fields at their widths, which argument of
  which type names a location or a string, and the operations that find, mark, renumber and
  delete those ids. A fixed array of the struct is a list; \<open>wf_Trigger\<close> gives its length.
\<close>

section \<open>Constants\<close>

definition TotalLocations :: nat where "TotalLocations = 255"
definition NoLocation :: nat where "NoLocation = 0"

definition NumConditionTypes :: u8 where "NumConditionTypes = 24"
definition NumActionTypes :: u8 where "NumActionTypes = 60"
definition NumBriefingActionTypes :: u8 where "NumBriefingActionTypes = 10"
definition MaxConditions :: nat where "MaxConditions = 16"
definition MaxActions :: nat where "MaxActions = 64"
definition MaxOwners :: nat where "MaxOwners = 27"

definition Action_Type_Comment :: u8 where "Action_Type_Comment = 47"
definition Flags_Disabled :: u8 where "Flags_Disabled = 0x02"
definition Flags_xDisabled :: u8 where "Flags_xDisabled = 0xFD"

text \<open>\<open>Chk::StringUserFlag\<close>, the users of strings that a mask selects.\<close>

definition ScenarioName :: u32 where "ScenarioName = 0x1"
definition ScenarioDescription :: u32 where "ScenarioDescription = 0x2"
definition UserForce :: u32 where "UserForce = 0x4"
definition UserLocation :: u32 where "UserLocation = 0x8"
definition OriginalUnitSettings :: u32 where "OriginalUnitSettings = 0x10"
definition ExpansionUnitSettings :: u32 where "ExpansionUnitSettings = 0x20"
definition UserSound :: u32 where "UserSound = 0x40"
definition UserSwitch :: u32 where "UserSwitch = 0x80"
definition TriggerAction :: u32 where "TriggerAction = 0x100"
definition TriggerActionSound :: u32 where "TriggerActionSound = 0x200"
definition ExtendedTriggerComment :: u32 where "ExtendedTriggerComment = 0x400"
definition ExtendedTriggerNotes :: u32 where "ExtendedTriggerNotes = 0x800"
definition BriefingTriggerAction :: u32 where "BriefingTriggerAction = 0x1000"
definition BriefingTriggerActionSound :: u32 where "BriefingTriggerActionSound = 0x2000"
definition AnyTrigger :: u32 where "AnyTrigger = 0x300"
definition AnyTriggerExtension :: u32 where "AnyTriggerExtension = 0xC00"
definition AnyBriefingTrigger :: u32 where "AnyBriefingTrigger = 0x3000"

text \<open>The tables of \<open>Chk.cpp\<close>: which types use which argument.\<close>

definition conditionUsesLocationArg :: "u8 \<Rightarrow> bool" where
  "conditionUsesLocationArg t \<longleftrightarrow> t \<in> {3, 7, 17}"

definition actionUsesLocationArg :: "u8 \<Rightarrow> bool" where
  "actionUsesLocationArg t \<longleftrightarrow>
    t \<in> {7, 10, 11, 16, 18, 23, 25, 28, 34, 38, 39, 42, 43, 44, 46, 48, 49, 50, 51, 52, 53}"

definition actionUsesSecondaryLocationArg :: "u8 \<Rightarrow> bool" where
  "actionUsesSecondaryLocationArg t \<longleftrightarrow> t \<in> {38, 39, 46}"

definition actionUsesStringArg :: "u8 \<Rightarrow> bool" where
  "actionUsesStringArg t \<longleftrightarrow> t \<in> {7, 9, 12, 17, 18, 19, 20, 21, 33, 34, 35, 36, 37, 41, 47}"

definition actionUsesGameStringArg :: "u8 \<Rightarrow> bool" where
  "actionUsesGameStringArg t \<longleftrightarrow> t \<in> {7, 9, 12, 17, 18, 19, 20, 21, 33, 34, 35, 36, 37, 41}"

definition actionUsesSoundArg :: "u8 \<Rightarrow> bool" where
  "actionUsesSoundArg t \<longleftrightarrow> t \<in> {7, 8}"

definition briefingActionUsesStringArg :: "u8 \<Rightarrow> bool" where
  "briefingActionUsesStringArg t \<longleftrightarrow> t \<in> {3, 4, 8}"

definition briefingActionUsesSoundArg :: "u8 \<Rightarrow> bool" where
  "briefingActionUsesSoundArg t \<longleftrightarrow> t \<in> {2, 8}"

section \<open>Conditions\<close>

record Condition =
  c_locationId :: u32
  c_player :: u32
  c_amount :: u32
  c_unitType :: u16
  c_comparison :: u8
  c_conditionType :: u8
  c_typeIndex :: u8
  c_flags :: u8
  c_maskFlag :: u16

definition Condition_blank :: Condition where
  "Condition_blank = \<lparr>c_locationId = 0, c_player = 0, c_amount = 0, c_unitType = 0, c_comparison = 0,
     c_conditionType = 0, c_typeIndex = 0, c_flags = 0, c_maskFlag = 0\<rparr>"

definition Condition_isDisabled :: "Condition \<Rightarrow> bool" where
  "Condition_isDisabled c \<longleftrightarrow> hasFlag (c_flags c) Flags_Disabled"

definition Condition_toggleDisabled :: "Condition \<Rightarrow> Condition" where
  "Condition_toggleDisabled c =
    (if hasFlag (c_flags c) Flags_Disabled
     then c\<lparr>c_flags := c_flags c AND Flags_xDisabled\<rparr>
     else c\<lparr>c_flags := c_flags c OR Flags_Disabled\<rparr>)"

definition Condition_locationUsed :: "Condition \<Rightarrow> nat \<Rightarrow> bool" where
  "Condition_locationUsed c locationId \<longleftrightarrow> c_conditionType c < NumConditionTypes \<and>
     conditionUsesLocationArg (c_conditionType c) \<and> unat (c_locationId c) = locationId"

definition Condition_markUsedLocations :: "Condition \<Rightarrow> (nat \<Rightarrow> bool) \<Rightarrow> nat \<Rightarrow> bool" where
  "Condition_markUsedLocations c locationIdUsed =
    (if c_conditionType c < NumConditionTypes \<and> conditionUsesLocationArg (c_conditionType c)
     then markField (TotalLocations + 1) (c_locationId c) locationIdUsed else locationIdUsed)"

definition Condition_remapLocationIds :: "(nat \<rightharpoonup> nat) \<Rightarrow> Condition \<Rightarrow> Condition" where
  "Condition_remapLocationIds m c =
    (if c_conditionType c < NumConditionTypes \<and> conditionUsesLocationArg (c_conditionType c)
     then c\<lparr>c_locationId := remapField m (c_locationId c)\<rparr> else c)"

definition Condition_deleteLocation :: "nat \<Rightarrow> Condition \<Rightarrow> Condition" where
  "Condition_deleteLocation locationId c =
    (if c_conditionType c < NumConditionTypes \<and> conditionUsesLocationArg (c_conditionType c)
     then c\<lparr>c_locationId := clearField locationId (c_locationId c)\<rparr> else c)"

section \<open>Actions\<close>

record Action =
  a_locationId :: u32
  a_stringId :: u32
  a_soundStringId :: u32
  a_time :: u32
  a_group :: u32
  a_number :: u32
  a_type :: u16
  a_actionType :: u8
  a_type2 :: u8
  a_flags :: u8
  a_padding :: u8
  a_maskFlag :: u16

definition Action_blank :: Action where
  "Action_blank = \<lparr>a_locationId = 0, a_stringId = 0, a_soundStringId = 0, a_time = 0, a_group = 0,
     a_number = 0, a_type = 0, a_actionType = 0, a_type2 = 0, a_flags = 0, a_padding = 0, a_maskFlag = 0\<rparr>"

definition Action_isDisabled :: "Action \<Rightarrow> bool" where
  "Action_isDisabled a \<longleftrightarrow> hasFlag (a_flags a) Flags_Disabled"

definition Action_toggleDisabled :: "Action \<Rightarrow> Action" where
  "Action_toggleDisabled a =
    (if hasFlag (a_flags a) Flags_Disabled
     then a\<lparr>a_flags := a_flags a AND Flags_xDisabled\<rparr>
     else a\<lparr>a_flags := a_flags a OR Flags_Disabled\<rparr>)"

definition Action_locationUsed :: "Action \<Rightarrow> nat \<Rightarrow> bool" where
  "Action_locationUsed a locationId \<longleftrightarrow> a_actionType a < NumActionTypes \<and>
     (actionUsesLocationArg (a_actionType a) \<and> unat (a_locationId a) = locationId \<or>
      actionUsesSecondaryLocationArg (a_actionType a) \<and> unat (a_number a) = locationId)"

definition Action_stringUsed :: "u32 \<Rightarrow> Action \<Rightarrow> nat \<Rightarrow> bool" where
  "Action_stringUsed userMask a stringId \<longleftrightarrow> a_actionType a < NumActionTypes \<and>
     (hasFlag userMask TriggerAction \<and> actionUsesStringArg (a_actionType a) \<and> unat (a_stringId a) = stringId \<or>
      hasFlag userMask TriggerActionSound \<and> actionUsesSoundArg (a_actionType a) \<and>
        unat (a_soundStringId a) = stringId)"

definition Action_gameStringUsed :: "u32 \<Rightarrow> Action \<Rightarrow> nat \<Rightarrow> bool" where
  "Action_gameStringUsed userMask a stringId \<longleftrightarrow> a_actionType a < NumActionTypes \<and>
     (hasFlag userMask TriggerAction \<and> actionUsesGameStringArg (a_actionType a) \<and> unat (a_stringId a) = stringId \<or>
      hasFlag userMask TriggerActionSound \<and> actionUsesSoundArg (a_actionType a) \<and>
        unat (a_soundStringId a) = stringId)"

definition Action_commentStringUsed :: "Action \<Rightarrow> nat \<Rightarrow> bool" where
  "Action_commentStringUsed a stringId \<longleftrightarrow>
     a_actionType a = Action_Type_Comment \<and> unat (a_stringId a) = stringId"

definition Action_briefingStringUsed :: "u32 \<Rightarrow> Action \<Rightarrow> nat \<Rightarrow> bool" where
  "Action_briefingStringUsed userMask a stringId \<longleftrightarrow> a_actionType a < NumBriefingActionTypes \<and>
     (hasFlag userMask BriefingTriggerAction \<and> briefingActionUsesStringArg (a_actionType a) \<and>
        unat (a_stringId a) = stringId \<or>
      hasFlag userMask BriefingTriggerActionSound \<and> briefingActionUsesSoundArg (a_actionType a) \<and>
        unat (a_soundStringId a) = stringId)"

definition Action_markUsedLocations :: "Action \<Rightarrow> (nat \<Rightarrow> bool) \<Rightarrow> nat \<Rightarrow> bool" where
  "Action_markUsedLocations a locationIdUsed =
    (if a_actionType a < NumActionTypes then
       let used1 = (if actionUsesLocationArg (a_actionType a)
             then markField (TotalLocations + 1) (a_locationId a) locationIdUsed else locationIdUsed)
       in if actionUsesSecondaryLocationArg (a_actionType a)
          then markField (TotalLocations + 1) (a_number a) used1 else used1
     else locationIdUsed)"

definition Action_markUsedStrings :: "u32 \<Rightarrow> Action \<Rightarrow> (nat \<Rightarrow> bool) \<Rightarrow> nat \<Rightarrow> bool" where
  "Action_markUsedStrings userMask a stringIdUsed =
    (if a_actionType a < NumActionTypes then
       let used1 = (if hasFlag userMask TriggerAction \<and> actionUsesStringArg (a_actionType a)
             then markField MaxStrings (a_stringId a) stringIdUsed else stringIdUsed)
       in if hasFlag userMask TriggerActionSound \<and> actionUsesSoundArg (a_actionType a)
          then markField MaxStrings (a_soundStringId a) used1 else used1
     else stringIdUsed)"

definition Action_markUsedGameStrings :: "u32 \<Rightarrow> Action \<Rightarrow> (nat \<Rightarrow> bool) \<Rightarrow> nat \<Rightarrow> bool" where
  "Action_markUsedGameStrings userMask a stringIdUsed =
    (if a_actionType a < NumActionTypes then
       let used1 = (if hasFlag userMask TriggerAction \<and> actionUsesGameStringArg (a_actionType a)
             then markField MaxStrings (a_stringId a) stringIdUsed else stringIdUsed)
       in if hasFlag userMask TriggerActionSound \<and> actionUsesSoundArg (a_actionType a)
          then markField MaxStrings (a_soundStringId a) used1 else used1
     else stringIdUsed)"

definition Action_markUsedCommentStrings :: "Action \<Rightarrow> (nat \<Rightarrow> bool) \<Rightarrow> nat \<Rightarrow> bool" where
  "Action_markUsedCommentStrings a stringIdUsed =
    (if a_actionType a = Action_Type_Comment then markField MaxStrings (a_stringId a) stringIdUsed
     else stringIdUsed)"

definition Action_markUsedBriefingStrings :: "u32 \<Rightarrow> Action \<Rightarrow> (nat \<Rightarrow> bool) \<Rightarrow> nat \<Rightarrow> bool" where
  "Action_markUsedBriefingStrings userMask a stringIdUsed =
    (if a_actionType a < NumBriefingActionTypes then
       let used1 = (if hasFlag userMask BriefingTriggerAction \<and> briefingActionUsesStringArg (a_actionType a)
             then markField MaxStrings (a_stringId a) stringIdUsed else stringIdUsed)
       in if hasFlag userMask BriefingTriggerActionSound \<and> briefingActionUsesSoundArg (a_actionType a)
          then markField MaxStrings (a_soundStringId a) used1 else used1
     else stringIdUsed)"

text \<open>Both branches look up and overwrite \<open>locationId\<close>, as the code does; \<open>number\<close> is left alone.\<close>

definition Action_remapLocationIds :: "(nat \<rightharpoonup> nat) \<Rightarrow> Action \<Rightarrow> Action" where
  "Action_remapLocationIds m a =
    (if a_actionType a < NumActionTypes then
       let a1 = (if actionUsesLocationArg (a_actionType a)
             then a\<lparr>a_locationId := remapField m (a_locationId a)\<rparr> else a)
       in if actionUsesSecondaryLocationArg (a_actionType a)
          then a1\<lparr>a_locationId := remapField m (a_locationId a1)\<rparr> else a1
     else a)"

definition Action_remapStringIds :: "(nat \<rightharpoonup> nat) \<Rightarrow> Action \<Rightarrow> Action" where
  "Action_remapStringIds m a =
    (if a_actionType a < NumActionTypes then
       let a1 = (if actionUsesStringArg (a_actionType a)
             then a\<lparr>a_stringId := remapField m (a_stringId a)\<rparr> else a)
       in if actionUsesSoundArg (a_actionType a)
          then a1\<lparr>a_soundStringId := remapField m (a_soundStringId a1)\<rparr> else a1
     else a)"

definition Action_remapBriefingStringIds :: "(nat \<rightharpoonup> nat) \<Rightarrow> Action \<Rightarrow> Action" where
  "Action_remapBriefingStringIds m a =
    (if a_actionType a < NumBriefingActionTypes then
       let a1 = (if briefingActionUsesStringArg (a_actionType a)
             then a\<lparr>a_stringId := remapField m (a_stringId a)\<rparr> else a)
       in if briefingActionUsesSoundArg (a_actionType a)
          then a1\<lparr>a_soundStringId := remapField m (a_soundStringId a1)\<rparr> else a1
     else a)"

definition Action_deleteLocation :: "nat \<Rightarrow> Action \<Rightarrow> Action" where
  "Action_deleteLocation locationId a =
    (if a_actionType a < NumActionTypes then
       let a1 = (if actionUsesLocationArg (a_actionType a)
             then a\<lparr>a_locationId := clearField locationId (a_locationId a)\<rparr> else a)
       in if actionUsesSecondaryLocationArg (a_actionType a)
          then a1\<lparr>a_number := clearField locationId (a_number a1)\<rparr> else a1
     else a)"

definition Action_deleteString :: "nat \<Rightarrow> Action \<Rightarrow> Action" where
  "Action_deleteString stringId a =
    (if a_actionType a < NumActionTypes then
       let a1 = (if actionUsesStringArg (a_actionType a)
             then a\<lparr>a_stringId := clearField stringId (a_stringId a)\<rparr> else a)
       in if actionUsesSoundArg (a_actionType a)
          then a1\<lparr>a_soundStringId := clearField stringId (a_soundStringId a1)\<rparr> else a1
     else a)"

definition Action_deleteBriefingString :: "nat \<Rightarrow> Action \<Rightarrow> Action" where
  "Action_deleteBriefingString stringId a =
    (if a_actionType a < NumBriefingActionTypes then
       let a1 = (if briefingActionUsesStringArg (a_actionType a)
             then a\<lparr>a_stringId := clearField stringId (a_stringId a)\<rparr> else a)
       in if briefingActionUsesSoundArg (a_actionType a)
          then a1\<lparr>a_soundStringId := clearField stringId (a_soundStringId a1)\<rparr> else a1
     else a)"

section \<open>Triggers\<close>

record Trigger =
  t_conditions :: "Condition list"
  t_actions :: "Action list"
  t_flags :: u32
  t_owners :: "u8 list"
  t_currentAction :: u8

definition wf_Trigger :: "Trigger \<Rightarrow> bool" where
  "wf_Trigger t \<longleftrightarrow> length (t_conditions t) = MaxConditions \<and> length (t_actions t) = MaxActions \<and>
     length (t_owners t) = MaxOwners"

definition Trigger_condition :: "Trigger \<Rightarrow> nat \<Rightarrow> Condition result" where
  "Trigger_condition t conditionIndex =
    (if conditionIndex < MaxConditions then Inr (t_conditions t ! conditionIndex) else Inl OutOfRange)"

definition Trigger_action :: "Trigger \<Rightarrow> nat \<Rightarrow> Action result" where
  "Trigger_action t actionIndex =
    (if actionIndex < MaxActions then Inr (t_actions t ! actionIndex) else Inl OutOfRange)"

definition Trigger_owned :: "Trigger \<Rightarrow> nat \<Rightarrow> u8 result" where
  "Trigger_owned t ownerIndex =
    (if ownerIndex < MaxOwners then Inr (t_owners t ! ownerIndex) else Inl OutOfRange)"

subsection \<open>Closing gaps\<close>

text \<open>
  \<open>alignConditionsTop\<close> and \<open>alignActionsTop\<close> are the same loop over an array of \<open>n\<close> slots. The
  inner loop copies slot \<open>firstUsedAfter + (j - i)\<close> to slot \<open>j\<close>; a source slot past the end of
  the array is an access outside it.
\<close>

definition align_copy :: "nat \<Rightarrow> nat \<Rightarrow> nat \<Rightarrow> 'a list \<Rightarrow> 'a list result" where
  "align_copy n i firstUsedAfter slots =
    foldl (\<lambda>r j. bind_result r (\<lambda>xs. bind_result (at_unchecked xs (firstUsedAfter + (j - i)))
        (\<lambda>x. Inr (xs[j := x])))) (Inr slots) [i..<n]"

function align_loop :: "nat \<Rightarrow> ('a \<Rightarrow> bool) \<Rightarrow> nat \<Rightarrow> 'a list \<Rightarrow> 'a list result" where
  "align_loop n unused i slots =
    (if i < n then
       if unused (slots ! i) then
         (case find_index (\<lambda>j. \<not> unused (slots ! j)) (i + 1) n of
            Some firstUsedAfter \<Rightarrow>
              bind_result (align_copy n i firstUsedAfter slots) (align_loop n unused (i + 1))
          | None \<Rightarrow> Inr slots)
       else align_loop n unused (i + 1) slots
     else Inr slots)"
  by pat_completeness auto
termination by (relation "measure (\<lambda>(n, _, i, _). n - i)") auto

declare align_loop.simps [simp del]

definition Trigger_alignConditionsTop :: "Trigger \<Rightarrow> Trigger result" where
  "Trigger_alignConditionsTop t =
    bind_result (align_loop MaxConditions (\<lambda>c. c_conditionType c = 0) 0 (t_conditions t))
      (\<lambda>cs. Inr (t\<lparr>t_conditions := cs\<rparr>))"

definition Trigger_alignActionsTop :: "Trigger \<Rightarrow> Trigger result" where
  "Trigger_alignActionsTop t =
    bind_result (align_loop MaxActions (\<lambda>a. a_actionType a = 0) 0 (t_actions t))
      (\<lambda>as. Inr (t\<lparr>t_actions := as\<rparr>))"

definition Trigger_deleteAction :: "nat \<Rightarrow> bool \<Rightarrow> Trigger \<Rightarrow> Trigger result" where
  "Trigger_deleteAction actionIndex alignTop t =
    (if actionIndex < MaxActions then
       let t' = t\<lparr>t_actions := (t_actions t)[actionIndex := Action_blank]\<rparr>
       in if alignTop then Trigger_alignActionsTop t' else Inr t'
     else Inr t)"

definition Trigger_deleteCondition :: "nat \<Rightarrow> bool \<Rightarrow> Trigger \<Rightarrow> Trigger result" where
  "Trigger_deleteCondition conditionIndex alignTop t =
    (if conditionIndex < MaxConditions then
       let t' = t\<lparr>t_conditions := (t_conditions t)[conditionIndex := Condition_blank]\<rparr>
       in if alignTop then Trigger_alignConditionsTop t' else Inr t'
     else Inr t)"

subsection \<open>Execution flags\<close>

definition IgnoreConditionsOnce :: u32 where "IgnoreConditionsOnce = 0x01"
definition IgnoreDefeatDraw :: u32 where "IgnoreDefeatDraw = 0x02"
definition PreserveTrigger :: u32 where "PreserveTrigger = 0x04"
definition TriggerDisabled :: u32 where "TriggerDisabled = 0x08"
definition IgnoreMiscActions :: u32 where "IgnoreMiscActions = 0x10"
definition Paused :: u32 where "Paused = 0x20"
definition IgnoreWaitSkipOnce :: u32 where "IgnoreWaitSkipOnce = 0x40"

definition setTriggerFlag :: "u32 \<Rightarrow> bool \<Rightarrow> Trigger \<Rightarrow> Trigger" where
  "setTriggerFlag flag on t =
    (if on then t\<lparr>t_flags := t_flags t OR flag\<rparr> else t\<lparr>t_flags := t_flags t AND NOT flag\<rparr>)"

definition Trigger_preserveTriggerFlagged :: "Trigger \<Rightarrow> bool" where
  "Trigger_preserveTriggerFlagged t \<longleftrightarrow> hasFlag (t_flags t) PreserveTrigger"
definition Trigger_disabled :: "Trigger \<Rightarrow> bool" where
  "Trigger_disabled t \<longleftrightarrow> hasFlag (t_flags t) TriggerDisabled"
definition Trigger_ignoreConditionsOnce :: "Trigger \<Rightarrow> bool" where
  "Trigger_ignoreConditionsOnce t \<longleftrightarrow> hasFlag (t_flags t) IgnoreConditionsOnce"
definition Trigger_ignoreWaitSkipOnce :: "Trigger \<Rightarrow> bool" where
  "Trigger_ignoreWaitSkipOnce t \<longleftrightarrow> hasFlag (t_flags t) IgnoreWaitSkipOnce"
definition Trigger_ignoreMiscActionsOnce :: "Trigger \<Rightarrow> bool" where
  "Trigger_ignoreMiscActionsOnce t \<longleftrightarrow> hasFlag (t_flags t) IgnoreMiscActions"
definition Trigger_ignoreDefeatDraw :: "Trigger \<Rightarrow> bool" where
  "Trigger_ignoreDefeatDraw t \<longleftrightarrow> hasFlag (t_flags t) IgnoreDefeatDraw"
definition Trigger_pauseFlagged :: "Trigger \<Rightarrow> bool" where
  "Trigger_pauseFlagged t \<longleftrightarrow> hasFlag (t_flags t) Paused"

definition Trigger_setPreserveTriggerFlagged :: "bool \<Rightarrow> Trigger \<Rightarrow> Trigger" where
  "Trigger_setPreserveTriggerFlagged = setTriggerFlag PreserveTrigger"
definition Trigger_setDisabled :: "bool \<Rightarrow> Trigger \<Rightarrow> Trigger" where
  "Trigger_setDisabled = setTriggerFlag TriggerDisabled"
definition Trigger_setIgnoreConditionsOnce :: "bool \<Rightarrow> Trigger \<Rightarrow> Trigger" where
  "Trigger_setIgnoreConditionsOnce = setTriggerFlag IgnoreConditionsOnce"
definition Trigger_setIgnoreWaitSkipOnce :: "bool \<Rightarrow> Trigger \<Rightarrow> Trigger" where
  "Trigger_setIgnoreWaitSkipOnce = setTriggerFlag IgnoreWaitSkipOnce"
definition Trigger_setIgnoreMiscActionsOnce :: "bool \<Rightarrow> Trigger \<Rightarrow> Trigger" where
  "Trigger_setIgnoreMiscActionsOnce = setTriggerFlag IgnoreMiscActions"
definition Trigger_setIgnoreDefeatDraw :: "bool \<Rightarrow> Trigger \<Rightarrow> Trigger" where
  "Trigger_setIgnoreDefeatDraw = setTriggerFlag IgnoreDefeatDraw"
definition Trigger_setPauseFlagged :: "bool \<Rightarrow> Trigger \<Rightarrow> Trigger" where
  "Trigger_setPauseFlagged = setTriggerFlag Paused"

subsection \<open>The index of the extended data\<close>

text \<open>\<open>(u32 &)owners[22]\<close> read and written.\<close>

definition owners_u32 :: "u8 list \<Rightarrow> u32" where
  "owners_u32 os = ucast (os ! 22) OR push_bit 8 (ucast (os ! 23)) OR push_bit 16 (ucast (os ! 24))
     OR push_bit 24 (ucast (os ! 25))"

definition set_owners_u32 :: "u32 \<Rightarrow> u8 list \<Rightarrow> u8 list" where
  "set_owners_u32 w os = os[22 := ucast w, 23 := ucast (drop_bit 8 w), 24 := ucast (drop_bit 16 w),
     25 := ucast (drop_bit 24 w)]"

definition ExtendedTrigDataIndex_None :: nat where "ExtendedTrigDataIndex_None = 0xFFFFFFFF"
definition CheckExtended :: u32 where "CheckExtended = 0xFEFEFEFE"
definition GetIndex :: u32 where "GetIndex = 0x00FFFFFF"
definition MaxIndex :: u32 where "MaxIndex = 0x00FEFEFE"

definition Trigger_getExtendedDataIndex :: "Trigger \<Rightarrow> nat" where
  "Trigger_getExtendedDataIndex t =
    (let possibleExtendedData = owners_u32 (t_owners t) in
     if possibleExtendedData AND CheckExtended > 0 then
       let extendedDataIndex = possibleExtendedData AND GetIndex
       in if extendedDataIndex > 0 then unat extendedDataIndex else ExtendedTrigDataIndex_None
     else ExtendedTrigDataIndex_None)"

definition Trigger_setExtendedDataIndex :: "nat \<Rightarrow> Trigger \<Rightarrow> Trigger result" where
  "Trigger_setExtendedDataIndex extendedDataIndex t =
    (let sized = (of_nat extendedDataIndex :: u32) in
     if sized \<in> {0, 1, 256, 257, 65536, 65537, 65792, 65793} \<or> sized > 0x00FFFFFF \<or> sized > MaxIndex
     then Inl InvalidArgument
     else Inr (t\<lparr>t_owners := set_owners_u32
            ((owners_u32 (t_owners t) AND 0x1010101) OR sized) (t_owners t)\<rparr>))"

definition Trigger_clearExtendedDataIndex :: "Trigger \<Rightarrow> Trigger" where
  "Trigger_clearExtendedDataIndex t = t\<lparr>t_owners := set_owners_u32 0 (t_owners t)\<rparr>"

subsection \<open>Counts, comment, and the ids a trigger uses\<close>

definition Trigger_numUsedConditions :: "Trigger \<Rightarrow> nat" where
  "Trigger_numUsedConditions t = length (filter (\<lambda>c. c_conditionType c \<noteq> 0) (t_conditions t))"

definition Trigger_numUsedActions :: "Trigger \<Rightarrow> nat" where
  "Trigger_numUsedActions t = length (filter (\<lambda>a. a_actionType a \<noteq> 0) (t_actions t))"

definition Trigger_getComment :: "Trigger \<Rightarrow> nat" where
  "Trigger_getComment t =
    (case List.find (\<lambda>a. a_actionType a = Action_Type_Comment \<and> \<not> Action_isDisabled a) (t_actions t) of
       Some a \<Rightarrow> unat (a_stringId a)
     | None \<Rightarrow> NoString)"

definition Trigger_locationUsed :: "Trigger \<Rightarrow> nat \<Rightarrow> bool" where
  "Trigger_locationUsed t locationId \<longleftrightarrow>
    (\<exists>c\<in>set (t_conditions t). Condition_locationUsed c locationId) \<or>
    (\<exists>a\<in>set (t_actions t). Action_locationUsed a locationId)"

definition Trigger_stringUsed :: "u32 \<Rightarrow> Trigger \<Rightarrow> nat \<Rightarrow> bool" where
  "Trigger_stringUsed userMask t stringId \<longleftrightarrow>
    (\<exists>a\<in>set (t_actions t). Action_stringUsed userMask a stringId)"

definition Trigger_gameStringUsed :: "u32 \<Rightarrow> Trigger \<Rightarrow> nat \<Rightarrow> bool" where
  "Trigger_gameStringUsed userMask t stringId \<longleftrightarrow>
    (\<exists>a\<in>set (t_actions t). Action_gameStringUsed userMask a stringId)"

definition Trigger_commentStringUsed :: "Trigger \<Rightarrow> nat \<Rightarrow> bool" where
  "Trigger_commentStringUsed t stringId \<longleftrightarrow>
    (\<exists>a\<in>set (t_actions t). Action_commentStringUsed a stringId)"

definition Trigger_briefingStringUsed :: "u32 \<Rightarrow> Trigger \<Rightarrow> nat \<Rightarrow> bool" where
  "Trigger_briefingStringUsed userMask t stringId \<longleftrightarrow>
    (\<exists>a\<in>set (t_actions t). Action_briefingStringUsed userMask a stringId)"

definition Trigger_markUsedLocations :: "Trigger \<Rightarrow> (nat \<Rightarrow> bool) \<Rightarrow> nat \<Rightarrow> bool" where
  "Trigger_markUsedLocations t locationIdUsed =
    foldl (\<lambda>u a. Action_markUsedLocations a u)
      (foldl (\<lambda>u c. Condition_markUsedLocations c u) locationIdUsed (t_conditions t)) (t_actions t)"

definition Trigger_markUsedStrings :: "u32 \<Rightarrow> Trigger \<Rightarrow> (nat \<Rightarrow> bool) \<Rightarrow> nat \<Rightarrow> bool" where
  "Trigger_markUsedStrings userMask t stringIdUsed =
    foldl (\<lambda>u a. Action_markUsedStrings userMask a u) stringIdUsed (t_actions t)"

definition Trigger_markUsedGameStrings :: "u32 \<Rightarrow> Trigger \<Rightarrow> (nat \<Rightarrow> bool) \<Rightarrow> nat \<Rightarrow> bool" where
  "Trigger_markUsedGameStrings userMask t stringIdUsed =
    foldl (\<lambda>u a. Action_markUsedGameStrings userMask a u) stringIdUsed (t_actions t)"

definition Trigger_markUsedCommentStrings :: "Trigger \<Rightarrow> (nat \<Rightarrow> bool) \<Rightarrow> nat \<Rightarrow> bool" where
  "Trigger_markUsedCommentStrings t stringIdUsed =
    foldl (\<lambda>u a. Action_markUsedCommentStrings a u) stringIdUsed (t_actions t)"

definition Trigger_markUsedBriefingStrings :: "u32 \<Rightarrow> Trigger \<Rightarrow> (nat \<Rightarrow> bool) \<Rightarrow> nat \<Rightarrow> bool" where
  "Trigger_markUsedBriefingStrings userMask t stringIdUsed =
    foldl (\<lambda>u a. Action_markUsedBriefingStrings userMask a u) stringIdUsed (t_actions t)"

definition Trigger_remapLocationIds :: "(nat \<rightharpoonup> nat) \<Rightarrow> Trigger \<Rightarrow> Trigger" where
  "Trigger_remapLocationIds m t = t\<lparr>t_conditions := map (Condition_remapLocationIds m) (t_conditions t),
     t_actions := map (Action_remapLocationIds m) (t_actions t)\<rparr>"

definition Trigger_remapStringIds :: "(nat \<rightharpoonup> nat) \<Rightarrow> Trigger \<Rightarrow> Trigger" where
  "Trigger_remapStringIds m t = t\<lparr>t_actions := map (Action_remapStringIds m) (t_actions t)\<rparr>"

definition Trigger_remapBriefingStringIds :: "(nat \<rightharpoonup> nat) \<Rightarrow> Trigger \<Rightarrow> Trigger" where
  "Trigger_remapBriefingStringIds m t = t\<lparr>t_actions := map (Action_remapBriefingStringIds m) (t_actions t)\<rparr>"

definition Trigger_deleteLocation :: "nat \<Rightarrow> Trigger \<Rightarrow> Trigger" where
  "Trigger_deleteLocation locationId t =
    t\<lparr>t_conditions := map (Condition_deleteLocation locationId) (t_conditions t),
      t_actions := map (Action_deleteLocation locationId) (t_actions t)\<rparr>"

definition Trigger_deleteString :: "nat \<Rightarrow> Trigger \<Rightarrow> Trigger" where
  "Trigger_deleteString stringId t = t\<lparr>t_actions := map (Action_deleteString stringId) (t_actions t)\<rparr>"

definition Trigger_deleteBriefingString :: "nat \<Rightarrow> Trigger \<Rightarrow> Trigger" where
  "Trigger_deleteBriefingString stringId t =
    t\<lparr>t_actions := map (Action_deleteBriefingString stringId) (t_actions t)\<rparr>"

section \<open>The ids a trigger refers to\<close>

definition Condition_locations :: "Condition \<Rightarrow> nat set" where
  "Condition_locations c =
    (if c_conditionType c < NumConditionTypes \<and> conditionUsesLocationArg (c_conditionType c)
     then {unat (c_locationId c)} else {})"

definition Action_locations :: "Action \<Rightarrow> nat set" where
  "Action_locations a = {i. Action_locationUsed a i}"

definition Action_strings :: "u32 \<Rightarrow> Action \<Rightarrow> nat set" where
  "Action_strings userMask a = {i. Action_stringUsed userMask a i}"

definition Action_gameStrings :: "u32 \<Rightarrow> Action \<Rightarrow> nat set" where
  "Action_gameStrings userMask a = {i. Action_gameStringUsed userMask a i}"

definition Action_comments :: "Action \<Rightarrow> nat set" where
  "Action_comments a = {i. Action_commentStringUsed a i}"

definition Action_briefingStrings :: "u32 \<Rightarrow> Action \<Rightarrow> nat set" where
  "Action_briefingStrings userMask a = {i. Action_briefingStringUsed userMask a i}"

lemmas action_defs = Action_locations_def Action_strings_def Action_gameStrings_def Action_comments_def
  Action_briefingStrings_def Action_locationUsed_def Action_stringUsed_def Action_gameStringUsed_def
  Action_commentStringUsed_def Action_briefingStringUsed_def Action_markUsedLocations_def
  Action_markUsedStrings_def Action_markUsedGameStrings_def Action_markUsedCommentStrings_def
  Action_markUsedBriefingStrings_def Action_remapStringIds_def Action_remapBriefingStringIds_def
  Action_deleteLocation_def Action_deleteString_def Action_deleteBriefingString_def Let_def

lemma ran_u32: "ran m \<subseteq> {..<MaxStrings} \<Longrightarrow> ran m \<subseteq> {..<2 ^ LENGTH(32)}"
  by (auto simp: MaxStrings_def)

lemma ran_location_u32: "ran m \<subseteq> {..<TotalLocations + 1} \<Longrightarrow> ran m \<subseteq> {..<2 ^ LENGTH(32)}"
  by (auto simp: TotalLocations_def)

text \<open>Every game string argument is a string argument; a comment is a string that is not a game string.\<close>

lemma game_string_arg: "actionUsesGameStringArg t \<Longrightarrow> actionUsesStringArg t"
  by (auto simp: actionUsesGameStringArg_def actionUsesStringArg_def)

lemma comment_string_arg:
  "actionUsesStringArg Action_Type_Comment" "Action_Type_Comment < NumActionTypes"
  "\<not> actionUsesSoundArg Action_Type_Comment"
  by (simp_all add: actionUsesStringArg_def Action_Type_Comment_def NumActionTypes_def actionUsesSoundArg_def)

interpretation cond_loc: id_remapper "TotalLocations + 1" "\<lambda>_. True" Condition_locations Condition_locationUsed
    Condition_markUsedLocations Condition_deleteLocation Condition_remapLocationIds
proof unfold_locales
  fix m :: "nat \<rightharpoonup> nat" and c
  assume "ran m \<subseteq> {..<TotalLocations + 1}"
  then show "Condition_locations (Condition_remapLocationIds m c) = renumber m ` Condition_locations c"
    using ran_location_u32 [of m]
    by (simp add: Condition_locations_def Condition_remapLocationIds_def unat_remapField)
qed (auto simp: Condition_locations_def Condition_locationUsed_def Condition_markUsedLocations_def
    Condition_deleteLocation_def markField_iff unat_clearField)

interpretation act_loc: id_user "TotalLocations + 1" "\<lambda>_. True" Action_locations Action_locationUsed
    Action_markUsedLocations Action_deleteLocation
  by unfold_locales (auto simp: action_defs markField_iff unat_clearField)

interpretation act_str: id_remapper MaxStrings "\<lambda>_. True" "Action_strings userMask"
    "Action_stringUsed userMask" "Action_markUsedStrings userMask" Action_deleteString Action_remapStringIds
  for userMask
proof unfold_locales
  fix m :: "nat \<rightharpoonup> nat" and a
  assume "ran m \<subseteq> {..<MaxStrings}"
  then show "Action_strings userMask (Action_remapStringIds m a) = renumber m ` Action_strings userMask a"
    by (auto simp: action_defs unat_remapField [OF ran_u32])
qed (auto simp: action_defs markField_iff unat_clearField)

interpretation act_game: id_remapper MaxStrings "\<lambda>_. True" "Action_gameStrings userMask"
    "Action_gameStringUsed userMask" "Action_markUsedGameStrings userMask" Action_deleteString Action_remapStringIds
  for userMask
proof unfold_locales
  fix m :: "nat \<rightharpoonup> nat" and a
  assume "ran m \<subseteq> {..<MaxStrings}"
  then show "Action_gameStrings userMask (Action_remapStringIds m a) = renumber m ` Action_gameStrings userMask a"
    by (auto simp: action_defs unat_remapField [OF ran_u32] dest: game_string_arg)
qed (auto simp: action_defs markField_iff unat_clearField dest: game_string_arg)

interpretation act_comment: id_remapper MaxStrings "\<lambda>_. True" Action_comments
    Action_commentStringUsed Action_markUsedCommentStrings Action_deleteString Action_remapStringIds
proof unfold_locales
  fix m :: "nat \<rightharpoonup> nat" and a
  assume "ran m \<subseteq> {..<MaxStrings}"
  then show "Action_comments (Action_remapStringIds m a) = renumber m ` Action_comments a"
    by (auto simp: action_defs unat_remapField [OF ran_u32] comment_string_arg)
qed (auto simp: action_defs markField_iff unat_clearField comment_string_arg)

interpretation act_brief: id_remapper MaxStrings "\<lambda>_. True" "Action_briefingStrings userMask"
    "Action_briefingStringUsed userMask" "Action_markUsedBriefingStrings userMask"
    Action_deleteBriefingString Action_remapBriefingStringIds
  for userMask
proof unfold_locales
  fix m :: "nat \<rightharpoonup> nat" and a
  assume "ran m \<subseteq> {..<MaxStrings}"
  then show "Action_briefingStrings userMask (Action_remapBriefingStringIds m a) =
      renumber m ` Action_briefingStrings userMask a"
    by (auto simp: action_defs unat_remapField [OF ran_u32])
qed (auto simp: action_defs markField_iff unat_clearField)

text \<open>The same laws for a trigger, from those of its conditions and actions.\<close>

definition Trigger_locations :: "Trigger \<Rightarrow> nat set" where
  "Trigger_locations t = (\<Union>c\<in>set (t_conditions t). Condition_locations c) \<union>
     (\<Union>a\<in>set (t_actions t). Action_locations a)"

definition Trigger_strings :: "u32 \<Rightarrow> Trigger \<Rightarrow> nat set" where
  "Trigger_strings userMask t = (\<Union>a\<in>set (t_actions t). Action_strings userMask a)"

definition Trigger_gameStrings :: "u32 \<Rightarrow> Trigger \<Rightarrow> nat set" where
  "Trigger_gameStrings userMask t = (\<Union>a\<in>set (t_actions t). Action_gameStrings userMask a)"

definition Trigger_comments :: "Trigger \<Rightarrow> nat set" where
  "Trigger_comments t = (\<Union>a\<in>set (t_actions t). Action_comments a)"

definition Trigger_briefingStrings :: "u32 \<Rightarrow> Trigger \<Rightarrow> nat set" where
  "Trigger_briefingStrings userMask t = (\<Union>a\<in>set (t_actions t). Action_briefingStrings userMask a)"

lemmas trigger_defs = Trigger_locations_def Trigger_strings_def Trigger_gameStrings_def Trigger_comments_def
  Trigger_briefingStrings_def Trigger_locationUsed_def Trigger_stringUsed_def Trigger_gameStringUsed_def
  Trigger_commentStringUsed_def Trigger_briefingStringUsed_def Trigger_markUsedLocations_def
  Trigger_markUsedStrings_def Trigger_markUsedGameStrings_def Trigger_markUsedCommentStrings_def
  Trigger_markUsedBriefingStrings_def Trigger_remapLocationIds_def Trigger_remapStringIds_def
  Trigger_remapBriefingStringIds_def Trigger_deleteLocation_def Trigger_deleteString_def
  Trigger_deleteBriefingString_def

lemma Trigger_locations_delete:
  assumes "0 < i" "i < TotalLocations + 1"
  shows "Trigger_locations (Trigger_deleteLocation i t) - {0} = Trigger_locations t - {0, i}"
  using id_user.refs_delete [OF cond_loc.lift_list _ assms, of "t_conditions t"]
    id_user.refs_delete [OF act_loc.lift_list _ assms, of "t_actions t"]
  by (simp add: trigger_defs Un_Diff)

interpretation trigger_loc: id_user "TotalLocations + 1" "\<lambda>_. True" Trigger_locations Trigger_locationUsed
    Trigger_markUsedLocations Trigger_deleteLocation
proof unfold_locales
  fix t u i
  show "Trigger_markUsedLocations t u i \<longleftrightarrow>
      u i \<or> (0 < i \<and> i < TotalLocations + 1 \<and> i \<in> Trigger_locations t)"
    using id_user.mark_iff [OF cond_loc.lift_list, of "t_conditions t"]
      id_user.mark_iff [OF act_loc.lift_list, of "t_actions t"]
    by (auto simp: trigger_defs)
next
  fix t i
  assume "0 < i" "i < TotalLocations + 1"
  then show "Trigger_locationUsed t i \<longleftrightarrow> i \<in> Trigger_locations t"
    by (auto simp: Trigger_locations_def Trigger_locationUsed_def cond_loc.used_iff act_loc.used_iff)
qed (simp_all add: Trigger_locations_delete)

interpretation trigger_str: id_remapper MaxStrings "\<lambda>_. True" "Trigger_strings userMask"
    "Trigger_stringUsed userMask" "Trigger_markUsedStrings userMask" Trigger_deleteString Trigger_remapStringIds
  for userMask
  using act_str.lift_list_remap [of userMask]
  by (auto simp: id_remapper_def id_user_def id_remapper_axioms_def trigger_defs)

interpretation trigger_game: id_remapper MaxStrings "\<lambda>_. True" "Trigger_gameStrings userMask"
    "Trigger_gameStringUsed userMask" "Trigger_markUsedGameStrings userMask" Trigger_deleteString Trigger_remapStringIds
  for userMask
  using act_game.lift_list_remap [of userMask]
  by (auto simp: id_remapper_def id_user_def id_remapper_axioms_def trigger_defs)

interpretation trigger_comment: id_remapper MaxStrings "\<lambda>_. True" Trigger_comments
    Trigger_commentStringUsed Trigger_markUsedCommentStrings Trigger_deleteString Trigger_remapStringIds
  using act_comment.lift_list_remap
  by (auto simp: id_remapper_def id_user_def id_remapper_axioms_def trigger_defs)

interpretation trigger_brief: id_remapper MaxStrings "\<lambda>_. True" "Trigger_briefingStrings userMask"
    "Trigger_briefingStringUsed userMask" "Trigger_markUsedBriefingStrings userMask"
    Trigger_deleteBriefingString Trigger_remapBriefingStringIds
  for userMask
  using act_brief.lift_list_remap [of userMask]
  by (auto simp: id_remapper_def id_user_def id_remapper_axioms_def trigger_defs)


section \<open>Properties\<close>

text \<open>
  What \<open>Trigger::markUsedLocations\<close> marks is exactly what \<open>Trigger::locationUsed\<close> finds, and
  after \<open>Trigger::deleteLocation\<close> the location is no longer used while every other location is
  used exactly where it was.
\<close>

lemma Trigger_deleteLocation_spec:
  assumes "0 < i" "i \<le> TotalLocations"
  shows "(\<forall>u. Trigger_markUsedLocations t u i = (u i \<or> Trigger_locationUsed t i)) \<and>
    \<not> Trigger_locationUsed (Trigger_deleteLocation i t) i \<and>
    (\<forall>j. 0 < j \<and> j \<le> TotalLocations \<and> j \<noteq> i \<longrightarrow>
       Trigger_locationUsed (Trigger_deleteLocation i t) j = Trigger_locationUsed t j)"
  using assms by (simp add: trigger_loc.mark_used trigger_loc.not_used_delete trigger_loc.used_delete_other)

definition example_trigger :: Trigger where
  "example_trigger = \<lparr>
     t_conditions = Condition_blank\<lparr>c_conditionType := 3, c_locationId := 5\<rparr> # replicate 15 Condition_blank,
     t_actions = Action_blank\<lparr>a_actionType := 39, a_locationId := 5, a_number := 7\<rparr> #
       replicate 63 Action_blank,
     t_flags = 0, t_owners = replicate 27 0, t_currentAction = 0\<rparr>"

lemma Trigger_deleteLocation_spec_witness:
  "Trigger_locationUsed example_trigger 5 \<and>
   \<not> Trigger_locationUsed (Trigger_deleteLocation 5 example_trigger) 5 \<and>
   Trigger_locationUsed (Trigger_deleteLocation 5 example_trigger) 7"
proof -
  have "Trigger_locationUsed example_trigger 5" "Trigger_locationUsed example_trigger 7"
    by (simp_all add: Trigger_locationUsed_def example_trigger_def Condition_locationUsed_def
        Action_locationUsed_def NumConditionTypes_def NumActionTypes_def conditionUsesLocationArg_def
        actionUsesSecondaryLocationArg_def)
  then show ?thesis
    using Trigger_deleteLocation_spec [of 5 example_trigger] by (simp add: TotalLocations_def)
qed

text \<open>
  C25. Renumbering the strings of a trigger moves every use: after \<open>Trigger::remapStringIds\<close> with a
  map into valid string ids, a string id is used exactly when it is the new number of an id that
  an action referred to before.
\<close>

theorem Trigger_remapStringIds_spec:
  assumes "ran m \<subseteq> {..<MaxStrings}" "0 < j" "j < MaxStrings"
  shows "Trigger_stringUsed userMask (Trigger_remapStringIds m t) j \<longleftrightarrow>
    (\<exists>i. Trigger_stringUsed userMask t i \<and> renumber m i = j)"
  using trigger_str.used_remap [OF _ assms]
  by (auto simp: Trigger_strings_def Trigger_stringUsed_def Action_strings_def)

theorem Trigger_remapStringIds_spec_witness:
  "\<exists>t. Trigger_stringUsed AnyTrigger t 3 \<and> Trigger_stringUsed AnyTrigger (Trigger_remapStringIds [3 \<mapsto> 9] t) 9"
proof -
  let ?t = "example_trigger\<lparr>t_actions := [Action_blank\<lparr>a_actionType := 9, a_stringId := 3\<rparr>]\<rparr>"
  have u: "Trigger_stringUsed AnyTrigger ?t 3"
    by (simp add: Trigger_stringUsed_def Action_stringUsed_def NumActionTypes_def actionUsesStringArg_def
        AnyTrigger_def TriggerAction_def hasFlag_def)
  have r: "ran [3 \<mapsto> (9::nat)] \<subseteq> {..<MaxStrings}" by (simp add: MaxStrings_def)
  have "Trigger_stringUsed AnyTrigger (Trigger_remapStringIds [3 \<mapsto> 9] ?t) 9"
    using u Trigger_remapStringIds_spec [OF r, of 9 AnyTrigger ?t] by (force simp: MaxStrings_def)
  with u show ?thesis by blast
qed

text \<open>
  \<open>Action::remapLocationIds\<close> never renumbers the second location of an action: for the action
  types that have one (move location, move unit, order) the destination keeps its old id, and the
  first location is looked up in the map twice.
\<close>

lemma Action_remapLocationIds_second_kept:
  assumes "actionUsesSecondaryLocationArg (a_actionType a)"
  shows "a_number (Action_remapLocationIds m a) = a_number a \<and>
    a_locationId (Action_remapLocationIds m a) = remapField m (remapField m (a_locationId a))"
  using assms
  by (auto simp: Action_remapLocationIds_def actionUsesSecondaryLocationArg_def actionUsesLocationArg_def
      NumActionTypes_def Let_def)

lemma Action_remapLocationIds_second_kept_witness:
  "\<exists>a. Action_locationUsed a 7 \<and> Action_locationUsed (Action_remapLocationIds [7 \<mapsto> 8] a) 7"
proof -
  let ?a = "Action_blank\<lparr>a_actionType := 39, a_locationId := 5, a_number := 7\<rparr>"
  have s: "actionUsesSecondaryLocationArg (a_actionType ?a)" by (simp add: actionUsesSecondaryLocationArg_def)
  have "Action_locationUsed ?a 7"
    by (simp add: Action_locationUsed_def NumActionTypes_def actionUsesSecondaryLocationArg_def)
  moreover have "Action_locationUsed (Action_remapLocationIds [7 \<mapsto> 8] ?a) 7"
    using Action_remapLocationIds_second_kept [OF s, of "[7 \<mapsto> 8]"]
    by (simp add: Action_locationUsed_def NumActionTypes_def actionUsesSecondaryLocationArg_def
        Action_remapLocationIds_def Let_def)
  ultimately show ?thesis by blast
qed

subsection \<open>Closing gaps reads outside the array\<close>

lemma align_copy_errors:
  "length slots = n \<Longrightarrow> (case foldl (\<lambda>r j. bind_result r (\<lambda>xs. bind_result (at_unchecked xs (first + (j - i)))
        (\<lambda>x. Inr (xs[j := x])))) (Inr slots) js of
      Inl e \<Rightarrow> e = UndefinedBehavior
    | Inr xs \<Rightarrow> length xs = n)"
  by (induction js rule: rev_induct) (auto simp: at_unchecked_def split: sum.splits)

lemma align_copy_undefined:
  assumes "length slots = n" "i < first" "i < n"
  shows "align_copy n i first slots = Inl UndefinedBehavior"
proof -
  have "[i..<n] = [i..<n - 1] @ [n - 1]" using assms upt_Suc_append [of i "n - 1"] by simp
  moreover have "n \<le> first + (n - 1 - i)" using assms by simp
  ultimately show ?thesis
    using align_copy_errors [OF assms(1), of first i "[i..<n - 1]"]
    by (auto simp: align_copy_def at_unchecked_def split: sum.splits)
qed

definition has_gap :: "('a \<Rightarrow> bool) \<Rightarrow> nat \<Rightarrow> 'a list \<Rightarrow> bool" where
  "has_gap unused i slots \<longleftrightarrow> (\<exists>j k. i \<le> j \<and> j < k \<and> k < length slots \<and> unused (slots ! j) \<and> \<not> unused (slots ! k))"

lemma has_gap_Suc:
  "\<not> unused (slots ! i) \<Longrightarrow> has_gap unused (Suc i) slots = has_gap unused i slots"
  unfolding has_gap_def by (metis Suc_leD Suc_le_eq le_neq_implies_less)

lemma align_loop_result:
  "length slots = n \<Longrightarrow> align_loop n unused i slots =
    (if has_gap unused i slots then Inl UndefinedBehavior else Inr slots)"
proof (induction n unused i slots rule: align_loop.induct)
  case (1 n unused i slots)
  show ?case
  proof (cases "i < n \<and> unused (slots ! i)")
    case False
    show ?thesis
    proof (cases "i < n")
      case True
      then show ?thesis using 1 False has_gap_Suc [of unused slots i] by (subst align_loop.simps) simp
    next
      case ge: False
      then have "\<not> has_gap unused i slots" using "1.prems" by (auto simp: has_gap_def)
      then show ?thesis using ge by (subst align_loop.simps) simp
    qed
  next
    case True
    show ?thesis
    proof (cases "find_index (\<lambda>j. \<not> unused (slots ! j)) (i + 1) n")
      case None
      then have all: "\<And>k. i < k \<Longrightarrow> k < n \<Longrightarrow> unused (slots ! k)" by (simp add: find_index_None)
      have "\<not> has_gap unused i slots"
        unfolding has_gap_def using all "1.prems" by (meson le_less_trans)
      then show ?thesis using None True by (subst align_loop.simps) simp
    next
      case (Some first)
      then have f: "i < first" "first < n" "\<not> unused (slots ! first)"
        using find_index_Some [OF Some] by simp_all
      then have "has_gap unused i slots" using True "1.prems" unfolding has_gap_def by blast
      then show ?thesis using Some True f "1.prems" align_copy_undefined [of slots n i first]
        by (subst align_loop.simps) simp
    qed
  qed
qed

text \<open>
  \<open>alignConditionsTop\<close> and \<open>alignActionsTop\<close>, on every trigger. Where the used slots come
  first they change nothing. Where an unused slot precedes a used one, the case they are for,
  the copy loop runs past the end of the array.
\<close>

lemma Trigger_align_spec:
  assumes "wf_Trigger t"
  shows "Trigger_alignConditionsTop t =
      (if has_gap (\<lambda>c. c_conditionType c = 0) 0 (t_conditions t) then Inl UndefinedBehavior else Inr t) \<and>
    Trigger_alignActionsTop t =
      (if has_gap (\<lambda>a. a_actionType a = 0) 0 (t_actions t) then Inl UndefinedBehavior else Inr t)"
  using assms
  by (simp add: wf_Trigger_def Trigger_alignConditionsTop_def Trigger_alignActionsTop_def align_loop_result)

lemma Trigger_align_spec_witness:
  "\<exists>t. wf_Trigger t \<and> Trigger_deleteAction 0 True t = Inl UndefinedBehavior"
proof -
  let ?a = "Action_blank\<lparr>a_actionType := 1\<rparr>"
  let ?t = "example_trigger\<lparr>t_actions := ?a # ?a # replicate 62 Action_blank\<rparr>"
  let ?t' = "?t\<lparr>t_actions := (t_actions ?t)[0 := Action_blank]\<rparr>"
  have wf: "wf_Trigger ?t" "wf_Trigger ?t'"
    by (simp_all add: wf_Trigger_def example_trigger_def MaxConditions_def MaxActions_def MaxOwners_def)
  have "has_gap (\<lambda>a. a_actionType a = 0) 0 (t_actions ?t')"
    unfolding has_gap_def by (rule exI [of _ 0], rule exI [of _ 1]) (simp add: Action_blank_def)
  then have "Trigger_alignActionsTop ?t' = Inl UndefinedBehavior"
    using Trigger_align_spec [OF wf(2)] by simp
  then have "Trigger_deleteAction 0 True ?t = Inl UndefinedBehavior"
    by (simp add: Trigger_deleteAction_def MaxActions_def Let_def)
  with wf(1) show ?thesis by blast
qed

subsection \<open>The index of the extended data\<close>

lemma owners_u32_set: "length os = MaxOwners \<Longrightarrow> owners_u32 (set_owners_u32 w os) = w"
proof (rule bit_eqI)
  fix n
  assume len: "length os = MaxOwners" and "possible_bit TYPE(32 word) n"
  then have "n < 32" by (simp add: possible_bit_def)
  then consider "n < 8" | "8 \<le> n" "n < 16" | "16 \<le> n" "n < 24" | "24 \<le> n" "n < 32" by linarith
  then show "bit (owners_u32 (set_owners_u32 w os)) n = bit w n"
    using len by cases (auto simp: owners_u32_def set_owners_u32_def MaxOwners_def bit_simps)
qed

lemma and_exp: "(x :: u32) AND 2 ^ n = (if bit x n then 2 ^ n else 0)"
  by (rule bit_eqI) (auto simp: bit_simps)

lemma valid_index_bits:
  fixes x :: u32
  assumes "x \<le> 0xFFFFFF" "x AND CheckExtended = 0"
  shows "x \<in> {0, 1, 256, 257, 65536, 65537, 65792, 65793}"
proof -
  have m: "CheckExtended OR (2 ^ 0 OR 2 ^ 8 OR 2 ^ 16 OR 2 ^ 24) = - 1" by (simp add: CheckExtended_def)
  have "x < 2 ^ 24" using assms(1) by (simp add: word_le_nat_alt word_less_nat_alt)
  then have "\<not> bit x 24" by (simp add: bit_iff_odd div_word_less)
  then have z: "x AND 2 ^ 24 = 0" by (simp only: and_exp if_False)
  have "x = x AND (CheckExtended OR (2 ^ 0 OR 2 ^ 8 OR 2 ^ 16 OR 2 ^ 24))" unfolding m by simp
  also have "\<dots> = (x AND 2 ^ 0) OR (x AND 2 ^ 8) OR (x AND 2 ^ 16)"
    using assms(2) z by (simp only: bit.conj_disj_distrib or.left_neutral or.right_neutral)
  finally have x: "x = (x AND 2 ^ 0) OR (x AND 2 ^ 8) OR (x AND 2 ^ 16)" .
  show ?thesis
    by (subst x, simp only: and_exp, cases "bit x 0"; cases "bit x 8"; cases "bit x 16") simp_all
qed

lemma extendedDataIndex_after_set:
  assumes "wf_Trigger t" "Trigger_setExtendedDataIndex i t = Inr t'" "i < 2 ^ 32"
  shows "Trigger_getExtendedDataIndex t' = unat ((owners_u32 (t_owners t) AND 0x010101) OR of_nat i) \<and>
    (owners_u32 (t_owners t) AND 0x010101 = 0 \<longrightarrow> Trigger_getExtendedDataIndex t' = i)"
proof -
  let ?i = "of_nat i :: u32" and ?o = "owners_u32 (t_owners t)"
  have v: "?i \<notin> {0, 1, 256, 257, 65536, 65537, 65792, 65793}" "?i \<le> 0x00FFFFFF"
    and t': "t' = t\<lparr>t_owners := set_owners_u32 ((?o AND 0x1010101) OR ?i) (t_owners t)\<rparr>"
    using assms(2) by (auto simp: Trigger_setExtendedDataIndex_def Let_def split: if_splits)
  have ext: "?i AND CheckExtended \<noteq> 0" using v valid_index_bits by blast
  have own: "owners_u32 (t_owners t') = (?o AND 0x1010101) OR ?i"
    using assms(1) by (simp add: t' owners_u32_set wf_Trigger_def)
  have c0: "(0x1010101 :: u32) AND CheckExtended = 0" "(0x1010101 :: u32) AND GetIndex = 0x010101"
    by (simp_all add: CheckExtended_def GetIndex_def)
  have chk: "owners_u32 (t_owners t') AND CheckExtended = ?i AND CheckExtended"
    using c0 by (simp only: own bit.conj_disj_distrib2 and.assoc bit.conj_zero_right or.left_neutral)
  have "?i < 2 ^ 24" using v(2) by (simp add: word_le_nat_alt word_less_nat_alt)
  then have "take_bit 24 ?i = ?i" by (simp add: take_bit_eq_mod mod_word_less)
  moreover have "GetIndex = mask 24" by (simp add: GetIndex_def mask_eq_exp_minus_1)
  ultimately have i: "?i AND GetIndex = ?i" by (simp only: take_bit_eq_mask)
  have idx: "owners_u32 (t_owners t') AND GetIndex = (?o AND 0x010101) OR ?i"
    using c0 i by (simp only: own bit.conj_disj_distrib2 and.assoc)
  have "(?o AND 0x010101) OR ?i \<noteq> 0"
    using ext by (metis and.left_neutral bit.conj_zero_left or_eq_0_iff word_and_max)
  then have "Trigger_getExtendedDataIndex t' = unat ((?o AND 0x010101) OR ?i)"
    using ext by (simp add: Trigger_getExtendedDataIndex_def Let_def chk idx word_gt_0)
  moreover have "unat ?i = i" using assms(3) by (simp add: unat_of_nat)
  ultimately show ?thesis by simp
qed

text \<open>
  The index \<open>Trigger::getExtendedDataIndex\<close> reads after \<open>Trigger::setExtendedDataIndex\<close>
  accepted one: the index that was set, with the low bits of the three owner bytes it shares
  mixed in. Where those bits are clear it is the index that was set. Every rejected index leaves
  the trigger as it was, by throwing.
\<close>

lemma Trigger_extendedDataIndex_roundtrip:
  assumes "wf_Trigger t" "Trigger_setExtendedDataIndex i t = Inr t'" "i < 2 ^ 32"
  shows "Trigger_getExtendedDataIndex t' = unat ((owners_u32 (t_owners t) AND 0x010101) OR of_nat i) \<and>
    (owners_u32 (t_owners t) AND 0x010101 = 0 \<longrightarrow> Trigger_getExtendedDataIndex t' = i)"
  using extendedDataIndex_after_set [OF assms] .

text \<open>Setting a second index without clearing the first one gives neither when the first is odd.\<close>

lemma Trigger_extendedDataIndex_roundtrip_witness:
  "\<exists>t1 t2. Trigger_setExtendedDataIndex 3 example_trigger = Inr t1 \<and> Trigger_getExtendedDataIndex t1 = 3 \<and>
     Trigger_setExtendedDataIndex 4 t1 = Inr t2 \<and> Trigger_getExtendedDataIndex t2 = 5"
proof -
  have wf: "wf_Trigger example_trigger"
    by (simp add: wf_Trigger_def example_trigger_def MaxConditions_def MaxActions_def MaxOwners_def)
  have o0: "owners_u32 (t_owners example_trigger) = 0" by (simp add: owners_u32_def example_trigger_def)
  obtain t1 where t1: "Trigger_setExtendedDataIndex 3 example_trigger = Inr t1"
    by (simp add: Trigger_setExtendedDataIndex_def MaxIndex_def)
  have g1: "Trigger_getExtendedDataIndex t1 = 3"
    using Trigger_extendedDataIndex_roundtrip [OF wf t1] o0 by simp
  have t1': "t1 = example_trigger\<lparr>t_owners := set_owners_u32 3 (t_owners example_trigger)\<rparr>"
    using t1 o0 by (simp add: Trigger_setExtendedDataIndex_def MaxIndex_def)
  have wf1: "wf_Trigger t1" using wf by (simp add: t1' wf_Trigger_def set_owners_u32_def)
  have o1: "owners_u32 (t_owners t1) = 3" using wf by (simp add: t1' owners_u32_set wf_Trigger_def)
  obtain t2 where t2: "Trigger_setExtendedDataIndex 4 t1 = Inr t2"
    by (simp add: Trigger_setExtendedDataIndex_def MaxIndex_def)
  have "Trigger_getExtendedDataIndex t2 = 5"
    using Trigger_extendedDataIndex_roundtrip [OF wf1 t2] o1 by simp
  with t1 g1 t2 show ?thesis by blast
qed

end
