(* ===== verification/Structs.thy ===== *)
theory Structs
  imports Triggers
begin

text \<open>
  The structs of \<open>src/MappingCoreLib/Chk.h\<close> as they lie in memory and in a map file: packed,
  little-endian, in declaration order. The code writes an object by writing its bytes and reads
  an array of objects by reading bytes over it; \<open>enc_\<close> and \<open>dec_\<close> are those two casts. The locale
  \<open>struct_codec\<close> is what the list sections use of a struct: its size, and that a struct written
  and read back is the struct.
\<close>

section \<open>Scalars\<close>

definition enc_u8 :: "u8 \<Rightarrow> string" where
  "enc_u8 w = [to_byte (unat w)]"

definition enc_u16 :: "u16 \<Rightarrow> string" where
  "enc_u16 w = [to_byte (unat w), to_byte (unat w div 256)]"

definition enc_u32 :: "u32 \<Rightarrow> string" where
  "enc_u32 w = [to_byte (unat w), to_byte (unat w div 256), to_byte (unat w div 65536), to_byte (unat w div 16777216)]"

definition dec_u8 :: "string \<Rightarrow> nat \<Rightarrow> u8" where
  "dec_u8 bs i = of_nat (byte (bs ! i))"

definition dec_u16 :: "string \<Rightarrow> nat \<Rightarrow> u16" where
  "dec_u16 bs i = of_nat (byte (bs ! i) + 256 * byte (bs ! (i + 1)))"

definition dec_u32 :: "string \<Rightarrow> nat \<Rightarrow> u32" where
  "dec_u32 bs i = of_nat (byte (bs ! i) + 256 * byte (bs ! (i + 1)) + 65536 * byte (bs ! (i + 2))
     + 16777216 * byte (bs ! (i + 3)))"

lemma length_enc_u [simp]: "length (enc_u8 b) = 1" "length (enc_u16 h) = 2" "length (enc_u32 w) = 4"
  by (simp_all add: enc_u8_def enc_u16_def enc_u32_def)

lemma bytes_u32:
  "n mod 256 + 256 * (n div 256 mod 256) + 65536 * (n div 65536 mod 256) + 16777216 * (n div 16777216 mod 256) =
    n mod (4294967296 :: nat)"
proof -
  have "n mod (256 * (256 * (256 * 256))) =
      256 * (256 * (256 * (n div 256 div 256 div 256 mod 256) + n div 256 div 256 mod 256) + n div 256 mod 256)
        + n mod 256"
    by (simp only: mod_mult2_eq)
  moreover have "n div 256 div 256 = n div 65536" "n div 256 div 256 div 256 = n div 16777216"
    by (simp_all add: div_mult2_eq [symmetric])
  ultimately show ?thesis by simp
qed

lemma bytes_u16: "n mod 256 + 256 * (n div 256 mod 256) = n mod (65536 :: nat)"
  using mod_mult2_eq [of n 256 256] by simp

lemma word_of_bytes:
  "word_of_nat (unat b mod 256) = (b :: u8)"
  "word_of_nat (unat h mod 256 + 256 * (unat h div 256 mod 256)) = (h :: u16)"
  "word_of_nat (unat w mod 256 + 256 * (unat w div 256 mod 256) + 65536 * (unat w div 65536 mod 256)
     + 16777216 * (unat w div 16777216 mod 256)) = (w :: u32)"
proof -
  have "unat b < 256" "unat h < 65536" "unat w < 4294967296"
    using unsigned_less [where ?'a = nat, of b] unsigned_less [where ?'a = nat, of h]
      unsigned_less [where ?'a = nat, of w] by simp_all
  then have m: "unat b mod 256 = unat b" "unat h mod 65536 = unat h" "unat w mod 4294967296 = unat w"
    by (simp_all only: mod_less)
  show "word_of_nat (unat b mod 256) = (b :: u8)" unfolding m by simp
  show "word_of_nat (unat h mod 256 + 256 * (unat h div 256 mod 256)) = (h :: u16)"
    unfolding bytes_u16 m by simp
  show "word_of_nat (unat w mod 256 + 256 * (unat w div 256 mod 256) + 65536 * (unat w div 65536 mod 256)
     + 16777216 * (unat w div 16777216 mod 256)) = (w :: u32)"
    unfolding bytes_u32 m by simp
qed

lemmas word_of_bytes_simps [simp] = word_of_bytes word_of_bytes [unfolded of_nat_add of_nat_mult of_nat_numeral]

lemmas enc_defs = enc_u8_def enc_u16_def enc_u32_def dec_u8_def dec_u16_def dec_u32_def

section \<open>Arrays of structs\<close>

text \<open>
  \<open>std::vector<T> buffer(n)\<close> filled by reading bytes over it, and \<open>os.write\<close> of each element.
\<close>

definition dec_array :: "nat \<Rightarrow> (string \<Rightarrow> 'a) \<Rightarrow> nat \<Rightarrow> string \<Rightarrow> 'a list" where
  "dec_array sz dec n bs = map (\<lambda>k. dec (take sz (drop (k * sz) bs))) [0..<n]"

definition enc_array :: "('a \<Rightarrow> string) \<Rightarrow> 'a list \<Rightarrow> string" where
  "enc_array enc xs = concat (map enc xs)"

locale struct_codec =
  fixes sz :: nat
    and enc :: "'a \<Rightarrow> string"
    and dec :: "string \<Rightarrow> 'a"
    and wf :: "'a \<Rightarrow> bool"
  assumes size_pos: "0 < sz"
    and length_enc: "wf x \<Longrightarrow> length (enc x) = sz"
    and dec_enc: "wf x \<Longrightarrow> dec (enc x) = x"
begin

lemma length_enc_array: "(\<forall>x\<in>set xs. wf x) \<Longrightarrow> length (enc_array enc xs) = sz * length xs"
  by (induction xs) (auto simp: enc_array_def length_enc)

lemma dec_array_Suc:
  "dec_array sz dec (Suc n) bs = dec (take sz bs) # dec_array sz dec n (drop sz bs)"
  by (simp add: dec_array_def upt_conv_Cons map_Suc_upt [symmetric] add.commute del: upt_Suc)

lemma dec_array_enc:
  "(\<forall>x\<in>set xs. wf x) \<Longrightarrow> dec_array sz dec (length xs) (enc_array enc xs @ rest) = xs"
proof (induction xs)
  case (Cons x xs)
  then have "length (enc x) = sz" "dec (enc x) = x" by (simp_all add: length_enc dec_enc)
  then show ?case using Cons by (simp add: dec_array_Suc enc_array_def)
qed (simp add: dec_array_def)

end

section \<open>Placed objects\<close>

record Unit =
  u_classId :: u32
  u_xc :: u16
  u_yc :: u16
  u_type :: u16
  u_relationFlags :: u16
  u_validStateFlags :: u16
  u_validFieldFlags :: u16
  u_owner :: u8
  u_hitpointPercent :: u8
  u_shieldPercent :: u8
  u_energyPercent :: u8
  u_resourceAmount :: u32
  u_hangerAmount :: u16
  u_stateFlags :: u16
  u_unused :: u32
  u_relationClassId :: u32

definition enc_Unit :: "Unit \<Rightarrow> string" where
  "enc_Unit u = enc_u32 (u_classId u) @ enc_u16 (u_xc u) @ enc_u16 (u_yc u) @ enc_u16 (u_type u) @
     enc_u16 (u_relationFlags u) @ enc_u16 (u_validStateFlags u) @ enc_u16 (u_validFieldFlags u) @
     enc_u8 (u_owner u) @ enc_u8 (u_hitpointPercent u) @ enc_u8 (u_shieldPercent u) @ enc_u8 (u_energyPercent u) @
     enc_u32 (u_resourceAmount u) @ enc_u16 (u_hangerAmount u) @ enc_u16 (u_stateFlags u) @
     enc_u32 (u_unused u) @ enc_u32 (u_relationClassId u)"

definition dec_Unit :: "string \<Rightarrow> Unit" where
  "dec_Unit bs = \<lparr>u_classId = dec_u32 bs 0, u_xc = dec_u16 bs 4, u_yc = dec_u16 bs 6, u_type = dec_u16 bs 8,
     u_relationFlags = dec_u16 bs 10, u_validStateFlags = dec_u16 bs 12, u_validFieldFlags = dec_u16 bs 14,
     u_owner = dec_u8 bs 16, u_hitpointPercent = dec_u8 bs 17, u_shieldPercent = dec_u8 bs 18,
     u_energyPercent = dec_u8 bs 19, u_resourceAmount = dec_u32 bs 20, u_hangerAmount = dec_u16 bs 24,
     u_stateFlags = dec_u16 bs 26, u_unused = dec_u32 bs 28, u_relationClassId = dec_u32 bs 32\<rparr>"

record Doodad =
  d_type :: u16
  d_xc :: u16
  d_yc :: u16
  d_owner :: u8
  d_enabled :: u8

definition enc_Doodad :: "Doodad \<Rightarrow> string" where
  "enc_Doodad d = enc_u16 (d_type d) @ enc_u16 (d_xc d) @ enc_u16 (d_yc d) @ enc_u8 (d_owner d) @ enc_u8 (d_enabled d)"

definition dec_Doodad :: "string \<Rightarrow> Doodad" where
  "dec_Doodad bs = \<lparr>d_type = dec_u16 bs 0, d_xc = dec_u16 bs 2, d_yc = dec_u16 bs 4, d_owner = dec_u8 bs 6,
     d_enabled = dec_u8 bs 7\<rparr>"

record Sprite =
  s_type :: u16
  s_xc :: u16
  s_yc :: u16
  s_owner :: u8
  s_unused :: u8
  s_flags :: u16

definition enc_Sprite :: "Sprite \<Rightarrow> string" where
  "enc_Sprite s = enc_u16 (s_type s) @ enc_u16 (s_xc s) @ enc_u16 (s_yc s) @ enc_u8 (s_owner s) @
     enc_u8 (s_unused s) @ enc_u16 (s_flags s)"

definition dec_Sprite :: "string \<Rightarrow> Sprite" where
  "dec_Sprite bs = \<lparr>s_type = dec_u16 bs 0, s_xc = dec_u16 bs 2, s_yc = dec_u16 bs 4, s_owner = dec_u8 bs 6,
     s_unused = dec_u8 bs 7, s_flags = dec_u16 bs 8\<rparr>"

definition Sprite_isDrawnAsSprite :: "Sprite \<Rightarrow> bool" where
  "Sprite_isDrawnAsSprite s \<longleftrightarrow> hasFlag (s_flags s) 0x1000"

interpretation unit_codec: struct_codec 36 enc_Unit dec_Unit "\<lambda>_. True"
  by unfold_locales (simp_all add: enc_Unit_def dec_Unit_def enc_defs)

interpretation doodad_codec: struct_codec 8 enc_Doodad dec_Doodad "\<lambda>_. True"
  by unfold_locales (simp_all add: enc_Doodad_def dec_Doodad_def enc_defs)

interpretation sprite_codec: struct_codec 10 enc_Sprite dec_Sprite "\<lambda>_. True"
  by unfold_locales (simp_all add: enc_Sprite_def dec_Sprite_def enc_defs)

record Location =
  l_left :: u32
  l_top :: u32
  l_right :: u32
  l_bottom :: u32
  l_stringId :: u16
  l_elevationFlags :: u16

definition Location_new :: Location where
  "Location_new = \<lparr>l_left = 0, l_top = 0, l_right = 0, l_bottom = 0, l_stringId = 0, l_elevationFlags = 0\<rparr>"

definition Location_isBlank :: "Location \<Rightarrow> bool" where
  "Location_isBlank l \<longleftrightarrow> l_left l = 0 \<and> l_top l = 0 \<and> l_right l = 0 \<and> l_bottom l = 0 \<and>
     l_stringId l = 0 \<and> l_elevationFlags l = 0"

definition enc_Location :: "Location \<Rightarrow> string" where
  "enc_Location l = enc_u32 (l_left l) @ enc_u32 (l_top l) @ enc_u32 (l_right l) @ enc_u32 (l_bottom l) @
     enc_u16 (l_stringId l) @ enc_u16 (l_elevationFlags l)"

definition dec_Location :: "string \<Rightarrow> Location" where
  "dec_Location bs = \<lparr>l_left = dec_u32 bs 0, l_top = dec_u32 bs 4, l_right = dec_u32 bs 8,
     l_bottom = dec_u32 bs 12, l_stringId = dec_u16 bs 16, l_elevationFlags = dec_u16 bs 18\<rparr>"

interpretation location_codec: struct_codec 20 enc_Location dec_Location "\<lambda>_. True"
  by unfold_locales (simp_all add: enc_Location_def dec_Location_def enc_defs)

section \<open>Triggers\<close>

definition enc_Condition :: "Condition \<Rightarrow> string" where
  "enc_Condition c = enc_u32 (c_locationId c) @ enc_u32 (c_player c) @ enc_u32 (c_amount c) @
     enc_u16 (c_unitType c) @ enc_u8 (c_comparison c) @ enc_u8 (c_conditionType c) @ enc_u8 (c_typeIndex c) @
     enc_u8 (c_flags c) @ enc_u16 (c_maskFlag c)"

definition dec_Condition :: "string \<Rightarrow> Condition" where
  "dec_Condition bs = \<lparr>c_locationId = dec_u32 bs 0, c_player = dec_u32 bs 4, c_amount = dec_u32 bs 8,
     c_unitType = dec_u16 bs 12, c_comparison = dec_u8 bs 14, c_conditionType = dec_u8 bs 15,
     c_typeIndex = dec_u8 bs 16, c_flags = dec_u8 bs 17, c_maskFlag = dec_u16 bs 18\<rparr>"

definition enc_Action :: "Action \<Rightarrow> string" where
  "enc_Action a = enc_u32 (a_locationId a) @ enc_u32 (a_stringId a) @ enc_u32 (a_soundStringId a) @
     enc_u32 (a_time a) @ enc_u32 (a_group a) @ enc_u32 (a_number a) @ enc_u16 (a_type a) @
     enc_u8 (a_actionType a) @ enc_u8 (a_type2 a) @ enc_u8 (a_flags a) @ enc_u8 (a_padding a) @
     enc_u16 (a_maskFlag a)"

definition dec_Action :: "string \<Rightarrow> Action" where
  "dec_Action bs = \<lparr>a_locationId = dec_u32 bs 0, a_stringId = dec_u32 bs 4, a_soundStringId = dec_u32 bs 8,
     a_time = dec_u32 bs 12, a_group = dec_u32 bs 16, a_number = dec_u32 bs 20, a_type = dec_u16 bs 24,
     a_actionType = dec_u8 bs 26, a_type2 = dec_u8 bs 27, a_flags = dec_u8 bs 28, a_padding = dec_u8 bs 29,
     a_maskFlag = dec_u16 bs 30\<rparr>"

interpretation condition_codec: struct_codec 20 enc_Condition dec_Condition "\<lambda>_. True"
  by unfold_locales (simp_all add: enc_Condition_def dec_Condition_def enc_defs)

interpretation action_codec: struct_codec 32 enc_Action dec_Action "\<lambda>_. True"
  by unfold_locales (simp_all add: enc_Action_def dec_Action_def enc_defs)

interpretation u8_codec: struct_codec 1 enc_u8 "\<lambda>bs. dec_u8 bs 0" "\<lambda>_. True"
  by unfold_locales (simp_all add: enc_defs)

definition enc_Trigger :: "Trigger \<Rightarrow> string" where
  "enc_Trigger t = enc_array enc_Condition (t_conditions t) @ enc_array enc_Action (t_actions t) @
     enc_u32 (t_flags t) @ enc_array enc_u8 (t_owners t) @ enc_u8 (t_currentAction t)"

definition dec_Trigger :: "string \<Rightarrow> Trigger" where
  "dec_Trigger bs = \<lparr>t_conditions = dec_array 20 dec_Condition MaxConditions bs,
     t_actions = dec_array 32 dec_Action MaxActions (drop 320 bs),
     t_flags = dec_u32 (drop 2368 bs) 0,
     t_owners = dec_array 1 (\<lambda>bs. dec_u8 bs 0) MaxOwners (drop 2372 bs),
     t_currentAction = dec_u8 (drop 2399 bs) 0\<rparr>"

lemma Trigger_parts:
  assumes "wf_Trigger t"
  shows "length (enc_array enc_Condition (t_conditions t)) = 320"
    "length (enc_array enc_Action (t_actions t)) = 2048"
    "length (enc_array enc_u8 (t_owners t)) = 27"
  using assms
  by (simp_all add: wf_Trigger_def condition_codec.length_enc_array action_codec.length_enc_array
      u8_codec.length_enc_array MaxConditions_def MaxActions_def MaxOwners_def)

interpretation trigger_codec: struct_codec 2400 enc_Trigger dec_Trigger wf_Trigger
proof unfold_locales
  fix t
  assume wf: "wf_Trigger t"
  note len = Trigger_parts [OF wf]
  show "length (enc_Trigger t) = 2400" by (simp add: enc_Trigger_def len)
  have l: "length (t_conditions t) = MaxConditions" "length (t_actions t) = MaxActions"
    "length (t_owners t) = MaxOwners" using wf by (simp_all add: wf_Trigger_def)
  have c: "t_conditions (dec_Trigger (enc_Trigger t)) = t_conditions t"
    by (simp add: dec_Trigger_def enc_Trigger_def condition_codec.dec_array_enc flip: l(1))
  have a: "t_actions (dec_Trigger (enc_Trigger t)) = t_actions t"
    by (simp add: dec_Trigger_def enc_Trigger_def len action_codec.dec_array_enc flip: l(2))
  have o: "t_owners (dec_Trigger (enc_Trigger t)) = t_owners t"
    by (simp add: dec_Trigger_def enc_Trigger_def len u8_codec.dec_array_enc [simplified] flip: l(3))
  have "t_flags (dec_Trigger (enc_Trigger t)) = t_flags t"
    "t_currentAction (dec_Trigger (enc_Trigger t)) = t_currentAction t"
    by (simp_all add: dec_Trigger_def enc_Trigger_def len enc_defs)
  with c a o show "dec_Trigger (enc_Trigger t) = t" by simp
qed simp

end
