(* ===== verification/ObjSections.thy ===== *)
theory ObjSections
  imports Structs "HOL-Library.Multiset"
begin

text \<open>
  The sections that are a list of objects: UNIT, DD2 and THG2 (\<open>class UnitSection\<close>, \<open>Dd2Section\<close> and
  \<open>Thg2Section\<close> in \<open>src/MappingCoreLib/Sections.cpp\<close>). Their code is the same text over different
  structs, and so are the operations TRIG and MBRF share with them; it is modelled once over
  lists and instantiated per class.
\<close>

section \<open>Editing a list of objects\<close>

definition objs_insert :: "nat \<Rightarrow> 'a \<Rightarrow> 'a list \<Rightarrow> 'a list" where
  "objs_insert i x xs = (if i < length xs then insert_at i x xs else if i = length xs then xs @ [x] else xs)"

definition objs_delete :: "nat \<Rightarrow> 'a list \<Rightarrow> 'a list" where
  "objs_delete i xs = (if i < length xs then erase_at i xs else xs)"

text \<open>
  A move by one is a swap; a longer move erases and inserts at \<open>indexTo - 1\<close>, an iterator before
  the beginning when \<open>indexTo\<close> is 0.
\<close>

definition objs_move :: "nat \<Rightarrow> nat \<Rightarrow> 'a list \<Rightarrow> 'a list result" where
  "objs_move indexFrom indexTo xs =
    (let indexMin = min indexFrom indexTo;
         indexMax = max indexFrom indexTo
     in if indexMax < length xs \<and> indexFrom \<noteq> indexTo then
          if indexMax - indexMin = 1 \<and> indexMax < length xs then Inr (swap_at indexMin indexMax xs)
          else if indexTo = 0 then Inl UndefinedBehavior
          else Inr (insert_at (indexTo - 1) (xs ! indexFrom) (erase_at indexFrom xs))
        else Inr xs)"

section \<open>Reading and writing a list of objects\<close>

text \<open>\<open>Chk::SectionSize(n)\<close>: a \<open>size_t\<close> cut to a signed 32-bit integer.\<close>

definition toSectionSize :: "nat \<Rightarrow> int" where
  "toSectionSize n = sint (word_of_nat n :: u32)"

text \<open>
  The buffer has \<open>readSize / size + readSize % size\<close> elements, all zero before the bytes of the
  stream are read over it.
\<close>

definition objs_read ::
  "nat \<Rightarrow> (string \<Rightarrow> 'a) \<Rightarrow> bool \<Rightarrow> int \<Rightarrow> string \<Rightarrow> 'a list \<Rightarrow> (nat \<times> string \<times> 'a list) result" where
  "objs_read sz dec appending sizeInBytes is xs =
    (if sizeInBytes < 0 then Inl NegativeSectionSize
     else
       let readSize = nat sizeInBytes in
       if readSize > 0 then
         let readNum = readSize div sz + readSize mod sz in
         (case stream_read readSize is of (buf, gcount, rest) \<Rightarrow>
            let buffer = dec_array sz dec readNum (buf @ replicate (readNum * sz - readSize) NUL)
            in Inr (gcount, rest, (if appending then xs @ buffer else buffer)))
       else Inr (0, is, (if appending then xs else [])))"

section \<open>UNIT\<close>

record UnitSection =
  units :: "Unit list"

definition UnitSection_numUnits :: "UnitSection \<Rightarrow> nat" where
  "UnitSection_numUnits sec = length (units sec)"

definition UnitSection_getUnit :: "UnitSection \<Rightarrow> nat \<Rightarrow> Unit result" where
  "UnitSection_getUnit sec = at_unchecked (units sec)"

definition UnitSection_addUnit :: "Unit \<Rightarrow> UnitSection \<Rightarrow> nat \<times> UnitSection" where
  "UnitSection_addUnit x sec = (length (units sec), sec\<lparr>units := units sec @ [x]\<rparr>)"

definition UnitSection_insertUnit :: "nat \<Rightarrow> Unit \<Rightarrow> UnitSection \<Rightarrow> UnitSection" where
  "UnitSection_insertUnit i x sec = sec\<lparr>units := objs_insert i x (units sec)\<rparr>"

definition UnitSection_deleteUnit :: "nat \<Rightarrow> UnitSection \<Rightarrow> UnitSection" where
  "UnitSection_deleteUnit i sec = sec\<lparr>units := objs_delete i (units sec)\<rparr>"

definition UnitSection_moveUnit :: "nat \<Rightarrow> nat \<Rightarrow> UnitSection \<Rightarrow> UnitSection result" where
  "UnitSection_moveUnit from to sec =
    bind_result (objs_move from to (units sec)) (\<lambda>xs. Inr (sec\<lparr>units := xs\<rparr>))"

definition UnitSection_getSize :: "UnitSection \<Rightarrow> int" where
  "UnitSection_getSize sec = toSectionSize (36 * length (units sec))"

definition UnitSection_read :: "int \<Rightarrow> string \<Rightarrow> bool \<Rightarrow> UnitSection \<Rightarrow> (nat \<times> string \<times> UnitSection) result" where
  "UnitSection_read sizeInBytes is appending sec =
    bind_result (objs_read 36 dec_Unit appending sizeInBytes is (units sec))
      (\<lambda>(gcount, rest, xs). Inr (gcount, rest, sec\<lparr>units := xs\<rparr>))"

definition UnitSection_write :: "UnitSection \<Rightarrow> string" where
  "UnitSection_write sec = enc_array enc_Unit (units sec)"

section \<open>DD2\<close>

text \<open>\<open>Dd2Section::read\<close> replaces the doodads whatever \<open>append\<close> says.\<close>

record Dd2Section =
  doodads :: "Doodad list"

definition Dd2Section_numDoodads :: "Dd2Section \<Rightarrow> nat" where
  "Dd2Section_numDoodads sec = length (doodads sec)"

definition Dd2Section_getDoodad :: "Dd2Section \<Rightarrow> nat \<Rightarrow> Doodad result" where
  "Dd2Section_getDoodad sec = at_unchecked (doodads sec)"

definition Dd2Section_addDoodad :: "Doodad \<Rightarrow> Dd2Section \<Rightarrow> nat \<times> Dd2Section" where
  "Dd2Section_addDoodad x sec = (length (doodads sec), sec\<lparr>doodads := doodads sec @ [x]\<rparr>)"

definition Dd2Section_insertDoodad :: "nat \<Rightarrow> Doodad \<Rightarrow> Dd2Section \<Rightarrow> Dd2Section" where
  "Dd2Section_insertDoodad i x sec = sec\<lparr>doodads := objs_insert i x (doodads sec)\<rparr>"

definition Dd2Section_deleteDoodad :: "nat \<Rightarrow> Dd2Section \<Rightarrow> Dd2Section" where
  "Dd2Section_deleteDoodad i sec = sec\<lparr>doodads := objs_delete i (doodads sec)\<rparr>"

definition Dd2Section_moveDoodad :: "nat \<Rightarrow> nat \<Rightarrow> Dd2Section \<Rightarrow> Dd2Section result" where
  "Dd2Section_moveDoodad from to sec =
    bind_result (objs_move from to (doodads sec)) (\<lambda>xs. Inr (sec\<lparr>doodads := xs\<rparr>))"

definition Dd2Section_getSize :: "Dd2Section \<Rightarrow> int" where
  "Dd2Section_getSize sec = toSectionSize (8 * length (doodads sec))"

definition Dd2Section_read :: "int \<Rightarrow> string \<Rightarrow> bool \<Rightarrow> Dd2Section \<Rightarrow> (nat \<times> string \<times> Dd2Section) result" where
  "Dd2Section_read sizeInBytes is appending sec =
    bind_result (objs_read 8 dec_Doodad False sizeInBytes is (doodads sec))
      (\<lambda>(gcount, rest, xs). Inr (gcount, rest, sec\<lparr>doodads := xs\<rparr>))"

definition Dd2Section_write :: "Dd2Section \<Rightarrow> string" where
  "Dd2Section_write sec = enc_array enc_Doodad (doodads sec)"

section \<open>THG2\<close>

record Thg2Section =
  sprites :: "Sprite list"

definition Thg2Section_numSprites :: "Thg2Section \<Rightarrow> nat" where
  "Thg2Section_numSprites sec = length (sprites sec)"

definition Thg2Section_getSprite :: "Thg2Section \<Rightarrow> nat \<Rightarrow> Sprite result" where
  "Thg2Section_getSprite sec = at_unchecked (sprites sec)"

definition Thg2Section_addSprite :: "Sprite \<Rightarrow> Thg2Section \<Rightarrow> nat \<times> Thg2Section" where
  "Thg2Section_addSprite x sec = (length (sprites sec), sec\<lparr>sprites := sprites sec @ [x]\<rparr>)"

definition Thg2Section_insertSprite :: "nat \<Rightarrow> Sprite \<Rightarrow> Thg2Section \<Rightarrow> Thg2Section" where
  "Thg2Section_insertSprite i x sec = sec\<lparr>sprites := objs_insert i x (sprites sec)\<rparr>"

definition Thg2Section_deleteSprite :: "nat \<Rightarrow> Thg2Section \<Rightarrow> Thg2Section" where
  "Thg2Section_deleteSprite i sec = sec\<lparr>sprites := objs_delete i (sprites sec)\<rparr>"

definition Thg2Section_moveSprite :: "nat \<Rightarrow> nat \<Rightarrow> Thg2Section \<Rightarrow> Thg2Section result" where
  "Thg2Section_moveSprite from to sec =
    bind_result (objs_move from to (sprites sec)) (\<lambda>xs. Inr (sec\<lparr>sprites := xs\<rparr>))"

definition Thg2Section_getSize :: "Thg2Section \<Rightarrow> int" where
  "Thg2Section_getSize sec = toSectionSize (10 * length (sprites sec))"

definition Thg2Section_read :: "int \<Rightarrow> string \<Rightarrow> bool \<Rightarrow> Thg2Section \<Rightarrow> (nat \<times> string \<times> Thg2Section) result" where
  "Thg2Section_read sizeInBytes is appending sec =
    bind_result (objs_read 10 dec_Sprite appending sizeInBytes is (sprites sec))
      (\<lambda>(gcount, rest, xs). Inr (gcount, rest, sec\<lparr>sprites := xs\<rparr>))"

definition Thg2Section_write :: "Thg2Section \<Rightarrow> string" where
  "Thg2Section_write sec = enc_array enc_Sprite (sprites sec)"

section \<open>Laws of the shared operations\<close>

lemma toSectionSize_small: "n < 2 ^ 31 \<Longrightarrow> toSectionSize n = int n"
  by (simp add: toSectionSize_def signed_of_nat signed_take_bit_int_eq_self)

context struct_codec
begin

text \<open>A list that was written is what is read back, behind what was there when appending.\<close>

lemma objs_read_write:
  assumes "\<forall>x\<in>set xs. wf x"
  shows "objs_read sz dec appending (int (length (enc_array enc xs))) (enc_array enc xs @ rest) old =
    Inr (length (enc_array enc xs), rest, (if appending then old @ xs else xs))"
proof (cases "xs = []")
  case True
  then show ?thesis by (simp add: objs_read_def enc_array_def)
next
  case False
  have len: "length (enc_array enc xs) = sz * length xs" by (rule length_enc_array [OF assms])
  then have "0 < length (enc_array enc xs)" using False size_pos by simp
  moreover have "sz * length xs div sz + sz * length xs mod sz = length xs" using size_pos by simp
  ultimately show ?thesis
    using dec_array_enc [OF assms, of "[]"]
    by (simp add: objs_read_def Let_def stream_read_all len [symmetric] del: length_0_conv)
      (simp add: len mult.commute)
qed

end

lemma mset_insert_at: "i \<le> length xs \<Longrightarrow> mset (insert_at i x xs) = add_mset x (mset xs)"
  by (simp add: insert_at_def) (metis append_take_drop_id mset_append union_commute)

lemma mset_erase_at: "i < length xs \<Longrightarrow> add_mset (xs ! i) (mset (erase_at i xs)) = mset xs"
  by (simp add: erase_at_def) (metis id_take_nth_drop mset.simps(2) mset_append union_mset_add_mset_right)

lemma mset_swap_at: "i < length xs \<Longrightarrow> j < length xs \<Longrightarrow> mset (swap_at i j xs) = mset xs"
  by (simp add: swap_at_def mset_swap)

lemma objs_move_cases:
  assumes "indexFrom < length xs" "indexTo < length xs" "indexFrom \<noteq> indexTo"
  obtains (adjacent) "indexFrom = Suc indexTo \<or> indexTo = Suc indexFrom"
      "objs_move indexFrom indexTo xs = Inr (swap_at (min indexFrom indexTo) (max indexFrom indexTo) xs)"
    | (first) "indexTo = 0" "Suc 0 < indexFrom" "objs_move indexFrom indexTo xs = Inl UndefinedBehavior"
    | (far) "indexTo \<noteq> 0" "indexFrom \<noteq> Suc indexTo" "indexTo \<noteq> Suc indexFrom"
      "objs_move indexFrom indexTo xs = Inr (insert_at (indexTo - 1) (xs ! indexFrom) (erase_at indexFrom xs))"
proof -
  have m: "max indexFrom indexTo < length xs" using assms by simp
  show ?thesis
  proof (cases "max indexFrom indexTo - min indexFrom indexTo = 1")
    case True
    then have "indexFrom = Suc indexTo \<or> indexTo = Suc indexFrom" by linarith
    with adjacent True m assms(3) show ?thesis by (simp add: objs_move_def Let_def)
  next
    case False
    then have ne: "indexFrom \<noteq> Suc indexTo" "indexTo \<noteq> Suc indexFrom" by auto
    show ?thesis
    proof (cases "indexTo = 0")
      case True
      then show ?thesis using first False m assms(3) ne by (simp add: objs_move_def Let_def)
    next
      case nz: False
      then show ?thesis using far False m assms(3) ne by (simp add: objs_move_def Let_def)
    qed
  qed
qed

section \<open>Properties\<close>

text \<open>
  Saving and loading the placed objects: a UNIT, DD2 or THG2 section that fits its signed
  32-bit size field is read back, from the size and the bytes it wrote, as the same list of
  objects, whatever follows in the stream and whatever was in the section before.
\<close>

lemma obj_sections_save_load:
  assumes "36 * length (units us) < 2 ^ 31" "8 * length (doodads ds) < 2 ^ 31" "10 * length (sprites ss) < 2 ^ 31"
  shows "UnitSection_read (UnitSection_getSize us) (UnitSection_write us @ rest) False us0
      = Inr (36 * length (units us), rest, us) \<and>
    Dd2Section_read (Dd2Section_getSize ds) (Dd2Section_write ds @ rest) False ds0
      = Inr (8 * length (doodads ds), rest, ds) \<and>
    Thg2Section_read (Thg2Section_getSize ss) (Thg2Section_write ss @ rest) False ss0
      = Inr (10 * length (sprites ss), rest, ss)"
  using assms unit_codec.objs_read_write [of "units us" False rest] doodad_codec.objs_read_write [of "doodads ds" False rest]
    sprite_codec.objs_read_write [of "sprites ss" False rest]
  by (simp add: UnitSection_read_def UnitSection_getSize_def UnitSection_write_def
      Dd2Section_read_def Dd2Section_getSize_def Dd2Section_write_def
      Thg2Section_read_def Thg2Section_getSize_def Thg2Section_write_def toSectionSize_small
      unit_codec.length_enc_array doodad_codec.length_enc_array sprite_codec.length_enc_array)

lemma obj_sections_save_load_witness:
  "\<exists>us ds ss. length (units us) = 1 \<and> length (doodads ds) = 1 \<and> length (sprites ss) = 1 \<and>
    UnitSection_read (UnitSection_getSize us) (UnitSection_write us) False \<lparr>units = []\<rparr> = Inr (36, [], us) \<and>
    Dd2Section_read (Dd2Section_getSize ds) (Dd2Section_write ds) False \<lparr>doodads = []\<rparr> = Inr (8, [], ds) \<and>
    Thg2Section_read (Thg2Section_getSize ss) (Thg2Section_write ss) False \<lparr>sprites = []\<rparr> = Inr (10, [], ss)"
  using obj_sections_save_load [of "\<lparr>units = [dec_Unit (replicate 36 (to_byte 1))]\<rparr>"
      "\<lparr>doodads = [dec_Doodad (replicate 8 (to_byte 2))]\<rparr>" "\<lparr>sprites = [dec_Sprite (replicate 10 (to_byte 3))]\<rparr>"
      "[]" "\<lparr>units = []\<rparr>" "\<lparr>doodads = []\<rparr>" "\<lparr>sprites = []\<rparr>"]
  by (intro exI [of _ "\<lparr>units = [dec_Unit (replicate 36 (to_byte 1))]\<rparr>"]
      exI [of _ "\<lparr>doodads = [dec_Doodad (replicate 8 (to_byte 2))]\<rparr>"]
      exI [of _ "\<lparr>sprites = [dec_Sprite (replicate 10 (to_byte 3))]\<rparr>"]) simp

text \<open>
  Moving a unit from one index to another. The units stay the same ones in every case. A
  move to a neighbouring index puts the unit at that index. A longer move to an index other than
  0 puts it one before the index asked for, and a longer move to index 0 inserts before the
  beginning of the list, which is undefined.
\<close>

lemma UnitSection_moveUnit_spec:
  assumes "indexFrom < length (units sec)" "indexTo < length (units sec)" "indexFrom \<noteq> indexTo"
  shows "case UnitSection_moveUnit indexFrom indexTo sec of
      Inl e \<Rightarrow> e = UndefinedBehavior \<and> indexTo = 0 \<and> 1 < indexFrom
    | Inr sec' \<Rightarrow> mset (units sec') = mset (units sec) \<and>
        units sec' ! (if indexFrom = indexTo + 1 \<or> indexTo = indexFrom + 1 then indexTo else indexTo - 1)
          = units sec ! indexFrom"
  using assms
proof (cases rule: objs_move_cases)
  case adjacent
  then show ?thesis using assms
    by (auto simp: UnitSection_moveUnit_def mset_swap_at) (auto simp: swap_at_def min_def max_def)
next
  case first
  then show ?thesis by (simp add: UnitSection_moveUnit_def)
next
  case far
  then have "mset (insert_at (indexTo - 1) (units sec ! indexFrom) (erase_at indexFrom (units sec))) = mset (units sec)"
    using assms mset_insert_at [of "indexTo - 1" "erase_at indexFrom (units sec)"] mset_erase_at by simp
  moreover have "insert_at (indexTo - 1) (units sec ! indexFrom) (erase_at indexFrom (units sec)) ! (indexTo - 1)
      = units sec ! indexFrom"
    using assms by (subst nth_insert_at) auto
  ultimately show ?thesis using far by (simp add: UnitSection_moveUnit_def)
qed

definition unit_at :: "nat \<Rightarrow> Unit" where
  "unit_at n = (dec_Unit (replicate 36 NUL))\<lparr>u_classId := word_of_nat n\<rparr>"

lemma UnitSection_moveUnit_spec_witness:
  "\<exists>sec'. UnitSection_moveUnit 0 2 \<lparr>units = [unit_at 0, unit_at 1, unit_at 2]\<rparr> = Inr sec' \<and>
     units sec' ! 1 = unit_at 0 \<and> unit_at 0 \<noteq> unit_at 2"
proof -
  let ?sec = "\<lparr>units = [unit_at 0, unit_at 1, unit_at 2]\<rparr>"
  have e: "UnitSection_moveUnit 0 2 ?sec = Inr \<lparr>units = [unit_at 1, unit_at 0, unit_at 2]\<rparr>"
    by (simp add: UnitSection_moveUnit_def objs_move_def insert_at_def erase_at_def)
  have "u_classId (unit_at 0) \<noteq> u_classId (unit_at 2)" by (simp add: unit_at_def)
  then have "unit_at 0 \<noteq> unit_at 2" by metis
  moreover have "units \<lparr>units = [unit_at 1, unit_at 0, unit_at 2]\<rparr> ! 1 = unit_at 0"
    using UnitSection_moveUnit_spec [of 0 ?sec 2] e by simp
  ultimately show ?thesis using e by blast
qed

end
