(* ===== verification/TrigSections.thy ===== *)
theory TrigSections
  imports ObjSections
begin

text \<open>
  The TRIG and MBRF sections (\<open>class TrigSection\<close> and \<open>MbrfSection\<close> in \<open>src/MappingCoreLib/Sections.cpp\<close>):
  the list operations they share with the placed objects, replacing a range of triggers, and the
  operations that look for, mark, renumber and delete the location and string ids in all of the
  section's triggers.
\<close>

section \<open>TRIG\<close>

record TrigSection =
  triggers :: "Trigger list"

definition TrigSection_numTriggers :: "TrigSection \<Rightarrow> nat" where
  "TrigSection_numTriggers sec = length (triggers sec)"

definition TrigSection_getTrigger :: "TrigSection \<Rightarrow> nat \<Rightarrow> Trigger result" where
  "TrigSection_getTrigger sec = at_unchecked (triggers sec)"

definition TrigSection_addTrigger :: "Trigger \<Rightarrow> TrigSection \<Rightarrow> nat \<times> TrigSection" where
  "TrigSection_addTrigger x sec = (length (triggers sec), sec\<lparr>triggers := triggers sec @ [x]\<rparr>)"

definition TrigSection_insertTrigger :: "nat \<Rightarrow> Trigger \<Rightarrow> TrigSection \<Rightarrow> TrigSection" where
  "TrigSection_insertTrigger i x sec = sec\<lparr>triggers := objs_insert i x (triggers sec)\<rparr>"

definition TrigSection_deleteTrigger :: "nat \<Rightarrow> TrigSection \<Rightarrow> TrigSection" where
  "TrigSection_deleteTrigger i sec = sec\<lparr>triggers := objs_delete i (triggers sec)\<rparr>"

definition TrigSection_moveTrigger :: "nat \<Rightarrow> nat \<Rightarrow> TrigSection \<Rightarrow> TrigSection result" where
  "TrigSection_moveTrigger from to sec =
    bind_result (objs_move from to (triggers sec)) (\<lambda>xs. Inr (sec\<lparr>triggers := xs\<rparr>))"

definition TrigSection_getSize :: "TrigSection \<Rightarrow> int" where
  "TrigSection_getSize sec = toSectionSize (2400 * length (triggers sec))"

definition TrigSection_read :: "int \<Rightarrow> string \<Rightarrow> bool \<Rightarrow> TrigSection \<Rightarrow> (nat \<times> string \<times> TrigSection) result" where
  "TrigSection_read sizeInBytes is appending sec =
    bind_result (objs_read 2400 dec_Trigger appending sizeInBytes is (triggers sec))
      (\<lambda>(gcount, rest, xs). Inr (gcount, rest, sec\<lparr>triggers := xs\<rparr>))"

definition TrigSection_write :: "TrigSection \<Rightarrow> string" where
  "TrigSection_write sec = enc_array enc_Trigger (triggers sec)"

definition TrigSection_swap :: "Trigger list \<Rightarrow> TrigSection \<Rightarrow> Trigger list \<times> TrigSection" where
  "TrigSection_swap newTriggers sec = (triggers sec, sec\<lparr>triggers := newTriggers\<rparr>)"

text \<open>
  \<open>replaceRange\<close> returns the triggers it replaced, with what it leaves in its reference argument.
  The name \<open>triggers\<close> in its first test is that argument, which hides the member.
\<close>

definition TrigSection_replaceRange ::
  "nat \<Rightarrow> nat \<Rightarrow> Trigger list \<Rightarrow> TrigSection \<Rightarrow> (Trigger list \<times> Trigger list \<times> TrigSection) result" where
  "TrigSection_replaceRange beginIndex endIndex newTriggers sec =
    (if beginIndex = 0 \<and> endIndex = length newTriggers then
       Inr (triggers sec, triggers sec, sec\<lparr>triggers := newTriggers\<rparr>)
     else if beginIndex < endIndex \<and> endIndex \<le> length (triggers sec) then
       Inr (take (endIndex - beginIndex) (drop beginIndex (triggers sec)), newTriggers,
         sec\<lparr>triggers := take beginIndex (triggers sec) @ newTriggers @ drop endIndex (triggers sec)\<rparr>)
     else Inl OutOfRange)"

definition TrigSection_locationUsed :: "TrigSection \<Rightarrow> nat \<Rightarrow> bool" where
  "TrigSection_locationUsed sec locationId \<longleftrightarrow> (\<exists>t\<in>set (triggers sec). Trigger_locationUsed t locationId)"

text \<open>\<open>Chk::StringUser\<close>: where a string is used.\<close>

record StringUser =
  su_userFlags :: u32
  su_index :: nat
  su_subIndex :: nat

text \<open>The uses in one list of triggers, by trigger and then by action, strings before sounds.\<close>

definition triggerUsers ::
  "(u32 \<Rightarrow> Action \<Rightarrow> nat \<Rightarrow> bool) \<Rightarrow> u32 \<Rightarrow> u32 \<Rightarrow> u32 \<Rightarrow> Trigger list \<Rightarrow> nat \<Rightarrow> StringUser list" where
  "triggerUsers uses stringFlag soundFlag userMask ts stringId =
    concat (map (\<lambda>trigIndex.
      concat (map (\<lambda>actionIndex.
        (let a = t_actions (ts ! trigIndex) ! actionIndex in
         (if hasFlag userMask stringFlag \<and> uses stringFlag a stringId
          then [\<lparr>su_userFlags = stringFlag, su_index = trigIndex, su_subIndex = actionIndex\<rparr>] else []) @
         (if hasFlag userMask soundFlag \<and> uses soundFlag a stringId
          then [\<lparr>su_userFlags = soundFlag, su_index = trigIndex, su_subIndex = actionIndex\<rparr>] else [])))
        [0..<MaxActions])) [0..<length ts])"

definition TrigSection_appendUsage ::
  "TrigSection \<Rightarrow> nat \<Rightarrow> StringUser list \<Rightarrow> u32 \<Rightarrow> StringUser list" where
  "TrigSection_appendUsage sec stringId stringUsers userMask =
    stringUsers @ triggerUsers Action_stringUsed TriggerAction TriggerActionSound userMask (triggers sec) stringId"

definition TrigSection_stringUsed :: "u32 \<Rightarrow> TrigSection \<Rightarrow> nat \<Rightarrow> bool" where
  "TrigSection_stringUsed userMask sec stringId \<longleftrightarrow>
    (\<exists>t\<in>set (triggers sec). Trigger_stringUsed userMask t stringId)"

definition TrigSection_gameStringUsed :: "u32 \<Rightarrow> TrigSection \<Rightarrow> nat \<Rightarrow> bool" where
  "TrigSection_gameStringUsed userMask sec stringId \<longleftrightarrow>
    (\<exists>t\<in>set (triggers sec). Trigger_gameStringUsed userMask t stringId)"

definition TrigSection_commentStringUsed :: "TrigSection \<Rightarrow> nat \<Rightarrow> bool" where
  "TrigSection_commentStringUsed sec stringId \<longleftrightarrow>
    (\<exists>t\<in>set (triggers sec). Trigger_commentStringUsed t stringId)"

definition TrigSection_markUsedLocations :: "TrigSection \<Rightarrow> (nat \<Rightarrow> bool) \<Rightarrow> nat \<Rightarrow> bool" where
  "TrigSection_markUsedLocations sec locationIdUsed =
    foldl (\<lambda>u t. Trigger_markUsedLocations t u) locationIdUsed (triggers sec)"

definition TrigSection_markUsedStrings :: "u32 \<Rightarrow> TrigSection \<Rightarrow> (nat \<Rightarrow> bool) \<Rightarrow> nat \<Rightarrow> bool" where
  "TrigSection_markUsedStrings userMask sec stringIdUsed =
    foldl (\<lambda>u t. Trigger_markUsedStrings userMask t u) stringIdUsed (triggers sec)"

definition TrigSection_markUsedGameStrings :: "u32 \<Rightarrow> TrigSection \<Rightarrow> (nat \<Rightarrow> bool) \<Rightarrow> nat \<Rightarrow> bool" where
  "TrigSection_markUsedGameStrings userMask sec stringIdUsed =
    foldl (\<lambda>u t. Trigger_markUsedGameStrings userMask t u) stringIdUsed (triggers sec)"

definition TrigSection_markUsedCommentStrings :: "TrigSection \<Rightarrow> (nat \<Rightarrow> bool) \<Rightarrow> nat \<Rightarrow> bool" where
  "TrigSection_markUsedCommentStrings sec stringIdUsed =
    foldl (\<lambda>u t. Trigger_markUsedCommentStrings t u) stringIdUsed (triggers sec)"

definition TrigSection_remapLocationIds :: "(nat \<rightharpoonup> nat) \<Rightarrow> TrigSection \<Rightarrow> TrigSection" where
  "TrigSection_remapLocationIds m sec = sec\<lparr>triggers := map (Trigger_remapLocationIds m) (triggers sec)\<rparr>"

definition TrigSection_remapStringIds :: "(nat \<rightharpoonup> nat) \<Rightarrow> TrigSection \<Rightarrow> TrigSection" where
  "TrigSection_remapStringIds m sec = sec\<lparr>triggers := map (Trigger_remapStringIds m) (triggers sec)\<rparr>"

definition TrigSection_deleteLocation :: "nat \<Rightarrow> TrigSection \<Rightarrow> TrigSection" where
  "TrigSection_deleteLocation locationId sec =
    sec\<lparr>triggers := map (Trigger_deleteLocation locationId) (triggers sec)\<rparr>"

definition TrigSection_deleteString :: "nat \<Rightarrow> TrigSection \<Rightarrow> TrigSection" where
  "TrigSection_deleteString stringId sec =
    sec\<lparr>triggers := map (Trigger_deleteString stringId) (triggers sec)\<rparr>"

section \<open>MBRF\<close>

record MbrfSection =
  briefingTriggers :: "Trigger list"

definition MbrfSection_numBriefingTriggers :: "MbrfSection \<Rightarrow> nat" where
  "MbrfSection_numBriefingTriggers sec = length (briefingTriggers sec)"

definition MbrfSection_getBriefingTrigger :: "MbrfSection \<Rightarrow> nat \<Rightarrow> Trigger result" where
  "MbrfSection_getBriefingTrigger sec = at_unchecked (briefingTriggers sec)"

definition MbrfSection_addBriefingTrigger :: "Trigger \<Rightarrow> MbrfSection \<Rightarrow> nat \<times> MbrfSection" where
  "MbrfSection_addBriefingTrigger x sec = (length (briefingTriggers sec), sec\<lparr>briefingTriggers := briefingTriggers sec @ [x]\<rparr>)"

definition MbrfSection_insertBriefingTrigger :: "nat \<Rightarrow> Trigger \<Rightarrow> MbrfSection \<Rightarrow> MbrfSection" where
  "MbrfSection_insertBriefingTrigger i x sec = sec\<lparr>briefingTriggers := objs_insert i x (briefingTriggers sec)\<rparr>"

definition MbrfSection_deleteBriefingTrigger :: "nat \<Rightarrow> MbrfSection \<Rightarrow> MbrfSection" where
  "MbrfSection_deleteBriefingTrigger i sec = sec\<lparr>briefingTriggers := objs_delete i (briefingTriggers sec)\<rparr>"

definition MbrfSection_moveBriefingTrigger :: "nat \<Rightarrow> nat \<Rightarrow> MbrfSection \<Rightarrow> MbrfSection result" where
  "MbrfSection_moveBriefingTrigger from to sec =
    bind_result (objs_move from to (briefingTriggers sec)) (\<lambda>xs. Inr (sec\<lparr>briefingTriggers := xs\<rparr>))"

definition MbrfSection_getSize :: "MbrfSection \<Rightarrow> int" where
  "MbrfSection_getSize sec = toSectionSize (2400 * length (briefingTriggers sec))"

definition MbrfSection_read :: "int \<Rightarrow> string \<Rightarrow> bool \<Rightarrow> MbrfSection \<Rightarrow> (nat \<times> string \<times> MbrfSection) result" where
  "MbrfSection_read sizeInBytes is appending sec =
    bind_result (objs_read 2400 dec_Trigger appending sizeInBytes is (briefingTriggers sec))
      (\<lambda>(gcount, rest, xs). Inr (gcount, rest, sec\<lparr>briefingTriggers := xs\<rparr>))"

definition MbrfSection_write :: "MbrfSection \<Rightarrow> string" where
  "MbrfSection_write sec = enc_array enc_Trigger (briefingTriggers sec)"

definition MbrfSection_appendUsage ::
  "MbrfSection \<Rightarrow> nat \<Rightarrow> StringUser list \<Rightarrow> u32 \<Rightarrow> StringUser list" where
  "MbrfSection_appendUsage sec stringId stringUsers userMask =
    stringUsers @ triggerUsers Action_briefingStringUsed BriefingTriggerAction BriefingTriggerActionSound userMask
      (briefingTriggers sec) stringId"

definition MbrfSection_stringUsed :: "u32 \<Rightarrow> MbrfSection \<Rightarrow> nat \<Rightarrow> bool" where
  "MbrfSection_stringUsed userMask sec stringId \<longleftrightarrow>
    (\<exists>t\<in>set (briefingTriggers sec). Trigger_briefingStringUsed userMask t stringId)"

definition MbrfSection_markUsedStrings :: "u32 \<Rightarrow> MbrfSection \<Rightarrow> (nat \<Rightarrow> bool) \<Rightarrow> nat \<Rightarrow> bool" where
  "MbrfSection_markUsedStrings userMask sec stringIdUsed =
    foldl (\<lambda>u t. Trigger_markUsedBriefingStrings userMask t u) stringIdUsed (briefingTriggers sec)"

definition MbrfSection_remapStringIds :: "(nat \<rightharpoonup> nat) \<Rightarrow> MbrfSection \<Rightarrow> MbrfSection" where
  "MbrfSection_remapStringIds m sec =
    sec\<lparr>briefingTriggers := map (Trigger_remapBriefingStringIds m) (briefingTriggers sec)\<rparr>"

text \<open>As in the code, a briefing trigger's strings are deleted as if it were a trigger.\<close>

definition MbrfSection_deleteString :: "nat \<Rightarrow> MbrfSection \<Rightarrow> MbrfSection" where
  "MbrfSection_deleteString stringId sec =
    sec\<lparr>briefingTriggers := map (Trigger_deleteString stringId) (briefingTriggers sec)\<rparr>"

section \<open>The ids the sections refer to\<close>

definition TrigSection_locations :: "TrigSection \<Rightarrow> nat set" where
  "TrigSection_locations sec = (\<Union>t\<in>set (triggers sec). Trigger_locations t)"

definition TrigSection_strings :: "u32 \<Rightarrow> TrigSection \<Rightarrow> nat set" where
  "TrigSection_strings userMask sec = (\<Union>t\<in>set (triggers sec). Trigger_strings userMask t)"

definition TrigSection_gameStrings :: "u32 \<Rightarrow> TrigSection \<Rightarrow> nat set" where
  "TrigSection_gameStrings userMask sec = (\<Union>t\<in>set (triggers sec). Trigger_gameStrings userMask t)"

definition TrigSection_comments :: "TrigSection \<Rightarrow> nat set" where
  "TrigSection_comments sec = (\<Union>t\<in>set (triggers sec). Trigger_comments t)"

definition MbrfSection_strings :: "u32 \<Rightarrow> MbrfSection \<Rightarrow> nat set" where
  "MbrfSection_strings userMask sec = (\<Union>t\<in>set (briefingTriggers sec). Trigger_briefingStrings userMask t)"

lemmas trig_section_defs = TrigSection_locations_def TrigSection_strings_def TrigSection_gameStrings_def
  TrigSection_comments_def TrigSection_locationUsed_def TrigSection_stringUsed_def
  TrigSection_gameStringUsed_def TrigSection_commentStringUsed_def TrigSection_markUsedLocations_def
  TrigSection_markUsedStrings_def TrigSection_markUsedGameStrings_def TrigSection_markUsedCommentStrings_def
  TrigSection_remapStringIds_def TrigSection_deleteLocation_def TrigSection_deleteString_def

lemmas user_defs = id_remapper_def id_user_def id_remapper_axioms_def

interpretation trig_loc: id_user "TotalLocations + 1" "\<lambda>_. True" TrigSection_locations TrigSection_locationUsed
    TrigSection_markUsedLocations TrigSection_deleteLocation
  using trigger_loc.lift_list by (auto simp: user_defs trig_section_defs)

interpretation trig_str: id_remapper MaxStrings "\<lambda>_. True" "TrigSection_strings userMask"
    "TrigSection_stringUsed userMask" "TrigSection_markUsedStrings userMask" TrigSection_deleteString
    TrigSection_remapStringIds
  for userMask
  using trigger_str.lift_list_remap [of userMask] by (auto simp: user_defs trig_section_defs)

interpretation trig_game: id_remapper MaxStrings "\<lambda>_. True" "TrigSection_gameStrings userMask"
    "TrigSection_gameStringUsed userMask" "TrigSection_markUsedGameStrings userMask" TrigSection_deleteString
    TrigSection_remapStringIds
  for userMask
  using trigger_game.lift_list_remap [of userMask] by (auto simp: user_defs trig_section_defs)

interpretation trig_comment: id_remapper MaxStrings "\<lambda>_. True" TrigSection_comments
    TrigSection_commentStringUsed TrigSection_markUsedCommentStrings TrigSection_deleteString
    TrigSection_remapStringIds
  using trigger_comment.lift_list_remap by (auto simp: user_defs trig_section_defs)

section \<open>Properties\<close>

text \<open>
  C24. Saving and loading triggers and briefings: a TRIG or MBRF section whose triggers have the
  arrays of the struct and that fits its size field is read back as the same triggers, and behind
  the triggers already there when the section appends.
\<close>

theorem trigger_sections_save_load:
  assumes "\<forall>t\<in>set (triggers ts). wf_Trigger t" "2400 * length (triggers ts) < 2 ^ 31"
    and "\<forall>t\<in>set (briefingTriggers bs). wf_Trigger t" "2400 * length (briefingTriggers bs) < 2 ^ 31"
  shows "TrigSection_read (TrigSection_getSize ts) (TrigSection_write ts @ rest) appending old
      = Inr (2400 * length (triggers ts), rest,
          old\<lparr>triggers := (if appending then triggers old else []) @ triggers ts\<rparr>) \<and>
    MbrfSection_read (MbrfSection_getSize bs) (MbrfSection_write bs @ rest) appending bold
      = Inr (2400 * length (briefingTriggers bs), rest,
          bold\<lparr>briefingTriggers := (if appending then briefingTriggers bold else []) @ briefingTriggers bs\<rparr>)"
  using assms trigger_codec.objs_read_write [OF assms(1), of appending rest]
    trigger_codec.objs_read_write [OF assms(3), of appending rest]
  by (simp add: TrigSection_read_def TrigSection_getSize_def TrigSection_write_def
      MbrfSection_read_def MbrfSection_getSize_def MbrfSection_write_def toSectionSize_small
      trigger_codec.length_enc_array)

theorem trigger_sections_save_load_witness:
  "TrigSection_read (TrigSection_getSize \<lparr>triggers = [example_trigger]\<rparr>)
      (TrigSection_write \<lparr>triggers = [example_trigger]\<rparr>) True \<lparr>triggers = [example_trigger]\<rparr> =
    Inr (2400, [], \<lparr>triggers = [example_trigger, example_trigger]\<rparr>)"
proof -
  have "wf_Trigger example_trigger"
    by (simp add: wf_Trigger_def example_trigger_def MaxConditions_def MaxActions_def MaxOwners_def)
  then show ?thesis
    using trigger_sections_save_load [of "\<lparr>triggers = [example_trigger]\<rparr>" "\<lparr>briefingTriggers = []\<rparr>" "[]" True
        "\<lparr>triggers = [example_trigger]\<rparr>" "\<lparr>briefingTriggers = []\<rparr>"] by simp
qed

lemma briefing_types_have_no_trigger_string:
  "briefingActionUsesStringArg t \<Longrightarrow> \<not> actionUsesStringArg t"
  by (auto simp: briefingActionUsesStringArg_def actionUsesStringArg_def)

lemma Action_deleteString_briefing_text:
  "Action_briefingStringUsed BriefingTriggerAction (Action_deleteString i a) j =
    Action_briefingStringUsed BriefingTriggerAction a j"
proof -
  have "\<not> hasFlag BriefingTriggerAction BriefingTriggerActionSound"
    by (simp add: hasFlag_def BriefingTriggerAction_def BriefingTriggerActionSound_def)
  then show ?thesis
    using briefing_types_have_no_trigger_string [of "a_actionType a"]
    by (auto simp: Action_briefingStringUsed_def Action_deleteString_def Let_def)
qed

text \<open>
  \<open>MbrfSection::deleteString\<close> never removes the text of a briefing: the table of trigger
  actions it goes by gives no string argument to any of the types that have one in a briefing,
  so every string id used as briefing text before is used after, the deleted one included.
\<close>

lemma MbrfSection_deleteString_keeps_text:
  "MbrfSection_stringUsed BriefingTriggerAction (MbrfSection_deleteString i sec) j =
    MbrfSection_stringUsed BriefingTriggerAction sec j"
  by (simp add: MbrfSection_stringUsed_def MbrfSection_deleteString_def Trigger_briefingStringUsed_def
      Trigger_deleteString_def Action_deleteString_briefing_text)

text \<open>
  Replacing a range of triggers. The triggers of the range are replaced by the new ones and
  returned, and the others stay in order, except when the range starts at 0 and its end happens
  to equal the number of new triggers: then the whole list is replaced and returned, the triggers
  behind the range included. A range outside the list is refused.
\<close>

lemma TrigSection_replaceRange_spec:
  assumes "beginIndex < endIndex"
  shows "case TrigSection_replaceRange beginIndex endIndex new sec of
      Inl e \<Rightarrow> e = OutOfRange \<and> length (triggers sec) < endIndex
    | Inr (replaced, _, sec') \<Rightarrow>
        if beginIndex = 0 \<and> endIndex = length new then triggers sec' = new \<and> replaced = triggers sec
        else triggers sec' = take beginIndex (triggers sec) @ new @ drop endIndex (triggers sec) \<and>
          triggers sec = take beginIndex (triggers sec) @ replaced @ drop endIndex (triggers sec)"
proof -
  have "take (endIndex - beginIndex) (drop beginIndex xs) @ drop endIndex xs = drop beginIndex xs" for xs :: "Trigger list"
    using assms append_take_drop_id [of "endIndex - beginIndex" "drop beginIndex xs"] by simp
  then have "take beginIndex xs @ take (endIndex - beginIndex) (drop beginIndex xs) @ drop endIndex xs = xs"
    for xs :: "Trigger list" by simp
  then show ?thesis using assms by (auto simp: TrigSection_replaceRange_def)
qed

lemma TrigSection_replaceRange_spec_witness:
  "\<exists>replaced left sec'. TrigSection_replaceRange 0 1 [example_trigger]
       \<lparr>triggers = [example_trigger, example_trigger, example_trigger]\<rparr> = Inr (replaced, left, sec') \<and>
     length replaced = 3 \<and> length (triggers sec') = 1"
  using TrigSection_replaceRange_spec [of 0 1 "\<lparr>triggers = [example_trigger, example_trigger, example_trigger]\<rparr>"
      "[example_trigger]"]
  by (simp add: TrigSection_replaceRange_def)

lemma set_triggerUsers:
  "set (triggerUsers uses stringFlag soundFlag userMask ts i) =
    {u. su_index u < length ts \<and> su_subIndex u < MaxActions \<and> su_userFlags u \<in> {stringFlag, soundFlag} \<and>
       hasFlag userMask (su_userFlags u) \<and> uses (su_userFlags u) (t_actions (ts ! su_index u) ! su_subIndex u) i}"
  (is "?L = ?R")
proof
  show "?L \<subseteq> ?R" by (auto simp: triggerUsers_def Let_def split: if_splits)
  show "?R \<subseteq> ?L"
  proof
    fix u
    assume u: "u \<in> ?R"
    then have "u = \<lparr>su_userFlags = su_userFlags u, su_index = su_index u, su_subIndex = su_subIndex u\<rparr>" by simp
    with u show "u \<in> ?L" unfolding triggerUsers_def Let_def by force
  qed
qed

lemma ex_StringUser:
  "(\<exists>u :: StringUser. P (su_userFlags u) (su_index u) (su_subIndex u)) \<longleftrightarrow> (\<exists>f k j. P f k j)"
  by (metis StringUser.select_convs)

text \<open>
  The uses \<open>TrigSection::appendUsage\<close> lists for a string are exactly the actions that use it:
  each entry names a trigger and an action of it that uses the string in the way its flag says,
  every such action is listed, and what was in the list before stays in front.
\<close>

lemma TrigSection_appendUsage_spec:
  assumes "\<forall>t\<in>set (triggers sec). wf_Trigger t"
  shows "\<exists>found. TrigSection_appendUsage sec stringId users userMask = users @ found \<and>
    set found = {u. su_index u < length (triggers sec) \<and> su_subIndex u < MaxActions \<and>
      su_userFlags u \<in> {TriggerAction, TriggerActionSound} \<and> hasFlag userMask (su_userFlags u) \<and>
      Action_stringUsed (su_userFlags u) (t_actions (triggers sec ! su_index u) ! su_subIndex u) stringId} \<and>
    (found \<noteq> [] \<longleftrightarrow> TrigSection_stringUsed userMask sec stringId)"
proof -
  let ?found = "triggerUsers Action_stringUsed TriggerAction TriggerActionSound userMask (triggers sec) stringId"
  have flags: "hasFlag TriggerAction TriggerAction" "hasFlag TriggerActionSound TriggerActionSound"
    "\<not> hasFlag TriggerAction TriggerActionSound" "\<not> hasFlag TriggerActionSound TriggerAction"
    by (simp_all add: hasFlag_def TriggerAction_def TriggerActionSound_def)
  have split: "Action_stringUsed userMask a stringId \<longleftrightarrow>
      (\<exists>f\<in>{TriggerAction, TriggerActionSound}. hasFlag userMask f \<and> Action_stringUsed f a stringId)" for a
    by (auto simp: Action_stringUsed_def flags)
  have len: "length (t_actions (triggers sec ! k)) = MaxActions" if "k < length (triggers sec)" for k
    using assms that by (simp add: wf_Trigger_def)
  have "?found \<noteq> [] \<longleftrightarrow> (\<exists>u. u \<in> set ?found)" by (cases ?found) auto
  also have "\<dots> \<longleftrightarrow> (\<exists>k<length (triggers sec). \<exists>j<MaxActions.
      Action_stringUsed userMask (t_actions (triggers sec ! k) ! j) stringId)"
    unfolding set_triggerUsers split mem_Collect_eq
    by (subst ex_StringUser [of "\<lambda>f k j. k < length (triggers sec) \<and> j < MaxActions \<and>
        f \<in> {TriggerAction, TriggerActionSound} \<and> hasFlag userMask f \<and>
        Action_stringUsed f (t_actions (triggers sec ! k) ! j) stringId"]) blast
  also have "\<dots> \<longleftrightarrow> TrigSection_stringUsed userMask sec stringId"
    unfolding TrigSection_stringUsed_def Trigger_stringUsed_def bex_set_nth using len by metis
  finally show ?thesis
    by (intro exI [of _ ?found] conjI) (simp_all add: TrigSection_appendUsage_def set_triggerUsers)
qed

definition message_trigger :: Trigger where
  "message_trigger = example_trigger
    \<lparr>t_actions := Action_blank\<lparr>a_actionType := 9, a_stringId := 3\<rparr> # replicate 63 Action_blank\<rparr>"

lemma TrigSection_appendUsage_spec_witness:
  "TrigSection_appendUsage \<lparr>triggers = [message_trigger]\<rparr> 3 [] AnyTrigger \<noteq> []"
proof -
  have wf: "\<forall>t\<in>set (triggers \<lparr>triggers = [message_trigger]\<rparr>). wf_Trigger t"
    by (simp add: wf_Trigger_def message_trigger_def example_trigger_def MaxConditions_def MaxActions_def MaxOwners_def)
  have "TrigSection_stringUsed AnyTrigger \<lparr>triggers = [message_trigger]\<rparr> 3"
    by (simp add: TrigSection_stringUsed_def Trigger_stringUsed_def message_trigger_def Action_stringUsed_def
        actionUsesStringArg_def NumActionTypes_def AnyTrigger_def TriggerAction_def hasFlag_def)
  then show ?thesis using TrigSection_appendUsage_spec [OF wf, of 3 "[]" AnyTrigger] by auto
qed

end
