(* ===== verification/Settings.thy ===== *)
theory Settings
  imports IdUsers
begin

text \<open>
  The sections of unit, upgrade and technology settings (\<open>src/MappingCoreLib/Sections.cpp\<close>): UNIS and UNIx,
  UPGS and UPGx, TECS and TECx hold one value per unit, weapon, upgrade or technology; PUNI, UPGR and
  PUPx, PTEC and PTEx hold one per player as well, beside the default that a player may use
  instead. The expansion section of each pair is the original one with longer arrays. Every
  getter and setter checks its indexes and throws; the locale \<open>indexed_field\<close> is what they promise,
  and every getter and setter pair interprets it.
\<close>

section \<open>Access to arrays of a struct\<close>

definition TotalUnitTypes :: nat where "TotalUnitTypes = 228"
definition TotalOriginalWeapons :: nat where "TotalOriginalWeapons = 100"
definition TotalWeapons :: nat where "TotalWeapons = 130"
definition TotalOriginalUpgrades :: nat where "TotalOriginalUpgrades = 46"
definition TotalUpgrades :: nat where "TotalUpgrades = 61"
definition TotalOriginalTechs :: nat where "TotalOriginalTechs = 24"
definition TotalTechs :: nat where "TotalTechs = 44"
definition TotalPlayers :: nat where "TotalPlayers = 12"

definition getElem :: "nat \<Rightarrow> 'a list \<Rightarrow> nat \<Rightarrow> 'a result" where
  "getElem n xs i = (if i < n then Inr (xs ! i) else Inl OutOfRange)"

definition setElem :: "nat \<Rightarrow> nat \<Rightarrow> 'a \<Rightarrow> 'a list \<Rightarrow> 'a list result" where
  "setElem n i v xs = (if i < n then Inr (xs[i := v]) else Inl OutOfRange)"

text \<open>The two-dimensional arrays are indexed by type and then by player.\<close>

definition getElem2 :: "nat \<Rightarrow> nat \<Rightarrow> 'a list list \<Rightarrow> nat \<Rightarrow> nat \<Rightarrow> 'a result" where
  "getElem2 n m xss i j =
    (if i < n then if j < m then Inr (xss ! i ! j) else Inl OutOfRange else Inl OutOfRange)"

definition setElem2 :: "nat \<Rightarrow> nat \<Rightarrow> nat \<Rightarrow> nat \<Rightarrow> 'a \<Rightarrow> 'a list list \<Rightarrow> 'a list list result" where
  "setElem2 n m i j v xss =
    (if i < n then if j < m then Inr (xss[i := (xss ! i)[j := v]]) else Inl OutOfRange else Inl OutOfRange)"

text \<open>\<open>b ? Yes : No\<close> of the enumerations \<open>Available\<close>, \<open>UseDefault\<close> and \<open>Researched\<close>.\<close>

definition yesNo :: "bool \<Rightarrow> u8" where
  "yesNo b = (if b then 1 else 0)"

definition is_matrix :: "nat \<Rightarrow> nat \<Rightarrow> 'a list list \<Rightarrow> bool" where
  "is_matrix n m xss \<longleftrightarrow> length xss = n \<and> (\<forall>xs\<in>set xss. length xs = m)"

lemma yesNo_nonzero [simp]: "yesNo b \<noteq> 0 \<longleftrightarrow> b" "yesNo b = 0 \<longleftrightarrow> \<not> b"
  by (simp_all add: yesNo_def)

lemma is_matrix_update:
  "is_matrix n m xss \<Longrightarrow> i < n \<Longrightarrow> is_matrix n m (xss[i := (xss ! i)[j := v]])"
  by (auto simp: is_matrix_def dest!: set_update_subset_insert [THEN subsetD])

lemma nth_matrix_update:
  assumes "is_matrix n m xss" "i < n" "j < m"
  shows "xss[i := (xss ! i)[j := v]] ! i' ! j' = (if i' = i \<and> j' = j then v else xss ! i' ! j')"
proof -
  have "length xss = n" "length (xss ! i) = m" using assms by (auto simp: is_matrix_def)
  then show ?thesis using assms by (auto simp: nth_list_update)
qed

locale indexed_field =
  fixes ok :: "'i \<Rightarrow> bool"
    and inv :: "'s \<Rightarrow> bool"
    and get :: "'s \<Rightarrow> 'i \<Rightarrow> 'v result"
    and set :: "'i \<Rightarrow> 'w \<Rightarrow> 's \<Rightarrow> 's result"
    and norm :: "'w \<Rightarrow> 'v"
  assumes get_in: "inv s \<Longrightarrow> ok i \<Longrightarrow> \<exists>v. get s i = Inr v"
    and get_out: "\<not> ok i \<Longrightarrow> get s i = Inl OutOfRange"
    and set_out: "\<not> ok i \<Longrightarrow> set i w s = Inl OutOfRange"
    and set_in: "inv s \<Longrightarrow> ok i \<Longrightarrow> \<exists>s'. set i w s = Inr s' \<and> inv s' \<and> get s' i = Inr (norm w) \<and>
      (\<forall>j. j \<noteq> i \<longrightarrow> get s' j = get s j)"

section \<open>UNIS\<close>

record UnisSection =
  unis_useDefault :: "u8 list"
  unis_hitpoints :: "u32 list"
  unis_shieldPoints :: "u16 list"
  unis_armorLevel :: "u8 list"
  unis_buildTime :: "u16 list"
  unis_mineralCost :: "u16 list"
  unis_gasCost :: "u16 list"
  unis_nameStringId :: "u16 list"
  unis_baseDamage :: "u16 list"
  unis_upgradeDamage :: "u16 list"

definition wf_UnisSection :: "UnisSection \<Rightarrow> bool" where
  "wf_UnisSection sec \<longleftrightarrow>
     length (unis_useDefault sec) = TotalUnitTypes \<and>
     length (unis_hitpoints sec) = TotalUnitTypes \<and>
     length (unis_shieldPoints sec) = TotalUnitTypes \<and>
     length (unis_armorLevel sec) = TotalUnitTypes \<and>
     length (unis_buildTime sec) = TotalUnitTypes \<and>
     length (unis_mineralCost sec) = TotalUnitTypes \<and>
     length (unis_gasCost sec) = TotalUnitTypes \<and>
     length (unis_nameStringId sec) = TotalUnitTypes \<and>
     length (unis_baseDamage sec) = TotalOriginalWeapons \<and>
     length (unis_upgradeDamage sec) = TotalOriginalWeapons"

definition UnisSection_GetDefault :: UnisSection where
  "UnisSection_GetDefault = \<lparr>unis_useDefault = replicate TotalUnitTypes 1,
     unis_hitpoints = replicate TotalUnitTypes 0,
     unis_shieldPoints = replicate TotalUnitTypes 0,
     unis_armorLevel = replicate TotalUnitTypes 0,
     unis_buildTime = replicate TotalUnitTypes 0,
     unis_mineralCost = replicate TotalUnitTypes 0,
     unis_gasCost = replicate TotalUnitTypes 0,
     unis_nameStringId = replicate TotalUnitTypes 0,
     unis_baseDamage = replicate TotalOriginalWeapons 0,
     unis_upgradeDamage = replicate TotalOriginalWeapons 0\<rparr>"

definition UnisSection_unitUsesDefaultSettings :: "UnisSection \<Rightarrow> nat \<Rightarrow> bool result" where
  "UnisSection_unitUsesDefaultSettings sec i = bind_result (getElem TotalUnitTypes (unis_useDefault sec) i) (\<lambda>b. Inr (b \<noteq> 0))"

definition UnisSection_setUnitUsesDefaultSettings :: "nat \<Rightarrow> bool \<Rightarrow> UnisSection \<Rightarrow> UnisSection result" where
  "UnisSection_setUnitUsesDefaultSettings i v sec =
    bind_result (setElem TotalUnitTypes i (yesNo v) (unis_useDefault sec)) (\<lambda>xs. Inr (sec\<lparr>unis_useDefault := xs\<rparr>))"

definition UnisSection_getUnitHitpoints :: "UnisSection \<Rightarrow> nat \<Rightarrow> u32 result" where
  "UnisSection_getUnitHitpoints sec i = getElem TotalUnitTypes (unis_hitpoints sec) i"

definition UnisSection_setUnitHitpoints :: "nat \<Rightarrow> u32 \<Rightarrow> UnisSection \<Rightarrow> UnisSection result" where
  "UnisSection_setUnitHitpoints i v sec =
    bind_result (setElem TotalUnitTypes i v (unis_hitpoints sec)) (\<lambda>xs. Inr (sec\<lparr>unis_hitpoints := xs\<rparr>))"

definition UnisSection_getUnitShieldPoints :: "UnisSection \<Rightarrow> nat \<Rightarrow> u16 result" where
  "UnisSection_getUnitShieldPoints sec i = getElem TotalUnitTypes (unis_shieldPoints sec) i"

definition UnisSection_setUnitShieldPoints :: "nat \<Rightarrow> u16 \<Rightarrow> UnisSection \<Rightarrow> UnisSection result" where
  "UnisSection_setUnitShieldPoints i v sec =
    bind_result (setElem TotalUnitTypes i v (unis_shieldPoints sec)) (\<lambda>xs. Inr (sec\<lparr>unis_shieldPoints := xs\<rparr>))"

definition UnisSection_getUnitArmorLevel :: "UnisSection \<Rightarrow> nat \<Rightarrow> u8 result" where
  "UnisSection_getUnitArmorLevel sec i = getElem TotalUnitTypes (unis_armorLevel sec) i"

definition UnisSection_setUnitArmorLevel :: "nat \<Rightarrow> u8 \<Rightarrow> UnisSection \<Rightarrow> UnisSection result" where
  "UnisSection_setUnitArmorLevel i v sec =
    bind_result (setElem TotalUnitTypes i v (unis_armorLevel sec)) (\<lambda>xs. Inr (sec\<lparr>unis_armorLevel := xs\<rparr>))"

definition UnisSection_getUnitBuildTime :: "UnisSection \<Rightarrow> nat \<Rightarrow> u16 result" where
  "UnisSection_getUnitBuildTime sec i = getElem TotalUnitTypes (unis_buildTime sec) i"

definition UnisSection_setUnitBuildTime :: "nat \<Rightarrow> u16 \<Rightarrow> UnisSection \<Rightarrow> UnisSection result" where
  "UnisSection_setUnitBuildTime i v sec =
    bind_result (setElem TotalUnitTypes i v (unis_buildTime sec)) (\<lambda>xs. Inr (sec\<lparr>unis_buildTime := xs\<rparr>))"

definition UnisSection_getUnitMineralCost :: "UnisSection \<Rightarrow> nat \<Rightarrow> u16 result" where
  "UnisSection_getUnitMineralCost sec i = getElem TotalUnitTypes (unis_mineralCost sec) i"

definition UnisSection_setUnitMineralCost :: "nat \<Rightarrow> u16 \<Rightarrow> UnisSection \<Rightarrow> UnisSection result" where
  "UnisSection_setUnitMineralCost i v sec =
    bind_result (setElem TotalUnitTypes i v (unis_mineralCost sec)) (\<lambda>xs. Inr (sec\<lparr>unis_mineralCost := xs\<rparr>))"

definition UnisSection_getUnitGasCost :: "UnisSection \<Rightarrow> nat \<Rightarrow> u16 result" where
  "UnisSection_getUnitGasCost sec i = getElem TotalUnitTypes (unis_gasCost sec) i"

definition UnisSection_setUnitGasCost :: "nat \<Rightarrow> u16 \<Rightarrow> UnisSection \<Rightarrow> UnisSection result" where
  "UnisSection_setUnitGasCost i v sec =
    bind_result (setElem TotalUnitTypes i v (unis_gasCost sec)) (\<lambda>xs. Inr (sec\<lparr>unis_gasCost := xs\<rparr>))"

definition UnisSection_getUnitNameStringId :: "UnisSection \<Rightarrow> nat \<Rightarrow> nat result" where
  "UnisSection_getUnitNameStringId sec i = bind_result (getElem TotalUnitTypes (unis_nameStringId sec) i) (\<lambda>x. Inr (unat x))"

definition UnisSection_setUnitNameStringId :: "nat \<Rightarrow> u16 \<Rightarrow> UnisSection \<Rightarrow> UnisSection result" where
  "UnisSection_setUnitNameStringId i v sec =
    bind_result (setElem TotalUnitTypes i v (unis_nameStringId sec)) (\<lambda>xs. Inr (sec\<lparr>unis_nameStringId := xs\<rparr>))"

definition UnisSection_getWeaponBaseDamage :: "UnisSection \<Rightarrow> nat \<Rightarrow> u16 result" where
  "UnisSection_getWeaponBaseDamage sec i = getElem TotalOriginalWeapons (unis_baseDamage sec) i"

definition UnisSection_setWeaponBaseDamage :: "nat \<Rightarrow> u16 \<Rightarrow> UnisSection \<Rightarrow> UnisSection result" where
  "UnisSection_setWeaponBaseDamage i v sec =
    bind_result (setElem TotalOriginalWeapons i v (unis_baseDamage sec)) (\<lambda>xs. Inr (sec\<lparr>unis_baseDamage := xs\<rparr>))"

definition UnisSection_getWeaponUpgradeDamage :: "UnisSection \<Rightarrow> nat \<Rightarrow> u16 result" where
  "UnisSection_getWeaponUpgradeDamage sec i = getElem TotalOriginalWeapons (unis_upgradeDamage sec) i"

definition UnisSection_setWeaponUpgradeDamage :: "nat \<Rightarrow> u16 \<Rightarrow> UnisSection \<Rightarrow> UnisSection result" where
  "UnisSection_setWeaponUpgradeDamage i v sec =
    bind_result (setElem TotalOriginalWeapons i v (unis_upgradeDamage sec)) (\<lambda>xs. Inr (sec\<lparr>unis_upgradeDamage := xs\<rparr>))"

section \<open>UNIx\<close>

record UnixSection =
  unix_useDefault :: "u8 list"
  unix_hitpoints :: "u32 list"
  unix_shieldPoints :: "u16 list"
  unix_armorLevel :: "u8 list"
  unix_buildTime :: "u16 list"
  unix_mineralCost :: "u16 list"
  unix_gasCost :: "u16 list"
  unix_nameStringId :: "u16 list"
  unix_baseDamage :: "u16 list"
  unix_upgradeDamage :: "u16 list"

definition wf_UnixSection :: "UnixSection \<Rightarrow> bool" where
  "wf_UnixSection sec \<longleftrightarrow>
     length (unix_useDefault sec) = TotalUnitTypes \<and>
     length (unix_hitpoints sec) = TotalUnitTypes \<and>
     length (unix_shieldPoints sec) = TotalUnitTypes \<and>
     length (unix_armorLevel sec) = TotalUnitTypes \<and>
     length (unix_buildTime sec) = TotalUnitTypes \<and>
     length (unix_mineralCost sec) = TotalUnitTypes \<and>
     length (unix_gasCost sec) = TotalUnitTypes \<and>
     length (unix_nameStringId sec) = TotalUnitTypes \<and>
     length (unix_baseDamage sec) = TotalWeapons \<and>
     length (unix_upgradeDamage sec) = TotalWeapons"

definition UnixSection_GetDefault :: UnixSection where
  "UnixSection_GetDefault = \<lparr>unix_useDefault = replicate TotalUnitTypes 1,
     unix_hitpoints = replicate TotalUnitTypes 0,
     unix_shieldPoints = replicate TotalUnitTypes 0,
     unix_armorLevel = replicate TotalUnitTypes 0,
     unix_buildTime = replicate TotalUnitTypes 0,
     unix_mineralCost = replicate TotalUnitTypes 0,
     unix_gasCost = replicate TotalUnitTypes 0,
     unix_nameStringId = replicate TotalUnitTypes 0,
     unix_baseDamage = replicate TotalWeapons 0,
     unix_upgradeDamage = replicate TotalWeapons 0\<rparr>"

definition UnixSection_unitUsesDefaultSettings :: "UnixSection \<Rightarrow> nat \<Rightarrow> bool result" where
  "UnixSection_unitUsesDefaultSettings sec i = bind_result (getElem TotalUnitTypes (unix_useDefault sec) i) (\<lambda>b. Inr (b \<noteq> 0))"

definition UnixSection_setUnitUsesDefaultSettings :: "nat \<Rightarrow> bool \<Rightarrow> UnixSection \<Rightarrow> UnixSection result" where
  "UnixSection_setUnitUsesDefaultSettings i v sec =
    bind_result (setElem TotalUnitTypes i (yesNo v) (unix_useDefault sec)) (\<lambda>xs. Inr (sec\<lparr>unix_useDefault := xs\<rparr>))"

definition UnixSection_getUnitHitpoints :: "UnixSection \<Rightarrow> nat \<Rightarrow> u32 result" where
  "UnixSection_getUnitHitpoints sec i = getElem TotalUnitTypes (unix_hitpoints sec) i"

definition UnixSection_setUnitHitpoints :: "nat \<Rightarrow> u32 \<Rightarrow> UnixSection \<Rightarrow> UnixSection result" where
  "UnixSection_setUnitHitpoints i v sec =
    bind_result (setElem TotalUnitTypes i v (unix_hitpoints sec)) (\<lambda>xs. Inr (sec\<lparr>unix_hitpoints := xs\<rparr>))"

definition UnixSection_getUnitShieldPoints :: "UnixSection \<Rightarrow> nat \<Rightarrow> u16 result" where
  "UnixSection_getUnitShieldPoints sec i = getElem TotalUnitTypes (unix_shieldPoints sec) i"

definition UnixSection_setUnitShieldPoints :: "nat \<Rightarrow> u16 \<Rightarrow> UnixSection \<Rightarrow> UnixSection result" where
  "UnixSection_setUnitShieldPoints i v sec =
    bind_result (setElem TotalUnitTypes i v (unix_shieldPoints sec)) (\<lambda>xs. Inr (sec\<lparr>unix_shieldPoints := xs\<rparr>))"

definition UnixSection_getUnitArmorLevel :: "UnixSection \<Rightarrow> nat \<Rightarrow> u8 result" where
  "UnixSection_getUnitArmorLevel sec i = getElem TotalUnitTypes (unix_armorLevel sec) i"

definition UnixSection_setUnitArmorLevel :: "nat \<Rightarrow> u8 \<Rightarrow> UnixSection \<Rightarrow> UnixSection result" where
  "UnixSection_setUnitArmorLevel i v sec =
    bind_result (setElem TotalUnitTypes i v (unix_armorLevel sec)) (\<lambda>xs. Inr (sec\<lparr>unix_armorLevel := xs\<rparr>))"

definition UnixSection_getUnitBuildTime :: "UnixSection \<Rightarrow> nat \<Rightarrow> u16 result" where
  "UnixSection_getUnitBuildTime sec i = getElem TotalUnitTypes (unix_buildTime sec) i"

definition UnixSection_setUnitBuildTime :: "nat \<Rightarrow> u16 \<Rightarrow> UnixSection \<Rightarrow> UnixSection result" where
  "UnixSection_setUnitBuildTime i v sec =
    bind_result (setElem TotalUnitTypes i v (unix_buildTime sec)) (\<lambda>xs. Inr (sec\<lparr>unix_buildTime := xs\<rparr>))"

definition UnixSection_getUnitMineralCost :: "UnixSection \<Rightarrow> nat \<Rightarrow> u16 result" where
  "UnixSection_getUnitMineralCost sec i = getElem TotalUnitTypes (unix_mineralCost sec) i"

definition UnixSection_setUnitMineralCost :: "nat \<Rightarrow> u16 \<Rightarrow> UnixSection \<Rightarrow> UnixSection result" where
  "UnixSection_setUnitMineralCost i v sec =
    bind_result (setElem TotalUnitTypes i v (unix_mineralCost sec)) (\<lambda>xs. Inr (sec\<lparr>unix_mineralCost := xs\<rparr>))"

definition UnixSection_getUnitGasCost :: "UnixSection \<Rightarrow> nat \<Rightarrow> u16 result" where
  "UnixSection_getUnitGasCost sec i = getElem TotalUnitTypes (unix_gasCost sec) i"

definition UnixSection_setUnitGasCost :: "nat \<Rightarrow> u16 \<Rightarrow> UnixSection \<Rightarrow> UnixSection result" where
  "UnixSection_setUnitGasCost i v sec =
    bind_result (setElem TotalUnitTypes i v (unix_gasCost sec)) (\<lambda>xs. Inr (sec\<lparr>unix_gasCost := xs\<rparr>))"

definition UnixSection_getUnitNameStringId :: "UnixSection \<Rightarrow> nat \<Rightarrow> nat result" where
  "UnixSection_getUnitNameStringId sec i = bind_result (getElem TotalUnitTypes (unix_nameStringId sec) i) (\<lambda>x. Inr (unat x))"

definition UnixSection_setUnitNameStringId :: "nat \<Rightarrow> u16 \<Rightarrow> UnixSection \<Rightarrow> UnixSection result" where
  "UnixSection_setUnitNameStringId i v sec =
    bind_result (setElem TotalUnitTypes i v (unix_nameStringId sec)) (\<lambda>xs. Inr (sec\<lparr>unix_nameStringId := xs\<rparr>))"

definition UnixSection_getWeaponBaseDamage :: "UnixSection \<Rightarrow> nat \<Rightarrow> u16 result" where
  "UnixSection_getWeaponBaseDamage sec i = getElem TotalWeapons (unix_baseDamage sec) i"

definition UnixSection_setWeaponBaseDamage :: "nat \<Rightarrow> u16 \<Rightarrow> UnixSection \<Rightarrow> UnixSection result" where
  "UnixSection_setWeaponBaseDamage i v sec =
    bind_result (setElem TotalWeapons i v (unix_baseDamage sec)) (\<lambda>xs. Inr (sec\<lparr>unix_baseDamage := xs\<rparr>))"

definition UnixSection_getWeaponUpgradeDamage :: "UnixSection \<Rightarrow> nat \<Rightarrow> u16 result" where
  "UnixSection_getWeaponUpgradeDamage sec i = getElem TotalWeapons (unix_upgradeDamage sec) i"

definition UnixSection_setWeaponUpgradeDamage :: "nat \<Rightarrow> u16 \<Rightarrow> UnixSection \<Rightarrow> UnixSection result" where
  "UnixSection_setWeaponUpgradeDamage i v sec =
    bind_result (setElem TotalWeapons i v (unix_upgradeDamage sec)) (\<lambda>xs. Inr (sec\<lparr>unix_upgradeDamage := xs\<rparr>))"

section \<open>UPGS\<close>

record UpgsSection =
  upgs_useDefault :: "u8 list"
  upgs_baseMineralCost :: "u16 list"
  upgs_mineralCostFactor :: "u16 list"
  upgs_baseGasCost :: "u16 list"
  upgs_gasCostFactor :: "u16 list"
  upgs_baseResearchTime :: "u16 list"
  upgs_researchTimeFactor :: "u16 list"

definition wf_UpgsSection :: "UpgsSection \<Rightarrow> bool" where
  "wf_UpgsSection sec \<longleftrightarrow>
     length (upgs_useDefault sec) = TotalOriginalUpgrades \<and>
     length (upgs_baseMineralCost sec) = TotalOriginalUpgrades \<and>
     length (upgs_mineralCostFactor sec) = TotalOriginalUpgrades \<and>
     length (upgs_baseGasCost sec) = TotalOriginalUpgrades \<and>
     length (upgs_gasCostFactor sec) = TotalOriginalUpgrades \<and>
     length (upgs_baseResearchTime sec) = TotalOriginalUpgrades \<and>
     length (upgs_researchTimeFactor sec) = TotalOriginalUpgrades"

definition UpgsSection_GetDefault :: UpgsSection where
  "UpgsSection_GetDefault = \<lparr>upgs_useDefault = replicate TotalOriginalUpgrades 1,
     upgs_baseMineralCost = replicate TotalOriginalUpgrades 0,
     upgs_mineralCostFactor = replicate TotalOriginalUpgrades 0,
     upgs_baseGasCost = replicate TotalOriginalUpgrades 0,
     upgs_gasCostFactor = replicate TotalOriginalUpgrades 0,
     upgs_baseResearchTime = replicate TotalOriginalUpgrades 0,
     upgs_researchTimeFactor = replicate TotalOriginalUpgrades 0\<rparr>"

definition UpgsSection_upgradeUsesDefaultCosts :: "UpgsSection \<Rightarrow> nat \<Rightarrow> bool result" where
  "UpgsSection_upgradeUsesDefaultCosts sec i = bind_result (getElem TotalOriginalUpgrades (upgs_useDefault sec) i) (\<lambda>b. Inr (b \<noteq> 0))"

definition UpgsSection_setUpgradeUsesDefaultCosts :: "nat \<Rightarrow> bool \<Rightarrow> UpgsSection \<Rightarrow> UpgsSection result" where
  "UpgsSection_setUpgradeUsesDefaultCosts i v sec =
    bind_result (setElem TotalOriginalUpgrades i (yesNo v) (upgs_useDefault sec)) (\<lambda>xs. Inr (sec\<lparr>upgs_useDefault := xs\<rparr>))"

definition UpgsSection_getBaseMineralCost :: "UpgsSection \<Rightarrow> nat \<Rightarrow> u16 result" where
  "UpgsSection_getBaseMineralCost sec i = getElem TotalOriginalUpgrades (upgs_baseMineralCost sec) i"

definition UpgsSection_setBaseMineralCost :: "nat \<Rightarrow> u16 \<Rightarrow> UpgsSection \<Rightarrow> UpgsSection result" where
  "UpgsSection_setBaseMineralCost i v sec =
    bind_result (setElem TotalOriginalUpgrades i v (upgs_baseMineralCost sec)) (\<lambda>xs. Inr (sec\<lparr>upgs_baseMineralCost := xs\<rparr>))"

definition UpgsSection_getMineralCostFactor :: "UpgsSection \<Rightarrow> nat \<Rightarrow> u16 result" where
  "UpgsSection_getMineralCostFactor sec i = getElem TotalOriginalUpgrades (upgs_mineralCostFactor sec) i"

definition UpgsSection_setMineralCostFactor :: "nat \<Rightarrow> u16 \<Rightarrow> UpgsSection \<Rightarrow> UpgsSection result" where
  "UpgsSection_setMineralCostFactor i v sec =
    bind_result (setElem TotalOriginalUpgrades i v (upgs_mineralCostFactor sec)) (\<lambda>xs. Inr (sec\<lparr>upgs_mineralCostFactor := xs\<rparr>))"

definition UpgsSection_getBaseGasCost :: "UpgsSection \<Rightarrow> nat \<Rightarrow> u16 result" where
  "UpgsSection_getBaseGasCost sec i = getElem TotalOriginalUpgrades (upgs_baseGasCost sec) i"

definition UpgsSection_setBaseGasCost :: "nat \<Rightarrow> u16 \<Rightarrow> UpgsSection \<Rightarrow> UpgsSection result" where
  "UpgsSection_setBaseGasCost i v sec =
    bind_result (setElem TotalOriginalUpgrades i v (upgs_baseGasCost sec)) (\<lambda>xs. Inr (sec\<lparr>upgs_baseGasCost := xs\<rparr>))"

definition UpgsSection_getGasCostFactor :: "UpgsSection \<Rightarrow> nat \<Rightarrow> u16 result" where
  "UpgsSection_getGasCostFactor sec i = getElem TotalOriginalUpgrades (upgs_gasCostFactor sec) i"

definition UpgsSection_setGasCostFactor :: "nat \<Rightarrow> u16 \<Rightarrow> UpgsSection \<Rightarrow> UpgsSection result" where
  "UpgsSection_setGasCostFactor i v sec =
    bind_result (setElem TotalOriginalUpgrades i v (upgs_gasCostFactor sec)) (\<lambda>xs. Inr (sec\<lparr>upgs_gasCostFactor := xs\<rparr>))"

definition UpgsSection_getBaseResearchTime :: "UpgsSection \<Rightarrow> nat \<Rightarrow> u16 result" where
  "UpgsSection_getBaseResearchTime sec i = getElem TotalOriginalUpgrades (upgs_baseResearchTime sec) i"

definition UpgsSection_setBaseResearchTime :: "nat \<Rightarrow> u16 \<Rightarrow> UpgsSection \<Rightarrow> UpgsSection result" where
  "UpgsSection_setBaseResearchTime i v sec =
    bind_result (setElem TotalOriginalUpgrades i v (upgs_baseResearchTime sec)) (\<lambda>xs. Inr (sec\<lparr>upgs_baseResearchTime := xs\<rparr>))"

definition UpgsSection_getResearchTimeFactor :: "UpgsSection \<Rightarrow> nat \<Rightarrow> u16 result" where
  "UpgsSection_getResearchTimeFactor sec i = getElem TotalOriginalUpgrades (upgs_researchTimeFactor sec) i"

definition UpgsSection_setResearchTimeFactor :: "nat \<Rightarrow> u16 \<Rightarrow> UpgsSection \<Rightarrow> UpgsSection result" where
  "UpgsSection_setResearchTimeFactor i v sec =
    bind_result (setElem TotalOriginalUpgrades i v (upgs_researchTimeFactor sec)) (\<lambda>xs. Inr (sec\<lparr>upgs_researchTimeFactor := xs\<rparr>))"

section \<open>UPGx\<close>

record UpgxSection =
  upgx_useDefault :: "u8 list"
  upgx_unused :: u8
  upgx_baseMineralCost :: "u16 list"
  upgx_mineralCostFactor :: "u16 list"
  upgx_baseGasCost :: "u16 list"
  upgx_gasCostFactor :: "u16 list"
  upgx_baseResearchTime :: "u16 list"
  upgx_researchTimeFactor :: "u16 list"

definition wf_UpgxSection :: "UpgxSection \<Rightarrow> bool" where
  "wf_UpgxSection sec \<longleftrightarrow>
     length (upgx_useDefault sec) = TotalUpgrades \<and>
     length (upgx_baseMineralCost sec) = TotalUpgrades \<and>
     length (upgx_mineralCostFactor sec) = TotalUpgrades \<and>
     length (upgx_baseGasCost sec) = TotalUpgrades \<and>
     length (upgx_gasCostFactor sec) = TotalUpgrades \<and>
     length (upgx_baseResearchTime sec) = TotalUpgrades \<and>
     length (upgx_researchTimeFactor sec) = TotalUpgrades"

definition UpgxSection_GetDefault :: UpgxSection where
  "UpgxSection_GetDefault = \<lparr>upgx_useDefault = replicate TotalUpgrades 1,
     upgx_unused = 0,
     upgx_baseMineralCost = replicate TotalUpgrades 0,
     upgx_mineralCostFactor = replicate TotalUpgrades 0,
     upgx_baseGasCost = replicate TotalUpgrades 0,
     upgx_gasCostFactor = replicate TotalUpgrades 0,
     upgx_baseResearchTime = replicate TotalUpgrades 0,
     upgx_researchTimeFactor = replicate TotalUpgrades 0\<rparr>"

definition UpgxSection_upgradeUsesDefaultCosts :: "UpgxSection \<Rightarrow> nat \<Rightarrow> bool result" where
  "UpgxSection_upgradeUsesDefaultCosts sec i = bind_result (getElem TotalUpgrades (upgx_useDefault sec) i) (\<lambda>b. Inr (b \<noteq> 0))"

definition UpgxSection_setUpgradeUsesDefaultCosts :: "nat \<Rightarrow> bool \<Rightarrow> UpgxSection \<Rightarrow> UpgxSection result" where
  "UpgxSection_setUpgradeUsesDefaultCosts i v sec =
    bind_result (setElem TotalUpgrades i (yesNo v) (upgx_useDefault sec)) (\<lambda>xs. Inr (sec\<lparr>upgx_useDefault := xs\<rparr>))"

definition UpgxSection_getBaseMineralCost :: "UpgxSection \<Rightarrow> nat \<Rightarrow> u16 result" where
  "UpgxSection_getBaseMineralCost sec i = getElem TotalUpgrades (upgx_baseMineralCost sec) i"

definition UpgxSection_setBaseMineralCost :: "nat \<Rightarrow> u16 \<Rightarrow> UpgxSection \<Rightarrow> UpgxSection result" where
  "UpgxSection_setBaseMineralCost i v sec =
    bind_result (setElem TotalUpgrades i v (upgx_baseMineralCost sec)) (\<lambda>xs. Inr (sec\<lparr>upgx_baseMineralCost := xs\<rparr>))"

definition UpgxSection_getMineralCostFactor :: "UpgxSection \<Rightarrow> nat \<Rightarrow> u16 result" where
  "UpgxSection_getMineralCostFactor sec i = getElem TotalUpgrades (upgx_mineralCostFactor sec) i"

definition UpgxSection_setMineralCostFactor :: "nat \<Rightarrow> u16 \<Rightarrow> UpgxSection \<Rightarrow> UpgxSection result" where
  "UpgxSection_setMineralCostFactor i v sec =
    bind_result (setElem TotalUpgrades i v (upgx_mineralCostFactor sec)) (\<lambda>xs. Inr (sec\<lparr>upgx_mineralCostFactor := xs\<rparr>))"

definition UpgxSection_getBaseGasCost :: "UpgxSection \<Rightarrow> nat \<Rightarrow> u16 result" where
  "UpgxSection_getBaseGasCost sec i = getElem TotalUpgrades (upgx_baseGasCost sec) i"

definition UpgxSection_setBaseGasCost :: "nat \<Rightarrow> u16 \<Rightarrow> UpgxSection \<Rightarrow> UpgxSection result" where
  "UpgxSection_setBaseGasCost i v sec =
    bind_result (setElem TotalUpgrades i v (upgx_baseGasCost sec)) (\<lambda>xs. Inr (sec\<lparr>upgx_baseGasCost := xs\<rparr>))"

definition UpgxSection_getGasCostFactor :: "UpgxSection \<Rightarrow> nat \<Rightarrow> u16 result" where
  "UpgxSection_getGasCostFactor sec i = getElem TotalUpgrades (upgx_gasCostFactor sec) i"

definition UpgxSection_setGasCostFactor :: "nat \<Rightarrow> u16 \<Rightarrow> UpgxSection \<Rightarrow> UpgxSection result" where
  "UpgxSection_setGasCostFactor i v sec =
    bind_result (setElem TotalUpgrades i v (upgx_gasCostFactor sec)) (\<lambda>xs. Inr (sec\<lparr>upgx_gasCostFactor := xs\<rparr>))"

definition UpgxSection_getBaseResearchTime :: "UpgxSection \<Rightarrow> nat \<Rightarrow> u16 result" where
  "UpgxSection_getBaseResearchTime sec i = getElem TotalUpgrades (upgx_baseResearchTime sec) i"

definition UpgxSection_setBaseResearchTime :: "nat \<Rightarrow> u16 \<Rightarrow> UpgxSection \<Rightarrow> UpgxSection result" where
  "UpgxSection_setBaseResearchTime i v sec =
    bind_result (setElem TotalUpgrades i v (upgx_baseResearchTime sec)) (\<lambda>xs. Inr (sec\<lparr>upgx_baseResearchTime := xs\<rparr>))"

definition UpgxSection_getResearchTimeFactor :: "UpgxSection \<Rightarrow> nat \<Rightarrow> u16 result" where
  "UpgxSection_getResearchTimeFactor sec i = getElem TotalUpgrades (upgx_researchTimeFactor sec) i"

definition UpgxSection_setResearchTimeFactor :: "nat \<Rightarrow> u16 \<Rightarrow> UpgxSection \<Rightarrow> UpgxSection result" where
  "UpgxSection_setResearchTimeFactor i v sec =
    bind_result (setElem TotalUpgrades i v (upgx_researchTimeFactor sec)) (\<lambda>xs. Inr (sec\<lparr>upgx_researchTimeFactor := xs\<rparr>))"

section \<open>TECS\<close>

record TecsSection =
  tecs_useDefault :: "u8 list"
  tecs_mineralCost :: "u16 list"
  tecs_gasCost :: "u16 list"
  tecs_researchTime :: "u16 list"
  tecs_energyCost :: "u16 list"

definition wf_TecsSection :: "TecsSection \<Rightarrow> bool" where
  "wf_TecsSection sec \<longleftrightarrow>
     length (tecs_useDefault sec) = TotalOriginalTechs \<and>
     length (tecs_mineralCost sec) = TotalOriginalTechs \<and>
     length (tecs_gasCost sec) = TotalOriginalTechs \<and>
     length (tecs_researchTime sec) = TotalOriginalTechs \<and>
     length (tecs_energyCost sec) = TotalOriginalTechs"

definition TecsSection_GetDefault :: TecsSection where
  "TecsSection_GetDefault = \<lparr>tecs_useDefault = replicate TotalOriginalTechs 1,
     tecs_mineralCost = replicate TotalOriginalTechs 0,
     tecs_gasCost = replicate TotalOriginalTechs 0,
     tecs_researchTime = replicate TotalOriginalTechs 0,
     tecs_energyCost = replicate TotalOriginalTechs 0\<rparr>"

definition TecsSection_techUsesDefaultSettings :: "TecsSection \<Rightarrow> nat \<Rightarrow> bool result" where
  "TecsSection_techUsesDefaultSettings sec i = bind_result (getElem TotalOriginalTechs (tecs_useDefault sec) i) (\<lambda>b. Inr (b \<noteq> 0))"

definition TecsSection_setTechUsesDefaultSettings :: "nat \<Rightarrow> bool \<Rightarrow> TecsSection \<Rightarrow> TecsSection result" where
  "TecsSection_setTechUsesDefaultSettings i v sec =
    bind_result (setElem TotalOriginalTechs i (yesNo v) (tecs_useDefault sec)) (\<lambda>xs. Inr (sec\<lparr>tecs_useDefault := xs\<rparr>))"

definition TecsSection_getTechMineralCost :: "TecsSection \<Rightarrow> nat \<Rightarrow> u16 result" where
  "TecsSection_getTechMineralCost sec i = getElem TotalOriginalTechs (tecs_mineralCost sec) i"

definition TecsSection_setTechMineralCost :: "nat \<Rightarrow> u16 \<Rightarrow> TecsSection \<Rightarrow> TecsSection result" where
  "TecsSection_setTechMineralCost i v sec =
    bind_result (setElem TotalOriginalTechs i v (tecs_mineralCost sec)) (\<lambda>xs. Inr (sec\<lparr>tecs_mineralCost := xs\<rparr>))"

definition TecsSection_getTechGasCost :: "TecsSection \<Rightarrow> nat \<Rightarrow> u16 result" where
  "TecsSection_getTechGasCost sec i = getElem TotalOriginalTechs (tecs_gasCost sec) i"

definition TecsSection_setTechGasCost :: "nat \<Rightarrow> u16 \<Rightarrow> TecsSection \<Rightarrow> TecsSection result" where
  "TecsSection_setTechGasCost i v sec =
    bind_result (setElem TotalOriginalTechs i v (tecs_gasCost sec)) (\<lambda>xs. Inr (sec\<lparr>tecs_gasCost := xs\<rparr>))"

definition TecsSection_getTechResearchTime :: "TecsSection \<Rightarrow> nat \<Rightarrow> u16 result" where
  "TecsSection_getTechResearchTime sec i = getElem TotalOriginalTechs (tecs_researchTime sec) i"

definition TecsSection_setTechResearchTime :: "nat \<Rightarrow> u16 \<Rightarrow> TecsSection \<Rightarrow> TecsSection result" where
  "TecsSection_setTechResearchTime i v sec =
    bind_result (setElem TotalOriginalTechs i v (tecs_researchTime sec)) (\<lambda>xs. Inr (sec\<lparr>tecs_researchTime := xs\<rparr>))"

definition TecsSection_getTechEnergyCost :: "TecsSection \<Rightarrow> nat \<Rightarrow> u16 result" where
  "TecsSection_getTechEnergyCost sec i = getElem TotalOriginalTechs (tecs_energyCost sec) i"

definition TecsSection_setTechEnergyCost :: "nat \<Rightarrow> u16 \<Rightarrow> TecsSection \<Rightarrow> TecsSection result" where
  "TecsSection_setTechEnergyCost i v sec =
    bind_result (setElem TotalOriginalTechs i v (tecs_energyCost sec)) (\<lambda>xs. Inr (sec\<lparr>tecs_energyCost := xs\<rparr>))"

section \<open>TECx\<close>

record TecxSection =
  tecx_useDefault :: "u8 list"
  tecx_mineralCost :: "u16 list"
  tecx_gasCost :: "u16 list"
  tecx_researchTime :: "u16 list"
  tecx_energyCost :: "u16 list"

definition wf_TecxSection :: "TecxSection \<Rightarrow> bool" where
  "wf_TecxSection sec \<longleftrightarrow>
     length (tecx_useDefault sec) = TotalTechs \<and>
     length (tecx_mineralCost sec) = TotalTechs \<and>
     length (tecx_gasCost sec) = TotalTechs \<and>
     length (tecx_researchTime sec) = TotalTechs \<and>
     length (tecx_energyCost sec) = TotalTechs"

definition TecxSection_GetDefault :: TecxSection where
  "TecxSection_GetDefault = \<lparr>tecx_useDefault = replicate TotalTechs 1,
     tecx_mineralCost = replicate TotalTechs 0,
     tecx_gasCost = replicate TotalTechs 0,
     tecx_researchTime = replicate TotalTechs 0,
     tecx_energyCost = replicate TotalTechs 0\<rparr>"

definition TecxSection_techUsesDefaultSettings :: "TecxSection \<Rightarrow> nat \<Rightarrow> bool result" where
  "TecxSection_techUsesDefaultSettings sec i = bind_result (getElem TotalTechs (tecx_useDefault sec) i) (\<lambda>b. Inr (b \<noteq> 0))"

definition TecxSection_setTechUsesDefaultSettings :: "nat \<Rightarrow> bool \<Rightarrow> TecxSection \<Rightarrow> TecxSection result" where
  "TecxSection_setTechUsesDefaultSettings i v sec =
    bind_result (setElem TotalTechs i (yesNo v) (tecx_useDefault sec)) (\<lambda>xs. Inr (sec\<lparr>tecx_useDefault := xs\<rparr>))"

definition TecxSection_getTechMineralCost :: "TecxSection \<Rightarrow> nat \<Rightarrow> u16 result" where
  "TecxSection_getTechMineralCost sec i = getElem TotalTechs (tecx_mineralCost sec) i"

definition TecxSection_setTechMineralCost :: "nat \<Rightarrow> u16 \<Rightarrow> TecxSection \<Rightarrow> TecxSection result" where
  "TecxSection_setTechMineralCost i v sec =
    bind_result (setElem TotalTechs i v (tecx_mineralCost sec)) (\<lambda>xs. Inr (sec\<lparr>tecx_mineralCost := xs\<rparr>))"

definition TecxSection_getTechGasCost :: "TecxSection \<Rightarrow> nat \<Rightarrow> u16 result" where
  "TecxSection_getTechGasCost sec i = getElem TotalTechs (tecx_gasCost sec) i"

definition TecxSection_setTechGasCost :: "nat \<Rightarrow> u16 \<Rightarrow> TecxSection \<Rightarrow> TecxSection result" where
  "TecxSection_setTechGasCost i v sec =
    bind_result (setElem TotalTechs i v (tecx_gasCost sec)) (\<lambda>xs. Inr (sec\<lparr>tecx_gasCost := xs\<rparr>))"

definition TecxSection_getTechResearchTime :: "TecxSection \<Rightarrow> nat \<Rightarrow> u16 result" where
  "TecxSection_getTechResearchTime sec i = getElem TotalTechs (tecx_researchTime sec) i"

definition TecxSection_setTechResearchTime :: "nat \<Rightarrow> u16 \<Rightarrow> TecxSection \<Rightarrow> TecxSection result" where
  "TecxSection_setTechResearchTime i v sec =
    bind_result (setElem TotalTechs i v (tecx_researchTime sec)) (\<lambda>xs. Inr (sec\<lparr>tecx_researchTime := xs\<rparr>))"

definition TecxSection_getTechEnergyCost :: "TecxSection \<Rightarrow> nat \<Rightarrow> u16 result" where
  "TecxSection_getTechEnergyCost sec i = getElem TotalTechs (tecx_energyCost sec) i"

definition TecxSection_setTechEnergyCost :: "nat \<Rightarrow> u16 \<Rightarrow> TecxSection \<Rightarrow> TecxSection result" where
  "TecxSection_setTechEnergyCost i v sec =
    bind_result (setElem TotalTechs i v (tecx_energyCost sec)) (\<lambda>xs. Inr (sec\<lparr>tecx_energyCost := xs\<rparr>))"

section \<open>PUNI\<close>

record PuniSection =
  puni_playerUnitBuildable :: "u8 list list"
  puni_defaultUnitBuildable :: "u8 list"
  puni_playerUnitUsesDefault :: "u8 list list"

definition wf_PuniSection :: "PuniSection \<Rightarrow> bool" where
  "wf_PuniSection sec \<longleftrightarrow>
     is_matrix TotalUnitTypes TotalPlayers (puni_playerUnitBuildable sec) \<and>
     length (puni_defaultUnitBuildable sec) = TotalUnitTypes \<and>
     is_matrix TotalUnitTypes TotalPlayers (puni_playerUnitUsesDefault sec)"

definition PuniSection_GetDefault :: PuniSection where
  "PuniSection_GetDefault = \<lparr>puni_playerUnitBuildable = replicate TotalUnitTypes (replicate TotalPlayers 1),
     puni_defaultUnitBuildable = replicate TotalUnitTypes 1,
     puni_playerUnitUsesDefault = replicate TotalUnitTypes (replicate TotalPlayers 1)\<rparr>"

definition PuniSection_isUnitBuildable :: "PuniSection \<Rightarrow> nat \<Rightarrow> nat \<Rightarrow> bool result" where
  "PuniSection_isUnitBuildable sec i p = bind_result (getElem2 TotalUnitTypes TotalPlayers (puni_playerUnitBuildable sec) i p) (\<lambda>b. Inr (b \<noteq> 0))"

definition PuniSection_setUnitBuildable :: "nat \<Rightarrow> nat \<Rightarrow> bool \<Rightarrow> PuniSection \<Rightarrow> PuniSection result" where
  "PuniSection_setUnitBuildable i p v sec =
    bind_result (setElem2 TotalUnitTypes TotalPlayers i p (yesNo v) (puni_playerUnitBuildable sec)) (\<lambda>xss. Inr (sec\<lparr>puni_playerUnitBuildable := xss\<rparr>))"

definition PuniSection_isUnitDefaultBuildable :: "PuniSection \<Rightarrow> nat \<Rightarrow> bool result" where
  "PuniSection_isUnitDefaultBuildable sec i = bind_result (getElem TotalUnitTypes (puni_defaultUnitBuildable sec) i) (\<lambda>b. Inr (b \<noteq> 0))"

definition PuniSection_setUnitDefaultBuildable :: "nat \<Rightarrow> bool \<Rightarrow> PuniSection \<Rightarrow> PuniSection result" where
  "PuniSection_setUnitDefaultBuildable i v sec =
    bind_result (setElem TotalUnitTypes i (yesNo v) (puni_defaultUnitBuildable sec)) (\<lambda>xs. Inr (sec\<lparr>puni_defaultUnitBuildable := xs\<rparr>))"

definition PuniSection_playerUsesDefault :: "PuniSection \<Rightarrow> nat \<Rightarrow> nat \<Rightarrow> bool result" where
  "PuniSection_playerUsesDefault sec i p = bind_result (getElem2 TotalUnitTypes TotalPlayers (puni_playerUnitUsesDefault sec) i p) (\<lambda>b. Inr (b \<noteq> 0))"

definition PuniSection_setPlayerUsesDefault :: "nat \<Rightarrow> nat \<Rightarrow> bool \<Rightarrow> PuniSection \<Rightarrow> PuniSection result" where
  "PuniSection_setPlayerUsesDefault i p v sec =
    bind_result (setElem2 TotalUnitTypes TotalPlayers i p (yesNo v) (puni_playerUnitUsesDefault sec)) (\<lambda>xss. Inr (sec\<lparr>puni_playerUnitUsesDefault := xss\<rparr>))"

section \<open>UPGR\<close>

record UpgrSection =
  upgr_playerMaxUpgradeLevel :: "u8 list list"
  upgr_playerStartUpgradeLevel :: "u8 list list"
  upgr_defaultMaxLevel :: "u8 list"
  upgr_defaultStartLevel :: "u8 list"
  upgr_playerUpgradeUsesDefault :: "u8 list list"

definition wf_UpgrSection :: "UpgrSection \<Rightarrow> bool" where
  "wf_UpgrSection sec \<longleftrightarrow>
     is_matrix TotalOriginalUpgrades TotalPlayers (upgr_playerMaxUpgradeLevel sec) \<and>
     is_matrix TotalOriginalUpgrades TotalPlayers (upgr_playerStartUpgradeLevel sec) \<and>
     length (upgr_defaultMaxLevel sec) = TotalOriginalUpgrades \<and>
     length (upgr_defaultStartLevel sec) = TotalOriginalUpgrades \<and>
     is_matrix TotalOriginalUpgrades TotalPlayers (upgr_playerUpgradeUsesDefault sec)"

definition UpgrSection_GetDefault :: UpgrSection where
  "UpgrSection_GetDefault = \<lparr>upgr_playerMaxUpgradeLevel = replicate TotalOriginalUpgrades (replicate TotalPlayers 0),
     upgr_playerStartUpgradeLevel = replicate TotalOriginalUpgrades (replicate TotalPlayers 0),
     upgr_defaultMaxLevel = replicate 16 3 @ [1, 1, 0] @ replicate 26 1 @ [0],
     upgr_defaultStartLevel = replicate TotalOriginalUpgrades 0,
     upgr_playerUpgradeUsesDefault = replicate TotalOriginalUpgrades (replicate TotalPlayers 1)\<rparr>"

definition UpgrSection_getMaxUpgradeLevel :: "UpgrSection \<Rightarrow> nat \<Rightarrow> nat \<Rightarrow> nat result" where
  "UpgrSection_getMaxUpgradeLevel sec i p = bind_result (getElem2 TotalOriginalUpgrades TotalPlayers (upgr_playerMaxUpgradeLevel sec) i p) (\<lambda>x. Inr (unat x))"

definition UpgrSection_setMaxUpgradeLevel :: "nat \<Rightarrow> nat \<Rightarrow> nat \<Rightarrow> UpgrSection \<Rightarrow> UpgrSection result" where
  "UpgrSection_setMaxUpgradeLevel i p v sec =
    bind_result (setElem2 TotalOriginalUpgrades TotalPlayers i p (word_of_nat v) (upgr_playerMaxUpgradeLevel sec)) (\<lambda>xss. Inr (sec\<lparr>upgr_playerMaxUpgradeLevel := xss\<rparr>))"

definition UpgrSection_getStartUpgradeLevel :: "UpgrSection \<Rightarrow> nat \<Rightarrow> nat \<Rightarrow> nat result" where
  "UpgrSection_getStartUpgradeLevel sec i p = bind_result (getElem2 TotalOriginalUpgrades TotalPlayers (upgr_playerStartUpgradeLevel sec) i p) (\<lambda>x. Inr (unat x))"

definition UpgrSection_setStartUpgradeLevel :: "nat \<Rightarrow> nat \<Rightarrow> nat \<Rightarrow> UpgrSection \<Rightarrow> UpgrSection result" where
  "UpgrSection_setStartUpgradeLevel i p v sec =
    bind_result (setElem2 TotalOriginalUpgrades TotalPlayers i p (word_of_nat v) (upgr_playerStartUpgradeLevel sec)) (\<lambda>xss. Inr (sec\<lparr>upgr_playerStartUpgradeLevel := xss\<rparr>))"

definition UpgrSection_getDefaultMaxUpgradeLevel :: "UpgrSection \<Rightarrow> nat \<Rightarrow> nat result" where
  "UpgrSection_getDefaultMaxUpgradeLevel sec i = bind_result (getElem TotalOriginalUpgrades (upgr_defaultMaxLevel sec) i) (\<lambda>x. Inr (unat x))"

definition UpgrSection_setDefaultMaxUpgradeLevel :: "nat \<Rightarrow> nat \<Rightarrow> UpgrSection \<Rightarrow> UpgrSection result" where
  "UpgrSection_setDefaultMaxUpgradeLevel i v sec =
    bind_result (setElem TotalOriginalUpgrades i (word_of_nat v) (upgr_defaultMaxLevel sec)) (\<lambda>xs. Inr (sec\<lparr>upgr_defaultMaxLevel := xs\<rparr>))"

definition UpgrSection_getDefaultStartUpgradeLevel :: "UpgrSection \<Rightarrow> nat \<Rightarrow> nat result" where
  "UpgrSection_getDefaultStartUpgradeLevel sec i = bind_result (getElem TotalOriginalUpgrades (upgr_defaultStartLevel sec) i) (\<lambda>x. Inr (unat x))"

definition UpgrSection_setDefaultStartUpgradeLevel :: "nat \<Rightarrow> nat \<Rightarrow> UpgrSection \<Rightarrow> UpgrSection result" where
  "UpgrSection_setDefaultStartUpgradeLevel i v sec =
    bind_result (setElem TotalOriginalUpgrades i (word_of_nat v) (upgr_defaultStartLevel sec)) (\<lambda>xs. Inr (sec\<lparr>upgr_defaultStartLevel := xs\<rparr>))"

definition UpgrSection_playerUsesDefault :: "UpgrSection \<Rightarrow> nat \<Rightarrow> nat \<Rightarrow> bool result" where
  "UpgrSection_playerUsesDefault sec i p = bind_result (getElem2 TotalOriginalUpgrades TotalPlayers (upgr_playerUpgradeUsesDefault sec) i p) (\<lambda>b. Inr (b \<noteq> 0))"

definition UpgrSection_setPlayerUsesDefault :: "nat \<Rightarrow> nat \<Rightarrow> bool \<Rightarrow> UpgrSection \<Rightarrow> UpgrSection result" where
  "UpgrSection_setPlayerUsesDefault i p v sec =
    bind_result (setElem2 TotalOriginalUpgrades TotalPlayers i p (yesNo v) (upgr_playerUpgradeUsesDefault sec)) (\<lambda>xss. Inr (sec\<lparr>upgr_playerUpgradeUsesDefault := xss\<rparr>))"

section \<open>PUPx\<close>

record PupxSection =
  pupx_playerMaxUpgradeLevel :: "u8 list list"
  pupx_playerStartUpgradeLevel :: "u8 list list"
  pupx_defaultMaxLevel :: "u8 list"
  pupx_defaultStartLevel :: "u8 list"
  pupx_playerUpgradeUsesDefault :: "u8 list list"

definition wf_PupxSection :: "PupxSection \<Rightarrow> bool" where
  "wf_PupxSection sec \<longleftrightarrow>
     is_matrix TotalUpgrades TotalPlayers (pupx_playerMaxUpgradeLevel sec) \<and>
     is_matrix TotalUpgrades TotalPlayers (pupx_playerStartUpgradeLevel sec) \<and>
     length (pupx_defaultMaxLevel sec) = TotalUpgrades \<and>
     length (pupx_defaultStartLevel sec) = TotalUpgrades \<and>
     is_matrix TotalUpgrades TotalPlayers (pupx_playerUpgradeUsesDefault sec)"

definition PupxSection_GetDefault :: PupxSection where
  "PupxSection_GetDefault = \<lparr>pupx_playerMaxUpgradeLevel = replicate TotalUpgrades (replicate TotalPlayers 0),
     pupx_playerStartUpgradeLevel = replicate TotalUpgrades (replicate TotalPlayers 0),
     pupx_defaultMaxLevel = replicate 16 3 @ [1, 1, 0] @ replicate 26 1 @ [0, 0, 1, 0, 1, 0, 1, 1, 1, 1] @ replicate 6 0,
     pupx_defaultStartLevel = replicate TotalUpgrades 0,
     pupx_playerUpgradeUsesDefault = replicate TotalUpgrades (replicate TotalPlayers 1)\<rparr>"

definition PupxSection_getMaxUpgradeLevel :: "PupxSection \<Rightarrow> nat \<Rightarrow> nat \<Rightarrow> nat result" where
  "PupxSection_getMaxUpgradeLevel sec i p = bind_result (getElem2 TotalUpgrades TotalPlayers (pupx_playerMaxUpgradeLevel sec) i p) (\<lambda>x. Inr (unat x))"

definition PupxSection_setMaxUpgradeLevel :: "nat \<Rightarrow> nat \<Rightarrow> nat \<Rightarrow> PupxSection \<Rightarrow> PupxSection result" where
  "PupxSection_setMaxUpgradeLevel i p v sec =
    bind_result (setElem2 TotalUpgrades TotalPlayers i p (word_of_nat v) (pupx_playerMaxUpgradeLevel sec)) (\<lambda>xss. Inr (sec\<lparr>pupx_playerMaxUpgradeLevel := xss\<rparr>))"

definition PupxSection_getStartUpgradeLevel :: "PupxSection \<Rightarrow> nat \<Rightarrow> nat \<Rightarrow> nat result" where
  "PupxSection_getStartUpgradeLevel sec i p = bind_result (getElem2 TotalUpgrades TotalPlayers (pupx_playerStartUpgradeLevel sec) i p) (\<lambda>x. Inr (unat x))"

definition PupxSection_setStartUpgradeLevel :: "nat \<Rightarrow> nat \<Rightarrow> nat \<Rightarrow> PupxSection \<Rightarrow> PupxSection result" where
  "PupxSection_setStartUpgradeLevel i p v sec =
    bind_result (setElem2 TotalUpgrades TotalPlayers i p (word_of_nat v) (pupx_playerStartUpgradeLevel sec)) (\<lambda>xss. Inr (sec\<lparr>pupx_playerStartUpgradeLevel := xss\<rparr>))"

definition PupxSection_getDefaultMaxUpgradeLevel :: "PupxSection \<Rightarrow> nat \<Rightarrow> nat result" where
  "PupxSection_getDefaultMaxUpgradeLevel sec i = bind_result (getElem TotalUpgrades (pupx_defaultMaxLevel sec) i) (\<lambda>x. Inr (unat x))"

definition PupxSection_setDefaultMaxUpgradeLevel :: "nat \<Rightarrow> nat \<Rightarrow> PupxSection \<Rightarrow> PupxSection result" where
  "PupxSection_setDefaultMaxUpgradeLevel i v sec =
    bind_result (setElem TotalUpgrades i (word_of_nat v) (pupx_defaultMaxLevel sec)) (\<lambda>xs. Inr (sec\<lparr>pupx_defaultMaxLevel := xs\<rparr>))"

definition PupxSection_getDefaultStartUpgradeLevel :: "PupxSection \<Rightarrow> nat \<Rightarrow> nat result" where
  "PupxSection_getDefaultStartUpgradeLevel sec i = bind_result (getElem TotalUpgrades (pupx_defaultStartLevel sec) i) (\<lambda>x. Inr (unat x))"

definition PupxSection_setDefaultStartUpgradeLevel :: "nat \<Rightarrow> nat \<Rightarrow> PupxSection \<Rightarrow> PupxSection result" where
  "PupxSection_setDefaultStartUpgradeLevel i v sec =
    bind_result (setElem TotalUpgrades i (word_of_nat v) (pupx_defaultStartLevel sec)) (\<lambda>xs. Inr (sec\<lparr>pupx_defaultStartLevel := xs\<rparr>))"

definition PupxSection_playerUsesDefault :: "PupxSection \<Rightarrow> nat \<Rightarrow> nat \<Rightarrow> bool result" where
  "PupxSection_playerUsesDefault sec i p = bind_result (getElem2 TotalUpgrades TotalPlayers (pupx_playerUpgradeUsesDefault sec) i p) (\<lambda>b. Inr (b \<noteq> 0))"

definition PupxSection_setPlayerUsesDefault :: "nat \<Rightarrow> nat \<Rightarrow> bool \<Rightarrow> PupxSection \<Rightarrow> PupxSection result" where
  "PupxSection_setPlayerUsesDefault i p v sec =
    bind_result (setElem2 TotalUpgrades TotalPlayers i p (yesNo v) (pupx_playerUpgradeUsesDefault sec)) (\<lambda>xss. Inr (sec\<lparr>pupx_playerUpgradeUsesDefault := xss\<rparr>))"

section \<open>PTEC\<close>

record PtecSection =
  ptec_techAvailableForPlayer :: "u8 list list"
  ptec_techResearchedForPlayer :: "u8 list list"
  ptec_techAvailableByDefault :: "u8 list"
  ptec_techResearchedByDefault :: "u8 list"
  ptec_playerUsesDefaultsForTech :: "u8 list list"

definition wf_PtecSection :: "PtecSection \<Rightarrow> bool" where
  "wf_PtecSection sec \<longleftrightarrow>
     is_matrix TotalOriginalTechs TotalPlayers (ptec_techAvailableForPlayer sec) \<and>
     is_matrix TotalOriginalTechs TotalPlayers (ptec_techResearchedForPlayer sec) \<and>
     length (ptec_techAvailableByDefault sec) = TotalOriginalTechs \<and>
     length (ptec_techResearchedByDefault sec) = TotalOriginalTechs \<and>
     is_matrix TotalOriginalTechs TotalPlayers (ptec_playerUsesDefaultsForTech sec)"

definition PtecSection_GetDefault :: PtecSection where
  "PtecSection_GetDefault = \<lparr>ptec_techAvailableForPlayer = replicate TotalOriginalTechs (replicate TotalPlayers 0),
     ptec_techResearchedForPlayer = replicate TotalOriginalTechs (replicate TotalPlayers 0),
     ptec_techAvailableByDefault = replicate TotalOriginalTechs 1,
     ptec_techResearchedByDefault = [0, 0, 0, 0, 1, 0, 1, 0, 0, 0, 0, 0, 1, 0, 1, 0, 0, 0, 1, 0, 0, 0, 0, 1],
     ptec_playerUsesDefaultsForTech = replicate TotalOriginalTechs (replicate TotalPlayers 1)\<rparr>"

definition PtecSection_techAvailable :: "PtecSection \<Rightarrow> nat \<Rightarrow> nat \<Rightarrow> bool result" where
  "PtecSection_techAvailable sec i p = bind_result (getElem2 TotalOriginalTechs TotalPlayers (ptec_techAvailableForPlayer sec) i p) (\<lambda>b. Inr (b \<noteq> 0))"

definition PtecSection_setTechAvailable :: "nat \<Rightarrow> nat \<Rightarrow> bool \<Rightarrow> PtecSection \<Rightarrow> PtecSection result" where
  "PtecSection_setTechAvailable i p v sec =
    bind_result (setElem2 TotalOriginalTechs TotalPlayers i p (yesNo v) (ptec_techAvailableForPlayer sec)) (\<lambda>xss. Inr (sec\<lparr>ptec_techAvailableForPlayer := xss\<rparr>))"

definition PtecSection_techResearched :: "PtecSection \<Rightarrow> nat \<Rightarrow> nat \<Rightarrow> bool result" where
  "PtecSection_techResearched sec i p = bind_result (getElem2 TotalOriginalTechs TotalPlayers (ptec_techResearchedForPlayer sec) i p) (\<lambda>b. Inr (b \<noteq> 0))"

definition PtecSection_setTechResearched :: "nat \<Rightarrow> nat \<Rightarrow> bool \<Rightarrow> PtecSection \<Rightarrow> PtecSection result" where
  "PtecSection_setTechResearched i p v sec =
    bind_result (setElem2 TotalOriginalTechs TotalPlayers i p (yesNo v) (ptec_techResearchedForPlayer sec)) (\<lambda>xss. Inr (sec\<lparr>ptec_techResearchedForPlayer := xss\<rparr>))"

definition PtecSection_techDefaultAvailable :: "PtecSection \<Rightarrow> nat \<Rightarrow> bool result" where
  "PtecSection_techDefaultAvailable sec i = bind_result (getElem TotalOriginalTechs (ptec_techAvailableByDefault sec) i) (\<lambda>b. Inr (b \<noteq> 0))"

definition PtecSection_setDefaultTechAvailable :: "nat \<Rightarrow> bool \<Rightarrow> PtecSection \<Rightarrow> PtecSection result" where
  "PtecSection_setDefaultTechAvailable i v sec =
    bind_result (setElem TotalOriginalTechs i (yesNo v) (ptec_techAvailableByDefault sec)) (\<lambda>xs. Inr (sec\<lparr>ptec_techAvailableByDefault := xs\<rparr>))"

definition PtecSection_techDefaultResearched :: "PtecSection \<Rightarrow> nat \<Rightarrow> bool result" where
  "PtecSection_techDefaultResearched sec i = bind_result (getElem TotalOriginalTechs (ptec_techResearchedByDefault sec) i) (\<lambda>b. Inr (b \<noteq> 0))"

definition PtecSection_setDefaultTechResearched :: "nat \<Rightarrow> bool \<Rightarrow> PtecSection \<Rightarrow> PtecSection result" where
  "PtecSection_setDefaultTechResearched i v sec =
    bind_result (setElem TotalOriginalTechs i (yesNo v) (ptec_techResearchedByDefault sec)) (\<lambda>xs. Inr (sec\<lparr>ptec_techResearchedByDefault := xs\<rparr>))"

definition PtecSection_playerUsesDefault :: "PtecSection \<Rightarrow> nat \<Rightarrow> nat \<Rightarrow> bool result" where
  "PtecSection_playerUsesDefault sec i p = bind_result (getElem2 TotalOriginalTechs TotalPlayers (ptec_playerUsesDefaultsForTech sec) i p) (\<lambda>b. Inr (b \<noteq> 0))"

text \<open>The player index of this setter is not checked.\<close>

definition PtecSection_setPlayerUsesDefault :: "nat \<Rightarrow> nat \<Rightarrow> bool \<Rightarrow> PtecSection \<Rightarrow> PtecSection result" where
  "PtecSection_setPlayerUsesDefault i p v sec =
    (if i < TotalOriginalTechs then
       if p < TotalPlayers
       then Inr (sec\<lparr>ptec_playerUsesDefaultsForTech := (ptec_playerUsesDefaultsForTech sec)[i := (ptec_playerUsesDefaultsForTech sec ! i)[p := (yesNo v)]]\<rparr>)
       else Inl UndefinedBehavior
     else Inl OutOfRange)"

section \<open>PTEx\<close>

record PtexSection =
  ptex_techAvailableForPlayer :: "u8 list list"
  ptex_techResearchedForPlayer :: "u8 list list"
  ptex_techAvailableByDefault :: "u8 list"
  ptex_techResearchedByDefault :: "u8 list"
  ptex_playerUsesDefaultsForTech :: "u8 list list"

definition wf_PtexSection :: "PtexSection \<Rightarrow> bool" where
  "wf_PtexSection sec \<longleftrightarrow>
     is_matrix TotalTechs TotalPlayers (ptex_techAvailableForPlayer sec) \<and>
     is_matrix TotalTechs TotalPlayers (ptex_techResearchedForPlayer sec) \<and>
     length (ptex_techAvailableByDefault sec) = TotalTechs \<and>
     length (ptex_techResearchedByDefault sec) = TotalTechs \<and>
     is_matrix TotalTechs TotalPlayers (ptex_playerUsesDefaultsForTech sec)"

definition PtexSection_GetDefault :: PtexSection where
  "PtexSection_GetDefault = \<lparr>ptex_techAvailableForPlayer = replicate TotalTechs (replicate TotalPlayers 0),
     ptex_techResearchedForPlayer = replicate TotalTechs (replicate TotalPlayers 0),
     ptex_techAvailableByDefault = replicate TotalTechs 1,
     ptex_techResearchedByDefault = [0, 0, 0, 0, 1, 0, 1, 0, 0, 0, 0, 0, 1, 0, 1, 0, 0, 0, 1, 0, 0, 0, 0, 1, 0, 0, 0, 0, 1, 1, 0, 0, 0, 1, 1, 0, 0, 0, 0, 0, 0, 0, 0, 0],
     ptex_playerUsesDefaultsForTech = replicate TotalTechs (replicate TotalPlayers 1)\<rparr>"

definition PtexSection_techAvailable :: "PtexSection \<Rightarrow> nat \<Rightarrow> nat \<Rightarrow> bool result" where
  "PtexSection_techAvailable sec i p = bind_result (getElem2 TotalTechs TotalPlayers (ptex_techAvailableForPlayer sec) i p) (\<lambda>b. Inr (b \<noteq> 0))"

definition PtexSection_setTechAvailable :: "nat \<Rightarrow> nat \<Rightarrow> bool \<Rightarrow> PtexSection \<Rightarrow> PtexSection result" where
  "PtexSection_setTechAvailable i p v sec =
    bind_result (setElem2 TotalTechs TotalPlayers i p (yesNo v) (ptex_techAvailableForPlayer sec)) (\<lambda>xss. Inr (sec\<lparr>ptex_techAvailableForPlayer := xss\<rparr>))"

definition PtexSection_techResearched :: "PtexSection \<Rightarrow> nat \<Rightarrow> nat \<Rightarrow> bool result" where
  "PtexSection_techResearched sec i p = bind_result (getElem2 TotalTechs TotalPlayers (ptex_techResearchedForPlayer sec) i p) (\<lambda>b. Inr (b \<noteq> 0))"

definition PtexSection_setTechResearched :: "nat \<Rightarrow> nat \<Rightarrow> bool \<Rightarrow> PtexSection \<Rightarrow> PtexSection result" where
  "PtexSection_setTechResearched i p v sec =
    bind_result (setElem2 TotalTechs TotalPlayers i p (yesNo v) (ptex_techResearchedForPlayer sec)) (\<lambda>xss. Inr (sec\<lparr>ptex_techResearchedForPlayer := xss\<rparr>))"

definition PtexSection_techDefaultAvailable :: "PtexSection \<Rightarrow> nat \<Rightarrow> bool result" where
  "PtexSection_techDefaultAvailable sec i = bind_result (getElem TotalTechs (ptex_techAvailableByDefault sec) i) (\<lambda>b. Inr (b \<noteq> 0))"

definition PtexSection_setDefaultTechAvailable :: "nat \<Rightarrow> bool \<Rightarrow> PtexSection \<Rightarrow> PtexSection result" where
  "PtexSection_setDefaultTechAvailable i v sec =
    bind_result (setElem TotalTechs i (yesNo v) (ptex_techAvailableByDefault sec)) (\<lambda>xs. Inr (sec\<lparr>ptex_techAvailableByDefault := xs\<rparr>))"

definition PtexSection_techDefaultResearched :: "PtexSection \<Rightarrow> nat \<Rightarrow> bool result" where
  "PtexSection_techDefaultResearched sec i = bind_result (getElem TotalTechs (ptex_techResearchedByDefault sec) i) (\<lambda>b. Inr (b \<noteq> 0))"

definition PtexSection_setDefaultTechResearched :: "nat \<Rightarrow> bool \<Rightarrow> PtexSection \<Rightarrow> PtexSection result" where
  "PtexSection_setDefaultTechResearched i v sec =
    bind_result (setElem TotalTechs i (yesNo v) (ptex_techResearchedByDefault sec)) (\<lambda>xs. Inr (sec\<lparr>ptex_techResearchedByDefault := xs\<rparr>))"

definition PtexSection_playerUsesDefault :: "PtexSection \<Rightarrow> nat \<Rightarrow> nat \<Rightarrow> bool result" where
  "PtexSection_playerUsesDefault sec i p = bind_result (getElem2 TotalTechs TotalPlayers (ptex_playerUsesDefaultsForTech sec) i p) (\<lambda>b. Inr (b \<noteq> 0))"

text \<open>The player index of this setter is not checked.\<close>

definition PtexSection_setPlayerUsesDefault :: "nat \<Rightarrow> nat \<Rightarrow> bool \<Rightarrow> PtexSection \<Rightarrow> PtexSection result" where
  "PtexSection_setPlayerUsesDefault i p v sec =
    (if i < TotalTechs then
       if p < TotalPlayers
       then Inr (sec\<lparr>ptex_playerUsesDefaultsForTech := (ptex_playerUsesDefaultsForTech sec)[i := (ptex_playerUsesDefaultsForTech sec ! i)[p := (yesNo v)]]\<rparr>)
       else Inl UndefinedBehavior
     else Inl OutOfRange)"

section \<open>What the getters and setters promise\<close>

lemmas elem_defs = getElem_def setElem_def getElem2_def setElem2_def

interpretation unis_useDefault_field: indexed_field "\<lambda>i. i < TotalUnitTypes" wf_UnisSection UnisSection_unitUsesDefaultSettings UnisSection_setUnitUsesDefaultSettings
    "\<lambda>b. b"
  by unfold_locales (auto simp: UnisSection_unitUsesDefaultSettings_def UnisSection_setUnitUsesDefaultSettings_def elem_defs wf_UnisSection_def)

interpretation unis_hitpoints_field: indexed_field "\<lambda>i. i < TotalUnitTypes" wf_UnisSection UnisSection_getUnitHitpoints UnisSection_setUnitHitpoints
    "\<lambda>v. v"
  by unfold_locales (auto simp: UnisSection_getUnitHitpoints_def UnisSection_setUnitHitpoints_def elem_defs wf_UnisSection_def)

interpretation unis_shieldPoints_field: indexed_field "\<lambda>i. i < TotalUnitTypes" wf_UnisSection UnisSection_getUnitShieldPoints UnisSection_setUnitShieldPoints
    "\<lambda>v. v"
  by unfold_locales (auto simp: UnisSection_getUnitShieldPoints_def UnisSection_setUnitShieldPoints_def elem_defs wf_UnisSection_def)

interpretation unis_armorLevel_field: indexed_field "\<lambda>i. i < TotalUnitTypes" wf_UnisSection UnisSection_getUnitArmorLevel UnisSection_setUnitArmorLevel
    "\<lambda>v. v"
  by unfold_locales (auto simp: UnisSection_getUnitArmorLevel_def UnisSection_setUnitArmorLevel_def elem_defs wf_UnisSection_def)

interpretation unis_buildTime_field: indexed_field "\<lambda>i. i < TotalUnitTypes" wf_UnisSection UnisSection_getUnitBuildTime UnisSection_setUnitBuildTime
    "\<lambda>v. v"
  by unfold_locales (auto simp: UnisSection_getUnitBuildTime_def UnisSection_setUnitBuildTime_def elem_defs wf_UnisSection_def)

interpretation unis_mineralCost_field: indexed_field "\<lambda>i. i < TotalUnitTypes" wf_UnisSection UnisSection_getUnitMineralCost UnisSection_setUnitMineralCost
    "\<lambda>v. v"
  by unfold_locales (auto simp: UnisSection_getUnitMineralCost_def UnisSection_setUnitMineralCost_def elem_defs wf_UnisSection_def)

interpretation unis_gasCost_field: indexed_field "\<lambda>i. i < TotalUnitTypes" wf_UnisSection UnisSection_getUnitGasCost UnisSection_setUnitGasCost
    "\<lambda>v. v"
  by unfold_locales (auto simp: UnisSection_getUnitGasCost_def UnisSection_setUnitGasCost_def elem_defs wf_UnisSection_def)

interpretation unis_nameStringId_field: indexed_field "\<lambda>i. i < TotalUnitTypes" wf_UnisSection UnisSection_getUnitNameStringId UnisSection_setUnitNameStringId
    "unat"
  by unfold_locales (auto simp: UnisSection_getUnitNameStringId_def UnisSection_setUnitNameStringId_def elem_defs wf_UnisSection_def)

interpretation unis_baseDamage_field: indexed_field "\<lambda>i. i < TotalOriginalWeapons" wf_UnisSection UnisSection_getWeaponBaseDamage UnisSection_setWeaponBaseDamage
    "\<lambda>v. v"
  by unfold_locales (auto simp: UnisSection_getWeaponBaseDamage_def UnisSection_setWeaponBaseDamage_def elem_defs wf_UnisSection_def)

interpretation unis_upgradeDamage_field: indexed_field "\<lambda>i. i < TotalOriginalWeapons" wf_UnisSection UnisSection_getWeaponUpgradeDamage UnisSection_setWeaponUpgradeDamage
    "\<lambda>v. v"
  by unfold_locales (auto simp: UnisSection_getWeaponUpgradeDamage_def UnisSection_setWeaponUpgradeDamage_def elem_defs wf_UnisSection_def)

interpretation unix_useDefault_field: indexed_field "\<lambda>i. i < TotalUnitTypes" wf_UnixSection UnixSection_unitUsesDefaultSettings UnixSection_setUnitUsesDefaultSettings
    "\<lambda>b. b"
  by unfold_locales (auto simp: UnixSection_unitUsesDefaultSettings_def UnixSection_setUnitUsesDefaultSettings_def elem_defs wf_UnixSection_def)

interpretation unix_hitpoints_field: indexed_field "\<lambda>i. i < TotalUnitTypes" wf_UnixSection UnixSection_getUnitHitpoints UnixSection_setUnitHitpoints
    "\<lambda>v. v"
  by unfold_locales (auto simp: UnixSection_getUnitHitpoints_def UnixSection_setUnitHitpoints_def elem_defs wf_UnixSection_def)

interpretation unix_shieldPoints_field: indexed_field "\<lambda>i. i < TotalUnitTypes" wf_UnixSection UnixSection_getUnitShieldPoints UnixSection_setUnitShieldPoints
    "\<lambda>v. v"
  by unfold_locales (auto simp: UnixSection_getUnitShieldPoints_def UnixSection_setUnitShieldPoints_def elem_defs wf_UnixSection_def)

interpretation unix_armorLevel_field: indexed_field "\<lambda>i. i < TotalUnitTypes" wf_UnixSection UnixSection_getUnitArmorLevel UnixSection_setUnitArmorLevel
    "\<lambda>v. v"
  by unfold_locales (auto simp: UnixSection_getUnitArmorLevel_def UnixSection_setUnitArmorLevel_def elem_defs wf_UnixSection_def)

interpretation unix_buildTime_field: indexed_field "\<lambda>i. i < TotalUnitTypes" wf_UnixSection UnixSection_getUnitBuildTime UnixSection_setUnitBuildTime
    "\<lambda>v. v"
  by unfold_locales (auto simp: UnixSection_getUnitBuildTime_def UnixSection_setUnitBuildTime_def elem_defs wf_UnixSection_def)

interpretation unix_mineralCost_field: indexed_field "\<lambda>i. i < TotalUnitTypes" wf_UnixSection UnixSection_getUnitMineralCost UnixSection_setUnitMineralCost
    "\<lambda>v. v"
  by unfold_locales (auto simp: UnixSection_getUnitMineralCost_def UnixSection_setUnitMineralCost_def elem_defs wf_UnixSection_def)

interpretation unix_gasCost_field: indexed_field "\<lambda>i. i < TotalUnitTypes" wf_UnixSection UnixSection_getUnitGasCost UnixSection_setUnitGasCost
    "\<lambda>v. v"
  by unfold_locales (auto simp: UnixSection_getUnitGasCost_def UnixSection_setUnitGasCost_def elem_defs wf_UnixSection_def)

interpretation unix_nameStringId_field: indexed_field "\<lambda>i. i < TotalUnitTypes" wf_UnixSection UnixSection_getUnitNameStringId UnixSection_setUnitNameStringId
    "unat"
  by unfold_locales (auto simp: UnixSection_getUnitNameStringId_def UnixSection_setUnitNameStringId_def elem_defs wf_UnixSection_def)

interpretation unix_baseDamage_field: indexed_field "\<lambda>i. i < TotalWeapons" wf_UnixSection UnixSection_getWeaponBaseDamage UnixSection_setWeaponBaseDamage
    "\<lambda>v. v"
  by unfold_locales (auto simp: UnixSection_getWeaponBaseDamage_def UnixSection_setWeaponBaseDamage_def elem_defs wf_UnixSection_def)

interpretation unix_upgradeDamage_field: indexed_field "\<lambda>i. i < TotalWeapons" wf_UnixSection UnixSection_getWeaponUpgradeDamage UnixSection_setWeaponUpgradeDamage
    "\<lambda>v. v"
  by unfold_locales (auto simp: UnixSection_getWeaponUpgradeDamage_def UnixSection_setWeaponUpgradeDamage_def elem_defs wf_UnixSection_def)

interpretation upgs_useDefault_field: indexed_field "\<lambda>i. i < TotalOriginalUpgrades" wf_UpgsSection UpgsSection_upgradeUsesDefaultCosts UpgsSection_setUpgradeUsesDefaultCosts
    "\<lambda>b. b"
  by unfold_locales (auto simp: UpgsSection_upgradeUsesDefaultCosts_def UpgsSection_setUpgradeUsesDefaultCosts_def elem_defs wf_UpgsSection_def)

interpretation upgs_baseMineralCost_field: indexed_field "\<lambda>i. i < TotalOriginalUpgrades" wf_UpgsSection UpgsSection_getBaseMineralCost UpgsSection_setBaseMineralCost
    "\<lambda>v. v"
  by unfold_locales (auto simp: UpgsSection_getBaseMineralCost_def UpgsSection_setBaseMineralCost_def elem_defs wf_UpgsSection_def)

interpretation upgs_mineralCostFactor_field: indexed_field "\<lambda>i. i < TotalOriginalUpgrades" wf_UpgsSection UpgsSection_getMineralCostFactor UpgsSection_setMineralCostFactor
    "\<lambda>v. v"
  by unfold_locales (auto simp: UpgsSection_getMineralCostFactor_def UpgsSection_setMineralCostFactor_def elem_defs wf_UpgsSection_def)

interpretation upgs_baseGasCost_field: indexed_field "\<lambda>i. i < TotalOriginalUpgrades" wf_UpgsSection UpgsSection_getBaseGasCost UpgsSection_setBaseGasCost
    "\<lambda>v. v"
  by unfold_locales (auto simp: UpgsSection_getBaseGasCost_def UpgsSection_setBaseGasCost_def elem_defs wf_UpgsSection_def)

interpretation upgs_gasCostFactor_field: indexed_field "\<lambda>i. i < TotalOriginalUpgrades" wf_UpgsSection UpgsSection_getGasCostFactor UpgsSection_setGasCostFactor
    "\<lambda>v. v"
  by unfold_locales (auto simp: UpgsSection_getGasCostFactor_def UpgsSection_setGasCostFactor_def elem_defs wf_UpgsSection_def)

interpretation upgs_baseResearchTime_field: indexed_field "\<lambda>i. i < TotalOriginalUpgrades" wf_UpgsSection UpgsSection_getBaseResearchTime UpgsSection_setBaseResearchTime
    "\<lambda>v. v"
  by unfold_locales (auto simp: UpgsSection_getBaseResearchTime_def UpgsSection_setBaseResearchTime_def elem_defs wf_UpgsSection_def)

interpretation upgs_researchTimeFactor_field: indexed_field "\<lambda>i. i < TotalOriginalUpgrades" wf_UpgsSection UpgsSection_getResearchTimeFactor UpgsSection_setResearchTimeFactor
    "\<lambda>v. v"
  by unfold_locales (auto simp: UpgsSection_getResearchTimeFactor_def UpgsSection_setResearchTimeFactor_def elem_defs wf_UpgsSection_def)

interpretation upgx_useDefault_field: indexed_field "\<lambda>i. i < TotalUpgrades" wf_UpgxSection UpgxSection_upgradeUsesDefaultCosts UpgxSection_setUpgradeUsesDefaultCosts
    "\<lambda>b. b"
  by unfold_locales (auto simp: UpgxSection_upgradeUsesDefaultCosts_def UpgxSection_setUpgradeUsesDefaultCosts_def elem_defs wf_UpgxSection_def)

interpretation upgx_baseMineralCost_field: indexed_field "\<lambda>i. i < TotalUpgrades" wf_UpgxSection UpgxSection_getBaseMineralCost UpgxSection_setBaseMineralCost
    "\<lambda>v. v"
  by unfold_locales (auto simp: UpgxSection_getBaseMineralCost_def UpgxSection_setBaseMineralCost_def elem_defs wf_UpgxSection_def)

interpretation upgx_mineralCostFactor_field: indexed_field "\<lambda>i. i < TotalUpgrades" wf_UpgxSection UpgxSection_getMineralCostFactor UpgxSection_setMineralCostFactor
    "\<lambda>v. v"
  by unfold_locales (auto simp: UpgxSection_getMineralCostFactor_def UpgxSection_setMineralCostFactor_def elem_defs wf_UpgxSection_def)

interpretation upgx_baseGasCost_field: indexed_field "\<lambda>i. i < TotalUpgrades" wf_UpgxSection UpgxSection_getBaseGasCost UpgxSection_setBaseGasCost
    "\<lambda>v. v"
  by unfold_locales (auto simp: UpgxSection_getBaseGasCost_def UpgxSection_setBaseGasCost_def elem_defs wf_UpgxSection_def)

interpretation upgx_gasCostFactor_field: indexed_field "\<lambda>i. i < TotalUpgrades" wf_UpgxSection UpgxSection_getGasCostFactor UpgxSection_setGasCostFactor
    "\<lambda>v. v"
  by unfold_locales (auto simp: UpgxSection_getGasCostFactor_def UpgxSection_setGasCostFactor_def elem_defs wf_UpgxSection_def)

interpretation upgx_baseResearchTime_field: indexed_field "\<lambda>i. i < TotalUpgrades" wf_UpgxSection UpgxSection_getBaseResearchTime UpgxSection_setBaseResearchTime
    "\<lambda>v. v"
  by unfold_locales (auto simp: UpgxSection_getBaseResearchTime_def UpgxSection_setBaseResearchTime_def elem_defs wf_UpgxSection_def)

interpretation upgx_researchTimeFactor_field: indexed_field "\<lambda>i. i < TotalUpgrades" wf_UpgxSection UpgxSection_getResearchTimeFactor UpgxSection_setResearchTimeFactor
    "\<lambda>v. v"
  by unfold_locales (auto simp: UpgxSection_getResearchTimeFactor_def UpgxSection_setResearchTimeFactor_def elem_defs wf_UpgxSection_def)

interpretation tecs_useDefault_field: indexed_field "\<lambda>i. i < TotalOriginalTechs" wf_TecsSection TecsSection_techUsesDefaultSettings TecsSection_setTechUsesDefaultSettings
    "\<lambda>b. b"
  by unfold_locales (auto simp: TecsSection_techUsesDefaultSettings_def TecsSection_setTechUsesDefaultSettings_def elem_defs wf_TecsSection_def)

interpretation tecs_mineralCost_field: indexed_field "\<lambda>i. i < TotalOriginalTechs" wf_TecsSection TecsSection_getTechMineralCost TecsSection_setTechMineralCost
    "\<lambda>v. v"
  by unfold_locales (auto simp: TecsSection_getTechMineralCost_def TecsSection_setTechMineralCost_def elem_defs wf_TecsSection_def)

interpretation tecs_gasCost_field: indexed_field "\<lambda>i. i < TotalOriginalTechs" wf_TecsSection TecsSection_getTechGasCost TecsSection_setTechGasCost
    "\<lambda>v. v"
  by unfold_locales (auto simp: TecsSection_getTechGasCost_def TecsSection_setTechGasCost_def elem_defs wf_TecsSection_def)

interpretation tecs_researchTime_field: indexed_field "\<lambda>i. i < TotalOriginalTechs" wf_TecsSection TecsSection_getTechResearchTime TecsSection_setTechResearchTime
    "\<lambda>v. v"
  by unfold_locales (auto simp: TecsSection_getTechResearchTime_def TecsSection_setTechResearchTime_def elem_defs wf_TecsSection_def)

interpretation tecs_energyCost_field: indexed_field "\<lambda>i. i < TotalOriginalTechs" wf_TecsSection TecsSection_getTechEnergyCost TecsSection_setTechEnergyCost
    "\<lambda>v. v"
  by unfold_locales (auto simp: TecsSection_getTechEnergyCost_def TecsSection_setTechEnergyCost_def elem_defs wf_TecsSection_def)

interpretation tecx_useDefault_field: indexed_field "\<lambda>i. i < TotalTechs" wf_TecxSection TecxSection_techUsesDefaultSettings TecxSection_setTechUsesDefaultSettings
    "\<lambda>b. b"
  by unfold_locales (auto simp: TecxSection_techUsesDefaultSettings_def TecxSection_setTechUsesDefaultSettings_def elem_defs wf_TecxSection_def)

interpretation tecx_mineralCost_field: indexed_field "\<lambda>i. i < TotalTechs" wf_TecxSection TecxSection_getTechMineralCost TecxSection_setTechMineralCost
    "\<lambda>v. v"
  by unfold_locales (auto simp: TecxSection_getTechMineralCost_def TecxSection_setTechMineralCost_def elem_defs wf_TecxSection_def)

interpretation tecx_gasCost_field: indexed_field "\<lambda>i. i < TotalTechs" wf_TecxSection TecxSection_getTechGasCost TecxSection_setTechGasCost
    "\<lambda>v. v"
  by unfold_locales (auto simp: TecxSection_getTechGasCost_def TecxSection_setTechGasCost_def elem_defs wf_TecxSection_def)

interpretation tecx_researchTime_field: indexed_field "\<lambda>i. i < TotalTechs" wf_TecxSection TecxSection_getTechResearchTime TecxSection_setTechResearchTime
    "\<lambda>v. v"
  by unfold_locales (auto simp: TecxSection_getTechResearchTime_def TecxSection_setTechResearchTime_def elem_defs wf_TecxSection_def)

interpretation tecx_energyCost_field: indexed_field "\<lambda>i. i < TotalTechs" wf_TecxSection TecxSection_getTechEnergyCost TecxSection_setTechEnergyCost
    "\<lambda>v. v"
  by unfold_locales (auto simp: TecxSection_getTechEnergyCost_def TecxSection_setTechEnergyCost_def elem_defs wf_TecxSection_def)

interpretation puni_playerUnitBuildable_field: indexed_field "\<lambda>(i, p). i < TotalUnitTypes \<and> p < TotalPlayers" wf_PuniSection
    "\<lambda>sec (i, p). PuniSection_isUnitBuildable sec i p" "\<lambda>(i, p). PuniSection_setUnitBuildable i p" "\<lambda>b. b"
  by unfold_locales
    (auto simp: PuniSection_isUnitBuildable_def PuniSection_setUnitBuildable_def elem_defs wf_PuniSection_def is_matrix_update nth_matrix_update [where n = TotalUnitTypes and m = TotalPlayers]
      split: if_splits)

interpretation puni_defaultUnitBuildable_field: indexed_field "\<lambda>i. i < TotalUnitTypes" wf_PuniSection PuniSection_isUnitDefaultBuildable PuniSection_setUnitDefaultBuildable
    "\<lambda>b. b"
  by unfold_locales (auto simp: PuniSection_isUnitDefaultBuildable_def PuniSection_setUnitDefaultBuildable_def elem_defs wf_PuniSection_def)

interpretation puni_playerUnitUsesDefault_field: indexed_field "\<lambda>(i, p). i < TotalUnitTypes \<and> p < TotalPlayers" wf_PuniSection
    "\<lambda>sec (i, p). PuniSection_playerUsesDefault sec i p" "\<lambda>(i, p). PuniSection_setPlayerUsesDefault i p" "\<lambda>b. b"
  by unfold_locales
    (auto simp: PuniSection_playerUsesDefault_def PuniSection_setPlayerUsesDefault_def elem_defs wf_PuniSection_def is_matrix_update nth_matrix_update [where n = TotalUnitTypes and m = TotalPlayers]
      split: if_splits)

interpretation upgr_playerMaxUpgradeLevel_field: indexed_field "\<lambda>(i, p). i < TotalOriginalUpgrades \<and> p < TotalPlayers" wf_UpgrSection
    "\<lambda>sec (i, p). UpgrSection_getMaxUpgradeLevel sec i p" "\<lambda>(i, p). UpgrSection_setMaxUpgradeLevel i p" "\<lambda>v. unat (word_of_nat v :: u8)"
  by unfold_locales
    (auto simp: UpgrSection_getMaxUpgradeLevel_def UpgrSection_setMaxUpgradeLevel_def elem_defs wf_UpgrSection_def is_matrix_update nth_matrix_update [where n = TotalOriginalUpgrades and m = TotalPlayers]
      split: if_splits)

interpretation upgr_playerStartUpgradeLevel_field: indexed_field "\<lambda>(i, p). i < TotalOriginalUpgrades \<and> p < TotalPlayers" wf_UpgrSection
    "\<lambda>sec (i, p). UpgrSection_getStartUpgradeLevel sec i p" "\<lambda>(i, p). UpgrSection_setStartUpgradeLevel i p" "\<lambda>v. unat (word_of_nat v :: u8)"
  by unfold_locales
    (auto simp: UpgrSection_getStartUpgradeLevel_def UpgrSection_setStartUpgradeLevel_def elem_defs wf_UpgrSection_def is_matrix_update nth_matrix_update [where n = TotalOriginalUpgrades and m = TotalPlayers]
      split: if_splits)

interpretation upgr_defaultMaxLevel_field: indexed_field "\<lambda>i. i < TotalOriginalUpgrades" wf_UpgrSection UpgrSection_getDefaultMaxUpgradeLevel UpgrSection_setDefaultMaxUpgradeLevel
    "\<lambda>v. unat (word_of_nat v :: u8)"
  by unfold_locales (auto simp: UpgrSection_getDefaultMaxUpgradeLevel_def UpgrSection_setDefaultMaxUpgradeLevel_def elem_defs wf_UpgrSection_def)

interpretation upgr_defaultStartLevel_field: indexed_field "\<lambda>i. i < TotalOriginalUpgrades" wf_UpgrSection UpgrSection_getDefaultStartUpgradeLevel UpgrSection_setDefaultStartUpgradeLevel
    "\<lambda>v. unat (word_of_nat v :: u8)"
  by unfold_locales (auto simp: UpgrSection_getDefaultStartUpgradeLevel_def UpgrSection_setDefaultStartUpgradeLevel_def elem_defs wf_UpgrSection_def)

interpretation upgr_playerUpgradeUsesDefault_field: indexed_field "\<lambda>(i, p). i < TotalOriginalUpgrades \<and> p < TotalPlayers" wf_UpgrSection
    "\<lambda>sec (i, p). UpgrSection_playerUsesDefault sec i p" "\<lambda>(i, p). UpgrSection_setPlayerUsesDefault i p" "\<lambda>b. b"
  by unfold_locales
    (auto simp: UpgrSection_playerUsesDefault_def UpgrSection_setPlayerUsesDefault_def elem_defs wf_UpgrSection_def is_matrix_update nth_matrix_update [where n = TotalOriginalUpgrades and m = TotalPlayers]
      split: if_splits)

interpretation pupx_playerMaxUpgradeLevel_field: indexed_field "\<lambda>(i, p). i < TotalUpgrades \<and> p < TotalPlayers" wf_PupxSection
    "\<lambda>sec (i, p). PupxSection_getMaxUpgradeLevel sec i p" "\<lambda>(i, p). PupxSection_setMaxUpgradeLevel i p" "\<lambda>v. unat (word_of_nat v :: u8)"
  by unfold_locales
    (auto simp: PupxSection_getMaxUpgradeLevel_def PupxSection_setMaxUpgradeLevel_def elem_defs wf_PupxSection_def is_matrix_update nth_matrix_update [where n = TotalUpgrades and m = TotalPlayers]
      split: if_splits)

interpretation pupx_playerStartUpgradeLevel_field: indexed_field "\<lambda>(i, p). i < TotalUpgrades \<and> p < TotalPlayers" wf_PupxSection
    "\<lambda>sec (i, p). PupxSection_getStartUpgradeLevel sec i p" "\<lambda>(i, p). PupxSection_setStartUpgradeLevel i p" "\<lambda>v. unat (word_of_nat v :: u8)"
  by unfold_locales
    (auto simp: PupxSection_getStartUpgradeLevel_def PupxSection_setStartUpgradeLevel_def elem_defs wf_PupxSection_def is_matrix_update nth_matrix_update [where n = TotalUpgrades and m = TotalPlayers]
      split: if_splits)

interpretation pupx_defaultMaxLevel_field: indexed_field "\<lambda>i. i < TotalUpgrades" wf_PupxSection PupxSection_getDefaultMaxUpgradeLevel PupxSection_setDefaultMaxUpgradeLevel
    "\<lambda>v. unat (word_of_nat v :: u8)"
  by unfold_locales (auto simp: PupxSection_getDefaultMaxUpgradeLevel_def PupxSection_setDefaultMaxUpgradeLevel_def elem_defs wf_PupxSection_def)

interpretation pupx_defaultStartLevel_field: indexed_field "\<lambda>i. i < TotalUpgrades" wf_PupxSection PupxSection_getDefaultStartUpgradeLevel PupxSection_setDefaultStartUpgradeLevel
    "\<lambda>v. unat (word_of_nat v :: u8)"
  by unfold_locales (auto simp: PupxSection_getDefaultStartUpgradeLevel_def PupxSection_setDefaultStartUpgradeLevel_def elem_defs wf_PupxSection_def)

interpretation pupx_playerUpgradeUsesDefault_field: indexed_field "\<lambda>(i, p). i < TotalUpgrades \<and> p < TotalPlayers" wf_PupxSection
    "\<lambda>sec (i, p). PupxSection_playerUsesDefault sec i p" "\<lambda>(i, p). PupxSection_setPlayerUsesDefault i p" "\<lambda>b. b"
  by unfold_locales
    (auto simp: PupxSection_playerUsesDefault_def PupxSection_setPlayerUsesDefault_def elem_defs wf_PupxSection_def is_matrix_update nth_matrix_update [where n = TotalUpgrades and m = TotalPlayers]
      split: if_splits)

interpretation ptec_techAvailableForPlayer_field: indexed_field "\<lambda>(i, p). i < TotalOriginalTechs \<and> p < TotalPlayers" wf_PtecSection
    "\<lambda>sec (i, p). PtecSection_techAvailable sec i p" "\<lambda>(i, p). PtecSection_setTechAvailable i p" "\<lambda>b. b"
  by unfold_locales
    (auto simp: PtecSection_techAvailable_def PtecSection_setTechAvailable_def elem_defs wf_PtecSection_def is_matrix_update nth_matrix_update [where n = TotalOriginalTechs and m = TotalPlayers]
      split: if_splits)

interpretation ptec_techResearchedForPlayer_field: indexed_field "\<lambda>(i, p). i < TotalOriginalTechs \<and> p < TotalPlayers" wf_PtecSection
    "\<lambda>sec (i, p). PtecSection_techResearched sec i p" "\<lambda>(i, p). PtecSection_setTechResearched i p" "\<lambda>b. b"
  by unfold_locales
    (auto simp: PtecSection_techResearched_def PtecSection_setTechResearched_def elem_defs wf_PtecSection_def is_matrix_update nth_matrix_update [where n = TotalOriginalTechs and m = TotalPlayers]
      split: if_splits)

interpretation ptec_techAvailableByDefault_field: indexed_field "\<lambda>i. i < TotalOriginalTechs" wf_PtecSection PtecSection_techDefaultAvailable PtecSection_setDefaultTechAvailable
    "\<lambda>b. b"
  by unfold_locales (auto simp: PtecSection_techDefaultAvailable_def PtecSection_setDefaultTechAvailable_def elem_defs wf_PtecSection_def)

interpretation ptec_techResearchedByDefault_field: indexed_field "\<lambda>i. i < TotalOriginalTechs" wf_PtecSection PtecSection_techDefaultResearched PtecSection_setDefaultTechResearched
    "\<lambda>b. b"
  by unfold_locales (auto simp: PtecSection_techDefaultResearched_def PtecSection_setDefaultTechResearched_def elem_defs wf_PtecSection_def)

interpretation ptex_techAvailableForPlayer_field: indexed_field "\<lambda>(i, p). i < TotalTechs \<and> p < TotalPlayers" wf_PtexSection
    "\<lambda>sec (i, p). PtexSection_techAvailable sec i p" "\<lambda>(i, p). PtexSection_setTechAvailable i p" "\<lambda>b. b"
  by unfold_locales
    (auto simp: PtexSection_techAvailable_def PtexSection_setTechAvailable_def elem_defs wf_PtexSection_def is_matrix_update nth_matrix_update [where n = TotalTechs and m = TotalPlayers]
      split: if_splits)

interpretation ptex_techResearchedForPlayer_field: indexed_field "\<lambda>(i, p). i < TotalTechs \<and> p < TotalPlayers" wf_PtexSection
    "\<lambda>sec (i, p). PtexSection_techResearched sec i p" "\<lambda>(i, p). PtexSection_setTechResearched i p" "\<lambda>b. b"
  by unfold_locales
    (auto simp: PtexSection_techResearched_def PtexSection_setTechResearched_def elem_defs wf_PtexSection_def is_matrix_update nth_matrix_update [where n = TotalTechs and m = TotalPlayers]
      split: if_splits)

interpretation ptex_techAvailableByDefault_field: indexed_field "\<lambda>i. i < TotalTechs" wf_PtexSection PtexSection_techDefaultAvailable PtexSection_setDefaultTechAvailable
    "\<lambda>b. b"
  by unfold_locales (auto simp: PtexSection_techDefaultAvailable_def PtexSection_setDefaultTechAvailable_def elem_defs wf_PtexSection_def)

interpretation ptex_techResearchedByDefault_field: indexed_field "\<lambda>i. i < TotalTechs" wf_PtexSection PtexSection_techDefaultResearched PtexSection_setDefaultTechResearched
    "\<lambda>b. b"
  by unfold_locales (auto simp: PtexSection_techDefaultResearched_def PtexSection_setDefaultTechResearched_def elem_defs wf_PtexSection_def)

end
