(* ===== verification/ScenarioProperties.thy ===== *)
theory ScenarioProperties
  imports Settings
begin

text \<open>
  \<open>class Properties\<close> of \<open>src/MappingCoreLib/Scenario.cpp\<close>: the settings of a scenario, over the original and
  the expansion section of each pair. A reader picks one section by the version of the map or as
  the caller says; a writer updates one or both. A section pointer is an option, and using one
  that is null is undefined.
\<close>

section \<open>Versions\<close>

definition StarCraft_Hybrid :: u16 where "StarCraft_Hybrid = 63"
definition StarCraft_BroodWar :: u16 where "StarCraft_BroodWar = 205"

definition VerSection_isOriginal :: "u16 \<Rightarrow> bool" where
  "VerSection_isOriginal ver \<longleftrightarrow> ver < StarCraft_Hybrid"

definition VerSection_isHybrid :: "u16 \<Rightarrow> bool" where
  "VerSection_isHybrid ver \<longleftrightarrow> StarCraft_Hybrid \<le> ver \<and> ver < StarCraft_BroodWar"

definition VerSection_isExpansion :: "u16 \<Rightarrow> bool" where
  "VerSection_isExpansion ver \<longleftrightarrow> StarCraft_BroodWar \<le> ver"

definition VerSection_isHybridOrAbove :: "u16 \<Rightarrow> bool" where
  "VerSection_isHybridOrAbove ver \<longleftrightarrow> StarCraft_Hybrid \<le> ver"

section \<open>Choosing a section\<close>

datatype UseExpSection = Auto | Yes | No | Both | YesIfAvailable | NoIfOrigAvailable

record Properties =
  p_version :: u16
  p_unis :: "UnisSection option"
  p_unix :: "UnixSection option"
  p_puni :: "PuniSection option"
  p_upgs :: "UpgsSection option"
  p_upgx :: "UpgxSection option"
  p_upgr :: "UpgrSection option"
  p_pupx :: "PupxSection option"
  p_tecs :: "TecsSection option"
  p_tecx :: "TecxSection option"
  p_ptec :: "PtecSection option"
  p_ptex :: "PtexSection option"

text \<open>
  The five \<open>useExpansion...\<close> functions are one switch. Its cases \<open>Yes\<close> and \<open>No\<close> have an expression but
  no \<open>return\<close>, so both fall through to \<open>NoIfOrigAvailable\<close>.
\<close>

definition useExpansion :: "u16 \<Rightarrow> 'o option \<Rightarrow> 'x option \<Rightarrow> UseExpSection \<Rightarrow> bool" where
  "useExpansion ver orig expn useExp =
    (case useExp of
       Auto \<Rightarrow> VerSection_isHybridOrAbove ver
     | Yes \<Rightarrow> orig = None
     | No \<Rightarrow> orig = None
     | NoIfOrigAvailable \<Rightarrow> orig = None
     | YesIfAvailable \<Rightarrow> expn \<noteq> None
     | Both \<Rightarrow> expn \<noteq> None)"

definition deref :: "'s option \<Rightarrow> ('s \<Rightarrow> 'a result) \<Rightarrow> 'a result" where
  "deref ptr f = (case ptr of None \<Rightarrow> Inl UndefinedBehavior | Some s \<Rightarrow> f s)"

definition update :: "'s option \<Rightarrow> ('s \<Rightarrow> 's result) \<Rightarrow> 's option result" where
  "update ptr f = deref ptr (\<lambda>s. bind_result (f s) (\<lambda>s'. Inr (Some s')))"

definition getSetting ::
  "u16 \<Rightarrow> 'o option \<Rightarrow> 'x option \<Rightarrow> UseExpSection \<Rightarrow> ('o \<Rightarrow> 'a result) \<Rightarrow> ('x \<Rightarrow> 'a result) \<Rightarrow> 'a result" where
  "getSetting ver orig expn useExp getO getX =
    (if useExpansion ver orig expn useExp then deref expn getX else deref orig getO)"

text \<open>Write to both sections, or to the one asked for.\<close>

definition setBoth ::
  "'o option \<Rightarrow> 'x option \<Rightarrow> ('o \<Rightarrow> 'o result) \<Rightarrow> ('x \<Rightarrow> 'x result) \<Rightarrow> ('o option \<times> 'x option) result" where
  "setBoth orig expn setO setX =
    bind_result (update orig setO) (\<lambda>orig'. bind_result (update expn setX) (\<lambda>expn'. Inr (orig', expn')))"

definition setOne ::
  "UseExpSection \<Rightarrow> 'o option \<Rightarrow> 'x option \<Rightarrow> ('o \<Rightarrow> 'o result) \<Rightarrow> ('x \<Rightarrow> 'x result)
     \<Rightarrow> ('o option \<times> 'x option) result" where
  "setOne useExp orig expn setO setX =
    (if useExp = Yes \<or> useExp = YesIfAvailable \<and> expn \<noteq> None \<or> useExp = NoIfOrigAvailable \<and> orig = None
     then bind_result (update expn setX) (\<lambda>expn'. Inr (orig, expn'))
     else bind_result (update orig setO) (\<lambda>orig'. Inr (orig', expn)))"

text \<open>The setters of unit settings treat \<open>Auto\<close> as \<open>Both\<close>.\<close>

definition setUnitSetting ::
  "UseExpSection \<Rightarrow> 'o option \<Rightarrow> 'x option \<Rightarrow> ('o \<Rightarrow> 'o result) \<Rightarrow> ('x \<Rightarrow> 'x result)
     \<Rightarrow> ('o option \<times> 'x option) result" where
  "setUnitSetting useExp orig expn setO setX =
    (if useExp = Auto \<or> useExp = Both then setBoth orig expn setO setX else setOne useExp orig expn setO setX)"

text \<open>
  The others write, for \<open>Auto\<close>, to each section that is there, to the original one only a type it has.
\<close>

definition setSetting ::
  "UseExpSection \<Rightarrow> bool \<Rightarrow> 'o option \<Rightarrow> 'x option \<Rightarrow> ('o \<Rightarrow> 'o result) \<Rightarrow> ('x \<Rightarrow> 'x result)
     \<Rightarrow> ('o option \<times> 'x option) result" where
  "setSetting useExp isOriginalType orig expn setO setX =
    (if useExp = Auto then
       bind_result (if isOriginalType \<and> orig \<noteq> None then update orig setO else Inr orig) (\<lambda>orig'.
         bind_result (if expn \<noteq> None then update expn setX else Inr expn) (\<lambda>expn'. Inr (orig', expn')))
     else if useExp = Both then setBoth orig expn setO setX
     else setOne useExp orig expn setO setX)"

section \<open>Unit settings\<close>

definition Properties_useExpansionUnitSettings :: "UseExpSection \<Rightarrow> Properties \<Rightarrow> bool" where
  "Properties_useExpansionUnitSettings useExp p = useExpansion (p_version p) (p_unis p) (p_unix p) useExp"

definition Properties_unitUsesDefaultSettings :: "Properties \<Rightarrow> nat \<Rightarrow> UseExpSection \<Rightarrow> bool result" where
  "Properties_unitUsesDefaultSettings p i useExp = getSetting (p_version p) (p_unis p) (p_unix p) useExp
     (\<lambda>s. UnisSection_unitUsesDefaultSettings s i) (\<lambda>s. UnixSection_unitUsesDefaultSettings s i)"

definition Properties_getUnitHitpoints :: "Properties \<Rightarrow> nat \<Rightarrow> UseExpSection \<Rightarrow> u32 result" where
  "Properties_getUnitHitpoints p i useExp = getSetting (p_version p) (p_unis p) (p_unix p) useExp
     (\<lambda>s. UnisSection_getUnitHitpoints s i) (\<lambda>s. UnixSection_getUnitHitpoints s i)"

definition Properties_getUnitShieldPoints :: "Properties \<Rightarrow> nat \<Rightarrow> UseExpSection \<Rightarrow> u16 result" where
  "Properties_getUnitShieldPoints p i useExp = getSetting (p_version p) (p_unis p) (p_unix p) useExp
     (\<lambda>s. UnisSection_getUnitShieldPoints s i) (\<lambda>s. UnixSection_getUnitShieldPoints s i)"

definition Properties_getUnitArmorLevel :: "Properties \<Rightarrow> nat \<Rightarrow> UseExpSection \<Rightarrow> u8 result" where
  "Properties_getUnitArmorLevel p i useExp = getSetting (p_version p) (p_unis p) (p_unix p) useExp
     (\<lambda>s. UnisSection_getUnitArmorLevel s i) (\<lambda>s. UnixSection_getUnitArmorLevel s i)"

definition Properties_getUnitBuildTime :: "Properties \<Rightarrow> nat \<Rightarrow> UseExpSection \<Rightarrow> u16 result" where
  "Properties_getUnitBuildTime p i useExp = getSetting (p_version p) (p_unis p) (p_unix p) useExp
     (\<lambda>s. UnisSection_getUnitBuildTime s i) (\<lambda>s. UnixSection_getUnitBuildTime s i)"

definition Properties_getUnitMineralCost :: "Properties \<Rightarrow> nat \<Rightarrow> UseExpSection \<Rightarrow> u16 result" where
  "Properties_getUnitMineralCost p i useExp = getSetting (p_version p) (p_unis p) (p_unix p) useExp
     (\<lambda>s. UnisSection_getUnitMineralCost s i) (\<lambda>s. UnixSection_getUnitMineralCost s i)"

definition Properties_getUnitGasCost :: "Properties \<Rightarrow> nat \<Rightarrow> UseExpSection \<Rightarrow> u16 result" where
  "Properties_getUnitGasCost p i useExp = getSetting (p_version p) (p_unis p) (p_unix p) useExp
     (\<lambda>s. UnisSection_getUnitGasCost s i) (\<lambda>s. UnixSection_getUnitGasCost s i)"

definition Properties_getUnitNameStringId :: "Properties \<Rightarrow> nat \<Rightarrow> UseExpSection \<Rightarrow> nat result" where
  "Properties_getUnitNameStringId p i useExp = getSetting (p_version p) (p_unis p) (p_unix p) useExp
     (\<lambda>s. UnisSection_getUnitNameStringId s i) (\<lambda>s. UnixSection_getUnitNameStringId s i)"

definition Properties_getWeaponBaseDamage :: "Properties \<Rightarrow> nat \<Rightarrow> UseExpSection \<Rightarrow> u16 result" where
  "Properties_getWeaponBaseDamage p i useExp = getSetting (p_version p) (p_unis p) (p_unix p) useExp
     (\<lambda>s. UnisSection_getWeaponBaseDamage s i) (\<lambda>s. UnixSection_getWeaponBaseDamage s i)"

definition Properties_getWeaponUpgradeDamage :: "Properties \<Rightarrow> nat \<Rightarrow> UseExpSection \<Rightarrow> u16 result" where
  "Properties_getWeaponUpgradeDamage p i useExp = getSetting (p_version p) (p_unis p) (p_unix p) useExp
     (\<lambda>s. UnisSection_getWeaponUpgradeDamage s i) (\<lambda>s. UnixSection_getWeaponUpgradeDamage s i)"

definition Properties_setUnitUsesDefaultSettings ::
  "nat \<Rightarrow> bool \<Rightarrow> UseExpSection \<Rightarrow> Properties \<Rightarrow> Properties result" where
  "Properties_setUnitUsesDefaultSettings i v useExp p =
    bind_result (setUnitSetting useExp (p_unis p) (p_unix p) (UnisSection_setUnitUsesDefaultSettings i v) (UnixSection_setUnitUsesDefaultSettings i v))
      (\<lambda>(orig, expn). Inr (p\<lparr>p_unis := orig, p_unix := expn\<rparr>))"

definition Properties_setUnitHitpoints ::
  "nat \<Rightarrow> u32 \<Rightarrow> UseExpSection \<Rightarrow> Properties \<Rightarrow> Properties result" where
  "Properties_setUnitHitpoints i v useExp p =
    bind_result (setUnitSetting useExp (p_unis p) (p_unix p) (UnisSection_setUnitHitpoints i v) (UnixSection_setUnitHitpoints i v))
      (\<lambda>(orig, expn). Inr (p\<lparr>p_unis := orig, p_unix := expn\<rparr>))"

definition Properties_setUnitShieldPoints ::
  "nat \<Rightarrow> u16 \<Rightarrow> UseExpSection \<Rightarrow> Properties \<Rightarrow> Properties result" where
  "Properties_setUnitShieldPoints i v useExp p =
    bind_result (setUnitSetting useExp (p_unis p) (p_unix p) (UnisSection_setUnitShieldPoints i v) (UnixSection_setUnitShieldPoints i v))
      (\<lambda>(orig, expn). Inr (p\<lparr>p_unis := orig, p_unix := expn\<rparr>))"

definition Properties_setUnitArmorLevel ::
  "nat \<Rightarrow> u8 \<Rightarrow> UseExpSection \<Rightarrow> Properties \<Rightarrow> Properties result" where
  "Properties_setUnitArmorLevel i v useExp p =
    bind_result (setUnitSetting useExp (p_unis p) (p_unix p) (UnisSection_setUnitArmorLevel i v) (UnixSection_setUnitArmorLevel i v))
      (\<lambda>(orig, expn). Inr (p\<lparr>p_unis := orig, p_unix := expn\<rparr>))"

definition Properties_setUnitBuildTime ::
  "nat \<Rightarrow> u16 \<Rightarrow> UseExpSection \<Rightarrow> Properties \<Rightarrow> Properties result" where
  "Properties_setUnitBuildTime i v useExp p =
    bind_result (setUnitSetting useExp (p_unis p) (p_unix p) (UnisSection_setUnitBuildTime i v) (UnixSection_setUnitBuildTime i v))
      (\<lambda>(orig, expn). Inr (p\<lparr>p_unis := orig, p_unix := expn\<rparr>))"

definition Properties_setUnitMineralCost ::
  "nat \<Rightarrow> u16 \<Rightarrow> UseExpSection \<Rightarrow> Properties \<Rightarrow> Properties result" where
  "Properties_setUnitMineralCost i v useExp p =
    bind_result (setUnitSetting useExp (p_unis p) (p_unix p) (UnisSection_setUnitMineralCost i v) (UnixSection_setUnitMineralCost i v))
      (\<lambda>(orig, expn). Inr (p\<lparr>p_unis := orig, p_unix := expn\<rparr>))"

definition Properties_setUnitGasCost ::
  "nat \<Rightarrow> u16 \<Rightarrow> UseExpSection \<Rightarrow> Properties \<Rightarrow> Properties result" where
  "Properties_setUnitGasCost i v useExp p =
    bind_result (setUnitSetting useExp (p_unis p) (p_unix p) (UnisSection_setUnitGasCost i v) (UnixSection_setUnitGasCost i v))
      (\<lambda>(orig, expn). Inr (p\<lparr>p_unis := orig, p_unix := expn\<rparr>))"

definition Properties_setUnitNameStringId ::
  "nat \<Rightarrow> nat \<Rightarrow> UseExpSection \<Rightarrow> Properties \<Rightarrow> Properties result" where
  "Properties_setUnitNameStringId i v useExp p =
    bind_result (setUnitSetting useExp (p_unis p) (p_unix p) (UnisSection_setUnitNameStringId i (word_of_nat v)) (UnixSection_setUnitNameStringId i (word_of_nat v)))
      (\<lambda>(orig, expn). Inr (p\<lparr>p_unis := orig, p_unix := expn\<rparr>))"

definition Properties_setWeaponBaseDamage ::
  "nat \<Rightarrow> u16 \<Rightarrow> UseExpSection \<Rightarrow> Properties \<Rightarrow> Properties result" where
  "Properties_setWeaponBaseDamage i v useExp p =
    bind_result (setSetting useExp (i < TotalOriginalWeapons) (p_unis p) (p_unix p) (UnisSection_setWeaponBaseDamage i v) (UnixSection_setWeaponBaseDamage i v))
      (\<lambda>(orig, expn). Inr (p\<lparr>p_unis := orig, p_unix := expn\<rparr>))"

definition Properties_setWeaponUpgradeDamage ::
  "nat \<Rightarrow> u16 \<Rightarrow> UseExpSection \<Rightarrow> Properties \<Rightarrow> Properties result" where
  "Properties_setWeaponUpgradeDamage i v useExp p =
    bind_result (setSetting useExp (i < TotalOriginalWeapons) (p_unis p) (p_unix p) (UnisSection_setWeaponUpgradeDamage i v) (UnixSection_setWeaponUpgradeDamage i v))
      (\<lambda>(orig, expn). Inr (p\<lparr>p_unis := orig, p_unix := expn\<rparr>))"

definition Properties_isUnitBuildable :: "Properties \<Rightarrow> nat \<Rightarrow> nat \<Rightarrow> bool result" where
  "Properties_isUnitBuildable p i q = deref (p_puni p) (\<lambda>s. PuniSection_isUnitBuildable s i q)"

definition Properties_isUnitDefaultBuildable :: "Properties \<Rightarrow> nat \<Rightarrow> bool result" where
  "Properties_isUnitDefaultBuildable p i = deref (p_puni p) (\<lambda>s. PuniSection_isUnitDefaultBuildable s i)"

definition Properties_playerUsesDefaultUnitBuildability :: "Properties \<Rightarrow> nat \<Rightarrow> nat \<Rightarrow> bool result" where
  "Properties_playerUsesDefaultUnitBuildability p i q = deref (p_puni p) (\<lambda>s. PuniSection_playerUsesDefault s i q)"

definition Properties_setUnitBuildable :: "nat \<Rightarrow> nat \<Rightarrow> bool \<Rightarrow> Properties \<Rightarrow> Properties result" where
  "Properties_setUnitBuildable i q v p =
    bind_result (update (p_puni p) (PuniSection_setUnitBuildable i q v)) (\<lambda>s. Inr (p\<lparr>p_puni := s\<rparr>))"

definition Properties_setUnitDefaultBuildable :: "nat \<Rightarrow> bool \<Rightarrow> Properties \<Rightarrow> Properties result" where
  "Properties_setUnitDefaultBuildable i v p =
    bind_result (update (p_puni p) (PuniSection_setUnitDefaultBuildable i v)) (\<lambda>s. Inr (p\<lparr>p_puni := s\<rparr>))"

definition Properties_setPlayerUsesDefaultUnitBuildability :: "nat \<Rightarrow> nat \<Rightarrow> bool \<Rightarrow> Properties \<Rightarrow> Properties result" where
  "Properties_setPlayerUsesDefaultUnitBuildability i q v p =
    bind_result (update (p_puni p) (PuniSection_setPlayerUsesDefault i q v)) (\<lambda>s. Inr (p\<lparr>p_puni := s\<rparr>))"

text \<open>\<open>*section = *Section::GetDefault()\<close> through a pointer.\<close>

definition toDefault :: "'s \<Rightarrow> 's \<Rightarrow> 's result" where
  "toDefault dflt s = Inr dflt"

definition Properties_setUnitsToDefault :: "UseExpSection \<Rightarrow> Properties \<Rightarrow> Properties result" where
  "Properties_setUnitsToDefault useExp p =
    bind_result (setUnitSetting useExp (p_unis p) (p_unix p) (toDefault UnisSection_GetDefault) (toDefault UnixSection_GetDefault)) (\<lambda>(unis, unix).
      bind_result (update (p_puni p) (toDefault PuniSection_GetDefault)) (\<lambda>puni.
        Inr (p\<lparr>p_unis := unis, p_unix := unix, p_puni := puni\<rparr>)))"

section \<open>Upgrades\<close>

definition Properties_useExpansionUpgradeCosts :: "UseExpSection \<Rightarrow> Properties \<Rightarrow> bool" where
  "Properties_useExpansionUpgradeCosts useExp p = useExpansion (p_version p) (p_upgs p) (p_upgx p) useExp"

definition Properties_upgradeUsesDefaultCosts :: "Properties \<Rightarrow> nat \<Rightarrow> UseExpSection \<Rightarrow> bool result" where
  "Properties_upgradeUsesDefaultCosts p i useExp = getSetting (p_version p) (p_upgs p) (p_upgx p) useExp
     (\<lambda>s. UpgsSection_upgradeUsesDefaultCosts s i) (\<lambda>s. UpgxSection_upgradeUsesDefaultCosts s i)"

definition Properties_getUpgradeBaseMineralCost :: "Properties \<Rightarrow> nat \<Rightarrow> UseExpSection \<Rightarrow> u16 result" where
  "Properties_getUpgradeBaseMineralCost p i useExp = getSetting (p_version p) (p_upgs p) (p_upgx p) useExp
     (\<lambda>s. UpgsSection_getBaseMineralCost s i) (\<lambda>s. UpgxSection_getBaseMineralCost s i)"

definition Properties_getUpgradeMineralCostFactor :: "Properties \<Rightarrow> nat \<Rightarrow> UseExpSection \<Rightarrow> u16 result" where
  "Properties_getUpgradeMineralCostFactor p i useExp = getSetting (p_version p) (p_upgs p) (p_upgx p) useExp
     (\<lambda>s. UpgsSection_getMineralCostFactor s i) (\<lambda>s. UpgxSection_getMineralCostFactor s i)"

definition Properties_getUpgradeBaseGasCost :: "Properties \<Rightarrow> nat \<Rightarrow> UseExpSection \<Rightarrow> u16 result" where
  "Properties_getUpgradeBaseGasCost p i useExp = getSetting (p_version p) (p_upgs p) (p_upgx p) useExp
     (\<lambda>s. UpgsSection_getBaseGasCost s i) (\<lambda>s. UpgxSection_getBaseGasCost s i)"

definition Properties_getUpgradeGasCostFactor :: "Properties \<Rightarrow> nat \<Rightarrow> UseExpSection \<Rightarrow> u16 result" where
  "Properties_getUpgradeGasCostFactor p i useExp = getSetting (p_version p) (p_upgs p) (p_upgx p) useExp
     (\<lambda>s. UpgsSection_getGasCostFactor s i) (\<lambda>s. UpgxSection_getGasCostFactor s i)"

definition Properties_getUpgradeBaseResearchTime :: "Properties \<Rightarrow> nat \<Rightarrow> UseExpSection \<Rightarrow> u16 result" where
  "Properties_getUpgradeBaseResearchTime p i useExp = getSetting (p_version p) (p_upgs p) (p_upgx p) useExp
     (\<lambda>s. UpgsSection_getBaseResearchTime s i) (\<lambda>s. UpgxSection_getBaseResearchTime s i)"

definition Properties_getUpgradeResearchTimeFactor :: "Properties \<Rightarrow> nat \<Rightarrow> UseExpSection \<Rightarrow> u16 result" where
  "Properties_getUpgradeResearchTimeFactor p i useExp = getSetting (p_version p) (p_upgs p) (p_upgx p) useExp
     (\<lambda>s. UpgsSection_getResearchTimeFactor s i) (\<lambda>s. UpgxSection_getResearchTimeFactor s i)"

definition Properties_setUpgradeUsesDefaultCosts ::
  "nat \<Rightarrow> bool \<Rightarrow> UseExpSection \<Rightarrow> Properties \<Rightarrow> Properties result" where
  "Properties_setUpgradeUsesDefaultCosts i v useExp p =
    bind_result (setSetting useExp (i < TotalOriginalUpgrades) (p_upgs p) (p_upgx p) (UpgsSection_setUpgradeUsesDefaultCosts i v) (UpgxSection_setUpgradeUsesDefaultCosts i v))
      (\<lambda>(orig, expn). Inr (p\<lparr>p_upgs := orig, p_upgx := expn\<rparr>))"

definition Properties_setUpgradeBaseMineralCost ::
  "nat \<Rightarrow> u16 \<Rightarrow> UseExpSection \<Rightarrow> Properties \<Rightarrow> Properties result" where
  "Properties_setUpgradeBaseMineralCost i v useExp p =
    bind_result (setSetting useExp (i < TotalOriginalUpgrades) (p_upgs p) (p_upgx p) (UpgsSection_setBaseMineralCost i v) (UpgxSection_setBaseMineralCost i v))
      (\<lambda>(orig, expn). Inr (p\<lparr>p_upgs := orig, p_upgx := expn\<rparr>))"

definition Properties_setUpgradeMineralCostFactor ::
  "nat \<Rightarrow> u16 \<Rightarrow> UseExpSection \<Rightarrow> Properties \<Rightarrow> Properties result" where
  "Properties_setUpgradeMineralCostFactor i v useExp p =
    bind_result (setSetting useExp (i < TotalOriginalUpgrades) (p_upgs p) (p_upgx p) (UpgsSection_setMineralCostFactor i v) (UpgxSection_setMineralCostFactor i v))
      (\<lambda>(orig, expn). Inr (p\<lparr>p_upgs := orig, p_upgx := expn\<rparr>))"

definition Properties_setUpgradeBaseGasCost ::
  "nat \<Rightarrow> u16 \<Rightarrow> UseExpSection \<Rightarrow> Properties \<Rightarrow> Properties result" where
  "Properties_setUpgradeBaseGasCost i v useExp p =
    bind_result (setSetting useExp (i < TotalOriginalUpgrades) (p_upgs p) (p_upgx p) (UpgsSection_setBaseGasCost i v) (UpgxSection_setBaseGasCost i v))
      (\<lambda>(orig, expn). Inr (p\<lparr>p_upgs := orig, p_upgx := expn\<rparr>))"

definition Properties_setUpgradeGasCostFactor ::
  "nat \<Rightarrow> u16 \<Rightarrow> UseExpSection \<Rightarrow> Properties \<Rightarrow> Properties result" where
  "Properties_setUpgradeGasCostFactor i v useExp p =
    bind_result (setSetting useExp (i < TotalOriginalUpgrades) (p_upgs p) (p_upgx p) (UpgsSection_setGasCostFactor i v) (UpgxSection_setGasCostFactor i v))
      (\<lambda>(orig, expn). Inr (p\<lparr>p_upgs := orig, p_upgx := expn\<rparr>))"

definition Properties_setUpgradeBaseResearchTime ::
  "nat \<Rightarrow> u16 \<Rightarrow> UseExpSection \<Rightarrow> Properties \<Rightarrow> Properties result" where
  "Properties_setUpgradeBaseResearchTime i v useExp p =
    bind_result (setSetting useExp (i < TotalOriginalUpgrades) (p_upgs p) (p_upgx p) (UpgsSection_setBaseResearchTime i v) (UpgxSection_setBaseResearchTime i v))
      (\<lambda>(orig, expn). Inr (p\<lparr>p_upgs := orig, p_upgx := expn\<rparr>))"

definition Properties_setUpgradeResearchTimeFactor ::
  "nat \<Rightarrow> u16 \<Rightarrow> UseExpSection \<Rightarrow> Properties \<Rightarrow> Properties result" where
  "Properties_setUpgradeResearchTimeFactor i v useExp p =
    bind_result (setSetting useExp (i < TotalOriginalUpgrades) (p_upgs p) (p_upgx p) (UpgsSection_setResearchTimeFactor i v) (UpgxSection_setResearchTimeFactor i v))
      (\<lambda>(orig, expn). Inr (p\<lparr>p_upgs := orig, p_upgx := expn\<rparr>))"

definition Properties_useExpansionUpgradeLeveling :: "UseExpSection \<Rightarrow> Properties \<Rightarrow> bool" where
  "Properties_useExpansionUpgradeLeveling useExp p = useExpansion (p_version p) (p_upgr p) (p_pupx p) useExp"

definition Properties_getMaxUpgradeLevel :: "Properties \<Rightarrow> nat \<Rightarrow> nat \<Rightarrow> UseExpSection \<Rightarrow> nat result" where
  "Properties_getMaxUpgradeLevel p i q useExp = getSetting (p_version p) (p_upgr p) (p_pupx p) useExp
     (\<lambda>s. UpgrSection_getMaxUpgradeLevel s i q) (\<lambda>s. PupxSection_getMaxUpgradeLevel s i q)"

definition Properties_getStartUpgradeLevel :: "Properties \<Rightarrow> nat \<Rightarrow> nat \<Rightarrow> UseExpSection \<Rightarrow> nat result" where
  "Properties_getStartUpgradeLevel p i q useExp = getSetting (p_version p) (p_upgr p) (p_pupx p) useExp
     (\<lambda>s. UpgrSection_getStartUpgradeLevel s i q) (\<lambda>s. PupxSection_getStartUpgradeLevel s i q)"

definition Properties_getDefaultMaxUpgradeLevel :: "Properties \<Rightarrow> nat \<Rightarrow> UseExpSection \<Rightarrow> nat result" where
  "Properties_getDefaultMaxUpgradeLevel p i useExp = getSetting (p_version p) (p_upgr p) (p_pupx p) useExp
     (\<lambda>s. UpgrSection_getDefaultMaxUpgradeLevel s i) (\<lambda>s. PupxSection_getDefaultMaxUpgradeLevel s i)"

definition Properties_getDefaultStartUpgradeLevel :: "Properties \<Rightarrow> nat \<Rightarrow> UseExpSection \<Rightarrow> nat result" where
  "Properties_getDefaultStartUpgradeLevel p i useExp = getSetting (p_version p) (p_upgr p) (p_pupx p) useExp
     (\<lambda>s. UpgrSection_getDefaultStartUpgradeLevel s i) (\<lambda>s. PupxSection_getDefaultStartUpgradeLevel s i)"

definition Properties_playerUsesDefaultUpgradeLeveling :: "Properties \<Rightarrow> nat \<Rightarrow> nat \<Rightarrow> UseExpSection \<Rightarrow> bool result" where
  "Properties_playerUsesDefaultUpgradeLeveling p i q useExp = getSetting (p_version p) (p_upgr p) (p_pupx p) useExp
     (\<lambda>s. UpgrSection_playerUsesDefault s i q) (\<lambda>s. PupxSection_playerUsesDefault s i q)"

definition Properties_setMaxUpgradeLevel ::
  "nat \<Rightarrow> nat \<Rightarrow> nat \<Rightarrow> UseExpSection \<Rightarrow> Properties \<Rightarrow> Properties result" where
  "Properties_setMaxUpgradeLevel i q v useExp p =
    bind_result (setSetting useExp (i < TotalOriginalUpgrades) (p_upgr p) (p_pupx p) (UpgrSection_setMaxUpgradeLevel i q v) (PupxSection_setMaxUpgradeLevel i q v))
      (\<lambda>(orig, expn). Inr (p\<lparr>p_upgr := orig, p_pupx := expn\<rparr>))"

definition Properties_setStartUpgradeLevel ::
  "nat \<Rightarrow> nat \<Rightarrow> nat \<Rightarrow> UseExpSection \<Rightarrow> Properties \<Rightarrow> Properties result" where
  "Properties_setStartUpgradeLevel i q v useExp p =
    bind_result (setSetting useExp (i < TotalOriginalUpgrades) (p_upgr p) (p_pupx p) (UpgrSection_setStartUpgradeLevel i q v) (PupxSection_setStartUpgradeLevel i q v))
      (\<lambda>(orig, expn). Inr (p\<lparr>p_upgr := orig, p_pupx := expn\<rparr>))"

definition Properties_setDefaultMaxUpgradeLevel ::
  "nat \<Rightarrow> nat \<Rightarrow> UseExpSection \<Rightarrow> Properties \<Rightarrow> Properties result" where
  "Properties_setDefaultMaxUpgradeLevel i v useExp p =
    bind_result (setSetting useExp (i < TotalOriginalUpgrades) (p_upgr p) (p_pupx p) (UpgrSection_setDefaultMaxUpgradeLevel i v) (PupxSection_setDefaultMaxUpgradeLevel i v))
      (\<lambda>(orig, expn). Inr (p\<lparr>p_upgr := orig, p_pupx := expn\<rparr>))"

definition Properties_setDefaultStartUpgradeLevel ::
  "nat \<Rightarrow> nat \<Rightarrow> UseExpSection \<Rightarrow> Properties \<Rightarrow> Properties result" where
  "Properties_setDefaultStartUpgradeLevel i v useExp p =
    bind_result (setSetting useExp (i < TotalOriginalUpgrades) (p_upgr p) (p_pupx p) (UpgrSection_setDefaultStartUpgradeLevel i v) (PupxSection_setDefaultStartUpgradeLevel i v))
      (\<lambda>(orig, expn). Inr (p\<lparr>p_upgr := orig, p_pupx := expn\<rparr>))"

definition Properties_setPlayerUsesDefaultUpgradeLeveling ::
  "nat \<Rightarrow> nat \<Rightarrow> bool \<Rightarrow> UseExpSection \<Rightarrow> Properties \<Rightarrow> Properties result" where
  "Properties_setPlayerUsesDefaultUpgradeLeveling i q v useExp p =
    bind_result (setSetting useExp (i < TotalOriginalUpgrades) (p_upgr p) (p_pupx p) (UpgrSection_setPlayerUsesDefault i q v) (PupxSection_setPlayerUsesDefault i q v))
      (\<lambda>(orig, expn). Inr (p\<lparr>p_upgr := orig, p_pupx := expn\<rparr>))"

definition Properties_setUpgradesToDefault :: "UseExpSection \<Rightarrow> Properties \<Rightarrow> Properties result" where
  "Properties_setUpgradesToDefault useExp p =
    bind_result (setUnitSetting useExp (p_upgs p) (p_upgx p) (toDefault UpgsSection_GetDefault) (toDefault UpgxSection_GetDefault)) (\<lambda>(upgs, upgx).
      bind_result (setUnitSetting useExp (p_upgr p) (p_pupx p) (toDefault UpgrSection_GetDefault) (toDefault PupxSection_GetDefault)) (\<lambda>(upgr, pupx).
        Inr (p\<lparr>p_upgs := upgs, p_upgx := upgx, p_upgr := upgr, p_pupx := pupx\<rparr>)))"

section \<open>Technologies\<close>

definition Properties_useExpansionTechCosts :: "UseExpSection \<Rightarrow> Properties \<Rightarrow> bool" where
  "Properties_useExpansionTechCosts useExp p = useExpansion (p_version p) (p_tecs p) (p_tecx p) useExp"

definition Properties_techUsesDefaultSettings :: "Properties \<Rightarrow> nat \<Rightarrow> UseExpSection \<Rightarrow> bool result" where
  "Properties_techUsesDefaultSettings p i useExp = getSetting (p_version p) (p_tecs p) (p_tecx p) useExp
     (\<lambda>s. TecsSection_techUsesDefaultSettings s i) (\<lambda>s. TecxSection_techUsesDefaultSettings s i)"

definition Properties_getTechMineralCost :: "Properties \<Rightarrow> nat \<Rightarrow> UseExpSection \<Rightarrow> u16 result" where
  "Properties_getTechMineralCost p i useExp = getSetting (p_version p) (p_tecs p) (p_tecx p) useExp
     (\<lambda>s. TecsSection_getTechMineralCost s i) (\<lambda>s. TecxSection_getTechMineralCost s i)"

definition Properties_getTechGasCost :: "Properties \<Rightarrow> nat \<Rightarrow> UseExpSection \<Rightarrow> u16 result" where
  "Properties_getTechGasCost p i useExp = getSetting (p_version p) (p_tecs p) (p_tecx p) useExp
     (\<lambda>s. TecsSection_getTechGasCost s i) (\<lambda>s. TecxSection_getTechGasCost s i)"

definition Properties_getTechResearchTime :: "Properties \<Rightarrow> nat \<Rightarrow> UseExpSection \<Rightarrow> u16 result" where
  "Properties_getTechResearchTime p i useExp = getSetting (p_version p) (p_tecs p) (p_tecx p) useExp
     (\<lambda>s. TecsSection_getTechResearchTime s i) (\<lambda>s. TecxSection_getTechResearchTime s i)"

definition Properties_getTechEnergyCost :: "Properties \<Rightarrow> nat \<Rightarrow> UseExpSection \<Rightarrow> u16 result" where
  "Properties_getTechEnergyCost p i useExp = getSetting (p_version p) (p_tecs p) (p_tecx p) useExp
     (\<lambda>s. TecsSection_getTechEnergyCost s i) (\<lambda>s. TecxSection_getTechEnergyCost s i)"

definition Properties_setTechUsesDefaultSettings ::
  "nat \<Rightarrow> bool \<Rightarrow> UseExpSection \<Rightarrow> Properties \<Rightarrow> Properties result" where
  "Properties_setTechUsesDefaultSettings i v useExp p =
    bind_result (setSetting useExp (i < TotalOriginalTechs) (p_tecs p) (p_tecx p) (TecsSection_setTechUsesDefaultSettings i v) (TecxSection_setTechUsesDefaultSettings i v))
      (\<lambda>(orig, expn). Inr (p\<lparr>p_tecs := orig, p_tecx := expn\<rparr>))"

definition Properties_setTechMineralCost ::
  "nat \<Rightarrow> u16 \<Rightarrow> UseExpSection \<Rightarrow> Properties \<Rightarrow> Properties result" where
  "Properties_setTechMineralCost i v useExp p =
    bind_result (setSetting useExp (i < TotalOriginalTechs) (p_tecs p) (p_tecx p) (TecsSection_setTechMineralCost i v) (TecxSection_setTechMineralCost i v))
      (\<lambda>(orig, expn). Inr (p\<lparr>p_tecs := orig, p_tecx := expn\<rparr>))"

definition Properties_setTechGasCost ::
  "nat \<Rightarrow> u16 \<Rightarrow> UseExpSection \<Rightarrow> Properties \<Rightarrow> Properties result" where
  "Properties_setTechGasCost i v useExp p =
    bind_result (setSetting useExp (i < TotalOriginalTechs) (p_tecs p) (p_tecx p) (TecsSection_setTechGasCost i v) (TecxSection_setTechGasCost i v))
      (\<lambda>(orig, expn). Inr (p\<lparr>p_tecs := orig, p_tecx := expn\<rparr>))"

definition Properties_setTechResearchTime ::
  "nat \<Rightarrow> u16 \<Rightarrow> UseExpSection \<Rightarrow> Properties \<Rightarrow> Properties result" where
  "Properties_setTechResearchTime i v useExp p =
    bind_result (setSetting useExp (i < TotalOriginalTechs) (p_tecs p) (p_tecx p) (TecsSection_setTechResearchTime i v) (TecxSection_setTechResearchTime i v))
      (\<lambda>(orig, expn). Inr (p\<lparr>p_tecs := orig, p_tecx := expn\<rparr>))"

definition Properties_setTechEnergyCost ::
  "nat \<Rightarrow> u16 \<Rightarrow> UseExpSection \<Rightarrow> Properties \<Rightarrow> Properties result" where
  "Properties_setTechEnergyCost i v useExp p =
    bind_result (setSetting useExp (i < TotalOriginalTechs) (p_tecs p) (p_tecx p) (TecsSection_setTechEnergyCost i v) (TecxSection_setTechEnergyCost i v))
      (\<lambda>(orig, expn). Inr (p\<lparr>p_tecs := orig, p_tecx := expn\<rparr>))"

definition Properties_useExpansionTechAvailability :: "UseExpSection \<Rightarrow> Properties \<Rightarrow> bool" where
  "Properties_useExpansionTechAvailability useExp p = useExpansion (p_version p) (p_ptec p) (p_ptex p) useExp"

definition Properties_techAvailable :: "Properties \<Rightarrow> nat \<Rightarrow> nat \<Rightarrow> UseExpSection \<Rightarrow> bool result" where
  "Properties_techAvailable p i q useExp = getSetting (p_version p) (p_ptec p) (p_ptex p) useExp
     (\<lambda>s. PtecSection_techAvailable s i q) (\<lambda>s. PtexSection_techAvailable s i q)"

definition Properties_techResearched :: "Properties \<Rightarrow> nat \<Rightarrow> nat \<Rightarrow> UseExpSection \<Rightarrow> bool result" where
  "Properties_techResearched p i q useExp = getSetting (p_version p) (p_ptec p) (p_ptex p) useExp
     (\<lambda>s. PtecSection_techResearched s i q) (\<lambda>s. PtexSection_techResearched s i q)"

definition Properties_techDefaultAvailable :: "Properties \<Rightarrow> nat \<Rightarrow> UseExpSection \<Rightarrow> bool result" where
  "Properties_techDefaultAvailable p i useExp = getSetting (p_version p) (p_ptec p) (p_ptex p) useExp
     (\<lambda>s. PtecSection_techDefaultAvailable s i) (\<lambda>s. PtexSection_techDefaultAvailable s i)"

definition Properties_techDefaultResearched :: "Properties \<Rightarrow> nat \<Rightarrow> UseExpSection \<Rightarrow> bool result" where
  "Properties_techDefaultResearched p i useExp = getSetting (p_version p) (p_ptec p) (p_ptex p) useExp
     (\<lambda>s. PtecSection_techDefaultResearched s i) (\<lambda>s. PtexSection_techDefaultResearched s i)"

definition Properties_playerUsesDefaultTechSettings :: "Properties \<Rightarrow> nat \<Rightarrow> nat \<Rightarrow> UseExpSection \<Rightarrow> bool result" where
  "Properties_playerUsesDefaultTechSettings p i q useExp = getSetting (p_version p) (p_ptec p) (p_ptex p) useExp
     (\<lambda>s. PtecSection_playerUsesDefault s i q) (\<lambda>s. PtexSection_playerUsesDefault s i q)"

definition Properties_setTechAvailable ::
  "nat \<Rightarrow> nat \<Rightarrow> bool \<Rightarrow> UseExpSection \<Rightarrow> Properties \<Rightarrow> Properties result" where
  "Properties_setTechAvailable i q v useExp p =
    bind_result (setSetting useExp (i < TotalOriginalTechs) (p_ptec p) (p_ptex p) (PtecSection_setTechAvailable i q v) (PtexSection_setTechAvailable i q v))
      (\<lambda>(orig, expn). Inr (p\<lparr>p_ptec := orig, p_ptex := expn\<rparr>))"

definition Properties_setTechResearched ::
  "nat \<Rightarrow> nat \<Rightarrow> bool \<Rightarrow> UseExpSection \<Rightarrow> Properties \<Rightarrow> Properties result" where
  "Properties_setTechResearched i q v useExp p =
    bind_result (setSetting useExp (i < TotalOriginalTechs) (p_ptec p) (p_ptex p) (PtecSection_setTechResearched i q v) (PtexSection_setTechResearched i q v))
      (\<lambda>(orig, expn). Inr (p\<lparr>p_ptec := orig, p_ptex := expn\<rparr>))"

definition Properties_setDefaultTechAvailable ::
  "nat \<Rightarrow> bool \<Rightarrow> UseExpSection \<Rightarrow> Properties \<Rightarrow> Properties result" where
  "Properties_setDefaultTechAvailable i v useExp p =
    bind_result (setSetting useExp (i < TotalOriginalTechs) (p_ptec p) (p_ptex p) (PtecSection_setDefaultTechAvailable i v) (PtexSection_setDefaultTechAvailable i v))
      (\<lambda>(orig, expn). Inr (p\<lparr>p_ptec := orig, p_ptex := expn\<rparr>))"

definition Properties_setDefaultTechResearched ::
  "nat \<Rightarrow> bool \<Rightarrow> UseExpSection \<Rightarrow> Properties \<Rightarrow> Properties result" where
  "Properties_setDefaultTechResearched i v useExp p =
    bind_result (setSetting useExp (i < TotalOriginalTechs) (p_ptec p) (p_ptex p) (PtecSection_setDefaultTechResearched i v) (PtexSection_setDefaultTechResearched i v))
      (\<lambda>(orig, expn). Inr (p\<lparr>p_ptec := orig, p_ptex := expn\<rparr>))"

definition Properties_setPlayerUsesDefaultTechSettings ::
  "nat \<Rightarrow> nat \<Rightarrow> bool \<Rightarrow> UseExpSection \<Rightarrow> Properties \<Rightarrow> Properties result" where
  "Properties_setPlayerUsesDefaultTechSettings i q v useExp p =
    bind_result (setSetting useExp (i < TotalOriginalTechs) (p_ptec p) (p_ptex p) (PtecSection_setPlayerUsesDefault i q v) (PtexSection_setPlayerUsesDefault i q v))
      (\<lambda>(orig, expn). Inr (p\<lparr>p_ptec := orig, p_ptex := expn\<rparr>))"

definition Properties_setTechsToDefault :: "UseExpSection \<Rightarrow> Properties \<Rightarrow> Properties result" where
  "Properties_setTechsToDefault useExp p =
    bind_result (setUnitSetting useExp (p_tecs p) (p_tecx p) (toDefault TecsSection_GetDefault) (toDefault TecxSection_GetDefault)) (\<lambda>(tecs, tecx).
      bind_result (setUnitSetting useExp (p_ptec p) (p_ptex p) (toDefault PtecSection_GetDefault) (toDefault PtexSection_GetDefault)) (\<lambda>(ptec, ptex).
        Inr (p\<lparr>p_tecs := tecs, p_tecx := tecx, p_ptec := ptec, p_ptex := ptex\<rparr>)))"

section \<open>Writing and reading a setting\<close>

locale setting_pair =
  orig: indexed_field okO invO getO setO norm + expn: indexed_field okX invX getX setX norm
  for okO :: "'i \<Rightarrow> bool" and invO :: "'o \<Rightarrow> bool" and getO :: "'o \<Rightarrow> 'i \<Rightarrow> 'v result"
    and setO :: "'i \<Rightarrow> 'w \<Rightarrow> 'o \<Rightarrow> 'o result"
    and okX :: "'i \<Rightarrow> bool" and invX :: "'x \<Rightarrow> bool" and getX :: "'x \<Rightarrow> 'i \<Rightarrow> 'v result"
    and setX :: "'i \<Rightarrow> 'w \<Rightarrow> 'x \<Rightarrow> 'x result" and norm :: "'w \<Rightarrow> 'v" +
  assumes ok_mono: "okO i \<Longrightarrow> okX i"
begin

lemma auto_reads_back:
  assumes "invO s" "invX t" "okO i"
  shows "\<exists>s' t'. setSetting Auto True (Some s) (Some t) (setO i w) (setX i w) = Inr (Some s', Some t') \<and>
    setUnitSetting Auto (Some s) (Some t) (setO i w) (setX i w) = Inr (Some s', Some t') \<and>
    invO s' \<and> invX t' \<and>
    (\<forall>ver useExp j. getSetting ver (Some s') (Some t') useExp (\<lambda>s. getO s j) (\<lambda>t. getX t j) =
       (if j = i then Inr (norm w) else getSetting ver (Some s) (Some t) useExp (\<lambda>s. getO s j) (\<lambda>t. getX t j)))"
proof -
  obtain s' where s': "setO i w s = Inr s'" "invO s'" "getO s' i = Inr (norm w)" "\<And>j. j \<noteq> i \<Longrightarrow> getO s' j = getO s j"
    using orig.set_in [OF assms(1,3)] by blast
  obtain t' where t': "setX i w t = Inr t'" "invX t'" "getX t' i = Inr (norm w)" "\<And>j. j \<noteq> i \<Longrightarrow> getX t' j = getX t j"
    using expn.set_in [OF assms(2) ok_mono [OF assms(3)]] by blast
  show ?thesis
    using s' t'
    by (intro exI [of _ s'] exI [of _ t'])
      (auto simp: setSetting_def setUnitSetting_def setBoth_def update_def deref_def getSetting_def
        useExpansion_def split: UseExpSection.splits)
qed

text \<open>A type that only the expansion has leaves the original section alone.\<close>

lemma auto_expansion_only:
  assumes "invX t" "okX i"
  shows "\<exists>t'. setSetting Auto False (Some s) (Some t) (setO i w) (setX i w) = Inr (Some s, Some t') \<and>
    invX t' \<and> getX t' i = Inr (norm w)"
  using expn.set_in [OF assms, of w] by (auto simp: setSetting_def update_def deref_def)

text \<open>Writing to the expansion section and asking for it back reads the original one.\<close>

lemma yes_reads_original:
  assumes "invX t" "okX i"
  shows "\<exists>t'. setOne Yes (Some s) (Some t) (setO i w) (setX i w) = Inr (Some s, Some t') \<and>
    getX t' i = Inr (norm w) \<and>
    getSetting ver (Some s) (Some t') Yes (\<lambda>s. getO s i) (\<lambda>t. getX t i) = getO s i"
  using expn.set_in [OF assms, of w]
  by (auto simp: setOne_def update_def deref_def getSetting_def useExpansion_def)

end

definition wf_Properties :: "Properties \<Rightarrow> bool" where
  "wf_Properties p \<longleftrightarrow> pred_option wf_UnisSection (p_unis p) \<and> p_unis p \<noteq> None \<and>
     pred_option wf_UnixSection (p_unix p) \<and> p_unix p \<noteq> None \<and>
     pred_option wf_UpgrSection (p_upgr p) \<and> p_upgr p \<noteq> None \<and>
     pred_option wf_PupxSection (p_pupx p) \<and> p_pupx p \<noteq> None \<and>
     pred_option wf_PtecSection (p_ptec p) \<and> p_ptec p \<noteq> None \<and>
     pred_option wf_PtexSection (p_ptex p) \<and> p_ptex p \<noteq> None"

lemmas totals = TotalUnitTypes_def TotalOriginalWeapons_def TotalWeapons_def TotalOriginalUpgrades_def
  TotalUpgrades_def TotalOriginalTechs_def TotalTechs_def TotalPlayers_def

interpretation hitpoints: setting_pair "\<lambda>i. i < TotalUnitTypes" wf_UnisSection UnisSection_getUnitHitpoints
    UnisSection_setUnitHitpoints "\<lambda>i. i < TotalUnitTypes" wf_UnixSection UnixSection_getUnitHitpoints
    UnixSection_setUnitHitpoints "\<lambda>v. v"
  by unfold_locales simp

interpretation weaponBaseDamage: setting_pair "\<lambda>i. i < TotalOriginalWeapons" wf_UnisSection
    UnisSection_getWeaponBaseDamage UnisSection_setWeaponBaseDamage "\<lambda>i. i < TotalWeapons" wf_UnixSection
    UnixSection_getWeaponBaseDamage UnixSection_setWeaponBaseDamage "\<lambda>v. v"
  by unfold_locales (simp add: totals)

interpretation maxUpgradeLevel: setting_pair "\<lambda>(i, p). i < TotalOriginalUpgrades \<and> p < TotalPlayers" wf_UpgrSection
    "\<lambda>sec (i, p). UpgrSection_getMaxUpgradeLevel sec i p" "\<lambda>(i, p). UpgrSection_setMaxUpgradeLevel i p"
    "\<lambda>(i, p). i < TotalUpgrades \<and> p < TotalPlayers" wf_PupxSection
    "\<lambda>sec (i, p). PupxSection_getMaxUpgradeLevel sec i p" "\<lambda>(i, p). PupxSection_setMaxUpgradeLevel i p"
    "\<lambda>v. unat (word_of_nat v :: u8)"
  by unfold_locales (auto simp: totals)

interpretation techAvailability: setting_pair "\<lambda>(i, p). i < TotalOriginalTechs \<and> p < TotalPlayers" wf_PtecSection
    "\<lambda>sec (i, p). PtecSection_techAvailable sec i p" "\<lambda>(i, p). PtecSection_setTechAvailable i p"
    "\<lambda>(i, p). i < TotalTechs \<and> p < TotalPlayers" wf_PtexSection
    "\<lambda>sec (i, p). PtexSection_techAvailable sec i p" "\<lambda>(i, p). PtexSection_setTechAvailable i p"
    "\<lambda>b. b"
  by unfold_locales (auto simp: totals)

text \<open>
  With all sections there, a unit's hitpoints written the automatic way are read back by every
  way of asking, under every version of the map, and no other unit's hitpoints change.
\<close>

lemma Properties_setUnitHitpoints_reads_back:
  assumes "wf_Properties p" "i < TotalUnitTypes"
  shows "\<exists>p'. Properties_setUnitHitpoints i v Auto p = Inr p' \<and> wf_Properties p' \<and>
    (\<forall>useExp j. Properties_getUnitHitpoints p' j useExp =
       (if j = i then Inr v else Properties_getUnitHitpoints p j useExp))"
proof -
  obtain s t where st: "p_unis p = Some s" "p_unix p = Some t" "wf_UnisSection s" "wf_UnixSection t"
    using assms(1) by (auto simp: wf_Properties_def)
  from hitpoints.auto_reads_back [OF st(3,4) assms(2), of v] assms(1) st
  show ?thesis by (auto simp: Properties_setUnitHitpoints_def Properties_getUnitHitpoints_def wf_Properties_def)
qed

definition Properties_default :: "u16 \<Rightarrow> Properties" where
  "Properties_default ver = \<lparr>p_version = ver, p_unis = Some UnisSection_GetDefault,
     p_unix = Some UnixSection_GetDefault, p_puni = Some PuniSection_GetDefault,
     p_upgs = Some UpgsSection_GetDefault, p_upgx = Some UpgxSection_GetDefault,
     p_upgr = Some UpgrSection_GetDefault, p_pupx = Some PupxSection_GetDefault,
     p_tecs = Some TecsSection_GetDefault, p_tecx = Some TecxSection_GetDefault,
     p_ptec = Some PtecSection_GetDefault, p_ptex = Some PtexSection_GetDefault\<rparr>"

lemma wf_Properties_default: "wf_Properties (Properties_default ver)"
  by (simp add: wf_Properties_def Properties_default_def wf_UnisSection_def UnisSection_GetDefault_def
      wf_UnixSection_def UnixSection_GetDefault_def wf_UpgrSection_def UpgrSection_GetDefault_def
      wf_PupxSection_def PupxSection_GetDefault_def wf_PtecSection_def PtecSection_GetDefault_def
      wf_PtexSection_def PtexSection_GetDefault_def is_matrix_def totals)

lemma Properties_setUnitHitpoints_reads_back_witness:
  "\<exists>p'. Properties_setUnitHitpoints 7 2560 Auto (Properties_default 205) = Inr p' \<and>
     Properties_getUnitHitpoints p' 7 No = Inr 2560"
  using Properties_setUnitHitpoints_reads_back [OF wf_Properties_default, of 7 2560 205] by (auto simp: totals)

text \<open>
  The same for a player's maximum upgrade level, which is stored in one byte: what is read back,
  for an upgrade of the original game, is the level modulo 256, and no other upgrade or player
  changes. For an upgrade only the expansion has, the original section is left as it was.
\<close>

lemma Properties_setMaxUpgradeLevel_reads_back:
  assumes "wf_Properties p" "i < TotalUpgrades" "q < TotalPlayers"
  shows "\<exists>p'. Properties_setMaxUpgradeLevel i q v Auto p = Inr p' \<and>
    (if i < TotalOriginalUpgrades
     then \<forall>useExp j r. Properties_getMaxUpgradeLevel p' j r useExp =
         (if j = i \<and> r = q then Inr (v mod 256) else Properties_getMaxUpgradeLevel p j r useExp)
     else p_upgr p' = p_upgr p \<and> Properties_getMaxUpgradeLevel p' i q YesIfAvailable = Inr (v mod 256))"
proof -
  obtain s t where st: "p_upgr p = Some s" "p_pupx p = Some t" "wf_UpgrSection s" "wf_PupxSection t"
    using assms(1) by (auto simp: wf_Properties_def)
  have mod: "unat (word_of_nat v :: u8) = v mod 256" by (simp add: unat_of_nat)
  show ?thesis
  proof (cases "i < TotalOriginalUpgrades")
    case True
    from maxUpgradeLevel.auto_reads_back [OF st(3,4), of "(i, q)" v] True assms(3) st mod
    show ?thesis
      by (auto simp: Properties_setMaxUpgradeLevel_def Properties_getMaxUpgradeLevel_def)
  next
    case False
    from maxUpgradeLevel.auto_expansion_only [OF st(4), of "(i, q)" s v] False assms(2,3) st mod
    show ?thesis
      by (auto simp: Properties_setMaxUpgradeLevel_def Properties_getMaxUpgradeLevel_def getSetting_def
          useExpansion_def deref_def)
  qed
qed

lemma Properties_setMaxUpgradeLevel_reads_back_witness:
  "\<exists>p'. Properties_setMaxUpgradeLevel 3 2 258 Auto (Properties_default 59) = Inr p' \<and>
     Properties_getMaxUpgradeLevel p' 3 2 Auto = Inr 2"
  using Properties_setMaxUpgradeLevel_reads_back [OF wf_Properties_default, of 3 2 258 59] by (auto simp: totals)

text \<open>
  Asking for the expansion section reads the original one. With all sections there, a
  technology made available for a player in the expansion section is stored there, and the same
  request to read it answers from the original section, whatever the version of the map.
\<close>

lemma Properties_Yes_reads_original:
  assumes "wf_Properties p" "i < TotalTechs" "q < TotalPlayers"
  shows "\<exists>p'. Properties_setTechAvailable i q v Yes p = Inr p' \<and>
    deref (p_ptex p') (\<lambda>s. PtexSection_techAvailable s i q) = Inr v \<and>
    Properties_techAvailable p' i q Yes = deref (p_ptec p) (\<lambda>s. PtecSection_techAvailable s i q)"
proof -
  obtain s t where st: "p_ptec p = Some s" "p_ptex p = Some t" "wf_PtecSection s" "wf_PtexSection t"
    using assms(1) by (auto simp: wf_Properties_def)
  from techAvailability.yes_reads_original [OF st(4), of "(i, q)" s v "p_version p"] assms(2,3) st
  show ?thesis by (auto simp: Properties_setTechAvailable_def Properties_techAvailable_def setSetting_def deref_def)
qed

lemma Properties_Yes_reads_original_witness:
  "\<exists>p'. Properties_setTechAvailable 0 0 True Yes (Properties_default 205) = Inr p' \<and>
     Properties_techAvailable p' 0 0 Yes = Inr False"
  using Properties_Yes_reads_original [OF wf_Properties_default, of 0 0 True 205]
  by (auto simp: totals Properties_default_def deref_def PtecSection_techAvailable_def PtecSection_GetDefault_def
      getElem2_def)

text \<open>
  Whether a player uses the default for a technology is written without checking the player:
  every player index from 12 up, for a technology that exists, is a write outside the struct, in
  the original and in the expansion section, while the getter throws.
\<close>

lemma setPlayerUsesDefault_unchecked:
  assumes "TotalPlayers \<le> q" "i < TotalOriginalTechs"
  shows "PtecSection_setPlayerUsesDefault i q v ptec = Inl UndefinedBehavior \<and>
    PtexSection_setPlayerUsesDefault i q v ptex = Inl UndefinedBehavior \<and>
    PtecSection_playerUsesDefault ptec i q = Inl OutOfRange \<and>
    PtexSection_playerUsesDefault ptex i q = Inl OutOfRange"
  using assms
  by (simp add: PtecSection_setPlayerUsesDefault_def PtexSection_setPlayerUsesDefault_def
      PtecSection_playerUsesDefault_def PtexSection_playerUsesDefault_def getElem2_def totals)

lemma setPlayerUsesDefault_unchecked_witness:
  "PtecSection_setPlayerUsesDefault 0 12 True PtecSection_GetDefault = Inl UndefinedBehavior"
  using setPlayerUsesDefault_unchecked [of 12 0 True PtecSection_GetDefault] by (simp add: totals)

end
