(* ===== verification/StrMove.thy ===== *)
theory StrMove
  imports StrSection IdUsers
begin

text \<open>
  Moving a string to another id (\<open>StrSection::moveString\<close> in \<open>src/MappingCoreLib/Sections.cpp\<close>): when the
  id is taken, the block of used ids in the way is shifted by one towards the id the string came
  from, one string per pass of a \<open>while\<close> loop. The loops are partial functions, whose value is \<open>None\<close>
  when they do not end; that they end, and what they leave, is proved below. The operation takes the
  marked ids and returns the renumbering, as the other operations of the section do.
\<close>

section \<open>The loops\<close>

type_synonym move_state = "ScStr option list \<times> (nat \<Rightarrow> bool) \<times> (nat \<rightharpoonup> nat)"

text \<open>\<open>std::map::insert\<close> keeps an entry that is there.\<close>

definition map_insert :: "'k \<Rightarrow> 'v \<Rightarrow> ('k \<rightharpoonup> 'v) \<Rightarrow> 'k \<rightharpoonup> 'v" where
  "map_insert k v m = (if m k = None then m(k \<mapsto> v) else m)"

text \<open>One string goes from \<open>src\<close> to the free id \<open>dst\<close>.\<close>

definition shiftOne :: "nat \<Rightarrow> nat \<Rightarrow> move_state \<Rightarrow> move_state" where
  "shiftOne src dst state = (case state of (strs, used, remaps) \<Rightarrow>
    (strs[src := None, dst := strs ! src], used(src := False, dst := True), map_insert src dst remaps))"

text \<open>The lowest free id above \<open>to\<close>, and the highest free id below it.\<close>

definition freeAbove :: "(nat \<Rightarrow> bool) \<Rightarrow> nat \<Rightarrow> nat \<Rightarrow> nat option" where
  "freeAbove used to from = find_index (\<lambda>i. \<not> used i) (to + 1) (from + 1)"

definition freeBelow :: "(nat \<Rightarrow> bool) \<Rightarrow> nat \<Rightarrow> nat \<Rightarrow> nat option" where
  "freeBelow used to from = List.find (\<lambda>i. \<not> used i) (rev [from..<to])"

partial_function (option) cascadeUp :: "nat \<Rightarrow> nat \<Rightarrow> move_state \<Rightarrow> move_state option" where
  "cascadeUp to from state =
    (if fst (snd state) to then
       (case freeAbove (fst (snd state)) to from of
          Some i \<Rightarrow> cascadeUp to from (shiftOne (i - 1) i state)
        | None \<Rightarrow> cascadeUp to from state)
     else Some state)"

partial_function (option) cascadeDown :: "nat \<Rightarrow> nat \<Rightarrow> move_state \<Rightarrow> move_state option" where
  "cascadeDown to from state =
    (if fst (snd state) to then
       (case freeBelow (fst (snd state)) to from of
          Some i \<Rightarrow> cascadeDown to from (shiftOne (i + 1) i state)
        | None \<Rightarrow> cascadeDown to from state)
     else Some state)"

definition StrSection_moveString ::
  "nat \<Rightarrow> nat \<Rightarrow> (nat \<Rightarrow> bool) \<Rightarrow> StrSection \<Rightarrow> (StrSection \<times> (nat \<rightharpoonup> nat)) result option" where
  "StrSection_moveString from to stringIdUsed sec =
    (let stringIdMin = min from to; stringIdMax = max from to in
     if stringIdMin > 0 \<and> stringIdMax \<le> length (strings sec) \<and> from \<noteq> to then
       if stringIdMax = length (strings sec) then Some (Inl UndefinedBehavior)
       else
         let selected = strings sec ! from;
             state = (strings sec, stringIdUsed(from := False), Map.empty)
         in map_option (\<lambda>(strs, _, remaps). Inr (sec\<lparr>strings := strs[to := selected]\<rparr>, map_insert from to remaps))
              (if to < from then cascadeUp to from state else cascadeDown to from state)
     else Some (Inr (sec, Map.empty)))"

section \<open>What the loops leave\<close>

text \<open>
  Upwards: with \<open>g\<close> the lowest free id above \<open>to\<close>, the strings from \<open>to\<close> up to \<open>g - 1\<close> go one id up.
\<close>

definition shiftedUp :: "nat \<Rightarrow> nat \<Rightarrow> move_state \<Rightarrow> move_state" where
  "shiftedUp to g state = (case state of (strs, used, remaps) \<Rightarrow>
    (map (\<lambda>j. if j = to then None else if to < j \<and> j \<le> g then strs ! (j - 1) else strs ! j) [0..<length strs],
     used(to := False, g := True),
     (\<lambda>i. if to \<le> i \<and> i < g \<and> remaps i = None then Some (i + 1) else remaps i)))"

definition shiftedDown :: "nat \<Rightarrow> nat \<Rightarrow> move_state \<Rightarrow> move_state" where
  "shiftedDown to g state = (case state of (strs, used, remaps) \<Rightarrow>
    (map (\<lambda>j. if j = to then None else if g \<le> j \<and> j < to then strs ! (j + 1) else strs ! j) [0..<length strs],
     used(to := False, g := True),
     (\<lambda>i. if g < i \<and> i \<le> to \<and> remaps i = None then Some (i - 1) else remaps i)))"

lemma freeAbove_eq:
  assumes "to < g" "g \<le> from" "\<not> used g" "\<And>i. to < i \<Longrightarrow> i < g \<Longrightarrow> used i"
  shows "freeAbove used to from = Some g"
proof (cases "freeAbove used to from")
  case None
  then show ?thesis using assms(1-3) by (auto simp: freeAbove_def find_index_None)
next
  case (Some h)
  note h = find_index_Some [OF Some [unfolded freeAbove_def]]
  have "\<not> g < h" using find_index_least [OF Some [unfolded freeAbove_def], of g] assms(1,3) by auto
  moreover have "\<not> h < g" using h assms(4) [of h] by auto
  ultimately show ?thesis using Some by simp
qed

lemma freeBelow_eq:
  assumes "g < to" "from \<le> g" "\<not> used g" "\<And>i. g < i \<Longrightarrow> i < to \<Longrightarrow> used i"
  shows "freeBelow used to from = Some g"
proof -
  have split: "rev [from..<to] = rev [Suc g..<to] @ g # rev [from..<g]"
    using assms(1,2) upt_add_eq_append [of "from" "Suc g" "to - Suc g"] by simp
  have "List.find (\<lambda>i. \<not> used i) (rev [Suc g..<to]) = None"
    using assms(4) by (auto simp: find_None_iff)
  moreover have "List.find P (xs @ ys) = (case List.find P xs of None \<Rightarrow> List.find P ys | Some x \<Rightarrow> Some x)"
    for P :: "nat \<Rightarrow> bool" and xs ys by (induction xs) auto
  ultimately show ?thesis using assms(3) unfolding freeBelow_def split by simp
qed

lemma cascadeUp_result:
  assumes "to < g" "g \<le> from" "g < length strs" "\<not> used g" "\<And>i. to \<le> i \<Longrightarrow> i < g \<Longrightarrow> used i"
  shows "cascadeUp to from (strs, used, remaps) = Some (shiftedUp to g (strs, used, remaps))"
  using assms
proof (induction "g - to" arbitrary: g strs used remaps)
  case (Suc n)
  let ?strs = "strs[g - 1 := None, g := strs ! (g - 1)]" and ?used = "used(g - 1 := False, g := True)"
    and ?remaps = "map_insert (g - 1) g remaps"
  have "freeAbove used to from = Some g" using Suc.prems by (intro freeAbove_eq) simp_all
  then have step: "cascadeUp to from (strs, used, remaps) = cascadeUp to from (?strs, ?used, ?remaps)"
    using Suc.prems by (subst cascadeUp.simps) (simp add: shiftOne_def)
  show ?case
  proof (cases "g = to + 1")
    case True
    have "?strs = map (\<lambda>j. if j = to then None else if to < j \<and> j \<le> g then strs ! (j - 1) else strs ! j) [0..<length strs]"
      using True Suc.prems(3) by (intro nth_equalityI) (auto simp: nth_list_update)
    moreover have "?remaps = (\<lambda>i. if to \<le> i \<and> i < g \<and> remaps i = None then Some (i + 1) else remaps i)"
    proof
      fix i
      have "i = to \<longleftrightarrow> to \<le> i \<and> i < g" using True by auto
      then show "?remaps i = (if to \<le> i \<and> i < g \<and> remaps i = None then Some (i + 1) else remaps i)"
        using True by (auto simp: map_insert_def)
    qed
    ultimately show ?thesis using step True
      by (subst (asm) (2) cascadeUp.simps) (simp add: shiftedUp_def)
  next
    case False
    have rec: "cascadeUp to from (?strs, ?used, ?remaps) = Some (shiftedUp to (g - 1) (?strs, ?used, ?remaps))"
      using Suc.hyps(2) Suc.prems False by (intro Suc.hyps(1)) auto
    have "x = g - Suc 0" if "\<not> x < g - Suc 0" "x < g" for x using that by simp
    then have "shiftedUp to (g - 1) (?strs, ?used, ?remaps) = shiftedUp to g (strs, used, remaps)"
      using Suc.prems False by (auto simp: shiftedUp_def map_insert_def fun_eq_iff nth_list_update)
    then show ?thesis using step rec by simp
  qed
qed simp

lemma cascadeDown_result:
  assumes "g < to" "from \<le> g" "to < length strs" "\<not> used g" "\<And>i. g < i \<Longrightarrow> i \<le> to \<Longrightarrow> used i"
  shows "cascadeDown to from (strs, used, remaps) = Some (shiftedDown to g (strs, used, remaps))"
  using assms
proof (induction "to - g" arbitrary: g strs used remaps)
  case (Suc n)
  let ?strs = "strs[g + 1 := None, g := strs ! (g + 1)]" and ?used = "used(g + 1 := False, g := True)"
    and ?remaps = "map_insert (g + 1) g remaps"
  have "freeBelow used to from = Some g" using Suc.prems by (intro freeBelow_eq) simp_all
  then have step: "cascadeDown to from (strs, used, remaps) = cascadeDown to from (?strs, ?used, ?remaps)"
    using Suc.prems by (subst cascadeDown.simps) (simp add: shiftOne_def)
  show ?case
  proof (cases "to = g + 1")
    case True
    have "?strs = map (\<lambda>j. if j = to then None else if g \<le> j \<and> j < to then strs ! (j + 1) else strs ! j) [0..<length strs]"
      using True Suc.prems(3) by (intro nth_equalityI) (auto simp: nth_list_update)
    moreover have "?remaps = (\<lambda>i. if g < i \<and> i \<le> to \<and> remaps i = None then Some (i - 1) else remaps i)"
    proof
      fix i
      have "i = to \<longleftrightarrow> g < i \<and> i \<le> to" using True by auto
      then show "?remaps i = (if g < i \<and> i \<le> to \<and> remaps i = None then Some (i - 1) else remaps i)"
        using True by (auto simp: map_insert_def)
    qed
    ultimately show ?thesis using step True
      by (subst (asm) (2) cascadeDown.simps) (simp add: shiftedDown_def)
  next
    case False
    have rec: "cascadeDown to from (?strs, ?used, ?remaps) = Some (shiftedDown to (g + 1) (?strs, ?used, ?remaps))"
      using Suc.hyps(2) Suc.prems False by (intro Suc.hyps(1)) auto
    have "shiftedDown to (g + 1) (?strs, ?used, ?remaps) = shiftedDown to g (strs, used, remaps)"
      using Suc.prems False
      by (auto simp: shiftedDown_def map_insert_def fun_eq_iff nth_list_update)
        (metis Suc_lessI le_antisym not_less_eq_eq)+
    then show ?thesis using step rec by simp
  qed
qed simp

section \<open>The move\<close>

lemma ex_free_above:
  assumes "(to :: nat) < from" "\<not> used from" "used to"
  shows "\<exists>g. to < g \<and> g \<le> from \<and> \<not> used g \<and> (\<forall>i. to \<le> i \<and> i < g \<longrightarrow> used i)"
proof -
  let ?g = "LEAST i. to < i \<and> \<not> used i"
  have g: "to < ?g \<and> \<not> used ?g" by (rule LeastI [of _ "from"]) (use assms in blast)
  have "?g \<le> from" by (rule Least_le) (use assms in blast)
  moreover have "used i" if "to \<le> i" "i < ?g" for i
    using not_less_Least [OF that(2)] that(1) assms(3) by (cases "i = to") auto
  ultimately show ?thesis using g by blast
qed

lemma ex_free_below:
  assumes "(from :: nat) < to" "\<not> used from" "used to"
  shows "\<exists>g. g < to \<and> from \<le> g \<and> \<not> used g \<and> (\<forall>i. g < i \<and> i \<le> to \<longrightarrow> used i)"
proof -
  let ?S = "{i. from \<le> i \<and> i < to \<and> \<not> used i}"
  have fin: "finite ?S" by (rule finite_subset [of _ "{..<to}"]) auto
  have "from \<in> ?S" using assms by simp
  then have g: "Max ?S \<in> ?S" using fin by (intro Max_in) auto
  have "used i" if "Max ?S < i" "i \<le> to" for i
  proof (rule ccontr)
    assume "\<not> used i"
    then have "i \<in> ?S" using that g assms(3) by (cases "i = to") auto
    then show False using Max_ge [OF fin] that(1) by (meson leD)
  qed
  then show ?thesis using g by blast
qed

text \<open>What a move promises of the ids in use: where each of them is afterwards.\<close>

definition relocated ::
  "(nat \<Rightarrow> bool) \<Rightarrow> nat \<Rightarrow> nat \<Rightarrow> ScStr option list \<Rightarrow> ScStr option list \<Rightarrow> (nat \<rightharpoonup> nat) \<Rightarrow> bool" where
  "relocated used from to strs strs' m \<longleftrightarrow> length strs' = length strs \<and> renumber m from = to \<and>
    (\<forall>i<length strs. used i \<or> i = from \<longrightarrow> renumber m i < length strs \<and> strs' ! renumber m i = strs ! i) \<and>
    inj_on (renumber m) {i. i < length strs \<and> (used i \<or> i = from)}"

lemma relocated_up:
  assumes "to < g" "g \<le> from" "from < length strs" "g = from \<or> \<not> used g"
    and "shiftedUp to g (strs, u, Map.empty) = (strs1, u1, m1)"
  shows "relocated used from to strs (strs1[to := strs ! from]) (map_insert from to m1)"
proof -
  have ren: "renumber (map_insert from to m1) i = (if i = from then to else if to \<le> i \<and> i < g then i + 1 else i)" for i
    using assms by (auto simp: shiftedUp_def renumber_def map_insert_def)
  have nth: "strs1 ! j = (if j = to then None else if to < j \<and> j \<le> g then strs ! (j - 1) else strs ! j)"
    if "j < length strs" for j using assms(5) that by (auto simp: shiftedUp_def)
  have len: "length strs1 = length strs" using assms(5) by (auto simp: shiftedUp_def)
  have "inj_on (renumber (map_insert from to m1)) {i. i < length strs \<and> (used i \<or> i = from)}"
    using assms(1,2,4) by (auto simp: inj_on_def ren split: if_splits) (metis Suc_lessI)+
  moreover have "strs1[to := strs ! from] ! renumber (map_insert from to m1) i = strs ! i"
    if "i < length strs" "used i \<or> i = from" for i
    using that assms(1-4) len by (auto simp: ren nth)
  ultimately show ?thesis using assms(1-3) len by (auto simp: relocated_def ren)
qed

lemma relocated_down:
  assumes "g < to" "from \<le> g" "to < length strs" "g = from \<or> \<not> used g"
    and "shiftedDown to g (strs, u, Map.empty) = (strs1, u1, m1)"
  shows "relocated used from to strs (strs1[to := strs ! from]) (map_insert from to m1)"
proof -
  have ren: "renumber (map_insert from to m1) i = (if i = from then to else if g < i \<and> i \<le> to then i - 1 else i)" for i
    using assms by (auto simp: shiftedDown_def renumber_def map_insert_def)
  have nth: "strs1 ! j = (if j = to then None else if g \<le> j \<and> j < to then strs ! (j + 1) else strs ! j)"
    if "j < length strs" for j using assms(5) that by (auto simp: shiftedDown_def)
  have len: "length strs1 = length strs" using assms(5) by (auto simp: shiftedDown_def)
  have eq: "x - Suc 0 = g" if "g < x" "\<not> g < x - Suc 0" for x using that by simp
  have "inj_on (renumber (map_insert from to m1)) {i. i < length strs \<and> (used i \<or> i = from)}"
    using assms(1,2,4) by (auto simp: inj_on_def ren split: if_splits) (metis eq)+
  moreover have "strs1[to := strs ! from] ! renumber (map_insert from to m1) i = strs ! i"
    if "i < length strs" "used i \<or> i = from" for i
    using that assms(1-4) len by (auto simp: ren nth)
  ultimately show ?thesis using assms(1-3) len by (auto simp: relocated_def ren)
qed

lemma relocated_free:
  assumes "\<not> used to" "from \<noteq> to" "from < length strs" "to < length strs"
  shows "relocated used from to strs (strs[to := strs ! from]) (map_insert from to Map.empty)"
  using assms by (auto simp: relocated_def renumber_def map_insert_def inj_on_def nth_list_update)

lemma moveString_loops:
  assumes "0 < from" "0 < to" "from < length strs" "to < length strs" "from \<noteq> to"
    and "u = used(from := False)"
  shows "\<exists>strs1 u1 m1. (if to < from then cascadeUp to from (strs, u, Map.empty) else cascadeDown to from (strs, u, Map.empty))
      = Some (strs1, u1, m1) \<and>
    relocated used from to strs (strs1[to := strs ! from]) (map_insert from to m1)"
proof (cases "u to")
  case False
  then have "\<not> used to" using assms(5,6) by simp
  moreover have "cascadeUp to from (strs, u, Map.empty) = Some (strs, u, Map.empty)"
    using False by (subst cascadeUp.simps) simp
  moreover have "cascadeDown to from (strs, u, Map.empty) = Some (strs, u, Map.empty)"
    using False by (subst cascadeDown.simps) simp
  ultimately show ?thesis using relocated_free [of used to "from" strs] assms(3-5) by simp
next
  case taken: True
  have fr: "\<not> u from" using assms(6) by simp
  show ?thesis
  proof (cases "to < from")
    case True
    obtain g where g: "to < g" "g \<le> from" "\<not> u g" "\<forall>i. to \<le> i \<and> i < g \<longrightarrow> u i"
      using ex_free_above [of to "from" u] True fr taken by blast
    obtain strs1 u1 m1 where s: "shiftedUp to g (strs, u, Map.empty) = (strs1, u1, m1)" by (metis prod_cases3)
    have "cascadeUp to from (strs, u, Map.empty) = Some (strs1, u1, m1)"
      using cascadeUp_result [of to g "from" strs u Map.empty] g assms(3) s by auto
    moreover have "g = from \<or> \<not> used g" using g(3) assms(6) by auto
    ultimately show ?thesis using True relocated_up [OF g(1,2) assms(3) _ s] by simp
  next
    case False
    then have lt: "from < to" using assms(5) by simp
    obtain g where g: "g < to" "from \<le> g" "\<not> u g" "\<forall>i. g < i \<and> i \<le> to \<longrightarrow> u i"
      using ex_free_below [OF lt, of u] fr taken by blast
    obtain strs1 u1 m1 where s: "shiftedDown to g (strs, u, Map.empty) = (strs1, u1, m1)" by (metis prod_cases3)
    have "cascadeDown to from (strs, u, Map.empty) = Some (strs1, u1, m1)"
      using cascadeDown_result [of g to "from" strs u Map.empty] g assms(4) s by auto
    moreover have "g = from \<or> \<not> used g" using g(3) assms(6) by auto
    ultimately show ?thesis using False relocated_down [OF g(1,2) assms(4) _ s] by simp
  qed
qed



end
