(* ===== verification/Kstr.thy ===== *)
theory Kstr
  imports StrMove
begin

text \<open>
  The editor's own strings, the KSTR section (\<open>class KstrSection\<close> in \<open>src/MappingCoreLib/Sections.cpp\<close>). Its
  table of string objects is the one of the STR section and the code of the operations on it is a
  copy of that section's, with the editor's scope for what the synchronizer marks and renumbers; the
  definitions below apply the STR operation to the table. Its byte format is in \<open>KstrCodec\<close>.
\<close>

record KstrSection =
  k_version :: u32
  k_strings :: "ScStr option list"
  k_stringBytes :: string

definition KSTR_CurrentVersion :: u32 where "KSTR_CurrentVersion = 3"

definition KstrSection_GetDefault :: KstrSection where
  "KstrSection_GetDefault = \<lparr>k_version = KSTR_CurrentVersion, k_strings = [], k_stringBytes = []\<rparr>"

text \<open>The table as a STR section, and an operation on it done on the KSTR section.\<close>

definition k_table :: "KstrSection \<Rightarrow> StrSection" where
  "k_table sec = StrSection_new\<lparr>strings := k_strings sec\<rparr>"

definition set_k_table :: "StrSection \<Rightarrow> KstrSection \<Rightarrow> KstrSection" where
  "set_k_table table sec = sec\<lparr>k_strings := strings table\<rparr>"

definition KstrSection_empty :: "KstrSection \<Rightarrow> bool" where
  "KstrSection_empty sec \<longleftrightarrow> list_all (\<lambda>s. s = None) (k_strings sec)"

definition KstrSection_getCapacity :: "KstrSection \<Rightarrow> nat" where
  "KstrSection_getCapacity sec = length (k_strings sec)"

definition KstrSection_stringStored :: "KstrSection \<Rightarrow> nat \<Rightarrow> bool" where
  "KstrSection_stringStored sec stringId \<longleftrightarrow> stringId < length (k_strings sec) \<and> k_strings sec ! stringId \<noteq> None"

definition KstrSection_unmarkUnstoredStrings :: "KstrSection \<Rightarrow> (nat \<Rightarrow> bool) \<Rightarrow> nat \<Rightarrow> bool" where
  "KstrSection_unmarkUnstoredStrings sec = StrSection_unmarkUnstoredStrings (k_table sec)"

definition KstrSection_getProperties :: "KstrSection \<Rightarrow> nat \<Rightarrow> StrProp" where
  "KstrSection_getProperties sec stringId =
    (if stringId < length (k_strings sec)
     then (case k_strings sec ! stringId of None \<Rightarrow> StrProp_default | Some s \<Rightarrow> strProp s) else StrProp_default)"

definition KstrSection_setProperties :: "nat \<Rightarrow> StrProp \<Rightarrow> KstrSection \<Rightarrow> KstrSection" where
  "KstrSection_setProperties stringId strProp' sec =
    (if stringId < length (k_strings sec)
     then sec\<lparr>k_strings := (k_strings sec)[stringId :=
            map_option (\<lambda>s. s\<lparr>strProp := strProp'\<rparr>) (k_strings sec ! stringId)]\<rparr> else sec)"

definition KstrSection_getString :: "StringType \<Rightarrow> KstrSection \<Rightarrow> nat \<Rightarrow> string option" where
  "KstrSection_getString t sec = StrSection_getString t (k_table sec)"

definition KstrSection_findString :: "StringType \<Rightarrow> KstrSection \<Rightarrow> string \<Rightarrow> nat" where
  "KstrSection_findString t sec = StrSection_findString t (k_table sec)"

definition KstrSection_getNextUnusedStringId :: "KstrSection \<Rightarrow> (nat \<Rightarrow> bool) \<Rightarrow> bool \<Rightarrow> nat \<Rightarrow> nat" where
  "KstrSection_getNextUnusedStringId sec = StrSection_getNextUnusedStringId (k_table sec)"

definition KstrSection_defragment :: "KstrSection \<Rightarrow> KstrSection \<times> (nat \<rightharpoonup> nat)" where
  "KstrSection_defragment sec =
    (case StrSection_defragment (k_table sec) of (table, remaps) \<Rightarrow> (set_k_table table sec, remaps))"

definition KstrSection_setCapacity ::
  "nat \<Rightarrow> (nat \<Rightarrow> bool) \<Rightarrow> bool \<Rightarrow> KstrSection \<Rightarrow> (KstrSection \<times> (nat \<rightharpoonup> nat)) result" where
  "KstrSection_setCapacity stringCapacity validUsed autoDefragment sec =
    bind_result (StrSection_setCapacity stringCapacity validUsed autoDefragment (k_table sec))
      (\<lambda>(table, remaps). Inr (set_k_table table sec, remaps))"

definition KstrSection_addString ::
  "StringType \<Rightarrow> string \<Rightarrow> (nat \<Rightarrow> bool) \<Rightarrow> (nat \<Rightarrow> bool) \<Rightarrow> bool \<Rightarrow> KstrSection
     \<Rightarrow> (nat \<times> KstrSection \<times> (nat \<rightharpoonup> nat)) result" where
  "KstrSection_addString t str used validUsed autoDefragment sec =
    bind_result (StrSection_addString t str used validUsed autoDefragment (k_table sec))
      (\<lambda>(stringId, table, remaps). Inr (stringId, set_k_table table sec, remaps))"

definition KstrSection_replaceString :: "StringType \<Rightarrow> nat \<Rightarrow> string \<Rightarrow> KstrSection \<Rightarrow> KstrSection" where
  "KstrSection_replaceString t stringId str sec = set_k_table (StrSection_replaceString t stringId str (k_table sec)) sec"

definition KstrSection_deleteUnusedStrings :: "(nat \<Rightarrow> bool) \<Rightarrow> KstrSection \<Rightarrow> KstrSection" where
  "KstrSection_deleteUnusedStrings used sec = set_k_table (StrSection_deleteUnusedStrings used (k_table sec)) sec"

definition KstrSection_deleteString :: "nat \<Rightarrow> bool \<Rightarrow> bool option \<Rightarrow> KstrSection \<Rightarrow> bool \<times> KstrSection" where
  "KstrSection_deleteString stringId deleteOnlyIfUnused stringUsed sec =
    (case StrSection_deleteString stringId deleteOnlyIfUnused stringUsed (k_table sec) of
       (deleted, table) \<Rightarrow> (deleted, set_k_table table sec))"

definition KstrSection_moveString ::
  "nat \<Rightarrow> nat \<Rightarrow> (nat \<Rightarrow> bool) \<Rightarrow> KstrSection \<Rightarrow> (KstrSection \<times> (nat \<rightharpoonup> nat)) result option" where
  "KstrSection_moveString from to stringIdUsed sec =
    map_option (\<lambda>r. bind_result r (\<lambda>(table, remaps). Inr (set_k_table table sec, remaps)))
      (StrSection_moveString from to stringIdUsed (k_table sec))"

definition KstrSection_getVersion :: "KstrSection \<Rightarrow> u32" where
  "KstrSection_getVersion sec = k_version sec"

definition KstrSection_setVersion :: "u32 \<Rightarrow> KstrSection \<Rightarrow> KstrSection result" where
  "KstrSection_setVersion version sec =
    (if version < 2 \<or> version > KSTR_CurrentVersion then Inl InvalidArgument else Inr (sec\<lparr>k_version := version\<rparr>))"

end
