(* ===== verification/StrRefinement.thy ===== *)
theory StrRefinement
  imports Kstr
begin

text \<open>
  The string tables as maps from ids to text. \<open>StrSection\<close> and \<open>KstrSection\<close> (\<open>src/MappingCoreLib/Sections.cpp\<close>)
  keep their strings in a deque of pointers with an unused slot 0; what callers rely on is a partial
  map from positive ids to text. The abstraction forgets slot 0, the empty slots, the allocations and the
  fonts, and each operation of the table is the operation of maps one expects.
\<close>

definition stringMap :: "StrSection \<Rightarrow> nat \<rightharpoonup> string" where
  "stringMap sec = (\<lambda>i. if i = 0 then None else StrSection_getString RawString sec i)"

text \<open>The same of the editor's table, whose operations are those of \<open>StrSection\<close>.\<close>

definition editorMap :: "KstrSection \<Rightarrow> nat \<rightharpoonup> string" where
  "editorMap sec = stringMap (k_table sec)"

lemma stringMap_replace:
  assumes "NUL \<notin> set str"
  shows "stringMap (StrSection_replaceString RawString i str sec) =
    (if 0 < i \<and> i < StrSection_getCapacity sec then (stringMap sec)(i \<mapsto> str) else stringMap sec)"
  using assms by (auto simp: stringMap_def raw_getString StrSection_replaceString_def StrSection_getCapacity_def
      ScStr_new_prop_def convertStr_def c_str_append fun_eq_iff)

lemma stringMap_delete:
  "stringMap (snd (StrSection_deleteString i False answer sec)) = (stringMap sec)(i := None)"
  by (auto simp: stringMap_def raw_getString StrSection_deleteString_def fun_eq_iff)

lemma stringMap_deleteUnused:
  "stringMap (StrSection_deleteUnusedStrings used sec) = stringMap sec |` {i. used i}"
  by (auto simp: stringMap_def raw_getString StrSection_deleteUnusedStrings_def restrict_map_def fun_eq_iff)

lemma slotEquals_raw:
  "NUL \<notin> set str \<Longrightarrow> slotEquals RawString slot str \<longleftrightarrow> map_option (\<lambda>s. c_str (allocation s)) slot = Some str"
  by (auto simp: slotEquals_def ScStr_equals_def convertStr_def split: option.splits)

lemma stringMap_find:
  assumes "NUL \<notin> set str"
  shows "if StrSection_findString RawString sec str = NoString then str \<notin> ran (stringMap sec)
    else stringMap sec (StrSection_findString RawString sec str) = Some str"
proof (cases "StrSection_findString RawString sec str = NoString")
  case True
  have "\<not> slotEquals RawString (strings sec ! i) str" if "0 < i" "i < length (strings sec)" for i
    using True that find_index_Some [of "\<lambda>i. slotEquals RawString (strings sec ! i) str" 1 "length (strings sec)"]
    by (auto simp: StrSection_findString_def NoString_def find_index_None split: option.splits)
  then have "stringMap sec i \<noteq> Some str" for i
    using assms by (auto simp: stringMap_def raw_getString slotEquals_raw)
  then show ?thesis using True by (auto simp: ran_def)
next
  case False
  then show ?thesis using findString_Some [OF False] assms
    by (auto simp: stringMap_def raw_getString slotEquals_raw NoString_def)
qed

lemma stringMap_add:
  assumes "NUL \<notin> set str" "strings sec \<noteq> []" "\<And>i. validUsed i \<Longrightarrow> StrSection_stringStored sec i"
    and add: "StrSection_addString RawString str used validUsed autoDefragment sec = Inr (i, sec', m)"
  shows "0 < i \<and> m = Map.empty \<and> stringMap sec' = (stringMap sec)(i \<mapsto> str) \<and>
    (if str \<in> ran (stringMap sec) then stringMap sec i = Some str else \<not> used i)"
proof (cases "StrSection_findString RawString sec str = NoString")
  case False
  then have "i = StrSection_findString RawString sec str" "sec' = sec" "m = Map.empty"
    using add findString_eq [OF False, of used validUsed autoDefragment] by auto
  then show ?thesis using stringMap_find [OF assms(1), of sec] False by (auto simp: NoString_def ranI fun_upd_idem)
next
  case True
  let ?n = "StrSection_getNextUnusedStringId sec used True 1"
  have valid: "\<And>i. validUsed i \<Longrightarrow> i < length (strings sec)" using assms(3) by (simp add: StrSection_stringStored_def)
  have eq: "(if ?n = 0 then Inl MaximumStringsExceeded
      else Inr (?n, sec\<lparr>strings := (resizeStrings (max (?n + 1) (length (strings sec))) (strings sec))
        [?n := Some (ScStr_new (convertStr RawString RawString str))]\<rparr>, Map.empty)) = Inr (i, sec', m)"
    using addString_new [where validUsed = validUsed and used = used and autoDefragment = autoDefragment, OF True assms(2) valid refl] add by simp
  have nz: "?n \<noteq> 0"
  proof
    assume "?n = 0"
    with eq show False by simp
  qed
  have r: "i = ?n" "m = Map.empty" "strings sec' = (resizeStrings (max (?n + 1) (length (strings sec))) (strings sec))
        [?n := Some (ScStr_new str)]"
    using eq nz by (auto simp: convertStr_def)
  have "stringMap sec' j = ((stringMap sec)(i \<mapsto> str)) j" for j
    using nz assms(1) by (auto simp: stringMap_def raw_getString r nth_resizeStrings ScStr_new_def c_str_append less_max_iff_disj)
  then have "stringMap sec' = (stringMap sec)(i \<mapsto> str)" by (rule ext)
  moreover have "str \<notin> ran (stringMap sec)" using True stringMap_find [OF assms(1), of sec] by simp
  ultimately show ?thesis using r nz getNextUnused_fresh(3) [OF refl nz] by simp
qed

section \<open>Tables of text\<close>

text \<open>What both string tables promise of the operations that do not choose an id.\<close>

locale text_table =
  fixes text_of :: "'s \<Rightarrow> nat \<rightharpoonup> string"
    and capacity :: "'s \<Rightarrow> nat"
    and replace :: "nat \<Rightarrow> string \<Rightarrow> 's \<Rightarrow> 's"
    and delete :: "nat \<Rightarrow> 's \<Rightarrow> 's"
    and keep :: "(nat \<Rightarrow> bool) \<Rightarrow> 's \<Rightarrow> 's"
  assumes text_replace: "NUL \<notin> set str \<Longrightarrow>
      text_of (replace i str s) = (if 0 < i \<and> i < capacity s then (text_of s)(i \<mapsto> str) else text_of s)"
    and text_delete: "text_of (delete i s) = (text_of s)(i := None)"
    and text_keep: "text_of (keep used s) = text_of s |` {i. used i}"
    and capacity_replace: "capacity (replace i str s) = capacity s"
begin

lemma replace_overwrites:
  "NUL \<notin> set str \<Longrightarrow> NUL \<notin> set str' \<Longrightarrow> text_of (replace i str' (replace i str s)) = text_of (replace i str' s)"
  by (simp add: text_replace capacity_replace)

lemma delete_is_keep: "text_of (delete i s) = text_of (keep (\<lambda>j. j \<noteq> i) s)"
  by (auto simp: text_delete text_keep restrict_map_def)

lemma keep_all: "dom (text_of s) \<subseteq> {i. used i} \<Longrightarrow> text_of (keep used s) = text_of s"
proof (rule ext)
  fix i
  assume "dom (text_of s) \<subseteq> {i. used i}"
  then show "text_of (keep used s) i = text_of s i" by (cases "text_of s i") (auto simp: text_keep restrict_map_def dom_def)
qed

end

lemma capacity_replaceString [simp]: "StrSection_getCapacity (StrSection_replaceString t i str sec) = StrSection_getCapacity sec"
  by (simp add: StrSection_replaceString_def StrSection_getCapacity_def)

interpretation str_text: text_table stringMap StrSection_getCapacity "StrSection_replaceString RawString"
    "\<lambda>i sec. snd (StrSection_deleteString i False None sec)" StrSection_deleteUnusedStrings
  by unfold_locales (simp_all add: stringMap_replace stringMap_delete stringMap_deleteUnused)

lemma k_table_set [simp]: "k_table (set_k_table sec k) = k_table k\<lparr>strings := strings sec\<rparr>"
  by (simp add: k_table_def set_k_table_def)

lemma stringMap_strings [simp]: "stringMap (sec\<lparr>strings := strings sec'\<rparr>) = stringMap sec'"
  by (rule ext) (simp add: stringMap_def raw_getString)

lemma getCapacity_strings [simp]: "StrSection_getCapacity (sec\<lparr>strings := strings sec'\<rparr>) = StrSection_getCapacity sec'"
  by (simp add: StrSection_getCapacity_def)

lemma KstrSection_getCapacity_table: "KstrSection_getCapacity sec = StrSection_getCapacity (k_table sec)"
  by (simp add: KstrSection_getCapacity_def StrSection_getCapacity_def k_table_def)

interpretation kstr_text: text_table editorMap KstrSection_getCapacity "KstrSection_replaceString RawString"
    "\<lambda>i sec. snd (KstrSection_deleteString i False None sec)" KstrSection_deleteUnusedStrings
  by unfold_locales (simp_all add: editorMap_def KstrSection_replaceString_def KstrSection_deleteString_def
      KstrSection_deleteUnusedStrings_def KstrSection_getCapacity_table stringMap_replace stringMap_delete
      stringMap_deleteUnused split_beta)

section \<open>Properties\<close>

text \<open>
  C7. The string table refines a map from ids to text. Looking up, finding, replacing, deleting, deleting
  the unused and adding strings are the corresponding operations of the map: adding gives the id the text
  already has or one that is not used, and changes the map there only.
\<close>

theorem StrSection_refines_map:
  assumes "NUL \<notin> set str" "strings sec \<noteq> []" "\<And>i. validUsed i \<Longrightarrow> StrSection_stringStored sec i"
  shows "stringMap (StrSection_replaceString RawString i str sec) =
      (if 0 < i \<and> i < StrSection_getCapacity sec then (stringMap sec)(i \<mapsto> str) else stringMap sec) \<and>
    stringMap (snd (StrSection_deleteString i False answer sec)) = (stringMap sec)(i := None) \<and>
    stringMap (StrSection_deleteUnusedStrings used sec) = stringMap sec |` {i. used i} \<and>
    (if StrSection_findString RawString sec str = NoString then str \<notin> ran (stringMap sec)
     else stringMap sec (StrSection_findString RawString sec str) = Some str) \<and>
    (case StrSection_addString RawString str used validUsed autoDefragment sec of
       Inl e \<Rightarrow> e = MaximumStringsExceeded \<and> str \<notin> ran (stringMap sec)
     | Inr (i, sec', m) \<Rightarrow> 0 < i \<and> m = Map.empty \<and> stringMap sec' = (stringMap sec)(i \<mapsto> str) \<and>
         (if str \<in> ran (stringMap sec) then stringMap sec i = Some str else \<not> used i))"
proof (intro conjI)
  show "case StrSection_addString RawString str used validUsed autoDefragment sec of
       Inl e \<Rightarrow> e = MaximumStringsExceeded \<and> str \<notin> ran (stringMap sec)
     | Inr (i, sec', m) \<Rightarrow> 0 < i \<and> m = Map.empty \<and> stringMap sec' = (stringMap sec)(i \<mapsto> str) \<and>
         (if str \<in> ran (stringMap sec) then stringMap sec i = Some str else \<not> used i)"
  proof (cases "StrSection_addString RawString str used validUsed autoDefragment sec")
    case (Inl e)
    have new: "StrSection_findString RawString sec str = NoString"
      using Inl findString_eq [of RawString sec str used validUsed autoDefragment] by (metis sum.distinct(1))
    have valid: "\<And>i. validUsed i \<Longrightarrow> i < length (strings sec)" using assms(3) by (simp add: StrSection_stringStored_def)
    have "e = MaximumStringsExceeded"
      using addString_new [where validUsed = validUsed and used = used and autoDefragment = autoDefragment, OF new assms(2) valid refl] Inl by (simp split: if_splits)
    then show ?thesis using Inl new stringMap_find [OF assms(1), of sec] by simp
  next
    case (Inr r)
    obtain j sec' m where "r = (j, sec', m)" by (metis prod_cases3)
    then show ?thesis using stringMap_add [where used = used and autoDefragment = autoDefragment and i = j and sec' = sec' and m = m, OF assms] Inr by simp
  qed
qed (rule stringMap_replace [OF assms(1)] stringMap_delete stringMap_deleteUnused stringMap_find [OF assms(1)])+

theorem StrSection_refines_map_witness:
  "stringMap (StrSection_replaceString RawString 1 ''Lost Temple'' (StrSection_GetDefault False)) =
     (stringMap (StrSection_GetDefault False))(1 \<mapsto> ''Lost Temple'') \<and>
   stringMap (StrSection_GetDefault False) 2 = Some ''Destroy all enemy buildings.''"
proof -
  let ?sec = "StrSection_GetDefault False"
  have "strings ?sec \<noteq> []" "1 < StrSection_getCapacity ?sec"
    by (simp_all add: StrSection_GetDefault_def StrSection_getCapacity_def defaultStrings_def)
  then have "stringMap (StrSection_replaceString RawString 1 ''Lost Temple'' ?sec) = (stringMap ?sec)(1 \<mapsto> ''Lost Temple'')"
    using StrSection_refines_map [of "''Lost Temple''" ?sec "\<lambda>_. False" 1] by simp
  moreover have "stringMap ?sec 2 = Some ''Destroy all enemy buildings.''"
    by (simp add: stringMap_def raw_getString StrSection_GetDefault_def StrSection_new_def defaultStrings_def ScStr_new_def c_str_def)
  ultimately show ?thesis by blast
qed

end
