(* ===== verification/StringUsers.thy ===== *)
theory StringUsers
  imports TrigSections Settings
begin

text \<open>
  The sections that name strings besides the triggers (\<open>src/MappingCoreLib/Sections.cpp\<close>): the scenario
  name and description (SPRP), the forces (FORC), the sounds (WAV), the switches (SWNM), the unit
  names of UNIS and UNIx, the editor's overrides (OSTR) and the extended trigger data (KTRG). Each is
  an instance of the interface \<open>id_remapper\<close>, with the ids it stores as what it refers to.

  OSTR and KTRG mark ids in a bitset of 65536 entries without checking them, so marking returns a
  result and is the interface's function only on sections whose ids are in range.
\<close>

section \<open>Arrays of ids\<close>

definition TotalForces :: nat where "TotalForces = 4"
definition TotalSlots :: nat where "TotalSlots = 8"
definition TotalSounds :: nat where "TotalSounds = 512"
definition TotalSwitches :: nat where "TotalSwitches = 256"

text \<open>\<open>stringUsers.push_back(StringUser(flag, i))\<close> for the indexes of an array the test holds at.\<close>

definition indexUsers :: "u32 \<Rightarrow> ('a \<Rightarrow> bool) \<Rightarrow> 'a list \<Rightarrow> StringUser list" where
  "indexUsers flag P xs = map (\<lambda>i. \<lparr>su_userFlags = flag, su_index = i, su_subIndex = 0\<rparr>)
    (filter (\<lambda>i. P (xs ! i)) [0..<length xs])"

lemma set_indexUsers:
  "set (indexUsers flag P xs) = {u. su_userFlags u = flag \<and> su_subIndex u = 0 \<and> su_index u < length xs \<and> P (xs ! su_index u)}"
  (is "?L = ?R")
proof
  show "?L \<subseteq> ?R" by (auto simp: indexUsers_def)
  show "?R \<subseteq> ?L"
  proof
    fix u
    assume u: "u \<in> ?R"
    then have "u = \<lparr>su_userFlags = flag, su_index = su_index u, su_subIndex = 0\<rparr>" by simp
    with u show "u \<in> ?L" unfolding indexUsers_def by force
  qed
qed

text \<open>
  An array of ids is a user, whether it compares with the id or with the id cast to its width.
\<close>

lemma used_cong:
  assumes "id_remapper limit ok refs used mark delete remap"
    and "\<And>s i. i < limit \<Longrightarrow> used' s i = used s i"
  shows "id_remapper limit ok refs used' mark delete remap"
  using assms by (simp add: user_defs)

lemma array_user:
  assumes "limit \<le> 2 ^ LENGTH('a)"
  shows "id_remapper limit (\<lambda>_. True) (\<lambda>xs::'a::len word list. unat ` set xs)
    (\<lambda>xs i. \<exists>x\<in>set xs. unat x = i) (\<lambda>xs u. foldl (\<lambda>u x. markField limit x u) u xs)
    (\<lambda>i. map (clearField i)) (\<lambda>m. map (remapField m))"
  using id_remapper.lift_list_remap [OF field_user [OF assms]]
  by (simp add: UNION_singleton_eq_range)

lemma array_user_cast:
  assumes "limit \<le> 2 ^ LENGTH('a)"
  shows "id_remapper limit (\<lambda>_. True) (\<lambda>xs::'a::len word list. unat ` set xs)
    (\<lambda>xs i. of_nat i \<in> set xs) (\<lambda>xs u. foldl (\<lambda>u x. markField limit x u) u xs)
    (\<lambda>i. map (clearField i)) (\<lambda>m. map (remapField m))"
proof (rule used_cong [OF array_user [OF assms]])
  fix xs :: "'a word list" and i
  assume "i < limit"
  then have "i < 2 ^ LENGTH('a)" using assms by simp
  then have "unat x = i \<longleftrightarrow> x = of_nat i" for x :: "'a word" by (auto simp: unat_of_nat)
  then show "of_nat i \<in> set xs \<longleftrightarrow> (\<exists>x\<in>set xs. unat x = i)" by auto
qed

section \<open>SPRP, FORC, WAV and SWNM\<close>

record SprpSection =
  scenarioNameStringId :: u16
  scenarioDescriptionStringId :: u16

definition SprpSection_GetDefault :: "u16 \<Rightarrow> u16 \<Rightarrow> SprpSection" where
  "SprpSection_GetDefault nameId descriptionId =
    \<lparr>scenarioNameStringId = nameId, scenarioDescriptionStringId = descriptionId\<rparr>"

definition SprpSection_getScenarioNameStringId :: "SprpSection \<Rightarrow> nat" where
  "SprpSection_getScenarioNameStringId sec = unat (scenarioNameStringId sec)"

definition SprpSection_getScenarioDescriptionStringId :: "SprpSection \<Rightarrow> nat" where
  "SprpSection_getScenarioDescriptionStringId sec = unat (scenarioDescriptionStringId sec)"

definition SprpSection_setScenarioNameStringId :: "u16 \<Rightarrow> SprpSection \<Rightarrow> SprpSection" where
  "SprpSection_setScenarioNameStringId stringId sec = sec\<lparr>scenarioNameStringId := stringId\<rparr>"

definition SprpSection_setScenarioDescriptionStringId :: "u16 \<Rightarrow> SprpSection \<Rightarrow> SprpSection" where
  "SprpSection_setScenarioDescriptionStringId stringId sec = sec\<lparr>scenarioDescriptionStringId := stringId\<rparr>"

definition SprpSection_stringUsed :: "u32 \<Rightarrow> SprpSection \<Rightarrow> nat \<Rightarrow> bool" where
  "SprpSection_stringUsed userMask sec stringId \<longleftrightarrow>
    hasFlag userMask ScenarioName \<and> scenarioNameStringId sec = of_nat stringId \<or>
    hasFlag userMask ScenarioDescription \<and> scenarioDescriptionStringId sec = of_nat stringId"

definition SprpSection_appendUsage :: "SprpSection \<Rightarrow> nat \<Rightarrow> StringUser list \<Rightarrow> u32 \<Rightarrow> StringUser list" where
  "SprpSection_appendUsage sec stringId stringUsers userMask = stringUsers @
    (if hasFlag userMask ScenarioName \<and> scenarioNameStringId sec = of_nat stringId
     then [\<lparr>su_userFlags = ScenarioName, su_index = 0, su_subIndex = 0\<rparr>] else []) @
    (if hasFlag userMask ScenarioDescription \<and> scenarioDescriptionStringId sec = of_nat stringId
     then [\<lparr>su_userFlags = ScenarioDescription, su_index = 0, su_subIndex = 0\<rparr>] else [])"

definition SprpSection_deleteString :: "nat \<Rightarrow> SprpSection \<Rightarrow> SprpSection" where
  "SprpSection_deleteString stringId sec =
    sec\<lparr>scenarioNameStringId := clearField stringId (scenarioNameStringId sec),
       scenarioDescriptionStringId := clearField stringId (scenarioDescriptionStringId sec)\<rparr>"

definition SprpSection_remapStringIds :: "(nat \<rightharpoonup> nat) \<Rightarrow> SprpSection \<Rightarrow> SprpSection" where
  "SprpSection_remapStringIds m sec =
    sec\<lparr>scenarioNameStringId := remapField m (scenarioNameStringId sec),
       scenarioDescriptionStringId := remapField m (scenarioDescriptionStringId sec)\<rparr>"

text \<open>A 16-bit id is always below \<open>MaxStrings\<close>, so the code's unchecked marking cannot leave the bitset.\<close>

definition SprpSection_markUsedStrings :: "u32 \<Rightarrow> SprpSection \<Rightarrow> (nat \<Rightarrow> bool) \<Rightarrow> nat \<Rightarrow> bool" where
  "SprpSection_markUsedStrings userMask sec stringIdUsed =
    (let u = (if hasFlag userMask ScenarioName
           then markField MaxStrings (scenarioNameStringId sec) stringIdUsed else stringIdUsed)
     in if hasFlag userMask ScenarioDescription
        then markField MaxStrings (scenarioDescriptionStringId sec) u else u)"

record ForcSection =
  forc_playerForce :: "u8 list"
  forc_forceString :: "u16 list"
  forc_flags :: "u8 list"

definition wf_ForcSection :: "ForcSection \<Rightarrow> bool" where
  "wf_ForcSection sec \<longleftrightarrow> length (forc_playerForce sec) = TotalSlots \<and>
    length (forc_forceString sec) = TotalForces \<and> length (forc_flags sec) = TotalForces"

definition ForceFlags_All :: u8 where "ForceFlags_All = 15"

definition ForcSection_GetDefault :: ForcSection where
  "ForcSection_GetDefault = \<lparr>forc_playerForce = replicate 8 0, forc_forceString = [4, 5, 6, 7],
    forc_flags = replicate 4 ForceFlags_All\<rparr>"

definition ForcSection_getPlayerForce :: "ForcSection \<Rightarrow> nat \<Rightarrow> u8 result" where
  "ForcSection_getPlayerForce sec slotIndex =
    (if slotIndex < TotalSlots then at_unchecked (forc_playerForce sec) slotIndex else Inl OutOfRange)"

definition ForcSection_getForceStringId :: "ForcSection \<Rightarrow> u8 \<Rightarrow> nat result" where
  "ForcSection_getForceStringId sec force =
    (if unat force < TotalForces
     then bind_result (at_unchecked (forc_forceString sec) (unat force)) (\<lambda>x. Inr (unat x)) else Inl OutOfRange)"

definition ForcSection_getForceFlags :: "ForcSection \<Rightarrow> u8 \<Rightarrow> u8 result" where
  "ForcSection_getForceFlags sec force =
    (if unat force < TotalForces then at_unchecked (forc_flags sec) (unat force) else Inl OutOfRange)"

definition ForcSection_setPlayerForce :: "nat \<Rightarrow> u8 \<Rightarrow> ForcSection \<Rightarrow> ForcSection result" where
  "ForcSection_setPlayerForce slotIndex force sec =
    (if slotIndex < TotalSlots
     then Inr (sec\<lparr>forc_playerForce := (forc_playerForce sec)[slotIndex := force]\<rparr>) else Inl OutOfRange)"

definition ForcSection_setForceStringId :: "u8 \<Rightarrow> u16 \<Rightarrow> ForcSection \<Rightarrow> ForcSection" where
  "ForcSection_setForceStringId force stringId sec =
    (if unat force < TotalForces
     then sec\<lparr>forc_forceString := (forc_forceString sec)[unat force := stringId]\<rparr> else sec)"

definition ForcSection_setForceFlags :: "u8 \<Rightarrow> u8 \<Rightarrow> ForcSection \<Rightarrow> ForcSection" where
  "ForcSection_setForceFlags force forceFlags sec =
    (if unat force < TotalForces
     then sec\<lparr>forc_flags := (forc_flags sec)[unat force := forceFlags]\<rparr> else sec)"

definition ForcSection_appendUsage :: "ForcSection \<Rightarrow> nat \<Rightarrow> StringUser list \<Rightarrow> StringUser list" where
  "ForcSection_appendUsage sec stringId stringUsers =
    stringUsers @ indexUsers UserForce (\<lambda>x. unat x = stringId) (forc_forceString sec)"

definition ForcSection_stringUsed :: "ForcSection \<Rightarrow> nat \<Rightarrow> bool" where
  "ForcSection_stringUsed sec stringId \<longleftrightarrow> of_nat stringId \<in> set (forc_forceString sec)"

definition ForcSection_markUsedStrings :: "ForcSection \<Rightarrow> (nat \<Rightarrow> bool) \<Rightarrow> nat \<Rightarrow> bool" where
  "ForcSection_markUsedStrings sec stringIdUsed =
    foldl (\<lambda>u x. markField MaxStrings x u) stringIdUsed (forc_forceString sec)"

definition ForcSection_remapStringIds :: "(nat \<rightharpoonup> nat) \<Rightarrow> ForcSection \<Rightarrow> ForcSection" where
  "ForcSection_remapStringIds m sec = sec\<lparr>forc_forceString := map (remapField m) (forc_forceString sec)\<rparr>"

definition ForcSection_deleteString :: "nat \<Rightarrow> ForcSection \<Rightarrow> ForcSection" where
  "ForcSection_deleteString stringId sec =
    sec\<lparr>forc_forceString := map (clearField stringId) (forc_forceString sec)\<rparr>"

record WavSection =
  soundPathStringId :: "u32 list"

definition WavSection_GetDefault :: WavSection where
  "WavSection_GetDefault = \<lparr>soundPathStringId = replicate TotalSounds 0\<rparr>"

definition WavSection_addSound :: "nat \<Rightarrow> WavSection \<Rightarrow> nat \<times> WavSection" where
  "WavSection_addSound stringId sec =
    (case find_index (\<lambda>i. soundPathStringId sec ! i = 0) 0 TotalSounds of
       Some i \<Rightarrow> (i, sec\<lparr>soundPathStringId := (soundPathStringId sec)[i := of_nat stringId]\<rparr>)
     | None \<Rightarrow> (TotalSounds, sec))"

definition WavSection_stringIsSound :: "WavSection \<Rightarrow> nat \<Rightarrow> bool" where
  "WavSection_stringIsSound sec stringId \<longleftrightarrow> of_nat stringId \<in> set (soundPathStringId sec)"

definition WavSection_getSoundStringId :: "WavSection \<Rightarrow> nat \<Rightarrow> nat result" where
  "WavSection_getSoundStringId sec soundIndex =
    (if soundIndex < TotalSounds
     then bind_result (at_unchecked (soundPathStringId sec) soundIndex) (\<lambda>x. Inr (unat x)) else Inl OutOfRange)"

definition WavSection_setSoundStringId :: "nat \<Rightarrow> nat \<Rightarrow> WavSection \<Rightarrow> WavSection" where
  "WavSection_setSoundStringId soundIndex soundStringId sec =
    (if soundIndex < TotalSounds
     then sec\<lparr>soundPathStringId := (soundPathStringId sec)[soundIndex := of_nat soundStringId]\<rparr> else sec)"

definition WavSection_appendUsage :: "WavSection \<Rightarrow> nat \<Rightarrow> StringUser list \<Rightarrow> StringUser list" where
  "WavSection_appendUsage sec stringId stringUsers =
    stringUsers @ indexUsers UserSound (\<lambda>x. unat x = stringId) (soundPathStringId sec)"

definition WavSection_stringUsed :: "WavSection \<Rightarrow> nat \<Rightarrow> bool" where
  "WavSection_stringUsed = WavSection_stringIsSound"

definition WavSection_markUsedStrings :: "WavSection \<Rightarrow> (nat \<Rightarrow> bool) \<Rightarrow> nat \<Rightarrow> bool" where
  "WavSection_markUsedStrings sec stringIdUsed =
    foldl (\<lambda>u x. markField MaxStrings x u) stringIdUsed (soundPathStringId sec)"

definition WavSection_remapStringIds :: "(nat \<rightharpoonup> nat) \<Rightarrow> WavSection \<Rightarrow> WavSection" where
  "WavSection_remapStringIds m sec = sec\<lparr>soundPathStringId := map (remapField m) (soundPathStringId sec)\<rparr>"

definition WavSection_deleteString :: "nat \<Rightarrow> WavSection \<Rightarrow> WavSection" where
  "WavSection_deleteString stringId sec =
    sec\<lparr>soundPathStringId := map (clearField stringId) (soundPathStringId sec)\<rparr>"

record SwnmSection =
  switchName :: "u32 list"

definition SwnmSection_GetDefault :: SwnmSection where
  "SwnmSection_GetDefault = \<lparr>switchName = replicate TotalSwitches 0\<rparr>"

definition SwnmSection_getSwitchNameStringId :: "SwnmSection \<Rightarrow> nat \<Rightarrow> nat result" where
  "SwnmSection_getSwitchNameStringId sec switchIndex =
    (if switchIndex < TotalSwitches
     then bind_result (at_unchecked (switchName sec) switchIndex) (\<lambda>x. Inr (unat x)) else Inl OutOfRange)"

definition SwnmSection_setSwitchNameStringId :: "nat \<Rightarrow> nat \<Rightarrow> SwnmSection \<Rightarrow> SwnmSection" where
  "SwnmSection_setSwitchNameStringId switchIndex stringId sec =
    (if switchIndex < TotalSwitches
     then sec\<lparr>switchName := (switchName sec)[switchIndex := of_nat stringId]\<rparr> else sec)"

definition SwnmSection_appendUsage :: "SwnmSection \<Rightarrow> nat \<Rightarrow> StringUser list \<Rightarrow> StringUser list" where
  "SwnmSection_appendUsage sec stringId stringUsers =
    stringUsers @ indexUsers UserSwitch (\<lambda>x. unat x = stringId) (switchName sec)"

definition SwnmSection_stringUsed :: "SwnmSection \<Rightarrow> nat \<Rightarrow> bool" where
  "SwnmSection_stringUsed sec stringId \<longleftrightarrow> of_nat stringId \<in> set (switchName sec)"

definition SwnmSection_markUsedStrings :: "SwnmSection \<Rightarrow> (nat \<Rightarrow> bool) \<Rightarrow> nat \<Rightarrow> bool" where
  "SwnmSection_markUsedStrings sec stringIdUsed =
    foldl (\<lambda>u x. markField MaxStrings x u) stringIdUsed (switchName sec)"

definition SwnmSection_remapStringIds :: "(nat \<rightharpoonup> nat) \<Rightarrow> SwnmSection \<Rightarrow> SwnmSection" where
  "SwnmSection_remapStringIds m sec = sec\<lparr>switchName := map (remapField m) (switchName sec)\<rparr>"

definition SwnmSection_deleteString :: "nat \<Rightarrow> SwnmSection \<Rightarrow> SwnmSection" where
  "SwnmSection_deleteString stringId sec = sec\<lparr>switchName := map (clearField stringId) (switchName sec)\<rparr>"

section \<open>Unit names in UNIS and UNIx\<close>

definition UnisSection_appendUsage :: "UnisSection \<Rightarrow> nat \<Rightarrow> StringUser list \<Rightarrow> StringUser list" where
  "UnisSection_appendUsage sec stringId stringUsers =
    stringUsers @ indexUsers OriginalUnitSettings (\<lambda>x. x = of_nat stringId) (unis_nameStringId sec)"

definition UnisSection_stringUsed :: "UnisSection \<Rightarrow> nat \<Rightarrow> bool" where
  "UnisSection_stringUsed sec stringId \<longleftrightarrow> of_nat stringId \<in> set (unis_nameStringId sec)"

definition UnisSection_markUsedStrings :: "UnisSection \<Rightarrow> (nat \<Rightarrow> bool) \<Rightarrow> nat \<Rightarrow> bool" where
  "UnisSection_markUsedStrings sec stringIdUsed =
    foldl (\<lambda>u x. markField MaxStrings x u) stringIdUsed (unis_nameStringId sec)"

definition UnisSection_remapStringIds :: "(nat \<rightharpoonup> nat) \<Rightarrow> UnisSection \<Rightarrow> UnisSection" where
  "UnisSection_remapStringIds m sec = sec\<lparr>unis_nameStringId := map (remapField m) (unis_nameStringId sec)\<rparr>"

definition UnisSection_deleteString :: "nat \<Rightarrow> UnisSection \<Rightarrow> UnisSection" where
  "UnisSection_deleteString stringId sec =
    sec\<lparr>unis_nameStringId := map (clearField stringId) (unis_nameStringId sec)\<rparr>"

definition UnixSection_appendUsage :: "UnixSection \<Rightarrow> nat \<Rightarrow> StringUser list \<Rightarrow> StringUser list" where
  "UnixSection_appendUsage sec stringId stringUsers =
    stringUsers @ indexUsers ExpansionUnitSettings (\<lambda>x. x = of_nat stringId) (unix_nameStringId sec)"

definition UnixSection_stringUsed :: "UnixSection \<Rightarrow> nat \<Rightarrow> bool" where
  "UnixSection_stringUsed sec stringId \<longleftrightarrow> of_nat stringId \<in> set (unix_nameStringId sec)"

definition UnixSection_markUsedStrings :: "UnixSection \<Rightarrow> (nat \<Rightarrow> bool) \<Rightarrow> nat \<Rightarrow> bool" where
  "UnixSection_markUsedStrings sec stringIdUsed =
    foldl (\<lambda>u x. markField MaxStrings x u) stringIdUsed (unix_nameStringId sec)"

definition UnixSection_remapStringIds :: "(nat \<rightharpoonup> nat) \<Rightarrow> UnixSection \<Rightarrow> UnixSection" where
  "UnixSection_remapStringIds m sec = sec\<lparr>unix_nameStringId := map (remapField m) (unix_nameStringId sec)\<rparr>"

definition UnixSection_deleteString :: "nat \<Rightarrow> UnixSection \<Rightarrow> UnixSection" where
  "UnixSection_deleteString stringId sec =
    sec\<lparr>unix_nameStringId := map (clearField stringId) (unix_nameStringId sec)\<rparr>"

section \<open>The ids these sections refer to\<close>

definition SprpSection_strings :: "u32 \<Rightarrow> SprpSection \<Rightarrow> nat set" where
  "SprpSection_strings userMask sec =
    (if hasFlag userMask ScenarioName then {unat (scenarioNameStringId sec)} else {}) \<union>
    (if hasFlag userMask ScenarioDescription then {unat (scenarioDescriptionStringId sec)} else {})"

definition ForcSection_strings :: "ForcSection \<Rightarrow> nat set" where
  "ForcSection_strings sec = unat ` set (forc_forceString sec)"

definition WavSection_strings :: "WavSection \<Rightarrow> nat set" where
  "WavSection_strings sec = unat ` set (soundPathStringId sec)"

definition SwnmSection_strings :: "SwnmSection \<Rightarrow> nat set" where
  "SwnmSection_strings sec = unat ` set (switchName sec)"

definition UnisSection_strings :: "UnisSection \<Rightarrow> nat set" where
  "UnisSection_strings sec = unat ` set (unis_nameStringId sec)"

definition UnixSection_strings :: "UnixSection \<Rightarrow> nat set" where
  "UnixSection_strings sec = unat ` set (unix_nameStringId sec)"

lemma MaxStrings_fits: "MaxStrings \<le> 2 ^ LENGTH(16)" "MaxStrings \<le> 2 ^ LENGTH(32)"
  by (simp_all add: MaxStrings_def)

lemma u16_field_user:
  "id_remapper MaxStrings (\<lambda>_. True) (\<lambda>x::u16. {unat x}) (\<lambda>x i. x = of_nat i) (markField MaxStrings) clearField remapField"
proof (rule used_cong [OF field_user [OF MaxStrings_fits(1)]])
  fix x :: u16 and i
  assume "i < MaxStrings"
  then show "x = of_nat i \<longleftrightarrow> unat x = i" by (auto simp: MaxStrings_def unat_of_nat)
qed

interpretation sprp_str: id_remapper MaxStrings "\<lambda>_. True" "SprpSection_strings userMask"
    "SprpSection_stringUsed userMask" "SprpSection_markUsedStrings userMask" SprpSection_deleteString
    SprpSection_remapStringIds
  for userMask
  using lift_view [OF lift_pair [OF lift_masked [OF u16_field_user, of "hasFlag userMask ScenarioName"]
        lift_masked [OF u16_field_user, of "hasFlag userMask ScenarioDescription"]],
      of "\<lambda>s. (scenarioNameStringId s, scenarioDescriptionStringId s)" SprpSection_deleteString SprpSection_remapStringIds]
  by (simp add: SprpSection_strings_def [abs_def] SprpSection_stringUsed_def [abs_def]
      SprpSection_markUsedStrings_def [abs_def] SprpSection_deleteString_def SprpSection_remapStringIds_def Let_def)

interpretation forc_str: id_remapper MaxStrings "\<lambda>_. True" ForcSection_strings ForcSection_stringUsed
    ForcSection_markUsedStrings ForcSection_deleteString ForcSection_remapStringIds
  using lift_view [OF array_user_cast [OF MaxStrings_fits(1)], of forc_forceString ForcSection_deleteString ForcSection_remapStringIds]
  by (simp add: ForcSection_strings_def [abs_def] ForcSection_stringUsed_def [abs_def]
      ForcSection_markUsedStrings_def [abs_def] ForcSection_deleteString_def ForcSection_remapStringIds_def)

interpretation wav_str: id_remapper MaxStrings "\<lambda>_. True" WavSection_strings WavSection_stringUsed
    WavSection_markUsedStrings WavSection_deleteString WavSection_remapStringIds
  using lift_view [OF array_user_cast [OF MaxStrings_fits(2)], of soundPathStringId WavSection_deleteString WavSection_remapStringIds]
  by (simp add: WavSection_strings_def [abs_def] WavSection_stringUsed_def WavSection_stringIsSound_def [abs_def]
      WavSection_markUsedStrings_def [abs_def] WavSection_deleteString_def WavSection_remapStringIds_def)

interpretation swnm_str: id_remapper MaxStrings "\<lambda>_. True" SwnmSection_strings SwnmSection_stringUsed
    SwnmSection_markUsedStrings SwnmSection_deleteString SwnmSection_remapStringIds
  using lift_view [OF array_user_cast [OF MaxStrings_fits(2)], of switchName SwnmSection_deleteString SwnmSection_remapStringIds]
  by (simp add: SwnmSection_strings_def [abs_def] SwnmSection_stringUsed_def [abs_def]
      SwnmSection_markUsedStrings_def [abs_def] SwnmSection_deleteString_def SwnmSection_remapStringIds_def)

interpretation unis_str: id_remapper MaxStrings "\<lambda>_. True" UnisSection_strings UnisSection_stringUsed
    UnisSection_markUsedStrings UnisSection_deleteString UnisSection_remapStringIds
  using lift_view [OF array_user_cast [OF MaxStrings_fits(1)], of unis_nameStringId UnisSection_deleteString UnisSection_remapStringIds]
  by (simp add: UnisSection_strings_def [abs_def] UnisSection_stringUsed_def [abs_def]
      UnisSection_markUsedStrings_def [abs_def] UnisSection_deleteString_def UnisSection_remapStringIds_def)

interpretation unix_str: id_remapper MaxStrings "\<lambda>_. True" UnixSection_strings UnixSection_stringUsed
    UnixSection_markUsedStrings UnixSection_deleteString UnixSection_remapStringIds
  using lift_view [OF array_user_cast [OF MaxStrings_fits(1)], of unix_nameStringId UnixSection_deleteString UnixSection_remapStringIds]
  by (simp add: UnixSection_strings_def [abs_def] UnixSection_stringUsed_def [abs_def]
      UnixSection_markUsedStrings_def [abs_def] UnixSection_deleteString_def UnixSection_remapStringIds_def)

section \<open>OSTR\<close>

record OstrSection =
  ostr_version :: u32
  ostr_scenarioName :: u32
  ostr_scenarioDescription :: u32
  ostr_forceName :: "u32 list"
  ostr_unitName :: "u32 list"
  ostr_expUnitName :: "u32 list"
  ostr_soundPath :: "u32 list"
  ostr_switchName :: "u32 list"
  ostr_locationName :: "u32 list"

definition wf_OstrSection :: "OstrSection \<Rightarrow> bool" where
  "wf_OstrSection sec \<longleftrightarrow> length (ostr_forceName sec) = TotalForces \<and>
    length (ostr_unitName sec) = TotalUnitTypes \<and> length (ostr_expUnitName sec) = TotalUnitTypes \<and>
    length (ostr_soundPath sec) = TotalSounds \<and> length (ostr_switchName sec) = TotalSwitches \<and>
    length (ostr_locationName sec) = TotalLocations"

definition OstrSection_GetDefault :: OstrSection where
  "OstrSection_GetDefault = \<lparr>ostr_version = 1, ostr_scenarioName = 0, ostr_scenarioDescription = 0,
    ostr_forceName = replicate TotalForces 0, ostr_unitName = replicate TotalUnitTypes 0,
    ostr_expUnitName = replicate TotalUnitTypes 0, ostr_soundPath = replicate TotalSounds 0,
    ostr_switchName = replicate TotalSwitches 0, ostr_locationName = replicate TotalLocations 0\<rparr>"

text \<open>A checked access to one of the arrays: an index past its bound throws.\<close>

definition ostrGet :: "nat \<Rightarrow> u32 list \<Rightarrow> nat \<Rightarrow> u32 result" where
  "ostrGet n xs i = (if i < n then at_unchecked xs i else Inl OutOfRange)"

definition ostrSet :: "nat \<Rightarrow> nat \<Rightarrow> OstrSection \<Rightarrow> OstrSection result" where
  "ostrSet n i sec = (if i < n then Inr sec else Inl OutOfRange)"

definition OstrSection_getVersion :: "OstrSection \<Rightarrow> u32" where
  "OstrSection_getVersion sec = ostr_version sec"

definition OstrSection_getScenarioNameStringId :: "OstrSection \<Rightarrow> u32" where
  "OstrSection_getScenarioNameStringId sec = ostr_scenarioName sec"

definition OstrSection_getScenarioDescriptionStringId :: "OstrSection \<Rightarrow> u32" where
  "OstrSection_getScenarioDescriptionStringId sec = ostr_scenarioDescription sec"

definition OstrSection_getForceNameStringId :: "OstrSection \<Rightarrow> u8 \<Rightarrow> u32 result" where
  "OstrSection_getForceNameStringId sec force = ostrGet TotalForces (ostr_forceName sec) (unat force)"

definition OstrSection_getUnitNameStringId :: "OstrSection \<Rightarrow> u16 \<Rightarrow> u32 result" where
  "OstrSection_getUnitNameStringId sec unitType = ostrGet TotalUnitTypes (ostr_unitName sec) (unat unitType)"

definition OstrSection_getExpUnitNameStringId :: "OstrSection \<Rightarrow> u16 \<Rightarrow> u32 result" where
  "OstrSection_getExpUnitNameStringId sec unitType = ostrGet TotalUnitTypes (ostr_expUnitName sec) (unat unitType)"

definition OstrSection_getSoundPathStringId :: "OstrSection \<Rightarrow> nat \<Rightarrow> u32 result" where
  "OstrSection_getSoundPathStringId sec soundIndex = ostrGet TotalSounds (ostr_soundPath sec) soundIndex"

definition OstrSection_getSwitchNameStringId :: "OstrSection \<Rightarrow> nat \<Rightarrow> u32 result" where
  "OstrSection_getSwitchNameStringId sec switchIndex = ostrGet TotalSwitches (ostr_switchName sec) switchIndex"

definition OstrSection_getLocationNameStringId :: "OstrSection \<Rightarrow> nat \<Rightarrow> u32 result" where
  "OstrSection_getLocationNameStringId sec locationId =
    (if locationId > 0 \<and> locationId \<le> TotalLocations
     then at_unchecked (ostr_locationName sec) (locationId - 1) else Inl OutOfRange)"

definition OstrSection_setScenarioNameStringId :: "u32 \<Rightarrow> OstrSection \<Rightarrow> OstrSection" where
  "OstrSection_setScenarioNameStringId stringId sec = sec\<lparr>ostr_scenarioName := stringId\<rparr>"

definition OstrSection_setScenarioDescriptionStringId :: "u32 \<Rightarrow> OstrSection \<Rightarrow> OstrSection" where
  "OstrSection_setScenarioDescriptionStringId stringId sec = sec\<lparr>ostr_scenarioDescription := stringId\<rparr>"

definition OstrSection_setForceNameStringId :: "u8 \<Rightarrow> u32 \<Rightarrow> OstrSection \<Rightarrow> OstrSection result" where
  "OstrSection_setForceNameStringId force stringId sec =
    ostrSet TotalForces (unat force) (sec\<lparr>ostr_forceName := (ostr_forceName sec)[unat force := stringId]\<rparr>)"

definition OstrSection_setUnitNameStringId :: "u16 \<Rightarrow> u32 \<Rightarrow> OstrSection \<Rightarrow> OstrSection result" where
  "OstrSection_setUnitNameStringId unitType stringId sec =
    ostrSet TotalUnitTypes (unat unitType) (sec\<lparr>ostr_unitName := (ostr_unitName sec)[unat unitType := stringId]\<rparr>)"

definition OstrSection_setExpUnitNameStringId :: "u16 \<Rightarrow> u32 \<Rightarrow> OstrSection \<Rightarrow> OstrSection result" where
  "OstrSection_setExpUnitNameStringId unitType stringId sec =
    ostrSet TotalUnitTypes (unat unitType) (sec\<lparr>ostr_expUnitName := (ostr_expUnitName sec)[unat unitType := stringId]\<rparr>)"

definition OstrSection_setSoundPathStringId :: "nat \<Rightarrow> u32 \<Rightarrow> OstrSection \<Rightarrow> OstrSection result" where
  "OstrSection_setSoundPathStringId soundIndex stringId sec =
    ostrSet TotalSounds soundIndex (sec\<lparr>ostr_soundPath := (ostr_soundPath sec)[soundIndex := stringId]\<rparr>)"

definition OstrSection_setSwitchNameStringId :: "nat \<Rightarrow> u32 \<Rightarrow> OstrSection \<Rightarrow> OstrSection result" where
  "OstrSection_setSwitchNameStringId switchIndex stringId sec =
    ostrSet TotalSwitches switchIndex (sec\<lparr>ostr_switchName := (ostr_switchName sec)[switchIndex := stringId]\<rparr>)"

definition OstrSection_setLocationNameStringId :: "nat \<Rightarrow> u32 \<Rightarrow> OstrSection \<Rightarrow> OstrSection result" where
  "OstrSection_setLocationNameStringId locationId stringId sec =
    (if locationId > 0 \<and> locationId \<le> TotalLocations
     then Inr (sec\<lparr>ostr_locationName := (ostr_locationName sec)[locationId - 1 := stringId]\<rparr>) else Inl OutOfRange)"

text \<open>Neither of these looks at its user mask.\<close>

definition OstrSection_appendUsage :: "OstrSection \<Rightarrow> nat \<Rightarrow> StringUser list \<Rightarrow> u32 \<Rightarrow> StringUser list" where
  "OstrSection_appendUsage sec stringId stringUsers userMask =
    (let uses = (\<lambda>x. unat x = stringId) in stringUsers @
     (if uses (ostr_scenarioName sec) then [\<lparr>su_userFlags = ScenarioName, su_index = 0, su_subIndex = 0\<rparr>] else []) @
     (if uses (ostr_scenarioDescription sec)
      then [\<lparr>su_userFlags = ScenarioDescription, su_index = 0, su_subIndex = 0\<rparr>] else []) @
     indexUsers UserForce uses (ostr_forceName sec) @
     indexUsers OriginalUnitSettings uses (ostr_unitName sec) @
     indexUsers ExpansionUnitSettings uses (ostr_expUnitName sec) @
     indexUsers UserSound uses (ostr_soundPath sec) @
     indexUsers UserSwitch uses (ostr_switchName sec) @
     indexUsers UserLocation uses (ostr_locationName sec))"

definition OstrSection_stringUsed :: "u32 \<Rightarrow> OstrSection \<Rightarrow> nat \<Rightarrow> bool" where
  "OstrSection_stringUsed userMask sec stringId \<longleftrightarrow>
    (let uses = (\<lambda>x. unat x = stringId) in
     uses (ostr_scenarioName sec) \<or> uses (ostr_scenarioDescription sec) \<or>
     list_ex uses (ostr_forceName sec) \<or> list_ex uses (ostr_unitName sec) \<or>
     list_ex uses (ostr_expUnitName sec) \<or> list_ex uses (ostr_soundPath sec) \<or>
     list_ex uses (ostr_switchName sec) \<or> list_ex uses (ostr_locationName sec))"

text \<open>\<open>if ( x != 0 ) stringIdUsed[x] = true;\<close> on a bitset of \<open>MaxStrings\<close> entries.\<close>

definition markUnchecked :: "u32 \<Rightarrow> (nat \<Rightarrow> bool) \<Rightarrow> (nat \<Rightarrow> bool) result" where
  "markUnchecked x u =
    (if x = 0 then Inr u else if unat x < MaxStrings then Inr (u(unat x := True)) else Inl UndefinedBehavior)"

primrec markAllUnchecked :: "u32 list \<Rightarrow> (nat \<Rightarrow> bool) \<Rightarrow> (nat \<Rightarrow> bool) result" where
  "markAllUnchecked [] u = Inr u"
| "markAllUnchecked (x # xs) u = bind_result (markUnchecked x u) (markAllUnchecked xs)"

definition OstrSection_markUsedStrings :: "u32 \<Rightarrow> OstrSection \<Rightarrow> (nat \<Rightarrow> bool) \<Rightarrow> (nat \<Rightarrow> bool) result" where
  "OstrSection_markUsedStrings userMask sec stringIdUsed =
    (let masked = (\<lambda>flag xs. if hasFlag userMask flag then markAllUnchecked xs else Inr) in
     bind_result (masked ScenarioName [ostr_scenarioName sec] stringIdUsed) (\<lambda>u.
     bind_result (masked ScenarioDescription [ostr_scenarioDescription sec] u) (\<lambda>u.
     bind_result (masked UserForce (ostr_forceName sec) u) (\<lambda>u.
     bind_result (masked OriginalUnitSettings (ostr_unitName sec) u) (\<lambda>u.
     bind_result (masked ExpansionUnitSettings (ostr_expUnitName sec) u) (\<lambda>u.
     bind_result (masked UserSound (ostr_soundPath sec) u) (\<lambda>u.
     bind_result (masked UserSwitch (ostr_switchName sec) u) (\<lambda>u.
     masked UserLocation (ostr_locationName sec) u))))))))"

definition OstrSection_remapStringIds :: "(nat \<rightharpoonup> nat) \<Rightarrow> OstrSection \<Rightarrow> OstrSection" where
  "OstrSection_remapStringIds m sec =
    sec\<lparr>ostr_scenarioName := remapField m (ostr_scenarioName sec),
       ostr_scenarioDescription := remapField m (ostr_scenarioDescription sec),
       ostr_forceName := map (remapField m) (ostr_forceName sec),
       ostr_unitName := map (remapField m) (ostr_unitName sec),
       ostr_expUnitName := map (remapField m) (ostr_expUnitName sec),
       ostr_soundPath := map (remapField m) (ostr_soundPath sec),
       ostr_switchName := map (remapField m) (ostr_switchName sec),
       ostr_locationName := map (remapField m) (ostr_locationName sec)\<rparr>"

definition OstrSection_deleteString :: "nat \<Rightarrow> OstrSection \<Rightarrow> OstrSection" where
  "OstrSection_deleteString stringId sec =
    sec\<lparr>ostr_scenarioName := clearField stringId (ostr_scenarioName sec),
       ostr_scenarioDescription := clearField stringId (ostr_scenarioDescription sec),
       ostr_forceName := map (clearField stringId) (ostr_forceName sec),
       ostr_unitName := map (clearField stringId) (ostr_unitName sec),
       ostr_expUnitName := map (clearField stringId) (ostr_expUnitName sec),
       ostr_soundPath := map (clearField stringId) (ostr_soundPath sec),
       ostr_switchName := map (clearField stringId) (ostr_switchName sec),
       ostr_locationName := map (clearField stringId) (ostr_locationName sec)\<rparr>"

text \<open>All ids of the section, in the order the code visits them.\<close>

definition OstrSection_ids :: "OstrSection \<Rightarrow> u32 list" where
  "OstrSection_ids sec = [ostr_scenarioName sec, ostr_scenarioDescription sec] @ ostr_forceName sec @
    ostr_unitName sec @ ostr_expUnitName sec @ ostr_soundPath sec @ ostr_switchName sec @ ostr_locationName sec"

definition OstrSection_inRange :: "OstrSection \<Rightarrow> bool" where
  "OstrSection_inRange sec \<longleftrightarrow> (\<forall>x\<in>set (OstrSection_ids sec). unat x < MaxStrings)"

definition OstrSection_strings :: "OstrSection \<Rightarrow> nat set" where
  "OstrSection_strings sec = unat ` set (OstrSection_ids sec)"

definition AllUsers :: u32 where "AllUsers = 0xFFFFFFFF"

lemma hasFlag_AllUsers [simp]: "hasFlag AllUsers flag"
proof -
  have all: "AllUsers = - 1" by (simp add: AllUsers_def)
  show ?thesis unfolding hasFlag_def all by (rule and.left_neutral)
qed

lemma markAllUnchecked_append:
  "markAllUnchecked (xs @ ys) = (\<lambda>u. bind_result (markAllUnchecked xs u) (markAllUnchecked ys))"
proof (induction xs)
  case (Cons x xs)
  show ?case by (rule ext) (simp add: Cons.IH bind_result_assoc)
qed simp

lemma markAllUnchecked_Nil: "markAllUnchecked [] = Inr"
  by (simp add: fun_eq_iff)

lemma markAllUnchecked_Cons:
  "markAllUnchecked (x # xs) = (\<lambda>u. bind_result (markUnchecked x u) (markAllUnchecked xs))"
  by (simp add: fun_eq_iff)

lemma markAllUnchecked_in_range:
  "\<forall>x\<in>set xs. unat x < MaxStrings \<Longrightarrow> markAllUnchecked xs u = Inr (foldl (\<lambda>u x. markField MaxStrings x u) u xs)"
  by (induction xs arbitrary: u) (auto simp: markUnchecked_def markField_def unat_gt_0)

lemma markAllUnchecked_out_of_range:
  "\<exists>x\<in>set xs. MaxStrings \<le> unat x \<Longrightarrow> markAllUnchecked xs u = Inl UndefinedBehavior"
proof (induction xs arbitrary: u)
  case (Cons x xs)
  then show ?case by (cases "MaxStrings \<le> unat x") (auto simp: markUnchecked_def MaxStrings_def)
qed simp

lemma OstrSection_markUsedStrings_all:
  "OstrSection_markUsedStrings AllUsers sec u = markAllUnchecked (OstrSection_ids sec) u"
  by (simp add: OstrSection_markUsedStrings_def OstrSection_ids_def markAllUnchecked_append Let_def
      markAllUnchecked_Cons bind_result_assoc)

lemma OstrSection_ids_delete: "OstrSection_ids (OstrSection_deleteString i sec) = map (clearField i) (OstrSection_ids sec)"
  and OstrSection_ids_remap: "OstrSection_ids (OstrSection_remapStringIds m sec) = map (remapField m) (OstrSection_ids sec)"
  by (simp_all add: OstrSection_ids_def OstrSection_deleteString_def OstrSection_remapStringIds_def)

lemma OstrSection_stringUsed_ids: "OstrSection_stringUsed userMask sec i \<longleftrightarrow> (\<exists>x\<in>set (OstrSection_ids sec). unat x = i)"
  by (auto simp: OstrSection_stringUsed_def OstrSection_ids_def list_ex_iff Let_def)

text \<open>
  The users that mark without a check are users on the sections whose ids are in range, with the
  marking that does not fail there.
\<close>

definition marked :: "('s \<Rightarrow> (nat \<Rightarrow> bool) \<Rightarrow> (nat \<Rightarrow> bool) result) \<Rightarrow> 's \<Rightarrow> (nat \<Rightarrow> bool) \<Rightarrow> nat \<Rightarrow> bool" where
  "marked mark s u = succeed u (mark s u)"

lemma array_user_in_range:
  "id_remapper MaxStrings (\<lambda>xs::u32 list. \<forall>x\<in>set xs. unat x < MaxStrings) (\<lambda>xs. unat ` set xs)
    (\<lambda>xs i. \<exists>x\<in>set xs. unat x = i) (marked markAllUnchecked) (\<lambda>i. map (clearField i)) (\<lambda>m. map (remapField m))"
proof -
  note laws = array_user [OF MaxStrings_fits(2)]
  have *: "unat (remapField m x) < MaxStrings" if "unat x < MaxStrings" "ran m \<subseteq> {..<MaxStrings}" for x :: u32 and m
  proof -
    have "ran m \<subseteq> {..<2 ^ LENGTH(32)}" using that MaxStrings_fits(2) by auto
    then have "unat (remapField m x) = renumber m (unat x)" by (rule unat_remapField)
    then show ?thesis using that by (cases "m (unat x)") (auto simp: ran_def)
  qed
  show ?thesis
    using laws by (auto simp: user_defs marked_def markAllUnchecked_in_range unat_clearField *)
qed

interpretation ostr_str: id_remapper MaxStrings OstrSection_inRange OstrSection_strings
    "OstrSection_stringUsed userMask" "marked (OstrSection_markUsedStrings AllUsers)" OstrSection_deleteString
    OstrSection_remapStringIds
  for userMask
  using lift_view [OF array_user_in_range, of OstrSection_ids OstrSection_deleteString OstrSection_remapStringIds]
  by (simp add: OstrSection_inRange_def [abs_def] OstrSection_strings_def [abs_def] OstrSection_stringUsed_ids [abs_def]
      marked_def [abs_def] OstrSection_markUsedStrings_all OstrSection_ids_delete OstrSection_ids_remap)

end
