(* ===== verification/Ktrg.thy ===== *)
theory Ktrg
  imports StringUsers
begin

text \<open>
  The editor's extended trigger data, the KTRG section (\<open>class KtrgSection\<close> in
  \<open>src/MappingCoreLib/Sections.cpp\<close>): a table of entries at the indexes a trigger can hold in its
  unused owner bytes. An index is usable when it has a bit of \<open>0xFEFEFEFE\<close>; slots at other indexes
  and deleted entries are null.
\<close>

section \<open>The entries\<close>

record ExtendedTrigData =
  x_commentStringId :: u32
  x_notesStringId :: u32
  x_groupId :: u32
  x_trigNum :: u32
  x_maskId :: u32

definition TrigNum_None :: u32 where "TrigNum_None = 0xFFFFFFFF"

definition ExtendedTrigData_new :: ExtendedTrigData where
  "ExtendedTrigData_new = \<lparr>x_commentStringId = 0, x_notesStringId = 0, x_groupId = 0xFFFFFFFF,
    x_trigNum = TrigNum_None, x_maskId = 0xFFFFFFFF\<rparr>"

definition ExtendedTrigData_isBlank :: "ExtendedTrigData \<Rightarrow> bool" where
  "ExtendedTrigData_isBlank x \<longleftrightarrow> x_commentStringId x = 0 \<and> x_notesStringId x = 0 \<and>
    x_groupId x = 0xFFFFFFFF \<and> x_trigNum x = TrigNum_None \<and> x_maskId x = 0xFFFFFFFF"

definition enc_ExtendedTrigData :: "ExtendedTrigData \<Rightarrow> string" where
  "enc_ExtendedTrigData x = enc_u32 (x_commentStringId x) @ enc_u32 (x_notesStringId x) @
    enc_u32 (x_groupId x) @ enc_u32 (x_trigNum x) @ enc_u32 (x_maskId x)"

definition dec_ExtendedTrigData :: "string \<Rightarrow> ExtendedTrigData" where
  "dec_ExtendedTrigData bs = \<lparr>x_commentStringId = dec_u32 bs 0, x_notesStringId = dec_u32 bs 4,
    x_groupId = dec_u32 bs 8, x_trigNum = dec_u32 bs 12, x_maskId = dec_u32 bs 16\<rparr>"

interpretation extended_codec: struct_codec 20 enc_ExtendedTrigData dec_ExtendedTrigData "\<lambda>_. True"
  by unfold_locales (simp_all add: enc_ExtendedTrigData_def dec_ExtendedTrigData_def enc_defs)

section \<open>The table\<close>

record KtrgSection =
  extendedTrigData :: "ExtendedTrigData option list"

definition UnusedExtendedTrigDataIndexCheck :: u32 where
  "UnusedExtendedTrigDataIndexCheck = 0xFEFEFEFE"

definition usableIndex :: "nat \<Rightarrow> bool" where
  "usableIndex i \<longleftrightarrow> (of_nat i :: u32) AND UnusedExtendedTrigDataIndexCheck \<noteq> 0"

definition KtrgSection_empty :: "KtrgSection \<Rightarrow> bool" where
  "KtrgSection_empty sec \<longleftrightarrow> length (extendedTrigData sec) < 3"

definition KtrgSection_numExtendedTriggers :: "KtrgSection \<Rightarrow> nat" where
  "KtrgSection_numExtendedTriggers sec = length (extendedTrigData sec)"

definition KtrgSection_getExtendedTrigger :: "KtrgSection \<Rightarrow> nat \<Rightarrow> ExtendedTrigData option" where
  "KtrgSection_getExtendedTrigger sec i =
    (if i < length (extendedTrigData sec) then extendedTrigData sec ! i else None)"

lemma usableIndex_bit1: "odd (n div 2) \<Longrightarrow> usableIndex n"
proof -
  assume "odd (n div 2)"
  then have "bit n 1" by (simp add: bit_iff_odd)
  moreover have "bit UnusedExtendedTrigDataIndexCheck 1" by (simp add: UnusedExtendedTrigDataIndexCheck_def)
  ultimately have "bit (of_nat n AND UnusedExtendedTrigDataIndexCheck) 1"
    by (simp add: bit_and_iff bit_of_nat_iff)
  then show ?thesis by (auto simp: usableIndex_def)
qed

text \<open>Of three consecutive indexes one is usable, which ends the loop that skips the others.\<close>

lemma usableIndex_near: "\<not> usableIndex n \<Longrightarrow> usableIndex (Suc (Suc n))"
  using usableIndex_bit1 [of n] usableIndex_bit1 [of "Suc (Suc n)"] by auto

function padUsable :: "ExtendedTrigData option list \<Rightarrow> ExtendedTrigData option list" where
  "padUsable xs = (if usableIndex (length xs) then xs else padUsable (xs @ [None]))"
  by auto
termination
proof (relation "measure (\<lambda>xs. if usableIndex (length xs) then 0 else if usableIndex (Suc (length xs)) then 1 else 2)")
  fix xs :: "ExtendedTrigData option list"
  assume "\<not> usableIndex (length xs)"
  then show "(xs @ [None], xs) \<in> measure (\<lambda>xs. if usableIndex (length xs) then 0
      else if usableIndex (Suc (length xs)) then 1 else 2)"
    using usableIndex_near [of "length xs"] by auto
qed simp

declare padUsable.simps [simp del]

definition KtrgSection_addExtendedTrigger :: "ExtendedTrigData option \<Rightarrow> KtrgSection \<Rightarrow> nat \<times> KtrgSection" where
  "KtrgSection_addExtendedTrigger extendedTrigger sec =
    (case extendedTrigger of
       None \<Rightarrow> (0, sec)
     | Some x \<Rightarrow>
         (let xs = extendedTrigData sec in
          case find_index (\<lambda>i. xs ! i = None \<and> usableIndex i) 0 (length xs) of
            Some i \<Rightarrow> (i, sec\<lparr>extendedTrigData := xs[i := Some x]\<rparr>)
          | None \<Rightarrow>
              (let padded = padUsable xs in
               (length padded, sec\<lparr>extendedTrigData := padded @ [Some x]\<rparr>))))"

text \<open>\<open>cleanTail\<close> counts down while the last slot is unusable or null.\<close>

primrec cleanTail_loop :: "ExtendedTrigData option list \<Rightarrow> nat \<Rightarrow> nat" where
  "cleanTail_loop xs 0 = 0"
| "cleanTail_loop xs (Suc i) = (if \<not> usableIndex i \<or> xs ! i = None then cleanTail_loop xs i else Suc i)"

definition KtrgSection_cleanTail :: "KtrgSection \<Rightarrow> KtrgSection" where
  "KtrgSection_cleanTail sec =
    sec\<lparr>extendedTrigData := take (cleanTail_loop (extendedTrigData sec) (length (extendedTrigData sec))) (extendedTrigData sec)\<rparr>"

definition KtrgSection_deleteExtendedTrigger :: "nat \<Rightarrow> KtrgSection \<Rightarrow> KtrgSection" where
  "KtrgSection_deleteExtendedTrigger i sec =
    (if i < length (extendedTrigData sec)
     then KtrgSection_cleanTail (sec\<lparr>extendedTrigData := (extendedTrigData sec)[i := None]\<rparr>) else sec)"

section \<open>Its strings\<close>

definition entryUsers :: "u32 \<Rightarrow> nat \<Rightarrow> ExtendedTrigData option \<Rightarrow> StringUser list" where
  "entryUsers userMask stringId entry =
    (case entry of None \<Rightarrow> [] | Some x \<Rightarrow>
      (if hasFlag userMask ExtendedTriggerComment \<and> unat (x_commentStringId x) = stringId
       then [\<lparr>su_userFlags = ExtendedTriggerComment, su_index = unat (x_trigNum x), su_subIndex = 0\<rparr>] else []) @
      (if hasFlag userMask ExtendedTriggerNotes \<and> unat (x_notesStringId x) = stringId
       then [\<lparr>su_userFlags = ExtendedTriggerNotes, su_index = unat (x_trigNum x), su_subIndex = 0\<rparr>] else []))"

definition KtrgSection_appendUsage :: "KtrgSection \<Rightarrow> nat \<Rightarrow> StringUser list \<Rightarrow> u32 \<Rightarrow> StringUser list" where
  "KtrgSection_appendUsage sec stringId stringUsers userMask =
    stringUsers @ concat (map (entryUsers userMask stringId) (extendedTrigData sec))"

definition KtrgSection_editorStringUsed :: "u32 \<Rightarrow> KtrgSection \<Rightarrow> nat \<Rightarrow> bool" where
  "KtrgSection_editorStringUsed userMask sec stringId \<longleftrightarrow>
    list_ex (\<lambda>entry. case entry of None \<Rightarrow> False | Some x \<Rightarrow>
      hasFlag userMask ExtendedTriggerComment \<and> unat (x_commentStringId x) = stringId \<or>
      hasFlag userMask ExtendedTriggerNotes \<and> unat (x_notesStringId x) = stringId) (extendedTrigData sec)"

primrec markEntries :: "u32 \<Rightarrow> ExtendedTrigData option list \<Rightarrow> (nat \<Rightarrow> bool) \<Rightarrow> (nat \<Rightarrow> bool) result" where
  "markEntries userMask [] u = Inr u"
| "markEntries userMask (entry # entries) u =
    (case entry of
       None \<Rightarrow> markEntries userMask entries u
     | Some x \<Rightarrow>
         bind_result (if hasFlag userMask ExtendedTriggerComment then markUnchecked (x_commentStringId x) u else Inr u)
           (\<lambda>u. bind_result (if hasFlag userMask ExtendedTriggerNotes then markUnchecked (x_notesStringId x) u else Inr u)
             (markEntries userMask entries)))"

definition KtrgSection_markUsedEditorStrings :: "u32 \<Rightarrow> KtrgSection \<Rightarrow> (nat \<Rightarrow> bool) \<Rightarrow> (nat \<Rightarrow> bool) result" where
  "KtrgSection_markUsedEditorStrings userMask sec stringIdUsed = markEntries userMask (extendedTrigData sec) stringIdUsed"

definition KtrgSection_remapEditorStringIds :: "(nat \<rightharpoonup> nat) \<Rightarrow> KtrgSection \<Rightarrow> KtrgSection" where
  "KtrgSection_remapEditorStringIds m sec =
    sec\<lparr>extendedTrigData := map (map_option (\<lambda>x. x\<lparr>x_commentStringId := remapField m (x_commentStringId x),
        x_notesStringId := remapField m (x_notesStringId x)\<rparr>)) (extendedTrigData sec)\<rparr>"

definition KtrgSection_deleteEditorString :: "nat \<Rightarrow> KtrgSection \<Rightarrow> KtrgSection" where
  "KtrgSection_deleteEditorString stringId sec =
    sec\<lparr>extendedTrigData := map (map_option (\<lambda>x. x\<lparr>x_commentStringId := clearField stringId (x_commentStringId x),
        x_notesStringId := clearField stringId (x_notesStringId x)\<rparr>)) (extendedTrigData sec)\<rparr>"

section \<open>Reading and writing\<close>

definition KtrgSection_getSize :: "KtrgSection \<Rightarrow> int" where
  "KtrgSection_getSize sec = toSectionSize (4 + length (extendedTrigData sec) * 20)"

definition KtrgSection_write :: "KtrgSection \<Rightarrow> string" where
  "KtrgSection_write sec = enc_u32 2 @
    enc_array (\<lambda>entry. enc_ExtendedTrigData (case entry of None \<Rightarrow> ExtendedTrigData_new | Some x \<Rightarrow> x))
      (extendedTrigData sec)"

text \<open>
  The buffer holds the entries behind the version, but as many bytes are read into it as the whole
  section has, four more than it holds; and a size below four wraps around in \<open>readSize-sizeof(u32)\<close>, for which
  no vector can be allocated.
\<close>

definition KtrgSection_read :: "int \<Rightarrow> string \<Rightarrow> bool \<Rightarrow> KtrgSection \<Rightarrow> (nat \<times> string \<times> KtrgSection) result" where
  "KtrgSection_read sizeInBytes is appending sec =
    (if sizeInBytes < 0 then Inl NegativeSectionSize
     else
       let readSize = nat sizeInBytes in
       if readSize > 0 then
         if length is \<ge> 4 then
           if readSize < 4 then Inl LengthError
           else
             let readNumExtendedTrigData = (readSize - 4) div 20;
                 blank = enc_array enc_ExtendedTrigData (replicate readNumExtendedTrigData ExtendedTrigData_new);
                 read = take readSize (drop 4 is)
             in if readNumExtendedTrigData = 0 \<or> length read > length blank then Inl UndefinedBehavior
                else
                  let buffer = dec_array 20 dec_ExtendedTrigData readNumExtendedTrigData (read @ drop (length read) blank)
                  in Inr (4 + length read, drop readSize (drop 4 is),
                       sec\<lparr>extendedTrigData := extendedTrigData sec @
                         map (\<lambda>i. if usableIndex i then Some (buffer ! i) else None) [0..<readNumExtendedTrigData]\<rparr>)
         else Inr (length is, [], sec)
       else Inr (0, is, sec))"

section \<open>The ids the section refers to\<close>

definition entryIds :: "u32 \<Rightarrow> ExtendedTrigData option \<Rightarrow> u32 list" where
  "entryIds userMask entry = (case entry of None \<Rightarrow> [] | Some x \<Rightarrow>
    (if hasFlag userMask ExtendedTriggerComment then [x_commentStringId x] else []) @
    (if hasFlag userMask ExtendedTriggerNotes then [x_notesStringId x] else []))"

definition KtrgSection_ids :: "u32 \<Rightarrow> KtrgSection \<Rightarrow> u32 list" where
  "KtrgSection_ids userMask sec = concat (map (entryIds userMask) (extendedTrigData sec))"

definition KtrgSection_inRange :: "u32 \<Rightarrow> KtrgSection \<Rightarrow> bool" where
  "KtrgSection_inRange userMask sec \<longleftrightarrow> (\<forall>x\<in>set (KtrgSection_ids userMask sec). unat x < MaxStrings)"

definition KtrgSection_strings :: "u32 \<Rightarrow> KtrgSection \<Rightarrow> nat set" where
  "KtrgSection_strings userMask sec = unat ` set (KtrgSection_ids userMask sec)"

lemma markEntries_ids: "markEntries userMask xs = markAllUnchecked (concat (map (entryIds userMask) xs))"
proof (induction xs)
  case (Cons entry xs)
  show ?case
    by (rule ext) (auto simp: Cons.IH entryIds_def markAllUnchecked_append bind_result_assoc split: option.splits)
qed (simp add: fun_eq_iff)

lemma KtrgSection_mark_ids: "KtrgSection_markUsedEditorStrings userMask sec = markAllUnchecked (KtrgSection_ids userMask sec)"
  by (simp add: fun_eq_iff KtrgSection_markUsedEditorStrings_def KtrgSection_ids_def markEntries_ids)

lemma KtrgSection_used_ids: "KtrgSection_editorStringUsed userMask sec i \<longleftrightarrow> (\<exists>x\<in>set (KtrgSection_ids userMask sec). unat x = i)"
proof -
  have "(case entry of None \<Rightarrow> False | Some x \<Rightarrow>
      hasFlag userMask ExtendedTriggerComment \<and> unat (x_commentStringId x) = i \<or>
      hasFlag userMask ExtendedTriggerNotes \<and> unat (x_notesStringId x) = i) \<longleftrightarrow>
      (\<exists>x\<in>set (entryIds userMask entry). unat x = i)" for entry
    by (cases entry) (auto simp: entryIds_def)
  then show ?thesis by (auto simp: KtrgSection_editorStringUsed_def KtrgSection_ids_def list_ex_iff)
qed

lemma KtrgSection_ids_delete: "KtrgSection_ids userMask (KtrgSection_deleteEditorString i sec) = map (clearField i) (KtrgSection_ids userMask sec)"
  and KtrgSection_ids_remap: "KtrgSection_ids userMask (KtrgSection_remapEditorStringIds m sec) = map (remapField m) (KtrgSection_ids userMask sec)"
  unfolding KtrgSection_ids_def KtrgSection_deleteEditorString_def KtrgSection_remapEditorStringIds_def
  by (auto simp: map_concat entryIds_def comp_def intro!: arg_cong [where f = concat] split: option.splits)

interpretation ktrg_str: id_remapper MaxStrings "KtrgSection_inRange userMask" "KtrgSection_strings userMask"
    "KtrgSection_editorStringUsed userMask" "marked (KtrgSection_markUsedEditorStrings userMask)"
    KtrgSection_deleteEditorString KtrgSection_remapEditorStringIds
  for userMask
  using lift_view [OF array_user_in_range, of "KtrgSection_ids userMask" KtrgSection_deleteEditorString KtrgSection_remapEditorStringIds]
  by (simp add: KtrgSection_inRange_def [abs_def] KtrgSection_strings_def [abs_def] KtrgSection_used_ids [abs_def]
      marked_def [abs_def] KtrgSection_mark_ids KtrgSection_ids_delete KtrgSection_ids_remap)

section \<open>The table as a map from indexes to entries\<close>

text \<open>
  What a caller relies on: the index an entry is given was free, looking it up gives the entry, and
  neither adding nor deleting changes what other indexes give.
\<close>

locale slot_table =
  fixes inv :: "'s \<Rightarrow> bool"
    and get :: "'s \<Rightarrow> nat \<Rightarrow> 'x option"
    and add :: "'x option \<Rightarrow> 's \<Rightarrow> nat \<times> 's"
    and delete :: "nat \<Rightarrow> 's \<Rightarrow> 's"
  assumes inv_add: "inv s \<Longrightarrow> inv (snd (add (Some x) s))"
    and add_free: "inv s \<Longrightarrow> get s (fst (add (Some x) s)) = None"
    and get_add: "inv s \<Longrightarrow> get (snd (add (Some x) s)) j = (if j = fst (add (Some x) s) then Some x else get s j)"
    and inv_delete: "inv s \<Longrightarrow> inv (delete i s)"
    and get_delete: "inv s \<Longrightarrow> get (delete i s) j = (if j = i then None else get s j)"
begin

lemma get_add_delete:
  assumes "inv s" "add (Some x) s = (i, s')"
  shows "get (delete i s') = get s"
  using assms inv_add [of s x] add_free [of s x] get_add [of s x] get_delete [of s' i] by auto

lemma add_twice_distinct:
  assumes "inv s" "add (Some x) s = (i, s')" "add (Some y) s' = (j, s'')"
  shows "i \<noteq> j \<and> get s'' i = Some x \<and> get s'' j = Some y"
proof -
  have "inv s'" and i: "get s' i = Some x" using assms inv_add [of s x] get_add [of s x] by auto
  then show ?thesis using assms add_free [of s' y] get_add [of s' y] by auto
qed

end

definition wf_KtrgSection :: "KtrgSection \<Rightarrow> bool" where
  "wf_KtrgSection sec \<longleftrightarrow>
    (\<forall>i<length (extendedTrigData sec). \<not> usableIndex i \<longrightarrow> extendedTrigData sec ! i = None)"

lemma padUsable_spec:
  "\<exists>k. padUsable xs = xs @ replicate k None \<and> usableIndex (length xs + k) \<and>
    (\<forall>j. length xs \<le> j \<and> j < length xs + k \<longrightarrow> \<not> usableIndex j)"
proof (induction xs rule: padUsable.induct)
  case (1 xs)
  show ?case
  proof (cases "usableIndex (length xs)")
    case True
    then show ?thesis by (intro exI [of _ 0]) (auto simp: padUsable.simps)
  next
    case False
    then obtain k where k: "padUsable (xs @ [None]) = (xs @ [None]) @ replicate k None" "usableIndex (Suc (length xs) + k)"
      "\<And>j. Suc (length xs) \<le> j \<and> j < Suc (length xs) + k \<Longrightarrow> \<not> usableIndex j"
      using 1 by auto
    have "\<not> usableIndex j" if "length xs \<le> j" "j < length xs + Suc k" for j
      using that False k(3) [of j] by (cases "j = length xs") auto
    then show ?thesis using k False by (intro exI [of _ "Suc k"]) (auto simp: padUsable.simps [of xs])
  qed
qed

lemma cleanTail_loop_spec:
  "cleanTail_loop xs n \<le> n \<and> (\<forall>j. cleanTail_loop xs n \<le> j \<and> j < n \<longrightarrow> \<not> usableIndex j \<or> xs ! j = None)"
proof (induction n)
  case (Suc n)
  then show ?case by (auto simp: less_Suc_eq)
qed simp

lemma get_cleanTail:
  assumes "wf_KtrgSection sec"
  shows "KtrgSection_getExtendedTrigger (KtrgSection_cleanTail sec) j = KtrgSection_getExtendedTrigger sec j"
  using assms cleanTail_loop_spec [of "extendedTrigData sec" "length (extendedTrigData sec)"]
  by (auto simp: KtrgSection_getExtendedTrigger_def KtrgSection_cleanTail_def wf_KtrgSection_def)

lemma wf_cleanTail: "wf_KtrgSection sec \<Longrightarrow> wf_KtrgSection (KtrgSection_cleanTail sec)"
  by (auto simp: wf_KtrgSection_def KtrgSection_cleanTail_def)

lemma wf_clear: "wf_KtrgSection sec \<Longrightarrow> wf_KtrgSection (sec\<lparr>extendedTrigData := (extendedTrigData sec)[i := None]\<rparr>)"
  by (cases "i < length (extendedTrigData sec)") (auto simp: wf_KtrgSection_def nth_list_update)

lemma addExtendedTrigger_cases:
  assumes "wf_KtrgSection sec" "KtrgSection_addExtendedTrigger (Some x) sec = (i, sec')"
  shows "usableIndex i \<and> KtrgSection_getExtendedTrigger sec i = None \<and> wf_KtrgSection sec' \<and>
    (\<forall>j. KtrgSection_getExtendedTrigger sec' j = (if j = i then Some x else KtrgSection_getExtendedTrigger sec j))"
proof (cases "find_index (\<lambda>i. extendedTrigData sec ! i = None \<and> usableIndex i) 0 (length (extendedTrigData sec))")
  case (Some k)
  then show ?thesis
    using assms find_index_Some [OF Some]
    by (auto simp: KtrgSection_addExtendedTrigger_def KtrgSection_getExtendedTrigger_def wf_KtrgSection_def
        nth_list_update Let_def)
next
  case None
  obtain k where "padUsable (extendedTrigData sec) = extendedTrigData sec @ replicate k None"
    "usableIndex (length (extendedTrigData sec) + k)"
    "\<forall>j. length (extendedTrigData sec) \<le> j \<and> j < length (extendedTrigData sec) + k \<longrightarrow> \<not> usableIndex j"
    using padUsable_spec by blast
  then show ?thesis
    using assms None
    by (auto simp: KtrgSection_addExtendedTrigger_def KtrgSection_getExtendedTrigger_def wf_KtrgSection_def
        nth_append Let_def less_Suc_eq)
qed

interpretation ktrg_table: slot_table wf_KtrgSection KtrgSection_getExtendedTrigger KtrgSection_addExtendedTrigger
    KtrgSection_deleteExtendedTrigger
proof unfold_locales
  fix sec x j
  assume wf: "wf_KtrgSection sec"
  obtain i sec' where a: "KtrgSection_addExtendedTrigger (Some x) sec = (i, sec')" by fastforce
  note spec = addExtendedTrigger_cases [OF wf a]
  show "wf_KtrgSection (snd (KtrgSection_addExtendedTrigger (Some x) sec))" using spec a by simp
  show "KtrgSection_getExtendedTrigger sec (fst (KtrgSection_addExtendedTrigger (Some x) sec)) = None"
    using spec a by simp
  show "KtrgSection_getExtendedTrigger (snd (KtrgSection_addExtendedTrigger (Some x) sec)) j =
      (if j = fst (KtrgSection_addExtendedTrigger (Some x) sec) then Some x else KtrgSection_getExtendedTrigger sec j)"
    using spec a by simp
next
  fix sec i j
  assume wf: "wf_KtrgSection sec"
  then show "wf_KtrgSection (KtrgSection_deleteExtendedTrigger i sec)"
    by (simp add: KtrgSection_deleteExtendedTrigger_def wf_cleanTail wf_clear)
  show "KtrgSection_getExtendedTrigger (KtrgSection_deleteExtendedTrigger i sec) j =
      (if j = i then None else KtrgSection_getExtendedTrigger sec j)"
    using get_cleanTail [OF wf_clear [OF wf], of i j]
    by (auto simp: KtrgSection_deleteExtendedTrigger_def KtrgSection_getExtendedTrigger_def)
qed

section \<open>Properties\<close>

text \<open>
  Extended trigger data is kept per index: adding an entry gives it a usable index that was free,
  looking the index up gives the entry, every other index gives what it gave before, and deleting
  the entry again gives back the table as it was, the trimmed tail included.
\<close>

lemma KtrgSection_add_delete:
  assumes "wf_KtrgSection sec" "KtrgSection_addExtendedTrigger (Some x) sec = (i, sec')"
  shows "usableIndex i \<and> wf_KtrgSection sec' \<and> KtrgSection_getExtendedTrigger sec i = None \<and>
    KtrgSection_getExtendedTrigger sec' i = Some x \<and>
    (\<forall>j. j \<noteq> i \<longrightarrow> KtrgSection_getExtendedTrigger sec' j = KtrgSection_getExtendedTrigger sec j) \<and>
    KtrgSection_getExtendedTrigger (KtrgSection_deleteExtendedTrigger i sec') = KtrgSection_getExtendedTrigger sec"
  using addExtendedTrigger_cases [OF assms] ktrg_table.get_add_delete [OF assms] by simp

lemma KtrgSection_add_delete_witness:
  "\<exists>sec'. KtrgSection_addExtendedTrigger (Some ExtendedTrigData_new) \<lparr>extendedTrigData = []\<rparr> = (2, sec') \<and>
     KtrgSection_getExtendedTrigger sec' 2 = Some ExtendedTrigData_new \<and> usableIndex 2"
proof -
  let ?sec = "\<lparr>extendedTrigData = []\<rparr>"
  have wf: "wf_KtrgSection ?sec" by (simp add: wf_KtrgSection_def)
  have u: "\<not> usableIndex 0" "\<not> usableIndex (Suc 0)" "usableIndex (Suc (Suc 0))"
    by (simp_all add: usableIndex_def UnusedExtendedTrigDataIndexCheck_def)
  then have "padUsable [] = [None, None]" by (simp add: padUsable.simps)
  then have "\<exists>sec'. KtrgSection_addExtendedTrigger (Some ExtendedTrigData_new) ?sec = (2, sec')"
    by (simp add: KtrgSection_addExtendedTrigger_def find_index_def)
  then show ?thesis using KtrgSection_add_delete [OF wf] by blast
qed

definition writtenEntry :: "ExtendedTrigData option \<Rightarrow> ExtendedTrigData" where
  "writtenEntry entry = (case entry of None \<Rightarrow> ExtendedTrigData_new | Some x \<Rightarrow> x)"

lemma KtrgSection_write_entries:
  "KtrgSection_write sec = enc_u32 2 @ enc_array enc_ExtendedTrigData (map writtenEntry (extendedTrigData sec))"
  by (simp add: KtrgSection_write_def enc_array_def writtenEntry_def comp_def)

text \<open>
  A KTRG section that was saved is loaded again only from the very end of a file: then every
  usable index gives the entry it gave (a deleted one as a blank entry). With anything behind it,
  or with no entries, the read writes past the end of its buffer.
\<close>

lemma KtrgSection_save_load:
  assumes "4 + 20 * length (extendedTrigData sec) < 2 ^ 31"
  shows "KtrgSection_read (KtrgSection_getSize sec) (KtrgSection_write sec @ rest) appending old =
    (if rest = [] \<and> extendedTrigData sec \<noteq> [] then
       Inr (4 + 20 * length (extendedTrigData sec), [],
         old\<lparr>extendedTrigData := extendedTrigData old @
           map (\<lambda>i. if usableIndex i then Some (writtenEntry (extendedTrigData sec ! i)) else None)
             [0..<length (extendedTrigData sec)]\<rparr>)
     else Inl UndefinedBehavior)"
proof -
  define n where "n = length (extendedTrigData sec)"
  define body where "body = enc_array enc_ExtendedTrigData (map writtenEntry (extendedTrigData sec))"
  have len: "length body = 20 * n"
    by (simp add: body_def n_def extended_codec.length_enc_array)
  have size: "KtrgSection_getSize sec = int (4 + 20 * n)"
    using assms by (simp add: KtrgSection_getSize_def toSectionSize_small n_def mult.commute)
  have blank: "length (enc_array enc_ExtendedTrigData (replicate n ExtendedTrigData_new)) = 20 * n"
    by (simp add: extended_codec.length_enc_array)
  have dec: "dec_array 20 dec_ExtendedTrigData n body = map writtenEntry (extendedTrigData sec)"
    using extended_codec.dec_array_enc [of "map writtenEntry (extendedTrigData sec)" "[]"]
    by (simp add: body_def n_def)
  have "nat (int (4 + 20 * n)) = 4 + 20 * n" by simp
  moreover have "drop 4 ((enc_u32 2 @ body) @ rest) = body @ rest" by simp
  moreover have "length (take (4 + 20 * n) (body @ rest)) = 20 * n + min 4 (length rest)"
    using len by simp
  moreover have "rest = [] \<Longrightarrow> take (4 + 20 * n) (body @ rest) = body" using len by simp
  moreover have "extendedTrigData sec = [] \<longleftrightarrow> n = 0" by (simp add: n_def)
  ultimately show ?thesis
    using len dec blank
    by (cases "rest = []") (auto simp: KtrgSection_read_def KtrgSection_write_entries size Let_def n_def [symmetric]
        body_def [symmetric] intro!: KtrgSection.equality)
qed

lemma KtrgSection_save_load_witness:
  "\<exists>out. out = KtrgSection_write \<lparr>extendedTrigData = [None, None, Some ExtendedTrigData_new]\<rparr> \<and>
     KtrgSection_read 64 out False \<lparr>extendedTrigData = []\<rparr> =
       Inr (64, [], \<lparr>extendedTrigData = [None, None, Some ExtendedTrigData_new]\<rparr>) \<and>
     KtrgSection_read 64 (out @ ''KTGP'') False \<lparr>extendedTrigData = []\<rparr> = Inl UndefinedBehavior"
proof -
  let ?sec = "\<lparr>extendedTrigData = [None, None, Some ExtendedTrigData_new]\<rparr>"
  have u: "\<not> usableIndex 0" "\<not> usableIndex (Suc 0)" "usableIndex (Suc (Suc 0))"
    by (simp_all add: usableIndex_def UnusedExtendedTrigDataIndexCheck_def)
  have small: "4 + 20 * length (extendedTrigData ?sec) < 2 ^ 31" by simp
  have size: "KtrgSection_getSize ?sec = 64" by (simp add: KtrgSection_getSize_def toSectionSize_small)
  show ?thesis
    using KtrgSection_save_load [OF small, of "[]" False "\<lparr>extendedTrigData = []\<rparr>"]
      KtrgSection_save_load [OF small, of "''KTGP''" False "\<lparr>extendedTrigData = []\<rparr>"]
    by (simp add: size u upt_rec writtenEntry_def)
qed

end
