(* ===== verification/Locations.thy ===== *)
theory Locations
  imports StringUsers
begin

text \<open>
  The MRGN section (\<open>class MrgnSection\<close> in \<open>src/MappingCoreLib/Sections.cpp\<close>): the locations by id. The
  deque has a null pointer at index 0, because no location has id 0; \<open>None\<close> is the null pointer, and
  following it is undefined. Where the code asks its \<open>LocationSynchronizer\<close> to mark the locations the
  triggers use, the operation takes the marking function; where it has the ids renumbered, the
  operation returns the renumbering.
\<close>

section \<open>The table\<close>

definition TotalOriginalLocations :: nat where "TotalOriginalLocations = 64"
definition Anywhere :: nat where "Anywhere = 64"

record MrgnSection =
  locations :: "Location option list"

definition MrgnSection_GetDefault :: "u16 \<Rightarrow> u16 \<Rightarrow> MrgnSection" where
  "MrgnSection_GetDefault tileWidth tileHeight = \<lparr>locations =
    None # replicate (Anywhere - 1) (Some Location_new) @
    Some (Location_new\<lparr>l_right := of_nat (unat tileWidth * 32), l_bottom := of_nat (unat tileHeight * 32), l_stringId := 3\<rparr>) #
    replicate (TotalLocations - Anywhere) (Some Location_new)\<rparr>"

definition MrgnSection_numLocations :: "MrgnSection \<Rightarrow> nat" where
  "MrgnSection_numLocations sec = length (locations sec) - 1"

definition MrgnSection_getLocation :: "MrgnSection \<Rightarrow> nat \<Rightarrow> Location option result" where
  "MrgnSection_getLocation sec = at_unchecked (locations sec)"

definition MrgnSection_isBlank :: "MrgnSection \<Rightarrow> nat \<Rightarrow> bool" where
  "MrgnSection_isBlank sec locationId \<longleftrightarrow>
    (if locationId > 0 \<and> locationId < length (locations sec)
     then (case locations sec ! locationId of None \<Rightarrow> True | Some l \<Rightarrow> Location_isBlank l) else False)"

definition MrgnSection_addLocation :: "Location option \<Rightarrow> MrgnSection \<Rightarrow> nat \<times> MrgnSection" where
  "MrgnSection_addLocation location sec =
    (case find_index (MrgnSection_isBlank sec) 1 (length (locations sec)) of
       Some i \<Rightarrow> (i, sec\<lparr>locations := (locations sec)[i := location]\<rparr>)
     | None \<Rightarrow> (NoLocation, sec))"

definition MrgnSection_replaceLocation :: "nat \<Rightarrow> Location option \<Rightarrow> MrgnSection \<Rightarrow> MrgnSection result" where
  "MrgnSection_replaceLocation locationId location sec =
    (if locationId > 0 \<and> locationId < length (locations sec) then
       Inr (if MrgnSection_isBlank sec locationId
            then sec\<lparr>locations := (locations sec)[locationId := location]\<rparr> else sec)
     else Inl OutOfRange)"

definition MrgnSection_deleteLocation :: "nat \<Rightarrow> MrgnSection \<Rightarrow> MrgnSection result" where
  "MrgnSection_deleteLocation locationId sec =
    (if locationId > 0 \<and> locationId < length (locations sec) then
       (case locations sec ! locationId of
          None \<Rightarrow> Inl UndefinedBehavior
        | Some l \<Rightarrow> Inr (sec\<lparr>locations := (locations sec)[locationId := Some (l\<lparr>l_stringId := 0, l_left := 0,
            l_right := 0, l_top := 0, l_bottom := 0, l_elevationFlags := 0\<rparr>)]\<rparr>))
     else Inr sec)"

definition MrgnSection_moveLocation :: "nat \<Rightarrow> nat \<Rightarrow> bool \<Rightarrow> MrgnSection \<Rightarrow> bool \<times> MrgnSection" where
  "MrgnSection_moveLocation locationIdFrom locationIdTo lockAnywhere sec =
    (let locationIdMin = min locationIdFrom locationIdTo;
         locationIdMax = max locationIdFrom locationIdTo;
         xs = locations sec
     in if locationIdFrom > 0 \<and> locationIdTo > 0 \<and> locationIdMax < length xs \<and> locationIdFrom \<noteq> locationIdTo \<and>
           (\<not> lockAnywhere \<or> (locationIdMin \<noteq> Anywhere \<and> locationIdMax \<noteq> Anywhere)) then
          if locationIdMax - locationIdMin = 1
          then (True, sec\<lparr>locations := swap_at locationIdMin locationIdMax xs\<rparr>)
          else
            let moved = insert_at (locationIdTo - 1) (xs ! locationIdFrom) (erase_at locationIdFrom xs)
            in if lockAnywhere \<and> locationIdMin < Anywhere \<and> locationIdMax > Anywhere
               then (True, sec\<lparr>locations := swap_at (Anywhere - 1) Anywhere moved\<rparr>)
               else (False, sec\<lparr>locations := moved\<rparr>)
        else (False, sec))"

section \<open>Names of locations\<close>

text \<open>The locations behind the pointers from index 1 on, when none of them is null.\<close>

primrec deref_all :: "'a option list \<Rightarrow> 'a list result" where
  "deref_all [] = Inr []"
| "deref_all (x # xs) = (case x of None \<Rightarrow> Inl UndefinedBehavior
     | Some y \<Rightarrow> bind_result (deref_all xs) (\<lambda>ys. Inr (y # ys)))"

definition MrgnSection_appendUsage :: "MrgnSection \<Rightarrow> nat \<Rightarrow> StringUser list \<Rightarrow> StringUser list" where
  "MrgnSection_appendUsage sec stringId stringUsers = stringUsers @
    indexUsers UserLocation (\<lambda>l. case l of None \<Rightarrow> False | Some l \<Rightarrow> unat (l_stringId l) = stringId) (locations sec)"

definition MrgnSection_stringUsed :: "MrgnSection \<Rightarrow> nat \<Rightarrow> bool" where
  "MrgnSection_stringUsed sec stringId \<longleftrightarrow>
    list_ex (\<lambda>l. case l of None \<Rightarrow> False | Some l \<Rightarrow> l_stringId l = of_nat stringId) (drop 1 (locations sec))"

definition MrgnSection_markNonZeroLocations :: "MrgnSection \<Rightarrow> (nat \<Rightarrow> bool) \<Rightarrow> nat \<Rightarrow> bool" where
  "MrgnSection_markNonZeroLocations sec locationIdUsed =
    (\<lambda>i. if 1 \<le> i \<and> i < min TotalLocations (length (locations sec)) \<and>
           (case locations sec ! i of None \<Rightarrow> False | Some l \<Rightarrow> \<not> Location_isBlank l)
         then True else locationIdUsed i)"

definition MrgnSection_markUsedStrings :: "MrgnSection \<Rightarrow> (nat \<Rightarrow> bool) \<Rightarrow> (nat \<Rightarrow> bool) result" where
  "MrgnSection_markUsedStrings sec stringIdUsed =
    bind_result (deref_all (drop 1 (locations sec)))
      (\<lambda>ls. Inr (foldl (\<lambda>u l. markField MaxStrings (l_stringId l) u) stringIdUsed ls))"

definition updateLocations :: "(Location \<Rightarrow> Location) \<Rightarrow> MrgnSection \<Rightarrow> MrgnSection result" where
  "updateLocations f sec =
    bind_result (deref_all (drop 1 (locations sec)))
      (\<lambda>ls. Inr (sec\<lparr>locations := take 1 (locations sec) @ map (\<lambda>l. Some (f l)) ls\<rparr>))"

definition MrgnSection_remapStringIds :: "(nat \<rightharpoonup> nat) \<Rightarrow> MrgnSection \<Rightarrow> MrgnSection result" where
  "MrgnSection_remapStringIds m = updateLocations (\<lambda>l. l\<lparr>l_stringId := remapField m (l_stringId l)\<rparr>)"

definition MrgnSection_deleteString :: "nat \<Rightarrow> MrgnSection \<Rightarrow> MrgnSection result" where
  "MrgnSection_deleteString stringId = updateLocations (\<lambda>l. l\<lparr>l_stringId := clearField stringId (l_stringId l)\<rparr>)"

section \<open>Fitting the locations into an original map\<close>

definition countUsedOrCreated :: "(nat \<Rightarrow> bool) \<Rightarrow> bool \<Rightarrow> nat" where
  "countUsedOrCreated locationIdUsed lockAnywhere =
    length (filter (\<lambda>i. locationIdUsed i \<or> i = Anywhere \<and> lockAnywhere) [1..<TotalLocations + 1])"

definition MrgnSection_locationsFitOriginal ::
  "((nat \<Rightarrow> bool) \<Rightarrow> nat \<Rightarrow> bool) \<Rightarrow> bool \<Rightarrow> MrgnSection \<Rightarrow> bool" where
  "MrgnSection_locationsFitOriginal markUsedLocations lockAnywhere sec \<longleftrightarrow>
    countUsedOrCreated (MrgnSection_markNonZeroLocations sec (markUsedLocations (\<lambda>_. False))) lockAnywhere
      \<le> TotalOriginalLocations"

text \<open>One pass of the outer loop of \<open>trimToOriginal\<close>: a free id takes the next used location behind it.\<close>

definition trim_step ::
  "bool \<Rightarrow> Location option list \<times> (nat \<Rightarrow> bool) \<times> (nat \<rightharpoonup> nat) \<Rightarrow> nat
     \<Rightarrow> (Location option list \<times> (nat \<Rightarrow> bool) \<times> (nat \<rightharpoonup> nat)) result" where
  "trim_step lockAnywhere state firstUnused =
    (case state of (locs, used, remaps) \<Rightarrow>
       if \<not> used firstUnused \<and> (firstUnused \<noteq> Anywhere \<or> \<not> lockAnywhere) then
         (case find_index (\<lambda>i. used i \<and> (i \<noteq> Anywhere \<or> \<not> lockAnywhere)) (firstUnused + 1) (TotalLocations + 1) of
            Some i \<Rightarrow>
              if i < length locs then
                Inr (locs[firstUnused := locs ! i, i := Some Location_new],
                  used(firstUnused := True, i := False),
                  if remaps i = None then remaps(i \<mapsto> firstUnused) else remaps)
              else Inl UndefinedBehavior
          | None \<Rightarrow> Inr state)
       else Inr state)"

definition MrgnSection_trimToOriginal ::
  "((nat \<Rightarrow> bool) \<Rightarrow> nat \<Rightarrow> bool) \<Rightarrow> bool \<Rightarrow> MrgnSection \<Rightarrow> (MrgnSection \<times> (nat \<rightharpoonup> nat)) option result" where
  "MrgnSection_trimToOriginal markUsedLocations lockAnywhere sec =
    (if length (locations sec) > TotalOriginalLocations then
       let used = MrgnSection_markNonZeroLocations sec (markUsedLocations (\<lambda>_. False))
       in if countUsedOrCreated used lockAnywhere \<le> TotalOriginalLocations then
            bind_result
              (foldl (\<lambda>r firstUnused. bind_result r (\<lambda>state. trim_step lockAnywhere state firstUnused))
                (Inr (locations sec, used, Map.empty)) [1..<TotalLocations + 1])
              (\<lambda>(locs, _, remaps). Inr (Some (sec\<lparr>locations := take (TotalOriginalLocations + 1) locs\<rparr>, remaps)))
          else Inr None
     else Inr None)"

definition MrgnSection_expandToScHybridOrExpansion :: "MrgnSection \<Rightarrow> MrgnSection" where
  "MrgnSection_expandToScHybridOrExpansion sec =
    sec\<lparr>locations := locations sec @ replicate (TotalLocations + 1 - length (locations sec)) (Some Location_new)\<rparr>"

section \<open>Reading and writing\<close>

text \<open>\<open>locations.size()-1\<close> wraps around on an empty deque.\<close>

definition MrgnSection_getSize :: "MrgnSection \<Rightarrow> int" where
  "MrgnSection_getSize sec = toSectionSize (20 * ((length (locations sec) + (2 ^ 64 - 1)) mod 2 ^ 64))"

definition MrgnSection_read :: "int \<Rightarrow> string \<Rightarrow> bool \<Rightarrow> MrgnSection \<Rightarrow> (nat \<times> string \<times> MrgnSection) result" where
  "MrgnSection_read sizeInBytes is appending sec =
    bind_result (objs_read 20 dec_Location False sizeInBytes is [])
      (\<lambda>(gcount, rest, ls). Inr (gcount, rest, sec\<lparr>locations := (if appending then locations sec else [None]) @ map Some ls\<rparr>))"

definition MrgnSection_write :: "MrgnSection \<Rightarrow> string result" where
  "MrgnSection_write sec =
    bind_result (deref_all (drop 1 (locations sec))) (\<lambda>ls. Inr (enc_array enc_Location ls))"

section \<open>The strings the locations refer to\<close>

definition wf_MrgnSection :: "MrgnSection \<Rightarrow> bool" where
  "wf_MrgnSection sec \<longleftrightarrow> locations sec \<noteq> [] \<and> hd (locations sec) = None \<and> None \<notin> set (tl (locations sec))"

lemma wf_MrgnSection_iff: "wf_MrgnSection sec \<longleftrightarrow> (\<exists>ls. locations sec = None # map Some ls)"
proof
  assume wf: "wf_MrgnSection sec"
  then have "tl (locations sec) = map Some (map the (tl (locations sec)))"
    by (auto simp: wf_MrgnSection_def comp_def option.collapse intro!: map_idI [symmetric])
      (metis option.collapse)
  then show "\<exists>ls. locations sec = None # map Some ls"
    using wf unfolding wf_MrgnSection_def by (metis list.collapse)
qed (auto simp: wf_MrgnSection_def)

definition MrgnSection_ids :: "MrgnSection \<Rightarrow> u16 list" where
  "MrgnSection_ids sec = map (\<lambda>l. l_stringId (the l)) (drop 1 (locations sec))"

definition MrgnSection_strings :: "MrgnSection \<Rightarrow> nat set" where
  "MrgnSection_strings sec = unat ` set (MrgnSection_ids sec)"

lemma deref_all_Some [simp]: "deref_all (map Some ls) = Inr ls"
  by (induction ls) simp_all

lemma deref_all_eq_Inr: "deref_all xs = Inr ls \<longleftrightarrow> xs = map Some ls"
  by (induction xs arbitrary: ls) (auto simp: bind_result_eq_Inr split: option.splits)

lemma MrgnSection_strings_total:
  assumes "wf_MrgnSection sec"
  shows "\<exists>sec'. MrgnSection_deleteString i sec = Inr sec' \<and> wf_MrgnSection sec' \<and>
      MrgnSection_ids sec' = map (clearField i) (MrgnSection_ids sec)"
    and "\<exists>sec'. MrgnSection_remapStringIds m sec = Inr sec' \<and> wf_MrgnSection sec' \<and>
      MrgnSection_ids sec' = map (remapField m) (MrgnSection_ids sec)"
    and "MrgnSection_markUsedStrings sec u =
      Inr (foldl (\<lambda>u x. markField MaxStrings x u) u (MrgnSection_ids sec))"
    and "MrgnSection_stringUsed sec i \<longleftrightarrow> of_nat i \<in> set (MrgnSection_ids sec)"
proof -
  obtain ls where ls: "locations sec = None # map Some ls" using assms wf_MrgnSection_iff by blast
  show "\<exists>sec'. MrgnSection_deleteString i sec = Inr sec' \<and> wf_MrgnSection sec' \<and>
      MrgnSection_ids sec' = map (clearField i) (MrgnSection_ids sec)"
    by (simp add: MrgnSection_deleteString_def updateLocations_def ls wf_MrgnSection_def MrgnSection_ids_def)
      (auto simp: comp_def)
  show "\<exists>sec'. MrgnSection_remapStringIds m sec = Inr sec' \<and> wf_MrgnSection sec' \<and>
      MrgnSection_ids sec' = map (remapField m) (MrgnSection_ids sec)"
    by (simp add: MrgnSection_remapStringIds_def updateLocations_def ls wf_MrgnSection_def MrgnSection_ids_def)
      (auto simp: comp_def)
  show "MrgnSection_markUsedStrings sec u =
      Inr (foldl (\<lambda>u x. markField MaxStrings x u) u (MrgnSection_ids sec))"
    by (simp add: MrgnSection_markUsedStrings_def ls MrgnSection_ids_def foldl_map comp_def)
  show "MrgnSection_stringUsed sec i \<longleftrightarrow> of_nat i \<in> set (MrgnSection_ids sec)"
    by (simp add: MrgnSection_stringUsed_def ls MrgnSection_ids_def list_ex_iff image_iff eq_commute [of "of_nat i"])
qed

interpretation mrgn_str: id_remapper MaxStrings wf_MrgnSection MrgnSection_strings MrgnSection_stringUsed
    "marked MrgnSection_markUsedStrings" "\<lambda>i sec. succeed sec (MrgnSection_deleteString i sec)"
    "\<lambda>m sec. succeed sec (MrgnSection_remapStringIds m sec)"
  unfolding MrgnSection_strings_def [abs_def]
proof (rule lift_view_on [OF array_user_cast [OF MaxStrings_fits(1)]], goal_cases)
  case (2 s i)
  then show ?case using MrgnSection_strings_total(1) [of s i] by auto
next
  case (3 s m)
  then show ?case using MrgnSection_strings_total(2) [of s m] by auto
qed (simp_all add: MrgnSection_strings_total(3,4) marked_def)

section \<open>Trimming keeps the used locations\<close>

text \<open>
  The loop of \<open>trimToOriginal\<close> keeps, for the ids \<open>U\<close> that were used when it started: where each of
  them is now (the renumbering so far), that nothing behind the current slot was moved, how many
  slots are taken, and that the slots in front are taken up to the point where none is left to move.
\<close>

definition kept :: "bool \<Rightarrow> (nat \<Rightarrow> bool) \<Rightarrow> nat set" where
  "kept lock used = {i. 1 \<le> i \<and> i \<le> TotalLocations \<and> (used i \<or> i = Anywhere \<and> lock)}"

text \<open>Where the used locations are; what is left to do; how far the slots are filled.\<close>

definition placed :: "Location option list \<Rightarrow> (nat \<Rightarrow> bool) \<Rightarrow> Location option list \<Rightarrow> (nat \<Rightarrow> bool) \<Rightarrow> (nat \<rightharpoonup> nat) \<Rightarrow> nat \<Rightarrow> bool" where
  "placed L U locs used m i \<longleftrightarrow>
    1 \<le> renumber m i \<and> renumber m i \<le> i \<and> used (renumber m i) \<and> locs ! renumber m i = L ! i"

definition frontier :: "bool \<Rightarrow> nat \<Rightarrow> (nat \<Rightarrow> bool) \<Rightarrow> bool" where
  "frontier lock k used \<longleftrightarrow> (\<exists>p\<le>k. (\<forall>f. 1 \<le> f \<and> f < p \<longrightarrow> f \<in> kept lock used) \<and>
    (p = k \<or> (\<forall>i. p \<le> i \<and> i \<le> TotalLocations \<longrightarrow> \<not> (used i \<and> (i \<noteq> Anywhere \<or> \<not> lock)))))"

definition ids :: "(nat \<Rightarrow> bool) \<Rightarrow> nat set" where
  "ids U = {i. 1 \<le> i \<and> i \<le> TotalLocations \<and> U i}"

definition trim_inv ::
  "bool \<Rightarrow> Location option list \<Rightarrow> (nat \<Rightarrow> bool) \<Rightarrow> nat \<Rightarrow>
     Location option list \<times> (nat \<Rightarrow> bool) \<times> (nat \<rightharpoonup> nat) \<Rightarrow> bool" where
  "trim_inv lock L U k state \<longleftrightarrow> (case state of (locs, used, m) \<Rightarrow>
    length locs = TotalLocations + 1 \<and>
    (\<forall>i\<in>ids U. placed L U locs used m i) \<and>
    inj_on (renumber m) (ids U) \<and>
    (\<forall>i. k \<le> i \<and> i \<le> TotalLocations \<and> used i \<longrightarrow> U i \<and> m i = None) \<and>
    (lock \<longrightarrow> m Anywhere = None \<and> locs ! Anywhere = L ! Anywhere) \<and>
    dom m \<subseteq> ids U \<and>
    card (kept lock used) = card (kept lock U) \<and>
    frontier lock k used)"

lemma trim_inv_start:
  "length L = TotalLocations + 1 \<Longrightarrow> trim_inv lock L U 1 (L, U, Map.empty)"
  by (auto simp: trim_inv_def placed_def frontier_def ids_def inj_on_def intro: exI [of _ 1])

lemma finite_kept [simp]: "finite (kept lock used)"
  by (rule finite_subset [of _ "{..TotalLocations}"]) (auto simp: kept_def)

lemma kept_move:
  assumes "f \<notin> kept lock used" "1 \<le> f" "f \<le> TotalLocations" "i \<in> kept lock used" "i \<noteq> Anywhere \<or> \<not> lock"
  shows "kept lock (used(f := True, i := False)) = insert f (kept lock used - {i})"
    and "card (kept lock (used(f := True, i := False))) = card (kept lock used)"
proof -
  show eq: "kept lock (used(f := True, i := False)) = insert f (kept lock used - {i})"
    using assms by (auto simp: kept_def)
  have "card (kept lock used) > 0" using assms(4) by (auto simp: card_gt_0_iff)
  then show "card (kept lock (used(f := True, i := False))) = card (kept lock used)"
    using assms(1,4) by (simp add: eq card_Diff_singleton)
qed

lemma frontier_stay:
  assumes "frontier lock k used" "1 \<le> k" "k \<le> TotalLocations"
    and "k \<in> kept lock used \<or> (\<forall>i. k < i \<and> i \<le> TotalLocations \<longrightarrow> \<not> (used i \<and> (i \<noteq> Anywhere \<or> \<not> lock)))"
  shows "frontier lock (Suc k) used"
proof -
  let ?movable = "\<lambda>i. used i \<and> (i \<noteq> Anywhere \<or> \<not> lock)"
  obtain p where p: "p \<le> k" "\<forall>f. 1 \<le> f \<and> f < p \<longrightarrow> f \<in> kept lock used"
    "p = k \<or> (\<forall>i. p \<le> i \<and> i \<le> TotalLocations \<longrightarrow> \<not> ?movable i)"
    using assms(1) unfolding frontier_def by blast
  show ?thesis
  proof (cases "p = k \<and> k \<in> kept lock used")
    case True
    then have "\<forall>f. 1 \<le> f \<and> f < Suc k \<longrightarrow> f \<in> kept lock used" using p(2) by (auto simp: less_Suc_eq)
    then show ?thesis unfolding frontier_def by blast
  next
    case False
    have "\<not> ?movable i" if "p \<le> i" "i \<le> TotalLocations" for i
    proof (cases "p = k")
      case True
      then have k: "k \<notin> kept lock used" using False by simp
      then have "\<not> used k" using assms(2,3) by (simp add: kept_def)
      then show ?thesis using k assms(4) that True by (metis le_neq_implies_less)
    qed (use p(3) that in blast)
    then show ?thesis using p(1,2) unfolding frontier_def by (meson le_Suc_eq)
  qed
qed

lemma trim_step_stay:
  assumes "trim_inv lock L U k (locs, used, m)" "1 \<le> k" "k \<le> TotalLocations"
    and "k \<in> kept lock used \<or> (\<forall>i. k < i \<and> i \<le> TotalLocations \<longrightarrow> \<not> (used i \<and> (i \<noteq> Anywhere \<or> \<not> lock)))"
  shows "trim_inv lock L U (Suc k) (locs, used, m)"
  using assms(1) frontier_stay [OF _ assms(2-4)] by (simp add: trim_inv_def)

lemma frontier_move:
  assumes "frontier lock k used" "1 \<le> k" "k \<le> TotalLocations" "k \<notin> kept lock used"
    and i: "k < i" "i \<le> TotalLocations" "used i" "i \<noteq> Anywhere \<or> \<not> lock"
  shows "frontier lock (Suc k) (used(k := True, i := False))"
proof -
  have ik: "i \<in> kept lock used" using i by (simp add: kept_def)
  obtain p where p: "p \<le> k" "\<forall>f. 1 \<le> f \<and> f < p \<longrightarrow> f \<in> kept lock used"
    "p = k \<or> (\<forall>j. p \<le> j \<and> j \<le> TotalLocations \<longrightarrow> \<not> (used j \<and> (j \<noteq> Anywhere \<or> \<not> lock)))"
    using assms(1) unfolding frontier_def by blast
  then have "p = k" using i by (meson le_trans less_imp_le)
  then have "\<forall>f. 1 \<le> f \<and> f < Suc k \<longrightarrow> f \<in> kept lock (used(k := True, i := False))"
    using p(2) i(1) unfolding kept_move(1) [OF assms(4,2,3) ik i(4)] by (auto simp: less_Suc_eq)
  then show ?thesis unfolding frontier_def by blast
qed

lemma trim_step_move:
  assumes inv: "trim_inv lock L U k (locs, used, m)" and k: "1 \<le> k" "k \<le> TotalLocations" "k \<notin> kept lock used"
    and i: "k < i" "i \<le> TotalLocations" "used i" "i \<noteq> Anywhere \<or> \<not> lock"
  shows "m i = None \<and>
    trim_inv lock L U (Suc k) (locs[k := locs ! i, i := Some Location_new], used(k := True, i := False), m(i \<mapsto> k))"
proof -
  have len: "length locs = TotalLocations + 1" and old: "\<And>j. j \<in> ids U \<Longrightarrow> placed L U locs used m j"
    and inj: "inj_on (renumber m) (ids U)"
    and rest: "\<And>j. k \<le> j \<Longrightarrow> j \<le> TotalLocations \<Longrightarrow> used j \<Longrightarrow> U j \<and> m j = None"
    and lock: "lock \<longrightarrow> m Anywhere = None \<and> locs ! Anywhere = L ! Anywhere"
    and dom: "dom m \<subseteq> ids U" and card: "card (kept lock used) = card (kept lock U)"
    and fr: "frontier lock k used"
    using inv unfolding trim_inv_def by auto
  have Ui: "U i" "m i = None" and iU: "i \<in> ids U" using rest [of i] i k by (auto simp: ids_def)
  have ik: "i \<in> kept lock used" using i k by (simp add: kept_def)
  have nu: "\<not> used k" "k \<noteq> Anywhere \<or> \<not> lock" using k by (auto simp: kept_def)
  let ?m = "m(i \<mapsto> k)" and ?u = "used(k := True, i := False)" and ?l = "locs[k := locs ! i, i := Some Location_new]"
  have ren: "renumber ?m j = (if j = i then k else renumber m j)" for j by (simp add: renumber_def)
  have ne: "renumber m j \<noteq> i" "renumber m j \<noteq> k" if "j \<in> ids U" "j \<noteq> i" for j
    using inj_onD [OF inj _ that(1) iU] old [OF that(1)] that(2) Ui nu by (auto simp: placed_def)
  have "placed L U ?l ?u ?m j" if "j \<in> ids U" for j
    using old [OF that] old [OF iU] ne [OF that] Ui i k len
    by (cases "j = i") (simp_all add: placed_def ren)
  moreover have "inj_on (renumber ?m) (ids U)"
    using inj ne by (auto simp: inj_on_def ren)
  moreover have "\<forall>j. Suc k \<le> j \<and> j \<le> TotalLocations \<and> ?u j \<longrightarrow> U j \<and> ?m j = None"
    using rest by simp
  moreover have "lock \<longrightarrow> ?m Anywhere = None \<and> ?l ! Anywhere = L ! Anywhere"
    using lock i(4) nu(2) by auto
  moreover have "dom ?m \<subseteq> ids U" using dom iU by simp
  moreover have "card (kept lock ?u) = card (kept lock U)"
    using card kept_move(2) [OF k(3,1,2) ik i(4)] by simp
  moreover have "frontier lock (Suc k) ?u" by (rule frontier_move [OF fr k i])
  ultimately show ?thesis using Ui len by (simp add: trim_inv_def)
qed

lemma trim_step_inv:
  assumes inv: "trim_inv lock L U k state" and k: "1 \<le> k" "k \<le> TotalLocations"
  shows "\<exists>state'. trim_step lock state k = Inr state' \<and> trim_inv lock L U (Suc k) state'"
proof -
  obtain locs used m where s: "state = (locs, used, m)" by (cases state) auto
  let ?movable = "\<lambda>i. used i \<and> (i \<noteq> Anywhere \<or> \<not> lock)"
  have len: "length locs = TotalLocations + 1" using inv unfolding trim_inv_def s by auto
  have free: "k \<notin> kept lock used \<longleftrightarrow> \<not> used k \<and> (k \<noteq> Anywhere \<or> \<not> lock)"
    using k by (auto simp: kept_def)
  show ?thesis
  proof (cases "k \<in> kept lock used")
    case True
    then have "trim_step lock state k = Inr state" using free by (auto simp: trim_step_def s)
    then show ?thesis using trim_step_stay [OF inv [unfolded s] k] True s by simp
  next
    case False
    show ?thesis
    proof (cases "find_index ?movable (k + 1) (TotalLocations + 1)")
      case None
      then have "trim_step lock state k = Inr state" by (simp add: trim_step_def s)
      moreover have "\<forall>i. k < i \<and> i \<le> TotalLocations \<longrightarrow> \<not> ?movable i"
        using None by (simp add: find_index_None) (meson Suc_leI le_imp_less_Suc)
      ultimately show ?thesis using trim_step_stay [OF inv [unfolded s] k] s by simp
    next
      case (Some i)
      note f = find_index_Some [OF Some]
      have "m i = None \<and> trim_inv lock L U (Suc k) (locs[k := locs ! i, i := Some Location_new],
          used(k := True, i := False), m(i \<mapsto> k))"
        using f find_index_least [OF Some] by (intro trim_step_move [OF inv [unfolded s] k False]) auto
      moreover have "i < length locs" using f len by simp
      ultimately show ?thesis using False Some free by (auto simp: trim_step_def s)
    qed
  qed
qed

lemma trim_loop:
  assumes "length L = TotalLocations + 1" "n \<le> TotalLocations"
  shows "\<exists>state. foldl (\<lambda>r f. bind_result r (\<lambda>state. trim_step lock state f)) (Inr (L, U, Map.empty)) [1..<n + 1] = Inr state \<and>
    trim_inv lock L U (n + 1) state"
  using assms(2)
proof (induction n)
  case 0
  then show ?case using trim_inv_start [OF assms(1)] by simp
next
  case (Suc n)
  then obtain state where "foldl (\<lambda>r f. bind_result r (\<lambda>state. trim_step lock state f)) (Inr (L, U, Map.empty)) [1..<n + 1] = Inr state"
    "trim_inv lock L U (n + 1) state" by auto
  then show ?case using trim_step_inv [of lock L U "n + 1" state] Suc.prems by simp
qed

lemma countUsedOrCreated_kept: "countUsedOrCreated used lock = card (kept lock used)"
proof -
  have "kept lock used = set (filter (\<lambda>i. used i \<or> i = Anywhere \<and> lock) [1..<TotalLocations + 1])"
    by (auto simp: kept_def)
  then show ?thesis unfolding countUsedOrCreated_def by (metis distinct_card distinct_filter distinct_upt)
qed

lemma frontier_bound:
  assumes "frontier lock (TotalLocations + 1) used" "card (kept lock used) \<le> TotalOriginalLocations"
    and "used i" "1 \<le> i" "i \<le> TotalLocations"
  shows "i \<le> TotalOriginalLocations"
proof (rule ccontr)
  assume "\<not> i \<le> TotalOriginalLocations"
  obtain p where p: "\<forall>f. 1 \<le> f \<and> f < p \<longrightarrow> f \<in> kept lock used"
    "p = TotalLocations + 1 \<or> (\<forall>i. p \<le> i \<and> i \<le> TotalLocations \<longrightarrow> \<not> (used i \<and> (i \<noteq> Anywhere \<or> \<not> lock)))"
    using assms(1) unfolding frontier_def by blast
  have "p > TotalOriginalLocations + 1"
  proof (rule ccontr)
    assume "\<not> p > TotalOriginalLocations + 1"
    moreover then have "p \<noteq> TotalLocations + 1" by (simp add: TotalOriginalLocations_def TotalLocations_def)
    moreover have "p \<le> i" "i \<noteq> Anywhere"
      using calculation(1) \<open>\<not> i \<le> TotalOriginalLocations\<close> by (simp_all add: Anywhere_def TotalOriginalLocations_def)
    ultimately show False using p(2) assms(3,5) by blast
  qed
  then have "{1..TotalOriginalLocations + 1} \<subseteq> kept lock used" using p(1) by auto
  then have "card {1..TotalOriginalLocations + 1} \<le> card (kept lock used)" by (intro card_mono) simp_all
  then show False using assms(2) by simp
qed

text \<open>
  C22. Converting to an original map. With all 255 locations there, \<open>trimToOriginal\<close> never fails on an
  access; it refuses exactly when more than 64 locations are used or non-blank (Anywhere counted when
  it is locked), and otherwise leaves 64 locations such that every id that was used or marked has
  one new id, different ids different ones, none above 64, and the location under the new id is the
  one it had. A locked Anywhere stays where it is.
\<close>

theorem MrgnSection_trimToOriginal_spec:
  assumes "length (locations sec) = TotalLocations + 1"
    and "used = MrgnSection_markNonZeroLocations sec (markUsedLocations (\<lambda>_. False))"
  shows "if countUsedOrCreated used lock \<le> TotalOriginalLocations then
      \<exists>sec' m. MrgnSection_trimToOriginal markUsedLocations lock sec = Inr (Some (sec', m)) \<and>
        length (locations sec') = TotalOriginalLocations + 1 \<and>
        (\<forall>i. 1 \<le> i \<and> i \<le> TotalLocations \<and> used i \<longrightarrow>
           1 \<le> renumber m i \<and> renumber m i \<le> TotalOriginalLocations \<and>
           locations sec' ! renumber m i = locations sec ! i) \<and>
        inj_on (renumber m) {i. 1 \<le> i \<and> i \<le> TotalLocations \<and> used i} \<and>
        (lock \<longrightarrow> renumber m Anywhere = Anywhere \<and> locations sec' ! Anywhere = locations sec ! Anywhere)
    else MrgnSection_trimToOriginal markUsedLocations lock sec = Inr None"
proof -
  let ?L = "locations sec"
  have big: "length ?L > TotalOriginalLocations"
    using assms(1) by (simp add: TotalOriginalLocations_def TotalLocations_def)
  obtain locs u m where loop: "foldl (\<lambda>r f. bind_result r (\<lambda>state. trim_step lock state f)) (Inr (?L, used, Map.empty))
      [1..<TotalLocations + 1] = Inr (locs, u, m)"
    and inv: "trim_inv lock ?L used (TotalLocations + 1) (locs, u, m)"
    using trim_loop [OF assms(1) order_refl] by (metis prod_cases3)
  then have facts: "length locs = TotalLocations + 1" "\<And>i. i \<in> ids used \<Longrightarrow> placed ?L used locs u m i"
    "inj_on (renumber m) (ids used)" "lock \<Longrightarrow> m Anywhere = None \<and> locs ! Anywhere = ?L ! Anywhere"
    "card (kept lock u) = card (kept lock used)" "frontier lock (TotalLocations + 1) u"
    by (auto simp: trim_inv_def)
  show ?thesis
  proof (cases "countUsedOrCreated used lock \<le> TotalOriginalLocations")
    case True
    let ?sec = "sec\<lparr>locations := take (TotalOriginalLocations + 1) locs\<rparr>"
    have small: "card (kept lock u) \<le> TotalOriginalLocations" using True facts(5) by (simp add: countUsedOrCreated_kept)
    have "MrgnSection_trimToOriginal markUsedLocations lock sec = Inr (Some (?sec, m))"
      using big True loop by (simp add: MrgnSection_trimToOriginal_def Let_def assms(2) [symmetric] del: upt_Suc)
    moreover have "1 \<le> renumber m i \<and> renumber m i \<le> TotalOriginalLocations \<and> locations ?sec ! renumber m i = ?L ! i"
      if "i \<in> ids used" for i
      using facts(2) [OF that] that frontier_bound [OF facts(6) small, of "renumber m i"]
      by (auto simp: placed_def ids_def)
    moreover have "length (locations ?sec) = TotalOriginalLocations + 1"
      using facts(1) by (simp add: TotalLocations_def TotalOriginalLocations_def)
    moreover have "lock \<longrightarrow> renumber m Anywhere = Anywhere \<and> locations ?sec ! Anywhere = ?L ! Anywhere"
      using facts(4) by (auto simp: Anywhere_def TotalOriginalLocations_def)
    ultimately show ?thesis using True facts(3) unfolding ids_def by auto
  next
    case False
    then show ?thesis
      using big by (simp add: MrgnSection_trimToOriginal_def Let_def assms(2) [symmetric] del: upt_Suc)
  qed
qed

definition example_mrgn :: MrgnSection where
  "example_mrgn = (MrgnSection_GetDefault 64 64)
    \<lparr>locations := (locations (MrgnSection_GetDefault 64 64))[100 := Some (Location_new\<lparr>l_right := 32\<rparr>)]\<rparr>"

theorem MrgnSection_trimToOriginal_spec_witness:
  "\<exists>sec' m. MrgnSection_trimToOriginal (\<lambda>u. u) True example_mrgn = Inr (Some (sec', m)) \<and>
     renumber m 100 \<le> 64 \<and> locations sec' ! renumber m 100 = locations example_mrgn ! 100"
proof -
  let ?used = "MrgnSection_markNonZeroLocations example_mrgn (\<lambda>_. False)"
  have len: "length (locations example_mrgn) = TotalLocations + 1"
    by (simp add: example_mrgn_def MrgnSection_GetDefault_def TotalLocations_def Anywhere_def)
  have nth: "locations example_mrgn ! i = (if i = 100 then Some (Location_new\<lparr>l_right := 32\<rparr>) else Some Location_new)"
    if "1 \<le> i" "i \<le> 255" "i \<noteq> 64" for i
    using that by (auto simp: example_mrgn_def MrgnSection_GetDefault_def TotalLocations_def Anywhere_def
        nth_list_update nth_append nth_Cons' Location_new_def)
  have blank: "Location_isBlank Location_new" by (simp add: Location_isBlank_def Location_new_def)
  have "i = 64 \<or> i = 100" if "i \<in> kept True ?used" for i
  proof (rule ccontr)
    assume no: "\<not> (i = 64 \<or> i = 100)"
    have "1 \<le> i" "i \<le> 255" using that by (auto simp: kept_def TotalLocations_def)
    then have "locations example_mrgn ! i = Some Location_new" using nth no by simp
    then show False using that no blank
      by (simp add: kept_def MrgnSection_markNonZeroLocations_def Anywhere_def split: if_splits)
  qed
  then have "kept True ?used \<subseteq> {64, 100}" by auto
  then have "card (kept True ?used) \<le> card {64 :: nat, 100}" by (intro card_mono) simp_all
  then have fits: "countUsedOrCreated ?used True \<le> TotalOriginalLocations"
    by (simp add: countUsedOrCreated_kept TotalOriginalLocations_def)
  have used: "?used 100"
    using nth [of 100] len by (simp add: MrgnSection_markNonZeroLocations_def TotalLocations_def Location_isBlank_def)
  show ?thesis
    using MrgnSection_trimToOriginal_spec [OF len, of ?used "\<lambda>u. u" True] fits used
    by (auto simp: TotalLocations_def TotalOriginalLocations_def)
qed

section \<open>Adding, deleting, moving, saving\<close>

text \<open>
  A new location takes the first blank id and changes no other; when none is blank nothing
  changes and the id is 0. Deleting a location makes its id blank, and changes no other.
\<close>

lemma MrgnSection_add_delete_spec:
  assumes "wf_MrgnSection sec" "MrgnSection_addLocation (Some l) sec = (i, sec')" "0 < j" "j < length (locations sec)"
  shows "wf_MrgnSection sec' \<and>
    (if i = NoLocation then sec' = sec \<and> (\<forall>k. \<not> MrgnSection_isBlank sec k)
     else MrgnSection_isBlank sec i \<and> (\<forall>k<i. \<not> MrgnSection_isBlank sec k) \<and>
       locations sec' = (locations sec)[i := Some l]) \<and>
    (\<exists>sec''. MrgnSection_deleteLocation j sec = Inr sec'' \<and> wf_MrgnSection sec'' \<and> MrgnSection_isBlank sec'' j \<and>
       (\<forall>k. k \<noteq> j \<longrightarrow> locations sec'' ! k = locations sec ! k))"
proof -
  obtain ls where ls: "locations sec = None # map Some ls" using assms(1) wf_MrgnSection_iff by blast
  have upd: "wf_MrgnSection (sec\<lparr>locations := (locations sec)[k := Some x]\<rparr>)" if "0 < k" for k x
    using that by (cases k) (auto simp: wf_MrgnSection_iff ls map_update [symmetric])
  have "wf_MrgnSection sec' \<and>
    (if i = NoLocation then sec' = sec \<and> (\<forall>k. \<not> MrgnSection_isBlank sec k)
     else MrgnSection_isBlank sec i \<and> (\<forall>k<i. \<not> MrgnSection_isBlank sec k) \<and>
       locations sec' = (locations sec)[i := Some l])"
  proof (cases "find_index (MrgnSection_isBlank sec) 1 (length (locations sec))")
    case None
    then have "\<not> MrgnSection_isBlank sec k" for k
      by (cases "0 < k \<and> k < length (locations sec)") (auto simp: find_index_None MrgnSection_isBlank_def Suc_le_eq)
    then show ?thesis using assms(1,2) None by (simp add: MrgnSection_addLocation_def)
  next
    case (Some k)
    have "\<not> MrgnSection_isBlank sec k'" if "k' < k" for k'
      using find_index_least [OF Some, of k'] that by (cases k') (auto simp: MrgnSection_isBlank_def)
    then show ?thesis using assms(2) Some find_index_Some [OF Some] upd
      by (auto simp: MrgnSection_addLocation_def NoLocation_def)
  qed
  moreover obtain x where x: "locations sec ! j = Some x" using assms(3,4) ls by (cases j) auto
  moreover have "MrgnSection_isBlank (sec\<lparr>locations := (locations sec)[j := Some (x\<lparr>l_stringId := 0, l_left := 0,
      l_right := 0, l_top := 0, l_bottom := 0, l_elevationFlags := 0\<rparr>)]\<rparr>) j"
    using assms(3,4) by (simp add: MrgnSection_isBlank_def Location_isBlank_def)
  ultimately show ?thesis using assms(3,4) upd by (simp add: MrgnSection_deleteLocation_def)
qed

lemma MrgnSection_add_delete_spec_witness:
  "\<exists>sec''. MrgnSection_deleteLocation 1 \<lparr>locations = [None, Some (Location_new\<lparr>l_right := 1\<rparr>)]\<rparr> = Inr sec'' \<and>
     MrgnSection_isBlank sec'' 1"
proof -
  let ?sec = "\<lparr>locations = [None, Some (Location_new\<lparr>l_right := 1\<rparr>)]\<rparr>"
  have "wf_MrgnSection ?sec" by (simp add: wf_MrgnSection_def)
  moreover obtain i sec' where "MrgnSection_addLocation (Some Location_new) ?sec = (i, sec')" by fastforce
  ultimately show ?thesis using MrgnSection_add_delete_spec [of ?sec Location_new i sec' 1] by auto
qed

text \<open>
  \<open>MrgnSection::moveLocation\<close> over more than one place puts the location one id too low. Moved to
  id 1 it lands at index 0, where no location belongs, the null pointer of index 0 becomes
  location 1, and marking the strings in use then follows it.
\<close>

lemma MrgnSection_moveLocation_off_by_one:
  assumes "wf_MrgnSection sec" "0 < from" "from < length (locations sec)" "0 < to" "to < length (locations sec)"
    and "from + 1 < to \<or> to + 1 < from"
  shows "\<exists>sec'. MrgnSection_moveLocation from to False sec = (False, sec') \<and>
    locations sec' ! (to - 1) = locations sec ! from \<and>
    (to = 1 \<longrightarrow> locations sec' ! 1 = None \<and> (\<forall>u. MrgnSection_markUsedStrings sec' u = Inl UndefinedBehavior))"
proof -
  let ?xs = "locations sec"
  let ?moved = "insert_at (to - 1) (?xs ! from) (erase_at from ?xs)"
  have gap: "max from to - min from to \<noteq> 1" "from \<noteq> to" "max from to < length ?xs" using assms by auto
  have len: "length (erase_at from ?xs) = length ?xs - 1" using assms(3) by simp
  have m: "MrgnSection_moveLocation from to False sec = (False, sec\<lparr>locations := ?moved\<rparr>)"
    using gap assms(2,4) by (simp add: MrgnSection_moveLocation_def Let_def)
  have at: "?moved ! (to - 1) = ?xs ! from"
    using assms(4,5) len by (simp add: nth_insert_at)
  have "\<exists>rest. ?moved = ?xs ! from # None # rest" if "to = 1"
  proof -
    obtain ls where "?xs = None # ls" using assms(1) wf_MrgnSection_iff by blast
    then show ?thesis using that assms(2) by (cases "from") (auto simp: insert_at_def erase_at_def)
  qed
  then have "to = 1 \<longrightarrow> ?moved ! 1 = None \<and> deref_all (drop 1 ?moved) = Inl UndefinedBehavior" by auto
  then show ?thesis using m at by (simp add: MrgnSection_markUsedStrings_def)
qed

lemma MrgnSection_moveLocation_off_by_one_witness:
  "\<exists>sec'. MrgnSection_moveLocation 3 1 False \<lparr>locations = None # replicate 3 (Some Location_new)\<rparr> = (False, sec') \<and>
     locations sec' ! 1 = None"
proof -
  have "wf_MrgnSection \<lparr>locations = None # replicate 3 (Some Location_new)\<rparr>" by (simp add: wf_MrgnSection_def)
  then show ?thesis
    using MrgnSection_moveLocation_off_by_one [of "\<lparr>locations = None # replicate 3 (Some Location_new)\<rparr>" 3 1] by auto
qed

lemma MrgnSection_written_read:
  assumes "wf_MrgnSection sec" "20 * length (locations sec) < 2 ^ 31"
  shows "\<exists>out. MrgnSection_write sec = Inr out \<and> MrgnSection_getSize sec = int (length out) \<and>
    MrgnSection_read (MrgnSection_getSize sec) (out @ rest) False old = Inr (length out, rest, old\<lparr>locations := locations sec\<rparr>) \<and>
    MrgnSection_read (MrgnSection_getSize sec) (out @ rest) True old =
      Inr (length out, rest, old\<lparr>locations := locations old @ tl (locations sec)\<rparr>)"
proof -
  obtain ls where ls: "locations sec = None # map Some ls" using assms(1) wf_MrgnSection_iff by blast
  let ?out = "enc_array enc_Location ls"
  have len: "length ?out = 20 * length ls" by (simp add: location_codec.length_enc_array)
  have "(length (locations sec) + (2 ^ 64 - 1)) mod 2 ^ 64 = length ls"
    using assms(2) by (simp add: ls)
  then have size: "MrgnSection_getSize sec = int (length ?out)"
    using assms(2) by (simp add: MrgnSection_getSize_def len toSectionSize_small ls)
  show ?thesis
    using location_codec.objs_read_write [of ls False rest "[]"] size
    by (simp add: MrgnSection_write_def MrgnSection_read_def ls)
qed

text \<open>
  Locations saved and loaded are the same locations under the same ids, the null pointer of
  index 0 included, and behind the locations already there when the section appends.
\<close>

lemma MrgnSection_save_load:
  assumes "wf_MrgnSection sec" "20 * length (locations sec) < 2 ^ 31"
  shows "\<exists>out. MrgnSection_write sec = Inr out \<and> MrgnSection_getSize sec = int (length out) \<and>
    MrgnSection_read (MrgnSection_getSize sec) (out @ rest) False old = Inr (length out, rest, old\<lparr>locations := locations sec\<rparr>) \<and>
    MrgnSection_read (MrgnSection_getSize sec) (out @ rest) True old =
      Inr (length out, rest, old\<lparr>locations := locations old @ tl (locations sec)\<rparr>)"
  using assms by (rule MrgnSection_written_read)

lemma MrgnSection_save_load_witness:
  "\<exists>out. MrgnSection_write \<lparr>locations = [None, Some Location_new]\<rparr> = Inr out \<and>
     MrgnSection_read 20 (out @ ''TRIG'') False \<lparr>locations = []\<rparr> = Inr (20, ''TRIG'', \<lparr>locations = [None, Some Location_new]\<rparr>)"
proof -
  let ?sec = "\<lparr>locations = [None, Some Location_new]\<rparr>"
  have "wf_MrgnSection ?sec" by (simp add: wf_MrgnSection_def)
  then obtain out where out: "MrgnSection_write ?sec = Inr out" "MrgnSection_getSize ?sec = int (length out)"
    "MrgnSection_read (MrgnSection_getSize ?sec) (out @ ''TRIG'') False \<lparr>locations = []\<rparr> = Inr (length out, ''TRIG'', \<lparr>locations = locations ?sec\<rparr>)"
    using MrgnSection_save_load [of ?sec "''TRIG''" "\<lparr>locations = []\<rparr>"] by auto
  moreover have "MrgnSection_getSize ?sec = 20" by (simp add: MrgnSection_getSize_def toSectionSize_small)
  ultimately show ?thesis by auto
qed

end
