(* ===== verification/ScenarioTriggers.thy ===== *)
theory ScenarioTriggers
  imports Ktrg Locations
begin

text \<open>
  The trigger side of a scenario (\<open>class Triggers\<close> in \<open>src/MappingCoreLib/Scenario.cpp\<close>): it owns the
  TRIG, MBRF, SWNM, WAV, UPRP, UPUS and KTRG sections, keeps the extended trigger data linked to its
  triggers, hands out unit property slots, and answers for all of its sections which strings
  and locations they use. The sections are present, as the constructor and \<open>Triggers::set\<close> leave them.
\<close>

section \<open>Unit properties: UPRP and UPUS\<close>

definition MaxCuwps :: nat where "MaxCuwps = 64"

record Cuwp =
  cuwp_validUnitStateFlags :: u16
  cuwp_validUnitFieldFlags :: u16
  cuwp_owner :: u8
  cuwp_hitpointPercent :: u8
  cuwp_shieldPercent :: u8
  cuwp_energyPercent :: u8
  cuwp_resourceAmount :: u32
  cuwp_hangerAmount :: u16
  cuwp_unitStateFlags :: u16
  cuwp_unknown :: u32

definition Cuwp_Cloak :: u16 where "Cuwp_Cloak = 0x1"
definition Cuwp_Burrow :: u16 where "Cuwp_Burrow = 0x2"
definition Cuwp_InTransit :: u16 where "Cuwp_InTransit = 0x4"
definition Cuwp_Hallucinated :: u16 where "Cuwp_Hallucinated = 0x8"
definition Cuwp_Invincible :: u16 where "Cuwp_Invincible = 0x10"

definition setState :: "u16 \<Rightarrow> bool \<Rightarrow> Cuwp \<Rightarrow> Cuwp" where
  "setState flag b c = c\<lparr>cuwp_unitStateFlags :=
    (if b then cuwp_unitStateFlags c OR flag else cuwp_unitStateFlags c AND NOT flag)\<rparr>"

definition Cuwp_isCloaked :: "Cuwp \<Rightarrow> bool" where
  "Cuwp_isCloaked c = hasFlag (cuwp_unitStateFlags c) Cuwp_Cloak"

definition Cuwp_isBurrowed :: "Cuwp \<Rightarrow> bool" where
  "Cuwp_isBurrowed c = hasFlag (cuwp_unitStateFlags c) Cuwp_Burrow"

definition Cuwp_isInTransit :: "Cuwp \<Rightarrow> bool" where
  "Cuwp_isInTransit c = hasFlag (cuwp_unitStateFlags c) Cuwp_InTransit"

definition Cuwp_isHallucinated :: "Cuwp \<Rightarrow> bool" where
  "Cuwp_isHallucinated c = hasFlag (cuwp_unitStateFlags c) Cuwp_Hallucinated"

definition Cuwp_isInvincible :: "Cuwp \<Rightarrow> bool" where
  "Cuwp_isInvincible c = hasFlag (cuwp_unitStateFlags c) Cuwp_Invincible"

definition Cuwp_setCloaked :: "bool \<Rightarrow> Cuwp \<Rightarrow> Cuwp" where
  "Cuwp_setCloaked = setState Cuwp_Cloak"

definition Cuwp_setBurrowed :: "bool \<Rightarrow> Cuwp \<Rightarrow> Cuwp" where
  "Cuwp_setBurrowed = setState Cuwp_Burrow"

definition Cuwp_setInTransit :: "bool \<Rightarrow> Cuwp \<Rightarrow> Cuwp" where
  "Cuwp_setInTransit = setState Cuwp_InTransit"

definition Cuwp_setHallucinated :: "bool \<Rightarrow> Cuwp \<Rightarrow> Cuwp" where
  "Cuwp_setHallucinated = setState Cuwp_Hallucinated"

definition Cuwp_setInvincible :: "bool \<Rightarrow> Cuwp \<Rightarrow> Cuwp" where
  "Cuwp_setInvincible = setState Cuwp_Invincible"

text \<open>The struct is packed, so comparing its bytes is comparing its fields.\<close>

record UprpSection =
  createUnitProperties :: "Cuwp list"

definition UprpSection_getCuwp :: "UprpSection \<Rightarrow> nat \<Rightarrow> Cuwp result" where
  "UprpSection_getCuwp sec = at_unchecked (createUnitProperties sec)"

definition UprpSection_setCuwp :: "nat \<Rightarrow> Cuwp \<Rightarrow> UprpSection \<Rightarrow> UprpSection" where
  "UprpSection_setCuwp cuwpIndex cuwp sec =
    (if cuwpIndex < MaxCuwps
     then sec\<lparr>createUnitProperties := (createUnitProperties sec)[cuwpIndex := cuwp]\<rparr> else sec)"

definition UprpSection_findCuwp :: "UprpSection \<Rightarrow> Cuwp \<Rightarrow> nat" where
  "UprpSection_findCuwp sec cuwp =
    (case find_index (\<lambda>i. createUnitProperties sec ! i = cuwp) 0 MaxCuwps of Some i \<Rightarrow> i | None \<Rightarrow> MaxCuwps)"

record UpusSection =
  cuwpUsedFlags :: "u8 list"

definition UpusSection_cuwpUsed :: "UpusSection \<Rightarrow> nat \<Rightarrow> bool" where
  "UpusSection_cuwpUsed sec cuwpIndex \<longleftrightarrow> (if cuwpIndex < MaxCuwps then cuwpUsedFlags sec ! cuwpIndex \<noteq> 0 else False)"

definition UpusSection_setCuwpUsed :: "nat \<Rightarrow> bool \<Rightarrow> UpusSection \<Rightarrow> UpusSection" where
  "UpusSection_setCuwpUsed cuwpIndex cuwpUsed sec =
    (if cuwpIndex < MaxCuwps
     then sec\<lparr>cuwpUsedFlags := (cuwpUsedFlags sec)[cuwpIndex := (if cuwpUsed then 1 else 0)]\<rparr> else sec)"

definition UpusSection_getNextUnusedCuwpIndex :: "UpusSection \<Rightarrow> nat" where
  "UpusSection_getNextUnusedCuwpIndex sec =
    (case find_index (\<lambda>i. cuwpUsedFlags sec ! i = 0) 0 MaxCuwps of Some i \<Rightarrow> i | None \<Rightarrow> MaxCuwps)"

section \<open>The sections of the triggers\<close>

record TriggerState =
  tr_uprp :: UprpSection
  tr_upus :: UpusSection
  tr_trig :: TrigSection
  tr_mbrf :: MbrfSection
  tr_swnm :: SwnmSection
  tr_wav :: WavSection
  tr_ktrg :: KtrgSection

definition CreateUnitWithProperties :: u8 where "CreateUnitWithProperties = 11"

definition Triggers_getCuwp :: "TriggerState \<Rightarrow> nat \<Rightarrow> Cuwp result" where
  "Triggers_getCuwp tr = UprpSection_getCuwp (tr_uprp tr)"

definition Triggers_setCuwp :: "nat \<Rightarrow> Cuwp \<Rightarrow> TriggerState \<Rightarrow> TriggerState" where
  "Triggers_setCuwp i cuwp tr = tr\<lparr>tr_uprp := UprpSection_setCuwp i cuwp (tr_uprp tr)\<rparr>"

text \<open>All slots are cleared, then the slot of every remaining creating action is marked.\<close>

definition Triggers_fixCuwpUsage :: "nat \<Rightarrow> nat \<Rightarrow> TriggerState \<Rightarrow> TriggerState" where
  "Triggers_fixCuwpUsage excludedTriggerIndex excludedTriggerActionIndex tr =
    (let ts = triggers (tr_trig tr);
         cleared = foldl (\<lambda>upus i. UpusSection_setCuwpUsed i False upus) (tr_upus tr) [0..<MaxCuwps]
     in tr\<lparr>tr_upus :=
          foldl (\<lambda>upus triggerIndex.
            foldl (\<lambda>upus actionIndex.
              let a = t_actions (ts ! triggerIndex) ! actionIndex in
              if a_actionType a = CreateUnitWithProperties \<and> unat (a_number a) < MaxCuwps \<and>
                 \<not> (triggerIndex = excludedTriggerIndex \<and> actionIndex = excludedTriggerActionIndex)
              then UpusSection_setCuwpUsed (unat (a_number a)) True upus else upus)
            upus [0..<MaxActions])
          cleared [0..<length ts]\<rparr>)"

definition Triggers_addCuwp :: "Cuwp \<Rightarrow> bool \<Rightarrow> nat \<Rightarrow> nat \<Rightarrow> TriggerState \<Rightarrow> nat \<times> TriggerState" where
  "Triggers_addCuwp cuwp fixUsageBeforeAdding excludedTriggerIndex excludedTriggerActionIndex tr =
    (let found = UprpSection_findCuwp (tr_uprp tr) cuwp in
     if found < MaxCuwps then (found, tr)
     else
       let tr1 = (if fixUsageBeforeAdding
             then Triggers_fixCuwpUsage excludedTriggerIndex excludedTriggerActionIndex tr else tr);
           nextUnused = UpusSection_getNextUnusedCuwpIndex (tr_upus tr1)
       in (nextUnused,
           if nextUnused < MaxCuwps
           then tr1\<lparr>tr_uprp := UprpSection_setCuwp nextUnused cuwp (tr_uprp tr1)\<rparr> else tr1))"

definition Triggers_cuwpUsed :: "TriggerState \<Rightarrow> nat \<Rightarrow> bool" where
  "Triggers_cuwpUsed tr = UpusSection_cuwpUsed (tr_upus tr)"

definition Triggers_setCuwpUsed :: "nat \<Rightarrow> bool \<Rightarrow> TriggerState \<Rightarrow> TriggerState" where
  "Triggers_setCuwpUsed i b tr = tr\<lparr>tr_upus := UpusSection_setCuwpUsed i b (tr_upus tr)\<rparr>"

section \<open>Extended trigger data\<close>

definition set_trigger :: "nat \<Rightarrow> Trigger \<Rightarrow> TriggerState \<Rightarrow> TriggerState" where
  "set_trigger i t tr = tr\<lparr>tr_trig := (tr_trig tr)\<lparr>triggers := (triggers (tr_trig tr))[i := t]\<rparr>\<rparr>"

definition set_extension :: "nat \<Rightarrow> ExtendedTrigData \<Rightarrow> TriggerState \<Rightarrow> TriggerState" where
  "set_extension e x tr = tr\<lparr>tr_ktrg := (tr_ktrg tr)\<lparr>extendedTrigData := (extendedTrigData (tr_ktrg tr))[e := Some x]\<rparr>\<rparr>"

text \<open>
  The two loops of \<open>fixTriggerExtensions\<close>. The first goes over the triggers and collects the indexes
  they validly use; the second over the entries that none of them uses. \<open>trig->getTrigger\<close> does not
  check its index, so an entry that names a trigger past the end is undefined.
\<close>

definition fixTrigger :: "TriggerState \<times> nat set \<Rightarrow> nat \<Rightarrow> TriggerState \<times> nat set" where
  "fixTrigger state i =
    (case state of (tr, used) \<Rightarrow>
       let t = triggers (tr_trig tr) ! i;
           e = Trigger_getExtendedDataIndex t
       in if e \<noteq> ExtendedTrigDataIndex_None then
            (case KtrgSection_getExtendedTrigger (tr_ktrg tr) e of
               None \<Rightarrow> (set_trigger i (Trigger_clearExtendedDataIndex t) tr, used)
             | Some x \<Rightarrow>
                 if e \<notin> used then (set_extension e (x\<lparr>x_trigNum := of_nat i\<rparr>) tr, insert e used)
                 else (set_trigger i (Trigger_clearExtendedDataIndex t) tr, used))
          else (tr, used))"

definition fixExtension :: "nat set \<Rightarrow> TriggerState \<Rightarrow> nat \<Rightarrow> TriggerState result" where
  "fixExtension used tr i =
    (case KtrgSection_getExtendedTrigger (tr_ktrg tr) i of
       None \<Rightarrow> Inr tr
     | Some x \<Rightarrow>
         if i \<notin> used then
           if x_trigNum x \<noteq> TrigNum_None then
             bind_result (TrigSection_getTrigger (tr_trig tr) (unat (x_trigNum x))) (\<lambda>t.
               if Trigger_getExtendedDataIndex t = ExtendedTrigDataIndex_None
               then bind_result (Trigger_setExtendedDataIndex i t) (\<lambda>t'. Inr (set_trigger (unat (x_trigNum x)) t' tr))
               else Inr tr)
           else Inr (tr\<lparr>tr_ktrg := KtrgSection_deleteExtendedTrigger i (tr_ktrg tr)\<rparr>)
         else Inr tr)"

definition Triggers_fixTriggerExtensions :: "TriggerState \<Rightarrow> TriggerState result" where
  "Triggers_fixTriggerExtensions tr =
    (case foldl fixTrigger (tr, {}) [0..<length (triggers (tr_trig tr))] of (tr1, used) \<Rightarrow>
       foldl (\<lambda>r i. bind_result r (\<lambda>tr. fixExtension used tr i)) (Inr tr1)
         [0..<KtrgSection_numExtendedTriggers (tr_ktrg tr1)])"

definition Triggers_addTrigger :: "Trigger \<Rightarrow> TriggerState \<Rightarrow> nat \<times> TriggerState" where
  "Triggers_addTrigger t tr =
    (case TrigSection_addTrigger t (tr_trig tr) of (i, trig) \<Rightarrow> (i, tr\<lparr>tr_trig := trig\<rparr>))"

definition Triggers_insertTrigger :: "nat \<Rightarrow> Trigger \<Rightarrow> TriggerState \<Rightarrow> TriggerState result" where
  "Triggers_insertTrigger i t tr =
    Triggers_fixTriggerExtensions (tr\<lparr>tr_trig := TrigSection_insertTrigger i t (tr_trig tr)\<rparr>)"

definition Triggers_deleteTrigger :: "nat \<Rightarrow> TriggerState \<Rightarrow> TriggerState result" where
  "Triggers_deleteTrigger i tr =
    Triggers_fixTriggerExtensions (tr\<lparr>tr_trig := TrigSection_deleteTrigger i (tr_trig tr)\<rparr>)"

definition Triggers_moveTrigger :: "nat \<Rightarrow> nat \<Rightarrow> TriggerState \<Rightarrow> TriggerState result" where
  "Triggers_moveTrigger from to tr =
    bind_result (TrigSection_moveTrigger from to (tr_trig tr))
      (\<lambda>trig. Triggers_fixTriggerExtensions (tr\<lparr>tr_trig := trig\<rparr>))"

text \<open>The call of \<open>fixTriggerExtensions\<close> in \<open>replaceRange\<close> stands behind its \<open>return\<close>.\<close>

definition Triggers_replaceRange ::
  "nat \<Rightarrow> nat \<Rightarrow> Trigger list \<Rightarrow> TriggerState \<Rightarrow> (Trigger list \<times> Trigger list \<times> TriggerState) result" where
  "Triggers_replaceRange beginIndex endIndex newTriggers tr =
    bind_result (TrigSection_replaceRange beginIndex endIndex newTriggers (tr_trig tr))
      (\<lambda>(replaced, left, trig). Inr (replaced, left, tr\<lparr>tr_trig := trig\<rparr>))"

text \<open>The index of the entry of a trigger, which is created on demand.\<close>

definition Triggers_getTriggerExtension :: "nat \<Rightarrow> bool \<Rightarrow> TriggerState \<Rightarrow> (nat option \<times> TriggerState) result" where
  "Triggers_getTriggerExtension triggerIndex addIfNotFound tr =
    bind_result (TrigSection_getTrigger (tr_trig tr) triggerIndex) (\<lambda>t.
      let e = Trigger_getExtendedDataIndex t in
      if KtrgSection_getExtendedTrigger (tr_ktrg tr) e \<noteq> None then Inr (Some e, tr)
      else if addIfNotFound then
        (case KtrgSection_addExtendedTrigger (Some ExtendedTrigData_new) (tr_ktrg tr) of (i, ktrg) \<Rightarrow>
           if i \<noteq> 0 then
             bind_result (Trigger_setExtendedDataIndex i t)
               (\<lambda>t'. Inr (Some i, set_trigger triggerIndex t' (tr\<lparr>tr_ktrg := ktrg\<rparr>)))
           else Inr (None, tr\<lparr>tr_ktrg := ktrg\<rparr>))
      else Inr (None, tr))"

definition Triggers_deleteTriggerExtension :: "nat \<Rightarrow> TriggerState \<Rightarrow> TriggerState result" where
  "Triggers_deleteTriggerExtension triggerIndex tr =
    bind_result (TrigSection_getTrigger (tr_trig tr) triggerIndex) (\<lambda>t.
      let e = Trigger_getExtendedDataIndex t in
      if e \<noteq> 0 then
        Inr ((set_trigger triggerIndex (Trigger_clearExtendedDataIndex t) tr)
          \<lparr>tr_ktrg := KtrgSection_deleteExtendedTrigger e (tr_ktrg tr)\<rparr>)
      else Inr tr)"

definition Triggers_getCommentStringId :: "TriggerState \<Rightarrow> nat \<Rightarrow> nat result" where
  "Triggers_getCommentStringId tr triggerIndex =
    bind_result (TrigSection_getTrigger (tr_trig tr) triggerIndex) (\<lambda>t. Inr (Trigger_getComment t))"

definition extensionOf :: "TriggerState \<Rightarrow> nat \<Rightarrow> ExtendedTrigData option result" where
  "extensionOf tr triggerIndex =
    bind_result (TrigSection_getTrigger (tr_trig tr) triggerIndex)
      (\<lambda>t. Inr (KtrgSection_getExtendedTrigger (tr_ktrg tr) (Trigger_getExtendedDataIndex t)))"

definition Triggers_getExtendedCommentStringId :: "TriggerState \<Rightarrow> nat \<Rightarrow> nat result" where
  "Triggers_getExtendedCommentStringId tr triggerIndex =
    bind_result (extensionOf tr triggerIndex)
      (\<lambda>x. Inr (case x of None \<Rightarrow> NoString | Some x \<Rightarrow> unat (x_commentStringId x)))"

definition Triggers_getExtendedNotesStringId :: "TriggerState \<Rightarrow> nat \<Rightarrow> nat result" where
  "Triggers_getExtendedNotesStringId tr triggerIndex =
    bind_result (extensionOf tr triggerIndex)
      (\<lambda>x. Inr (case x of None \<Rightarrow> NoString | Some x \<Rightarrow> unat (x_notesStringId x)))"

definition setExtended :: "(ExtendedTrigData \<Rightarrow> ExtendedTrigData) \<Rightarrow> nat \<Rightarrow> nat \<Rightarrow> TriggerState \<Rightarrow> TriggerState result" where
  "setExtended upd triggerIndex stringId tr =
    bind_result (Triggers_getTriggerExtension triggerIndex (stringId \<noteq> NoString) tr) (\<lambda>(found, tr1).
      case found of
        None \<Rightarrow> Inr tr1
      | Some e \<Rightarrow>
          (case KtrgSection_getExtendedTrigger (tr_ktrg tr1) e of
             None \<Rightarrow> Inr tr1
           | Some x \<Rightarrow>
               (let tr2 = set_extension e (upd x) tr1 in
                if stringId = NoString \<and> ExtendedTrigData_isBlank (upd x)
                then Triggers_deleteTriggerExtension triggerIndex tr2 else Inr tr2)))"

definition Triggers_setExtendedCommentStringId :: "nat \<Rightarrow> nat \<Rightarrow> TriggerState \<Rightarrow> TriggerState result" where
  "Triggers_setExtendedCommentStringId triggerIndex stringId =
    setExtended (\<lambda>x. x\<lparr>x_commentStringId := of_nat stringId\<rparr>) triggerIndex stringId"

definition Triggers_setExtendedNotesStringId :: "nat \<Rightarrow> nat \<Rightarrow> TriggerState \<Rightarrow> TriggerState result" where
  "Triggers_setExtendedNotesStringId triggerIndex stringId =
    setExtended (\<lambda>x. x\<lparr>x_notesStringId := of_nat stringId\<rparr>) triggerIndex stringId"

section \<open>Briefings, switches and sounds\<close>

definition Triggers_numTriggers :: "TriggerState \<Rightarrow> nat" where
  "Triggers_numTriggers tr = TrigSection_numTriggers (tr_trig tr)"

definition Triggers_getTrigger :: "TriggerState \<Rightarrow> nat \<Rightarrow> Trigger result" where
  "Triggers_getTrigger tr = TrigSection_getTrigger (tr_trig tr)"

definition Triggers_numBriefingTriggers :: "TriggerState \<Rightarrow> nat" where
  "Triggers_numBriefingTriggers tr = MbrfSection_numBriefingTriggers (tr_mbrf tr)"

definition Triggers_getBriefingTrigger :: "TriggerState \<Rightarrow> nat \<Rightarrow> Trigger result" where
  "Triggers_getBriefingTrigger tr = MbrfSection_getBriefingTrigger (tr_mbrf tr)"

definition Triggers_addBriefingTrigger :: "Trigger \<Rightarrow> TriggerState \<Rightarrow> nat \<times> TriggerState" where
  "Triggers_addBriefingTrigger t tr =
    (case MbrfSection_addBriefingTrigger t (tr_mbrf tr) of (i, mbrf) \<Rightarrow> (i, tr\<lparr>tr_mbrf := mbrf\<rparr>))"

definition Triggers_insertBriefingTrigger :: "nat \<Rightarrow> Trigger \<Rightarrow> TriggerState \<Rightarrow> TriggerState" where
  "Triggers_insertBriefingTrigger i t tr = tr\<lparr>tr_mbrf := MbrfSection_insertBriefingTrigger i t (tr_mbrf tr)\<rparr>"

definition Triggers_deleteBriefingTrigger :: "nat \<Rightarrow> TriggerState \<Rightarrow> TriggerState" where
  "Triggers_deleteBriefingTrigger i tr = tr\<lparr>tr_mbrf := MbrfSection_deleteBriefingTrigger i (tr_mbrf tr)\<rparr>"

definition Triggers_moveBriefingTrigger :: "nat \<Rightarrow> nat \<Rightarrow> TriggerState \<Rightarrow> TriggerState result" where
  "Triggers_moveBriefingTrigger from to tr =
    bind_result (MbrfSection_moveBriefingTrigger from to (tr_mbrf tr)) (\<lambda>mbrf. Inr (tr\<lparr>tr_mbrf := mbrf\<rparr>))"

definition Triggers_getSwitchNameStringId :: "TriggerState \<Rightarrow> nat \<Rightarrow> nat result" where
  "Triggers_getSwitchNameStringId tr = SwnmSection_getSwitchNameStringId (tr_swnm tr)"

definition Triggers_setSwitchNameStringId :: "nat \<Rightarrow> nat \<Rightarrow> TriggerState \<Rightarrow> TriggerState" where
  "Triggers_setSwitchNameStringId switchIndex stringId tr =
    tr\<lparr>tr_swnm := SwnmSection_setSwitchNameStringId switchIndex stringId (tr_swnm tr)\<rparr>"

definition Triggers_addSound :: "nat \<Rightarrow> TriggerState \<Rightarrow> nat \<times> TriggerState" where
  "Triggers_addSound stringId tr =
    (case WavSection_addSound stringId (tr_wav tr) of (i, wav) \<Rightarrow> (i, tr\<lparr>tr_wav := wav\<rparr>))"

definition Triggers_stringIsSound :: "TriggerState \<Rightarrow> nat \<Rightarrow> bool" where
  "Triggers_stringIsSound tr = WavSection_stringIsSound (tr_wav tr)"

definition Triggers_getSoundStringId :: "TriggerState \<Rightarrow> nat \<Rightarrow> nat result" where
  "Triggers_getSoundStringId tr = WavSection_getSoundStringId (tr_wav tr)"

definition Triggers_setSoundStringId :: "nat \<Rightarrow> nat \<Rightarrow> TriggerState \<Rightarrow> TriggerState" where
  "Triggers_setSoundStringId soundIndex stringId tr =
    tr\<lparr>tr_wav := WavSection_setSoundStringId soundIndex stringId (tr_wav tr)\<rparr>"

section \<open>Locations and strings\<close>

type_synonym scope = u32

definition Scope_None :: scope where "Scope_None = 0"
definition Scope_Game :: scope where "Scope_Game = 2"
definition Scope_Editor :: scope where "Scope_Editor = 4"
definition Scope_Either :: scope where "Scope_Either = 6"

definition anyFlag :: "u32 \<Rightarrow> u32 \<Rightarrow> bool" where
  "anyFlag userMask flags \<longleftrightarrow> userMask AND flags \<noteq> 0"

definition Triggers_locationUsed :: "TriggerState \<Rightarrow> nat \<Rightarrow> bool" where
  "Triggers_locationUsed tr = TrigSection_locationUsed (tr_trig tr)"

definition Triggers_markUsedLocations :: "TriggerState \<Rightarrow> (nat \<Rightarrow> bool) \<Rightarrow> nat \<Rightarrow> bool" where
  "Triggers_markUsedLocations tr = TrigSection_markUsedLocations (tr_trig tr)"

definition Triggers_remapLocationIds :: "(nat \<rightharpoonup> nat) \<Rightarrow> TriggerState \<Rightarrow> TriggerState" where
  "Triggers_remapLocationIds m tr = tr\<lparr>tr_trig := TrigSection_remapLocationIds m (tr_trig tr)\<rparr>"

definition Triggers_deleteLocation :: "nat \<Rightarrow> TriggerState \<Rightarrow> TriggerState" where
  "Triggers_deleteLocation locationId tr = tr\<lparr>tr_trig := TrigSection_deleteLocation locationId (tr_trig tr)\<rparr>"

definition Triggers_appendUsage :: "TriggerState \<Rightarrow> nat \<Rightarrow> StringUser list \<Rightarrow> scope \<Rightarrow> u32 \<Rightarrow> StringUser list" where
  "Triggers_appendUsage tr stringId stringUsers storageScope userMask =
    (let u1 = (if hasFlag storageScope Scope_Game then
           (let a = (if anyFlag userMask UserSound then WavSection_appendUsage (tr_wav tr) stringId stringUsers else stringUsers);
                b = (if anyFlag userMask UserSwitch then SwnmSection_appendUsage (tr_swnm tr) stringId a else a);
                c = (if anyFlag userMask AnyTrigger then TrigSection_appendUsage (tr_trig tr) stringId b userMask else b)
            in if anyFlag userMask AnyBriefingTrigger then MbrfSection_appendUsage (tr_mbrf tr) stringId c userMask else c)
         else stringUsers)
     in if hasFlag storageScope Scope_Editor \<and> anyFlag userMask AnyTriggerExtension
        then KtrgSection_appendUsage (tr_ktrg tr) stringId u1 userMask else u1)"

definition Triggers_stringUsed :: "scope \<Rightarrow> u32 \<Rightarrow> TriggerState \<Rightarrow> nat \<Rightarrow> bool" where
  "Triggers_stringUsed storageScope userMask tr stringId \<longleftrightarrow>
    (if storageScope = Scope_Game then
       hasFlag userMask UserSound \<and> WavSection_stringUsed (tr_wav tr) stringId \<or>
       hasFlag userMask UserSwitch \<and> SwnmSection_stringUsed (tr_swnm tr) stringId \<or>
       anyFlag userMask AnyTrigger \<and> TrigSection_stringUsed userMask (tr_trig tr) stringId \<or>
       anyFlag userMask AnyBriefingTrigger \<and> MbrfSection_stringUsed userMask (tr_mbrf tr) stringId
     else storageScope = Scope_Editor \<and> anyFlag userMask AnyTriggerExtension \<and>
       KtrgSection_editorStringUsed userMask (tr_ktrg tr) stringId)"

text \<open>The briefings are asked with their default mask here, whatever the user mask.\<close>

definition Triggers_gameStringUsed :: "u32 \<Rightarrow> TriggerState \<Rightarrow> nat \<Rightarrow> bool" where
  "Triggers_gameStringUsed userMask tr stringId \<longleftrightarrow>
    anyFlag userMask AnyTrigger \<and> TrigSection_gameStringUsed userMask (tr_trig tr) stringId \<or>
    anyFlag userMask AnyBriefingTrigger \<and> MbrfSection_stringUsed AnyBriefingTrigger (tr_mbrf tr) stringId"

definition Triggers_editorStringUsed :: "scope \<Rightarrow> u32 \<Rightarrow> TriggerState \<Rightarrow> nat \<Rightarrow> bool" where
  "Triggers_editorStringUsed storageScope userMask tr stringId \<longleftrightarrow>
    (if storageScope = Scope_Game then
       hasFlag userMask UserSound \<and> WavSection_stringUsed (tr_wav tr) stringId \<or>
       hasFlag userMask UserSwitch \<and> SwnmSection_stringUsed (tr_swnm tr) stringId \<or>
       hasFlag userMask TriggerAction \<and> TrigSection_commentStringUsed (tr_trig tr) stringId \<or>
       anyFlag userMask AnyTriggerExtension \<and> KtrgSection_editorStringUsed userMask (tr_ktrg tr) stringId
     else storageScope = Scope_Editor \<and> anyFlag userMask AnyTriggerExtension \<and>
       KtrgSection_editorStringUsed userMask (tr_ktrg tr) stringId)"

definition Triggers_markUsedStrings :: "scope \<Rightarrow> u32 \<Rightarrow> TriggerState \<Rightarrow> (nat \<Rightarrow> bool) \<Rightarrow> (nat \<Rightarrow> bool) result" where
  "Triggers_markUsedStrings storageScope userMask tr stringIdUsed =
    (if storageScope = Scope_Game then
       (let a = (if hasFlag userMask UserSound then WavSection_markUsedStrings (tr_wav tr) stringIdUsed else stringIdUsed);
            b = (if hasFlag userMask UserSwitch then SwnmSection_markUsedStrings (tr_swnm tr) a else a);
            c = (if anyFlag userMask AnyTrigger then TrigSection_markUsedStrings userMask (tr_trig tr) b else b)
        in Inr (if anyFlag userMask AnyBriefingTrigger then MbrfSection_markUsedStrings userMask (tr_mbrf tr) c else c))
     else if storageScope = Scope_Editor \<and> anyFlag userMask AnyTriggerExtension
       then KtrgSection_markUsedEditorStrings userMask (tr_ktrg tr) stringIdUsed
     else Inr stringIdUsed)"

text \<open>Both calls leave out the user mask and get the default of the section.\<close>

definition Triggers_markUsedGameStrings :: "u32 \<Rightarrow> TriggerState \<Rightarrow> (nat \<Rightarrow> bool) \<Rightarrow> nat \<Rightarrow> bool" where
  "Triggers_markUsedGameStrings userMask tr stringIdUsed =
    (let a = (if anyFlag userMask AnyTrigger then TrigSection_markUsedGameStrings AnyTrigger (tr_trig tr) stringIdUsed else stringIdUsed)
     in if anyFlag userMask AnyBriefingTrigger then MbrfSection_markUsedStrings AnyBriefingTrigger (tr_mbrf tr) a else a)"

definition Triggers_markUsedEditorStrings :: "scope \<Rightarrow> u32 \<Rightarrow> TriggerState \<Rightarrow> (nat \<Rightarrow> bool) \<Rightarrow> (nat \<Rightarrow> bool) result" where
  "Triggers_markUsedEditorStrings storageScope userMask tr stringIdUsed =
    (if storageScope = Scope_Game then
       (let a = (if hasFlag userMask UserSound then WavSection_markUsedStrings (tr_wav tr) stringIdUsed else stringIdUsed);
            b = (if hasFlag userMask UserSwitch then SwnmSection_markUsedStrings (tr_swnm tr) a else a)
        in Inr (if hasFlag userMask TriggerAction then TrigSection_markUsedCommentStrings (tr_trig tr) b else b))
     else if storageScope = Scope_Editor \<and> anyFlag userMask AnyTriggerExtension
       then KtrgSection_markUsedEditorStrings userMask (tr_ktrg tr) stringIdUsed
     else Inr stringIdUsed)"

definition Triggers_remapStringIds :: "(nat \<rightharpoonup> nat) \<Rightarrow> scope \<Rightarrow> TriggerState \<Rightarrow> TriggerState" where
  "Triggers_remapStringIds m storageScope tr =
    (if storageScope = Scope_Game then
       tr\<lparr>tr_wav := WavSection_remapStringIds m (tr_wav tr), tr_swnm := SwnmSection_remapStringIds m (tr_swnm tr),
          tr_trig := TrigSection_remapStringIds m (tr_trig tr), tr_mbrf := MbrfSection_remapStringIds m (tr_mbrf tr)\<rparr>
     else if storageScope = Scope_Editor then tr\<lparr>tr_ktrg := KtrgSection_remapEditorStringIds m (tr_ktrg tr)\<rparr>
     else tr)"

definition Triggers_deleteString :: "nat \<Rightarrow> scope \<Rightarrow> TriggerState \<Rightarrow> TriggerState" where
  "Triggers_deleteString stringId storageScope tr =
    (if storageScope = Scope_Game then
       tr\<lparr>tr_wav := WavSection_deleteString stringId (tr_wav tr), tr_swnm := SwnmSection_deleteString stringId (tr_swnm tr),
          tr_trig := TrigSection_deleteString stringId (tr_trig tr), tr_mbrf := MbrfSection_deleteString stringId (tr_mbrf tr)\<rparr>
     else if storageScope = Scope_Editor then tr\<lparr>tr_ktrg := KtrgSection_deleteEditorString stringId (tr_ktrg tr)\<rparr>
     else tr)"

end
