(* ===== verification/ScenarioStrings.thy ===== *)
theory ScenarioStrings
  imports ScenarioTriggers Kstr
begin

text \<open>
  The strings of a scenario as a whole (\<open>class Strings\<close> in \<open>src/MappingCoreLib/Scenario.cpp\<close>): the STR and
  KSTR tables with every section that names a string by id. \<open>Strings\<close> is the \<open>StrSynchronizer\<close> that the
  tables ask which ids are used and tell to renumber them; here both sides meet. \<open>Players\<close>, \<open>Properties\<close>
  and \<open>Layers\<close> enter with the sections that name strings. All sections are present.
\<close>

section \<open>The sections that name strings, by owner\<close>

definition Players_appendUsage :: "ForcSection \<Rightarrow> nat \<Rightarrow> StringUser list \<Rightarrow> u32 \<Rightarrow> StringUser list" where
  "Players_appendUsage forc stringId stringUsers userMask =
    (if hasFlag userMask UserForce then ForcSection_appendUsage forc stringId stringUsers else stringUsers)"

definition Players_stringUsed :: "u32 \<Rightarrow> ForcSection \<Rightarrow> nat \<Rightarrow> bool" where
  "Players_stringUsed userMask forc stringId \<longleftrightarrow> hasFlag userMask UserForce \<and> ForcSection_stringUsed forc stringId"

definition Players_markUsedStrings :: "u32 \<Rightarrow> ForcSection \<Rightarrow> (nat \<Rightarrow> bool) \<Rightarrow> nat \<Rightarrow> bool" where
  "Players_markUsedStrings userMask forc stringIdUsed =
    (if hasFlag userMask UserForce then ForcSection_markUsedStrings forc stringIdUsed else stringIdUsed)"

definition Players_remapStringIds :: "(nat \<rightharpoonup> nat) \<Rightarrow> ForcSection \<Rightarrow> ForcSection" where
  "Players_remapStringIds = ForcSection_remapStringIds"

definition Players_deleteString :: "nat \<Rightarrow> ForcSection \<Rightarrow> ForcSection" where
  "Players_deleteString = ForcSection_deleteString"

type_synonym unit_names = "UnisSection \<times> UnixSection"

definition Properties_appendUsage :: "unit_names \<Rightarrow> nat \<Rightarrow> StringUser list \<Rightarrow> u32 \<Rightarrow> StringUser list" where
  "Properties_appendUsage names stringId stringUsers userMask =
    (case names of (unis, unix) \<Rightarrow>
      let a = (if hasFlag userMask OriginalUnitSettings then UnisSection_appendUsage unis stringId stringUsers else stringUsers)
      in if hasFlag userMask ExpansionUnitSettings then UnixSection_appendUsage unix stringId a else a)"

definition Properties_stringUsed :: "u32 \<Rightarrow> unit_names \<Rightarrow> nat \<Rightarrow> bool" where
  "Properties_stringUsed userMask names stringId \<longleftrightarrow>
    (case names of (unis, unix) \<Rightarrow>
      hasFlag userMask OriginalUnitSettings \<and> UnisSection_stringUsed unis stringId \<or>
      hasFlag userMask ExpansionUnitSettings \<and> UnixSection_stringUsed unix stringId)"

definition Properties_markUsedStrings :: "u32 \<Rightarrow> unit_names \<Rightarrow> (nat \<Rightarrow> bool) \<Rightarrow> nat \<Rightarrow> bool" where
  "Properties_markUsedStrings userMask names stringIdUsed =
    (case names of (unis, unix) \<Rightarrow>
      let a = (if hasFlag userMask OriginalUnitSettings then UnisSection_markUsedStrings unis stringIdUsed else stringIdUsed)
      in if hasFlag userMask ExpansionUnitSettings then UnixSection_markUsedStrings unix a else a)"

definition Properties_remapStringIds :: "(nat \<rightharpoonup> nat) \<Rightarrow> unit_names \<Rightarrow> unit_names" where
  "Properties_remapStringIds m names =
    (case names of (unis, unix) \<Rightarrow> (UnisSection_remapStringIds m unis, UnixSection_remapStringIds m unix))"

definition Properties_deleteString :: "nat \<Rightarrow> unit_names \<Rightarrow> unit_names" where
  "Properties_deleteString stringId names =
    (case names of (unis, unix) \<Rightarrow> (UnisSection_deleteString stringId unis, UnixSection_deleteString stringId unix))"

definition Scope_GameOverEditor :: scope where "Scope_GameOverEditor = 8"
definition Scope_EditorOverGame :: scope where "Scope_EditorOverGame = 16"

definition Layers_appendUsage :: "MrgnSection \<Rightarrow> nat \<Rightarrow> StringUser list \<Rightarrow> u32 \<Rightarrow> StringUser list" where
  "Layers_appendUsage mrgn stringId stringUsers userMask =
    (if hasFlag userMask UserLocation then MrgnSection_appendUsage mrgn stringId stringUsers else stringUsers)"

definition Layers_stringUsed :: "scope \<Rightarrow> u32 \<Rightarrow> MrgnSection \<Rightarrow> OstrSection \<Rightarrow> nat \<Rightarrow> bool" where
  "Layers_stringUsed storageScope userMask mrgn ostr stringId \<longleftrightarrow>
    hasFlag userMask UserLocation \<and>
    (if storageScope \<in> {Scope_Either, Scope_EditorOverGame, Scope_GameOverEditor}
     then MrgnSection_stringUsed mrgn stringId \<or> OstrSection_stringUsed UserLocation ostr stringId
     else if storageScope = Scope_Game then MrgnSection_stringUsed mrgn stringId
     else if storageScope = Scope_Editor then OstrSection_stringUsed UserLocation ostr stringId
     else False)"

definition Layers_markUsedStrings :: "u32 \<Rightarrow> MrgnSection \<Rightarrow> (nat \<Rightarrow> bool) \<Rightarrow> (nat \<Rightarrow> bool) result" where
  "Layers_markUsedStrings userMask mrgn stringIdUsed =
    (if hasFlag userMask UserLocation then MrgnSection_markUsedStrings mrgn stringIdUsed else Inr stringIdUsed)"

definition Layers_remapStringIds :: "(nat \<rightharpoonup> nat) \<Rightarrow> MrgnSection \<Rightarrow> MrgnSection result" where
  "Layers_remapStringIds = MrgnSection_remapStringIds"

definition Layers_deleteString :: "nat \<Rightarrow> MrgnSection \<Rightarrow> MrgnSection result" where
  "Layers_deleteString = MrgnSection_deleteString"

section \<open>The synchronizer\<close>

record StringState =
  ss_sprp :: SprpSection
  ss_str :: StrSection
  ss_ostr :: OstrSection
  ss_kstr :: KstrSection
  ss_forc :: ForcSection
  ss_names :: unit_names
  ss_mrgn :: MrgnSection
  ss_triggers :: TriggerState

definition ScenarioPropertiesFlags :: u32 where "ScenarioPropertiesFlags = ScenarioName OR ScenarioDescription"
definition BothUnitSettings :: u32 where "BothUnitSettings = OriginalUnitSettings OR ExpansionUnitSettings"

definition Strings_hasExtendedStrings :: "StringState \<Rightarrow> bool" where
  "Strings_hasExtendedStrings ss \<longleftrightarrow> \<not> KstrSection_empty (ss_kstr ss)"

definition Strings_getCapacity :: "StringState \<Rightarrow> scope \<Rightarrow> nat" where
  "Strings_getCapacity ss storageScope =
    (if storageScope = Scope_Game then StrSection_getCapacity (ss_str ss)
     else if storageScope = Scope_Editor then KstrSection_getCapacity (ss_kstr ss) else 0)"

definition Strings_stringStored :: "StringState \<Rightarrow> nat \<Rightarrow> scope \<Rightarrow> bool" where
  "Strings_stringStored ss stringId storageScope \<longleftrightarrow>
    hasFlag storageScope Scope_Game \<and> StrSection_stringStored (ss_str ss) stringId \<or>
    hasFlag storageScope Scope_Editor \<and> KstrSection_stringStored (ss_kstr ss) stringId"

definition Strings_appendUsage :: "StringState \<Rightarrow> nat \<Rightarrow> StringUser list \<Rightarrow> scope \<Rightarrow> u32 \<Rightarrow> StringUser list" where
  "Strings_appendUsage ss stringId stringUsers storageScope userMask =
    (if storageScope = Scope_Game then
       if stringId < MaxStrings then
         let a = (if anyFlag userMask ScenarioPropertiesFlags then SprpSection_appendUsage (ss_sprp ss) stringId stringUsers userMask else stringUsers);
             b = (if anyFlag userMask UserForce then Players_appendUsage (ss_forc ss) stringId a userMask else a);
             c = (if anyFlag userMask BothUnitSettings then Properties_appendUsage (ss_names ss) stringId b userMask else b);
             d = (if anyFlag userMask UserLocation then Layers_appendUsage (ss_mrgn ss) stringId c userMask else c)
         in if anyFlag userMask AnyTrigger then Triggers_appendUsage (ss_triggers ss) stringId d storageScope userMask else d
       else if anyFlag userMask AnyTrigger then Triggers_appendUsage (ss_triggers ss) stringId stringUsers storageScope userMask
       else stringUsers
     else if storageScope = Scope_Editor then OstrSection_appendUsage (ss_ostr ss) stringId stringUsers userMask
     else stringUsers)"

definition Strings_stringUsed :: "StringState \<Rightarrow> nat \<Rightarrow> scope \<Rightarrow> scope \<Rightarrow> u32 \<Rightarrow> bool \<Rightarrow> bool" where
  "Strings_stringUsed ss stringId usageScope storageScope userMask ensureStored \<longleftrightarrow>
    (if storageScope = Scope_Game \<and> (StrSection_stringStored (ss_str ss) stringId \<or> \<not> ensureStored) then
       if stringId < MaxStrings then
         if usageScope = Scope_Editor then
           Layers_stringUsed storageScope userMask (ss_mrgn ss) (ss_ostr ss) stringId \<or>
           Triggers_editorStringUsed storageScope userMask (ss_triggers ss) stringId
         else if usageScope = Scope_Game then
           SprpSection_stringUsed userMask (ss_sprp ss) stringId \<or> Players_stringUsed userMask (ss_forc ss) stringId \<or>
           Properties_stringUsed userMask (ss_names ss) stringId \<or>
           Triggers_gameStringUsed userMask (ss_triggers ss) stringId
         else
           SprpSection_stringUsed userMask (ss_sprp ss) stringId \<or> Players_stringUsed userMask (ss_forc ss) stringId \<or>
           Properties_stringUsed userMask (ss_names ss) stringId \<or>
           Layers_stringUsed storageScope userMask (ss_mrgn ss) (ss_ostr ss) stringId \<or>
           Triggers_stringUsed storageScope userMask (ss_triggers ss) stringId
       else
         usageScope = Scope_Either \<and> Triggers_stringUsed storageScope userMask (ss_triggers ss) stringId \<or>
         usageScope = Scope_Game \<and> Triggers_gameStringUsed userMask (ss_triggers ss) stringId \<or>
         usageScope = Scope_Editor \<and> Triggers_editorStringUsed storageScope userMask (ss_triggers ss) stringId
     else if storageScope = Scope_Editor \<and> (KstrSection_stringStored (ss_kstr ss) stringId \<or> \<not> ensureStored) then
       OstrSection_stringUsed userMask (ss_ostr ss) stringId
     else False)"

definition Strings_markUsedStrings ::
  "StringState \<Rightarrow> scope \<Rightarrow> scope \<Rightarrow> u32 \<Rightarrow> (nat \<Rightarrow> bool) \<Rightarrow> (nat \<Rightarrow> bool) result" where
  "Strings_markUsedStrings ss usageScope storageScope userMask stringIdUsed =
    (if storageScope = Scope_Game then
       let markGameStrings = hasFlag usageScope Scope_Game;
           markEditorStrings = hasFlag usageScope Scope_Editor
       in bind_result
            (if markGameStrings then
               let a = SprpSection_markUsedStrings userMask (ss_sprp ss) stringIdUsed;
                   b = Players_markUsedStrings userMask (ss_forc ss) a;
                   c = Properties_markUsedStrings userMask (ss_names ss) b
               in if markEditorStrings then Triggers_markUsedStrings storageScope userMask (ss_triggers ss) c
                  else Inr (Triggers_markUsedGameStrings userMask (ss_triggers ss) c)
             else Inr stringIdUsed)
            (\<lambda>u. if markEditorStrings then
               bind_result (Layers_markUsedStrings userMask (ss_mrgn ss) u) (\<lambda>u.
                 if \<not> markGameStrings then Triggers_markUsedEditorStrings storageScope userMask (ss_triggers ss) u
                 else Inr u)
             else Inr u)
     else if storageScope = Scope_Editor then
       bind_result (OstrSection_markUsedStrings userMask (ss_ostr ss) stringIdUsed)
         (Triggers_markUsedStrings storageScope userMask (ss_triggers ss))
     else Inr stringIdUsed)"

text \<open>
  The last case of \<open>markValidUsedStrings\<close> keeps an id that either table stores, as far as both reach,
  then one that the longer table stores; past 65535 it would leave the bitset.
\<close>

definition Strings_markValidUsedStrings ::
  "StringState \<Rightarrow> scope \<Rightarrow> scope \<Rightarrow> u32 \<Rightarrow> (nat \<Rightarrow> bool) \<Rightarrow> (nat \<Rightarrow> bool) result" where
  "Strings_markValidUsedStrings ss usageScope storageScope userMask stringIdUsed =
    bind_result (Strings_markUsedStrings ss usageScope storageScope userMask stringIdUsed) (\<lambda>u.
      if storageScope = Scope_Game then Inr (StrSection_unmarkUnstoredStrings (ss_str ss) u)
      else if storageScope = Scope_Editor then Inr (KstrSection_unmarkUnstoredStrings (ss_kstr ss) u)
      else if storageScope = Scope_Either then
        if max (StrSection_getCapacity (ss_str ss)) (KstrSection_getCapacity (ss_kstr ss)) \<le> MaxStrings then
          Inr (\<lambda>i. u i \<and> (1 \<le> i \<and> i < MaxStrings \<longrightarrow>
            StrSection_stringStored (ss_str ss) i \<or> KstrSection_stringStored (ss_kstr ss) i))
        else Inl UndefinedBehavior
      else Inr u)"

definition Strings_getProperties :: "StringState \<Rightarrow> nat \<Rightarrow> StrProp" where
  "Strings_getProperties ss = KstrSection_getProperties (ss_kstr ss)"

definition Strings_setProperties :: "nat \<Rightarrow> StrProp \<Rightarrow> StringState \<Rightarrow> StringState" where
  "Strings_setProperties editorStringId prop ss = ss\<lparr>ss_kstr := KstrSection_setProperties editorStringId prop (ss_kstr ss)\<rparr>"

definition Strings_getString :: "StringType \<Rightarrow> StringState \<Rightarrow> nat \<Rightarrow> scope \<Rightarrow> string option" where
  "Strings_getString t ss stringId storageScope =
    (let editor = KstrSection_getString t (ss_kstr ss) stringId; game = StrSection_getString t (ss_str ss) stringId in
     if storageScope \<in> {Scope_Either, Scope_EditorOverGame} then (if editor \<noteq> None then editor else game)
     else if storageScope = Scope_Game then game
     else if storageScope = Scope_Editor then editor
     else if storageScope = Scope_GameOverEditor then (if game \<noteq> None then game else editor)
     else None)"

definition Strings_findString :: "StringType \<Rightarrow> StringState \<Rightarrow> string \<Rightarrow> scope \<Rightarrow> nat" where
  "Strings_findString t ss str storageScope =
    (let editor = KstrSection_findString t (ss_kstr ss) str; game = StrSection_findString t (ss_str ss) str in
     if storageScope = Scope_Game then game
     else if storageScope = Scope_Editor then editor
     else if storageScope \<in> {Scope_GameOverEditor, Scope_Either} then (if game \<noteq> NoString then game else editor)
     else if storageScope = Scope_EditorOverGame then (if editor \<noteq> NoString then editor else game)
     else NoString)"

definition Strings_remapStringIds :: "(nat \<rightharpoonup> nat) \<Rightarrow> scope \<Rightarrow> StringState \<Rightarrow> StringState result" where
  "Strings_remapStringIds m storageScope ss =
    (if storageScope = Scope_Game then
       bind_result (Layers_remapStringIds m (ss_mrgn ss)) (\<lambda>mrgn.
         Inr (ss\<lparr>ss_sprp := SprpSection_remapStringIds m (ss_sprp ss), ss_forc := Players_remapStringIds m (ss_forc ss),
           ss_names := Properties_remapStringIds m (ss_names ss), ss_mrgn := mrgn,
           ss_triggers := Triggers_remapStringIds m storageScope (ss_triggers ss)\<rparr>))
     else if storageScope = Scope_Editor then
       Inr (ss\<lparr>ss_ostr := OstrSection_remapStringIds m (ss_ostr ss),
         ss_triggers := Triggers_remapStringIds m storageScope (ss_triggers ss)\<rparr>)
     else Inr ss)"

section \<open>The tables with their users\<close>

text \<open>
  A table operation that asks for the used ids and returns a renumbering, run against the users.
\<close>

definition withGameTable ::
  "((nat \<Rightarrow> bool) \<Rightarrow> (nat \<Rightarrow> bool) \<Rightarrow> StrSection \<Rightarrow> ('a \<times> StrSection \<times> (nat \<rightharpoonup> nat)) result) \<Rightarrow> StringState
     \<Rightarrow> ('a \<times> StringState) result" where
  "withGameTable f ss =
    bind_result (Strings_markUsedStrings ss Scope_Either Scope_Game AllUsers (\<lambda>_. False)) (\<lambda>used.
    bind_result (Strings_markValidUsedStrings ss Scope_Either Scope_Game AllUsers (\<lambda>_. False)) (\<lambda>validUsed.
    bind_result (f used validUsed (ss_str ss)) (\<lambda>(x, str, remaps).
    bind_result (Strings_remapStringIds remaps Scope_Game (ss\<lparr>ss_str := str\<rparr>)) (\<lambda>ss'. Inr (x, ss')))))"

definition withEditorTable ::
  "((nat \<Rightarrow> bool) \<Rightarrow> (nat \<Rightarrow> bool) \<Rightarrow> KstrSection \<Rightarrow> ('a \<times> KstrSection \<times> (nat \<rightharpoonup> nat)) result) \<Rightarrow> StringState
     \<Rightarrow> ('a \<times> StringState) result" where
  "withEditorTable f ss =
    bind_result (Strings_markUsedStrings ss Scope_Either Scope_Editor AllUsers (\<lambda>_. False)) (\<lambda>used.
    bind_result (Strings_markValidUsedStrings ss Scope_Either Scope_Editor AllUsers (\<lambda>_. False)) (\<lambda>validUsed.
    bind_result (f used validUsed (ss_kstr ss)) (\<lambda>(x, kstr, remaps).
    bind_result (Strings_remapStringIds remaps Scope_Editor (ss\<lparr>ss_kstr := kstr\<rparr>)) (\<lambda>ss'. Inr (x, ss')))))"

definition Strings_setCapacity :: "nat \<Rightarrow> scope \<Rightarrow> bool \<Rightarrow> StringState \<Rightarrow> StringState result" where
  "Strings_setCapacity stringCapacity storageScope autoDefragment ss =
    (if storageScope = Scope_Game then
       if stringCapacity > MaxStrings then Inl MaximumStringsExceeded
       else bind_result (withGameTable (\<lambda>_ validUsed str.
           bind_result (StrSection_setCapacity stringCapacity validUsed autoDefragment str) (\<lambda>(str', m). Inr ((), str', m))) ss)
         (\<lambda>(_, ss'). Inr ss')
     else if storageScope = Scope_Editor then
       if stringCapacity > MaxStrings then Inl MaximumStringsExceeded
       else bind_result (withEditorTable (\<lambda>_ validUsed kstr.
           bind_result (KstrSection_setCapacity stringCapacity validUsed autoDefragment kstr) (\<lambda>(kstr', m). Inr ((), kstr', m))) ss)
         (\<lambda>(_, ss'). Inr ss')
     else Inr ss)"

text \<open>A string that is already stored is returned before the users are asked.\<close>

definition Strings_addString :: "StringType \<Rightarrow> string \<Rightarrow> scope \<Rightarrow> bool \<Rightarrow> StringState \<Rightarrow> (nat \<times> StringState) result" where
  "Strings_addString t str storageScope autoDefragment ss =
    (if storageScope = Scope_Game then
       if StrSection_findString t (ss_str ss) str \<noteq> NoString then Inr (StrSection_findString t (ss_str ss) str, ss)
       else withGameTable (\<lambda>used validUsed. StrSection_addString t str used validUsed autoDefragment) ss
     else if storageScope = Scope_Editor then
       if KstrSection_findString t (ss_kstr ss) str \<noteq> NoString then Inr (KstrSection_findString t (ss_kstr ss) str, ss)
       else withEditorTable (\<lambda>used validUsed. KstrSection_addString t str used validUsed autoDefragment) ss
     else Inr (NoString, ss))"

definition Strings_replaceString :: "StringType \<Rightarrow> nat \<Rightarrow> string \<Rightarrow> scope \<Rightarrow> StringState \<Rightarrow> StringState" where
  "Strings_replaceString t stringId str storageScope ss =
    (if storageScope = Scope_Game then ss\<lparr>ss_str := StrSection_replaceString t stringId str (ss_str ss)\<rparr>
     else if storageScope = Scope_Editor then ss\<lparr>ss_kstr := KstrSection_replaceString t stringId str (ss_kstr ss)\<rparr>
     else ss)"

definition deleteUnusedGame :: "StringState \<Rightarrow> StringState result" where
  "deleteUnusedGame ss =
    bind_result (Strings_markUsedStrings ss Scope_Either Scope_Game AllUsers (\<lambda>_. False))
      (\<lambda>used. Inr (ss\<lparr>ss_str := StrSection_deleteUnusedStrings used (ss_str ss)\<rparr>))"

definition deleteUnusedEditor :: "StringState \<Rightarrow> StringState result" where
  "deleteUnusedEditor ss =
    bind_result (Strings_markUsedStrings ss Scope_Either Scope_Editor AllUsers (\<lambda>_. False))
      (\<lambda>used. Inr (ss\<lparr>ss_kstr := KstrSection_deleteUnusedStrings used (ss_kstr ss)\<rparr>))"

definition Strings_deleteUnusedStrings :: "scope \<Rightarrow> StringState \<Rightarrow> StringState result" where
  "Strings_deleteUnusedStrings storageScope ss =
    (if storageScope = Scope_Game then deleteUnusedGame ss
     else if storageScope = Scope_Editor then deleteUnusedEditor ss
     else if storageScope = Scope_Either then bind_result (deleteUnusedGame ss) deleteUnusedEditor
     else Inr ss)"

text \<open>
  The table is asked first. \<open>StrSection::deleteString\<close> passes \<open>false\<close> where the user mask is expected, so it
  asks with an empty mask; \<open>KstrSection::deleteString\<close> passes both arguments.
\<close>

definition Strings_deleteString :: "nat \<Rightarrow> scope \<Rightarrow> bool \<Rightarrow> StringState \<Rightarrow> StringState result" where
  "Strings_deleteString stringId storageScope deleteOnlyIfUnused ss =
    bind_result
      (if hasFlag storageScope Scope_Game \<and>
          (\<not> deleteOnlyIfUnused \<or> \<not> Strings_stringUsed ss stringId Scope_Game Scope_Game AllUsers False) then
         let str = snd (StrSection_deleteString stringId deleteOnlyIfUnused
               (Some (Strings_stringUsed ss stringId Scope_Either Scope_Game 0 False)) (ss_str ss))
         in bind_result (Layers_deleteString stringId (ss_mrgn ss)) (\<lambda>mrgn.
              Inr (ss\<lparr>ss_str := str, ss_sprp := SprpSection_deleteString stringId (ss_sprp ss),
                ss_forc := Players_deleteString stringId (ss_forc ss),
                ss_names := Properties_deleteString stringId (ss_names ss), ss_mrgn := mrgn,
                ss_triggers := Triggers_deleteString stringId Scope_Game (ss_triggers ss)\<rparr>))
       else Inr ss)
      (\<lambda>ss. if hasFlag storageScope Scope_Editor \<and>
          (\<not> deleteOnlyIfUnused \<or> \<not> Strings_stringUsed ss stringId Scope_Either Scope_Editor AllUsers True) then
         let kstr = snd (KstrSection_deleteString stringId deleteOnlyIfUnused
               (Some (Strings_stringUsed ss stringId Scope_Either Scope_Editor AllUsers False)) (ss_kstr ss))
         in Inr (ss\<lparr>ss_kstr := kstr, ss_ostr := OstrSection_deleteString stringId (ss_ostr ss),
              ss_triggers := Triggers_deleteString stringId Scope_Editor (ss_triggers ss)\<rparr>)
       else Inr ss)"

text \<open>
  \<open>moveString\<close> of both tables passes its scope as the usage scope and leaves the storage scope at its
  default, \<open>Either\<close>.
\<close>

definition Strings_moveString :: "nat \<Rightarrow> nat \<Rightarrow> scope \<Rightarrow> StringState \<Rightarrow> StringState result option" where
  "Strings_moveString stringIdFrom stringIdTo storageScope ss =
    (if storageScope = Scope_Game then
       (case Strings_markUsedStrings ss Scope_Game Scope_Either AllUsers (\<lambda>_. False) of
          Inl e \<Rightarrow> Some (Inl e)
        | Inr used \<Rightarrow>
            map_option (\<lambda>r. bind_result r (\<lambda>(str, remaps). Strings_remapStringIds remaps Scope_Game (ss\<lparr>ss_str := str\<rparr>)))
              (StrSection_moveString stringIdFrom stringIdTo used (ss_str ss)))
     else if storageScope = Scope_Editor then
       (case Strings_markUsedStrings ss Scope_Editor Scope_Either AllUsers (\<lambda>_. False) of
          Inl e \<Rightarrow> Some (Inl e)
        | Inr used \<Rightarrow>
            map_option (\<lambda>r. bind_result r (\<lambda>(kstr, remaps). Strings_remapStringIds remaps Scope_Editor (ss\<lparr>ss_kstr := kstr\<rparr>)))
              (KstrSection_moveString stringIdFrom stringIdTo used (ss_kstr ss)))
     else Some (Inr ss))"

end
