(* ===== verification/StringSync.thy ===== *)
theory StringSync
  imports ScenarioStrings
begin

text \<open>
  How the string table and the sections that name strings stay together (\<open>class Strings\<close> in
  \<open>src/MappingCoreLib/Scenario.cpp\<close>). All sections that name game strings, taken together, are one user of
  the table: the interface \<open>id_referrer\<close> is instantiated with \<open>Strings::stringUsed\<close>, \<open>markUsedStrings\<close> and
  \<open>remapStringIds\<close>. The properties say what the operations of \<open>Strings\<close> do to the strings that are in use.
\<close>

section \<open>The game strings a scenario refers to\<close>

interpretation mbrf_str: id_referrer MaxStrings "\<lambda>_. True" "MbrfSection_strings userMask"
    "MbrfSection_stringUsed userMask" "MbrfSection_markUsedStrings userMask" MbrfSection_remapStringIds
  for userMask
proof -
  have "id_remapper MaxStrings (\<lambda>_. True) (MbrfSection_strings userMask) (MbrfSection_stringUsed userMask)
      (MbrfSection_markUsedStrings userMask)
      (\<lambda>i sec. sec\<lparr>briefingTriggers := map (Trigger_deleteBriefingString i) (briefingTriggers sec)\<rparr>) MbrfSection_remapStringIds"
    using lift_view [OF trigger_brief.lift_list_remap [of userMask], of briefingTriggers
        "\<lambda>i sec. sec\<lparr>briefingTriggers := map (Trigger_deleteBriefingString i) (briefingTriggers sec)\<rparr>" MbrfSection_remapStringIds]
    by (simp add: MbrfSection_strings_def [abs_def] MbrfSection_stringUsed_def [abs_def]
        MbrfSection_markUsedStrings_def [abs_def] MbrfSection_remapStringIds_def)
  then show "id_referrer MaxStrings (\<lambda>_. True) (MbrfSection_strings userMask) (MbrfSection_stringUsed userMask)
      (MbrfSection_markUsedStrings userMask) MbrfSection_remapStringIds"
    by (simp add: user_defs id_referrer_def)
qed

definition Strings_gameRefs :: "u32 \<Rightarrow> StringState \<Rightarrow> nat set" where
  "Strings_gameRefs userMask ss =
    SprpSection_strings userMask (ss_sprp ss) \<union>
    (if hasFlag userMask UserForce then ForcSection_strings (ss_forc ss) else {}) \<union>
    (if hasFlag userMask OriginalUnitSettings then UnisSection_strings (fst (ss_names ss)) else {}) \<union>
    (if hasFlag userMask ExpansionUnitSettings then UnixSection_strings (snd (ss_names ss)) else {}) \<union>
    (if hasFlag userMask UserLocation then MrgnSection_strings (ss_mrgn ss) else {}) \<union>
    (if hasFlag userMask UserSound then WavSection_strings (tr_wav (ss_triggers ss)) else {}) \<union>
    (if hasFlag userMask UserSwitch then SwnmSection_strings (tr_swnm (ss_triggers ss)) else {}) \<union>
    (if anyFlag userMask AnyTrigger then TrigSection_strings userMask (tr_trig (ss_triggers ss)) else {}) \<union>
    (if anyFlag userMask AnyBriefingTrigger then MbrfSection_strings userMask (tr_mbrf (ss_triggers ss)) else {})"

lemmas game_used_iffs = sprp_str.used_iff forc_str.used_iff unis_str.used_iff unix_str.used_iff
  mrgn_str.used_iff wav_str.used_iff swnm_str.used_iff trig_str.used_iff mbrf_str.used_refs

lemmas game_mark_iffs = sprp_str.mark_iff forc_str.mark_iff unis_str.mark_iff unix_str.mark_iff
  mrgn_str.mark_iff wav_str.mark_iff swnm_str.mark_iff trig_str.mark_iff mbrf_str.mark_refs

lemmas game_refs_remap = sprp_str.refs_remap forc_str.refs_remap unis_str.refs_remap unix_str.refs_remap
  mrgn_str.refs_remap wav_str.refs_remap swnm_str.refs_remap trig_str.refs_remap mbrf_str.refs_renumber

lemma scopes [simp]:
  "Scope_Game \<noteq> Scope_Editor" "Scope_Editor \<noteq> Scope_Game" "Scope_Game \<noteq> Scope_Either" "Scope_Either \<noteq> Scope_Game"
  "Scope_Editor \<noteq> Scope_Either" "Scope_Either \<noteq> Scope_Editor"
  "hasFlag Scope_Either Scope_Game" "hasFlag Scope_Either Scope_Editor"
  "Scope_Game \<noteq> Scope_EditorOverGame" "Scope_Game \<noteq> Scope_GameOverEditor"
  by (simp_all add: Scope_Game_def Scope_Editor_def Scope_Either_def Scope_EditorOverGame_def
      Scope_GameOverEditor_def hasFlag_def)

lemma MrgnSection_mark_total:
  "wf_MrgnSection sec \<Longrightarrow> MrgnSection_markUsedStrings sec u = Inr (marked MrgnSection_markUsedStrings sec u)"
  by (simp add: marked_def MrgnSection_strings_total(3))

lemma game_used:
  assumes "wf_MrgnSection (ss_mrgn ss)" "0 < i" "i < MaxStrings"
  shows "Strings_stringUsed ss i Scope_Either Scope_Game userMask False \<longleftrightarrow> i \<in> Strings_gameRefs userMask ss"
  using assms
  by (cases "ss_names ss")
    (simp add: Strings_stringUsed_def Strings_gameRefs_def Players_stringUsed_def Properties_stringUsed_def
      Layers_stringUsed_def Triggers_stringUsed_def game_used_iffs disj_ac)

lemma game_mark:
  assumes "wf_MrgnSection (ss_mrgn ss)"
  shows "\<exists>u'. Strings_markUsedStrings ss Scope_Either Scope_Game userMask u = Inr u' \<and>
    (\<forall>i. u' i \<longleftrightarrow> u i \<or> (0 < i \<and> i < MaxStrings \<and> i \<in> Strings_gameRefs userMask ss))"
  using assms
  by (cases "ss_names ss")
    (auto simp: Strings_markUsedStrings_def Strings_gameRefs_def Players_markUsedStrings_def
      Properties_markUsedStrings_def Layers_markUsedStrings_def Triggers_markUsedStrings_def Let_def
      MrgnSection_mark_total game_mark_iffs)

lemma game_remap:
  assumes "wf_MrgnSection (ss_mrgn ss)" "ran m \<subseteq> {..<MaxStrings}"
  shows "\<exists>ss'. Strings_remapStringIds m Scope_Game ss = Inr ss' \<and> wf_MrgnSection (ss_mrgn ss') \<and>
    ss_str ss' = ss_str ss \<and> ss_kstr ss' = ss_kstr ss \<and> ss_ostr ss' = ss_ostr ss \<and>
    Strings_gameRefs userMask ss' = renumber m ` Strings_gameRefs userMask ss"
proof -
  obtain mrgn where mrgn: "MrgnSection_remapStringIds m (ss_mrgn ss) = Inr mrgn" "wf_MrgnSection mrgn"
    using MrgnSection_strings_total(2) [OF assms(1), of m] by blast
  have "MrgnSection_strings mrgn = renumber m ` MrgnSection_strings (ss_mrgn ss)"
    using mrgn_str.refs_remap [OF assms] mrgn(1) by simp
  then show ?thesis using assms(2) mrgn
    by (cases "ss_names ss")
     (simp add: Strings_remapStringIds_def Layers_remapStringIds_def Strings_gameRefs_def Players_remapStringIds_def
      Properties_remapStringIds_def Triggers_remapStringIds_def game_refs_remap image_Un)
qed


interpretation game_str: id_referrer MaxStrings "\<lambda>ss. wf_MrgnSection (ss_mrgn ss)" "Strings_gameRefs userMask"
    "\<lambda>ss i. Strings_stringUsed ss i Scope_Either Scope_Game userMask False"
    "marked (\<lambda>ss. Strings_markUsedStrings ss Scope_Either Scope_Game userMask)"
    "\<lambda>m ss. succeed ss (Strings_remapStringIds m Scope_Game ss)"
  for userMask
proof (rule id_referrer.intro)
  fix ss :: StringState and u i
  assume wf: "wf_MrgnSection (ss_mrgn ss)"
  obtain u' where "Strings_markUsedStrings ss Scope_Either Scope_Game userMask u = Inr u'"
    "\<forall>i. u' i \<longleftrightarrow> u i \<or> (0 < i \<and> i < MaxStrings \<and> i \<in> Strings_gameRefs userMask ss)"
    using game_mark [OF wf, of userMask u] by blast
  then show "marked (\<lambda>ss. Strings_markUsedStrings ss Scope_Either Scope_Game userMask) ss u i \<longleftrightarrow>
      u i \<or> 0 < i \<and> i < MaxStrings \<and> i \<in> Strings_gameRefs userMask ss"
    by (simp add: marked_def)
next
  fix ss :: StringState and m :: "nat \<rightharpoonup> nat"
  assume wf: "wf_MrgnSection (ss_mrgn ss)" "ran m \<subseteq> {..<MaxStrings}"
  obtain ss' where r: "Strings_remapStringIds m Scope_Game ss = Inr ss'" "wf_MrgnSection (ss_mrgn ss')"
    "Strings_gameRefs userMask ss' = renumber m ` Strings_gameRefs userMask ss"
    using game_remap [OF wf, of userMask] by blast
  show "wf_MrgnSection (ss_mrgn (succeed ss (Strings_remapStringIds m Scope_Game ss)))" by (simp add: r)
  show "Strings_gameRefs userMask (succeed ss (Strings_remapStringIds m Scope_Game ss)) =
      renumber m ` Strings_gameRefs userMask ss" by (simp add: r)
qed (rule game_used)

lemma game_mark_total:
  assumes "wf_MrgnSection (ss_mrgn ss)"
  shows "Strings_markUsedStrings ss Scope_Either Scope_Game userMask u =
    Inr (marked (\<lambda>ss. Strings_markUsedStrings ss Scope_Either Scope_Game userMask) ss u)"
  using game_mark [OF assms, of userMask u] by (auto simp: marked_def)

lemma game_remap_total:
  assumes "wf_MrgnSection (ss_mrgn ss)"
  shows "Strings_remapStringIds m Scope_Game ss = Inr (succeed ss (Strings_remapStringIds m Scope_Game ss))"
  using MrgnSection_strings_total(2) [OF assms, of m]
  by (auto simp: Strings_remapStringIds_def Layers_remapStringIds_def)

section \<open>Properties\<close>


lemma valid_used_stored:
  assumes "wf_MrgnSection (ss_mrgn ss)"
  shows "\<exists>v. Strings_markValidUsedStrings ss Scope_Either Scope_Game userMask (\<lambda>_. False) = Inr v \<and>
    (\<forall>i. v i \<longleftrightarrow> 0 < i \<and> i < MaxStrings \<and> i \<in> Strings_gameRefs userMask ss \<and> StrSection_stringStored (ss_str ss) i)"
  using assms
  by (auto simp: Strings_markValidUsedStrings_def game_mark_total game_str.mark_refs
      StrSection_unmarkUnstoredStrings_def StrSection_stringStored_def Let_def)

lemma wf_with_str [simp]: "wf_MrgnSection (ss_mrgn (ss\<lparr>ss_str := str\<rparr>)) = wf_MrgnSection (ss_mrgn ss)"
  by simp

lemma gameRefs_str [simp]: "Strings_gameRefs userMask (ss\<lparr>ss_str := str\<rparr>) = Strings_gameRefs userMask ss"
  by (simp add: Strings_gameRefs_def)

text \<open>What a table operation leaves when it asks the users and renumbers them.\<close>

lemma withGameTable_Inr:
  assumes "wf_MrgnSection (ss_mrgn ss)" "withGameTable f ss = Inr (x, ss')"
  obtains used validUsed str m where "f used validUsed (ss_str ss) = Inr (x, str, m)"
    and "\<And>i. used i \<longleftrightarrow> 0 < i \<and> i < MaxStrings \<and> i \<in> Strings_gameRefs AllUsers ss"
    and "\<And>i. validUsed i \<longleftrightarrow> used i \<and> StrSection_stringStored (ss_str ss) i"
    and "ss_str ss' = str" "wf_MrgnSection (ss_mrgn ss')"
    and "Strings_remapStringIds m Scope_Game (ss\<lparr>ss_str := str\<rparr>) = Inr ss'"
    and "ran m \<subseteq> {..<MaxStrings} \<Longrightarrow> Strings_gameRefs userMask ss' = renumber m ` Strings_gameRefs userMask ss"
proof -
  let ?u = "marked (\<lambda>ss. Strings_markUsedStrings ss Scope_Either Scope_Game AllUsers) ss (\<lambda>_. False)"
  obtain v where v: "Strings_markValidUsedStrings ss Scope_Either Scope_Game AllUsers (\<lambda>_. False) = Inr v"
    "\<forall>i. v i \<longleftrightarrow> 0 < i \<and> i < MaxStrings \<and> i \<in> Strings_gameRefs AllUsers ss \<and> StrSection_stringStored (ss_str ss) i"
    using valid_used_stored [OF assms(1)] by blast
  obtain str m where f: "f ?u v (ss_str ss) = Inr (x, str, m)"
    and r: "Strings_remapStringIds m Scope_Game (ss\<lparr>ss_str := str\<rparr>) = Inr ss'"
    using assms by (auto simp: withGameTable_def game_mark_total v(1) bind_result_eq_Inr)
  obtain mrgn where "MrgnSection_remapStringIds m (ss_mrgn ss) = Inr mrgn" "wf_MrgnSection mrgn"
    using MrgnSection_strings_total(2) [OF assms(1), of m] by blast
  then have "ss_str ss' = str" "wf_MrgnSection (ss_mrgn ss')"
    using r by (auto simp: Strings_remapStringIds_def Layers_remapStringIds_def)
  moreover have "Strings_gameRefs userMask ss' = renumber m ` Strings_gameRefs userMask ss" if "ran m \<subseteq> {..<MaxStrings}"
    using game_remap [of "ss\<lparr>ss_str := str\<rparr>" m userMask] assms(1) that r by auto
  ultimately show ?thesis using that [OF f] v(2) r assms(1) by (auto simp: game_str.mark_refs)
qed

lemma stringUsed_eq:
  "wf_MrgnSection (ss_mrgn ss) \<Longrightarrow> wf_MrgnSection (ss_mrgn ss') \<Longrightarrow>
   Strings_gameRefs userMask ss' = Strings_gameRefs userMask ss \<Longrightarrow> 0 < i \<Longrightarrow> i < MaxStrings \<Longrightarrow>
   Strings_stringUsed ss' i Scope_Either Scope_Game userMask False =
   Strings_stringUsed ss i Scope_Either Scope_Game userMask False"
  by (simp add: game_used)

lemma getString_game [simp]: "Strings_getString t ss i Scope_Game = StrSection_getString t (ss_str ss) i"
  by (simp add: Strings_getString_def)

lemma findString_game [simp]: "Strings_findString t ss str Scope_Game = StrSection_findString t (ss_str ss) str"
  by (simp add: Strings_findString_def)

text \<open>A string that is not in the table: what the operation leaves, in terms of the next unused id.\<close>

lemma addString_game_new:
  assumes "wf_MrgnSection (ss_mrgn ss)" "strings (ss_str ss) \<noteq> []"
    and new: "StrSection_findString t (ss_str ss) str = NoString"
    and add: "Strings_addString t str Scope_Game autoDefragment ss = Inr (stringId, ss')"
  shows "0 < stringId" "stringId < MaxStrings" "stringId \<notin> Strings_gameRefs AllUsers ss"
    "strings (ss_str ss') = (resizeStrings (max (stringId + 1) (length (strings (ss_str ss)))) (strings (ss_str ss)))
       [stringId := Some (ScStr_new (convertStr t RawString str))]"
    "wf_MrgnSection (ss_mrgn ss')" "\<And>userMask. Strings_gameRefs userMask ss' = Strings_gameRefs userMask ss"
    "Strings_remapStringIds Map.empty Scope_Game (ss\<lparr>ss_str := ss_str ss'\<rparr>) = Inr ss'"
proof -
  have tbl: "withGameTable (\<lambda>used validUsed. StrSection_addString t str used validUsed autoDefragment) ss = Inr (stringId, ss')"
    using add new by (simp add: Strings_addString_def)
  obtain used validUsed sec m where f: "StrSection_addString t str used validUsed autoDefragment (ss_str ss) = Inr (stringId, sec, m)"
    and used: "\<And>i. used i \<longleftrightarrow> 0 < i \<and> i < MaxStrings \<and> i \<in> Strings_gameRefs AllUsers ss"
    and valid: "\<And>i. validUsed i \<longleftrightarrow> used i \<and> StrSection_stringStored (ss_str ss) i"
    and st: "ss_str ss' = sec" "wf_MrgnSection (ss_mrgn ss')"
    and rem: "Strings_remapStringIds m Scope_Game (ss\<lparr>ss_str := sec\<rparr>) = Inr ss'"
    by (rule withGameTable_Inr [OF assms(1) tbl]) blast
  define nxt where "nxt = StrSection_getNextUnusedStringId (ss_str ss) used True 1"
  have eq: "(if nxt = 0 then Inl MaximumStringsExceeded else Inr (nxt, (ss_str ss)\<lparr>strings :=
      (resizeStrings (max (nxt + 1) (length (strings (ss_str ss)))) (strings (ss_str ss)))
       [nxt := Some (ScStr_new (convertStr t RawString str))]\<rparr>, Map.empty)) = Inr (stringId, sec, m)"
    using addString_new [OF new assms(2) _ nxt_def, of validUsed autoDefragment] f
    by (simp add: valid StrSection_stringStored_def)
  have nz: "nxt \<noteq> 0"
  proof
    assume "nxt = 0"
    with eq show False by simp
  qed
  have r: "stringId = nxt" "m = Map.empty"
    "sec = (ss_str ss)\<lparr>strings := (resizeStrings (max (nxt + 1) (length (strings (ss_str ss)))) (strings (ss_str ss)))
       [nxt := Some (ScStr_new (convertStr t RawString str))]\<rparr>"
    using eq nz by auto
  note fresh = getNextUnused_fresh [OF nxt_def [symmetric] nz]
  show "0 < stringId" "stringId < MaxStrings" "stringId \<notin> Strings_gameRefs AllUsers ss"
    using fresh r(1) used nz by auto
  show "strings (ss_str ss') = (resizeStrings (max (stringId + 1) (length (strings (ss_str ss)))) (strings (ss_str ss)))
       [stringId := Some (ScStr_new (convertStr t RawString str))]" using st(1) r by simp
  show "wf_MrgnSection (ss_mrgn ss')" by (rule st(2))
  show "Strings_gameRefs userMask ss' = Strings_gameRefs userMask ss" for userMask
    using game_remap [of "ss\<lparr>ss_str := sec\<rparr>" m userMask] assms(1) rem r(2) by (auto simp: renumber_def)
  show "Strings_remapStringIds Map.empty Scope_Game (ss\<lparr>ss_str := ss_str ss'\<rparr>) = Inr ss'" using rem r(2) st(1) by simp
qed

lemma addString_game_Inr:
  assumes "wf_MrgnSection (ss_mrgn ss)" "strings (ss_str ss) \<noteq> []"
    and "Strings_addString t str Scope_Game autoDefragment ss = Inr (stringId, ss')"
  shows "0 < stringId \<and> stringId < Strings_getCapacity ss' Scope_Game \<and>
    slotEquals t (strings (ss_str ss') ! stringId) str \<and>
    (\<forall>i. i \<noteq> stringId \<longrightarrow> Strings_getString RawString ss' i Scope_Game = Strings_getString RawString ss i Scope_Game) \<and>
    (\<forall>i userMask. 0 < i \<and> i < MaxStrings \<longrightarrow> Strings_stringUsed ss' i Scope_Either Scope_Game userMask False =
      Strings_stringUsed ss i Scope_Either Scope_Game userMask False) \<and>
    (ss' = ss \<or> Strings_findString t ss str Scope_Game = NoString \<and>
      \<not> Strings_stringUsed ss stringId Scope_Either Scope_Game AllUsers False)"
proof (cases "StrSection_findString t (ss_str ss) str = NoString")
  case False
  then have "stringId = StrSection_findString t (ss_str ss) str" "ss' = ss"
    using assms(3) by (auto simp: Strings_addString_def)
  then show ?thesis using findString_Some [OF False] False by (simp add: NoString_def Strings_getCapacity_def StrSection_getCapacity_def)
next
  case True
  note new = addString_game_new [OF assms(1,2) True assms(3)]
  have "StrSection_getString RawString (ss_str ss') i = StrSection_getString RawString (ss_str ss) i" if "i \<noteq> stringId" for i
    using that new(4) by (simp add: raw_getString nth_resizeStrings less_max_iff_disj)
  then show ?thesis
    using True new stringUsed_eq [OF assms(1) new(5,6)] game_used [OF assms(1) new(1,2)]
    by (simp add: slotEquals_new Strings_getCapacity_def StrSection_getCapacity_def)
qed

text \<open>
  \<open>Strings::deleteUnusedStrings\<close> on the game strings: exactly the strings that some section uses are
  still stored, with their text, the capacity stays, and no section changes.
\<close>

lemma Strings_deleteUnusedStrings_spec:
  assumes "wf_MrgnSection (ss_mrgn ss)"
  shows "\<exists>str'. Strings_deleteUnusedStrings Scope_Game ss = Inr (ss\<lparr>ss_str := str'\<rparr>) \<and>
    StrSection_getCapacity str' = StrSection_getCapacity (ss_str ss) \<and>
    (\<forall>i. 0 < i \<and> i < MaxStrings \<longrightarrow> StrSection_getString t str' i =
      (if Strings_stringUsed ss i Scope_Either Scope_Game AllUsers False
       then StrSection_getString t (ss_str ss) i else None))"
proof -
  let ?used = "marked (\<lambda>ss. Strings_markUsedStrings ss Scope_Either Scope_Game AllUsers) ss (\<lambda>_. False)"
  let ?str = "StrSection_deleteUnusedStrings ?used (ss_str ss)"
  have "Strings_deleteUnusedStrings Scope_Game ss = Inr (ss\<lparr>ss_str := ?str\<rparr>)"
    using assms by (simp add: Strings_deleteUnusedStrings_def deleteUnusedGame_def game_mark_total)
  moreover have "StrSection_getString t ?str i =
      (if Strings_stringUsed ss i Scope_Either Scope_Game AllUsers False then StrSection_getString t (ss_str ss) i else None)"
    if "0 < i" "i < MaxStrings" for i
    using that game_str.mark_is_used [OF assms that, of AllUsers "\<lambda>_. False"]
    by (auto simp: StrSection_getString_def StrSection_deleteUnusedStrings_def)
  ultimately show ?thesis by (auto simp: StrSection_getCapacity_def StrSection_deleteUnusedStrings_def)
qed

lemma moveString_game:
  assumes "0 < from" "0 < to" "from \<noteq> to"
    and "from < Strings_getCapacity ss Scope_Game" "to < Strings_getCapacity ss Scope_Game"
  shows "Strings_moveString from to Scope_Game ss = Some (Strings_remapStringIds [from \<mapsto> to] Scope_Game
    (ss\<lparr>ss_str := (ss_str ss)\<lparr>strings := (strings (ss_str ss))[to := strings (ss_str ss) ! from]\<rparr>\<rparr>))"
proof -
  let ?str = "(ss_str ss)\<lparr>strings := (strings (ss_str ss))[to := strings (ss_str ss) ! from]\<rparr>"
  have lt: "from < length (strings (ss_str ss))" "to < length (strings (ss_str ss))"
    using assms(4,5) by (simp_all add: Strings_getCapacity_def StrSection_getCapacity_def)
  have "StrSection_moveString from to (\<lambda>_. False) (ss_str ss) = Some (Inr (?str, [from \<mapsto> to]))"
    using assms(1-3) lt
    by (simp add: StrSection_moveString_def Let_def cascadeUp.simps [of to] cascadeDown.simps [of to] map_insert_def)
  moreover have "Strings_markUsedStrings ss Scope_Game Scope_Either AllUsers (\<lambda>_. False) = Inr (\<lambda>_. False)"
    by (simp add: Strings_markUsedStrings_def)
  ultimately show ?thesis by (simp add: Strings_moveString_def)
qed

text \<open>
  \<open>Strings::moveString\<close> never makes room. It asks for the used strings with a storage scope for which none
  are reported, so the string that is at the target is overwritten even when it is in use, and the
  sections that use it and those that used the moved string end up with the same text.
\<close>

lemma Strings_moveString_overwrites:
  assumes "wf_MrgnSection (ss_mrgn ss)" "0 < from" "0 < to" "from \<noteq> to"
    and "from < Strings_getCapacity ss Scope_Game" "to < Strings_getCapacity ss Scope_Game"
    and "from < MaxStrings" "to < MaxStrings"
  shows "\<exists>ss'. Strings_moveString from to Scope_Game ss = Some (Inr ss') \<and>
    (\<forall>i. Strings_getString t ss' i Scope_Game =
      Strings_getString t ss (if i = to then from else i) Scope_Game) \<and>
    (\<forall>i userMask. 0 < i \<and> i < MaxStrings \<longrightarrow> Strings_stringUsed ss' i Scope_Either Scope_Game userMask False =
      (i \<noteq> from \<and> Strings_stringUsed ss i Scope_Either Scope_Game userMask False \<or>
       i = to \<and> Strings_stringUsed ss from Scope_Either Scope_Game userMask False))"
proof -
  let ?str = "(ss_str ss)\<lparr>strings := (strings (ss_str ss))[to := strings (ss_str ss) ! from]\<rparr>"
  let ?m = "[from \<mapsto> to]"
  have ran: "ran ?m \<subseteq> {..<MaxStrings}" using assms(8) by simp
  have lt: "from < length (strings (ss_str ss))" "to < length (strings (ss_str ss))"
    using assms(5,6) by (simp_all add: Strings_getCapacity_def StrSection_getCapacity_def)
  note mv = moveString_game [OF assms(2-6)]
  obtain ss' where ss': "Strings_remapStringIds ?m Scope_Game (ss\<lparr>ss_str := ?str\<rparr>) = Inr ss'"
    "wf_MrgnSection (ss_mrgn ss')" "ss_str ss' = ?str"
    using game_remap [OF _ ran, of "ss\<lparr>ss_str := ?str\<rparr>" AllUsers] assms(1) by auto
  have refs: "Strings_gameRefs userMask ss' = renumber ?m ` Strings_gameRefs userMask ss" for userMask
    using game_remap [OF _ ran, of "ss\<lparr>ss_str := ?str\<rparr>" userMask] assms(1) ss'(1) by auto
  have "Strings_stringUsed ss' i Scope_Either Scope_Game userMask False \<longleftrightarrow>
      i \<noteq> from \<and> Strings_stringUsed ss i Scope_Either Scope_Game userMask False \<or>
      i = to \<and> Strings_stringUsed ss from Scope_Either Scope_Game userMask False"
    if "0 < i" "i < MaxStrings" for i userMask
    using that assms(1,2,4,7) ss'(2) by (auto simp: game_used refs renumber_def split: if_splits)
  then show ?thesis
    using mv ss'(1,3) lt by (auto simp: StrSection_getString_def)
qed

section \<open>Adding a string\<close>

lemma addString_game_total:
  assumes "wf_MrgnSection (ss_mrgn ss)" "strings (ss_str ss) \<noteq> []"
    and new: "StrSection_findString t (ss_str ss) str = NoString"
  shows "Strings_addString t str Scope_Game autoDefragment ss = Inl MaximumStringsExceeded \<and>
      (\<forall>i. 0 < i \<and> i < MaxStrings \<longrightarrow> i \<in> Strings_gameRefs AllUsers ss) \<or>
    (\<exists>stringId ss'. Strings_addString t str Scope_Game autoDefragment ss = Inr (stringId, ss'))"
proof -
  let ?used = "marked (\<lambda>ss. Strings_markUsedStrings ss Scope_Either Scope_Game AllUsers) ss (\<lambda>_. False)"
  let ?next = "StrSection_getNextUnusedStringId (ss_str ss) ?used True 1"
  obtain v where v: "Strings_markValidUsedStrings ss Scope_Either Scope_Game AllUsers (\<lambda>_. False) = Inr v"
    "\<forall>i. v i \<longleftrightarrow> 0 < i \<and> i < MaxStrings \<and> i \<in> Strings_gameRefs AllUsers ss \<and> StrSection_stringStored (ss_str ss) i"
    using valid_used_stored [OF assms(1)] by blast
  have valid: "v i \<Longrightarrow> i < length (strings (ss_str ss))" for i using v(2) by (simp add: StrSection_stringStored_def)
  note table = addString_new [where used = ?used and autoDefragment = autoDefragment, OF new assms(2) valid refl]
  show ?thesis
  proof (cases "?next = 0")
    case True
    then have "Strings_addString t str Scope_Game autoDefragment ss = Inl MaximumStringsExceeded"
      using assms(1) new v(1) table by (simp add: Strings_addString_def withGameTable_def game_mark_total)
    moreover have "?used i" if "1 \<le> i" "i < MaxStrings" for i
      using True that unfolding StrSection_getNextUnusedStringId_def
      by (auto simp: find_index_None dest: find_index_Some split: option.splits)
    ultimately show ?thesis using assms(1) by (auto simp: game_str.mark_refs Suc_le_eq)
  next
    case False
    obtain sec' where "StrSection_addString t str ?used v autoDefragment (ss_str ss) = Inr (?next, sec', Map.empty)"
      using False table by simp
    moreover obtain ss' where "Strings_remapStringIds Map.empty Scope_Game (ss\<lparr>ss_str := sec'\<rparr>) = Inr ss'"
      using game_remap [of "ss\<lparr>ss_str := sec'\<rparr>" Map.empty] assms(1) by auto
    ultimately show ?thesis
      using assms(1) new v(1) by (simp add: Strings_addString_def withGameTable_def game_mark_total)
  qed
qed

text \<open>
  C19. Adding a string to a scenario. It fails only for a string that is not in the table when all
  65535 ids are in use. Otherwise the id returned holds the string, every other id keeps its text,
  and no section changes which strings it uses; a string that was not in the table gets an id
  that nothing uses.
\<close>

theorem Strings_addString_spec:
  assumes "wf_MrgnSection (ss_mrgn ss)" "strings (ss_str ss) \<noteq> []"
  shows "case Strings_addString t str Scope_Game autoDefragment ss of
      Inl e \<Rightarrow> e = MaximumStringsExceeded \<and> Strings_findString t ss str Scope_Game = NoString \<and>
        (\<forall>i. 0 < i \<and> i < MaxStrings \<longrightarrow> Strings_stringUsed ss i Scope_Either Scope_Game AllUsers False)
    | Inr (stringId, ss') \<Rightarrow> 0 < stringId \<and> stringId < Strings_getCapacity ss' Scope_Game \<and>
        slotEquals t (strings (ss_str ss') ! stringId) str \<and>
        (\<forall>i. i \<noteq> stringId \<longrightarrow> Strings_getString RawString ss' i Scope_Game = Strings_getString RawString ss i Scope_Game) \<and>
        (\<forall>i userMask. 0 < i \<and> i < MaxStrings \<longrightarrow> Strings_stringUsed ss' i Scope_Either Scope_Game userMask False =
          Strings_stringUsed ss i Scope_Either Scope_Game userMask False) \<and>
        (ss' = ss \<or> Strings_findString t ss str Scope_Game = NoString \<and>
          \<not> Strings_stringUsed ss stringId Scope_Either Scope_Game AllUsers False)"
proof (cases "Strings_addString t str Scope_Game autoDefragment ss")
  case (Inl e)
  have "StrSection_findString t (ss_str ss) str = NoString"
    using Inl by (cases "StrSection_findString t (ss_str ss) str = NoString") (simp_all add: Strings_addString_def)
  then show ?thesis using addString_game_total [OF assms, of t str autoDefragment] Inl game_used [OF assms(1)] by auto
next
  case (Inr r)
  then obtain stringId ss' where r: "Strings_addString t str Scope_Game autoDefragment ss = Inr (stringId, ss')" by (cases r) simp
  show ?thesis using addString_game_Inr [OF assms r] unfolding r by simp
qed

section \<open>Deleting a string\<close>

lemma hasFlag_0: "hasFlag 0 flag \<longleftrightarrow> flag = 0"
  by (auto simp: hasFlag_def)

lemma stringUsed_mask_0 [simp]: "\<not> Strings_stringUsed ss i Scope_Either Scope_Game 0 False"
  by (cases "ss_names ss")
    (simp add: Strings_stringUsed_def SprpSection_stringUsed_def Players_stringUsed_def Properties_stringUsed_def
      Layers_stringUsed_def Triggers_stringUsed_def hasFlag_0 anyFlag_def ScenarioName_def ScenarioDescription_def
      UserForce_def OriginalUnitSettings_def ExpansionUnitSettings_def UserLocation_def UserSound_def UserSwitch_def)

lemma MbrfSection_strings_delete:
  assumes "i \<notin> MbrfSection_strings userMask sec" "0 < i"
  shows "MbrfSection_strings userMask (MbrfSection_deleteString i sec) \<subseteq> insert 0 (MbrfSection_strings userMask sec) - {i}"
proof -
  have "Action_briefingStrings userMask (Action_deleteString i a) \<subseteq> insert 0 (Action_briefingStrings userMask a) - {i}"
    if "i \<notin> Action_briefingStrings userMask a" for a
    using that assms(2) by (auto simp: Action_briefingStrings_def Action_briefingStringUsed_def Action_deleteString_def
        Let_def unat_clearField split: if_splits)
  then show ?thesis using assms(1)
    by (simp add: MbrfSection_strings_def MbrfSection_deleteString_def Trigger_briefingStrings_def Trigger_deleteString_def) blast
qed

lemma AllUsers_any [simp]: "anyFlag AllUsers AnyTrigger" "anyFlag AllUsers AnyBriefingTrigger" "anyFlag AllUsers AnyTriggerExtension"
  by (simp_all add: anyFlag_def AllUsers_def AnyTrigger_def AnyBriefingTrigger_def AnyTriggerExtension_def
    TriggerAction_def TriggerActionSound_def BriefingTriggerAction_def BriefingTriggerActionSound_def
    ExtendedTriggerComment_def ExtendedTriggerNotes_def)

lemma briefing_mask: "MbrfSection_stringUsed AnyBriefingTrigger sec i = MbrfSection_stringUsed AllUsers sec i"
  by (simp add: MbrfSection_stringUsed_def Trigger_briefingStringUsed_def Action_briefingStringUsed_def)
    (simp add: hasFlag_def AnyBriefingTrigger_def BriefingTriggerAction_def BriefingTriggerActionSound_def)

definition deletedGame :: "nat \<Rightarrow> MrgnSection \<Rightarrow> StringState \<Rightarrow> StringState" where
  "deletedGame i mrgn ss = ss\<lparr>ss_str := snd (StrSection_deleteString i True (Some False) (ss_str ss)),
      ss_sprp := SprpSection_deleteString i (ss_sprp ss), ss_forc := Players_deleteString i (ss_forc ss),
      ss_names := Properties_deleteString i (ss_names ss), ss_mrgn := mrgn,
      ss_triggers := Triggers_deleteString i Scope_Game (ss_triggers ss)\<rparr>"

lemma game_scope [simp]: "hasFlag Scope_Game Scope_Game" "\<not> hasFlag Scope_Game Scope_Editor"
  by (simp_all add: hasFlag_def Scope_Game_def Scope_Editor_def)

lemma deleteString_game_eq:
  assumes "\<not> Strings_stringUsed ss i Scope_Game Scope_Game AllUsers False" "MrgnSection_deleteString i (ss_mrgn ss) = Inr mrgn"
  shows "Strings_deleteString i Scope_Game True ss = Inr (deletedGame i mrgn ss)"
  using assms by (simp add: Strings_deleteString_def Layers_deleteString_def deletedGame_def)

lemma refs_deletedGame:
  assumes "wf_MrgnSection (ss_mrgn ss)" "0 < i" "i < MaxStrings"
    and used: "\<not> Strings_stringUsed ss i Scope_Game Scope_Game AllUsers False"
    and mrgn: "MrgnSection_deleteString i (ss_mrgn ss) = Inr mrgn"
  shows "Strings_gameRefs AllUsers (deletedGame i mrgn ss) \<subseteq> insert 0 (Strings_gameRefs AllUsers ss) - {i}"
proof -
  have b: "i \<notin> MbrfSection_strings AllUsers (tr_mbrf (ss_triggers ss))"
    using assms mbrf_str.used_refs [of i AllUsers "tr_mbrf (ss_triggers ss)"]
    by (auto simp: Strings_stringUsed_def Triggers_gameStringUsed_def briefing_mask)
  have sub: "A \<subseteq> insert 0 B - {i}" if "A - {0} = B - {0, i}" for A B :: "nat set" using that assms(2) by blast
  note subs = sprp_str.refs_delete [where i = i and userMask = AllUsers, THEN sub] forc_str.refs_delete [where i = i, THEN sub]
    unis_str.refs_delete [where i = i, THEN sub] unix_str.refs_delete [where i = i, THEN sub]
    mrgn_str.refs_delete [OF assms(1-3), THEN sub] wav_str.refs_delete [where i = i, THEN sub]
    swnm_str.refs_delete [where i = i, THEN sub] trig_str.refs_delete [where i = i and userMask = AllUsers, THEN sub]
  show ?thesis
    using subs assms(2,3) mrgn MbrfSection_strings_delete [OF b assms(2)]
    by (cases "ss_names ss") (simp add: Strings_gameRefs_def deletedGame_def Players_deleteString_def
        Properties_deleteString_def Triggers_deleteString_def, blast)
qed

text \<open>
  \<open>Strings::deleteString\<close> with \<open>deleteOnlyIfUnused\<close> looks only at what the game shows. A string that is used as
  a location name, a sound, a switch name or a trigger comment, and not otherwise, is deleted all the same,
  and these uses go with it: nothing uses the id afterwards.
\<close>

lemma Strings_deleteString_only_game_uses:
  assumes "wf_MrgnSection (ss_mrgn ss)" "0 < i" "i < MaxStrings"
    and "\<not> Strings_stringUsed ss i Scope_Game Scope_Game AllUsers False"
  shows "\<exists>ss'. Strings_deleteString i Scope_Game True ss = Inr ss' \<and>
    \<not> Strings_stringStored ss' i Scope_Game \<and> \<not> Strings_stringUsed ss' i Scope_Either Scope_Game AllUsers False \<and>
    (\<forall>j. j \<noteq> i \<longrightarrow> Strings_getString t ss' j Scope_Game = Strings_getString t ss j Scope_Game)"
proof -
  obtain mrgn where mrgn: "MrgnSection_deleteString i (ss_mrgn ss) = Inr mrgn" "wf_MrgnSection mrgn"
    using MrgnSection_strings_total(1) [OF assms(1), of i] by blast
  define ss' where "ss' = deletedGame i mrgn ss"
  have del: "Strings_deleteString i Scope_Game True ss = Inr ss'"
    unfolding ss'_def by (rule deleteString_game_eq [OF assms(4) mrgn(1)])
  have "i \<notin> Strings_gameRefs AllUsers ss'"
    using refs_deletedGame [OF assms mrgn(1)] by (auto simp: ss'_def)
  moreover have "wf_MrgnSection (ss_mrgn ss')" using mrgn(2) by (simp add: ss'_def deletedGame_def)
  ultimately have "\<not> Strings_stringUsed ss' i Scope_Either Scope_Game AllUsers False"
    using game_used assms(2,3) by blast
  moreover have "\<not> Strings_stringStored ss' i Scope_Game"
    by (auto simp: Strings_stringStored_def ss'_def deletedGame_def StrSection_stringStored_def StrSection_deleteString_def split: if_splits)
  moreover have "Strings_getString t ss' j Scope_Game = Strings_getString t ss j Scope_Game" if "j \<noteq> i" for j
    using that by (simp add: ss'_def deletedGame_def StrSection_getString_def StrSection_deleteString_def)
  ultimately show ?thesis using del by blast
qed

section \<open>Shrinking the table\<close>

lemma length_filter_upt_card: "length (filter P [a..<b]) = card {i. a \<le> i \<and> i < b \<and> P i}"
proof -
  have "length (filter P [a..<b]) = card (set (filter P [a..<b]))" by (intro distinct_card [symmetric]) simp
  also have "set (filter P [a..<b]) = {i. a \<le> i \<and> i < b \<and> P i}" by auto
  finally show ?thesis .
qed

lemma le_last: "sorted xs \<Longrightarrow> x \<in> set xs \<Longrightarrow> x \<le> last xs"
  by (induction xs) auto

text \<open>What defragmenting does from the first pass on when slot 0 is empty and string 1 is stored.\<close>

lemma defragment_step_keeps:
  assumes "i < length strs" "1 < length strs" "strs ! 1 \<noteq> None" "m 1 = Some 0" "\<forall>j x. m j = Some x \<longrightarrow> x \<noteq> 1 \<and> x < length strs"
    and "defragment_step (strs, m) i = (strs', m')"
  shows "length strs' = length strs \<and> strs' ! 1 \<noteq> None \<and> m' 1 = Some 0 \<and> (\<forall>j x. m' j = Some x \<longrightarrow> x \<noteq> 1 \<and> x < length strs)"
proof (cases "strs ! i = None")
  case False
  then have "strs' = strs" "m' = m" using assms(6) by (simp_all add: defragment_step_def del: not_None_eq)
  then show ?thesis using assms(3-5) by simp
next
  case True
  show ?thesis
  proof (cases "find_index (\<lambda>j. strs ! j \<noteq> None) (max (i + 1) 0) (length strs)")
    case None
    then show ?thesis using assms True by (simp add: defragment_step_def)
  next
    case (Some j)
    have "strs ! j \<noteq> None" using find_index_Some [OF Some] by simp
    then show ?thesis using Some assms True
      by (cases "m j") (auto simp: defragment_step_def nth_list_update split: if_splits, blast)
  qed
qed

lemma defragment_steps_keep:
  assumes "\<forall>i\<in>set xs. i < length strs" "1 < length strs" "strs ! 1 \<noteq> None" "m 1 = Some 0"
    and "\<forall>j x. m j = Some x \<longrightarrow> x \<noteq> 1 \<and> x < length strs" "foldl defragment_step (strs, m) xs = (strs', m')"
  shows "length strs' = length strs \<and> m' 1 = Some 0 \<and> (\<forall>j x. m' j = Some x \<longrightarrow> x \<noteq> 1 \<and> x < length strs)"
  using assms
proof (induction xs arbitrary: strs m)
  case (Cons i xs)
  obtain strs1 m1 where s: "defragment_step (strs, m) i = (strs1, m1)" by fastforce
  note k = defragment_step_keeps [OF _ Cons.prems(2-5) s]
  show ?case using Cons.IH [of strs1 m1] k Cons.prems s by auto
qed simp

lemma defragment_first:
  assumes "1 < length (strings sec)" "strings sec ! 0 = None" "strings sec ! 1 \<noteq> None"
    and "StrSection_defragment sec = (sec', m)"
  shows "m 1 = Some 0" "\<forall>j x. m j = Some x \<longrightarrow> x \<noteq> 1 \<and> x < length (strings sec)"
proof -
  let ?s = "strings sec"
  have upt: "[0..<length ?s] = 0 # [1..<length ?s]" using assms(1) by (subst upt_rec) auto
  have find: "find_index (\<lambda>j. ?s ! j \<noteq> None) 1 (length ?s) = Some 1"
    using assms by (simp add: find_index_def upt_conv_Cons)
  have step: "defragment_step (?s, Map.empty) 0 = (?s[0 := ?s ! 1], [1 \<mapsto> 0])"
    using assms find by (simp add: defragment_step_def)
  obtain strs' where f: "foldl defragment_step (?s[0 := ?s ! 1], [1 \<mapsto> 0]) [1..<length ?s] = (strs', m)"
    using assms(4) by (auto simp: StrSection_defragment_def upt step split: prod.splits)
  have "length strs' = length (?s[0 := ?s ! 1]) \<and> m 1 = Some 0 \<and> (\<forall>j x. m j = Some x \<longrightarrow> x \<noteq> 1 \<and> x < length (?s[0 := ?s ! 1]))"
    by (rule defragment_steps_keep [OF _ _ _ _ _ f]) (use assms in auto)
  then show "m 1 = Some 0" "\<forall>j x. m j = Some x \<longrightarrow> x \<noteq> 1 \<and> x < length ?s" by simp_all
qed

definition validUsed :: "StringState \<Rightarrow> nat \<Rightarrow> bool" where
  "validUsed ss i \<longleftrightarrow> 0 < i \<and> i < MaxStrings \<and>
    Strings_stringUsed ss i Scope_Either Scope_Game AllUsers False \<and> StrSection_stringStored (ss_str ss) i"

text \<open>
  Shrinking the capacity of the string table below a used id, where the used strings would fit,
  defragments it, and that counts slot 0, which is no string id. With string 1 stored, as it is in
  every scenario the editor makes, each section that named string 1 then names no string: a scenario
  whose name is string 1 loses its name.
\<close>

lemma Strings_setCapacity_loses_string_1:
  assumes "wf_MrgnSection (ss_mrgn ss)" "Strings_getCapacity ss Scope_Game \<le> MaxStrings"
    and "strings (ss_str ss) ! 0 = None" "StrSection_stringStored (ss_str ss) 1"
    and "n \<le> MaxStrings" "card {i. validUsed ss i} \<le> n" "n < k" "validUsed ss k"
  shows "\<exists>ss'. Strings_setCapacity n Scope_Game True ss = Inr ss' \<and>
    \<not> Strings_stringUsed ss' 1 Scope_Either Scope_Game AllUsers False \<and>
    (SprpSection_getScenarioNameStringId (ss_sprp ss) = 1 \<longrightarrow>
     SprpSection_getScenarioNameStringId (ss_sprp ss') = NoString)"
proof -
  obtain v where v1: "Strings_markValidUsedStrings ss Scope_Either Scope_Game AllUsers (\<lambda>_. False) = Inr v"
    and v2: "\<forall>i. v i \<longleftrightarrow> 0 < i \<and> i < MaxStrings \<and> i \<in> Strings_gameRefs AllUsers ss \<and> StrSection_stringStored (ss_str ss) i"
    using valid_used_stored [OF assms(1), of AllUsers] by blast
  have v: "v i \<longleftrightarrow> validUsed ss i" for i
    using v2 game_used [OF assms(1), of i AllUsers] unfolding validUsed_def by blast
  let ?ids = "filter v [1..<MaxStrings]"
  have ids: "length ?ids \<le> n" "k \<in> set ?ids"
    using assms(6,8) unfolding length_filter_upt_card by (auto simp: v validUsed_def Suc_le_eq conj_ac)
  have last: "?ids \<noteq> [] \<and> n < last ?ids"
  proof -
    have "sorted ?ids" by (simp add: sorted_wrt_filter)
    then have "k \<le> last ?ids" using ids(2) by (intro le_last)
    moreover have "?ids \<noteq> []" using ids(2) by (metis empty_iff list.set(1))
    ultimately show ?thesis using assms(7) by simp
  qed
  obtain sec' m where d: "StrSection_defragment (ss_str ss) = (sec', m)" by fastforce
  note first = defragment_first [OF _ assms(3) _ d]
  have st: "1 < length (strings (ss_str ss))" "strings (ss_str ss) ! 1 \<noteq> None"
    using assms(4) by (simp_all add: StrSection_stringStored_def)
  have ran: "ran m \<subseteq> {..<MaxStrings}" using first(2) [OF st] assms(2)
    by (auto simp: ran_def Strings_getCapacity_def StrSection_getCapacity_def intro: less_le_trans)
  let ?str = "sec'\<lparr>strings := resizeStrings n (strings sec')\<rparr>"
  have cap: "StrSection_setCapacity n v True (ss_str ss) = Inr (?str, m)"
    using ids(1) last assms(5) d by (simp add: StrSection_setCapacity_def Let_def)
  obtain ss' where ss': "Strings_remapStringIds m Scope_Game (ss\<lparr>ss_str := ?str\<rparr>) = Inr ss'" "wf_MrgnSection (ss_mrgn ss')"
    "Strings_gameRefs AllUsers ss' = renumber m ` Strings_gameRefs AllUsers ss"
    using game_remap [OF _ ran, of "ss\<lparr>ss_str := ?str\<rparr>" AllUsers] assms(1) by auto
  have set: "Strings_setCapacity n Scope_Game True ss = Inr ss'"
    using assms(1,5) v1 cap ss'(1) by (simp add: Strings_setCapacity_def withGameTable_def game_mark_total)
  have "renumber m i \<noteq> 1" for i
    using first [OF st] by (cases "m i"; cases "i = 1") (auto simp: renumber_def)
  then have "1 \<notin> Strings_gameRefs AllUsers ss'" unfolding ss'(3) by (metis imageE)
  then have "\<not> Strings_stringUsed ss' 1 Scope_Either Scope_Game AllUsers False"
    using game_used [OF ss'(2)] by (simp add: MaxStrings_def)
  moreover have "ss_sprp ss' = SprpSection_remapStringIds m (ss_sprp ss)"
    using ss'(1) assms(1) by (auto simp: Strings_remapStringIds_def bind_result_eq_Inr)
  ultimately show ?thesis using set first(1) [OF st]
    by (auto simp: SprpSection_getScenarioNameStringId_def SprpSection_remapStringIds_def remapField_def NoString_def)
qed

section \<open>An example\<close>

text \<open>A scenario as the editor makes it, without the name of force 3 and with that of force 4 as string 7.\<close>

definition example_triggers :: TriggerState where
  "example_triggers = \<lparr>tr_uprp = \<lparr>createUnitProperties = []\<rparr>, tr_upus = \<lparr>cuwpUsedFlags = []\<rparr>,
    tr_trig = \<lparr>triggers = []\<rparr>, tr_mbrf = \<lparr>briefingTriggers = []\<rparr>, tr_swnm = SwnmSection_GetDefault,
    tr_wav = WavSection_GetDefault, tr_ktrg = \<lparr>extendedTrigData = []\<rparr>\<rparr>"

definition example_strings :: StringState where
  "example_strings = \<lparr>ss_sprp = SprpSection_GetDefault 1 2,
    ss_str = (StrSection_GetDefault False)\<lparr>strings := (strings (StrSection_GetDefault False))[6 := None]\<rparr>,
    ss_ostr = OstrSection_GetDefault, ss_kstr = KstrSection_GetDefault,
    ss_forc = ForcSection_GetDefault\<lparr>forc_forceString := [4, 5, 0, 7]\<rparr>,
    ss_names = (UnisSection_GetDefault, UnixSection_GetDefault), ss_mrgn = MrgnSection_GetDefault 64 64,
    ss_triggers = example_triggers\<rparr>"

lemma example_wf: "wf_MrgnSection (ss_mrgn example_strings)"
  by (simp add: example_strings_def MrgnSection_GetDefault_def wf_MrgnSection_def)

lemma example_refs: "Strings_gameRefs AllUsers example_strings = {0, 1, 2, 3, 4, 5, 7}"
  by (simp add: Strings_gameRefs_def example_strings_def example_triggers_def SprpSection_strings_def SprpSection_GetDefault_def
      ForcSection_strings_def UnisSection_strings_def UnixSection_strings_def MrgnSection_strings_def MrgnSection_ids_def
      MrgnSection_GetDefault_def WavSection_strings_def SwnmSection_strings_def TrigSection_strings_def MbrfSection_strings_def
      UnisSection_GetDefault_def UnixSection_GetDefault_def WavSection_GetDefault_def SwnmSection_GetDefault_def
      Location_new_def TotalUnitTypes_def TotalSounds_def TotalSwitches_def Anywhere_def TotalLocations_def)
   auto

lemma example_table: "length (strings (ss_str example_strings)) = 8" "strings (ss_str example_strings) ! 0 = None"
  "StrSection_stringStored (ss_str example_strings) 1"
  "StrSection_stringStored (ss_str example_strings) 7"
  by (simp_all add: example_strings_def StrSection_GetDefault_def defaultStrings_def StrSection_new_def StrSection_stringStored_def)

lemma example_used: "0 < i \<Longrightarrow> i < MaxStrings \<Longrightarrow> 
  Strings_stringUsed example_strings i Scope_Either Scope_Game AllUsers False \<longleftrightarrow> i \<in> {1, 2, 3, 4, 5, 7}"
  by (simp add: game_used [OF example_wf] example_refs)


lemma Strings_deleteUnusedStrings_spec_witness:
  "\<exists>str'. Strings_deleteUnusedStrings Scope_Game example_strings = Inr (example_strings\<lparr>ss_str := str'\<rparr>) \<and>
    StrSection_getString RawString str' 1 = Some ''Untitled Scenario''"
proof -
  obtain str' where s: "Strings_deleteUnusedStrings Scope_Game example_strings = Inr (example_strings\<lparr>ss_str := str'\<rparr>)"
    "\<forall>i. 0 < i \<and> i < MaxStrings \<longrightarrow> StrSection_getString RawString str' i =
      (if Strings_stringUsed example_strings i Scope_Either Scope_Game AllUsers False
       then StrSection_getString RawString (ss_str example_strings) i else None)"
    using Strings_deleteUnusedStrings_spec [OF example_wf, of RawString] by blast
  have "StrSection_getString RawString (ss_str example_strings) 1 = Some ''Untitled Scenario''"
    by (simp add: example_strings_def StrSection_GetDefault_def defaultStrings_def StrSection_new_def raw_getString
        ScStr_new_def c_str_def)
  then show ?thesis using s spec [OF s(2), of 1] example_used [of 1] by (auto simp: MaxStrings_def)
qed

lemma Strings_moveString_overwrites_witness:
  "\<exists>ss'. Strings_moveString 1 2 Scope_Game example_strings = Some (Inr ss') \<and>
    Strings_getString RawString ss' 2 Scope_Game = Strings_getString RawString example_strings 1 Scope_Game"
  using Strings_moveString_overwrites [OF example_wf, of 1 2 RawString] example_table(1)
  by (auto simp: Strings_getCapacity_def StrSection_getCapacity_def MaxStrings_def)

lemma Strings_deleteString_only_game_uses_witness:
  "Strings_stringUsed example_strings 3 Scope_Either Scope_Game AllUsers False \<and>
   (\<exists>ss'. Strings_deleteString 3 Scope_Game True example_strings = Inr ss' \<and> \<not> Strings_stringStored ss' 3 Scope_Game)"
proof -
  have "\<not> Strings_stringUsed example_strings 3 Scope_Game Scope_Game AllUsers False"
    by (simp add: Strings_stringUsed_def SprpSection_stringUsed_def Players_stringUsed_def Properties_stringUsed_def
        Triggers_gameStringUsed_def ForcSection_stringUsed_def UnisSection_stringUsed_def UnixSection_stringUsed_def
        TrigSection_gameStringUsed_def MbrfSection_stringUsed_def example_strings_def example_triggers_def
        SprpSection_GetDefault_def UnisSection_GetDefault_def UnixSection_GetDefault_def)
  then show ?thesis
    using Strings_deleteString_only_game_uses [OF example_wf, of 3 RawString] example_used [of 3] by (auto simp: MaxStrings_def)
qed

lemma Strings_setCapacity_loses_string_1_witness:
  "\<exists>ss'. Strings_setCapacity 6 Scope_Game True example_strings = Inr ss' \<and>
    SprpSection_getScenarioNameStringId (ss_sprp ss') = NoString"
proof -
  have "{i. validUsed example_strings i} \<subseteq> {1, 2, 3, 4, 5, 7}" using example_used by (auto simp: validUsed_def)
  then have "card {i. validUsed example_strings i} \<le> card {1 :: nat, 2, 3, 4, 5, 7}" by (intro card_mono) simp_all
  moreover have "validUsed example_strings 7" using example_used [of 7] example_table(4) by (simp add: validUsed_def MaxStrings_def)
  moreover have "SprpSection_getScenarioNameStringId (ss_sprp example_strings) = 1"
    by (simp add: example_strings_def SprpSection_GetDefault_def SprpSection_getScenarioNameStringId_def)
  ultimately show ?thesis
    using Strings_setCapacity_loses_string_1 [OF example_wf _ example_table(2,3), of 6 7] example_table(1)
    by (auto simp: Strings_getCapacity_def StrSection_getCapacity_def MaxStrings_def)
qed

theorem Strings_addString_spec_witness:
  "\<exists>stringId ss'. Strings_addString RawString ''New'' Scope_Game True example_strings = Inr (stringId, ss') \<and>
    0 < stringId \<and> slotEquals RawString (strings (ss_str ss') ! stringId) ''New''"
proof (cases "Strings_addString RawString ''New'' Scope_Game True example_strings")
  case (Inl e)
  have "strings (ss_str example_strings) \<noteq> []" using example_table(1) by auto
  then show ?thesis
    using Strings_addString_spec [OF example_wf, of RawString "''New''" True] Inl example_used [of 6] by (simp add: MaxStrings_def)
next
  case (Inr r)
  moreover have "strings (ss_str example_strings) \<noteq> []" using example_table(1) by auto
  ultimately show ?thesis
    using Strings_addString_spec [OF example_wf, of RawString "''New''" True] by (cases r) simp
qed

end
