(* ===== verification/StringNames.thy ===== *)
theory StringNames
  imports StringSync ScenarioProperties
begin

text \<open>
  The names a scenario gives to things (\<open>class Strings\<close> in \<open>src/MappingCoreLib/Scenario.cpp\<close>): the scenario
  itself, forces, units, sounds, switches, locations and the comments and notes of triggers. A name is an
  id in a section of the game or, for the editor's own strings, in OSTR or KTRG. Reading a name goes from the id to
  the table; setting one adds the text to the table and then stores the id. \<open>rescopeString\<close> moves a
  string from one table to the other with all its uses.
\<close>

section \<open>Ids\<close>

definition locationStringId :: "MrgnSection \<Rightarrow> nat \<Rightarrow> u16 result" where
  "locationStringId mrgn locationId =
    bind_result (MrgnSection_getLocation mrgn locationId) (\<lambda>l. deref l (\<lambda>l. Inr (l_stringId l)))"

definition setLocationStringId :: "nat \<Rightarrow> u16 \<Rightarrow> MrgnSection \<Rightarrow> MrgnSection result" where
  "setLocationStringId locationId stringId mrgn =
    bind_result (MrgnSection_getLocation mrgn locationId) (\<lambda>l. deref l (\<lambda>l.
      Inr (mrgn\<lparr>locations := (locations mrgn)[locationId := Some (l\<lparr>l_stringId := stringId\<rparr>)]\<rparr>)))"

definition unitNameId :: "u16 \<Rightarrow> unit_names \<Rightarrow> nat \<Rightarrow> UseExpSection \<Rightarrow> nat result" where
  "unitNameId ver names i useExp =
    getSetting ver (Some (fst names)) (Some (snd names)) useExp
      (\<lambda>s. UnisSection_getUnitNameStringId s i) (\<lambda>s. UnixSection_getUnitNameStringId s i)"

definition setUnitNameId :: "nat \<Rightarrow> nat \<Rightarrow> UseExpSection \<Rightarrow> unit_names \<Rightarrow> unit_names result" where
  "setUnitNameId i v useExp names =
    bind_result (setUnitSetting useExp (Some (fst names)) (Some (snd names))
        (UnisSection_setUnitNameStringId i (of_nat v)) (UnixSection_setUnitNameStringId i (of_nat v)))
      (\<lambda>(orig, expn). Inr (the orig, the expn))"

definition Strings_getScenarioNameStringId :: "StringState \<Rightarrow> scope \<Rightarrow> nat" where
  "Strings_getScenarioNameStringId ss storageScope =
    (if storageScope = Scope_Editor then unat (OstrSection_getScenarioNameStringId (ss_ostr ss))
     else SprpSection_getScenarioNameStringId (ss_sprp ss))"

definition Strings_getScenarioDescriptionStringId :: "StringState \<Rightarrow> scope \<Rightarrow> nat" where
  "Strings_getScenarioDescriptionStringId ss storageScope =
    (if storageScope = Scope_Editor then unat (OstrSection_getScenarioDescriptionStringId (ss_ostr ss))
     else SprpSection_getScenarioDescriptionStringId (ss_sprp ss))"

definition editorId :: "u32 result \<Rightarrow> nat result" where
  "editorId r = bind_result r (\<lambda>x. Inr (unat x))"

definition Strings_getForceNameStringId :: "StringState \<Rightarrow> u8 \<Rightarrow> scope \<Rightarrow> nat result" where
  "Strings_getForceNameStringId ss force storageScope =
    (if storageScope = Scope_Editor then editorId (OstrSection_getForceNameStringId (ss_ostr ss) force)
     else ForcSection_getForceStringId (ss_forc ss) force)"

definition Strings_getUnitNameStringId :: "u16 \<Rightarrow> StringState \<Rightarrow> u16 \<Rightarrow> UseExpSection \<Rightarrow> scope \<Rightarrow> nat result" where
  "Strings_getUnitNameStringId ver ss unitType useExp storageScope =
    (if storageScope = Scope_Game then unitNameId ver (ss_names ss) (unat unitType) useExp
     else if storageScope = Scope_Editor then
       (let expn = editorId (OstrSection_getExpUnitNameStringId (ss_ostr ss) unitType);
            orig = editorId (OstrSection_getUnitNameStringId (ss_ostr ss) unitType)
        in case useExp of
             Auto \<Rightarrow> (if VerSection_isHybridOrAbove ver then expn else orig)
           | Yes \<Rightarrow> expn
           | No \<Rightarrow> orig
           | YesIfAvailable \<Rightarrow> bind_result expn (\<lambda>x. if x \<noteq> 0 then Inr x else orig)
           | NoIfOrigAvailable \<Rightarrow> bind_result orig (\<lambda>x. if x \<noteq> 0 then Inr x else expn)
           | Both \<Rightarrow> Inr 0)
     else Inr 0)"

definition Strings_getSoundPathStringId :: "StringState \<Rightarrow> nat \<Rightarrow> scope \<Rightarrow> nat result" where
  "Strings_getSoundPathStringId ss soundIndex storageScope =
    (if storageScope = Scope_Editor then editorId (OstrSection_getSoundPathStringId (ss_ostr ss) soundIndex)
     else Triggers_getSoundStringId (ss_triggers ss) soundIndex)"

definition Strings_getSwitchNameStringId :: "StringState \<Rightarrow> nat \<Rightarrow> scope \<Rightarrow> nat result" where
  "Strings_getSwitchNameStringId ss switchIndex storageScope =
    (if storageScope = Scope_Editor then editorId (OstrSection_getSwitchNameStringId (ss_ostr ss) switchIndex)
     else Triggers_getSwitchNameStringId (ss_triggers ss) switchIndex)"

definition Strings_getLocationNameStringId :: "StringState \<Rightarrow> nat \<Rightarrow> scope \<Rightarrow> nat result" where
  "Strings_getLocationNameStringId ss locationId storageScope =
    (if storageScope = Scope_Editor then editorId (OstrSection_getLocationNameStringId (ss_ostr ss) locationId)
     else bind_result (MrgnSection_getLocation (ss_mrgn ss) locationId)
       (\<lambda>l. Inr (case l of None \<Rightarrow> 0 | Some l \<Rightarrow> unat (l_stringId l))))"

definition Strings_setScenarioNameStringId :: "nat \<Rightarrow> scope \<Rightarrow> StringState \<Rightarrow> StringState" where
  "Strings_setScenarioNameStringId stringId storageScope ss =
    (if storageScope = Scope_Editor
     then ss\<lparr>ss_ostr := OstrSection_setScenarioNameStringId (of_nat stringId) (ss_ostr ss)\<rparr>
     else ss\<lparr>ss_sprp := SprpSection_setScenarioNameStringId (of_nat stringId) (ss_sprp ss)\<rparr>)"

definition Strings_setScenarioDescriptionStringId :: "nat \<Rightarrow> scope \<Rightarrow> StringState \<Rightarrow> StringState" where
  "Strings_setScenarioDescriptionStringId stringId storageScope ss =
    (if storageScope = Scope_Editor
     then ss\<lparr>ss_ostr := OstrSection_setScenarioDescriptionStringId (of_nat stringId) (ss_ostr ss)\<rparr>
     else ss\<lparr>ss_sprp := SprpSection_setScenarioDescriptionStringId (of_nat stringId) (ss_sprp ss)\<rparr>)"

text \<open>An OSTR setter, which may throw, run on the state.\<close>

definition withOstr :: "(OstrSection \<Rightarrow> OstrSection result) \<Rightarrow> StringState \<Rightarrow> StringState result" where
  "withOstr f ss = bind_result (f (ss_ostr ss)) (\<lambda>ostr. Inr (ss\<lparr>ss_ostr := ostr\<rparr>))"

definition Strings_setForceNameStringId :: "u8 \<Rightarrow> nat \<Rightarrow> scope \<Rightarrow> StringState \<Rightarrow> StringState result" where
  "Strings_setForceNameStringId force stringId storageScope ss =
    (if storageScope = Scope_Editor then withOstr (OstrSection_setForceNameStringId force (of_nat stringId)) ss
     else Inr (ss\<lparr>ss_forc := ForcSection_setForceStringId force (of_nat stringId) (ss_forc ss)\<rparr>))"

definition Strings_setUnitNameStringId :: "u16 \<Rightarrow> nat \<Rightarrow> UseExpSection \<Rightarrow> scope \<Rightarrow> StringState \<Rightarrow> StringState result" where
  "Strings_setUnitNameStringId unitType stringId useExp storageScope ss =
    (if storageScope = Scope_Game then
       bind_result (setUnitNameId (unat unitType) stringId useExp (ss_names ss)) (\<lambda>names. Inr (ss\<lparr>ss_names := names\<rparr>))
     else
       let setOrig = withOstr (OstrSection_setUnitNameStringId unitType (of_nat stringId));
           setExp = withOstr (OstrSection_setExpUnitNameStringId unitType (of_nat stringId))
       in if useExp = Auto \<or> useExp = Both then bind_result (setOrig ss) setExp
          else if useExp = YesIfAvailable \<or> useExp = Yes then setExp ss
          else setOrig ss)"

definition Strings_setSoundPathStringId :: "nat \<Rightarrow> nat \<Rightarrow> scope \<Rightarrow> StringState \<Rightarrow> StringState result" where
  "Strings_setSoundPathStringId soundIndex stringId storageScope ss =
    (if storageScope = Scope_Editor then withOstr (OstrSection_setSoundPathStringId soundIndex (of_nat stringId)) ss
     else Inr (ss\<lparr>ss_triggers := Triggers_setSoundStringId soundIndex stringId (ss_triggers ss)\<rparr>))"

definition Strings_setSwitchNameStringId :: "nat \<Rightarrow> nat \<Rightarrow> scope \<Rightarrow> StringState \<Rightarrow> StringState result" where
  "Strings_setSwitchNameStringId switchIndex stringId storageScope ss =
    (if storageScope = Scope_Editor then withOstr (OstrSection_setSwitchNameStringId switchIndex (of_nat stringId)) ss
     else Inr (ss\<lparr>ss_triggers := Triggers_setSwitchNameStringId switchIndex stringId (ss_triggers ss)\<rparr>))"

definition Strings_setLocationNameStringId :: "nat \<Rightarrow> nat \<Rightarrow> scope \<Rightarrow> StringState \<Rightarrow> StringState result" where
  "Strings_setLocationNameStringId locationId stringId storageScope ss =
    (if storageScope = Scope_Editor then withOstr (OstrSection_setLocationNameStringId locationId (of_nat stringId)) ss
     else bind_result (MrgnSection_getLocation (ss_mrgn ss) locationId) (\<lambda>l. case l of
         None \<Rightarrow> Inr ss
       | Some _ \<Rightarrow> bind_result (setLocationStringId locationId (of_nat stringId) (ss_mrgn ss))
           (\<lambda>mrgn. Inr (ss\<lparr>ss_mrgn := mrgn\<rparr>))))"

section \<open>Reading names\<close>

text \<open>\<open>getString(gameStringId, editorStringId, storageScope)\<close>\<close>

definition getStringOf :: "StringType \<Rightarrow> StringState \<Rightarrow> nat \<Rightarrow> nat \<Rightarrow> scope \<Rightarrow> string option" where
  "getStringOf t ss gameStringId editorStringId storageScope =
    (if storageScope = Scope_Game then Strings_getString t ss gameStringId Scope_Game
     else if storageScope = Scope_Editor then Strings_getString t ss editorStringId Scope_Editor
     else if storageScope = Scope_GameOverEditor then
       (if gameStringId \<noteq> 0 then Strings_getString t ss gameStringId Scope_Game
        else Strings_getString t ss editorStringId Scope_Editor)
     else if storageScope \<in> {Scope_Either, Scope_EditorOverGame} then
       (if editorStringId \<noteq> 0 then Strings_getString t ss editorStringId Scope_Editor
        else Strings_getString t ss gameStringId Scope_Game)
     else None)"

definition Strings_getScenarioName :: "StringType \<Rightarrow> StringState \<Rightarrow> scope \<Rightarrow> string option" where
  "Strings_getScenarioName t ss =
    getStringOf t ss (SprpSection_getScenarioNameStringId (ss_sprp ss)) (unat (OstrSection_getScenarioNameStringId (ss_ostr ss)))"

definition Strings_getScenarioDescription :: "StringType \<Rightarrow> StringState \<Rightarrow> scope \<Rightarrow> string option" where
  "Strings_getScenarioDescription t ss =
    getStringOf t ss (SprpSection_getScenarioDescriptionStringId (ss_sprp ss))
      (unat (OstrSection_getScenarioDescriptionStringId (ss_ostr ss)))"

text \<open>Both ids are looked up before the scope is, so an index that OSTR does not have throws in any scope.\<close>

definition getNamed :: "StringType \<Rightarrow> StringState \<Rightarrow> nat result \<Rightarrow> nat result \<Rightarrow> scope \<Rightarrow> string option result" where
  "getNamed t ss gameId editId storageScope =
    bind_result gameId (\<lambda>g. bind_result editId (\<lambda>e. Inr (getStringOf t ss g e storageScope)))"

definition Strings_getForceName :: "StringType \<Rightarrow> StringState \<Rightarrow> u8 \<Rightarrow> scope \<Rightarrow> string option result" where
  "Strings_getForceName t ss force =
    getNamed t ss (ForcSection_getForceStringId (ss_forc ss) force) (editorId (OstrSection_getForceNameStringId (ss_ostr ss) force))"

text \<open>The display names of the 228 unit types are data of another class, a parameter here.\<close>

definition Strings_getUnitName ::
  "(nat \<Rightarrow> string) \<Rightarrow> (nat \<Rightarrow> string) \<Rightarrow> StringType \<Rightarrow> u16 \<Rightarrow> StringState \<Rightarrow> u16 \<Rightarrow> UseExpSection \<Rightarrow> scope \<Rightarrow> string result" where
  "Strings_getUnitName defaultDisplayNames to_string t ver ss unitType useExp storageScope =
    (let i = unat unitType in
     bind_result
       (if i < TotalUnitTypes then
          getNamed t ss (unitNameId ver (ss_names ss) i useExp)
            (if useExpansion ver (Some (fst (ss_names ss))) (Some (snd (ss_names ss))) useExp
             then editorId (OstrSection_getExpUnitNameStringId (ss_ostr ss) unitType)
             else editorId (OstrSection_getUnitNameStringId (ss_ostr ss) unitType)) storageScope
        else Inr None)
       (\<lambda>name. Inr (case name of
           Some s \<Rightarrow> s
         | None \<Rightarrow> if i < TotalUnitTypes then defaultDisplayNames i else ''ID:'' @ to_string i)))"

definition Strings_getSoundPath :: "StringType \<Rightarrow> StringState \<Rightarrow> nat \<Rightarrow> scope \<Rightarrow> string option result" where
  "Strings_getSoundPath t ss soundIndex =
    getNamed t ss (Triggers_getSoundStringId (ss_triggers ss) soundIndex)
      (editorId (OstrSection_getSoundPathStringId (ss_ostr ss) soundIndex))"

definition Strings_getSwitchName :: "StringType \<Rightarrow> StringState \<Rightarrow> nat \<Rightarrow> scope \<Rightarrow> string option result" where
  "Strings_getSwitchName t ss switchIndex =
    getNamed t ss (Triggers_getSwitchNameStringId (ss_triggers ss) switchIndex)
      (editorId (OstrSection_getSwitchNameStringId (ss_ostr ss) switchIndex))"

definition Strings_getLocationName :: "StringType \<Rightarrow> StringState \<Rightarrow> nat \<Rightarrow> scope \<Rightarrow> string option result" where
  "Strings_getLocationName t ss locationId =
    getNamed t ss
      (if locationId > 0 \<and> locationId \<le> MrgnSection_numLocations (ss_mrgn ss)
       then bind_result (locationStringId (ss_mrgn ss) locationId) (\<lambda>x. Inr (unat x)) else Inr 0)
      (editorId (OstrSection_getLocationNameStringId (ss_ostr ss) locationId))"

definition Strings_getComment :: "StringType \<Rightarrow> StringState \<Rightarrow> nat \<Rightarrow> string option result" where
  "Strings_getComment t ss triggerIndex =
    bind_result (Triggers_getCommentStringId (ss_triggers ss) triggerIndex) (\<lambda>i. Inr (Strings_getString t ss i Scope_Game))"

definition Strings_getExtendedComment :: "StringType \<Rightarrow> StringState \<Rightarrow> nat \<Rightarrow> string option result" where
  "Strings_getExtendedComment t ss triggerIndex =
    bind_result (Triggers_getExtendedCommentStringId (ss_triggers ss) triggerIndex) (\<lambda>i. Inr (Strings_getString t ss i Scope_Editor))"

definition Strings_getExtendedNotes :: "StringType \<Rightarrow> StringState \<Rightarrow> nat \<Rightarrow> string option result" where
  "Strings_getExtendedNotes t ss triggerIndex =
    bind_result (Triggers_getExtendedNotesStringId (ss_triggers ss) triggerIndex) (\<lambda>i. Inr (Strings_getString t ss i Scope_Editor))"

section \<open>Setting names\<close>

text \<open>
  All setters add the text, and store the id unless it is 0. The guards of \<open>setSoundPath\<close>, \<open>setSwitchName\<close> and
  \<open>setLocationName\<close> bind the index test to the editor scope only.
\<close>

definition setNamed ::
  "StringType \<Rightarrow> string \<Rightarrow> scope \<Rightarrow> bool \<Rightarrow> (nat \<Rightarrow> StringState \<Rightarrow> StringState result) \<Rightarrow> StringState \<Rightarrow> StringState result" where
  "setNamed t str storageScope autoDefragment store ss =
    bind_result (Strings_addString t str storageScope autoDefragment ss) (\<lambda>(newStringId, ss').
      if newStringId \<noteq> NoString then store newStringId ss' else Inr ss')"

definition Strings_setScenarioName :: "StringType \<Rightarrow> string \<Rightarrow> scope \<Rightarrow> bool \<Rightarrow> StringState \<Rightarrow> StringState result" where
  "Strings_setScenarioName t str storageScope autoDefragment ss =
    (if storageScope = Scope_Game \<or> storageScope = Scope_Editor then
       setNamed t str storageScope autoDefragment (\<lambda>i ss. Inr (Strings_setScenarioNameStringId i storageScope ss)) ss
     else Inr ss)"

definition Strings_setScenarioDescription :: "StringType \<Rightarrow> string \<Rightarrow> scope \<Rightarrow> bool \<Rightarrow> StringState \<Rightarrow> StringState result" where
  "Strings_setScenarioDescription t str storageScope autoDefragment ss =
    (if storageScope = Scope_Game \<or> storageScope = Scope_Editor then
       setNamed t str storageScope autoDefragment (\<lambda>i ss. Inr (Strings_setScenarioDescriptionStringId i storageScope ss)) ss
     else Inr ss)"

definition Strings_setForceName :: "u8 \<Rightarrow> StringType \<Rightarrow> string \<Rightarrow> scope \<Rightarrow> bool \<Rightarrow> StringState \<Rightarrow> StringState result" where
  "Strings_setForceName force t str storageScope autoDefragment ss =
    (if (storageScope = Scope_Game \<or> storageScope = Scope_Editor) \<and> unat force < TotalForces then
       setNamed t str storageScope autoDefragment (\<lambda>i. Strings_setForceNameStringId force i storageScope) ss
     else Inr ss)"

definition Strings_setUnitName ::
  "u16 \<Rightarrow> u16 \<Rightarrow> StringType \<Rightarrow> string \<Rightarrow> UseExpSection \<Rightarrow> scope \<Rightarrow> bool \<Rightarrow> StringState \<Rightarrow> StringState result" where
  "Strings_setUnitName ver unitType t str useExp storageScope autoDefragment ss =
    (if (storageScope = Scope_Game \<or> storageScope = Scope_Editor) \<and> unat unitType < TotalUnitTypes then
       setNamed t str storageScope autoDefragment (\<lambda>i ss.
         if storageScope = Scope_Game then Strings_setUnitNameStringId unitType i useExp Scope_Game ss
         else
           let setOrig = withOstr (OstrSection_setUnitNameStringId unitType (of_nat i));
               setExp = withOstr (OstrSection_setExpUnitNameStringId unitType (of_nat i))
           in case useExp of
                Auto \<Rightarrow> if VerSection_isHybridOrAbove ver then setExp ss else setOrig ss
              | Yes \<Rightarrow> setExp ss
              | No \<Rightarrow> setOrig ss
              | _ \<Rightarrow> bind_result (setOrig ss) setExp) ss
     else Inr ss)"

definition Strings_setSoundPath :: "nat \<Rightarrow> StringType \<Rightarrow> string \<Rightarrow> scope \<Rightarrow> bool \<Rightarrow> StringState \<Rightarrow> StringState result" where
  "Strings_setSoundPath soundIndex t str storageScope autoDefragment ss =
    (if storageScope = Scope_Game \<or> storageScope = Scope_Editor \<and> soundIndex < TotalSounds then
       setNamed t str storageScope autoDefragment (\<lambda>i. Strings_setSoundPathStringId soundIndex i storageScope) ss
     else Inr ss)"

definition Strings_setSwitchName :: "nat \<Rightarrow> StringType \<Rightarrow> string \<Rightarrow> scope \<Rightarrow> bool \<Rightarrow> StringState \<Rightarrow> StringState result" where
  "Strings_setSwitchName switchIndex t str storageScope autoDefragment ss =
    (if storageScope = Scope_Game \<or> storageScope = Scope_Editor \<and> switchIndex < TotalSwitches then
       setNamed t str storageScope autoDefragment (\<lambda>i. Strings_setSwitchNameStringId switchIndex i storageScope) ss
     else Inr ss)"

definition Strings_setLocationName :: "nat \<Rightarrow> StringType \<Rightarrow> string \<Rightarrow> scope \<Rightarrow> bool \<Rightarrow> StringState \<Rightarrow> StringState result" where
  "Strings_setLocationName locationId t str storageScope autoDefragment ss =
    (if storageScope = Scope_Game \<or>
        storageScope = Scope_Editor \<and> locationId > 0 \<and> locationId \<le> MrgnSection_numLocations (ss_mrgn ss) then
       setNamed t str storageScope autoDefragment (\<lambda>i ss.
         if storageScope = Scope_Game then
           bind_result (setLocationStringId locationId (of_nat i) (ss_mrgn ss)) (\<lambda>mrgn. Inr (ss\<lparr>ss_mrgn := mrgn\<rparr>))
         else withOstr (OstrSection_setLocationNameStringId locationId (of_nat i)) ss) ss
     else Inr ss)"

text \<open>The entry of the trigger is created first, then the text is added and the id is stored in the entry.\<close>

definition setExtendedText ::
  "(u32 \<Rightarrow> ExtendedTrigData \<Rightarrow> ExtendedTrigData) \<Rightarrow> nat \<Rightarrow> StringType \<Rightarrow> string \<Rightarrow> bool \<Rightarrow> StringState \<Rightarrow> StringState result" where
  "setExtendedText upd triggerIndex t str autoDefragment ss =
    bind_result (Triggers_getTriggerExtension triggerIndex True (ss_triggers ss)) (\<lambda>(found, tr).
      case found of
        None \<Rightarrow> Inr (ss\<lparr>ss_triggers := tr\<rparr>)
      | Some e \<Rightarrow> setNamed t str Scope_Editor autoDefragment (\<lambda>i ss.
          Inr (case KtrgSection_getExtendedTrigger (tr_ktrg (ss_triggers ss)) e of
                 None \<Rightarrow> ss
               | Some x \<Rightarrow> ss\<lparr>ss_triggers := set_extension e (upd (of_nat i) x) (ss_triggers ss)\<rparr>))
          (ss\<lparr>ss_triggers := tr\<rparr>))"

definition Strings_setExtendedComment :: "nat \<Rightarrow> StringType \<Rightarrow> string \<Rightarrow> bool \<Rightarrow> StringState \<Rightarrow> StringState result" where
  "Strings_setExtendedComment = setExtendedText (\<lambda>i x. x\<lparr>x_commentStringId := i\<rparr>)"

definition Strings_setExtendedNotes :: "nat \<Rightarrow> StringType \<Rightarrow> string \<Rightarrow> bool \<Rightarrow> StringState \<Rightarrow> StringState result" where
  "Strings_setExtendedNotes = setExtendedText (\<lambda>i x. x\<lparr>x_notesStringId := i\<rparr>)"

section \<open>Moving a string between the tables\<close>

text \<open>
  One place that may use the string: when the id there is the one to move, the id it replaces in the
  other storage is noted, and the new id stored.
\<close>

type_synonym rescope_state = "nat list \<times> StringState"

definition rescopeAt ::
  "nat \<Rightarrow> (StringState \<Rightarrow> nat result) \<Rightarrow> (StringState \<Rightarrow> nat result) \<Rightarrow> (StringState \<Rightarrow> StringState result)
     \<Rightarrow> rescope_state \<Rightarrow> rescope_state result" where
  "rescopeAt stringId idAt replacedAt store state = (case state of (replaced, ss) \<Rightarrow>
    bind_result (idAt ss) (\<lambda>x.
      if stringId = x then
        bind_result (replacedAt ss) (\<lambda>r. bind_result (store ss) (\<lambda>ss'. Inr (r # replaced, ss')))
      else Inr (replaced, ss)))"

primrec rescopeEach :: "(nat \<Rightarrow> rescope_state \<Rightarrow> rescope_state result) \<Rightarrow> nat list \<Rightarrow> rescope_state \<Rightarrow> rescope_state result" where
  "rescopeEach f [] state = Inr state"
| "rescopeEach f (i # is) state = bind_result (f i state) (rescopeEach f is)"

definition gameLocationId :: "StringState \<Rightarrow> nat \<Rightarrow> nat result" where
  "gameLocationId ss i = bind_result (locationStringId (ss_mrgn ss) i) (\<lambda>x. Inr (unat x))"

definition rescopeToEditor :: "u16 \<Rightarrow> nat \<Rightarrow> nat \<Rightarrow> StringState \<Rightarrow> rescope_state result" where
  "rescopeToEditor ver stringId newStringId ss =
    bind_result (rescopeAt stringId (\<lambda>ss. Inr (Strings_getScenarioNameStringId ss Scope_Game))
        (\<lambda>ss. Inr (Strings_getScenarioNameStringId ss Scope_Editor))
        (\<lambda>ss. Inr (Strings_setScenarioNameStringId newStringId Scope_Editor ss)) ([], ss)) (\<lambda>st.
    bind_result (rescopeAt stringId (\<lambda>ss. Inr (Strings_getScenarioDescriptionStringId ss Scope_Game))
        (\<lambda>ss. Inr (Strings_getScenarioDescriptionStringId ss Scope_Editor))
        (\<lambda>ss. Inr (Strings_setScenarioDescriptionStringId newStringId Scope_Editor ss)) st) (\<lambda>st.
    bind_result (rescopeEach (\<lambda>i. rescopeAt stringId (\<lambda>ss. Strings_getForceNameStringId ss (of_nat i) Scope_Game)
        (\<lambda>ss. Strings_getForceNameStringId ss (of_nat i) Scope_Editor)
        (Strings_setForceNameStringId (of_nat i) newStringId Scope_Editor)) [0..<TotalForces] st) (\<lambda>st.
    bind_result (rescopeEach (\<lambda>i. rescopeAt stringId (\<lambda>ss. Strings_getUnitNameStringId ver ss (of_nat i) No Scope_Game)
        (\<lambda>ss. Strings_getUnitNameStringId ver ss (of_nat i) No Scope_Editor)
        (Strings_setUnitNameStringId (of_nat i) newStringId No Scope_Editor)) [0..<TotalUnitTypes] st) (\<lambda>st.
    bind_result (rescopeEach (\<lambda>i. rescopeAt stringId (\<lambda>ss. Strings_getUnitNameStringId ver ss (of_nat i) Yes Scope_Game)
        (\<lambda>ss. Strings_getUnitNameStringId ver ss (of_nat i) Yes Scope_Editor)
        (Strings_setUnitNameStringId (of_nat i) newStringId Yes Scope_Editor)) [0..<TotalUnitTypes] st) (\<lambda>st.
    bind_result (rescopeEach (\<lambda>i. rescopeAt stringId (\<lambda>ss. Strings_getSoundPathStringId ss i Scope_Game)
        (\<lambda>ss. Strings_getSoundPathStringId ss i Scope_Editor)
        (Strings_setSoundPathStringId i newStringId Scope_Editor)) [0..<TotalSounds] st) (\<lambda>st.
    bind_result (rescopeEach (\<lambda>i. rescopeAt stringId (\<lambda>ss. Strings_getSwitchNameStringId ss i Scope_Game)
        (\<lambda>ss. Strings_getSwitchNameStringId ss i Scope_Editor)
        (Strings_setSwitchNameStringId i newStringId Scope_Editor)) [0..<TotalSwitches] st)
    (rescopeEach (\<lambda>i. rescopeAt stringId (\<lambda>ss. gameLocationId ss i)
        (\<lambda>ss. Strings_getLocationNameStringId ss i Scope_Editor)
        (Strings_setLocationNameStringId i newStringId Scope_Editor))
        [1..<MrgnSection_numLocations (ss_mrgn ss) + 1])))))))"

definition rescopeToGame :: "u16 \<Rightarrow> nat \<Rightarrow> nat \<Rightarrow> StringState \<Rightarrow> rescope_state result" where
  "rescopeToGame ver stringId newStringId ss =
    bind_result (rescopeAt stringId (\<lambda>ss. Inr (Strings_getScenarioNameStringId ss Scope_Editor))
        (\<lambda>ss. Inr (Strings_getScenarioNameStringId ss Scope_Game))
        (\<lambda>ss. Inr (Strings_setScenarioNameStringId newStringId Scope_Game ss)) ([], ss)) (\<lambda>st.
    bind_result (rescopeAt stringId (\<lambda>ss. Inr (Strings_getScenarioDescriptionStringId ss Scope_Editor))
        (\<lambda>ss. Inr (Strings_getScenarioDescriptionStringId ss Scope_Game))
        (\<lambda>ss. Inr (Strings_setScenarioDescriptionStringId newStringId Scope_Game ss)) st) (\<lambda>st.
    bind_result (rescopeEach (\<lambda>i. rescopeAt stringId (\<lambda>ss. Strings_getForceNameStringId ss (of_nat i) Scope_Editor)
        (\<lambda>ss. Strings_getForceNameStringId ss (of_nat i) Scope_Game)
        (Strings_setForceNameStringId (of_nat i) newStringId Scope_Game)) [0..<TotalForces] st) (\<lambda>st.
    bind_result (rescopeEach (\<lambda>i. rescopeAt stringId (\<lambda>ss. Strings_getUnitNameStringId ver ss (of_nat i) No Scope_Editor)
        (\<lambda>ss. Strings_getUnitNameStringId ver ss (of_nat i) No Scope_Game)
        (Strings_setUnitNameStringId (of_nat i) newStringId No Scope_Game)) [0..<TotalUnitTypes] st) (\<lambda>st.
    bind_result (rescopeEach (\<lambda>i. rescopeAt stringId (\<lambda>ss. Strings_getUnitNameStringId ver ss (of_nat i) Yes Scope_Editor)
        (\<lambda>ss. Strings_getUnitNameStringId ver ss (of_nat i) Yes Scope_Game)
        (Strings_setUnitNameStringId (of_nat i) newStringId Yes Scope_Game)) [0..<TotalUnitTypes] st) (\<lambda>st.
    bind_result (rescopeEach (\<lambda>i. rescopeAt stringId (\<lambda>ss. Strings_getSoundPathStringId ss i Scope_Editor)
        (\<lambda>ss. Strings_getSoundPathStringId ss i Scope_Game)
        (Strings_setSoundPathStringId i newStringId Scope_Game)) [0..<TotalSounds] st) (\<lambda>st.
    bind_result (rescopeEach (\<lambda>i. rescopeAt stringId (\<lambda>ss. Strings_getSwitchNameStringId ss i Scope_Editor)
        (\<lambda>ss. Strings_getSwitchNameStringId ss i Scope_Game)
        (Strings_setSwitchNameStringId i newStringId Scope_Game)) [0..<TotalSwitches] st)
    (rescopeEach (\<lambda>i. rescopeAt stringId (\<lambda>ss. Strings_getLocationNameStringId ss i Scope_Editor)
        (\<lambda>ss. gameLocationId ss i)
        (\<lambda>ss. bind_result (setLocationStringId i (of_nat newStringId) (ss_mrgn ss)) (\<lambda>mrgn. Inr (ss\<lparr>ss_mrgn := mrgn\<rparr>))))
        [1..<MrgnSection_numLocations (ss_mrgn ss) + 1])))))))"

primrec deleteEach :: "scope \<Rightarrow> nat list \<Rightarrow> StringState \<Rightarrow> StringState result" where
  "deleteEach storageScope [] ss = Inr ss"
| "deleteEach storageScope (i # is) ss = bind_result (Strings_deleteString i storageScope True ss) (deleteEach storageScope is)"

text \<open>The replaced ids are kept in a \<open>std::set\<close>, so they are deleted in order and once each. The result is always 0.\<close>

definition Strings_rescopeString :: "u16 \<Rightarrow> nat \<Rightarrow> scope \<Rightarrow> bool \<Rightarrow> StringState \<Rightarrow> (nat \<times> StringState) result" where
  "Strings_rescopeString ver stringId changeStorageScopeTo autoDefragment ss =
    (let move = (\<lambda>fromScope toScope rescope.
       case Strings_getString RawString ss stringId fromScope of
         None \<Rightarrow> Inl UndefinedBehavior
       | Some toRescope \<Rightarrow>
           bind_result (Strings_addString RawString toRescope toScope autoDefragment ss) (\<lambda>(newStringId, ss1).
             if newStringId \<noteq> 0 then
               bind_result (rescope newStringId ss1) (\<lambda>(replaced, ss2).
               bind_result (Strings_deleteString stringId fromScope False ss2)
                 (deleteEach toScope (sorted_list_of_set (set replaced))))
             else Inr ss1))
     in bind_result
       (if changeStorageScopeTo = Scope_Editor \<and> Strings_stringUsed ss stringId Scope_Either Scope_Game AllUsers True
        then move Scope_Game Scope_Editor (rescopeToEditor ver stringId)
        else if changeStorageScopeTo = Scope_Game \<and> Strings_stringUsed ss stringId Scope_Either Scope_Editor AllUsers True
        then move Scope_Editor Scope_Game (rescopeToGame ver stringId)
        else Inr ss)
       (\<lambda>ss'. Inr (0, ss')))"

section \<open>Adding a string changes nothing but the table\<close>

lemma remapField_empty [simp]: "remapField Map.empty x = x"
  by (simp add: remapField_def)

lemma remap_actions_empty [simp]:
  "Action_remapStringIds Map.empty a = a" "Action_remapBriefingStringIds Map.empty a = a"
  by (simp_all add: Action_remapStringIds_def Action_remapBriefingStringIds_def Let_def)

lemma remap_empty [simp]:
  "SprpSection_remapStringIds Map.empty sprp = sprp" "ForcSection_remapStringIds Map.empty forc = forc"
  "Properties_remapStringIds Map.empty names = names" "WavSection_remapStringIds Map.empty wav = wav"
  "SwnmSection_remapStringIds Map.empty swnm = swnm" "TrigSection_remapStringIds Map.empty trig = trig"
  "MbrfSection_remapStringIds Map.empty mbrf = mbrf"
  by (simp_all add: SprpSection_remapStringIds_def ForcSection_remapStringIds_def Properties_remapStringIds_def
      UnisSection_remapStringIds_def UnixSection_remapStringIds_def WavSection_remapStringIds_def
      SwnmSection_remapStringIds_def TrigSection_remapStringIds_def MbrfSection_remapStringIds_def
      Trigger_remapStringIds_def Trigger_remapBriefingStringIds_def map_idI split: prod.split)

lemma remapStringIds_empty:
  assumes "wf_MrgnSection (ss_mrgn ss)"
  shows "Strings_remapStringIds Map.empty Scope_Game ss = Inr ss"
proof -
  obtain ls where "locations (ss_mrgn ss) = None # map Some ls" using assms wf_MrgnSection_iff by blast
  then have "MrgnSection_remapStringIds Map.empty (ss_mrgn ss) = Inr (ss_mrgn ss)"
    by (simp add: MrgnSection_remapStringIds_def updateLocations_def)
  then show ?thesis
    by (simp add: Strings_remapStringIds_def Layers_remapStringIds_def Players_remapStringIds_def Triggers_remapStringIds_def)
qed

lemma addString_game_state:
  assumes "wf_MrgnSection (ss_mrgn ss)" "strings (ss_str ss) \<noteq> []"
    and "Strings_addString t str Scope_Game autoDefragment ss = Inr (stringId, ss')"
  shows "ss' = ss\<lparr>ss_str := ss_str ss'\<rparr>" "0 < stringId"
    "slotEquals t (strings (ss_str ss') ! stringId) str" "stringId < length (strings (ss_str ss'))"
    "\<And>i. i \<in> Strings_gameRefs AllUsers ss \<Longrightarrow> StrSection_getString RawString (ss_str ss') i = StrSection_getString RawString (ss_str ss) i"
    "length (strings (ss_str ss)) \<le> MaxStrings \<Longrightarrow> length (strings (ss_str ss')) \<le> MaxStrings"
proof -
  note spec = addString_game_Inr [OF assms]
  show "0 < stringId" "slotEquals t (strings (ss_str ss') ! stringId) str" "stringId < length (strings (ss_str ss'))"
    using spec by (simp_all add: Strings_getCapacity_def StrSection_getCapacity_def)
  have "ss' = ss\<lparr>ss_str := ss_str ss'\<rparr> \<and> (stringId \<notin> Strings_gameRefs AllUsers ss \<or> ss' = ss) \<and>
    (length (strings (ss_str ss)) \<le> MaxStrings \<longrightarrow> length (strings (ss_str ss')) \<le> MaxStrings)"
  proof (cases "StrSection_findString t (ss_str ss) str = NoString")
    case True
    note new = addString_game_new [OF assms(1,2) True assms(3)]
    show ?thesis using remapStringIds_empty [of "ss\<lparr>ss_str := ss_str ss'\<rparr>"] assms(1) new(2,3,4,7) by simp
  next
    case False
    then show ?thesis using assms(3) by (auto simp: Strings_addString_def)
  qed
  then show "ss' = ss\<lparr>ss_str := ss_str ss'\<rparr>"
    and "\<And>i. i \<in> Strings_gameRefs AllUsers ss \<Longrightarrow>
      StrSection_getString RawString (ss_str ss') i = StrSection_getString RawString (ss_str ss) i"
    and "length (strings (ss_str ss)) \<le> MaxStrings \<Longrightarrow> length (strings (ss_str ss')) \<le> MaxStrings"
    using spec by auto
qed

section \<open>Names as one store\<close>

text \<open>The things with a game name, and the operations of the code on each.\<close>

datatype name_slot = ScenarioNameOf | DescriptionOf | ForceNameOf u8 | SoundPathOf nat | SwitchNameOf nat | LocationNameOf nat

definition getName :: "StringType \<Rightarrow> StringState \<Rightarrow> name_slot \<Rightarrow> string option result" where
  "getName t ss slot = (case slot of
      ScenarioNameOf \<Rightarrow> Inr (Strings_getScenarioName t ss Scope_Game)
    | DescriptionOf \<Rightarrow> Inr (Strings_getScenarioDescription t ss Scope_Game)
    | ForceNameOf force \<Rightarrow> Strings_getForceName t ss force Scope_Game
    | SoundPathOf i \<Rightarrow> Strings_getSoundPath t ss i Scope_Game
    | SwitchNameOf i \<Rightarrow> Strings_getSwitchName t ss i Scope_Game
    | LocationNameOf i \<Rightarrow> Strings_getLocationName t ss i Scope_Game)"

definition setName :: "name_slot \<Rightarrow> StringType \<Rightarrow> string \<Rightarrow> bool \<Rightarrow> StringState \<Rightarrow> StringState result" where
  "setName slot t str autoDefragment ss = (case slot of
      ScenarioNameOf \<Rightarrow> Strings_setScenarioName t str Scope_Game autoDefragment ss
    | DescriptionOf \<Rightarrow> Strings_setScenarioDescription t str Scope_Game autoDefragment ss
    | ForceNameOf force \<Rightarrow> Strings_setForceName force t str Scope_Game autoDefragment ss
    | SoundPathOf i \<Rightarrow> Strings_setSoundPath i t str Scope_Game autoDefragment ss
    | SwitchNameOf i \<Rightarrow> Strings_setSwitchName i t str Scope_Game autoDefragment ss
    | LocationNameOf i \<Rightarrow> Strings_setLocationName i t str Scope_Game autoDefragment ss)"

text \<open>A state whose sections have the sizes of the file format.\<close>

definition wf_Strings :: "StringState \<Rightarrow> bool" where
  "wf_Strings ss \<longleftrightarrow> wf_MrgnSection (ss_mrgn ss) \<and> MrgnSection_numLocations (ss_mrgn ss) \<le> TotalLocations \<and>
    strings (ss_str ss) \<noteq> [] \<and> length (strings (ss_str ss)) \<le> MaxStrings \<and> wf_ForcSection (ss_forc ss) \<and>
    length (soundPathStringId (tr_wav (ss_triggers ss))) = TotalSounds \<and>
    length (switchName (tr_swnm (ss_triggers ss))) = TotalSwitches \<and> wf_OstrSection (ss_ostr ss)"

definition validSlot :: "StringState \<Rightarrow> name_slot \<Rightarrow> bool" where
  "validSlot ss slot \<longleftrightarrow> (case slot of
      ForceNameOf force \<Rightarrow> unat force < TotalForces
    | SoundPathOf i \<Rightarrow> i < TotalSounds
    | SwitchNameOf i \<Rightarrow> i < TotalSwitches
    | LocationNameOf i \<Rightarrow> 0 < i \<and> i \<le> MrgnSection_numLocations (ss_mrgn ss)
    | _ \<Rightarrow> True)"

definition nameIdOf :: "StringState \<Rightarrow> name_slot \<Rightarrow> nat" where
  "nameIdOf ss slot = (case slot of
      ScenarioNameOf \<Rightarrow> unat (scenarioNameStringId (ss_sprp ss))
    | DescriptionOf \<Rightarrow> unat (scenarioDescriptionStringId (ss_sprp ss))
    | ForceNameOf force \<Rightarrow> unat (forc_forceString (ss_forc ss) ! unat force)
    | SoundPathOf i \<Rightarrow> unat (soundPathStringId (tr_wav (ss_triggers ss)) ! i)
    | SwitchNameOf i \<Rightarrow> unat (switchName (tr_swnm (ss_triggers ss)) ! i)
    | LocationNameOf i \<Rightarrow> unat (l_stringId (the (locations (ss_mrgn ss) ! i))))"

lemma location_nth:
  assumes "wf_MrgnSection sec" "0 < i" "i \<le> MrgnSection_numLocations sec"
  shows "\<exists>l. locations sec ! i = Some l" "i < length (locations sec)"
proof -
  obtain ls where "locations sec = None # map Some ls" using assms(1) wf_MrgnSection_iff by blast
  then show "\<exists>l. locations sec ! i = Some l" "i < length (locations sec)"
    using assms(2,3) by (auto simp: MrgnSection_numLocations_def nth_Cons')
qed

lemma getName_eq:
  assumes "wf_Strings ss" "validSlot ss slot"
  shows "getName t ss slot = Inr (StrSection_getString t (ss_str ss) (nameIdOf ss slot))"
proof (cases slot)
  case (LocationNameOf i)
  obtain l where l: "locations (ss_mrgn ss) ! i = Some l" "i < length (locations (ss_mrgn ss))"
    using location_nth [of "ss_mrgn ss" i] assms LocationNameOf by (auto simp: wf_Strings_def validSlot_def)
  have "i \<le> TotalLocations" "i - Suc 0 < TotalLocations"
    using assms LocationNameOf by (auto simp: wf_Strings_def validSlot_def)
  then show ?thesis using assms l LocationNameOf
    by (simp add: getName_def Strings_getLocationName_def getNamed_def locationStringId_def MrgnSection_getLocation_def
        at_unchecked_def deref_def editorId_def OstrSection_getLocationNameStringId_def wf_Strings_def wf_OstrSection_def
        validSlot_def nameIdOf_def getStringOf_def)
qed (use assms in \<open>simp_all add: getName_def Strings_getScenarioName_def Strings_getScenarioDescription_def
    Strings_getForceName_def Strings_getSoundPath_def Strings_getSwitchName_def getNamed_def getStringOf_def nameIdOf_def
    SprpSection_getScenarioNameStringId_def SprpSection_getScenarioDescriptionStringId_def editorId_def
    ForcSection_getForceStringId_def OstrSection_getForceNameStringId_def Triggers_getSoundStringId_def
    WavSection_getSoundStringId_def OstrSection_getSoundPathStringId_def Triggers_getSwitchNameStringId_def
    SwnmSection_getSwitchNameStringId_def OstrSection_getSwitchNameStringId_def ostrGet_def at_unchecked_def
    validSlot_def wf_Strings_def wf_ForcSection_def wf_OstrSection_def\<close>)

lemma nameIdOf_refs:
  assumes "wf_Strings ss" "validSlot ss slot"
  shows "nameIdOf ss slot \<in> Strings_gameRefs AllUsers ss"
proof (cases slot)
  case (LocationNameOf i)
  have "i < length (locations (ss_mrgn ss))" "0 < i"
    using location_nth [of "ss_mrgn ss" i] assms LocationNameOf by (auto simp: wf_Strings_def validSlot_def)
  then have "locations (ss_mrgn ss) ! i \<in> set (drop 1 (locations (ss_mrgn ss)))"
    by (auto simp: in_set_conv_nth intro!: exI [of _ "i - 1"])
  then show ?thesis using LocationNameOf
    by (auto simp: nameIdOf_def Strings_gameRefs_def MrgnSection_strings_def MrgnSection_ids_def)
qed (use assms in \<open>auto simp: nameIdOf_def Strings_gameRefs_def SprpSection_strings_def ForcSection_strings_def
    WavSection_strings_def SwnmSection_strings_def validSlot_def wf_Strings_def wf_ForcSection_def\<close>)

text \<open>What storing a new id in a slot does to the ids of all slots and to the strings in use.\<close>

definition storeId :: "name_slot \<Rightarrow> nat \<Rightarrow> StringState \<Rightarrow> StringState" where
  "storeId slot i ss = (case slot of
      ScenarioNameOf \<Rightarrow> ss\<lparr>ss_sprp := (ss_sprp ss)\<lparr>scenarioNameStringId := of_nat i\<rparr>\<rparr>
    | DescriptionOf \<Rightarrow> ss\<lparr>ss_sprp := (ss_sprp ss)\<lparr>scenarioDescriptionStringId := of_nat i\<rparr>\<rparr>
    | ForceNameOf force \<Rightarrow> ss\<lparr>ss_forc := (ss_forc ss)\<lparr>forc_forceString := (forc_forceString (ss_forc ss))[unat force := of_nat i]\<rparr>\<rparr>
    | SoundPathOf k \<Rightarrow> ss\<lparr>ss_triggers := (ss_triggers ss)\<lparr>tr_wav := (tr_wav (ss_triggers ss))
        \<lparr>soundPathStringId := (soundPathStringId (tr_wav (ss_triggers ss)))[k := of_nat i]\<rparr>\<rparr>\<rparr>
    | SwitchNameOf k \<Rightarrow> ss\<lparr>ss_triggers := (ss_triggers ss)\<lparr>tr_swnm := (tr_swnm (ss_triggers ss))
        \<lparr>switchName := (switchName (tr_swnm (ss_triggers ss)))[k := of_nat i]\<rparr>\<rparr>\<rparr>
    | LocationNameOf k \<Rightarrow> ss\<lparr>ss_mrgn := (ss_mrgn ss)\<lparr>locations := (locations (ss_mrgn ss))
        [k := map_option (\<lambda>l. l\<lparr>l_stringId := of_nat i\<rparr>) (locations (ss_mrgn ss) ! k)]\<rparr>\<rparr>)"

lemma setName_eq:
  assumes "wf_Strings ss" "validSlot ss slot"
  shows "setName slot t str autoDefragment ss =
    bind_result (Strings_addString t str Scope_Game autoDefragment ss) (\<lambda>(i, ss'). Inr (storeId slot i ss'))"
proof (cases "Strings_addString t str Scope_Game autoDefragment ss")
  case (Inl e)
  then show ?thesis using assms(2)
    by (cases slot) (simp_all add: setName_def Strings_setScenarioName_def Strings_setScenarioDescription_def
      Strings_setForceName_def Strings_setSoundPath_def Strings_setSwitchName_def Strings_setLocationName_def
      setNamed_def validSlot_def)
next
  case (Inr r)
  then obtain i ss' where r: "Strings_addString t str Scope_Game autoDefragment ss = Inr (i, ss')" by (cases r) simp
  have wf: "wf_MrgnSection (ss_mrgn ss)" "strings (ss_str ss) \<noteq> []" using assms(1) by (simp_all add: wf_Strings_def)
  note add = addString_game_state [OF wf r]
  have i: "i \<noteq> NoString" using add(2) by (simp add: NoString_def)
  have mrgn: "ss_mrgn ss' = ss_mrgn ss" by (subst add(1)) simp
  show ?thesis
  proof (cases slot)
    case (LocationNameOf k)
    obtain l where "locations (ss_mrgn ss) ! k = Some l" "k < length (locations (ss_mrgn ss))"
      using location_nth [of "ss_mrgn ss" k] assms LocationNameOf by (auto simp: wf_Strings_def validSlot_def)
    then show ?thesis using r i LocationNameOf mrgn
      by (simp add: setName_def Strings_setLocationName_def setNamed_def setLocationStringId_def MrgnSection_getLocation_def
          at_unchecked_def deref_def storeId_def)
  qed (use r i assms(2) in \<open>simp_all add: setName_def Strings_setScenarioName_def Strings_setScenarioDescription_def
      Strings_setForceName_def Strings_setSoundPath_def Strings_setSwitchName_def setNamed_def storeId_def validSlot_def
      Strings_setScenarioNameStringId_def Strings_setScenarioDescriptionStringId_def Strings_setForceNameStringId_def
      Strings_setSoundPathStringId_def Strings_setSwitchNameStringId_def SprpSection_setScenarioNameStringId_def
      SprpSection_setScenarioDescriptionStringId_def ForcSection_setForceStringId_def Triggers_setSoundStringId_def
      WavSection_setSoundStringId_def Triggers_setSwitchNameStringId_def SwnmSection_setSwitchNameStringId_def\<close>)
qed

lemma ids_fit: "i < MaxStrings \<Longrightarrow> unat (of_nat i :: u16) = i" "i < MaxStrings \<Longrightarrow> unat (of_nat i :: u32) = i"
  by (simp_all add: MaxStrings_def unat_of_nat)

lemma nameIdOf_storeId:
  assumes "wf_Strings ss" "validSlot ss slot" "validSlot ss slot'" "i < MaxStrings"
  shows "nameIdOf (storeId slot i ss) slot' = (if slot' = slot then i else nameIdOf ss slot')"
proof (cases slot)
  case (LocationNameOf k)
  then obtain l where "locations (ss_mrgn ss) ! k = Some l" "k < length (locations (ss_mrgn ss))"
    using location_nth [of "ss_mrgn ss" k] assms by (auto simp: wf_Strings_def validSlot_def)
  then show ?thesis using LocationNameOf assms(4) by (cases slot') (simp_all add: nameIdOf_def storeId_def ids_fit nth_list_update)
next
  case (ForceNameOf force)
  then show ?thesis using assms
    by (cases slot') (simp_all add: nameIdOf_def storeId_def nth_list_update ids_fit validSlot_def wf_Strings_def wf_ForcSection_def
        word_unat_eq_iff [symmetric] eq_commute)
qed (cases slot'; use assms in \<open>simp_all add: nameIdOf_def storeId_def nth_list_update ids_fit validSlot_def wf_Strings_def\<close>)+

lemma wf_set_location:
  assumes "wf_MrgnSection sec" "0 < k"
  shows "wf_MrgnSection (sec\<lparr>locations := (locations sec)[k := map_option f (locations sec ! k)]\<rparr>)"
proof -
  obtain ls where ls: "locations sec = None # map Some ls" using assms(1) wf_MrgnSection_iff by blast
  obtain j where j: "k = Suc j" using assms(2) gr0_implies_Suc by blast
  have "(locations sec)[k := map_option f (locations sec ! k)] = None # map Some (ls[j := f (ls ! j)])"
    by (cases "j < length ls") (simp_all add: ls j map_update list_update_beyond)
  then show ?thesis by (auto simp: wf_MrgnSection_iff)
qed

lemma wf_storeId:
  assumes "wf_Strings ss" "validSlot ss slot"
  shows "wf_Strings (storeId slot i ss)" "validSlot (storeId slot i ss) slot' = validSlot ss slot'"
    "ss_str (storeId slot i ss) = ss_str ss"
proof -
  show "wf_Strings (storeId slot i ss)" using assms wf_set_location
    by (cases slot) (simp_all add: wf_Strings_def storeId_def wf_ForcSection_def validSlot_def MrgnSection_numLocations_def)
  show "validSlot (storeId slot i ss) slot' = validSlot ss slot'"
    by (cases slot; cases slot') (simp_all add: validSlot_def storeId_def MrgnSection_numLocations_def)
  show "ss_str (storeId slot i ss) = ss_str ss" by (cases slot) (simp_all add: storeId_def)
qed

lemma wf_addString:
  assumes "wf_Strings ss" "Strings_addString t str Scope_Game autoDefragment ss = Inr (i, ss')"
  shows "wf_Strings ss'" "validSlot ss' slot = validSlot ss slot" "nameIdOf ss' slot = nameIdOf ss slot"
    "Strings_gameRefs userMask ss' = Strings_gameRefs userMask ss" "i < MaxStrings"
proof -
  have wf: "wf_MrgnSection (ss_mrgn ss)" "strings (ss_str ss) \<noteq> []" using assms(1) by (simp_all add: wf_Strings_def)
  note add = addString_game_state [OF wf assms(2)]
  have len: "length (strings (ss_str ss')) \<le> MaxStrings" using add(6) assms(1) by (simp add: wf_Strings_def)
  have ne: "strings (ss_str ss') \<noteq> []" using add(4) by auto
  obtain sec where s: "ss' = ss\<lparr>ss_str := sec\<rparr>" "sec = ss_str ss'" using add(1) by blast
  show "wf_Strings ss'" using assms(1) len ne unfolding s(2) [symmetric] by (simp add: wf_Strings_def s(1))
  show "validSlot ss' slot = validSlot ss slot" "nameIdOf ss' slot = nameIdOf ss slot"
    by (cases slot; simp add: s(1) validSlot_def nameIdOf_def)+
  show "Strings_gameRefs userMask ss' = Strings_gameRefs userMask ss" by (simp add: s(1))
  show "i < MaxStrings" using add(4) len by simp
qed

section \<open>Properties\<close>


section \<open>Every string in use is stored\<close>

definition usedStored :: "StringState \<Rightarrow> bool" where
  "usedStored ss \<longleftrightarrow> (\<forall>i. 0 < i \<and> i < MaxStrings \<and> Strings_stringUsed ss i Scope_Either Scope_Game AllUsers False \<longrightarrow>
    Strings_stringStored ss i Scope_Game)"

text \<open>
  The operations that edit strings and names. A string is moved when it is stored.
\<close>

inductive string_step :: "StringState \<Rightarrow> StringState \<Rightarrow> bool" where
  add: "Strings_addString t str Scope_Game autoDefragment ss = Inr (i, ss') \<Longrightarrow> string_step ss ss'"
| replace: "string_step ss (Strings_replaceString t i str Scope_Game ss)"
| set_name: "validSlot ss slot \<Longrightarrow> setName slot t str autoDefragment ss = Inr ss' \<Longrightarrow> string_step ss ss'"
| delete_unused: "Strings_deleteUnusedStrings Scope_Game ss = Inr ss' \<Longrightarrow> string_step ss ss'"
| delete: "0 < i \<Longrightarrow> i < MaxStrings \<Longrightarrow> Strings_deleteString i Scope_Game True ss = Inr ss' \<Longrightarrow> string_step ss ss'"
| move: "0 < from \<Longrightarrow> 0 < to \<Longrightarrow> from \<noteq> to \<Longrightarrow> to < Strings_getCapacity ss Scope_Game \<Longrightarrow> Strings_stringStored ss from Scope_Game \<Longrightarrow>
    Strings_moveString from to Scope_Game ss = Some (Inr ss') \<Longrightarrow> string_step ss ss'"

lemma usedStored_iff:
  "wf_Strings ss \<Longrightarrow> usedStored ss \<longleftrightarrow>
    (\<forall>i\<in>Strings_gameRefs AllUsers ss. 0 < i \<and> i < MaxStrings \<longrightarrow> StrSection_stringStored (ss_str ss) i)"
  by (auto simp: usedStored_def game_used wf_Strings_def Strings_stringStored_def)

lemma wf_remap:
  assumes "wf_Strings ss" "Strings_remapStringIds m Scope_Game ss = Inr ss'"
  shows "wf_Strings ss'"
proof -
  obtain ls where ls: "locations (ss_mrgn ss) = None # map Some ls" using assms(1) wf_MrgnSection_iff by (auto simp: wf_Strings_def)
  have "MrgnSection_remapStringIds m (ss_mrgn ss) =
      Inr ((ss_mrgn ss)\<lparr>locations := None # map Some (map (\<lambda>l. l\<lparr>l_stringId := remapField m (l_stringId l)\<rparr>) ls)\<rparr>)"
    by (simp add: MrgnSection_remapStringIds_def updateLocations_def ls)
  then show ?thesis using assms
    by (auto simp: Strings_remapStringIds_def Layers_remapStringIds_def wf_Strings_def wf_MrgnSection_def ls MrgnSection_numLocations_def
        Players_remapStringIds_def ForcSection_remapStringIds_def wf_ForcSection_def Triggers_remapStringIds_def
        WavSection_remapStringIds_def SwnmSection_remapStringIds_def)
qed

lemma wf_deletedGame:
  assumes "wf_Strings ss" "MrgnSection_deleteString i (ss_mrgn ss) = Inr mrgn"
  shows "wf_Strings (deletedGame i mrgn ss)"
proof -
  obtain ls where ls: "locations (ss_mrgn ss) = None # map Some ls" using assms(1) wf_MrgnSection_iff by (auto simp: wf_Strings_def)
  have "mrgn = (ss_mrgn ss)\<lparr>locations := None # map Some (map (\<lambda>l. l\<lparr>l_stringId := clearField i (l_stringId l)\<rparr>) ls)\<rparr>"
    using assms(2) by (auto simp: MrgnSection_deleteString_def updateLocations_def ls comp_def)
  then show ?thesis using assms
    by (auto simp: deletedGame_def wf_Strings_def wf_MrgnSection_def ls MrgnSection_numLocations_def
        Players_deleteString_def ForcSection_deleteString_def wf_ForcSection_def Triggers_deleteString_def
        WavSection_deleteString_def SwnmSection_deleteString_def StrSection_deleteString_def)
qed

lemma stored_iff_getString: "StrSection_stringStored sec i \<longleftrightarrow> StrSection_getString RawString sec i \<noteq> None"
  by (simp add: StrSection_stringStored_def StrSection_getString_def)

lemma refs_storeId:
  "i < MaxStrings \<Longrightarrow> Strings_gameRefs AllUsers (storeId slot i ss) \<subseteq> insert i (Strings_gameRefs AllUsers ss)"
proof (cases slot)
  case (LocationNameOf k)
  assume i: "i < MaxStrings"
  have "MrgnSection_strings ((ss_mrgn ss)\<lparr>locations := (locations (ss_mrgn ss))
      [k := map_option (\<lambda>l. l\<lparr>l_stringId := of_nat i\<rparr>) (locations (ss_mrgn ss) ! k)]\<rparr>) \<subseteq>
      insert i (MrgnSection_strings (ss_mrgn ss))"
  proof (cases "k < length (locations (ss_mrgn ss)) \<and> locations (ss_mrgn ss) ! k \<noteq> None")
    case True
    then show ?thesis using i set_update_subset_insert [of "drop 1 (locations (ss_mrgn ss))" "k - 1"
        "map_option (\<lambda>l. l\<lparr>l_stringId := of_nat i\<rparr>) (locations (ss_mrgn ss) ! k)"]
      by (cases k) (auto simp: MrgnSection_strings_def MrgnSection_ids_def drop_update_swap ids_fit)
  next
    case False
    then have "(locations (ss_mrgn ss))[k := map_option (\<lambda>l. l\<lparr>l_stringId := of_nat i\<rparr>) (locations (ss_mrgn ss) ! k)] =
        locations (ss_mrgn ss)"
      by (cases "k < length (locations (ss_mrgn ss))") (auto simp: list_update_beyond intro: list_update_same_conv [THEN iffD2])
    then show ?thesis by auto
  qed
  then show ?thesis using LocationNameOf by (auto simp: Strings_gameRefs_def storeId_def)
qed (auto simp: Strings_gameRefs_def storeId_def SprpSection_strings_def ForcSection_strings_def WavSection_strings_def
    SwnmSection_strings_def ids_fit dest!: set_update_subset_insert [THEN subsetD])

lemma inv_add:
  assumes "wf_Strings ss" "usedStored ss"
    and add: "Strings_addString t str Scope_Game autoDefragment ss = Inr (i, ss')"
  shows "wf_Strings ss' \<and> usedStored ss'"
proof -
  have wf: "wf_MrgnSection (ss_mrgn ss)" "strings (ss_str ss) \<noteq> []" using assms(1) by (simp_all add: wf_Strings_def)
  note a = addString_game_state [OF wf add] and w = wf_addString [OF assms(1) add]
  show ?thesis using assms(2) w(1,4) a(5) by (simp add: usedStored_iff assms(1) stored_iff_getString)
qed

lemma inv_replace:
  assumes "wf_Strings ss" "usedStored ss"
    and replace: "ss' = Strings_replaceString t i str Scope_Game ss"
  shows "wf_Strings ss' \<and> usedStored ss'"
proof -
  have "wf_Strings ss'" using assms(1) by (simp add: replace Strings_replaceString_def StrSection_replaceString_def wf_Strings_def)
  moreover have "StrSection_stringStored (ss_str ss') j" if "StrSection_stringStored (ss_str ss) j" for j
    using that by (auto simp: replace Strings_replaceString_def StrSection_replaceString_def StrSection_stringStored_def nth_list_update)
  moreover have "Strings_gameRefs AllUsers ss' = Strings_gameRefs AllUsers ss" by (simp add: replace Strings_replaceString_def)
  ultimately show ?thesis using assms(1,2) by (simp add: usedStored_iff)
qed

lemma inv_set_name:
  assumes "wf_Strings ss" "usedStored ss"
    and set_name: "validSlot ss slot" "setName slot t str autoDefragment ss = Inr ss'"
  shows "wf_Strings ss' \<and> usedStored ss'"
proof -
  obtain i ss1 where add: "Strings_addString t str Scope_Game autoDefragment ss = Inr (i, ss1)" and ss': "ss' = storeId slot i ss1"
    using set_name(2) by (auto simp: setName_eq [OF assms(1) set_name(1)] bind_result_eq_Inr)
  have wf: "wf_MrgnSection (ss_mrgn ss)" "strings (ss_str ss) \<noteq> []" using assms(1) by (simp_all add: wf_Strings_def)
  note a = addString_game_state [OF wf add] and w = wf_addString [OF assms(1) add]
  have valid: "validSlot ss1 slot" using w(2) set_name(1) by simp
  note st = wf_storeId [OF w(1) valid, of i]
  have "StrSection_stringStored (ss_str ss1) i" using a(3,4) by (auto simp: StrSection_stringStored_def slotEquals_def split: option.splits)
  moreover have "StrSection_stringStored (ss_str ss1) j" if "j \<in> Strings_gameRefs AllUsers ss" "0 < j" "j < MaxStrings" for j
    using assms(2) that a(5) by (simp add: usedStored_iff assms(1) stored_iff_getString)
  moreover have "Strings_gameRefs AllUsers ss' \<subseteq> insert i (Strings_gameRefs AllUsers ss)"
    using refs_storeId [OF w(5), of slot ss1] w(4) ss' by simp
  ultimately have "\<forall>j\<in>Strings_gameRefs AllUsers ss'. 0 < j \<and> j < MaxStrings \<longrightarrow> StrSection_stringStored (ss_str ss') j"
    using st(3) ss' by auto
  then show ?thesis using st(1) ss' by (simp add: usedStored_iff)
qed

lemma inv_delete_unused:
  assumes "wf_Strings ss" "usedStored ss"
    and delete_unused: "Strings_deleteUnusedStrings Scope_Game ss = Inr ss'"
  shows "wf_Strings ss' \<and> usedStored ss'"
proof -
  let ?used = "marked (\<lambda>ss. Strings_markUsedStrings ss Scope_Either Scope_Game AllUsers) ss (\<lambda>_. False)"
  have wf: "wf_MrgnSection (ss_mrgn ss)" using assms(1) by (simp add: wf_Strings_def)
  then have ss': "ss' = ss\<lparr>ss_str := StrSection_deleteUnusedStrings ?used (ss_str ss)\<rparr>"
    using delete_unused by (simp add: Strings_deleteUnusedStrings_def deleteUnusedGame_def game_mark_total)
  have "wf_Strings ss'" using assms(1) by (simp add: ss' wf_Strings_def StrSection_deleteUnusedStrings_def)
  moreover have "StrSection_stringStored (ss_str ss') j"
    if "StrSection_stringStored (ss_str ss) j" "j \<in> Strings_gameRefs AllUsers ss" "0 < j" "j < MaxStrings" for j
    using that wf by (simp add: ss' StrSection_stringStored_def StrSection_deleteUnusedStrings_def game_str.mark_refs)
  ultimately show ?thesis using assms(1,2) by (simp add: usedStored_iff ss')
qed

lemma inv_delete:
  assumes "wf_Strings ss" "usedStored ss"
    and delete: "0 < i" "i < MaxStrings" "Strings_deleteString i Scope_Game True ss = Inr ss'"
  shows "wf_Strings ss' \<and> usedStored ss'"
proof -
  show ?thesis
  proof (cases "Strings_stringUsed ss i Scope_Game Scope_Game AllUsers False")
    case True
    then have "ss' = ss" using delete(3) by (simp add: Strings_deleteString_def)
    then show ?thesis using assms(1,2) by simp
  next
    case False
    have wf: "wf_MrgnSection (ss_mrgn ss)" using assms(1) by (simp add: wf_Strings_def)
    obtain mrgn where mrgn: "MrgnSection_deleteString i (ss_mrgn ss) = Inr mrgn"
      using MrgnSection_strings_total(1) [OF wf, of i] by blast
    have ss': "ss' = deletedGame i mrgn ss" using delete(3) deleteString_game_eq [OF False mrgn] by simp
    have refs: "Strings_gameRefs AllUsers ss' \<subseteq> insert 0 (Strings_gameRefs AllUsers ss) - {i}"
      unfolding ss' by (rule refs_deletedGame [OF wf delete(1,2) False mrgn])
    have st: "StrSection_stringStored (ss_str ss') j" if "j \<noteq> i" "StrSection_stringStored (ss_str ss) j" for j
      using that by (simp add: ss' deletedGame_def StrSection_stringStored_def StrSection_deleteString_def)
    have "wf_Strings ss'" unfolding ss' by (rule wf_deletedGame [OF assms(1) mrgn])
    moreover have "\<forall>j\<in>Strings_gameRefs AllUsers ss'. 0 < j \<and> j < MaxStrings \<longrightarrow> StrSection_stringStored (ss_str ss') j"
      using refs st assms(2) unfolding usedStored_iff [OF assms(1)] by blast
    ultimately show ?thesis by (simp add: usedStored_iff)
  qed
qed

lemma inv_move:
  assumes "wf_Strings ss" "usedStored ss"
    and move: "0 < from" "0 < to" "from \<noteq> to" "to < Strings_getCapacity ss Scope_Game" "Strings_stringStored ss from Scope_Game"
      "Strings_moveString from to Scope_Game ss = Some (Inr ss')"
  shows "wf_Strings ss' \<and> usedStored ss'"
proof -
  let ?str = "(ss_str ss)\<lparr>strings := (strings (ss_str ss))[to := strings (ss_str ss) ! from]\<rparr>"
  have lt: "from < length (strings (ss_str ss))" "to < length (strings (ss_str ss))" "strings (ss_str ss) ! from \<noteq> None"
    using move(4,5) by (auto simp: Strings_stringStored_def StrSection_stringStored_def Strings_getCapacity_def StrSection_getCapacity_def)
  have cap: "from < Strings_getCapacity ss Scope_Game" using lt(1) by (simp add: Strings_getCapacity_def StrSection_getCapacity_def)
  have r: "Strings_remapStringIds [from \<mapsto> to] Scope_Game (ss\<lparr>ss_str := ?str\<rparr>) = Inr ss'"
    using move(6) moveString_game [OF move(1-3) cap move(4)] by simp
  have wf: "wf_Strings (ss\<lparr>ss_str := ?str\<rparr>)" using assms(1) by (simp add: wf_Strings_def)
  have ran: "ran [from \<mapsto> to] \<subseteq> {..<MaxStrings}" using lt(2) assms(1) by (simp add: wf_Strings_def)
  have ss': "ss_str ss' = ?str" "Strings_gameRefs AllUsers ss' = renumber [from \<mapsto> to] ` Strings_gameRefs AllUsers ss"
    using game_remap [OF _ ran, of "ss\<lparr>ss_str := ?str\<rparr>" AllUsers] wf r by (auto simp: wf_Strings_def)
  have "StrSection_stringStored (ss_str ss') (renumber [from \<mapsto> to] i)" if "StrSection_stringStored (ss_str ss) i \<or> i = from" for i
    using that lt by (auto simp: ss'(1) StrSection_stringStored_def renumber_def nth_list_update)
  moreover have "renumber [from \<mapsto> to] i = i" if "i \<noteq> from" for i using that by simp
  ultimately have "\<forall>j\<in>Strings_gameRefs AllUsers ss'. 0 < j \<and> j < MaxStrings \<longrightarrow> StrSection_stringStored (ss_str ss') j"
    using assms(2) unfolding usedStored_iff [OF assms(1)] ss'(2) by (metis (no_types, lifting) imageE)
  then show ?thesis using wf_remap [OF wf r] by (simp add: usedStored_iff)
qed

lemma string_step_inv:
  assumes "string_step ss ss'" "wf_Strings ss" "usedStored ss"
  shows "wf_Strings ss' \<and> usedStored ss'"
  using assms(1)
  by cases (metis assms(2,3) inv_add inv_replace inv_set_name inv_delete_unused inv_delete inv_move)+


lemma example_wf_Strings: "wf_Strings example_strings"
proof -
  have "strings (ss_str example_strings) \<noteq> []" using example_table(1) by auto
  then show ?thesis using example_wf example_table(1)
    unfolding wf_Strings_def MaxStrings_def
    by (simp add: example_strings_def example_triggers_def MrgnSection_GetDefault_def MrgnSection_numLocations_def wf_ForcSection_def
      ForcSection_GetDefault_def WavSection_GetDefault_def SwnmSection_GetDefault_def OstrSection_GetDefault_def wf_OstrSection_def
      TotalForces_def TotalSlots_def TotalLocations_def Anywhere_def)
qed

lemma example_setName: "\<exists>ss'. setName (LocationNameOf 1) RawString ''Base'' True example_strings = Inr ss'"
proof -
  have valid: "validSlot example_strings (LocationNameOf 1)"
    by (simp add: validSlot_def example_strings_def MrgnSection_GetDefault_def MrgnSection_numLocations_def Anywhere_def)
  have wf: "wf_MrgnSection (ss_mrgn example_strings)" "strings (ss_str example_strings) \<noteq> []"
    using example_wf example_table(1) by auto
  have "\<not> (\<forall>i. 0 < i \<and> i < MaxStrings \<longrightarrow> i \<in> Strings_gameRefs AllUsers example_strings)"
    unfolding example_refs by (auto simp: MaxStrings_def intro!: exI [of _ 6])
  moreover have "StrSection_findString RawString (ss_str example_strings) ''Base'' = NoString"
    by (simp add: StrSection_findString_def find_index_def example_strings_def StrSection_GetDefault_def StrSection_new_def
        defaultStrings_def slotEquals_def ScStr_equals_def ScStr_new_def convertStr_def c_str_def upt_conv_Cons)
  ultimately obtain i ss1 where "Strings_addString RawString ''Base'' Scope_Game True example_strings = Inr (i, ss1)"
    using addString_game_total [OF wf] by blast
  then show ?thesis unfolding setName_eq [OF example_wf_Strings valid] by simp
qed



end
