(* ===== verification/TriggerLinks.thy ===== *)
theory TriggerLinks
  imports ScenarioTriggers
begin

text \<open>
  The links between triggers and their extended data (\<open>Triggers::fixTriggerExtensions\<close> in
  \<open>src/MappingCoreLib/Scenario.cpp\<close>), which every operation that changes the position of triggers is meant to
  restore: a trigger holds the index of its entry in KTRG, and the entry the number of its trigger. The lemmas
  follow one entry through the two loops.
\<close>

section \<open>One entry through the first loop\<close>

abbreviation extIndex :: "TriggerState \<Rightarrow> nat \<Rightarrow> nat" where
  "extIndex tr k \<equiv> Trigger_getExtendedDataIndex (triggers (tr_trig tr) ! k)"

abbreviation extension :: "TriggerState \<Rightarrow> nat \<Rightarrow> ExtendedTrigData option" where
  "extension tr e \<equiv> KtrgSection_getExtendedTrigger (tr_ktrg tr) e"

lemma set_trigger_simps [simp]:
  "tr_ktrg (set_trigger i t tr) = tr_ktrg tr"
  "triggers (tr_trig (set_trigger i t tr)) = (triggers (tr_trig tr))[i := t]"
  by (simp_all add: set_trigger_def)

lemma set_extension_simps [simp]: "tr_trig (set_extension e x tr) = tr_trig tr"
  by (simp add: set_extension_def)

lemma extension_set_extension:
  "extension tr e = Some y \<Longrightarrow> extension (set_extension e x tr) j = (if j = e then Some x else extension tr j)"
  by (auto simp: set_extension_def KtrgSection_getExtendedTrigger_def split: if_splits)

lemma wf_set_extension:
  "wf_KtrgSection (tr_ktrg tr) \<Longrightarrow> extension tr e = Some y \<Longrightarrow> wf_KtrgSection (tr_ktrg (set_extension e x tr))"
  by (auto simp: set_extension_def KtrgSection_getExtendedTrigger_def wf_KtrgSection_def nth_list_update split: if_splits)

definition ownedBy :: "TriggerState \<Rightarrow> nat \<Rightarrow> nat \<Rightarrow> nat option" where
  "ownedBy tr e j = find_index (\<lambda>k. extIndex tr k = e) 0 j"

text \<open>
  The entry \<open>e\<close> after the first \<open>j\<close> triggers: it holds the number of the first of them with its index, and
  that trigger is unchanged.
\<close>

definition linked :: "TriggerState \<Rightarrow> nat \<Rightarrow> ExtendedTrigData \<Rightarrow> nat \<Rightarrow> TriggerState \<times> nat set \<Rightarrow> bool" where
  "linked tr e x j state \<longleftrightarrow> (case state of (tr', used) \<Rightarrow>
    length (triggers (tr_trig tr')) = length (triggers (tr_trig tr)) \<and> wf_KtrgSection (tr_ktrg tr') \<and>
    (\<forall>m. j \<le> m \<longrightarrow> triggers (tr_trig tr') ! m = triggers (tr_trig tr) ! m) \<and>
    (case ownedBy tr e j of
       None \<Rightarrow> e \<notin> used \<and> extension tr' e = Some x
     | Some k \<Rightarrow> e \<in> used \<and> extension tr' e = Some (x\<lparr>x_trigNum := of_nat k\<rparr>) \<and>
         triggers (tr_trig tr') ! k = triggers (tr_trig tr) ! k))"

lemma ownedBy_Suc: "ownedBy tr e (Suc j) =
  (case ownedBy tr e j of Some k \<Rightarrow> Some k | None \<Rightarrow> if extIndex tr j = e then Some j else None)"
proof -
  have "List.find P (xs @ ys) = (case List.find P xs of None \<Rightarrow> List.find P ys | Some x \<Rightarrow> Some x)"
    for P :: "nat \<Rightarrow> bool" and xs ys by (induction xs) auto
  then show ?thesis by (simp add: ownedBy_def find_index_def split: option.split)
qed

lemma ownedBy_first:
  assumes "k < n" "extIndex tr k = e" "\<And>m. m < k \<Longrightarrow> extIndex tr m \<noteq> e"
  shows "ownedBy tr e n = Some k"
proof (cases "ownedBy tr e n")
  case None
  then show ?thesis using assms(1,2) by (auto simp: ownedBy_def find_index_None)
next
  case (Some h)
  note h = Some [unfolded ownedBy_def]
  have "extIndex tr h = e" using find_index_Some [OF h] by simp
  moreover have "\<not> k < h" using find_index_least [OF h, of k] assms(2) by auto
  ultimately show ?thesis using Some assms(3) [of h] by (metis linorder_neqE_nat)
qed

lemma linked_step:
  assumes "linked tr e x j (tr', used)" "j < length (triggers (tr_trig tr))" "e \<noteq> ExtendedTrigDataIndex_None"
  shows "linked tr e x (Suc j) (fixTrigger (tr', used) j)"
proof -
  have own: "k < j" if "ownedBy tr e j = Some k" for k using that find_index_Some [of _ 0 j k] by (simp add: ownedBy_def)
  have idx: "extIndex tr' j = extIndex tr j" using assms(1) by (simp add: linked_def)
  let ?e = "extIndex tr' j"
  show ?thesis
  proof (cases "?e = ExtendedTrigDataIndex_None")
    case True
    then have "fixTrigger (tr', used) j = (tr', used)" by (simp add: fixTrigger_def Let_def)
    moreover have "ownedBy tr e (Suc j) = ownedBy tr e j" using True idx assms(3) by (simp add: ownedBy_Suc split: option.split)
    ultimately show ?thesis using assms(1) by (simp add: linked_def)
  next
    case some: False
    show ?thesis
    proof (cases "extension tr' ?e")
      case None
      then have "?e \<noteq> e" using assms(1) by (auto simp: linked_def split: option.splits)
      then show ?thesis using None some assms(1) own idx
        by (auto simp: fixTrigger_def Let_def linked_def ownedBy_Suc nth_list_update split: option.splits)
    next
      case (Some y)
      show ?thesis
      proof (cases "?e \<in> used")
        case True
        then have "ownedBy tr e (Suc j) = ownedBy tr e j" using assms(1) idx
          by (auto simp: linked_def ownedBy_Suc split: option.splits)
        then show ?thesis using Some some True assms(1) own
          by (auto simp: fixTrigger_def Let_def linked_def nth_list_update split: option.splits)
      next
        case False
        then show ?thesis using Some some assms(1) own idx
          by (auto simp: fixTrigger_def Let_def linked_def ownedBy_Suc extension_set_extension wf_set_extension split: option.splits)
      qed
    qed
  qed
qed

lemma linked_loop:
  assumes "wf_KtrgSection (tr_ktrg tr)" "extension tr e = Some x" "e \<noteq> ExtendedTrigDataIndex_None"
  shows "j \<le> length (triggers (tr_trig tr)) \<Longrightarrow> linked tr e x j (foldl fixTrigger (tr, {}) [0..<j])"
proof (induction j)
  case 0
  then show ?case using assms by (simp add: linked_def ownedBy_def find_index_def)
next
  case (Suc j)
  obtain tr' used where s: "foldl fixTrigger (tr, {}) [0..<j] = (tr', used)" by fastforce
  then show ?case using Suc linked_step [of tr e x j tr' used] assms(3) by simp
qed

section \<open>One entry through the second loop\<close>

lemma fixExtension_loop_error: "foldl (\<lambda>r i. bind_result r (\<lambda>tr. fixExtension used tr i)) (Inl err) is = Inl err"
  by (induction "is") simp_all

lemma wf_fixExtension:
  assumes "wf_KtrgSection (tr_ktrg tr)" "fixExtension used tr i = Inr tr'"
  shows "wf_KtrgSection (tr_ktrg tr')" "length (triggers (tr_trig tr')) = length (triggers (tr_trig tr))"
    "extension tr' e = (if e = i \<and> e \<notin> used \<and> extension tr' e = None then None else extension tr e)"
    "e \<in> used \<Longrightarrow> extension tr' e = extension tr e"
    "extIndex tr k \<noteq> ExtendedTrigDataIndex_None \<Longrightarrow> triggers (tr_trig tr') ! k = triggers (tr_trig tr) ! k"
  using assms
  by (auto simp: fixExtension_def bind_result_eq_Inr ktrg_table.get_delete ktrg_table.inv_delete TrigSection_getTrigger_def
      at_unchecked_def nth_list_update split: option.splits if_splits)

lemma used_entry_kept:
  assumes "wf_KtrgSection (tr_ktrg tr)" "e \<in> used" "extIndex tr k \<noteq> ExtendedTrigDataIndex_None"
    and "foldl (\<lambda>r i. bind_result r (\<lambda>tr. fixExtension used tr i)) (Inr tr) is = Inr tr'"
  shows "extension tr' e = extension tr e \<and> triggers (tr_trig tr') ! k = triggers (tr_trig tr) ! k"
  using assms
proof (induction "is" arbitrary: tr)
  case (Cons i "is")
  obtain tr1 where tr1: "fixExtension used tr i = Inr tr1"
    using Cons.prems(4) by (cases "fixExtension used tr i") (simp_all add: fixExtension_loop_error)
  note w = wf_fixExtension [OF Cons.prems(1) tr1]
  show ?case using Cons.IH [of tr1] Cons.prems tr1 w by simp
qed simp

lemma unlinked_entry_fails:
  assumes "wf_KtrgSection (tr_ktrg tr)" "e \<notin> used" "extension tr e = Some x"
    and "x_trigNum x \<noteq> TrigNum_None" "length (triggers (tr_trig tr)) \<le> unat (x_trigNum x)" "e \<in> set is"
  shows "\<exists>err. foldl (\<lambda>r i. bind_result r (\<lambda>tr. fixExtension used tr i)) (Inr tr) is = Inl err"
  using assms
proof (induction "is" arbitrary: tr)
  case (Cons i "is")
  show ?case
  proof (cases "i = e")
    case True
    then have "fixExtension used tr i = Inl UndefinedBehavior"
      using Cons.prems by (simp add: fixExtension_def TrigSection_getTrigger_def at_unchecked_def)
    then show ?thesis by (simp add: fixExtension_loop_error)
  next
    case False
    show ?thesis
    proof (cases "fixExtension used tr i")
      case (Inl err)
      then show ?thesis by (simp add: fixExtension_loop_error)
    next
      case (Inr tr1)
      note w = wf_fixExtension [OF Cons.prems(1) Inr]
      have "extension tr1 e = Some x" using w(3) [of e] False Cons.prems(3) by simp
      then show ?thesis using Cons.IH [of tr1] Cons.prems(2,4-6) w(1,2) False Inr by simp
    qed
  qed
qed simp

lemma loop_length:
  assumes "wf_KtrgSection (tr_ktrg tr)" "foldl (\<lambda>r i. bind_result r (\<lambda>tr. fixExtension used tr i)) (Inr tr) is = Inr tr'"
  shows "length (triggers (tr_trig tr')) = length (triggers (tr_trig tr))"
  using assms
proof (induction "is" arbitrary: tr)
  case (Cons i "is")
  obtain tr1 where tr1: "fixExtension used tr i = Inr tr1"
    using Cons.prems(2) by (cases "fixExtension used tr i") (simp_all add: fixExtension_loop_error)
  show ?case using Cons.IH [of tr1] Cons.prems tr1 wf_fixExtension(1,2) [OF Cons.prems(1) tr1] by simp
qed simp

section \<open>Properties\<close>

lemma fixTriggerExtensions_entry:
  assumes "wf_KtrgSection (tr_ktrg tr)" "extension tr e = Some x" "e \<noteq> ExtendedTrigDataIndex_None"
  obtains tr1 used where "foldl fixTrigger (tr, {}) [0..<length (triggers (tr_trig tr))] = (tr1, used)"
    and "linked tr e x (length (triggers (tr_trig tr))) (tr1, used)"
    and "Triggers_fixTriggerExtensions tr = foldl (\<lambda>r i. bind_result r (\<lambda>tr. fixExtension used tr i)) (Inr tr1)
      [0..<KtrgSection_numExtendedTriggers (tr_ktrg tr1)]"
proof -
  obtain tr1 used where s: "foldl fixTrigger (tr, {}) [0..<length (triggers (tr_trig tr))] = (tr1, used)" by fastforce
  show thesis
    by (rule that [OF s]) (use linked_loop [OF assms order_refl] s in \<open>simp_all add: Triggers_fixTriggerExtensions_def\<close>)
qed

text \<open>
  C26. Inserting, deleting or moving a trigger restores the links of the others: when the
  operation returns, the first trigger that holds the index of an entry still holds it, and the entry holds
  the position the trigger has now, with its comment and notes as they were.
\<close>

theorem Triggers_fixTriggerExtensions_links:
  assumes "wf_KtrgSection (tr_ktrg tr)" "Triggers_fixTriggerExtensions tr = Inr tr'"
    and "k < Triggers_numTriggers tr" "Triggers_getTrigger tr k = Inr t"
    and "Trigger_getExtendedDataIndex t = e" "e \<noteq> ExtendedTrigDataIndex_None"
    and "KtrgSection_getExtendedTrigger (tr_ktrg tr) e = Some x"
    and "\<And>m u. m < k \<Longrightarrow> Triggers_getTrigger tr m = Inr u \<Longrightarrow> Trigger_getExtendedDataIndex u \<noteq> e"
  shows "Triggers_getTrigger tr' k = Inr t \<and>
    KtrgSection_getExtendedTrigger (tr_ktrg tr') e = Some (x\<lparr>x_trigNum := of_nat k\<rparr>)"
proof -
  let ?n = "length (triggers (tr_trig tr))"
  have k: "k < ?n" "triggers (tr_trig tr) ! k = t"
    using assms(3,4) by (simp_all add: Triggers_numTriggers_def TrigSection_numTriggers_def Triggers_getTrigger_def
        TrigSection_getTrigger_def at_unchecked_def)
  have "extIndex tr m \<noteq> e" if "m < k" for m
    using assms(8) [OF that] that k(1) by (simp add: Triggers_getTrigger_def TrigSection_getTrigger_def at_unchecked_def)
  then have own: "ownedBy tr e ?n = Some k"
    using k assms(5) by (intro ownedBy_first) simp_all
  obtain tr1 used where l: "linked tr e x ?n (tr1, used)"
    and f: "foldl (\<lambda>r i. bind_result r (\<lambda>tr. fixExtension used tr i)) (Inr tr1)
      [0..<KtrgSection_numExtendedTriggers (tr_ktrg tr1)] = Inr tr'"
    using fixTriggerExtensions_entry [OF assms(1,7,6)] assms(2) by metis
  have "extIndex tr1 k = e" using l own k(2) assms(5) by (simp add: linked_def)
  then have "extension tr' e = extension tr1 e \<and> triggers (tr_trig tr') ! k = triggers (tr_trig tr1) ! k"
    using used_entry_kept [OF _ _ _ f, of e k] l own assms(6) by (simp add: linked_def)
  moreover have "length (triggers (tr_trig tr')) = ?n" using loop_length [OF _ f] l by (simp add: linked_def)
  ultimately show ?thesis using l own k
    by (simp add: linked_def Triggers_getTrigger_def TrigSection_getTrigger_def at_unchecked_def)
qed

text \<open>
  Deleting the last trigger does not return when it has extended data: the entry still names the trigger,
  and looking that trigger up reads past the end of the triggers.
\<close>

lemma Triggers_deleteTrigger_last_fails:
  assumes "wf_KtrgSection (tr_ktrg tr)" "Triggers_numTriggers tr = Suc n" "Suc n < 2 ^ 32"
    and "Triggers_getTrigger tr n = Inr t" "Trigger_getExtendedDataIndex t = e" "e \<noteq> ExtendedTrigDataIndex_None"
    and "KtrgSection_getExtendedTrigger (tr_ktrg tr) e = Some x" "x_trigNum x = of_nat n"
    and "\<And>m u. m < n \<Longrightarrow> Triggers_getTrigger tr m = Inr u \<Longrightarrow> Trigger_getExtendedDataIndex u \<noteq> e"
  shows "\<exists>err. Triggers_deleteTrigger n tr = Inl err"
proof -
  let ?tr = "tr\<lparr>tr_trig := TrigSection_deleteTrigger n (tr_trig tr)\<rparr>"
  have len: "length (triggers (tr_trig tr)) = Suc n"
    using assms(2) by (simp add: Triggers_numTriggers_def TrigSection_numTriggers_def)
  have ts: "triggers (tr_trig ?tr) = take n (triggers (tr_trig tr))"
    using len by (simp add: TrigSection_deleteTrigger_def objs_delete_def erase_at_def)
  have "extIndex ?tr m \<noteq> e" if "m < n" for m
    using assms(9) [OF that] that len unfolding ts
    by (simp add: Triggers_getTrigger_def TrigSection_getTrigger_def at_unchecked_def)
  then have own: "ownedBy ?tr e n = None" by (auto simp: ownedBy_def find_index_None)
  have n: "length (triggers (tr_trig ?tr)) = n" using ts len by simp
  obtain tr1 used where l0: "linked ?tr e x (length (triggers (tr_trig ?tr))) (tr1, used)"
    and f: "Triggers_fixTriggerExtensions ?tr = foldl (\<lambda>r i. bind_result r (\<lambda>tr. fixExtension used tr i)) (Inr tr1)
      [0..<KtrgSection_numExtendedTriggers (tr_ktrg tr1)]"
    by (rule fixTriggerExtensions_entry [of ?tr e x]) (use assms(1,6,7) in simp_all)
  note l = l0 [unfolded n]
  have num: "unat (x_trigNum x) = n" "x_trigNum x \<noteq> TrigNum_None"
    using assms(3,8) by (simp_all add: unat_of_nat TrigNum_None_def word_unat_eq_iff)
  have "extension tr1 e = Some x" "e \<notin> used" "wf_KtrgSection (tr_ktrg tr1)" "length (triggers (tr_trig tr1)) = n"
    using l own n by (simp_all add: linked_def)
  moreover have "e \<in> set [0..<KtrgSection_numExtendedTriggers (tr_ktrg tr1)]"
    using calculation(1) by (auto simp: KtrgSection_getExtendedTrigger_def KtrgSection_numExtendedTriggers_def split: if_splits)
  ultimately show ?thesis using unlinked_entry_fails [of tr1 e used x] num f by (simp add: Triggers_deleteTrigger_def)
qed

definition example_linked :: "nat \<Rightarrow> TriggerState" where
  "example_linked trigNum = \<lparr>tr_uprp = \<lparr>createUnitProperties = []\<rparr>, tr_upus = \<lparr>cuwpUsedFlags = []\<rparr>,
    tr_trig = \<lparr>triggers = [example_trigger, example_trigger\<lparr>t_owners := set_owners_u32 2 (t_owners example_trigger)\<rparr>]\<rparr>,
    tr_mbrf = \<lparr>briefingTriggers = []\<rparr>, tr_swnm = SwnmSection_GetDefault, tr_wav = WavSection_GetDefault,
    tr_ktrg = \<lparr>extendedTrigData = [None, None, Some (ExtendedTrigData_new\<lparr>x_trigNum := of_nat trigNum\<rparr>)]\<rparr>\<rparr>"

lemma example_indexes:
  "Trigger_getExtendedDataIndex example_trigger = ExtendedTrigDataIndex_None"
  "Trigger_getExtendedDataIndex (example_trigger\<lparr>t_owners := set_owners_u32 2 (t_owners example_trigger)\<rparr>) = 2"
  by (simp_all add: Trigger_getExtendedDataIndex_def owners_u32_def example_trigger_def set_owners_u32_def CheckExtended_def GetIndex_def Let_def)

lemma example_linked_wf: "wf_KtrgSection (tr_ktrg (example_linked i))"
  by (simp add: example_linked_def wf_KtrgSection_def less_Suc_eq usableIndex_def UnusedExtendedTrigDataIndexCheck_def)
 

theorem Triggers_fixTriggerExtensions_links_witness:
  "\<exists>tr'. Triggers_fixTriggerExtensions (example_linked 0) = Inr tr' \<and>
    map_option x_trigNum (KtrgSection_getExtendedTrigger (tr_ktrg tr') 2) = Some 1"
proof -
  obtain tr' where r: "Triggers_fixTriggerExtensions (example_linked 0) = Inr tr'"
    by (simp add: Triggers_fixTriggerExtensions_def example_linked_def fixTrigger_def example_indexes Let_def
      KtrgSection_getExtendedTrigger_def set_extension_def ExtendedTrigDataIndex_None_def KtrgSection_numExtendedTriggers_def
      fixExtension_def)
  have "KtrgSection_getExtendedTrigger (tr_ktrg tr') 2 = Some (ExtendedTrigData_new\<lparr>x_trigNum := 0, x_trigNum := of_nat 1\<rparr>)"
    using Triggers_fixTriggerExtensions_links [OF example_linked_wf r, of 1 _ 2]
    by (simp add: example_linked_def Triggers_numTriggers_def TrigSection_numTriggers_def Triggers_getTrigger_def
        TrigSection_getTrigger_def at_unchecked_def example_indexes ExtendedTrigDataIndex_None_def
        KtrgSection_getExtendedTrigger_def)
  then show ?thesis using r by simp
qed

lemma Triggers_deleteTrigger_last_fails_witness: "\<exists>err. Triggers_deleteTrigger 1 (example_linked 1) = Inl err"
proof (rule Triggers_deleteTrigger_last_fails [OF example_linked_wf])
  show "Triggers_getTrigger (example_linked 1) 1 = Inr (example_trigger\<lparr>t_owners := set_owners_u32 2 (t_owners example_trigger)\<rparr>)"
    by (simp add: example_linked_def Triggers_getTrigger_def TrigSection_getTrigger_def at_unchecked_def)
  show "Trigger_getExtendedDataIndex (example_trigger\<lparr>t_owners := set_owners_u32 2 (t_owners example_trigger)\<rparr>) = 2"
    by (rule example_indexes)
  show "KtrgSection_getExtendedTrigger (tr_ktrg (example_linked 1)) 2 = Some (ExtendedTrigData_new\<lparr>x_trigNum := of_nat 1\<rparr>)"
    by (simp add: example_linked_def KtrgSection_getExtendedTrigger_def)
  show "Trigger_getExtendedDataIndex u \<noteq> 2" if "m < 1" "Triggers_getTrigger (example_linked 1) m = Inr u" for m u
    using that by (auto simp: example_linked_def Triggers_getTrigger_def TrigSection_getTrigger_def at_unchecked_def
      example_indexes ExtendedTrigDataIndex_None_def)
qed (simp_all add: example_linked_def Triggers_numTriggers_def TrigSection_numTriggers_def ExtendedTrigDataIndex_None_def)

end
