(* ===== verification/TerrainSections.thy ===== *)
theory TerrainSections
  imports ObjSections
begin

text \<open>
  The terrain of a map: ERA, DIM, MTXM, TILE, ISOM and MASK (\<open>src/MappingCoreLib/Sections.cpp\<close>), with
  the routine that changes the dimensions of a map of tiles. Sizes and edges are \<open>s64\<close> in that routine
  and start from \<open>u16\<close> and \<open>s32\<close> values, so their sums and products do not overflow and are integers here.
\<close>

section \<open>ERA and DIM\<close>

definition PixelsPerTile :: nat where "PixelsPerTile = 32"

record EraSection =
  era_tileset :: u16

definition EraSection_GetDefault :: "u16 \<Rightarrow> EraSection" where
  "EraSection_GetDefault tileset = \<lparr>era_tileset = tileset\<rparr>"

definition EraSection_getTileset :: "EraSection \<Rightarrow> u16" where
  "EraSection_getTileset sec = era_tileset sec"

definition EraSection_setTileset :: "u16 \<Rightarrow> EraSection \<Rightarrow> EraSection" where
  "EraSection_setTileset tileset sec = sec\<lparr>era_tileset := tileset\<rparr>"

record DimSection =
  dim_tileWidth :: u16
  dim_tileHeight :: u16

definition DimSection_GetDefault :: "u16 \<Rightarrow> u16 \<Rightarrow> DimSection" where
  "DimSection_GetDefault tileWidth tileHeight = \<lparr>dim_tileWidth = tileWidth, dim_tileHeight = tileHeight\<rparr>"

definition DimSection_getTileWidth :: "DimSection \<Rightarrow> nat" where
  "DimSection_getTileWidth sec = unat (dim_tileWidth sec)"

definition DimSection_getTileHeight :: "DimSection \<Rightarrow> nat" where
  "DimSection_getTileHeight sec = unat (dim_tileHeight sec)"

definition DimSection_getPixelWidth :: "DimSection \<Rightarrow> nat" where
  "DimSection_getPixelWidth sec = unat (dim_tileWidth sec) * PixelsPerTile"

definition DimSection_getPixelHeight :: "DimSection \<Rightarrow> nat" where
  "DimSection_getPixelHeight sec = unat (dim_tileHeight sec) * PixelsPerTile"

definition DimSection_setTileWidth :: "u16 \<Rightarrow> DimSection \<Rightarrow> DimSection" where
  "DimSection_setTileWidth tileWidth sec = sec\<lparr>dim_tileWidth := tileWidth\<rparr>"

definition DimSection_setTileHeight :: "u16 \<Rightarrow> DimSection \<Rightarrow> DimSection" where
  "DimSection_setTileHeight tileHeight sec = sec\<lparr>dim_tileHeight := tileHeight\<rparr>"

definition DimSection_setDimensions :: "u16 \<Rightarrow> u16 \<Rightarrow> DimSection \<Rightarrow> DimSection" where
  "DimSection_setDimensions tileWidth tileHeight sec = sec\<lparr>dim_tileWidth := tileWidth, dim_tileHeight := tileHeight\<rparr>"

section \<open>Changing the dimensions of a map of tiles\<close>

text \<open>
  \<open>erase(begin()+start, begin()+start+n)\<close> and \<open>insert(begin()+start, n, v)\<close> of a vector: a position or a
  range outside the vector is undefined behaviour.
\<close>

definition vec_erase :: "int \<Rightarrow> int \<Rightarrow> 'a list \<Rightarrow> 'a list result" where
  "vec_erase start n xs =
    (if 0 \<le> start \<and> 0 \<le> n \<and> start + n \<le> int (length xs)
     then Inr (take (nat start) xs @ drop (nat start + nat n) xs) else Inl UndefinedBehavior)"

definition vec_insert :: "int \<Rightarrow> int \<Rightarrow> 'a \<Rightarrow> 'a list \<Rightarrow> 'a list result" where
  "vec_insert start n v xs =
    (if 0 \<le> start \<and> 0 \<le> n \<and> start \<le> int (length xs)
     then Inr (take (nat start) xs @ replicate (nat n) v @ drop (nat start) xs) else Inl UndefinedBehavior)"

text \<open>The loops over the rows run from the last row to row 0, also where the index is unsigned.\<close>

primrec rows_down :: "(nat \<Rightarrow> 'a list \<Rightarrow> 'a list result) \<Rightarrow> nat \<Rightarrow> 'a list \<Rightarrow> 'a list result" where
  "rows_down f 0 xs = Inr xs"
| "rows_down f (Suc row) xs = bind_result (f row xs) (rows_down f row)"

text \<open>The vector and \<open>currTileWidth\<close> and \<open>currTileHeight\<close>.\<close>

type_synonym 'a tiling = "'a list \<times> int \<times> int"

definition removeBottomRows :: "int \<Rightarrow> int \<Rightarrow> 'a tiling \<Rightarrow> 'a tiling result" where
  "removeBottomRows newBottom oldBottom = (\<lambda>(tiles, currTileWidth, currTileHeight).
    if newBottom < oldBottom \<and> currTileWidth > 0 \<and> currTileHeight > 0 then
      let numRowsRemoved = oldBottom - newBottom;
          numTilesRemoved = numRowsRemoved * currTileWidth
      in if numTilesRemoved \<ge> int (length tiles) then Inr ([], 0, 0)
         else bind_result (vec_erase (int (length tiles) - numTilesRemoved) numTilesRemoved tiles)
           (\<lambda>tiles. Inr (tiles, currTileWidth, currTileHeight - numRowsRemoved))
    else Inr (tiles, currTileWidth, currTileHeight))"

definition removeTopRows :: "int \<Rightarrow> int \<Rightarrow> 'a tiling \<Rightarrow> 'a tiling result" where
  "removeTopRows newTop oldTop = (\<lambda>(tiles, currTileWidth, currTileHeight).
    if newTop > oldTop \<and> currTileWidth > 0 \<and> currTileHeight > 0 then
      let numRowsRemoved = newTop - oldTop;
          numTilesRemoved = numRowsRemoved * currTileWidth
      in if numTilesRemoved \<ge> int (length tiles) then Inr ([], 0, 0)
         else bind_result (vec_erase 0 numTilesRemoved tiles)
           (\<lambda>tiles. Inr (tiles, currTileWidth, currTileHeight - numRowsRemoved))
    else Inr (tiles, currTileWidth, currTileHeight))"

definition removeRightColumns :: "int \<Rightarrow> int \<Rightarrow> 'a tiling \<Rightarrow> 'a tiling result" where
  "removeRightColumns newRight oldRight = (\<lambda>(tiles, currTileWidth, currTileHeight).
    if newRight < oldRight \<and> currTileWidth > 0 \<and> currTileHeight > 0 then
      let numColumnsRemoved = oldRight - newRight
      in if numColumnsRemoved \<ge> currTileWidth then Inr ([], 0, 0)
         else
           let firstRemovedColumn = currTileWidth - numColumnsRemoved
           in bind_result
                (rows_down (\<lambda>row. vec_erase (int row * currTileWidth + firstRemovedColumn) numColumnsRemoved)
                  (nat currTileHeight) tiles)
                (\<lambda>tiles. Inr (tiles, currTileWidth - numColumnsRemoved, currTileHeight))
    else Inr (tiles, currTileWidth, currTileHeight))"

text \<open>The number of columns is compared with the height.\<close>

definition removeLeftColumns :: "int \<Rightarrow> int \<Rightarrow> 'a tiling \<Rightarrow> 'a tiling result" where
  "removeLeftColumns newLeft oldLeft = (\<lambda>(tiles, currTileWidth, currTileHeight).
    if newLeft > oldLeft \<and> currTileWidth > 0 \<and> currTileHeight > 0 then
      let numColumnsRemoved = newLeft - oldLeft
      in if numColumnsRemoved \<ge> currTileHeight then Inr ([], 0, 0)
         else bind_result
           (rows_down (\<lambda>row. vec_erase (int row * currTileWidth) numColumnsRemoved) (nat currTileHeight) tiles)
           (\<lambda>tiles. Inr (tiles, currTileWidth - numColumnsRemoved, currTileHeight))
    else Inr (tiles, currTileWidth, currTileHeight))"

text \<open>Columns are inserted at the row's start plus the number of columns added, not plus the width.\<close>

definition addRightColumns :: "'a \<Rightarrow> int \<Rightarrow> int \<Rightarrow> 'a tiling \<Rightarrow> 'a tiling result" where
  "addRightColumns blank newRight oldRight = (\<lambda>(tiles, currTileWidth, currTileHeight).
    if newRight > oldRight then
      let numColumnsAdded = newRight - oldRight
      in bind_result
           (rows_down (\<lambda>row. vec_insert (int row * currTileWidth + numColumnsAdded) numColumnsAdded blank)
             (nat currTileHeight) tiles)
           (\<lambda>tiles. Inr (tiles, currTileWidth + numColumnsAdded, currTileHeight))
    else Inr (tiles, currTileWidth, currTileHeight))"

definition addLeftColumns :: "'a \<Rightarrow> int \<Rightarrow> int \<Rightarrow> 'a tiling \<Rightarrow> 'a tiling result" where
  "addLeftColumns blank newLeft oldLeft = (\<lambda>(tiles, currTileWidth, currTileHeight).
    if newLeft < oldLeft then
      let numColumnsAdded = oldLeft - newLeft
      in bind_result
           (rows_down (\<lambda>row. vec_insert (int row * numColumnsAdded) numColumnsAdded blank) (nat currTileHeight) tiles)
           (\<lambda>tiles. Inr (tiles, currTileWidth + numColumnsAdded, currTileHeight))
    else Inr (tiles, currTileWidth, currTileHeight))"

definition addTopRows :: "'a \<Rightarrow> int \<Rightarrow> int \<Rightarrow> 'a tiling \<Rightarrow> 'a tiling result" where
  "addTopRows blank newTop oldTop = (\<lambda>(tiles, currTileWidth, currTileHeight).
    if newTop < oldTop then
      let numRowsAdded = oldTop - newTop
      in bind_result (vec_insert 0 (currTileWidth * numRowsAdded) blank tiles)
           (\<lambda>tiles. Inr (tiles, currTileWidth, currTileHeight + numRowsAdded))
    else Inr (tiles, currTileWidth, currTileHeight))"

definition addBottomRows :: "'a \<Rightarrow> int \<Rightarrow> int \<Rightarrow> 'a tiling \<Rightarrow> 'a tiling result" where
  "addBottomRows blank newBottom oldBottom = (\<lambda>(tiles, currTileWidth, currTileHeight).
    if newBottom > oldBottom then
      bind_result (vec_insert (int (length tiles)) (currTileWidth * (newBottom - oldBottom)) blank tiles)
        (\<lambda>tiles. Inr (tiles, currTileWidth, currTileHeight))
    else Inr (tiles, currTileWidth, currTileHeight))"

text \<open>
  The body that \<open>setMtxmOrTileDimensions\<close> and \<open>MaskSection::setDimensions\<close> share: the tiles after it.
\<close>

definition resizeTiles :: "'a \<Rightarrow> u16 \<Rightarrow> u16 \<Rightarrow> u16 \<Rightarrow> u16 \<Rightarrow> int \<Rightarrow> int \<Rightarrow> 'a list \<Rightarrow> 'a list result" where
  "resizeTiles blank newTileWidth newTileHeight oldTileWidth oldTileHeight leftEdge topEdge tiles =
    (let oldRight = int (unat oldTileWidth); oldBottom = int (unat oldTileHeight);
         newRight = leftEdge + int (unat newTileWidth); newBottom = topEdge + int (unat newTileHeight)
     in bind_result (removeBottomRows newBottom oldBottom (tiles, oldRight, oldBottom)) (\<lambda>t.
        bind_result (removeTopRows topEdge 0 t) (\<lambda>t.
        bind_result (removeRightColumns newRight oldRight t) (\<lambda>t.
        bind_result (removeLeftColumns leftEdge 0 t) (\<lambda>(tiles, currTileWidth, currTileHeight).
          if currTileWidth = 0 \<or> currTileHeight = 0 then Inr []
          else
            bind_result (addRightColumns blank newRight oldRight (tiles, currTileWidth, currTileHeight)) (\<lambda>t.
            bind_result (addLeftColumns blank leftEdge 0 t) (\<lambda>t.
            bind_result (addTopRows blank topEdge 0 t) (\<lambda>t.
            bind_result (addBottomRows blank newBottom oldBottom t) (\<lambda>(tiles, _). Inr tiles)))))))))"

section \<open>MTXM and TILE\<close>

text \<open>The writes take \<open>&v[0]\<close>, which an empty vector does not have.\<close>

definition write_vec :: "('a \<Rightarrow> string) \<Rightarrow> 'a list \<Rightarrow> string result" where
  "write_vec enc xs = (if xs = [] then Inl UndefinedBehavior else Inr (enc_array enc xs))"

text \<open>
  \<open>setMtxmOrTileDimensions\<close> takes the tiles by value: what it does to them stays in its own copy.
\<close>

definition setMtxmOrTileDimensions :: "u16 list \<Rightarrow> u16 \<Rightarrow> u16 \<Rightarrow> u16 \<Rightarrow> u16 \<Rightarrow> int \<Rightarrow> int \<Rightarrow> unit result" where
  "setMtxmOrTileDimensions tiles newTileWidth newTileHeight oldTileWidth oldTileHeight leftEdge topEdge =
    bind_result (resizeTiles 0 newTileWidth newTileHeight oldTileWidth oldTileHeight leftEdge topEdge tiles) (\<lambda>_. Inr ())"

text \<open>
  The read shared by the sections of tiles: the vector grows to the tiles read, shrinks to them unless the
  section is overridden, and the bytes of the stream are read over its zeroed start.
\<close>

definition tiles_read ::
  "nat \<Rightarrow> ('a \<Rightarrow> string) \<Rightarrow> (string \<Rightarrow> 'a) \<Rightarrow> 'a \<Rightarrow> bool \<Rightarrow> bool \<Rightarrow> int \<Rightarrow> string \<Rightarrow> 'a list \<Rightarrow> (nat \<times> string \<times> 'a list) result" where
  "tiles_read sz enc dec blank overriding keepEmpty sizeInBytes is tiles =
    (if sizeInBytes < 0 then Inl NegativeSectionSize
     else
       let readSize = nat sizeInBytes in
       if readSize > 0 then
         let readNumTiles = readSize div sz + readSize mod sz;
             tiles = (if readNumTiles > length tiles then tiles @ replicate (readNumTiles - length tiles) blank
                      else if \<not> overriding \<and> readNumTiles < length tiles then take readNumTiles tiles
                      else tiles)
         in (case stream_read readSize is of (buf, gcount, rest) \<Rightarrow>
               Inr (gcount, rest, dec_array sz dec (length tiles) (buf @ drop readSize (enc_array enc tiles))))
       else Inr (0, is, (if keepEmpty then tiles else [])))"

record MtxmSection =
  mtxm_tiles :: "u16 list"

definition MtxmSection_GetDefault :: "u16 \<Rightarrow> u16 \<Rightarrow> MtxmSection" where
  "MtxmSection_GetDefault tileWidth tileHeight = \<lparr>mtxm_tiles = replicate (unat tileWidth * unat tileHeight) 0\<rparr>"

definition MtxmSection_getTile :: "MtxmSection \<Rightarrow> nat \<Rightarrow> u16 result" where
  "MtxmSection_getTile sec = at_or_throw (mtxm_tiles sec)"

definition MtxmSection_setTile :: "nat \<Rightarrow> u16 \<Rightarrow> MtxmSection \<Rightarrow> MtxmSection result" where
  "MtxmSection_setTile tileIndex tileValue sec =
    bind_result (set_or_throw (mtxm_tiles sec) tileIndex tileValue) (\<lambda>ts. Inr (sec\<lparr>mtxm_tiles := ts\<rparr>))"

definition MtxmSection_setDimensions :: "u16 \<Rightarrow> u16 \<Rightarrow> u16 \<Rightarrow> u16 \<Rightarrow> int \<Rightarrow> int \<Rightarrow> MtxmSection \<Rightarrow> MtxmSection result" where
  "MtxmSection_setDimensions newTileWidth newTileHeight oldTileWidth oldTileHeight leftEdge topEdge sec =
    bind_result (setMtxmOrTileDimensions (mtxm_tiles sec) newTileWidth newTileHeight oldTileWidth oldTileHeight leftEdge topEdge)
      (\<lambda>_. Inr sec)"

definition MtxmSection_getSize :: "MtxmSection \<Rightarrow> int" where
  "MtxmSection_getSize sec = toSectionSize (2 * length (mtxm_tiles sec))"

definition dec_tile :: "string \<Rightarrow> u16" where
  "dec_tile bs = dec_u16 bs 0"

definition MtxmSection_read :: "int \<Rightarrow> string \<Rightarrow> bool \<Rightarrow> MtxmSection \<Rightarrow> (nat \<times> string \<times> MtxmSection) result" where
  "MtxmSection_read sizeInBytes is overriding sec =
    bind_result (tiles_read 2 enc_u16 dec_tile 0 overriding overriding sizeInBytes is (mtxm_tiles sec))
      (\<lambda>(gcount, rest, ts). Inr (gcount, rest, sec\<lparr>mtxm_tiles := ts\<rparr>))"

definition MtxmSection_write :: "MtxmSection \<Rightarrow> string result" where
  "MtxmSection_write sec = write_vec enc_u16 (mtxm_tiles sec)"

record TileSection =
  tile_tiles :: "u16 list"

definition TileSection_GetDefault :: "u16 \<Rightarrow> u16 \<Rightarrow> TileSection" where
  "TileSection_GetDefault tileWidth tileHeight = \<lparr>tile_tiles = replicate (unat tileWidth * unat tileHeight) 0\<rparr>"

definition TileSection_getTile :: "TileSection \<Rightarrow> nat \<Rightarrow> u16 result" where
  "TileSection_getTile sec = at_or_throw (tile_tiles sec)"

definition TileSection_setTile :: "nat \<Rightarrow> u16 \<Rightarrow> TileSection \<Rightarrow> TileSection result" where
  "TileSection_setTile tileIndex tileValue sec =
    bind_result (set_or_throw (tile_tiles sec) tileIndex tileValue) (\<lambda>ts. Inr (sec\<lparr>tile_tiles := ts\<rparr>))"

definition TileSection_setDimensions :: "u16 \<Rightarrow> u16 \<Rightarrow> u16 \<Rightarrow> u16 \<Rightarrow> int \<Rightarrow> int \<Rightarrow> TileSection \<Rightarrow> TileSection result" where
  "TileSection_setDimensions newTileWidth newTileHeight oldTileWidth oldTileHeight leftEdge topEdge sec =
    bind_result (setMtxmOrTileDimensions (tile_tiles sec) newTileWidth newTileHeight oldTileWidth oldTileHeight leftEdge topEdge)
      (\<lambda>_. Inr sec)"

definition TileSection_getSize :: "TileSection \<Rightarrow> int" where
  "TileSection_getSize sec = toSectionSize (2 * length (tile_tiles sec))"

definition TileSection_read :: "int \<Rightarrow> string \<Rightarrow> bool \<Rightarrow> TileSection \<Rightarrow> (nat \<times> string \<times> TileSection) result" where
  "TileSection_read sizeInBytes is overriding sec =
    bind_result (tiles_read 2 enc_u16 dec_tile 0 overriding False sizeInBytes is (tile_tiles sec))
      (\<lambda>(gcount, rest, ts). Inr (gcount, rest, sec\<lparr>tile_tiles := ts\<rparr>))"

definition TileSection_write :: "TileSection \<Rightarrow> string result" where
  "TileSection_write sec = write_vec enc_u16 (tile_tiles sec)"

section \<open>ISOM\<close>

record IsomEntry =
  ie_left :: u16
  ie_top :: u16
  ie_right :: u16
  ie_bottom :: u16

definition IsomEntry_blank :: IsomEntry where
  "IsomEntry_blank = \<lparr>ie_left = 0, ie_top = 0, ie_right = 0, ie_bottom = 0\<rparr>"

definition enc_IsomEntry :: "IsomEntry \<Rightarrow> string" where
  "enc_IsomEntry e = enc_u16 (ie_left e) @ enc_u16 (ie_top e) @ enc_u16 (ie_right e) @ enc_u16 (ie_bottom e)"

definition dec_IsomEntry :: "string \<Rightarrow> IsomEntry" where
  "dec_IsomEntry bs = \<lparr>ie_left = dec_u16 bs 0, ie_top = dec_u16 bs 2, ie_right = dec_u16 bs 4, ie_bottom = dec_u16 bs 6\<rparr>"

record IsomSection =
  isomEntries :: "IsomEntry list"

definition IsomSection_GetDefault :: "u16 \<Rightarrow> u16 \<Rightarrow> IsomSection" where
  "IsomSection_GetDefault tileWidth tileHeight =
    \<lparr>isomEntries = replicate ((unat tileWidth div 2 + 1) * (unat tileHeight + 1)) IsomEntry_blank\<rparr>"

definition IsomSection_getIsomEntry :: "IsomSection \<Rightarrow> nat \<Rightarrow> IsomEntry result" where
  "IsomSection_getIsomEntry sec = at_or_throw (isomEntries sec)"

definition IsomSection_setDimensions :: "u16 \<Rightarrow> u16 \<Rightarrow> IsomSection \<Rightarrow> IsomSection" where
  "IsomSection_setDimensions newTileWidth newTileHeight sec =
    (let oldNumIndices = length (isomEntries sec);
         newNumIndices = unat newTileWidth * unat newTileHeight
     in if oldNumIndices < newNumIndices
        then sec\<lparr>isomEntries := isomEntries sec @ replicate (newNumIndices - oldNumIndices) IsomEntry_blank\<rparr>
        else if oldNumIndices > newNumIndices then sec\<lparr>isomEntries := take newNumIndices (isomEntries sec)\<rparr>
        else sec)"

definition IsomSection_getSize :: "IsomSection \<Rightarrow> int" where
  "IsomSection_getSize sec = toSectionSize (8 * length (isomEntries sec))"

definition IsomSection_read :: "int \<Rightarrow> string \<Rightarrow> IsomSection \<Rightarrow> (nat \<times> string \<times> IsomSection) result" where
  "IsomSection_read sizeInBytes is sec =
    bind_result (objs_read 8 dec_IsomEntry False sizeInBytes is (isomEntries sec))
      (\<lambda>(gcount, rest, es). Inr (gcount, rest, sec\<lparr>isomEntries := es\<rparr>))"

definition IsomSection_write :: "IsomSection \<Rightarrow> string result" where
  "IsomSection_write sec = write_vec enc_IsomEntry (isomEntries sec)"

section \<open>MASK\<close>

record MaskSection =
  fogTiles :: "u8 list"

definition MaskSection_GetDefault :: "u16 \<Rightarrow> u16 \<Rightarrow> MaskSection" where
  "MaskSection_GetDefault tileWidth tileHeight = \<lparr>fogTiles = replicate (unat tileWidth * unat tileHeight) 0\<rparr>"

definition MaskSection_getFog :: "MaskSection \<Rightarrow> nat \<Rightarrow> u8 result" where
  "MaskSection_getFog sec = at_or_throw (fogTiles sec)"

definition MaskSection_setFog :: "nat \<Rightarrow> u8 \<Rightarrow> MaskSection \<Rightarrow> MaskSection result" where
  "MaskSection_setFog tileIndex fogOfWarPlayers sec =
    bind_result (set_or_throw (fogTiles sec) tileIndex fogOfWarPlayers) (\<lambda>ts. Inr (sec\<lparr>fogTiles := ts\<rparr>))"

definition MaskSection_setDimensions :: "u16 \<Rightarrow> u16 \<Rightarrow> u16 \<Rightarrow> u16 \<Rightarrow> int \<Rightarrow> int \<Rightarrow> MaskSection \<Rightarrow> MaskSection result" where
  "MaskSection_setDimensions newTileWidth newTileHeight oldTileWidth oldTileHeight leftEdge topEdge sec =
    bind_result (resizeTiles 0 newTileWidth newTileHeight oldTileWidth oldTileHeight leftEdge topEdge (fogTiles sec))
      (\<lambda>ts. Inr (sec\<lparr>fogTiles := ts\<rparr>))"

definition MaskSection_getSize :: "MaskSection \<Rightarrow> int" where
  "MaskSection_getSize sec = toSectionSize (length (fogTiles sec))"

definition dec_fog :: "string \<Rightarrow> u8" where
  "dec_fog bs = dec_u8 bs 0"

definition MaskSection_read :: "int \<Rightarrow> string \<Rightarrow> bool \<Rightarrow> MaskSection \<Rightarrow> (nat \<times> string \<times> MaskSection) result" where
  "MaskSection_read sizeInBytes is overriding sec =
    bind_result (tiles_read 1 enc_u8 dec_fog 0 overriding False sizeInBytes is (fogTiles sec))
      (\<lambda>(gcount, rest, ts). Inr (gcount, rest, sec\<lparr>fogTiles := ts\<rparr>))"

definition MaskSection_write :: "MaskSection \<Rightarrow> string result" where
  "MaskSection_write sec = write_vec enc_u8 (fogTiles sec)"

section \<open>Tiles by column and row\<close>

definition grid :: "nat \<Rightarrow> nat \<Rightarrow> (nat \<Rightarrow> nat \<Rightarrow> 'a) \<Rightarrow> 'a list" where
  "grid w h f = concat (map (\<lambda>y. map (\<lambda>x. f x y) [0..<w]) [0..<h])"

lemma grid_0 [simp]: "grid w 0 f = []" "grid 0 h f = []"
  by (simp_all add: grid_def)

lemma grid_Suc: "grid w (Suc h) f = grid w h f @ map (\<lambda>x. f x h) [0..<w]"
  by (simp add: grid_def)

lemma length_grid [simp]: "length (grid w h f) = w * h"
  by (induction h) (simp_all add: grid_Suc)

lemma grid_cong: "(\<And>x y. x < w \<Longrightarrow> y < h \<Longrightarrow> f x y = g x y) \<Longrightarrow> grid w h f = grid w h g"
  by (induction h) (simp_all add: grid_Suc)

lemma grid_add: "grid w (h + k) f = grid w h f @ grid w k (\<lambda>x y. f x (h + y))"
  by (induction k) (simp_all add: grid_Suc)

lemma grid_index: "grid w h f = map (\<lambda>i. f (i mod w) (i div w)) [0..<w * h]"
proof (induction h)
  case (Suc h)
  have "[0..<w * Suc h] = [0..<w * h] @ map (\<lambda>x. x + w * h) [0..<w]"
    using upt_add_eq_append [of 0 "w * h" w] by (simp add: map_add_upt add.commute)
  then show ?case using Suc by (simp add: grid_Suc comp_def)
qed simp

lemma grid_blank [simp]: "grid w h (\<lambda>_ _. v) = replicate (w * h) v"
  by (simp add: grid_index map_replicate_const)

lemma grid_of_list: "length ts = w * h \<Longrightarrow> grid w h (\<lambda>x y. ts ! (y * w + x)) = ts"
  using map_nth [of ts] by (simp add: grid_index)

lemma nth_grid: "x < w \<Longrightarrow> y < h \<Longrightarrow> grid w h f ! (y * w + x) = f x y"
proof -
  assume "x < w" "y < h"
  then have "y * w + x < Suc y * w" "Suc y * w \<le> h * w" by (simp, intro mult_le_mono1, simp)
  then have "y * w + x < w * h" by (simp add: mult.commute)
  with \<open>x < w\<close> show ?thesis by (simp add: grid_index)
qed

text \<open>A loop over the rows that changes each row where it stands changes every row of the grid.\<close>

lemma rows_down_grid:
  assumes "\<And>row pre rest. length pre = row * w \<Longrightarrow> row < h \<Longrightarrow>
    step row (pre @ map (\<lambda>x. f x row) [0..<w] @ rest) = Inr (pre @ map (\<lambda>x. g x row) [0..<w'] @ rest)"
  shows "rows_down step h (grid w h f @ rest) = Inr (grid w' h g @ rest)"
  using assms
proof (induction h arbitrary: rest)
  case (Suc h)
  have "step h (grid w h f @ map (\<lambda>x. f x h) [0..<w] @ rest) = Inr (grid w h f @ map (\<lambda>x. g x h) [0..<w'] @ rest)"
    by (rule Suc.prems) (simp_all add: mult.commute)
  then show ?case using Suc.IH [of "map (\<lambda>x. g x h) [0..<w'] @ rest"] Suc.prems
    by (simp add: grid_Suc)
qed simp

lemma vec_erase_at: "vec_erase (int (length pre)) (int (length mid)) (pre @ mid @ rest) = Inr (pre @ rest)"
  by (simp add: vec_erase_def nat_add_distrib)

lemma vec_insert_at: "vec_insert (int (length pre)) (int n) v (pre @ rest) = Inr (pre @ replicate n v @ rest)"
  by (simp add: vec_insert_def)

section \<open>What each step does to a grid\<close>

text \<open>A tiling whose vector has one element for each tile, and the tile at each place.\<close>

abbreviation tiling_of :: "nat \<Rightarrow> nat \<Rightarrow> (nat \<Rightarrow> nat \<Rightarrow> 'a) \<Rightarrow> 'a tiling" where
  "tiling_of w h f \<equiv> (grid w h f, int w, int h)"

lemma removeBottomRows_grid:
  assumes "0 < w" "n < h"
  shows "removeBottomRows (int h - int n) (int h) (tiling_of w h f) = Inr (tiling_of w (h - n) f)"
proof -
  obtain k where h: "h = k + n" and k: "0 < k" using assms(2) by (metis less_imp_add_positive add.commute)
  have e: "vec_erase (int w * int k) (int w * int n) (grid w (k + n) f) = Inr (grid w k f)"
    using vec_erase_at [of "grid w k f" "grid w n (\<lambda>x y. f x (k + y))" "[]"] by (simp add: grid_add)
  show ?thesis using assms k e by (auto simp: removeBottomRows_def Let_def h algebra_simps mult_le_0_iff)
qed

lemma removeTopRows_grid:
  assumes "0 < w" "n < h"
  shows "removeTopRows (int n) 0 (tiling_of w h f) = Inr (tiling_of w (h - n) (\<lambda>x y. f x (n + y)))"
proof -
  obtain k where h: "h = n + k" and k: "0 < k" using assms(2) by (metis less_imp_add_positive)
  have e: "vec_erase 0 (int w * int n) (grid w (n + k) f) = Inr (grid w k (\<lambda>x y. f x (n + y)))"
    using vec_erase_at [of "[]" "grid w n f"] by (simp add: grid_add)
  show ?thesis using assms k e by (auto simp: removeTopRows_def Let_def h algebra_simps mult_le_0_iff)
qed

lemma removeRightColumns_grid:
  assumes "0 < h" "n < w"
  shows "removeRightColumns (int w - int n) (int w) (tiling_of w h f) = Inr (tiling_of (w - n) h f)"
proof -
  obtain k where w: "w = k + n" and k: "0 < k" using assms(2) by (metis less_imp_add_positive add.commute)
  have "rows_down (\<lambda>row. vec_erase (int row * int w + int k) (int n)) h (grid w h f @ []) = Inr (grid k h f @ [])"
  proof (rule rows_down_grid)
    fix row :: nat and pre rest :: "'a list"
    assume "length pre = row * w"
    then show "vec_erase (int row * int w + int k) (int n) (pre @ map (\<lambda>x. f x row) [0..<w] @ rest) =
      Inr (pre @ map (\<lambda>x. f x row) [0..<k] @ rest)"
      using vec_erase_at [of "pre @ map (\<lambda>x. f x row) [0..<k]" "map (\<lambda>x. f x row) [k..<k + n]" rest]
      by (simp add: w upt_add_eq_append [of 0 k n])
  qed
  then show ?thesis using assms k by (simp add: removeRightColumns_def Let_def w)
qed

lemma removeLeftColumns_grid:
  assumes "n < h" "n \<le> w" "0 < w"
  shows "removeLeftColumns (int n) 0 (tiling_of w h f) = Inr (tiling_of (w - n) h (\<lambda>x y. f (n + x) y))"
proof -
  obtain k where w: "w = n + k" using assms(2) by (metis le_add_diff_inverse)
  have shift: "map (\<lambda>x. f x row) [n..<n + k] = map (\<lambda>x. f (n + x) row) [0..<k]" for row
    by (rule nth_equalityI) simp_all
  have "rows_down (\<lambda>row. vec_erase (int row * int w) (int n)) h (grid w h f @ []) = Inr (grid k h (\<lambda>x y. f (n + x) y) @ [])"
  proof (rule rows_down_grid)
    fix row :: nat and pre rest :: "'a list"
    assume "length pre = row * w"
    then show "vec_erase (int row * int w) (int n) (pre @ map (\<lambda>x. f x row) [0..<w] @ rest) =
      Inr (pre @ map (\<lambda>x. f (n + x) row) [0..<k] @ rest)"
      using vec_erase_at [of "pre" "map (\<lambda>x. f x row) [0..<n]" "map (\<lambda>x. f x row) [n..<n + k] @ rest"]
      by (simp add: w upt_add_eq_append [of 0 n k] shift)
  qed
  then show ?thesis using assms by (cases "n = 0") (simp_all add: removeLeftColumns_def Let_def w)
qed

lemma addTopRows_grid:
  "addTopRows v (- int n) 0 (tiling_of w h f) = Inr (tiling_of w (n + h) (\<lambda>x y. if y < n then v else f x (y - n)))"
proof -
  have g: "grid w (n + h) (\<lambda>x y. if y < n then v else f x (y - n)) = replicate (w * n) v @ grid w h f"
    using grid_cong [of w n "\<lambda>x y. if y < n then v else f x (y - n)" "\<lambda>_ _. v"] by (simp add: grid_add)
  have "vec_insert 0 (int w * int n) v (grid w h f) = Inr (replicate (w * n) v @ grid w h f)"
    using vec_insert_at [of "[]" "w * n" v "grid w h f"] by simp
  then show ?thesis by (simp add: addTopRows_def Let_def g)
qed

lemma addBottomRows_grid:
  "addBottomRows v (oldBottom + int n) oldBottom (grid w h f, int w, hh) =
    Inr (grid w (h + n) (\<lambda>x y. if y < h then f x y else v), int w, hh)"
proof -
  have g: "grid w (h + n) (\<lambda>x y. if y < h then f x y else v) = grid w h f @ replicate (w * n) v"
    using grid_cong [of w h "\<lambda>x y. if y < h then f x y else v" f] by (simp add: grid_add)
  have "vec_insert (int w * int h) (int w * int n) v (grid w h f) = Inr (grid w h f @ replicate (w * n) v)"
    using vec_insert_at [of "grid w h f" "w * n" v "[]"] by simp
  then show ?thesis by (simp add: addBottomRows_def g)
qed

text \<open>Columns added to the right land behind the first \<open>n\<close> columns.\<close>

lemma addRightColumns_grid:
  assumes "n \<le> w"
  shows "addRightColumns v (int w + int n) (int w) (tiling_of w h f) =
    Inr (tiling_of (w + n) h (\<lambda>x y. if x < n then f x y else if x < 2 * n then v else f (x - n) y))"
    (is "_ = Inr (tiling_of _ h ?g)")
proof -
  obtain k where w: "w = n + k" using assms by (metis le_add_diff_inverse)
  have cols: "map (\<lambda>x. ?g x row) [0..<w + n] = map (\<lambda>x. f x row) [0..<n] @ replicate n v @ map (\<lambda>x. f x row) [n..<n + k]" for row
    by (rule nth_equalityI) (auto simp: w nth_append)
  have "rows_down (\<lambda>row. vec_insert (int row * int w + int n) (int n) v) h (grid w h f @ []) = Inr (grid (w + n) h ?g @ [])"
  proof (rule rows_down_grid)
    fix row :: nat and pre rest :: "'a list"
    assume "length pre = row * w"
    then show "vec_insert (int row * int w + int n) (int n) v (pre @ map (\<lambda>x. f x row) [0..<w] @ rest) =
      Inr (pre @ map (\<lambda>x. ?g x row) [0..<w + n] @ rest)"
      using vec_insert_at [of "pre @ map (\<lambda>x. f x row) [0..<n]" n v "map (\<lambda>x. f x row) [n..<n + k] @ rest"]
      unfolding cols by (simp add: w upt_add_eq_append [of 0 n k])
  qed
  then show ?thesis by (cases "n = 0") (simp_all add: addRightColumns_def Let_def)
qed

lemma addRightColumns_overruns:
  assumes "w < n" "0 < h"
  shows "addRightColumns v (int w + int n) (int w) (tiling_of w h f) = Inl UndefinedBehavior"
proof -
  obtain k where h: "h = Suc k" using assms(2) by (metis gr0_implies_Suc)
  have "vec_insert (int k * int w + int n) (int n) v (grid w h f) = Inl UndefinedBehavior"
    using assms(1) by (simp add: vec_insert_def h algebra_simps)
  then show ?thesis using assms(1) by (simp add: addRightColumns_def Let_def h del: of_nat_Suc)
qed

text \<open>The same steps for any edges, where they do nothing on the other side of an edge.\<close>

lemma tiling_removes:
  assumes "0 < w" "0 < h"
  shows "0 < newBottom \<Longrightarrow> removeBottomRows newBottom (int h) (tiling_of w h f) = Inr (tiling_of w (min h (nat newBottom)) f)"
    and "upper < int h \<Longrightarrow> removeTopRows upper 0 (tiling_of w h f) = Inr (tiling_of w (h - nat upper) (\<lambda>x y. f x (nat upper + y)))"
    and "0 < newRight \<Longrightarrow> removeRightColumns newRight (int w) (tiling_of w h f) = Inr (tiling_of (min w (nat newRight)) h f)"
    and "left < int h \<Longrightarrow> left \<le> int w \<Longrightarrow>
      removeLeftColumns left 0 (tiling_of w h f) = Inr (tiling_of (w - nat left) h (\<lambda>x y. f (nat left + x) y))"
proof -
  assume "0 < newBottom"
  then show "removeBottomRows newBottom (int h) (tiling_of w h f) = Inr (tiling_of w (min h (nat newBottom)) f)"
    using assms removeBottomRows_grid [of w "h - nat newBottom" h f]
    by (cases "newBottom < int h") (simp_all add: min_def, simp add: removeBottomRows_def)
next
  assume "upper < int h"
  then show "removeTopRows upper 0 (tiling_of w h f) = Inr (tiling_of w (h - nat upper) (\<lambda>x y. f x (nat upper + y)))"
    using assms removeTopRows_grid [of w "nat upper" h f]
    by (cases "0 < upper") (simp_all, simp add: removeTopRows_def)
next
  assume "0 < newRight"
  then show "removeRightColumns newRight (int w) (tiling_of w h f) = Inr (tiling_of (min w (nat newRight)) h f)"
    using assms removeRightColumns_grid [of h "w - nat newRight" w f]
    by (cases "newRight < int w") (simp_all add: min_def, simp add: removeRightColumns_def)
next
  assume "left < int h" "left \<le> int w"
  then show "removeLeftColumns left 0 (tiling_of w h f) = Inr (tiling_of (w - nat left) h (\<lambda>x y. f (nat left + x) y))"
    using assms removeLeftColumns_grid [of "nat left" h w f]
    by (cases "0 < left") (simp_all, simp add: removeLeftColumns_def)
qed

lemma tiling_adds:
  "addTopRows v upper 0 (tiling_of w h f) =
    Inr (tiling_of w (nat (- upper) + h) (\<lambda>x y. if y < nat (- upper) then v else f x (y - nat (- upper))))"
  "addBottomRows v newBottom oldBottom (grid w h f, int w, hh) =
    Inr (grid w (h + nat (newBottom - oldBottom)) (\<lambda>x y. if y < h then f x y else v), int w, hh)"
proof -
  show "addTopRows v upper 0 (tiling_of w h f) =
      Inr (tiling_of w (nat (- upper) + h) (\<lambda>x y. if y < nat (- upper) then v else f x (y - nat (- upper))))"
    using addTopRows_grid [of v "nat (- upper)" w h f]
    by (cases "upper < 0") (simp_all, simp add: addTopRows_def)
  show "addBottomRows v newBottom oldBottom (grid w h f, int w, hh) =
      Inr (grid w (h + nat (newBottom - oldBottom)) (\<lambda>x y. if y < h then f x y else v), int w, hh)"
    using addBottomRows_grid [of v oldBottom "nat (newBottom - oldBottom)" w h f hh]
      grid_cong [of w h "\<lambda>x y. if y < h then f x y else v" f]
    by (cases "newBottom > oldBottom") (simp_all, simp add: addBottomRows_def)
qed

section \<open>The map after its edges moved\<close>

text \<open>
  The tiles of a map of \<open>w'\<close> by \<open>h'\<close> tiles whose corner lies at \<open>(left, upper)\<close> of the old map: the old
  tile where there was one, and a blank one elsewhere.
\<close>

definition movedTiles :: "'a \<Rightarrow> nat \<Rightarrow> nat \<Rightarrow> nat \<Rightarrow> nat \<Rightarrow> int \<Rightarrow> int \<Rightarrow> 'a list \<Rightarrow> 'a list" where
  "movedTiles blank w' h' w h left upper tiles =
    map (\<lambda>i. let x = left + int (i mod w'); y = upper + int (i div w')
      in if 0 \<le> x \<and> x < int w \<and> 0 \<le> y \<and> y < int h then tiles ! nat (y * int w + x) else blank) [0..<w' * h']"

lemma movedTiles_grid:
  "movedTiles blank w' h' w h left upper tiles =
    grid w' h' (\<lambda>x y. if 0 \<le> left + int x \<and> left + int x < int w \<and> 0 \<le> upper + int y \<and> upper + int y < int h
      then tiles ! nat ((upper + int y) * int w + (left + int x)) else blank)"
  by (simp add: movedTiles_def grid_index Let_def)

lemma movedTiles_crop:
  assumes cols: "0 \<le> left" "left + int w' \<le> int w"
    and rows: "max 0 upper < min (int h) (upper + int h')"
    and kept: "kept = min h (nat (upper + int h')) - nat upper"
    and tall: "tall = nat (- upper) + kept + nat (upper + int h' - int h)"
  shows "grid w' tall (\<lambda>x y. if y < nat (- upper) + kept then
      if y < nat (- upper) then blank else tiles ! ((nat upper + (y - nat (- upper))) * w + (nat left + x)) else blank) =
    movedTiles blank w' h' w h left upper tiles" (is "grid _ _ ?g = _")
proof -
  have "tall = h'" using rows unfolding tall kept by linarith
  show ?thesis unfolding \<open>tall = h'\<close> movedTiles_grid
  proof (rule grid_cong)
    fix x y
    assume x: "x < w'" and y: "y < h'"
    have inx: "0 \<le> left + int x" "left + int x < int w" "nat (left + int x) = nat left + x"
      using x cols by linarith+
    have split: "y < nat (- upper) + kept \<and> \<not> y < nat (- upper) \<longleftrightarrow> 0 \<le> upper + int y \<and> upper + int y < int h"
      using y rows unfolding kept by linarith
    have val: "nat ((upper + int y) * int w + (left + int x)) = (nat upper + (y - nat (- upper))) * w + (nat left + x)"
      if "0 \<le> upper + int y"
    proof -
      have "nat (upper + int y) = nat upper + (y - nat (- upper))" using that by linarith
      then show ?thesis using that inx by (simp add: nat_add_distrib nat_mult_distrib)
    qed
    show "?g x y = (if 0 \<le> left + int x \<and> left + int x < int w \<and> 0 \<le> upper + int y \<and> upper + int y < int h
        then tiles ! nat ((upper + int y) * int w + (left + int x)) else blank)"
      using split inx val by auto
  qed
qed

lemma resizeTiles_crop:
  assumes len: "length tiles = unat w * unat h"
    and cols: "0 < w'" "0 \<le> left" "left + int (unat w') \<le> int (unat w)"
    and rows: "left < min (int (unat h)) (upper + int (unat h')) - max 0 upper"
  shows "resizeTiles blank w' h' w h left upper tiles = Inr (movedTiles blank (unat w') (unat h') (unat w) (unat h) left upper tiles)"
proof -
  define W H W' H' where "W = unat w" and "H = unat h" and "W' = unat w'" and "H' = unat h'"
  note fold_dims = W_def [symmetric] H_def [symmetric] W'_def [symmetric] H'_def [symmetric]
  define f where "f = (\<lambda>x y. tiles ! (y * W + x))"
  have g: "tiles = grid W H f" using len grid_of_list [of tiles W H] by (simp add: fold_dims f_def)
  have pos: "0 < W'" using cols(1) by (simp add: W'_def word_less_nat_alt)
  have edges: "left + int W' \<le> int W" "left < min (int H) (upper + int H') - max 0 upper"
    using cols(3) rows by (simp_all add: fold_dims)
  define H1 H2 W1 where "H1 = min H (nat (upper + int H'))" and "H2 = H1 - nat upper" and "W1 = min W (nat (left + int W'))"
  have bounds: "0 < H" "0 < W" "0 < upper + int H'" "0 < H1" "upper < int H1" "0 < H2" "left < int H2"
      "0 < left + int W'" "0 < W1" "left \<le> int W1" "W1 - nat left = W'"
    using pos cols(2) edges unfolding H1_def H2_def W1_def by linarith+
  have steps:
    "removeBottomRows (upper + int H') (int H) (tiling_of W H f) = Inr (tiling_of W H1 f)"
    "removeTopRows upper 0 (tiling_of W H1 f) = Inr (tiling_of W H2 (\<lambda>x y. f x (nat upper + y)))"
    "removeRightColumns (left + int W') (int W) (tiling_of W H2 (\<lambda>x y. f x (nat upper + y))) =
       Inr (tiling_of W1 H2 (\<lambda>x y. f x (nat upper + y)))"
    "removeLeftColumns left 0 (tiling_of W1 H2 (\<lambda>x y. f x (nat upper + y))) =
       Inr (tiling_of W' H2 (\<lambda>x y. f (nat left + x) (nat upper + y)))"
    using bounds by (simp_all add: tiling_removes H1_def [symmetric] H2_def [symmetric] W1_def [symmetric])
  have "\<not> left + int W' > int W" "\<not> left < 0" using cols(2) edges by simp_all
  then have resized: "resizeTiles blank w' h' w h left upper (grid W H f) =
    Inr (grid W' (nat (- upper) + H2 + nat (upper + int H' - int H)) (\<lambda>x y. if y < nat (- upper) + H2 then
      if y < nat (- upper) then blank else f (nat left + x) (nat upper + (y - nat (- upper))) else blank))"
    using bounds pos by (simp add: resizeTiles_def Let_def fold_dims steps tiling_adds addRightColumns_def addLeftColumns_def)
  have "max 0 upper < min (int H) (upper + int H')" using edges(2) cols(2) by linarith
  then show ?thesis
    using movedTiles_crop [OF cols(2) edges(1) _ H2_def [unfolded H1_def] refl, of blank tiles]
    by (simp add: fold_dims resized [folded g, unfolded f_def])
qed

section \<open>Properties\<close>

text \<open>
  C28. Moving the edges of the fog of war: when no column is added and the number of columns cut off at the
  left is less than the number of rows that stay, \<open>MaskSection::setDimensions\<close> gives exactly the map whose
  corner lies at the new edge, every tile of the old map where it was and no fog on the added rows.
\<close>

theorem MaskSection_setDimensions_crop:
  assumes "length (fogTiles sec) = unat oldTileWidth * unat oldTileHeight"
    and "0 < newTileWidth" "0 \<le> leftEdge" "leftEdge + int (unat newTileWidth) \<le> int (unat oldTileWidth)"
    and "leftEdge < min (int (unat oldTileHeight)) (topEdge + int (unat newTileHeight)) - max 0 topEdge"
  shows "MaskSection_setDimensions newTileWidth newTileHeight oldTileWidth oldTileHeight leftEdge topEdge sec =
    Inr (sec\<lparr>fogTiles := movedTiles 0 (unat newTileWidth) (unat newTileHeight) (unat oldTileWidth) (unat oldTileHeight)
      leftEdge topEdge (fogTiles sec)\<rparr>)"
  using resizeTiles_crop [OF assms] by (simp add: MaskSection_setDimensions_def)

theorem MaskSection_setDimensions_crop_witness:
  "MaskSection_setDimensions 2 3 3 3 1 (- 1) \<lparr>fogTiles = [1, 2, 3, 4, 5, 6, 7, 8, 9]\<rparr> =
    Inr \<lparr>fogTiles = [0, 0, 2, 3, 5, 6]\<rparr>"
  using MaskSection_setDimensions_crop [of "\<lparr>fogTiles = [1, 2, 3, 4, 5, 6, 7, 8, 9]\<rparr>" 3 3 2 1 "- 1" 3]
  by (simp add: movedTiles_def upt_rec)

text \<open>
  Widening the map to the right by \<open>n\<close> columns is only right when \<open>n\<close> is the old width: the new columns
  are put behind the first \<open>n\<close> columns of each row instead of behind the row, and with more new columns than
  old ones \<open>MaskSection::setDimensions\<close> inserts behind the end of its vector.
\<close>

lemma MaskSection_setDimensions_widen:
  assumes "length (fogTiles sec) = unat w * unat h" "0 < w" "0 < h"
    and "unat w' = unat w + n"
  shows "if n \<le> unat w
    then \<exists>sec'. MaskSection_setDimensions w' h w h 0 0 sec = Inr sec' \<and> length (fogTiles sec') = unat w' * unat h \<and>
      (\<forall>x<unat w'. \<forall>y<unat h. fogTiles sec' ! (y * unat w' + x) =
        (if x < n then fogTiles sec ! (y * unat w + x)
         else if x < 2 * n then 0 else fogTiles sec ! (y * unat w + (x - n))))
    else MaskSection_setDimensions w' h w h 0 0 sec = Inl UndefinedBehavior"
proof -
  let ?f = "\<lambda>x y. fogTiles sec ! (y * unat w + x)"
  have g: "grid (unat w) (unat h) ?f = fogTiles sec" using assms(1) by (rule grid_of_list)
  have pos: "0 < unat w" "0 < unat h" using assms(2,3) by (simp_all add: word_less_nat_alt)
  have nz: "uint w \<noteq> 0" "uint h \<noteq> 0" using assms(2,3) by (auto simp: unsigned_eq_0_iff)
  have resize: "resizeTiles 0 w' h w h 0 0 (fogTiles sec) =
    bind_result (addRightColumns 0 (int (unat w) + int n) (int (unat w)) (tiling_of (unat w) (unat h) ?f)) (\<lambda>(tiles, _). Inr tiles)"
    using nz assms(4) unfolding g
    by (cases "addRightColumns 0 (int (unat w) + int n) (int (unat w)) (fogTiles sec, int (unat w), int (unat h))")
      (auto simp: resizeTiles_def Let_def removeBottomRows_def removeTopRows_def removeRightColumns_def removeLeftColumns_def
        addLeftColumns_def addTopRows_def addBottomRows_def)
  show ?thesis
  proof (cases "n \<le> unat w")
    case True
    then show ?thesis
      unfolding MaskSection_setDimensions_def resize addRightColumns_grid [OF True]
      using assms(4) by (simp add: nth_grid)
  next
    case False
    then have "unat w < n" by simp
    from addRightColumns_overruns [OF this pos(2), of 0 ?f] False show ?thesis
      unfolding MaskSection_setDimensions_def resize by simp
  qed
qed

lemma MaskSection_setDimensions_widen_witness:
  "\<exists>sec'. MaskSection_setDimensions 3 2 2 2 0 0 \<lparr>fogTiles = [1, 2, 3, 4]\<rparr> = Inr sec' \<and>
    fogTiles sec' ! 1 = 0 \<and> fogTiles sec' ! 2 = 2"
proof -
  let ?sec = "\<lparr>fogTiles = [1, 2, 3, 4]\<rparr>"
  obtain sec' where s: "MaskSection_setDimensions 3 2 2 2 0 0 ?sec = Inr sec'"
    and t: "\<forall>x<3. \<forall>y<2. fogTiles sec' ! (y * 3 + x) =
      (if x < 1 then fogTiles ?sec ! (y * 2 + x) else if x < 2 then 0 else fogTiles ?sec ! (y * 2 + (x - 1)))"
    using MaskSection_setDimensions_widen [of ?sec 2 2 3 1] by auto
  show ?thesis using s t [rule_format, of 1 0] t [rule_format, of 2 0] by (simp add: numeral_2_eq_2)
qed

section \<open>Saving and loading\<close>

context struct_codec
begin

lemma drop_enc_array:
  "(\<forall>x\<in>set xs. wf x) \<Longrightarrow> drop (sz * n) (enc_array enc xs) = enc_array enc (drop n xs)"
proof (induction xs arbitrary: n)
  case (Cons x xs)
  then show ?case by (cases n) (simp_all add: enc_array_def length_enc)
qed (simp add: enc_array_def)

lemma tiles_read_write:
  assumes "\<forall>x\<in>set xs. wf x" "\<forall>x\<in>set old. wf x" "wf blank" "xs \<noteq> []"
  shows "tiles_read sz enc dec blank overriding keepEmpty (int (sz * length xs)) (enc_array enc xs @ rest) old =
    Inr (sz * length xs, rest, (if overriding then xs @ drop (length xs) old else xs))"
proof -
  let ?n = "length xs"
  define grown where "grown = (if ?n > length old then old @ replicate (?n - length old) blank
    else if \<not> overriding \<and> ?n < length old then take ?n old else old)"
  have n: "sz * ?n div sz + sz * ?n mod sz = ?n" "0 < sz * ?n" using size_pos assms(4) by simp_all
  have wf: "\<forall>x\<in>set grown. wf x" using assms(2,3) by (auto simp: grown_def dest: in_set_takeD)
  have kept: "drop ?n grown = (if overriding then drop ?n old else [])" "length (xs @ drop ?n grown) = length grown"
    by (auto simp: grown_def)
  have bytes: "enc_array enc xs @ drop (sz * ?n) (enc_array enc grown) = enc_array enc (xs @ drop ?n grown)"
    using drop_enc_array [OF wf] by (simp add: enc_array_def)
  have "dec_array sz dec (length grown) (enc_array enc xs @ drop (sz * ?n) (enc_array enc grown)) = xs @ drop ?n grown"
    using dec_array_enc [of "xs @ drop ?n grown" "[]", unfolded kept(2)] assms(1) wf
    unfolding bytes by (auto dest: in_set_dropD)
  moreover have "stream_read (sz * ?n) (enc_array enc xs @ rest) = (enc_array enc xs, sz * ?n, rest)"
    using stream_read_all [of "enc_array enc xs" rest] length_enc_array [OF assms(1)] by simp
  ultimately show ?thesis
    unfolding tiles_read_def Let_def nat_int n(1) grown_def [symmetric] using n(2) by (simp add: kept(1) del: of_nat_mult)
qed

end

interpretation tile_codec: struct_codec 2 enc_u16 dec_tile "\<lambda>_. True"
  by unfold_locales (simp_all add: dec_tile_def enc_defs)

interpretation fog_codec: struct_codec 1 enc_u8 dec_fog "\<lambda>_. True"
  by unfold_locales (simp_all add: dec_fog_def enc_defs)

interpretation isom_codec: struct_codec 8 enc_IsomEntry dec_IsomEntry "\<lambda>_. True"
  by unfold_locales (simp_all add: enc_IsomEntry_def dec_IsomEntry_def enc_defs)

text \<open>
  Saving and loading the terrain: MTXM, TILE, ISOM and MASK sections that are not empty and fit their
  signed 32-bit size field are read back from the size and the bytes they wrote, whatever follows in the
  stream. Read over an earlier instance, MTXM, TILE and MASK keep the tiles of that instance behind theirs.
\<close>

lemma terrain_sections_save_load:
  assumes "mtxm_tiles m \<noteq> []" "2 * length (mtxm_tiles m) < 2 ^ 31" "tile_tiles t \<noteq> []" "2 * length (tile_tiles t) < 2 ^ 31"
    and "isomEntries i \<noteq> []" "8 * length (isomEntries i) < 2 ^ 31" "fogTiles f \<noteq> []" "length (fogTiles f) < 2 ^ 31"
  shows "bind_result (MtxmSection_write m) (\<lambda>bs. MtxmSection_read (MtxmSection_getSize m) (bs @ rest) overriding m0) =
      Inr (2 * length (mtxm_tiles m), rest, m\<lparr>mtxm_tiles := mtxm_tiles m @
        (if overriding then drop (length (mtxm_tiles m)) (mtxm_tiles m0) else [])\<rparr>) \<and>
    bind_result (TileSection_write t) (\<lambda>bs. TileSection_read (TileSection_getSize t) (bs @ rest) overriding t0) =
      Inr (2 * length (tile_tiles t), rest, t\<lparr>tile_tiles := tile_tiles t @
        (if overriding then drop (length (tile_tiles t)) (tile_tiles t0) else [])\<rparr>) \<and>
    bind_result (IsomSection_write i) (\<lambda>bs. IsomSection_read (IsomSection_getSize i) (bs @ rest) i0) =
      Inr (8 * length (isomEntries i), rest, i) \<and>
    bind_result (MaskSection_write f) (\<lambda>bs. MaskSection_read (MaskSection_getSize f) (bs @ rest) overriding f0) =
      Inr (length (fogTiles f), rest, f\<lparr>fogTiles := fogTiles f @
        (if overriding then drop (length (fogTiles f)) (fogTiles f0) else [])\<rparr>)"
  using assms tile_codec.tiles_read_write [of "mtxm_tiles m" "mtxm_tiles m0" 0 overriding overriding rest]
    tile_codec.tiles_read_write [of "tile_tiles t" "tile_tiles t0" 0 overriding False rest]
    fog_codec.tiles_read_write [of "fogTiles f" "fogTiles f0" 0 overriding False rest]
    isom_codec.objs_read_write [of "isomEntries i" False rest "isomEntries i0"]
  by (simp add: MtxmSection_write_def TileSection_write_def IsomSection_write_def MaskSection_write_def write_vec_def
      MtxmSection_read_def TileSection_read_def IsomSection_read_def MaskSection_read_def
      MtxmSection_getSize_def TileSection_getSize_def IsomSection_getSize_def MaskSection_getSize_def
      toSectionSize_small isom_codec.length_enc_array)

lemma terrain_sections_save_load_witness:
  "bind_result (MtxmSection_write \<lparr>mtxm_tiles = [5]\<rparr>)
      (\<lambda>bs. MtxmSection_read (MtxmSection_getSize \<lparr>mtxm_tiles = [5]\<rparr>) (bs @ ''VER '') True \<lparr>mtxm_tiles = [1, 2]\<rparr>) =
    Inr (2, ''VER '', \<lparr>mtxm_tiles = [5, 2]\<rparr>)"
  using terrain_sections_save_load [of "\<lparr>mtxm_tiles = [5]\<rparr>" "\<lparr>tile_tiles = [5]\<rparr>" "\<lparr>isomEntries = [IsomEntry_blank]\<rparr>"
    "\<lparr>fogTiles = [5]\<rparr>" "''VER ''" True "\<lparr>mtxm_tiles = [1, 2]\<rparr>"]
  by simp

end
