(* ===== verification/MapLayers.thy ===== *)
theory MapLayers
  imports TerrainSections ScenarioStrings
begin

text \<open>
  \<open>class Terrain\<close> and \<open>class Layers\<close> of \<open>src/MappingCoreLib/Scenario.cpp\<close>: the terrain of a scenario and the
  objects placed on it, with what happens to them when the dimensions of the map change. A section pointer
  is an option, and following a null pointer is undefined. \<open>Layers\<close> extends \<open>Terrain\<close> as the class does.
\<close>

section \<open>Terrain\<close>

record Terrain =
  ter_era :: "EraSection option"
  ter_dim :: "DimSection option"
  ter_mtxm :: "MtxmSection option"
  ter_tile :: "TileSection option"
  ter_isom :: "IsomSection option"

definition follow :: "'a option \<Rightarrow> 'a result" where
  "follow p = (case p of None \<Rightarrow> Inl UndefinedBehavior | Some x \<Rightarrow> Inr x)"

lemma follow_simps [simp]: "follow None = Inl UndefinedBehavior" "follow (Some x) = Inr x"
  by (simp_all add: follow_def)

lemma follow_eq_Inr [simp]: "follow p = Inr x \<longleftrightarrow> p = Some x"
  by (cases p) simp_all

definition Terrain_new :: "u16 \<Rightarrow> u16 \<Rightarrow> u16 \<Rightarrow> Terrain" where
  "Terrain_new tileset width height =
    \<lparr>ter_era = Some (EraSection_GetDefault tileset), ter_dim = Some (DimSection_GetDefault width height),
     ter_mtxm = Some (MtxmSection_GetDefault width height), ter_tile = Some (TileSection_GetDefault width height),
     ter_isom = Some (IsomSection_GetDefault width height)\<rparr>"

definition Terrain_empty :: "'a Terrain_scheme \<Rightarrow> bool" where
  "Terrain_empty t \<longleftrightarrow> ter_era t = None \<and> ter_dim t = None \<and> ter_mtxm t = None \<and> ter_tile t = None \<and> ter_isom t = None"

definition Terrain_getTileset :: "'a Terrain_scheme \<Rightarrow> u16 result" where
  "Terrain_getTileset t = bind_result (follow (ter_era t)) (\<lambda>era. Inr (EraSection_getTileset era))"

definition Terrain_setTileset :: "u16 \<Rightarrow> 'a Terrain_scheme \<Rightarrow> 'a Terrain_scheme result" where
  "Terrain_setTileset tileset t =
    bind_result (follow (ter_era t)) (\<lambda>era. Inr (t\<lparr>ter_era := Some (EraSection_setTileset tileset era)\<rparr>))"

definition Terrain_getTileWidth :: "'a Terrain_scheme \<Rightarrow> nat result" where
  "Terrain_getTileWidth t = bind_result (follow (ter_dim t)) (\<lambda>dim. Inr (DimSection_getTileWidth dim))"

definition Terrain_getTileHeight :: "'a Terrain_scheme \<Rightarrow> nat result" where
  "Terrain_getTileHeight t = bind_result (follow (ter_dim t)) (\<lambda>dim. Inr (DimSection_getTileHeight dim))"

definition Terrain_getPixelWidth :: "'a Terrain_scheme \<Rightarrow> nat result" where
  "Terrain_getPixelWidth t = bind_result (follow (ter_dim t)) (\<lambda>dim. Inr (DimSection_getPixelWidth dim))"

definition Terrain_getPixelHeight :: "'a Terrain_scheme \<Rightarrow> nat result" where
  "Terrain_getPixelHeight t = bind_result (follow (ter_dim t)) (\<lambda>dim. Inr (DimSection_getPixelHeight dim))"

text \<open>The calls on ISOM, TILE and MTXM that the three ways to change the dimensions share.\<close>

definition Terrain_resizeSections ::
  "u16 \<Rightarrow> u16 \<Rightarrow> u16 \<Rightarrow> u16 \<Rightarrow> int \<Rightarrow> int \<Rightarrow> 'a Terrain_scheme \<Rightarrow> 'a Terrain_scheme result" where
  "Terrain_resizeSections newWidth newHeight tileWidth tileHeight leftEdge topEdge t =
    bind_result (follow (ter_isom t)) (\<lambda>isom.
    bind_result (follow (ter_tile t)) (\<lambda>tile.
    bind_result (TileSection_setDimensions newWidth newHeight tileWidth tileHeight leftEdge topEdge tile) (\<lambda>tile.
    bind_result (follow (ter_mtxm t)) (\<lambda>mtxm.
    bind_result (MtxmSection_setDimensions newWidth newHeight tileWidth tileHeight leftEdge topEdge mtxm) (\<lambda>mtxm.
      Inr (t\<lparr>ter_isom := Some (IsomSection_setDimensions newWidth newHeight isom),
             ter_tile := Some tile, ter_mtxm := Some mtxm\<rparr>))))))"

text \<open>The width that is stored is the one the map had.\<close>

definition Terrain_setTileWidth :: "u16 \<Rightarrow> int \<Rightarrow> 'a Terrain_scheme \<Rightarrow> 'a Terrain_scheme result" where
  "Terrain_setTileWidth newTileWidth leftEdge t =
    bind_result (follow (ter_dim t)) (\<lambda>dim.
      let tileWidth = of_nat (DimSection_getTileWidth dim); tileHeight = of_nat (DimSection_getTileHeight dim)
      in bind_result (Terrain_resizeSections newTileWidth tileHeight tileWidth tileHeight leftEdge 0 t)
           (\<lambda>t. Inr (t\<lparr>ter_dim := Some (DimSection_setTileWidth tileWidth dim)\<rparr>)))"

definition Terrain_setTileHeight :: "u16 \<Rightarrow> int \<Rightarrow> 'a Terrain_scheme \<Rightarrow> 'a Terrain_scheme result" where
  "Terrain_setTileHeight newTileHeight topEdge t =
    bind_result (follow (ter_dim t)) (\<lambda>dim.
      let tileWidth = of_nat (DimSection_getTileWidth dim); tileHeight = of_nat (DimSection_getTileHeight dim)
      in bind_result (Terrain_resizeSections tileWidth newTileHeight tileWidth tileHeight 0 topEdge t)
           (\<lambda>t. Inr (t\<lparr>ter_dim := Some (DimSection_setTileHeight tileHeight dim)\<rparr>)))"

definition Terrain_setDimensions :: "u16 \<Rightarrow> u16 \<Rightarrow> int \<Rightarrow> int \<Rightarrow> 'a Terrain_scheme \<Rightarrow> 'a Terrain_scheme result" where
  "Terrain_setDimensions newTileWidth newTileHeight leftEdge topEdge t =
    bind_result (follow (ter_dim t)) (\<lambda>dim.
      let tileWidth = of_nat (DimSection_getTileWidth dim); tileHeight = of_nat (DimSection_getTileHeight dim)
      in bind_result (Terrain_resizeSections newTileWidth newTileHeight tileWidth tileHeight leftEdge topEdge t)
           (\<lambda>t. Inr (t\<lparr>ter_dim := Some (DimSection_setDimensions newTileWidth newTileHeight dim)\<rparr>)))"

definition Terrain_getTile :: "'a Terrain_scheme \<Rightarrow> nat \<Rightarrow> nat \<Rightarrow> scope \<Rightarrow> u16 result" where
  "Terrain_getTile t tileXc tileYc scope =
    bind_result (follow (ter_dim t)) (\<lambda>dim.
      let tileIndex = tileYc * DimSection_getTileWidth dim + tileXc;
          gameTile = bind_result (follow (ter_mtxm t)) (\<lambda>mtxm. MtxmSection_getTile mtxm tileIndex);
          editorTile = bind_result (follow (ter_tile t)) (\<lambda>tile. TileSection_getTile tile tileIndex)
      in if scope = Scope_Game then gameTile
         else if scope = Scope_Editor then editorTile
         else if scope = Scope_EditorOverGame then (if ter_tile t \<noteq> None then editorTile else gameTile)
         else if ter_mtxm t \<noteq> None then gameTile else editorTile)"

definition Terrain_getTilePx :: "'a Terrain_scheme \<Rightarrow> nat \<Rightarrow> nat \<Rightarrow> scope \<Rightarrow> u16 result" where
  "Terrain_getTilePx t pixelXc pixelYc scope = Terrain_getTile t (pixelXc div PixelsPerTile) (pixelYc div PixelsPerTile) scope"

definition Terrain_setTile :: "nat \<Rightarrow> nat \<Rightarrow> u16 \<Rightarrow> scope \<Rightarrow> 'a Terrain_scheme \<Rightarrow> 'a Terrain_scheme result" where
  "Terrain_setTile tileXc tileYc tileValue scope t =
    bind_result (follow (ter_dim t)) (\<lambda>dim.
      let tileIndex = tileYc * DimSection_getTileWidth dim + tileXc;
          setGame = (\<lambda>t. bind_result (follow (ter_mtxm t)) (\<lambda>mtxm.
            bind_result (MtxmSection_setTile tileIndex tileValue mtxm) (\<lambda>mtxm. Inr (t\<lparr>ter_mtxm := Some mtxm\<rparr>))));
          setEditor = (\<lambda>t. bind_result (follow (ter_tile t)) (\<lambda>tile.
            bind_result (TileSection_setTile tileIndex tileValue tile) (\<lambda>tile. Inr (t\<lparr>ter_tile := Some tile\<rparr>))))
      in if scope = Scope_Game then setGame t
         else if scope = Scope_Editor then setEditor t
         else bind_result (setGame t) setEditor)"

definition Terrain_setTilePx :: "nat \<Rightarrow> nat \<Rightarrow> u16 \<Rightarrow> scope \<Rightarrow> 'a Terrain_scheme \<Rightarrow> 'a Terrain_scheme result" where
  "Terrain_setTilePx pixelXc pixelYc = Terrain_setTile (pixelXc div PixelsPerTile) (pixelYc div PixelsPerTile)"

definition Terrain_getIsomEntry :: "'a Terrain_scheme \<Rightarrow> nat \<Rightarrow> IsomEntry result" where
  "Terrain_getIsomEntry t isomIndex = bind_result (follow (ter_isom t)) (\<lambda>isom. IsomSection_getIsomEntry isom isomIndex)"

definition Terrain_clear :: "'a Terrain_scheme \<Rightarrow> 'a Terrain_scheme" where
  "Terrain_clear t = t\<lparr>ter_era := None, ter_dim := None, ter_mtxm := None, ter_tile := None, ter_isom := None\<rparr>"

section \<open>Layers\<close>

record Layers = Terrain +
  ly_mask :: "MaskSection option"
  ly_thg2 :: "Thg2Section option"
  ly_dd2 :: "Dd2Section option"
  ly_unit :: "UnitSection option"
  ly_mrgn :: "MrgnSection option"

definition Layers_new :: "u16 \<Rightarrow> u16 \<Rightarrow> u16 \<Rightarrow> Layers" where
  "Layers_new tileset width height = Terrain.extend (Terrain_new tileset width height)
    (Layers.fields (Some (MaskSection_GetDefault width height)) (Some \<lparr>sprites = []\<rparr>) (Some \<lparr>doodads = []\<rparr>)
      (Some \<lparr>units = []\<rparr>) (Some (MrgnSection_GetDefault width height)))"

definition Layers_empty :: "Layers \<Rightarrow> bool" where
  "Layers_empty ly \<longleftrightarrow> Terrain_empty ly \<and> ly_mask ly = None \<and> ly_thg2 ly = None \<and> ly_dd2 ly = None \<and>
    ly_unit ly = None \<and> ly_mrgn ly = None"

definition Layers_getFog :: "Layers \<Rightarrow> nat \<Rightarrow> nat \<Rightarrow> u8 result" where
  "Layers_getFog ly tileXc tileYc =
    bind_result (follow (ter_dim ly)) (\<lambda>dim. bind_result (follow (ly_mask ly)) (\<lambda>mask.
      MaskSection_getFog mask (DimSection_getTileWidth dim * tileYc + tileXc)))"

definition Layers_getFogPx :: "Layers \<Rightarrow> nat \<Rightarrow> nat \<Rightarrow> u8 result" where
  "Layers_getFogPx ly pixelXc pixelYc = Layers_getFog ly (pixelXc div PixelsPerTile) (pixelYc div PixelsPerTile)"

definition Layers_setFog :: "nat \<Rightarrow> nat \<Rightarrow> u8 \<Rightarrow> Layers \<Rightarrow> Layers result" where
  "Layers_setFog tileXc tileYc fogOfWarPlayers ly =
    bind_result (follow (ter_dim ly)) (\<lambda>dim. bind_result (follow (ly_mask ly)) (\<lambda>mask.
      bind_result (MaskSection_setFog (DimSection_getTileWidth dim * tileYc + tileXc) fogOfWarPlayers mask)
        (\<lambda>mask. Inr (ly\<lparr>ly_mask := Some mask\<rparr>))))"

definition Layers_setFogPx :: "nat \<Rightarrow> nat \<Rightarrow> u8 \<Rightarrow> Layers \<Rightarrow> Layers result" where
  "Layers_setFogPx pixelXc pixelYc = Layers_setFog (pixelXc div PixelsPerTile) (pixelYc div PixelsPerTile)"

subsection \<open>Sprites, doodads and units\<close>

definition Layers_numSprites :: "Layers \<Rightarrow> nat result" where
  "Layers_numSprites ly = bind_result (follow (ly_thg2 ly)) (\<lambda>thg2. Inr (Thg2Section_numSprites thg2))"

definition Layers_getSprite :: "Layers \<Rightarrow> nat \<Rightarrow> Sprite result" where
  "Layers_getSprite ly spriteIndex = bind_result (follow (ly_thg2 ly)) (\<lambda>thg2. Thg2Section_getSprite thg2 spriteIndex)"

text \<open>An edit of one section, and one that may fail.\<close>

definition on_thg2 :: "(Thg2Section \<Rightarrow> Thg2Section result) \<Rightarrow> Layers \<Rightarrow> Layers result" where
  "on_thg2 f ly = bind_result (follow (ly_thg2 ly)) (\<lambda>thg2. bind_result (f thg2) (\<lambda>thg2. Inr (ly\<lparr>ly_thg2 := Some thg2\<rparr>)))"

definition on_dd2 :: "(Dd2Section \<Rightarrow> Dd2Section result) \<Rightarrow> Layers \<Rightarrow> Layers result" where
  "on_dd2 f ly = bind_result (follow (ly_dd2 ly)) (\<lambda>dd2. bind_result (f dd2) (\<lambda>dd2. Inr (ly\<lparr>ly_dd2 := Some dd2\<rparr>)))"

definition on_unit :: "(UnitSection \<Rightarrow> UnitSection result) \<Rightarrow> Layers \<Rightarrow> Layers result" where
  "on_unit f ly = bind_result (follow (ly_unit ly)) (\<lambda>unit. bind_result (f unit) (\<lambda>unit. Inr (ly\<lparr>ly_unit := Some unit\<rparr>)))"

definition on_mrgn :: "(MrgnSection \<Rightarrow> MrgnSection result) \<Rightarrow> Layers \<Rightarrow> Layers result" where
  "on_mrgn f ly = bind_result (follow (ly_mrgn ly)) (\<lambda>mrgn. bind_result (f mrgn) (\<lambda>mrgn. Inr (ly\<lparr>ly_mrgn := Some mrgn\<rparr>)))"

definition Layers_addSprite :: "Sprite \<Rightarrow> Layers \<Rightarrow> (nat \<times> Layers) result" where
  "Layers_addSprite sprite ly = bind_result (follow (ly_thg2 ly)) (\<lambda>thg2.
    case Thg2Section_addSprite sprite thg2 of (index, thg2) \<Rightarrow> Inr (index, ly\<lparr>ly_thg2 := Some thg2\<rparr>))"

definition Layers_insertSprite :: "nat \<Rightarrow> Sprite \<Rightarrow> Layers \<Rightarrow> Layers result" where
  "Layers_insertSprite spriteIndex sprite = on_thg2 (\<lambda>thg2. Inr (Thg2Section_insertSprite spriteIndex sprite thg2))"

definition Layers_deleteSprite :: "nat \<Rightarrow> Layers \<Rightarrow> Layers result" where
  "Layers_deleteSprite spriteIndex = on_thg2 (\<lambda>thg2. Inr (Thg2Section_deleteSprite spriteIndex thg2))"

definition Layers_moveSprite :: "nat \<Rightarrow> nat \<Rightarrow> Layers \<Rightarrow> Layers result" where
  "Layers_moveSprite spriteIndexFrom spriteIndexTo = on_thg2 (Thg2Section_moveSprite spriteIndexFrom spriteIndexTo)"

definition Layers_numDoodads :: "Layers \<Rightarrow> nat result" where
  "Layers_numDoodads ly = bind_result (follow (ly_dd2 ly)) (\<lambda>dd2. Inr (Dd2Section_numDoodads dd2))"

definition Layers_getDoodad :: "Layers \<Rightarrow> nat \<Rightarrow> Doodad result" where
  "Layers_getDoodad ly doodadIndex = bind_result (follow (ly_dd2 ly)) (\<lambda>dd2. Dd2Section_getDoodad dd2 doodadIndex)"

definition Layers_addDoodad :: "Doodad \<Rightarrow> Layers \<Rightarrow> (nat \<times> Layers) result" where
  "Layers_addDoodad doodad ly = bind_result (follow (ly_dd2 ly)) (\<lambda>dd2.
    case Dd2Section_addDoodad doodad dd2 of (index, dd2) \<Rightarrow> Inr (index, ly\<lparr>ly_dd2 := Some dd2\<rparr>))"

definition Layers_insertDoodad :: "nat \<Rightarrow> Doodad \<Rightarrow> Layers \<Rightarrow> Layers result" where
  "Layers_insertDoodad doodadIndex doodad = on_dd2 (\<lambda>dd2. Inr (Dd2Section_insertDoodad doodadIndex doodad dd2))"

definition Layers_deleteDoodad :: "nat \<Rightarrow> Layers \<Rightarrow> Layers result" where
  "Layers_deleteDoodad doodadIndex = on_dd2 (\<lambda>dd2. Inr (Dd2Section_deleteDoodad doodadIndex dd2))"

definition Layers_moveDoodad :: "nat \<Rightarrow> nat \<Rightarrow> Layers \<Rightarrow> Layers result" where
  "Layers_moveDoodad doodadIndexFrom doodadIndexTo = on_dd2 (Dd2Section_moveDoodad doodadIndexFrom doodadIndexTo)"

definition Layers_numUnits :: "Layers \<Rightarrow> nat result" where
  "Layers_numUnits ly = bind_result (follow (ly_unit ly)) (\<lambda>unit. Inr (UnitSection_numUnits unit))"

definition Layers_getUnit :: "Layers \<Rightarrow> nat \<Rightarrow> Unit result" where
  "Layers_getUnit ly unitIndex = bind_result (follow (ly_unit ly)) (\<lambda>unit. UnitSection_getUnit unit unitIndex)"

definition Layers_addUnit :: "Unit \<Rightarrow> Layers \<Rightarrow> (nat \<times> Layers) result" where
  "Layers_addUnit u ly = bind_result (follow (ly_unit ly)) (\<lambda>unit.
    case UnitSection_addUnit u unit of (index, unit) \<Rightarrow> Inr (index, ly\<lparr>ly_unit := Some unit\<rparr>))"

definition Layers_insertUnit :: "nat \<Rightarrow> Unit \<Rightarrow> Layers \<Rightarrow> Layers result" where
  "Layers_insertUnit unitIndex u = on_unit (\<lambda>unit. Inr (UnitSection_insertUnit unitIndex u unit))"

definition Layers_deleteUnit :: "nat \<Rightarrow> Layers \<Rightarrow> Layers result" where
  "Layers_deleteUnit unitIndex = on_unit (\<lambda>unit. Inr (UnitSection_deleteUnit unitIndex unit))"

definition Layers_moveUnit :: "nat \<Rightarrow> nat \<Rightarrow> Layers \<Rightarrow> Layers result" where
  "Layers_moveUnit unitIndexFrom unitIndexTo = on_unit (UnitSection_moveUnit unitIndexFrom unitIndexTo)"

text \<open>
  The loops that remove what lies outside the map run over the indexes from the last to 0; the loops that
  move it inside run over all objects. On a map without width, \<open>pixelWidth-1\<close> wraps around.
\<close>

primrec removeDown :: "('s \<Rightarrow> nat \<Rightarrow> 'a result) \<Rightarrow> (nat \<Rightarrow> 's \<Rightarrow> 's) \<Rightarrow> ('a \<Rightarrow> bool) \<Rightarrow> nat \<Rightarrow> 's \<Rightarrow> 's result" where
  "removeDown get del outside 0 sec = Inr sec"
| "removeDown get del outside (Suc i) sec =
    bind_result (get sec i) (\<lambda>x. removeDown get del outside i (if outside x then del i sec else sec))"

definition outOfBounds :: "nat \<Rightarrow> nat \<Rightarrow> u16 \<Rightarrow> u16 \<Rightarrow> bool" where
  "outOfBounds pixelWidth pixelHeight xc yc \<longleftrightarrow> unat xc \<ge> pixelWidth \<or> unat yc \<ge> pixelHeight"

definition clampTo :: "nat \<Rightarrow> 'a::len word \<Rightarrow> 'a word" where
  "clampTo limit xc = (if unat xc \<ge> limit then of_nat limit - 1 else xc)"

definition Layers_updateOutOfBoundsSprites :: "Layers \<Rightarrow> Layers result" where
  "Layers_updateOutOfBoundsSprites ly = bind_result (follow (ter_dim ly)) (\<lambda>dim.
    on_thg2 (\<lambda>thg2. Inr (thg2\<lparr>sprites := map (\<lambda>s. s\<lparr>s_xc := clampTo (DimSection_getPixelWidth dim) (s_xc s),
      s_yc := clampTo (DimSection_getPixelHeight dim) (s_yc s)\<rparr>) (sprites thg2)\<rparr>)) ly)"

definition Layers_removeOutOfBoundsSprites :: "Layers \<Rightarrow> Layers result" where
  "Layers_removeOutOfBoundsSprites ly = bind_result (follow (ter_dim ly)) (\<lambda>dim.
    on_thg2 (\<lambda>thg2. removeDown Thg2Section_getSprite Thg2Section_deleteSprite
      (\<lambda>s. outOfBounds (DimSection_getPixelWidth dim) (DimSection_getPixelHeight dim) (s_xc s) (s_yc s))
      (Thg2Section_numSprites thg2) thg2) ly)"

definition Layers_removeOutOfBoundsDoodads :: "Layers \<Rightarrow> Layers result" where
  "Layers_removeOutOfBoundsDoodads ly = bind_result (follow (ter_dim ly)) (\<lambda>dim.
    on_dd2 (\<lambda>dd2. removeDown Dd2Section_getDoodad Dd2Section_deleteDoodad
      (\<lambda>d. outOfBounds (DimSection_getPixelWidth dim) (DimSection_getPixelHeight dim) (d_xc d) (d_yc d))
      (Dd2Section_numDoodads dd2) dd2) ly)"

definition Layers_updateOutOfBoundsUnits :: "Layers \<Rightarrow> Layers result" where
  "Layers_updateOutOfBoundsUnits ly = bind_result (follow (ter_dim ly)) (\<lambda>dim.
    on_unit (\<lambda>unit. Inr (unit\<lparr>units := map (\<lambda>u. u\<lparr>u_xc := clampTo (DimSection_getPixelWidth dim) (u_xc u),
      u_yc := clampTo (DimSection_getPixelHeight dim) (u_yc u)\<rparr>) (units unit)\<rparr>)) ly)"

definition Layers_removeOutOfBoundsUnits :: "Layers \<Rightarrow> Layers result" where
  "Layers_removeOutOfBoundsUnits ly = bind_result (follow (ter_dim ly)) (\<lambda>dim.
    on_unit (\<lambda>unit. removeDown UnitSection_getUnit UnitSection_deleteUnit
      (\<lambda>u. outOfBounds (DimSection_getPixelWidth dim) (DimSection_getPixelHeight dim) (u_xc u) (u_yc u))
      (UnitSection_numUnits unit) unit) ly)"

subsection \<open>Locations\<close>

definition Layers_numLocations :: "Layers \<Rightarrow> nat result" where
  "Layers_numLocations ly = bind_result (follow (ly_mrgn ly)) (\<lambda>mrgn. Inr (MrgnSection_numLocations mrgn))"

definition Layers_getLocation :: "Layers \<Rightarrow> nat \<Rightarrow> Location option result" where
  "Layers_getLocation ly locationId = bind_result (follow (ly_mrgn ly)) (\<lambda>mrgn. MrgnSection_getLocation mrgn locationId)"

definition Layers_addLocation :: "Location option \<Rightarrow> Layers \<Rightarrow> (nat \<times> Layers) result" where
  "Layers_addLocation location ly = bind_result (follow (ly_mrgn ly)) (\<lambda>mrgn.
    case MrgnSection_addLocation location mrgn of (locationId, mrgn) \<Rightarrow> Inr (locationId, ly\<lparr>ly_mrgn := Some mrgn\<rparr>))"

definition Layers_replaceLocation :: "nat \<Rightarrow> Location option \<Rightarrow> Layers \<Rightarrow> Layers result" where
  "Layers_replaceLocation locationId location = on_mrgn (MrgnSection_replaceLocation locationId location)"

definition Layers_deleteLocation :: "TriggerState \<Rightarrow> nat \<Rightarrow> bool \<Rightarrow> Layers \<Rightarrow> Layers result" where
  "Layers_deleteLocation tr locationId deleteOnlyIfUnused ly =
    (if \<not> deleteOnlyIfUnused \<or> \<not> Triggers_locationUsed tr locationId
     then on_mrgn (MrgnSection_deleteLocation locationId) ly else Inr ly)"

definition Layers_moveLocation :: "nat \<Rightarrow> nat \<Rightarrow> bool \<Rightarrow> Layers \<Rightarrow> (bool \<times> Layers) result" where
  "Layers_moveLocation locationIdFrom locationIdTo lockAnywhere ly = bind_result (follow (ly_mrgn ly)) (\<lambda>mrgn.
    case MrgnSection_moveLocation locationIdFrom locationIdTo lockAnywhere mrgn of (moved, mrgn) \<Rightarrow>
      Inr (moved, ly\<lparr>ly_mrgn := Some mrgn\<rparr>))"

definition Layers_isBlank :: "Layers \<Rightarrow> nat \<Rightarrow> bool result" where
  "Layers_isBlank ly locationId = bind_result (follow (ly_mrgn ly)) (\<lambda>mrgn. Inr (MrgnSection_isBlank mrgn locationId))"

definition Layers_downsizeOutOfBoundsLocations :: "Layers \<Rightarrow> Layers result" where
  "Layers_downsizeOutOfBoundsLocations ly = bind_result (follow (ter_dim ly)) (\<lambda>dim.
    let pixelWidth = DimSection_getPixelWidth dim; pixelHeight = DimSection_getPixelHeight dim
    in on_mrgn (updateLocations (\<lambda>l. l\<lparr>l_left := clampTo pixelWidth (l_left l), l_right := clampTo pixelWidth (l_right l),
         l_top := clampTo pixelHeight (l_top l), l_bottom := clampTo pixelHeight (l_bottom l)\<rparr>)) ly)"

definition Layers_locationsFitOriginal :: "TriggerState \<Rightarrow> bool \<Rightarrow> Layers \<Rightarrow> bool result" where
  "Layers_locationsFitOriginal tr lockAnywhere ly = bind_result (follow (ly_mrgn ly)) (\<lambda>mrgn.
    Inr (MrgnSection_locationsFitOriginal (Triggers_markUsedLocations tr) lockAnywhere mrgn))"

definition Layers_trimLocationsToOriginal :: "bool \<Rightarrow> TriggerState \<times> Layers \<Rightarrow> (bool \<times> TriggerState \<times> Layers) result" where
  "Layers_trimLocationsToOriginal lockAnywhere = (\<lambda>(tr, ly). bind_result (follow (ly_mrgn ly)) (\<lambda>mrgn.
    bind_result (MrgnSection_trimToOriginal (Triggers_markUsedLocations tr) lockAnywhere mrgn) (\<lambda>trimmed.
      case trimmed of
        None \<Rightarrow> Inr (False, tr, ly)
      | Some (mrgn, remaps) \<Rightarrow> Inr (True, Triggers_remapLocationIds remaps tr, ly\<lparr>ly_mrgn := Some mrgn\<rparr>))))"

definition Layers_expandToScHybridOrExpansion :: "Layers \<Rightarrow> Layers result" where
  "Layers_expandToScHybridOrExpansion = on_mrgn (\<lambda>mrgn. Inr (MrgnSection_expandToScHybridOrExpansion mrgn))"

definition Layers_anywhereIsStandardDimensions :: "Layers \<Rightarrow> bool result" where
  "Layers_anywhereIsStandardDimensions ly =
    bind_result (Layers_getLocation ly Anywhere) (\<lambda>anywhere.
      case anywhere of
        None \<Rightarrow> Inr False
      | Some l \<Rightarrow> if l_left l = 0 \<and> l_top l = 0 then
          bind_result (follow (ter_dim ly)) (\<lambda>dim.
            Inr (unat (l_right l) = DimSection_getPixelWidth dim \<and> unat (l_bottom l) = DimSection_getPixelHeight dim))
          else Inr False)"

definition Layers_matchAnywhereToDimensions :: "Layers \<Rightarrow> Layers result" where
  "Layers_matchAnywhereToDimensions ly =
    bind_result (Layers_getLocation ly Anywhere) (\<lambda>anywhere.
      case anywhere of
        None \<Rightarrow> Inr ly
      | Some l \<Rightarrow> bind_result (follow (ter_dim ly)) (\<lambda>dim.
          on_mrgn (\<lambda>mrgn. Inr (mrgn\<lparr>locations := (locations mrgn)[Anywhere := Some (l\<lparr>l_left := 0, l_top := 0,
            l_right := of_nat (DimSection_getPixelWidth dim), l_bottom := of_nat (DimSection_getPixelHeight dim)\<rparr>)]\<rparr>)) ly))"

subsection \<open>Dimensions\<close>

definition UpdateAnywhere :: u16 where "UpdateAnywhere = 1"
definition UpdateAnywhereIfAlreadyStandard :: u16 where "UpdateAnywhereIfAlreadyStandard = 2"
definition UpdateOutOfBoundsLocations :: u16 where "UpdateOutOfBoundsLocations = 4"
definition RemoveOutOfBoundsDoodads :: u16 where "RemoveOutOfBoundsDoodads = 8"
definition UpdateOutOfBoundsUnits :: u16 where "UpdateOutOfBoundsUnits = 16"
definition RemoveOutOfBoundsUnits :: u16 where "RemoveOutOfBoundsUnits = 32"
definition UpdateOutOfBoundsSprites :: u16 where "UpdateOutOfBoundsSprites = 64"
definition RemoveOutOfBoundsSprites :: u16 where "RemoveOutOfBoundsSprites = 128"

definition SizeValidation_Default :: u16 where
  "SizeValidation_Default = UpdateAnywhereIfAlreadyStandard OR RemoveOutOfBoundsDoodads OR UpdateOutOfBoundsUnits OR UpdateOutOfBoundsSprites"

definition Layers_validateSizes :: "u16 \<Rightarrow> Layers \<Rightarrow> Layers result" where
  "Layers_validateSizes flags ly =
    bind_result
      (if \<not> hasFlag flags UpdateAnywhereIfAlreadyStandard \<and> hasFlag flags UpdateAnywhere then Inr True
       else if hasFlag flags UpdateAnywhereIfAlreadyStandard then Layers_anywhereIsStandardDimensions ly else Inr False) (\<lambda>match.
    bind_result (if match then Layers_matchAnywhereToDimensions ly else Inr ly) (\<lambda>ly.
    bind_result (if hasFlag flags UpdateOutOfBoundsLocations then Layers_downsizeOutOfBoundsLocations ly else Inr ly) (\<lambda>ly.
    bind_result (if hasFlag flags RemoveOutOfBoundsDoodads then Layers_removeOutOfBoundsDoodads ly else Inr ly) (\<lambda>ly.
    bind_result
      (if hasFlag flags UpdateOutOfBoundsUnits then Layers_updateOutOfBoundsUnits ly
       else if hasFlag flags RemoveOutOfBoundsUnits then Layers_removeOutOfBoundsUnits ly else Inr ly) (\<lambda>ly.
      if hasFlag flags UpdateOutOfBoundsSprites then Layers_updateOutOfBoundsSprites ly
      else if hasFlag flags RemoveOutOfBoundsSprites then Layers_removeOutOfBoundsSprites ly else Inr ly)))))"

definition Layers_setTileWidth :: "u16 \<Rightarrow> u16 \<Rightarrow> int \<Rightarrow> Layers \<Rightarrow> Layers result" where
  "Layers_setTileWidth tileWidth flags leftEdge ly =
    bind_result (Terrain_setTileWidth tileWidth leftEdge ly) (Layers_validateSizes flags)"

definition Layers_setTileHeight :: "u16 \<Rightarrow> u16 \<Rightarrow> int \<Rightarrow> Layers \<Rightarrow> Layers result" where
  "Layers_setTileHeight tileHeight flags topEdge ly =
    bind_result (Terrain_setTileHeight tileHeight topEdge ly) (Layers_validateSizes flags)"

definition Layers_setDimensions :: "u16 \<Rightarrow> u16 \<Rightarrow> u16 \<Rightarrow> int \<Rightarrow> int \<Rightarrow> Layers \<Rightarrow> Layers result" where
  "Layers_setDimensions tileWidth tileHeight flags leftEdge topEdge ly =
    bind_result (Terrain_setDimensions tileWidth tileHeight leftEdge topEdge ly) (Layers_validateSizes flags)"

definition Layers_clear :: "Layers \<Rightarrow> Layers" where
  "Layers_clear ly = (Terrain_clear ly)\<lparr>ly_mask := None, ly_thg2 := None, ly_dd2 := None, ly_unit := None, ly_mrgn := None\<rparr>"

section \<open>Removing and moving objects\<close>

text \<open>What the loops need of a section of objects.\<close>

locale obj_section =
  fixes items :: "'s \<Rightarrow> 'a list"
    and get :: "'s \<Rightarrow> nat \<Rightarrow> 'a result"
    and del :: "nat \<Rightarrow> 's \<Rightarrow> 's"
  assumes get_item: "get sec i = at_unchecked (items sec) i"
    and items_del: "items (del i sec) = objs_delete i (items sec)"
begin

lemma removeDown_prefix:
  "n \<le> length (items sec) \<Longrightarrow> \<exists>sec'. removeDown get del outside n sec = Inr sec' \<and>
    items sec' = filter (\<lambda>x. \<not> outside x) (take n (items sec)) @ drop n (items sec)"
proof (induction n arbitrary: sec)
  case (Suc i)
  let ?x = "items sec ! i"
  have i: "i < length (items sec)" using Suc.prems by simp
  define next_sec where "next_sec = (if outside ?x then del i sec else sec)"
  have "i \<le> length (items next_sec)" and kept: "take i (items next_sec) = take i (items sec)"
    "drop i (items next_sec) = (if outside ?x then [] else [?x]) @ drop (Suc i) (items sec)"
    using i by (auto simp: next_sec_def items_del objs_delete_def erase_at_def Cons_nth_drop_Suc)
  from Suc.IH [OF this(1)] show ?case
    using i by (auto simp: get_item at_unchecked_def next_sec_def [symmetric] kept take_Suc_conv_app_nth)
qed simp

lemma removeDown_all:
  "\<exists>sec'. removeDown get del outside (length (items sec)) sec = Inr sec' \<and>
    items sec' = filter (\<lambda>x. \<not> outside x) (items sec)"
  using removeDown_prefix [of "length (items sec)" sec outside] by simp

end

interpretation sprite_objs: obj_section sprites Thg2Section_getSprite Thg2Section_deleteSprite
  by unfold_locales (simp_all add: Thg2Section_getSprite_def Thg2Section_deleteSprite_def)

interpretation doodad_objs: obj_section doodads Dd2Section_getDoodad Dd2Section_deleteDoodad
  by unfold_locales (simp_all add: Dd2Section_getDoodad_def Dd2Section_deleteDoodad_def)

interpretation unit_objs: obj_section units UnitSection_getUnit UnitSection_deleteUnit
  by unfold_locales (simp_all add: UnitSection_getUnit_def UnitSection_deleteUnit_def)

lemma removeDown_sections:
  "removeDown Thg2Section_getSprite Thg2Section_deleteSprite outS (Thg2Section_numSprites thg2) thg2 =
    Inr (thg2\<lparr>sprites := filter (\<lambda>s. \<not> outS s) (sprites thg2)\<rparr>)"
  "removeDown Dd2Section_getDoodad Dd2Section_deleteDoodad outD (Dd2Section_numDoodads dd2) dd2 =
    Inr (dd2\<lparr>doodads := filter (\<lambda>d. \<not> outD d) (doodads dd2)\<rparr>)"
  "removeDown UnitSection_getUnit UnitSection_deleteUnit outU (UnitSection_numUnits unit) unit =
    Inr (unit\<lparr>units := filter (\<lambda>u. \<not> outU u) (units unit)\<rparr>)"
  using sprite_objs.removeDown_all [of outS thg2] doodad_objs.removeDown_all [of outD dd2]
    unit_objs.removeDown_all [of outU unit]
  by (auto simp: Thg2Section_numSprites_def Dd2Section_numDoodads_def UnitSection_numUnits_def)

lemma clampTo_inside: "0 < limit \<Longrightarrow> unat (clampTo limit xc) < limit"
proof -
  assume "0 < limit"
  then show ?thesis
  proof (cases "unat xc \<ge> limit")
    case True
    have "of_nat limit - 1 = (of_nat (limit - 1) :: 'a word)" using \<open>0 < limit\<close> by (simp add: of_nat_diff)
    moreover have "limit - 1 < 2 ^ LENGTH('a)" using True unsigned_less [where ?'a = nat, of xc] \<open>0 < limit\<close> by linarith
    ultimately have "unat (of_nat limit - 1 :: 'a word) = limit - 1" by (simp add: unsigned_of_nat take_bit_nat_eq_self)
    then show ?thesis using True \<open>0 < limit\<close> by (simp add: clampTo_def)
  qed (simp add: clampTo_def)
qed

lemma clampTo_id [simp]: "unat xc < limit \<Longrightarrow> clampTo limit xc = xc"
  by (simp add: clampTo_def)

text \<open>An object that lies on the map of the given dimensions.\<close>

definition inside :: "DimSection \<Rightarrow> u16 \<Rightarrow> u16 \<Rightarrow> bool" where
  "inside dim xc yc \<longleftrightarrow> unat xc < DimSection_getPixelWidth dim \<and> unat yc < DimSection_getPixelHeight dim"

lemma outOfBounds_inside:
  "outOfBounds (DimSection_getPixelWidth dim) (DimSection_getPixelHeight dim) xc yc \<longleftrightarrow> \<not> inside dim xc yc"
  by (auto simp: outOfBounds_def inside_def)

section \<open>Changing the dimensions\<close>

lemma MtxmSection_setDimensions_same:
  "MtxmSection_setDimensions w' h' w h l t sec = Inr sec' \<Longrightarrow> sec' = sec"
  "TileSection_setDimensions w' h' w h l t tsec = Inr tsec' \<Longrightarrow> tsec' = tsec"
  by (auto simp: MtxmSection_setDimensions_def TileSection_setDimensions_def bind_result_eq_Inr)

lemma Terrain_resizeSections_spec:
  "Terrain_resizeSections w' h' w h l t ter = Inr ter' \<Longrightarrow>
    \<exists>isom. ter_isom ter = Some isom \<and> ter' = ter\<lparr>ter_isom := Some (IsomSection_setDimensions w' h' isom)\<rparr>"
  by (auto simp: Terrain_resizeSections_def bind_result_eq_Inr dest!: MtxmSection_setDimensions_same)

lemma resize_crop_returns:
  assumes "length (tile_tiles tile) = unat w * unat h" "length (mtxm_tiles mtxm) = unat w * unat h"
    and "0 < w'" "0 \<le> left" "left + int (unat w') \<le> int (unat w)"
    and "left < min (int (unat h)) (upper + int (unat h')) - max 0 upper"
  shows "TileSection_setDimensions w' h' w h left upper tile = Inr tile"
    and "MtxmSection_setDimensions w' h' w h left upper mtxm = Inr mtxm"
  using resizeTiles_crop [OF assms(1,3-)] resizeTiles_crop [OF assms(2-)]
  by (simp_all add: TileSection_setDimensions_def MtxmSection_setDimensions_def setMtxmOrTileDimensions_def)

text \<open>What checking the sizes with the default flags leaves: only doodads, units and sprites change.\<close>

lemma hasFlag_Default [simp]:
  "hasFlag SizeValidation_Default UpdateAnywhereIfAlreadyStandard" "\<not> hasFlag SizeValidation_Default UpdateOutOfBoundsLocations"
  "hasFlag SizeValidation_Default RemoveOutOfBoundsDoodads" "hasFlag SizeValidation_Default UpdateOutOfBoundsUnits"
  "hasFlag SizeValidation_Default UpdateOutOfBoundsSprites"
  by (simp_all add: hasFlag_def SizeValidation_Default_def UpdateAnywhereIfAlreadyStandard_def UpdateOutOfBoundsLocations_def
      RemoveOutOfBoundsDoodads_def UpdateOutOfBoundsUnits_def UpdateOutOfBoundsSprites_def)

lemma matchAnywhere_standard:
  assumes "Layers_anywhereIsStandardDimensions ly = Inr True"
  shows "Layers_matchAnywhereToDimensions ly = Inr ly"
proof -
  obtain l dim mrgn where l: "ly_mrgn ly = Some mrgn" "ter_dim ly = Some dim" "Anywhere < length (locations mrgn)"
      "locations mrgn ! Anywhere = Some l" "l_left l = 0" "l_top l = 0"
      "unat (l_right l) = DimSection_getPixelWidth dim" "unat (l_bottom l) = DimSection_getPixelHeight dim"
    using assms by (auto simp: Layers_anywhereIsStandardDimensions_def Layers_getLocation_def MrgnSection_getLocation_def
        at_unchecked_def bind_result_eq_Inr split: option.splits if_splits)
  have "l\<lparr>l_left := 0, l_top := 0, l_right := of_nat (unat (l_right l)), l_bottom := of_nat (unat (l_bottom l))\<rparr> = l"
    using l(5,6) by simp
  then have "(locations mrgn)[Anywhere := Some (l\<lparr>l_left := 0, l_top := 0, l_right := of_nat (DimSection_getPixelWidth dim),
      l_bottom := of_nat (DimSection_getPixelHeight dim)\<rparr>)] = locations mrgn"
    using l(3,4,7,8) by (metis list_update_id)
  then show ?thesis using l(1-4)
    by (simp add: Layers_matchAnywhereToDimensions_def Layers_getLocation_def MrgnSection_getLocation_def at_unchecked_def on_mrgn_def)
qed

lemma Layers_anywhere_returns:
  assumes "ly_mrgn ly = Some mrgn" "Anywhere < length (locations mrgn)" "ter_dim ly = Some dim"
  shows "\<exists>standard. Layers_anywhereIsStandardDimensions ly = Inr standard"
  using assms by (cases "locations mrgn ! Anywhere")
    (auto simp: Layers_anywhereIsStandardDimensions_def Layers_getLocation_def MrgnSection_getLocation_def at_unchecked_def)

text \<open>The objects after the sizes were checked with the default flags.\<close>

definition clampUnit :: "DimSection \<Rightarrow> Unit \<Rightarrow> Unit" where
  "clampUnit dim u = u\<lparr>u_xc := clampTo (DimSection_getPixelWidth dim) (u_xc u), u_yc := clampTo (DimSection_getPixelHeight dim) (u_yc u)\<rparr>"

definition clampSprite :: "DimSection \<Rightarrow> Sprite \<Rightarrow> Sprite" where
  "clampSprite dim s = s\<lparr>s_xc := clampTo (DimSection_getPixelWidth dim) (s_xc s), s_yc := clampTo (DimSection_getPixelHeight dim) (s_yc s)\<rparr>"

definition validated :: "DimSection \<Rightarrow> Dd2Section \<Rightarrow> UnitSection \<Rightarrow> Thg2Section \<Rightarrow> Layers \<Rightarrow> Layers" where
  "validated dim dd2 unit thg2 ly = ly\<lparr>ly_dd2 := Some (dd2\<lparr>doodads := filter (\<lambda>d. inside dim (d_xc d) (d_yc d)) (doodads dd2)\<rparr>),
    ly_unit := Some (unit\<lparr>units := map (clampUnit dim) (units unit)\<rparr>),
    ly_thg2 := Some (thg2\<lparr>sprites := map (clampSprite dim) (sprites thg2)\<rparr>)\<rparr>"

lemma Layers_validateSizes_default:
  assumes "ter_dim ly = Some dim" "ly_dd2 ly = Some dd2" "ly_unit ly = Some unit" "ly_thg2 ly = Some thg2"
    and "Layers_anywhereIsStandardDimensions ly = Inr standard"
  shows "Layers_validateSizes SizeValidation_Default ly = Inr (validated dim dd2 unit thg2 ly)"
  using assms matchAnywhere_standard [of ly]
  by (cases standard) (simp_all add: Layers_validateSizes_def Layers_removeOutOfBoundsDoodads_def Layers_updateOutOfBoundsUnits_def
      Layers_updateOutOfBoundsSprites_def on_dd2_def on_unit_def on_thg2_def removeDown_sections outOfBounds_inside
      validated_def clampUnit_def [abs_def] clampSprite_def [abs_def])

lemma Layers_validateSizes_default_cases:
  assumes "Layers_validateSizes SizeValidation_Default ly = Inr ly'"
  obtains dim dd2 unit thg2 where "ter_dim ly = Some dim" "ly' = validated dim dd2 unit thg2 ly"
proof -
  obtain standard where s: "Layers_anywhereIsStandardDimensions ly = Inr standard"
    using assms by (auto simp: Layers_validateSizes_def bind_result_eq_Inr)
  have "(if standard then Layers_matchAnywhereToDimensions ly else Inr ly) = Inr ly"
    using s by (simp add: matchAnywhere_standard)
  then obtain dim dd2 unit thg2 where "ter_dim ly = Some dim" "ly_dd2 ly = Some dd2" "ly_unit ly = Some unit" "ly_thg2 ly = Some thg2"
    using assms s by (auto simp: Layers_validateSizes_def Layers_removeOutOfBoundsDoodads_def Layers_updateOutOfBoundsUnits_def
      Layers_updateOutOfBoundsSprites_def on_dd2_def on_unit_def on_thg2_def bind_result_eq_Inr)
  with Layers_validateSizes_default [OF this s] assms that show thesis by simp
qed

lemma clamp_inside:
  assumes "0 < dim_tileWidth dim" "0 < dim_tileHeight dim"
  shows "inside dim (u_xc (clampUnit dim u)) (u_yc (clampUnit dim u))" "inside dim (s_xc (clampSprite dim s)) (s_yc (clampSprite dim s))"
    and "inside dim (u_xc u) (u_yc u) \<Longrightarrow> clampUnit dim u = u" "inside dim (s_xc s) (s_yc s) \<Longrightarrow> clampSprite dim s = s"
proof -
  have "0 < DimSection_getPixelWidth dim" "0 < DimSection_getPixelHeight dim"
    using assms by (simp_all add: DimSection_getPixelWidth_def DimSection_getPixelHeight_def PixelsPerTile_def word_less_nat_alt)
  then show "inside dim (u_xc (clampUnit dim u)) (u_yc (clampUnit dim u))" "inside dim (s_xc (clampSprite dim s)) (s_yc (clampSprite dim s))"
    by (simp_all add: inside_def clampUnit_def clampSprite_def clampTo_inside)
qed (simp_all add: inside_def clampUnit_def clampSprite_def)

definition example_layers :: Layers where
  "example_layers = (Layers_new 0 3 3)\<lparr>ly_unit := Some \<lparr>units = [dec_Unit (replicate 4 NUL @ replicate 32 (CHR 0x40))]\<rparr>\<rparr>"

lemma example_layers_fields:
  "ter_dim example_layers = Some \<lparr>dim_tileWidth = 3, dim_tileHeight = 3\<rparr>" "ter_isom example_layers = Some (IsomSection_GetDefault 3 3)"
  "ter_tile example_layers = Some (TileSection_GetDefault 3 3)" "ter_mtxm example_layers = Some (MtxmSection_GetDefault 3 3)"
  "ly_dd2 example_layers = Some \<lparr>doodads = []\<rparr>" "ly_thg2 example_layers = Some \<lparr>sprites = []\<rparr>"
  "ly_unit example_layers = Some \<lparr>units = [dec_Unit (replicate 4 NUL @ replicate 32 (CHR 0x40))]\<rparr>"
  "ly_mrgn example_layers = Some (MrgnSection_GetDefault 3 3)" "ly_mask example_layers = Some (MaskSection_GetDefault 3 3)"
  "Anywhere < length (locations (MrgnSection_GetDefault 3 3))"
  "length (tile_tiles (TileSection_GetDefault 3 3)) = unat (3 :: u16) * unat (3 :: u16)"
  "length (mtxm_tiles (MtxmSection_GetDefault 3 3)) = unat (3 :: u16) * unat (3 :: u16)"
  by (simp_all add: example_layers_def Layers_new_def Terrain_new_def Terrain.defs Layers.defs DimSection_GetDefault_def
      MrgnSection_GetDefault_def Anywhere_def TileSection_GetDefault_def MtxmSection_GetDefault_def)

section \<open>Properties\<close>

text \<open>
  C29. Cutting a map: when the sections of the map are there and the new map lies inside the old columns,
  \<open>Layers::setDimensions\<close> with the default flags returns; then every doodad, unit and sprite lies on the map,
  the doodads are exactly those that lie on it, and a unit or sprite that lies on it is as it was.
\<close>

theorem Layers_setDimensions_objects:
  assumes "ter_dim ly = Some \<lparr>dim_tileWidth = w, dim_tileHeight = h\<rparr>" "ter_isom ly = Some isom" "ter_tile ly = Some tile" "ter_mtxm ly = Some mtxm"
    and "ly_dd2 ly = Some dd2" "ly_unit ly = Some unit" "ly_thg2 ly = Some thg2"
    and "ly_mrgn ly = Some mrgn" "Anywhere < length (locations mrgn)"
    and "length (tile_tiles tile) = unat w * unat h" "length (mtxm_tiles mtxm) = unat w * unat h"
    and "0 < w'" "0 < h'" "0 \<le> leftEdge" "leftEdge + int (unat w') \<le> int (unat w)"
    and "leftEdge < min (int (unat h)) (topEdge + int (unat h')) - max 0 topEdge"
  shows "\<exists>ly' unit' thg2'. Layers_setDimensions w' h' SizeValidation_Default leftEdge topEdge ly = Inr ly' \<and>
    ter_dim ly' = Some \<lparr>dim_tileWidth = w', dim_tileHeight = h'\<rparr> \<and>
    ly_dd2 ly' = Some (dd2\<lparr>doodads := filter (\<lambda>d. inside \<lparr>dim_tileWidth = w', dim_tileHeight = h'\<rparr> (d_xc d) (d_yc d)) (doodads dd2)\<rparr>) \<and>
    ly_unit ly' = Some unit' \<and> list_all2 (\<lambda>u u'. inside \<lparr>dim_tileWidth = w', dim_tileHeight = h'\<rparr> (u_xc u') (u_yc u') \<and>
      (inside \<lparr>dim_tileWidth = w', dim_tileHeight = h'\<rparr> (u_xc u) (u_yc u) \<longrightarrow> u' = u)) (units unit) (units unit') \<and>
    ly_thg2 ly' = Some thg2' \<and> list_all2 (\<lambda>s s'. inside \<lparr>dim_tileWidth = w', dim_tileHeight = h'\<rparr> (s_xc s') (s_yc s') \<and>
      (inside \<lparr>dim_tileWidth = w', dim_tileHeight = h'\<rparr> (s_xc s) (s_yc s) \<longrightarrow> s' = s)) (sprites thg2) (sprites thg2')"
proof -
  let ?dim = "\<lparr>dim_tileWidth = w', dim_tileHeight = h'\<rparr>"
  let ?ly = "ly\<lparr>ter_isom := Some (IsomSection_setDimensions w' h' isom), ter_dim := Some ?dim\<rparr>"
  have keep: "ly\<lparr>ter_isom := i, ter_tile := Some tile, ter_mtxm := Some mtxm, ter_dim := d\<rparr> = ly\<lparr>ter_isom := i, ter_dim := d\<rparr>" for i d
    using assms(3,4) by simp
  have "Terrain_setDimensions w' h' leftEdge topEdge ly = Inr ?ly"
    using assms(1-4) resize_crop_returns [OF assms(10-12,14-16)]
    by (simp add: Terrain_setDimensions_def Terrain_resizeSections_def DimSection_getTileWidth_def DimSection_getTileHeight_def
        DimSection_setDimensions_def keep)
  moreover obtain standard where "Layers_anywhereIsStandardDimensions ?ly = Inr standard"
    using Layers_anywhere_returns [of ?ly mrgn ?dim] assms(8,9) by auto
  ultimately have "Layers_setDimensions w' h' SizeValidation_Default leftEdge topEdge ly = Inr (validated ?dim dd2 unit thg2 ?ly)"
    using Layers_validateSizes_default [of ?ly ?dim dd2 unit thg2] assms(5-7) by (simp add: Layers_setDimensions_def)
  then show ?thesis
    using clamp_inside [of ?dim] assms(12,13) by (auto simp: validated_def list_all2_conv_all_nth)
qed

theorem Layers_setDimensions_objects_witness:
  "\<exists>ly' unit'. Layers_setDimensions 2 2 SizeValidation_Default 0 0 example_layers = Inr ly' \<and>
    ter_dim ly' = Some \<lparr>dim_tileWidth = 2, dim_tileHeight = 2\<rparr> \<and> ly_unit ly' = Some unit' \<and>
    (\<exists>u. units unit' = [u] \<and> inside \<lparr>dim_tileWidth = 2, dim_tileHeight = 2\<rparr> (u_xc u) (u_yc u))"
  using Layers_setDimensions_objects [OF example_layers_fields(1-5,7,6,8,10-12), of 2 2 0 0]
  by (auto simp: list_all2_Cons1)



text \<open>
  \<open>Terrain::setTileWidth\<close> and \<open>Terrain::setTileHeight\<close> never change the width or the height of the map: they
  store the old value again, after giving ISOM the size of the new one.
\<close>

lemma Terrain_setTileWidth_keeps_dimensions:
  "(Terrain_setTileWidth newTileWidth leftEdge t = Inr t' \<longrightarrow> (\<exists>dim. ter_dim t = Some dim \<and> ter_dim t' = Some dim \<and>
      ter_isom t' = map_option (IsomSection_setDimensions newTileWidth (dim_tileHeight dim)) (ter_isom t))) \<and>
    (Terrain_setTileHeight newTileHeight topEdge t = Inr t'' \<longrightarrow> (\<exists>dim. ter_dim t = Some dim \<and> ter_dim t'' = Some dim \<and>
      ter_isom t'' = map_option (IsomSection_setDimensions (dim_tileWidth dim) newTileHeight) (ter_isom t)))"
  by (auto simp: Terrain_setTileWidth_def Terrain_setTileHeight_def Let_def bind_result_eq_Inr DimSection_setTileWidth_def
      DimSection_setTileHeight_def DimSection_getTileWidth_def DimSection_getTileHeight_def dest!: Terrain_resizeSections_spec)

lemma Terrain_setTileWidth_keeps_dimensions_witness:
  "\<exists>t'. Terrain_setTileWidth 2 0 (Terrain_new 0 3 3) = Inr t' \<and> ter_dim t' = Some \<lparr>dim_tileWidth = 3, dim_tileHeight = 3\<rparr>"
proof -
  have "\<exists>t'. Terrain_setTileWidth 2 0 (Terrain_new 0 3 3) = Inr t'"
    using resize_crop_returns [of "TileSection_GetDefault 3 3" 3 3 "MtxmSection_GetDefault 3 3" 2 0 0 3]
    by (simp add: Terrain_setTileWidth_def Terrain_resizeSections_def Terrain_new_def DimSection_GetDefault_def
        DimSection_getTileWidth_def DimSection_getTileHeight_def TileSection_GetDefault_def MtxmSection_GetDefault_def)
  then show ?thesis
    using Terrain_setTileWidth_keeps_dimensions [of 2 0 "Terrain_new 0 3 3"]
    by (auto simp: Terrain_new_def DimSection_GetDefault_def)
qed

end
