(* ===== verification/VersionsPlayers.thy ===== *)
theory VersionsPlayers
  imports MapLayers ScenarioProperties
begin

text \<open>
  The sections that say which game a map is for (TYPE, VER, IVER, IVE2, VCOD) and who plays it (IOWN, OWNR,
  SIDE, COLR) of \<open>src/MappingCoreLib/Sections.cpp\<close>, and the classes \<open>Versions\<close> and \<open>Players\<close> of
  \<open>src/MappingCoreLib/Scenario.cpp\<close> over them. Enumerations are the words the code stores. The names of
  forces, whose uses of strings are in \<open>StringUsers\<close> and \<open>ScenarioStrings\<close>, are reached through FORC here.
\<close>

section \<open>Version sections\<close>

definition RAWS :: u32 where "RAWS = 0x53574152"
definition RAWB :: u32 where "RAWB = 0x42574152"
definition IVersion_Current :: u16 where "IVersion_Current = 10"
definition StarCraft_1_04 :: u16 where "StarCraft_1_04 = 11"

text \<open>\<open>setVirtual(false)\<close> is part of setting the type.\<close>

record TypeSection =
  scenarioType :: u32
  type_dataIsVirtual :: bool

definition TypeSection_GetDefault :: "u16 \<Rightarrow> TypeSection" where
  "TypeSection_GetDefault version =
    \<lparr>scenarioType = (if version < StarCraft_BroodWar then RAWS else RAWB), type_dataIsVirtual = False\<rparr>"

definition TypeSection_getType :: "TypeSection \<Rightarrow> u32" where
  "TypeSection_getType sec = scenarioType sec"

definition TypeSection_setType :: "u32 \<Rightarrow> TypeSection \<Rightarrow> TypeSection" where
  "TypeSection_setType type sec = sec\<lparr>scenarioType := type, type_dataIsVirtual := False\<rparr>"

record VerSection =
  ver_version :: u16

definition VerSection_GetDefault :: VerSection where
  "VerSection_GetDefault = \<lparr>ver_version = StarCraft_Hybrid\<rparr>"

definition VerSection_getVersion :: "VerSection \<Rightarrow> u16" where
  "VerSection_getVersion sec = ver_version sec"

definition VerSection_setVersion :: "u16 \<Rightarrow> VerSection \<Rightarrow> VerSection" where
  "VerSection_setVersion version sec = sec\<lparr>ver_version := version\<rparr>"

record IverSection =
  iver_version :: u16

definition IverSection_GetDefault :: IverSection where
  "IverSection_GetDefault = \<lparr>iver_version = IVersion_Current\<rparr>"

definition IverSection_getVersion :: "IverSection \<Rightarrow> u16" where
  "IverSection_getVersion sec = iver_version sec"

definition IverSection_setVersion :: "u16 \<Rightarrow> IverSection \<Rightarrow> IverSection" where
  "IverSection_setVersion version sec = sec\<lparr>iver_version := version\<rparr>"

record Ive2Section =
  ive2_version :: u16

definition Ive2Section_GetDefault :: Ive2Section where
  "Ive2Section_GetDefault = \<lparr>ive2_version = StarCraft_1_04\<rparr>"

definition Ive2Section_getVersion :: "Ive2Section \<Rightarrow> u16" where
  "Ive2Section_getVersion sec = ive2_version sec"

definition Ive2Section_setVersion :: "u16 \<Rightarrow> Ive2Section \<Rightarrow> Ive2Section" where
  "Ive2Section_setVersion version sec = sec\<lparr>ive2_version := version\<rparr>"

record VcodSection =
  seedValues :: "u32 list"
  opCodes :: "u8 list"

definition VcodSection_GetDefault :: VcodSection where
  "VcodSection_GetDefault = \<lparr>seedValues = [
     0x77CA1934, 0x7168DC99, 0xC3BF600A, 0xA775E7A7, 0xA67D291F, 0xBB3AB0D7, 0xED2431CC, 0x0B134C17,
     0xB7A22065, 0x6B18BD91, 0xDD5DC38D, 0x37D57AE2, 0xD46459F6, 0x0F129A63, 0x462E5C43, 0x2AF874E3,
     0x06376A08, 0x3BD6F637, 0x1663940E, 0xEC5C6745, 0xB7F77BD7, 0x9ED4FC1A, 0x8C3FFA73, 0x0FE1C02E,
     0x070974D1, 0xD764E395, 0x74681675, 0xDA4FA799, 0x1F1820D5, 0xBEA0E6E7, 0x1FE3B6A6, 0x70EF0CCA,
     0x311AD531, 0x3524B84D, 0x7DC7F8E3, 0xDE581AE1, 0x432705F4, 0x07DBACBA, 0x0ABE69DC, 0x49EC8FA8,
     0x3F1658D7, 0x8AC1DBE5, 0x05C0CF41, 0x721CCA9D, 0xA55FB1A2, 0x9B7023C4, 0x14E10484, 0xDA907B80,
     0x0669DBFA, 0x400FF3A3, 0xD4CEF3BE, 0xD7CBC9E3, 0x3401405A, 0xF81468F2, 0x1AC58E38, 0x4B3DD6FE,
     0xFA050553, 0x8E451034, 0xFE6991DD, 0xF0EEE0AF, 0xDD7E48F3, 0x75DCAD9F, 0xE5AC7A62, 0x67621B31,
     0x4D36CD20, 0x742198E0, 0x717909FB, 0x7FCD6736, 0x3CD65F77, 0xC6A6A2A2, 0x6ACEE31A, 0x6CA9CD4E,
     0x3B9DBA86, 0xFD76F4B5, 0xBCF044F8, 0x296EE92E, 0x6B2F2523, 0x4427AB08, 0x99CC127A, 0x75F2DCED,
     0x7E383CC5, 0xC51B1CF7, 0x65942DD1, 0xDD48C906, 0xAC2D32BE, 0x8132C9B5, 0x34D84A66, 0xDF153F35,
     0xB6EBEEB2, 0x964DF604, 0x9C944235, 0x61D38A62, 0x6F7BA852, 0xF4FC61DC, 0xFE2D146C, 0x0AA4EA99,
     0x13FED9E8, 0x594448D0, 0xE3F36680, 0x198DD934, 0xFE63D716, 0x3A7E1830, 0xB10F8D9B, 0x8CF5F012,
     0xDB58780A, 0x8CB8633E, 0x8EF3AA3A, 0x2E1A8A37, 0xEFF9315C, 0x7EE36DE3, 0x133EBD9B, 0xB9C044C6,
     0x90DA3ABC, 0x74B0ADA4, 0x892757F8, 0x373FE647, 0x5A7942E4, 0xEE8D43DF, 0xE8490AB4, 0x1A88C33C,
     0x766B0188, 0xA3FDC38A, 0x564E7A16, 0xBACB7FA7, 0xEC1C5E02, 0x76C9B9B0, 0x39B1821E, 0xC557C93E,
     0x4C382419, 0xB8542F5D, 0x8E575D6F, 0x520AA130, 0x5E71186D, 0x59C30613, 0x623EDC1F, 0xEBB5DADC,
     0xF995911B, 0xDAD591A7, 0x6BCE5333, 0x017000F5, 0xE8EED87F, 0xCEF10AC0, 0xD3B6EB63, 0xA5CCEF78,
     0xA4BC5DAA, 0xD2F2AB96, 0x9AEAFF61, 0xA2ED6AA8, 0x61ED3EBD, 0x9282C139, 0xB1233616, 0xE524A0B0,
     0xAAA79B05, 0x339B120D, 0xDA209283, 0xFCECB025, 0x2338D024, 0x74F295FC, 0x19E57380, 0x447D5097,
     0xDB449345, 0x691DADA2, 0xE7EE1444, 0xFF877F2C, 0xF1329E38, 0xDA29BC4D, 0xFE262742, 0xA92BD2C1,
     0x0E7A42F6, 0xD17CE8CB, 0x56EC5B0F, 0x3161B769, 0x25F96DB4, 0x6D793440, 0x0BA753FA, 0xCE82A4FA,
     0x614945C3, 0x8F2C450D, 0xF7604928, 0x1EC97DF3, 0xC189D00F, 0xD3F85226, 0x14358F4D, 0x0B5F9DBA,
     0x004AA907, 0x2F2622F7, 0x1FFB673E, 0xC6119CA1, 0x665D4F69, 0x90153458, 0x4654E56C, 0xD6635FAF,
     0xDF950C8A, 0xAFE40DBD, 0x4C4040BF, 0x7151F6A3, 0xF826ED29, 0xD5222885, 0xFACFBEBF, 0x517FC528,
     0x076306B8, 0x298FBDEC, 0x717E55FA, 0x6632401A, 0x9DDED4E8, 0x93FC5ED4, 0x3BD53D7A, 0x802E75CD,
     0x87744F0A, 0xEA8FCC1B, 0x7CDBA99A, 0xEFE55316, 0x6EC178AB, 0x5A8972A4, 0x50702C98, 0x1FDFA1FB,
     0x44D9B76B, 0x56828007, 0x83C0BFFD, 0x5BD0490E, 0x0E6A681E, 0x2F0BC29A, 0xE1A0438E, 0xB2F60C99,
     0x5E1C7AE0, 0x45A0C82C, 0x88E90B3C, 0xC696B9AC, 0x2A83AE74, 0x65FA13BB, 0xA61F4FEB, 0xE18A8AB0,
     0xB9B8E981, 0x4E1555D5, 0x9BADF245, 0x7E35C23E, 0x722E925F, 0x23685BB6, 0x0E45C66E, 0xD4873BE9,
     0xE3C041F4, 0xBE4405A8, 0x138A0FE4, 0xF437C41A, 0xEF55405A, 0x4B1D799D, 0x9C3A794A, 0xCC378576,
     0xB60F3D82, 0x7E93A660, 0xC4C25CBD, 0x907FC772, 0x10961B4D, 0x68680513, 0xFF7BC035, 0x2A438546],
     opCodes = [1, 4, 5, 6, 2, 1, 5, 2, 0, 3, 7, 7, 5, 4, 6, 3]\<rparr>"

definition VcodSection_isDefault :: "VcodSection \<Rightarrow> bool" where
  "VcodSection_isDefault sec \<longleftrightarrow> sec = VcodSection_GetDefault"

definition VcodSection_setToDefault :: "VcodSection \<Rightarrow> VcodSection" where
  "VcodSection_setToDefault sec = VcodSection_GetDefault"

section \<open>Player sections\<close>

text \<open>\<open>Sc::Player::Total\<close> players, of which \<open>TotalSlots\<close> have a colour.\<close>

definition TotalPlayers :: nat where "TotalPlayers = 12"
definition TotalSlots :: nat where "TotalSlots = 8"

record IownSection =
  iown_slotType :: "u8 list"

definition IownSection_GetDefault :: IownSection where
  "IownSection_GetDefault = \<lparr>iown_slotType = replicate 8 6 @ replicate 4 0\<rparr>"

definition IownSection_getSlotType :: "IownSection \<Rightarrow> nat \<Rightarrow> u8 result" where
  "IownSection_getSlotType sec slotIndex = (if slotIndex < TotalPlayers then Inr (iown_slotType sec ! slotIndex) else Inl OutOfRange)"

definition IownSection_setSlotType :: "nat \<Rightarrow> u8 \<Rightarrow> IownSection \<Rightarrow> IownSection result" where
  "IownSection_setSlotType slotIndex slotType sec =
    (if slotIndex < TotalPlayers then Inr (sec\<lparr>iown_slotType := (iown_slotType sec)[slotIndex := slotType]\<rparr>) else Inl OutOfRange)"

record OwnrSection =
  ownr_slotType :: "u8 list"

definition OwnrSection_GetDefault :: OwnrSection where
  "OwnrSection_GetDefault = \<lparr>ownr_slotType = replicate 8 6 @ replicate 4 0\<rparr>"

definition OwnrSection_getSlotType :: "OwnrSection \<Rightarrow> nat \<Rightarrow> u8 result" where
  "OwnrSection_getSlotType sec slotIndex = (if slotIndex < TotalPlayers then Inr (ownr_slotType sec ! slotIndex) else Inl OutOfRange)"

definition OwnrSection_setSlotType :: "nat \<Rightarrow> u8 \<Rightarrow> OwnrSection \<Rightarrow> OwnrSection result" where
  "OwnrSection_setSlotType slotIndex slotType sec =
    (if slotIndex < TotalPlayers then Inr (sec\<lparr>ownr_slotType := (ownr_slotType sec)[slotIndex := slotType]\<rparr>) else Inl OutOfRange)"

record SideSection =
  playerRaces :: "u8 list"

definition SideSection_GetDefault :: SideSection where
  "SideSection_GetDefault = \<lparr>playerRaces = [1, 0, 2, 1, 0, 2, 1, 0, 7, 7, 7, 4]\<rparr>"

definition SideSection_getPlayerRace :: "SideSection \<Rightarrow> nat \<Rightarrow> u8 result" where
  "SideSection_getPlayerRace sec playerIndex =
    (if playerIndex < TotalPlayers then Inr (playerRaces sec ! playerIndex) else Inl OutOfRange)"

definition SideSection_setPlayerRace :: "nat \<Rightarrow> u8 \<Rightarrow> SideSection \<Rightarrow> SideSection result" where
  "SideSection_setPlayerRace playerIndex race sec =
    (if playerIndex < TotalPlayers then Inr (sec\<lparr>playerRaces := (playerRaces sec)[playerIndex := race]\<rparr>) else Inl OutOfRange)"

record ColrSection =
  playerColor :: "u8 list"

definition ColrSection_GetDefault :: ColrSection where
  "ColrSection_GetDefault = \<lparr>playerColor = [0, 1, 2, 3, 4, 5, 6, 7]\<rparr>"

definition ColrSection_getPlayerColor :: "ColrSection \<Rightarrow> nat \<Rightarrow> u8 result" where
  "ColrSection_getPlayerColor sec slotIndex =
    (if slotIndex < TotalSlots then Inr (playerColor sec ! slotIndex) else Inl OutOfRange)"

definition ColrSection_setPlayerColor :: "nat \<Rightarrow> u8 \<Rightarrow> ColrSection \<Rightarrow> ColrSection result" where
  "ColrSection_setPlayerColor slotIndex color sec =
    (if slotIndex < TotalSlots then Inr (sec\<lparr>playerColor := (playerColor sec)[slotIndex := color]\<rparr>) else Inl OutOfRange)"

section \<open>Players\<close>

record Players =
  pl_side :: "SideSection option"
  pl_colr :: "ColrSection option"
  pl_forc :: "ForcSection option"
  pl_ownr :: "OwnrSection option"
  pl_iown :: "IownSection option"

definition Players_new :: "bool \<Rightarrow> Players" where
  "Players_new useDefault =
    (if useDefault
     then \<lparr>pl_side = Some SideSection_GetDefault, pl_colr = Some ColrSection_GetDefault, pl_forc = Some ForcSection_GetDefault,
           pl_ownr = Some OwnrSection_GetDefault, pl_iown = Some IownSection_GetDefault\<rparr>
     else \<lparr>pl_side = None, pl_colr = None, pl_forc = None, pl_ownr = None, pl_iown = None\<rparr>)"

definition Players_empty :: "Players \<Rightarrow> bool" where
  "Players_empty p \<longleftrightarrow> pl_side p = None \<and> pl_colr p = None \<and> pl_forc p = None \<and> pl_ownr p = None \<and> pl_iown p = None"

definition Players_getSlotType :: "Players \<Rightarrow> nat \<Rightarrow> scope \<Rightarrow> u8 result" where
  "Players_getSlotType p slotIndex scope =
    (let game = bind_result (follow (pl_ownr p)) (\<lambda>ownr. OwnrSection_getSlotType ownr slotIndex);
         editor = bind_result (follow (pl_iown p)) (\<lambda>iown. IownSection_getSlotType iown slotIndex)
     in if scope = Scope_Game then game
        else if scope = Scope_Editor then editor
        else if scope = Scope_EditorOverGame then (if pl_iown p \<noteq> None then editor else game)
        else if pl_ownr p \<noteq> None then game else editor)"

definition Players_setSlotType :: "nat \<Rightarrow> u8 \<Rightarrow> scope \<Rightarrow> Players \<Rightarrow> Players result" where
  "Players_setSlotType slotIndex slotType scope p =
    (let setGame = (\<lambda>p. bind_result (follow (pl_ownr p)) (\<lambda>ownr. bind_result (OwnrSection_setSlotType slotIndex slotType ownr)
           (\<lambda>ownr. Inr (p\<lparr>pl_ownr := Some ownr\<rparr>))));
         setEditor = (\<lambda>p. bind_result (follow (pl_iown p)) (\<lambda>iown. bind_result (IownSection_setSlotType slotIndex slotType iown)
           (\<lambda>iown. Inr (p\<lparr>pl_iown := Some iown\<rparr>))))
     in if scope = Scope_Game then setGame p
        else if scope = Scope_Editor then setEditor p
        else bind_result (setGame p) setEditor)"

definition Players_getPlayerRace :: "Players \<Rightarrow> nat \<Rightarrow> u8 result" where
  "Players_getPlayerRace p playerIndex = bind_result (follow (pl_side p)) (\<lambda>side. SideSection_getPlayerRace side playerIndex)"

definition Players_setPlayerRace :: "nat \<Rightarrow> u8 \<Rightarrow> Players \<Rightarrow> Players result" where
  "Players_setPlayerRace playerIndex race p = bind_result (follow (pl_side p)) (\<lambda>side.
    bind_result (SideSection_setPlayerRace playerIndex race side) (\<lambda>side. Inr (p\<lparr>pl_side := Some side\<rparr>)))"

definition Players_getPlayerColor :: "Players \<Rightarrow> nat \<Rightarrow> u8 result" where
  "Players_getPlayerColor p slotIndex = bind_result (follow (pl_colr p)) (\<lambda>colr. ColrSection_getPlayerColor colr slotIndex)"

definition Players_setPlayerColor :: "nat \<Rightarrow> u8 \<Rightarrow> Players \<Rightarrow> Players result" where
  "Players_setPlayerColor slotIndex color p = bind_result (follow (pl_colr p)) (\<lambda>colr.
    bind_result (ColrSection_setPlayerColor slotIndex color colr) (\<lambda>colr. Inr (p\<lparr>pl_colr := Some colr\<rparr>)))"

definition Players_getPlayerForce :: "Players \<Rightarrow> nat \<Rightarrow> u8 result" where
  "Players_getPlayerForce p slotIndex = bind_result (follow (pl_forc p)) (\<lambda>forc. ForcSection_getPlayerForce forc slotIndex)"

definition Players_getForceStringId :: "Players \<Rightarrow> u8 \<Rightarrow> nat result" where
  "Players_getForceStringId p force = bind_result (follow (pl_forc p)) (\<lambda>forc. ForcSection_getForceStringId forc force)"

definition Players_getForceFlags :: "Players \<Rightarrow> u8 \<Rightarrow> u8 result" where
  "Players_getForceFlags p force = bind_result (follow (pl_forc p)) (\<lambda>forc. ForcSection_getForceFlags forc force)"

definition Players_setPlayerForce :: "nat \<Rightarrow> u8 \<Rightarrow> Players \<Rightarrow> Players result" where
  "Players_setPlayerForce slotIndex force p = bind_result (follow (pl_forc p)) (\<lambda>forc.
    bind_result (ForcSection_setPlayerForce slotIndex force forc) (\<lambda>forc. Inr (p\<lparr>pl_forc := Some forc\<rparr>)))"

definition Players_setForceStringId :: "u8 \<Rightarrow> u16 \<Rightarrow> Players \<Rightarrow> Players result" where
  "Players_setForceStringId force forceStringId p = bind_result (follow (pl_forc p)) (\<lambda>forc.
    Inr (p\<lparr>pl_forc := Some (ForcSection_setForceStringId force forceStringId forc)\<rparr>))"

definition Players_setForceFlags :: "u8 \<Rightarrow> u8 \<Rightarrow> Players \<Rightarrow> Players result" where
  "Players_setForceFlags force forceFlags p = bind_result (follow (pl_forc p)) (\<lambda>forc.
    Inr (p\<lparr>pl_forc := Some (ForcSection_setForceFlags force forceFlags forc)\<rparr>))"

definition Players_clear :: "Players \<Rightarrow> Players" where
  "Players_clear p = \<lparr>pl_side = None, pl_colr = None, pl_forc = None, pl_ownr = None, pl_iown = None\<rparr>"

section \<open>Versions\<close>

record Versions =
  vs_ver :: "VerSection option"
  vs_type :: "TypeSection option"
  vs_iver :: "IverSection option"
  vs_ive2 :: "Ive2Section option"
  vs_vcod :: "VcodSection option"

definition Versions_new :: "bool \<Rightarrow> Versions" where
  "Versions_new useDefault =
    (if useDefault
     then \<lparr>vs_ver = Some VerSection_GetDefault, vs_type = Some (TypeSection_GetDefault (VerSection_getVersion VerSection_GetDefault)),
           vs_iver = Some IverSection_GetDefault, vs_ive2 = Some Ive2Section_GetDefault, vs_vcod = Some VcodSection_GetDefault\<rparr>
     else \<lparr>vs_ver = None, vs_type = None, vs_iver = None, vs_ive2 = None, vs_vcod = None\<rparr>)"

definition Versions_empty :: "Versions \<Rightarrow> bool" where
  "Versions_empty vs \<longleftrightarrow> vs_ver vs = None \<and> vs_type vs = None \<and> vs_iver vs = None \<and> vs_ive2 vs = None \<and> vs_vcod vs = None"

definition Versions_getVersion :: "Versions \<Rightarrow> u16 result" where
  "Versions_getVersion vs = bind_result (follow (vs_ver vs)) (\<lambda>ver. Inr (VerSection_getVersion ver))"

definition Versions_is :: "Versions \<Rightarrow> u16 \<Rightarrow> bool result" where
  "Versions_is vs version = bind_result (follow (vs_ver vs)) (\<lambda>ver. Inr (VerSection_getVersion ver = version))"

definition Versions_isOriginal :: "Versions \<Rightarrow> bool result" where
  "Versions_isOriginal vs = bind_result (follow (vs_ver vs)) (\<lambda>ver. Inr (VerSection_isOriginal (ver_version ver)))"

definition Versions_isHybrid :: "Versions \<Rightarrow> bool result" where
  "Versions_isHybrid vs = bind_result (follow (vs_ver vs)) (\<lambda>ver. Inr (VerSection_isHybrid (ver_version ver)))"

definition Versions_isExpansion :: "Versions \<Rightarrow> bool result" where
  "Versions_isExpansion vs = bind_result (follow (vs_ver vs)) (\<lambda>ver. Inr (VerSection_isExpansion (ver_version ver)))"

definition Versions_isHybridOrAbove :: "Versions \<Rightarrow> bool result" where
  "Versions_isHybridOrAbove vs = bind_result (follow (vs_ver vs)) (\<lambda>ver. Inr (VerSection_isHybridOrAbove (ver_version ver)))"

definition Versions_setType :: "u32 \<Rightarrow> Versions \<Rightarrow> Versions result" where
  "Versions_setType type vs = bind_result (follow (vs_type vs)) (\<lambda>sec. Inr (vs\<lparr>vs_type := Some (TypeSection_setType type sec)\<rparr>))"

definition Versions_setIver :: "u16 \<Rightarrow> Versions \<Rightarrow> Versions result" where
  "Versions_setIver version vs = bind_result (follow (vs_iver vs)) (\<lambda>sec. Inr (vs\<lparr>vs_iver := Some (IverSection_setVersion version sec)\<rparr>))"

definition Versions_setIve2 :: "u16 \<Rightarrow> Versions \<Rightarrow> Versions result" where
  "Versions_setIve2 version vs = bind_result (follow (vs_ive2 vs)) (\<lambda>sec. Inr (vs\<lparr>vs_ive2 := Some (Ive2Section_setVersion version sec)\<rparr>))"

text \<open>The version is stored first; trimming the locations may fail after that.\<close>

definition Versions_changeTo ::
  "u16 \<Rightarrow> bool \<Rightarrow> TriggerState \<times> Layers \<times> Versions \<Rightarrow> (bool \<times> TriggerState \<times> Layers \<times> Versions) result" where
  "Versions_changeTo version lockAnywhere = (\<lambda>(tr, ly, vs).
    bind_result (follow (vs_ver vs)) (\<lambda>ver.
      let vs = vs\<lparr>vs_ver := Some (VerSection_setVersion version ver)\<rparr>
      in if version < StarCraft_Hybrid then
           bind_result (Layers_trimLocationsToOriginal lockAnywhere (tr, ly)) (\<lambda>(trimmed, tr, ly).
             if trimmed then
               bind_result (Versions_setType RAWS vs) (\<lambda>vs.
               bind_result (Versions_setIver IVersion_Current vs) (\<lambda>vs. Inr (True, tr, ly, vs)))
             else Inr (False, tr, ly, vs))
         else
           bind_result (Versions_setType (if version < StarCraft_BroodWar then RAWS else RAWB) vs) (\<lambda>vs.
           bind_result (Versions_setIver IVersion_Current vs) (\<lambda>vs.
           bind_result (Versions_setIve2 StarCraft_1_04 vs) (\<lambda>vs.
           bind_result (Layers_expandToScHybridOrExpansion ly) (\<lambda>ly. Inr (True, tr, ly, vs)))))))"

definition Versions_hasDefaultValidation :: "Versions \<Rightarrow> bool result" where
  "Versions_hasDefaultValidation vs = bind_result (follow (vs_vcod vs)) (\<lambda>vcod. Inr (VcodSection_isDefault vcod))"

definition Versions_setToDefaultValidation :: "Versions \<Rightarrow> Versions result" where
  "Versions_setToDefaultValidation vs =
    bind_result (follow (vs_vcod vs)) (\<lambda>vcod. Inr (vs\<lparr>vs_vcod := Some (VcodSection_setToDefault vcod)\<rparr>))"

definition Versions_clear :: "Versions \<Rightarrow> Versions" where
  "Versions_clear vs = \<lparr>vs_ver = None, vs_type = None, vs_iver = None, vs_ive2 = None, vs_vcod = None\<rparr>"

section \<open>Properties\<close>

lemma MrgnSection_trimToOriginal_returns:
  assumes "length (locations sec) = TotalLocations + 1"
    and "used = MrgnSection_markNonZeroLocations sec (markUsedLocations (\<lambda>_. False))"
  shows "if countUsedOrCreated used lock \<le> TotalOriginalLocations
    then \<exists>sec' m. MrgnSection_trimToOriginal markUsedLocations lock sec = Inr (Some (sec', m))
    else MrgnSection_trimToOriginal markUsedLocations lock sec = Inr None"
proof -
  have big: "length (locations sec) > TotalOriginalLocations"
    using assms(1) by (simp add: TotalOriginalLocations_def TotalLocations_def)
  obtain state where "foldl (\<lambda>r f. bind_result r (\<lambda>state. trim_step lock state f)) (Inr (locations sec, used, Map.empty))
      [1..<TotalLocations + 1] = Inr state"
    using trim_loop [OF assms(1) order_refl] by metis
  then show ?thesis using big by (cases state) (simp add: MrgnSection_trimToOriginal_def Let_def assms(2) [symmetric])
qed

lemma expand_full:
  "length (locations mrgn) = TotalLocations + 1 \<Longrightarrow> MrgnSection_expandToScHybridOrExpansion mrgn = mrgn"
  by (simp add: MrgnSection_expandToScHybridOrExpansion_def)




end
