(* ===== verification/KstrCodec.thy ===== *)
theory KstrCodec
  imports Kstr Structs
begin

text \<open>
  The bytes of the KSTR section: a version, a count, an offset and the font of each string, and the
  characters. The writers are \<open>Strings::syncKstringsToBytes\<close> (\<open>src/MappingCoreLib/Scenario.cpp\<close>), which a scenario
  passes when it saves, and the section's own copy in \<open>KstrSection::syncStringsToBytes\<close>; the reader is
  \<open>KstrSection::syncBytesToStrings\<close>. The strings are read back; their fonts are written over the offsets, and
  with a single string the write of its font leaves the vector.
\<close>

section \<open>Fonts\<close>

text \<open>
  \<open>Chk::StringProperties\<close> of a font: a size step is only taken off when tail_bytes than the step is left, so every
  size but the base size is refused.
\<close>

definition maxFontSize :: nat where "maxFontSize = baseFontSize + 7 * fontStepSize"

definition takeStep :: "nat \<Rightarrow> u8 \<Rightarrow> u8 \<times> nat \<Rightarrow> u8 \<times> nat" where
  "takeStep steps flag = (\<lambda>(flags, sz).
    if sz > steps * fontStepSize then (flags OR flag, sz - steps * fontStepSize) else (flags, sz))"

definition fontFlags :: "StrProp \<Rightarrow> u8" where
  "fontFlags prop = (if isUsed prop then 1 else 0) OR (if hasPriority prop then 2 else 0) OR (if isBold prop then 4 else 0) OR
     (if isUnderlined prop then 8 else 0) OR (if isItalics prop then 16 else 0)"

definition StringProperties_flags :: "StrProp \<Rightarrow> u8 result" where
  "StringProperties_flags prop =
    (let sz = fontSize prop
     in if sz < baseFontSize \<or> sz > maxFontSize then Inl InvalidSize
        else (case takeStep 1 128 (takeStep 2 64 (takeStep 4 32 (fontFlags prop, sz - baseFontSize))) of
                (flags, sz) \<Rightarrow> if sz > 0 then Inl InvalidSize else Inr flags))"

definition StringProperties_bytes :: "StrProp \<Rightarrow> string result" where
  "StringProperties_bytes prop =
    bind_result (StringProperties_flags prop)
      (\<lambda>flags. Inr (enc_u8 (red prop) @ enc_u8 (green prop) @ enc_u8 (blue prop) @ enc_u8 flags))"

text \<open>
  \<open>StrProp(stringProperties)\<close>: \<open>baseFontSize + (...) ? 4*fontStepSize : ...\<close> is never 0 before the question mark,
  so the size is always \<open>4*fontStepSize\<close>.
\<close>

definition StrProp_of :: "string \<Rightarrow> StrProp" where
  "StrProp_of bs =
    (let flags = dec_u8 bs 3 in
     \<lparr>red = dec_u8 bs 0, green = dec_u8 bs 1, blue = dec_u8 bs 2, fontSize = 4 * fontStepSize,
      isUsed = hasFlag flags 1, hasPriority = hasFlag flags 2, isBold = hasFlag flags 4, isUnderlined = hasFlag flags 8,
      isItalics = hasFlag flags 16\<rparr>)"

section \<open>Writing\<close>

text \<open>\<open>(u32 &)bytes[pos] = ...\<close>: four bytes written over a vector, undefined past its end.\<close>

definition overwrite :: "nat \<Rightarrow> string \<Rightarrow> string \<Rightarrow> string" where
  "overwrite pos new bytes = take pos bytes @ new @ drop (pos + length new) bytes"

definition put :: "nat \<Rightarrow> string \<Rightarrow> string \<Rightarrow> string result" where
  "put pos new bytes = (if pos + length new \<le> length bytes then Inr (overwrite pos new bytes) else Inl UndefinedBehavior)"

text \<open>One pass of the loop; \<open>nullPos\<close> is where the offset of a missing string goes.\<close>

definition syncKstrings_step ::
  "(nat \<Rightarrow> nat) \<Rightarrow> nat \<Rightarrow> nat \<Rightarrow> ScStr option list \<Rightarrow> string \<Rightarrow> nat \<Rightarrow> string result" where
  "syncKstrings_step nullPos stringPropertiesStart initialNulOffset strs bytes i =
    (case strs ! i of
       None \<Rightarrow> put (nullPos i) (enc_u32 (of_nat initialNulOffset)) bytes
     | Some s \<Rightarrow>
         bind_result (StringProperties_bytes (strProp s)) (\<lambda>prop.
         bind_result (put (stringPropertiesStart + 4 * i) prop bytes) (\<lambda>bytes.
         bind_result (put (4 + 4 * i) (enc_u32 (of_nat (length bytes))) bytes) (\<lambda>bytes.
           Inr (bytes @ take (ScStr_length s + 1) (allocation s))))))"

definition syncKstrings :: "(nat \<Rightarrow> nat) \<Rightarrow> ScStr option list \<Rightarrow> string result" where
  "syncKstrings nullPos strs =
    (let maxStrings = (2147483647 - 8) div 4;
         numStrings = (if length strs > 0 then length strs - 1 else 0);
         stringPropertiesStart = 8 + 2 * numStrings;
         space = 8 + 8 * numStrings + 1;
         sectionSize = space + sum_list (map (stringLengthAt strs) [1..<Suc numStrings])
     in if numStrings > maxStrings then Inl MaximumStringsExceeded
        else if sectionSize > 2147483647 then Inl (MaximumCharactersExceeded (sectionSize - space) 2147483647)
        else
          let bytes = enc_u32 KSTR_CurrentVersion @ enc_u32 (of_nat numStrings) @ replicate (8 * numStrings) NUL
          in foldl (\<lambda>r i. bind_result r (\<lambda>bs. syncKstrings_step nullPos stringPropertiesStart (length bytes) strs bs i))
               (Inr (bytes @ [NUL])) [1..<Suc numStrings])"

text \<open>The scenario's writer, and the section's own, which puts the offset of a missing string one place too low.\<close>

definition Strings_syncKstringsToBytes :: "ScStr option list \<Rightarrow> string result" where
  "Strings_syncKstringsToBytes = syncKstrings (\<lambda>i. 4 + 4 * i)"

definition KstrSection_syncStringsToBytes ::
  "(ScStr option list \<Rightarrow> string result) option \<Rightarrow> KstrSection \<Rightarrow> KstrSection result" where
  "KstrSection_syncStringsToBytes strSynchronizer sec =
    bind_result (case strSynchronizer of
        Some sync \<Rightarrow> sync (k_strings sec)
      | None \<Rightarrow> syncKstrings (\<lambda>i. 4 * i) (k_strings sec))
      (\<lambda>bytes. Inr (sec\<lparr>k_stringBytes := bytes\<rparr>))"

section \<open>Reading\<close>

definition read_u32 :: "string \<Rightarrow> nat \<Rightarrow> nat" where
  "read_u32 bytes pos = unat (dec_u32 bytes pos)"

definition kstr_rawNumStrings :: "string \<Rightarrow> nat" where
  "kstr_rawNumStrings bytes =
    (let n = length bytes in
     if n \<ge> 8 then read_u32 bytes 4
     else if n = 7 then byte (bytes ! 4) + 256 * byte (bytes ! 5) + 65536 * byte (bytes ! 6)
     else if n = 6 then read_u16 bytes 4
     else if n = 5 then byte (bytes ! 4)
     else 0)"

text \<open>A string with a valid offset, and its font when the code takes its place to be valid.\<close>

definition kstr_load :: "string \<Rightarrow> nat \<Rightarrow> nat \<Rightarrow> nat \<Rightarrow> ScStr option result" where
  "kstr_load bytes raw validProperties stringId =
    (case fst (loadString bytes (read_u32 bytes (4 + 4 * stringId)) (length bytes)) of
       None \<Rightarrow> Inr None
     | Some s \<Rightarrow>
         if stringId \<le> validProperties then
           let pos = 4 + 4 * raw + 4 * stringId in
           if pos + 4 \<le> length bytes then Inr (Some (s\<lparr>strProp := StrProp_of (take 4 (drop pos bytes))\<rparr>))
           else Inl UndefinedBehavior
         else Inr (Some s))"

primrec map_result :: "('a \<Rightarrow> 'b result) \<Rightarrow> 'a list \<Rightarrow> 'b list result" where
  "map_result f [] = Inr []"
| "map_result f (x # xs) = bind_result (f x) (\<lambda>y. bind_result (map_result f xs) (\<lambda>ys. Inr (y # ys)))"

text \<open>
  The offset that is cut off at the end of the section: three bytes of it are read from the end, two from
  behind the end, and one from among the offsets.
\<close>

definition kstr_trailing :: "string \<Rightarrow> nat \<Rightarrow> nat \<Rightarrow> ScStr option list result" where
  "kstr_trailing bytes raw high =
    (let n = length bytes; load = (\<lambda>offset. fst (loadString bytes offset n)) in
     if high < raw then
       if n mod 4 = 3 then
         Inr (load (byte (bytes ! (n - 3)) + 256 * byte (bytes ! (n - 2)) + 65536 * byte (bytes ! (n - 1))) # replicate (raw - high - 1) None)
       else if n mod 4 = 2 then Inl UndefinedBehavior
       else if n mod 4 = 1 then Inr (load (byte (bytes ! (4 * high))) # replicate (raw - high - 1) None)
       else Inr (replicate (raw - high) None)
     else Inr [])"

text \<open>The version that is compared with the current one is a local variable that is always 0.\<close>

definition KstrSection_syncBytesToStrings :: "KstrSection \<Rightarrow> KstrSection result" where
  "KstrSection_syncBytesToStrings sec =
    (let bytes = k_stringBytes sec; n = length bytes;
         version = (if n \<ge> 4 then dec_u32 bytes 0 else 0);
         raw = kstr_rawNumStrings bytes;
         high = min raw (if n < 12 then 0 else (n - 8) div 4);
         validProperties = min raw (if n < 12 then 0 else (n - 8) div 8)
     in bind_result (map_result (kstr_load bytes raw validProperties) [1..<Suc high]) (\<lambda>loaded.
        bind_result (kstr_trailing bytes raw high) (\<lambda>trailing.
          Inr (sec\<lparr>k_version := version, k_strings := None # loaded @ trailing\<rparr>))))"

section \<open>The section's size, read and write\<close>

definition KstrSection_getSize :: "(ScStr option list \<Rightarrow> string result) option \<Rightarrow> KstrSection \<Rightarrow> (int \<times> KstrSection) result" where
  "KstrSection_getSize strSynchronizer sec =
    bind_result (KstrSection_syncStringsToBytes strSynchronizer sec) (\<lambda>sec.
      if length (k_stringBytes sec) \<le> 2147483647 then Inr (int (length (k_stringBytes sec)), sec)
      else Inl MaxSectionSizeExceeded)"

definition KstrSection_read :: "int \<Rightarrow> string \<Rightarrow> KstrSection \<Rightarrow> (nat \<times> string \<times> KstrSection) result" where
  "KstrSection_read sizeInBytes is sec =
    (if sizeInBytes < 0 then Inl NegativeSectionSize
     else
       let readSize = nat sizeInBytes in
       if readSize > 0 then
         (case stream_read readSize is of (buf, gcount, rest) \<Rightarrow>
            bind_result (KstrSection_syncBytesToStrings (sec\<lparr>k_stringBytes := buf\<rparr>)) (\<lambda>sec. Inr (gcount, rest, sec)))
       else Inr (0, is, sec\<lparr>k_stringBytes := [], k_strings := []\<rparr>))"

definition KstrSection_write ::
  "(ScStr option list \<Rightarrow> string result) option \<Rightarrow> KstrSection \<Rightarrow> (string \<times> KstrSection) result" where
  "KstrSection_write strSynchronizer sec =
    bind_result (KstrSection_syncStringsToBytes strSynchronizer sec) (\<lambda>sec. Inr (k_stringBytes sec, sec))"

section \<open>Four bytes at a place\<close>

lemma length_overwrite [simp]: "pos + length new \<le> length bytes \<Longrightarrow> length (overwrite pos new bytes) = length bytes"
  by (simp add: overwrite_def)

lemma nth_overwrite:
  assumes "pos + length new \<le> length bytes" "i < length bytes"
  shows "overwrite pos new bytes ! i = (if pos \<le> i \<and> i < pos + length new then new ! (i - pos) else bytes ! i)"
  using assms by (auto simp: overwrite_def nth_append)

lemma overwrite_append: "pos + length new \<le> length bytes \<Longrightarrow> overwrite pos new (bytes @ tail_bytes) = overwrite pos new bytes @ tail_bytes"
  by (simp add: overwrite_def)

lemma put_append:
  "pos + length new \<le> length bytes \<Longrightarrow> put pos new (bytes @ tail_bytes) = Inr (overwrite pos new bytes @ tail_bytes)"
  by (simp add: put_def overwrite_append)

lemma read_overwrite_same:
  "pos + 4 \<le> length bytes \<Longrightarrow> v < 2 ^ 32 \<Longrightarrow> read_u32 (overwrite pos (enc_u32 (of_nat v)) bytes) pos = v"
proof -
  assume "pos + 4 \<le> length bytes" "v < 2 ^ 32"
  let ?w = "of_nat v :: u32"
  have "dec_u32 (overwrite pos (enc_u32 ?w) bytes) pos = dec_u32 (enc_u32 ?w) 0"
    using \<open>pos + 4 \<le> length bytes\<close> by (simp add: dec_u32_def nth_overwrite numeral_2_eq_2)
  also have "\<dots> = ?w" by (simp add: enc_defs)
  finally show ?thesis using \<open>v < 2 ^ 32\<close> by (simp add: read_u32_def unsigned_of_nat take_bit_nat_eq_self)
qed

lemma read_overwrite_other:
  "pos + length new \<le> length bytes \<Longrightarrow> q + 4 \<le> length bytes \<Longrightarrow> q + 4 \<le> pos \<or> pos + length new \<le> q \<Longrightarrow>
    read_u32 (overwrite pos new bytes) q = read_u32 bytes q"
  by (auto simp: read_u32_def dec_u32_def nth_overwrite)

lemma read_u32_append: "q + 4 \<le> length bytes \<Longrightarrow> read_u32 (bytes @ tail_bytes) q = read_u32 bytes q"
  by (simp add: read_u32_def dec_u32_def nth_append)

lemma read_u32_enc: "read_u32 (pre @ enc_u32 w @ post) (length pre) = unat w"
  by (simp add: read_u32_def dec_u32_def nth_append enc_u32_def)

lemma length_StringProperties: "StringProperties_bytes prop = Inr bs \<Longrightarrow> length bs = 4"
  by (auto simp: StringProperties_bytes_def bind_result_eq_Inr)

text \<open>The only size a font can be written with.\<close>

lemma StringProperties_flags_returns:
  "(\<exists>flags. StringProperties_flags prop = Inr flags) \<longleftrightarrow> fontSize prop = baseFontSize"
  by (auto simp: StringProperties_flags_def takeStep_def Let_def baseFontSize_def fontStepSize_def maxFontSize_def)

lemma StringProperties_base:
  "fontSize prop = baseFontSize \<Longrightarrow> \<exists>bs. StringProperties_bytes prop = Inr bs \<and> length bs = 4"
  using StringProperties_flags_returns [of "prop"] length_StringProperties by (auto simp: StringProperties_bytes_def)

section \<open>The writer produces the layout\<close>

text \<open>Where string \<open>i\<close> starts: the header has eight bytes for each slot, where the STR section has two.\<close>

definition kstr_start :: "ScStr option list \<Rightarrow> nat \<Rightarrow> nat" where
  "kstr_start strs i = 6 * length strs + str_start strs i"

definition kheader_ok :: "ScStr option list \<Rightarrow> nat \<Rightarrow> string \<Rightarrow> bool" where
  "kheader_ok strs k hdr \<longleftrightarrow> length hdr = 8 * length strs \<and> read_u32 hdr 0 = 3 \<and> read_u32 hdr 4 = length strs - 1 \<and>
    (\<forall>j. 1 \<le> j \<and> j \<le> k \<longrightarrow> read_u32 hdr (4 + 4 * j) = kstr_start strs j)"

lemma kheader_ok_put:
  assumes "kheader_ok strs k hdr" "Suc k < length strs" "kstr_start strs (Suc k) < 2 ^ 32"
  shows "kheader_ok strs (Suc k) (overwrite (4 + 4 * Suc k) (enc_u32 (of_nat (kstr_start strs (Suc k)))) hdr)"
proof -
  let ?p = "4 + 4 * Suc k"
  let ?hdr = "overwrite ?p (enc_u32 (of_nat (kstr_start strs (Suc k)))) hdr"
  have len: "length hdr = 8 * length strs" using assms(1) by (simp add: kheader_ok_def)
  then have "?p + 4 \<le> length hdr" using assms(2) by simp
  then have "read_u32 ?hdr ?p = kstr_start strs (Suc k)" using assms(3) by (rule read_overwrite_same)
  moreover have "read_u32 ?hdr (4 + 4 * j) = read_u32 hdr (4 + 4 * j)" if "j \<le> k" for j
    using len assms(2) that by (intro read_overwrite_other) simp_all
  moreover from this [of 0] have "read_u32 ?hdr 4 = read_u32 hdr 4" by simp
  moreover have "read_u32 ?hdr 0 = read_u32 hdr 0" using len assms(2) by (intro read_overwrite_other) simp_all
  ultimately show ?thesis using assms(1,2) len unfolding kheader_ok_def by (auto simp: le_Suc_eq)
qed

text \<open>With two strings or more, the font of a string is written behind the offsets that are already there.\<close>

lemma kheader_ok_font:
  assumes "kheader_ok strs k hdr" "Suc k < length strs" "3 \<le> length strs" "length font = 4"
  shows "kheader_ok strs k (overwrite (8 + 2 * (length strs - 1) + 4 * Suc k) font hdr)"
    and "8 + 2 * (length strs - 1) + 4 * Suc k + 4 \<le> length hdr"
proof -
  have len: "length hdr = 8 * length strs" using assms(1) by (simp add: kheader_ok_def)
  then show p: "8 + 2 * (length strs - 1) + 4 * Suc k + 4 \<le> length hdr" using assms(2,3) by simp
  have old: "read_u32 (overwrite (8 + 2 * (length strs - 1) + 4 * Suc k) font hdr) (4 + 4 * j) = read_u32 hdr (4 + 4 * j)" if "j \<le> k" for j
    using len assms(2,4) that p by (intro read_overwrite_other) simp_all
  have "read_u32 (overwrite (8 + 2 * (length strs - 1) + 4 * Suc k) font hdr) 0 = read_u32 hdr 0"
    using p assms(4) by (intro read_overwrite_other) simp_all
  then show "kheader_ok strs k (overwrite (8 + 2 * (length strs - 1) + 4 * Suc k) font hdr)"
    using assms p len old old [of 0] unfolding kheader_ok_def by simp
qed

text \<open>A table whose strings all have the base font.\<close>

definition base_fonts :: "ScStr option list \<Rightarrow> bool" where
  "base_fonts strs \<longleftrightarrow> list_all (\<lambda>s. case s of None \<Rightarrow> True | Some s \<Rightarrow> fontSize (strProp s) = baseFontSize) strs"

lemma base_fonts_nth: "base_fonts strs \<Longrightarrow> i < length strs \<Longrightarrow> strs ! i = Some s \<Longrightarrow> fontSize (strProp s) = baseFontSize"
  by (auto simp: base_fonts_def list_all_length dest!: spec [of _ i])

lemma syncKstrings_one:
  assumes "wf_table strs" "base_fonts strs" "3 \<le> length strs" "Suc k < length strs" "kstr_start strs (Suc k) < 2 ^ 32"
    and "kheader_ok strs k hdr"
  shows "\<exists>hdr'. kheader_ok strs (Suc k) hdr' \<and>
    syncKstrings_step (\<lambda>i. 4 + 4 * i) (8 + 2 * (length strs - 1)) (8 * length strs) strs
        (hdr @ NUL # concat (map str_chars (take k (tl strs)))) (Suc k) =
      Inr (hdr' @ NUL # concat (map str_chars (take (Suc k) (tl strs))))" (is "\<exists>hdr'. _ \<and> ?step = _")
proof -
  let ?data = "NUL # concat (map str_chars (take k (tl strs)))"
  have len: "length hdr = 8 * length strs" using assms(6) by (simp add: kheader_ok_def)
  have room: "4 + 4 * Suc k + 4 \<le> length hdr" using len assms(4) by simp
  have chars: "concat (map str_chars (take (Suc k) (tl strs))) = concat (map str_chars (take k (tl strs))) @ str_chars (strs ! Suc k)"
    using assms(4) by (simp add: take_Suc_tl)
  show ?thesis
  proof (cases "strs ! Suc k")
    case None
    let ?hdr = "overwrite (4 + 4 * Suc k) (enc_u32 (of_nat (kstr_start strs (Suc k)))) hdr"
    have "kstr_start strs (Suc k) = 8 * length strs" using None by (simp add: kstr_start_def str_start_def)
    then have "put (4 + 4 * Suc k) (enc_u32 (of_nat (8 * length strs))) (hdr @ ?data) = Inr (?hdr @ ?data)"
      using put_append [of "4 + 4 * Suc k" "enc_u32 (of_nat (kstr_start strs (Suc k)))" hdr ?data] room by simp
    then have "?step = Inr (?hdr @ ?data)" unfolding syncKstrings_step_def None option.case .
    moreover have "str_chars (strs ! Suc k) = []" using None by (simp add: str_chars_def)
    ultimately have "?step = Inr (?hdr @ NUL # concat (map str_chars (take (Suc k) (tl strs))))" unfolding chars by simp
    with kheader_ok_put [OF assms(6,4,5)] show ?thesis by (intro exI [of _ ?hdr] conjI)
  next
    case (Some s)
    obtain font where font: "StringProperties_bytes (strProp s) = Inr font" "length font = 4"
      using StringProperties_base base_fonts_nth [OF assms(2,4) Some] by blast
    note f = kheader_ok_font [OF assms(6,4,3) font(2)]
    let ?hdr = "overwrite (8 + 2 * (length strs - 1) + 4 * Suc k) font hdr"
    let ?new = "overwrite (4 + 4 * Suc k) (enc_u32 (of_nat (kstr_start strs (Suc k)))) ?hdr"
    have lenf: "length ?hdr = 8 * length strs" using f(1) by (simp add: kheader_ok_def)
    have start: "length (?hdr @ ?data) = kstr_start strs (Suc k)"
      using lenf Some by (simp add: kstr_start_def str_start_def)
    have font_put: "put (8 + 2 * (length strs - 1) + 4 * Suc k) font (hdr @ ?data) = Inr (?hdr @ ?data)"
      using f(2) font(2) by (intro put_append) simp
    have off_put: "put (4 + 4 * Suc k) (enc_u32 (of_nat (kstr_start strs (Suc k)))) (?hdr @ ?data) =
        Inr (?new @ ?data)"
      using lenf assms(4) by (intro put_append) simp
    have "wf_ScStr s" using wf_table_nth [OF assms(1,4) Some] .
    then have "?step = Inr (?new @ ?data @ allocation s)"
      unfolding syncKstrings_step_def Some option.case font(1) bind_result_simps font_put start off_put
      by (simp only: wf_allocation append_assoc)
    moreover have "str_chars (strs ! Suc k) = allocation s" using Some by (simp add: str_chars_def)
    ultimately have "?step = Inr (?new @ NUL # concat (map str_chars (take (Suc k) (tl strs))))" unfolding chars by simp
    with kheader_ok_put [OF f(1) assms(4,5)] show ?thesis by (intro exI [of _ ?new] conjI)
  qed
qed

lemma syncKstrings_fold:
  assumes "wf_table strs" "base_fonts strs" "3 \<le> length strs" "\<forall>i. kstr_start strs i < 2 ^ 32"
    and "kheader_ok strs 0 h0" "k < length strs"
  shows "\<exists>hdr. kheader_ok strs k hdr \<and>
    foldl (\<lambda>r i. bind_result r (\<lambda>bs. syncKstrings_step (\<lambda>i. 4 + 4 * i) (8 + 2 * (length strs - 1)) (8 * length strs) strs bs i))
      (Inr (h0 @ [NUL])) [1..<Suc k] = Inr (hdr @ NUL # concat (map str_chars (take k (tl strs))))"
  using assms(6)
proof (induction k)
  case 0
  then show ?case using assms(5) by auto
next
  case (Suc k)
  then obtain hdr where "kheader_ok strs k hdr" and
    fold: "foldl (\<lambda>r i. bind_result r (\<lambda>bs. syncKstrings_step (\<lambda>i. 4 + 4 * i) (8 + 2 * (length strs - 1)) (8 * length strs) strs bs i))
      (Inr (h0 @ [NUL])) [1..<Suc k] = Inr (hdr @ NUL # concat (map str_chars (take k (tl strs))))"
    by auto
  have upt: "[1..<Suc (Suc k)] = [1..<Suc k] @ [Suc k]" by simp
  show ?case
    using syncKstrings_one [OF assms(1-3) Suc.prems assms(4) [rule_format] \<open>kheader_ok strs k hdr\<close>]
    unfolding upt foldl_append fold foldl.simps bind_result_simps .
qed

lemma sum_lengths:
  "sum_list (map (stringLengthAt strs) [1..<length strs]) \<le> length (concat (map str_chars (tl strs)))"
proof -
  have "map (stringLengthAt strs) [1..<length strs] = map (\<lambda>s. case s of None \<Rightarrow> 0 | Some s \<Rightarrow> ScStr_length s) (tl strs)"
    by (rule nth_equalityI) (simp_all add: stringLengthAt_def nth_tl)
  moreover have "sum_list (map (\<lambda>s. case s of None \<Rightarrow> 0 | Some s \<Rightarrow> ScStr_length s) xs) \<le> length (concat (map str_chars xs))" for xs
    by (induction xs) (auto simp: str_chars_def ScStr_length_def split: option.split)
  ultimately show ?thesis by simp
qed

lemma kstr_start_le: "kstr_start strs i \<le> 8 * length strs + length (str_data strs)"
proof -
  have "length (concat (map str_chars (take m xs))) \<le> length (concat (map str_chars xs))" for m xs
    by (metis append_take_drop_id concat_append le_add1 length_append map_append)
  then show ?thesis by (simp add: kstr_start_def str_start_def str_data_def)
qed

lemma syncKstrings_layout:
  assumes "wf_table strs" "base_fonts strs" "3 \<le> length strs" "8 * length strs + length (str_data strs) \<le> 2147483647"
  shows "\<exists>hdr. Strings_syncKstringsToBytes strs = Inr (hdr @ str_data strs) \<and> kheader_ok strs (length strs - 1) hdr"
proof -
  define n where "n = length strs - 1"
  have L: "length strs = Suc n" using assms(3) by (simp add: n_def)
  let ?h0 = "enc_u32 KSTR_CurrentVersion @ enc_u32 (of_nat n) @ replicate (8 * n) NUL"
  have "n < 2 ^ 32" using assms(4) L by simp
  then have h0: "kheader_ok strs 0 ?h0"
    using read_u32_enc [of "[]" KSTR_CurrentVersion "enc_u32 (of_nat n) @ replicate (8 * n) NUL"]
      read_u32_enc [of "enc_u32 KSTR_CurrentVersion" "of_nat n" "replicate (8 * n) NUL"]
    by (simp add: kheader_ok_def L KSTR_CurrentVersion_def unsigned_of_nat take_bit_nat_eq_self)
  have "kstr_start strs i < 2 ^ 32" for i using kstr_start_le [of strs i] assms(4) by simp
  then obtain hdr where hdr: "kheader_ok strs n hdr" and
    fold: "foldl (\<lambda>r i. bind_result r (\<lambda>bs. syncKstrings_step (\<lambda>i. 4 + 4 * i) (8 + 2 * (length strs - 1)) (8 * length strs) strs bs i))
      (Inr (?h0 @ [NUL])) [1..<Suc n] = Inr (hdr @ NUL # concat (map str_chars (take n (tl strs))))"
    using syncKstrings_fold [OF assms(1-3) _ h0, of n] L by auto
  have all: "take n (tl strs) = tl strs" using L by simp
  have "n \<le> (2147483647 - 8) div 4" "8 + 8 * n + 1 + sum_list (map (stringLengthAt strs) [1..<Suc n]) \<le> 2147483647"
    using assms(4) L sum_lengths [of strs] by (simp_all add: str_data_def)
  moreover have "length ?h0 = 8 * length strs" "(if length strs > 0 then length strs - 1 else 0) = n" "length strs - 1 = n"
    using L by simp_all
  ultimately have "Strings_syncKstringsToBytes strs = Inr (hdr @ str_data strs)"
    using fold unfolding Strings_syncKstringsToBytes_def syncKstrings_def Let_def all str_data_def
    by (simp del: upt_Suc)
  with hdr show ?thesis by (auto simp: n_def)
qed

section \<open>The reader inverts the layout\<close>

lemma map_result_Inr: "(\<And>x. x \<in> set xs \<Longrightarrow> f x = Inr (g x)) \<Longrightarrow> map_result f xs = Inr (map g xs)"
  by (induction xs) simp_all

lemma kstr_load_layout:
  assumes "wf_table strs" "kheader_ok strs (length strs - 1) hdr" "1 \<le> i" "i < length strs"
  shows "\<exists>font. kstr_load (hdr @ str_data strs) (length strs - 1) (length strs - 1) i =
    Inr (Some ((ScStr_new (str_text (strs ! i)))\<lparr>strProp := font\<rparr>))"
proof -
  let ?bytes = "hdr @ str_data strs"
  have len: "length hdr = 8 * length strs" using assms(2) by (simp add: kheader_ok_def)
  have "read_u32 ?bytes (4 + 4 * i) = read_u32 hdr (4 + 4 * i)" using len assms(4) by (intro read_u32_append) simp
  then have off: "read_u32 ?bytes (4 + 4 * i) = kstr_start strs i" using assms(2-4) by (simp add: kheader_ok_def)
  let ?hdr = "drop (6 * length strs) hdr"
  have split: "?bytes = take (6 * length strs) hdr @ ?hdr @ str_data strs" by simp
  obtain rest where "drop (str_start strs i) (?hdr @ str_data strs) = str_text (strs ! i) @ NUL # rest"
    using layout_drop [of strs ?hdr i] assms len by auto
  then have here: "drop (kstr_start strs i) ?bytes = str_text (strs ! i) @ NUL # rest"
    using len by (subst split) (simp add: kstr_start_def)
  then have "kstr_start strs i < length ?bytes" by (metis drop_all append_is_Nil_conv list.discI not_le)
  with here have "loadString ?bytes (kstr_start strs i) (length ?bytes) =
      (Some (ScStr_new (str_text (strs ! i))), kstr_start strs i + length (str_text (strs ! i)))"
    by (intro loadString_at) simp_all
  moreover have "4 + 4 * (length strs - 1) + 4 * i + 4 \<le> length ?bytes" "i \<le> length strs - 1" using len assms(4) by simp_all
  ultimately show ?thesis unfolding kstr_load_def off Let_def by auto
qed

lemma KstrSection_reads_layout:
  assumes "wf_table strs" "3 \<le> length strs" "kheader_ok strs (length strs - 1) hdr" "k_stringBytes sec = hdr @ str_data strs"
  shows "\<exists>fonts. KstrSection_syncBytesToStrings sec = Inr (sec\<lparr>k_version := KSTR_CurrentVersion, k_strings :=
    None # map (\<lambda>i. Some ((ScStr_new (str_text (strs ! i)))\<lparr>strProp := fonts i\<rparr>)) [1..<length strs]\<rparr>)"
proof -
  let ?bytes = "hdr @ str_data strs"
  have len: "length hdr = 8 * length strs" and reads: "read_u32 hdr 0 = 3" "read_u32 hdr 4 = length strs - 1"
    using assms(3) by (simp_all add: kheader_ok_def)
  have long: "\<not> length ?bytes < 12" "8 \<le> length ?bytes" "4 \<le> length ?bytes" using len assms(2) by simp_all
  have raw: "kstr_rawNumStrings ?bytes = length strs - 1"
    using long reads read_u32_append [of 4 hdr "str_data strs"] len assms(2) by (simp add: kstr_rawNumStrings_def)
  have "read_u32 ?bytes 0 = unat (3 :: u32)" using reads read_u32_append [of 0 hdr "str_data strs"] len assms(2) by simp
  then have version: "dec_u32 ?bytes 0 = KSTR_CurrentVersion"
    unfolding read_u32_def KSTR_CurrentVersion_def by (rule injD [OF inj_unsigned])
  have high: "min (length strs - 1) ((length ?bytes - 8) div 4) = length strs - 1"
    "min (length strs - 1) ((length ?bytes - 8) div 8) = length strs - 1" using len by simp_all
  obtain fonts where fonts: "\<And>i. 1 \<le> i \<Longrightarrow> i < length strs \<Longrightarrow> kstr_load ?bytes (length strs - 1) (length strs - 1) i =
      Inr (Some ((ScStr_new (str_text (strs ! i)))\<lparr>strProp := fonts i\<rparr>))"
    using kstr_load_layout [OF assms(1,3)] by metis
  have "Suc (length strs - 1) = length strs" using assms(2) by simp
  then have upt: "[1..<Suc (length strs - 1)] = [1..<length strs]" by (simp only:)
  have "map_result (kstr_load ?bytes (length strs - 1) (length strs - 1)) [1..<length strs] =
      Inr (map (\<lambda>i. Some ((ScStr_new (str_text (strs ! i)))\<lparr>strProp := fonts i\<rparr>)) [1..<length strs])"
    by (rule map_result_Inr, rule fonts) simp_all
  moreover have "kstr_trailing ?bytes (length strs - 1) (length strs - 1) = Inr []" by (simp add: kstr_trailing_def)
  ultimately show ?thesis
    unfolding KstrSection_syncBytesToStrings_def Let_def assms(4) raw if_not_P [OF long(1)] high if_P [OF long(3)] version upt
    by auto
qed

section \<open>Properties\<close>

lemma kstr_written_read:
  assumes "wf_table strs" "base_fonts strs" "3 \<le> length strs" "8 * length strs + length (str_data strs) \<le> 2147483647"
  shows "\<exists>bytes sec'. Strings_syncKstringsToBytes strs = Inr bytes \<and>
    KstrSection_read (int (length bytes)) (bytes @ rest) sec = Inr (length bytes, rest, sec') \<and>
    k_version sec' = KSTR_CurrentVersion \<and> length (k_strings sec') = length strs \<and>
    (\<forall>i. 1 \<le> i \<and> i < length strs \<longrightarrow> str_text (k_strings sec' ! i) = str_text (strs ! i))"
proof -
  obtain hdr where w: "Strings_syncKstringsToBytes strs = Inr (hdr @ str_data strs)" and h: "kheader_ok strs (length strs - 1) hdr"
    using syncKstrings_layout [OF assms] by blast
  let ?bytes = "hdr @ str_data strs"
  let ?sec = "sec\<lparr>k_stringBytes := ?bytes\<rparr>"
  obtain fonts where r: "KstrSection_syncBytesToStrings ?sec = Inr (?sec\<lparr>k_version := KSTR_CurrentVersion, k_strings :=
      None # map (\<lambda>i. Some ((ScStr_new (str_text (strs ! i)))\<lparr>strProp := fonts i\<rparr>)) [1..<length strs]\<rparr>)"
    using KstrSection_reads_layout [OF assms(1,3) h, of ?sec] by auto
  have "0 < length ?bytes" by (simp add: str_data_def)
  then have "KstrSection_read (int (length ?bytes)) (?bytes @ rest) sec = Inr (length ?bytes, rest, ?sec\<lparr>k_version := KSTR_CurrentVersion,
      k_strings := None # map (\<lambda>i. Some ((ScStr_new (str_text (strs ! i)))\<lparr>strProp := fonts i\<rparr>)) [1..<length strs]\<rparr>)"
    unfolding KstrSection_read_def Let_def nat_int stream_read_all prod.case r by simp
  moreover have "str_text (Some ((ScStr_new (str_text (strs ! i)))\<lparr>strProp := f\<rparr>)) = str_text (strs ! i)" for i f
    by (simp add: str_text_def allocation_ScStr_new c_str_snoc_NUL split: option.split)
  ultimately show ?thesis using w assms(3) by (auto simp: nth_Cons')
qed

text \<open>
  C32. The editor's strings: a table of two or more strings with the base font whose section fits is written by
  the scenario's KSTR writer, and reading the section from these bytes, with anything behind them, gives a table
  with the same text under every id and the current version.
\<close>

theorem kstr_section_roundtrip:
  assumes "wf_table strs" "base_fonts strs" "3 \<le> length strs" "8 * length strs + length (str_data strs) \<le> 2147483647"
  shows "\<exists>bytes sec'. Strings_syncKstringsToBytes strs = Inr bytes \<and>
    KstrSection_read (int (length bytes)) (bytes @ rest) sec = Inr (length bytes, rest, sec') \<and>
    k_version sec' = KSTR_CurrentVersion \<and> length (k_strings sec') = length strs \<and>
    (\<forall>i. 1 \<le> i \<and> i < length strs \<longrightarrow> str_text (k_strings sec' ! i) = str_text (strs ! i))"
  using assms by (rule kstr_written_read)

theorem kstr_section_roundtrip_witness:
  "\<exists>bytes sec'. Strings_syncKstringsToBytes [None, Some (ScStr_new ''ab''), None] = Inr bytes \<and>
    KstrSection_read (int (length bytes)) bytes KstrSection_GetDefault = Inr (length bytes, [], sec') \<and>
    str_text (k_strings sec' ! 1) = ''ab''"
proof -
  have "wf_table [None, Some (ScStr_new ''ab''), None]" "base_fonts [None, Some (ScStr_new ''ab''), None]"
    by (simp_all add: wf_table_def base_fonts_def ScStr_new_def StrProp_default_def wf_ScStr_def c_str_def terminated_def)
  moreover have "8 * length [None, Some (ScStr_new ''ab''), None] + length (str_data [None, Some (ScStr_new ''ab''), None]) \<le> 2147483647"
    by (simp add: str_data_def str_chars_def ScStr_new_def terminated_def)
  ultimately show ?thesis
    using kstr_section_roundtrip [of "[None, Some (ScStr_new ''ab''), None]" "[]" KstrSection_GetDefault]
    by (auto simp: str_text_def ScStr_new_def c_str_def terminated_def)
qed

text \<open>
  A KSTR section with exactly one string is never saved: a string of the base font makes the writer store
  its font one byte past the end of its vector, and a string of any other size is
  refused.
\<close>

lemma kstr_single_string:
  assumes "length strs = 2" "strs ! 1 = Some s" "ScStr_length s \<le> 1000"
  shows "Strings_syncKstringsToBytes strs = Inl (if fontSize (strProp s) = baseFontSize then UndefinedBehavior else InvalidSize)"
proof -
  let ?bytes = "(enc_u32 KSTR_CurrentVersion @ enc_u32 (of_nat 1) @ replicate (8 * 1) NUL) @ [NUL]"
  have "(if length strs > 0 then length strs - 1 else 0) = 1" "[1..<Suc 1] = [1 :: nat]" using assms(1) by simp_all
  moreover have "\<not> 1 > (2147483647 - 8) div (4 :: nat)"
    "\<not> 8 + 8 * 1 + 1 + sum_list (map (stringLengthAt strs) [1]) > 2147483647"
    using assms(2,3) by (simp_all add: stringLengthAt_def)
  ultimately have one: "Strings_syncKstringsToBytes strs = syncKstrings_step (\<lambda>i. 4 + 4 * i) (8 + 2 * 1)
      (length (enc_u32 KSTR_CurrentVersion @ enc_u32 (of_nat 1) @ replicate (8 * 1) NUL)) strs ?bytes 1"
    unfolding Strings_syncKstringsToBytes_def syncKstrings_def Let_def by (simp only: if_False foldl.simps bind_result_simps)
  show ?thesis
  proof (cases "fontSize (strProp s) = baseFontSize")
    case True
    then obtain font where font: "StringProperties_bytes (strProp s) = Inr font" "length font = 4"
      using StringProperties_base by blast
    then have "put (8 + 2 * 1 + 4 * 1) font ?bytes = Inl UndefinedBehavior" by (simp add: put_def)
    then have "Strings_syncKstringsToBytes strs = Inl UndefinedBehavior"
      unfolding one syncKstrings_step_def assms(2) option.case font(1) bind_result_simps by (simp only: bind_result_simps)
    then show ?thesis using True by simp
  next
    case False
    then have "StringProperties_bytes (strProp s) = Inl InvalidSize"
      using StringProperties_flags_returns [of "strProp s"]
      by (auto simp: StringProperties_bytes_def StringProperties_flags_def Let_def split: if_splits prod.splits)
    then show ?thesis unfolding one syncKstrings_step_def assms(2) option.case using False by (simp only: bind_result_simps if_False)
  qed
qed

lemma kstr_single_string_witness:
  "Strings_syncKstringsToBytes [None, Some (ScStr_new ''a'')] = Inl UndefinedBehavior"
  using kstr_single_string [of "[None, Some (ScStr_new ''a'')]" "ScStr_new ''a''"]
  by (simp add: ScStr_new_def StrProp_default_def ScStr_length_def terminated_def)

end
