(* ===== verification/Ktgp.thy ===== *)
theory Ktgp
  imports Structs
begin

text \<open>
  The groups of triggers the editor shows, the KTGP section (\<open>class KtgpSection\<close> in
  \<open>src/MappingCoreLib/Sections.cpp\<close>): its size, its read and its write. No operation of the program adds groups yet.
\<close>

record TriggerGroup =
  groupExpanded :: bool
  groupHidden :: bool
  templateInstanceId :: u32
  commentStringId :: u32
  notesStringId :: u32
  parentGroupId :: u32
  extendedTrigDataIndexes :: "u32 list"
  groupIndexes :: "u32 list"

record KtgpSection =
  triggerGroups :: "TriggerGroup list"

definition KtgpSection_GetDefault :: KtgpSection where
  "KtgpSection_GetDefault = \<lparr>triggerGroups = []\<rparr>"

definition KtgpSection_empty :: "KtgpSection \<Rightarrow> bool" where
  "KtgpSection_empty sec \<longleftrightarrow> triggerGroups sec = []"

text \<open>The sizes are cut to signed 32 bits and added at that width.\<close>

definition KtgpSection_getSize :: "KtgpSection \<Rightarrow> int" where
  "KtgpSection_getSize sec = sint (foldl (\<lambda>total g. total + of_nat (4 * length (extendedTrigDataIndexes g) + 4 * length (groupIndexes g)))
     (of_nat (32 * length (triggerGroups sec))) (triggerGroups sec) :: u32)"

section \<open>Reading\<close>

definition padTo :: "nat \<Rightarrow> string \<Rightarrow> string" where
  "padTo n bytes = bytes @ replicate (n - length bytes) NUL"

definition u32_at :: "string \<Rightarrow> nat \<Rightarrow> u32" where
  "u32_at bytes pos = dec_u32 bytes pos"

text \<open>
  The body of a group, its triggers and then its groups. When the bytes have to grow to hold it, the
  reference to the header is left dangling; the sizes are multiplied at 32 bits.
\<close>

definition readGroupBody :: "string \<Rightarrow> nat \<Rightarrow> nat \<Rightarrow> nat \<Rightarrow> (u32 list \<times> u32 list) result" where
  "readGroupBody bytes bodyOffset numTriggers numGroups =
    (if numTriggers > 0 \<and> numGroups > 0 \<and> bodyOffset > 0 then
       let sizeRequired = bodyOffset + 4 * numTriggers mod 2 ^ 32 + 4 * numGroups mod 2 ^ 32 in
       if length bytes < sizeRequired \<or> length bytes < bodyOffset + 4 * (numTriggers + numGroups) then Inl UndefinedBehavior
       else Inr (map (\<lambda>i. u32_at bytes (bodyOffset + 4 * i)) [0..<numTriggers],
                 map (\<lambda>i. u32_at bytes (bodyOffset + 4 * i)) [numTriggers..<numTriggers + numGroups])
     else Inr ([], []))"

definition readGroup :: "nat \<Rightarrow> string \<times> TriggerGroup list \<Rightarrow> (string \<times> TriggerGroup list) result" where
  "readGroup i = (\<lambda>(bytes, groups).
    let headerStart = 8 + i * 32;
        bytes = padTo (headerStart + 32) bytes;
        flags = u32_at bytes headerStart
    in bind_result (readGroupBody bytes (unat (u32_at bytes (headerStart + 28))) (unat (u32_at bytes (headerStart + 8)))
         (unat (u32_at bytes (headerStart + 12)))) (\<lambda>(indexes, subgroups).
       Inr (bytes, groups @ [\<lparr>groupExpanded = bit flags 27, groupHidden = bit flags 28,
         templateInstanceId = u32_at bytes (headerStart + 4), commentStringId = u32_at bytes (headerStart + 16),
         notesStringId = u32_at bytes (headerStart + 20), parentGroupId = u32_at bytes (headerStart + 24),
         extendedTrigDataIndexes = indexes, groupIndexes = subgroups\<rparr>])))"

definition KtgpSection_read :: "int \<Rightarrow> string \<Rightarrow> bool \<Rightarrow> KtgpSection \<Rightarrow> (nat \<times> string \<times> KtgpSection) result" where
  "KtgpSection_read sizeInBytes is appending sec =
    (if sizeInBytes < 0 then Inl NegativeSectionSize
     else
       let readSize = nat sizeInBytes in
       if readSize > 0 then
         (case stream_read readSize is of (buf, gcount, rest) \<Rightarrow>
            let bytes = padTo 4 buf in
            if u32_at bytes 0 \<noteq> 1 then Inl SectionValidationException
            else
              let bytes = padTo 8 bytes;
                  numGroups = unat (u32_at bytes 4)
              in bind_result (foldl (\<lambda>r i. bind_result r (readGroup i)) (Inr (bytes, triggerGroups sec)) [0..<numGroups])
                   (\<lambda>(_, groups). Inr (gcount, rest, sec\<lparr>triggerGroups := groups\<rparr>)))
       else Inr (0, is, sec))"

section \<open>Writing\<close>

text \<open>
  The header of each group is filled in and dropped: \<open>headers\<close> stays empty, and \<open>&headers[0]\<close> of an empty vector
  is what is written.
\<close>

definition KtgpSection_headers :: "KtgpSection \<Rightarrow> string list" where
  "KtgpSection_headers sec = foldl (\<lambda>headers _. headers) [] (triggerGroups sec)"

definition KtgpSection_write :: "KtgpSection \<Rightarrow> string result" where
  "KtgpSection_write sec =
    (let headers = KtgpSection_headers sec;
         bodyData = concat (map (\<lambda>g. extendedTrigDataIndexes g @ groupIndexes g) (triggerGroups sec))
     in if headers = [] \<or> bodyData = [] then Inl UndefinedBehavior
        else Inr (enc_u32 1 @ enc_u32 (of_nat (length (triggerGroups sec))) @ concat headers @ enc_array enc_u32 bodyData))"

lemma KtgpSection_headers_empty [simp]: "KtgpSection_headers sec = []"
proof -
  have "foldl (\<lambda>headers _. headers) h xs = h" for h :: "string list" and xs :: "TriggerGroup list"
    by (induction xs) simp_all
  then show ?thesis by (simp add: KtgpSection_headers_def)
qed

lemma KtgpSection_write_undefined: "KtgpSection_write sec = Inl UndefinedBehavior"
  by (simp add: KtgpSection_write_def)

end
