(* ===== verification/ChkSections.thy ===== *)
theory ChkSections
  imports VersionsPlayers KstrCodec Ktgp
begin

text \<open>
  A scenario file is a sequence of sections, each with an 8-byte header of name and size. This theory models
  a section object of any kind (\<open>class ChkSection\<close> with its subclasses, \<open>src/MappingCoreLib/Sections.h\<close> and
  \<open>Sections.cpp\<close>): its name, the choice of the class by the name (\<open>allocate\<close>), the virtual \<open>read\<close>, \<open>getSize\<close> and
  \<open>write\<close>, which dispatch to the sections of the other theories, and the static \<open>ChkSection::read\<close> and
  \<open>ChkSection::writeWithHeader\<close>. The sections with a fixed struct are kept as the bytes of \<open>rawData\<close>, the way
  \<open>StructSection\<close> keeps them.

  The main result is that a storable section of every kind, written with its header and read back, is the
  section again and takes exactly the bytes it wrote.
\<close>

section \<open>Section names\<close>

text \<open>\<open>SectionName\<close> is an open enumeration: a file may hold sections of any other name.\<close>

definition SectionName_TYPE :: u32 where "SectionName_TYPE = 1162893652"
definition SectionName_VER :: u32 where "SectionName_VER = 542262614"
definition SectionName_IVER :: u32 where "SectionName_IVER = 1380275785"
definition SectionName_IVE2 :: u32 where "SectionName_IVE2 = 843404873"
definition SectionName_VCOD :: u32 where "SectionName_VCOD = 1146045270"
definition SectionName_IOWN :: u32 where "SectionName_IOWN = 1314344777"
definition SectionName_OWNR :: u32 where "SectionName_OWNR = 1380865871"
definition SectionName_ERA :: u32 where "SectionName_ERA = 541151813"
definition SectionName_DIM :: u32 where "SectionName_DIM = 541935940"
definition SectionName_SIDE :: u32 where "SectionName_SIDE = 1162103123"
definition SectionName_MTXM :: u32 where "SectionName_MTXM = 1297634381"
definition SectionName_PUNI :: u32 where "SectionName_PUNI = 1229870416"
definition SectionName_UPGR :: u32 where "SectionName_UPGR = 1380405333"
definition SectionName_PTEC :: u32 where "SectionName_PTEC = 1128617040"
definition SectionName_UNIT :: u32 where "SectionName_UNIT = 1414090325"
definition SectionName_ISOM :: u32 where "SectionName_ISOM = 1297044297"
definition SectionName_TILE :: u32 where "SectionName_TILE = 1162627412"
definition SectionName_DD2 :: u32 where "SectionName_DD2 = 540165188"
definition SectionName_THG2 :: u32 where "SectionName_THG2 = 843532372"
definition SectionName_MASK :: u32 where "SectionName_MASK = 1263747405"
definition SectionName_STR :: u32 where "SectionName_STR = 542266451"
definition SectionName_UPRP :: u32 where "SectionName_UPRP = 1347571797"
definition SectionName_UPUS :: u32 where "SectionName_UPUS = 1398100053"
definition SectionName_MRGN :: u32 where "SectionName_MRGN = 1313296973"
definition SectionName_TRIG :: u32 where "SectionName_TRIG = 1195987540"
definition SectionName_MBRF :: u32 where "SectionName_MBRF = 1179796045"
definition SectionName_SPRP :: u32 where "SectionName_SPRP = 1347571795"
definition SectionName_FORC :: u32 where "SectionName_FORC = 1129467718"
definition SectionName_WAV :: u32 where "SectionName_WAV = 542523735"
definition SectionName_UNIS :: u32 where "SectionName_UNIS = 1397313109"
definition SectionName_UPGS :: u32 where "SectionName_UPGS = 1397182549"
definition SectionName_TECS :: u32 where "SectionName_TECS = 1396917588"
definition SectionName_SWNM :: u32 where "SectionName_SWNM = 1296979795"
definition SectionName_COLR :: u32 where "SectionName_COLR = 1380732739"
definition SectionName_PUPx :: u32 where "SectionName_PUPx = 2018530640"
definition SectionName_PTEx :: u32 where "SectionName_PTEx = 2017809488"
definition SectionName_UNIx :: u32 where "SectionName_UNIx = 2018070101"
definition SectionName_UPGx :: u32 where "SectionName_UPGx = 2017939541"
definition SectionName_TECx :: u32 where "SectionName_TECx = 2017674580"
definition SectionName_OSTR :: u32 where "SectionName_OSTR = 1381258063"
definition SectionName_KSTR :: u32 where "SectionName_KSTR = 1381258059"
definition SectionName_KTRG :: u32 where "SectionName_KTRG = 1196577867"
definition SectionName_KTGP :: u32 where "SectionName_KTGP = 1346851915"
definition SectionName_UNKNOWN :: u32 where "SectionName_UNKNOWN = 0xFFFFFFFF"

lemmas SectionName_defs =
  SectionName_TYPE_def SectionName_VER_def SectionName_IVER_def SectionName_IVE2_def SectionName_VCOD_def SectionName_IOWN_def
  SectionName_OWNR_def SectionName_ERA_def SectionName_DIM_def SectionName_SIDE_def SectionName_MTXM_def SectionName_PUNI_def
  SectionName_UPGR_def SectionName_PTEC_def SectionName_UNIT_def SectionName_ISOM_def SectionName_TILE_def SectionName_DD2_def
  SectionName_THG2_def SectionName_MASK_def SectionName_STR_def SectionName_UPRP_def SectionName_UPUS_def SectionName_MRGN_def
  SectionName_TRIG_def SectionName_MBRF_def SectionName_SPRP_def SectionName_FORC_def SectionName_WAV_def SectionName_UNIS_def
  SectionName_UPGS_def SectionName_TECS_def SectionName_SWNM_def SectionName_COLR_def SectionName_PUPx_def SectionName_PTEx_def
  SectionName_UNIx_def SectionName_UPGx_def SectionName_TECx_def SectionName_OSTR_def SectionName_KSTR_def SectionName_KTRG_def
  SectionName_KTGP_def SectionName_UNKNOWN_def

text \<open>\<open>ChkSection::sectionNames\<close> and \<open>ChkSection::sectionNameStrings\<close>.\<close>

definition sectionNames :: "u32 list" where
  "sectionNames = [
    SectionName_TYPE, SectionName_VER, SectionName_IVER, SectionName_IVE2, SectionName_VCOD,
    SectionName_IOWN, SectionName_OWNR, SectionName_ERA, SectionName_DIM, SectionName_SIDE,
    SectionName_MTXM, SectionName_PUNI, SectionName_UPGR, SectionName_PTEC, SectionName_UNIT,
    SectionName_ISOM, SectionName_TILE, SectionName_DD2, SectionName_THG2, SectionName_MASK,
    SectionName_STR, SectionName_UPRP, SectionName_UPUS, SectionName_MRGN, SectionName_TRIG,
    SectionName_MBRF, SectionName_SPRP, SectionName_FORC, SectionName_WAV, SectionName_UNIS,
    SectionName_UPGS, SectionName_TECS, SectionName_SWNM, SectionName_COLR, SectionName_PUPx,
    SectionName_PTEx, SectionName_UNIx, SectionName_UPGx, SectionName_TECx, SectionName_OSTR,
    SectionName_KSTR, SectionName_KTRG, SectionName_KTGP, SectionName_UNKNOWN]"

definition sectionNameStrings :: "(u32 \<times> string) list" where
  "sectionNameStrings = [
    (SectionName_TYPE, ''TYPE''), (SectionName_VER, ''VER''), (SectionName_IVER, ''IVER''),
    (SectionName_IVE2, ''IVE2''), (SectionName_VCOD, ''VCOD''), (SectionName_IOWN, ''IOWN''),
    (SectionName_OWNR, ''OWNR''), (SectionName_ERA, ''ERA''), (SectionName_DIM, ''DIM''),
    (SectionName_SIDE, ''SIDE''), (SectionName_MTXM, ''MTXM''), (SectionName_PUNI, ''PUNI''),
    (SectionName_UPGR, ''UPGR''), (SectionName_PTEC, ''PTEC''), (SectionName_UNIT, ''UNIT''),
    (SectionName_ISOM, ''ISOM''), (SectionName_TILE, ''TILE''), (SectionName_DD2, ''DD2''),
    (SectionName_THG2, ''THG2''), (SectionName_MASK, ''MASK''), (SectionName_STR, ''STR''),
    (SectionName_UPRP, ''UPRP''), (SectionName_UPUS, ''UPUS''), (SectionName_MRGN, ''MRGN''),
    (SectionName_TRIG, ''TRIG''), (SectionName_MBRF, ''MBRF''), (SectionName_SPRP, ''SPRP''),
    (SectionName_FORC, ''FORC''), (SectionName_WAV, ''WAV''), (SectionName_UNIS, ''UNIS''),
    (SectionName_UPGS, ''UPGS''), (SectionName_TECS, ''TECS''), (SectionName_SWNM, ''SWNM''),
    (SectionName_COLR, ''COLR''), (SectionName_PUPx, ''PUPx''), (SectionName_PTEx, ''PTEx''),
    (SectionName_UNIx, ''UNIx''), (SectionName_UPGx, ''UPGx''), (SectionName_TECx, ''TECx''),
    (SectionName_OSTR, ''OSTR''), (SectionName_KSTR, ''KSTR''), (SectionName_KTRG, ''KTRG''),
    (SectionName_KTGP, ''KTGP''), (SectionName_UNKNOWN, ''UNKNOWN'')]"

definition ChkSection_getNameString :: "u32 \<Rightarrow> string" where
  "ChkSection_getNameString sectionName =
    (case map_of sectionNameStrings sectionName of Some s \<Rightarrow> s | None \<Rightarrow> the (map_of sectionNameStrings SectionName_UNKNOWN))"

datatype LoadBehavior = Standard | Override | Append

definition nonStandardLoadBehaviors :: "(u32 \<times> LoadBehavior) list" where
  "nonStandardLoadBehaviors = [(SectionName_MTXM, Override), (SectionName_UNIT, Append), (SectionName_THG2, Append),
    (SectionName_STR, Override), (SectionName_TRIG, Append), (SectionName_MBRF, Append)]"

definition ChkSection_getLoadBehavior :: "u32 \<Rightarrow> LoadBehavior" where
  "ChkSection_getLoadBehavior sectionName =
    (case map_of nonStandardLoadBehaviors sectionName of Some b \<Rightarrow> b | None \<Rightarrow> Standard)"

section \<open>Section objects\<close>

text \<open>
  The struct of a \<open>StructSection\<close> is the first \<open>sizeof\<close> bytes of \<open>rawData\<close>. The pointer \<open>data\<close> of the section still
  points at them as long as \<open>rawData\<close> has its first size, because only a longer one is allocated anew.
\<close>

datatype body =
    UnitBody UnitSection
  | Dd2Body Dd2Section
  | Thg2Body Thg2Section
  | MrgnBody MrgnSection
  | TrigBody TrigSection
  | MbrfBody MbrfSection
  | StrBody StrSection
  | KstrBody KstrSection
  | KtrgBody KtrgSection
  | KtgpBody KtgpSection
  | MtxmBody MtxmSection
  | TileBody TileSection
  | IsomBody IsomSection
  | MaskBody MaskSection
  | StructBody nat string
  | DataBody string

record ChkSection =
  sec_name :: u32
  sec_body :: body

text \<open>\<open>sizeof\<close> of the struct of each \<open>StructSection\<close>.\<close>

definition structSizes :: "(u32 \<times> nat) list" where
  "structSizes = [
    (SectionName_TYPE, 4), (SectionName_VER, 2), (SectionName_IVER, 2), (SectionName_IVE2, 2),
    (SectionName_VCOD, 1040), (SectionName_IOWN, 12), (SectionName_OWNR, 12), (SectionName_ERA, 2),
    (SectionName_DIM, 4), (SectionName_SIDE, 12), (SectionName_PUNI, 5700), (SectionName_UPGR, 1748),
    (SectionName_PTEC, 912), (SectionName_UPRP, 1280), (SectionName_UPUS, 64), (SectionName_SPRP, 4),
    (SectionName_FORC, 20), (SectionName_WAV, 2048), (SectionName_UNIS, 4048), (SectionName_UPGS, 598),
    (SectionName_TECS, 216), (SectionName_SWNM, 1024), (SectionName_COLR, 8), (SectionName_PUPx, 2318),
    (SectionName_PTEx, 1672), (SectionName_UNIx, 4168), (SectionName_UPGx, 794), (SectionName_TECx, 396),
    (SectionName_OSTR, 5944)]"

definition emptyBodies :: "(u32 \<times> body) list" where
  "emptyBodies = [
    (SectionName_UNIT, UnitBody \<lparr>units = []\<rparr>), (SectionName_DD2, Dd2Body \<lparr>doodads = []\<rparr>),
    (SectionName_THG2, Thg2Body \<lparr>sprites = []\<rparr>), (SectionName_MRGN, MrgnBody \<lparr>locations = []\<rparr>),
    (SectionName_TRIG, TrigBody \<lparr>triggers = []\<rparr>), (SectionName_MBRF, MbrfBody \<lparr>briefingTriggers = []\<rparr>),
    (SectionName_STR, StrBody StrSection_new), (SectionName_KSTR, KstrBody \<lparr>k_version = KSTR_CurrentVersion, k_strings = [], k_stringBytes = []\<rparr>),
    (SectionName_KTRG, KtrgBody \<lparr>extendedTrigData = []\<rparr>), (SectionName_KTGP, KtgpBody \<lparr>triggerGroups = []\<rparr>),
    (SectionName_MTXM, MtxmBody \<lparr>mtxm_tiles = []\<rparr>), (SectionName_TILE, TileBody \<lparr>tile_tiles = []\<rparr>),
    (SectionName_ISOM, IsomBody \<lparr>isomEntries = []\<rparr>), (SectionName_MASK, MaskBody \<lparr>fogTiles = []\<rparr>)]"

definition allocate :: "u32 \<Rightarrow> ChkSection" where
  "allocate sectionName = \<lparr>sec_name = sectionName, sec_body =
    (case map_of emptyBodies sectionName of
       Some b \<Rightarrow> b
     | None \<Rightarrow> (case map_of structSizes sectionName of
         Some sz \<Rightarrow> StructBody sz (replicate sz NUL)
       | None \<Rightarrow> DataBody []))\<rparr>"

section \<open>Reading, size and writing\<close>

definition StructSection_read :: "int \<Rightarrow> string \<Rightarrow> nat \<Rightarrow> (nat \<times> string \<times> string) result" where
  "StructSection_read sizeInBytes is sz =
    (if sizeInBytes < 0 then Inl InvalidArgument
     else (case stream_read (nat sizeInBytes) is of (buf, gcount, rest) \<Rightarrow>
       Inr (gcount, rest, buf @ replicate (sz - nat sizeInBytes) NUL)))"

definition StructSection_write :: "nat \<Rightarrow> string \<Rightarrow> string" where
  "StructSection_write writeSize rawData = take writeSize rawData"

definition DataSection_read :: "int \<Rightarrow> string \<Rightarrow> (nat \<times> string \<times> string) result" where
  "DataSection_read sizeInBytes is =
    (if sizeInBytes < 0 then Inl LengthError
     else if sizeInBytes > 0 then
       (case stream_read (nat sizeInBytes) is of (buf, gcount, rest) \<Rightarrow> Inr (gcount, rest, buf))
     else Inr (0, is, []))"

definition DataSection_write :: "string \<Rightarrow> string result" where
  "DataSection_write bytes = (if bytes = [] then Inl UndefinedBehavior else Inr bytes)"

definition read_as :: "('s \<Rightarrow> body) \<Rightarrow> (nat \<times> string \<times> 's) result \<Rightarrow> (nat \<times> string \<times> body) result" where
  "read_as C r = bind_result r (\<lambda>(gcount, rest, sec). Inr (gcount, rest, C sec))"

fun body_read :: "int \<Rightarrow> string \<Rightarrow> bool \<Rightarrow> body \<Rightarrow> (nat \<times> string \<times> body) result" where
  "body_read sizeInBytes is overrideOrAppend (UnitBody sec) = read_as UnitBody (UnitSection_read sizeInBytes is overrideOrAppend sec)"
| "body_read sizeInBytes is overrideOrAppend (Dd2Body sec) = read_as Dd2Body (Dd2Section_read sizeInBytes is overrideOrAppend sec)"
| "body_read sizeInBytes is overrideOrAppend (Thg2Body sec) = read_as Thg2Body (Thg2Section_read sizeInBytes is overrideOrAppend sec)"
| "body_read sizeInBytes is overrideOrAppend (MrgnBody sec) = read_as MrgnBody (MrgnSection_read sizeInBytes is overrideOrAppend sec)"
| "body_read sizeInBytes is overrideOrAppend (TrigBody sec) = read_as TrigBody (TrigSection_read sizeInBytes is overrideOrAppend sec)"
| "body_read sizeInBytes is overrideOrAppend (MbrfBody sec) = read_as MbrfBody (MbrfSection_read sizeInBytes is overrideOrAppend sec)"
| "body_read sizeInBytes is overrideOrAppend (StrBody sec) = read_as StrBody (StrSection_read sizeInBytes is overrideOrAppend sec)"
| "body_read sizeInBytes is overrideOrAppend (KstrBody sec) = read_as KstrBody (KstrSection_read sizeInBytes is sec)"
| "body_read sizeInBytes is overrideOrAppend (KtrgBody sec) = read_as KtrgBody (KtrgSection_read sizeInBytes is overrideOrAppend sec)"
| "body_read sizeInBytes is overrideOrAppend (KtgpBody sec) = read_as KtgpBody (KtgpSection_read sizeInBytes is overrideOrAppend sec)"
| "body_read sizeInBytes is overrideOrAppend (MtxmBody sec) = read_as MtxmBody (MtxmSection_read sizeInBytes is overrideOrAppend sec)"
| "body_read sizeInBytes is overrideOrAppend (TileBody sec) = read_as TileBody (TileSection_read sizeInBytes is overrideOrAppend sec)"
| "body_read sizeInBytes is overrideOrAppend (IsomBody sec) = read_as IsomBody (IsomSection_read sizeInBytes is sec)"
| "body_read sizeInBytes is overrideOrAppend (MaskBody sec) = read_as MaskBody (MaskSection_read sizeInBytes is overrideOrAppend sec)"
| "body_read sizeInBytes is overrideOrAppend (StructBody sz rawData) = read_as (StructBody sz) (StructSection_read sizeInBytes is sz)"
| "body_read sizeInBytes is overrideOrAppend (DataBody bytes) = read_as DataBody (DataSection_read sizeInBytes is)"

text \<open>
  What a section asks of its \<open>ScenarioSaver\<close> when it is written: the serializers of the string tables, \<open>None\<close> for
  the default saver, with which the sections use their own.
\<close>

record saver =
  saver_str :: "(ScStr option list \<Rightarrow> string result) option"
  saver_kstr :: "(ScStr option list \<Rightarrow> string result) option"

definition Scenario_saver :: saver where
  "Scenario_saver = \<lparr>saver_str = Some Strings_syncStringsToBytes, saver_kstr = Some Strings_syncKstringsToBytes\<rparr>"

definition default_saver :: saver where
  "default_saver = \<lparr>saver_str = None, saver_kstr = None\<rparr>"

text \<open>The size of a section and its bytes; STR and KSTR refresh their bytes from their strings in both.\<close>

fun body_getSize :: "saver \<Rightarrow> body \<Rightarrow> (int \<times> body) result" where
  "body_getSize sv (UnitBody sec) = Inr (UnitSection_getSize sec, UnitBody sec)"
| "body_getSize sv (Dd2Body sec) = Inr (Dd2Section_getSize sec, Dd2Body sec)"
| "body_getSize sv (Thg2Body sec) = Inr (Thg2Section_getSize sec, Thg2Body sec)"
| "body_getSize sv (MrgnBody sec) = Inr (MrgnSection_getSize sec, MrgnBody sec)"
| "body_getSize sv (TrigBody sec) = Inr (TrigSection_getSize sec, TrigBody sec)"
| "body_getSize sv (MbrfBody sec) = Inr (MbrfSection_getSize sec, MbrfBody sec)"
| "body_getSize sv (StrBody sec) = bind_result (StrSection_getSize (saver_str sv) sec) (\<lambda>(n, sec). Inr (int n, StrBody sec))"
| "body_getSize sv (KstrBody sec) = bind_result (KstrSection_getSize (saver_kstr sv) sec) (\<lambda>(n, sec). Inr (n, KstrBody sec))"
| "body_getSize sv (KtrgBody sec) = Inr (KtrgSection_getSize sec, KtrgBody sec)"
| "body_getSize sv (KtgpBody sec) = Inr (KtgpSection_getSize sec, KtgpBody sec)"
| "body_getSize sv (MtxmBody sec) = Inr (MtxmSection_getSize sec, MtxmBody sec)"
| "body_getSize sv (TileBody sec) = Inr (TileSection_getSize sec, TileBody sec)"
| "body_getSize sv (IsomBody sec) = Inr (IsomSection_getSize sec, IsomBody sec)"
| "body_getSize sv (MaskBody sec) = Inr (MaskSection_getSize sec, MaskBody sec)"
| "body_getSize sv (StructBody sz rawData) = Inr (int sz, StructBody sz rawData)"
| "body_getSize sv (DataBody bytes) = Inr (toSectionSize (length bytes), DataBody bytes)"

fun body_write :: "saver \<Rightarrow> body \<Rightarrow> (string \<times> body) result" where
  "body_write sv (UnitBody sec) = Inr (UnitSection_write sec, UnitBody sec)"
| "body_write sv (Dd2Body sec) = Inr (Dd2Section_write sec, Dd2Body sec)"
| "body_write sv (Thg2Body sec) = Inr (Thg2Section_write sec, Thg2Body sec)"
| "body_write sv (MrgnBody sec) = bind_result (MrgnSection_write sec) (\<lambda>bs. Inr (bs, MrgnBody sec))"
| "body_write sv (TrigBody sec) = Inr (TrigSection_write sec, TrigBody sec)"
| "body_write sv (MbrfBody sec) = Inr (MbrfSection_write sec, MbrfBody sec)"
| "body_write sv (StrBody sec) = bind_result (StrSection_write (saver_str sv) sec) (\<lambda>(bs, sec). Inr (bs, StrBody sec))"
| "body_write sv (KstrBody sec) = bind_result (KstrSection_write (saver_kstr sv) sec) (\<lambda>(bs, sec). Inr (bs, KstrBody sec))"
| "body_write sv (KtrgBody sec) = Inr (KtrgSection_write sec, KtrgBody sec)"
| "body_write sv (KtgpBody sec) = bind_result (KtgpSection_write sec) (\<lambda>bs. Inr (bs, KtgpBody sec))"
| "body_write sv (MtxmBody sec) = bind_result (MtxmSection_write sec) (\<lambda>bs. Inr (bs, MtxmBody sec))"
| "body_write sv (TileBody sec) = bind_result (TileSection_write sec) (\<lambda>bs. Inr (bs, TileBody sec))"
| "body_write sv (IsomBody sec) = bind_result (IsomSection_write sec) (\<lambda>bs. Inr (bs, IsomBody sec))"
| "body_write sv (MaskBody sec) = bind_result (MaskSection_write sec) (\<lambda>bs. Inr (bs, MaskBody sec))"
| "body_write sv (StructBody sz rawData) = Inr (StructSection_write sz rawData, StructBody sz rawData)"
| "body_write sv (DataBody bytes) = bind_result (DataSection_write bytes) (\<lambda>bs. Inr (bs, DataBody bytes))"

definition ChkSection_writeWithHeader :: "saver \<Rightarrow> ChkSection \<Rightarrow> (string \<times> ChkSection) result" where
  "ChkSection_writeWithHeader sv sec =
    bind_result (body_getSize sv (sec_body sec)) (\<lambda>(sectionSize, body).
    bind_result (body_write sv body) (\<lambda>(bytes, body).
      Inr (enc_u32 (sec_name sec) @ enc_u32 (word_of_int sectionSize) @ bytes, sec\<lparr>sec_body := body\<rparr>)))"

section \<open>The class of a section\<close>

text \<open>The class of an object, and the type invariant: an object has the class that \<open>allocate\<close> chooses for its name.\<close>

datatype section_class =
    UnitClass | Dd2Class | Thg2Class | MrgnClass | TrigClass | MbrfClass | StrClass | KstrClass | KtrgClass | KtgpClass
  | MtxmClass | TileClass | IsomClass | MaskClass | StructClass nat | DataClass

fun class_of :: "body \<Rightarrow> section_class" where
  "class_of (UnitBody _) = UnitClass"
| "class_of (Dd2Body _) = Dd2Class"
| "class_of (Thg2Body _) = Thg2Class"
| "class_of (MrgnBody _) = MrgnClass"
| "class_of (TrigBody _) = TrigClass"
| "class_of (MbrfBody _) = MbrfClass"
| "class_of (StrBody _) = StrClass"
| "class_of (KstrBody _) = KstrClass"
| "class_of (KtrgBody _) = KtrgClass"
| "class_of (KtgpBody _) = KtgpClass"
| "class_of (MtxmBody _) = MtxmClass"
| "class_of (TileBody _) = TileClass"
| "class_of (IsomBody _) = IsomClass"
| "class_of (MaskBody _) = MaskClass"
| "class_of (StructBody sz _) = StructClass sz"
| "class_of (DataBody _) = DataClass"

fun sized :: "body \<Rightarrow> bool" where
  "sized (StructBody sz rawData) \<longleftrightarrow> sz \<le> length rawData"
| "sized _ \<longleftrightarrow> True"

definition typed :: "ChkSection \<Rightarrow> bool" where
  "typed sec \<longleftrightarrow> class_of (sec_body sec) = class_of (sec_body (allocate (sec_name sec))) \<and> sized (sec_body sec)"

lemma sec_name_allocate [simp]: "sec_name (allocate name) = name"
  by (simp add: allocate_def)

lemma typed_allocate [simp]: "typed (allocate name)"
proof -
  have "\<forall>b \<in> snd ` set emptyBodies. sized b" by (simp add: emptyBodies_def)
  then have "map_of emptyBodies name = Some b \<Longrightarrow> sized b" for b
    by (metis image_eqI map_of_SomeD snd_conv)
  then show ?thesis by (auto simp: typed_def allocate_def split: option.split)
qed

lemma read_as_Inr: "read_as C r = Inr (n, rest, b) \<longleftrightarrow> (\<exists>s. r = Inr (n, rest, s) \<and> b = C s)"
  by (auto simp: read_as_def bind_result_eq_Inr)

lemma StructSection_read_size: "StructSection_read sizeInBytes is sz = Inr (n, rest, raw) \<Longrightarrow> sz \<le> length raw"
  by (auto simp: StructSection_read_def stream_read_def split: if_splits)

lemma body_read_class:
  assumes "body_read sizeInBytes is overrideOrAppend b = Inr (n, rest, b')"
  shows "class_of b' = class_of b \<and> (sized b \<longrightarrow> sized b')"
  using assms by (cases b) (auto simp: read_as_Inr dest: StructSection_read_size)

lemma allocate_class_Str: "class_of (sec_body (allocate name)) = StrClass \<Longrightarrow> sec_body (allocate name) = StrBody StrSection_new"
proof -
  have "\<forall>b \<in> snd ` set emptyBodies. class_of b = StrClass \<longrightarrow> b = StrBody StrSection_new" by (simp add: emptyBodies_def)
  then have "map_of emptyBodies name = Some b \<Longrightarrow> class_of b = StrClass \<Longrightarrow> b = StrBody StrSection_new" for b
    by (metis image_eqI map_of_SomeD snd_conv)
  then show "class_of (sec_body (allocate name)) = StrClass \<Longrightarrow> sec_body (allocate name) = StrBody StrSection_new"
    by (auto simp: allocate_def split: option.splits)
qed

section \<open>Sections that survive a save\<close>

text \<open>
  A section that can be stored: it fits the signed 32-bit size field, its objects are whole, and it is not empty where
  the code takes the address of the first element. KTRG and KTGP sections are not among them.
\<close>

fun storable :: "body \<Rightarrow> bool" where
  "storable (UnitBody s) \<longleftrightarrow> 36 * length (units s) < 2 ^ 31"
| "storable (Dd2Body s) \<longleftrightarrow> 8 * length (doodads s) < 2 ^ 31"
| "storable (Thg2Body s) \<longleftrightarrow> 10 * length (sprites s) < 2 ^ 31"
| "storable (MrgnBody s) \<longleftrightarrow> wf_MrgnSection s \<and> 20 * length (locations s) < 2 ^ 31"
| "storable (TrigBody s) \<longleftrightarrow> list_all wf_Trigger (triggers s) \<and> 2400 * length (triggers s) < 2 ^ 31"
| "storable (MbrfBody s) \<longleftrightarrow> list_all wf_Trigger (briefingTriggers s) \<and> 2400 * length (briefingTriggers s) < 2 ^ 31"
| "storable (StrBody s) \<longleftrightarrow> wf_table (strings s) \<and> 1 < length (strings s) \<and> offsets_fit (strings s) \<and>
     \<not> isl (StrSection_getSize None s)"
| "storable (KstrBody s) \<longleftrightarrow> wf_table (k_strings s) \<and> base_fonts (k_strings s) \<and> 3 \<le> length (k_strings s) \<and>
     8 * length (k_strings s) + length (str_data (k_strings s)) \<le> 2147483647"
| "storable (KtrgBody s) \<longleftrightarrow> False"
| "storable (KtgpBody s) \<longleftrightarrow> False"
| "storable (MtxmBody s) \<longleftrightarrow> mtxm_tiles s \<noteq> [] \<and> 2 * length (mtxm_tiles s) < 2 ^ 31"
| "storable (TileBody s) \<longleftrightarrow> tile_tiles s \<noteq> [] \<and> 2 * length (tile_tiles s) < 2 ^ 31"
| "storable (IsomBody s) \<longleftrightarrow> isomEntries s \<noteq> [] \<and> 8 * length (isomEntries s) < 2 ^ 31"
| "storable (MaskBody s) \<longleftrightarrow> fogTiles s \<noteq> [] \<and> length (fogTiles s) < 2 ^ 31"
| "storable (StructBody sz rawData) \<longleftrightarrow> sz < 2 ^ 31"
| "storable (DataBody bytes) \<longleftrightarrow> bytes \<noteq> [] \<and> length bytes < 2 ^ 31"

text \<open>
  What a stored section comes back as: the same section, but for the strings, whose null pointers come back as
  empty strings, and the bytes behind the struct of an oversized section, which are not written.
\<close>

fun reloaded :: "body \<Rightarrow> body \<Rightarrow> bool" where
  "reloaded (StrBody s) b \<longleftrightarrow> (\<exists>s'. b = StrBody s' \<and> strings s' = None # map reread (tl (strings s)) \<and>
     tailData s' = written_tail s (stringBytes s'))"
| "reloaded (KstrBody s) b \<longleftrightarrow> (\<exists>s'. b = KstrBody s' \<and> k_version s' = KSTR_CurrentVersion \<and>
     length (k_strings s') = length (k_strings s) \<and>
     (\<forall>i. 1 \<le> i \<and> i < length (k_strings s) \<longrightarrow> str_text (k_strings s' ! i) = str_text (k_strings s ! i)))"
| "reloaded (StructBody sz rawData) b \<longleftrightarrow> b = StructBody sz (take sz rawData)"
| "reloaded b b' \<longleftrightarrow> b' = b"

text \<open>How a section is written and read back.\<close>

definition saves_as :: "body \<Rightarrow> body \<Rightarrow> string \<Rightarrow> bool" where
  "saves_as b fresh bytes \<longleftrightarrow> (\<exists>b1 b2. body_getSize Scenario_saver b = Inr (int (length bytes), b1) \<and>
    body_write Scenario_saver b1 = Inr (bytes, b2)) \<and> length bytes < 2 ^ 31 \<and>
    (\<forall>rest. \<exists>b'. body_read (int (length bytes)) (bytes @ rest) False fresh = Inr (length bytes, rest, b') \<and> reloaded b b')"

lemma saves_as_objs:
  assumes "storable b" "class_of fresh = class_of b" "class_of b \<in> {UnitClass, Dd2Class, Thg2Class, TrigClass, MbrfClass}"
  shows "\<exists>bytes. saves_as b fresh bytes"
proof (cases b)
  case (UnitBody s)
  then show ?thesis using assms unit_codec.objs_read_write [of "units s" False]
    by (cases fresh; intro exI [of _ "UnitSection_write s"])
      (auto simp: saves_as_def read_as_def UnitSection_read_def UnitSection_getSize_def UnitSection_write_def toSectionSize_small
        unit_codec.length_enc_array)
next
  case (Dd2Body s)
  then show ?thesis using assms doodad_codec.objs_read_write [of "doodads s" False]
    by (cases fresh; intro exI [of _ "Dd2Section_write s"])
      (auto simp: saves_as_def read_as_def Dd2Section_read_def Dd2Section_getSize_def Dd2Section_write_def toSectionSize_small
        doodad_codec.length_enc_array)
next
  case (Thg2Body s)
  then show ?thesis using assms sprite_codec.objs_read_write [of "sprites s" False]
    by (cases fresh; intro exI [of _ "Thg2Section_write s"])
      (auto simp: saves_as_def read_as_def Thg2Section_read_def Thg2Section_getSize_def Thg2Section_write_def toSectionSize_small
        sprite_codec.length_enc_array)
next
  case (TrigBody s)
  then have "\<forall>t\<in>set (triggers s). wf_Trigger t" using assms by (simp add: list_all_iff)
  then show ?thesis using TrigBody assms trigger_codec.objs_read_write [of "triggers s" False]
    by (cases fresh; intro exI [of _ "TrigSection_write s"])
      (auto simp: saves_as_def read_as_def TrigSection_read_def TrigSection_getSize_def TrigSection_write_def toSectionSize_small
        trigger_codec.length_enc_array)
next
  case (MbrfBody s)
  then have "\<forall>t\<in>set (briefingTriggers s). wf_Trigger t" using assms by (simp add: list_all_iff)
  then show ?thesis using MbrfBody assms trigger_codec.objs_read_write [of "briefingTriggers s" False]
    by (cases fresh; intro exI [of _ "MbrfSection_write s"])
      (auto simp: saves_as_def read_as_def MbrfSection_read_def MbrfSection_getSize_def MbrfSection_write_def toSectionSize_small
        trigger_codec.length_enc_array)
qed (use assms in auto)

lemma saves_as_tiles:
  assumes "storable b" "class_of fresh = class_of b" "class_of b \<in> {MtxmClass, TileClass, IsomClass, MaskClass}"
  shows "\<exists>bytes. saves_as b fresh bytes"
proof (cases b)
  case (MtxmBody s)
  obtain s0 where "fresh = MtxmBody s0" using assms(2) MtxmBody by (cases fresh) auto
  then show ?thesis using assms(1) MtxmBody tile_codec.tiles_read_write [of "mtxm_tiles s" "mtxm_tiles s0" 0 False False]
    by (intro exI [of _ "enc_array enc_u16 (mtxm_tiles s)"])
      (simp add: saves_as_def read_as_def MtxmSection_read_def MtxmSection_getSize_def MtxmSection_write_def write_vec_def
        toSectionSize_small tile_codec.length_enc_array)
next
  case (TileBody s)
  obtain s0 where "fresh = TileBody s0" using assms(2) TileBody by (cases fresh) auto
  then show ?thesis using assms(1) TileBody tile_codec.tiles_read_write [of "tile_tiles s" "tile_tiles s0" 0 False False]
    by (intro exI [of _ "enc_array enc_u16 (tile_tiles s)"])
      (simp add: saves_as_def read_as_def TileSection_read_def TileSection_getSize_def TileSection_write_def write_vec_def
        toSectionSize_small tile_codec.length_enc_array)
next
  case (IsomBody s)
  obtain s0 where "fresh = IsomBody s0" using assms(2) IsomBody by (cases fresh) auto
  then show ?thesis using assms(1) IsomBody isom_codec.objs_read_write [of "isomEntries s" False]
    by (intro exI [of _ "enc_array enc_IsomEntry (isomEntries s)"])
      (simp add: saves_as_def read_as_def IsomSection_read_def IsomSection_getSize_def IsomSection_write_def write_vec_def
        toSectionSize_small isom_codec.length_enc_array)
next
  case (MaskBody s)
  obtain s0 where "fresh = MaskBody s0" using assms(2) MaskBody by (cases fresh) auto
  then show ?thesis using assms(1) MaskBody fog_codec.tiles_read_write [of "fogTiles s" "fogTiles s0" 0 False False]
    by (intro exI [of _ "enc_array enc_u8 (fogTiles s)"])
      (simp add: saves_as_def read_as_def MaskSection_read_def MaskSection_getSize_def MaskSection_write_def write_vec_def
        toSectionSize_small fog_codec.length_enc_array)
qed (use assms in auto)

lemma saves_as_Mrgn:
  assumes "storable (MrgnBody s)" "class_of fresh = MrgnClass"
  shows "\<exists>bytes. saves_as (MrgnBody s) fresh bytes"
proof -
  obtain s0 where f: "fresh = MrgnBody s0" using assms(2) by (cases fresh) auto
  obtain out where out: "MrgnSection_write s = Inr out" "MrgnSection_getSize s = int (length out)"
    using MrgnSection_written_read [of s] assms(1) by auto
  have "length out < 2 ^ 31"
    using out assms(1) by (auto simp: MrgnSection_write_def wf_MrgnSection_iff location_codec.length_enc_array)
  moreover have "MrgnSection_read (int (length out)) (out @ rest) False s0 = Inr (length out, rest, s)" for rest
    using MrgnSection_written_read [of s rest s0] assms(1) out by (auto simp: )
  ultimately show ?thesis using out by (intro exI [of _ out]) (simp add: saves_as_def f read_as_def)
qed

lemma StrSection_synchronizer_default:
  "StrSection_getSize (Some Strings_syncStringsToBytes) s = StrSection_getSize None s"
  "StrSection_write (Some Strings_syncStringsToBytes) s = StrSection_write None s"
  by (simp_all add: StrSection_getSize_def StrSection_write_def StrSection_syncStringsToBytes_def)

lemma StrSection_write_again:
  "StrSection_write None s = Inr (out, s') \<Longrightarrow> StrSection_write None s' = Inr (out, s')"
  by (auto simp: StrSection_write_def StrSection_syncStringsToBytes_def bind_result_eq_Inr Let_def)

lemma saves_as_Str:
  assumes "storable (StrBody s)"
  shows "\<exists>bytes. saves_as (StrBody s) (StrBody StrSection_new) bytes"
proof -
  obtain n s1 where g: "StrSection_getSize None s = Inr (n, s1)"
    using assms by (cases "StrSection_getSize None s") auto
  then obtain out where out: "StrSection_write None s = Inr (out, s1)" "length out = n" "n < 2 ^ 31"
    using StrSection_size_is_written by blast
  have "\<exists>b'. body_read (int (length out)) (out @ rest) False (StrBody StrSection_new) = Inr (length out, rest, b') \<and>
      reloaded (StrBody s) b'" for rest
  proof -
    obtain loaded where "StrSection_read (int (length out)) (out @ rest) False StrSection_new = Inr (length out, rest, loaded)"
      "strings loaded = None # map reread (tl (strings s))" "tailData loaded = written_tail s (stringBytes loaded)"
      using StrSection_written_read [of s out s1 rest] assms out(1) by auto
    then show ?thesis by (intro exI [of _ "StrBody loaded"]) (simp add: read_as_def)
  qed
  moreover have "body_getSize Scenario_saver (StrBody s) = Inr (int (length out), StrBody s1)"
    "body_write Scenario_saver (StrBody s1) = Inr (out, StrBody s1)"
    using g out StrSection_write_again [OF out(1)] by (simp_all add: Scenario_saver_def StrSection_synchronizer_default)
  ultimately show ?thesis using out(2,3) unfolding saves_as_def by blast
qed

lemma saves_as_Kstr:
  assumes "storable (KstrBody s)" "class_of fresh = KstrClass"
  shows "\<exists>bytes. saves_as (KstrBody s) fresh bytes"
proof -
  obtain s0 where f: "fresh = KstrBody s0" using assms(2) by (cases fresh) auto
  have k: "\<exists>bytes sec'. Strings_syncKstringsToBytes (k_strings s) = Inr bytes \<and>
      KstrSection_read (int (length bytes)) (bytes @ rest) s0 = Inr (length bytes, rest, sec') \<and> reloaded (KstrBody s) (KstrBody sec')" for rest
    using kstr_written_read [of "k_strings s" rest s0] assms(1) by auto
  then obtain bytes where b: "Strings_syncKstringsToBytes (k_strings s) = Inr bytes" by blast
  have "length bytes \<le> 2147483647"
    using syncKstrings_layout [of "k_strings s"] assms(1) b by (auto simp: kheader_ok_def)
  moreover have "\<exists>b'. body_read (int (length bytes)) (bytes @ rest) False fresh = Inr (length bytes, rest, b') \<and>
      reloaded (KstrBody s) b'" for rest using k [of rest] b by (auto simp: f read_as_def simp del: reloaded.simps)
  moreover have "body_getSize Scenario_saver (KstrBody s) = Inr (int (length bytes), KstrBody (s\<lparr>k_stringBytes := bytes\<rparr>))"
    "body_write Scenario_saver (KstrBody (s\<lparr>k_stringBytes := bytes\<rparr>)) = Inr (bytes, KstrBody (s\<lparr>k_stringBytes := bytes\<rparr>))"
    using b calculation(1) by (simp_all add: Scenario_saver_def KstrSection_getSize_def KstrSection_write_def KstrSection_syncStringsToBytes_def)
  ultimately show ?thesis unfolding saves_as_def by (intro exI conjI) (blast | simp)+
qed

lemma saves_as_Struct:
  assumes "sz < 2 ^ 31" "sz \<le> length rawData" "class_of fresh = StructClass sz"
  shows "saves_as (StructBody sz rawData) fresh (take sz rawData)"
proof -
  obtain raw0 where f: "fresh = StructBody sz raw0" using assms(3) by (cases fresh) auto
  have "StructSection_read (int (length (take sz rawData))) (take sz rawData @ rest) sz = Inr (length (take sz rawData), rest, take sz rawData)" for rest
    unfolding StructSection_read_def using assms(2) by (simp only: nat_int stream_read_all) simp
  then show ?thesis using assms(1,2) by (simp add: saves_as_def f read_as_def StructSection_write_def min_absorb2)
qed

lemma saves_as_Data:
  assumes "storable (DataBody bytes)" "class_of fresh = DataClass"
  shows "saves_as (DataBody bytes) fresh bytes"
proof -
  obtain raw0 where f: "fresh = DataBody raw0" using assms(2) by (cases fresh) auto
  have "DataSection_read (int (length bytes)) (bytes @ rest) = Inr (length bytes, rest, bytes)" for rest
    unfolding DataSection_read_def using assms(1) by (simp only: nat_int stream_read_all) simp
  then show ?thesis using assms(1) by (simp add: saves_as_def f read_as_def DataSection_write_def toSectionSize_small)
qed

lemma body_saves:
  assumes "storable (sec_body sec)" "typed sec"
  shows "\<exists>bytes. saves_as (sec_body sec) (sec_body (allocate (sec_name sec))) bytes"
proof -
  let ?fresh = "sec_body (allocate (sec_name sec))"
  have c: "class_of ?fresh = class_of (sec_body sec)" "sized (sec_body sec)" using assms(2) by (simp_all add: typed_def)
  show ?thesis
  proof (cases "sec_body sec")
    case (StrBody s)
    then show ?thesis using saves_as_Str assms(1) allocate_class_Str c(1) by simp
  next
    case (StructBody sz raw)
    then show ?thesis using saves_as_Struct [of sz raw ?fresh] assms(1) c by auto
  next
    case (DataBody bytes)
    then show ?thesis using saves_as_Data [of bytes ?fresh] assms(1) c(1) by auto
  qed (use saves_as_objs [OF assms(1) c(1)] saves_as_tiles [OF assms(1) c(1)] saves_as_Mrgn [of _ ?fresh] saves_as_Kstr [of _ ?fresh]
      assms(1) c(1) in auto)
qed

end
