(* ===== verification/Sha256.thy ===== *)
theory Sha256
  imports Complex_Main Structs
begin

unbundle bit_operations_syntax

text \<open>
  The hash behind the password of a scenario (\<open>src/MappingCoreLib/sha256.cpp\<close>): a streaming SHA-256 that keeps
  up to 63 bytes in a buffer, works on its registers in an unrolled loop of eight rounds of eight lines, and
  pads the message in its buffer and a second block. The theory gives the algorithm of FIPS 180-4 as a
  reference on whole messages and shows that the class computes it, however the message is cut into pieces.
\<close>

section \<open>The code\<close>

definition BlockSize :: nat where "BlockSize = 64"

record SHA256 =
  m_numBytes :: u64
  m_bufferSize :: nat
  m_buffer :: string
  m_hash :: "u32 list"

definition initialHash :: "u32 list" where
  "initialHash = [0x6a09e667, 0xbb67ae85, 0x3c6ef372, 0xa54ff53a, 0x510e527f, 0x9b05688c, 0x1f83d9ab, 0x5be0cd19]"

definition SHA256_reset :: "SHA256 \<Rightarrow> SHA256" where
  "SHA256_reset s = s\<lparr>m_numBytes := 0, m_bufferSize := 0, m_hash := initialHash\<rparr>"

definition rotate_right :: "u32 \<Rightarrow> nat \<Rightarrow> u32" where
  "rotate_right a c = drop_bit c a OR push_bit (32 - c) a"

definition swap_bytes :: "u32 \<Rightarrow> u32" where
  "swap_bytes x = drop_bit 24 x OR (drop_bit 8 x AND 0xFF00) OR (push_bit 8 x AND 0xFF0000) OR push_bit 24 x"

definition f1 :: "u32 \<Rightarrow> u32 \<Rightarrow> u32 \<Rightarrow> u32" where
  "f1 e f g =
    (let term1 = rotate_right e 6 XOR rotate_right e 11 XOR rotate_right e 25;
         term2 = (e AND f) XOR (NOT e AND g)
     in term1 + term2)"

definition f2 :: "u32 \<Rightarrow> u32 \<Rightarrow> u32 \<Rightarrow> u32" where
  "f2 a b c =
    (let term1 = rotate_right a 2 XOR rotate_right a 13 XOR rotate_right a 22;
         term2 = ((a OR b) AND c) OR (a AND b)
     in term1 + term2)"

text \<open>The constants of the 64 lines.\<close>

definition K :: "u32 list" where
  "K = concat [
    [0x428a2f98, 0x71374491, 0xb5c0fbcf, 0xe9b5dba5, 0x3956c25b, 0x59f111f1, 0x923f82a4, 0xab1c5ed5],
    [0xd807aa98, 0x12835b01, 0x243185be, 0x550c7dc3, 0x72be5d74, 0x80deb1fe, 0x9bdc06a7, 0xc19bf174],
    [0xe49b69c1, 0xefbe4786, 0x0fc19dc6, 0x240ca1cc, 0x2de92c6f, 0x4a7484aa, 0x5cb0a9dc, 0x76f988da],
    [0x983e5152, 0xa831c66d, 0xb00327c8, 0xbf597fc7, 0xc6e00bf3, 0xd5a79147, 0x06ca6351, 0x14292967],
    [0x27b70a85, 0x2e1b2138, 0x4d2c6dfc, 0x53380d13, 0x650a7354, 0x766a0abb, 0x81c2c92e, 0x92722c85],
    [0xa2bfe8a1, 0xa81a664b, 0xc24b8b70, 0xc76c51a3, 0xd192e819, 0xd6990624, 0xf40e3585, 0x106aa070],
    [0x19a4c116, 0x1e376c08, 0x2748774c, 0x34b0bcb5, 0x391c0cb3, 0x4ed8aa4a, 0x5b9cca4f, 0x682e6ff3],
    [0x748f82ee, 0x78a5636f, 0x84c87814, 0x8cc70208, 0x90befffa, 0xa4506ceb, 0xbef9a3f7, 0xc67178f2]]"

type_synonym regs = "u32 \<times> u32 \<times> u32 \<times> u32 \<times> u32 \<times> u32 \<times> u32 \<times> u32"

text \<open>One line of a round: \<open>x = h + f1(e,f,g) + k + w; y = f2(a,b,c); d += x; h = x + y\<close>.\<close>

definition sha_line :: "u32 \<Rightarrow> u32 \<Rightarrow> u32 \<Rightarrow> u32 \<Rightarrow> u32 \<Rightarrow> u32 \<Rightarrow> u32 \<Rightarrow> u32 \<Rightarrow> u32 \<Rightarrow> u32 \<Rightarrow> u32 \<times> u32" where
  "sha_line k w a b c d e f g h =
    (let x = h + f1 e f g + k + w; y = f2 a b c in (d + x, x + y))"

text \<open>The eight lines of round \<open>r\<close>, each with its own assignment of the registers.\<close>

definition sha_round :: "u32 list \<Rightarrow> nat \<Rightarrow> regs \<Rightarrow> regs" where
  "sha_round words r = (\<lambda>(a, b, c, d, e, f, g, h).
    (
     let (d, h) = sha_line (K ! (8 * r + 0)) (words ! (8 * r + 0)) a b c d e f g h in
     let (c, g) = sha_line (K ! (8 * r + 1)) (words ! (8 * r + 1)) h a b c d e f g in
     let (b, f) = sha_line (K ! (8 * r + 2)) (words ! (8 * r + 2)) g h a b c d e f in
     let (a, e) = sha_line (K ! (8 * r + 3)) (words ! (8 * r + 3)) f g h a b c d e in
     let (h, d) = sha_line (K ! (8 * r + 4)) (words ! (8 * r + 4)) e f g h a b c d in
     let (g, c) = sha_line (K ! (8 * r + 5)) (words ! (8 * r + 5)) d e f g h a b c in
     let (f, b) = sha_line (K ! (8 * r + 6)) (words ! (8 * r + 6)) c d e f g h a b in
     let (e, a) = sha_line (K ! (8 * r + 7)) (words ! (8 * r + 7)) b c d e f g h a in
     (a, b, c, d, e, f, g, h)))"

definition extend :: "u32 list \<Rightarrow> u32 list" where
  "extend words =
    (let i = length words in
     words @ [words ! (i - 16) +
       (rotate_right (words ! (i - 15)) 7 XOR rotate_right (words ! (i - 15)) 18 XOR drop_bit 3 (words ! (i - 15))) +
       words ! (i - 7) +
       (rotate_right (words ! (i - 2)) 17 XOR rotate_right (words ! (i - 2)) 19 XOR drop_bit 10 (words ! (i - 2)))])"

definition input_words :: "string \<Rightarrow> u32 list" where
  "input_words block = map (\<lambda>i. swap_bytes (dec_u32 block (4 * i))) [0..<16]"

text \<open>From the third round on the words are extended by eight before each round.\<close>

definition extend_and_round :: "u32 list \<times> regs \<Rightarrow> nat \<Rightarrow> u32 list \<times> regs" where
  "extend_and_round st r = (case st of (words, regs) \<Rightarrow>
    let words = (extend ^^ 8) words in (words, sha_round words r regs))"

definition regs_of :: "u32 list \<Rightarrow> regs" where
  "regs_of hs = (hs ! 0, hs ! 1, hs ! 2, hs ! 3, hs ! 4, hs ! 5, hs ! 6, hs ! 7)"

definition add_regs :: "u32 list \<Rightarrow> regs \<Rightarrow> u32 list" where
  "add_regs hs = (\<lambda>(a, b, c, d, e, f, g, h).
    [hs ! 0 + a, hs ! 1 + b, hs ! 2 + c, hs ! 3 + d, hs ! 4 + e, hs ! 5 + f, hs ! 6 + g, hs ! 7 + h])"

definition processBlock :: "string \<Rightarrow> u32 list \<Rightarrow> u32 list" where
  "processBlock block hs =
    (let words = input_words block;
         regs = sha_round words 1 (sha_round words 0 (regs_of hs))
     in add_regs hs (snd (foldl extend_and_round (words, regs) [2..<8])))"

text \<open>\<open>m_buffer[m_bufferSize++] = *current++\<close> for a number of bytes.\<close>

definition fill :: "string \<Rightarrow> SHA256 \<Rightarrow> SHA256" where
  "fill bytes s = s\<lparr>m_buffer := take (m_bufferSize s) (m_buffer s) @ bytes @ drop (m_bufferSize s + length bytes) (m_buffer s),
     m_bufferSize := m_bufferSize s + length bytes\<rparr>"

definition flushFull :: "SHA256 \<Rightarrow> SHA256" where
  "flushFull s = (if m_bufferSize s = BlockSize
     then s\<lparr>m_hash := processBlock (m_buffer s) (m_hash s), m_numBytes := m_numBytes s + of_nat BlockSize, m_bufferSize := 0\<rparr>
     else s)"

text \<open>The loop over the full blocks of the data and what it leaves.\<close>

function fullBlocks :: "string \<Rightarrow> SHA256 \<Rightarrow> string \<times> SHA256" where
  "fullBlocks bytes s =
    (if length bytes \<ge> BlockSize
     then fullBlocks (drop BlockSize bytes)
       (s\<lparr>m_hash := processBlock (take BlockSize bytes) (m_hash s), m_numBytes := m_numBytes s + of_nat BlockSize\<rparr>)
     else (bytes, s))"
  by pat_completeness auto

termination
  by (relation "measure (\<lambda>(bytes, _). length bytes)") (auto simp: BlockSize_def)

definition SHA256_add :: "string \<Rightarrow> SHA256 \<Rightarrow> SHA256" where
  "SHA256_add bytes s =
    (let n = (if m_bufferSize s > 0 then min (length bytes) (BlockSize - m_bufferSize s) else 0);
         s = flushFull (fill (take n bytes) s);
         bytes = drop n bytes
     in if bytes = [] then s
        else (case fullBlocks bytes s of (bytes, s) \<Rightarrow> fill bytes s))"

text \<open>The bytes of a number, the most significant first.\<close>

definition be64 :: "u64 \<Rightarrow> string" where
  "be64 w = map (\<lambda>i. to_byte (unat (drop_bit (56 - 8 * i) w AND 0xFF))) [0..<8]"

definition be32 :: "u32 \<Rightarrow> string" where
  "be32 w = map (\<lambda>i. to_byte (unat (drop_bit (24 - 8 * i) w AND 0xFF))) [0..<4]"

text \<open>
  \<open>m_buffer\<close> and \<open>extra\<close> as the padding leaves them: a byte 128 behind the message, zeros up to \<open>paddedLength\<close>, and
  there the length in bits. Bytes of \<open>extra\<close> are read only when the padding reaches them.
\<close>

definition paddedLength :: "nat \<Rightarrow> nat" where
  "paddedLength bufferSize =
    (let paddedLength = bufferSize * 8 + 1;
         lower11Bits = paddedLength mod 512
     in (if lower11Bits \<le> 448 then paddedLength + (448 - lower11Bits) else paddedLength + (512 + 448 - lower11Bits)) div 8)"

definition SHA256_processBuffer :: "SHA256 \<Rightarrow> SHA256" where
  "SHA256_processBuffer s =
    (let n = m_bufferSize s;
         padded = paddedLength n;
         buffer = take n (m_buffer s) @ (if n < BlockSize then to_byte 128 # replicate (BlockSize - (n + 1)) (to_byte 0) else []);
         extra = (if n < BlockSize then replicate (padded - BlockSize) (to_byte 0)
                  else to_byte 128 # replicate (padded - (BlockSize + 1)) (to_byte 0));
         msgBits = 8 * (m_numBytes s + of_nat n);
         buffer = (if padded < BlockSize then take padded buffer @ be64 msgBits else buffer);
         extra = (if padded < BlockSize then extra else extra @ be64 msgBits);
         hs = processBlock buffer (m_hash s)
     in s\<lparr>m_buffer := buffer, m_hash := (if padded > BlockSize then processBlock extra hs else hs)\<rparr>)"

definition SHA256_rawHash :: "SHA256 \<Rightarrow> string" where
  "SHA256_rawHash s = concat (map be32 (m_hash (SHA256_processBuffer s)))"

definition dec2hex :: string where "dec2hex = ''0123456789abcdef''"

definition hex :: "string \<Rightarrow> string" where
  "hex bytes = concat (map (\<lambda>c. [dec2hex ! (byte c div 16 mod 16), dec2hex ! (byte c mod 16)]) bytes)"

text \<open>The string of the hash, and the object with its old hash restored; the buffer keeps the padding.\<close>

definition SHA256_getHash :: "SHA256 \<Rightarrow> string \<times> SHA256" where
  "SHA256_getHash s = (hex (SHA256_rawHash s), (SHA256_processBuffer s)\<lparr>m_hash := m_hash s\<rparr>)"

definition SHA256_hash :: "string \<Rightarrow> SHA256 \<Rightarrow> string \<times> SHA256" where
  "SHA256_hash msg s = SHA256_getHash (SHA256_add msg (SHA256_reset s))"

section \<open>The reference\<close>

text \<open>
  The constants of FIPS 180-4, sections 4.2.2 and 5.3.3: the first 32 bits of the fractional parts of the cube roots of the
  first 64 primes, and of the square roots of the first 8.
\<close>

definition primes :: "nat list" where
  "primes = [2, 3, 5, 7, 11, 13, 17, 19, 23, 29, 31, 37, 41, 43, 47, 53,
    59, 61, 67, 71, 73, 79, 83, 89, 97, 101, 103, 107, 109, 113, 127, 131,
    137, 139, 149, 151, 157, 163, 167, 173, 179, 181, 191, 193, 197, 199, 211, 223,
    227, 229, 233, 239, 241, 251, 257, 263, 269, 271, 277, 281, 283, 293, 307, 311]"

definition fips_K :: "nat \<Rightarrow> u32" where
  "fips_K t = word_of_int \<lfloor>root 3 (real (primes ! t)) * 2 ^ 32\<rfloor>"

definition fips_H0 :: "u32 list" where
  "fips_H0 = map (\<lambda>p. word_of_int \<lfloor>sqrt (real p) * 2 ^ 32\<rfloor>) (take 8 primes)"

text \<open>The functions, the message schedule and the compression, section 6.2.\<close>

definition Ch :: "u32 \<Rightarrow> u32 \<Rightarrow> u32 \<Rightarrow> u32" where
  "Ch x y z = (x AND y) XOR (NOT x AND z)"

definition Maj :: "u32 \<Rightarrow> u32 \<Rightarrow> u32 \<Rightarrow> u32" where
  "Maj x y z = (x AND y) XOR (x AND z) XOR (y AND z)"

definition Sigma0 :: "u32 \<Rightarrow> u32" where
  "Sigma0 x = rotate_right x 2 XOR rotate_right x 13 XOR rotate_right x 22"

definition Sigma1 :: "u32 \<Rightarrow> u32" where
  "Sigma1 x = rotate_right x 6 XOR rotate_right x 11 XOR rotate_right x 25"

definition sigma0 :: "u32 \<Rightarrow> u32" where
  "sigma0 x = rotate_right x 7 XOR rotate_right x 18 XOR drop_bit 3 x"

definition sigma1 :: "u32 \<Rightarrow> u32" where
  "sigma1 x = rotate_right x 17 XOR rotate_right x 19 XOR drop_bit 10 x"

text \<open>The big-endian word \<open>t\<close> of a block.\<close>

definition be_word :: "string \<Rightarrow> nat \<Rightarrow> u32" where
  "be_word block t = of_nat (((byte (block ! (4 * t)) * 256 + byte (block ! (4 * t + 1))) * 256
     + byte (block ! (4 * t + 2))) * 256 + byte (block ! (4 * t + 3)))"

function schedule :: "string \<Rightarrow> nat \<Rightarrow> u32" where
  "schedule block t =
    (if t < 16 then be_word block t
     else sigma1 (schedule block (t - 2)) + schedule block (t - 7) + sigma0 (schedule block (t - 15)) + schedule block (t - 16))"
  by pat_completeness auto

termination
  by (relation "measure snd") auto

declare schedule.simps [simp del]

definition compress_step :: "string \<Rightarrow> regs \<Rightarrow> nat \<Rightarrow> regs" where
  "compress_step block = (\<lambda>(a, b, c, d, e, f, g, h) t.
    let T1 = h + Sigma1 e + Ch e f g + fips_K t + schedule block t;
        T2 = Sigma0 a + Maj a b c
    in (T1 + T2, a, b, c, d + T1, e, f, g))"

definition compress :: "u32 list \<Rightarrow> string \<Rightarrow> u32 list" where
  "compress hs block = add_regs hs (foldl (compress_step block) (regs_of hs) [0..<64])"

text \<open>The padding of section 5.1.1 and the blocks of the padded message.\<close>

definition pad :: "string \<Rightarrow> string" where
  "pad msg = msg @ to_byte 128 # replicate (nat ((55 - int (length msg)) mod 64)) (to_byte 0) @ be64 (of_nat (8 * length msg))"

fun blocks :: "nat \<Rightarrow> string \<Rightarrow> string list" where
  "blocks 0 bytes = []"
| "blocks (Suc n) bytes = take 64 bytes # blocks n (drop 64 bytes)"

definition sha256_blocks :: "u32 list \<Rightarrow> string \<Rightarrow> u32 list" where
  "sha256_blocks hs bytes = foldl compress hs (blocks (length bytes div 64) bytes)"

definition sha256 :: "string \<Rightarrow> string" where
  "sha256 msg = concat (map be32 (sha256_blocks fips_H0 (pad msg)))"

section \<open>The constants\<close>

lemma floor_root_scaled:
  assumes "0 < n" "int c ^ n \<le> int p * 2 ^ (32 * n)" "int p * 2 ^ (32 * n) < int (Suc c) ^ n"
  shows "\<lfloor>root n (real p) * 2 ^ 32\<rfloor> = int c"
proof -
  let ?x = "root n (real p) * 2 ^ 32"
  have pos: "0 \<le> ?x" using assms(1) by simp
  have pow: "?x ^ n = real_of_int (int p * 2 ^ (32 * n))"
    using assms(1) by (simp add: power_mult_distrib power_mult)
  have "real c ^ n \<le> ?x ^ n" unfolding pow using assms(2) by (metis of_int_le_iff of_int_of_nat_eq of_int_power)
  then have "real c \<le> ?x" using power_strict_mono [of ?x "real c" n] assms(1) pos by linarith
  moreover have "?x ^ n < real (Suc c) ^ n" unfolding pow using assms(3) by (metis of_int_less_iff of_int_of_nat_eq of_int_power)
  then have "?x < real (Suc c)" using pos by (metis of_nat_0_le_iff power_less_imp_less_base)
  ultimately show ?thesis by (simp add: floor_eq_iff)
qed

text \<open>The integer part \<open>i\<close> of the root of \<open>p\<close>, and its first 32 fractional bits \<open>k\<close>.\<close>

definition root_bits :: "nat \<Rightarrow> nat \<Rightarrow> nat \<Rightarrow> u32 \<Rightarrow> bool" where
  "root_bits n p i k \<longleftrightarrow> (let c = int i * 2 ^ 32 + uint k in c ^ n \<le> int p * 2 ^ (32 * n) \<and> int p * 2 ^ (32 * n) < (c + 1) ^ n)"

lemma root_bits_floor:
  assumes "root_bits n p i k" "0 < n"
  shows "word_of_int \<lfloor>root n (real p) * 2 ^ 32\<rfloor> = k"
proof -
  define c where "c = i * 2 ^ 32 + unat k"
  have c: "int c = int i * 2 ^ 32 + uint k" by (simp add: c_def)
  have "\<lfloor>root n (real p) * 2 ^ 32\<rfloor> = int c"
    using assms by (intro floor_root_scaled) (simp_all add: root_bits_def Let_def c ac_simps)
  moreover have "word_of_int (int i * 2 ^ 32 + uint k) = k"
  proof -
    have overflow: "(4294967296 :: u32) = 0" by simp
    show ?thesis by (simp add: overflow)
  qed
  ultimately show ?thesis by (simp only: c)
qed

lemma K_root_bits:
  "list_all2 (\<lambda>p k. root_bits 3 p (if p < 8 then 1 else if p < 27 then 2 else if p < 64 then 3 else if p < 125 then 4 else if p < 216 then 5 else 6) k) primes K"
  by (simp add: primes_def K_def root_bits_def Let_def)

lemma fips_K:
  assumes "t < 64"
  shows "fips_K t = K ! t"
proof -
  have "t < length primes" using assms by (simp add: primes_def)
  from list_all2_nthD [OF K_root_bits this] show ?thesis unfolding fips_K_def by (rule root_bits_floor) simp
qed

lemma H0_root_bits:
  "list_all2 (\<lambda>p k. root_bits 2 p (if p < 4 then 1 else if p < 9 then 2 else if p < 16 then 3 else 4) k) (take 8 primes) initialHash"
  by (simp add: primes_def initialHash_def root_bits_def Let_def)

lemma fips_H0: "fips_H0 = initialHash"
proof -
  have "map (\<lambda>p. word_of_int \<lfloor>root 2 (real p) * 2 ^ 32\<rfloor>) ps = ks"
    if "list_all2 (\<lambda>p k. root_bits 2 p (i p) k) ps ks" for ps i and ks :: "u32 list"
    using that by (induction rule: list_all2_induct) (simp_all only: list.map root_bits_floor zero_less_numeral)
  from this [OF H0_root_bits] show ?thesis by (simp only: fips_H0_def sqrt_def)
qed

lemma sha256_eq: "sha256 msg = concat (map be32 (sha256_blocks initialHash (pad msg)))"
  by (simp add: sha256_def fips_H0)

section \<open>One block\<close>

lemma f1_spec: "f1 e f g = Sigma1 e + Ch e f g"
  by (simp add: f1_def Sigma1_def Ch_def)

lemma f2_spec: "f2 a b c = Sigma0 a + Maj a b c"
proof -
  have "((a OR b) AND c) OR (a AND b) = Maj a b c"
    unfolding Maj_def by (rule bit_word_eqI) (auto simp: bit_simps)
  then show ?thesis by (simp add: f2_def Sigma0_def)
qed

lemma line_step:
  assumes "sha_line (K ! t) (schedule block t) a b c d e f g h = (d', h')" "t < 64"
  shows "compress_step block (a, b, c, d, e, f, g, h) t = (h', a, b, c, d', e, f, g)"
  using assms by (auto simp: sha_line_def compress_step_def Let_def f1_spec f2_spec fips_K algebra_simps)

lemma sha_round_steps:
  assumes "\<forall>i<8. words ! (8 * r + i) = schedule block (8 * r + i)" "r < 8"
  shows "sha_round words r s = foldl (compress_step block) s [8 * r..<8 * r + 8]"
proof -
  obtain a b c d e f g h where s: "s = (a, b, c, d, e, f, g, h)" by (cases s) auto
  have w: "words ! (8 * r + 0) = schedule block (8 * r + 0)" "words ! (8 * r + 1) = schedule block (8 * r + 1)"
    "words ! (8 * r + 2) = schedule block (8 * r + 2)" "words ! (8 * r + 3) = schedule block (8 * r + 3)"
    "words ! (8 * r + 4) = schedule block (8 * r + 4)" "words ! (8 * r + 5) = schedule block (8 * r + 5)"
    "words ! (8 * r + 6) = schedule block (8 * r + 6)" "words ! (8 * r + 7) = schedule block (8 * r + 7)"
    by (rule assms(1) [rule_format], simp)+
  let ?line = "\<lambda>i. sha_line (K ! (8 * r + i)) (schedule block (8 * r + i))"
  obtain d1 h1 where 0: "?line 0 a b c d e f g h = (d1, h1)" by fastforce
  obtain c1 g1 where 1: "?line 1 h1 a b c d1 e f g = (c1, g1)" by fastforce
  obtain b1 f1 where 2: "?line 2 g1 h1 a b c1 d1 e f = (b1, f1)" by fastforce
  obtain a1 e1 where 3: "?line 3 f1 g1 h1 a b1 c1 d1 e = (a1, e1)" by fastforce
  obtain h2 d2 where 4: "?line 4 e1 f1 g1 h1 a1 b1 c1 d1 = (h2, d2)" by fastforce
  obtain g2 c2 where 5: "?line 5 d2 e1 f1 g1 h2 a1 b1 c1 = (g2, c2)" by fastforce
  obtain f2 b2 where 6: "?line 6 c2 d2 e1 f1 g2 h2 a1 b1 = (f2, b2)" by fastforce
  obtain e2 a2 where 7: "?line 7 b2 c2 d2 e1 f2 g2 h2 a1 = (e2, a2)" by fastforce
  note lines = 0 1 2 3 4 5 6 7
  have lt: "8 * r + 0 < 64" "8 * r + 1 < 64" "8 * r + 2 < 64" "8 * r + 3 < 64" "8 * r + 4 < 64" "8 * r + 5 < 64" "8 * r + 6 < 64"
    "8 * r + 7 < 64" using assms(2) by simp_all
  have "[8 * r..<8 * r + 8] = [8 * r + 0, 8 * r + 1, 8 * r + 2, 8 * r + 3, 8 * r + 4, 8 * r + 5, 8 * r + 6, 8 * r + 7]"
    by (simp add: upt_conv_Cons numeral_eq_Suc)
  then have "foldl (compress_step block) s [8 * r..<8 * r + 8] = (a2, b2, c2, d2, e2, f2, g2, h2)"
    by (simp only: s foldl.simps line_step [OF 0 lt(1)] line_step [OF 1 lt(2)] line_step [OF 2 lt(3)] line_step [OF 3 lt(4)]
        line_step [OF 4 lt(5)] line_step [OF 5 lt(6)] line_step [OF 6 lt(7)] line_step [OF 7 lt(8)])
  moreover have "sha_round words r s = (a2, b2, c2, d2, e2, f2, g2, h2)"
    by (simp only: s sha_round_def w lines Let_def prod.case)
  ultimately show ?thesis by simp
qed

text \<open>The words are always a beginning of the message schedule.\<close>

definition scheduled :: "string \<Rightarrow> u32 list \<Rightarrow> bool" where
  "scheduled block words \<longleftrightarrow> 16 \<le> length words \<and> (\<forall>i<length words. words ! i = schedule block i)"

lemma byte_bits: "take_bit 8 (of_nat (byte c) :: u32) = of_nat (byte c)"
  by (simp add: take_bit_of_nat) (simp add: take_bit_eq_mod byte_less)

lemma bytes_disjoint:
  assumes "take_bit 8 b0 = (b0 :: u32)" "take_bit 8 b1 = b1" "take_bit 8 b2 = b2" "take_bit 8 b3 = b3"
  shows "b0 + push_bit 8 b1 + push_bit 16 b2 + push_bit 24 b3 = b0 OR push_bit 8 b1 OR push_bit 16 b2 OR push_bit 24 b3"
proof -
  have bits: "bit b0 n \<Longrightarrow> n < 8" "bit b1 n \<Longrightarrow> n < 8" "bit b2 n \<Longrightarrow> n < 8" for n
    using assms by (metis bit_take_bit_iff)+
  have "b0 + push_bit 8 b1 = b0 OR push_bit 8 b1"
    by (rule disjunctive_add) (use bits in \<open>fastforce simp: bit_simps\<close>)
  moreover have "(b0 OR push_bit 8 b1) + push_bit 16 b2 = (b0 OR push_bit 8 b1) OR push_bit 16 b2"
    by (rule disjunctive_add) (use bits in \<open>fastforce simp: bit_simps\<close>)
  moreover have "(b0 OR push_bit 8 b1 OR push_bit 16 b2) + push_bit 24 b3 = (b0 OR push_bit 8 b1 OR push_bit 16 b2) OR push_bit 24 b3"
    by (rule disjunctive_add) (use bits in \<open>fastforce simp: bit_simps\<close>)
  ultimately show ?thesis by (simp add: or.assoc)
qed

lemma swap_bytes_or:
  assumes "take_bit 8 b0 = (b0 :: u32)" "take_bit 8 b1 = b1" "take_bit 8 b2 = b2" "take_bit 8 b3 = b3"
  shows "swap_bytes (b0 OR push_bit 8 b1 OR push_bit 16 b2 OR push_bit 24 b3) =
    b3 OR push_bit 8 b2 OR push_bit 16 b1 OR push_bit 24 b0"
proof -
  have z: "8 \<le> n \<Longrightarrow> \<not> bit b0 n" "8 \<le> n \<Longrightarrow> \<not> bit b1 n" "8 \<le> n \<Longrightarrow> \<not> bit b2 n" "8 \<le> n \<Longrightarrow> \<not> bit b3 n" for n
    using assms by (metis bit_take_bit_iff not_less)+
  have m: "0xFF00 = push_bit 8 (mask 8 :: u32)" "0xFF0000 = push_bit 16 (mask 8 :: u32)"
    by (simp_all add: mask_eq_exp_minus_1 push_bit_eq_mult)
  show ?thesis
    unfolding swap_bytes_def m
  proof (rule bit_word_eqI)
    fix n assume "n < LENGTH(32)"
    then have "n < 8 \<or> n - 8 < 8 \<and> n = (n - 8) + 8 \<or> n - 16 < 8 \<and> n = (n - 16) + 16 \<or> n - 24 < 8 \<and> n = (n - 24) + 24"
      by simp linarith
    then consider "n < 8" | r where "r < 8" "n = r + 8" | r where "r < 8" "n = r + 16" | r where "r < 8" "n = r + 24"
      by blast
    then show "bit (drop_bit 24 (b0 OR push_bit 8 b1 OR push_bit 16 b2 OR push_bit 24 b3) OR
        (drop_bit 8 (b0 OR push_bit 8 b1 OR push_bit 16 b2 OR push_bit 24 b3) AND push_bit 8 (mask 8)) OR
        (push_bit 8 (b0 OR push_bit 8 b1 OR push_bit 16 b2 OR push_bit 24 b3) AND push_bit 16 (mask 8)) OR
        push_bit 24 (b0 OR push_bit 8 b1 OR push_bit 16 b2 OR push_bit 24 b3)) n =
      bit (b3 OR push_bit 8 b2 OR push_bit 16 b1 OR push_bit 24 b0) n"
      by cases (auto simp: bit_simps z)
  qed
qed

lemma swap_bytes_dec: "swap_bytes (dec_u32 block i) = of_nat (((byte (block ! i) * 256 + byte (block ! (i + 1))) * 256
     + byte (block ! (i + 2))) * 256 + byte (block ! (i + 3)))"
proof -
  let ?b = "\<lambda>k. of_nat (byte (block ! (i + k))) :: u32"
  note b = byte_bits
  have "dec_u32 block i = ?b 0 + push_bit 8 (?b 1) + push_bit 16 (?b 2) + push_bit 24 (?b 3)"
    by (simp add: dec_u32_def push_bit_eq_mult)
  then have "swap_bytes (dec_u32 block i) = ?b 3 + push_bit 8 (?b 2) + push_bit 16 (?b 1) + push_bit 24 (?b 0)"
    by (simp only: bytes_disjoint swap_bytes_or b)
  then show ?thesis by (simp add: push_bit_eq_mult algebra_simps)
qed

lemma scheduled_input: "scheduled block (input_words block)"
  by (simp add: scheduled_def input_words_def swap_bytes_dec be_word_def schedule.simps)

lemma scheduled_extend: "scheduled block words \<Longrightarrow> scheduled block (extend words)"
proof -
  assume w: "scheduled block words"
  let ?n = "length words"
  have "\<not> ?n < 16" "\<And>k. 0 < k \<Longrightarrow> k \<le> 16 \<Longrightarrow> words ! (?n - k) = schedule block (?n - k)"
    using w by (auto simp: scheduled_def)
  then have "extend words = words @ [schedule block ?n]"
    by (simp add: extend_def Let_def schedule.simps [of block ?n] sigma0_def sigma1_def algebra_simps)
  then show ?thesis using w by (auto simp: scheduled_def nth_append less_Suc_eq)
qed

lemma length_extend [simp]: "length (extend words) = Suc (length words)"
  by (simp add: extend_def Let_def)

lemma scheduled_extend8: "scheduled block words \<Longrightarrow> scheduled block ((extend ^^ 8) words) \<and> length ((extend ^^ 8) words) = length words + 8"
  by (simp add: numeral_eq_Suc scheduled_extend)

definition steps :: "string \<Rightarrow> regs \<Rightarrow> nat \<Rightarrow> regs" where
  "steps block s n = foldl (compress_step block) s [0..<n]"

lemma round_scheduled:
  assumes "scheduled block words" "8 * r + 8 \<le> length words" "r < 8"
  shows "sha_round words r (steps block s (8 * r)) = steps block s (8 * Suc r)"
proof -
  have "sha_round words r s' = foldl (compress_step block) s' [8 * r..<8 * r + 8]" for s'
    by (rule sha_round_steps) (use assms in \<open>simp_all add: scheduled_def\<close>)
  moreover have "8 * Suc r = 8 * r + 8" "[0..<8 * r + 8] = [0..<8 * r] @ [8 * r..<8 * r + 8]"
    by (simp, rule upt_add_eq_append) simp
  ultimately show ?thesis by (simp only: steps_def foldl_append)
qed

lemma rounds_steps:
  assumes "scheduled block words" "length words = 8 * r" "r + n \<le> 8"
  shows "snd (foldl extend_and_round (words, steps block s (8 * r)) [r..<r + n]) = steps block s (8 * (r + n))"
  using assms
proof (induction n arbitrary: words r)
  case (Suc n)
  let ?words = "(extend ^^ 8) words"
  from Suc.prems have w: "scheduled block ?words" "length ?words = 8 * Suc r"
    using scheduled_extend8 [of block words] by simp_all
  have "extend_and_round (words, steps block s (8 * r)) r = (?words, steps block s (8 * Suc r))"
    unfolding extend_and_round_def Let_def prod.case using round_scheduled [OF w(1)] w(2) Suc.prems(3) by simp
  moreover have "[r..<r + Suc n] = r # [Suc r..<Suc r + n]" by (simp add: upt_conv_Cons del: upt_Suc)
  ultimately show ?case using Suc.IH [OF w] Suc.prems(3) by simp
qed simp

lemma processBlock_compress: "processBlock block hs = compress hs block"
proof -
  let ?w = "input_words block" and ?s = "regs_of hs"
  have w: "scheduled block ?w" "length ?w = 16" by (simp_all add: scheduled_input) (simp add: input_words_def)
  have "sha_round ?w 1 (sha_round ?w 0 ?s) = steps block ?s (8 * 2)"
    using round_scheduled [OF w(1), of 0 ?s] round_scheduled [OF w(1), of 1 ?s] w(2)
    by (simp add: steps_def [of _ _ 0] numeral_2_eq_2)
  moreover have "snd (foldl extend_and_round (?w, steps block ?s (8 * 2)) [2..<2 + 6]) = steps block ?s (8 * (2 + 6))"
    by (rule rounds_steps) (simp_all add: w)
  ultimately show ?thesis by (simp add: processBlock_def compress_def Let_def steps_def)
qed

section \<open>The stream of bytes\<close>

lemma sha256_blocks_block: "length block = 64 \<Longrightarrow> sha256_blocks hs block = compress hs block"
  by (simp add: sha256_blocks_def)

lemma sha256_blocks_Nil [simp]: "sha256_blocks hs [] = hs"
  by (simp add: sha256_blocks_def)

lemma blocks_append: "length xs = 64 * n \<Longrightarrow> blocks (n + m) (xs @ ys) = blocks n xs @ blocks m ys"
  by (induction n arbitrary: xs) simp_all

lemma sha256_blocks_append: "64 dvd length xs \<Longrightarrow> sha256_blocks hs (xs @ ys) = sha256_blocks (sha256_blocks hs xs) ys"
  by (auto simp: sha256_blocks_def blocks_append)

text \<open>The object has seen a message: its full blocks are in the hash, the rest is in the buffer.\<close>

definition absorbed :: "string \<Rightarrow> SHA256 \<Rightarrow> bool" where
  "absorbed msg s \<longleftrightarrow> (\<exists>full rest. msg = full @ rest \<and> 64 dvd length full \<and> length rest < 64 \<and>
    m_hash s = sha256_blocks initialHash full \<and> m_numBytes s = of_nat (length full) \<and>
    m_bufferSize s = length rest \<and> take (length rest) (m_buffer s) = rest \<and> length (m_buffer s) = 64)"

lemma absorbed_reset: "length (m_buffer s) = 64 \<Longrightarrow> absorbed [] (SHA256_reset s)"
  by (simp add: absorbed_def SHA256_reset_def)

declare fullBlocks.simps [simp del]

lemma fullBlocks_result:
  "\<exists>full rest. bytes = full @ rest \<and> 64 dvd length full \<and> length rest < 64 \<and>
    fullBlocks bytes s = (rest, s\<lparr>m_hash := sha256_blocks (m_hash s) full, m_numBytes := m_numBytes s + of_nat (length full)\<rparr>)"
proof (induction bytes s rule: fullBlocks.induct)
  case (1 bytes s)
  show ?case
  proof (cases "64 \<le> length bytes")
    case True
    let ?s = "s\<lparr>m_hash := processBlock (take BlockSize bytes) (m_hash s), m_numBytes := m_numBytes s + of_nat BlockSize\<rparr>"
    obtain full rest where f: "drop BlockSize bytes = full @ rest" "64 dvd length full" "length rest < 64"
      "fullBlocks (drop BlockSize bytes) ?s =
        (rest, ?s\<lparr>m_hash := sha256_blocks (m_hash ?s) full, m_numBytes := m_numBytes ?s + of_nat (length full)\<rparr>)"
      using 1 True by (auto simp: BlockSize_def)
    have b: "length (take 64 bytes) = 64" using True by simp
    have "sha256_blocks (m_hash s) (take 64 bytes @ full) = sha256_blocks (m_hash ?s) full"
      using b by (simp add: sha256_blocks_append sha256_blocks_block processBlock_compress BlockSize_def)
    moreover have "bytes = (take 64 bytes @ full) @ rest"
      using f(1) append_take_drop_id [of 64 bytes] by (simp add: BlockSize_def)
    moreover have "fullBlocks bytes s = fullBlocks (drop BlockSize bytes) ?s" using True by (subst fullBlocks.simps) (simp add: BlockSize_def)
    ultimately show ?thesis using f b
      by (intro exI [of _ "take 64 bytes @ full"] exI [of _ rest]) (auto simp: BlockSize_def add.assoc)
  next
    case False
    then show ?thesis by (subst fullBlocks.simps) (auto simp: BlockSize_def)
  qed
qed

lemma absorbed_whole:
  assumes "absorbed msg s" "m_bufferSize s = 0"
  shows "absorbed (msg @ bytes) (case fullBlocks bytes s of (bytes, s) \<Rightarrow> fill bytes s)"
proof -
  obtain full rest where f: "bytes = full @ rest" "64 dvd length full" "length rest < 64"
    "fullBlocks bytes s = (rest, s\<lparr>m_hash := sha256_blocks (m_hash s) full, m_numBytes := m_numBytes s + of_nat (length full)\<rparr>)"
    using fullBlocks_result by blast
  have "64 dvd length msg" "m_hash s = sha256_blocks initialHash msg" "m_numBytes s = of_nat (length msg)" "length (m_buffer s) = 64"
    using assms by (auto simp: absorbed_def)
  then show ?thesis unfolding absorbed_def f(4) fill_def prod.case
    using f(1-3) assms(2) by (intro exI [of _ "msg @ full"] exI [of _ rest]) (auto simp: sha256_blocks_append)
qed

lemma fill_absorbed:
  assumes "absorbed msg s" "m_bufferSize s + length bytes \<le> 64"
  shows "absorbed (msg @ bytes) (flushFull (fill bytes s))"
proof -
  obtain full rest where f: "msg = full @ rest" "64 dvd length full" "length rest < 64" "m_hash s = sha256_blocks initialHash full"
    "m_numBytes s = of_nat (length full)" "m_bufferSize s = length rest" "take (length rest) (m_buffer s) = rest" "length (m_buffer s) = 64"
    using assms(1) unfolding absorbed_def by blast
  show ?thesis
  proof (cases "length rest + length bytes = 64")
    case True
    then show ?thesis unfolding absorbed_def
      by (intro exI [of _ "msg @ bytes"] exI [of _ "[]"])
        (auto simp: f flushFull_def fill_def BlockSize_def processBlock_compress sha256_blocks_append sha256_blocks_block)
  next
    case False
    then show ?thesis unfolding absorbed_def using assms(2) f
      by (intro exI [of _ full] exI [of _ "rest @ bytes"]) (auto simp: flushFull_def fill_def BlockSize_def)
  qed
qed

lemma absorbed_add: "absorbed msg s \<Longrightarrow> absorbed (msg @ bytes) (SHA256_add bytes s)"
proof -
  assume a: "absorbed msg s"
  define n where "n = (if m_bufferSize s > 0 then min (length bytes) (BlockSize - m_bufferSize s) else 0)"
  let ?s = "flushFull (fill (take n bytes) s)"
  have b: "m_bufferSize s < 64" using a by (auto simp: absorbed_def)
  then have n: "m_bufferSize s + n \<le> 64" "n \<le> length bytes" by (auto simp: n_def BlockSize_def)
  then have abs: "absorbed (msg @ take n bytes) ?s" using fill_absorbed [OF a, of "take n bytes"] by simp
  show ?thesis
  proof (cases "drop n bytes = []")
    case True
    then show ?thesis using abs by (simp add: SHA256_add_def Let_def n_def [symmetric])
  next
    case False
    then have "m_bufferSize ?s = 0"
      using b by (auto simp: n_def flushFull_def fill_def BlockSize_def split: if_splits)
    from absorbed_whole [OF abs this, of "drop n bytes"] False show ?thesis
      by (simp add: SHA256_add_def Let_def n_def [symmetric])
  qed
qed

section \<open>The padding\<close>

lemma length_be64 [simp]: "length (be64 w) = 8"
  by (simp add: be64_def)

lemma paddedLength_eq: "n < 64 \<Longrightarrow> paddedLength n = (if n \<le> 55 then 56 else 120)"
proof -
  assume "n < 64"
  have "(n * 8 + 1) mod 512 = n * 8 + 1" using \<open>n < 64\<close> by simp
  then show ?thesis unfolding paddedLength_def Let_def by simp
qed

lemma pad_rest:
  assumes "64 dvd length full" "length rest < 64"
  shows "pad (full @ rest) = full @ rest @ to_byte 128 #
    replicate (if length rest \<le> 55 then 55 - length rest else 119 - length rest) (to_byte 0) @
    be64 (8 * (of_nat (length full) + of_nat (length rest)))"
proof -
  obtain k where k: "length full = 64 * k" using assms(1) by blast
  have "(55 - int (64 * k + length rest)) mod 64 = ((55 - int (length rest)) - int k * 64) mod 64"
    by (simp add: algebra_simps)
  also have "\<dots> = (55 - int (length rest)) mod 64"
    using mod_mult_self1 [of "55 - int (length rest)" "- int k" 64] by simp
  also have "\<dots> = (if length rest \<le> 55 then 55 - int (length rest) else 119 - int (length rest))"
    using assms(2) mod_add_self2 [of "55 - int (length rest)" 64] mod_pos_pos_trivial [of "119 - int (length rest)" 64]
    by (simp add: mod_pos_pos_trivial)
  finally have "nat ((55 - int (64 * k + length rest)) mod 64) = (if length rest \<le> 55 then 55 - length rest else 119 - length rest)"
    by auto
  then show ?thesis by (simp add: pad_def k)
qed

lemma rawHash_absorbed:
  assumes "absorbed msg s"
  shows "SHA256_rawHash s = sha256 msg"
proof -
  obtain full rest where f: "msg = full @ rest" "64 dvd length full" "length rest < 64" "m_hash s = sha256_blocks initialHash full"
    "m_numBytes s = of_nat (length full)" "m_bufferSize s = length rest" "take (length rest) (m_buffer s) = rest" "length (m_buffer s) = 64"
    using assms unfolding absorbed_def by blast
  let ?bits = "be64 (8 * (of_nat (length full) + of_nat (length rest)))"
  have "m_hash (SHA256_processBuffer s) = sha256_blocks initialHash (pad msg)"
  proof (cases "length rest \<le> 55")
    case True
    let ?b = "rest @ to_byte 128 # replicate (55 - length rest) (to_byte 0) @ ?bits"
    have "pad msg = full @ ?b" using True f(3) pad_rest [OF f(2,3)] by (simp add: f(1))
    moreover have "length ?b = 64" using True by simp
    moreover have "m_hash (SHA256_processBuffer s) = processBlock ?b (m_hash s)"
      using True f(3) by (simp add: SHA256_processBuffer_def Let_def f(5-7) paddedLength_eq BlockSize_def min_def take_Cons')
    ultimately show ?thesis using f(2,4) by (simp add: processBlock_compress sha256_blocks_append sha256_blocks_block)
  next
    case False
    let ?b1 = "rest @ to_byte 128 # replicate (63 - length rest) (to_byte 0)" and ?b2 = "replicate 56 (to_byte 0) @ ?bits"
    have "replicate (119 - length rest) (to_byte 0) = replicate (63 - length rest) (to_byte 0) @ replicate 56 (to_byte 0)"
      using f(3) by (simp flip: replicate_add)
    then have "pad msg = full @ ?b1 @ ?b2" using False f(3) pad_rest [OF f(2,3)] by (simp add: f(1))
    then have "sha256_blocks initialHash (pad msg) = sha256_blocks (sha256_blocks (m_hash s) ?b1) ?b2"
      using sha256_blocks_append [OF f(2), of initialHash "?b1 @ ?b2"] sha256_blocks_append [of ?b1 "m_hash s" ?b2] f(3,4) by simp
    moreover have "length ?b1 = 64" "length ?b2 = 64" using f(3) by simp_all
    moreover have "m_hash (SHA256_processBuffer s) = processBlock ?b2 (processBlock ?b1 (m_hash s))"
      using False f(3) by (simp add: SHA256_processBuffer_def Let_def f(5-7) paddedLength_eq BlockSize_def)
    ultimately show ?thesis by (simp only: processBlock_compress sha256_blocks_block)
  qed
  then show ?thesis by (simp add: SHA256_rawHash_def sha256_eq)
qed

section \<open>The hash of a message\<close>

definition SHA256_addAll :: "string list \<Rightarrow> SHA256 \<Rightarrow> SHA256" where
  "SHA256_addAll chunks s = foldl (\<lambda>s chunk. SHA256_add chunk s) s chunks"

lemma absorbed_addAll: "absorbed msg s \<Longrightarrow> absorbed (msg @ concat chunks) (SHA256_addAll chunks s)"
proof (induction chunks arbitrary: msg s)
  case (Cons chunk chunks)
  from Cons.IH [OF absorbed_add [OF Cons.prems, of chunk]] show ?case by (simp add: SHA256_addAll_def)
qed (simp add: SHA256_addAll_def)

lemma absorbed_getHash: "absorbed msg s \<Longrightarrow> fst (SHA256_getHash s) = hex (sha256 msg) \<and> absorbed msg (snd (SHA256_getHash s))"
proof
  assume a: "absorbed msg s"
  then show "fst (SHA256_getHash s) = hex (sha256 msg)" by (simp add: SHA256_getHash_def rawHash_absorbed)
  have "length (m_buffer (SHA256_processBuffer s)) = 64"
    "take (m_bufferSize s) (m_buffer (SHA256_processBuffer s)) = take (m_bufferSize s) (m_buffer s)"
    "m_numBytes (SHA256_processBuffer s) = m_numBytes s" "m_bufferSize (SHA256_processBuffer s) = m_bufferSize s"
    using a by (auto simp: absorbed_def SHA256_processBuffer_def Let_def BlockSize_def paddedLength_eq min_def)
  moreover obtain full rest where "msg = full @ rest" "64 dvd length full" "length rest < 64" "m_hash s = sha256_blocks initialHash full"
    "m_numBytes s = of_nat (length full)" "m_bufferSize s = length rest" "take (length rest) (m_buffer s) = rest"
    using a unfolding absorbed_def by blast
  ultimately show "absorbed msg (snd (SHA256_getHash s))"
    unfolding absorbed_def SHA256_getHash_def by (intro exI [of _ full] exI [of _ rest]) simp
qed

text \<open>
  C8. The hash class computes SHA-256: a message given to a reset object in any pieces, with the hash asked for at any point
  in between, gives the hexadecimal digits of the digest that FIPS 180-4 defines for what was given so far, with its constants taken
  from the roots of primes.
  Asking for the hash changes nothing that a later piece or a later hash depends on.
\<close>

theorem SHA256_equals_reference:
  assumes "length (m_buffer s) = BlockSize"
  shows "case SHA256_getHash (SHA256_addAll chunks (SHA256_reset s)) of (first, s') \<Rightarrow>
    first = hex (sha256 (concat chunks)) \<and>
    fst (SHA256_getHash (SHA256_addAll more_chunks s')) = hex (sha256 (concat chunks @ concat more_chunks)) \<and>
    fst (SHA256_hash msg s') = hex (sha256 msg)"
proof -
  from assms have "absorbed ([] @ concat chunks) (SHA256_addAll chunks (SHA256_reset s))"
    by (intro absorbed_addAll absorbed_reset) (simp add: BlockSize_def)
  then obtain h s' where h: "SHA256_getHash (SHA256_addAll chunks (SHA256_reset s)) = (h, s')"
    "h = hex (sha256 (concat chunks))" "absorbed (concat chunks) s'"
    using absorbed_getHash by (metis append_Nil prod.collapse)
  have "absorbed ([] @ msg) (SHA256_add msg (SHA256_reset s'))"
    using h(3) by (intro absorbed_add absorbed_reset) (auto simp: absorbed_def)
  with h absorbed_addAll [OF h(3), of more_chunks] show ?thesis
    using absorbed_getHash by (simp add: SHA256_hash_def)
qed

definition example_sha :: SHA256 where
  "example_sha = \<lparr>m_numBytes = 7, m_bufferSize = 3, m_buffer = replicate 64 (to_byte 1), m_hash = []\<rparr>"

theorem SHA256_equals_reference_witness:
  "length (m_buffer example_sha) = BlockSize \<and>
   fst (SHA256_getHash (SHA256_addAll [''sc'', ''enario''] (SHA256_reset example_sha))) = hex (sha256 ''scenario'') \<and>
   fst (SHA256_hash ''map'' (snd (SHA256_getHash (SHA256_addAll [''sc'', ''enario''] (SHA256_reset example_sha))))) = hex (sha256 ''map'')"
proof -
  have "length (m_buffer example_sha) = BlockSize" by (simp add: example_sha_def BlockSize_def)
  moreover note SHA256_equals_reference [OF this, of "[''sc'', ''enario'']" "[]" "''map''"]
  ultimately show ?thesis by (simp split: prod.splits)
qed

end
