(* ===== verification/ScenarioFile.thy ===== *)
theory ScenarioFile
  imports ChkSections Sha256
begin

text \<open>
  The scenario as a file (\<open>class Scenario\<close>, \<open>src/MappingCoreLib/Scenario.cpp\<close>): the list of all sections in file order,
  the tail data behind the last section, and the flags for protected and jump-compressed maps. The section
  objects live in a heap and every pointer is an index into it, because instances of a section that is
  appended or overridden are one object, which \<open>allSections\<close> then holds several times.

  Reading is a loop that may run forever: a section with a negative size moves the read position back. It is a
  partial function, \<open>None\<close> when it does not return. An exception of a section makes the reader give up
  (\<open>ParsingFailed\<close>), undefined behaviour is kept apart. The password functions compare the tail data with the
  first bytes of a SHA-256 hash.
\<close>

section \<open>State\<close>

record Scenario =
  sc_heap :: "ChkSection list"
  sc_allSections :: "nat list"
  sc_tailData :: string
  sc_tailLength :: nat
  sc_mapIsProtected :: bool
  sc_jumpCompress :: bool

definition Scenario_cleared :: Scenario where
  "Scenario_cleared = \<lparr>sc_heap = [], sc_allSections = [], sc_tailData = replicate 7 NUL, sc_tailLength = 0,
     sc_mapIsProtected = False, sc_jumpCompress = False\<rparr>"

text \<open>The sections in file order.\<close>

definition Scenario_sections :: "Scenario \<Rightarrow> ChkSection list" where
  "Scenario_sections sc = map ((!) (sc_heap sc)) (sc_allSections sc)"

section \<open>Reading a section\<close>

text \<open>
  How many bytes a section asks of the stream: the stream is at its end afterwards when it has fewer. KTRG reads the
  version in front of as many bytes as the whole section has.
\<close>

definition body_demand :: "int \<Rightarrow> body \<Rightarrow> nat" where
  "body_demand sizeInBytes b = (case b of KtrgBody _ \<Rightarrow> (if sizeInBytes > 0 then 4 + nat sizeInBytes else 0) | _ \<Rightarrow> nat sizeInBytes)"

text \<open>
  \<open>ChkSection::read\<close>: the first instance of the name is read into again when the section is overridden or appended,
  else a new object is. It gives the number of bytes read, the rest of the stream, whether the stream is at its
  end, the object and the heap.
\<close>

definition ChkSection_read ::
  "(u32 \<times> nat) list \<Rightarrow> ChkSection list \<Rightarrow> u32 \<Rightarrow> int \<Rightarrow> string \<Rightarrow> (nat \<times> string \<times> bool \<times> nat \<times> ChkSection list) result" where
  "ChkSection_read parsedSections heap sectionName sizeInBytes is =
    (if sizeInBytes < 0 then Inl NegativeSectionSize
     else
       let instance_ref = (if ChkSection_getLoadBehavior sectionName = Standard then None else map_of parsedSections sectionName);
           (ref, sec, heap, overrideOrAppend) = (case instance_ref of
               Some ref \<Rightarrow> (ref, heap ! ref, heap, True)
             | None \<Rightarrow> (length heap, allocate sectionName, heap @ [allocate sectionName], False))
       in bind_result (body_read sizeInBytes is overrideOrAppend (sec_body sec)) (\<lambda>(gcount, rest, body).
            Inr (gcount, rest, length is < body_demand sizeInBytes (sec_body sec), ref, heap[ref := sec\<lparr>sec_body := body\<rparr>])))"

section \<open>Reading a scenario\<close>

record Parse =
  ps_sc :: Scenario
  ps_parsed :: "(u32 \<times> nat) list"

text \<open>
  One round of the loop at a position of the stream: the position of the next round, or \<open>None\<close> when the loop is
  left, because the stream ended at a header, inside a header (tail data) or inside a section.
\<close>

definition readSection :: "string \<Rightarrow> nat \<Rightarrow> Parse \<Rightarrow> (nat option \<times> Parse) result" where
  "readSection chk pos ps =
    (let is = drop pos chk; sc = ps_sc ps in
     if is = [] then Inr (None, ps)
     else if length is < 8 then
       Inr (None, ps\<lparr>ps_sc := sc\<lparr>sc_tailData := is @ replicate (7 - length is) NUL, sc_tailLength := length is,
                                sc_mapIsProtected := True\<rparr>\<rparr>)
     else
       let sectionName = dec_u32 is 0; sizeInBytes = sint (dec_u32 is 4) in
       if sizeInBytes \<ge> 0 then
         (case ChkSection_read (ps_parsed ps) (sc_heap sc) sectionName sizeInBytes (drop 8 is) of
            Inl e \<Rightarrow> Inl (if e = UndefinedBehavior then UndefinedBehavior else ParsingFailed)
          | Inr (sizeRead, rest, eof, ref, heap) \<Rightarrow>
              Inr (if eof then None else Some (length chk - length rest),
                ps\<lparr>ps_sc := sc\<lparr>sc_heap := heap, sc_allSections := sc_allSections sc @ [ref],
                     sc_mapIsProtected := sc_mapIsProtected sc \<or> toSectionSize sizeRead \<noteq> sizeInBytes\<rparr>,
                   ps_parsed := ps_parsed ps @ [(sectionName, ref)]\<rparr>))
       else
         let pos' = int (pos + 8) + sizeInBytes in
         if pos' < 0 then Inl ParsingFailed
         else Inr (Some (nat pos'), ps\<lparr>ps_sc := sc\<lparr>sc_jumpCompress := True\<rparr>\<rparr>))"

partial_function (option) readSections :: "string \<Rightarrow> nat \<Rightarrow> Parse \<Rightarrow> Parse result option" where
  "readSections chk pos ps =
    (case readSection chk pos ps of
       Inl e \<Rightarrow> Some (Inl e)
     | Inr (None, ps') \<Rightarrow> Some (Inr ps')
     | Inr (Some pos', ps') \<Rightarrow> readSections chk pos' ps')"

definition Scenario_readSections :: "string \<Rightarrow> Parse result option" where
  "Scenario_readSections chk = readSections chk 0 \<lparr>ps_sc = Scenario_cleared, ps_parsed = []\<rparr>"

section \<open>The instance of a section that is used\<close>

text \<open>
  \<open>equal_range(name).first\<close> of a multimap is its first element whose key is not less; with no instance of the
  name it is an element of another name, or the end.
\<close>

definition lower_bound :: "u32 \<Rightarrow> (u32 \<times> nat) list \<Rightarrow> (u32 \<times> nat) option" where
  "lower_bound name parsed =
    (case filter (\<lambda>(n, _). name \<le> n) parsed of
       [] \<Rightarrow> None
     | x # xs \<Rightarrow> Some (foldl (\<lambda>best e. if fst e < fst best then e else best) x xs))"

definition finalSection :: "(u32 \<times> nat) list \<Rightarrow> u32 \<Rightarrow> nat option" where
  "finalSection parsed sectionName =
    (if sectionName \<in> set sectionNames
     then (case lower_bound sectionName parsed of
         None \<Rightarrow> None
       | Some first \<Rightarrow>
           (if ChkSection_getLoadBehavior sectionName = Standard
            then (case rev (filter (\<lambda>(n, _). n = sectionName) parsed) of [] \<Rightarrow> None | x # _ \<Rightarrow> Some (snd x))
            else Some (snd first)))
     else None)"

text \<open>
  \<open>GetSection\<close> casts the section to the class of the name; the class of an object is fixed by its name, so the cast
  gives a null pointer exactly for an object of another name.
\<close>

definition GetSection :: "Parse \<Rightarrow> u32 \<Rightarrow> nat option" where
  "GetSection ps sectionName =
    (case finalSection (ps_parsed ps) sectionName of
       None \<Rightarrow> None
     | Some ref \<Rightarrow> (if sec_name (sc_heap (ps_sc ps) ! ref) = sectionName then Some ref else None))"

section \<open>The list of sections\<close>

definition Scenario_addSection :: "nat option \<Rightarrow> Scenario \<Rightarrow> Scenario" where
  "Scenario_addSection ref sc =
    (case ref of
       None \<Rightarrow> sc
     | Some ref \<Rightarrow> (if ref \<in> set (sc_allSections sc) then sc else sc\<lparr>sc_allSections := sc_allSections sc @ [ref]\<rparr>))"

text \<open>Each round of the loop erases the first section of the name, until none is found.\<close>

fun eraseFirst :: "('a \<Rightarrow> bool) \<Rightarrow> 'a list \<Rightarrow> 'a list option" where
  "eraseFirst P [] = None"
| "eraseFirst P (x # xs) = (if P x then Some xs else map_option ((#) x) (eraseFirst P xs))"

lemma eraseFirst_shorter: "eraseFirst P xs = Some ys \<Longrightarrow> length xs = Suc (length ys)"
  by (induction xs arbitrary: ys) (auto split: if_splits)

function eraseAll :: "('a \<Rightarrow> bool) \<Rightarrow> 'a list \<Rightarrow> 'a list" where
  "eraseAll P xs = (case eraseFirst P xs of None \<Rightarrow> xs | Some ys \<Rightarrow> eraseAll P ys)"
  by pat_completeness auto

termination
  by (relation "measure (length \<circ> snd)") (auto dest: eraseFirst_shorter)

definition Scenario_removeSection :: "u32 \<Rightarrow> Scenario \<Rightarrow> Scenario" where
  "Scenario_removeSection sectionName sc =
    sc\<lparr>sc_allSections := eraseAll (\<lambda>ref. sec_name (sc_heap sc ! ref) = sectionName) (sc_allSections sc)\<rparr>"

section \<open>Writing\<close>

text \<open>
  The sections are written in order; an exception ends the loop and sets the failbit of the stream, behind what
  was written before it.
\<close>

fun writeSections :: "nat list \<Rightarrow> ChkSection list \<Rightarrow> (string \<times> ChkSection list) result" where
  "writeSections [] heap = Inr ([], heap)"
| "writeSections (ref # refs) heap =
    bind_result (ChkSection_writeWithHeader Scenario_saver (heap ! ref)) (\<lambda>(bytes, sec).
    bind_result (writeSections refs (heap[ref := sec])) (\<lambda>(more_bytes, heap). Inr (bytes @ more_bytes, heap)))"

definition Scenario_write :: "Scenario \<Rightarrow> (string \<times> Scenario) result" where
  "Scenario_write sc =
    bind_result (writeSections (sc_allSections sc) (sc_heap sc)) (\<lambda>(bytes, heap). Inr (bytes, sc\<lparr>sc_heap := heap\<rparr>))"

text \<open>
  The sections behind the tag "CHK " and the 64-bit size. After a failed write the stream gives no byte, and the
  size is stored past the end of the vector.
\<close>

definition enc_u64 :: "u64 \<Rightarrow> string" where
  "enc_u64 w = map (\<lambda>i. to_byte (unat w div 256 ^ i)) [0..<8]"

definition Chk_CHK :: u32 where "Chk_CHK = 541804611"

definition Scenario_serialize :: "Scenario \<Rightarrow> (string \<times> Scenario) result" where
  "Scenario_serialize sc =
    (case Scenario_write sc of
       Inl e \<Rightarrow> Inl UndefinedBehavior
     | Inr (bytes, sc) \<Rightarrow> Inr (enc_u32 Chk_CHK @ enc_u64 (of_nat (length bytes)) @ bytes, sc))"

section \<open>Password\<close>

text \<open>\<open>std::stoull\<close> of hexadecimal digits and the bytes of the number in memory.\<close>

definition hexDigit :: "char \<Rightarrow> nat" where
  "hexDigit c = (if byte c \<le> 57 then byte c - 48 else byte c - 87)"

definition stoull16 :: "string \<Rightarrow> u64" where
  "stoull16 digits = of_nat (foldl (\<lambda>n c. 16 * n + hexDigit c) 0 digits)"

definition hashStr :: "string \<Rightarrow> string" where
  "hashStr password = fst (SHA256_hash password
     \<lparr>m_numBytes = 0, m_bufferSize = 0, m_buffer = replicate BlockSize NUL, m_hash = []\<rparr>)"

definition hashBytes :: "string \<Rightarrow> string" where
  "hashBytes password = enc_u64 (stoull16 (take 8 (hashStr password)))"

definition Scenario_hasPassword :: "Scenario \<Rightarrow> bool" where
  "Scenario_hasPassword sc \<longleftrightarrow> sc_tailLength sc = 7"

definition Scenario_isPassword :: "string \<Rightarrow> Scenario \<Rightarrow> bool" where
  "Scenario_isPassword password sc \<longleftrightarrow>
    (if Scenario_hasPassword sc
     then length (hashStr password) \<ge> 7 \<and> (\<forall>i\<in>set [0..<sc_tailLength sc]. sc_tailData sc ! i = hashBytes password ! i)
     else False)"

definition Scenario_setPassword :: "string \<Rightarrow> string \<Rightarrow> Scenario \<Rightarrow> bool \<times> Scenario" where
  "Scenario_setPassword oldPass newPass sc =
    (if Scenario_isPassword oldPass sc then
       if newPass = [] then (True, sc\<lparr>sc_tailData := replicate (sc_tailLength sc) NUL @ drop (sc_tailLength sc) (sc_tailData sc),
                                      sc_tailLength := 0\<rparr>)
       else if length (hashStr newPass) \<ge> 7
       then (True, sc\<lparr>sc_tailLength := 7, sc_tailData := take 7 (hashBytes newPass) @ drop 7 (sc_tailData sc)\<rparr>)
       else (False, sc)
     else (False, sc))"

definition Scenario_login :: "string \<Rightarrow> Scenario \<Rightarrow> bool \<times> Scenario" where
  "Scenario_login password sc =
    (if Scenario_isPassword password sc then (True, sc\<lparr>sc_mapIsProtected := False\<rparr>) else (False, sc))"

section \<open>The stream\<close>

lemma objs_read_rest: "objs_read sz dec app sizeInBytes is xs = Inr (n, rest, ys) \<Longrightarrow> length rest \<le> length is"
  by (auto simp: objs_read_def stream_read_def Let_def split: if_splits)

lemma tiles_read_rest: "tiles_read sz enc dec bl ov ke sizeInBytes is xs = Inr (n, rest, ys) \<Longrightarrow> length rest \<le> length is"
  by (auto simp: tiles_read_def stream_read_def Let_def split: if_splits)

lemmas section_reads = UnitSection_read_def Dd2Section_read_def Thg2Section_read_def MrgnSection_read_def TrigSection_read_def
  MbrfSection_read_def StrSection_read_def KstrSection_read_def KtrgSection_read_def KtgpSection_read_def MtxmSection_read_def
  TileSection_read_def IsomSection_read_def MaskSection_read_def StructSection_read_def DataSection_read_def

lemma body_read_rest:
  assumes "body_read sizeInBytes is ov b = Inr (n, rest, b')"
  shows "length rest \<le> length is"
  using assms
  by (cases b) (auto simp: read_as_Inr section_reads bind_result_eq_Inr stream_read_def Let_def split: if_splits
      dest: objs_read_rest tiles_read_rest)

lemma ChkSection_read_rest:
  "ChkSection_read parsed heap name sizeInBytes is = Inr (n, rest, eof, ref, heap') \<Longrightarrow> length rest \<le> length is"
  by (auto simp: ChkSection_read_def bind_result_eq_Inr Let_def split: if_splits option.splits dest: body_read_rest)

section \<open>The type invariant\<close>

text \<open>
  Every object has the class of its name, every pointer in the list of all sections and in the parsed sections
  points at an object, and a parsed section is found under its own name.
\<close>

definition wf_Parse :: "Parse \<Rightarrow> bool" where
  "wf_Parse ps \<longleftrightarrow> (\<forall>sec\<in>set (sc_heap (ps_sc ps)). typed sec) \<and>
    (\<forall>(name, ref)\<in>set (ps_parsed ps). ref < length (sc_heap (ps_sc ps)) \<and> sec_name (sc_heap (ps_sc ps) ! ref) = name) \<and>
    sc_allSections (ps_sc ps) = map snd (ps_parsed ps)"

lemma wf_Parse_start: "wf_Parse \<lparr>ps_sc = Scenario_cleared, ps_parsed = []\<rparr>"
  by (simp add: wf_Parse_def Scenario_cleared_def)

lemma typed_update:
  assumes "typed sec" "body_read sizeInBytes is ov (sec_body sec) = Inr (n, rest, b)"
  shows "typed (sec\<lparr>sec_body := b\<rparr>)"
  using assms body_read_class [OF assms(2)] by (simp add: typed_def)

lemma ChkSection_read_wf:
  assumes "ChkSection_read parsed heap name sizeInBytes is = Inr (n, rest, eof, ref, heap')"
    and "\<forall>sec\<in>set heap. typed sec" "\<forall>(name, ref)\<in>set parsed. ref < length heap \<and> sec_name (heap ! ref) = name"
  shows "(\<forall>sec\<in>set heap'. typed sec) \<and> length heap \<le> length heap' \<and> ref < length heap' \<and> sec_name (heap' ! ref) = name \<and>
    (\<forall>i<length heap. sec_name (heap' ! i) = sec_name (heap ! i))"
proof (cases "if ChkSection_getLoadBehavior name = Standard then None else map_of parsed name")
  case None
  then obtain b where b: "body_read sizeInBytes is False (sec_body (allocate name)) = Inr (n, rest, b)"
    "ref = length heap" "heap' = heap @ [(allocate name)\<lparr>sec_body := b\<rparr>]"
    using assms(1) by (auto simp: ChkSection_read_def Let_def bind_result_eq_Inr split: if_splits)
  moreover have "typed ((allocate name)\<lparr>sec_body := b\<rparr>)" using typed_update [OF typed_allocate b(1)] .
  ultimately show ?thesis using assms(2) by (auto simp: nth_append)
next
  case (Some r)
  then have "(name, r) \<in> set parsed" by (auto split: if_splits dest: map_of_SomeD)
  then have r: "r < length heap" "sec_name (heap ! r) = name" using assms(3) by auto
  from Some obtain b where b: "body_read sizeInBytes is True (sec_body (heap ! r)) = Inr (n, rest, b)"
    "ref = r" "heap' = heap[r := (heap ! r)\<lparr>sec_body := b\<rparr>]"
    using assms(1) by (auto simp: ChkSection_read_def Let_def bind_result_eq_Inr split: if_splits)
  have "typed ((heap ! r)\<lparr>sec_body := b\<rparr>)" using typed_update [OF _ b(1)] assms(2) r(1) by simp
  then show ?thesis using b(2,3) r assms(2) by (auto simp: nth_list_update dest!: subsetD [OF set_update_subset_insert])
qed

lemma readSection_cases:
  assumes "readSection chk pos ps = Inr (next, ps')"
  obtains (stop) "length (drop pos chk) < 8" "next = None" "sc_heap (ps_sc ps') = sc_heap (ps_sc ps)"
      "sc_allSections (ps_sc ps') = sc_allSections (ps_sc ps)" "ps_parsed ps' = ps_parsed ps"
    | (jump) "8 \<le> length (drop pos chk)" "sint (dec_u32 (drop pos chk) 4) < 0" "0 \<le> int (pos + 8) + sint (dec_u32 (drop pos chk) 4)"
      "next = Some (nat (int (pos + 8) + sint (dec_u32 (drop pos chk) 4)))"
      "ps' = ps\<lparr>ps_sc := (ps_sc ps)\<lparr>sc_jumpCompress := True\<rparr>\<rparr>"
    | (regular) n rest eof ref heap where "8 \<le> length (drop pos chk)" "0 \<le> sint (dec_u32 (drop pos chk) 4)"
      "ChkSection_read (ps_parsed ps) (sc_heap (ps_sc ps)) (dec_u32 (drop pos chk) 0) (sint (dec_u32 (drop pos chk) 4))
         (drop 8 (drop pos chk)) = Inr (n, rest, eof, ref, heap)"
      "next = (if eof then None else Some (length chk - length rest))"
      "sc_heap (ps_sc ps') = heap" "sc_allSections (ps_sc ps') = sc_allSections (ps_sc ps) @ [ref]"
      "ps_parsed ps' = ps_parsed ps @ [(dec_u32 (drop pos chk) 0, ref)]"
proof -
  define "is" where "is = drop pos chk"
  define size where "size = sint (dec_u32 is 4)"
  note eq = assms [unfolded readSection_def Let_def is_def [symmetric] size_def [symmetric]]
  consider "length is < 8" | "8 \<le> length is" "size < 0" | "8 \<le> length is" "0 \<le> size" by linarith
  then show ?thesis
  proof cases
    case 1
    then show ?thesis using eq stop by (cases "is = []") (auto simp: is_def)
  next
    case 2
    then have "is \<noteq> []" "\<not> length is < 8" "\<not> 0 \<le> size" by auto
    with eq have "0 \<le> int (pos + 8) + size \<and> next = Some (nat (int (pos + 8) + size)) \<and>
        ps' = ps\<lparr>ps_sc := (ps_sc ps)\<lparr>sc_jumpCompress := True\<rparr>\<rparr>"
      by (simp only: if_False) (simp split: if_splits)
    with 2 jump show ?thesis unfolding is_def size_def by blast
  next
    case 3
    then have "is \<noteq> []" "\<not> length is < 8" by auto
    with 3 eq have *: "(case ChkSection_read (ps_parsed ps) (sc_heap (ps_sc ps)) (dec_u32 is 0) size (drop 8 is) of
        Inl e \<Rightarrow> Inl (if e = UndefinedBehavior then UndefinedBehavior else ParsingFailed)
      | Inr (sizeRead, rest, eof, ref, heap) \<Rightarrow>
          Inr (if eof then None else Some (length chk - length rest),
            ps\<lparr>ps_sc := (ps_sc ps)\<lparr>sc_heap := heap, sc_allSections := sc_allSections (ps_sc ps) @ [ref],
                 sc_mapIsProtected := sc_mapIsProtected (ps_sc ps) \<or> toSectionSize sizeRead \<noteq> size\<rparr>,
               ps_parsed := ps_parsed ps @ [(dec_u32 is 0, ref)]\<rparr>)) = Inr (next, ps')"
      by (simp only: if_False if_True)
    then obtain n rest eof ref heap where r: "ChkSection_read (ps_parsed ps) (sc_heap (ps_sc ps)) (dec_u32 is 0) size (drop 8 is) =
        Inr (n, rest, eof, ref, heap)"
      by (cases "ChkSection_read (ps_parsed ps) (sc_heap (ps_sc ps)) (dec_u32 is 0) size (drop 8 is)") auto
    from * r regular [of n rest eof ref heap] 3 show ?thesis unfolding is_def size_def by auto
  qed
qed

lemma readSection_wf:
  assumes "wf_Parse ps" "readSection chk pos ps = Inr (next, ps')"
  shows "wf_Parse ps'"
  using assms(2)
proof (cases rule: readSection_cases)
  case (regular n rest eof ref heap)
  have old: "\<forall>sec\<in>set (sc_heap (ps_sc ps)). typed sec"
    "\<forall>(name, ref)\<in>set (ps_parsed ps). ref < length (sc_heap (ps_sc ps)) \<and> sec_name (sc_heap (ps_sc ps) ! ref) = name"
    "sc_allSections (ps_sc ps) = map snd (ps_parsed ps)"
    using assms(1) by (simp_all add: wf_Parse_def)
  note new = ChkSection_read_wf [OF regular(3) old(1,2)]
  have "ref' < length heap \<and> sec_name (heap ! ref') = name" if "(name, ref') \<in> set (ps_parsed ps)" for name ref'
    using old(2) that new by fastforce
  with new old(3) show ?thesis unfolding wf_Parse_def regular(5-7) by auto
qed (use assms(1) in \<open>simp_all add: wf_Parse_def\<close>)

lemma readSections_induct:
  assumes "readSections chk pos ps = Some r"
    and "\<And>chk pos ps e. readSection chk pos ps = Inl e \<Longrightarrow> P chk pos ps (Inl e)"
    and "\<And>chk pos ps ps'. readSection chk pos ps = Inr (None, ps') \<Longrightarrow> P chk pos ps (Inr ps')"
    and "\<And>chk pos ps pos' ps' r. readSection chk pos ps = Inr (Some pos', ps') \<Longrightarrow> P chk pos' ps' r \<Longrightarrow> P chk pos ps r"
  shows "P chk pos ps r"
  by (rule readSections.raw_induct [OF _ assms(1)]) (auto intro: assms(2-) split: sum.splits option.splits prod.splits)

lemma readSections_wf:
  assumes "readSections chk pos ps = Some (Inr ps')" "wf_Parse ps"
  shows "wf_Parse ps'"
proof -
  have "readSections chk pos ps = Some r \<Longrightarrow> wf_Parse ps \<longrightarrow> (\<forall>ps'. r = Inr ps' \<longrightarrow> wf_Parse ps')" for r
    by (erule readSections_induct) (auto dest: readSection_wf)
  then show ?thesis using assms by blast
qed

section \<open>When reading returns\<close>

text \<open>A section of the file that is no jump moves the position forward.\<close>

lemma readSection_forward:
  assumes "readSection chk pos ps = Inr (Some pos', ps')" "0 \<le> sint (dec_u32 (drop pos chk) 4)"
  shows "pos + 8 \<le> pos' \<and> pos' \<le> length chk"
  using assms(1)
proof (cases rule: readSection_cases)
  case (regular n rest eof ref heap)
  then show ?thesis using ChkSection_read_rest [OF regular(3)] by (auto split: if_splits)
qed (use assms(2) in simp_all)

lemma readSections_returns:
  assumes "\<forall>p. p + 8 \<le> length chk \<longrightarrow> 0 \<le> sint (dec_u32 (drop p chk) 4)"
  shows "\<exists>r. readSections chk pos ps = Some r"
proof (induction "length chk - pos" arbitrary: pos ps rule: less_induct)
  case less
  show ?case
  proof (cases "\<exists>pos' ps'. readSection chk pos ps = Inr (Some pos', ps')")
    case True
    then obtain pos' ps' where s: "readSection chk pos ps = Inr (Some pos', ps')" by blast
    then have "pos + 8 \<le> length chk" by (cases rule: readSection_cases) auto
    with readSection_forward [OF s] assms less [of pos' ps'] show ?thesis
      by (subst readSections.simps) (auto simp: s)
  next
    case False
    then show ?thesis by (subst readSections.simps) (auto split: sum.split option.split prod.split)
  qed
qed

lemma readSection_at_self_jump:
  assumes "pos + 8 \<le> length chk" "sint (dec_u32 (drop pos chk) 4) = - 8"
  shows "readSection chk pos ps = Inr (Some pos, ps\<lparr>ps_sc := (ps_sc ps)\<lparr>sc_jumpCompress := True\<rparr>\<rparr>)"
proof -
  have "drop pos chk \<noteq> []" "\<not> length (drop pos chk) < 8" using assms(1) by auto
  then show ?thesis unfolding readSection_def Let_def assms(2) by simp
qed

lemma readSections_self_jump:
  assumes "pos + 8 \<le> length chk" "sint (dec_u32 (drop pos chk) 4) = - 8"
  shows "readSections chk pos ps = None"
proof (rule ccontr)
  assume "readSections chk pos ps \<noteq> None"
  then obtain r where "readSections chk pos ps = Some r" by blast
  then have "pos + 8 \<le> length chk \<longrightarrow> sint (dec_u32 (drop pos chk) 4) = - 8 \<longrightarrow> False"
    by (rule readSections_induct) (auto simp: readSection_at_self_jump)
  then show False using assms by blast
qed

section \<open>The bytes of a section\<close>

definition section_bytes :: "u32 \<Rightarrow> string \<Rightarrow> string" where
  "section_bytes name bytes = enc_u32 name @ enc_u32 (of_nat (length bytes)) @ bytes"

lemma section_header:
  assumes "length bytes < 2 ^ 31"
  shows "dec_u32 (section_bytes name bytes @ rest) 0 = name" "sint (dec_u32 (section_bytes name bytes @ rest) 4) = int (length bytes)"
    "drop 8 (section_bytes name bytes @ rest) = bytes @ rest"
proof -
  show "dec_u32 (section_bytes name bytes @ rest) 0 = name" by (simp add: section_bytes_def enc_defs)
  have "dec_u32 (section_bytes name bytes @ rest) 4 = of_nat (length bytes)"
    by (simp add: section_bytes_def enc_u32_def dec_u32_def)
  moreover have "sint (word_of_nat (length bytes) :: u32) = int (length bytes)"
    using toSectionSize_small [OF assms] by (simp add: toSectionSize_def)
  ultimately show "sint (dec_u32 (section_bytes name bytes @ rest) 4) = int (length bytes)" by simp
  show "drop 8 (section_bytes name bytes @ rest) = bytes @ rest" by (simp add: section_bytes_def)
qed

text \<open>Reading one section that lies at the position.\<close>

lemma readSection_at:
  assumes "drop pos chk = section_bytes name bytes @ rest" "length bytes < 2 ^ 31"
    and "ChkSection_read (ps_parsed ps) (sc_heap (ps_sc ps)) name (int (length bytes)) (bytes @ rest) =
      Inr (length bytes, rest, False, ref, heap)"
  shows "readSection chk pos ps = Inr (Some (pos + length (section_bytes name bytes)),
    ps\<lparr>ps_sc := (ps_sc ps)\<lparr>sc_heap := heap, sc_allSections := sc_allSections (ps_sc ps) @ [ref]\<rparr>,
       ps_parsed := ps_parsed ps @ [(name, ref)]\<rparr>)"
proof -
  have len: "length (drop pos chk) = length (section_bytes name bytes) + length rest" using assms(1) by simp
  then have "8 \<le> length (drop pos chk)" by (simp add: section_bytes_def)
  then have "drop pos chk \<noteq> []" "\<not> length (drop pos chk) < 8" by auto
  moreover have "length chk - length rest = pos + length (section_bytes name bytes)"
    using len by (simp add: section_bytes_def)
  ultimately show ?thesis
    unfolding readSection_def Let_def assms(1) section_header [OF assms(2)]
    using assms(3) by (simp add: toSectionSize_small [OF assms(2)])
qed

lemma readSections_at:
  assumes "readSection chk pos ps = Inr (Some pos', ps')"
  shows "readSections chk pos ps = readSections chk pos' ps'"
  using assms by (subst readSections.simps) simp

lemma readSections_end: "length chk \<le> pos \<Longrightarrow> readSections chk pos ps = Some (Inr ps)"
  by (subst readSections.simps) (simp add: readSection_def)

section \<open>Saving and loading a scenario\<close>

text \<open>The sections as written: each has a name and the bytes it saves as.\<close>

definition written :: "ChkSection \<Rightarrow> string \<Rightarrow> bool" where
  "written sec bs \<longleftrightarrow> (\<exists>bytes. bs = section_bytes (sec_name sec) bytes \<and>
    saves_as (sec_body sec) (sec_body (allocate (sec_name sec))) bytes \<and> storable (sec_body sec) \<and> typed sec)"

lemma writeWithHeader_written:
  assumes "typed sec" "storable (sec_body sec)"
  shows "\<exists>bs sec'. ChkSection_writeWithHeader Scenario_saver sec = Inr (bs, sec') \<and> written sec bs"
proof -
  obtain bytes b1 b2 where b: "saves_as (sec_body sec) (sec_body (allocate (sec_name sec))) bytes"
    "body_getSize Scenario_saver (sec_body sec) = Inr (int (length bytes), b1)" "body_write Scenario_saver b1 = Inr (bytes, b2)"
    using body_saves [OF assms(2,1)] unfolding saves_as_def by blast
  then show ?thesis using assms
    by (simp add: ChkSection_writeWithHeader_def written_def section_bytes_def)
qed

lemma writeSections_written:
  assumes "distinct refs" "\<forall>ref\<in>set refs. ref < length heap \<and> typed (heap ! ref) \<and> storable (sec_body (heap ! ref))"
  shows "\<exists>bss heap'. writeSections refs heap = Inr (concat bss, heap') \<and> list_all2 (\<lambda>ref bs. written (heap ! ref) bs) refs bss"
  using assms
proof (induction refs arbitrary: heap)
  case (Cons ref refs)
  then obtain bs sec where w: "ChkSection_writeWithHeader Scenario_saver (heap ! ref) = Inr (bs, sec)" "written (heap ! ref) bs"
    using writeWithHeader_written by force
  let ?heap = "heap[ref := sec]"
  have same: "\<forall>r\<in>set refs. ?heap ! r = heap ! r" using Cons.prems(1) by (metis distinct.simps(2) nth_list_update_neq)
  have "\<exists>bss heap'. writeSections refs ?heap = Inr (concat bss, heap') \<and> list_all2 (\<lambda>ref bs. written (?heap ! ref) bs) refs bss"
    by (rule Cons.IH) (use Cons.prems same in auto)
  then obtain bss heap' where r: "writeSections refs ?heap = Inr (concat bss, heap')"
    "list_all2 (\<lambda>ref bs. written (?heap ! ref) bs) refs bss" by blast
  have "list_all2 (\<lambda>ref bs. written (heap ! ref) bs) refs bss"
    using r(2) same by (simp add: list_all2_conv_all_nth)
  then show ?case using w r(1) by (intro exI [of _ "bs # bss"] exI [of _ heap']) simp
qed simp

lemma body_demand_written:
  assumes "written sec bs"
  shows "body_demand n (sec_body (allocate (sec_name sec))) = nat n"
proof -
  have "class_of (sec_body (allocate (sec_name sec))) \<noteq> KtrgClass"
    using assms by (cases "sec_body sec") (auto simp: written_def typed_def)
  then show ?thesis by (cases "sec_body (allocate (sec_name sec))") (simp_all add: body_demand_def)
qed

definition loaded_as :: "ChkSection \<Rightarrow> ChkSection \<Rightarrow> bool" where
  "loaded_as sec sec' \<longleftrightarrow> sec_name sec' = sec_name sec \<and> reloaded (sec_body sec) (sec_body sec')"

lemma ChkSection_read_written:
  assumes "written sec bs" "ChkSection_getLoadBehavior (sec_name sec) = Standard \<or> map_of parsed (sec_name sec) = None"
  obtains bytes sec' where "bs = section_bytes (sec_name sec) bytes" "length bytes < 2 ^ 31" "loaded_as sec sec'"
    "ChkSection_read parsed heap (sec_name sec) (int (length bytes)) (bytes @ rest) =
      Inr (length bytes, rest, False, length heap, heap @ [sec'])"
proof -
  obtain bytes where b: "bs = section_bytes (sec_name sec) bytes"
    and s: "saves_as (sec_body sec) (sec_body (allocate (sec_name sec))) bytes"
    using assms(1) unfolding written_def by blast
  then obtain b' where r: "length bytes < 2 ^ 31" "reloaded (sec_body sec) b'"
    "body_read (int (length bytes)) (bytes @ rest) False (sec_body (allocate (sec_name sec))) = Inr (length bytes, rest, b')"
    unfolding saves_as_def by blast
  have none: "(if ChkSection_getLoadBehavior (sec_name sec) = Standard then None else map_of parsed (sec_name sec)) = None"
    using assms(2) by auto
  show ?thesis
    by (rule that [of bytes "(allocate (sec_name sec))\<lparr>sec_body := b'\<rparr>"])
      (use b r body_demand_written [OF assms(1)] none in \<open>simp_all add: loaded_as_def ChkSection_read_def Let_def\<close>)
qed

lemma drop_past: "drop pos chk = bs @ cs \<Longrightarrow> pos \<le> length chk \<Longrightarrow> drop (pos + length bs) chk = cs \<and> pos + length bs \<le> length chk"
  by (metis append_eq_conv_conj append_take_drop_id drop_drop add.commute length_append le_add1 length_take min_absorb2 nat_add_left_cancel_le)

lemma readSections_written:
  assumes "list_all2 written secs bss" "drop pos chk = concat bss" "pos \<le> length chk"
    and "distinct (filter (\<lambda>n. ChkSection_getLoadBehavior n \<noteq> Standard) (map fst (ps_parsed ps) @ map sec_name secs))"
    and "\<forall>ref\<in>set (sc_allSections (ps_sc ps)). ref < length (sc_heap (ps_sc ps))"
  shows "\<exists>ps' secs'. readSections chk pos ps = Some (Inr ps') \<and> Scenario_sections (ps_sc ps') = Scenario_sections (ps_sc ps) @ secs' \<and>
    list_all2 loaded_as secs secs' \<and> sc_mapIsProtected (ps_sc ps') = sc_mapIsProtected (ps_sc ps) \<and>
    sc_jumpCompress (ps_sc ps') = sc_jumpCompress (ps_sc ps) \<and> sc_tailLength (ps_sc ps') = sc_tailLength (ps_sc ps)"
  using assms
proof (induction secs bss arbitrary: pos ps rule: list_all2_induct)
  case Nil
  then show ?case by (simp add: readSections_end)
next
  case (Cons sec secs bs bss)
  let ?sc = "ps_sc ps"
  have "ChkSection_getLoadBehavior (sec_name sec) = Standard \<or> map_of (ps_parsed ps) (sec_name sec) = None"
    using Cons.prems(3) by (auto simp: map_of_eq_None_iff)
  then obtain bytes sec' where b: "bs = section_bytes (sec_name sec) bytes" "length bytes < 2 ^ 31" "loaded_as sec sec'"
    "ChkSection_read (ps_parsed ps) (sc_heap ?sc) (sec_name sec) (int (length bytes)) (bytes @ concat bss) =
      Inr (length bytes, concat bss, False, length (sc_heap ?sc), sc_heap ?sc @ [sec'])"
    using ChkSection_read_written [OF Cons.hyps(1), of "ps_parsed ps" "sc_heap ?sc" "concat bss"] by blast
  let ?ps = "ps\<lparr>ps_sc := ?sc\<lparr>sc_heap := sc_heap ?sc @ [sec'], sc_allSections := sc_allSections ?sc @ [length (sc_heap ?sc)]\<rparr>,
       ps_parsed := ps_parsed ps @ [(sec_name sec, length (sc_heap ?sc))]\<rparr>"
  have step: "readSection chk pos ps = Inr (Some (pos + length bs), ?ps)"
    using readSection_at [of pos chk "sec_name sec" bytes "concat bss" ps] Cons.prems(1) b by simp
  have pos: "drop (pos + length bs) chk = concat bss" "pos + length bs \<le> length chk"
    using drop_past [OF Cons.prems(1) [unfolded concat.simps] Cons.prems(2)] by simp_all
  have "\<exists>ps' secs'. readSections chk (pos + length bs) ?ps = Some (Inr ps') \<and> Scenario_sections (ps_sc ps') = Scenario_sections (ps_sc ?ps) @ secs' \<and>
    list_all2 loaded_as secs secs' \<and> sc_mapIsProtected (ps_sc ps') = sc_mapIsProtected (ps_sc ?ps) \<and>
    sc_jumpCompress (ps_sc ps') = sc_jumpCompress (ps_sc ?ps) \<and> sc_tailLength (ps_sc ps') = sc_tailLength (ps_sc ?ps)"
    by (rule Cons.IH [OF pos]) (use Cons.prems(3,4) in \<open>auto simp: less_Suc_eq\<close>)
  moreover have "Scenario_sections (ps_sc ?ps) = Scenario_sections ?sc @ [sec']"
    using Cons.prems(4) by (simp add: Scenario_sections_def nth_append)
  ultimately show ?case using readSections_at [OF step] b(3) by auto
qed

lemma save_load:
  assumes "distinct (sc_allSections sc)" "\<forall>ref\<in>set (sc_allSections sc). ref < length (sc_heap sc)"
    and "\<forall>sec\<in>set (Scenario_sections sc). typed sec \<and> storable (sec_body sec)"
    and "distinct (filter (\<lambda>n. ChkSection_getLoadBehavior n \<noteq> Standard) (map sec_name (Scenario_sections sc)))"
  shows "\<exists>bytes sc' ps. Scenario_write sc = Inr (bytes, sc') \<and> Scenario_readSections bytes = Some (Inr ps) \<and>
    list_all2 loaded_as (Scenario_sections sc) (Scenario_sections (ps_sc ps)) \<and>
    \<not> sc_mapIsProtected (ps_sc ps) \<and> \<not> sc_jumpCompress (ps_sc ps) \<and> sc_tailLength (ps_sc ps) = 0"
proof -
  have "\<exists>bss heap'. writeSections (sc_allSections sc) (sc_heap sc) = Inr (concat bss, heap') \<and>
      list_all2 (\<lambda>ref bs. written (sc_heap sc ! ref) bs) (sc_allSections sc) bss"
    by (rule writeSections_written) (use assms(1-3) in \<open>auto simp: Scenario_sections_def\<close>)
  then obtain bss heap' where w: "writeSections (sc_allSections sc) (sc_heap sc) = Inr (concat bss, heap')"
    and l: "list_all2 written (Scenario_sections sc) bss" by (auto simp: Scenario_sections_def list_all2_map1)
  let ?ps = "\<lparr>ps_sc = Scenario_cleared, ps_parsed = []\<rparr>"
  have "\<exists>ps' secs'. readSections (concat bss) 0 ?ps = Some (Inr ps') \<and> Scenario_sections (ps_sc ps') = Scenario_sections (ps_sc ?ps) @ secs' \<and>
    list_all2 loaded_as (Scenario_sections sc) secs' \<and> sc_mapIsProtected (ps_sc ps') = sc_mapIsProtected (ps_sc ?ps) \<and>
    sc_jumpCompress (ps_sc ps') = sc_jumpCompress (ps_sc ?ps) \<and> sc_tailLength (ps_sc ps') = sc_tailLength (ps_sc ?ps)"
    by (rule readSections_written [OF l]) (use assms(4) in \<open>simp_all add: Scenario_cleared_def\<close>)
  then show ?thesis using w
    by (auto simp: Scenario_write_def Scenario_readSections_def Scenario_sections_def Scenario_cleared_def)
qed

lemmas allocate_eval = allocate_def emptyBodies_def structSizes_def SectionName_defs
lemmas load_eval = ChkSection_getLoadBehavior_def nonStandardLoadBehaviors_def SectionName_defs


definition example_scenario :: Scenario where
  "example_scenario = Scenario_cleared\<lparr>sc_heap := [
     \<lparr>sec_name = SectionName_VER, sec_body = StructBody 2 (enc_u16 59)\<rparr>,
     \<lparr>sec_name = SectionName_UNIT, sec_body = UnitBody \<lparr>units = [dec_Unit (replicate 36 (to_byte 1))]\<rparr>\<rparr>,
     \<lparr>sec_name = 7, sec_body = DataBody ''any''\<rparr>], sc_allSections := [1, 0, 2]\<rparr>"


section \<open>The instance that is used\<close>

lemma foldl_best_mem: "foldl (\<lambda>best e. if fst e < fst best then e else best) x xs \<in> set (x # xs)"
  for x :: "'a::ord \<times> 'b"
proof (induction xs arbitrary: x)
  case (Cons y ys)
  show ?case using Cons.IH [of x] Cons.IH [of y] by (cases "fst y < fst x") (simp_all, blast+)
qed simp

lemma lower_bound_parsed:
  assumes "lower_bound name parsed = Some e"
  shows "e \<in> set parsed"
proof (cases "filter (\<lambda>(n, _). name \<le> n) parsed")
  case (Cons x xs)
  then have "e \<in> set (filter (\<lambda>(n, _). name \<le> n) parsed)"
    using assms foldl_best_mem [of x xs] unfolding lower_bound_def Cons by simp
  then show ?thesis by simp
qed (use assms in \<open>simp add: lower_bound_def\<close>)

lemma finalSection_parsed: "finalSection parsed name = Some ref \<Longrightarrow> \<exists>n. (n, ref) \<in> set parsed"
proof -
  assume f: "finalSection parsed name = Some ref"
  then obtain first where first: "lower_bound name parsed = Some first" by (auto simp: finalSection_def split: if_splits option.splits)
  show ?thesis
  proof (cases "ChkSection_getLoadBehavior name = Standard")
    case True
    then obtain x xs where x: "rev (filter (\<lambda>(n, _). n = name) parsed) = x # xs" "ref = snd x"
      using f first by (auto simp: finalSection_def split: if_splits list.splits)
    then have "x \<in> set (rev (filter (\<lambda>(n, _). n = name) parsed))" by (simp only: list.set_intros)
    then have "x \<in> set parsed" by simp
    then show ?thesis using x(2) by (metis prod.collapse)
  next
    case False
    then show ?thesis using f first lower_bound_parsed [OF first] by (cases first) (auto simp: finalSection_def split: if_splits)
  qed
qed



text \<open>
  C18. Reading always returns when no eight bytes of the file look like the header of a jump, and it never returns when it
  comes to a jump of eight bytes back, which leads to its own header: a file that begins with one hangs the editor.
\<close>

theorem Scenario_readSections_terminates:
  "((\<forall>p. p + 8 \<le> length chk \<longrightarrow> 0 \<le> sint (dec_u32 (drop p chk) 4)) \<longrightarrow> (\<exists>r. Scenario_readSections chk = Some r)) \<and>
   Scenario_readSections (enc_u32 name @ enc_u32 (word_of_int (- 8)) @ rest) = None"
proof -
  have "sint (dec_u32 (drop 0 (enc_u32 name @ enc_u32 (word_of_int (- 8)) @ rest)) 4) = - 8"
    by (simp add: enc_u32_def dec_u32_def)
  then show ?thesis
    using readSections_returns readSections_self_jump [of 0 "enc_u32 name @ enc_u32 (word_of_int (- 8)) @ rest"]
    by (simp add: Scenario_readSections_def)
qed

theorem Scenario_readSections_terminates_witness:
  "(\<exists>r. Scenario_readSections (section_bytes SectionName_VER (enc_u16 59)) = Some r) \<and>
   Scenario_readSections (enc_u32 SectionName_VER @ enc_u32 (word_of_int (- 8)) @ ''rest'') = None"
proof -
  let ?chk = "section_bytes SectionName_VER (enc_u16 59)"
  have "0 \<le> sint (dec_u32 (drop p ?chk) 4)" if "p + 8 \<le> length ?chk" for p
  proof -
    from that have "p = 0 \<or> p = 1 \<or> p = 2" by (auto simp: section_bytes_def)
    then show ?thesis by (auto simp: section_bytes_def enc_u32_def enc_u16_def dec_u32_def)
  qed
  then show ?thesis using Scenario_readSections_terminates [of ?chk SectionName_VER "''rest''"] by blast
qed

section \<open>Sections that occur twice\<close>

definition units_section :: "Unit list \<Rightarrow> ChkSection" where
  "units_section us = \<lparr>sec_name = SectionName_UNIT, sec_body = UnitBody \<lparr>units = us\<rparr>\<rparr>"

definition units_bytes :: "Unit list \<Rightarrow> string" where
  "units_bytes us = section_bytes SectionName_UNIT (enc_array enc_Unit us)"

lemma UNIT_appends: "ChkSection_getLoadBehavior SectionName_UNIT = Append"
  "allocate SectionName_UNIT = units_section []"
  by (simp_all add: load_eval allocate_eval units_section_def)

lemma body_read_units:
  "body_read (int (length (enc_array enc_Unit us))) (enc_array enc_Unit us @ rest) appending (UnitBody \<lparr>units = old\<rparr>) =
    Inr (length (enc_array enc_Unit us), rest, UnitBody \<lparr>units = (if appending then old else []) @ us\<rparr>)"
  using unit_codec.objs_read_write [of us appending rest old] by (simp add: read_as_def UnitSection_read_def)

lemma readSections_two_units:
  assumes "36 * (length us + length vs) < 2 ^ 31"
  shows "\<exists>ps. Scenario_readSections (units_bytes us @ units_bytes vs) = Some (Inr ps) \<and>
    sc_heap (ps_sc ps) = [units_section (us @ vs)] \<and> sc_allSections (ps_sc ps) = [0, 0]"
proof -
  let ?chk = "units_bytes us @ units_bytes vs" and ?u = "enc_array enc_Unit us" and ?v = "enc_array enc_Unit vs"
  let ?p0 = "\<lparr>ps_sc = Scenario_cleared, ps_parsed = []\<rparr>"
  have len: "length ?u < 2 ^ 31" "length ?v < 2 ^ 31" using assms by (simp_all add: unit_codec.length_enc_array)
  have 1: "ChkSection_read [] [] SectionName_UNIT (int (length ?u)) (?u @ units_bytes vs) =
      Inr (length ?u, units_bytes vs, False, 0, [units_section us])"
    unfolding ChkSection_read_def UNIT_appends
    using body_read_units [of us "units_bytes vs"] by (simp add: units_section_def body_demand_def)
  have 2: "ChkSection_read [(SectionName_UNIT, 0)] [units_section us] SectionName_UNIT (int (length ?v)) (?v @ []) =
      Inr (length ?v, [], False, 0, [units_section (us @ vs)])"
    unfolding ChkSection_read_def UNIT_appends
    using body_read_units [of vs "[]"] by (simp add: units_section_def body_demand_def)
  define p1 where "p1 = ?p0\<lparr>ps_sc := Scenario_cleared\<lparr>sc_heap := [units_section us], sc_allSections := [0]\<rparr>,
      ps_parsed := [(SectionName_UNIT, 0)]\<rparr>"
  define p2 where "p2 = p1\<lparr>ps_sc := Scenario_cleared\<lparr>sc_heap := [units_section (us @ vs)], sc_allSections := [0, 0]\<rparr>,
      ps_parsed := [(SectionName_UNIT, 0), (SectionName_UNIT, 0)]\<rparr>"
  have s1: "readSection ?chk 0 ?p0 = Inr (Some (length (units_bytes us)), p1)"
    using readSection_at [of 0 ?chk SectionName_UNIT ?u "units_bytes vs" ?p0] 1 len(1)
    by (simp add: units_bytes_def p1_def Scenario_cleared_def)
  have s2: "readSection ?chk (length (units_bytes us)) p1 = Inr (Some (length ?chk), p2)"
    using readSection_at [of "length (units_bytes us)" ?chk SectionName_UNIT ?v "[]" p1] 2 len(2)
    by (simp add: units_bytes_def p1_def p2_def Scenario_cleared_def)
  have "Scenario_readSections ?chk = Some (Inr p2)"
    unfolding Scenario_readSections_def readSections_at [OF s1] readSections_at [OF s2] by (rule readSections_end) simp
  then show ?thesis by (simp add: p2_def)
qed



section \<open>Adding and removing sections\<close>

declare eraseAll.simps [simp del]

lemma eraseFirst_Some_filter: "eraseFirst P xs = Some ys \<Longrightarrow> filter (\<lambda>x. \<not> P x) ys = filter (\<lambda>x. \<not> P x) xs"
  by (induction xs arbitrary: ys) (auto split: if_splits)

lemma eraseFirst_None: "eraseFirst P xs = None \<longleftrightarrow> (\<forall>x\<in>set xs. \<not> P x)"
  by (induction xs) auto

lemma eraseAll_filter: "eraseAll P xs = filter (\<lambda>x. \<not> P x) xs"
proof (induction P xs rule: eraseAll.induct)
  case (1 P xs)
  then show ?case
    by (subst eraseAll.simps) (auto simp: eraseFirst_None filter_id_conv dest: eraseFirst_Some_filter split: option.split)
qed

section \<open>The password\<close>

lemma length_hex: "length (hex bytes) = 2 * length bytes"
  by (induction bytes) (simp_all add: hex_def)

lemma hexDigit_dec2hex: "n < 16 \<Longrightarrow> hexDigit (dec2hex ! n) = n"
proof -
  assume "n < 16"
  then have "n \<in> set [0..<16]" by simp
  moreover have "\<forall>n\<in>set [0..<16]. hexDigit (dec2hex ! n) = n" by code_simp
  ultimately show ?thesis by blast
qed

lemma foldl_hex:
  "foldl (\<lambda>n c. 16 * n + hexDigit c) acc (hex bytes) = foldl (\<lambda>n c. 256 * n + byte c) acc bytes"
proof (induction bytes arbitrary: acc)
  case (Cons c bytes)
  have "byte c div 16 < 16" using byte_less [of c] by (simp add: less_mult_imp_div_less)
  then have "16 * (byte c div 16 mod 16) + byte c mod 16 = byte c" by simp
  then show ?case using Cons by (simp add: hex_def hexDigit_dec2hex algebra_simps)
qed (simp add: hex_def)

lemma take_hex: "take (2 * n) (hex bytes) = hex (take n bytes)"
proof (induction bytes arbitrary: n)
  case (Cons c bytes)
  then show ?case by (cases n) (simp_all add: hex_def)
qed (simp add: hex_def)

lemma length_sha256 [simp]: "length (sha256 msg) = 32"
proof -
  have "length (foldl compress hs bs) = 8" if "length hs = 8" for hs bs
    using that by (induction bs arbitrary: hs) (simp_all add: compress_def add_regs_def split: prod.split)
  then have "length (sha256_blocks initialHash (pad msg)) = 8" by (simp add: sha256_blocks_def initialHash_def)
  moreover have "length (concat (map be32 ws)) = 4 * length ws" for ws
    by (induction ws) (simp_all add: be32_def)
  ultimately show ?thesis by (simp add: sha256_eq)
qed

lemma hashStr_sha256: "hashStr password = hex (sha256 password)"
proof -
  let ?s = "\<lparr>m_numBytes = 0, m_bufferSize = 0, m_buffer = replicate BlockSize NUL, m_hash = []\<rparr>"
  have "absorbed ([] @ password) (SHA256_add password (SHA256_reset ?s))"
    by (intro absorbed_add absorbed_reset) (simp add: BlockSize_def)
  then show ?thesis using absorbed_getHash by (simp add: hashStr_def SHA256_hash_def)
qed

text \<open>The bytes the tail data is compared with: four bytes of the hash, backwards, and zeros.\<close>

definition le_bytes :: "nat \<Rightarrow> nat \<Rightarrow> string" where
  "le_bytes k n = map (\<lambda>i. to_byte (n div 256 ^ i)) [0..<k]"

lemma le_bytes_Suc: "le_bytes (Suc k) (256 * m + byte c) = c # le_bytes k m"
proof -
  have b: "byte c < 256" by (rule byte_less)
  have "(256 * m + byte c) div 256 ^ Suc i = m div 256 ^ i" for i
    using b by (simp add: div_mult2_eq)
  moreover have "to_byte (256 * m + byte c) = c"
    using b by (simp add: byte_eq_iff [symmetric]) 
  ultimately show ?thesis by (simp add: le_bytes_def upt_conv_Cons map_Suc_upt [symmetric] del: upt_Suc)
qed

lemma le_bytes_number: "le_bytes (length bs + k) (foldl (\<lambda>n c. 256 * n + byte c) 0 bs) = rev bs @ le_bytes k 0"
  by (induction bs rule: rev_induct) (simp_all add: le_bytes_Suc)

lemma number_bound: "foldl (\<lambda>n c. 256 * n + byte c) 0 bs < 256 ^ length bs"
proof (induction bs rule: rev_induct)
  case (snoc c bs)
  then show ?case by simp (use byte_less [of c] in linarith)
qed simp

lemma hashBytes_sha256: "hashBytes password = rev (take 4 (sha256 password)) @ replicate 4 NUL"
proof -
  let ?bs = "take 4 (sha256 password)"
  let ?n = "foldl (\<lambda>n c. 256 * n + byte c) 0 ?bs"
  have "take 8 (hashStr password) = hex ?bs" using take_hex [of 4 "sha256 password"] by (simp add: hashStr_sha256)
  then have "stoull16 (take 8 (hashStr password)) = of_nat ?n" by (simp add: stoull16_def foldl_hex)
  moreover have "?n < 2 ^ LENGTH(64)"
    using number_bound [of ?bs] by (rule less_le_trans) simp
  then have "unat (of_nat ?n :: u64) = ?n" by (simp only: unat_of_nat mod_less)
  moreover have "le_bytes 4 0 = replicate 4 NUL" by (simp add: le_bytes_def map_replicate_const)
  then have "le_bytes 8 ?n = rev ?bs @ replicate 4 NUL" using le_bytes_number [of ?bs 4] by simp
  ultimately show ?thesis by (simp only: hashBytes_def enc_u64_def le_bytes_def)
qed

lemma length_hashBytes: "length (hashBytes password) = 8"
  by (simp add: hashBytes_sha256)

text \<open>
  C34. Who can open a protected map: a password is accepted exactly when the tail data is four bytes of its SHA-256
  hash and three zeros, so every password that agrees in these four bytes opens the map. A map without a
  password never gets one, since the old password is asked for first. Replacing and removing a password work.
\<close>

theorem Scenario_password_spec:
  assumes "length (sc_tailData sc) = 7"
  shows "(Scenario_isPassword password sc \<longleftrightarrow>
      sc_tailLength sc = 7 \<and> sc_tailData sc = rev (take 4 (sha256 password)) @ replicate 3 NUL) \<and>
    (\<not> Scenario_hasPassword sc \<longrightarrow> Scenario_setPassword password newPass sc = (False, sc)) \<and>
    (Scenario_isPassword password sc \<longrightarrow> (\<exists>sc'. Scenario_setPassword password newPass sc = (True, sc') \<and>
      (if newPass = [] then \<not> Scenario_hasPassword sc'
       else \<forall>other. Scenario_isPassword other sc' \<longleftrightarrow> take 4 (sha256 other) = take 4 (sha256 newPass))))"
proof -
  have long: "7 \<le> length (hashStr p)" for p by (simp add: hashStr_sha256 length_hex)
  have seven: "take 7 (hashBytes p) = rev (take 4 (sha256 p)) @ replicate 3 NUL" for p
    by (simp add: hashBytes_sha256)
  have is_password: "Scenario_isPassword p sc \<longleftrightarrow> sc_tailLength sc = 7 \<and> sc_tailData sc = rev (take 4 (sha256 p)) @ replicate 3 NUL"
    if "length (sc_tailData sc) = 7" for p sc
  proof (cases "sc_tailLength sc = 7")
    case True
    have "(\<forall>i\<in>{0..<7}. sc_tailData sc ! i = hashBytes p ! i) \<longleftrightarrow> sc_tailData sc = take 7 (hashBytes p)"
      using that by (auto simp: list_eq_iff_nth_eq length_hashBytes)
    then show ?thesis using True long by (simp add: Scenario_isPassword_def Scenario_hasPassword_def seven)
  qed (simp add: Scenario_isPassword_def Scenario_hasPassword_def)
  let ?new = "sc\<lparr>sc_tailLength := 7, sc_tailData := take 7 (hashBytes newPass)\<rparr>"
  have "Scenario_isPassword other ?new \<longleftrightarrow> take 4 (sha256 other) = take 4 (sha256 newPass)" for other
    using is_password [of ?new other] seven [of newPass] by (auto simp: hashBytes_sha256)
  moreover have "\<exists>sc'. Scenario_setPassword password newPass sc = (True, sc') \<and>
      (if newPass = [] then \<not> Scenario_hasPassword sc' else sc' = ?new)" if "Scenario_isPassword password sc"
    using that long assms by (simp add: Scenario_setPassword_def Scenario_hasPassword_def)
  moreover have "Scenario_setPassword password newPass sc = (False, sc)" if "\<not> Scenario_hasPassword sc"
    using that by (simp add: Scenario_setPassword_def Scenario_isPassword_def)
  ultimately show ?thesis using is_password [OF assms] by (metis (full_types))
qed

theorem Scenario_password_spec_witness:
  "\<exists>sc sc'. Scenario_hasPassword sc \<and> Scenario_setPassword ''old'' ''new'' sc = (True, sc') \<and>
    Scenario_isPassword ''new'' sc' \<and> Scenario_setPassword ''old'' ''new'' Scenario_cleared = (False, Scenario_cleared)"
proof -
  let ?sc = "Scenario_cleared\<lparr>sc_tailLength := 7, sc_tailData := rev (take 4 (sha256 ''old'')) @ replicate 3 NUL\<rparr>"
  have len: "length (sc_tailData ?sc) = 7" "length (sc_tailData Scenario_cleared) = 7" by (simp_all add: Scenario_cleared_def)
  have old: "Scenario_isPassword ''old'' ?sc"
    using Scenario_password_spec [OF len(1), of "''old''" "''new''"] by simp
  then obtain sc' where "Scenario_setPassword ''old'' ''new'' ?sc = (True, sc')" "Scenario_isPassword ''new'' sc'"
    using Scenario_password_spec [OF len(1), of "''old''" "''new''"] by auto
  moreover have "Scenario_setPassword ''old'' ''new'' Scenario_cleared = (False, Scenario_cleared)"
    using Scenario_password_spec [OF len(2), of "''old''" "''new''"] by (simp add: Scenario_hasPassword_def Scenario_cleared_def)
  ultimately show ?thesis using old by (auto simp: Scenario_isPassword_def split: if_splits)
qed

end
