(* ===== verification/Undos.thy ===== *)
theory Undos
  imports MapLayers "HOL-Library.AList"
begin

unbundle bit_operations_syntax

text \<open>
  Undo and redo of the editor (\<open>src/ChkdraftLib/Mapping/Undos\<close>). A reversible action stores what it would
  change back; \<open>Reverse\<close> applies it and turns the action into the one that restores what it replaced. \<open>Undos\<close>
  keeps a list of actions to undo and one of actions to redo, serves the newest action of the type asked for,
  and counts the changes of each type, to tell its observer whether the map differs from the saved one.

  The locale \<open>reversible\<close> is the contract between the two: reversing a valid action twice restores the action and
  the map. It is interpreted with the actions of the code. The action that creates and deletes
  locations (\<open>LocationCreateDel\<close>) is not modelled.
\<close>

section \<open>The actions\<close>

datatype LocationField = Location_Left | Location_Top | Location_Right | Location_Bottom | Location_StringId | Location_ElevationFlags

datatype UnitField = Unit_ClassId | Unit_Xc | Unit_Yc | Unit_Type | Unit_RelationFlags | Unit_ValidStateFlags
  | Unit_ValidFieldFlags | Unit_Owner | Unit_HitpointPercent | Unit_ShieldPercent | Unit_EnergyPercent
  | Unit_ResourceAmount | Unit_HangerAmount | Unit_StateFlags | Unit_Unused | Unit_RelationClassId

text \<open>The part of \<open>GuiMap\<close> that the actions change: the layers of the map and the selected units.\<close>

record GuiMap =
  gm_layers :: Layers
  gm_selUnits :: "u16 list"

datatype Reversible =
    TileChange u16 u16 u16
  | LocationChange u16 LocationField u32
  | LocationMove u16 u32 u32
  | UnitChange u16 UnitField u32
  | UnitCreateDel u16 "Unit option"
  | UnitIndexMove u16 u16
  | UnitIndexMoveBoundary
  | ReversibleActions "Reversible list" bool

definition TileChange_Reverse :: "u16 \<Rightarrow> u16 \<Rightarrow> u16 \<Rightarrow> GuiMap \<Rightarrow> (Reversible \<times> GuiMap) result" where
  "TileChange_Reverse xc yc tileValue m =
    bind_result (Terrain_getTile (gm_layers m) (unat xc) (unat yc) Scope_Game) (\<lambda>replacedValue.
    bind_result (Terrain_setTile (unat xc) (unat yc) tileValue Scope_Either (gm_layers m)) (\<lambda>ly.
      Inr (TileChange xc yc replacedValue, m\<lparr>gm_layers := ly\<rparr>)))"

primrec getLocationField :: "LocationField \<Rightarrow> Location \<Rightarrow> u32" where
  "getLocationField Location_Left l = l_left l"
| "getLocationField Location_Top l = l_top l"
| "getLocationField Location_Right l = l_right l"
| "getLocationField Location_Bottom l = l_bottom l"
| "getLocationField Location_StringId l = ucast (l_stringId l)"
| "getLocationField Location_ElevationFlags l = ucast (l_elevationFlags l)"

primrec setLocationField :: "LocationField \<Rightarrow> u32 \<Rightarrow> Location \<Rightarrow> Location" where
  "setLocationField Location_Left d l = l\<lparr>l_left := d\<rparr>"
| "setLocationField Location_Top d l = l\<lparr>l_top := d\<rparr>"
| "setLocationField Location_Right d l = l\<lparr>l_right := d\<rparr>"
| "setLocationField Location_Bottom d l = l\<lparr>l_bottom := d\<rparr>"
| "setLocationField Location_StringId d l = l\<lparr>l_stringId := ucast d\<rparr>"
| "setLocationField Location_ElevationFlags d l = l\<lparr>l_elevationFlags := ucast d\<rparr>"

text \<open>Change the location an id points at, through the pointer.\<close>

definition updateLocation :: "nat \<Rightarrow> (Location \<Rightarrow> Location) \<Rightarrow> GuiMap \<Rightarrow> (Location \<times> GuiMap) result" where
  "updateLocation locationId f m =
    bind_result (Layers_getLocation (gm_layers m) locationId) (\<lambda>p. bind_result (follow p) (\<lambda>l.
    bind_result (on_mrgn (\<lambda>mrgn. Inr (mrgn\<lparr>locations := (locations mrgn)[locationId := Some (f l)]\<rparr>)) (gm_layers m)) (\<lambda>ly.
      Inr (l, m\<lparr>gm_layers := ly\<rparr>))))"

definition LocationChange_Reverse :: "u16 \<Rightarrow> LocationField \<Rightarrow> u32 \<Rightarrow> GuiMap \<Rightarrow> (Reversible \<times> GuiMap) result" where
  "LocationChange_Reverse locationId field d m =
    bind_result (updateLocation (unat locationId) (setLocationField field d) m) (\<lambda>(l, m).
      Inr (LocationChange locationId field (getLocationField field l), m))"

text \<open>Negating the smallest 32-bit integer overflows.\<close>

definition LocationMove_Reverse :: "u16 \<Rightarrow> u32 \<Rightarrow> u32 \<Rightarrow> GuiMap \<Rightarrow> (Reversible \<times> GuiMap) result" where
  "LocationMove_Reverse locationId xChange yChange m =
    bind_result (updateLocation (unat locationId) (\<lambda>l. l\<lparr>l_left := l_left l + xChange, l_right := l_right l + xChange,
      l_top := l_top l + yChange, l_bottom := l_bottom l + yChange\<rparr>) m) (\<lambda>(_, m).
      if xChange = 0x80000000 \<or> yChange = 0x80000000 then Inl UndefinedBehavior
      else Inr (LocationMove locationId (- xChange) (- yChange), m))"

primrec getUnitField :: "UnitField \<Rightarrow> Unit \<Rightarrow> u32" where
  "getUnitField Unit_ClassId u = u_classId u"
| "getUnitField Unit_Xc u = ucast (u_xc u)"
| "getUnitField Unit_Yc u = ucast (u_yc u)"
| "getUnitField Unit_Type u = ucast (u_type u)"
| "getUnitField Unit_RelationFlags u = ucast (u_relationFlags u)"
| "getUnitField Unit_ValidStateFlags u = ucast (u_validStateFlags u)"
| "getUnitField Unit_ValidFieldFlags u = ucast (u_validFieldFlags u)"
| "getUnitField Unit_Owner u = ucast (u_owner u)"
| "getUnitField Unit_HitpointPercent u = ucast (u_hitpointPercent u)"
| "getUnitField Unit_ShieldPercent u = ucast (u_shieldPercent u)"
| "getUnitField Unit_EnergyPercent u = ucast (u_energyPercent u)"
| "getUnitField Unit_ResourceAmount u = u_resourceAmount u"
| "getUnitField Unit_HangerAmount u = ucast (u_hangerAmount u)"
| "getUnitField Unit_StateFlags u = ucast (u_stateFlags u)"
| "getUnitField Unit_Unused u = u_unused u"
| "getUnitField Unit_RelationClassId u = u_relationClassId u"

primrec setUnitField :: "UnitField \<Rightarrow> u32 \<Rightarrow> Unit \<Rightarrow> Unit" where
  "setUnitField Unit_ClassId d u = u\<lparr>u_classId := d\<rparr>"
| "setUnitField Unit_Xc d u = u\<lparr>u_xc := ucast d\<rparr>"
| "setUnitField Unit_Yc d u = u\<lparr>u_yc := ucast d\<rparr>"
| "setUnitField Unit_Type d u = u\<lparr>u_type := ucast d\<rparr>"
| "setUnitField Unit_RelationFlags d u = u\<lparr>u_relationFlags := ucast d\<rparr>"
| "setUnitField Unit_ValidStateFlags d u = u\<lparr>u_validStateFlags := ucast d\<rparr>"
| "setUnitField Unit_ValidFieldFlags d u = u\<lparr>u_validFieldFlags := ucast d\<rparr>"
| "setUnitField Unit_Owner d u = u\<lparr>u_owner := ucast d\<rparr>"
| "setUnitField Unit_HitpointPercent d u = u\<lparr>u_hitpointPercent := ucast d\<rparr>"
| "setUnitField Unit_ShieldPercent d u = u\<lparr>u_shieldPercent := ucast d\<rparr>"
| "setUnitField Unit_EnergyPercent d u = u\<lparr>u_energyPercent := ucast d\<rparr>"
| "setUnitField Unit_ResourceAmount d u = u\<lparr>u_resourceAmount := d\<rparr>"
| "setUnitField Unit_HangerAmount d u = u\<lparr>u_hangerAmount := ucast d\<rparr>"
| "setUnitField Unit_StateFlags d u = u\<lparr>u_stateFlags := ucast d\<rparr>"
| "setUnitField Unit_Unused d u = u\<lparr>u_unused := d\<rparr>"
| "setUnitField Unit_RelationClassId d u = u\<lparr>u_relationClassId := d\<rparr>"

definition UnitChange_Reverse :: "u16 \<Rightarrow> UnitField \<Rightarrow> u32 \<Rightarrow> GuiMap \<Rightarrow> (Reversible \<times> GuiMap) result" where
  "UnitChange_Reverse unitIndex field d m =
    bind_result (Layers_getUnit (gm_layers m) (unat unitIndex)) (\<lambda>u.
    bind_result (on_unit (\<lambda>sec. Inr (sec\<lparr>units := (units sec)[unat unitIndex := setUnitField field d u]\<rparr>)) (gm_layers m)) (\<lambda>ly.
      Inr (UnitChange unitIndex field (getUnitField field u), m\<lparr>gm_layers := ly\<rparr>)))"

definition UnitCreateDel_Reverse :: "u16 \<Rightarrow> Unit option \<Rightarrow> GuiMap \<Rightarrow> (Reversible \<times> GuiMap) result" where
  "UnitCreateDel_Reverse index unit m =
    (case unit of
       None \<Rightarrow>
         bind_result (Layers_getUnit (gm_layers m) (unat index)) (\<lambda>u.
         bind_result (Layers_deleteUnit (unat index) (gm_layers m)) (\<lambda>ly.
           Inr (UnitCreateDel index (Some u), m\<lparr>gm_layers := ly\<rparr>)))
     | Some u \<Rightarrow>
         bind_result (Layers_insertUnit (unat index) u (gm_layers m)) (\<lambda>ly.
           Inr (UnitCreateDel index None, m\<lparr>gm_layers := ly\<rparr>)))"

text \<open>\<open>Selections::sendMove\<close> and \<open>Selections::finishMove\<close>.\<close>

definition Selections_sendMove :: "u16 \<Rightarrow> u16 \<Rightarrow> u16 list \<Rightarrow> u16 list" where
  "Selections_sendMove oldIndex newIndex = map (\<lambda>unitIndex.
    if unitIndex = newIndex then oldIndex OR 0x8000
    else if newIndex > unitIndex \<and> oldIndex \<le> unitIndex then unitIndex + 1
    else if newIndex < unitIndex \<and> oldIndex \<ge> unitIndex then unitIndex - 1
    else unitIndex)"

definition Selections_finishMove :: "u16 list \<Rightarrow> u16 list" where
  "Selections_finishMove = map (\<lambda>unitIndex. if unitIndex AND 0x8000 \<noteq> 0 then unitIndex AND 0x7FFF else unitIndex)"

definition UnitIndexMove_Reverse :: "u16 \<Rightarrow> u16 \<Rightarrow> GuiMap \<Rightarrow> (Reversible \<times> GuiMap) result" where
  "UnitIndexMove_Reverse oldIndex newIndex m =
    bind_result (Layers_getUnit (gm_layers m) (unat newIndex)) (\<lambda>preserve.
    bind_result (Layers_deleteUnit (unat newIndex) (gm_layers m)) (\<lambda>ly.
    bind_result (Layers_insertUnit (unat oldIndex) preserve ly) (\<lambda>ly.
      Inr (UnitIndexMove newIndex oldIndex, m\<lparr>gm_layers := ly, gm_selUnits := Selections_sendMove oldIndex newIndex (gm_selUnits m)\<rparr>))))"

text \<open>A list of actions is reversed from the back the first time, from the front the next, and so on.\<close>

fun Reversible_Reverse :: "Reversible \<Rightarrow> GuiMap \<Rightarrow> (Reversible \<times> GuiMap) result"
  and reverseForward :: "Reversible list \<Rightarrow> GuiMap \<Rightarrow> (Reversible list \<times> GuiMap) result"
  and reverseBackward :: "Reversible list \<Rightarrow> GuiMap \<Rightarrow> (Reversible list \<times> GuiMap) result" where
  "Reversible_Reverse (TileChange xc yc v) m = TileChange_Reverse xc yc v m"
| "Reversible_Reverse (LocationChange i f d) m = LocationChange_Reverse i f d m"
| "Reversible_Reverse (LocationMove i x y) m = LocationMove_Reverse i x y m"
| "Reversible_Reverse (UnitChange i f d) m = UnitChange_Reverse i f d m"
| "Reversible_Reverse (UnitCreateDel i u) m = UnitCreateDel_Reverse i u m"
| "Reversible_Reverse (UnitIndexMove i j) m = UnitIndexMove_Reverse i j m"
| "Reversible_Reverse UnitIndexMoveBoundary m =
    Inr (UnitIndexMoveBoundary, m\<lparr>gm_selUnits := Selections_finishMove (gm_selUnits m)\<rparr>)"
| "Reversible_Reverse (ReversibleActions actions reversed) m =
    bind_result (if reversed then reverseBackward actions m else reverseForward actions m) (\<lambda>(actions, m).
      Inr (ReversibleActions actions (\<not> reversed), m))"
| "reverseForward [] m = Inr ([], m)"
| "reverseForward (r # rs) m =
    bind_result (Reversible_Reverse r m) (\<lambda>(r, m). bind_result (reverseForward rs m) (\<lambda>(rs, m). Inr (r # rs, m)))"
| "reverseBackward [] m = Inr ([], m)"
| "reverseBackward (r # rs) m =
    bind_result (reverseBackward rs m) (\<lambda>(rs, m). bind_result (Reversible_Reverse r m) (\<lambda>(r, m). Inr (r # rs, m)))"

text \<open>The types \<open>UndoTypes\<close>; a list has the first type of its actions that is not 0.\<close>

fun Reversible_GetType :: "Reversible \<Rightarrow> int" and firstType :: "Reversible list \<Rightarrow> int" where
  "Reversible_GetType (TileChange _ _ _) = 1"
| "Reversible_GetType (LocationChange _ _ _) = 3"
| "Reversible_GetType (LocationMove _ _ _) = 3"
| "Reversible_GetType (UnitChange _ _ _) = 2"
| "Reversible_GetType (UnitCreateDel _ _) = 2"
| "Reversible_GetType (UnitIndexMove _ _) = 2"
| "Reversible_GetType UnitIndexMoveBoundary = 2"
| "Reversible_GetType (ReversibleActions actions _) = firstType actions"
| "firstType [] = 0"
| "firstType (r # rs) = (if Reversible_GetType r \<noteq> 0 then Reversible_GetType r else firstType rs)"

definition Reversible_Count :: "Reversible \<Rightarrow> int" where
  "Reversible_Count r = (case r of ReversibleActions actions _ \<Rightarrow> int (length actions) | _ \<Rightarrow> 1)"

definition ReversibleActions_Insert :: "Reversible \<Rightarrow> Reversible \<Rightarrow> Reversible" where
  "ReversibleActions_Insert action r = (case r of ReversibleActions actions reversed \<Rightarrow> ReversibleActions (actions @ [action]) reversed | _ \<Rightarrow> r)"

section \<open>The undo and redo lists\<close>

datatype notification = ChangesMade | ChangesReversed

record 'r UndoLists =
  un_undos :: "'r list"
  un_redos :: "'r list"
  un_changeCounters :: "(int \<times> int) list"
  un_sent :: "notification list"

definition Undos_new :: "'r UndoLists" where
  "Undos_new = \<lparr>un_undos = [], un_redos = [], un_changeCounters = [], un_sent = []\<rparr>"

definition Undos_AdjustChangeCount :: "int \<Rightarrow> int \<Rightarrow> 'r UndoLists \<Rightarrow> 'r UndoLists" where
  "Undos_AdjustChangeCount type adjustBy un =
    (let counters = (case map_of (un_changeCounters un) type of
           Some n \<Rightarrow> (if n + adjustBy = 0 then AList.delete type (un_changeCounters un)
                     else AList.update type (n + adjustBy) (un_changeCounters un))
         | None \<Rightarrow> un_changeCounters un @ [(type, adjustBy)])
     in un\<lparr>un_changeCounters := counters,
           un_sent := un_sent un @ [if counters = [] then ChangesReversed else ChangesMade]\<rparr>)"

text \<open>The first action of the type is taken out of the list.\<close>

fun popFirst :: "('r \<Rightarrow> bool) \<Rightarrow> 'r list \<Rightarrow> ('r \<times> 'r list) option" where
  "popFirst P [] = None"
| "popFirst P (r # rs) = (if P r then Some (r, rs) else map_option (\<lambda>(x, xs). (x, r # xs)) (popFirst P rs))"

definition addUndo :: "('r \<Rightarrow> int) \<Rightarrow> ('r \<Rightarrow> int) \<Rightarrow> 'r \<Rightarrow> 'r UndoLists \<Rightarrow> 'r UndoLists" where
  "addUndo GetType Count action un =
    (if Count action > 0
     then Undos_AdjustChangeCount (GetType action) 1 (un\<lparr>un_undos := action # un_undos un\<rparr>) else un)"

definition doUndo :: "('r \<Rightarrow> 'o \<Rightarrow> ('r \<times> 'o) result) \<Rightarrow> ('r \<Rightarrow> int) \<Rightarrow> int \<Rightarrow> 'r UndoLists \<times> 'o \<Rightarrow> ('r UndoLists \<times> 'o) result" where
  "doUndo Reverse GetType type = (\<lambda>(un, m).
    case popFirst (\<lambda>r. type = GetType r) (un_undos un) of
      None \<Rightarrow> Inr (un, m)
    | Some (r, undos) \<Rightarrow> bind_result (Reverse r m) (\<lambda>(r, m).
        Inr (Undos_AdjustChangeCount (GetType r) (- 1) (un\<lparr>un_undos := undos, un_redos := r # un_redos un\<rparr>), m)))"

definition doRedo :: "('r \<Rightarrow> 'o \<Rightarrow> ('r \<times> 'o) result) \<Rightarrow> ('r \<Rightarrow> int) \<Rightarrow> int \<Rightarrow> 'r UndoLists \<times> 'o \<Rightarrow> ('r UndoLists \<times> 'o) result" where
  "doRedo Reverse GetType type = (\<lambda>(un, m).
    case popFirst (\<lambda>r. type = GetType r) (un_redos un) of
      None \<Rightarrow> Inr (un, m)
    | Some (r, redos) \<Rightarrow> bind_result (Reverse r m) (\<lambda>(r, m).
        Inr (Undos_AdjustChangeCount (GetType r) 1 (un\<lparr>un_redos := redos, un_undos := r # un_undos un\<rparr>), m)))"

definition Undos_AddUndo :: "Reversible \<Rightarrow> Reversible UndoLists \<Rightarrow> Reversible UndoLists" where
  "Undos_AddUndo = addUndo Reversible_GetType Reversible_Count"

definition Undos_doUndo :: "int \<Rightarrow> Reversible UndoLists \<times> GuiMap \<Rightarrow> (Reversible UndoLists \<times> GuiMap) result" where
  "Undos_doUndo = doUndo Reversible_Reverse Reversible_GetType"

definition Undos_doRedo :: "int \<Rightarrow> Reversible UndoLists \<times> GuiMap \<Rightarrow> (Reversible UndoLists \<times> GuiMap) result" where
  "Undos_doRedo = doRedo Reversible_Reverse Reversible_GetType"

definition Undos_ResetChangeCount :: "'r UndoLists \<Rightarrow> 'r UndoLists" where
  "Undos_ResetChangeCount un = un\<lparr>un_changeCounters := []\<rparr>"

text \<open>Several undos or redos in a row.\<close>

primrec repeatStep :: "nat \<Rightarrow> ('s \<Rightarrow> 's result) \<Rightarrow> 's \<Rightarrow> 's result" where
  "repeatStep 0 f s = Inr s"
| "repeatStep (Suc n) f s = bind_result (f s) (repeatStep n f)"

definition counter :: "'r UndoLists \<Rightarrow> int \<Rightarrow> int" where
  "counter un type = (case map_of (un_changeCounters un) type of None \<Rightarrow> 0 | Some n \<Rightarrow> n)"

definition wf_counters :: "'r UndoLists \<Rightarrow> bool" where
  "wf_counters un \<longleftrightarrow> distinct (map fst (un_changeCounters un)) \<and> 0 \<notin> snd ` set (un_changeCounters un)"

section \<open>Change counters\<close>

lemma wf_counters_map_of: "wf_counters un \<Longrightarrow> map_of (un_changeCounters un) t \<noteq> Some 0"
  by (force simp: wf_counters_def dest: map_of_SomeD)

lemma no_counters_iff:
  assumes "wf_counters un"
  shows "un_changeCounters un = [] \<longleftrightarrow> (\<forall>t. counter un t = 0)"
proof
  assume zero: "\<forall>t. counter un t = 0"
  have "map_of (un_changeCounters un) t = None" for t
    using zero wf_counters_map_of [OF assms, of t] by (cases "map_of (un_changeCounters un) t") (auto simp: counter_def dest: spec [of _ t])
  then show "un_changeCounters un = []"
    by (metis ext map_of_eq_empty_iff)
qed (simp add: counter_def)

lemma AdjustChangeCount_lists [simp]:
  "un_undos (Undos_AdjustChangeCount t d un) = un_undos un"
  "un_redos (Undos_AdjustChangeCount t d un) = un_redos un"
  by (simp_all add: Undos_AdjustChangeCount_def Let_def)

lemma AdjustChangeCount_wf:
  assumes "wf_counters un" "d \<noteq> 0"
  shows "wf_counters (Undos_AdjustChangeCount t d un)"
proof (cases "map_of (un_changeCounters un) t")
  case None
  then have "t \<notin> fst ` set (un_changeCounters un)" by (simp add: map_of_eq_None_iff)
  then show ?thesis
    using assms None by (auto simp: Undos_AdjustChangeCount_def wf_counters_def Let_def)
next
  case (Some n)
  have keys: "distinct (map fst (un_changeCounters un))" and zero: "0 \<notin> snd ` set (un_changeCounters un)"
    using assms(1) by (auto simp: wf_counters_def)
  have upd: "0 \<notin> snd ` set (AList.update t k (un_changeCounters un))" if "k \<noteq> 0" for k
  proof
    assume "0 \<in> snd ` set (AList.update t k (un_changeCounters un))"
    then obtain u where "(u, 0) \<in> set (AList.update t k (un_changeCounters un))" by auto
    then have "map_of (AList.update t k (un_changeCounters un)) u = Some 0"
      using keys by (simp add: distinct_update)
    then show False
      using that zero map_of_SomeD [of "un_changeCounters un" u 0] by (force simp: update_conv' split: if_splits)
  qed
  show ?thesis
    using Some keys zero upd
    by (auto simp: Undos_AdjustChangeCount_def wf_counters_def Let_def distinct_update AList.delete_eq distinct_map_filter)
qed

lemma AdjustChangeCount_counter:
  assumes "wf_counters un"
  shows "counter (Undos_AdjustChangeCount t d un) = (counter un)(t := counter un t + d)"
proof
  fix u
  show "counter (Undos_AdjustChangeCount t d un) u = ((counter un)(t := counter un t + d)) u"
    by (cases "map_of (un_changeCounters un) t")
      (auto simp: Undos_AdjustChangeCount_def counter_def Let_def update_conv' delete_conv' map_add_def split: option.splits)
qed

lemma AdjustChangeCount_sent:
  assumes "wf_counters un" "d \<noteq> 0"
  shows "last (un_sent (Undos_AdjustChangeCount t d un)) = ChangesReversed \<longleftrightarrow>
    (\<forall>u. counter (Undos_AdjustChangeCount t d un) u = 0)"
  using no_counters_iff [OF AdjustChangeCount_wf [OF assms, of t]]
  by (auto simp: Undos_AdjustChangeCount_def Let_def split: if_splits option.splits)

lemma counter_cong [simp]:
  "counter (un\<lparr>un_undos := xs\<rparr>) = counter un" "counter (un\<lparr>un_redos := xs\<rparr>) = counter un"
  "wf_counters (un\<lparr>un_undos := xs\<rparr>) = wf_counters un" "wf_counters (un\<lparr>un_redos := xs\<rparr>) = wf_counters un"
  by (simp_all add: counter_def wf_counters_def fun_eq_iff)

section \<open>What the lists rely on\<close>

lemma popFirst_None: "popFirst P rs = None \<longleftrightarrow> filter P rs = []"
  by (induction rs) auto

lemma popFirst_Some:
  "popFirst P rs = Some (r, rs') \<Longrightarrow> P r \<and> filter P rs = r # filter P rs' \<and> filter (\<lambda>x. \<not> P x) rs = filter (\<lambda>x. \<not> P x) rs'"
  by (induction rs arbitrary: rs') (auto split: if_splits)

lemma popFirst_cases:
  obtains "popFirst P rs = None" "filter P rs = []"
  | r rs' where "popFirst P rs = Some (r, rs')" "P r" "filter P rs = r # filter P rs'"
      "filter (\<lambda>x. \<not> P x) rs = filter (\<lambda>x. \<not> P x) rs'"
  by (cases "popFirst P rs") (auto simp: popFirst_None dest: popFirst_Some)

lemma popFirst_length:
  "popFirst P rs = Some (r, rs') \<Longrightarrow> length (filter Q rs) = length (filter Q rs') + (if Q r then 1 else 0)"
  by (induction rs arbitrary: rs') (auto split: if_splits)

definition undosOf :: "('r \<Rightarrow> int) \<Rightarrow> int \<Rightarrow> 'r UndoLists \<Rightarrow> 'r list" where
  "undosOf GetType type un = filter (\<lambda>r. type = GetType r) (un_undos un)"

lemma length_undosOf_pop:
  assumes "popFirst (\<lambda>r. type = GetType r) (un_undos un) = Some (r, rs)"
  shows "length (undosOf GetType t un) = length (filter (\<lambda>r. t = GetType r) rs) + (if t = type then 1 else 0)"
  using popFirst_length [OF assms, of "\<lambda>r. t = GetType r"] popFirst_Some [OF assms] by (auto simp: undosOf_def)

text \<open>
  What happens between two saves: an action is added, after any change of the map, or an action of some type is
  undone or redone.
\<close>

inductive undo_step ::
  "('r \<Rightarrow> 'o \<Rightarrow> ('r \<times> 'o) result) \<Rightarrow> ('r \<Rightarrow> int) \<Rightarrow> ('r \<Rightarrow> int) \<Rightarrow> 'r UndoLists \<times> 'o \<Rightarrow> 'r UndoLists \<times> 'o \<Rightarrow> bool"
  for Reverse GetType Count where
  add: "undo_step Reverse GetType Count (un, m) (addUndo GetType Count action un, m')"
| undo: "doUndo Reverse GetType type s = Inr s' \<Longrightarrow> undo_step Reverse GetType Count s s'"
| redo: "doRedo Reverse GetType type s = Inr s' \<Longrightarrow> undo_step Reverse GetType Count s s'"

inductive_cases undo_stepE: "undo_step Reverse GetType Count s s'"

text \<open>
  The counter of a type is the number of its undos less their number at the save, and the last notification
  since the save says whether all counters are 0.
\<close>

definition counted :: "('r \<Rightarrow> int) \<Rightarrow> 'r UndoLists \<Rightarrow> 'r UndoLists \<Rightarrow> bool" where
  "counted GetType saved un \<longleftrightarrow> wf_counters un \<and>
    (\<forall>t. counter un t = int (length (undosOf GetType t un)) - int (length (undosOf GetType t saved))) \<and>
    (un_sent un = un_sent saved \<or> un_sent un \<noteq> [] \<and> (last (un_sent un) = ChangesReversed \<longleftrightarrow> (\<forall>t. counter un t = 0)))"

text \<open>Reversing an action does not change its type.\<close>

locale typed_reversals =
  fixes Reverse :: "'r \<Rightarrow> 'o \<Rightarrow> ('r \<times> 'o) result" and GetType :: "'r \<Rightarrow> int"
  assumes GetType_Reverse: "Reverse r m = Inr (r', m') \<Longrightarrow> GetType r' = GetType r"
begin

lemma counted_adjust:
  assumes "wf_counters un" "d \<noteq> 0"
    "\<And>t. counter un t + (if t = type then d else 0) = int (length (undosOf GetType t un)) - int (length (undosOf GetType t saved))"
  shows "counted GetType saved (Undos_AdjustChangeCount type d un)"
proof -
  have "un_sent (Undos_AdjustChangeCount type d un) \<noteq> []" by (simp add: Undos_AdjustChangeCount_def Let_def)
  moreover have "undosOf GetType t (Undos_AdjustChangeCount type d un) = undosOf GetType t un" for t by (simp add: undosOf_def)
  ultimately show ?thesis
    unfolding counted_def
    using AdjustChangeCount_wf [OF assms(1,2)] AdjustChangeCount_sent [OF assms(1,2)] AdjustChangeCount_counter [OF assms(1)]
    by (auto simp: assms(3) [symmetric])
qed

lemma counted_add:
  assumes "counted GetType saved un"
  shows "counted GetType saved (addUndo GetType Count action un)"
proof (cases "Count action > 0")
  case True
  then show ?thesis
    using assms by (simp only: addUndo_def if_True, intro counted_adjust) (auto simp: counted_def undosOf_def)
qed (use assms in \<open>simp add: addUndo_def\<close>)

lemma counted_undo:
  assumes step: "doUndo Reverse GetType type (un, m) = Inr (un', m')" and counted: "counted GetType saved un"
  shows "counted GetType saved un'"
proof (cases rule: popFirst_cases [of "\<lambda>r. type = GetType r" "un_undos un"])
  case 1
  then show ?thesis using assms by (simp add: doUndo_def)
next
  case (2 r rs)
  obtain r1 m1 where rev: "Reverse r m = Inr (r1, m1)"
    and un': "un' = Undos_AdjustChangeCount (GetType r1) (- 1) (un\<lparr>un_undos := rs, un_redos := r1 # un_redos un\<rparr>)"
    using step 2(1) by (auto simp: doUndo_def bind_result_eq_Inr)
  have wf: "wf_counters (un\<lparr>un_undos := rs, un_redos := r1 # un_redos un\<rparr>)"
    using counted by (simp add: counted_def)
  show ?thesis
    unfolding un' using counted length_undosOf_pop [OF 2(1)] GetType_Reverse [OF rev] 2(2)
    by (intro counted_adjust [OF wf]) (auto simp: counted_def undosOf_def)
qed

lemma counted_redo:
  assumes step: "doRedo Reverse GetType type (un, m) = Inr (un', m')" and counted: "counted GetType saved un"
  shows "counted GetType saved un'"
proof (cases rule: popFirst_cases [of "\<lambda>r. type = GetType r" "un_redos un"])
  case 1
  then show ?thesis using assms by (simp add: doRedo_def)
next
  case (2 r rs)
  obtain r1 m1 where rev: "Reverse r m = Inr (r1, m1)"
    and un': "un' = Undos_AdjustChangeCount (GetType r1) 1 (un\<lparr>un_redos := rs, un_undos := r1 # un_undos un\<rparr>)"
    using step 2(1) by (auto simp: doRedo_def bind_result_eq_Inr)
  have wf: "wf_counters (un\<lparr>un_redos := rs, un_undos := r1 # un_undos un\<rparr>)"
    using counted by (simp add: counted_def)
  show ?thesis
    unfolding un' using counted by (intro counted_adjust [OF wf]) (auto simp: counted_def undosOf_def)
qed

lemma counted_reachable:
  assumes "(undo_step Reverse GetType Count)\<^sup>*\<^sup>* (saved, m) s" "un_changeCounters saved = []"
  shows "counted GetType saved (fst s)"
  using assms(1)
proof (induction rule: rtranclp_induct)
  case base
  then show ?case using assms(2) by (simp add: counted_def counter_def wf_counters_def)
next
  case (step s t)
  then show ?case
    by (cases s; cases t) (auto elim!: undo_stepE intro: counted_add counted_undo counted_redo)
qed

end

text \<open>
  Reversing a valid action twice restores the action and the map. The actions \<open>rs\<close> can be reversed in a row:
  each is valid in the map that the ones before it leave.
\<close>

fun reversible_in_a_row :: "('r \<Rightarrow> 'o \<Rightarrow> ('r \<times> 'o) result) \<Rightarrow> ('r \<Rightarrow> 'o \<Rightarrow> bool) \<Rightarrow> 'r list \<Rightarrow> 'o \<Rightarrow> bool" where
  "reversible_in_a_row Reverse valid [] m \<longleftrightarrow> True"
| "reversible_in_a_row Reverse valid (r # rs) m \<longleftrightarrow>
    valid r m \<and> (case Reverse r m of Inl e \<Rightarrow> False | Inr (r', m') \<Rightarrow> reversible_in_a_row Reverse valid rs m')"

lemma repeatStep_Suc_right: "repeatStep (Suc n) f s = bind_result (repeatStep n f s) f"
proof (induction n arbitrary: s)
  case 0
  show ?case by (cases "f s") simp_all
next
  case (Suc n)
  show ?case
  proof (cases "f s")
    case (Inr t)
    then show ?thesis using Suc [of t] by simp
  qed simp
qed

locale reversible = typed_reversals Reverse GetType
  for Reverse :: "'r \<Rightarrow> 'o \<Rightarrow> ('r \<times> 'o) result" and GetType :: "'r \<Rightarrow> int" +
  fixes valid :: "'r \<Rightarrow> 'o \<Rightarrow> bool"
  assumes Reverse_valid: "valid r m \<Longrightarrow>
    \<exists>r' m'. Reverse r m = Inr (r', m') \<and> valid r' m' \<and> Reverse r' m' = Inr (r, m)"
begin

text \<open>One undo, and the redo that takes it back.\<close>

lemma undo_valid:
  assumes undos: "undosOf GetType type un = r # rs" and valid: "valid r m"
  shows "\<exists>un' r' m'. doUndo Reverse GetType type (un, m) = Inr (un', m') \<and> Reverse r m = Inr (r', m') \<and>
    undosOf GetType type un' = rs \<and> un_redos un' = r' # un_redos un \<and> type = GetType r' \<and>
    filter (\<lambda>r. type \<noteq> GetType r) (un_undos un') = filter (\<lambda>r. type \<noteq> GetType r) (un_undos un) \<and>
    Reverse r' m' = Inr (r, m) \<and> (wf_counters un \<longrightarrow> wf_counters un' \<and> counter un' = (counter un)(type := counter un type - 1))"
proof (cases rule: popFirst_cases [of "\<lambda>r. type = GetType r" "un_undos un"])
  case 1
  then show ?thesis using undos by (simp add: undosOf_def)
next
  case (2 r0 rs')
  then have r0: "r0 = r" and rs: "filter (\<lambda>r. type = GetType r) rs' = rs" using undos by (auto simp: undosOf_def)
  obtain r' m' where rev: "Reverse r m = Inr (r', m')" "Reverse r' m' = Inr (r, m)"
    using Reverse_valid [OF valid] by auto
  have type: "GetType r' = type" using GetType_Reverse [OF rev(1)] 2(2) r0 by simp
  let ?un = "un\<lparr>un_undos := rs', un_redos := r' # un_redos un\<rparr>"
  have "doUndo Reverse GetType type (un, m) = Inr (Undos_AdjustChangeCount type (- 1) ?un, m')"
    using 2(1) r0 rev(1) type by (simp add: doUndo_def)
  then show ?thesis
    using rev type rs 2(4) AdjustChangeCount_wf [of ?un "- 1" type] AdjustChangeCount_counter [of ?un type "- 1"]
    by (auto simp: undosOf_def)
qed

lemma redo_valid:
  assumes redos: "un_redos un = r # rs" "type = GetType r" and rev: "Reverse r m = Inr (r', m')"
  shows "\<exists>un'. doRedo Reverse GetType type (un, m) = Inr (un', m') \<and>
    un_undos un' = r' # un_undos un \<and> un_redos un' = rs \<and> type = GetType r' \<and>
    (wf_counters un \<longrightarrow> wf_counters un' \<and> counter un' = (counter un)(type := counter un type + 1))"
proof -
  let ?un = "un\<lparr>un_redos := rs, un_undos := r' # un_undos un\<rparr>"
  have "doRedo Reverse GetType type (un, m) = Inr (Undos_AdjustChangeCount type 1 ?un, m')"
    using redos rev GetType_Reverse [OF rev] by (simp add: doRedo_def)
  then show ?thesis
    using redos(2) GetType_Reverse [OF rev] AdjustChangeCount_wf [of ?un 1 type] AdjustChangeCount_counter [of ?un type 1]
    by auto
qed

text \<open>Several of a type are undone, newest first; as many redos restore the map and the actions.\<close>

lemma undo_redo_row:
  assumes "undosOf GetType type un = rs @ older" "reversible_in_a_row Reverse valid rs m"
  shows "\<exists>un' m' un''. repeatStep (length rs) (doUndo Reverse GetType type) (un, m) = Inr (un', m') \<and>
    undosOf GetType type un' = older \<and>
    repeatStep (length rs) (doRedo Reverse GetType type) (un', m') = Inr (un'', m) \<and>
    undosOf GetType type un'' = rs @ older \<and> un_redos un'' = un_redos un \<and>
    filter (\<lambda>r. type \<noteq> GetType r) (un_undos un'') = filter (\<lambda>r. type \<noteq> GetType r) (un_undos un) \<and>
    (wf_counters un \<longrightarrow> wf_counters un'' \<and> counter un'' = counter un)"
  using assms
proof (induction rs arbitrary: un m)
  case Nil
  then show ?case by simp
next
  case (Cons r rs)
  have valid: "valid r m" using Cons.prems(2) by simp
  obtain un1 r1 m1 where one: "doUndo Reverse GetType type (un, m) = Inr (un1, m1)" "Reverse r m = Inr (r1, m1)"
      "undosOf GetType type un1 = rs @ older" "un_redos un1 = r1 # un_redos un" "type = GetType r1"
      "filter (\<lambda>r. type \<noteq> GetType r) (un_undos un1) = filter (\<lambda>r. type \<noteq> GetType r) (un_undos un)"
      "Reverse r1 m1 = Inr (r, m)" "wf_counters un \<longrightarrow> wf_counters un1 \<and> counter un1 = (counter un)(type := counter un type - 1)"
    using undo_valid [OF _ valid, of type un "rs @ older"] Cons.prems(1) by auto
  obtain un' m' un2 where rest: "repeatStep (length rs) (doUndo Reverse GetType type) (un1, m1) = Inr (un', m')"
      "undosOf GetType type un' = older" "repeatStep (length rs) (doRedo Reverse GetType type) (un', m') = Inr (un2, m1)"
      "undosOf GetType type un2 = rs @ older" "un_redos un2 = un_redos un1"
      "filter (\<lambda>r. type \<noteq> GetType r) (un_undos un2) = filter (\<lambda>r. type \<noteq> GetType r) (un_undos un1)"
      "wf_counters un1 \<longrightarrow> wf_counters un2 \<and> counter un2 = counter un1"
    using Cons.IH [OF one(3), of m1] Cons.prems(2) one(2) by auto
  obtain un3 where redo: "doRedo Reverse GetType type (un2, m1) = Inr (un3, m)" "un_undos un3 = r # un_undos un2"
      "un_redos un3 = un_redos un" "type = GetType r"
      "wf_counters un2 \<longrightarrow> wf_counters un3 \<and> counter un3 = (counter un2)(type := counter un2 type + 1)"
    using redo_valid [of un2 r1 "un_redos un" type m1 r m] rest(5) one(4,5,7) by auto
  have redos: "repeatStep (Suc (length rs)) (doRedo Reverse GetType type) (un', m') = Inr (un3, m)"
    using rest(3) redo(1) by (simp only: repeatStep_Suc_right bind_result_simps)
  show ?case
    using one(1,6,8) rest(1,2,4,6,7) redo(2-5) redos
    by (intro exI [of _ un'] exI [of _ m'] exI [of _ un3]) (auto simp: undosOf_def)
qed

end

section \<open>The actions of the code\<close>

text \<open>
  An action is valid where the object it changes exists and its data fits the field; a tile change also needs
  MTXM and TILE to agree on the tile. The actions that move units are covered for an empty selection here;
  what they do to the selection is below.
\<close>

definition fits :: "nat \<Rightarrow> u32 \<Rightarrow> bool" where
  "fits w d \<longleftrightarrow> take_bit w d = d"

fun location_field_width :: "LocationField \<Rightarrow> nat" where
  "location_field_width f = (if f \<in> {Location_StringId, Location_ElevationFlags} then 16 else 32)"

fun unit_field_width :: "UnitField \<Rightarrow> nat" where
  "unit_field_width f = (if f \<in> {Unit_ClassId, Unit_ResourceAmount, Unit_Unused, Unit_RelationClassId} then 32
    else if f \<in> {Unit_Owner, Unit_HitpointPercent, Unit_ShieldPercent, Unit_EnergyPercent} then 8 else 16)"

definition unitsOf :: "GuiMap \<Rightarrow> Unit list" where
  "unitsOf m = (case ly_unit (gm_layers m) of None \<Rightarrow> [] | Some sec \<Rightarrow> units sec)"

definition has_location :: "GuiMap \<Rightarrow> nat \<Rightarrow> bool" where
  "has_location m i = (case ly_mrgn (gm_layers m) of None \<Rightarrow> False
    | Some mrgn \<Rightarrow> i < length (locations mrgn) \<and> locations mrgn ! i \<noteq> None)"

definition valid_tile :: "GuiMap \<Rightarrow> nat \<Rightarrow> nat \<Rightarrow> bool" where
  "valid_tile m xc yc = (case (ter_dim (gm_layers m), ter_mtxm (gm_layers m), ter_tile (gm_layers m)) of
     (Some dim, Some mtxm, Some tile) \<Rightarrow>
       let i = yc * DimSection_getTileWidth dim + xc
       in i < length (mtxm_tiles mtxm) \<and> i < length (tile_tiles tile) \<and> tile_tiles tile ! i = mtxm_tiles mtxm ! i
   | _ \<Rightarrow> False)"

fun valid_action :: "Reversible \<Rightarrow> GuiMap \<Rightarrow> bool"
  and valid_forward :: "Reversible list \<Rightarrow> GuiMap \<Rightarrow> bool"
  and valid_backward :: "Reversible list \<Rightarrow> GuiMap \<Rightarrow> bool" where
  "valid_action (TileChange xc yc v) m \<longleftrightarrow> valid_tile m (unat xc) (unat yc)"
| "valid_action (LocationChange i f d) m \<longleftrightarrow> has_location m (unat i) \<and> fits (location_field_width f) d"
| "valid_action (LocationMove i x y) m \<longleftrightarrow> has_location m (unat i) \<and> x \<noteq> 0x80000000 \<and> y \<noteq> 0x80000000"
| "valid_action (UnitChange i f d) m \<longleftrightarrow> unat i < length (unitsOf m) \<and> fits (unit_field_width f) d"
| "valid_action (UnitCreateDel i unit) m \<longleftrightarrow> ly_unit (gm_layers m) \<noteq> None \<and>
    (if unit = None then unat i < length (unitsOf m) else unat i \<le> length (unitsOf m))"
| "valid_action (UnitIndexMove i j) m \<longleftrightarrow> unat i < length (unitsOf m) \<and> unat j < length (unitsOf m) \<and> gm_selUnits m = []"
| "valid_action UnitIndexMoveBoundary m \<longleftrightarrow> gm_selUnits m = []"
| "valid_action (ReversibleActions actions reversed) m \<longleftrightarrow>
    (if reversed then valid_backward actions m else valid_forward actions m)"
| "valid_forward [] m \<longleftrightarrow> True"
| "valid_forward (r # rs) m \<longleftrightarrow> valid_action r m \<and>
    (case Reversible_Reverse r m of Inl e \<Rightarrow> False | Inr (r', m') \<Rightarrow> valid_forward rs m')"
| "valid_backward [] m \<longleftrightarrow> True"
| "valid_backward (r # rs) m \<longleftrightarrow> valid_backward rs m \<and>
    (case reverseBackward rs m of Inl e \<Rightarrow> False | Inr (rs', m') \<Rightarrow> valid_action r m')"

lemma objs_insert_le: "i \<le> length xs \<Longrightarrow> objs_insert i x xs = insert_at i x xs"
  by (auto simp: objs_insert_def insert_at_def)

lemma length_objs [simp]:
  "i \<le> length xs \<Longrightarrow> length (objs_insert i x xs) = Suc (length xs)"
  "i < length xs \<Longrightarrow> length (objs_delete i xs) = length xs - 1"
  by (auto simp: objs_insert_le objs_delete_def)

lemma objs_delete_insert [simp]: "i \<le> length xs \<Longrightarrow> objs_delete i (objs_insert i x xs) = xs"
  by (simp add: objs_insert_le objs_delete_def)

lemma objs_insert_delete [simp]: "i < length xs \<Longrightarrow> objs_insert i (xs ! i) (objs_delete i xs) = xs"
  by (simp add: objs_delete_def objs_insert_le insert_erase_at)

lemma nth_objs_insert [simp]: "i \<le> length xs \<Longrightarrow> objs_insert i x xs ! i = x"
  by (simp add: objs_insert_le nth_insert_at)

text \<open>Each kind of action, reversed twice.\<close>

abbreviation reverses_back :: "Reversible \<Rightarrow> GuiMap \<Rightarrow> bool" where
  "reverses_back r m \<equiv> \<exists>r' m'. Reversible_Reverse r m = Inr (r', m') \<and> valid_action r' m' \<and> Reversible_Reverse r' m' = Inr (r, m)"

lemma layers_same:
  "ter_mtxm ly = x \<Longrightarrow> ly\<lparr>ter_mtxm := x\<rparr> = ly" "ter_tile ly = y \<Longrightarrow> ly\<lparr>ter_tile := y\<rparr> = ly"
  "ly_unit (l :: Layers) = z \<Longrightarrow> l\<lparr>ly_unit := z\<rparr> = l" "ly_mrgn l = w \<Longrightarrow> l\<lparr>ly_mrgn := w\<rparr> = l"
  by (cases ly; simp; fail) (cases ly; simp; fail | cases l; simp; fail)+

lemma TileChange_back:
  assumes "valid_tile m (unat xc) (unat yc)"
  shows "reverses_back (TileChange xc yc v) m"
proof -
  obtain dim mtxm tile where secs: "ter_dim (gm_layers m) = Some dim" "ter_mtxm (gm_layers m) = Some mtxm"
      "ter_tile (gm_layers m) = Some tile"
    using assms by (auto simp: valid_tile_def split: option.splits)
  define i where "i = unat yc * DimSection_getTileWidth dim + unat xc"
  have i: "i < length (mtxm_tiles mtxm)" "i < length (tile_tiles tile)" "mtxm_tiles mtxm ! i = tile_tiles tile ! i"
    using assms secs by (simp_all add: valid_tile_def i_def Let_def)
  have "Reversible_Reverse (TileChange xc yc v) m = Inr (TileChange xc yc (tile_tiles tile ! i), m\<lparr>gm_layers :=
      (gm_layers m)\<lparr>ter_mtxm := Some (mtxm\<lparr>mtxm_tiles := (mtxm_tiles mtxm)[i := v]\<rparr>),
        ter_tile := Some (tile\<lparr>tile_tiles := (tile_tiles tile)[i := v]\<rparr>)\<rparr>\<rparr>)" (is "_ = Inr (?r, ?m)")
    using secs i
    by (simp add: TileChange_Reverse_def Terrain_getTile_def Terrain_setTile_def Let_def i_def [symmetric]
      MtxmSection_getTile_def MtxmSection_setTile_def TileSection_setTile_def at_or_throw_def set_or_throw_def
      Scope_Game_def Scope_Editor_def Scope_Either_def)
  moreover have "Reversible_Reverse ?r ?m = Inr (TileChange xc yc v, m)"
    using secs i
    by (simp add: TileChange_Reverse_def Terrain_getTile_def Terrain_setTile_def Let_def i_def [symmetric]
      MtxmSection_getTile_def MtxmSection_setTile_def TileSection_setTile_def at_or_throw_def set_or_throw_def
      Scope_Game_def Scope_Editor_def Scope_Either_def layers_same)
      (simp add: list_update_same_conv [THEN iffD2] flip: i(3))
  moreover have "valid_action ?r ?m"
    using secs i by (simp add: valid_tile_def Let_def i_def [symmetric])
  ultimately show ?thesis by blast
qed

lemma fits_ucast16: "fits 16 d \<Longrightarrow> ucast (ucast d :: u16) = d"
  by (simp add: fits_def unsigned_ucast_eq)

lemma fits_ucast8: "fits 8 d \<Longrightarrow> ucast (ucast d :: u8) = d"
  by (simp add: fits_def unsigned_ucast_eq)

lemma fits_of_ucast: "fits 16 (ucast (a :: u16))" "fits 8 (ucast (b :: u8))" "fits 32 d"
  by (simp_all add: fits_def take_bit_word_eq_self) (transfer; simp)+

lemma ucast_back: "ucast (ucast (a :: u16) :: u32) = a" "ucast (ucast (b :: u8) :: u32) = b"
  by (transfer; simp)+

lemma get_set_LocationField: "fits (location_field_width f) d \<Longrightarrow> getLocationField f (setLocationField f d l) = d"
  by (cases f) (simp_all add: fits_ucast16)

lemma set_get_LocationField: "setLocationField f (getLocationField f l) l = l"
  by (cases l; cases f) (simp_all add: ucast_back)

lemma set_set_LocationField: "setLocationField f d (setLocationField f e l) = setLocationField f d l"
  by (cases f) simp_all

lemma fits_LocationField: "fits (location_field_width f) (getLocationField f l)"
  by (cases f) (simp_all add: fits_of_ucast)

lemma get_set_UnitField: "fits (unit_field_width f) d \<Longrightarrow> getUnitField f (setUnitField f d u) = d"
  by (cases f) (simp_all add: fits_ucast16 fits_ucast8)

lemma set_get_UnitField: "setUnitField f (getUnitField f u) u = u"
  by (cases u; cases f) (simp_all add: ucast_back)

lemma set_set_UnitField: "setUnitField f d (setUnitField f e u) = setUnitField f d u"
  by (cases f) simp_all

lemma fits_UnitField: "fits (unit_field_width f) (getUnitField f u)"
  by (cases f) (simp_all add: fits_of_ucast)

lemma updateLocation_eq:
  assumes "has_location m i"
  obtains mrgn l where "ly_mrgn (gm_layers m) = Some mrgn" "i < length (locations mrgn)" "locations mrgn ! i = Some l"
    "updateLocation i g m =
      Inr (l, m\<lparr>gm_layers := (gm_layers m)\<lparr>ly_mrgn := Some (mrgn\<lparr>locations := (locations mrgn)[i := Some (g l)]\<rparr>)\<rparr>\<rparr>)"
  using assms
  by (auto simp: has_location_def updateLocation_def Layers_getLocation_def MrgnSection_getLocation_def at_unchecked_def
      on_mrgn_def split: option.splits)

lemma updateLocation_back:
  assumes "has_location m i" "updateLocation i g m = Inr (l, m')" "h (g l) = l"
  shows "has_location m' i" "updateLocation i h m' = Inr (g l, m)"
proof -
  obtain mrgn where mrgn: "ly_mrgn (gm_layers m) = Some mrgn" "i < length (locations mrgn)" "locations mrgn ! i = Some l"
      "m' = m\<lparr>gm_layers := (gm_layers m)\<lparr>ly_mrgn := Some (mrgn\<lparr>locations := (locations mrgn)[i := Some (g l)]\<rparr>)\<rparr>\<rparr>"
    by (rule updateLocation_eq [OF assms(1), of g]) (use assms(2) in auto)
  show "has_location m' i" using mrgn by (simp add: has_location_def)
  have "(locations mrgn)[i := Some l] = locations mrgn" using mrgn(3) by (metis list_update_id)
  then show "updateLocation i h m' = Inr (g l, m)"
    using mrgn assms(3)
    by (simp add: updateLocation_def Layers_getLocation_def MrgnSection_getLocation_def at_unchecked_def on_mrgn_def layers_same)
qed

lemma LocationChange_back:
  assumes "has_location m (unat i)" "fits (location_field_width f) d"
  shows "reverses_back (LocationChange i f d) m"
proof -
  obtain l m' where upd: "updateLocation (unat i) (setLocationField f d) m = Inr (l, m')"
    by (rule updateLocation_eq [OF assms(1), of "setLocationField f d"])
  have undone: "setLocationField f (getLocationField f l) (setLocationField f d l) = l"
    by (simp add: set_set_LocationField set_get_LocationField)
  show ?thesis
    using upd updateLocation_back [OF assms(1) upd, of "setLocationField f (getLocationField f l)", OF undone] assms(2)
    by (simp add: LocationChange_Reverse_def get_set_LocationField fits_LocationField del: location_field_width.simps)
qed

lemma LocationMove_back:
  assumes "has_location m (unat i)" "x \<noteq> 0x80000000" "y \<noteq> 0x80000000"
  shows "reverses_back (LocationMove i x y) m"
proof -
  let ?move = "\<lambda>x y l. l\<lparr>l_left := l_left l + x, l_right := l_right l + x, l_top := l_top l + y, l_bottom := l_bottom l + y\<rparr>"
  obtain l m' where upd: "updateLocation (unat i) (?move x y) m = Inr (l, m')"
    by (rule updateLocation_eq [OF assms(1), of "?move x y"])
  have undone: "?move (- x) (- y) (?move x y l) = l" by (cases l) simp
  have neg: "- z \<noteq> 0x80000000" if "z \<noteq> 0x80000000" for z :: u32
  proof
    assume "- z = 0x80000000"
    then have "z = - 0x80000000" by (metis minus_minus)
    then show False using that by simp
  qed
  show ?thesis
    using upd updateLocation_back [OF assms(1) upd, of "?move (- x) (- y)", OF undone] assms(2,3)
    by (simp add: LocationMove_Reverse_def neg)
qed

lemma UnitChange_back:
  assumes "unat i < length (unitsOf m)" "fits (unit_field_width f) d"
  shows "reverses_back (UnitChange i f d) m"
proof -
  obtain sec where sec: "ly_unit (gm_layers m) = Some sec" "unat i < length (units sec)"
    using assms(1) by (auto simp: unitsOf_def split: option.splits)
  let ?u = "units sec ! unat i"
  let ?m = "m\<lparr>gm_layers := (gm_layers m)\<lparr>ly_unit := Some (sec\<lparr>units := (units sec)[unat i := setUnitField f d ?u]\<rparr>)\<rparr>\<rparr>"
  have "Reversible_Reverse (UnitChange i f d) m = Inr (UnitChange i f (getUnitField f ?u), ?m)"
    using sec by (simp add: UnitChange_Reverse_def Layers_getUnit_def UnitSection_getUnit_def at_unchecked_def on_unit_def)
  moreover have "Reversible_Reverse (UnitChange i f (getUnitField f ?u)) ?m = Inr (UnitChange i f d, m)"
    using sec assms(2)
    by (simp add: UnitChange_Reverse_def Layers_getUnit_def UnitSection_getUnit_def at_unchecked_def on_unit_def
        set_set_UnitField set_get_UnitField get_set_UnitField layers_same del: unit_field_width.simps)
  moreover have "valid_action (UnitChange i f (getUnitField f ?u)) ?m"
    using sec by (simp add: unitsOf_def fits_UnitField del: unit_field_width.simps)
  ultimately show ?thesis by blast
qed

lemma UnitCreateDel_back:
  assumes "valid_action (UnitCreateDel i unit) m"
  shows "reverses_back (UnitCreateDel i unit) m"
proof -
  obtain sec where sec: "ly_unit (gm_layers m) = Some sec" using assms by auto
  show ?thesis
    using assms sec
    by (cases unit) (auto simp: unitsOf_def UnitCreateDel_Reverse_def Layers_getUnit_def UnitSection_getUnit_def at_unchecked_def
        Layers_deleteUnit_def Layers_insertUnit_def UnitSection_deleteUnit_def UnitSection_insertUnit_def on_unit_def layers_same)
qed

text \<open>The units after a move, and the move back.\<close>

definition moveUnits :: "nat \<Rightarrow> nat \<Rightarrow> Unit list \<Rightarrow> Unit list" where
  "moveUnits oldIndex newIndex us = objs_insert oldIndex (us ! newIndex) (objs_delete newIndex us)"

lemma moveUnits_back:
  "i < length us \<Longrightarrow> j < length us \<Longrightarrow> length (moveUnits i j us) = length us \<and> moveUnits j i (moveUnits i j us) = us"
  by (simp add: moveUnits_def)

lemma UnitIndexMove_eq:
  assumes "ly_unit (gm_layers m) = Some sec" "unat i < length (units sec)" "unat j < length (units sec)"
  shows "UnitIndexMove_Reverse i j m = Inr (UnitIndexMove j i,
    m\<lparr>gm_layers := (gm_layers m)\<lparr>ly_unit := Some (sec\<lparr>units := moveUnits (unat i) (unat j) (units sec)\<rparr>)\<rparr>,
      gm_selUnits := Selections_sendMove i j (gm_selUnits m)\<rparr>)"
  using assms
  by (simp add: UnitIndexMove_Reverse_def Layers_getUnit_def UnitSection_getUnit_def at_unchecked_def Layers_deleteUnit_def
      Layers_insertUnit_def UnitSection_deleteUnit_def UnitSection_insertUnit_def on_unit_def moveUnits_def)

lemma UnitIndexMove_back:
  assumes "valid_action (UnitIndexMove i j) m"
  shows "reverses_back (UnitIndexMove i j) m"
proof -
  obtain sec where sec: "ly_unit (gm_layers m) = Some sec" "unat i < length (units sec)" "unat j < length (units sec)"
    and sel: "gm_selUnits m = []"
    using assms by (auto simp: unitsOf_def split: option.splits)
  then show ?thesis
    using moveUnits_back [OF sec(2,3)] by (auto simp: UnitIndexMove_eq unitsOf_def Selections_sendMove_def layers_same)
qed

lemma valid_reverses_back:
  "valid_action r m \<Longrightarrow> reverses_back r m"
  "valid_forward rs m \<Longrightarrow>
    \<exists>rs' m'. reverseForward rs m = Inr (rs', m') \<and> valid_backward rs' m' \<and> reverseBackward rs' m' = Inr (rs, m)"
  "valid_backward rs m \<Longrightarrow>
    \<exists>rs' m'. reverseBackward rs m = Inr (rs', m') \<and> valid_forward rs' m' \<and> reverseForward rs' m' = Inr (rs, m)"
proof (induction r m and rs m and rs m rule: valid_action_valid_forward_valid_backward.induct)
  case (1 xc yc v m)
  then show ?case by (intro TileChange_back) simp
next
  case (2 i f d m)
  then show ?case by (intro LocationChange_back) simp_all
next
  case (3 i x y m)
  then show ?case by (intro LocationMove_back) simp_all
next
  case (4 i f d m)
  then show ?case by (intro UnitChange_back) simp_all
next
  case (5 i unit m)
  then show ?case by (intro UnitCreateDel_back)
next
  case (6 i j m)
  then show ?case by (intro UnitIndexMove_back)
next
  case (7 m)
  then show ?case by (cases m) (simp add: Selections_finishMove_def)
next
  case (8 actions reversed m)
  then show ?case by (cases reversed) auto
next
  case (10 r rs m)
  then obtain r1 m1 where one: "Reversible_Reverse r m = Inr (r1, m1)" "valid_action r1 m1" "Reversible_Reverse r1 m1 = Inr (r, m)"
    by auto
  then obtain rs' m' where "reverseForward rs m1 = Inr (rs', m')" "valid_backward rs' m'" "reverseBackward rs' m' = Inr (rs, m1)"
    using 10 by simp blast
  then show ?case using one by auto
next
  case (12 r rs m)
  then obtain rs1 m1 where one: "reverseBackward rs m = Inr (rs1, m1)" "valid_forward rs1 m1" "reverseForward rs1 m1 = Inr (rs, m)"
    by auto
  then obtain r' m' where "Reversible_Reverse r m1 = Inr (r', m')" "valid_action r' m'" "Reversible_Reverse r' m' = Inr (r, m1)"
    using 12 by simp blast
  then show ?case using one by auto
qed simp_all

lemma Reverse_keeps_type:
  "Reversible_Reverse r m = Inr (r', m') \<Longrightarrow> Reversible_GetType r' = Reversible_GetType r"
  "reverseForward rs m = Inr (rs', m') \<Longrightarrow> firstType rs' = firstType rs"
  "reverseBackward rs m = Inr (rs', m') \<Longrightarrow> firstType rs' = firstType rs"
proof (induction r m and rs m and rs m arbitrary: r' m' and rs' m' and rs' m'
    rule: Reversible_Reverse_reverseForward_reverseBackward.induct)
  case (1 xc yc v m)
  then show ?case by (auto simp: TileChange_Reverse_def bind_result_eq_Inr)
next
  case (2 i f d m)
  then show ?case by (auto simp: LocationChange_Reverse_def bind_result_eq_Inr)
next
  case (3 i x y m)
  then show ?case by (auto simp: LocationMove_Reverse_def bind_result_eq_Inr split: if_splits)
next
  case (4 i f d m)
  then show ?case by (auto simp: UnitChange_Reverse_def bind_result_eq_Inr)
next
  case (5 i u m)
  then show ?case by (auto simp: UnitCreateDel_Reverse_def bind_result_eq_Inr split: option.splits)
next
  case (6 i j m)
  then show ?case by (auto simp: UnitIndexMove_Reverse_def bind_result_eq_Inr)
next
  case (8 actions reversed m)
  then show ?case by (cases reversed) (auto simp: bind_result_eq_Inr)
next
  case (10 r rs m)
  then show ?case by (clarsimp simp: bind_result_eq_Inr)
next
  case (12 r rs m)
  then show ?case by (fastforce simp: bind_result_eq_Inr)
qed simp_all

interpretation chkd: reversible Reversible_Reverse Reversible_GetType valid_action
  by unfold_locales (auto dest: Reverse_keeps_type(1) intro: valid_reverses_back(1))

section \<open>The selection during moves\<close>

text \<open>Where the unit at index \<open>k\<close> goes when the one at \<open>new\<close> moves back to \<open>old\<close>.\<close>

definition tracked :: "nat \<Rightarrow> nat \<Rightarrow> nat \<Rightarrow> nat" where
  "tracked old new k = (if k = new then old else if new > k \<and> old \<le> k then k + 1
    else if new < k \<and> old \<ge> k then k - 1 else k)"

lemma nth_moveUnits:
  assumes "old < length us" "new < length us" "k < length us"
  shows "moveUnits old new us ! tracked old new k = us ! k"
proof -
  define ys where "ys = erase_at new us"
  have ys: "length ys = length us - 1" using assms(2) by (simp add: ys_def)
  have nth: "ys ! j = (if j < new then us ! j else us ! Suc j)" if "j < length us - 1" for j
    using assms(2) that by (simp add: ys_def nth_erase_at)
  have ins: "insert_at i x ys ! j = (if j < i then ys ! j else if j = i then x else ys ! (j - 1))"
    if "i < length us" "j < length us" for i x j
    using that ys by (intro nth_insert_at) auto
  have "moveUnits old new us = insert_at old (us ! new) ys"
    using assms(1,2) ys by (simp add: moveUnits_def objs_insert_le objs_delete_def ys_def)
  then show ?thesis
    using assms
    by (cases "k = new"; cases "k < new"; cases "old \<le> k"; cases "old = k") (simp_all add: tracked_def ins nth)
qed

lemma low_index: "x AND 0x7FFF = x" "x AND 0x8000 = 0" "(x OR 0x8000) AND 0x7FFF = x" "(x OR 0x8000) AND 0x8000 \<noteq> 0"
  if "x < 0x8000" for x :: u16
proof -
  have x: "unat x < 2 ^ 15" using that by (simp add: word_less_nat_alt)
  have "x AND 0x7FFF = take_bit 15 x" by (simp add: take_bit_eq_mask mask_eq_exp_minus_1)
  also have "\<dots> = x" using x by (simp add: word_unat_eq_iff unsigned_take_bit_eq take_bit_nat_eq_self)
  finally show low: "x AND 0x7FFF = x" .
  have "x AND 0x8000 = x AND (0x7FFF AND 0x8000)" using low by (metis and.assoc)
  then show high: "x AND 0x8000 = 0" by simp
  show "(x OR 0x8000) AND 0x7FFF = x" using low by (simp add: bit.conj_disj_distrib2)
  show "(x OR 0x8000) AND 0x8000 \<noteq> 0" using high by (simp add: bit.conj_disj_distrib2)
qed

lemma finish_send:
  assumes "old < 0x8000" "new < 0x8000" "k < 0x8000"
  shows "Selections_finishMove (Selections_sendMove old new [k]) = [of_nat (tracked (unat old) (unat new) (unat k))]"
proof -
  have up: "k + 1 < 0x8000" "unat (k + 1) = unat k + 1" if "k < new"
    using that assms(2) by (simp_all add: word_less_nat_alt unat_word_ariths)
  have down: "k - 1 < 0x8000" "unat (k - 1) = unat k - 1" if "new < k"
    using that assms(3) by (auto simp: word_less_nat_alt unat_sub_if')
  show ?thesis
    using assms low_index up down
    by (auto simp: Selections_finishMove_def Selections_sendMove_def tracked_def word_less_nat_alt word_le_nat_alt
      simp flip: word_unat_eq_iff)
qed

lemma finish_send_list:
  assumes "old < 0x8000" "new < 0x8000" "\<forall>k \<in> set sel. k < 0x8000"
  shows "Selections_finishMove (Selections_sendMove old new sel) = map (\<lambda>k. of_nat (tracked (unat old) (unat new) (unat k))) sel"
  using assms finish_send [OF assms(1,2)] by (auto simp: Selections_finishMove_def Selections_sendMove_def)

lemma tracked_less: "old < n \<Longrightarrow> new < n \<Longrightarrow> k < n \<Longrightarrow> tracked old new k < n"
  by (auto simp: tracked_def)

lemma tracked_back: "tracked new old (tracked old new k) = k"
  by (auto simp: tracked_def)

lemma finishMove_low: "\<forall>k \<in> set sel. k < 0x8000 \<Longrightarrow> Selections_finishMove sel = sel"
  by (simp add: Selections_finishMove_def low_index map_idI)


section \<open>Undo and redo\<close>

text \<open>An example: a map with two units; the owner of the first was 1 and a tile was 7 before the changes.\<close>

definition example_unit :: "u8 \<Rightarrow> Unit" where
  "example_unit owner = \<lparr>u_classId = 5, u_xc = 32, u_yc = 64, u_type = 0, u_relationFlags = 0, u_validStateFlags = 0,
    u_validFieldFlags = 0, u_owner = owner, u_hitpointPercent = 100, u_shieldPercent = 100, u_energyPercent = 100,
    u_resourceAmount = 0, u_hangerAmount = 0, u_stateFlags = 0, u_unused = 0, u_relationClassId = 0\<rparr>"

definition example_map :: GuiMap where
  "example_map = \<lparr>gm_layers = (Layers_new 0 2 2)\<lparr>ly_unit := Some \<lparr>units = [example_unit 3, example_unit 4]\<rparr>\<rparr>,
    gm_selUnits = [0, 1]\<rparr>"

definition example_undos :: "Reversible UndoLists" where
  "example_undos = Undos_AddUndo (TileChange 1 1 7) (Undos_AddUndo (ReversibleActions [UnitChange 0 Unit_Owner 1] True) Undos_new)"


text \<open>
  C12. Undo and redo. When the newest actions \<open>rs\<close> of a type can be reversed in a row (each finds the objects it changes, and the
  data fits), as many undos of that type all succeed, newest first, and remove them from the list of undos; as many redos then
  restore the map exactly and put the actions back in their order, with the redos, the undos of the other
  types and the change counters as they were before. This holds for tile, location and unit changes, creation and
  deletion of units, moves, and nested lists of them.
\<close>

theorem Undos_undo_redo:
  assumes "undosOf Reversible_GetType type un = rs @ older" "reversible_in_a_row Reversible_Reverse valid_action rs m"
  shows "\<exists>un' m' un''. repeatStep (length rs) (Undos_doUndo type) (un, m) = Inr (un', m') \<and>
    undosOf Reversible_GetType type un' = older \<and>
    repeatStep (length rs) (Undos_doRedo type) (un', m') = Inr (un'', m) \<and>
    undosOf Reversible_GetType type un'' = rs @ older \<and> un_redos un'' = un_redos un \<and>
    filter (\<lambda>r. type \<noteq> Reversible_GetType r) (un_undos un'') = filter (\<lambda>r. type \<noteq> Reversible_GetType r) (un_undos un) \<and>
    (wf_counters un \<longrightarrow> wf_counters un'' \<and> counter un'' = counter un)"
  unfolding Undos_doUndo_def Undos_doRedo_def by (rule chkd.undo_redo_row [OF assms])

theorem Undos_undo_redo_witness:
  "\<exists>un' m' un''. repeatStep 1 (Undos_doUndo 2) (example_undos, example_map) = Inr (un', m') \<and>
    undosOf Reversible_GetType 2 un' = [] \<and> repeatStep 1 (Undos_doRedo 2) (un', m') = Inr (un'', example_map) \<and>
    counter un'' = counter example_undos"
proof -
  let ?r = "ReversibleActions [UnitChange 0 Unit_Owner 1] True"
  have undos: "undosOf Reversible_GetType 2 example_undos = [?r] @ []"
    by (simp add: undosOf_def example_undos_def Undos_AddUndo_def addUndo_def Reversible_Count_def Undos_new_def)
  have row: "reversible_in_a_row Reversible_Reverse valid_action [?r] example_map"
    by (simp add: example_map_def unitsOf_def fits_def UnitChange_Reverse_def Layers_getUnit_def UnitSection_getUnit_def
        at_unchecked_def on_unit_def)
  have "wf_counters example_undos"
    by (simp add: wf_counters_def example_undos_def Undos_AddUndo_def addUndo_def Reversible_Count_def Undos_new_def
        Undos_AdjustChangeCount_def)
  then show ?thesis using Undos_undo_redo [OF undos row] by auto
qed



section \<open>Limits\<close>

text \<open>
  Adding an action keeps the actions that can be redone, which were undone in a map without the new change: the redo of a
  change to a unit that has been deleted since reads past the end of the list of units.
\<close>

lemma Undos_AddUndo_keeps_redos: "un_redos (Undos_AddUndo action un) = un_redos un"
  by (simp add: Undos_AddUndo_def addUndo_def)

lemma Undos_redo_deleted_unit:
  assumes "un_redos un = UnitChange unitIndex field d # rs" "ly_unit (gm_layers m) = Some sec" "length (units sec) \<le> unat unitIndex"
  shows "Undos_doRedo 2 (Undos_AddUndo action un, m) = Inl UndefinedBehavior"
  using assms
  by (simp add: Undos_doRedo_def doRedo_def Undos_AddUndo_keeps_redos UnitChange_Reverse_def Layers_getUnit_def
      UnitSection_getUnit_def at_unchecked_def)

text \<open>
  Only the number of actions is compared with the save: undoing an action that was there at the save and adding a different
  one of its type reports that all changes are reversed.
\<close>

lemma Undos_different_change_reported_reversed:
  assumes "un_undos un = r # rs" "Reversible_Reverse r m = Inr (r', m')" "Reversible_GetType action = Reversible_GetType r"
    "Reversible_Count action > 0"
  shows "\<exists>un' m'. Undos_doUndo (Reversible_GetType r) (Undos_ResetChangeCount un, m) = Inr (un', m') \<and>
    un_undos (Undos_AddUndo action un') = action # rs \<and> last (un_sent (Undos_AddUndo action un')) = ChangesReversed"
  using assms Reverse_keeps_type(1) [OF assms(2)]
  by (simp add: Undos_doUndo_def doUndo_def Undos_ResetChangeCount_def Undos_AddUndo_def addUndo_def Undos_AdjustChangeCount_def)

text \<open>A tile change remembers the tile of MTXM only: reversing it twice writes that tile to TILE too.\<close>

lemma TileChange_undo_overwrites_TILE:
  assumes "ter_dim (gm_layers m) = Some dim" "ter_mtxm (gm_layers m) = Some mtxm" "ter_tile (gm_layers m) = Some tile"
    "i = unat yc * DimSection_getTileWidth dim + unat xc" "i < length (mtxm_tiles mtxm)" "i < length (tile_tiles tile)"
  shows "\<exists>r' m' m'' tile''. Reversible_Reverse (TileChange xc yc v) m = Inr (r', m') \<and>
    Reversible_Reverse r' m' = Inr (TileChange xc yc v, m'') \<and> ter_tile (gm_layers m'') = Some tile'' \<and>
    tile_tiles tile'' ! i = mtxm_tiles mtxm ! i"
  using assms
  by (simp add: TileChange_Reverse_def Terrain_getTile_def Terrain_setTile_def Let_def
      MtxmSection_getTile_def MtxmSection_setTile_def TileSection_setTile_def at_or_throw_def set_or_throw_def
      Scope_Game_def Scope_Editor_def Scope_Either_def)

end
