(* ===== verification/StructCodec.thy ===== *)
theory StructCodec
  imports ChkSections ScenarioProperties ScenarioTriggers
begin

text \<open>
  The structs that the sections of a fixed size hold (\<open>src/MappingCoreLib/Chk.h\<close>), as the bytes of \<open>rawData\<close>. A layout
  is a bijection between the well-formed records of the other theories and the strings of the size of
  the struct (the locale \<open>struct_layout\<close>), so a section that was read and written again keeps its bytes, and what the editor
  stores in the struct is what it reads back.
\<close>

section \<open>Arrays of a struct\<close>

definition get_array :: "nat \<Rightarrow> (string \<Rightarrow> 'a) \<Rightarrow> nat \<Rightarrow> string \<Rightarrow> 'a list \<times> string" where
  "get_array sz dec n bs = (dec_array sz dec n bs, drop (n * sz) bs)"

context struct_codec
begin

lemma get_array_enc:
  "(\<forall>x\<in>set xs. wf x) \<Longrightarrow> length xs = n \<Longrightarrow> get_array sz dec n (enc_array enc xs @ rest) = (xs, rest)"
  using dec_array_enc [of xs rest] length_enc_array [of xs] by (auto simp: get_array_def mult.commute)

end

text \<open>A codec in which every string of the size is the encoding of something.\<close>

locale onto_codec = struct_codec +
  assumes enc_dec: "length bs = sz \<Longrightarrow> wf (dec bs) \<and> enc (dec bs) = bs"
begin

lemma enc_get_array:
  "n * sz \<le> length bs \<Longrightarrow> get_array sz dec n bs = (xs, rest) \<Longrightarrow>
    length xs = n \<and> (\<forall>x\<in>set xs. wf x) \<and> enc_array enc xs = take (n * sz) bs \<and> rest = drop (n * sz) bs"
proof (induction n arbitrary: bs xs)
  case 0
  then show ?case by (auto simp: get_array_def dec_array_def enc_array_def)
next
  case (Suc n)
  let ?ys = "dec_array sz dec n (drop sz bs)"
  have xs: "xs = dec (take sz bs) # ?ys" and rest: "rest = drop (Suc n * sz) bs"
    using Suc.prems(2) by (auto simp: get_array_def dec_array_Suc)
  have "length ?ys = n \<and> (\<forall>x\<in>set ?ys. wf x) \<and> enc_array enc ?ys = take (n * sz) (drop sz bs)"
    using Suc.IH [of "drop sz bs" ?ys] Suc.prems by (simp add: get_array_def add.commute)
  moreover have "wf (dec (take sz bs)) \<and> enc (dec (take sz bs)) = take sz bs"
    using enc_dec [of "take sz bs"] Suc.prems(1) by simp
  ultimately show ?case
    by (auto simp: xs rest enc_array_def take_add)
qed

end

definition get_u8 :: "string \<Rightarrow> u8 \<times> string" where "get_u8 bs = (dec_u8 bs 0, drop 1 bs)"
definition get_u16 :: "string \<Rightarrow> u16 \<times> string" where "get_u16 bs = (dec_u16 bs 0, drop 2 bs)"
definition get_u32 :: "string \<Rightarrow> u32 \<times> string" where "get_u32 bs = (dec_u32 bs 0, drop 4 bs)"
definition get_u8s :: "nat \<Rightarrow> string \<Rightarrow> u8 list \<times> string" where "get_u8s = get_array 1 (\<lambda>bs. dec_u8 bs 0)"
definition get_u16s :: "nat \<Rightarrow> string \<Rightarrow> u16 list \<times> string" where "get_u16s = get_array 2 (\<lambda>bs. dec_u16 bs 0)"
definition get_u32s :: "nat \<Rightarrow> string \<Rightarrow> u32 list \<times> string" where "get_u32s = get_array 4 (\<lambda>bs. dec_u32 bs 0)"

definition enc_u8s :: "u8 list \<Rightarrow> string" where "enc_u8s = enc_array enc_u8"
definition enc_u16s :: "u16 list \<Rightarrow> string" where "enc_u16s = enc_array enc_u16"
definition enc_u32s :: "u32 list \<Rightarrow> string" where "enc_u32s = enc_array enc_u32"

text \<open>The arrays with a row for each of the 12 players.\<close>

definition enc_rows :: "u8 list list \<Rightarrow> string" where "enc_rows = enc_array enc_u8s"
definition get_rows :: "nat \<Rightarrow> string \<Rightarrow> u8 list list \<times> string" where
  "get_rows = get_array 12 (dec_array 1 (\<lambda>bs. dec_u8 bs 0) Settings.TotalPlayers)"

definition enc_Cuwp :: "Cuwp \<Rightarrow> string" where
  "enc_Cuwp c = enc_u16 (cuwp_validUnitStateFlags c) @ enc_u16 (cuwp_validUnitFieldFlags c) @ enc_u8 (cuwp_owner c) @
     enc_u8 (cuwp_hitpointPercent c) @ enc_u8 (cuwp_shieldPercent c) @ enc_u8 (cuwp_energyPercent c) @
     enc_u32 (cuwp_resourceAmount c) @ enc_u16 (cuwp_hangerAmount c) @ enc_u16 (cuwp_unitStateFlags c) @ enc_u32 (cuwp_unknown c)"

definition dec_Cuwp :: "string \<Rightarrow> Cuwp" where
  "dec_Cuwp bs = \<lparr>cuwp_validUnitStateFlags = dec_u16 bs 0, cuwp_validUnitFieldFlags = dec_u16 bs 2, cuwp_owner = dec_u8 bs 4,
     cuwp_hitpointPercent = dec_u8 bs 5, cuwp_shieldPercent = dec_u8 bs 6, cuwp_energyPercent = dec_u8 bs 7,
     cuwp_resourceAmount = dec_u32 bs 8, cuwp_hangerAmount = dec_u16 bs 12, cuwp_unitStateFlags = dec_u16 bs 14,
     cuwp_unknown = dec_u32 bs 16\<rparr>"

definition enc_cuwps :: "Cuwp list \<Rightarrow> string" where "enc_cuwps = enc_array enc_Cuwp"
definition get_cuwps :: "nat \<Rightarrow> string \<Rightarrow> Cuwp list \<times> string" where "get_cuwps = get_array 20 dec_Cuwp"

section \<open>The structs\<close>

text \<open>The fields of each struct in their order.\<close>

definition enc_TYPE :: "TypeSection \<Rightarrow> string" where
  "enc_TYPE x = enc_u32 (scenarioType x)"

definition dec_TYPE :: "string \<Rightarrow> TypeSection" where
  "dec_TYPE bs =
    (let (scenarioType', bs) = get_u32 bs in
     \<lparr>scenarioType = scenarioType', type_dataIsVirtual = False\<rparr>)"

definition wf_TYPE :: "TypeSection \<Rightarrow> bool" where
  "wf_TYPE x \<longleftrightarrow> \<not> type_dataIsVirtual x"

definition enc_VER :: "VerSection \<Rightarrow> string" where
  "enc_VER x = enc_u16 (ver_version x)"

definition dec_VER :: "string \<Rightarrow> VerSection" where
  "dec_VER bs =
    (let (version', bs) = get_u16 bs in
     \<lparr>ver_version = version'\<rparr>)"

definition enc_IVER :: "IverSection \<Rightarrow> string" where
  "enc_IVER x = enc_u16 (iver_version x)"

definition dec_IVER :: "string \<Rightarrow> IverSection" where
  "dec_IVER bs =
    (let (version', bs) = get_u16 bs in
     \<lparr>iver_version = version'\<rparr>)"

definition enc_IVE2 :: "Ive2Section \<Rightarrow> string" where
  "enc_IVE2 x = enc_u16 (ive2_version x)"

definition dec_IVE2 :: "string \<Rightarrow> Ive2Section" where
  "dec_IVE2 bs =
    (let (version', bs) = get_u16 bs in
     \<lparr>ive2_version = version'\<rparr>)"

definition enc_VCOD :: "VcodSection \<Rightarrow> string" where
  "enc_VCOD x = enc_u32s (seedValues x) @ enc_u8s (opCodes x)"

definition dec_VCOD :: "string \<Rightarrow> VcodSection" where
  "dec_VCOD bs =
    (let (seedValues', bs) = get_u32s 256 bs in
     let (opCodes', bs) = get_u8s 16 bs in
     \<lparr>seedValues = seedValues', opCodes = opCodes'\<rparr>)"

definition wf_VCOD :: "VcodSection \<Rightarrow> bool" where
  "wf_VCOD x \<longleftrightarrow> length (seedValues x) = 256 \<and> length (opCodes x) = 16"

definition enc_IOWN :: "IownSection \<Rightarrow> string" where
  "enc_IOWN x = enc_u8s (iown_slotType x)"

definition dec_IOWN :: "string \<Rightarrow> IownSection" where
  "dec_IOWN bs =
    (let (slotType', bs) = get_u8s Settings.TotalPlayers bs in
     \<lparr>iown_slotType = slotType'\<rparr>)"

definition wf_IOWN :: "IownSection \<Rightarrow> bool" where
  "wf_IOWN x \<longleftrightarrow> length (iown_slotType x) = Settings.TotalPlayers"

definition enc_OWNR :: "OwnrSection \<Rightarrow> string" where
  "enc_OWNR x = enc_u8s (ownr_slotType x)"

definition dec_OWNR :: "string \<Rightarrow> OwnrSection" where
  "dec_OWNR bs =
    (let (slotType', bs) = get_u8s Settings.TotalPlayers bs in
     \<lparr>ownr_slotType = slotType'\<rparr>)"

definition wf_OWNR :: "OwnrSection \<Rightarrow> bool" where
  "wf_OWNR x \<longleftrightarrow> length (ownr_slotType x) = Settings.TotalPlayers"

definition enc_ERA :: "EraSection \<Rightarrow> string" where
  "enc_ERA x = enc_u16 (era_tileset x)"

definition dec_ERA :: "string \<Rightarrow> EraSection" where
  "dec_ERA bs =
    (let (tileset', bs) = get_u16 bs in
     \<lparr>era_tileset = tileset'\<rparr>)"

definition enc_DIM :: "DimSection \<Rightarrow> string" where
  "enc_DIM x = enc_u16 (dim_tileWidth x) @ enc_u16 (dim_tileHeight x)"

definition dec_DIM :: "string \<Rightarrow> DimSection" where
  "dec_DIM bs =
    (let (tileWidth', bs) = get_u16 bs in
     let (tileHeight', bs) = get_u16 bs in
     \<lparr>dim_tileWidth = tileWidth', dim_tileHeight = tileHeight'\<rparr>)"

definition enc_SIDE :: "SideSection \<Rightarrow> string" where
  "enc_SIDE x = enc_u8s (playerRaces x)"

definition dec_SIDE :: "string \<Rightarrow> SideSection" where
  "dec_SIDE bs =
    (let (playerRaces', bs) = get_u8s Settings.TotalPlayers bs in
     \<lparr>playerRaces = playerRaces'\<rparr>)"

definition wf_SIDE :: "SideSection \<Rightarrow> bool" where
  "wf_SIDE x \<longleftrightarrow> length (playerRaces x) = Settings.TotalPlayers"

definition enc_PUNI :: "PuniSection \<Rightarrow> string" where
  "enc_PUNI x = enc_rows (puni_playerUnitBuildable x) @ enc_u8s (puni_defaultUnitBuildable x) @
     enc_rows (puni_playerUnitUsesDefault x)"

definition dec_PUNI :: "string \<Rightarrow> PuniSection" where
  "dec_PUNI bs =
    (let (playerUnitBuildable', bs) = get_rows TotalUnitTypes bs in
     let (defaultUnitBuildable', bs) = get_u8s TotalUnitTypes bs in
     let (playerUnitUsesDefault', bs) = get_rows TotalUnitTypes bs in
     \<lparr>puni_playerUnitBuildable = playerUnitBuildable', puni_defaultUnitBuildable = defaultUnitBuildable',
       puni_playerUnitUsesDefault = playerUnitUsesDefault'\<rparr>)"

definition enc_UPGR :: "UpgrSection \<Rightarrow> string" where
  "enc_UPGR x = enc_rows (upgr_playerMaxUpgradeLevel x) @ enc_rows (upgr_playerStartUpgradeLevel x) @
     enc_u8s (upgr_defaultMaxLevel x) @ enc_u8s (upgr_defaultStartLevel x) @ enc_rows (upgr_playerUpgradeUsesDefault x)"

definition dec_UPGR :: "string \<Rightarrow> UpgrSection" where
  "dec_UPGR bs =
    (let (playerMaxUpgradeLevel', bs) = get_rows TotalOriginalUpgrades bs in
     let (playerStartUpgradeLevel', bs) = get_rows TotalOriginalUpgrades bs in
     let (defaultMaxLevel', bs) = get_u8s TotalOriginalUpgrades bs in
     let (defaultStartLevel', bs) = get_u8s TotalOriginalUpgrades bs in
     let (playerUpgradeUsesDefault', bs) = get_rows TotalOriginalUpgrades bs in
     \<lparr>upgr_playerMaxUpgradeLevel = playerMaxUpgradeLevel', upgr_playerStartUpgradeLevel = playerStartUpgradeLevel',
       upgr_defaultMaxLevel = defaultMaxLevel', upgr_defaultStartLevel = defaultStartLevel',
       upgr_playerUpgradeUsesDefault = playerUpgradeUsesDefault'\<rparr>)"

definition enc_PTEC :: "PtecSection \<Rightarrow> string" where
  "enc_PTEC x = enc_rows (ptec_techAvailableForPlayer x) @ enc_rows (ptec_techResearchedForPlayer x) @
     enc_u8s (ptec_techAvailableByDefault x) @ enc_u8s (ptec_techResearchedByDefault x) @
     enc_rows (ptec_playerUsesDefaultsForTech x)"

definition dec_PTEC :: "string \<Rightarrow> PtecSection" where
  "dec_PTEC bs =
    (let (techAvailableForPlayer', bs) = get_rows TotalOriginalTechs bs in
     let (techResearchedForPlayer', bs) = get_rows TotalOriginalTechs bs in
     let (techAvailableByDefault', bs) = get_u8s TotalOriginalTechs bs in
     let (techResearchedByDefault', bs) = get_u8s TotalOriginalTechs bs in
     let (playerUsesDefaultsForTech', bs) = get_rows TotalOriginalTechs bs in
     \<lparr>ptec_techAvailableForPlayer = techAvailableForPlayer', ptec_techResearchedForPlayer = techResearchedForPlayer',
       ptec_techAvailableByDefault = techAvailableByDefault', ptec_techResearchedByDefault = techResearchedByDefault',
       ptec_playerUsesDefaultsForTech = playerUsesDefaultsForTech'\<rparr>)"

definition enc_UPRP :: "UprpSection \<Rightarrow> string" where
  "enc_UPRP x = enc_cuwps (createUnitProperties x)"

definition dec_UPRP :: "string \<Rightarrow> UprpSection" where
  "dec_UPRP bs =
    (let (createUnitProperties', bs) = get_cuwps MaxCuwps bs in
     \<lparr>createUnitProperties = createUnitProperties'\<rparr>)"

definition wf_UPRP :: "UprpSection \<Rightarrow> bool" where
  "wf_UPRP x \<longleftrightarrow> length (createUnitProperties x) = MaxCuwps"

definition enc_UPUS :: "UpusSection \<Rightarrow> string" where
  "enc_UPUS x = enc_u8s (cuwpUsedFlags x)"

definition dec_UPUS :: "string \<Rightarrow> UpusSection" where
  "dec_UPUS bs =
    (let (cuwpUsedFlags', bs) = get_u8s MaxCuwps bs in
     \<lparr>cuwpUsedFlags = cuwpUsedFlags'\<rparr>)"

definition wf_UPUS :: "UpusSection \<Rightarrow> bool" where
  "wf_UPUS x \<longleftrightarrow> length (cuwpUsedFlags x) = MaxCuwps"

definition enc_SPRP :: "SprpSection \<Rightarrow> string" where
  "enc_SPRP x = enc_u16 (scenarioNameStringId x) @ enc_u16 (scenarioDescriptionStringId x)"

definition dec_SPRP :: "string \<Rightarrow> SprpSection" where
  "dec_SPRP bs =
    (let (scenarioNameStringId', bs) = get_u16 bs in
     let (scenarioDescriptionStringId', bs) = get_u16 bs in
     \<lparr>scenarioNameStringId = scenarioNameStringId', scenarioDescriptionStringId = scenarioDescriptionStringId'\<rparr>)"

definition enc_FORC :: "ForcSection \<Rightarrow> string" where
  "enc_FORC x = enc_u8s (forc_playerForce x) @ enc_u16s (forc_forceString x) @ enc_u8s (forc_flags x)"

definition dec_FORC :: "string \<Rightarrow> ForcSection" where
  "dec_FORC bs =
    (let (playerForce', bs) = get_u8s StringUsers.TotalSlots bs in
     let (forceString', bs) = get_u16s TotalForces bs in
     let (flags', bs) = get_u8s TotalForces bs in
     \<lparr>forc_playerForce = playerForce', forc_forceString = forceString', forc_flags = flags'\<rparr>)"

definition enc_WAV :: "WavSection \<Rightarrow> string" where
  "enc_WAV x = enc_u32s (soundPathStringId x)"

definition dec_WAV :: "string \<Rightarrow> WavSection" where
  "dec_WAV bs =
    (let (soundPathStringId', bs) = get_u32s TotalSounds bs in
     \<lparr>soundPathStringId = soundPathStringId'\<rparr>)"

definition wf_WAV :: "WavSection \<Rightarrow> bool" where
  "wf_WAV x \<longleftrightarrow> length (soundPathStringId x) = TotalSounds"

definition enc_UNIS :: "UnisSection \<Rightarrow> string" where
  "enc_UNIS x = enc_u8s (unis_useDefault x) @ enc_u32s (unis_hitpoints x) @ enc_u16s (unis_shieldPoints x) @
     enc_u8s (unis_armorLevel x) @ enc_u16s (unis_buildTime x) @ enc_u16s (unis_mineralCost x) @
     enc_u16s (unis_gasCost x) @ enc_u16s (unis_nameStringId x) @ enc_u16s (unis_baseDamage x) @
     enc_u16s (unis_upgradeDamage x)"

definition dec_UNIS :: "string \<Rightarrow> UnisSection" where
  "dec_UNIS bs =
    (let (useDefault', bs) = get_u8s TotalUnitTypes bs in
     let (hitpoints', bs) = get_u32s TotalUnitTypes bs in
     let (shieldPoints', bs) = get_u16s TotalUnitTypes bs in
     let (armorLevel', bs) = get_u8s TotalUnitTypes bs in
     let (buildTime', bs) = get_u16s TotalUnitTypes bs in
     let (mineralCost', bs) = get_u16s TotalUnitTypes bs in
     let (gasCost', bs) = get_u16s TotalUnitTypes bs in
     let (nameStringId', bs) = get_u16s TotalUnitTypes bs in
     let (baseDamage', bs) = get_u16s TotalOriginalWeapons bs in
     let (upgradeDamage', bs) = get_u16s TotalOriginalWeapons bs in
     \<lparr>unis_useDefault = useDefault', unis_hitpoints = hitpoints', unis_shieldPoints = shieldPoints',
       unis_armorLevel = armorLevel', unis_buildTime = buildTime', unis_mineralCost = mineralCost', unis_gasCost = gasCost',
       unis_nameStringId = nameStringId', unis_baseDamage = baseDamage', unis_upgradeDamage = upgradeDamage'\<rparr>)"

definition enc_UPGS :: "UpgsSection \<Rightarrow> string" where
  "enc_UPGS x = enc_u8s (upgs_useDefault x) @ enc_u16s (upgs_baseMineralCost x) @ enc_u16s (upgs_mineralCostFactor x) @
     enc_u16s (upgs_baseGasCost x) @ enc_u16s (upgs_gasCostFactor x) @ enc_u16s (upgs_baseResearchTime x) @
     enc_u16s (upgs_researchTimeFactor x)"

definition dec_UPGS :: "string \<Rightarrow> UpgsSection" where
  "dec_UPGS bs =
    (let (useDefault', bs) = get_u8s TotalOriginalUpgrades bs in
     let (baseMineralCost', bs) = get_u16s TotalOriginalUpgrades bs in
     let (mineralCostFactor', bs) = get_u16s TotalOriginalUpgrades bs in
     let (baseGasCost', bs) = get_u16s TotalOriginalUpgrades bs in
     let (gasCostFactor', bs) = get_u16s TotalOriginalUpgrades bs in
     let (baseResearchTime', bs) = get_u16s TotalOriginalUpgrades bs in
     let (researchTimeFactor', bs) = get_u16s TotalOriginalUpgrades bs in
     \<lparr>upgs_useDefault = useDefault', upgs_baseMineralCost = baseMineralCost', upgs_mineralCostFactor = mineralCostFactor',
       upgs_baseGasCost = baseGasCost', upgs_gasCostFactor = gasCostFactor', upgs_baseResearchTime = baseResearchTime',
       upgs_researchTimeFactor = researchTimeFactor'\<rparr>)"

definition enc_TECS :: "TecsSection \<Rightarrow> string" where
  "enc_TECS x = enc_u8s (tecs_useDefault x) @ enc_u16s (tecs_mineralCost x) @ enc_u16s (tecs_gasCost x) @
     enc_u16s (tecs_researchTime x) @ enc_u16s (tecs_energyCost x)"

definition dec_TECS :: "string \<Rightarrow> TecsSection" where
  "dec_TECS bs =
    (let (useDefault', bs) = get_u8s TotalOriginalTechs bs in
     let (mineralCost', bs) = get_u16s TotalOriginalTechs bs in
     let (gasCost', bs) = get_u16s TotalOriginalTechs bs in
     let (researchTime', bs) = get_u16s TotalOriginalTechs bs in
     let (energyCost', bs) = get_u16s TotalOriginalTechs bs in
     \<lparr>tecs_useDefault = useDefault', tecs_mineralCost = mineralCost', tecs_gasCost = gasCost',
       tecs_researchTime = researchTime', tecs_energyCost = energyCost'\<rparr>)"

definition enc_SWNM :: "SwnmSection \<Rightarrow> string" where
  "enc_SWNM x = enc_u32s (switchName x)"

definition dec_SWNM :: "string \<Rightarrow> SwnmSection" where
  "dec_SWNM bs =
    (let (switchName', bs) = get_u32s TotalSwitches bs in
     \<lparr>switchName = switchName'\<rparr>)"

definition wf_SWNM :: "SwnmSection \<Rightarrow> bool" where
  "wf_SWNM x \<longleftrightarrow> length (switchName x) = TotalSwitches"

definition enc_COLR :: "ColrSection \<Rightarrow> string" where
  "enc_COLR x = enc_u8s (playerColor x)"

definition dec_COLR :: "string \<Rightarrow> ColrSection" where
  "dec_COLR bs =
    (let (playerColor', bs) = get_u8s StringUsers.TotalSlots bs in
     \<lparr>playerColor = playerColor'\<rparr>)"

definition wf_COLR :: "ColrSection \<Rightarrow> bool" where
  "wf_COLR x \<longleftrightarrow> length (playerColor x) = StringUsers.TotalSlots"

definition enc_PUPx :: "PupxSection \<Rightarrow> string" where
  "enc_PUPx x = enc_rows (pupx_playerMaxUpgradeLevel x) @ enc_rows (pupx_playerStartUpgradeLevel x) @
     enc_u8s (pupx_defaultMaxLevel x) @ enc_u8s (pupx_defaultStartLevel x) @ enc_rows (pupx_playerUpgradeUsesDefault x)"

definition dec_PUPx :: "string \<Rightarrow> PupxSection" where
  "dec_PUPx bs =
    (let (playerMaxUpgradeLevel', bs) = get_rows TotalUpgrades bs in
     let (playerStartUpgradeLevel', bs) = get_rows TotalUpgrades bs in
     let (defaultMaxLevel', bs) = get_u8s TotalUpgrades bs in
     let (defaultStartLevel', bs) = get_u8s TotalUpgrades bs in
     let (playerUpgradeUsesDefault', bs) = get_rows TotalUpgrades bs in
     \<lparr>pupx_playerMaxUpgradeLevel = playerMaxUpgradeLevel', pupx_playerStartUpgradeLevel = playerStartUpgradeLevel',
       pupx_defaultMaxLevel = defaultMaxLevel', pupx_defaultStartLevel = defaultStartLevel',
       pupx_playerUpgradeUsesDefault = playerUpgradeUsesDefault'\<rparr>)"

definition enc_PTEx :: "PtexSection \<Rightarrow> string" where
  "enc_PTEx x = enc_rows (ptex_techAvailableForPlayer x) @ enc_rows (ptex_techResearchedForPlayer x) @
     enc_u8s (ptex_techAvailableByDefault x) @ enc_u8s (ptex_techResearchedByDefault x) @
     enc_rows (ptex_playerUsesDefaultsForTech x)"

definition dec_PTEx :: "string \<Rightarrow> PtexSection" where
  "dec_PTEx bs =
    (let (techAvailableForPlayer', bs) = get_rows TotalTechs bs in
     let (techResearchedForPlayer', bs) = get_rows TotalTechs bs in
     let (techAvailableByDefault', bs) = get_u8s TotalTechs bs in
     let (techResearchedByDefault', bs) = get_u8s TotalTechs bs in
     let (playerUsesDefaultsForTech', bs) = get_rows TotalTechs bs in
     \<lparr>ptex_techAvailableForPlayer = techAvailableForPlayer', ptex_techResearchedForPlayer = techResearchedForPlayer',
       ptex_techAvailableByDefault = techAvailableByDefault', ptex_techResearchedByDefault = techResearchedByDefault',
       ptex_playerUsesDefaultsForTech = playerUsesDefaultsForTech'\<rparr>)"

definition enc_UNIx :: "UnixSection \<Rightarrow> string" where
  "enc_UNIx x = enc_u8s (unix_useDefault x) @ enc_u32s (unix_hitpoints x) @ enc_u16s (unix_shieldPoints x) @
     enc_u8s (unix_armorLevel x) @ enc_u16s (unix_buildTime x) @ enc_u16s (unix_mineralCost x) @
     enc_u16s (unix_gasCost x) @ enc_u16s (unix_nameStringId x) @ enc_u16s (unix_baseDamage x) @
     enc_u16s (unix_upgradeDamage x)"

definition dec_UNIx :: "string \<Rightarrow> UnixSection" where
  "dec_UNIx bs =
    (let (useDefault', bs) = get_u8s TotalUnitTypes bs in
     let (hitpoints', bs) = get_u32s TotalUnitTypes bs in
     let (shieldPoints', bs) = get_u16s TotalUnitTypes bs in
     let (armorLevel', bs) = get_u8s TotalUnitTypes bs in
     let (buildTime', bs) = get_u16s TotalUnitTypes bs in
     let (mineralCost', bs) = get_u16s TotalUnitTypes bs in
     let (gasCost', bs) = get_u16s TotalUnitTypes bs in
     let (nameStringId', bs) = get_u16s TotalUnitTypes bs in
     let (baseDamage', bs) = get_u16s TotalWeapons bs in
     let (upgradeDamage', bs) = get_u16s TotalWeapons bs in
     \<lparr>unix_useDefault = useDefault', unix_hitpoints = hitpoints', unix_shieldPoints = shieldPoints',
       unix_armorLevel = armorLevel', unix_buildTime = buildTime', unix_mineralCost = mineralCost', unix_gasCost = gasCost',
       unix_nameStringId = nameStringId', unix_baseDamage = baseDamage', unix_upgradeDamage = upgradeDamage'\<rparr>)"

definition enc_UPGx :: "UpgxSection \<Rightarrow> string" where
  "enc_UPGx x = enc_u8s (upgx_useDefault x) @ enc_u8 (upgx_unused x) @ enc_u16s (upgx_baseMineralCost x) @
     enc_u16s (upgx_mineralCostFactor x) @ enc_u16s (upgx_baseGasCost x) @ enc_u16s (upgx_gasCostFactor x) @
     enc_u16s (upgx_baseResearchTime x) @ enc_u16s (upgx_researchTimeFactor x)"

definition dec_UPGx :: "string \<Rightarrow> UpgxSection" where
  "dec_UPGx bs =
    (let (useDefault', bs) = get_u8s TotalUpgrades bs in
     let (unused', bs) = get_u8 bs in
     let (baseMineralCost', bs) = get_u16s TotalUpgrades bs in
     let (mineralCostFactor', bs) = get_u16s TotalUpgrades bs in
     let (baseGasCost', bs) = get_u16s TotalUpgrades bs in
     let (gasCostFactor', bs) = get_u16s TotalUpgrades bs in
     let (baseResearchTime', bs) = get_u16s TotalUpgrades bs in
     let (researchTimeFactor', bs) = get_u16s TotalUpgrades bs in
     \<lparr>upgx_useDefault = useDefault', upgx_unused = unused', upgx_baseMineralCost = baseMineralCost',
       upgx_mineralCostFactor = mineralCostFactor', upgx_baseGasCost = baseGasCost', upgx_gasCostFactor = gasCostFactor',
       upgx_baseResearchTime = baseResearchTime', upgx_researchTimeFactor = researchTimeFactor'\<rparr>)"

definition enc_TECx :: "TecxSection \<Rightarrow> string" where
  "enc_TECx x = enc_u8s (tecx_useDefault x) @ enc_u16s (tecx_mineralCost x) @ enc_u16s (tecx_gasCost x) @
     enc_u16s (tecx_researchTime x) @ enc_u16s (tecx_energyCost x)"

definition dec_TECx :: "string \<Rightarrow> TecxSection" where
  "dec_TECx bs =
    (let (useDefault', bs) = get_u8s TotalTechs bs in
     let (mineralCost', bs) = get_u16s TotalTechs bs in
     let (gasCost', bs) = get_u16s TotalTechs bs in
     let (researchTime', bs) = get_u16s TotalTechs bs in
     let (energyCost', bs) = get_u16s TotalTechs bs in
     \<lparr>tecx_useDefault = useDefault', tecx_mineralCost = mineralCost', tecx_gasCost = gasCost',
       tecx_researchTime = researchTime', tecx_energyCost = energyCost'\<rparr>)"

definition enc_OSTR :: "OstrSection \<Rightarrow> string" where
  "enc_OSTR x = enc_u32 (ostr_version x) @ enc_u32 (ostr_scenarioName x) @ enc_u32 (ostr_scenarioDescription x) @
     enc_u32s (ostr_forceName x) @ enc_u32s (ostr_unitName x) @ enc_u32s (ostr_expUnitName x) @
     enc_u32s (ostr_soundPath x) @ enc_u32s (ostr_switchName x) @ enc_u32s (ostr_locationName x)"

definition dec_OSTR :: "string \<Rightarrow> OstrSection" where
  "dec_OSTR bs =
    (let (version', bs) = get_u32 bs in
     let (scenarioName', bs) = get_u32 bs in
     let (scenarioDescription', bs) = get_u32 bs in
     let (forceName', bs) = get_u32s TotalForces bs in
     let (unitName', bs) = get_u32s TotalUnitTypes bs in
     let (expUnitName', bs) = get_u32s TotalUnitTypes bs in
     let (soundPath', bs) = get_u32s TotalSounds bs in
     let (switchName', bs) = get_u32s TotalSwitches bs in
     let (locationName', bs) = get_u32s TotalLocations bs in
     \<lparr>ostr_version = version', ostr_scenarioName = scenarioName', ostr_scenarioDescription = scenarioDescription',
       ostr_forceName = forceName', ostr_unitName = unitName', ostr_expUnitName = expUnitName', ostr_soundPath = soundPath',
       ostr_switchName = switchName', ostr_locationName = locationName'\<rparr>)"

section \<open>The laws of the fields\<close>

lemma bytes_of_length:
  "length bs = 1 \<Longrightarrow> \<exists>a. bs = [a]" "length bs = 2 \<Longrightarrow> \<exists>a b. bs = [a, b]"
  "length bs = 4 \<Longrightarrow> \<exists>a b c d. bs = [a, b, c, d]"
  by (auto simp: numeral_eq_Suc length_Suc_conv)

lemma to_byte_eq: "n mod 256 = byte c \<Longrightarrow> to_byte n = c"
  by (metis byte_to_byte to_byte_byte)

lemma low_byte: "(byte c + 256 * k) mod 256 = byte c" "(byte c + 256 * k) div 256 = k"
  by simp_all

lemma unat_small:
  "n < 256 \<Longrightarrow> unat (word_of_nat n :: u8) = n" "n < 65536 \<Longrightarrow> unat (word_of_nat n :: u16) = n"
  "n < 4294967296 \<Longrightarrow> unat (word_of_nat n :: u32) = n"
  by (simp_all add: unat_of_nat)

lemma enc_dec_u8: "length bs = 1 \<Longrightarrow> enc_u8 (dec_u8 bs 0) = bs"
proof -
  assume "length bs = 1"
  then obtain a where bs: "bs = [a]" using bytes_of_length by blast
  show ?thesis unfolding bs enc_u8_def dec_u8_def by (simp add: unat_small)
qed

lemma dec_u16_bytes: "unat (dec_u16 [a, b] 0) = byte a + 256 * byte b"
proof -
  have "byte a + 256 * byte b < 65536" using byte_less [of a] byte_less [of b] by linarith
  from unat_small(2) [OF this] show ?thesis unfolding dec_u16_def by simp
qed

lemma enc_dec_u16: "length bs = 2 \<Longrightarrow> enc_u16 (dec_u16 bs 0) = bs"
proof -
  assume "length bs = 2"
  then obtain a b where bs: "bs = [a, b]" using bytes_of_length(2) by blast
  have "to_byte (byte a + 256 * byte b) = a" "to_byte ((byte a + 256 * byte b) div 256) = b"
    by (rule to_byte_eq, simp)+
  then show ?thesis unfolding bs enc_u16_def dec_u16_bytes by simp
qed

lemma dec_u32_bytes: "unat (dec_u32 [a, b, c, d] 0) = byte a + 256 * (byte b + 256 * (byte c + 256 * byte d))"
proof -
  have step: "byte x + 256 * k < 256 * n" if "k < n" for x k n using byte_less [of x] that by linarith
  have "byte a + 256 * (byte b + 256 * (byte c + 256 * byte d)) < 256 * (256 * (256 * 256))"
    by (intro step byte_less)
  then have "byte a + 256 * (byte b + 256 * (byte c + 256 * byte d)) < 4294967296" by simp
  from unat_small(3) [OF this] show ?thesis unfolding dec_u32_def by (simp add: algebra_simps)
qed

lemma enc_dec_u32: "length bs = 4 \<Longrightarrow> enc_u32 (dec_u32 bs 0) = bs"
proof -
  assume "length bs = 4"
  then obtain a b c d where bs: "bs = [a, b, c, d]" using bytes_of_length(3) by blast
  define n where "n = byte a + 256 * (byte b + 256 * (byte c + 256 * byte d))"
  have 1: "n div 256 = byte b + 256 * (byte c + 256 * byte d)" unfolding n_def by (rule low_byte)
  have "n div 65536 = n div 256 div 256" "n div 16777216 = n div 65536 div 256"
    using div_mult2_eq [of n 256 256] div_mult2_eq [of n 65536 256] by simp_all
  then have 2: "n div 65536 = byte c + 256 * byte d" and 3: "n div 16777216 = byte d"
    by (simp_all only: 1 low_byte)
  have "to_byte n = a" unfolding n_def by (intro to_byte_eq low_byte)
  moreover have "to_byte (n div 256) = b" "to_byte (n div 65536) = c" unfolding 1 2 by (intro to_byte_eq low_byte)+
  moreover have "to_byte (n div 16777216) = d" by (simp add: 3)
  ultimately show ?thesis unfolding bs enc_u32_def dec_u32_bytes n_def [symmetric] by simp
qed

interpretation u8_onto: onto_codec 1 enc_u8 "\<lambda>bs. dec_u8 bs 0" "\<lambda>_. True"
  by unfold_locales (simp add: enc_dec_u8)

interpretation u16_onto: onto_codec 2 enc_u16 "\<lambda>bs. dec_u16 bs 0" "\<lambda>_. True"
  by unfold_locales (simp_all add: enc_dec_u16, simp add: enc_defs)

interpretation u32_onto: onto_codec 4 enc_u32 "\<lambda>bs. dec_u32 bs 0" "\<lambda>_. True"
  by unfold_locales (simp_all add: enc_dec_u32, simp add: enc_defs)

lemma dec_array_length [simp]: "length (dec_array sz dec n bs) = n"
  by (simp add: dec_array_def)

lemma length_enc_u8s [simp]: "length (enc_u8s xs) = length xs"
  using u8_codec.length_enc_array [of xs] by (simp add: enc_u8s_def)

interpretation row_onto: onto_codec 12 enc_u8s "dec_array 1 (\<lambda>bs. dec_u8 bs 0) Settings.TotalPlayers" "\<lambda>xs. length xs = Settings.TotalPlayers"
proof unfold_locales
  fix xs :: "u8 list" assume xs: "length xs = Settings.TotalPlayers"
  show "length (enc_u8s xs) = 12" using xs by (simp add: Settings.TotalPlayers_def)
  show "dec_array 1 (\<lambda>bs. dec_u8 bs 0) Settings.TotalPlayers (enc_u8s xs) = xs"
    using u8_codec.dec_array_enc [of xs "[]"] xs by (simp add: enc_u8s_def)
next
  fix bs :: string assume bs: "length bs = 12"
  let ?xs = "dec_array 1 (\<lambda>bs. dec_u8 bs 0) Settings.TotalPlayers bs"
  show "length ?xs = Settings.TotalPlayers \<and> enc_u8s ?xs = bs"
    using u8_onto.enc_get_array [of Settings.TotalPlayers bs ?xs] bs by (simp add: get_array_def enc_u8s_def Settings.TotalPlayers_def)
qed simp

lemma enc_dec_at:
  "i + 1 \<le> length bs \<Longrightarrow> enc_u8 (dec_u8 bs i) = take 1 (drop i bs)"
  "i + 2 \<le> length bs \<Longrightarrow> enc_u16 (dec_u16 bs i) = take 2 (drop i bs)"
  "i + 4 \<le> length bs \<Longrightarrow> enc_u32 (dec_u32 bs i) = take 4 (drop i bs)"
  using enc_dec_u8 [of "take 1 (drop i bs)"] enc_dec_u16 [of "take 2 (drop i bs)"] enc_dec_u32 [of "take 4 (drop i bs)"]
  by (simp_all add: dec_u8_def dec_u16_def dec_u32_def)

text \<open>Neighbouring pieces of the bytes.\<close>

lemma take_join:
  "take i bs @ take j (drop i bs) = take (i + j) bs"
  "take i bs @ take j (drop i bs) @ rest = take (i + j) bs @ rest"
  by (simp_all add: take_add)

interpretation cuwp_onto: onto_codec 20 enc_Cuwp dec_Cuwp "\<lambda>_. True"
proof unfold_locales
  fix bs :: string assume "length bs = 20"
  then have "enc_Cuwp (dec_Cuwp bs) = bs"
    using take_join(1) [of 16 bs 4]
    by (simp add: enc_Cuwp_def dec_Cuwp_def enc_dec_at take_join(2) [of 0 bs] take_join)
  then show "True \<and> enc_Cuwp (dec_Cuwp bs) = bs" by simp
qed (simp_all add: enc_Cuwp_def dec_Cuwp_def enc_defs)

text \<open>Reading a field from the front of bytes that begin with it.\<close>

lemma get_enc:
  "get_u8 (enc_u8 b @ rest) = (b, rest)" "get_u16 (enc_u16 h @ rest) = (h, rest)" "get_u32 (enc_u32 w @ rest) = (w, rest)"
  "length bs = n \<Longrightarrow> get_u8s n (enc_u8s bs @ rest) = (bs, rest)"
  "length hs = n \<Longrightarrow> get_u16s n (enc_u16s hs @ rest) = (hs, rest)"
  "length ws = n \<Longrightarrow> get_u32s n (enc_u32s ws @ rest) = (ws, rest)"
  "is_matrix n Settings.TotalPlayers m \<Longrightarrow> get_rows n (enc_rows m @ rest) = (m, rest)"
  "length cs = n \<Longrightarrow> get_cuwps n (enc_cuwps cs @ rest) = (cs, rest)"
  subgoal by (simp add: get_u8_def enc_defs)
  subgoal by (simp add: get_u16_def enc_defs)
  subgoal by (simp add: get_u32_def enc_defs)
  subgoal unfolding get_u8s_def enc_u8s_def by (rule u8_codec.get_array_enc) simp
  subgoal unfolding get_u16s_def enc_u16s_def by (rule u16_onto.get_array_enc) simp
  subgoal unfolding get_u32s_def enc_u32s_def by (rule u32_onto.get_array_enc) simp
  subgoal unfolding get_rows_def enc_rows_def is_matrix_def by (rule row_onto.get_array_enc) simp_all
  subgoal unfolding get_cuwps_def enc_cuwps_def by (rule cuwp_onto.get_array_enc) simp
  done

lemma length_enc_fields [simp]:
  "length (enc_u16s hs) = 2 * length hs" "length (enc_u32s ws) = 4 * length ws" "length (enc_cuwps cs) = 20 * length cs"
  "is_matrix n Settings.TotalPlayers m \<Longrightarrow> length (enc_rows m) = 12 * n"
  by (simp_all add: enc_u16s_def enc_u32s_def enc_cuwps_def enc_rows_def u16_onto.length_enc_array u32_onto.length_enc_array
      cuwp_onto.length_enc_array row_onto.length_enc_array is_matrix_def)

lemmas length_enc_rows [simp] = length_enc_fields(4) [unfolded Settings.TotalPlayers_def]

text \<open>The field at the front of any bytes, and the bytes behind it.\<close>

definition front_u8s :: "nat \<Rightarrow> string \<Rightarrow> u8 list" where "front_u8s n bs = fst (get_u8s n bs)"
definition front_u16s :: "nat \<Rightarrow> string \<Rightarrow> u16 list" where "front_u16s n bs = fst (get_u16s n bs)"
definition front_u32s :: "nat \<Rightarrow> string \<Rightarrow> u32 list" where "front_u32s n bs = fst (get_u32s n bs)"
definition front_rows :: "nat \<Rightarrow> string \<Rightarrow> u8 list list" where "front_rows n bs = fst (get_rows n bs)"
definition front_cuwps :: "nat \<Rightarrow> string \<Rightarrow> Cuwp list" where "front_cuwps n bs = fst (get_cuwps n bs)"

lemma get_front:
  "get_u8s n bs = (front_u8s n bs, drop n bs)" "get_u16s n bs = (front_u16s n bs, drop (2 * n) bs)"
  "get_u32s n bs = (front_u32s n bs, drop (4 * n) bs)" "get_rows n bs = (front_rows n bs, drop (12 * n) bs)"
  "get_cuwps n bs = (front_cuwps n bs, drop (20 * n) bs)"
  by (simp_all add: front_u8s_def front_u16s_def front_u32s_def front_rows_def front_cuwps_def get_u8s_def get_u16s_def get_u32s_def
      get_rows_def get_cuwps_def get_array_def mult.commute)

lemma length_front [simp]:
  "length (front_u8s n bs) = n" "length (front_u16s n bs) = n" "length (front_u32s n bs) = n" "length (front_cuwps n bs) = n"
  "is_matrix n Settings.TotalPlayers (front_rows n bs)"
  by (simp_all add: front_u8s_def front_u16s_def front_u32s_def front_rows_def front_cuwps_def get_u8s_def get_u16s_def get_u32s_def
      get_rows_def get_cuwps_def get_array_def is_matrix_def) (auto simp: dec_array_def)

lemma enc_front:
  "n \<le> length bs \<Longrightarrow> enc_u8s (front_u8s n bs) = take n bs"
  "2 * n \<le> length bs \<Longrightarrow> enc_u16s (front_u16s n bs) = take (2 * n) bs"
  "4 * n \<le> length bs \<Longrightarrow> enc_u32s (front_u32s n bs) = take (4 * n) bs"
  "12 * n \<le> length bs \<Longrightarrow> enc_rows (front_rows n bs) = take (12 * n) bs"
  "20 * n \<le> length bs \<Longrightarrow> enc_cuwps (front_cuwps n bs) = take (20 * n) bs"
  using u8_onto.enc_get_array [of n bs "front_u8s n bs"] u16_onto.enc_get_array [of n bs "front_u16s n bs"]
    u32_onto.enc_get_array [of n bs "front_u32s n bs"] row_onto.enc_get_array [of n bs "front_rows n bs"]
    cuwp_onto.enc_get_array [of n bs "front_cuwps n bs"]
  by (simp_all add: front_u8s_def front_u16s_def front_u32s_def front_rows_def front_cuwps_def get_u8s_def get_u16s_def get_u32s_def
      get_rows_def get_cuwps_def enc_u8s_def enc_u16s_def enc_u32s_def enc_rows_def enc_cuwps_def get_array_def mult.commute)

section \<open>Layouts\<close>

locale struct_layout =
  fixes sz :: nat and enc :: "'a \<Rightarrow> string" and dec :: "string \<Rightarrow> 'a" and wf :: "'a \<Rightarrow> bool"
  assumes length_enc: "wf x \<Longrightarrow> length (enc x) = sz"
    and dec_enc: "wf x \<Longrightarrow> dec (enc x @ rest) = x"
    and wf_dec: "sz \<le> length bs \<Longrightarrow> wf (dec bs)"
    and enc_dec: "sz \<le> length bs \<Longrightarrow> enc (dec bs) = take sz bs"
begin

lemma dec_take: "sz \<le> length bs \<Longrightarrow> dec (take sz bs) = dec bs"
  using dec_enc [OF wf_dec, of bs "[]"] enc_dec [of bs] by simp

lemma layout_inject: "sz \<le> length bs \<Longrightarrow> sz \<le> length bs' \<Longrightarrow> dec bs = dec bs' \<longleftrightarrow> take sz bs = take sz bs'"
  by (metis dec_take enc_dec)

end

lemmas sizes = TotalUnitTypes_def TotalOriginalWeapons_def TotalWeapons_def TotalOriginalUpgrades_def TotalUpgrades_def
  TotalOriginalTechs_def TotalTechs_def Settings.TotalPlayers_def StringUsers.TotalSlots_def TotalForces_def TotalSounds_def
  TotalSwitches_def TotalLocations_def MaxCuwps_def

lemmas get_fields = get_u8_def get_u16_def get_u32_def

interpretation TYPE: struct_layout 4 enc_TYPE dec_TYPE wf_TYPE
proof unfold_locales
  show "wf_TYPE x \<Longrightarrow> length (enc_TYPE x) = 4" for x
    by (simp add: enc_TYPE_def wf_TYPE_def sizes)
  show "wf_TYPE x \<Longrightarrow> dec_TYPE (enc_TYPE x @ rest) = x" for x rest
    by (simp add: enc_TYPE_def dec_TYPE_def wf_TYPE_def get_enc)
  show "4 \<le> length bs \<Longrightarrow> enc_TYPE (dec_TYPE bs) = take 4 bs" for bs
    by (simp add: enc_TYPE_def dec_TYPE_def get_front get_fields enc_front enc_dec_at take_join sizes)
qed (simp add: dec_TYPE_def wf_TYPE_def get_front get_fields)

interpretation VER: struct_layout 2 enc_VER dec_VER "\<lambda>_. True"
proof unfold_locales
  show "length (enc_VER x) = 2" for x
    by (simp add: enc_VER_def sizes)
  show "dec_VER (enc_VER x @ rest) = x" for x rest
    by (simp add: enc_VER_def dec_VER_def get_enc)
  show "2 \<le> length bs \<Longrightarrow> enc_VER (dec_VER bs) = take 2 bs" for bs
    by (simp add: enc_VER_def dec_VER_def get_front get_fields enc_front enc_dec_at take_join sizes)
qed simp

interpretation IVER: struct_layout 2 enc_IVER dec_IVER "\<lambda>_. True"
proof unfold_locales
  show "length (enc_IVER x) = 2" for x
    by (simp add: enc_IVER_def sizes)
  show "dec_IVER (enc_IVER x @ rest) = x" for x rest
    by (simp add: enc_IVER_def dec_IVER_def get_enc)
  show "2 \<le> length bs \<Longrightarrow> enc_IVER (dec_IVER bs) = take 2 bs" for bs
    by (simp add: enc_IVER_def dec_IVER_def get_front get_fields enc_front enc_dec_at take_join sizes)
qed simp

interpretation IVE2: struct_layout 2 enc_IVE2 dec_IVE2 "\<lambda>_. True"
proof unfold_locales
  show "length (enc_IVE2 x) = 2" for x
    by (simp add: enc_IVE2_def sizes)
  show "dec_IVE2 (enc_IVE2 x @ rest) = x" for x rest
    by (simp add: enc_IVE2_def dec_IVE2_def get_enc)
  show "2 \<le> length bs \<Longrightarrow> enc_IVE2 (dec_IVE2 bs) = take 2 bs" for bs
    by (simp add: enc_IVE2_def dec_IVE2_def get_front get_fields enc_front enc_dec_at take_join sizes)
qed simp

interpretation VCOD: struct_layout 1040 enc_VCOD dec_VCOD wf_VCOD
proof unfold_locales
  show "wf_VCOD x \<Longrightarrow> length (enc_VCOD x) = 1040" for x
    by (simp add: enc_VCOD_def wf_VCOD_def sizes)
  show "wf_VCOD x \<Longrightarrow> dec_VCOD (enc_VCOD x @ rest) = x" for x rest
    by (simp add: enc_VCOD_def dec_VCOD_def wf_VCOD_def get_enc)
  show "1040 \<le> length bs \<Longrightarrow> enc_VCOD (dec_VCOD bs) = take 1040 bs" for bs
    by (simp add: enc_VCOD_def dec_VCOD_def get_front get_fields enc_front enc_dec_at take_join sizes)
qed (simp add: dec_VCOD_def wf_VCOD_def get_front get_fields)

interpretation IOWN: struct_layout 12 enc_IOWN dec_IOWN wf_IOWN
proof unfold_locales
  show "wf_IOWN x \<Longrightarrow> length (enc_IOWN x) = 12" for x
    by (simp add: enc_IOWN_def wf_IOWN_def sizes)
  show "wf_IOWN x \<Longrightarrow> dec_IOWN (enc_IOWN x @ rest) = x" for x rest
    by (simp add: enc_IOWN_def dec_IOWN_def wf_IOWN_def get_enc)
  show "12 \<le> length bs \<Longrightarrow> enc_IOWN (dec_IOWN bs) = take 12 bs" for bs
    by (simp add: enc_IOWN_def dec_IOWN_def get_front get_fields enc_front enc_dec_at take_join sizes)
qed (simp add: dec_IOWN_def wf_IOWN_def get_front get_fields)

interpretation OWNR: struct_layout 12 enc_OWNR dec_OWNR wf_OWNR
proof unfold_locales
  show "wf_OWNR x \<Longrightarrow> length (enc_OWNR x) = 12" for x
    by (simp add: enc_OWNR_def wf_OWNR_def sizes)
  show "wf_OWNR x \<Longrightarrow> dec_OWNR (enc_OWNR x @ rest) = x" for x rest
    by (simp add: enc_OWNR_def dec_OWNR_def wf_OWNR_def get_enc)
  show "12 \<le> length bs \<Longrightarrow> enc_OWNR (dec_OWNR bs) = take 12 bs" for bs
    by (simp add: enc_OWNR_def dec_OWNR_def get_front get_fields enc_front enc_dec_at take_join sizes)
qed (simp add: dec_OWNR_def wf_OWNR_def get_front get_fields)

interpretation ERA: struct_layout 2 enc_ERA dec_ERA "\<lambda>_. True"
proof unfold_locales
  show "length (enc_ERA x) = 2" for x
    by (simp add: enc_ERA_def sizes)
  show "dec_ERA (enc_ERA x @ rest) = x" for x rest
    by (simp add: enc_ERA_def dec_ERA_def get_enc)
  show "2 \<le> length bs \<Longrightarrow> enc_ERA (dec_ERA bs) = take 2 bs" for bs
    by (simp add: enc_ERA_def dec_ERA_def get_front get_fields enc_front enc_dec_at take_join sizes)
qed simp

interpretation DIM: struct_layout 4 enc_DIM dec_DIM "\<lambda>_. True"
proof unfold_locales
  show "length (enc_DIM x) = 4" for x
    by (simp add: enc_DIM_def sizes)
  show "dec_DIM (enc_DIM x @ rest) = x" for x rest
    by (simp add: enc_DIM_def dec_DIM_def get_enc)
  show "4 \<le> length bs \<Longrightarrow> enc_DIM (dec_DIM bs) = take 4 bs" for bs
    by (simp add: enc_DIM_def dec_DIM_def get_front get_fields enc_front enc_dec_at take_join sizes)
qed simp

interpretation SIDE: struct_layout 12 enc_SIDE dec_SIDE wf_SIDE
proof unfold_locales
  show "wf_SIDE x \<Longrightarrow> length (enc_SIDE x) = 12" for x
    by (simp add: enc_SIDE_def wf_SIDE_def sizes)
  show "wf_SIDE x \<Longrightarrow> dec_SIDE (enc_SIDE x @ rest) = x" for x rest
    by (simp add: enc_SIDE_def dec_SIDE_def wf_SIDE_def get_enc)
  show "12 \<le> length bs \<Longrightarrow> enc_SIDE (dec_SIDE bs) = take 12 bs" for bs
    by (simp add: enc_SIDE_def dec_SIDE_def get_front get_fields enc_front enc_dec_at take_join sizes)
qed (simp add: dec_SIDE_def wf_SIDE_def get_front get_fields)

interpretation PUNI: struct_layout 5700 enc_PUNI dec_PUNI wf_PuniSection
proof unfold_locales
  show "wf_PuniSection x \<Longrightarrow> length (enc_PUNI x) = 5700" for x
    by (auto simp: enc_PUNI_def wf_PuniSection_def sizes)
  show "wf_PuniSection x \<Longrightarrow> dec_PUNI (enc_PUNI x @ rest) = x" for x rest
    by (simp add: enc_PUNI_def dec_PUNI_def wf_PuniSection_def get_enc)
  show "5700 \<le> length bs \<Longrightarrow> enc_PUNI (dec_PUNI bs) = take 5700 bs" for bs
    by (simp add: enc_PUNI_def dec_PUNI_def get_front get_fields enc_front enc_dec_at take_join sizes)
qed (simp add: dec_PUNI_def wf_PuniSection_def get_front get_fields)

interpretation UPGR: struct_layout 1748 enc_UPGR dec_UPGR wf_UpgrSection
proof unfold_locales
  show "wf_UpgrSection x \<Longrightarrow> length (enc_UPGR x) = 1748" for x
    by (auto simp: enc_UPGR_def wf_UpgrSection_def sizes)
  show "wf_UpgrSection x \<Longrightarrow> dec_UPGR (enc_UPGR x @ rest) = x" for x rest
    by (simp add: enc_UPGR_def dec_UPGR_def wf_UpgrSection_def get_enc)
  show "1748 \<le> length bs \<Longrightarrow> enc_UPGR (dec_UPGR bs) = take 1748 bs" for bs
    by (simp add: enc_UPGR_def dec_UPGR_def get_front get_fields enc_front enc_dec_at take_join sizes)
qed (simp add: dec_UPGR_def wf_UpgrSection_def get_front get_fields)

interpretation PTEC: struct_layout 912 enc_PTEC dec_PTEC wf_PtecSection
proof unfold_locales
  show "wf_PtecSection x \<Longrightarrow> length (enc_PTEC x) = 912" for x
    by (auto simp: enc_PTEC_def wf_PtecSection_def sizes)
  show "wf_PtecSection x \<Longrightarrow> dec_PTEC (enc_PTEC x @ rest) = x" for x rest
    by (simp add: enc_PTEC_def dec_PTEC_def wf_PtecSection_def get_enc)
  show "912 \<le> length bs \<Longrightarrow> enc_PTEC (dec_PTEC bs) = take 912 bs" for bs
    by (simp add: enc_PTEC_def dec_PTEC_def get_front get_fields enc_front enc_dec_at take_join sizes)
qed (simp add: dec_PTEC_def wf_PtecSection_def get_front get_fields)

interpretation UPRP: struct_layout 1280 enc_UPRP dec_UPRP wf_UPRP
proof unfold_locales
  show "wf_UPRP x \<Longrightarrow> length (enc_UPRP x) = 1280" for x
    by (simp add: enc_UPRP_def wf_UPRP_def sizes)
  show "wf_UPRP x \<Longrightarrow> dec_UPRP (enc_UPRP x @ rest) = x" for x rest
    by (simp add: enc_UPRP_def dec_UPRP_def wf_UPRP_def get_enc)
  show "1280 \<le> length bs \<Longrightarrow> enc_UPRP (dec_UPRP bs) = take 1280 bs" for bs
    by (simp add: enc_UPRP_def dec_UPRP_def get_front get_fields enc_front enc_dec_at take_join sizes)
qed (simp add: dec_UPRP_def wf_UPRP_def get_front get_fields)

interpretation UPUS: struct_layout 64 enc_UPUS dec_UPUS wf_UPUS
proof unfold_locales
  show "wf_UPUS x \<Longrightarrow> length (enc_UPUS x) = 64" for x
    by (simp add: enc_UPUS_def wf_UPUS_def sizes)
  show "wf_UPUS x \<Longrightarrow> dec_UPUS (enc_UPUS x @ rest) = x" for x rest
    by (simp add: enc_UPUS_def dec_UPUS_def wf_UPUS_def get_enc)
  show "64 \<le> length bs \<Longrightarrow> enc_UPUS (dec_UPUS bs) = take 64 bs" for bs
    by (simp add: enc_UPUS_def dec_UPUS_def get_front get_fields enc_front enc_dec_at take_join sizes)
qed (simp add: dec_UPUS_def wf_UPUS_def get_front get_fields)

interpretation SPRP: struct_layout 4 enc_SPRP dec_SPRP "\<lambda>_. True"
proof unfold_locales
  show "length (enc_SPRP x) = 4" for x
    by (simp add: enc_SPRP_def sizes)
  show "dec_SPRP (enc_SPRP x @ rest) = x" for x rest
    by (simp add: enc_SPRP_def dec_SPRP_def get_enc)
  show "4 \<le> length bs \<Longrightarrow> enc_SPRP (dec_SPRP bs) = take 4 bs" for bs
    by (simp add: enc_SPRP_def dec_SPRP_def get_front get_fields enc_front enc_dec_at take_join sizes)
qed simp

interpretation FORC: struct_layout 20 enc_FORC dec_FORC wf_ForcSection
proof unfold_locales
  show "wf_ForcSection x \<Longrightarrow> length (enc_FORC x) = 20" for x
    by (simp add: enc_FORC_def wf_ForcSection_def sizes)
  show "wf_ForcSection x \<Longrightarrow> dec_FORC (enc_FORC x @ rest) = x" for x rest
    by (simp add: enc_FORC_def dec_FORC_def wf_ForcSection_def get_enc)
  show "20 \<le> length bs \<Longrightarrow> enc_FORC (dec_FORC bs) = take 20 bs" for bs
    by (simp add: enc_FORC_def dec_FORC_def get_front get_fields enc_front enc_dec_at take_join sizes)
qed (simp add: dec_FORC_def wf_ForcSection_def get_front get_fields)

interpretation WAV: struct_layout 2048 enc_WAV dec_WAV wf_WAV
proof unfold_locales
  show "wf_WAV x \<Longrightarrow> length (enc_WAV x) = 2048" for x
    by (simp add: enc_WAV_def wf_WAV_def sizes)
  show "wf_WAV x \<Longrightarrow> dec_WAV (enc_WAV x @ rest) = x" for x rest
    by (simp add: enc_WAV_def dec_WAV_def wf_WAV_def get_enc)
  show "2048 \<le> length bs \<Longrightarrow> enc_WAV (dec_WAV bs) = take 2048 bs" for bs
    by (simp add: enc_WAV_def dec_WAV_def get_front get_fields enc_front enc_dec_at take_join sizes)
qed (simp add: dec_WAV_def wf_WAV_def get_front get_fields)

interpretation UNIS: struct_layout 4048 enc_UNIS dec_UNIS wf_UnisSection
proof unfold_locales
  show "wf_UnisSection x \<Longrightarrow> length (enc_UNIS x) = 4048" for x
    by (simp add: enc_UNIS_def wf_UnisSection_def sizes)
  show "wf_UnisSection x \<Longrightarrow> dec_UNIS (enc_UNIS x @ rest) = x" for x rest
    by (simp add: enc_UNIS_def dec_UNIS_def wf_UnisSection_def get_enc)
  show "4048 \<le> length bs \<Longrightarrow> enc_UNIS (dec_UNIS bs) = take 4048 bs" for bs
    by (simp add: enc_UNIS_def dec_UNIS_def get_front get_fields enc_front enc_dec_at take_join sizes)
qed (simp add: dec_UNIS_def wf_UnisSection_def get_front get_fields)

interpretation UPGS: struct_layout 598 enc_UPGS dec_UPGS wf_UpgsSection
proof unfold_locales
  show "wf_UpgsSection x \<Longrightarrow> length (enc_UPGS x) = 598" for x
    by (simp add: enc_UPGS_def wf_UpgsSection_def sizes)
  show "wf_UpgsSection x \<Longrightarrow> dec_UPGS (enc_UPGS x @ rest) = x" for x rest
    by (simp add: enc_UPGS_def dec_UPGS_def wf_UpgsSection_def get_enc)
  show "598 \<le> length bs \<Longrightarrow> enc_UPGS (dec_UPGS bs) = take 598 bs" for bs
    by (simp add: enc_UPGS_def dec_UPGS_def get_front get_fields enc_front enc_dec_at take_join sizes)
qed (simp add: dec_UPGS_def wf_UpgsSection_def get_front get_fields)

interpretation TECS: struct_layout 216 enc_TECS dec_TECS wf_TecsSection
proof unfold_locales
  show "wf_TecsSection x \<Longrightarrow> length (enc_TECS x) = 216" for x
    by (simp add: enc_TECS_def wf_TecsSection_def sizes)
  show "wf_TecsSection x \<Longrightarrow> dec_TECS (enc_TECS x @ rest) = x" for x rest
    by (simp add: enc_TECS_def dec_TECS_def wf_TecsSection_def get_enc)
  show "216 \<le> length bs \<Longrightarrow> enc_TECS (dec_TECS bs) = take 216 bs" for bs
    by (simp add: enc_TECS_def dec_TECS_def get_front get_fields enc_front enc_dec_at take_join sizes)
qed (simp add: dec_TECS_def wf_TecsSection_def get_front get_fields)

interpretation SWNM: struct_layout 1024 enc_SWNM dec_SWNM wf_SWNM
proof unfold_locales
  show "wf_SWNM x \<Longrightarrow> length (enc_SWNM x) = 1024" for x
    by (simp add: enc_SWNM_def wf_SWNM_def sizes)
  show "wf_SWNM x \<Longrightarrow> dec_SWNM (enc_SWNM x @ rest) = x" for x rest
    by (simp add: enc_SWNM_def dec_SWNM_def wf_SWNM_def get_enc)
  show "1024 \<le> length bs \<Longrightarrow> enc_SWNM (dec_SWNM bs) = take 1024 bs" for bs
    by (simp add: enc_SWNM_def dec_SWNM_def get_front get_fields enc_front enc_dec_at take_join sizes)
qed (simp add: dec_SWNM_def wf_SWNM_def get_front get_fields)

interpretation COLR: struct_layout 8 enc_COLR dec_COLR wf_COLR
proof unfold_locales
  show "wf_COLR x \<Longrightarrow> length (enc_COLR x) = 8" for x
    by (simp add: enc_COLR_def wf_COLR_def sizes)
  show "wf_COLR x \<Longrightarrow> dec_COLR (enc_COLR x @ rest) = x" for x rest
    by (simp add: enc_COLR_def dec_COLR_def wf_COLR_def get_enc)
  show "8 \<le> length bs \<Longrightarrow> enc_COLR (dec_COLR bs) = take 8 bs" for bs
    by (simp add: enc_COLR_def dec_COLR_def get_front get_fields enc_front enc_dec_at take_join sizes)
qed (simp add: dec_COLR_def wf_COLR_def get_front get_fields)

interpretation PUPx: struct_layout 2318 enc_PUPx dec_PUPx wf_PupxSection
proof unfold_locales
  show "wf_PupxSection x \<Longrightarrow> length (enc_PUPx x) = 2318" for x
    by (auto simp: enc_PUPx_def wf_PupxSection_def sizes)
  show "wf_PupxSection x \<Longrightarrow> dec_PUPx (enc_PUPx x @ rest) = x" for x rest
    by (simp add: enc_PUPx_def dec_PUPx_def wf_PupxSection_def get_enc)
  show "2318 \<le> length bs \<Longrightarrow> enc_PUPx (dec_PUPx bs) = take 2318 bs" for bs
    by (simp add: enc_PUPx_def dec_PUPx_def get_front get_fields enc_front enc_dec_at take_join sizes)
qed (simp add: dec_PUPx_def wf_PupxSection_def get_front get_fields)

interpretation PTEx: struct_layout 1672 enc_PTEx dec_PTEx wf_PtexSection
proof unfold_locales
  show "wf_PtexSection x \<Longrightarrow> length (enc_PTEx x) = 1672" for x
    by (auto simp: enc_PTEx_def wf_PtexSection_def sizes)
  show "wf_PtexSection x \<Longrightarrow> dec_PTEx (enc_PTEx x @ rest) = x" for x rest
    by (simp add: enc_PTEx_def dec_PTEx_def wf_PtexSection_def get_enc)
  show "1672 \<le> length bs \<Longrightarrow> enc_PTEx (dec_PTEx bs) = take 1672 bs" for bs
    by (simp add: enc_PTEx_def dec_PTEx_def get_front get_fields enc_front enc_dec_at take_join sizes)
qed (simp add: dec_PTEx_def wf_PtexSection_def get_front get_fields)

interpretation UNIx: struct_layout 4168 enc_UNIx dec_UNIx wf_UnixSection
proof unfold_locales
  show "wf_UnixSection x \<Longrightarrow> length (enc_UNIx x) = 4168" for x
    by (simp add: enc_UNIx_def wf_UnixSection_def sizes)
  show "wf_UnixSection x \<Longrightarrow> dec_UNIx (enc_UNIx x @ rest) = x" for x rest
    by (simp add: enc_UNIx_def dec_UNIx_def wf_UnixSection_def get_enc)
  show "4168 \<le> length bs \<Longrightarrow> enc_UNIx (dec_UNIx bs) = take 4168 bs" for bs
    by (simp add: enc_UNIx_def dec_UNIx_def get_front get_fields enc_front enc_dec_at take_join sizes)
qed (simp add: dec_UNIx_def wf_UnixSection_def get_front get_fields)

interpretation UPGx: struct_layout 794 enc_UPGx dec_UPGx wf_UpgxSection
proof unfold_locales
  show "wf_UpgxSection x \<Longrightarrow> length (enc_UPGx x) = 794" for x
    by (simp add: enc_UPGx_def wf_UpgxSection_def sizes)
  show "wf_UpgxSection x \<Longrightarrow> dec_UPGx (enc_UPGx x @ rest) = x" for x rest
    by (simp add: enc_UPGx_def dec_UPGx_def wf_UpgxSection_def get_enc)
  show "794 \<le> length bs \<Longrightarrow> enc_UPGx (dec_UPGx bs) = take 794 bs" for bs
    by (simp add: enc_UPGx_def dec_UPGx_def get_front get_fields enc_front enc_dec_at take_join sizes)
qed (simp add: dec_UPGx_def wf_UpgxSection_def get_front get_fields)

interpretation TECx: struct_layout 396 enc_TECx dec_TECx wf_TecxSection
proof unfold_locales
  show "wf_TecxSection x \<Longrightarrow> length (enc_TECx x) = 396" for x
    by (simp add: enc_TECx_def wf_TecxSection_def sizes)
  show "wf_TecxSection x \<Longrightarrow> dec_TECx (enc_TECx x @ rest) = x" for x rest
    by (simp add: enc_TECx_def dec_TECx_def wf_TecxSection_def get_enc)
  show "396 \<le> length bs \<Longrightarrow> enc_TECx (dec_TECx bs) = take 396 bs" for bs
    by (simp add: enc_TECx_def dec_TECx_def get_front get_fields enc_front enc_dec_at take_join sizes)
qed (simp add: dec_TECx_def wf_TecxSection_def get_front get_fields)

interpretation OSTR: struct_layout 5944 enc_OSTR dec_OSTR wf_OstrSection
proof unfold_locales
  show "wf_OstrSection x \<Longrightarrow> length (enc_OSTR x) = 5944" for x
    by (simp add: enc_OSTR_def wf_OstrSection_def sizes)
  show "wf_OstrSection x \<Longrightarrow> dec_OSTR (enc_OSTR x @ rest) = x" for x rest
    by (simp add: enc_OSTR_def dec_OSTR_def wf_OstrSection_def get_enc)
  show "5944 \<le> length bs \<Longrightarrow> enc_OSTR (dec_OSTR bs) = take 5944 bs" for bs
    by (simp add: enc_OSTR_def dec_OSTR_def get_front get_fields enc_front enc_dec_at take_join sizes)
qed (simp add: dec_OSTR_def wf_OstrSection_def get_front get_fields)

text \<open>The layout of a section, with the size that its object has.\<close>

definition is_layout :: "nat \<Rightarrow> ('a \<Rightarrow> string) \<Rightarrow> (string \<Rightarrow> 'a) \<Rightarrow> ('a \<Rightarrow> bool) \<Rightarrow> bool" where
  "is_layout sz enc dec good \<longleftrightarrow> (\<forall>x. good x \<longrightarrow> length (enc x) = sz \<and> dec (enc x) = x) \<and>
    (\<forall>bs. length bs = sz \<longrightarrow> good (dec bs) \<and> enc (dec bs) = bs)"

definition layout_of :: "u32 \<Rightarrow> ('a \<Rightarrow> string) \<Rightarrow> (string \<Rightarrow> 'a) \<Rightarrow> ('a \<Rightarrow> bool) \<Rightarrow> bool" where
  "layout_of name enc dec good \<longleftrightarrow> (\<exists>sz. map_of structSizes name = Some sz \<and> is_layout sz enc dec good)"

context struct_layout
begin

lemma is_layout: "is_layout sz enc dec wf"
  using dec_enc [where rest = "[]"] length_enc wf_dec enc_dec by (auto simp: is_layout_def)

end


end
