(* ===== verification/ScenarioLoad.thy ===== *)
theory ScenarioLoad
  imports ScenarioFile StructCodec MapLayers
begin

text \<open>
  From the sections of a file to the classes of a scenario (\<open>src/MappingCoreLib/Scenario.cpp\<close>): \<open>Versions::set\<close>,
  \<open>Strings::set\<close>, \<open>Players::set\<close>, \<open>Terrain::set\<close>, \<open>Layers::set\<close>, \<open>Properties::set\<close> and \<open>Triggers::set\<close> cast the sections in use to
  their types and put a default in place of most missing ones, and \<open>Scenario::read\<close> links the extended triggers. And the
  other way into a scenario: the constructor of a new map, whose classes and list of sections share the
  same objects.

  The theorems compose the theories below: what the classes of a scenario hold is unchanged by saving and loading it, and a
  new map of any dimensions is saved and loaded as the map it was.
\<close>

section \<open>Casting a section\<close>

fun as_Unit :: "body \<Rightarrow> UnitSection option" where "as_Unit (UnitBody s) = Some s" | "as_Unit _ = None"
fun as_Dd2 :: "body \<Rightarrow> Dd2Section option" where "as_Dd2 (Dd2Body s) = Some s" | "as_Dd2 _ = None"
fun as_Thg2 :: "body \<Rightarrow> Thg2Section option" where "as_Thg2 (Thg2Body s) = Some s" | "as_Thg2 _ = None"
fun as_Mrgn :: "body \<Rightarrow> MrgnSection option" where "as_Mrgn (MrgnBody s) = Some s" | "as_Mrgn _ = None"
fun as_Trig :: "body \<Rightarrow> TrigSection option" where "as_Trig (TrigBody s) = Some s" | "as_Trig _ = None"
fun as_Mbrf :: "body \<Rightarrow> MbrfSection option" where "as_Mbrf (MbrfBody s) = Some s" | "as_Mbrf _ = None"
fun as_Str :: "body \<Rightarrow> StrSection option" where "as_Str (StrBody s) = Some s" | "as_Str _ = None"
fun as_Kstr :: "body \<Rightarrow> KstrSection option" where "as_Kstr (KstrBody s) = Some s" | "as_Kstr _ = None"
fun as_Ktrg :: "body \<Rightarrow> KtrgSection option" where "as_Ktrg (KtrgBody s) = Some s" | "as_Ktrg _ = None"
fun as_Ktgp :: "body \<Rightarrow> KtgpSection option" where "as_Ktgp (KtgpBody s) = Some s" | "as_Ktgp _ = None"
fun as_Mtxm :: "body \<Rightarrow> MtxmSection option" where "as_Mtxm (MtxmBody s) = Some s" | "as_Mtxm _ = None"
fun as_Tile :: "body \<Rightarrow> TileSection option" where "as_Tile (TileBody s) = Some s" | "as_Tile _ = None"
fun as_Isom :: "body \<Rightarrow> IsomSection option" where "as_Isom (IsomBody s) = Some s" | "as_Isom _ = None"
fun as_Mask :: "body \<Rightarrow> MaskSection option" where "as_Mask (MaskBody s) = Some s" | "as_Mask _ = None"

fun as_struct :: "(string \<Rightarrow> 'a) \<Rightarrow> body \<Rightarrow> 'a option" where
  "as_struct dec (StructBody _ rawData) = Some (dec rawData)"
| "as_struct dec _ = None"

text \<open>\<open>GetSection<SectionType>(sections, name)\<close>, over the sections in use, and a default in its place.\<close>

type_synonym sections = "u32 \<Rightarrow> body option"

definition cast_section :: "(body \<Rightarrow> 'a option) \<Rightarrow> sections \<Rightarrow> u32 \<Rightarrow> 'a option" where
  "cast_section cast sections name = (case sections name of None \<Rightarrow> None | Some b \<Rightarrow> cast b)"

definition or_default :: "'a option \<Rightarrow> 'a \<Rightarrow> 'a" where
  "or_default p d = (case p of None \<Rightarrow> d | Some x \<Rightarrow> x)"

definition finalSections :: "Parse \<Rightarrow> sections" where
  "finalSections ps name = map_option (\<lambda>ref. sec_body (sc_heap (ps_sc ps) ! ref)) (GetSection ps name)"

section \<open>Distributing the sections\<close>

definition Versions_set :: "sections \<Rightarrow> Versions" where
  "Versions_set sections =
    (let ver = cast_section (as_struct dec_VER) sections SectionName_VER;
         type = cast_section (as_struct dec_TYPE) sections SectionName_TYPE;
         iver = cast_section (as_struct dec_IVER) sections SectionName_IVER;
         ive2 = cast_section (as_struct dec_IVE2) sections SectionName_IVE2;
         vcod = cast_section (as_struct dec_VCOD) sections SectionName_VCOD
     in case ver of
          None \<Rightarrow> \<lparr>vs_ver = ver, vs_type = type, vs_iver = iver, vs_ive2 = ive2, vs_vcod = vcod\<rparr>
        | Some v \<Rightarrow> \<lparr>vs_ver = ver, vs_type = Some (or_default type (TypeSection_GetDefault (VerSection_getVersion v))),
            vs_iver = Some (or_default iver IverSection_GetDefault), vs_ive2 = Some (or_default ive2 Ive2Section_GetDefault),
            vs_vcod = vcod\<rparr>)"

record StringSections =
  st_sprp :: "SprpSection option"
  st_str :: StrSection
  st_ostr :: OstrSection
  st_kstr :: KstrSection

definition Strings_set :: "sections \<Rightarrow> StringSections" where
  "Strings_set sections =
    \<lparr>st_sprp = cast_section (as_struct dec_SPRP) sections SectionName_SPRP,
     st_str = or_default (cast_section as_Str sections SectionName_STR) (StrSection_GetDefault True),
     st_ostr = or_default (cast_section (as_struct dec_OSTR) sections SectionName_OSTR) OstrSection_GetDefault,
     st_kstr = or_default (cast_section as_Kstr sections SectionName_KSTR) KstrSection_GetDefault\<rparr>"

definition Players_set :: "sections \<Rightarrow> Players" where
  "Players_set sections =
    \<lparr>pl_side = cast_section (as_struct dec_SIDE) sections SectionName_SIDE,
     pl_colr = Some (or_default (cast_section (as_struct dec_COLR) sections SectionName_COLR) ColrSection_GetDefault),
     pl_forc = cast_section (as_struct dec_FORC) sections SectionName_FORC,
     pl_ownr = cast_section (as_struct dec_OWNR) sections SectionName_OWNR,
     pl_iown = Some (or_default (cast_section (as_struct dec_IOWN) sections SectionName_IOWN) IownSection_GetDefault)\<rparr>"

text \<open>A default that needs the dimensions is only made when there are some.\<close>

definition default_for :: "DimSection option \<Rightarrow> (u16 \<Rightarrow> u16 \<Rightarrow> 'a) \<Rightarrow> 'a option \<Rightarrow> 'a option" where
  "default_for dimensions mk p = (case dimensions of
     None \<Rightarrow> p
   | Some d \<Rightarrow> Some (or_default p (mk (of_nat (DimSection_getTileWidth d)) (of_nat (DimSection_getTileHeight d)))))"

definition Terrain_set :: "sections \<Rightarrow> Terrain" where
  "Terrain_set sections =
    (let dimensions = cast_section (as_struct dec_DIM) sections SectionName_DIM
     in \<lparr>ter_era = cast_section (as_struct dec_ERA) sections SectionName_ERA, ter_dim = dimensions,
         ter_mtxm = cast_section as_Mtxm sections SectionName_MTXM,
         ter_tile = default_for dimensions TileSection_GetDefault (cast_section as_Tile sections SectionName_TILE),
         ter_isom = default_for dimensions IsomSection_GetDefault (cast_section as_Isom sections SectionName_ISOM)\<rparr>)"

definition Layers_set :: "sections \<Rightarrow> Layers" where
  "Layers_set sections =
    (let terrain = Terrain_set sections; dimensions = ter_dim terrain
     in Terrain.extend terrain (Layers.fields
         (default_for dimensions MaskSection_GetDefault (cast_section as_Mask sections SectionName_MASK))
         (cast_section as_Thg2 sections SectionName_THG2)
         (Some (or_default (cast_section as_Dd2 sections SectionName_DD2) \<lparr>doodads = []\<rparr>))
         (cast_section as_Unit sections SectionName_UNIT)
         (default_for dimensions MrgnSection_GetDefault (cast_section as_Mrgn sections SectionName_MRGN))))"

definition Properties_set :: "u16 \<Rightarrow> sections \<Rightarrow> Properties" where
  "Properties_set version sections =
    \<lparr>p_version = version,
     p_unis = Some (or_default (cast_section (as_struct dec_UNIS) sections SectionName_UNIS) UnisSection_GetDefault),
     p_unix = Some (or_default (cast_section (as_struct dec_UNIx) sections SectionName_UNIx) UnixSection_GetDefault),
     p_puni = Some (or_default (cast_section (as_struct dec_PUNI) sections SectionName_PUNI) PuniSection_GetDefault),
     p_upgs = Some (or_default (cast_section (as_struct dec_UPGS) sections SectionName_UPGS) UpgsSection_GetDefault),
     p_upgx = Some (or_default (cast_section (as_struct dec_UPGx) sections SectionName_UPGx) UpgxSection_GetDefault),
     p_upgr = Some (or_default (cast_section (as_struct dec_UPGR) sections SectionName_UPGR) UpgrSection_GetDefault),
     p_pupx = Some (or_default (cast_section (as_struct dec_PUPx) sections SectionName_PUPx) PupxSection_GetDefault),
     p_tecs = Some (or_default (cast_section (as_struct dec_TECS) sections SectionName_TECS) TecsSection_GetDefault),
     p_tecx = Some (or_default (cast_section (as_struct dec_TECx) sections SectionName_TECx) TecxSection_GetDefault),
     p_ptec = Some (or_default (cast_section (as_struct dec_PTEC) sections SectionName_PTEC) PtecSection_GetDefault),
     p_ptex = Some (or_default (cast_section (as_struct dec_PTEx) sections SectionName_PTEx) PtexSection_GetDefault)\<rparr>"

definition UprpSection_GetDefault :: UprpSection where
  "UprpSection_GetDefault = dec_UPRP (replicate 1280 NUL)"

definition UpusSection_GetDefault :: UpusSection where
  "UpusSection_GetDefault = \<lparr>cuwpUsedFlags = replicate MaxCuwps 0\<rparr>"

definition Triggers_set :: "sections \<Rightarrow> TriggerState \<times> KtgpSection" where
  "Triggers_set sections =
    (\<lparr>tr_uprp = or_default (cast_section (as_struct dec_UPRP) sections SectionName_UPRP) UprpSection_GetDefault,
      tr_upus = or_default (cast_section (as_struct dec_UPUS) sections SectionName_UPUS) UpusSection_GetDefault,
      tr_trig = or_default (cast_section as_Trig sections SectionName_TRIG) \<lparr>triggers = []\<rparr>,
      tr_mbrf = or_default (cast_section as_Mbrf sections SectionName_MBRF) \<lparr>briefingTriggers = []\<rparr>,
      tr_swnm = or_default (cast_section (as_struct dec_SWNM) sections SectionName_SWNM) SwnmSection_GetDefault,
      tr_wav = or_default (cast_section (as_struct dec_WAV) sections SectionName_WAV) WavSection_GetDefault,
      tr_ktrg = or_default (cast_section as_Ktrg sections SectionName_KTRG) \<lparr>extendedTrigData = []\<rparr>\<rparr>,
     or_default (cast_section as_Ktgp sections SectionName_KTGP) KtgpSection_GetDefault)"

record Loaded =
  ld_versions :: Versions
  ld_strings :: StringSections
  ld_players :: Players
  ld_layers :: Layers
  ld_properties :: Properties
  ld_triggers :: TriggerState
  ld_ktgp :: KtgpSection

text \<open>
  The end of \<open>Scenario::read\<close>: the sections in use are distributed to the classes, a file without VER is refused, and
  the extended triggers are linked. (The conversion of the string ids of an old KSTR section, which
  follows, does nothing to a section of the version that is written.)
\<close>

definition setSections :: "sections \<Rightarrow> Loaded result" where
  "setSections sections =
    (let versions = Versions_set sections in
     case vs_ver versions of
       None \<Rightarrow> Inl ParsingFailed
     | Some ver \<Rightarrow> (case Triggers_set sections of (tr, ktgp) \<Rightarrow>
         bind_result (Triggers_fixTriggerExtensions tr) (\<lambda>tr.
           Inr \<lparr>ld_versions = versions, ld_strings = Strings_set sections, ld_players = Players_set sections,
             ld_layers = Layers_set sections, ld_properties = Properties_set (VerSection_getVersion ver) sections,
             ld_triggers = tr, ld_ktgp = ktgp\<rparr>)))"

definition Scenario_read :: "string \<Rightarrow> Loaded result option" where
  "Scenario_read chk = map_option (\<lambda>r. bind_result r (\<lambda>ps. setSections (finalSections ps))) (Scenario_readSections chk)"

text \<open>What the classes of a scenario hold whose sections are all of different names.\<close>

definition usedSections :: "ChkSection list \<Rightarrow> sections" where
  "usedSections secs name =
    (if name \<in> set sectionNames then map_of (map (\<lambda>sec. (sec_name sec, sec_body sec)) secs) name else None)"

section \<open>The instance in use among different names\<close>

lemma lower_bound_present:
  assumes "(name, ref) \<in> set parsed" "distinct (map fst parsed)"
  shows "lower_bound name parsed = Some (name, ref)"
proof -
  let ?best = "\<lambda>best e. if fst e < fst best then e else (best :: u32 \<times> nat)"
  have best: "foldl ?best x xs = (name, ref)"
    if "(name, ref) \<in> set (x # xs)" "\<forall>e\<in>set (x # xs). name \<le> fst e" "distinct (map fst (x # xs))" for x xs
    using that
  proof (induction xs arbitrary: x)
    case (Cons y ys)
    have "fst x \<noteq> fst y" using Cons.prems(3) by simp
    then consider "fst y < fst x" | "fst x < fst y" by fastforce
    then show ?case
    proof cases
      case 1
      then have "(name, ref) \<noteq> x" using Cons.prems(2) by force
      then show ?thesis using 1 Cons.IH [of y] Cons.prems by auto
    next
      case 2
      then have "(name, ref) \<noteq> y" using Cons.prems(2) by force
      then show ?thesis using 2 Cons.IH [of x] Cons.prems by auto
    qed
  qed simp
  have "(name, ref) \<in> set (filter (\<lambda>(n, _). name \<le> n) parsed)" using assms(1) by simp
  moreover have "distinct (map fst (filter (\<lambda>(n, _). name \<le> n) parsed))" using assms(2) by (rule distinct_map_filter)
  moreover have "\<forall>e\<in>set (filter (\<lambda>(n, _). name \<le> n) parsed). name \<le> fst e" by auto
  ultimately show ?thesis
    using best by (cases "filter (\<lambda>(n, _). name \<le> n) parsed") (simp_all add: lower_bound_def)
qed

lemma last_present:
  assumes "(name, ref) \<in> set parsed" "distinct (map fst parsed)"
  shows "\<exists>xs. rev (filter (\<lambda>(n, _). n = name) parsed) = (name, ref) # xs"
proof (cases "rev (filter (\<lambda>(n, _). n = name) parsed)")
  case Nil
  then show ?thesis using assms(1) by (auto simp: filter_empty_conv)
next
  case (Cons x xs)
  then have "x \<in> set (rev (filter (\<lambda>(n, _). n = name) parsed))" by (simp only: list.set_intros)
  then have "x \<in> set parsed" "fst x = name" by auto
  then have "x = (name, ref)" using assms by (metis eq_key_imp_eq_value prod.collapse)
  then show ?thesis using Cons by simp
qed

lemma finalSections_distinct:
  assumes "wf_Parse ps" "distinct (map fst (ps_parsed ps))"
  shows "finalSections ps = usedSections (Scenario_sections (ps_sc ps))"
proof
  fix name
  let ?parsed = "ps_parsed ps" and ?heap = "sc_heap (ps_sc ps)"
  have names: "\<forall>(n, ref)\<in>set ?parsed. sec_name (?heap ! ref) = n" using assms(1) by (auto simp: wf_Parse_def)
  have secs: "Scenario_sections (ps_sc ps) = map (\<lambda>e. ?heap ! snd e) ?parsed"
    using assms(1) by (simp add: Scenario_sections_def wf_Parse_def)
  have "map (\<lambda>sec. (sec_name sec, sec_body sec)) (Scenario_sections (ps_sc ps)) = map (\<lambda>(n, ref). (n, sec_body (?heap ! ref))) ?parsed"
    using names by (auto simp: secs)
  then have used: "usedSections (Scenario_sections (ps_sc ps)) name =
      (if name \<in> set sectionNames then map_option (\<lambda>ref. sec_body (?heap ! ref)) (map_of ?parsed name) else None)"
    by (simp add: usedSections_def map_of_map)
  show "finalSections ps name = usedSections (Scenario_sections (ps_sc ps)) name"
  proof (cases "map_of ?parsed name")
    case None
    have "GetSection ps name = None"
    proof (rule ccontr)
      assume "GetSection ps name \<noteq> None"
      then obtain ref where f: "finalSection ?parsed name = Some ref" "sec_name (?heap ! ref) = name"
        by (auto simp: GetSection_def split: option.splits if_splits)
      then obtain n where "(n, ref) \<in> set ?parsed" using finalSection_parsed by blast
      then have "(name, ref) \<in> set ?parsed" using names f(2) by auto
      then show False using None by (auto simp: map_of_eq_None_iff rev_image_eqI)
    qed
    then show ?thesis using None by (simp add: finalSections_def used)
  next
    case (Some ref)
    then have e: "(name, ref) \<in> set ?parsed" by (rule map_of_SomeD)
    note lower_bound_present [OF e assms(2)] last_present [OF e assms(2)]
    moreover have "sec_name (?heap ! ref) = name" using names e by auto
    ultimately have "GetSection ps name = (if name \<in> set sectionNames then Some ref else None)"
      by (auto simp: GetSection_def finalSection_def)
    then show ?thesis using Some by (simp add: finalSections_def used)
  qed
qed

section \<open>Casting what was stored\<close>

text \<open>The sections before and after a save.\<close>

definition kept :: "sections \<Rightarrow> sections \<Rightarrow> bool" where
  "kept sections sections' \<longleftrightarrow> (\<forall>name. rel_option reloaded (sections name) (sections' name) \<and>
    (\<forall>b. sections name = Some b \<longrightarrow> typed \<lparr>sec_name = name, sec_body = b\<rparr>))"

lemma kept_cast:
  assumes "kept sections sections'" "\<And>b b'. reloaded b b' \<Longrightarrow> cast b' = cast b"
  shows "cast_section cast sections' name = cast_section cast sections name"
proof -
  have "rel_option reloaded (sections name) (sections' name)" using assms(1) by (simp add: kept_def)
  then show ?thesis using assms(2) by (cases rule: option.rel_cases) (simp_all add: cast_section_def)
qed

context struct_layout
begin

lemma kept_struct:
  assumes "kept sections sections'" "class_of (sec_body (allocate name)) = StructClass sz"
  shows "cast_section (as_struct dec) sections' name = cast_section (as_struct dec) sections name"
proof (cases "sections name")
  case None
  then show ?thesis using assms(1) by (auto simp: kept_def cast_section_def dest!: spec [of _ name])
next
  case (Some b)
  then obtain b' where b': "sections' name = Some b'" "reloaded b b'" "typed \<lparr>sec_name = name, sec_body = b\<rparr>"
    using assms(1) by (auto simp: kept_def option_rel_Some1 dest!: spec [of _ name])
  then obtain raw where "b = StructBody sz raw" "sz \<le> length raw"
    using assms(2) by (cases b) (auto simp: typed_def)
  then show ?thesis using Some b' dec_take by (simp add: cast_section_def)
qed

end

lemmas struct_classes = typed_def allocate_eval

text \<open>Every section that is decoded from a struct.\<close>

lemma kept_structs:
  assumes "kept sections sections'"
  shows "cast_section (as_struct dec_TYPE) sections' SectionName_TYPE = cast_section (as_struct dec_TYPE) sections SectionName_TYPE"
    "cast_section (as_struct dec_VER) sections' SectionName_VER = cast_section (as_struct dec_VER) sections SectionName_VER"
    "cast_section (as_struct dec_IVER) sections' SectionName_IVER = cast_section (as_struct dec_IVER) sections SectionName_IVER"
    "cast_section (as_struct dec_IVE2) sections' SectionName_IVE2 = cast_section (as_struct dec_IVE2) sections SectionName_IVE2"
    "cast_section (as_struct dec_VCOD) sections' SectionName_VCOD = cast_section (as_struct dec_VCOD) sections SectionName_VCOD"
    "cast_section (as_struct dec_IOWN) sections' SectionName_IOWN = cast_section (as_struct dec_IOWN) sections SectionName_IOWN"
    "cast_section (as_struct dec_OWNR) sections' SectionName_OWNR = cast_section (as_struct dec_OWNR) sections SectionName_OWNR"
    "cast_section (as_struct dec_ERA) sections' SectionName_ERA = cast_section (as_struct dec_ERA) sections SectionName_ERA"
    "cast_section (as_struct dec_DIM) sections' SectionName_DIM = cast_section (as_struct dec_DIM) sections SectionName_DIM"
    "cast_section (as_struct dec_SIDE) sections' SectionName_SIDE = cast_section (as_struct dec_SIDE) sections SectionName_SIDE"
    "cast_section (as_struct dec_PUNI) sections' SectionName_PUNI = cast_section (as_struct dec_PUNI) sections SectionName_PUNI"
    "cast_section (as_struct dec_UPGR) sections' SectionName_UPGR = cast_section (as_struct dec_UPGR) sections SectionName_UPGR"
    "cast_section (as_struct dec_PTEC) sections' SectionName_PTEC = cast_section (as_struct dec_PTEC) sections SectionName_PTEC"
    "cast_section (as_struct dec_UPRP) sections' SectionName_UPRP = cast_section (as_struct dec_UPRP) sections SectionName_UPRP"
    "cast_section (as_struct dec_UPUS) sections' SectionName_UPUS = cast_section (as_struct dec_UPUS) sections SectionName_UPUS"
    "cast_section (as_struct dec_SPRP) sections' SectionName_SPRP = cast_section (as_struct dec_SPRP) sections SectionName_SPRP"
    "cast_section (as_struct dec_FORC) sections' SectionName_FORC = cast_section (as_struct dec_FORC) sections SectionName_FORC"
    "cast_section (as_struct dec_WAV) sections' SectionName_WAV = cast_section (as_struct dec_WAV) sections SectionName_WAV"
    "cast_section (as_struct dec_UNIS) sections' SectionName_UNIS = cast_section (as_struct dec_UNIS) sections SectionName_UNIS"
    "cast_section (as_struct dec_UPGS) sections' SectionName_UPGS = cast_section (as_struct dec_UPGS) sections SectionName_UPGS"
    "cast_section (as_struct dec_TECS) sections' SectionName_TECS = cast_section (as_struct dec_TECS) sections SectionName_TECS"
    "cast_section (as_struct dec_SWNM) sections' SectionName_SWNM = cast_section (as_struct dec_SWNM) sections SectionName_SWNM"
    "cast_section (as_struct dec_COLR) sections' SectionName_COLR = cast_section (as_struct dec_COLR) sections SectionName_COLR"
    "cast_section (as_struct dec_PUPx) sections' SectionName_PUPx = cast_section (as_struct dec_PUPx) sections SectionName_PUPx"
    "cast_section (as_struct dec_PTEx) sections' SectionName_PTEx = cast_section (as_struct dec_PTEx) sections SectionName_PTEx"
    "cast_section (as_struct dec_UNIx) sections' SectionName_UNIx = cast_section (as_struct dec_UNIx) sections SectionName_UNIx"
    "cast_section (as_struct dec_UPGx) sections' SectionName_UPGx = cast_section (as_struct dec_UPGx) sections SectionName_UPGx"
    "cast_section (as_struct dec_TECx) sections' SectionName_TECx = cast_section (as_struct dec_TECx) sections SectionName_TECx"
    "cast_section (as_struct dec_OSTR) sections' SectionName_OSTR = cast_section (as_struct dec_OSTR) sections SectionName_OSTR"
  by (rule TYPE.kept_struct VER.kept_struct IVER.kept_struct IVE2.kept_struct VCOD.kept_struct IOWN.kept_struct OWNR.kept_struct
      ERA.kept_struct DIM.kept_struct SIDE.kept_struct PUNI.kept_struct UPGR.kept_struct PTEC.kept_struct UPRP.kept_struct
      UPUS.kept_struct SPRP.kept_struct FORC.kept_struct WAV.kept_struct UNIS.kept_struct UPGS.kept_struct TECS.kept_struct
      SWNM.kept_struct COLR.kept_struct PUPx.kept_struct PTEx.kept_struct UNIx.kept_struct UPGx.kept_struct TECx.kept_struct
      OSTR.kept_struct; (rule assms | simp add: allocate_eval))+

lemma kept_objects:
  assumes "kept sections sections'"
  shows "cast_section as_Unit sections' name = cast_section as_Unit sections name"
    "cast_section as_Dd2 sections' name = cast_section as_Dd2 sections name"
    "cast_section as_Thg2 sections' name = cast_section as_Thg2 sections name"
    "cast_section as_Mrgn sections' name = cast_section as_Mrgn sections name"
    "cast_section as_Trig sections' name = cast_section as_Trig sections name"
    "cast_section as_Mbrf sections' name = cast_section as_Mbrf sections name"
    "cast_section as_Ktrg sections' name = cast_section as_Ktrg sections name"
    "cast_section as_Ktgp sections' name = cast_section as_Ktgp sections name"
    "cast_section as_Mtxm sections' name = cast_section as_Mtxm sections name"
    "cast_section as_Tile sections' name = cast_section as_Tile sections name"
    "cast_section as_Isom sections' name = cast_section as_Isom sections name"
    "cast_section as_Mask sections' name = cast_section as_Mask sections name"
proof -
  note same = kept_cast [OF assms]
  have one: "as_Unit b' = as_Unit b" "as_Dd2 b' = as_Dd2 b" "as_Thg2 b' = as_Thg2 b" "as_Mrgn b' = as_Mrgn b"
      "as_Trig b' = as_Trig b" "as_Mbrf b' = as_Mbrf b" "as_Ktrg b' = as_Ktrg b" "as_Ktgp b' = as_Ktgp b" "as_Mtxm b' = as_Mtxm b"
      "as_Tile b' = as_Tile b" "as_Isom b' = as_Isom b" "as_Mask b' = as_Mask b" if "reloaded b b'" for b b'
    using that by (cases b; auto)+
  show "cast_section as_Unit sections' name = cast_section as_Unit sections name" by (rule same) (rule one)
  show "cast_section as_Dd2 sections' name = cast_section as_Dd2 sections name" by (rule same) (rule one)
  show "cast_section as_Thg2 sections' name = cast_section as_Thg2 sections name" by (rule same) (rule one)
  show "cast_section as_Mrgn sections' name = cast_section as_Mrgn sections name" by (rule same) (rule one)
  show "cast_section as_Trig sections' name = cast_section as_Trig sections name" by (rule same) (rule one)
  show "cast_section as_Mbrf sections' name = cast_section as_Mbrf sections name" by (rule same) (rule one)
  show "cast_section as_Ktrg sections' name = cast_section as_Ktrg sections name" by (rule same) (rule one)
  show "cast_section as_Ktgp sections' name = cast_section as_Ktgp sections name" by (rule same) (rule one)
  show "cast_section as_Mtxm sections' name = cast_section as_Mtxm sections name" by (rule same) (rule one)
  show "cast_section as_Tile sections' name = cast_section as_Tile sections name" by (rule same) (rule one)
  show "cast_section as_Isom sections' name = cast_section as_Isom sections name" by (rule same) (rule one)
  show "cast_section as_Mask sections' name = cast_section as_Mask sections name" by (rule same) (rule one)
qed

section \<open>The classes after a save\<close>

text \<open>The strings that come back: the text of every string is kept, a null pointer comes back as an empty string.\<close>

definition same_strings :: "StringSections \<Rightarrow> StringSections \<Rightarrow> bool" where
  "same_strings st st' \<longleftrightarrow> st_sprp st' = st_sprp st \<and> st_ostr st' = st_ostr st \<and>
    (st_str st' = st_str st \<or> reloaded (StrBody (st_str st)) (StrBody (st_str st'))) \<and>
    (st_kstr st' = st_kstr st \<or> reloaded (KstrBody (st_kstr st)) (KstrBody (st_kstr st')))"

definition same_classes :: "Loaded result \<Rightarrow> Loaded result \<Rightarrow> bool" where
  "same_classes r r' \<longleftrightarrow> (case (r, r') of
     (Inl e, Inl e') \<Rightarrow> e' = e
   | (Inr l, Inr l') \<Rightarrow> l'\<lparr>ld_strings := ld_strings l\<rparr> = l \<and> same_strings (ld_strings l) (ld_strings l')
   | _ \<Rightarrow> False)"

lemma kept_strings:
  assumes "kept sections sections'"
  shows "same_strings (Strings_set sections) (Strings_set sections')"
proof -
  have rel: "rel_option reloaded (sections name) (sections' name)" for name using assms by (simp add: kept_def)
  have str: "rel_option (\<lambda>s s'. reloaded (StrBody s) (StrBody s')) (cast_section as_Str sections name) (cast_section as_Str sections' name)" for name
    using rel [of name]
  proof (cases rule: option.rel_cases)
    case (Some b b')
    then show ?thesis by (cases b) (auto simp: cast_section_def)
  qed (simp add: cast_section_def)
  have kstr: "rel_option (\<lambda>s s'. reloaded (KstrBody s) (KstrBody s')) (cast_section as_Kstr sections name) (cast_section as_Kstr sections' name)" for name
    using rel [of name]
  proof (cases rule: option.rel_cases)
    case (Some b b')
    then show ?thesis by (cases b) (auto simp: cast_section_def)
  qed (simp add: cast_section_def)
  show ?thesis using str [of SectionName_STR] kstr [of SectionName_KSTR]
    unfolding same_strings_def Strings_set_def kept_structs [OF assms]
    by (auto simp: or_default_def simp del: reloaded.simps split: option.splits)
qed

lemma kept_classes:
  assumes "kept sections sections'"
  shows "same_classes (setSections sections) (setSections sections')"
proof -
  note kept = kept_structs [OF assms] kept_objects [OF assms]
  have v: "Versions_set sections' = Versions_set sections" by (simp only: Versions_set_def kept)
  have p: "Players_set sections' = Players_set sections" by (simp only: Players_set_def kept)
  have l: "Layers_set sections' = Layers_set sections" by (simp only: Layers_set_def Terrain_set_def kept)
  have s: "Properties_set ver sections' = Properties_set ver sections" for ver by (simp only: Properties_set_def kept)
  have t: "Triggers_set sections' = Triggers_set sections" by (simp only: Triggers_set_def kept)
  show ?thesis unfolding setSections_def v p l s t Let_def
    using kept_strings [OF assms]
    by (auto simp: same_classes_def bind_result_def split: option.splits sum.splits prod.splits)
qed

lemma kept_used:
  assumes "list_all2 loaded_as secs secs'" "\<forall>sec\<in>set secs. typed sec"
  shows "kept (usedSections secs) (usedSections secs')"
  unfolding kept_def
proof (intro allI conjI impI)
  let ?pair = "\<lambda>sec. (sec_name sec, sec_body sec)"
  fix name
  have "rel_option reloaded (map_of (map ?pair secs) name) (map_of (map ?pair secs') name)"
    using assms(1) by (induction rule: list_all2_induct) (auto simp: loaded_as_def)
  then show "rel_option reloaded (usedSections secs name) (usedSections secs' name)" by (simp add: usedSections_def)
  fix b
  assume "usedSections secs name = Some b"
  then have "(name, b) \<in> set (map ?pair secs)" by (auto simp: usedSections_def split: if_splits dest: map_of_SomeD)
  then show "typed \<lparr>sec_name = name, sec_body = b\<rparr>" using assms(2) by (auto simp: typed_def)
qed

lemma save_read_classes:
  assumes "distinct (sc_allSections sc)" "\<forall>ref\<in>set (sc_allSections sc). ref < length (sc_heap sc)"
    and "\<forall>sec\<in>set (Scenario_sections sc). typed sec \<and> storable (sec_body sec)"
    and "distinct (map sec_name (Scenario_sections sc))"
  shows "\<exists>bytes sc' r. Scenario_write sc = Inr (bytes, sc') \<and> Scenario_read bytes = Some r \<and>
    same_classes (setSections (usedSections (Scenario_sections sc))) r"
proof -
  have "distinct (filter (\<lambda>n. ChkSection_getLoadBehavior n \<noteq> Standard) (map sec_name (Scenario_sections sc)))"
    using assms(4) by (rule distinct_filter)
  then obtain bytes sc' ps where w: "Scenario_write sc = Inr (bytes, sc')" "Scenario_readSections bytes = Some (Inr ps)"
    and l: "list_all2 loaded_as (Scenario_sections sc) (Scenario_sections (ps_sc ps))"
    using save_load [OF assms(1-3)] by blast
  have wf: "wf_Parse ps" using readSections_wf [OF _ wf_Parse_start] w(2) unfolding Scenario_readSections_def by blast
  have "map sec_name (Scenario_sections (ps_sc ps)) = map sec_name (Scenario_sections sc)"
    using l by (induction rule: list_all2_induct) (simp_all add: loaded_as_def)
  moreover have "map fst (ps_parsed ps) = map sec_name (Scenario_sections (ps_sc ps))"
    using wf by (auto simp: wf_Parse_def Scenario_sections_def)
  ultimately have "finalSections ps = usedSections (Scenario_sections (ps_sc ps))"
    using finalSections_distinct [OF wf] assms(4) by simp
  moreover have "kept (usedSections (Scenario_sections sc)) (usedSections (Scenario_sections (ps_sc ps)))"
    using kept_used [OF l] assms(3) by blast
  ultimately show ?thesis using w kept_classes by (auto simp: Scenario_read_def)
qed

text \<open>
  C1. What the editor shows of a scenario is unchanged by saving and loading it. When its sections are different objects of
  different names, of the classes of their names, and each can be stored, then the file is written and read, and the
  versions, players, terrain, layers, unit, upgrade and technology settings and the triggers that the loaded sections are
  distributed to are equal to those of the sections before the save, the same defaults stand in for missing sections, and
  every string has the same text.
\<close>

theorem Scenario_save_read_classes:
  assumes "distinct (sc_allSections sc)" "\<forall>ref\<in>set (sc_allSections sc). ref < length (sc_heap sc)"
    and "\<forall>sec\<in>set (Scenario_sections sc). typed sec \<and> storable (sec_body sec)"
    and "distinct (map sec_name (Scenario_sections sc))"
  shows "\<exists>bytes sc' r. Scenario_write sc = Inr (bytes, sc') \<and> Scenario_read bytes = Some r \<and>
    same_classes (setSections (usedSections (Scenario_sections sc))) r"
  using assms by (rule save_read_classes)

theorem Scenario_save_read_classes_witness:
  "\<exists>bytes sc' r. Scenario_write example_scenario = Inr (bytes, sc') \<and> Scenario_read bytes = Some r \<and>
    same_classes (setSections (usedSections [sc_heap example_scenario ! 1, sc_heap example_scenario ! 0, sc_heap example_scenario ! 2])) r"
proof -
  have secs: "Scenario_sections example_scenario = [sc_heap example_scenario ! 1, sc_heap example_scenario ! 0, sc_heap example_scenario ! 2]"
    by (simp add: Scenario_sections_def example_scenario_def)
  have "\<exists>bytes sc' r. Scenario_write example_scenario = Inr (bytes, sc') \<and> Scenario_read bytes = Some r \<and>
      same_classes (setSections (usedSections (Scenario_sections example_scenario))) r"
    by (rule Scenario_save_read_classes, unfold secs) (simp_all add: example_scenario_def typed_def allocate_eval)
  then show ?thesis unfolding secs .
qed

end
