(* ===== verification/ScenarioNew.thy ===== *)
theory ScenarioNew
  imports ScenarioLoad VersionsPlayers
begin

text \<open>
  A new map: the constructor \<open>Scenario::Scenario(tileset, width, height)\<close> of \<open>src/MappingCoreLib/Scenario.cpp\<close>, with the
  default sections of every class and the list of sections, which holds the same objects. The theorem takes a new
  map through the writer and the reader: the classes of the map that is loaded are those of the new map.
\<close>

section \<open>The constructor\<close>

definition Strings_new :: StringSections where
  "Strings_new = \<lparr>st_sprp = Some (SprpSection_GetDefault 1 2), st_str = StrSection_GetDefault False,
     st_ostr = OstrSection_GetDefault, st_kstr = KstrSection_GetDefault\<rparr>"

definition Triggers_new :: TriggerState where
  "Triggers_new = \<lparr>tr_uprp = UprpSection_GetDefault, tr_upus = UpusSection_GetDefault, tr_trig = \<lparr>triggers = []\<rparr>,
     tr_mbrf = \<lparr>briefingTriggers = []\<rparr>, tr_swnm = SwnmSection_GetDefault, tr_wav = WavSection_GetDefault,
     tr_ktrg = \<lparr>extendedTrigData = []\<rparr>\<rparr>"

definition newClasses :: "u16 \<Rightarrow> u16 \<Rightarrow> u16 \<Rightarrow> Loaded" where
  "newClasses tileset width height =
    \<lparr>ld_versions = Versions_new True, ld_strings = Strings_new, ld_players = Players_new True,
     ld_layers = Layers_new tileset width height, ld_properties = Properties_default (VerSection_getVersion VerSection_GetDefault),
     ld_triggers = Triggers_new, ld_ktgp = KtgpSection_GetDefault\<rparr>"

text \<open>\<open>allSections.push_back\<close> of a section of a class.\<close>

definition pushed :: "u32 \<Rightarrow> ('a \<Rightarrow> body) \<Rightarrow> 'a option \<Rightarrow> ChkSection list" where
  "pushed name mk p = (case p of None \<Rightarrow> [] | Some x \<Rightarrow> [\<lparr>sec_name = name, sec_body = mk x\<rparr>])"

definition newSections :: "Loaded \<Rightarrow> ChkSection list" where
  "newSections ld =
    (let vs = ld_versions ld; st = ld_strings ld; pl = ld_players ld; ly = ld_layers ld; p = ld_properties ld; tr = ld_triggers ld;
         hybridOrAbove = (Versions_isHybridOrAbove vs = Inr True)
     in (if hybridOrAbove then pushed SectionName_TYPE (\<lambda>x. StructBody 4 (enc_TYPE x)) (vs_type vs) else []) @
        pushed SectionName_VER (\<lambda>x. StructBody 2 (enc_VER x)) (vs_ver vs) @
        (if \<not> hybridOrAbove then pushed SectionName_IVER (\<lambda>x. StructBody 2 (enc_IVER x)) (vs_iver vs) else []) @
        pushed SectionName_IVE2 (\<lambda>x. StructBody 2 (enc_IVE2 x)) (vs_ive2 vs) @
        pushed SectionName_VCOD (\<lambda>x. StructBody 1040 (enc_VCOD x)) (vs_vcod vs) @
        pushed SectionName_IOWN (\<lambda>x. StructBody 12 (enc_IOWN x)) (pl_iown pl) @
        pushed SectionName_OWNR (\<lambda>x. StructBody 12 (enc_OWNR x)) (pl_ownr pl) @
        pushed SectionName_ERA (\<lambda>x. StructBody 2 (enc_ERA x)) (ter_era ly) @
        pushed SectionName_DIM (\<lambda>x. StructBody 4 (enc_DIM x)) (ter_dim ly) @
        pushed SectionName_SIDE (\<lambda>x. StructBody 12 (enc_SIDE x)) (pl_side pl) @
        pushed SectionName_MTXM MtxmBody (ter_mtxm ly) @
        pushed SectionName_PUNI (\<lambda>x. StructBody 5700 (enc_PUNI x)) (p_puni p) @
        pushed SectionName_UPGR (\<lambda>x. StructBody 1748 (enc_UPGR x)) (p_upgr p) @
        pushed SectionName_PTEC (\<lambda>x. StructBody 912 (enc_PTEC x)) (p_ptec p) @
        pushed SectionName_UNIT UnitBody (ly_unit ly) @
        pushed SectionName_ISOM IsomBody (ter_isom ly) @
        pushed SectionName_TILE TileBody (ter_tile ly) @
        pushed SectionName_DD2 Dd2Body (ly_dd2 ly) @
        pushed SectionName_THG2 Thg2Body (ly_thg2 ly) @
        pushed SectionName_MASK MaskBody (ly_mask ly) @
        pushed SectionName_STR StrBody (Some (st_str st)) @
        pushed SectionName_UPRP (\<lambda>x. StructBody 1280 (enc_UPRP x)) (Some (tr_uprp tr)) @
        pushed SectionName_UPUS (\<lambda>x. StructBody 64 (enc_UPUS x)) (Some (tr_upus tr)) @
        pushed SectionName_MRGN MrgnBody (ly_mrgn ly) @
        pushed SectionName_TRIG TrigBody (Some (tr_trig tr)) @
        pushed SectionName_MBRF MbrfBody (Some (tr_mbrf tr)) @
        pushed SectionName_SPRP (\<lambda>x. StructBody 4 (enc_SPRP x)) (st_sprp st) @
        pushed SectionName_FORC (\<lambda>x. StructBody 20 (enc_FORC x)) (pl_forc pl) @
        pushed SectionName_WAV (\<lambda>x. StructBody 2048 (enc_WAV x)) (Some (tr_wav tr)) @
        pushed SectionName_UNIS (\<lambda>x. StructBody 4048 (enc_UNIS x)) (p_unis p) @
        pushed SectionName_UPGS (\<lambda>x. StructBody 598 (enc_UPGS x)) (p_upgs p) @
        pushed SectionName_TECS (\<lambda>x. StructBody 216 (enc_TECS x)) (p_tecs p) @
        pushed SectionName_SWNM (\<lambda>x. StructBody 1024 (enc_SWNM x)) (Some (tr_swnm tr)) @
        pushed SectionName_COLR (\<lambda>x. StructBody 8 (enc_COLR x)) (pl_colr pl) @
        pushed SectionName_PUPx (\<lambda>x. StructBody 2318 (enc_PUPx x)) (p_pupx p) @
        pushed SectionName_PTEx (\<lambda>x. StructBody 1672 (enc_PTEx x)) (p_ptex p) @
        pushed SectionName_UNIx (\<lambda>x. StructBody 4168 (enc_UNIx x)) (p_unix p) @
        pushed SectionName_UPGx (\<lambda>x. StructBody 794 (enc_UPGx x)) (p_upgx p) @
        pushed SectionName_TECx (\<lambda>x. StructBody 396 (enc_TECx x)) (p_tecx p))"

definition Scenario_new :: "u16 \<Rightarrow> u16 \<Rightarrow> u16 \<Rightarrow> Scenario" where
  "Scenario_new tileset width height =
    (let secs = newSections (newClasses tileset width height)
     in Scenario_cleared\<lparr>sc_heap := secs, sc_allSections := [0..<length secs]\<rparr>)"

section \<open>The sections of a new map\<close>

lemma new_hybrid: "Versions_isHybridOrAbove (Versions_new True) = Inr True"
  by (simp add: Versions_isHybridOrAbove_def Versions_new_def follow_def VerSection_GetDefault_def VerSection_isHybridOrAbove_def)

lemma Scenario_sections_new: "Scenario_sections (Scenario_new tileset width height) = newSections (newClasses tileset width height)"
  by (simp add: Scenario_sections_def Scenario_new_def Let_def map_nth)

lemmas new_names = newSections_def newClasses_def new_hybrid pushed_def Versions_new_def Players_new_def Layers_new_def Terrain_new_def
  Terrain.extend_def Layers.fields_def Properties_default_def Triggers_new_def Strings_new_def

lemma new_defaults_wf:
  "wf_TYPE (TypeSection_GetDefault ver)" "wf_VCOD VcodSection_GetDefault" "wf_IOWN IownSection_GetDefault" "wf_OWNR OwnrSection_GetDefault"
  "wf_SIDE SideSection_GetDefault" "wf_PuniSection PuniSection_GetDefault" "wf_UpgrSection UpgrSection_GetDefault"
  "wf_PtecSection PtecSection_GetDefault" "wf_UPRP UprpSection_GetDefault" "wf_UPUS UpusSection_GetDefault" "wf_ForcSection ForcSection_GetDefault"
  "wf_WAV WavSection_GetDefault" "wf_UnisSection UnisSection_GetDefault" "wf_UpgsSection UpgsSection_GetDefault"
  "wf_TecsSection TecsSection_GetDefault" "wf_SWNM SwnmSection_GetDefault" "wf_COLR ColrSection_GetDefault"
  "wf_PupxSection PupxSection_GetDefault" "wf_PtexSection PtexSection_GetDefault" "wf_UnixSection UnixSection_GetDefault"
  "wf_UpgxSection UpgxSection_GetDefault" "wf_TecxSection TecxSection_GetDefault"
  using UPRP.wf_dec [of "replicate 1280 NUL"]
  by (simp_all add: wf_TYPE_def TypeSection_GetDefault_def wf_VCOD_def VcodSection_GetDefault_def wf_IOWN_def IownSection_GetDefault_def
      wf_OWNR_def OwnrSection_GetDefault_def wf_SIDE_def SideSection_GetDefault_def wf_PuniSection_def PuniSection_GetDefault_def
      wf_UpgrSection_def UpgrSection_GetDefault_def wf_PtecSection_def PtecSection_GetDefault_def UprpSection_GetDefault_def
      wf_UPUS_def UpusSection_GetDefault_def wf_ForcSection_def ForcSection_GetDefault_def wf_WAV_def WavSection_GetDefault_def
      wf_UnisSection_def UnisSection_GetDefault_def wf_UpgsSection_def UpgsSection_GetDefault_def wf_TecsSection_def TecsSection_GetDefault_def
      wf_SWNM_def SwnmSection_GetDefault_def wf_COLR_def ColrSection_GetDefault_def wf_PupxSection_def PupxSection_GetDefault_def
      wf_PtexSection_def PtexSection_GetDefault_def wf_UnixSection_def UnixSection_GetDefault_def wf_UpgxSection_def UpgxSection_GetDefault_def
      wf_TecxSection_def TecxSection_GetDefault_def is_matrix_def sizes)

text \<open>The section of a struct can be stored and has the class of its name.\<close>

context struct_layout
begin

lemma struct_section_ok:
  assumes "wf x" "sz < 2 ^ 31" "class_of (sec_body (allocate name)) = StructClass sz"
  shows "typed \<lparr>sec_name = name, sec_body = StructBody sz (enc x)\<rparr> \<and> storable (StructBody sz (enc x))"
  using assms length_enc by (simp add: typed_def)

lemma dec_enc_exact: "wf x \<Longrightarrow> dec (enc x) = x"
  using dec_enc [of x "[]"] by simp

end

definition storable_section :: "ChkSection \<Rightarrow> bool" where
  "storable_section sec \<longleftrightarrow> typed sec \<and> storable (sec_body sec)"

lemma pushed_storable:
  assumes "\<And>x. p = Some x \<Longrightarrow> storable_section \<lparr>sec_name = name, sec_body = mk x\<rparr>"
  shows "list_all storable_section (pushed name mk p)"
  using assms by (auto simp: pushed_def split: option.split)

lemma default_str_storable: "storable (StrBody (StrSection_GetDefault False))"
proof -
  let ?strs = "strings (StrSection_GetDefault False)"
  note eval = StrSection_GetDefault_def StrSection_new_def defaultStrings_def ScStr_new_def terminated_def upt_rec
  have wf: "wf_table ?strs" by (simp add: StrSection_GetDefault_def defaultStrings_def wf_table_def)
  have fit: "offsets_fit ?strs" by (simp add: eval offsets_fit_def str_start_def str_chars_def)
  have "isl (Strings_syncStringsToBytes ?strs) = False"
    by (simp add: eval Strings_syncStringsToBytes_def stringLengthAt_def ScStr_length_def maxStandardStrings_def)
  then obtain bytes where b: "Strings_syncStringsToBytes ?strs = Inr bytes" by (metis isl_def old.sum.exhaust)
  obtain hdr where hdr: "bytes = hdr @ str_data ?strs" "header_ok ?strs (length ?strs - 1) hdr"
    using syncStringsToBytes_layout [OF wf b] by blast
  then have "length hdr = 2 * length ?strs" by (simp add: header_ok_def)
  moreover have "length (str_data ?strs) < 1000" by (simp add: eval str_data_def str_chars_def)
  moreover have "length ?strs = 8" by (simp add: StrSection_GetDefault_def defaultStrings_def)
  ultimately have "length bytes \<le> 2147483647" using hdr(1) by simp
  moreover have "tailData (StrSection_GetDefault False) = []" by (simp add: StrSection_GetDefault_def StrSection_new_def)
  ultimately have "\<not> isl (StrSection_getSize None (StrSection_GetDefault False))"
    using b by (simp add: StrSection_getSize_def StrSection_syncStringsToBytes_def)
  then show ?thesis using wf fit by (simp add: StrSection_GetDefault_def defaultStrings_def)
qed

lemma new_objects_storable:
  assumes "0 < width" "unat width \<le> 256" "0 < height" "unat height \<le> 256"
  shows "storable (MtxmBody (MtxmSection_GetDefault width height))" "storable (TileBody (TileSection_GetDefault width height))"
    "storable (IsomBody (IsomSection_GetDefault width height))" "storable (MaskBody (MaskSection_GetDefault width height))"
    "storable (MrgnBody (MrgnSection_GetDefault width height))"
proof -
  have pos: "0 < unat width" "0 < unat height" using assms(1,3) by (simp_all add: unat_gt_0 word_neq_0_conv)
  have area: "unat width * unat height \<le> 256 * 256" "unat height * unat width \<le> 256 * 256"
    using assms(2,4) by (intro mult_le_mono; simp)+
  have isom: "(unat width div 2 + 1) * (unat height + 1) \<le> 129 * 257" by (rule mult_le_mono) (use assms(2,4) in linarith)+
  show "storable (MtxmBody (MtxmSection_GetDefault width height))" using pos area by (simp add: MtxmSection_GetDefault_def)
  show "storable (TileBody (TileSection_GetDefault width height))" using pos area by (simp add: TileSection_GetDefault_def)
  show "storable (IsomBody (IsomSection_GetDefault width height))" using isom by (simp add: IsomSection_GetDefault_def)
  show "storable (MaskBody (MaskSection_GetDefault width height))" using pos area by (simp add: MaskSection_GetDefault_def)
  show "storable (MrgnBody (MrgnSection_GetDefault width height))"
    by (simp add: MrgnSection_GetDefault_def wf_MrgnSection_def Anywhere_def TotalLocations_def)
qed

text \<open>The bytes of the default structs, and the structs read from them.\<close>

lemmas new_lengths =
  TYPE.length_enc [OF new_defaults_wf(1)] VCOD.length_enc [OF new_defaults_wf(2)] IOWN.length_enc [OF new_defaults_wf(3)]
  OWNR.length_enc [OF new_defaults_wf(4)] SIDE.length_enc [OF new_defaults_wf(5)] PUNI.length_enc [OF new_defaults_wf(6)]
  UPGR.length_enc [OF new_defaults_wf(7)] PTEC.length_enc [OF new_defaults_wf(8)] UPRP.length_enc [OF new_defaults_wf(9)]
  UPUS.length_enc [OF new_defaults_wf(10)] FORC.length_enc [OF new_defaults_wf(11)] WAV.length_enc [OF new_defaults_wf(12)]
  UNIS.length_enc [OF new_defaults_wf(13)] UPGS.length_enc [OF new_defaults_wf(14)] TECS.length_enc [OF new_defaults_wf(15)]
  SWNM.length_enc [OF new_defaults_wf(16)] COLR.length_enc [OF new_defaults_wf(17)] PUPx.length_enc [OF new_defaults_wf(18)]
  PTEx.length_enc [OF new_defaults_wf(19)] UNIx.length_enc [OF new_defaults_wf(20)] UPGx.length_enc [OF new_defaults_wf(21)]
  TECx.length_enc [OF new_defaults_wf(22)] VER.length_enc [OF TrueI] IVER.length_enc [OF TrueI] IVE2.length_enc [OF TrueI] ERA.length_enc [OF TrueI] DIM.length_enc [OF TrueI]
  SPRP.length_enc [OF TrueI]

lemmas new_decoded =
  TYPE.dec_enc_exact [OF new_defaults_wf(1)] VCOD.dec_enc_exact [OF new_defaults_wf(2)]
  IOWN.dec_enc_exact [OF new_defaults_wf(3)] OWNR.dec_enc_exact [OF new_defaults_wf(4)]
  SIDE.dec_enc_exact [OF new_defaults_wf(5)] PUNI.dec_enc_exact [OF new_defaults_wf(6)]
  UPGR.dec_enc_exact [OF new_defaults_wf(7)] PTEC.dec_enc_exact [OF new_defaults_wf(8)]
  UPRP.dec_enc_exact [OF new_defaults_wf(9)] UPUS.dec_enc_exact [OF new_defaults_wf(10)]
  FORC.dec_enc_exact [OF new_defaults_wf(11)] WAV.dec_enc_exact [OF new_defaults_wf(12)]
  UNIS.dec_enc_exact [OF new_defaults_wf(13)] UPGS.dec_enc_exact [OF new_defaults_wf(14)]
  TECS.dec_enc_exact [OF new_defaults_wf(15)] SWNM.dec_enc_exact [OF new_defaults_wf(16)]
  COLR.dec_enc_exact [OF new_defaults_wf(17)] PUPx.dec_enc_exact [OF new_defaults_wf(18)]
  PTEx.dec_enc_exact [OF new_defaults_wf(19)] UNIx.dec_enc_exact [OF new_defaults_wf(20)]
  UPGx.dec_enc_exact [OF new_defaults_wf(21)] TECx.dec_enc_exact [OF new_defaults_wf(22)]
  VER.dec_enc_exact [OF TrueI] IVER.dec_enc_exact [OF TrueI] IVE2.dec_enc_exact [OF TrueI] ERA.dec_enc_exact [OF TrueI] DIM.dec_enc_exact [OF TrueI] SPRP.dec_enc_exact [OF TrueI]

lemmas new_sections = newSections_def newClasses_def Let_def Loaded.simps new_hybrid Versions_new_def Players_new_def Layers_new_def
  Terrain_new_def Terrain.extend_def Layers.fields_def Properties_default_def Triggers_new_def Strings_new_def if_True

lemma newSections_storable:
  assumes "0 < width" "unat width \<le> 256" "0 < height" "unat height \<le> 256"
  shows "list_all storable_section (newSections (newClasses tileset width height))"
  unfolding new_sections pushed_def option.case Layers.simps Terrain.simps append.simps list.pred_inject
  using new_objects_storable [OF assms] default_str_storable
  by (simp add: storable_section_def typed_def allocate_eval new_lengths del: storable.simps add: storable.simps(1,2,3,5,6,15))


section \<open>Distributing the sections of a new map\<close>

definition new_bodies :: "u16 \<Rightarrow> u16 \<Rightarrow> u16 \<Rightarrow> (u32 \<times> body) list" where
  "new_bodies tileset width height = [
    (SectionName_TYPE, StructBody 4 (enc_TYPE (TypeSection_GetDefault (VerSection_getVersion VerSection_GetDefault)))),
    (SectionName_VER, StructBody 2 (enc_VER VerSection_GetDefault)),
    (SectionName_IVE2, StructBody 2 (enc_IVE2 Ive2Section_GetDefault)),
    (SectionName_VCOD, StructBody 1040 (enc_VCOD VcodSection_GetDefault)),
    (SectionName_IOWN, StructBody 12 (enc_IOWN IownSection_GetDefault)),
    (SectionName_OWNR, StructBody 12 (enc_OWNR OwnrSection_GetDefault)),
    (SectionName_ERA, StructBody 2 (enc_ERA (EraSection_GetDefault tileset))),
    (SectionName_DIM, StructBody 4 (enc_DIM (DimSection_GetDefault width height))),
    (SectionName_SIDE, StructBody 12 (enc_SIDE SideSection_GetDefault)),
    (SectionName_MTXM, MtxmBody (MtxmSection_GetDefault width height)),
    (SectionName_PUNI, StructBody 5700 (enc_PUNI PuniSection_GetDefault)),
    (SectionName_UPGR, StructBody 1748 (enc_UPGR UpgrSection_GetDefault)),
    (SectionName_PTEC, StructBody 912 (enc_PTEC PtecSection_GetDefault)),
    (SectionName_UNIT, UnitBody \<lparr>units = []\<rparr>),
    (SectionName_ISOM, IsomBody (IsomSection_GetDefault width height)),
    (SectionName_TILE, TileBody (TileSection_GetDefault width height)),
    (SectionName_DD2, Dd2Body \<lparr>doodads = []\<rparr>),
    (SectionName_THG2, Thg2Body \<lparr>sprites = []\<rparr>),
    (SectionName_MASK, MaskBody (MaskSection_GetDefault width height)),
    (SectionName_STR, StrBody (StrSection_GetDefault False)),
    (SectionName_UPRP, StructBody 1280 (enc_UPRP UprpSection_GetDefault)),
    (SectionName_UPUS, StructBody 64 (enc_UPUS UpusSection_GetDefault)),
    (SectionName_MRGN, MrgnBody (MrgnSection_GetDefault width height)),
    (SectionName_TRIG, TrigBody \<lparr>triggers = []\<rparr>),
    (SectionName_MBRF, MbrfBody \<lparr>briefingTriggers = []\<rparr>),
    (SectionName_SPRP, StructBody 4 (enc_SPRP (SprpSection_GetDefault 1 2))),
    (SectionName_FORC, StructBody 20 (enc_FORC ForcSection_GetDefault)),
    (SectionName_WAV, StructBody 2048 (enc_WAV WavSection_GetDefault)),
    (SectionName_UNIS, StructBody 4048 (enc_UNIS UnisSection_GetDefault)),
    (SectionName_UPGS, StructBody 598 (enc_UPGS UpgsSection_GetDefault)),
    (SectionName_TECS, StructBody 216 (enc_TECS TecsSection_GetDefault)),
    (SectionName_SWNM, StructBody 1024 (enc_SWNM SwnmSection_GetDefault)),
    (SectionName_COLR, StructBody 8 (enc_COLR ColrSection_GetDefault)),
    (SectionName_PUPx, StructBody 2318 (enc_PUPx PupxSection_GetDefault)),
    (SectionName_PTEx, StructBody 1672 (enc_PTEx PtexSection_GetDefault)),
    (SectionName_UNIx, StructBody 4168 (enc_UNIx UnixSection_GetDefault)),
    (SectionName_UPGx, StructBody 794 (enc_UPGx UpgxSection_GetDefault)),
    (SectionName_TECx, StructBody 396 (enc_TECx TecxSection_GetDefault))]"

lemma newSections_bodies: "map (\<lambda>sec. (sec_name sec, sec_body sec)) (newSections (newClasses tileset width height)) = new_bodies tileset width height"
  unfolding new_sections pushed_def option.case Layers.simps Terrain.simps append.simps new_bodies_def
  using new_hybrid by (simp add: Versions_new_def)

lemma new_bodies_names: "distinct (map fst (new_bodies tileset width height))" "fst ` set (new_bodies tileset width height) \<subseteq> set sectionNames"
  by (simp_all add: new_bodies_def sectionNames_def SectionName_defs)

lemma new_used: "usedSections (newSections (newClasses tileset width height)) = map_of (new_bodies tileset width height)"
proof
  fix name
  have "map_of (new_bodies tileset width height) name = None" if "name \<notin> set sectionNames"
    using new_bodies_names(2) [of tileset width height] that by (auto simp: map_of_eq_None_iff)
  then show "usedSections (newSections (newClasses tileset width height)) name = map_of (new_bodies tileset width height) name"
    by (simp add: usedSections_def newSections_bodies)
qed

lemma new_lookup:
  "map_of (new_bodies tileset width height) SectionName_TYPE = Some (StructBody 4 (enc_TYPE (TypeSection_GetDefault (VerSection_getVersion VerSection_GetDefault))))"
  "map_of (new_bodies tileset width height) SectionName_VER = Some (StructBody 2 (enc_VER VerSection_GetDefault))"
  "map_of (new_bodies tileset width height) SectionName_IVE2 = Some (StructBody 2 (enc_IVE2 Ive2Section_GetDefault))"
  "map_of (new_bodies tileset width height) SectionName_VCOD = Some (StructBody 1040 (enc_VCOD VcodSection_GetDefault))"
  "map_of (new_bodies tileset width height) SectionName_IOWN = Some (StructBody 12 (enc_IOWN IownSection_GetDefault))"
  "map_of (new_bodies tileset width height) SectionName_OWNR = Some (StructBody 12 (enc_OWNR OwnrSection_GetDefault))"
  "map_of (new_bodies tileset width height) SectionName_ERA = Some (StructBody 2 (enc_ERA (EraSection_GetDefault tileset)))"
  "map_of (new_bodies tileset width height) SectionName_DIM = Some (StructBody 4 (enc_DIM (DimSection_GetDefault width height)))"
  "map_of (new_bodies tileset width height) SectionName_SIDE = Some (StructBody 12 (enc_SIDE SideSection_GetDefault))"
  "map_of (new_bodies tileset width height) SectionName_MTXM = Some (MtxmBody (MtxmSection_GetDefault width height))"
  "map_of (new_bodies tileset width height) SectionName_PUNI = Some (StructBody 5700 (enc_PUNI PuniSection_GetDefault))"
  "map_of (new_bodies tileset width height) SectionName_UPGR = Some (StructBody 1748 (enc_UPGR UpgrSection_GetDefault))"
  "map_of (new_bodies tileset width height) SectionName_PTEC = Some (StructBody 912 (enc_PTEC PtecSection_GetDefault))"
  "map_of (new_bodies tileset width height) SectionName_UNIT = Some (UnitBody \<lparr>units = []\<rparr>)"
  "map_of (new_bodies tileset width height) SectionName_ISOM = Some (IsomBody (IsomSection_GetDefault width height))"
  "map_of (new_bodies tileset width height) SectionName_TILE = Some (TileBody (TileSection_GetDefault width height))"
  "map_of (new_bodies tileset width height) SectionName_DD2 = Some (Dd2Body \<lparr>doodads = []\<rparr>)"
  "map_of (new_bodies tileset width height) SectionName_THG2 = Some (Thg2Body \<lparr>sprites = []\<rparr>)"
  "map_of (new_bodies tileset width height) SectionName_MASK = Some (MaskBody (MaskSection_GetDefault width height))"
  "map_of (new_bodies tileset width height) SectionName_STR = Some (StrBody (StrSection_GetDefault False))"
  "map_of (new_bodies tileset width height) SectionName_UPRP = Some (StructBody 1280 (enc_UPRP UprpSection_GetDefault))"
  "map_of (new_bodies tileset width height) SectionName_UPUS = Some (StructBody 64 (enc_UPUS UpusSection_GetDefault))"
  "map_of (new_bodies tileset width height) SectionName_MRGN = Some (MrgnBody (MrgnSection_GetDefault width height))"
  "map_of (new_bodies tileset width height) SectionName_TRIG = Some (TrigBody \<lparr>triggers = []\<rparr>)"
  "map_of (new_bodies tileset width height) SectionName_MBRF = Some (MbrfBody \<lparr>briefingTriggers = []\<rparr>)"
  "map_of (new_bodies tileset width height) SectionName_SPRP = Some (StructBody 4 (enc_SPRP (SprpSection_GetDefault 1 2)))"
  "map_of (new_bodies tileset width height) SectionName_FORC = Some (StructBody 20 (enc_FORC ForcSection_GetDefault))"
  "map_of (new_bodies tileset width height) SectionName_WAV = Some (StructBody 2048 (enc_WAV WavSection_GetDefault))"
  "map_of (new_bodies tileset width height) SectionName_UNIS = Some (StructBody 4048 (enc_UNIS UnisSection_GetDefault))"
  "map_of (new_bodies tileset width height) SectionName_UPGS = Some (StructBody 598 (enc_UPGS UpgsSection_GetDefault))"
  "map_of (new_bodies tileset width height) SectionName_TECS = Some (StructBody 216 (enc_TECS TecsSection_GetDefault))"
  "map_of (new_bodies tileset width height) SectionName_SWNM = Some (StructBody 1024 (enc_SWNM SwnmSection_GetDefault))"
  "map_of (new_bodies tileset width height) SectionName_COLR = Some (StructBody 8 (enc_COLR ColrSection_GetDefault))"
  "map_of (new_bodies tileset width height) SectionName_PUPx = Some (StructBody 2318 (enc_PUPx PupxSection_GetDefault))"
  "map_of (new_bodies tileset width height) SectionName_PTEx = Some (StructBody 1672 (enc_PTEx PtexSection_GetDefault))"
  "map_of (new_bodies tileset width height) SectionName_UNIx = Some (StructBody 4168 (enc_UNIx UnixSection_GetDefault))"
  "map_of (new_bodies tileset width height) SectionName_UPGx = Some (StructBody 794 (enc_UPGx UpgxSection_GetDefault))"
  "map_of (new_bodies tileset width height) SectionName_TECx = Some (StructBody 396 (enc_TECx TecxSection_GetDefault))"
  "map_of (new_bodies tileset width height) SectionName_IVER = None"
  "map_of (new_bodies tileset width height) SectionName_OSTR = None"
  "map_of (new_bodies tileset width height) SectionName_KSTR = None"
  "map_of (new_bodies tileset width height) SectionName_KTRG = None"
  "map_of (new_bodies tileset width height) SectionName_KTGP = None"
  unfolding new_bodies_def by (simp_all add: SectionName_defs)

lemma new_default_for:
  "default_for (Some d) mk (Some x) = Some x"
  by (simp add: default_for_def or_default_def)

lemma new_sections_distributed:
  "setSections (usedSections (newSections (newClasses tileset width height))) = Inr (newClasses tileset width height)"
proof -
  let ?secs = "map_of (new_bodies tileset width height)"
  note eval = cast_section_def new_lookup new_decoded or_default_def new_default_for
  have vs: "Versions_set ?secs = Versions_new True" by (simp add: Versions_set_def eval Versions_new_def)
  have st: "Strings_set ?secs = Strings_new" by (simp add: Strings_set_def eval Strings_new_def)
  have pl: "Players_set ?secs = Players_new True" by (simp add: Players_set_def eval Players_new_def)
  have ly: "Layers_set ?secs = Layers_new tileset width height"
    by (simp add: Layers_set_def Terrain_set_def eval Layers_new_def Terrain_new_def Terrain.extend_def)
  have p: "Properties_set ver ?secs = Properties_default ver" for ver by (simp add: Properties_set_def eval Properties_default_def)
  have tr: "Triggers_set ?secs = (Triggers_new, KtgpSection_GetDefault)" by (simp add: Triggers_set_def eval Triggers_new_def)
  have "Triggers_fixTriggerExtensions Triggers_new = Inr Triggers_new"
    by (simp add: Triggers_fixTriggerExtensions_def Triggers_new_def KtrgSection_numExtendedTriggers_def)
  moreover have "vs_ver (Versions_new True) = Some VerSection_GetDefault" by (simp add: Versions_new_def)
  ultimately show ?thesis
    unfolding new_used setSections_def vs st pl ly p tr by (simp add: newClasses_def)
qed

text \<open>
  C9. A new map of any tileset and of 1 to 256 tiles in each direction is written, and the file is loaded as the map it was:
  the versions, players, terrain, layers, settings and triggers are those of the constructor (those of the sections that
  are not in the list come back as defaults), and every string has its text.
\<close>

theorem Scenario_new_save_load:
  assumes "0 < width" "unat width \<le> 256" "0 < height" "unat height \<le> 256"
  shows "\<exists>bytes sc' ld. Scenario_write (Scenario_new tileset width height) = Inr (bytes, sc') \<and> Scenario_read bytes = Some (Inr ld) \<and>
    ld\<lparr>ld_strings := Strings_new\<rparr> = newClasses tileset width height \<and> same_strings Strings_new (ld_strings ld)"
proof -
  let ?sc = "Scenario_new tileset width height"
  have secs: "Scenario_sections ?sc = newSections (newClasses tileset width height)" by (rule Scenario_sections_new)
  have "\<forall>sec\<in>set (Scenario_sections ?sc). typed sec \<and> storable (sec_body sec)"
    using newSections_storable [OF assms] unfolding secs list_all_iff storable_section_def .
  moreover have "map sec_name (newSections (newClasses tileset width height)) = map fst (new_bodies tileset width height)"
    by (simp flip: newSections_bodies)
  then have "distinct (map sec_name (Scenario_sections ?sc))" using new_bodies_names(1) by (simp add: secs)
  moreover have "distinct (sc_allSections ?sc)" "\<forall>ref\<in>set (sc_allSections ?sc). ref < length (sc_heap ?sc)"
    by (simp_all add: Scenario_new_def Let_def)
  ultimately have "\<exists>bytes sc' r. Scenario_write ?sc = Inr (bytes, sc') \<and> Scenario_read bytes = Some r \<and>
      same_classes (Inr (newClasses tileset width height)) r"
    using save_read_classes [of ?sc] by (simp add: secs new_sections_distributed)
  then obtain bytes sc' r where r: "Scenario_write ?sc = Inr (bytes, sc')" "Scenario_read bytes = Some r"
    "same_classes (Inr (newClasses tileset width height)) r" by blast
  then show ?thesis by (cases r) (auto simp: same_classes_def newClasses_def)
qed

theorem Scenario_new_save_load_witness:
  "\<exists>bytes sc' ld. Scenario_write (Scenario_new 4 128 96) = Inr (bytes, sc') \<and> Scenario_read bytes = Some (Inr ld) \<and>
    ld\<lparr>ld_strings := Strings_new\<rparr> = newClasses 4 128 96"
  using Scenario_new_save_load [of 128 96 4] by auto

end
