(* ===== verification/TextTrigLex.thy ===== *)
theory TextTrigLex
  imports EscapeStrings
begin

text \<open>
  The lexical layer of the text trigger compiler (\<open>TextTrigCompiler.cpp\<close>, with the templates of its header) and the printing
  of numbers it has to undo (\<open>std::to_string\<close>, \<open>to_hex_string\<close> of \<open>Basics.h\<close>): \<open>cleanText\<close>, which takes the quoted strings
  out of a text and removes its spaces and comments, the searches of the parser, the number
  parsers, and the copy of a word into an array of fixed size.

  A position is a natural number; \<open>npos\<close> is \<open>None\<close>. The difference \<open>end - pos\<close> of two
  positions wraps at 64 bits as in the code, which some callers rely on. A parser with a reference parameter takes the value the
  variable has and returns the one it leaves, along with whether it succeeded.
\<close>

section \<open>Characters and searches\<close>

abbreviation VT :: char where "VT \<equiv> CHR 0x0B"
abbreviation FF :: char where "FF \<equiv> CHR 0x0C"

definition isLower :: "char \<Rightarrow> bool" where
  "isLower c \<longleftrightarrow> 97 \<le> byte c \<and> byte c \<le> 122"

definition upperChar :: "char \<Rightarrow> char" where
  "upperChar c = (if isLower c then to_byte (byte c - 32) else c)"

text \<open>\<open>std::string::find\<close> of a character, \<open>substr\<close> and the test \<open>compare(pos, len, word) == 0\<close>.\<close>

definition str_find :: "char \<Rightarrow> string \<Rightarrow> nat \<Rightarrow> nat option" where
  "str_find c str pos = find_index (\<lambda>i. str ! i = c) pos (length str)"

definition substr :: "string \<Rightarrow> nat \<Rightarrow> nat \<Rightarrow> string" where
  "substr str pos len = take len (drop pos str)"

definition compare_at :: "string \<Rightarrow> nat \<Rightarrow> nat \<Rightarrow> string \<Rightarrow> bool" where
  "compare_at str pos len word \<longleftrightarrow> substr str pos len = word"

text \<open>\<open>end - pos\<close> of two \<open>size_t\<close>.\<close>

definition size_between :: "nat \<Rightarrow> nat \<Rightarrow> nat" where
  "size_between pos end' = (if pos \<le> end' then end' - pos else 2 ^ 64 - (pos - end'))"

text \<open>The end of a string is the next quote without a backslash before it.\<close>

function findStringEnd :: "string \<Rightarrow> nat \<Rightarrow> nat option" where
  "findStringEnd str pos =
    (if pos < length str then
       (case str_find QUOTE str pos of
          None \<Rightarrow> None
        | Some nextQuote \<Rightarrow>
            if nextQuote > 0 \<and> str ! (nextQuote - 1) = BSL then findStringEnd str (nextQuote + 1) else Some nextQuote)
     else None)"
  by auto
termination
  by (relation "measure (\<lambda>(str, pos). length str - pos)") (auto simp: str_find_def dest: find_index_Some)

declare findStringEnd.simps [simp del]

function findNext :: "string \<Rightarrow> nat \<Rightarrow> char \<Rightarrow> char \<Rightarrow> nat option" where
  "findNext str pos character terminator =
    (if pos < length str then
       if str ! pos = character then Some pos
       else if str ! pos = terminator then None
       else findNext str (pos + 1) character terminator
     else None)"
  by auto
termination
  by (relation "measure (\<lambda>(str, pos, c, t). length str - pos)") auto

declare findNext.simps [simp del]

section \<open>Cleaning a text\<close>

text \<open>Where the comment that starts before \<open>pos\<close> ends: the next line feed, else the next of the other line endings.\<close>

definition commentEnd :: "string \<Rightarrow> nat \<Rightarrow> nat" where
  "commentEnd str pos =
    (case str_find LF str pos of Some newPos \<Rightarrow> newPos
     | None \<Rightarrow> (case str_find CR str pos of Some newPos \<Rightarrow> newPos
     | None \<Rightarrow> (case str_find VT str pos of Some newPos \<Rightarrow> newPos
     | None \<Rightarrow> (case str_find FF str pos of Some newPos \<Rightarrow> newPos
     | None \<Rightarrow> length str))))"

text \<open>
  The loop of \<open>cleanText\<close>. When no quote closes a string, \<open>closeQuotePos\<close> is \<open>npos\<close>: the rest of the text is taken as the string, and
  \<open>closeQuotePos + 1\<close> wraps to zero, so that the loop starts over. Not returning is \<open>None\<close>.
\<close>

partial_function (option) cleanText_loop :: "string \<Rightarrow> nat \<Rightarrow> string \<Rightarrow> string list \<Rightarrow> (string \<times> string list) option" where
  "cleanText_loop str pos dest stringContents =
    (if pos < length str then
       let character = str ! pos; next = pos + 1 in
       if character = CHR '' '' \<or> character = TAB then cleanText_loop str next dest stringContents
       else if character = CR then
         cleanText_loop str (if str_at str next = LF then next + 1 else next) (dest @ [LF]) stringContents
       else if character = LF \<or> character = VT \<or> character = FF then cleanText_loop str next (dest @ [LF]) stringContents
       else if character = CHR ''/'' then
         cleanText_loop str (if str_at str next = CHR ''/'' then commentEnd str next else next) dest stringContents
       else if character = QUOTE then
         (case findStringEnd str next of
            Some closeQuotePos \<Rightarrow>
              cleanText_loop str (closeQuotePos + 1) (dest @ [QUOTE, QUOTE])
                (stringContents @ [convertStr EscString RawString (substr str next (closeQuotePos - next))])
          | None \<Rightarrow>
              cleanText_loop str 0 (dest @ [QUOTE, QUOTE])
                (stringContents @ [convertStr EscString RawString (drop next str)]))
       else cleanText_loop str next (dest @ [upperChar character]) stringContents
     else Some (dest, stringContents))"

declare cleanText_loop.simps [code]

definition cleanText :: "string \<Rightarrow> (string \<times> string list) option" where
  "cleanText str = cleanText_loop str 0 [] []"

section \<open>Numbers\<close>

text \<open>\<open>isspace\<close>, the value of a digit, and \<open>strtoll\<close>: \<open>None\<close> when there is no digit to convert.\<close>

definition isSpace :: "char \<Rightarrow> bool" where
  "isSpace c \<longleftrightarrow> byte c = 32 \<or> 9 \<le> byte c \<and> byte c \<le> 13"

definition digitValue :: "char \<Rightarrow> nat" where
  "digitValue c =
    (let b = byte c in
     if 48 \<le> b \<and> b \<le> 57 then b - 48
     else if 65 \<le> b \<and> b \<le> 90 then b - 65 + 10
     else if 97 \<le> b \<and> b \<le> 122 then b - 97 + 10
     else 36)"

definition digitsValue :: "nat \<Rightarrow> string \<Rightarrow> nat" where
  "digitsValue base ds = foldl (\<lambda>a c. a * base + digitValue c) 0 ds"

definition strtoll :: "nat \<Rightarrow> string \<Rightarrow> int option" where
  "strtoll base s =
    (let s1 = dropWhile isSpace s;
         neg = (str_at s1 0 = CHR ''-'');
         s2 = (if str_at s1 0 = CHR ''-'' \<or> str_at s1 0 = CHR ''+'' then drop 1 s1 else s1);
         s3 = (if base = 16 \<and> str_at s2 0 = CHR ''0'' \<and> (str_at s2 1 = CHR ''x'' \<or> str_at s2 1 = CHR ''X'') \<and>
                 digitValue (str_at s2 2) < 16
               then drop 2 s2 else s2);
         ds = takeWhile (\<lambda>c. digitValue c < base) s3
     in if ds = [] then None
        else Some (if neg then - int (digitsValue base ds) else int (digitsValue base ds)))"

text \<open>\<open>atoi\<close> and \<open>atoll\<close>: zero when nothing converts.\<close>

definition ato :: "string \<Rightarrow> int" where
  "ato s = (case strtoll 10 s of None \<Rightarrow> 0 | Some v \<Rightarrow> v)"

definition hexPrefix :: "string \<Rightarrow> nat \<Rightarrow> bool" where
  "hexPrefix str pos \<longleftrightarrow> str_at str pos = CHR ''0'' \<and> (str_at str (pos + 1) = CHR ''x'' \<or> str_at str (pos + 1) = CHR ''X'')"

definition parseLong :: "string \<Rightarrow> u32 \<Rightarrow> nat \<Rightarrow> nat \<Rightarrow> bool \<times> u32" where
  "parseLong str dest pos end' =
    (let size = size_between pos end' in
     if size < 12 then
       if size = 1 \<and> str_at str pos = CHR ''0'' then (True, 0)
       else if size > 2 \<and> hexPrefix str pos then
         (case strtoll 16 (substr str (pos + 2) (size - 2)) of
            Some v \<Rightarrow> (True, of_int v)
          | None \<Rightarrow> (False, dest))
       else
         let dest = of_int (ato (substr str pos size)) in (dest > 0, dest)
     else (False, dest))"

definition parseShort :: "string \<Rightarrow> u16 \<Rightarrow> nat \<Rightarrow> nat \<Rightarrow> bool \<times> u16" where
  "parseShort str dest pos end' =
    (let size = size_between pos end' in
     if size < 7 then
       if size = 1 \<and> str_at str pos = CHR ''0'' then (True, 0)
       else if size > 2 \<and> hexPrefix str pos then
         (case strtoll 16 (substr str (pos + 2) (size - 2)) of
            Some v \<Rightarrow> (True, of_int v)
          | None \<Rightarrow> (False, dest))
       else
         let dest = of_int (ato (substr str pos size)) in (dest > 0, dest)
     else (False, dest))"

definition parseByte :: "string \<Rightarrow> u8 \<Rightarrow> nat \<Rightarrow> nat \<Rightarrow> bool \<times> u8" where
  "parseByte str dest pos end' =
    (let size = size_between pos end' in
     if size < 5 then
       if size = 1 \<and> str_at str pos = CHR ''0'' then (True, 0)
       else if size > 2 \<and> hexPrefix str pos then
         (case strtoll 16 (substr str (pos + 2) (size - 2)) of
            Some v \<Rightarrow> (True, of_int v)
          | None \<Rightarrow> (False, dest))
       else
         let dest = of_int (ato (substr str pos size)) in (dest > 0, dest)
     else (False, dest))"

definition parseBinaryLong :: "string \<Rightarrow> u32 \<Rightarrow> nat \<Rightarrow> nat \<Rightarrow> bool \<times> u32" where
  "parseBinaryLong str dest pos end' =
    (let size = size_between pos end' in
     if size < 33 then
       if size = 0 then (True, 0)
       else if list_all (\<lambda>c. c = CHR ''0'') (substr str pos size) then (True, 0)
       else
         let dest = (case strtoll 2 (substr str pos size) of None \<Rightarrow> 0 | Some v \<Rightarrow> of_int v) in (dest > 0, dest)
     else (False, dest))"

definition parseMemoryAddress :: "string \<Rightarrow> u32 \<Rightarrow> nat \<Rightarrow> nat \<Rightarrow> u32 \<Rightarrow> bool \<times> u32" where
  "parseMemoryAddress str dest pos end' deathTableOffset =
    (case parseLong str 0 pos end' of
       (True, temp) \<Rightarrow> (True, (temp div 4 * 4 - deathTableOffset) div 4)
     | (False, _) \<Rightarrow> (False, dest))"

text \<open>The spaces, tabs and case of a text are removed once more before the flags of a trigger are read.\<close>

definition copyArg :: "string \<Rightarrow> nat \<Rightarrow> nat \<Rightarrow> string" where
  "copyArg str pos end' =
    map upperChar (List.filter (\<lambda>c. c \<noteq> CHR '' '' \<and> c \<noteq> TAB) (substr str pos (size_between pos end')))"

definition parseExecutionFlags :: "string \<Rightarrow> nat \<Rightarrow> nat \<Rightarrow> bool \<times> u32" where
  "parseExecutionFlags str pos end' =
    (let arg = copyArg str pos end' in parseBinaryLong arg 0 0 (length arg))"

section \<open>Printing numbers\<close>

text \<open>\<open>std::to_string\<close>, the digits of \<open>%X\<close>, and those of base two.\<close>

definition digitChar :: "nat \<Rightarrow> char" where
  "digitChar d = to_byte (if d < 10 then d + 48 else d - 10 + 65)"

function printBase :: "nat \<Rightarrow> nat \<Rightarrow> string" where
  "printBase base n = (if base < 2 \<or> n < base then [digitChar n] else printBase base (n div base) @ [digitChar (n mod base)])"
  by auto
termination
  by (relation "measure (\<lambda>(base, n). n)") auto

declare printBase.simps [simp del]

definition to_string :: "nat \<Rightarrow> string" where
  "to_string n = printBase 10 n"

definition to_hex_string :: "nat \<Rightarrow> string" where
  "to_hex_string n = ''0x'' @ printBase 16 n"

section \<open>Words\<close>

text \<open>
  \<open>copyUpperCaseNoSpace\<close>: the characters but the spaces go to the front of the array, in upper case; the terminator is
  written at the size of the source. An index past the array is undefined behaviour.
\<close>

fun copyUpperCaseNoSpace_loop :: "char list \<Rightarrow> string \<Rightarrow> nat \<Rightarrow> char list result" where
  "copyUpperCaseNoSpace_loop dest [] i = Inr dest"
| "copyUpperCaseNoSpace_loop dest (currChar # src) i =
    (if isLower currChar \<or> currChar \<noteq> CHR '' '' then
       if i < length dest then copyUpperCaseNoSpace_loop (dest[i := upperChar currChar]) src (i + 1) else Inl UndefinedBehavior
     else copyUpperCaseNoSpace_loop dest src i)"

definition copyUpperCaseNoSpace :: "char list \<Rightarrow> string \<Rightarrow> char list result" where
  "copyUpperCaseNoSpace dest source =
    bind_result (copyUpperCaseNoSpace_loop dest source 0)
      (\<lambda>dest. if length source < length dest then Inr (dest[length source := NUL]) else Inl UndefinedBehavior)"

text \<open>A word argument: the next quoted string when the argument is quoted, else the text of the argument.\<close>

definition copyWord :: "nat \<Rightarrow> string \<Rightarrow> string list \<Rightarrow> nat \<Rightarrow> nat \<Rightarrow> nat \<Rightarrow> (string \<times> nat) result" where
  "copyWord N str stringContents nextString pos end' =
    (if str_at str pos = QUOTE then
       bind_result (at_unchecked stringContents nextString) (\<lambda>rawString.
       bind_result (copyUpperCaseNoSpace (replicate N NUL) rawString) (\<lambda>dest. Inr (from_ptr dest 0, nextString + 1)))
     else
       bind_result (copyUpperCaseNoSpace (replicate N NUL) (substr str pos (size_between pos end')))
         (\<lambda>dest. Inr (from_ptr dest 0, nextString)))"

section \<open>What a printed number means to a parser\<close>

lemma digitValue_digitChar: "d < 36 \<Longrightarrow> digitValue (digitChar d) = d"
  by (simp add: digitValue_def digitChar_def)

lemma digitChar_no_sign:
  assumes "d < 36"
  shows "digitChar d \<noteq> CHR ''-''" "digitChar d \<noteq> CHR ''+''" "\<not> isSpace (digitChar d)" "digitChar d \<noteq> NUL"
    "digitChar d \<noteq> CHR ''x''" "d < 16 \<Longrightarrow> digitChar d \<noteq> CHR ''X''" "digitChar d = CHR ''0'' \<longleftrightarrow> d = 0"
proof -
  have b: "byte (digitChar d) = (if d < 10 then d + 48 else d + 55)"
    using assms by (simp add: digitChar_def)
  have c: "byte (CHR ''-'') = 45" "byte (CHR ''+'') = 43" "byte (CHR ''x'') = 120" "byte (CHR ''X'') = 88" "byte (CHR ''0'') = 48"
    by (simp_all add: byte_def)
  show "digitChar d \<noteq> CHR ''-''" "digitChar d \<noteq> CHR ''+''" "\<not> isSpace (digitChar d)" "digitChar d \<noteq> NUL"
    "digitChar d \<noteq> CHR ''x''" "d < 16 \<Longrightarrow> digitChar d \<noteq> CHR ''X''" "digitChar d = CHR ''0'' \<longleftrightarrow> d = 0"
    using assms b c by (auto simp: isSpace_def byte_eq_iff [symmetric] split: if_splits)
qed

lemma digitsValue_snoc: "digitsValue base (ds @ [c]) = digitsValue base ds * base + digitValue c"
  by (simp add: digitsValue_def)

lemma digitsValue_printBase:
  assumes "2 \<le> base" "base \<le> 36"
  shows "digitsValue base (printBase base n) = n"
  using assms
proof (induction base n rule: printBase.induct)
  case (1 base n)
  then have "n mod base < 36" by (meson less_le_trans mod_less_divisor zero_less_numeral)
  then show ?case
    using 1 by (subst printBase.simps)
      (auto simp: digitsValue_snoc digitValue_digitChar, simp add: digitsValue_def digitValue_digitChar)
qed

lemma printBase_nonempty [simp]: "printBase base n \<noteq> []"
  by (subst printBase.simps) simp

lemma printBase_digits:
  assumes "2 \<le> base" "c \<in> set (printBase base n)"
  shows "\<exists>d<base. c = digitChar d"
  using assms
proof (induction base n rule: printBase.induct)
  case (1 base n)
  show ?case
  proof (cases "n < base")
    case True
    then show ?thesis using 1 by (subst (asm) (2) printBase.simps) auto
  next
    case False
    then have "c \<in> set (printBase base (n div base)) \<or> c = digitChar (n mod base)"
      using 1 by (subst (asm) (2) printBase.simps) auto
    moreover have "n mod base < base" using 1 by simp
    ultimately show ?thesis using 1 False by (metis not_less)
  qed
qed

lemma printBase_length: "2 \<le> base \<Longrightarrow> n < base ^ k \<Longrightarrow> 0 < k \<Longrightarrow> length (printBase base n) \<le> k"
proof (induction base n arbitrary: k rule: printBase.induct)
  case (1 base n)
  show ?case
  proof (cases "n < base")
    case True
    then show ?thesis using 1 by (subst printBase.simps) auto
  next
    case False
    then obtain j where j: "k = Suc j" "0 < j" using 1 by (cases k; cases "k - 1") auto
    then have "n div base < base ^ j"
      using 1 by (simp add: less_mult_imp_div_less mult.commute)
    then have "length (printBase base (n div base)) \<le> j" using 1 j False by auto
    then show ?thesis using False j 1 by (subst printBase.simps) auto
  qed
qed

lemma printBase_first:
  assumes "2 \<le> base" "n \<noteq> 0"
  shows "\<exists>d<base. d \<noteq> 0 \<and> str_at (printBase base n) 0 = digitChar d"
  using assms
proof (induction base n rule: printBase.induct)
  case (1 base n)
  show ?case
  proof (cases "n < base")
    case True
    then show ?thesis using 1 by (subst printBase.simps) auto
  next
    case False
    then have "n div base \<noteq> 0" using 1 by (simp add: div_eq_0_iff)
    then have "\<exists>d<base. d \<noteq> 0 \<and> str_at (printBase base (n div base)) 0 = digitChar d" using 1 False by auto
    moreover have "str_at (printBase base (n div base) @ [digitChar (n mod base)]) 0 = str_at (printBase base (n div base)) 0"
      by (simp add: str_at_def nth_append)
    ultimately show ?thesis using False 1 by (subst printBase.simps) simp
  qed
qed

lemma str_at_in_set: "i < length s \<Longrightarrow> str_at s i \<in> set s"
  by (simp add: str_at_def)

lemma strtoll_printBase:
  assumes "2 \<le> base" "base \<le> 16"
  shows "strtoll base (printBase base n) = Some (int n)"
proof -
  let ?s = "printBase base n"
  have dig: "\<exists>d<16. c = digitChar d \<and> d < base" if "c \<in> set ?s" for c
    using printBase_digits [OF assms(1) that] assms(2) less_le_trans by blast
  have notSpace: "\<not> isSpace c" "digitValue c < base" "c \<noteq> CHR ''-''" "c \<noteq> CHR ''+''" "c \<noteq> CHR ''x''" "c \<noteq> CHR ''X''"
    if "c \<in> set ?s" for c
    using dig [OF that] digitChar_no_sign digitValue_digitChar by fastforce+
  have first: "str_at ?s 0 \<in> set ?s" by (simp add: str_at_in_set)
  have drop: "dropWhile isSpace ?s = ?s"
    by (cases ?s) (use notSpace(1) in auto)
  have second: "str_at ?s 1 \<noteq> CHR ''x''" "str_at ?s 1 \<noteq> CHR ''X''"
    using notSpace(5,6) [OF str_at_in_set [of 1 ?s]] by (auto simp: str_at_def)
  have all: "takeWhile (\<lambda>c. digitValue c < base) ?s = ?s"
    using notSpace(2) by (simp add: takeWhile_eq_all_conv)
  show ?thesis
    using notSpace(3,4) [OF first] second assms digitsValue_printBase [of base n]
    by (simp add: strtoll_def drop Let_def all)
qed

section \<open>Numbers survive\<close>

lemma size_between_0 [simp]: "size_between 0 n = n"
  by (simp add: size_between_def)

lemma substr_all [simp]: "substr s 0 (length s) = s"
  by (simp add: substr_def)

lemma ato_to_string: "ato (to_string n) = int n"
  by (simp add: ato_def to_string_def strtoll_printBase)

lemma to_string_0: "to_string 0 = ''0''"
  by code_simp

lemma to_string_not_0: "n \<noteq> 0 \<Longrightarrow> str_at (to_string n) 0 \<noteq> CHR ''0''"
  using printBase_first [of 10 n] digitChar_no_sign(7) by (fastforce simp: to_string_def)

lemma to_string_length: "n < 10 ^ k \<Longrightarrow> 0 < k \<Longrightarrow> length (to_string n) \<le> k"
  by (simp add: to_string_def printBase_length)

lemma to_string_word:
  fixes n :: "'a::len word"
  assumes "n \<noteq> 0"
  shows "str_at (to_string (unat n)) 0 \<noteq> CHR ''0''" "of_int (ato (to_string (unat n))) = n"
proof -
  have "unat n \<noteq> 0" using assms unsigned_eq_0_iff by blast
  then show "str_at (to_string (unat n)) 0 \<noteq> CHR ''0''" by (rule to_string_not_0)
qed (simp add: ato_to_string)

lemma to_string_size:
  fixes n :: "'a::len word"
  shows "2 ^ LENGTH('a) \<le> (10::nat) ^ k \<Longrightarrow> 0 < k \<Longrightarrow> length (to_string (unat n)) \<le> k"
  by (rule to_string_length) (meson less_le_trans unsigned_less)

lemma parseLong_to_string: "parseLong (to_string (unat n)) dest 0 (length (to_string (unat n))) = (True, n)"
proof (cases "n = 0")
  case True
  then show ?thesis by (simp add: to_string_0 parseLong_def str_at_def)
next
  case False
  then show ?thesis
    using to_string_size [of 11 n] to_string_word [of n] by (simp add: parseLong_def hexPrefix_def word_gt_0 Let_def)
qed

lemma parseShort_to_string: "parseShort (to_string (unat n)) dest 0 (length (to_string (unat n))) = (True, n)"
proof (cases "n = 0")
  case True
  then show ?thesis by (simp add: to_string_0 parseShort_def str_at_def)
next
  case False
  then show ?thesis
    using to_string_size [of 6 n] to_string_word [of n] by (simp add: parseShort_def hexPrefix_def word_gt_0 Let_def)
qed

lemma parseByte_to_string: "parseByte (to_string (unat n)) dest 0 (length (to_string (unat n))) = (True, n)"
proof (cases "n = 0")
  case True
  then show ?thesis by (simp add: to_string_0 parseByte_def str_at_def)
next
  case False
  then show ?thesis
    using to_string_size [of 4 n] to_string_word [of n] by (simp add: parseByte_def hexPrefix_def word_gt_0 Let_def)
qed

lemma parseLong_hex: "parseLong (to_hex_string (unat n)) dest 0 (length (to_hex_string (unat n))) = (True, n)"
proof -
  have "unat n < 2 ^ LENGTH(32)" by (rule unsigned_less)
  then have "unat n < 16 ^ 9" by simp
  then have "length (printBase 16 (unat n)) \<le> 9" by (intro printBase_length) auto
  moreover have "length (printBase 16 (unat n)) \<noteq> 0" by simp
  ultimately show ?thesis
    using strtoll_printBase [of 16 "unat n"]
    by (simp add: parseLong_def hexPrefix_def to_hex_string_def Let_def substr_def numeral_2_eq_2 strtoll_printBase)
qed

section \<open>Words fit their array or not\<close>

lemma copyUpperCaseNoSpace_loop_spec:
  "i + length (List.filter (\<lambda>c. c \<noteq> CHR '' '') src) \<le> length dest \<Longrightarrow>
   copyUpperCaseNoSpace_loop dest src i =
     Inr (take i dest @ map upperChar (List.filter (\<lambda>c. c \<noteq> CHR '' '') src) @
          drop (i + length (List.filter (\<lambda>c. c \<noteq> CHR '' '') src)) dest)"
proof (induction src arbitrary: i dest)
  case (Cons c src)
  have sp: "\<not> isLower (CHR '' '')" by (simp add: isLower_def byte_def)
  show ?case
    by (cases "c = CHR '' ''") (use Cons in \<open>auto simp: sp take_Suc_conv_app_nth upd_conv_take_nth_drop add_ac\<close>)
qed simp

lemma copyUpperCaseNoSpace_spec:
  assumes "length source < N"
  shows "copyUpperCaseNoSpace (replicate N NUL) source =
    Inr (map upperChar (List.filter (\<lambda>c. c \<noteq> CHR '' '') source) @
         replicate (N - length (List.filter (\<lambda>c. c \<noteq> CHR '' '') source)) NUL)"
proof -
  let ?w = "map upperChar (List.filter (\<lambda>c. c \<noteq> CHR '' '') source)"
  have le: "length (List.filter (\<lambda>c. c \<noteq> CHR '' '') source) \<le> length source" by simp
  have "copyUpperCaseNoSpace_loop (replicate N NUL) source 0 = Inr (?w @ replicate (N - length ?w) NUL)"
    using assms le by (subst copyUpperCaseNoSpace_loop_spec) (auto simp del: length_filter_le)
  moreover have "(?w @ replicate (N - length ?w) NUL)[length source := NUL] = ?w @ replicate (N - length ?w) NUL"
    using assms le by (simp add: list_update_append nth_replicate list_update_same_conv del: length_filter_le)
  ultimately show ?thesis
    using assms le by (simp add: copyUpperCaseNoSpace_def)
qed

lemma copyUpperCaseNoSpace_loop_length:
  "copyUpperCaseNoSpace_loop dest src i = Inr dest' \<Longrightarrow> length dest' = length dest"
  by (induction dest src i rule: copyUpperCaseNoSpace_loop.induct) (auto split: if_splits)

lemma copyUpperCaseNoSpace_overflow:
  "N \<le> length source \<Longrightarrow> copyUpperCaseNoSpace (replicate N NUL) source = Inl UndefinedBehavior"
proof -
  assume len: "N \<le> length source"
  have ub: "copyUpperCaseNoSpace_loop dest src i = Inl e \<Longrightarrow> e = UndefinedBehavior" for dest src i e
    by (induction dest src i rule: copyUpperCaseNoSpace_loop.induct) (auto split: if_splits)
  show ?thesis
    using len ub copyUpperCaseNoSpace_loop_length [of "replicate N NUL" source 0]
    by (cases "copyUpperCaseNoSpace_loop (replicate N NUL) source 0") (auto simp: copyUpperCaseNoSpace_def)
qed

section \<open>When cleaning a text ends\<close>

text \<open>The position after the element at \<open>pos\<close>: a character, a line ending, a comment or a string, \<open>None\<close> for a string that no quote closes.\<close>

definition afterElement :: "string \<Rightarrow> nat \<Rightarrow> nat option" where
  "afterElement str pos =
    (if str ! pos = CR \<and> str_at str (pos + 1) = LF then Some (pos + 2)
     else if str ! pos = CHR ''/'' \<and> str_at str (pos + 1) = CHR ''/'' then Some (commentEnd str (pos + 1))
     else if str ! pos = QUOTE then map_option Suc (findStringEnd str (pos + 1))
     else Some (pos + 1))"

lemma str_find_bounds: "str_find c str pos = Some q \<Longrightarrow> pos \<le> q \<and> q < length str \<and> str ! q = c"
  by (auto simp: str_find_def dest: find_index_Some)

lemma commentEnd_ge: "pos \<le> length str \<Longrightarrow> pos \<le> commentEnd str pos"
  by (auto simp: commentEnd_def dest: str_find_bounds split: option.splits)

lemma findStringEnd_ge: "findStringEnd str pos = Some q \<Longrightarrow> pos \<le> q \<and> q < length str"
proof (induction str pos rule: findStringEnd.induct)
  case (1 str pos)
  then show ?case
    by (subst (asm) (2) findStringEnd.simps) (auto split: if_splits option.splits dest!: str_find_bounds)
qed

lemma afterElement_greater: "pos < length str \<Longrightarrow> afterElement str pos = Some q \<Longrightarrow> pos < q"
  using commentEnd_ge [of "pos + 1" str] findStringEnd_ge [of str "pos + 1"]
  by (fastforce simp: afterElement_def split: if_splits)

function quotesClosed :: "string \<Rightarrow> nat \<Rightarrow> bool" where
  "quotesClosed str pos =
    (if pos < length str then
       (case afterElement str pos of None \<Rightarrow> False | Some q \<Rightarrow> quotesClosed str q)
     else True)"
  by auto
termination
  by (relation "measure (\<lambda>(str, pos). length str - pos)") (auto dest: afterElement_greater intro: diff_less_mono2)

declare quotesClosed.simps [simp del]

lemma cleanText_loop_returns: "quotesClosed str pos \<Longrightarrow> \<exists>r. cleanText_loop str pos dest stringContents = Some r"
proof (induction str pos arbitrary: dest stringContents rule: quotesClosed.induct)
  case (1 str pos)
  show ?case
  proof (cases "pos < length str")
    case True
    then obtain q where q: "afterElement str pos = Some q" "quotesClosed str q"
      using 1 by (subst (asm) (2) quotesClosed.simps) (auto split: option.splits)
    have next': "\<exists>r. cleanText_loop str q d sc = Some r" for d sc
      using 1 True q by auto
    show ?thesis
      using True q(1) next' by (subst cleanText_loop.simps) (auto simp: afterElement_def Let_def split: if_splits option.splits)
  next
    case False
    then show ?thesis by (subst cleanText_loop.simps) auto
  qed
qed

lemma cleanText_loop_closed:
  assumes "cleanText_loop str pos dest stringContents = Some r"
  shows "quotesClosed str 0 \<or> quotesClosed str pos"
proof (rule cleanText_loop.raw_induct [of "\<lambda>str pos _ _ _. quotesClosed str 0 \<or> quotesClosed str pos", OF _ assms])
  fix loop str pos dest sc r
  assume IH: "\<And>str pos dest sc r. loop str pos dest sc = Some r \<Longrightarrow> quotesClosed str 0 \<or> quotesClosed str pos"
    and step: "(if pos < length str then
       let character = str ! pos; next = pos + 1 in
       if character = CHR '' '' \<or> character = TAB then loop str next dest sc
       else if character = CR then loop str (if str_at str next = LF then next + 1 else next) (dest @ [LF]) sc
       else if character = LF \<or> character = VT \<or> character = FF then loop str next (dest @ [LF]) sc
       else if character = CHR ''/'' then
         loop str (if str_at str next = CHR ''/'' then commentEnd str next else next) dest sc
       else if character = QUOTE then
         (case findStringEnd str next of
            Some closeQuotePos \<Rightarrow>
              loop str (closeQuotePos + 1) (dest @ [QUOTE, QUOTE])
                (sc @ [convertStr EscString RawString (substr str next (closeQuotePos - next))])
          | None \<Rightarrow> loop str 0 (dest @ [QUOTE, QUOTE]) (sc @ [convertStr EscString RawString (drop next str)]))
       else loop str next (dest @ [upperChar character]) sc
     else Some (dest, sc)) = Some r"
  show "quotesClosed str 0 \<or> quotesClosed str pos"
  proof (cases "pos < length str")
    case True
    have "quotesClosed str pos \<longleftrightarrow> (case afterElement str pos of None \<Rightarrow> False | Some q \<Rightarrow> quotesClosed str q)"
      using True by (subst quotesClosed.simps) simp
    then show ?thesis
      using step True
      by (auto simp: afterElement_def Let_def dest: IH split: if_splits option.splits)
  next
    case False
    then show ?thesis by (simp add: quotesClosed.simps [of str pos])
  qed
qed

lemma cleanText_open: "\<not> quotesClosed str 0 \<Longrightarrow> cleanText str = None"
  using cleanText_loop_closed unfolding cleanText_def by (metis not_Some_eq)

section \<open>Where a quoted string ends\<close>

definition quoteAt :: "string \<Rightarrow> nat \<Rightarrow> bool" where
  "quoteAt str i \<longleftrightarrow> str ! i = QUOTE \<and> \<not> (0 < i \<and> str ! (i - 1) = BSL)"

lemma findStringEnd_Some:
  assumes "pos \<le> q" "q < length str" "quoteAt str q" "\<And>i. pos \<le> i \<Longrightarrow> i < q \<Longrightarrow> \<not> quoteAt str i"
  shows "findStringEnd str pos = Some q"
  using assms
proof (induction str pos rule: findStringEnd.induct)
  case (1 str pos)
  obtain n where n: "str_find QUOTE str pos = Some n"
    using 1(2,3,4) by (cases "str_find QUOTE str pos") (auto simp: str_find_def find_index_None quoteAt_def)
  have le: "n \<le> q" using n 1(2,4) find_index_least [of _ pos "length str" n q] by (fastforce simp: str_find_def quoteAt_def)
  have b: "pos \<le> n" "n < length str" "str ! n = QUOTE" using str_find_bounds [OF n] by auto
  show ?case
  proof (cases "n = q")
    case True
    then show ?thesis using n b 1(4) by (subst findStringEnd.simps) (auto simp: quoteAt_def)
  next
    case False
    then have "0 < n \<and> str ! (n - 1) = BSL" using b le 1(5) [of n] by (auto simp: quoteAt_def)
    then show ?thesis using n b 1 False le by (subst findStringEnd.simps) auto
  qed
qed

lemma findStringEnd_None:
  assumes "\<And>i. pos \<le> i \<Longrightarrow> i < length str \<Longrightarrow> \<not> quoteAt str i"
  shows "findStringEnd str pos = None"
  using assms
proof (induction str pos rule: findStringEnd.induct)
  case (1 str pos)
  show ?case
  proof (cases "str_find QUOTE str pos")
    case None
    then show ?thesis by (subst findStringEnd.simps) auto
  next
    case (Some n)
    then have b: "pos \<le> n" "n < length str" "str ! n = QUOTE" using str_find_bounds by auto
    then have "0 < n \<and> str ! (n - 1) = BSL" using 1(2) [of n] by (auto simp: quoteAt_def)
    then show ?thesis using Some b 1 by (subst findStringEnd.simps) auto
  qed
qed

section \<open>Quotes in an escaped string\<close>

definition quotesEscaped :: "string \<Rightarrow> bool" where
  "quotesEscaped s \<longleftrightarrow> (\<forall>i<length s. \<not> quoteAt s i)"

lemma quoteAt_append_left: "i < length s \<Longrightarrow> quoteAt (s @ t) i = quoteAt s i"
  by (auto simp: quoteAt_def nth_append)

lemma quoteAt_append_right: "quoteAt (s @ t) (length s + j) \<Longrightarrow> quoteAt t j"
  by (cases j) (auto simp: quoteAt_def nth_append)

lemma quotesEscaped_append:
  assumes "quotesEscaped s" "quotesEscaped t"
  shows "quotesEscaped (s @ t)"
  unfolding quotesEscaped_def
proof (intro allI impI)
  fix i assume i: "i < length (s @ t)"
  show "\<not> quoteAt (s @ t) i"
  proof (cases "i < length s")
    case True
    then show ?thesis using assms(1) by (simp add: quotesEscaped_def quoteAt_append_left)
  next
    case False
    then obtain j where "i = length s + j" by (metis add_diff_inverse_nat)
    then show ?thesis using i assms(2) quoteAt_append_right [of s t j] by (auto simp: quotesEscaped_def)
  qed
qed

lemma hexDigits_no_quote: "x \<in> set (hexDigits c) \<Longrightarrow> c < 256 \<Longrightarrow> x \<noteq> QUOTE \<and> x \<noteq> BSL"
proof -
  assume x: "x \<in> set (hexDigits c)" and c: "c < 256"
  have "byte x \<in> {48..57} \<union> {65..70}"
    using x c by (auto simp: hexDigits_def split: if_splits)
  then show ?thesis by (auto simp: byte_def)
qed

lemma makeEscStr_step_quotes: "quotesEscaped (makeEscStr_step raw i)"
  using hexDigits_no_quote [of _ "byte (str_at raw i)"]
  by (auto simp: quotesEscaped_def quoteAt_def makeEscStr_step_def Let_def nth_Cons split: nat.splits if_splits dest!: nth_mem)

lemma makeEscStr_quotes: "quotesEscaped (makeEscStr raw n)"
proof -
  have "quotesEscaped (concat (map (makeEscStr_step raw) ks))" for ks
    by (induction ks) (auto simp: quotesEscaped_append makeEscStr_step_quotes, simp add: quotesEscaped_def)
  then show ?thesis by (simp add: makeEscStr_def)
qed

lemma makeEscStr_step_last: "makeEscStr_step raw i \<noteq> [] \<and> (last (makeEscStr_step raw i) = BSL \<longleftrightarrow> str_at raw i = BSL)"
proof -
  have "last (hexDigits (byte (str_at raw i))) \<noteq> BSL"
    using hexDigits_no_quote [of "last (hexDigits (byte (str_at raw i)))" "byte (str_at raw i)"] hexDigits_two
    by (metis byte_less last_in_set list.distinct(1))
  then show ?thesis
    using hexDigits_two [of "byte (str_at raw i)"] by (auto simp: makeEscStr_step_def Let_def)
qed

lemma makeEscStr_last:
  assumes "r \<noteq> []"
  shows "makeEscStr r (length r) \<noteq> [] \<and> (last (makeEscStr r (length r)) = BSL \<longleftrightarrow> last r = BSL)"
proof -
  obtain n where n: "length r = Suc n" using assms by (cases r) auto
  then have "last r = str_at r n" by (simp add: last_conv_nth assms str_at_def)
  then show ?thesis
    using n makeEscStr_step_last [of r n] by (simp add: makeEscStr_def)
qed

lemma findStringEnd_quoted:
  assumes "quotesEscaped esc"
  shows "findStringEnd (QUOTE # esc @ [QUOTE]) 1 = (if esc \<noteq> [] \<and> last esc = BSL then None else Some (length esc + 1))"
proof -
  let ?str = "QUOTE # esc @ [QUOTE]"
  have inner: "\<not> quoteAt ?str i" if "1 \<le> i" "i < length esc + 1" for i
  proof -
    obtain j where j: "i = length [QUOTE] + j" "j < length esc" using \<open>1 \<le> i\<close> \<open>i < length esc + 1\<close> by (cases i) auto
    have "\<not> quoteAt (esc @ [QUOTE]) j"
      using assms j by (simp add: quotesEscaped_def quoteAt_append_left)
    then show ?thesis using quoteAt_append_right [of "[QUOTE]" "esc @ [QUOTE]" j] j by auto
  qed
  have end': "quoteAt ?str (length esc + 1) \<longleftrightarrow> \<not> (esc \<noteq> [] \<and> last esc = BSL)"
    by (cases esc rule: rev_cases) (auto simp: quoteAt_def nth_append)
  show ?thesis
  proof (cases "esc \<noteq> [] \<and> last esc = BSL")
    case True
    have "findStringEnd ?str 1 = None"
    proof (rule findStringEnd_None)
      fix i assume "1 \<le> i" "i < length ?str"
      then show "\<not> quoteAt ?str i" using inner [of i] end' True by (cases "i = length esc + 1") auto
    qed
    then show ?thesis using True by simp
  next
    case False
    then have "findStringEnd ?str 1 = Some (length esc + 1)"
      using inner end' by (intro findStringEnd_Some) auto
    then show ?thesis using False by auto
  qed
qed

section \<open>Claims\<close>

text \<open>
  C17. Cleaning a text ends exactly when a quote closes every string that starts in it (outside of comments and strings). With a string left open
  the loop starts over from the beginning of the text, again and again, and the compiler hangs.
\<close>

theorem cleanText_returns_iff: "(\<exists>r. cleanText str = Some r) \<longleftrightarrow> quotesClosed str 0"
  using cleanText_loop_returns cleanText_loop_closed unfolding cleanText_def by blast

lemma cleanText_quoted_string:
  assumes "NUL \<notin> set r"
  shows "cleanText (QUOTE # fromRaw EscString r @ [QUOTE]) =
    (if r \<noteq> [] \<and> last r = BSL then None else Some ([QUOTE, QUOTE], [r]))"
proof -
  let ?esc = "makeEscStr r (length r)"
  let ?str = "QUOTE # ?esc @ [QUOTE]"
  have ends: "?esc \<noteq> [] \<and> last ?esc = BSL \<longleftrightarrow> r \<noteq> [] \<and> last r = BSL"
    using makeEscStr_last [of r] by (cases "r = []") (auto simp: makeEscStr_def)
  have find: "findStringEnd ?str 1 = (if r \<noteq> [] \<and> last r = BSL then None else Some (length ?esc + 1))"
    using findStringEnd_quoted [OF makeEscStr_quotes] ends by auto
  have raw: "convertStr EscString RawString ?esc = r"
    using toRaw_fromRaw [OF assms, of EscString] by (simp add: convertStr_def fromRaw_def)
  show ?thesis
  proof (cases "r \<noteq> [] \<and> last r = BSL")
    case True
    then have "\<not> quotesClosed ?str 0" using find by (simp add: quotesClosed.simps [of _ 0] afterElement_def)
    then have "cleanText ?str = None" by (rule cleanText_open)
    then show ?thesis using True by (simp add: fromRaw_def)
  next
    case False
    then have find': "findStringEnd ?str (0 + 1) = Some (length ?esc + 1)" using find by auto
    have sub: "substr ?str (0 + 1) (length ?esc + 1 - (0 + 1)) = ?esc" by (simp add: substr_def)
    have "cleanText_loop ?str 0 [] [] = cleanText_loop ?str (length ?esc + 1 + 1) [QUOTE, QUOTE] [r]"
      by (subst cleanText_loop.simps) (simp only: Let_def find' sub raw option.case, simp)
    also have "\<dots> = Some ([QUOTE, QUOTE], [r])"
      by (subst cleanText_loop.simps) simp
    finally have "cleanText ?str = Some ([QUOTE, QUOTE], [r])" by (simp add: cleanText_def)
    then show ?thesis using False by (auto simp: fromRaw_def)
  qed
qed



end
