(* ===== verification/TrigArgs.thy ===== *)
theory TrigArgs
  imports Triggers
begin

text \<open>
  The arguments of conditions and actions (\<open>src/MappingCoreLib/Chk.cpp\<close>): which arguments a condition or an action of a type has, in the
  order of the classic editor and in the order of text triggers, in which field each is stored, and the default
  flags. The virtual types (-1 and -2) are those of the text: a custom condition or action, and one on memory.
\<close>

unbundle bit_operations_syntax

definition Condition_MaxArguments :: nat where "Condition_MaxArguments = 9"
definition Action_MaxArguments :: nat where "Action_MaxArguments = 11"

definition UnitTypeUsed :: u8 where "UnitTypeUsed = 0x10"
definition UnitPropertiesUsed :: u8 where "UnitPropertiesUsed = 0x08"
definition AlwaysDisplay :: u8 where "AlwaysDisplay = 0x04"
definition xAlwaysDisplay :: u8 where "xAlwaysDisplay = 0xFB"

section \<open>Conditions\<close>

datatype Condition_ArgType = Cnd_NoType | Cnd_Unit | Cnd_Location | Cnd_Player | Cnd_Amount | Cnd_NumericComparison |
  Cnd_ResourceType | Cnd_ScoreType | Cnd_Switch | Cnd_SwitchState | Cnd_Comparison | Cnd_ConditionType | Cnd_TypeIndex |
  Cnd_Flags | Cnd_MaskFlag | Cnd_MemoryOffset

datatype Condition_ArgField = CndF_LocationId | CndF_Player | CndF_Amount | CndF_UnitType | CndF_Comparison |
  CndF_ConditionType | CndF_TypeIndex | CndF_Flags | CndF_MaskFlag | CndF_NoField

type_synonym Condition_Argument = "Condition_ArgType \<times> Condition_ArgField"

definition Condition_noArg :: Condition_Argument where "Condition_noArg = (Cnd_NoType, CndF_NoField)"

definition amountCndArg :: Condition_Argument where "amountCndArg = (Cnd_Amount, CndF_Amount)"

definition numericComparisonCndArg :: Condition_Argument where "numericComparisonCndArg = (Cnd_NumericComparison, CndF_Comparison)"

definition switchStateCndArg :: Condition_Argument where "switchStateCndArg = (Cnd_SwitchState, CndF_Comparison)"

definition resourceCndArg :: Condition_Argument where "resourceCndArg = (Cnd_ResourceType, CndF_TypeIndex)"

definition scoreCndArg :: Condition_Argument where "scoreCndArg = (Cnd_ScoreType, CndF_TypeIndex)"

definition switchCndArg :: Condition_Argument where "switchCndArg = (Cnd_Switch, CndF_TypeIndex)"

definition playerCndArg :: Condition_Argument where "playerCndArg = (Cnd_Player, CndF_Player)"

definition unitCndArg :: Condition_Argument where "unitCndArg = (Cnd_Unit, CndF_UnitType)"

definition locationCndArg :: Condition_Argument where "locationCndArg = (Cnd_Location, CndF_LocationId)"

definition comparisonCndArg :: Condition_Argument where "comparisonCndArg = (Cnd_Comparison, CndF_Comparison)"

definition conditionTypeCndArg :: Condition_Argument where "conditionTypeCndArg = (Cnd_ConditionType, CndF_ConditionType)"

definition typeIndexCndArg :: Condition_Argument where "typeIndexCndArg = (Cnd_TypeIndex, CndF_TypeIndex)"

definition flagsCndArg :: Condition_Argument where "flagsCndArg = (Cnd_Flags, CndF_Flags)"

definition maskFlagCndArg :: Condition_Argument where "maskFlagCndArg = (Cnd_MaskFlag, CndF_MaskFlag)"

definition memoryOffsetCndArg :: Condition_Argument where "memoryOffsetCndArg = (Cnd_MemoryOffset, CndF_Player)"

definition Condition_classicArguments :: "Condition_Argument list list" where
  "Condition_classicArguments = [
    [],
    [numericComparisonCndArg, amountCndArg],
    [playerCndArg, numericComparisonCndArg, amountCndArg, unitCndArg],
    [playerCndArg, numericComparisonCndArg, amountCndArg, unitCndArg, locationCndArg],
    [playerCndArg, numericComparisonCndArg, amountCndArg, resourceCndArg],
    [playerCndArg, numericComparisonCndArg, amountCndArg, unitCndArg],
    [unitCndArg],
    [unitCndArg, locationCndArg],
    [unitCndArg],
    [scoreCndArg],
    [resourceCndArg],
    [switchCndArg, switchStateCndArg],
    [numericComparisonCndArg, amountCndArg],
    [],
    [playerCndArg, numericComparisonCndArg, amountCndArg],
    [playerCndArg, numericComparisonCndArg, amountCndArg, unitCndArg],
    [unitCndArg],
    [unitCndArg, locationCndArg],
    [unitCndArg],
    [scoreCndArg],
    [resourceCndArg],
    [playerCndArg, scoreCndArg, numericComparisonCndArg, amountCndArg],
    [],
    []]"

definition Condition_textArguments :: "Condition_Argument list list" where
  "Condition_textArguments = [
    [],
    [numericComparisonCndArg, amountCndArg],
    [playerCndArg, unitCndArg, numericComparisonCndArg, amountCndArg],
    [playerCndArg, unitCndArg, locationCndArg, numericComparisonCndArg, amountCndArg],
    [playerCndArg, numericComparisonCndArg, amountCndArg, resourceCndArg],
    [playerCndArg, unitCndArg, numericComparisonCndArg, amountCndArg],
    [unitCndArg],
    [unitCndArg, locationCndArg],
    [unitCndArg],
    [scoreCndArg],
    [resourceCndArg],
    [switchCndArg, switchStateCndArg],
    [numericComparisonCndArg, amountCndArg],
    [],
    [playerCndArg, numericComparisonCndArg, amountCndArg],
    [playerCndArg, unitCndArg, numericComparisonCndArg, amountCndArg],
    [unitCndArg],
    [unitCndArg, locationCndArg],
    [unitCndArg],
    [scoreCndArg],
    [resourceCndArg],
    [playerCndArg, scoreCndArg, numericComparisonCndArg, amountCndArg],
    [],
    []]"

definition Condition_defaultFlags :: "u8 list" where
  "Condition_defaultFlags = [
    0, 0, UnitTypeUsed, UnitTypeUsed, 0, UnitTypeUsed, UnitTypeUsed, UnitTypeUsed, UnitTypeUsed, 0, 0, 0, 0, 0, 0,
    UnitTypeUsed, UnitTypeUsed, UnitTypeUsed, UnitTypeUsed, 0, 0, 0, 0, 0]"

text \<open>
  The virtual types: a custom condition, with every field as an argument, and the condition on a memory address,
  which is one on deaths.
\<close>

definition Condition_virtualArguments :: "(int \<times> Condition_Argument list) list" where
  "Condition_virtualArguments = [
    (- 1, [locationCndArg, playerCndArg, amountCndArg, unitCndArg, comparisonCndArg, conditionTypeCndArg, typeIndexCndArg, flagsCndArg,
      maskFlagCndArg]),
    (- 2, [memoryOffsetCndArg, numericComparisonCndArg, amountCndArg])]"

text \<open>A row of the tables is filled up with zeros, the argument of no type.\<close>

definition Condition_rowArg :: "Condition_Argument list \<Rightarrow> nat \<Rightarrow> Condition_Argument" where
  "Condition_rowArg row argIndex = (if argIndex < length row then row ! argIndex else (Cnd_NoType, CndF_LocationId))"

definition Condition_virtualArg :: "Condition_Argument list list \<Rightarrow> int \<Rightarrow> nat \<Rightarrow> Condition_Argument" where
  "Condition_virtualArg table type argIndex =
    (if argIndex < Condition_MaxArguments then
       if 0 \<le> type \<and> type < 24 then Condition_rowArg (table ! nat type) argIndex
       else (case map_of Condition_virtualArguments type of Some row \<Rightarrow> Condition_rowArg row argIndex | None \<Rightarrow> Condition_noArg)
     else Condition_noArg)"

definition Condition_typeArg :: "Condition_Argument list list \<Rightarrow> u8 \<Rightarrow> nat \<Rightarrow> Condition_Argument" where
  "Condition_typeArg table type argIndex =
    (if type < NumConditionTypes \<and> argIndex < Condition_MaxArguments then Condition_rowArg (table ! unat type) argIndex else Condition_noArg)"

definition Condition_getClassicArg :: "u8 \<Rightarrow> nat \<Rightarrow> Condition_Argument" where
  "Condition_getClassicArg = Condition_typeArg Condition_classicArguments"

definition Condition_getClassicArgType :: "u8 \<Rightarrow> nat \<Rightarrow> Condition_ArgType" where
  "Condition_getClassicArgType type argIndex =
    (if type < NumConditionTypes \<and> argIndex < Condition_MaxArguments then fst (Condition_rowArg (Condition_classicArguments ! unat type) argIndex) else Cnd_NoType)"

definition Condition_getTextArg :: "int \<Rightarrow> nat \<Rightarrow> Condition_Argument" where
  "Condition_getTextArg = Condition_virtualArg Condition_textArguments"

definition Condition_getTextArgType :: "int \<Rightarrow> nat \<Rightarrow> Condition_ArgType" where
  "Condition_getTextArgType type argIndex =
    (if argIndex < Condition_MaxArguments then
       if 0 \<le> type \<and> type < 24 then fst (Condition_rowArg (Condition_textArguments ! nat type) argIndex)
       else (case map_of Condition_virtualArguments type of Some row \<Rightarrow> fst (Condition_rowArg row argIndex) | None \<Rightarrow> Cnd_NoType)
     else Cnd_NoType)"

text \<open>The default flags; a virtual type has those of its base type.\<close>

definition Condition_typeFlags :: "u8 \<Rightarrow> u8" where
  "Condition_typeFlags type = (if type < NumConditionTypes then Condition_defaultFlags ! unat type else 0)"

definition Condition_getDefaultFlags :: "int \<Rightarrow> u8" where
  "Condition_getDefaultFlags type =
    (if type < 0 then if type = - 2 then Condition_defaultFlags ! 15 else 0 else Condition_typeFlags (of_int type))"

section \<open>Actions\<close>

datatype Action_ArgType = Act_NoType | Act_Location | Act_String | Act_Player | Act_Unit | Act_NumUnits | Act_CUWP |
  Act_TextFlags | Act_Amount | Act_ScoreType | Act_ResourceType | Act_StateMod | Act_Percent | Act_Order | Act_Sound |
  Act_Duration | Act_Script | Act_AllyState | Act_NumericMod | Act_Switch | Act_SwitchMod | Act_ActionType | Act_Flags |
  Act_Number | Act_TypeIndex | Act_SecondaryTypeIndex | Act_Padding | Act_MaskFlag | Act_MemoryOffset

datatype Action_ArgField = ActF_LocationId | ActF_StringId | ActF_SoundStringId | ActF_Time | ActF_Group | ActF_Number |
  ActF_Type | ActF_ActionType | ActF_Type2 | ActF_Flags | ActF_Padding | ActF_MaskFlag | ActF_NoField

type_synonym Action_Argument = "Action_ArgType \<times> Action_ArgField"

definition Action_noArg :: Action_Argument where "Action_noArg = (Act_NoType, ActF_NoField)"

definition amountArg :: Action_Argument where "amountArg = (Act_Amount, ActF_Number)"

definition percentArg :: Action_Argument where "percentArg = (Act_Percent, ActF_Number)"

definition durationArg :: Action_Argument where "durationArg = (Act_Duration, ActF_Time)"

definition numUnitsArg :: Action_Argument where "numUnitsArg = (Act_NumUnits, ActF_Type2)"

definition unitQuantityArg :: Action_Argument where "unitQuantityArg = (Act_Amount, ActF_Type2)"

definition numericModArg :: Action_Argument where "numericModArg = (Act_NumericMod, ActF_Type2)"

definition switchModArg :: Action_Argument where "switchModArg = (Act_SwitchMod, ActF_Type2)"

definition stateModArg :: Action_Argument where "stateModArg = (Act_StateMod, ActF_Type2)"

definition allyStateArg :: Action_Argument where "allyStateArg = (Act_AllyState, ActF_Type)"

definition scoreArg :: Action_Argument where "scoreArg = (Act_ScoreType, ActF_Type)"

definition resourceArg :: Action_Argument where "resourceArg = (Act_ResourceType, ActF_Type)"

definition scriptArg :: Action_Argument where "scriptArg = (Act_Script, ActF_Number)"

definition textFlagsArg :: Action_Argument where "textFlagsArg = (Act_TextFlags, ActF_Flags)"

definition orderArg :: Action_Argument where "orderArg = (Act_Order, ActF_Type2)"

definition unitArg :: Action_Argument where "unitArg = (Act_Unit, ActF_Type)"

definition locationArg :: Action_Argument where "locationArg = (Act_Location, ActF_LocationId)"

definition playerArg :: Action_Argument where "playerArg = (Act_Player, ActF_Group)"

definition destPlayerArg :: Action_Argument where "destPlayerArg = (Act_Player, ActF_Number)"

definition secondaryLocationArg :: Action_Argument where "secondaryLocationArg = (Act_Location, ActF_Number)"

definition cuwpArg :: Action_Argument where "cuwpArg = (Act_CUWP, ActF_Number)"

definition switchArg :: Action_Argument where "switchArg = (Act_Switch, ActF_Number)"

definition stringArg :: Action_Argument where "stringArg = (Act_String, ActF_StringId)"

definition soundArg :: Action_Argument where "soundArg = (Act_Sound, ActF_SoundStringId)"

definition memoryOffsetArg :: Action_Argument where "memoryOffsetArg = (Act_MemoryOffset, ActF_Group)"

definition numberArg :: Action_Argument where "numberArg = (Act_Number, ActF_Number)"

definition typeIndexArg :: Action_Argument where "typeIndexArg = (Act_TypeIndex, ActF_Type)"

definition actionTypeArg :: Action_Argument where "actionTypeArg = (Act_ActionType, ActF_ActionType)"

definition secondaryTypeIndexArg :: Action_Argument where "secondaryTypeIndexArg = (Act_SecondaryTypeIndex, ActF_Type2)"

definition flagsArg :: Action_Argument where "flagsArg = (Act_Flags, ActF_Flags)"

definition paddingArg :: Action_Argument where "paddingArg = (Act_Padding, ActF_Padding)"

definition maskFlagArg :: Action_Argument where "maskFlagArg = (Act_MaskFlag, ActF_MaskFlag)"

definition briefingSlotArg :: Action_Argument where "briefingSlotArg = (Act_Amount, ActF_Group)"

definition Action_classicArguments :: "Action_Argument list list" where
  "Action_classicArguments = [
    [],
    [],
    [],
    [],
    [durationArg],
    [],
    [],
    [unitArg, locationArg, soundArg, numericModArg, amountArg, stringArg],
    [soundArg],
    [stringArg],
    [locationArg],
    [unitQuantityArg, unitArg, locationArg, playerArg, cuwpArg],
    [stringArg],
    [switchModArg, switchArg],
    [numericModArg, durationArg],
    [scriptArg],
    [scriptArg, locationArg],
    [unitArg, stringArg],
    [unitArg, locationArg, stringArg],
    [resourceArg, stringArg],
    [unitArg, stringArg],
    [scoreArg, stringArg],
    [unitArg, playerArg],
    [numUnitsArg, unitArg, playerArg, locationArg],
    [unitArg, playerArg],
    [numUnitsArg, unitArg, playerArg, locationArg],
    [playerArg, numericModArg, amountArg, resourceArg],
    [playerArg, numericModArg, amountArg, scoreArg],
    [locationArg],
    [unitArg, durationArg],
    [],
    [],
    [stateModArg],
    [amountArg, unitArg, stringArg],
    [amountArg, unitArg, locationArg, stringArg],
    [amountArg, resourceArg, stringArg],
    [amountArg, unitArg, stringArg],
    [amountArg, scoreArg, stringArg],
    [secondaryLocationArg, unitArg, playerArg, locationArg],
    [numUnitsArg, unitArg, playerArg, locationArg, secondaryLocationArg],
    [amountArg],
    [stringArg],
    [stateModArg, unitArg, playerArg, locationArg],
    [stateModArg, unitArg, playerArg, locationArg],
    [unitQuantityArg, unitArg, locationArg, playerArg],
    [playerArg, numericModArg, amountArg, unitArg],
    [unitArg, playerArg, locationArg, orderArg, secondaryLocationArg],
    [stringArg],
    [numUnitsArg, unitArg, playerArg, locationArg, destPlayerArg],
    [numUnitsArg, unitArg, playerArg, locationArg, percentArg],
    [numUnitsArg, unitArg, playerArg, locationArg, percentArg],
    [numUnitsArg, unitArg, playerArg, locationArg, percentArg],
    [numUnitsArg, playerArg, locationArg, amountArg],
    [amountArg, numUnitsArg, unitArg, locationArg, playerArg],
    [],
    [],
    [],
    [playerArg, allyStateArg],
    [],
    []]"

definition Action_textArguments :: "Action_Argument list list" where
  "Action_textArguments = [
    [],
    [],
    [],
    [],
    [durationArg],
    [],
    [],
    [textFlagsArg, stringArg, unitArg, locationArg, numericModArg, amountArg, soundArg, durationArg],
    [soundArg, durationArg],
    [textFlagsArg, stringArg],
    [locationArg],
    [playerArg, unitArg, unitQuantityArg, locationArg, cuwpArg],
    [stringArg],
    [switchArg, switchModArg],
    [numericModArg, durationArg],
    [scriptArg],
    [scriptArg, locationArg],
    [stringArg, unitArg],
    [stringArg, unitArg, locationArg],
    [stringArg, resourceArg],
    [stringArg, unitArg],
    [stringArg, scoreArg],
    [playerArg, unitArg],
    [playerArg, unitArg, numUnitsArg, locationArg],
    [playerArg, unitArg],
    [playerArg, unitArg, numUnitsArg, locationArg],
    [playerArg, numericModArg, amountArg, resourceArg],
    [playerArg, numericModArg, amountArg, scoreArg],
    [locationArg],
    [unitArg, durationArg],
    [],
    [],
    [stateModArg],
    [stringArg, unitArg, amountArg],
    [stringArg, unitArg, amountArg, locationArg],
    [stringArg, amountArg, resourceArg],
    [stringArg, unitArg, amountArg],
    [stringArg, scoreArg, amountArg],
    [playerArg, unitArg, locationArg, secondaryLocationArg],
    [playerArg, unitArg, numUnitsArg, locationArg, secondaryLocationArg],
    [amountArg],
    [stringArg],
    [playerArg, unitArg, locationArg, stateModArg],
    [playerArg, unitArg, locationArg, stateModArg],
    [playerArg, unitArg, unitQuantityArg, locationArg],
    [playerArg, unitArg, numericModArg, amountArg],
    [playerArg, unitArg, locationArg, secondaryLocationArg, orderArg],
    [stringArg],
    [playerArg, destPlayerArg, unitArg, numUnitsArg, locationArg],
    [playerArg, unitArg, percentArg, unitQuantityArg, locationArg],
    [playerArg, unitArg, percentArg, unitQuantityArg, locationArg],
    [playerArg, unitArg, percentArg, unitQuantityArg, locationArg],
    [playerArg, amountArg, unitQuantityArg, locationArg],
    [playerArg, unitArg, amountArg, unitQuantityArg, locationArg],
    [],
    [],
    [],
    [playerArg, allyStateArg],
    [],
    []]"

definition Action_defaultFlags :: "u8 list" where
  "Action_defaultFlags = [
    0, AlwaysDisplay, AlwaysDisplay, AlwaysDisplay, AlwaysDisplay, AlwaysDisplay, AlwaysDisplay, UnitTypeUsed OR
    AlwaysDisplay, AlwaysDisplay, AlwaysDisplay, AlwaysDisplay, UnitTypeUsed OR UnitPropertiesUsed OR AlwaysDisplay, 0,
    AlwaysDisplay, AlwaysDisplay, AlwaysDisplay, AlwaysDisplay, UnitTypeUsed, UnitTypeUsed, 0, UnitTypeUsed, 0,
    UnitTypeUsed OR AlwaysDisplay, UnitTypeUsed OR AlwaysDisplay, UnitTypeUsed OR AlwaysDisplay, UnitTypeUsed OR
    AlwaysDisplay, AlwaysDisplay, AlwaysDisplay, AlwaysDisplay, UnitTypeUsed OR AlwaysDisplay, AlwaysDisplay,
    AlwaysDisplay, AlwaysDisplay, UnitTypeUsed, UnitTypeUsed, 0, UnitTypeUsed, 0, UnitTypeUsed OR AlwaysDisplay,
    UnitTypeUsed OR AlwaysDisplay, AlwaysDisplay, AlwaysDisplay, UnitTypeUsed OR AlwaysDisplay, UnitTypeUsed OR
    AlwaysDisplay, UnitTypeUsed OR AlwaysDisplay, UnitTypeUsed OR AlwaysDisplay, UnitTypeUsed OR AlwaysDisplay, 0,
    UnitTypeUsed OR AlwaysDisplay, UnitTypeUsed OR AlwaysDisplay, UnitTypeUsed OR AlwaysDisplay, UnitTypeUsed OR
    AlwaysDisplay, AlwaysDisplay, UnitTypeUsed OR AlwaysDisplay, AlwaysDisplay, AlwaysDisplay, AlwaysDisplay,
    AlwaysDisplay, 0, 0]"

text \<open>
  The virtual types: a custom action, with every field as an argument, and the action on a memory address,
  which is one on deaths.
\<close>

definition Action_virtualArguments :: "(int \<times> Action_Argument list) list" where
  "Action_virtualArguments = [
    (- 1, [locationArg, textFlagsArg, soundArg, durationArg, playerArg, numberArg, actionTypeArg, secondaryTypeIndexArg, flagsArg,
      paddingArg, maskFlagArg]),
    (- 2, [memoryOffsetArg, numericModArg, amountArg])]"

text \<open>A row of the tables is filled up with zeros, the argument of no type.\<close>

definition Action_rowArg :: "Action_Argument list \<Rightarrow> nat \<Rightarrow> Action_Argument" where
  "Action_rowArg row argIndex = (if argIndex < length row then row ! argIndex else (Act_NoType, ActF_LocationId))"

definition Action_virtualArg :: "Action_Argument list list \<Rightarrow> int \<Rightarrow> nat \<Rightarrow> Action_Argument" where
  "Action_virtualArg table type argIndex =
    (if argIndex < Action_MaxArguments then
       if 0 \<le> type \<and> type < 60 then Action_rowArg (table ! nat type) argIndex
       else (case map_of Action_virtualArguments type of Some row \<Rightarrow> Action_rowArg row argIndex | None \<Rightarrow> Action_noArg)
     else Action_noArg)"

definition Action_typeArg :: "Action_Argument list list \<Rightarrow> u8 \<Rightarrow> nat \<Rightarrow> Action_Argument" where
  "Action_typeArg table type argIndex =
    (if type < NumActionTypes \<and> argIndex < Action_MaxArguments then Action_rowArg (table ! unat type) argIndex else Action_noArg)"

definition Action_getClassicArg :: "u8 \<Rightarrow> nat \<Rightarrow> Action_Argument" where
  "Action_getClassicArg = Action_typeArg Action_classicArguments"

definition Action_getClassicArgType :: "u8 \<Rightarrow> nat \<Rightarrow> Action_ArgType" where
  "Action_getClassicArgType type argIndex =
    (if type < NumActionTypes \<and> argIndex < Action_MaxArguments then fst (Action_rowArg (Action_classicArguments ! unat type) argIndex) else Act_NoType)"

definition Action_getTextArg :: "int \<Rightarrow> nat \<Rightarrow> Action_Argument" where
  "Action_getTextArg = Action_virtualArg Action_textArguments"

definition Action_getTextArgType :: "int \<Rightarrow> nat \<Rightarrow> Action_ArgType" where
  "Action_getTextArgType type argIndex =
    (if argIndex < Action_MaxArguments then
       if 0 \<le> type \<and> type < 60 then fst (Action_rowArg (Action_textArguments ! nat type) argIndex)
       else (case map_of Action_virtualArguments type of Some row \<Rightarrow> fst (Action_rowArg row argIndex) | None \<Rightarrow> Act_NoType)
     else Act_NoType)"

text \<open>The default flags; a virtual type has those of its base type.\<close>

definition Action_typeFlags :: "u8 \<Rightarrow> u8" where
  "Action_typeFlags type = (if type < NumActionTypes then Action_defaultFlags ! unat type else 0)"

definition Action_getDefaultFlags :: "int \<Rightarrow> u8" where
  "Action_getDefaultFlags type =
    (if type < 0 then if type = - 2 then Action_defaultFlags ! 45 else 0 else Action_typeFlags (of_int type))"

definition Action_hasStringArgument :: "Action \<Rightarrow> bool" where
  "Action_hasStringArgument a \<longleftrightarrow> (\<exists>i\<in>set [0..<Action_MaxArguments]. Action_getClassicArgType (a_actionType a) i = Act_String)"

definition Action_hasSoundArgument :: "Action \<Rightarrow> bool" where
  "Action_hasSoundArgument a \<longleftrightarrow> (\<exists>i\<in>set [0..<Action_MaxArguments]. Action_getClassicArgType (a_actionType a) i = Act_Sound)"

section \<open>The tables agree\<close>

definition Condition_args :: "u8 \<Rightarrow> Condition_Argument list" where
  "Condition_args type = map (Condition_getClassicArg type) [0..<Condition_MaxArguments]"

definition Action_args :: "u8 \<Rightarrow> Action_Argument list" where
  "Action_args type = map (Action_getClassicArg type) [0..<Action_MaxArguments]"

definition Condition_textArgs :: "int \<Rightarrow> Condition_Argument list" where
  "Condition_textArgs type = map (Condition_getTextArg type) [0..<Condition_MaxArguments]"

definition Action_textArgs :: "int \<Rightarrow> Action_Argument list" where
  "Action_textArgs type = map (Action_getTextArg type) [0..<Action_MaxArguments]"

text \<open>
  C40. The tables of arguments agree. For every type of condition and action, the flags that say which fields hold a location, a
  second location, a string or a sound (which the code that marks, renumbers and deletes ids goes by) are set
  exactly for the types that have such an argument, in the classic order and in that of text triggers alike; and an action
  asks for a string or a sound of its own exactly then.
\<close>

theorem argument_tables_agree:
  "list_all (\<lambda>t. conditionUsesLocationArg (of_nat t) \<longleftrightarrow> locationCndArg \<in> set (Condition_args (of_nat t))) [0..<24] \<and>
   list_all (\<lambda>t. conditionUsesLocationArg (of_nat t) \<longleftrightarrow> locationCndArg \<in> set (Condition_textArgs (int t))) [0..<24] \<and>
   list_all (\<lambda>t. actionUsesLocationArg (of_nat t) \<longleftrightarrow> locationArg \<in> set (Action_args (of_nat t))) [0..<60] \<and>
   list_all (\<lambda>t. actionUsesLocationArg (of_nat t) \<longleftrightarrow> locationArg \<in> set (Action_textArgs (int t))) [0..<60] \<and>
   list_all (\<lambda>t. actionUsesSecondaryLocationArg (of_nat t) \<longleftrightarrow> secondaryLocationArg \<in> set (Action_args (of_nat t))) [0..<60] \<and>
   list_all (\<lambda>t. actionUsesSecondaryLocationArg (of_nat t) \<longleftrightarrow> secondaryLocationArg \<in> set (Action_textArgs (int t))) [0..<60] \<and>
   list_all (\<lambda>t. actionUsesStringArg (of_nat t) \<longleftrightarrow> stringArg \<in> set (Action_textArgs (int t))) [0..<60] \<and>
   list_all (\<lambda>t. actionUsesStringArg (of_nat t) \<longleftrightarrow> Action_hasStringArgument (Action_blank\<lparr>a_actionType := of_nat t\<rparr>)) [0..<60] \<and>
   list_all (\<lambda>t. actionUsesSoundArg (of_nat t) \<longleftrightarrow> soundArg \<in> set (Action_textArgs (int t))) [0..<60] \<and>
   list_all (\<lambda>t. actionUsesSoundArg (of_nat t) \<longleftrightarrow> Action_hasSoundArgument (Action_blank\<lparr>a_actionType := of_nat t\<rparr>)) [0..<60]"
  by (intro conjI; code_simp)


end
