(* ===== verification/TextTrigWords.thy ===== *)
theory TextTrigWords
  imports TextTrigLex TrigArgs
begin

text \<open>
  The fixed vocabulary of text triggers: the words for comparisons, modifiers, orders and the like, and the names of conditions and
  actions, as the compiler parses them (\<open>TextTrigCompiler.cpp\<close>) and as the generator prints them
  (\<open>TextTrigGenerator.cpp\<close>), with the theorems that what is printed is parsed back.

  A word is copied into an array of fixed size before it is compared; the code then switches on its first character and
  compares the rest, which is to compare the word. In the trees of the names every comparison at
  a position is reached only after the characters before it have been compared, so that \<open>std::string::compare\<close> never throws.
  The type of a condition or action being parsed is an integer: the virtual types are negative.
\<close>

section \<open>Words the compiler reads\<close>

definition parseWord ::
  "nat \<Rightarrow> (string \<times> ('v \<Rightarrow> 'v)) list \<Rightarrow> string \<Rightarrow> string list \<Rightarrow> nat \<Rightarrow> 'v \<Rightarrow> nat \<Rightarrow> nat \<Rightarrow> (bool \<times> 'v \<times> nat) result" where
  "parseWord N words str stringContents nextString dest pos end' =
    bind_result (copyWord N str stringContents nextString pos end') (\<lambda>(word, nextString).
      Inr (case map_of words word of
             Some update \<Rightarrow> (True, update dest, nextString)
           | None \<Rightarrow> (False, dest, nextString)))"

type_synonym 'v wordParser = "string \<Rightarrow> string list \<Rightarrow> nat \<Rightarrow> 'v \<Rightarrow> nat \<Rightarrow> nat \<Rightarrow> (bool \<times> 'v \<times> nat) result"

definition parseNumericComparison :: "u8 wordParser" where
  "parseNumericComparison = parseWord 12 [(''ATLEAST'', \<lambda>_. 0), (''ATMOST'', \<lambda>_. 1), (''EXACTLY'', \<lambda>_. 10)]"

definition parseSwitchState :: "u8 wordParser" where
  "parseSwitchState = parseWord 8 [(''CLEARED'', \<lambda>_. 3), (''NOTSET'', \<lambda>_. 3), (''SET'', \<lambda>_. 2)]"

definition parseSpecialUnitAmount :: "u8 wordParser" where
  "parseSpecialUnitAmount = parseWord 4 [(''ALL'', \<lambda>_. 0)]"

definition parseAllianceStatus :: "u16 wordParser" where
  "parseAllianceStatus = parseWord 16 [(''ALLIEDVICTORY'', \<lambda>_. 2), (''ALLY'', \<lambda>_. 1), (''ENEMY'', \<lambda>_. 0)]"

definition parseResourceType :: "u8 wordParser" where
  "parseResourceType = parseWord 12 [(''ORE'', \<lambda>_. 0), (''OREANDGAS'', \<lambda>_. 2), (''GAS'', \<lambda>_. 1)]"

definition parseScoreType :: "u8 wordParser" where
  "parseScoreType = parseWord 20
    [(''BUILDINGS'', \<lambda>_. 2), (''CUSTOM'', \<lambda>_. 7), (''KILLS'', \<lambda>_. 4), (''KILLSANDRAZINGS'', \<lambda>_. 6), (''RAZINGS'', \<lambda>_. 5),
     (''TOTAL'', \<lambda>_. 0), (''UNITS'', \<lambda>_. 1), (''UNITSANDBUILDINGS'', \<lambda>_. 3)]"

definition parseTextDisplayFlag :: "u8 wordParser" where
  "parseTextDisplayFlag = parseWord 24
    [(''ALWAYSDISPLAY'', \<lambda>flags. flags OR AlwaysDisplay), (''DON'' @ [CHR 0x27] @ ''TALWAYSDISPLAY'', \<lambda>flags. flags AND xAlwaysDisplay)]"

definition parseNumericModifier :: "u8 wordParser" where
  "parseNumericModifier = parseWord 12 [(''ADD'', \<lambda>_. 8), (''SETTO'', \<lambda>_. 7), (''SUBTRACT'', \<lambda>_. 9)]"

definition parseSwitchMod :: "u8 wordParser" where
  "parseSwitchMod = parseWord 10 [(''CLEAR'', \<lambda>_. 5), (''RANDOMIZE'', \<lambda>_. 11), (''SET'', \<lambda>_. 4), (''TOGGLE'', \<lambda>_. 6)]"

definition parseStateMod :: "u8 wordParser" where
  "parseStateMod = parseWord 12
    [(''DISABLE'', \<lambda>_. 5), (''DISABLED'', \<lambda>_. 5), (''ENABLE'', \<lambda>_. 4), (''ENABLED'', \<lambda>_. 4), (''TOGGLE'', \<lambda>_. 6)]"

definition parseOrder :: "u8 wordParser" where
  "parseOrder = parseWord 8 [(''ATTACK'', \<lambda>_. 2), (''MOVE'', \<lambda>_. 0), (''PATROL'', \<lambda>_. 1)]"

text \<open>The two-byte versions go by a byte that starts as zero, and set their result even when they fail.\<close>

definition widen :: "u8 wordParser \<Rightarrow> u16 wordParser" where
  "widen parser str stringContents nextString dest pos end' =
    bind_result (parser str stringContents nextString 0 pos end') (\<lambda>(success, temp, nextString). Inr (success, ucast temp, nextString))"

definition parseResourceType16 :: "u16 wordParser" where
  "parseResourceType16 = widen parseResourceType"

definition parseScoreType16 :: "u16 wordParser" where
  "parseScoreType16 = widen parseScoreType"

section \<open>Names of conditions and actions\<close>

definition parseConditionName :: "string \<Rightarrow> int \<Rightarrow> int" where
  "parseConditionName arg conditionType =
    (let character = str_at arg 0 in
     if character = CHR ''A'' then
       (if compare_at arg 1 9 ''CCUMULATE'' then 4
         else if compare_at arg 1 5 ''LWAYS'' then 22
         else conditionType)
     else if character = CHR ''B'' then
       (if compare_at arg 1 4 ''RING'' then 3
         else conditionType)
     else if character = CHR ''C'' then
       (if compare_at arg 1 6 ''OMMAND'' then
           (if compare_at arg 7 8 ''THELEAST'' then
              (if compare_at arg 15 2 ''AT'' then 17
               else if length arg = 15 then 16
               else conditionType)
            else if compare_at arg 7 7 ''THEMOST'' then
              (if compare_at arg 14 2 ''AT'' then 7
               else if length arg = 14 then 6
               else conditionType)
            else if compare_at arg 7 10 ''STHEMOSTAT'' then 7
            else if length arg = 7 then 2
            else conditionType)
         else if compare_at arg 1 13 ''OUNTDOWNTIMER'' then 1
         else if compare_at arg 1 5 ''USTOM'' then - 1
         else conditionType)
     else if character = CHR ''D'' then
       (if compare_at arg 1 5 ''EATHS'' then 15
         else conditionType)
     else if character = CHR ''E'' then
       (if compare_at arg 1 10 ''LAPSEDTIME'' then 12
         else conditionType)
     else if character = CHR ''H'' then
       (if compare_at arg 1 11 ''IGHESTSCORE'' then 9
         else conditionType)
     else if character = CHR ''K'' then
       (if compare_at arg 1 3 ''ILL'' then 5
         else conditionType)
     else if character = CHR ''L'' then
       (if compare_at arg 1 4 ''EAST'' then
           (if compare_at arg 5 5 ''KILLS'' then 18
            else if compare_at arg 5 9 ''RESOURCES'' then 20
            else conditionType)
         else if compare_at arg 1 10 ''OWESTSCORE'' then 19
         else conditionType)
     else if character = CHR ''M'' then
       (if compare_at arg 1 5 ''EMORY'' then - 2
         else if compare_at arg 1 3 ''OST'' then
           (if compare_at arg 4 5 ''KILLS'' then 8
            else if compare_at arg 4 9 ''RESOURCES'' then 10
            else conditionType)
         else conditionType)
     else if character = CHR ''N'' then
       (if compare_at arg 1 4 ''EVER'' then 23
         else conditionType)
     else if character = CHR ''O'' then
       (if compare_at arg 1 8 ''PPONENTS'' then 14
         else conditionType)
     else if character = CHR ''S'' then
       (if compare_at arg 1 4 ''CORE'' then 21
         else if compare_at arg 1 5 ''WITCH'' then 11
         else conditionType)
     else conditionType)"

definition parseActionName :: "string \<Rightarrow> int \<Rightarrow> int" where
  "parseActionName arg actionType =
    (let character = str_at arg 0 in
     if character = CHR ''C'' then
       (if compare_at arg 1 6 ''OMMENT'' then 47
         else if compare_at arg 1 9 ''REATEUNIT'' then
           (if compare_at arg 10 14 ''WITHPROPERTIES'' then 11
            else if length arg = 10 then 44
            else actionType)
         else if compare_at arg 1 9 ''ENTERVIEW'' then 10
         else if compare_at arg 1 5 ''USTOM'' then - 1
         else actionType)
     else if character = CHR ''D'' then
       (if compare_at arg 1 17 ''ISPLAYTEXTMESSAGE'' then 9
         else if compare_at arg 1 5 ''EFEAT'' then 2
         else if compare_at arg 1 3 ''RAW'' then 56
         else actionType)
     else if character = CHR ''G'' then
       (if compare_at arg 1 16 ''IVEUNITSTOPLAYER'' then 48
         else actionType)
     else if character = CHR ''K'' then
       (if compare_at arg 1 7 ''ILLUNIT'' then
           (if compare_at arg 8 10 ''ATLOCATION'' then 23
            else if length arg = 8 then 22
            else actionType)
         else actionType)
     else if character = CHR ''L'' then
       (if compare_at arg 1 10 ''EADERBOARD'' then
           (if compare_at arg 11 4 ''GOAL'' then
              (if compare_at arg 15 7 ''CONTROL'' then
                 (if compare_at arg 22 10 ''ATLOCATION'' then 34
                  else if length arg = 22 then 33
                  else actionType)
               else if compare_at arg 15 5 ''KILLS'' then 36
               else if compare_at arg 15 6 ''POINTS'' then 37
               else if compare_at arg 15 9 ''RESOURCES'' then 35
               else actionType)
            else if compare_at arg 11 7 ''CONTROL'' then
              (if compare_at arg 18 10 ''ATLOCATION'' then 18
               else if length arg = 18 then 17
               else actionType)
            else if compare_at arg 11 5 ''GREED'' then 40
            else if compare_at arg 11 5 ''KILLS'' then 20
            else if compare_at arg 11 6 ''POINTS'' then 21
            else if compare_at arg 11 9 ''RESOURCES'' then 19
            else if compare_at arg 11 15 ''COMPUTERPLAYERS'' then 32
            else actionType)
         else actionType)
     else if character = CHR ''M'' then
       (if compare_at arg 1 5 ''EMORY'' then - 2
         else if compare_at arg 1 3 ''OVE'' then
           (if compare_at arg 4 4 ''UNIT'' then 39
            else if compare_at arg 4 8 ''LOCATION'' then 38
            else actionType)
         else if compare_at arg 1 9 ''ODIFYUNIT'' then
           (if compare_at arg 10 6 ''ENERGY'' then 50
            else if compare_at arg 10 11 ''HANGERCOUNT'' then 53
            else if compare_at arg 10 9 ''HITPOINTS'' then 49
            else if compare_at arg 10 14 ''RESOURCEAMOUNT'' then 52
            else if compare_at arg 10 12 ''SHIELDPOINTS'' then 51
            else actionType)
         else if compare_at arg 1 10 ''INIMAPPING'' then 28
         else if compare_at arg 1 13 ''UTEUNITSPEECH'' then 30
         else actionType)
     else if character = CHR ''O'' then
       (if compare_at arg 1 4 ''RDER'' then 46
         else actionType)
     else if character = CHR ''P'' then
       (if compare_at arg 1 14 ''RESERVETRIGGER'' then 3
         else if compare_at arg 1 6 ''LAYWAV'' then 8
         else if compare_at arg 1 4 ''AUSE'' then
           (if compare_at arg 5 4 ''GAME'' then 5
            else if compare_at arg 5 5 ''TIMER'' then 54
            else actionType)
         else actionType)
     else if character = CHR ''R'' then
       (if compare_at arg 1 9 ''EMOVEUNIT'' then
           (if compare_at arg 10 10 ''ATLOCATION'' then 25
            else if length arg = 10 then 24
            else actionType)
         else if compare_at arg 1 10 ''UNAISCRIPT'' then
           (if compare_at arg 11 10 ''ATLOCATION'' then 16
            else if length arg = 11 then 15
            else actionType)
         else actionType)
     else if character = CHR ''S'' then
       (if compare_at arg 1 2 ''ET'' then
           (if compare_at arg 3 6 ''DEATHS'' then 45
            else if compare_at arg 3 6 ''SWITCH'' then 13
            else if compare_at arg 3 9 ''RESOURCES'' then 26
            else if compare_at arg 3 5 ''SCORE'' then 27
            else if compare_at arg 3 14 ''ALLIANCESTATUS'' then 57
            else if compare_at arg 3 14 ''COUNTDOWNTIMER'' then 14
            else if compare_at arg 3 11 ''DOODADSTATE'' then 42
            else if compare_at arg 3 13 ''INVINCIBILITY'' then 43
            else if compare_at arg 3 17 ''MISSIONOBJECTIVES'' then 12
            else if compare_at arg 3 12 ''NEXTSCENARIO'' then 41
            else if compare_at arg 3 6 ''MEMORY'' then - 2
            else actionType)
         else actionType)
     else if character = CHR ''T'' then
       (if compare_at arg 1 14 ''ALKINGPORTRAIT'' then 29
         else if compare_at arg 1 11 ''RANSMISSION'' then 7
         else actionType)
     else if character = CHR ''U'' then
       (if compare_at arg 1 6 ''NPAUSE'' then
           (if compare_at arg 7 5 ''TIMER'' then 55
            else if compare_at arg 7 4 ''GAME'' then 6
            else actionType)
         else if compare_at arg 1 15 ''NMUTEUNITSPEECH'' then 30
         else actionType)
     else if character = CHR ''V'' then
       (if compare_at arg 1 6 ''ICTORY'' then 1
         else actionType)
     else if character = CHR ''W'' then
       (if compare_at arg 1 3 ''AIT'' then 4
         else actionType)
     else actionType)"

definition parseAction_name :: "string \<Rightarrow> int \<Rightarrow> int" where
  "parseAction_name arg actionType =
    (let character = str_at arg 0 in
     if character = CHR ''C'' then
       (if compare_at arg 1 6 ''OMMENT'' then 47
         else if compare_at arg 1 9 ''REATEUNIT'' then
           (if compare_at arg 10 14 ''WITHPROPERTIES'' then 11
            else if length arg = 10 then 44
            else actionType)
         else if compare_at arg 1 9 ''ENTERVIEW'' then 10
         else if compare_at arg 1 5 ''USTOM'' then - 1
         else actionType)
     else if character = CHR ''D'' then
       (if compare_at arg 1 17 ''ISPLAYTEXTMESSAGE'' then 9
         else if compare_at arg 1 5 ''EFEAT'' then 2
         else if compare_at arg 1 3 ''RAW'' then 56
         else actionType)
     else if character = CHR ''G'' then
       (if compare_at arg 1 16 ''IVEUNITSTOPLAYER'' then 48
         else actionType)
     else if character = CHR ''K'' then
       (if compare_at arg 1 7 ''ILLUNIT'' then
           (if compare_at arg 8 10 ''ATLOCATION'' then 23
            else if length arg = 8 then 22
            else actionType)
         else actionType)
     else if character = CHR ''L'' then
       (if compare_at arg 1 10 ''EADERBOARD'' then
           (if compare_at arg 11 4 ''GOAL'' then
              (if compare_at arg 15 7 ''CONTROL'' then
                 (if compare_at arg 22 10 ''ATLOCATION'' then 34
                  else if length arg = 22 then 33
                  else actionType)
               else if compare_at arg 15 5 ''KILLS'' then 36
               else if compare_at arg 15 6 ''POINTS'' then 37
               else if compare_at arg 15 9 ''RESOURCES'' then 35
               else actionType)
            else if compare_at arg 11 7 ''CONTROL'' then
              (if compare_at arg 18 10 ''ATLOCATION'' then 18
               else if length arg = 18 then 17
               else actionType)
            else if compare_at arg 11 5 ''GREED'' then 40
            else if compare_at arg 11 5 ''KILLS'' then 20
            else if compare_at arg 11 6 ''POINTS'' then 21
            else if compare_at arg 11 9 ''RESOURCES'' then 19
            else if compare_at arg 11 15 ''COMPUTERPLAYERS'' then 32
            else actionType)
         else actionType)
     else if character = CHR ''M'' then
       (if compare_at arg 1 5 ''EMORY'' then - 2
         else if compare_at arg 1 3 ''OVE'' then
           (if compare_at arg 4 4 ''UNIT'' then 39
            else if compare_at arg 4 8 ''LOCATION'' then 38
            else actionType)
         else if compare_at arg 1 9 ''ODIFYUNIT'' then
           (if compare_at arg 10 6 ''ENERGY'' then 50
            else if compare_at arg 10 11 ''HANGERCOUNT'' then 53
            else if compare_at arg 10 9 ''HITPOINTS'' then 49
            else if compare_at arg 10 14 ''RESOURCEAMOUNT'' then 52
            else if compare_at arg 10 12 ''SHIELDPOINTS'' then 51
            else actionType)
         else if compare_at arg 1 10 ''INIMAPPING'' then 28
         else if compare_at arg 1 13 ''UTEUNITSPEECH'' then 30
         else actionType)
     else if character = CHR ''O'' then
       (if compare_at arg 1 4 ''RDER'' then 46
         else actionType)
     else if character = CHR ''P'' then
       (if compare_at arg 1 14 ''RESERVETRIGGER'' then 3
         else if compare_at arg 1 6 ''LAYWAV'' then 8
         else if compare_at arg 1 4 ''AUSE'' then
           (if compare_at arg 5 4 ''GAME'' then 5
            else if compare_at arg 5 5 ''TIMER'' then 54
            else actionType)
         else actionType)
     else if character = CHR ''R'' then
       (if compare_at arg 1 9 ''EMOVEUNIT'' then
           (if compare_at arg 10 10 ''ATLOCATION'' then 25
            else if length arg = 10 then 24
            else actionType)
         else if compare_at arg 1 10 ''UNAISCRIPT'' then
           (if compare_at arg 11 10 ''ATLOCATION'' then 16
            else if length arg = 11 then 15
            else actionType)
         else actionType)
     else if character = CHR ''S'' then
       (if compare_at arg 1 2 ''ET'' then
           (if compare_at arg 3 6 ''DEATHS'' then 45
            else if compare_at arg 3 6 ''SWITCH'' then 13
            else if compare_at arg 3 9 ''RESOURCES'' then 26
            else if compare_at arg 3 5 ''SCORE'' then 27
            else if compare_at arg 3 14 ''ALLIANCESTATUS'' then 57
            else if compare_at arg 3 14 ''COUNTDOWNTIMER'' then 14
            else if compare_at arg 3 11 ''DOODADSTATE'' then 42
            else if compare_at arg 3 13 ''INVINCIBILITY'' then 43
            else if compare_at arg 3 17 ''MISSIONOBJECTIVES'' then 12
            else if compare_at arg 3 12 ''NEXTSCENARIO'' then 41
            else if compare_at arg 3 6 ''MEMORY'' then - 2
            else actionType)
         else actionType)
     else if character = CHR ''T'' then
       (if compare_at arg 1 14 ''ALKINGPORTRAIT'' then 29
         else if compare_at arg 1 11 ''RANSMISSION'' then 7
         else actionType)
     else if character = CHR ''U'' then
       (if compare_at arg 1 6 ''NPAUSE'' then
           (if compare_at arg 7 5 ''TIMER'' then 55
            else if compare_at arg 7 4 ''GAME'' then 6
            else actionType)
         else if compare_at arg 1 15 ''NMUTEUNITSPEECH'' then 31
         else actionType)
     else if character = CHR ''V'' then
       (if compare_at arg 1 6 ''ICTORY'' then 1
         else actionType)
     else if character = CHR ''W'' then
       (if compare_at arg 1 3 ''AIT'' then 4
         else actionType)
     else actionType)"


definition extendedToRegularConditionType :: "int \<Rightarrow> u8" where
  "extendedToRegularConditionType conditionType = (if conditionType = - 2 then 15 else of_int conditionType)"

definition extendedToRegularActionType :: "int \<Rightarrow> u8" where
  "extendedToRegularActionType actionType = (if actionType = - 2 then 45 else of_int actionType)"

definition regularConditionType :: "int \<Rightarrow> u8" where
  "regularConditionType conditionType =
    (if conditionType < 0 then extendedToRegularConditionType conditionType else of_int conditionType)"

definition regularActionType :: "int \<Rightarrow> u8" where
  "regularActionType actionType = (if actionType < 0 then extendedToRegularActionType actionType else of_int actionType)"

text \<open>The type and its default flags; type zero is a failure.\<close>

definition parseCondition :: "string \<Rightarrow> nat \<Rightarrow> nat \<Rightarrow> bool \<times> int \<times> u8" where
  "parseCondition str pos end' =
    (let conditionType = parseConditionName (copyArg str pos end') 0
     in (conditionType \<noteq> 0, conditionType, Condition_getDefaultFlags conditionType))"

definition parseAction :: "string \<Rightarrow> nat \<Rightarrow> nat \<Rightarrow> bool \<times> int \<times> u8" where
  "parseAction str pos end' =
    (let actionType = parseAction_name (copyArg str pos end') 0
     in (actionType \<noteq> 0, actionType, Action_getDefaultFlags actionType))"

text \<open>
  The name in a field of its own, as the trigger editor passes it: a name or a number (read as signed).
  \<open>None\<close> when \<open>cleanText\<close> does not return.
\<close>

definition TextTrigCompiler_parseConditionName :: "string \<Rightarrow> u8 \<Rightarrow> (bool \<times> u8) option" where
  "TextTrigCompiler_parseConditionName str conditionType =
    (case cleanText str of
       None \<Rightarrow> None
     | Some (str, _) \<Rightarrow>
         let newConditionType = parseConditionName str 0 in
         if newConditionType \<noteq> 0 \<and> newConditionType \<noteq> - 1 then Some (True, regularConditionType newConditionType)
         else (case parseLong str 0 0 (length str) of
                 (True, temp) \<Rightarrow> Some (True, regularConditionType (sint temp))
               | (False, _) \<Rightarrow> Some (False, conditionType)))"

definition TextTrigCompiler_parseActionName :: "string \<Rightarrow> u8 \<Rightarrow> (bool \<times> u8) option" where
  "TextTrigCompiler_parseActionName str actionType =
    (case cleanText str of
       None \<Rightarrow> None
     | Some (str, _) \<Rightarrow>
         let newActionType = parseActionName str 0 in
         if newActionType \<noteq> 0 \<and> newActionType \<noteq> - 1 then Some (True, regularActionType newActionType)
         else (case parseLong str 0 0 (length str) of
                 (True, temp) \<Rightarrow> Some (True, regularActionType (sint temp))
               | (False, _) \<Rightarrow> Some (False, actionType)))"

section \<open>Words the generator prints\<close>

definition scoreTypes :: "string list" where
  "scoreTypes = [''Total'', ''Units'', ''Buildings'', ''Units and buildings'', ''Kills'', ''Razings'', ''Kills and razings'', ''Custom'']"

definition resourceTypes :: "string list" where
  "resourceTypes = [''ore'', ''gas'', ''ore and gas'']"

definition orderTypes :: "string list" where
  "orderTypes = [''move'', ''patrol'', ''attack'']"

definition stateModifiers :: "string list" where
  "stateModifiers = [''0'', ''1'', ''2'', ''3'', ''enabled'', ''disabled'', ''toggle'']"

definition switchStates :: "string list" where
  "switchStates = [''0'', ''1'', ''set'', ''not set'']"

definition switchModifiers :: "string list" where
  "switchModifiers = [''0'', ''1'', ''2'', ''3'', ''set'', ''clear'', ''toggle'', ''7'', ''8'', ''9'', ''10'', ''randomize'']"

definition allyStates :: "string list" where
  "allyStates = [''Enemy'', ''Ally'', ''Allied Victory'']"

definition numericComparisons :: "string list" where
  "numericComparisons = [''At least'', ''At most'', ''2'', ''3'', ''4'', ''5'', ''6'', ''7'', ''8'', ''9'', ''Exactly'']"

definition numericModifiers :: "string list" where
  "numericModifiers = [''0'', ''1'', ''2'', ''3'', ''4'', ''5'', ''6'', ''Set To'', ''Add'', ''Subtract'']"

text \<open>Each printer takes the word of its table, or prints the number when there is none.\<close>

definition printWord :: "string list \<Rightarrow> nat \<Rightarrow> string" where
  "printWord words value = (if value < length words then words ! value else to_string value)"

definition appendScoreType :: "u8 \<Rightarrow> string" where
  "appendScoreType scoreType = printWord scoreTypes (unat scoreType)"

definition appendResourceType :: "u8 \<Rightarrow> string" where
  "appendResourceType resourceType = printWord resourceTypes (unat resourceType)"

definition appendOrder :: "u8 \<Rightarrow> string" where
  "appendOrder order = printWord orderTypes (unat order)"

definition appendStateModifier :: "u8 \<Rightarrow> string" where
  "appendStateModifier stateModifier = printWord stateModifiers (unat stateModifier)"

definition appendSwitchState :: "u8 \<Rightarrow> string" where
  "appendSwitchState switchState = printWord switchStates (unat switchState)"

definition appendSwitchModifier :: "u8 \<Rightarrow> string" where
  "appendSwitchModifier switchModifier = printWord switchModifiers (unat switchModifier)"

definition appendAllyState :: "u16 \<Rightarrow> string" where
  "appendAllyState allyState = printWord allyStates (unat allyState)"

definition appendNumericComparison :: "u8 \<Rightarrow> string" where
  "appendNumericComparison numericComparison = printWord numericComparisons (unat numericComparison)"

definition appendNumericModifier :: "u8 \<Rightarrow> string" where
  "appendNumericModifier numericModifier = printWord numericModifiers (unat numericModifier)"

definition appendNumUnits :: "u8 \<Rightarrow> string" where
  "appendNumUnits numUnits = (if numUnits = 0 then ''All'' else to_string (unat numUnits))"

definition appendTextFlags :: "u8 \<Rightarrow> string" where
  "appendTextFlags textFlags =
    (if textFlags AND AlwaysDisplay = 0 then ''Don'' @ [CHR 0x27] @ ''t Always Display''
     else if textFlags AND AlwaysDisplay = AlwaysDisplay then ''Always Display''
     else to_string (unat textFlags))"

definition appendMaskFlag :: "u16 \<Rightarrow> string" where
  "appendMaskFlag maskFlag =
    (if maskFlag = 0x4353 then ''Enabled'' else if maskFlag = 0 then ''Disabled'' else to_string (unat maskFlag))"

definition appendMemory :: "bool \<Rightarrow> u32 \<Rightarrow> u32 \<Rightarrow> string" where
  "appendMemory useAddressesForMemory deathTableOffset memory =
    (if useAddressesForMemory then to_hex_string (unat (memory * 4 + deathTableOffset)) else to_string (unat memory))"

definition conditionTable :: "string list" where
  "conditionTable =
    [''No Condition'', ''Countdown Timer'', ''Command'', ''Bring'', ''Accumulate'', ''Kill'', ''Command the Most'',
     ''Commands the Most At'', ''Most Kills'', ''Highest Score'', ''Most Resources'', ''Switch'', ''Elapsed Time'',
     ''Never'', ''Opponents'', ''Deaths'', ''Command the Least'', ''Command the Least At'', ''Least Kills'',
     ''Lowest Score'', ''Least Resources'', ''Score'', ''Always'', ''Never''] @ replicate (256 - 24) ''Custom''"

definition actionTable :: "string list" where
  "actionTable =
    [''No Action'', ''Victory'', ''Defeat'', ''Preserve Trigger'', ''Wait'', ''Pause Game'', ''Unpause Game'', ''Transmission'',
     ''Play WAV'', ''Display Text Message'', ''Center View'', ''Create Unit with Properties'', ''Set Mission Objectives'',
     ''Set Switch'', ''Set Countdown Timer'', ''Run AI Script'', ''Run AI Script At Location'', ''Leader Board Control'',
     ''Leader Board Control At Location'', ''Leader Board Resources'', ''Leader Board Kills'', ''Leader Board Points'',
     ''Kill Unit'', ''Kill Unit At Location'', ''Remove Unit'', ''Remove Unit At Location'', ''Set Resources'', ''Set Score'',
     ''Minimap Ping'', ''Talking Portrait'', ''Mute Unit Speech'', ''Unmute Unit Speech'', ''Leaderboard Computer Players'',
     ''Leaderboard Goal Control'', ''Leaderboard Goal Control At Location'', ''Leaderboard Goal Resources'',
     ''Leaderboard Goal Kills'', ''Leaderboard Goal Points'', ''Move Location'', ''Move Unit'', ''Leaderboard Greed'',
     ''Set Next Scenario'', ''Set Doodad State'', ''Set Invincibility'', ''Create Unit'', ''Set Deaths'', ''Order'', ''Comment'',
     ''Give Units to Player'', ''Modify Unit Hit Points'', ''Modify Unit Energy'', ''Modify Unit Shield Points'',
     ''Modify Unit Resource Amount'', ''Modify Unit Hanger Count'', ''Pause Timer'', ''Unpause Timer'', ''Draw'',
     ''Set Alliance Status'', ''Disable Debug Mode'', ''Enable Debug Mode''] @ replicate (256 - 60) ''Custom''"

definition TextTrigGenerator_getConditionName :: "u8 \<Rightarrow> string" where
  "TextTrigGenerator_getConditionName conditionType = printWord conditionTable (unat conditionType)"

definition TextTrigGenerator_getActionName :: "u8 \<Rightarrow> string" where
  "TextTrigGenerator_getActionName actionType = printWord actionTable (unat actionType)"

section \<open>Cleaning a plain text\<close>

definition plainChar :: "char \<Rightarrow> bool" where
  "plainChar c \<longleftrightarrow> c \<notin> {TAB, CR, LF, VT, FF, CHR ''/'', QUOTE}"

definition cleanPlain :: "string \<Rightarrow> string" where
  "cleanPlain s = map upperChar (List.filter (\<lambda>c. c \<noteq> CHR '' '') s)"

lemma cleanText_loop_plain:
  "list_all plainChar s \<Longrightarrow>
   cleanText_loop (pre @ s @ rest) (length pre) dest stringContents =
   cleanText_loop (pre @ s @ rest) (length pre + length s) (dest @ cleanPlain s) stringContents"
proof (induction s arbitrary: pre dest)
  case (Cons c s)
  let ?str = "pre @ (c # s) @ rest"
  have "cleanText_loop ?str (length pre) dest stringContents =
      cleanText_loop ?str (length pre + 1) (dest @ cleanPlain [c]) stringContents"
    using Cons.prems by (subst cleanText_loop.simps) (auto simp: plainChar_def cleanPlain_def Let_def nth_append)
  also have "\<dots> = cleanText_loop ?str (length pre + length (c # s)) ((dest @ cleanPlain [c]) @ cleanPlain s) stringContents"
    using Cons.IH [of "pre @ [c]" "dest @ cleanPlain [c]"] Cons.prems by simp
  finally show ?case by (simp add: cleanPlain_def)
qed (simp add: cleanPlain_def)

lemma cleanText_plain: "list_all plainChar s \<Longrightarrow> cleanText s = Some (cleanPlain s, [])"
  using cleanText_loop_plain [of s "[]" "[]" "[]" "[]"] by (simp add: cleanText_def cleanText_loop.simps [of s "length s"])




lemma upperChar_simps [simp]:
  "upperChar (CHR ''a'') = CHR ''A''" "upperChar (CHR ''b'') = CHR ''B''" "upperChar (CHR ''c'') = CHR ''C''" "upperChar (CHR ''d'') = CHR ''D''"
  "upperChar (CHR ''e'') = CHR ''E''" "upperChar (CHR ''f'') = CHR ''F''" "upperChar (CHR ''g'') = CHR ''G''" "upperChar (CHR ''h'') = CHR ''H''"
  "upperChar (CHR ''i'') = CHR ''I''" "upperChar (CHR ''j'') = CHR ''J''" "upperChar (CHR ''k'') = CHR ''K''" "upperChar (CHR ''l'') = CHR ''L''"
  "upperChar (CHR ''m'') = CHR ''M''" "upperChar (CHR ''n'') = CHR ''N''" "upperChar (CHR ''o'') = CHR ''O''" "upperChar (CHR ''p'') = CHR ''P''"
  "upperChar (CHR ''q'') = CHR ''Q''" "upperChar (CHR ''r'') = CHR ''R''" "upperChar (CHR ''s'') = CHR ''S''" "upperChar (CHR ''t'') = CHR ''T''"
  "upperChar (CHR ''u'') = CHR ''U''" "upperChar (CHR ''v'') = CHR ''V''" "upperChar (CHR ''w'') = CHR ''W''" "upperChar (CHR ''x'') = CHR ''X''"
  "upperChar (CHR ''y'') = CHR ''Y''" "upperChar (CHR ''z'') = CHR ''Z''" "upperChar (CHR ''A'') = CHR ''A''" "upperChar (CHR ''B'') = CHR ''B''"
  "upperChar (CHR ''C'') = CHR ''C''" "upperChar (CHR ''D'') = CHR ''D''" "upperChar (CHR ''E'') = CHR ''E''" "upperChar (CHR ''F'') = CHR ''F''"
  "upperChar (CHR ''G'') = CHR ''G''" "upperChar (CHR ''H'') = CHR ''H''" "upperChar (CHR ''I'') = CHR ''I''" "upperChar (CHR ''J'') = CHR ''J''"
  "upperChar (CHR ''K'') = CHR ''K''" "upperChar (CHR ''L'') = CHR ''L''" "upperChar (CHR ''M'') = CHR ''M''" "upperChar (CHR ''N'') = CHR ''N''"
  "upperChar (CHR ''O'') = CHR ''O''" "upperChar (CHR ''P'') = CHR ''P''" "upperChar (CHR ''Q'') = CHR ''Q''" "upperChar (CHR ''R'') = CHR ''R''"
  "upperChar (CHR ''S'') = CHR ''S''" "upperChar (CHR ''T'') = CHR ''T''" "upperChar (CHR ''U'') = CHR ''U''" "upperChar (CHR ''V'') = CHR ''V''"
  "upperChar (CHR ''W'') = CHR ''W''" "upperChar (CHR ''X'') = CHR ''X''" "upperChar (CHR ''Y'') = CHR ''Y''" "upperChar (CHR ''Z'') = CHR ''Z''"
  "upperChar (CHR ''0'') = CHR ''0''" "upperChar (CHR ''1'') = CHR ''1''" "upperChar (CHR ''2'') = CHR ''2''" "upperChar (CHR ''3'') = CHR ''3''"
  "upperChar (CHR ''4'') = CHR ''4''" "upperChar (CHR ''5'') = CHR ''5''" "upperChar (CHR ''6'') = CHR ''6''" "upperChar (CHR ''7'') = CHR ''7''"
  "upperChar (CHR ''8'') = CHR ''8''" "upperChar (CHR ''9'') = CHR ''9''" "upperChar (CHR ''('') = CHR ''(''" "upperChar (CHR '')'') = CHR '')''"
  "upperChar (CHR '','') = CHR '',''" "upperChar (CHR ''.'') = CHR ''.''" "upperChar (CHR '':'') = CHR '':''" "upperChar (CHR '';'') = CHR '';''"
  "upperChar (CHR ''_'') = CHR ''_''" "upperChar (CHR ''-'') = CHR ''-''" "upperChar (CHR ''{'') = CHR ''{''" "upperChar (CHR ''}'') = CHR ''}''"
  "upperChar (CHR ''+'') = CHR ''+''"
  by (simp_all add: upperChar_def isLower_def byte_def to_byte_def char_of_def bit_Suc_0_iff)

lemma upperChar_idem [simp]: "upperChar (upperChar c) = upperChar c"
  by (auto simp: upperChar_def isLower_def)

lemma upperChar_blank: "upperChar c = CHR '' '' \<longleftrightarrow> c = CHR '' ''" "upperChar c = TAB \<longleftrightarrow> c = TAB"
proof -
  have "byte (CHR '' '') = 32" "byte TAB = 9" by (simp_all add: byte_def)
  then show "upperChar c = CHR '' '' \<longleftrightarrow> c = CHR '' ''" "upperChar c = TAB \<longleftrightarrow> c = TAB"
    by (auto simp: upperChar_def isLower_def byte_eq_iff [symmetric])
qed

lemma copyArg_cleanPlain:
  assumes "list_all plainChar s"
  shows "copyArg (cleanPlain s) 0 (length (cleanPlain s)) = cleanPlain s"
proof -
  have "List.filter (\<lambda>c. c \<noteq> CHR '' '' \<and> c \<noteq> TAB) (cleanPlain s) = cleanPlain s"
    using assms by (auto simp: cleanPlain_def filter_id_conv upperChar_blank plainChar_def list_all_iff)
  moreover have "map upperChar (cleanPlain s) = cleanPlain s" by (simp add: cleanPlain_def)
  ultimately show ?thesis by (simp add: copyArg_def)
qed

lemmas eval_names = cleanPlain_def compare_at_def substr_def Let_def str_at_def

lemma condition_names_parse:
  "map (\<lambda>s. parseConditionName (cleanPlain s) 0) (take 24 conditionTable) = [0..23][13 := 23]"
  by (simp add: conditionTable_def parseConditionName_def eval_names upto.simps)

lemma action_names_parse:
  "map (\<lambda>s. parseAction_name (cleanPlain s) 0) (take 60 actionTable) = [0..57] @ [0, 0]"
  by (simp add: actionTable_def parseAction_name_def eval_names upto.simps)

lemma action_field_names_parse:
  "map (\<lambda>s. parseActionName (cleanPlain s) 0) (take 60 actionTable) = [0..57][31 := 30] @ [0, 0]"
  by (simp add: actionTable_def parseActionName_def eval_names upto.simps)

lemma names_plain: "list_all (list_all plainChar) conditionTable" "list_all (list_all plainChar) actionTable"
  by (simp_all add: conditionTable_def actionTable_def plainChar_def list_all_iff)

definition compiledConditionType :: "string \<Rightarrow> int option" where
  "compiledConditionType name = map_option (\<lambda>(str, _). fst (snd (parseCondition str 0 (length str)))) (cleanText name)"

definition compiledActionType :: "string \<Rightarrow> int option" where
  "compiledActionType name = map_option (\<lambda>(str, _). fst (snd (parseAction str 0 (length str)))) (cleanText name)"

lemma compiled_plain:
  "list_all plainChar s \<Longrightarrow> compiledConditionType s = Some (parseConditionName (cleanPlain s) 0)"
  "list_all plainChar s \<Longrightarrow> compiledActionType s = Some (parseAction_name (cleanPlain s) 0)"
  by (simp_all add: compiledConditionType_def compiledActionType_def cleanText_plain parseCondition_def parseAction_def
      copyArg_cleanPlain Let_def)

lemma map_plain_names:
  assumes "list_all (list_all plainChar) names" "map (\<lambda>s. f (cleanPlain s)) (take n names) = vs"
    "\<And>s. list_all plainChar s \<Longrightarrow> g s = h (f (cleanPlain s))"
  shows "map g (take n names) = map h vs"
proof -
  have "g s = h (f (cleanPlain s))" if "s \<in> set (take n names)" for s
    using that assms(1,3) by (meson in_set_takeD list_all_iff)
  then show ?thesis using assms(2) by (auto simp: comp_def)
qed


end
