(* ===== verification/TextTrigNames.thy ===== *)
theory TextTrigNames
  imports TextTrigWords
begin

text \<open>
  The names a text trigger can use for the things of a map: locations, units, switches, players and groups, scripts and strings, as \<open>TextTrigCompiler\<close> looks them up. 
  The tables are hash tables over a hash function that is a parameter of the model (\<open>std::hash\<close>); a table is the list of its entries in the order
  in which they are met. The array of \<open>parseSwitch\<close> that is not initialised
  takes its contents from \<open>uninit\<close>, another parameter: whatever the stack holds.

  A parser takes the value its destination has and the index of the next quoted string, and returns whether it succeeded along with both as it leaves them.
  Reading a string that is not there is undefined behaviour.
\<close>

section \<open>The tables of the compiler\<close>

record StringTableNode =
  n_unused :: bool
  n_str :: string
  n_stringId :: u32
  n_assignees :: "(nat \<times> nat \<times> bool) list"

text \<open>
  An assignee is the address of a string field of an action: the number of the trigger being compiled, that of the action, and
  whether the field is the sound.
\<close>

record Compiler =
  useAddressesForMemory :: bool
  deathTableOffset :: u32
  strHash :: "string \<Rightarrow> nat"
  locationTable :: "(string \<times> u32) list"
  unitTable :: "(string \<times> u16) list"
  switchTable :: "(string \<times> u8) list"
  groupTable :: "(string \<times> u32) list"
  scriptTable :: "(string \<times> u32) list"
  uninit :: "char list"

record NewStrings =
  newStringTable :: "StringTableNode list"
  unassignedStrings :: "nat list"

text \<open>
  The lookup four of the parsers share: among the entries with the hash, a single one has to have the name; of several
  the smallest id with the name is taken.
\<close>

fun smallestMatch :: "string \<Rightarrow> (string \<times> 'id::linorder) list \<Rightarrow> 'id option \<Rightarrow> 'id option" where
  "smallestMatch str [] found = found"
| "smallestMatch str ((name, ident) # matches) found =
    smallestMatch str matches
      (if name = str then
         (case found of None \<Rightarrow> Some ident | Some dest \<Rightarrow> if ident < dest then Some ident else found)
       else found)"

definition tableLookup :: "(string \<Rightarrow> nat) \<Rightarrow> (string \<times> 'id::linorder) list \<Rightarrow> string \<Rightarrow> 'id option" where
  "tableLookup hash table str =
    (let matches = List.filter (\<lambda>(name, ident). hash name = hash str) table in
     if length matches = 1 then (if fst (hd matches) = str then Some (snd (hd matches)) else None)
     else if length matches > 1 then smallestMatch str matches None
     else None)"

definition foundOr :: "'v option \<Rightarrow> 'v \<Rightarrow> bool \<times> 'v" where
  "foundOr found dest = (case found of Some v \<Rightarrow> (True, v) | None \<Rightarrow> (False, dest))"

section \<open>Locations\<close>

text \<open>The name itself: \<open>"anywhere"\<close> is capitalised before it is looked up.\<close>

definition findLocation :: "Compiler \<Rightarrow> string \<Rightarrow> u32 \<Rightarrow> bool \<times> u32" where
  "findLocation cmp str dest =
    foundOr (tableLookup (strHash cmp) (locationTable cmp) (if str = ''anywhere'' then ''Anywhere'' else str)) dest"

definition parseLocationName ::
  "Compiler \<Rightarrow> string \<Rightarrow> string list \<Rightarrow> nat \<Rightarrow> u32 \<Rightarrow> nat \<Rightarrow> nat \<Rightarrow> (bool \<times> u32 \<times> nat) result" where
  "parseLocationName cmp str stringContents nextString dest pos end' =
    (if compare_at str pos (size_between pos end') ''NOLOCATION'' then Inr (True, 0, nextString)
     else if pos < end' \<and> str_at str pos = QUOTE then
       bind_result (at_unchecked stringContents nextString) (\<lambda>name.
         case findLocation cmp name dest of (success, dest) \<Rightarrow> Inr (success, dest, nextString + 1))
     else
       case parseLong str dest pos end' of
         (True, dest) \<Rightarrow> Inr (True, dest, nextString)
       | (False, dest) \<Rightarrow>
           (case findLocation cmp (substr str pos (size_between pos end')) dest of
              (success, dest) \<Rightarrow> Inr (success, dest, nextString)))"

section \<open>Units\<close>

text \<open>
  The names the code compares a unit name with, by first character; the further switches on later characters
  only leave out comparisons that fail. In the second table the case of \<open>R\<close> falls through to that of \<open>S\<close>.
\<close>

definition standardUnitNames :: "char \<Rightarrow> (string \<times> u16) list" where
  "standardUnitNames c =
    (if c = CHR ''A'' then
      [(''LAN SCHEZAR (GOLIATH)'', 17), (''LAN SCHEZAR TURRET'', 18), (''LDARIS (TEMPLAR)'', 87),
       (''LEXEI STUKOV (GHOST)'', 100), (''NY UNIT'', 229), (''RCTURUS MENGSK (BATTLECRUISER)'', 27),
       (''RTANIS (SCOUT)'', 88)]
     else if c = CHR ''B'' then
      [(''ENGALAAS (JUNGLE CRITTER)'', 90), (''UILDINGS'', 231)]
     else if c = CHR ''C'' then
      [(''ARGO SHIP (UNUSED)'', 91), (''ATINA (UNUSED)'', 181), (''AVE (UNUSED)'', 179), (''AVE-IN (UNUSED)'', 180)]
     else if c = CHR ''D'' then
      [(''ANIMOTH (ARBITER)'', 86), (''ARK SWARM'', 202), (''ATA DISC'', 218), (''EVOURING ONE (ZERGLING)'', 54),
       (''ISRUPTION WEB'', 105)]
     else if c = CHR ''E'' then
      [(''DMUND DUKE (SIEGE MODE)'', 25), (''DMUND DUKE (TANK MODE)'', 23), (''DMUND DUKE TURRET (SIEGE MODE)'', 26),
       (''DMUND DUKE TURRET (TANK MODE)'', 24)]
     else if c = CHR ''F'' then
      [(''ACTORIES'', 232), (''ENIX (DRAGOON)'', 78), (''ENIX (ZEALOT)'', 77), (''LAG'', 215), (''LOOR GUN TRAP'', 209),
       (''LOOR HATCH (UNUSED)'', 204), (''LOOR MISSILE TRAP'', 203)]
     else if c = CHR ''G'' then
      [(''ANTRITHOR (CARRIER)'', 82), (''ERARD DUGALLE (BATTLECRUISER)'', 102), (''OLIATH TURRET'', 4),
       (''UI MONTAG (FIREBAT)'', 10)]
     else if c = CHR ''H'' then
      [(''UNTER KILLER (HYDRALISK)'', 53), (''YPERION (BATTLECRUISER)'', 28)]
     else if c = CHR ''I'' then
      [(''NDEPENDENT COMMAND CENTER (UNUSED)'', 183), (''NDEPENDENT JUMP GATE (UNUSED)'', 185),
       (''NDEPENDENT STARPORT (UNUSED)'', 184), (''NFESTED COMMAND CENTER'', 130),
       (''NFESTED DURAN (INFESTED TERRAN)'', 104), (''NFESTED KERRIGAN (INFESTED TERRAIN)'', 51), (''NFESTED TERRAN'', 50),
       (''ON CANNON'', 127)]
     else if c = CHR ''J'' then
      [(''IM RAYNOR (MARINE)'', 20), (''IM RAYNOR (VULTURE)'', 19)]
     else if c = CHR ''K'' then
      [(''AKARU (TWILIGHT CRITTER)'', 94), (''HADARIN CRYSTAL FORMATION (UNUSED)'', 187), (''HALIS CRYSTAL'', 129),
       (''HAYDARIN CRYSTAL'', 219), (''HAYDARIN CRYSTAL FORMATION'', 173), (''UKULZA (GUARDIAN)'', 56),
       (''UKULZA (MUTALISK)'', 55)]
     else if c = CHR ''L'' then
      [(''EFT PIT DOOR'', 207), (''EFT UPPER LEVEL DOOR'', 205), (''EFT WALL FLAME TRAP'', 211),
       (''EFT WALL MISSILE TRAP'', 210), (''URKER EGG'', 97)]
     else if c = CHR ''M'' then
      [(''AGELLAN (SCIENCE VESSEL)'', 22), (''AP REVEALER'', 101), (''ATRIARCH (QUEEN)'', 49), (''ATURE CRYSALIS'', 150),
       (''EN'', 230), (''ERCENARY GUNSHIP (UNUSED)'', 92), (''INERAL CLUSTER TYPE 1'', 220),
       (''INERAL CLUSTER TYPE 2'', 221), (''INERAL FIELD (TYPE 1)'', 176), (''INERAL FIELD (TYPE 2)'', 177),
       (''INERAL FIELD (TYPE 3)'', 178), (''INING PLATFORM (UNUSED)'', 182), (''OJO (SCOUT)'', 80), (''UTALISK COCOON'', 59)]
     else if c = CHR ''N'' then
      [(''ORAD II (BATTLECRUISER)'', 29), (''ORAD II (CRASHED)'', 126), (''UCLEAR MISSILE'', 14)]
     else if c = CHR ''O'' then
      [(''VERMIND COCOON'', 201)]
     else if c = CHR ''P'' then
      [(''ROTOSS ARBITER'', 71), (''ROTOSS ARBITER TRIBUNAL'', 170), (''ROTOSS ARCHON'', 68), (''ROTOSS ASSIMILATOR'', 157),
       (''ROTOSS BEACON'', 196), (''ROTOSS CARRIER'', 72), (''ROTOSS CITADEL OF ADUN'', 163), (''ROTOSS CORSAIR'', 60),
       (''ROTOSS CYBERNETICS CORE'', 164), (''ROTOSS DARK ARCHON'', 63), (''ROTOSS DARK TEMPLAR (HERO)'', 74),
       (''ROTOSS DARK TEMPLAR (UNIT)'', 61), (''ROTOSS DRAGOON'', 66), (''ROTOSS FLAG BEACON'', 199),
       (''ROTOSS FLEET BEACON'', 169), (''ROTOSS FORGE'', 166), (''ROTOSS GATEWAY'', 160), (''ROTOSS HIGH TEMPLAR'', 67),
       (''ROTOSS INTERCEPTOR'', 73), (''ROTOSS MARKER'', 193), (''ROTOSS NEXUS'', 154), (''ROTOSS OBSERVATORY'', 159),
       (''ROTOSS OBSERVER'', 84), (''ROTOSS PHOTON CANNON'', 162), (''ROTOSS PROBE'', 64), (''ROTOSS PYLON'', 156),
       (''ROTOSS REAVER'', 83), (''ROTOSS ROBOTICS FACILITY'', 155), (''ROTOSS ROBOTICS SUPPORT BAY'', 171),
       (''ROTOSS SCARAB'', 85), (''ROTOSS SCOUT'', 70), (''ROTOSS SHIELD BATTERY'', 172), (''ROTOSS SHUTTLE'', 69),
       (''ROTOSS STARGATE'', 167), (''ROTOSS TEMPLAR ARCHIVES'', 165), (''ROTOSS TEMPLE'', 174),
       (''ROTOSS VESPENE GAS ORB TYPE 1'', 222), (''ROTOSS VESPENE GAS ORB TYPE 2'', 223), (''ROTOSS ZEALOT'', 65),
       (''SI DISRUPTER'', 190), (''SI EMITTER'', 217), (''OWER GENERATOR'', 200)]
     else if c = CHR ''R'' then
      [(''AGNASAUR (ASHWORLD CRITTER)'', 95), (''ASZAGAL (CORSAIR)'', 98), (''EPAIR BAY (UNUSED)'', 121),
       (''HYNADON (BADLANDS CRITTER)'', 89), (''IGHT PIT DOOR'', 208), (''IGHT UPPER LEVEL DOOR'', 206),
       (''IGHT WALL FLAME TRAP'', 213), (''IGHT WALL MISSILE TRAP'', 212), (''UINS (UNUSED)'', 186)]
     else if c = CHR ''S'' then
      [(''AMIR DURAN (GHOST)'', 99), (''ARAH KERRIGAN (GHOST)'', 16), (''CANNER SWEEP'', 33),
       (''CANTID (DESERT CRITTER)'', 93), (''IEGE TANK TURRET (SIEGE MODE)'', 31), (''IEGE TANK TURRET (TANK MODE)'', 6),
       (''PIDER MINE'', 13), (''TARBASE (UNUSED)'', 119), (''TART LOCATION'', 214), (''TASIS CELL/PRISON'', 168)]
     else if c = CHR ''T'' then
      [(''ERRAN ACADEMY'', 112), (''ERRAN ARMORY'', 123), (''ERRAN BARRACKS'', 111), (''ERRAN BATTLECRUISER'', 12),
       (''ERRAN BEACON'', 195), (''ERRAN BUNKER'', 125), (''ERRAN CIVILIAN'', 15), (''ERRAN COMMAND CENTER'', 106),
       (''ERRAN COMSAT STATION'', 107), (''ERRAN CONTROL TOWER'', 115), (''ERRAN COVERT OPS'', 117),
       (''ERRAN DROPSHIP'', 11), (''ERRAN ENGINEERING BAY'', 122), (''ERRAN FACTORY'', 113), (''ERRAN FIREBAT'', 32),
       (''ERRAN FLAG BEACON'', 198), (''ERRAN GHOST'', 1), (''ERRAN GOLIATH'', 3), (''ERRAN MACHINE SHOP'', 120),
       (''ERRAN MARINE'', 0), (''ERRAN MARKER'', 192), (''ERRAN MEDIC'', 34), (''ERRAN MISSILE TURRET'', 124),
       (''ERRAN NUCLEAR SILO'', 108), (''ERRAN PHYSICS LAB'', 118), (''ERRAN REFINERY'', 110),
       (''ERRAN SCIENCE FACILITY'', 116), (''ERRAN SCIENCE VESSEL'', 9), (''ERRAN SCV'', 7),
       (''ERRAN SIEGE TANK (SIEGE MODE)'', 30), (''ERRAN SIEGE TANK (TANK MODE)'', 5), (''ERRAN STARPORT'', 114),
       (''ERRAN SUPPLY DEPOT'', 109), (''ERRAN VALKYRIE'', 58), (''ERRAN VESPENE GAS TANK TYPE 1'', 226),
       (''ERRAN VESPENE GAS TANK TYPE 2'', 227), (''ERRAN VULTURE'', 2), (''ERRAN WRAITH'', 8), (''ASSADAR (TEMPLAR)'', 79),
       (''ASSADAR/ZERATUL (ARCHON)'', 76), (''OM KAZANSKY (WRAITH)'', 21), (''ORRASQUE (ULTRALISK)'', 48)]
     else if c = CHR ''U'' then
      [(''NCLEAN ONE (DEFILER)'', 52), (''NUSED PROTOSS BUILDING 1'', 158), (''NUSED PROTOSS BUILDING 2'', 161),
       (''NUSED ZERG BUILDING 1'', 145), (''NUSED ZERG BUILDING 2'', 145), (''RAJ CRYSTAL'', 128),
       (''RSADON (ICE WORLD CRITTER)'', 96)]
     else if c = CHR ''V'' then
      [(''ESPENE GEYSER'', 188)]
     else if c = CHR ''W'' then
      [(''ARBRINGER (REAVER)'', 81), (''ARP GATE'', 189)]
     else if c = CHR ''X'' then
      [(''EL'NAGA TEMPLE'', 175)]
     else if c = CHR ''Y'' then
      [(''GGDRASILL (OVERLORD)'', 57), (''OUNG CHRYSALIS'', 216)]
     else if c = CHR ''Z'' then
      [(''ERG BEACON'', 194), (''ERG BROODLING'', 40), (''ERG CEREBRATE'', 151), (''ERG CEREBRATE DAGGOTH'', 152),
       (''ERG CREEP COLONY'', 143), (''ERG DEFILER'', 46), (''ERG DEFILER MOUND'', 136), (''ERG DEVOURER'', 62),
       (''ERG DRONE'', 41), (''ERG EGG'', 36), (''ERG EVOLUTION CHAMBER'', 139), (''ERG EXTRACTOR'', 149),
       (''ERG FLAG BEACON'', 197), (''ERG GREATER SPIRE'', 137), (''ERG GUARDIAN'', 44), (''ERG HATCHERY'', 131),
       (''ERG HIVE'', 133), (''ERG HYDRALISK'', 38), (''ERG HYDRALISK DEN'', 135), (''ERG LAIR'', 132), (''ERG LARVA'', 35),
       (''ERG LURKER'', 103), (''ERG MARKER'', 191), (''ERG MUTALISK'', 43), (''ERG NYDUS CANAL'', 134),
       (''ERG OVERLORD'', 42), (''ERG OVERMIND'', 148), (''ERG OVERMIND (WITH SHELL)'', 147), (''ERG QUEEN'', 45),
       (''ERG QUEEN'S NEST'', 138), (''ERG SCOURGE'', 47), (''ERG SPAWNING POOL'', 142), (''ERG SPIRE'', 141),
       (''ERG SPORE COLONY'', 144), (''ERG SUNKEN COLONY'', 146), (''ERG ULTRALISK'', 39), (''ERG ULTRALISK CAVERN'', 140),
       (''ERG VESPENE GAS SAC TYPE 1'', 224), (''ERG VESPENE GAS SAC TYPE 2'', 225), (''ERG ZERGLING'', 37),
       (''ERATUL (DARK TEMPLAR)'', 75)]
     else [])"

definition legacyUnitNames :: "char \<Rightarrow> (string \<times> u16) list" where
  "legacyUnitNames c =
    (if c = CHR ''['' then
      [(''ANY UNIT]'', 229), (''BUILDINGS]'', 231), (''FACTORIES]'', 232), (''MEN]'', 230)]
     else if c = CHR ''A'' then
      [(''LAN TURRET'', 18)]
     else if c = CHR ''B'' then
      [(''ENGALAAS (JUNGLE)'', 90)]
     else if c = CHR ''C'' then
      [(''ANTINA'', 181), (''AVE'', 179), (''AVE-IN'', 180), (''OCOON'', 59)]
     else if c = CHR ''D'' then
      [(''ARK TEMPLAR (HERO)'', 74), (''ISRUPTION FIELD'', 105), (''UKE TURRET TYPE 1'', 24), (''UKE TURRET TYPE 2'', 26)]
     else if c = CHR ''E'' then
      [(''DMUND DUKE (SIEGE TANK)'', 23)]
     else if c = CHR ''G'' then
      [(''ERARD DUGALLE (GHOST)'', 102)]
     else if c = CHR ''I'' then
      [(''NDEPENDENT COMMAND CENTER'', 183), (''NDEPENDENT STARPORT'', 184), (''NFESTED DURAN'', 104),
       (''NFESTED KERRIGAN (INFESTED TERRAN)'', 51), (''NVALID UNIT'', 228)]
     else if c = CHR ''J'' then
      [(''UMP GATE'', 185)]
     else if c = CHR ''K'' then
      [(''AKARU (TWILIGHT)'', 94), (''YADARIN CRYSTAL FORMATION'', 187)]
     else if c = CHR ''M'' then
      [(''INING PLATFORM'', 182), (''INERAL CHUNK (TYPE 1)'', 220), (''INERAL CHUNK (TYPE 2)'', 221)]
     else if c = CHR ''N'' then
      [(''ORAD II (CRASHED BATTLECRUISER)'', 126)]
     else if c = CHR ''P'' then
      [(''ROTOSS DARK TEMPLAR'', 61), (''ROTOSS UNUSED TYPE 1'', 158), (''ROTOSS UNUSED TYPE 2'', 161)]
     else if c = CHR ''R'' then
      [(''AGNASAUR (ASH WORLD)'', 95), (''UINS'', 186), (''HYNADON (BADLANDS)'', 89), (''ASZAGAL (DARK TEMPLAR)'', 98),
       (''CANTID (DESERT)'', 93)]
     else if c = CHR ''S'' then
      [(''CANTID (DESERT)'', 93)]
     else if c = CHR ''T'' then
      [(''ANK TURRET TYPE 1'', 6), (''ANK TURRET TYPE 2'', 31)]
     else if c = CHR ''U'' then
      [(''NUSED TERRAN BLDG TYPE 1'', 119), (''NUSED TERRAN BLDG TYPE 2'', 121), (''NUSED TYPE 1'', 91),
       (''NUSED TYPE 2'', 92), (''NUSED ZERG BLDG'', 145), (''NUSED ZERG BLDG 5'', 153), (''RSADON (ICE WORLD)'', 96)]
     else if c = CHR ''V'' then
      [(''ULTURE SPIDER MINE'', 13), (''ESPENE TANK (TERRAN TYPE 1)'', 226), (''ESPENE TANK (TERRAN TYPE 2)'', 227),
       (''ESPENE ORB (PROTOSS TYPE 1)'', 222), (''ESPENE ORB (PROTOSS TYPE 2)'', 223), (''ESPENE SAC (ZERG TYPE 1)'', 224),
       (''ESPENE SAC (ZERG TYPE 2)'', 225)]
     else if c = CHR ''Z'' then
      [(''ERG LURKER EGG'', 97)]
     else [])"

definition unitWord :: "(char \<Rightarrow> (string \<times> u16) list) \<Rightarrow> string \<Rightarrow> u16 option" where
  "unitWord words unit = (case unit of [] \<Rightarrow> None | c # rest \<Rightarrow> map_of (words c) rest)"

text \<open>The upper case copy of a name of less than forty characters, as a C string.\<close>

definition unitCopy :: "string \<Rightarrow> string" where
  "unitCopy str = from_ptr (map upperChar str) 0"

definition findStandardUnit :: "string \<Rightarrow> u16 \<Rightarrow> bool \<times> u16" where
  "findStandardUnit str dest =
    (if length str < 40 then
       let unit = unitCopy str in
       if str_at unit 0 = CHR ''I'' \<and> str_at unit 1 = CHR ''D'' \<and> str_at unit 2 = CHR '':'' then parseShort unit dest 3 (length str)
       else foundOr (unitWord standardUnitNames unit) dest
     else (False, dest))"

definition findUnit :: "Compiler \<Rightarrow> string \<Rightarrow> u16 \<Rightarrow> bool \<times> u16" where
  "findUnit cmp str dest =
    (case findStandardUnit str dest of
       (True, dest) \<Rightarrow> (True, dest)
     | (False, dest) \<Rightarrow>
         (case tableLookup (strHash cmp) (unitTable cmp) str of
            Some dest \<Rightarrow> (True, dest)
          | None \<Rightarrow> if length str < 40 then foundOr (unitWord legacyUnitNames (unitCopy str)) dest else (False, dest)))"

definition parseUnitName ::
  "Compiler \<Rightarrow> string \<Rightarrow> string list \<Rightarrow> nat \<Rightarrow> u16 \<Rightarrow> nat \<Rightarrow> nat \<Rightarrow> (bool \<times> u16 \<times> nat) result" where
  "parseUnitName cmp str stringContents nextString dest pos end' =
    (if str_at str pos = QUOTE then
       if size_between pos end' < 2 then Inr (False, dest, nextString)
       else
         bind_result (at_unchecked stringContents nextString) (\<lambda>name.
           case findUnit cmp name dest of (success, dest) \<Rightarrow> Inr (success, dest, nextString + 1))
     else
       case parseShort str dest pos end' of
         (True, dest) \<Rightarrow> Inr (True, dest, nextString)
       | (False, dest) \<Rightarrow>
           (case findUnit cmp (substr str pos (size_between pos end')) dest of
              (success, dest) \<Rightarrow> Inr (success, dest, nextString)))"

section \<open>Players and groups\<close>

text \<open>\<open>number = atoi(argPtr)\<close> at a position of the upper case name.\<close>

definition numberAt :: "string \<Rightarrow> nat \<Rightarrow> u32" where
  "numberAt str i = of_int (ato (from_ptr str i))"

definition playerNumber :: "u32 \<Rightarrow> u32 option" where
  "playerNumber number = (if number \<noteq> 0 \<and> number < 13 \<and> number > 0 then Some (number - 1) else None)"

definition forceNumber :: "u32 \<Rightarrow> u32 option" where
  "forceNumber number = (if number \<noteq> 0 \<and> number < 5 then Some (number - 1 + 18) else None)"

definition isDigit :: "char \<Rightarrow> bool" where
  "isDigit c \<longleftrightarrow> byte c > 47 \<and> byte c < 58"

text \<open>The names of players and groups the code knows; \<open>None\<close> goes on to the force names.\<close>

definition playerWord :: "string \<Rightarrow> u32 option" where
  "playerWord upperStr =
    (let currChar = str_at upperStr 0; second = str_at upperStr 1 in
     if currChar = CHR ''P'' then
       (if second = CHR ''L'' then
          (if compare_at upperStr 2 4 ''AYER'' then playerNumber (numberAt upperStr 6) else None)
        else if isDigit second then playerNumber (numberAt upperStr 2)
        else None)
     else if currChar = CHR ''F'' then
       (if second = CHR ''O'' then
          (if compare_at upperStr 2 3 ''RCE'' then forceNumber (numberAt upperStr 5)
           else if compare_at upperStr 2 2 ''ES'' then Some 14
           else None)
        else if isDigit second then forceNumber (numberAt upperStr 2)
        else None)
     else if currChar = CHR ''A'' then
       (if second = CHR ''L'' then
          (if compare_at upperStr 2 8 ''LPLAYERS'' then Some 17
           else if compare_at upperStr 2 4 ''LIES'' then Some 15
           else None)
        else if second = CHR ''P'' then Some 17
        else None)
     else if currChar = CHR ''C'' then
       (if compare_at upperStr 1 12 ''URRENTPLAYER'' then Some 13
        else if second = CHR ''P'' then Some 13
        else None)
     else if currChar = CHR ''I'' then
       (if compare_at upperStr 1 2 ''D:'' then
          (let number = numberAt upperStr 3 in if number \<noteq> 0 then Some number else None)
        else None)
     else if currChar = CHR ''N'' then
       (if compare_at upperStr 1 13 ''EUTRALPLAYERS'' then Some 16
        else if compare_at upperStr 1 22 ''ONALLIEDVICTORYPLAYERS'' then Some 26
        else if compare_at upperStr 1 3 ''ONE'' then Some 12
        else if compare_at upperStr 1 11 ''ONAVPLAYERS'' then Some 26
        else None)
     else if currChar = CHR ''U'' then
       (if compare_at upperStr 1 13 ''NKNOWN/UNUSED'' then Some 12
        else if compare_at upperStr 1 6 ''NUSED1'' then Some 22
        else if compare_at upperStr 1 6 ''NUSED2'' then Some 23
        else if compare_at upperStr 1 6 ''NUSED3'' then Some 24
        else if compare_at upperStr 1 6 ''NUSED4'' then Some 25
        else None)
     else if isDigit currChar then
       (let number = numberAt upperStr 0 in if number \<noteq> 0 then Some number else None)
     else None)"

definition findPlayer :: "Compiler \<Rightarrow> string \<Rightarrow> u32 \<Rightarrow> bool \<times> u32" where
  "findPlayer cmp str dest =
    (case playerWord (copyArg str 0 (length str)) of
       Some dest \<Rightarrow> (True, dest)
     | None \<Rightarrow> foundOr (tableLookup (strHash cmp) (groupTable cmp) str) dest)"

definition parsePlayer ::
  "Compiler \<Rightarrow> string \<Rightarrow> string list \<Rightarrow> nat \<Rightarrow> u32 \<Rightarrow> nat \<Rightarrow> nat \<Rightarrow> (bool \<times> u32 \<times> nat) result" where
  "parsePlayer cmp str stringContents nextString dest pos end' =
    (if str_at str pos = QUOTE then
       bind_result (at_unchecked stringContents nextString) (\<lambda>name.
         case findPlayer cmp name dest of (success, dest) \<Rightarrow> Inr (success, dest, nextString + 1))
     else
       case parseLong str dest pos end' of
         (True, dest) \<Rightarrow> Inr (True, dest, nextString)
       | (False, dest) \<Rightarrow>
           (case findPlayer cmp (substr str pos (size_between pos end')) dest of
              (success, dest) \<Rightarrow> Inr (success, dest, nextString)))"

section \<open>Switches\<close>

definition findSwitch :: "Compiler \<Rightarrow> string \<Rightarrow> u8 \<Rightarrow> (bool \<times> u8) result" where
  "findSwitch cmp str dest =
    bind_result
      (if length str < 12 then
         bind_result (copyUpperCaseNoSpace (uninit cmp) str) (\<lambda>sw.
           if take 6 sw = ''SWITCH'' then
             let dest = of_int (ato (from_ptr sw 6)) in Inr (if dest \<noteq> 0 then (True, dest - 1) else (False, dest))
           else Inr (False, dest))
       else Inr (False, dest))
      (\<lambda>(success, dest).
         if success then Inr (True, dest) else Inr (foundOr (tableLookup (strHash cmp) (switchTable cmp) str) dest))"

definition parseSwitch ::
  "Compiler \<Rightarrow> string \<Rightarrow> string list \<Rightarrow> nat \<Rightarrow> u8 \<Rightarrow> nat \<Rightarrow> nat \<Rightarrow> (bool \<times> u8 \<times> nat) result" where
  "parseSwitch cmp str stringContents nextString dest pos end' =
    (if str_at str pos = QUOTE then
       bind_result (at_unchecked stringContents nextString) (\<lambda>name.
       bind_result (findSwitch cmp name dest) (\<lambda>(success, dest). Inr (success, dest, nextString + 1)))
     else
       case parseByte str dest pos end' of
         (True, dest) \<Rightarrow> Inr (True, dest, nextString)
       | (False, dest) \<Rightarrow>
           bind_result (findSwitch cmp (substr str pos (size_between pos end')) dest)
             (\<lambda>(success, dest). Inr (success, dest, nextString)))"

definition parseSwitch32 ::
  "Compiler \<Rightarrow> string \<Rightarrow> string list \<Rightarrow> nat \<Rightarrow> u32 \<Rightarrow> nat \<Rightarrow> nat \<Rightarrow> (bool \<times> u32 \<times> nat) result" where
  "parseSwitch32 cmp str stringContents nextString dest pos end' =
    bind_result (parseSwitch cmp str stringContents nextString 0 pos end')
      (\<lambda>(success, temp, nextString). Inr (success, ucast temp, nextString))"

section \<open>Scripts\<close>

text \<open>A script is a name of the table (the first entry met), or four characters that are its id as they stand in memory; four digits without quotes are left to the number parser.\<close>

definition scriptLookup :: "(string \<Rightarrow> nat) \<Rightarrow> (string \<times> u32) list \<Rightarrow> string \<Rightarrow> u32 option" where
  "scriptLookup hash table str =
    (let matches = List.filter (\<lambda>(name, ident). hash name = hash str) table in
     if length matches = 1 then (if fst (hd matches) = str then Some (snd (hd matches)) else None)
     else if length matches > 1 then map_of matches str
     else None)"

definition fourBytes :: "string \<Rightarrow> u32" where
  "fourBytes str = of_nat (byte (str ! 0) + 256 * byte (str ! 1) + 65536 * byte (str ! 2) + 16777216 * byte (str ! 3))"

definition findScript :: "Compiler \<Rightarrow> bool \<Rightarrow> string \<Rightarrow> u32 \<Rightarrow> bool \<times> u32" where
  "findScript cmp isQuoted str dest =
    (case scriptLookup (strHash cmp) (scriptTable cmp) str of
       Some dest \<Rightarrow> (True, dest)
     | None \<Rightarrow>
         if length str = 4 \<and> (isQuoted \<or> \<not> list_all isDigit str) then (True, fourBytes str) else (False, dest))"

definition parseScript ::
  "Compiler \<Rightarrow> string \<Rightarrow> string list \<Rightarrow> nat \<Rightarrow> u32 \<Rightarrow> nat \<Rightarrow> nat \<Rightarrow> (bool \<times> u32 \<times> nat) result" where
  "parseScript cmp str stringContents nextString dest pos end' =
    (if compare_at str pos (size_between pos end') ''NOSCRIPT'' then Inr (True, 0, nextString)
     else if str_at str pos = QUOTE then
       bind_result (at_unchecked stringContents nextString) (\<lambda>name.
         case findScript cmp True name dest of (success, dest) \<Rightarrow> Inr (success, dest, nextString + 1))
     else
       case findScript cmp False (substr str pos (size_between pos end')) dest of
         (success, dest) \<Rightarrow> Inr (success, dest, nextString))"

section \<open>Strings\<close>

text \<open>
  A quoted string is looked up among the strings of the map and those of the text so far. One with an id gives it; for one
  without, the field is noted as an assignee, to be set once the string has been added to the map.
\<close>

definition findString :: "(string \<Rightarrow> nat) \<Rightarrow> StringTableNode list \<Rightarrow> string \<Rightarrow> nat option" where
  "findString hash table str =
    find_index (\<lambda>i. hash (n_str (table ! i)) = hash str \<and> n_str (table ! i) = str) 0 (length table)"

definition useString :: "Compiler \<Rightarrow> nat \<times> nat \<times> bool \<Rightarrow> NewStrings \<Rightarrow> string \<Rightarrow> u32 \<Rightarrow> u32 \<times> NewStrings" where
  "useString cmp assignee ns str dest =
    (case findString (strHash cmp) (newStringTable ns) str of
       Some i \<Rightarrow>
         let node = (newStringTable ns ! i)\<lparr>n_unused := False\<rparr> in
         if n_stringId node = 0
         then (dest, ns\<lparr>newStringTable := (newStringTable ns)[i := node\<lparr>n_assignees := n_assignees node @ [assignee]\<rparr>]\<rparr>)
         else (n_stringId node, ns\<lparr>newStringTable := (newStringTable ns)[i := node]\<rparr>)
     | None \<Rightarrow>
         (dest, ns\<lparr>newStringTable := newStringTable ns @
              [\<lparr>n_unused = False, n_str = str, n_stringId = 0, n_assignees = [assignee]\<rparr>],
            unassignedStrings := unassignedStrings ns @ [length (newStringTable ns)]\<rparr>))"

definition parseString ::
  "Compiler \<Rightarrow> nat \<times> nat \<times> bool \<Rightarrow> string \<Rightarrow> string list \<Rightarrow> NewStrings \<Rightarrow> nat \<Rightarrow> u32 \<Rightarrow> nat \<Rightarrow> nat \<Rightarrow>
     (bool \<times> u32 \<times> nat \<times> NewStrings) result" where
  "parseString cmp assignee str stringContents ns nextString dest pos end' =
    (if compare_at str pos (size_between pos end') ''NOSTRING'' then Inr (True, 0, nextString, ns)
     else if pos < end' \<and> str_at str pos = QUOTE then
       bind_result (at_unchecked stringContents nextString) (\<lambda>name.
         case useString cmp assignee ns name dest of (dest, ns) \<Rightarrow> Inr (True, dest, nextString + 1, ns))
     else case parseLong str dest pos end' of (success, dest) \<Rightarrow> Inr (success, dest, nextString, ns))"

definition parseSoundName ::
  "Compiler \<Rightarrow> nat \<times> nat \<times> bool \<Rightarrow> string \<Rightarrow> string list \<Rightarrow> NewStrings \<Rightarrow> nat \<Rightarrow> u32 \<Rightarrow> nat \<Rightarrow> nat \<Rightarrow>
     (bool \<times> u32 \<times> nat \<times> NewStrings) result" where
  "parseSoundName cmp assignee str stringContents ns nextString dest pos end' =
    (if compare_at str pos (size_between pos end') ''NOWAV'' then Inr (True, 0, nextString, ns)
     else parseString cmp assignee str stringContents ns nextString dest pos end')"

section \<open>Names the generator prints\<close>

definition legacyTextTrigDisplayNames :: "string list" where
  "legacyTextTrigDisplayNames =
    [''Terran Marine'', ''Terran Ghost'', ''Terran Vulture'', ''Terran Goliath'', ''Goliath Turret'',
     ''Terran Siege Tank (Tank Mode)'', ''Tank Turret type 1'', ''Terran SCV'', ''Terran Wraith'',
     ''Terran Science Vessel'', ''Gui Montag (Firebat)'', ''Terran Dropship'', ''Terran Battlecruiser'',
     ''Vulture Spider Mine'', ''Nuclear Missile'', ''Terran Civilian'', ''Sarah Kerrigan (Ghost)'',
     ''Alan Schezar (Goliath)'', ''Alan Turret'', ''Jim Raynor (Vulture)'', ''Jim Raynor (Marine)'',
     ''Tom Kazansky (Wraith)'', ''Magellan (Science Vessel)'', ''Edmund Duke (Siege Tank)'', ''Duke Turret type 1'',
     ''Edmund Duke (Siege Mode)'', ''Duke Turret type 2'', ''Arcturus Mengsk (Battlecruiser)'',
     ''Hyperion (Battlecruiser)'', ''Norad II (Battlecruiser)'', ''Terran Siege Tank (Siege Mode)'', ''Tank Turret type 2'',
     ''Terran Firebat'', ''Scanner Sweep'', ''Terran Medic'', ''Zerg Larva'', ''Zerg Egg'', ''Zerg Zergling'',
     ''Zerg Hydralisk'', ''Zerg Ultralisk'', ''Zerg Broodling'', ''Zerg Drone'', ''Zerg Overlord'', ''Zerg Mutalisk'',
     ''Zerg Guardian'', ''Zerg Queen'', ''Zerg Defiler'', ''Zerg Scourge'', ''Torrasque (Ultralisk)'',
     ''Matriarch (Queen)'', ''Infested Terran'', ''Infested Kerrigan (Infested Terran)'', ''Unclean One (Defiler)'',
     ''Hunter Killer (Hydralisk)'', ''Devouring One (Zergling)'', ''Kukulza (Mutalisk)'', ''Kukulza (Guardian)'',
     ''Yggdrasill (Overlord)'', ''Terran Valkyrie'', ''Cocoon'', ''Protoss Corsair'', ''Protoss Dark Templar'',
     ''Zerg Devourer'', ''Protoss Dark Archon'', ''Protoss Probe'', ''Protoss Zealot'', ''Protoss Dragoon'',
     ''Protoss High Templar'', ''Protoss Archon'', ''Protoss Shuttle'', ''Protoss Scout'', ''Protoss Arbiter'',
     ''Protoss Carrier'', ''Protoss Interceptor'', ''Dark Templar (Hero)'', ''Zeratul (Dark Templar)'',
     ''Tassadar/Zeratul (Archon)'', ''Fenix (Zealot)'', ''Fenix (Dragoon)'', ''Tassadar (Templar)'', ''Mojo (Scout)'',
     ''Warbringer (Reaver)'', ''Gantrithor (Carrier)'', ''Protoss Reaver'', ''Protoss Observer'', ''Protoss Scarab'',
     ''Danimoth (Arbiter)'', ''Aldaris (Templar)'', ''Artanis (Scout)'', ''Rhynadon (Badlands)'', ''Bengalaas (Jungle)'',
     ''Unused type 1'', ''Unused type 2'', ''Scantid (Desert)'', ''Kakaru (Twilight)'', ''Ragnasaur (Ash World)'',
     ''Ursadon (Ice World)'', ''Zerg Lurker Egg'', ''Raszagal (Dark Templar)'', ''Samir Duran (Ghost)'',
     ''Alexei Stukov (Ghost)'', ''Map Revealer'', ''Gerard DuGalle (Ghost)'', ''Zerg Lurker'', ''Infested Duran'',
     ''Disruption Field'', ''Terran Command Center'', ''Terran Comsat Station'', ''Terran Nuclear Silo'',
     ''Terran Supply Depot'', ''Terran Refinery'', ''Terran Barracks'', ''Terran Academy'', ''Terran Factory'',
     ''Terran Starport'', ''Terran Control Tower'', ''Terran Science Facility'', ''Terran Covert Ops'',
     ''Terran Physics Lab'', ''Unused Terran Bldg type 1'', ''Terran Machine Shop'', ''Unused Terran Bldg type 2'',
     ''Terran Engineering Bay'', ''Terran Armory'', ''Terran Missile Turret'', ''Terran Bunker'',
     ''Norad II (Crashed Battlecruiser)'', ''Ion Cannon'', ''Uraj Crystal'', ''Khalis Crystal'',
     ''Infested Command Center'', ''Zerg Hatchery'', ''Zerg Lair'', ''Zerg Hive'', ''Zerg Nydus Canal'',
     ''Zerg Hydralisk Den'', ''Zerg Defiler Mound'', ''Zerg Greater Spire'', ''Zerg Queen's Nest'',
     ''Zerg Evolution Chamber'', ''Zerg Ultralisk Cavern'', ''Zerg Spire'', ''Zerg Spawning Pool'', ''Zerg Creep Colony'',
     ''Zerg Spore Colony'', ''Unused Zerg Bldg'', ''Zerg Sunken Colony'', ''Zerg Overmind (With Shell)'', ''Zerg Overmind'',
     ''Zerg Extractor'', ''Mature Crysalis'', ''Zerg Cerebrate'', ''Zerg Cerebrate Daggoth'', ''Unused Zerg Bldg 5'',
     ''Protoss Nexus'', ''Protoss Robotics Facility'', ''Protoss Pylon'', ''Protoss Assimilator'',
     ''Protoss Unused type 1'', ''Protoss Observatory'', ''Protoss Gateway'', ''Protoss Unused type 2'',
     ''Protoss Photon Cannon'', ''Protoss Citadel of Adun'', ''Protoss Cybernetics Core'', ''Protoss Templar Archives'',
     ''Protoss Forge'', ''Protoss Stargate'', ''Stasis Cell/Prison'', ''Protoss Fleet Beacon'',
     ''Protoss Arbiter Tribunal'', ''Protoss Robotics Support Bay'', ''Protoss Shield Battery'',
     ''Khaydarin Crystal Formation'', ''Protoss Temple'', ''Xel'Naga Temple'', ''Mineral Field (Type 1)'',
     ''Mineral Field (Type 2)'', ''Mineral Field (Type 3)'', ''Cave'', ''Cave-in'', ''Cantina'', ''Mining Platform'',
     ''Independent Command Center'', ''Independent Starport'', ''Jump Gate'', ''Ruins'', ''Kyadarin Crystal Formation'',
     ''Vespene Geyser'', ''Warp Gate'', ''Psi Disrupter'', ''Zerg Marker'', ''Terran Marker'', ''Protoss Marker'',
     ''Zerg Beacon'', ''Terran Beacon'', ''Protoss Beacon'', ''Zerg Flag Beacon'', ''Terran Flag Beacon'',
     ''Protoss Flag Beacon'', ''Power Generator'', ''Overmind Cocoon'', ''Dark Swarm'', ''Floor Missile Trap'',
     ''Floor Hatch (UNUSED)'', ''Left Upper Level Door'', ''Right Upper Level Door'', ''Left Pit Door'', ''Right Pit Door'',
     ''Floor Gun Trap'', ''Left Wall Missile Trap'', ''Left Wall Flame Trap'', ''Right Wall Missile Trap'',
     ''Right Wall Flame Trap'', ''Start Location'', ''Flag'', ''Young Chrysalis'', ''Psi Emitter'', ''Data Disc'',
     ''Khaydarin Crystal'', ''Mineral Chunk (Type 1)'', ''Mineral Chunk (Type 2)'', ''Vespene Orb (Protoss Type 1)'',
     ''Vespene Orb (Protoss Type 2)'', ''Vespene Sac (Zerg Type 1)'', ''Vespene Sac (Zerg Type 2)'',
     ''Vespene Tank (Terran Type 1)'', ''Vespene Tank (Terran Type 2)'', ''Invalid Unit'', ''Any unit'', ''Men'',
     ''Buildings'', ''Factories'']"

section \<open>Looking a name up\<close>

lemma Min_insert_insert:
  "finite S \<Longrightarrow> Min (insert x (insert (y::'a::linorder) S)) = Min (insert (min y x) S)"
  by (cases "S = {}") (auto simp: min.assoc min.commute min.left_commute)

lemma smallestMatch_Some:
  "smallestMatch str matches (Some dest) = Some (Min (insert dest (snd ` {e \<in> set matches. fst e = str})))"
proof (induction matches arbitrary: dest)
  case (Cons e matches)
  obtain name ident where e: "e = (name, ident)" by fastforce
  let ?S = "snd ` {e \<in> set matches. fst e = str}"
  show ?case
  proof (cases "name = str")
    case True
    then have "snd ` {e' \<in> set (e # matches). fst e' = str} = insert ident ?S" using e by force
    then have "Min (insert dest (snd ` {e' \<in> set (e # matches). fst e' = str})) = Min (insert (min ident dest) ?S)"
      by (simp only: Min_insert_insert finite_imageI finite_Collect_conjI finite_set List.finite_set Collect_mem_eq)
        (subst Min_insert_insert, auto)
    moreover have "smallestMatch str (e # matches) (Some dest) = smallestMatch str matches (Some (min ident dest))"
      by (auto simp: e True min_def)
    ultimately show ?thesis by (simp only: Cons.IH)
  next
    case False
    then have "{e' \<in> set (e # matches). fst e' = str} = {e' \<in> set matches. fst e' = str}" using e by auto
    then show ?thesis using Cons.IH e False by simp
  qed
qed simp

lemma smallestMatch_None:
  "smallestMatch str matches None =
    (let ids = snd ` {e \<in> set matches. fst e = str} in if ids = {} then None else Some (Min ids))"
proof (induction matches)
  case (Cons e matches)
  obtain name ident where e: "e = (name, ident)" by fastforce
  show ?case
  proof (cases "name = str")
    case True
    then have "snd ` {e' \<in> set (e # matches). fst e' = str} = insert ident (snd ` {e \<in> set matches. fst e = str})"
      using e by force
    then show ?thesis using e True smallestMatch_Some by (simp add: Let_def)
  next
    case False
    then have "{e' \<in> set (e # matches). fst e' = str} = {e' \<in> set matches. fst e' = str}" using e by auto
    then show ?thesis using Cons.IH e False by simp
  qed
qed simp

lemma tableLookup_spec:
  "tableLookup hash table str =
    (let ids = snd ` {e \<in> set table. fst e = str} in if ids = {} then None else Some (Min ids))"
proof -
  define matches where "matches = List.filter (\<lambda>(name, ident). hash name = hash str) table"
  define ids where "ids = snd ` {e \<in> set table. fst e = str}"
  have same: "snd ` {e \<in> set matches. fst e = str} = ids"
    unfolding ids_def matches_def by (rule arg_cong [where f = "image snd"]) auto
  have lookup: "tableLookup hash table str =
      (if length matches = 1 then (if fst (hd matches) = str then Some (snd (hd matches)) else None)
       else if length matches > 1 then smallestMatch str matches None else None)"
    by (simp add: tableLookup_def matches_def Let_def)
  have "tableLookup hash table str = (if ids = {} then None else Some (Min ids))"
  proof (cases matches)
    case Nil
    then have "ids = {}" using same by simp
    then show ?thesis using Nil lookup by simp
  next
    case (Cons e rest)
    show ?thesis
    proof (cases rest)
      case Nil
      then have "ids = (if fst e = str then {snd e} else {})" using same Cons by (auto simp: image_iff)
      then show ?thesis using Nil Cons lookup by simp
    next
      case (Cons e' rest')
      then have "tableLookup hash table str = smallestMatch str matches None" using \<open>matches = e # rest\<close> lookup by simp
      then show ?thesis by (simp only: smallestMatch_None same Let_def)
    qed
  qed
  then show ?thesis by (simp only: ids_def Let_def)
qed

section \<open>Printed names\<close>

lemma upperChar_marks [simp]:
  "upperChar (CHR '' '') = CHR '' ''" "upperChar (CHR ''/'') = CHR ''/''" "upperChar (CHR 0x27) = CHR 0x27"
  "upperChar (CHR ''['') = CHR ''[''" "upperChar (CHR '']'') = CHR '']''"
  by (simp_all add: upperChar_def isLower_def byte_def)

lemma unitCopy_printed:
  "map unitCopy legacyTextTrigDisplayNames =
    [''TERRAN MARINE'', ''TERRAN GHOST'', ''TERRAN VULTURE'', ''TERRAN GOLIATH'', ''GOLIATH TURRET'',
     ''TERRAN SIEGE TANK (TANK MODE)'', ''TANK TURRET TYPE 1'', ''TERRAN SCV'', ''TERRAN WRAITH'',
     ''TERRAN SCIENCE VESSEL'', ''GUI MONTAG (FIREBAT)'', ''TERRAN DROPSHIP'', ''TERRAN BATTLECRUISER'',
     ''VULTURE SPIDER MINE'', ''NUCLEAR MISSILE'', ''TERRAN CIVILIAN'', ''SARAH KERRIGAN (GHOST)'',
     ''ALAN SCHEZAR (GOLIATH)'', ''ALAN TURRET'', ''JIM RAYNOR (VULTURE)'', ''JIM RAYNOR (MARINE)'',
     ''TOM KAZANSKY (WRAITH)'', ''MAGELLAN (SCIENCE VESSEL)'', ''EDMUND DUKE (SIEGE TANK)'', ''DUKE TURRET TYPE 1'',
     ''EDMUND DUKE (SIEGE MODE)'', ''DUKE TURRET TYPE 2'', ''ARCTURUS MENGSK (BATTLECRUISER)'',
     ''HYPERION (BATTLECRUISER)'', ''NORAD II (BATTLECRUISER)'', ''TERRAN SIEGE TANK (SIEGE MODE)'', ''TANK TURRET TYPE 2'',
     ''TERRAN FIREBAT'', ''SCANNER SWEEP'', ''TERRAN MEDIC'', ''ZERG LARVA'', ''ZERG EGG'', ''ZERG ZERGLING'',
     ''ZERG HYDRALISK'', ''ZERG ULTRALISK'', ''ZERG BROODLING'', ''ZERG DRONE'', ''ZERG OVERLORD'', ''ZERG MUTALISK'',
     ''ZERG GUARDIAN'', ''ZERG QUEEN'', ''ZERG DEFILER'', ''ZERG SCOURGE'', ''TORRASQUE (ULTRALISK)'',
     ''MATRIARCH (QUEEN)'', ''INFESTED TERRAN'', ''INFESTED KERRIGAN (INFESTED TERRAN)'', ''UNCLEAN ONE (DEFILER)'',
     ''HUNTER KILLER (HYDRALISK)'', ''DEVOURING ONE (ZERGLING)'', ''KUKULZA (MUTALISK)'', ''KUKULZA (GUARDIAN)'',
     ''YGGDRASILL (OVERLORD)'', ''TERRAN VALKYRIE'', ''COCOON'', ''PROTOSS CORSAIR'', ''PROTOSS DARK TEMPLAR'',
     ''ZERG DEVOURER'', ''PROTOSS DARK ARCHON'', ''PROTOSS PROBE'', ''PROTOSS ZEALOT'', ''PROTOSS DRAGOON'',
     ''PROTOSS HIGH TEMPLAR'', ''PROTOSS ARCHON'', ''PROTOSS SHUTTLE'', ''PROTOSS SCOUT'', ''PROTOSS ARBITER'',
     ''PROTOSS CARRIER'', ''PROTOSS INTERCEPTOR'', ''DARK TEMPLAR (HERO)'', ''ZERATUL (DARK TEMPLAR)'',
     ''TASSADAR/ZERATUL (ARCHON)'', ''FENIX (ZEALOT)'', ''FENIX (DRAGOON)'', ''TASSADAR (TEMPLAR)'', ''MOJO (SCOUT)'',
     ''WARBRINGER (REAVER)'', ''GANTRITHOR (CARRIER)'', ''PROTOSS REAVER'', ''PROTOSS OBSERVER'', ''PROTOSS SCARAB'',
     ''DANIMOTH (ARBITER)'', ''ALDARIS (TEMPLAR)'', ''ARTANIS (SCOUT)'', ''RHYNADON (BADLANDS)'', ''BENGALAAS (JUNGLE)'',
     ''UNUSED TYPE 1'', ''UNUSED TYPE 2'', ''SCANTID (DESERT)'', ''KAKARU (TWILIGHT)'', ''RAGNASAUR (ASH WORLD)'',
     ''URSADON (ICE WORLD)'', ''ZERG LURKER EGG'', ''RASZAGAL (DARK TEMPLAR)'', ''SAMIR DURAN (GHOST)'',
     ''ALEXEI STUKOV (GHOST)'', ''MAP REVEALER'', ''GERARD DUGALLE (GHOST)'', ''ZERG LURKER'', ''INFESTED DURAN'',
     ''DISRUPTION FIELD'', ''TERRAN COMMAND CENTER'', ''TERRAN COMSAT STATION'', ''TERRAN NUCLEAR SILO'',
     ''TERRAN SUPPLY DEPOT'', ''TERRAN REFINERY'', ''TERRAN BARRACKS'', ''TERRAN ACADEMY'', ''TERRAN FACTORY'',
     ''TERRAN STARPORT'', ''TERRAN CONTROL TOWER'', ''TERRAN SCIENCE FACILITY'', ''TERRAN COVERT OPS'',
     ''TERRAN PHYSICS LAB'', ''UNUSED TERRAN BLDG TYPE 1'', ''TERRAN MACHINE SHOP'', ''UNUSED TERRAN BLDG TYPE 2'',
     ''TERRAN ENGINEERING BAY'', ''TERRAN ARMORY'', ''TERRAN MISSILE TURRET'', ''TERRAN BUNKER'',
     ''NORAD II (CRASHED BATTLECRUISER)'', ''ION CANNON'', ''URAJ CRYSTAL'', ''KHALIS CRYSTAL'',
     ''INFESTED COMMAND CENTER'', ''ZERG HATCHERY'', ''ZERG LAIR'', ''ZERG HIVE'', ''ZERG NYDUS CANAL'',
     ''ZERG HYDRALISK DEN'', ''ZERG DEFILER MOUND'', ''ZERG GREATER SPIRE'', ''ZERG QUEEN'S NEST'',
     ''ZERG EVOLUTION CHAMBER'', ''ZERG ULTRALISK CAVERN'', ''ZERG SPIRE'', ''ZERG SPAWNING POOL'', ''ZERG CREEP COLONY'',
     ''ZERG SPORE COLONY'', ''UNUSED ZERG BLDG'', ''ZERG SUNKEN COLONY'', ''ZERG OVERMIND (WITH SHELL)'', ''ZERG OVERMIND'',
     ''ZERG EXTRACTOR'', ''MATURE CRYSALIS'', ''ZERG CEREBRATE'', ''ZERG CEREBRATE DAGGOTH'', ''UNUSED ZERG BLDG 5'',
     ''PROTOSS NEXUS'', ''PROTOSS ROBOTICS FACILITY'', ''PROTOSS PYLON'', ''PROTOSS ASSIMILATOR'',
     ''PROTOSS UNUSED TYPE 1'', ''PROTOSS OBSERVATORY'', ''PROTOSS GATEWAY'', ''PROTOSS UNUSED TYPE 2'',
     ''PROTOSS PHOTON CANNON'', ''PROTOSS CITADEL OF ADUN'', ''PROTOSS CYBERNETICS CORE'', ''PROTOSS TEMPLAR ARCHIVES'',
     ''PROTOSS FORGE'', ''PROTOSS STARGATE'', ''STASIS CELL/PRISON'', ''PROTOSS FLEET BEACON'',
     ''PROTOSS ARBITER TRIBUNAL'', ''PROTOSS ROBOTICS SUPPORT BAY'', ''PROTOSS SHIELD BATTERY'',
     ''KHAYDARIN CRYSTAL FORMATION'', ''PROTOSS TEMPLE'', ''XEL'NAGA TEMPLE'', ''MINERAL FIELD (TYPE 1)'',
     ''MINERAL FIELD (TYPE 2)'', ''MINERAL FIELD (TYPE 3)'', ''CAVE'', ''CAVE-IN'', ''CANTINA'', ''MINING PLATFORM'',
     ''INDEPENDENT COMMAND CENTER'', ''INDEPENDENT STARPORT'', ''JUMP GATE'', ''RUINS'', ''KYADARIN CRYSTAL FORMATION'',
     ''VESPENE GEYSER'', ''WARP GATE'', ''PSI DISRUPTER'', ''ZERG MARKER'', ''TERRAN MARKER'', ''PROTOSS MARKER'',
     ''ZERG BEACON'', ''TERRAN BEACON'', ''PROTOSS BEACON'', ''ZERG FLAG BEACON'', ''TERRAN FLAG BEACON'',
     ''PROTOSS FLAG BEACON'', ''POWER GENERATOR'', ''OVERMIND COCOON'', ''DARK SWARM'', ''FLOOR MISSILE TRAP'',
     ''FLOOR HATCH (UNUSED)'', ''LEFT UPPER LEVEL DOOR'', ''RIGHT UPPER LEVEL DOOR'', ''LEFT PIT DOOR'', ''RIGHT PIT DOOR'',
     ''FLOOR GUN TRAP'', ''LEFT WALL MISSILE TRAP'', ''LEFT WALL FLAME TRAP'', ''RIGHT WALL MISSILE TRAP'',
     ''RIGHT WALL FLAME TRAP'', ''START LOCATION'', ''FLAG'', ''YOUNG CHRYSALIS'', ''PSI EMITTER'', ''DATA DISC'',
     ''KHAYDARIN CRYSTAL'', ''MINERAL CHUNK (TYPE 1)'', ''MINERAL CHUNK (TYPE 2)'', ''VESPENE ORB (PROTOSS TYPE 1)'',
     ''VESPENE ORB (PROTOSS TYPE 2)'', ''VESPENE SAC (ZERG TYPE 1)'', ''VESPENE SAC (ZERG TYPE 2)'',
     ''VESPENE TANK (TERRAN TYPE 1)'', ''VESPENE TANK (TERRAN TYPE 2)'', ''INVALID UNIT'', ''ANY UNIT'', ''MEN'',
     ''BUILDINGS'', ''FACTORIES'']"
  by (simp add: legacyTextTrigDisplayNames_def unitCopy_def from_ptr_def)

definition unitNumber :: "string \<Rightarrow> u16 option" where
  "unitNumber unit = (case unitWord standardUnitNames unit of Some v \<Rightarrow> Some v | None \<Rightarrow> unitWord legacyUnitNames unit)"

lemma unitNumber_printed:
  "map unitNumber
    [''TERRAN MARINE'', ''TERRAN GHOST'', ''TERRAN VULTURE'', ''TERRAN GOLIATH'', ''GOLIATH TURRET'',
     ''TERRAN SIEGE TANK (TANK MODE)'', ''TANK TURRET TYPE 1'', ''TERRAN SCV'', ''TERRAN WRAITH'',
     ''TERRAN SCIENCE VESSEL'', ''GUI MONTAG (FIREBAT)'', ''TERRAN DROPSHIP'', ''TERRAN BATTLECRUISER'',
     ''VULTURE SPIDER MINE'', ''NUCLEAR MISSILE'', ''TERRAN CIVILIAN'', ''SARAH KERRIGAN (GHOST)'',
     ''ALAN SCHEZAR (GOLIATH)'', ''ALAN TURRET'', ''JIM RAYNOR (VULTURE)'', ''JIM RAYNOR (MARINE)'',
     ''TOM KAZANSKY (WRAITH)'', ''MAGELLAN (SCIENCE VESSEL)'', ''EDMUND DUKE (SIEGE TANK)'', ''DUKE TURRET TYPE 1'',
     ''EDMUND DUKE (SIEGE MODE)'', ''DUKE TURRET TYPE 2'', ''ARCTURUS MENGSK (BATTLECRUISER)'',
     ''HYPERION (BATTLECRUISER)'', ''NORAD II (BATTLECRUISER)'', ''TERRAN SIEGE TANK (SIEGE MODE)'', ''TANK TURRET TYPE 2'',
     ''TERRAN FIREBAT'', ''SCANNER SWEEP'', ''TERRAN MEDIC'', ''ZERG LARVA'', ''ZERG EGG'', ''ZERG ZERGLING'',
     ''ZERG HYDRALISK'', ''ZERG ULTRALISK'', ''ZERG BROODLING'', ''ZERG DRONE'', ''ZERG OVERLORD'', ''ZERG MUTALISK'',
     ''ZERG GUARDIAN'', ''ZERG QUEEN'', ''ZERG DEFILER'', ''ZERG SCOURGE'', ''TORRASQUE (ULTRALISK)'',
     ''MATRIARCH (QUEEN)'', ''INFESTED TERRAN'', ''INFESTED KERRIGAN (INFESTED TERRAN)'', ''UNCLEAN ONE (DEFILER)'',
     ''HUNTER KILLER (HYDRALISK)'', ''DEVOURING ONE (ZERGLING)'', ''KUKULZA (MUTALISK)'', ''KUKULZA (GUARDIAN)'',
     ''YGGDRASILL (OVERLORD)'', ''TERRAN VALKYRIE'', ''COCOON'', ''PROTOSS CORSAIR'', ''PROTOSS DARK TEMPLAR'',
     ''ZERG DEVOURER'', ''PROTOSS DARK ARCHON'', ''PROTOSS PROBE'', ''PROTOSS ZEALOT'', ''PROTOSS DRAGOON'',
     ''PROTOSS HIGH TEMPLAR'', ''PROTOSS ARCHON'', ''PROTOSS SHUTTLE'', ''PROTOSS SCOUT'', ''PROTOSS ARBITER'',
     ''PROTOSS CARRIER'', ''PROTOSS INTERCEPTOR'', ''DARK TEMPLAR (HERO)'', ''ZERATUL (DARK TEMPLAR)'',
     ''TASSADAR/ZERATUL (ARCHON)'', ''FENIX (ZEALOT)'', ''FENIX (DRAGOON)'', ''TASSADAR (TEMPLAR)'', ''MOJO (SCOUT)'',
     ''WARBRINGER (REAVER)'', ''GANTRITHOR (CARRIER)'', ''PROTOSS REAVER'', ''PROTOSS OBSERVER'', ''PROTOSS SCARAB'',
     ''DANIMOTH (ARBITER)'', ''ALDARIS (TEMPLAR)'', ''ARTANIS (SCOUT)'', ''RHYNADON (BADLANDS)'', ''BENGALAAS (JUNGLE)'',
     ''UNUSED TYPE 1'', ''UNUSED TYPE 2'', ''SCANTID (DESERT)'', ''KAKARU (TWILIGHT)'', ''RAGNASAUR (ASH WORLD)'',
     ''URSADON (ICE WORLD)'', ''ZERG LURKER EGG'', ''RASZAGAL (DARK TEMPLAR)'', ''SAMIR DURAN (GHOST)'',
     ''ALEXEI STUKOV (GHOST)'', ''MAP REVEALER'', ''GERARD DUGALLE (GHOST)'', ''ZERG LURKER'', ''INFESTED DURAN'',
     ''DISRUPTION FIELD'', ''TERRAN COMMAND CENTER'', ''TERRAN COMSAT STATION'', ''TERRAN NUCLEAR SILO'',
     ''TERRAN SUPPLY DEPOT'', ''TERRAN REFINERY'', ''TERRAN BARRACKS'', ''TERRAN ACADEMY'', ''TERRAN FACTORY'',
     ''TERRAN STARPORT'', ''TERRAN CONTROL TOWER'', ''TERRAN SCIENCE FACILITY'', ''TERRAN COVERT OPS'',
     ''TERRAN PHYSICS LAB'', ''UNUSED TERRAN BLDG TYPE 1'', ''TERRAN MACHINE SHOP'', ''UNUSED TERRAN BLDG TYPE 2'',
     ''TERRAN ENGINEERING BAY'', ''TERRAN ARMORY'', ''TERRAN MISSILE TURRET'', ''TERRAN BUNKER'',
     ''NORAD II (CRASHED BATTLECRUISER)'', ''ION CANNON'', ''URAJ CRYSTAL'', ''KHALIS CRYSTAL'',
     ''INFESTED COMMAND CENTER'', ''ZERG HATCHERY'', ''ZERG LAIR'', ''ZERG HIVE'', ''ZERG NYDUS CANAL'',
     ''ZERG HYDRALISK DEN'', ''ZERG DEFILER MOUND'', ''ZERG GREATER SPIRE'', ''ZERG QUEEN'S NEST'',
     ''ZERG EVOLUTION CHAMBER'', ''ZERG ULTRALISK CAVERN'', ''ZERG SPIRE'', ''ZERG SPAWNING POOL'', ''ZERG CREEP COLONY'',
     ''ZERG SPORE COLONY'', ''UNUSED ZERG BLDG'', ''ZERG SUNKEN COLONY'', ''ZERG OVERMIND (WITH SHELL)'', ''ZERG OVERMIND'',
     ''ZERG EXTRACTOR'', ''MATURE CRYSALIS'', ''ZERG CEREBRATE'', ''ZERG CEREBRATE DAGGOTH'', ''UNUSED ZERG BLDG 5'',
     ''PROTOSS NEXUS'', ''PROTOSS ROBOTICS FACILITY'', ''PROTOSS PYLON'', ''PROTOSS ASSIMILATOR'',
     ''PROTOSS UNUSED TYPE 1'', ''PROTOSS OBSERVATORY'', ''PROTOSS GATEWAY'', ''PROTOSS UNUSED TYPE 2'',
     ''PROTOSS PHOTON CANNON'', ''PROTOSS CITADEL OF ADUN'', ''PROTOSS CYBERNETICS CORE'', ''PROTOSS TEMPLAR ARCHIVES'',
     ''PROTOSS FORGE'', ''PROTOSS STARGATE'', ''STASIS CELL/PRISON'', ''PROTOSS FLEET BEACON'',
     ''PROTOSS ARBITER TRIBUNAL'', ''PROTOSS ROBOTICS SUPPORT BAY'', ''PROTOSS SHIELD BATTERY'',
     ''KHAYDARIN CRYSTAL FORMATION'', ''PROTOSS TEMPLE'', ''XEL'NAGA TEMPLE'', ''MINERAL FIELD (TYPE 1)'',
     ''MINERAL FIELD (TYPE 2)'', ''MINERAL FIELD (TYPE 3)'', ''CAVE'', ''CAVE-IN'', ''CANTINA'', ''MINING PLATFORM'',
     ''INDEPENDENT COMMAND CENTER'', ''INDEPENDENT STARPORT'', ''JUMP GATE'', ''RUINS'', ''KYADARIN CRYSTAL FORMATION'',
     ''VESPENE GEYSER'', ''WARP GATE'', ''PSI DISRUPTER'', ''ZERG MARKER'', ''TERRAN MARKER'', ''PROTOSS MARKER'',
     ''ZERG BEACON'', ''TERRAN BEACON'', ''PROTOSS BEACON'', ''ZERG FLAG BEACON'', ''TERRAN FLAG BEACON'',
     ''PROTOSS FLAG BEACON'', ''POWER GENERATOR'', ''OVERMIND COCOON'', ''DARK SWARM'', ''FLOOR MISSILE TRAP'',
     ''FLOOR HATCH (UNUSED)'', ''LEFT UPPER LEVEL DOOR'', ''RIGHT UPPER LEVEL DOOR'', ''LEFT PIT DOOR'', ''RIGHT PIT DOOR'',
     ''FLOOR GUN TRAP'', ''LEFT WALL MISSILE TRAP'', ''LEFT WALL FLAME TRAP'', ''RIGHT WALL MISSILE TRAP'',
     ''RIGHT WALL FLAME TRAP'', ''START LOCATION'', ''FLAG'', ''YOUNG CHRYSALIS'', ''PSI EMITTER'', ''DATA DISC'',
     ''KHAYDARIN CRYSTAL'', ''MINERAL CHUNK (TYPE 1)'', ''MINERAL CHUNK (TYPE 2)'', ''VESPENE ORB (PROTOSS TYPE 1)'',
     ''VESPENE ORB (PROTOSS TYPE 2)'', ''VESPENE SAC (ZERG TYPE 1)'', ''VESPENE SAC (ZERG TYPE 2)'',
     ''VESPENE TANK (TERRAN TYPE 1)'', ''VESPENE TANK (TERRAN TYPE 2)'', ''INVALID UNIT'', ''ANY UNIT'', ''MEN'',
     ''BUILDINGS'', ''FACTORIES'']
   = map Some
    [0, 1, 2, 3, 4, 5, 6, 7, 8, 9, 10, 11, 12, 13, 14, 15, 16, 17, 18, 19, 20, 21, 22, 23, 24, 25, 26, 27, 28, 29,
     30, 31, 32, 33, 34, 35, 36, 37, 38, 39, 40, 41, 42, 43, 44, 45, 46, 47, 48, 49, 50, 51, 52, 53, 54, 55, 56, 57, 58, 59,
     60, 61, 62, 63, 64, 65, 66, 67, 68, 69, 70, 71, 72, 73, 74, 75, 76, 77, 78, 79, 80, 81, 82, 83, 84, 85, 86, 87, 88, 89,
     90, 91, 92, 93, 94, 95, 96, 97, 98, 99, 100, 101, 102, 103, 104, 105, 106, 107, 108, 109, 110, 111, 112, 113, 114, 115, 116, 117, 118, 119,
     120, 121, 122, 123, 124, 125, 126, 127, 128, 129, 130, 131, 132, 133, 134, 135, 136, 137, 138, 139, 140, 141, 142, 143, 144, 145, 146, 147, 148, 149,
     150, 151, 152, 153, 154, 155, 156, 157, 158, 159, 160, 161, 162, 163, 164, 165, 166, 167, 168, 169, 170, 171, 172, 173, 174, 175, 176, 177, 178, 179,
     180, 181, 182, 183, 184, 185, 186, 187, 188, 189, 190, 191, 192, 193, 194, 195, 196, 197, 198, 199, 200, 201, 202, 203, 204, 205, 206, 207, 208, 209,
     210, 211, 212, 213, 214, 215, 216, 217, 218, 219, 220, 221, 222, 223, 224, 225, 226, 227, 228, 229, 230, 231, 232]"
  by code_simp

definition lowerGroups :: "string list" where
  "lowerGroups =
    [''Player 1'', ''Player 2'', ''Player 3'', ''Player 4'', ''Player 5'', ''Player 6'', ''Player 7'', ''Player 8'', ''Player 9'',
     ''Player 10'', ''Player 11'', ''Player 12'', ''unknown/unused'', ''Current Player'', ''Foes'', ''Allies'', ''Neutral Players'',
     ''All players'']"

definition upperGroups :: "string list" where
  "upperGroups = [''22'', ''23'', ''24'', ''25'', ''Non Allied Victory Players'', ''unknown/unused'']"

definition unnamedForce :: "nat \<Rightarrow> string" where
  "unnamedForce i = ''Force '' @ to_string i"

definition playerOf :: "string \<Rightarrow> u32 option" where
  "playerOf name = playerWord (copyArg name 0 (length name))"

lemmas eval_player = playerOf_def copyArg_def playerWord_def Let_def str_at_def substr_def compare_at_def
  numberAt_def playerNumber_def forceNumber_def ato_def strtoll_def from_ptr_def isSpace_def digitValue_def digitsValue_def
  byte_def isDigit_def

lemma lower_groups: "map playerOf lowerGroups = map Some [0, 1, 2, 3, 4, 5, 6, 7, 8, 9, 10, 11, 12, 13, 14, 15, 16, 17]"
  by (simp add: lowerGroups_def eval_player)

lemma upper_groups: "map playerOf upperGroups = map Some [22, 23, 24, 25, 26, 12]"
  by (simp add: upperGroups_def eval_player)

lemma unnamed_forces: "map unnamedForce [0, 1, 2, 3] = [''Force 0'', ''Force 1'', ''Force 2'', ''Force 3'']"
  by code_simp

lemma force_names: "map playerOf [''Force 0'', ''Force 1'', ''Force 2'', ''Force 3''] = [None, Some 18, Some 19, Some 20]"
  by (simp add: eval_player)

lemma findPlayer_word: "playerOf name = Some v \<Longrightarrow> findPlayer cmp name dest = (True, v)"
  by (simp add: findPlayer_def playerOf_def)

lemma map_findPlayer: "map playerOf names = map Some vs \<Longrightarrow> map (\<lambda>name. findPlayer cmp name dest) names = map (Pair True) vs"
  by (induction names arbitrary: vs) (auto simp: findPlayer_word Cons_eq_map_conv)

lemma findUnit_printed:
  assumes "unitNumber (unitCopy name) = Some v" "length name < 40" "tableLookup (strHash cmp) (unitTable cmp) name = None"
    "\<not> (str_at (unitCopy name) 0 = CHR ''I'' \<and> str_at (unitCopy name) 1 = CHR ''D'')"
  shows "findUnit cmp name dest = (True, v)"
  using assms
  by (auto simp: findUnit_def findStandardUnit_def unitNumber_def foundOr_def Let_def split: option.splits)

lemma printed_units_short:
  "list_all (\<lambda>name. length name < 40) legacyTextTrigDisplayNames"
  by (simp add: legacyTextTrigDisplayNames_def)

lemma printed_units_no_id:
  "list_all (\<lambda>unit. \<not> (str_at unit 0 = CHR ''I'' \<and> str_at unit 1 = CHR ''D'')) (map unitCopy legacyTextTrigDisplayNames)"
  unfolding unitCopy_printed by (simp add: str_at_def)

lemma map_findUnit:
  assumes "map unitNumber (map unitCopy names) = map Some vs" "list_all (\<lambda>name. length name < 40) names"
    "list_all (\<lambda>unit. \<not> (str_at unit 0 = CHR ''I'' \<and> str_at unit 1 = CHR ''D'')) (map unitCopy names)"
    "\<forall>name\<in>set names. tableLookup (strHash cmp) (unitTable cmp) name = None"
  shows "map (\<lambda>name. findUnit cmp name dest) names = map (Pair True) vs"
  using assms by (induction names arbitrary: vs) (auto simp: findUnit_printed Cons_eq_map_conv)

lemma unit_numbers: "map of_nat [0..<233] = ([0, 1, 2, 3, 4, 5, 6, 7, 8, 9, 10, 11, 12, 13, 14, 15, 16, 17, 18, 19, 20, 21, 22, 23, 24, 25, 26, 27, 28, 29,
     30, 31, 32, 33, 34, 35, 36, 37, 38, 39, 40, 41, 42, 43, 44, 45, 46, 47, 48, 49, 50, 51, 52, 53, 54, 55, 56, 57, 58, 59,
     60, 61, 62, 63, 64, 65, 66, 67, 68, 69, 70, 71, 72, 73, 74, 75, 76, 77, 78, 79, 80, 81, 82, 83, 84, 85, 86, 87, 88, 89,
     90, 91, 92, 93, 94, 95, 96, 97, 98, 99, 100, 101, 102, 103, 104, 105, 106, 107, 108, 109, 110, 111, 112, 113, 114, 115, 116, 117, 118, 119,
     120, 121, 122, 123, 124, 125, 126, 127, 128, 129, 130, 131, 132, 133, 134, 135, 136, 137, 138, 139, 140, 141, 142, 143, 144, 145, 146, 147, 148, 149,
     150, 151, 152, 153, 154, 155, 156, 157, 158, 159, 160, 161, 162, 163, 164, 165, 166, 167, 168, 169, 170, 171, 172, 173, 174, 175, 176, 177, 178, 179,
     180, 181, 182, 183, 184, 185, 186, 187, 188, 189, 190, 191, 192, 193, 194, 195, 196, 197, 198, 199, 200, 201, 202, 203, 204, 205, 206, 207, 208, 209,
     210, 211, 212, 213, 214, 215, 216, 217, 218, 219, 220, 221, 222, 223, 224, 225, 226, 227, 228, 229, 230, 231, 232] :: u16 list)"
  by (simp add: upt_conv_Cons)

lemma printed_unit_numbers: "map unitNumber (map unitCopy legacyTextTrigDisplayNames) = map Some (map of_nat [0..<233])"
  unfolding unitCopy_printed unitNumber_printed unit_numbers ..


definition exampleCompiler :: Compiler where
  "exampleCompiler =
    \<lparr>useAddressesForMemory = True, deathTableOffset = 0x58A364, strHash = length, locationTable = [(''Base'', 1), (''Base'', 3)],
     unitTable = [(''Bob'', 7)], switchTable = [], groupTable = [(''Rebels'', 18)], scriptTable = [], uninit = replicate 12 NUL\<rparr>"


text \<open>
  Looking a name up in the tables of locations, units, switches and groups gives the smallest id with that name, and
  nothing when there is none, for every hash function and order of the table.
\<close>

lemma tableLookup_smallest:
  "tableLookup hash table str =
    (if str \<in> fst ` set table then Some (Min (snd ` {e \<in> set table. fst e = str})) else None)"
  by (auto simp: tableLookup_spec Let_def intro: rev_image_eqI)

end
