(* ===== verification/TextTrigArgs.thy ===== *)
theory TextTrigArgs
  imports TextTrigNames
begin

text \<open>
  The arguments of conditions and actions: how the compiler parses one into the field it stands for
  (\<open>parseConditionArg\<close>, \<open>parseActionArg\<close> of \<open>TextTrigCompiler.cpp\<close>) and how the generator prints the field
  (\<open>appendConditionArgument\<close>, \<open>appendActionArgument\<close> of \<open>TextTrigGenerator.cpp\<close>), with the theorems that a printed argument is parsed to the value it was printed from.

  An alternative of an argument is a function of the destination and the index of the next quoted string; \<open>||\<close> tries the second on what a
  failed first leaves behind, so that a quoted string read by an alternative that fails is lost to the next one. The outcome of an argument
  is the message of the error, \<open>None\<close> when there is none.
\<close>

section \<open>Parsing an argument\<close>

definition orElse :: "('s \<Rightarrow> (bool \<times> 's) result) \<Rightarrow> ('s \<Rightarrow> (bool \<times> 's) result) \<Rightarrow> 's \<Rightarrow> (bool \<times> 's) result" where
  "orElse p q s = bind_result (p s) (\<lambda>(success, s). if success then Inr (True, s) else q s)"

type_synonym 'v alternative = "'v \<times> nat \<Rightarrow> (bool \<times> 'v \<times> nat) result"

definition byNumber :: "(string \<Rightarrow> 'v \<Rightarrow> nat \<Rightarrow> nat \<Rightarrow> bool \<times> 'v) \<Rightarrow> string \<Rightarrow> nat \<Rightarrow> nat \<Rightarrow> 'v alternative" where
  "byNumber parser str pos end' =
    (\<lambda>(dest, nextString). case parser str dest pos end' of (success, dest) \<Rightarrow> Inr (success, dest, nextString))"

definition byName :: "'v wordParser \<Rightarrow> string \<Rightarrow> string list \<Rightarrow> nat \<Rightarrow> nat \<Rightarrow> 'v alternative" where
  "byName parser str stringContents pos end' = (\<lambda>(dest, nextString). parser str stringContents nextString dest pos end')"

definition parseMemory :: "Compiler \<Rightarrow> string \<Rightarrow> u32 \<Rightarrow> nat \<Rightarrow> nat \<Rightarrow> bool \<times> u32" where
  "parseMemory cmp str dest pos end' =
    (if useAddressesForMemory cmp then parseMemoryAddress str dest pos end' (deathTableOffset cmp) else parseLong str dest pos end')"

definition memoryMsg :: "Compiler \<Rightarrow> string" where
  "memoryMsg cmp =
    (if useAddressesForMemory cmp then ''Expected: 4-byte address'' else ''Expected: 4-byte death table offset'')"

subsection \<open>Conditions\<close>

definition conditionField ::
  "(Condition \<Rightarrow> 'v) \<Rightarrow> ('v \<Rightarrow> Condition \<Rightarrow> Condition) \<Rightarrow> 'v alternative \<Rightarrow> string \<Rightarrow> Condition \<Rightarrow> nat \<Rightarrow>
     (string option \<times> Condition \<times> nat) result" where
  "conditionField getField setField parser msg currCondition nextString =
    bind_result (parser (getField currCondition, nextString)) (\<lambda>(success, value, nextString).
      Inr (if success then None else Some msg, setField value currCondition, nextString))"

definition parseConditionArg ::
  "Compiler \<Rightarrow> string \<Rightarrow> string list \<Rightarrow> nat \<Rightarrow> Condition \<Rightarrow> nat \<Rightarrow> nat \<Rightarrow> Condition_Argument \<Rightarrow>
     (string option \<times> Condition \<times> nat) result" where
  "parseConditionArg cmp str sc nextString currCondition pos end' argument =
    (case fst argument of
       Cnd_Unit \<Rightarrow> conditionField c_unitType (\<lambda>v c. c\<lparr>c_unitType := v\<rparr>)
         (orElse (byName (parseUnitName cmp) str sc pos end') (byNumber parseShort str pos end'))
         ''Expected: Unit name or 2-byte unitID'' currCondition nextString
     | Cnd_Location \<Rightarrow> conditionField c_locationId (\<lambda>v c. c\<lparr>c_locationId := v\<rparr>)
         (orElse (byName (parseLocationName cmp) str sc pos end') (byNumber parseLong str pos end'))
         ''Expected: Location name or 4-byte locationNum'' currCondition nextString
     | Cnd_Player \<Rightarrow> conditionField c_player (\<lambda>v c. c\<lparr>c_player := v\<rparr>)
         (orElse (byName (parsePlayer cmp) str sc pos end') (byNumber parseLong str pos end'))
         ''Expected: Player/group name or 4-byte id'' currCondition nextString
     | Cnd_Amount \<Rightarrow> conditionField c_amount (\<lambda>v c. c\<lparr>c_amount := v\<rparr>)
         (byNumber parseLong str pos end')
         ''Expected: 4-byte amount'' currCondition nextString
     | Cnd_NumericComparison \<Rightarrow> conditionField c_comparison (\<lambda>v c. c\<lparr>c_comparison := v\<rparr>)
         (orElse (byName parseNumericComparison str sc pos end') (byNumber parseByte str pos end'))
         ''Expected: Numeric comparison or 1-byte comparisonID'' currCondition nextString
     | Cnd_ResourceType \<Rightarrow> conditionField c_typeIndex (\<lambda>v c. c\<lparr>c_typeIndex := v\<rparr>)
         (orElse (byName parseResourceType str sc pos end') (byNumber parseByte str pos end'))
         ''Expected: Resource type or 1-byte resourceID'' currCondition nextString
     | Cnd_ScoreType \<Rightarrow> conditionField c_typeIndex (\<lambda>v c. c\<lparr>c_typeIndex := v\<rparr>)
         (orElse (byName parseScoreType str sc pos end') (byNumber parseByte str pos end'))
         ''Expected: Score type or 1-byte scoreID'' currCondition nextString
     | Cnd_Switch \<Rightarrow> conditionField c_typeIndex (\<lambda>v c. c\<lparr>c_typeIndex := v\<rparr>)
         (orElse (byName (parseSwitch cmp) str sc pos end') (byNumber parseByte str pos end'))
         ''Expected: Switch name or 1-byte switchID'' currCondition nextString
     | Cnd_SwitchState \<Rightarrow> conditionField c_comparison (\<lambda>v c. c\<lparr>c_comparison := v\<rparr>)
         (orElse (byName parseSwitchState str sc pos end') (byNumber parseByte str pos end'))
         ''Expected: Switch state or 1-byte comparisonID'' currCondition nextString
     | Cnd_Comparison \<Rightarrow> conditionField c_comparison (\<lambda>v c. c\<lparr>c_comparison := v\<rparr>)
         (orElse (byNumber parseByte str pos end')
           (orElse (byName parseNumericComparison str sc pos end') (byName parseSwitchState str sc pos end')))
         ''Expected: 1-byte comparison'' currCondition nextString
     | Cnd_ConditionType \<Rightarrow> conditionField c_conditionType (\<lambda>v c. c\<lparr>c_conditionType := v\<rparr>)
         (byNumber parseByte str pos end')
         ''Expected: 1-byte conditionID'' currCondition nextString
     | Cnd_TypeIndex \<Rightarrow> conditionField c_typeIndex (\<lambda>v c. c\<lparr>c_typeIndex := v\<rparr>)
         (orElse (byNumber parseByte str pos end')
           (orElse (byName parseResourceType str sc pos end')
             (orElse (byName parseScoreType str sc pos end') (byName (parseSwitch cmp) str sc pos end'))))
         ''Expected: 1-byte typeId, resource type, score type, or switch name'' currCondition nextString
     | Cnd_Flags \<Rightarrow> conditionField c_flags (\<lambda>v c. c\<lparr>c_flags := v\<rparr>)
         (byNumber parseByte str pos end')
         ''Expected: 1-byte flags'' currCondition nextString
     | Cnd_MaskFlag \<Rightarrow> conditionField c_maskFlag (\<lambda>v c. c\<lparr>c_maskFlag := v\<rparr>)
         (byNumber parseShort str pos end')
         ''Expected: 2-byte internal data'' currCondition nextString
     | Cnd_MemoryOffset \<Rightarrow> conditionField c_player (\<lambda>v c. c\<lparr>c_player := v\<rparr>)
         (byNumber (parseMemory cmp) str pos end')
         (memoryMsg cmp) currCondition nextString
     | Cnd_NoType \<Rightarrow> Inr (Some [], currCondition, nextString))"

subsection \<open>Actions\<close>

text \<open>Strings and sounds change the table of strings as well; the other alternatives leave it.\<close>

definition actionField ::
  "(Action \<Rightarrow> 'v) \<Rightarrow> ('v \<Rightarrow> Action \<Rightarrow> Action) \<Rightarrow> 'v alternative \<Rightarrow> string \<Rightarrow> Action \<Rightarrow> nat \<Rightarrow> NewStrings \<Rightarrow>
     (string option \<times> Action \<times> nat \<times> NewStrings) result" where
  "actionField getField setField parser msg currAction nextString ns =
    bind_result (parser (getField currAction, nextString)) (\<lambda>(success, value, nextString).
      Inr (if success then None else Some msg, setField value currAction, nextString, ns))"

definition stringField ::
  "(Action \<Rightarrow> u32) \<Rightarrow> (u32 \<Rightarrow> Action \<Rightarrow> Action) \<Rightarrow> (u32 \<times> nat \<times> NewStrings \<Rightarrow> (bool \<times> u32 \<times> nat \<times> NewStrings) result) \<Rightarrow>
     string \<Rightarrow> Action \<Rightarrow> nat \<Rightarrow> NewStrings \<Rightarrow> (string option \<times> Action \<times> nat \<times> NewStrings) result" where
  "stringField getField setField parser msg currAction nextString ns =
    bind_result (parser (getField currAction, nextString, ns)) (\<lambda>(success, value, nextString, ns).
      Inr (if success then None else Some msg, setField value currAction, nextString, ns))"

definition numberNs ::
  "(string \<Rightarrow> u32 \<Rightarrow> nat \<Rightarrow> nat \<Rightarrow> bool \<times> u32) \<Rightarrow> string \<Rightarrow> nat \<Rightarrow> nat \<Rightarrow>
     u32 \<times> nat \<times> NewStrings \<Rightarrow> (bool \<times> u32 \<times> nat \<times> NewStrings) result" where
  "numberNs parser str pos end' =
    (\<lambda>(dest, nextString, ns). case parser str dest pos end' of (success, dest) \<Rightarrow> Inr (success, dest, nextString, ns))"

text \<open>Where an argument of an action can go to either of two fields, the field of the argument tells which.\<close>

definition numberOr :: "(Action \<Rightarrow> u32) \<Rightarrow> Action_ArgField \<Rightarrow> Action \<Rightarrow> u32" where
  "numberOr getField field = (if field = ActF_Number then a_number else getField)"

definition setNumberOr :: "(u32 \<Rightarrow> Action \<Rightarrow> Action) \<Rightarrow> Action_ArgField \<Rightarrow> u32 \<Rightarrow> Action \<Rightarrow> Action" where
  "setNumberOr setField field = (if field = ActF_Number then (\<lambda>v a. a\<lparr>a_number := v\<rparr>) else setField)"

text \<open>The three types of plain amounts share a case, and so do the two of flags.\<close>

definition parseAmount ::
  "string \<Rightarrow> nat \<Rightarrow> nat \<Rightarrow> Action_ArgField \<Rightarrow> Action \<Rightarrow> nat \<Rightarrow> NewStrings \<Rightarrow>
     (string option \<times> Action \<times> nat \<times> NewStrings) result" where
  "parseAmount str pos end' field currAction nextString ns =
    (if field = ActF_Type2
     then actionField a_type2 (\<lambda>v a. a\<lparr>a_type2 := v\<rparr>) (byNumber parseByte str pos end')
            ''Expected: 1-byte number'' currAction nextString ns
     else actionField a_number (\<lambda>v a. a\<lparr>a_number := v\<rparr>) (byNumber parseLong str pos end')
            ''Expected: 4-byte number'' currAction nextString ns)"

definition parseTextFlags ::
  "string \<Rightarrow> string list \<Rightarrow> nat \<Rightarrow> nat \<Rightarrow> Action \<Rightarrow> nat \<Rightarrow> NewStrings \<Rightarrow>
     (string option \<times> Action \<times> nat \<times> NewStrings) result" where
  "parseTextFlags str sc pos end' currAction nextString ns =
    actionField a_flags (\<lambda>v a. a\<lparr>a_flags := v\<rparr>)
      (orElse (byName parseTextDisplayFlag str sc pos end') (byNumber parseByte str pos end'))
      ''Expected: Always display text flags or 1-byte flag data'' currAction nextString ns"

definition parseActionArg ::
  "Compiler \<Rightarrow> nat \<times> nat \<Rightarrow> string \<Rightarrow> string list \<Rightarrow> nat \<Rightarrow> NewStrings \<Rightarrow> Action \<Rightarrow> nat \<Rightarrow> nat \<Rightarrow> Action_Argument \<Rightarrow>
     (string option \<times> Action \<times> nat \<times> NewStrings) result" where
  "parseActionArg cmp self str sc nextString ns currAction pos end' arg =
    (let setType = (\<lambda>v a. a\<lparr>a_type := v\<rparr>); setType2 = (\<lambda>v a. a\<lparr>a_type2 := v\<rparr>); setNumber = (\<lambda>v a. a\<lparr>a_number := v\<rparr>) in
     case fst arg of
       Act_Location \<Rightarrow> actionField (numberOr a_locationId (snd arg)) (setNumberOr (\<lambda>v a. a\<lparr>a_locationId := v\<rparr>) (snd arg))
         (orElse (byName (parseLocationName cmp) str sc pos end') (byNumber parseLong str pos end'))
         ''Expected: Location name or 4-byte locationNum'' currAction nextString ns
     | Act_String \<Rightarrow> stringField a_stringId (\<lambda>v a. a\<lparr>a_stringId := v\<rparr>)
         (orElse (\<lambda>(dest, nextString, ns). parseString cmp (fst self, snd self, False) str sc ns nextString dest pos end')
           (numberNs parseLong str pos end'))
         ''Expected: String or stringNum'' currAction nextString ns
     | Act_Player \<Rightarrow> actionField (numberOr a_group (snd arg)) (setNumberOr (\<lambda>v a. a\<lparr>a_group := v\<rparr>) (snd arg))
         (orElse (byName (parsePlayer cmp) str sc pos end') (byNumber parseLong str pos end'))
         ''Expected: Group name or 4-byte groupID'' currAction nextString ns
     | Act_Unit \<Rightarrow> actionField a_type setType
         (orElse (byName (parseUnitName cmp) str sc pos end') (byNumber parseShort str pos end'))
         ''Expected: Unit name or 2-byte unitID'' currAction nextString ns
     | Act_NumUnits \<Rightarrow> actionField a_type2 setType2
         (orElse (byName parseSpecialUnitAmount str sc pos end') (byNumber parseByte str pos end'))
         ''Expected: 1-byte number'' currAction nextString ns
     | Act_CUWP \<Rightarrow> parseAmount str pos end' (snd arg) currAction nextString ns
     | Act_Percent \<Rightarrow> parseAmount str pos end' (snd arg) currAction nextString ns
     | Act_Amount \<Rightarrow> parseAmount str pos end' (snd arg) currAction nextString ns
     | Act_ScoreType \<Rightarrow> actionField a_type setType
         (orElse (byName parseScoreType16 str sc pos end') (byNumber parseShort str pos end'))
         ''Expected: Score type or 1-byte scoreID'' currAction nextString ns
     | Act_ResourceType \<Rightarrow> actionField a_type setType
         (orElse (byName parseResourceType16 str sc pos end') (byNumber parseShort str pos end'))
         ''Expected: Resource type or 2-byte number'' currAction nextString ns
     | Act_StateMod \<Rightarrow> actionField a_type2 setType2
         (orElse (byName parseStateMod str sc pos end') (byNumber parseByte str pos end'))
         ''Expected: State modifier or 1-byte number'' currAction nextString ns
     | Act_Order \<Rightarrow> actionField a_type2 setType2
         (orElse (byName parseOrder str sc pos end') (byNumber parseByte str pos end'))
         ''Expected: Order or 1-byte number'' currAction nextString ns
     | Act_Sound \<Rightarrow> stringField a_soundStringId (\<lambda>v a. a\<lparr>a_soundStringId := v\<rparr>)
         (orElse (\<lambda>(dest, nextString, ns). parseSoundName cmp (fst self, snd self, True) str sc ns nextString dest pos end')
           (numberNs parseLong str pos end'))
         ''Expected: Wav name or 4-byte wavID'' currAction nextString ns
     | Act_Duration \<Rightarrow> actionField a_time (\<lambda>v a. a\<lparr>a_time := v\<rparr>)
         (byNumber parseLong str pos end')
         ''Expected: 4-byte duration'' currAction nextString ns
     | Act_Script \<Rightarrow> actionField a_number setNumber
         (orElse (byName (parseScript cmp) str sc pos end') (byNumber parseLong str pos end'))
         ''Expected: Script name or 4-byte script num'' currAction nextString ns
     | Act_AllyState \<Rightarrow> actionField a_type setType
         (orElse (byName parseAllianceStatus str sc pos end') (byNumber parseShort str pos end'))
         ''Expected: Alliance status or 2-byte number'' currAction nextString ns
     | Act_NumericMod \<Rightarrow> actionField a_type2 setType2
         (orElse (byName parseNumericModifier str sc pos end') (byNumber parseByte str pos end'))
         ''Expected: Numeric modifier or 1-byte number'' currAction nextString ns
     | Act_Switch \<Rightarrow> actionField a_number setNumber
         (orElse (byName (parseSwitch32 cmp) str sc pos end') (byNumber parseLong str pos end'))
         ''Expected: Switch name or 4-byte number'' currAction nextString ns
     | Act_SwitchMod \<Rightarrow> actionField a_type2 setType2
         (orElse (byName parseSwitchMod str sc pos end') (byNumber parseByte str pos end'))
         ''Expected: Switch modifier or 1-byte number'' currAction nextString ns
     | Act_ActionType \<Rightarrow> actionField a_actionType (\<lambda>v a. a\<lparr>a_actionType := v\<rparr>)
         (byNumber parseByte str pos end')
         ''Expected: 1-byte actionID'' currAction nextString ns
     | Act_TextFlags \<Rightarrow> parseTextFlags str sc pos end' currAction nextString ns
     | Act_Flags \<Rightarrow> parseTextFlags str sc pos end' currAction nextString ns
     | Act_Number \<Rightarrow> actionField a_number setNumber
         (orElse (byName (parsePlayer cmp) str sc pos end')
           (orElse (byName (parseLocationName cmp) str sc pos end')
             (orElse (byName (parseScript cmp) str sc pos end')
               (orElse (byName (parseSwitch32 cmp) str sc pos end') (byNumber parseLong str pos end')))))
         ''Expected: Group, location, script, switch, or 4-byte number'' currAction nextString ns
     | Act_TypeIndex \<Rightarrow> actionField a_type setType
         (orElse (byName (parseUnitName cmp) str sc pos end')
           (orElse (byName parseScoreType16 str sc pos end')
             (orElse (byName parseResourceType16 str sc pos end')
               (orElse (byName parseAllianceStatus str sc pos end') (byNumber parseShort str pos end')))))
         ''Expected: Unit, score type, resource type, alliance status, or 2-byte typeID'' currAction nextString ns
     | Act_SecondaryTypeIndex \<Rightarrow> actionField a_type2 setType2
         (orElse (byName parseSwitchMod str sc pos end')
           (orElse (byName parseOrder str sc pos end')
             (orElse (byName parseNumericModifier str sc pos end')
               (orElse (byName parseStateMod str sc pos end') (byNumber parseByte str pos end')))))
         ''Expected: Switch modifier, order, numeric modifier, state modifier, or 1-byte number'' currAction nextString ns
     | Act_Padding \<Rightarrow> actionField a_padding (\<lambda>v a. a\<lparr>a_padding := v\<rparr>)
         (byNumber parseByte str pos end')
         ''Expected: 1-byte padding'' currAction nextString ns
     | Act_MaskFlag \<Rightarrow> actionField a_maskFlag (\<lambda>v a. a\<lparr>a_maskFlag := v\<rparr>)
         (byNumber parseShort str pos end')
         ''Expected: 2-byte mask flag'' currAction nextString ns
     | Act_MemoryOffset \<Rightarrow> actionField a_group (\<lambda>v a. a\<lparr>a_group := v\<rparr>)
         (byNumber (parseMemory cmp) str pos end')
         (memoryMsg cmp) currAction nextString ns
     | Act_NoType \<Rightarrow> Inr (Some [], currAction, nextString, ns))"

section \<open>Printing an argument\<close>

record Generator =
  g_useAddressesForMemory :: bool
  g_deathTableOffset :: u32
  g_stringTable :: "string list"
  g_extendedStringTable :: "string list"
  g_locationTable :: "string list"
  g_unitTable :: "string list"
  g_switchTable :: "string list"
  g_groupTable :: "string list"
  g_scriptTable :: "(u32 \<times> string) list"

definition appendLocation :: "Generator \<Rightarrow> u32 \<Rightarrow> string" where
  "appendLocation g locationId = printWord (g_locationTable g) (unat locationId)"

definition appendStringOr :: "string \<Rightarrow> Generator \<Rightarrow> u32 \<Rightarrow> string" where
  "appendStringOr none g stringId =
    (let i = unat stringId in
     if i = 0 then none
     else if i < length (g_stringTable g) \<or> size_between i 65536 < length (g_extendedStringTable g) then
       (if i < length (g_stringTable g) then g_stringTable g ! i else ''k'' @ g_extendedStringTable g ! size_between i 65536)
     else to_string i)"

definition appendString :: "Generator \<Rightarrow> u32 \<Rightarrow> string" where
  "appendString = appendStringOr ''No String''"

definition appendSound :: "Generator \<Rightarrow> u32 \<Rightarrow> string" where
  "appendSound = appendStringOr ''No WAV''"

definition appendPlayer :: "Generator \<Rightarrow> u32 \<Rightarrow> string" where
  "appendPlayer g playerIndex = printWord (g_groupTable g) (unat playerIndex)"

definition appendUnit :: "Generator \<Rightarrow> u16 \<Rightarrow> string" where
  "appendUnit g unitType = printWord (g_unitTable g) (unat unitType)"

definition appendSwitch :: "Generator \<Rightarrow> nat \<Rightarrow> string" where
  "appendSwitch g switchIndex = printWord (g_switchTable g) switchIndex"

text \<open>A script that is not in the table is printed from the byte after its id.\<close>

definition appendScript :: "Generator \<Rightarrow> u32 \<Rightarrow> string result" where
  "appendScript g scriptId =
    (if scriptId = 0 then Inr ''No Script''
     else case map_of (g_scriptTable g) scriptId of Some script \<Rightarrow> Inr script | None \<Rightarrow> Inl UndefinedBehavior)"

definition appendMemoryOffset :: "Generator \<Rightarrow> u32 \<Rightarrow> string" where
  "appendMemoryOffset g = appendMemory (g_useAddressesForMemory g) (g_deathTableOffset g)"

definition appendConditionArgument :: "Generator \<Rightarrow> Condition \<Rightarrow> Condition_Argument \<Rightarrow> string" where
  "appendConditionArgument g condition argument =
    (case fst argument of
       Cnd_Unit \<Rightarrow> appendUnit g (c_unitType condition)
     | Cnd_Location \<Rightarrow> appendLocation g (c_locationId condition)
     | Cnd_Player \<Rightarrow> appendPlayer g (c_player condition)
     | Cnd_Amount \<Rightarrow> to_string (unat (c_amount condition))
     | Cnd_Comparison \<Rightarrow> appendNumericComparison (c_comparison condition)
     | Cnd_NumericComparison \<Rightarrow> appendNumericComparison (c_comparison condition)
     | Cnd_ResourceType \<Rightarrow> appendResourceType (c_typeIndex condition)
     | Cnd_ScoreType \<Rightarrow> appendScoreType (c_typeIndex condition)
     | Cnd_Switch \<Rightarrow> appendSwitch g (unat (c_typeIndex condition))
     | Cnd_SwitchState \<Rightarrow> appendSwitchState (c_comparison condition)
     | Cnd_ConditionType \<Rightarrow> to_string (unat (c_conditionType condition))
     | Cnd_TypeIndex \<Rightarrow> to_string (unat (c_typeIndex condition))
     | Cnd_Flags \<Rightarrow> to_string (unat (c_flags condition))
     | Cnd_MaskFlag \<Rightarrow> appendMaskFlag (c_maskFlag condition)
     | Cnd_MemoryOffset \<Rightarrow> appendMemoryOffset g (c_player condition)
     | Cnd_NoType \<Rightarrow> [])"

definition appendActionArgument :: "Generator \<Rightarrow> Action \<Rightarrow> Action_Argument \<Rightarrow> string result" where
  "appendActionArgument g action argument =
    (case fst argument of
       Act_Location \<Rightarrow> Inr (appendLocation g (numberOr a_locationId (snd argument) action))
     | Act_String \<Rightarrow> Inr (appendString g (a_stringId action))
     | Act_Player \<Rightarrow> Inr (appendPlayer g (numberOr a_group (snd argument) action))
     | Act_Unit \<Rightarrow> Inr (appendUnit g (a_type action))
     | Act_NumUnits \<Rightarrow> Inr (appendNumUnits (a_type2 action))
     | Act_CUWP \<Rightarrow> Inr (to_string (unat (a_number action)))
     | Act_TextFlags \<Rightarrow> Inr (appendTextFlags (a_flags action))
     | Act_Amount \<Rightarrow> Inr (to_string (if snd argument = ActF_Type2 then unat (a_type2 action) else unat (a_number action)))
     | Act_ScoreType \<Rightarrow> Inr (appendScoreType (ucast (a_type action)))
     | Act_ResourceType \<Rightarrow> Inr (appendResourceType (ucast (a_type action)))
     | Act_StateMod \<Rightarrow> Inr (appendStateModifier (a_type2 action))
     | Act_Percent \<Rightarrow> Inr (to_string (unat (a_number action)))
     | Act_Order \<Rightarrow> Inr (appendOrder (a_type2 action))
     | Act_Sound \<Rightarrow> Inr (appendSound g (a_soundStringId action))
     | Act_Duration \<Rightarrow> Inr (to_string (unat (a_time action)))
     | Act_Script \<Rightarrow> appendScript g (a_number action)
     | Act_AllyState \<Rightarrow> Inr (appendAllyState (a_type action))
     | Act_NumericMod \<Rightarrow> Inr (appendNumericModifier (a_type2 action))
     | Act_Switch \<Rightarrow> Inr (appendSwitch g (unat (a_number action)))
     | Act_SwitchMod \<Rightarrow> Inr (appendSwitchModifier (a_type2 action))
     | Act_ActionType \<Rightarrow> Inr (to_string (unat (a_actionType action)))
     | Act_Number \<Rightarrow> Inr (to_string (unat (a_number action)))
     | Act_TypeIndex \<Rightarrow> Inr (to_string (unat (a_type action)))
     | Act_SecondaryTypeIndex \<Rightarrow> Inr (to_string (unat (a_type2 action)))
     | Act_Flags \<Rightarrow> Inr (to_string (unat (a_flags action)))
     | Act_Padding \<Rightarrow> Inr (to_string (unat (a_padding action)))
     | Act_MaskFlag \<Rightarrow> Inr (appendMaskFlag (a_maskFlag action))
     | Act_MemoryOffset \<Rightarrow> Inr (appendMemoryOffset g (a_group action))
     | Act_NoType \<Rightarrow> Inr [])"

section \<open>Words and numbers in a clean text\<close>

text \<open>What is left of a word by \<open>cleanText\<close>: no spaces, no lower case, no quote.\<close>

definition cleanWord :: "string \<Rightarrow> bool" where
  "cleanWord s \<longleftrightarrow> list_all (\<lambda>c. c \<noteq> CHR '' '' \<and> c \<noteq> QUOTE \<and> c \<noteq> NUL \<and> upperChar c = c) s"

lemma filter_cleanWord: "cleanWord s \<Longrightarrow> map upperChar (List.filter (\<lambda>c. c \<noteq> CHR '' '') s) = s"
  by (induction s) (auto simp: cleanWord_def)

lemma copyWord_clean:
  assumes "cleanWord s" "length s < N"
  shows "copyWord N s sc next 0 (length s) = Inr (s, next)"
proof -
  have "str_at s 0 \<noteq> QUOTE" using assms by (cases s) (auto simp: cleanWord_def str_at_def)
  moreover have "copyUpperCaseNoSpace (replicate N NUL) s = Inr (s @ replicate (N - length s) NUL)"
    using copyUpperCaseNoSpace_spec [OF assms(2)] filter_cleanWord [OF assms(1)]
    by (metis length_map)
  moreover have "takeWhile (\<lambda>c. c \<noteq> NUL) (s @ replicate (N - length s) NUL) = s"
    using assms(1) by (subst takeWhile_append2) (auto simp: cleanWord_def list_all_iff)
  ultimately show ?thesis by (simp add: copyWord_def from_ptr_def)
qed

lemma parseWord_clean:
  assumes "cleanWord s" "length s < N"
  shows "parseWord N words s sc next dest 0 (length s) =
    Inr (case map_of words s of Some update \<Rightarrow> (True, update dest, next) | None \<Rightarrow> (False, dest, next))"
  by (simp add: parseWord_def copyWord_clean [OF assms])

lemma digitChar_props: "d < 10 \<Longrightarrow> upperChar (digitChar d) = digitChar d \<and> digitChar d \<noteq> CHR '' '' \<and> digitChar d \<noteq> QUOTE \<and> digitChar d \<noteq> NUL \<and>
   isDigit (digitChar d) \<and> plainChar (digitChar d)"
proof -
  assume d: "d < 10"
  then have b: "byte (digitChar d) = d + 48" by (simp add: digitChar_def)
  have c: "byte (CHR '' '') = 32" "byte QUOTE = 34" "byte TAB = 9" "byte LF = 10" "byte CR = 13" "byte VT = 11" "byte FF = 12" "byte (CHR ''/'') = 47"
    by (simp_all add: byte_def)
  show ?thesis
    using d b c by (auto simp: upperChar_def isLower_def isDigit_def plainChar_def byte_eq_iff [symmetric])
qed

lemma to_string_chars: "c \<in> set (to_string n) \<Longrightarrow> \<exists>d<10. c = digitChar d"
  using printBase_digits [of 10 c n] by (simp add: to_string_def)

lemma to_string_clean: "cleanWord (to_string n)" "list_all plainChar (to_string n)" "list_all isDigit (to_string n)"
  using to_string_chars digitChar_props by (fastforce simp: cleanWord_def list_all_iff)+

lemma cleanPlain_to_string [simp]: "cleanPlain (to_string n) = to_string n"
  using filter_cleanWord [OF to_string_clean(1)] by (simp add: cleanPlain_def)

lemma to_string_not_word:
  assumes "list_all (\<lambda>(w, _). \<not> isDigit (str_at w 0)) words"
  shows "map_of words (to_string n) = None"
proof -
  have "isDigit (str_at (to_string n) 0)"
    using to_string_clean(3) [of n] by (simp add: list_all_iff str_at_in_set to_string_def)
  then show ?thesis using assms by (induction words) (auto simp: list_all_iff)
qed

section \<open>Words of a table\<close>

text \<open>
  A table of printed words agrees with the words of a parser: at every index the parser has the word, with the index as its value, or
  the word is the number itself.
\<close>

definition wordEntry :: "nat \<Rightarrow> (string \<times> ('v::len word \<Rightarrow> 'v word)) list \<Rightarrow> nat \<Rightarrow> string \<Rightarrow> bool" where
  "wordEntry N words i w \<longleftrightarrow>
    list_all plainChar w \<and> cleanWord (cleanPlain w) \<and> length (cleanPlain w) < N \<and>
    (case map_of words (cleanPlain w) of
       None \<Rightarrow> cleanPlain w = to_string i
     | Some update \<Rightarrow> update = (\<lambda>_. of_nat i))"

fun wordEntries :: "nat \<Rightarrow> (string \<times> ('v::len word \<Rightarrow> 'v word)) list \<Rightarrow> nat \<Rightarrow> string list \<Rightarrow> bool" where
  "wordEntries N words i [] = True"
| "wordEntries N words i (w # ws) = (wordEntry N words i w \<and> wordEntries N words (i + 1) ws)"

lemma wordEntries_nth: "wordEntries N words i ws \<Longrightarrow> j < length ws \<Longrightarrow> wordEntry N words (i + j) (ws ! j)"
proof (induction ws arbitrary: i j)
  case (Cons w ws)
  then show ?case by (cases j) (use Cons.IH [of "i + 1"] in auto)
qed simp

lemma cleanText_printWord:
  assumes "wordEntries N words 0 table"
  shows "cleanText (printWord table n) = Some (cleanPlain (printWord table n), [])"
  using wordEntries_nth [OF assms, of n] to_string_clean(2)
  by (intro cleanText_plain) (auto simp: printWord_def wordEntry_def)

lemma word_or_number:
  fixes v :: "'v::len word"
  assumes table: "wordEntries N words 0 table"
    and digits: "list_all (\<lambda>(w, _). \<not> isDigit (str_at w 0)) words" "length (to_string (unat v)) < N"
    and num: "\<And>dest. parser (to_string (unat v)) dest 0 (length (to_string (unat v))) = (True, v)"
    and s: "s = cleanPlain (printWord table (unat v))"
  shows "orElse (byName (parseWord N words) s sc 0 (length s)) (byNumber parser s 0 (length s)) (dest, next) = Inr (True, v, next)"
proof (cases "unat v < length table \<and> map_of words s \<noteq> None")
  case True
  then have "wordEntry N words (unat v) (table ! unat v)" "s = cleanPlain (table ! unat v)"
    using wordEntries_nth [OF table, of "unat v"] s by (auto simp: printWord_def)
  then show ?thesis
    using True by (auto simp: orElse_def byName_def byNumber_def wordEntry_def parseWord_clean)
next
  case False
  have "s = to_string (unat v)"
  proof (cases "unat v < length table")
    case True
    then show ?thesis
      using wordEntries_nth [OF table, of "unat v"] False s by (auto simp: printWord_def wordEntry_def)
  next
    case False
    then show ?thesis using s by (simp add: printWord_def)
  qed
  then show ?thesis
    using to_string_not_word [OF digits(1), of "unat v"] digits(2) num
    by (simp add: orElse_def byName_def byNumber_def parseWord_clean to_string_clean)
qed

lemmas eval_words = wordEntry_def plainChar_def cleanWord_def cleanPlain_def isDigit_def byte_def str_at_def

lemma small_numbers:
  "to_string 0 = ''0''" "to_string 1 = ''1''" "to_string 2 = ''2''" "to_string 3 = ''3''" "to_string 4 = ''4''"
  "to_string 5 = ''5''" "to_string 6 = ''6''" "to_string 7 = ''7''" "to_string 8 = ''8''" "to_string 9 = ''9''"
  "to_string 10 = ''10''" "to_string (Suc 0) = ''1''"
  by code_simp+

lemma u8_digits: "length (to_string (unat (v::u8))) < 4"
  using to_string_size [of 3 v] by simp

lemmas small_Suc = small_numbers [unfolded eval_nat_numeral BitM.simps One_nat_def]

lemma numericComparison_table:
  "wordEntries 12 [(''ATLEAST'', \<lambda>_. 0 :: u8), (''ATMOST'', \<lambda>_. 1), (''EXACTLY'', \<lambda>_. 10)] 0 numericComparisons"
  by (simp add: numericComparisons_def eval_words small_Suc)

lemma switchState_table: "wordEntries 8 [(''CLEARED'', \<lambda>_. 3 :: u8), (''NOTSET'', \<lambda>_. 3), (''SET'', \<lambda>_. 2)] 0 switchStates"
  by (simp add: switchStates_def eval_words small_Suc)

lemma allyState_table:
  "wordEntries 16 [(''ALLIEDVICTORY'', \<lambda>_. 2 :: u16), (''ALLY'', \<lambda>_. 1), (''ENEMY'', \<lambda>_. 0)] 0 allyStates"
  by (simp add: allyStates_def eval_words small_Suc)

lemma resourceType_table: "wordEntries 12 [(''ORE'', \<lambda>_. 0 :: u8), (''OREANDGAS'', \<lambda>_. 2), (''GAS'', \<lambda>_. 1)] 0 resourceTypes"
  by (simp add: resourceTypes_def eval_words small_Suc)

lemma scoreType_table:
  "wordEntries 20 [(''BUILDINGS'', \<lambda>_. 2), (''CUSTOM'', \<lambda>_. 7), (''KILLS'', \<lambda>_. 4), (''KILLSANDRAZINGS'', \<lambda>_. 6), (''RAZINGS'', \<lambda>_. 5),
     (''TOTAL'', \<lambda>_. 0), (''UNITS'', \<lambda>_. 1), (''UNITSANDBUILDINGS'', \<lambda>_. 3 :: u8)] 0 scoreTypes"
  by (simp add: scoreTypes_def eval_words small_Suc)

lemma numericModifier_table: "wordEntries 12 [(''ADD'', \<lambda>_. 8 :: u8), (''SETTO'', \<lambda>_. 7), (''SUBTRACT'', \<lambda>_. 9)] 0 numericModifiers"
  by (simp add: numericModifiers_def eval_words small_Suc)

lemma switchMod_table:
  "wordEntries 10 [(''CLEAR'', \<lambda>_. 5 :: u8), (''RANDOMIZE'', \<lambda>_. 11), (''SET'', \<lambda>_. 4), (''TOGGLE'', \<lambda>_. 6)] 0 switchModifiers"
  by (simp add: switchModifiers_def eval_words small_Suc)

lemma stateMod_table:
  "wordEntries 12 [(''DISABLE'', \<lambda>_. 5), (''DISABLED'', \<lambda>_. 5), (''ENABLE'', \<lambda>_. 4), (''ENABLED'', \<lambda>_. 4 :: u8), (''TOGGLE'', \<lambda>_. 6)] 0 stateModifiers"
  by (simp add: stateModifiers_def eval_words small_Suc)

lemma order_table: "wordEntries 8 [(''ATTACK'', \<lambda>_. 2 :: u8), (''MOVE'', \<lambda>_. 0), (''PATROL'', \<lambda>_. 1)] 0 orderTypes"
  by (simp add: orderTypes_def eval_words small_Suc)

lemma u16_digits: "length (to_string (unat (v::u16))) < 6"
  using to_string_size [of 5 v] by simp

lemma byte_word_survives:
  fixes v :: u8
  assumes "wordEntries N words 0 table" "list_all (\<lambda>(w, _). \<not> isDigit (str_at w 0)) words" "4 \<le> N"
    "s = cleanPlain (printWord table (unat v))"
  shows "orElse (byName (parseWord N words) s sc 0 (length s)) (byNumber parseByte s 0 (length s)) (dest, next) = Inr (True, v, next)"
  using u8_digits [of v] assms(3) by (intro word_or_number [OF assms(1,2) _ _ assms(4)]) (auto simp: parseByte_to_string)

lemma numericComparison_survives:
  "s = cleanPlain (appendNumericComparison v) \<Longrightarrow>
   orElse (byName parseNumericComparison s sc 0 (length s)) (byNumber parseByte s 0 (length s)) (dest, next) = Inr (True, v, next)"
  unfolding parseNumericComparison_def appendNumericComparison_def
  by (rule byte_word_survives [OF numericComparison_table]) (simp_all add: isDigit_def byte_def str_at_def)

lemma switchState_survives:
  "s = cleanPlain (appendSwitchState v) \<Longrightarrow>
   orElse (byName parseSwitchState s sc 0 (length s)) (byNumber parseByte s 0 (length s)) (dest, next) = Inr (True, v, next)"
  unfolding parseSwitchState_def appendSwitchState_def
  by (rule byte_word_survives [OF switchState_table]) (simp_all add: isDigit_def byte_def str_at_def)

lemma resourceType_survives:
  "s = cleanPlain (appendResourceType v) \<Longrightarrow>
   orElse (byName parseResourceType s sc 0 (length s)) (byNumber parseByte s 0 (length s)) (dest, next) = Inr (True, v, next)"
  unfolding parseResourceType_def appendResourceType_def
  by (rule byte_word_survives [OF resourceType_table]) (simp_all add: isDigit_def byte_def str_at_def)

lemma scoreType_survives:
  "s = cleanPlain (appendScoreType v) \<Longrightarrow>
   orElse (byName parseScoreType s sc 0 (length s)) (byNumber parseByte s 0 (length s)) (dest, next) = Inr (True, v, next)"
  unfolding parseScoreType_def appendScoreType_def
  by (rule byte_word_survives [OF scoreType_table]) (simp_all add: isDigit_def byte_def str_at_def)

lemma numericModifier_survives:
  "s = cleanPlain (appendNumericModifier v) \<Longrightarrow>
   orElse (byName parseNumericModifier s sc 0 (length s)) (byNumber parseByte s 0 (length s)) (dest, next) = Inr (True, v, next)"
  unfolding parseNumericModifier_def appendNumericModifier_def
  by (rule byte_word_survives [OF numericModifier_table]) (simp_all add: isDigit_def byte_def str_at_def)

lemma switchMod_survives:
  "s = cleanPlain (appendSwitchModifier v) \<Longrightarrow>
   orElse (byName parseSwitchMod s sc 0 (length s)) (byNumber parseByte s 0 (length s)) (dest, next) = Inr (True, v, next)"
  unfolding parseSwitchMod_def appendSwitchModifier_def
  by (rule byte_word_survives [OF switchMod_table]) (simp_all add: isDigit_def byte_def str_at_def)

lemma stateMod_survives:
  "s = cleanPlain (appendStateModifier v) \<Longrightarrow>
   orElse (byName parseStateMod s sc 0 (length s)) (byNumber parseByte s 0 (length s)) (dest, next) = Inr (True, v, next)"
  unfolding parseStateMod_def appendStateModifier_def
  by (rule byte_word_survives [OF stateMod_table]) (simp_all add: isDigit_def byte_def str_at_def)

lemma order_survives:
  "s = cleanPlain (appendOrder v) \<Longrightarrow>
   orElse (byName parseOrder s sc 0 (length s)) (byNumber parseByte s 0 (length s)) (dest, next) = Inr (True, v, next)"
  unfolding parseOrder_def appendOrder_def
  by (rule byte_word_survives [OF order_table]) (simp_all add: isDigit_def byte_def str_at_def)

lemma allyState_survives:
  fixes v :: u16
  assumes "s = cleanPlain (appendAllyState v)"
  shows "orElse (byName parseAllianceStatus s sc 0 (length s)) (byNumber parseShort s 0 (length s)) (dest, next) = Inr (True, v, next)"
  unfolding parseAllianceStatus_def
  using u16_digits [of v] assms unfolding appendAllyState_def
  by (intro word_or_number [OF allyState_table]) (auto simp: parseShort_to_string isDigit_def byte_def str_at_def)

lemma cleanText_words:
  "cleanText (appendNumericComparison v) = Some (cleanPlain (appendNumericComparison v), [])"
  "cleanText (appendSwitchState v) = Some (cleanPlain (appendSwitchState v), [])"
  "cleanText (appendResourceType v) = Some (cleanPlain (appendResourceType v), [])"
  "cleanText (appendScoreType v) = Some (cleanPlain (appendScoreType v), [])"
  "cleanText (appendNumericModifier v) = Some (cleanPlain (appendNumericModifier v), [])"
  "cleanText (appendSwitchModifier v) = Some (cleanPlain (appendSwitchModifier v), [])"
  "cleanText (appendStateModifier v) = Some (cleanPlain (appendStateModifier v), [])"
  "cleanText (appendOrder v) = Some (cleanPlain (appendOrder v), [])"
  "cleanText (appendAllyState w) = Some (cleanPlain (appendAllyState w), [])"
  "cleanText (to_string n) = Some (to_string n, [])"
  unfolding appendNumericComparison_def appendSwitchState_def appendResourceType_def appendScoreType_def
    appendNumericModifier_def appendSwitchModifier_def appendStateModifier_def appendOrder_def appendAllyState_def
  by (rule cleanText_printWord [OF numericComparison_table] cleanText_printWord [OF switchState_table]
      cleanText_printWord [OF resourceType_table] cleanText_printWord [OF scoreType_table]
      cleanText_printWord [OF numericModifier_table] cleanText_printWord [OF switchMod_table]
      cleanText_printWord [OF stateMod_table] cleanText_printWord [OF order_table] cleanText_printWord [OF allyState_table])+
    (simp add: cleanText_plain to_string_clean)

section \<open>Arguments survive\<close>

text \<open>The arguments whose text does not depend on names of the map, and the field each stands for.\<close>

definition fixedConditionArgs :: "Condition_Argument list" where
  "fixedConditionArgs =
    [amountCndArg, numericComparisonCndArg, switchStateCndArg, resourceCndArg, scoreCndArg, comparisonCndArg, conditionTypeCndArg,
     typeIndexCndArg, flagsCndArg]"

definition Condition_copyField :: "Condition_ArgField \<Rightarrow> Condition \<Rightarrow> Condition \<Rightarrow> Condition" where
  "Condition_copyField field c c' =
    (case field of
       CndF_LocationId \<Rightarrow> c'\<lparr>c_locationId := c_locationId c\<rparr>
     | CndF_Player \<Rightarrow> c'\<lparr>c_player := c_player c\<rparr>
     | CndF_Amount \<Rightarrow> c'\<lparr>c_amount := c_amount c\<rparr>
     | CndF_UnitType \<Rightarrow> c'\<lparr>c_unitType := c_unitType c\<rparr>
     | CndF_Comparison \<Rightarrow> c'\<lparr>c_comparison := c_comparison c\<rparr>
     | CndF_ConditionType \<Rightarrow> c'\<lparr>c_conditionType := c_conditionType c\<rparr>
     | CndF_TypeIndex \<Rightarrow> c'\<lparr>c_typeIndex := c_typeIndex c\<rparr>
     | CndF_Flags \<Rightarrow> c'\<lparr>c_flags := c_flags c\<rparr>
     | CndF_MaskFlag \<Rightarrow> c'\<lparr>c_maskFlag := c_maskFlag c\<rparr>
     | CndF_NoField \<Rightarrow> c')"

lemma byNumber_to_string:
  "byNumber parseLong (to_string (unat n)) 0 (length (to_string (unat n))) (d, next) = Inr (True, n, next)"
  "byNumber parseShort (to_string (unat n')) 0 (length (to_string (unat n'))) (d', next) = Inr (True, n', next)"
  "byNumber parseByte (to_string (unat n'')) 0 (length (to_string (unat n''))) (d'', next) = Inr (True, n'', next)"
  by (simp_all add: byNumber_def parseLong_to_string parseShort_to_string parseByte_to_string)

lemma orElse_first: "p s = Inr (True, s') \<Longrightarrow> orElse p q s = Inr (True, s')"
  by (simp add: orElse_def)

lemma orElse_second: "p s = Inr (False, s') \<Longrightarrow> orElse p q s = q s'"
  by (simp add: orElse_def)

lemma number_is_no_word:
  assumes "list_all (\<lambda>(w, _). \<not> isDigit (str_at w 0)) words" "length (to_string n) < N"
  shows "byName (parseWord N words) (to_string n) sc 0 (length (to_string n)) (dest, next) = Inr (False, dest, next)"
  using to_string_not_word [OF assms(1), of n] assms(2) by (simp add: byName_def parseWord_clean to_string_clean)

lemma byte_not_long_word:
  assumes "cleanWord s" "5 \<le> length s"
  shows "byNumber parseByte s 0 (length s) (dest, next) = Inr (False, dest, next)"
  using assms by (simp add: byNumber_def parseByte_def)

lemma comparison_survives:
  fixes v :: u8
  assumes "s = cleanPlain (appendNumericComparison v)"
  shows "orElse (byNumber parseByte s 0 (length s))
      (orElse (byName parseNumericComparison s sc 0 (length s)) (byName parseSwitchState s sc 0 (length s))) (dest, next) =
    Inr (True, v, next)"
proof (cases "s = to_string (unat v)")
  case True
  then show ?thesis by (intro orElse_first) (simp add: byNumber_to_string)
next
  case False
  have v: "unat v = 0 \<or> unat v = 1 \<or> unat v = 10"
  proof (rule ccontr)
    assume n: "\<not> ?thesis"
    show False
    proof (cases "unat v < length numericComparisons")
      case True
      then have "unat v < 11" by (simp add: numericComparisons_def eval_nat_numeral)
      then have "unat v = 2 \<or> unat v = 3 \<or> unat v = 4 \<or> unat v = 5 \<or> unat v = 6 \<or> unat v = 7 \<or> unat v = 8 \<or> unat v = 9"
        using n by presburger
      then show False using False assms
        by (auto simp: appendNumericComparison_def printWord_def numericComparisons_def cleanPlain_def small_numbers)
    next
      case False
      then show ?thesis using \<open>s \<noteq> to_string (unat v)\<close> assms by (simp add: appendNumericComparison_def printWord_def)
    qed
  qed
  then have s: "s \<in> {''ATLEAST'', ''ATMOST'', ''EXACTLY''}"
    using assms by (auto simp: appendNumericComparison_def printWord_def numericComparisons_def cleanPlain_def)
  then have long: "byNumber parseByte s 0 (length s) (dest, next) = Inr (False, dest, next)"
    by (intro byte_not_long_word) (auto simp: cleanWord_def)
  have "orElse (byName parseNumericComparison s sc 0 (length s)) (byNumber parseByte s 0 (length s)) (dest, next) = Inr (True, v, next)"
    using assms by (rule numericComparison_survives)
  moreover have "\<exists>d. byName parseNumericComparison s sc 0 (length s) (dest, next) = Inr (True, d, next)"
  proof -
    have "cleanWord s" "length s < 12" using s by (auto simp: cleanWord_def)
    then show ?thesis using s by (auto simp only: byName_def parseNumericComparison_def parseWord_clean prod.case) auto
  qed
  ultimately show ?thesis by (auto simp: long orElse_def)
qed

lemma fixed_condition_arguments:
  assumes "arg \<in> set fixedConditionArgs" "s = cleanPlain (appendConditionArgument g c arg)"
  shows "parseConditionArg cmp s sc next c' 0 (length s) arg = Inr (None, Condition_copyField (snd arg) c c', next)"
  using assms
  by (auto simp: fixedConditionArgs_def amountCndArg_def numericComparisonCndArg_def switchStateCndArg_def resourceCndArg_def
      scoreCndArg_def comparisonCndArg_def conditionTypeCndArg_def typeIndexCndArg_def flagsCndArg_def parseConditionArg_def
      appendConditionArgument_def conditionField_def Condition_copyField_def byNumber_to_string numericComparison_survives
      switchState_survives resourceType_survives scoreType_survives comparison_survives orElse_first)

lemma cleanText_fixed_condition_arguments:
  assumes "arg \<in> set fixedConditionArgs"
  shows "cleanText (appendConditionArgument g c arg) = Some (cleanPlain (appendConditionArgument g c arg), [])"
  using assms
  by (auto simp: fixedConditionArgs_def amountCndArg_def numericComparisonCndArg_def switchStateCndArg_def resourceCndArg_def
      scoreCndArg_def comparisonCndArg_def conditionTypeCndArg_def typeIndexCndArg_def flagsCndArg_def
      appendConditionArgument_def cleanText_words)

subsection \<open>Memory offsets\<close>

lemma cleanPlain_hex: "cleanPlain (to_hex_string n) = ''0X'' @ printBase 16 n" "list_all plainChar (to_hex_string n)"
proof -
  have d: "c \<in> set (printBase 16 n) \<Longrightarrow> c \<noteq> CHR '' '' \<and> upperChar c = c \<and> plainChar c" for c
  proof -
    assume "c \<in> set (printBase 16 n)"
    then obtain d where d: "d < 16" "c = digitChar d" using printBase_digits [of 16 c n] by auto
    then have b: "byte c = (if d < 10 then d + 48 else d + 55)" by (simp add: digitChar_def)
    have m: "byte (CHR '' '') = 32" "byte QUOTE = 34" "byte TAB = 9" "byte LF = 10" "byte CR = 13" "byte VT = 11" "byte FF = 12"
      "byte (CHR ''/'') = 47" by (simp_all add: byte_def)
    show ?thesis
      using d(1) b m by (auto simp: upperChar_def isLower_def plainChar_def byte_eq_iff [symmetric] split: if_splits)
  qed
  have "map upperChar (List.filter (\<lambda>c. c \<noteq> CHR '' '') s) = s" if "\<forall>c\<in>set s. c \<noteq> CHR '' '' \<and> upperChar c = c" for s
    using that by (induction s) auto
  then show "cleanPlain (to_hex_string n) = ''0X'' @ printBase 16 n"
    using d by (simp add: cleanPlain_def to_hex_string_def)
  show "list_all plainChar (to_hex_string n)"
    using d by (simp add: to_hex_string_def list_all_iff plainChar_def)
qed

lemma parseLong_clean_hex:
  "parseLong (''0X'' @ printBase 16 (unat n)) dest 0 (length (''0X'' @ printBase 16 (unat n))) = (True, n)"
proof -
  have "unat n < 2 ^ LENGTH(32)" by (rule unsigned_less)
  then have "unat n < 16 ^ 9" by simp
  then have "length (printBase 16 (unat n)) \<le> 9" by (intro printBase_length) auto
  moreover have "length (printBase 16 (unat n)) \<noteq> 0" by simp
  ultimately show ?thesis
    by (simp add: parseLong_def hexPrefix_def Let_def substr_def numeral_2_eq_2 strtoll_printBase)
qed

lemma memory_word:
  fixes m off :: u32
  assumes "off mod 4 = 0" "m < 2 ^ 30"
  shows "((m * 4 + off) div 4 * 4 - off) div 4 = m"
proof -
  have off: "off = off div 4 * 4" using assms(1) by (metis add.right_neutral div_mult_mod_eq)
  have t: "m * 4 + off = (m + off div 4) * 4" using off by (metis distrib_right)
  have "unat (x * 4) mod 4 = 0" for x :: u32 by (simp add: unat_word_ariths mod_mod_cancel)
  then have "unat ((m + off div 4) * 4) mod 4 = 0" by blast
  then have "(m * 4 + off) mod 4 = 0"
    unfolding t by (simp only: word_unat_eq_iff unat_mod_distrib) simp
  then have "(m * 4 + off) div 4 * 4 = m * 4 + off" by (metis add.right_neutral div_mult_mod_eq)
  moreover have "(m * 4) div 4 = m"
  proof -
    have "unat m < 2 ^ 30" using assms(2) by (simp add: word_less_nat_alt)
    then show ?thesis by (simp add: word_unat_eq_iff unat_div_distrib unat_word_ariths)
  qed
  ultimately show ?thesis by simp
qed

subsection \<open>Names between quotes\<close>

definition quoted :: "string \<Rightarrow> string" where
  "quoted s = QUOTE # s @ [QUOTE]"

text \<open>A printed name without characters to escape.\<close>

definition plainName :: "string \<Rightarrow> bool" where
  "plainName s \<longleftrightarrow> list_all (\<lambda>c. \<not> isControlChar c \<and> c \<noteq> QUOTE \<and> c \<noteq> BSL) s"

lemma makeEscStr_plain: "plainName s \<Longrightarrow> makeEscStr s (length s) = s"
proof -
  assume p: "plainName s"
  have "makeEscStr_step s i = [s ! i]" if "i < length s" for i
  proof -
    have "\<not> isControlChar (s ! i)" "s ! i \<noteq> QUOTE" "s ! i \<noteq> BSL" using p that by (auto simp: plainName_def list_all_length)
    moreover have "isControlChar LF" "isControlChar CR" "isControlChar TAB" by (simp_all add: isControlChar_def byte_def)
    ultimately show ?thesis using that by (auto simp: makeEscStr_step_def str_at_def Let_def)
  qed
  then have "map (makeEscStr_step s) [0..<length s] = map (\<lambda>i. [s ! i]) [0..<length s]" by simp
  also have "concat \<dots> = s" by (simp add: concat_map_singleton map_nth)
  finally show ?thesis by (simp add: makeEscStr_def)
qed

lemma plainName_in: "plainName s \<Longrightarrow> c \<in> set s \<Longrightarrow> \<not> isControlChar c \<and> c \<noteq> QUOTE \<and> c \<noteq> BSL"
  by (simp add: plainName_def list_all_iff)

lemma cleanText_name:
  assumes "plainName s"
  shows "cleanText (quoted s) = Some ([QUOTE, QUOTE], [s])"
proof -
  have nul: "NUL \<notin> set s" using plainName_in [OF assms, of NUL] by (auto simp: isControlChar_def)
  have last: "\<not> (s \<noteq> [] \<and> last s = BSL)" using plainName_in [OF assms, of "last s"] last_in_set [of s] by blast
  have esc: "fromRaw EscString s = s" using makeEscStr_plain [OF assms] by (simp add: fromRaw_def)
  show ?thesis
    using cleanText_quoted_string [OF nul] unfolding quoted_def esc by (simp only: last if_False)
qed

lemma unit_names_plain: "list_all plainName legacyTextTrigDisplayNames"
  by (simp add: legacyTextTrigDisplayNames_def plainName_def isControlChar_def byte_def)

lemma group_names_plain: "list_all plainName lowerGroups" "list_all plainName upperGroups"
  by (simp_all add: lowerGroups_def upperGroups_def plainName_def isControlChar_def byte_def)

text \<open>The tables of the generator when it prints the triggers of a map, and a compiler that reads names by the same settings.\<close>

definition namesAgree :: "Compiler \<Rightarrow> Generator \<Rightarrow> bool" where
  "namesAgree cmp g \<longleftrightarrow>
    g_unitTable g = map quoted legacyTextTrigDisplayNames \<and>
    (\<exists>forces. length forces = 4 \<and> g_groupTable g = map quoted lowerGroups @ forces @ map quoted upperGroups) \<and>
    (\<forall>unit\<in>set legacyTextTrigDisplayNames. tableLookup (strHash cmp) (unitTable cmp) unit = None) \<and>
    useAddressesForMemory cmp = g_useAddressesForMemory g \<and> deathTableOffset cmp = g_deathTableOffset g \<and>
    deathTableOffset cmp mod 4 = 0"

lemma findUnit_legacy:
  assumes "namesAgree cmp g" "i < 233"
  shows "findUnit cmp (legacyTextTrigDisplayNames ! i) dest = (True, of_nat i)"
proof -
  have map: "map (\<lambda>name. findUnit cmp name dest) legacyTextTrigDisplayNames = map (Pair True) (map of_nat [0..<233])"
    using assms(1) map_findUnit [OF printed_unit_numbers printed_units_short printed_units_no_id] by (simp add: namesAgree_def)
  then have len: "length legacyTextTrigDisplayNames = 233" by (metis length_map length_upt diff_zero)
  show ?thesis
    using arg_cong [where f = "\<lambda>xs. xs ! i", OF map] assms(2) len by simp
qed

lemma length_legacy: "length legacyTextTrigDisplayNames = 233"
  using printed_unit_numbers by (metis length_map length_upt diff_zero)

lemma findPlayer_group:
  assumes "i < 18"
  shows "findPlayer cmp (lowerGroups ! i) dest = (True, of_nat i)"
proof -
  have "map (\<lambda>n. findPlayer cmp n dest) lowerGroups = map (\<lambda>i. (True, of_nat i)) [0..<18]"
    unfolding map_findPlayer [OF lower_groups] by (simp add: upt_conv_Cons)
  then have "map (\<lambda>n. findPlayer cmp n dest) lowerGroups ! i = map (\<lambda>i. (True, of_nat i)) [0..<18] ! i" by simp
  moreover have "length lowerGroups = 18" by (simp add: lowerGroups_def)
  ultimately show ?thesis using assms by simp
qed

lemma findPlayer_upper:
  assumes "i < 5"
  shows "findPlayer cmp (upperGroups ! i) dest = (True, of_nat (22 + i))"
proof -
  have "map (\<lambda>n. findPlayer cmp n dest) upperGroups ! i = (True, of_nat (22 + i))"
    using assms by (auto simp: map_findPlayer [OF upper_groups] eval_nat_numeral less_Suc_eq)
  moreover have "length upperGroups = 6" by (simp add: upperGroups_def)
  ultimately show ?thesis using assms by simp
qed

subsection \<open>Conditions\<close>

definition isGroup :: "u32 \<Rightarrow> bool" where
  "isGroup player \<longleftrightarrow> unat player < 18 \<or> 22 \<le> unat player \<and> unat player \<noteq> 27"

definition conditionArgOk :: "Generator \<Rightarrow> Condition \<Rightarrow> Condition_Argument \<Rightarrow> bool" where
  "conditionArgOk g c arg \<longleftrightarrow>
    arg \<in> set fixedConditionArgs \<or>
    arg = memoryOffsetCndArg \<and> (g_useAddressesForMemory g \<longrightarrow> c_player c < 2 ^ 30) \<or>
    arg = unitCndArg \<or>
    arg = playerCndArg \<and> isGroup (c_player c)"

lemma parseMemory_survives:
  assumes "namesAgree cmp g" "g_useAddressesForMemory g \<longrightarrow> m < 2 ^ 30" "s = cleanPlain (appendMemoryOffset g m)"
  shows "byNumber (parseMemory cmp) s 0 (length s) (dest, next) = Inr (True, m, next)"
proof (cases "g_useAddressesForMemory g")
  case True
  then have s: "s = ''0X'' @ printBase 16 (unat (m * 4 + g_deathTableOffset g))"
    using assms(3) by (simp add: appendMemoryOffset_def appendMemory_def cleanPlain_hex)
  have "parseMemoryAddress s dest 0 (length s) (deathTableOffset cmp) = (True, m)"
  proof -
    have off: "g_deathTableOffset g = deathTableOffset cmp" "deathTableOffset cmp mod 4 = 0"
      using assms(1) unfolding namesAgree_def by (elim conjE, metis)+
    then have "((m * 4 + deathTableOffset cmp) div 4 * 4 - deathTableOffset cmp) div 4 = m"
      using assms(2) True by (intro memory_word) auto
    then show ?thesis unfolding s off(1) by (simp only: parseMemoryAddress_def parseLong_clean_hex prod.case) simp
  qed
  then show ?thesis using True assms(1) by (simp add: byNumber_def parseMemory_def namesAgree_def)
next
  case False
  then show ?thesis
    using assms by (simp add: byNumber_def parseMemory_def namesAgree_def appendMemoryOffset_def appendMemory_def parseLong_to_string)
qed

lemma appendMemoryOffset_plain: "list_all plainChar (appendMemoryOffset g m)"
  by (simp add: appendMemoryOffset_def appendMemory_def cleanPlain_hex to_string_clean)

text \<open>A quoted name, once cleaned: a pair of quotes, with the name as the next string.\<close>

lemma byName_unit:
  assumes "namesAgree cmp g"
  shows "\<exists>s names. cleanText (appendUnit g u) = Some (s, names) \<and>
    orElse (byName (parseUnitName cmp) s names 0 (length s)) (byNumber parseShort s 0 (length s)) (dest, 0) = Inr (True, u, length names)"
proof (cases "unat u < 233")
  case True
  then have "appendUnit g u = quoted (legacyTextTrigDisplayNames ! unat u)"
    using assms by (simp add: appendUnit_def printWord_def namesAgree_def length_legacy)
  moreover have "plainName (legacyTextTrigDisplayNames ! unat u)"
    using unit_names_plain True by (simp add: list_all_length length_legacy)
  ultimately have "cleanText (appendUnit g u) = Some ([QUOTE, QUOTE], [legacyTextTrigDisplayNames ! unat u])"
    by (simp add: cleanText_name)
  moreover have "parseUnitName cmp [QUOTE, QUOTE] [legacyTextTrigDisplayNames ! unat u] 0 dest 0 2 = Inr (True, u, 1)"
    using findUnit_legacy [OF assms True] by (simp add: parseUnitName_def at_unchecked_def str_at_def)
  ultimately show ?thesis by (auto simp: byName_def orElse_def numeral_2_eq_2)
next
  case False
  then have "appendUnit g u = to_string (unat u)"
    using assms by (simp add: appendUnit_def printWord_def namesAgree_def length_legacy)
  moreover have "parseUnitName cmp (to_string (unat u)) [] 0 dest 0 (length (to_string (unat u))) = Inr (True, u, 0)"
  proof -
    have "str_at (to_string (unat u)) 0 \<noteq> QUOTE"
      using to_string_clean(1) [of "unat u"] by (cases "to_string (unat u)") (auto simp: cleanWord_def str_at_def)
    then show ?thesis by (simp add: parseUnitName_def parseShort_to_string)
  qed
  ultimately show ?thesis by (auto simp: byName_def orElse_def cleanText_words)
qed

lemma byName_player:
  assumes "namesAgree cmp g" "isGroup p"
  shows "\<exists>s names. cleanText (appendPlayer g p) = Some (s, names) \<and>
    orElse (byName (parsePlayer cmp) s names 0 (length s)) (byNumber parseLong s 0 (length s)) (dest, 0) = Inr (True, p, length names)"
proof -
  obtain forces where g: "length forces = 4" "g_groupTable g = map quoted lowerGroups @ forces @ map quoted upperGroups"
    using assms(1) by (auto simp: namesAgree_def)
  have len: "length lowerGroups = 18" "length upperGroups = 6" by (simp_all add: lowerGroups_def upperGroups_def)
  have name': ?thesis if "appendPlayer g p = quoted name'" "plainName name'" "findPlayer cmp name' dest = (True, p)" for name'
  proof -
    have "parsePlayer cmp [QUOTE, QUOTE] [name'] 0 dest 0 2 = Inr (True, p, 1)"
      using that(3) by (simp add: parsePlayer_def at_unchecked_def str_at_def)
    then show ?thesis using that(1,2) by (auto simp: byName_def orElse_def cleanText_name numeral_2_eq_2)
  qed
  consider (lower) "unat p < 18" | (upper) "22 \<le> unat p" "unat p < 27" | (num) "28 \<le> unat p"
    using assms(2) by (cases "unat p < 27") (auto simp: isGroup_def)
  then show ?thesis
  proof cases
    case lower
    show ?thesis
      by (rule name' [of "lowerGroups ! unat p"])
        (use lower g len group_names_plain(1) findPlayer_group [OF lower, of cmp dest] in
          \<open>auto simp: appendPlayer_def printWord_def nth_append list_all_length\<close>)
  next
    case upper
    then have i: "unat p - 22 < 5" "22 + (unat p - 22) = unat p" by auto
    show ?thesis
      by (rule name' [of "upperGroups ! (unat p - 22)"])
        (use upper g len group_names_plain(2) findPlayer_upper [OF i(1), of cmp dest] i in
          \<open>auto simp: appendPlayer_def printWord_def nth_append list_all_length\<close>)
  next
    case num
    then have s: "appendPlayer g p = to_string (unat p)" using g len by (simp add: appendPlayer_def printWord_def)
    have "str_at (to_string (unat p)) 0 \<noteq> QUOTE"
      using to_string_clean(1) [of "unat p"] by (cases "to_string (unat p)") (auto simp: cleanWord_def str_at_def)
    then have "parsePlayer cmp (to_string (unat p)) [] 0 dest 0 (length (to_string (unat p))) = Inr (True, p, 0)"
      by (simp add: parsePlayer_def parseLong_to_string)
    then show ?thesis by (auto simp: s byName_def orElse_def cleanText_words)
  qed
qed


definition exampleGenerator :: Generator where
  "exampleGenerator =
    \<lparr>g_useAddressesForMemory = True, g_deathTableOffset = 0x58A364, g_stringTable = [], g_extendedStringTable = [],
     g_locationTable = [], g_unitTable = map quoted legacyTextTrigDisplayNames, g_switchTable = [],
     g_groupTable = map quoted lowerGroups @ replicate 4 ''Rebels'' @ map quoted upperGroups, g_scriptTable = []\<rparr>"

lemma example_namesAgree: "namesAgree exampleCompiler exampleGenerator"
proof -
  have "tableLookup (strHash exampleCompiler) (unitTable exampleCompiler) unit = None"
    if "unit \<in> set legacyTextTrigDisplayNames" for unit
  proof -
    have "unit \<noteq> ''Bob''" using that by (auto simp: legacyTextTrigDisplayNames_def)
    then show ?thesis by (auto simp: exampleCompiler_def tableLookup_spec Let_def)
  qed
  then show ?thesis
    unfolding namesAgree_def
    by (intro conjI) (auto simp: exampleGenerator_def exampleCompiler_def intro: exI [of _ "replicate 4 ''Rebels''"])
qed


subsection \<open>Actions\<close>

definition fixedActionArgs :: "Action_Argument list" where
  "fixedActionArgs =
    [amountArg, percentArg, durationArg, numUnitsArg, unitQuantityArg, numericModArg, switchModArg, stateModArg, allyStateArg,
     orderArg, cuwpArg, numberArg, typeIndexArg, actionTypeArg, secondaryTypeIndexArg, flagsArg, paddingArg]"

definition Action_copyField :: "Action_ArgField \<Rightarrow> Action \<Rightarrow> Action \<Rightarrow> Action" where
  "Action_copyField field a a' =
    (case field of
       ActF_LocationId \<Rightarrow> a'\<lparr>a_locationId := a_locationId a\<rparr>
     | ActF_StringId \<Rightarrow> a'\<lparr>a_stringId := a_stringId a\<rparr>
     | ActF_SoundStringId \<Rightarrow> a'\<lparr>a_soundStringId := a_soundStringId a\<rparr>
     | ActF_Time \<Rightarrow> a'\<lparr>a_time := a_time a\<rparr>
     | ActF_Group \<Rightarrow> a'\<lparr>a_group := a_group a\<rparr>
     | ActF_Number \<Rightarrow> a'\<lparr>a_number := a_number a\<rparr>
     | ActF_Type \<Rightarrow> a'\<lparr>a_type := a_type a\<rparr>
     | ActF_ActionType \<Rightarrow> a'\<lparr>a_actionType := a_actionType a\<rparr>
     | ActF_Type2 \<Rightarrow> a'\<lparr>a_type2 := a_type2 a\<rparr>
     | ActF_Flags \<Rightarrow> a'\<lparr>a_flags := a_flags a\<rparr>
     | ActF_Padding \<Rightarrow> a'\<lparr>a_padding := a_padding a\<rparr>
     | ActF_MaskFlag \<Rightarrow> a'\<lparr>a_maskFlag := a_maskFlag a\<rparr>
     | ActF_NoField \<Rightarrow> a')"

lemma numUnits_survives:
  assumes "s = cleanPlain (appendNumUnits v)"
  shows "orElse (byName parseSpecialUnitAmount s sc 0 (length s)) (byNumber parseByte s 0 (length s)) (dest, next) = Inr (True, v, next)"
proof (cases "v = 0")
  case True
  then have s: "s = ''ALL''" using assms by (simp add: appendNumUnits_def cleanPlain_def)
  have "cleanWord s" "length s < 4" by (simp_all add: s cleanWord_def)
  then have "byName parseSpecialUnitAmount s sc 0 (length s) (dest, next) = Inr (True, 0, next)"
    by (simp only: byName_def parseSpecialUnitAmount_def parseWord_clean prod.case) (simp add: s)
  then show ?thesis using True by (simp add: orElse_def)
next
  case False
  then have s: "s = to_string (unat v)" using assms by (simp add: appendNumUnits_def)
  have "byName parseSpecialUnitAmount s sc 0 (length s) (dest, next) = Inr (False, dest, next)"
    unfolding s parseSpecialUnitAmount_def
    by (rule number_is_no_word) (use u8_digits [of v] in \<open>simp_all add: isDigit_def byte_def str_at_def\<close>)
  then show ?thesis unfolding s by (simp add: orElse_def byNumber_to_string)
qed

lemma appendNumUnits_plain: "list_all plainChar (appendNumUnits v)"
  by (simp add: appendNumUnits_def to_string_clean plainChar_def)

lemma to_string_not_quote: "str_at (to_string n) 0 \<noteq> QUOTE"
  using to_string_clean(1) [of n] by (cases "to_string n") (auto simp: cleanWord_def str_at_def)

lemma number_words_survive:
  fixes v :: u8
  shows "orElse (byName parseSwitchMod (to_string (unat v)) sc 0 (length (to_string (unat v))))
     (orElse (byName parseOrder (to_string (unat v)) sc 0 (length (to_string (unat v))))
     (orElse (byName parseNumericModifier (to_string (unat v)) sc 0 (length (to_string (unat v))))
     (orElse (byName parseStateMod (to_string (unat v)) sc 0 (length (to_string (unat v))))
       (byNumber parseByte (to_string (unat v)) 0 (length (to_string (unat v))))))) (dest, next) = Inr (True, v, next)"
proof -
  let ?s = "to_string (unat v)"
  have no: "byName p ?s sc 0 (length ?s) (dest, next) = Inr (False, dest, next)"
    if "p = parseWord N words" "list_all (\<lambda>(w, _). \<not> isDigit (str_at w 0)) words" "4 \<le> N" for p N words
    using number_is_no_word [OF that(2), of "unat v" N] u8_digits [of v] that(1,3) by simp
  have "byName parseSwitchMod ?s sc 0 (length ?s) (dest, next) = Inr (False, dest, next)"
    "byName parseOrder ?s sc 0 (length ?s) (dest, next) = Inr (False, dest, next)"
    "byName parseNumericModifier ?s sc 0 (length ?s) (dest, next) = Inr (False, dest, next)"
    "byName parseStateMod ?s sc 0 (length ?s) (dest, next) = Inr (False, dest, next)"
    by (rule no, rule parseSwitchMod_def parseOrder_def parseNumericModifier_def parseStateMod_def,
        simp add: isDigit_def byte_def str_at_def, simp)+
  then show ?thesis by (simp add: orElse_def byNumber_to_string)
qed

lemma flags_survive:
  fixes v :: u8
  shows "orElse (byName parseTextDisplayFlag (to_string (unat v)) sc 0 (length (to_string (unat v))))
      (byNumber parseByte (to_string (unat v)) 0 (length (to_string (unat v)))) (dest, next) = Inr (True, v, next)"
proof -
  have "byName parseTextDisplayFlag (to_string (unat v)) sc 0 (length (to_string (unat v))) (dest, next) = Inr (False, dest, next)"
    unfolding parseTextDisplayFlag_def
    by (rule number_is_no_word) (use u8_digits [of v] in \<open>simp_all add: isDigit_def byte_def str_at_def\<close>)
  then show ?thesis by (simp add: orElse_def byNumber_to_string)
qed

lemma number_survives:
  fixes n :: u32
  shows "orElse (byName (parsePlayer cmp) (to_string (unat n)) sc 0 (length (to_string (unat n)))) q (dest, next) = Inr (True, n, next)"
  by (rule orElse_first) (simp add: byName_def parsePlayer_def to_string_not_quote parseLong_to_string)

lemma typeIndex_survives:
  fixes n :: u16
  shows "orElse (byName (parseUnitName cmp) (to_string (unat n)) sc 0 (length (to_string (unat n)))) q (dest, next) = Inr (True, n, next)"
  by (rule orElse_first) (simp add: byName_def parseUnitName_def to_string_not_quote parseShort_to_string)

lemma fixed_action_arguments:
  assumes "arg \<in> set fixedActionArgs" "appendActionArgument g a arg = Inr printed" "s = cleanPlain printed"
  shows "parseActionArg cmp self s sc next ns a' 0 (length s) arg = Inr (None, Action_copyField (snd arg) a a', next, ns)"
  using assms
  by (auto simp: fixedActionArgs_def amountArg_def percentArg_def durationArg_def numUnitsArg_def unitQuantityArg_def
      numericModArg_def switchModArg_def stateModArg_def allyStateArg_def orderArg_def cuwpArg_def numberArg_def
      typeIndexArg_def actionTypeArg_def secondaryTypeIndexArg_def flagsArg_def paddingArg_def parseActionArg_def
      appendActionArgument_def actionField_def parseAmount_def parseTextFlags_def Action_copyField_def byNumber_to_string
      numUnits_survives numericModifier_survives switchMod_survives stateMod_survives allyState_survives order_survives
      number_words_survive flags_survive number_survives typeIndex_survives)

lemma fixed_action_arguments_clean:
  assumes "arg \<in> set fixedActionArgs"
  shows "\<exists>printed. appendActionArgument g a arg = Inr printed \<and> cleanText printed = Some (cleanPlain printed, [])"
  using assms
  by (auto simp: fixedActionArgs_def amountArg_def percentArg_def durationArg_def numUnitsArg_def unitQuantityArg_def
      numericModArg_def switchModArg_def stateModArg_def allyStateArg_def orderArg_def cuwpArg_def numberArg_def
      typeIndexArg_def actionTypeArg_def secondaryTypeIndexArg_def flagsArg_def paddingArg_def
      appendActionArgument_def cleanText_words cleanText_plain appendNumUnits_plain)

lemma printed_word:
  fixes v :: "'v::len word"
  assumes "wordEntries N words 0 table" "s = cleanPlain (printWord table (unat v))"
  shows "(\<forall>dest. parseWord N words s sc next dest 0 (length s) = Inr (True, v, next)) \<or> s = to_string (unat v)"
proof (cases "unat v < length table")
  case True
  then have "wordEntry N words (unat v) (table ! unat v)" "s = cleanPlain (table ! unat v)"
    using wordEntries_nth [OF assms(1), of "unat v"] assms(2) by (auto simp: printWord_def)
  then show ?thesis by (auto simp: wordEntry_def parseWord_clean split: option.splits)
next
  case False
  then show ?thesis using assms(2) by (simp add: printWord_def)
qed

lemma widen_or_number:
  fixes t :: u16
  assumes table: "wordEntries N words 0 table" "list_all (\<lambda>(w, _). \<not> isDigit (str_at w 0)) words" "4 \<le> N"
    and t: "unat t < 256" and s: "s = cleanPlain (printWord table (unat (ucast t :: u8)))"
  shows "orElse (byName (widen (parseWord N words)) s sc 0 (length s)) (byNumber parseShort s 0 (length s)) (dest, next) = Inr (True, t, next)"
proof -
  have unat: "unat (ucast t :: u8) = unat t" using t by (simp add: unsigned_ucast_eq take_bit_nat_eq_self)
  have wide: "ucast (ucast t :: u8) = t" using t by (simp add: word_unat_eq_iff unsigned_ucast_eq unsigned_take_bit_eq take_bit_nat_eq_self)
  show ?thesis
  proof (cases "\<forall>dest. parseWord N words s sc next dest 0 (length s) = Inr (True, ucast t, next)")
    case True
    then show ?thesis by (simp add: byName_def widen_def wide orElse_def)
  next
    case False
    then have s': "s = to_string (unat t)" using printed_word [OF table(1) s] unat by auto
    have "byName (parseWord N words) s sc 0 (length s) (0, next) = Inr (False, 0, next)"
      unfolding s' by (rule number_is_no_word [OF table(2)]) (use u8_digits [of "ucast t"] table(3) unat in simp)
    then show ?thesis unfolding s' by (simp add: byName_def widen_def orElse_def byNumber_to_string)
  qed
qed

lemma action_types_survive:
  fixes t :: u16
  assumes "unat t < 256"
  shows "s = cleanPlain (appendScoreType (ucast t)) \<Longrightarrow>
      orElse (byName parseScoreType16 s sc 0 (length s)) (byNumber parseShort s 0 (length s)) (dest, next) = Inr (True, t, next)"
    "s = cleanPlain (appendResourceType (ucast t)) \<Longrightarrow>
      orElse (byName parseResourceType16 s sc 0 (length s)) (byNumber parseShort s 0 (length s)) (dest, next) = Inr (True, t, next)"
  unfolding parseScoreType16_def parseScoreType_def appendScoreType_def parseResourceType16_def parseResourceType_def appendResourceType_def
  subgoal by (rule widen_or_number [OF scoreType_table _ _ assms]) (simp_all add: isDigit_def byte_def str_at_def)
  subgoal by (rule widen_or_number [OF resourceType_table _ _ assms]) (simp_all add: isDigit_def byte_def str_at_def)
  done

text \<open>The words for the text flags set or clear one bit and leave the others.\<close>

lemma AlwaysDisplay_single: "f AND AlwaysDisplay = 0 \<or> f AND AlwaysDisplay = AlwaysDisplay"
proof -
  have eq: "AlwaysDisplay = push_bit 2 1" by (simp add: AlwaysDisplay_def)
  have b: "bit AlwaysDisplay n \<longleftrightarrow> n = 2" for n
    by (simp only: eq bit_push_bit_iff bit_1_iff) (auto simp: possible_bit_def)
  have "f AND AlwaysDisplay = (if bit f 2 then AlwaysDisplay else 0)"
    by (intro bit_eqI) (auto simp: bit_and_iff b)
  then show ?thesis by auto
qed

lemma textFlags_survive:
  assumes "s = cleanPlain (appendTextFlags f)"
  shows "orElse (byName parseTextDisplayFlag s sc 0 (length s)) (byNumber parseByte s 0 (length s)) (dest, next) =
    Inr (True, (if f AND AlwaysDisplay = 0 then dest AND xAlwaysDisplay else dest OR AlwaysDisplay), next)"
proof -
  let ?no = "''DON'' @ [CHR 0x27] @ ''TALWAYSDISPLAY''"
  have s: "s = (if f AND AlwaysDisplay = 0 then ?no else ''ALWAYSDISPLAY'')"
    using assms AlwaysDisplay_single [of f] by (auto simp: appendTextFlags_def cleanPlain_def)
  have "cleanWord s" "length s < 24" unfolding s by (auto simp: cleanWord_def)
  then have "byName parseTextDisplayFlag s sc 0 (length s) (dest, next) =
      Inr (True, (if f AND AlwaysDisplay = 0 then dest AND xAlwaysDisplay else dest OR AlwaysDisplay), next)"
    by (simp only: byName_def parseTextDisplayFlag_def parseWord_clean prod.case) (simp add: s)
  then show ?thesis by (simp add: orElse_def)
qed

definition Action_copyArg :: "Action_Argument \<Rightarrow> Action \<Rightarrow> Action \<Rightarrow> Action" where
  "Action_copyArg arg a a' =
    (if arg = textFlagsArg
     then a'\<lparr>a_flags := (if a_flags a AND AlwaysDisplay = 0 then a_flags a' AND xAlwaysDisplay else a_flags a' OR AlwaysDisplay)\<rparr>
     else Action_copyField (snd arg) a a')"

definition actionArgOk :: "Generator \<Rightarrow> Action \<Rightarrow> Action_Argument \<Rightarrow> bool" where
  "actionArgOk g a arg \<longleftrightarrow>
    arg \<in> set fixedActionArgs \<or>
    arg = textFlagsArg \<or>
    arg \<in> {scoreArg, resourceArg} \<and> unat (a_type a) < 256 \<or>
    arg = memoryOffsetArg \<and> (g_useAddressesForMemory g \<longrightarrow> a_group a < 2 ^ 30) \<or>
    arg = unitArg \<or>
    arg = playerArg \<and> isGroup (a_group a) \<or>
    arg = destPlayerArg \<and> isGroup (a_number a)"

lemma appendTextFlags_plain: "list_all plainChar (appendTextFlags f)"
  by (simp add: appendTextFlags_def plainChar_def to_string_clean)

lemma fixedActionArgs_no_flags: "arg \<in> set fixedActionArgs \<Longrightarrow> arg \<noteq> textFlagsArg"
  by (auto simp: fixedActionArgs_def amountArg_def percentArg_def durationArg_def numUnitsArg_def unitQuantityArg_def
      numericModArg_def switchModArg_def stateModArg_def allyStateArg_def orderArg_def cuwpArg_def numberArg_def
      typeIndexArg_def actionTypeArg_def secondaryTypeIndexArg_def flagsArg_def paddingArg_def textFlagsArg_def)

lemmas action_arg_defs = scoreArg_def resourceArg_def memoryOffsetArg_def unitArg_def playerArg_def destPlayerArg_def textFlagsArg_def
  appendActionArgument_def parseActionArg_def actionField_def parseTextFlags_def Action_copyField_def Action_copyArg_def
  numberOr_def setNumberOr_def



text \<open>A mask flag is printed as a word, which the compiler does not read.\<close>

lemma maskFlag_not_read:
  "appendConditionArgument g (c\<lparr>c_maskFlag := 0x4353\<rparr>) maskFlagCndArg = ''Enabled''"
  "parseConditionArg cmp ''ENABLED'' sc next c' 0 7 maskFlagCndArg = Inr (Some ''Expected: 2-byte internal data'', c', next)"
  by (simp_all add: appendConditionArgument_def maskFlagCndArg_def appendMaskFlag_def parseConditionArg_def conditionField_def
      byNumber_def parseShort_def)

end
