(* ===== verification/TextTrigCompiler.thy ===== *)
theory TextTrigCompiler
  imports TextTrigArgs
begin

text \<open>
  The parser of text triggers: the parts \<open>parsePartZero\<close> to \<open>parsePartEleven\<close> of \<open>TextTrigCompiler.cpp\<close>, one for each thing the parser can expect,
  and the loop of \<open>parseTriggers\<close> over them. The text is the one \<open>cleanText\<close> leaves, with a NUL at its end.

  The variables of \<open>parseTriggers\<close> are a record. The pointers to the current condition and action are their indexes in the current trigger. A part gives the next
  state, or the message of a compile error; a C++ exception or undefined behaviour is the error of the result around it.
\<close>

section \<open>The state of the parser\<close>

datatype Expecting =
    Trigger_EndOfText
  | Player_EndOfPlayers
  | OpenTriggerBody
  | SectionStart_EndOfTrigger
  | ConditionStart_NonConditionSectionStart
  | ConditionArg_EndOfCondition
  | NonConditionSectionStart_EndOfTrigger
  | ActionStart_FlagSectionStart_EndOfTrigger
  | ActionArg_EndOfAction
  | FlagSectionStart_EndOfTrigger
  | ExecutionFlags
  | EndOfTrigger
  | Last

definition newTrigger :: Trigger where
  "newTrigger =
    \<lparr>t_conditions = replicate MaxConditions Condition_blank, t_actions = replicate MaxActions Action_blank, t_flags = 0,
     t_owners = replicate MaxOwners 0, t_currentAction = 0\<rparr>"

record ParseState =
  s_pos :: nat
  s_line :: nat
  s_expecting :: Expecting
  s_argIndex :: nat
  s_numConditions :: nat
  s_numActions :: nat
  s_nextString :: nat
  s_conditionId :: int
  s_actionId :: int
  s_currTrig :: Trigger
  s_currCondition :: nat
  s_currAction :: nat
  s_newStrings :: NewStrings
  s_output :: "Trigger list"

definition startState :: "NewStrings \<Rightarrow> ParseState" where
  "startState ns =
    \<lparr>s_pos = 0, s_line = 1, s_expecting = Trigger_EndOfText, s_argIndex = 0, s_numConditions = 0, s_numActions = 0, s_nextString = 0,
     s_conditionId = 0, s_actionId = 0, s_currTrig = newTrigger, s_currCondition = 0, s_currAction = 0, s_newStrings = ns, s_output = []\<rparr>"

type_synonym part = "(string + ParseState) result"

definition compileError :: "nat \<Rightarrow> string \<Rightarrow> part" where
  "compileError line msg = Inr (Inl (''Line: '' @ to_string line @ [LF, LF] @ msg))"

definition tick :: "string \<Rightarrow> string" where
  "tick s = CHR 0x27 # s @ [CHR 0x27]"

definition goOn :: "ParseState \<Rightarrow> part" where
  "goOn st = Inr (Inr st)"

text \<open>\<open>while ( text[pos] == '\n' ) { pos++; line++; }\<close>\<close>

function skipLines :: "string \<Rightarrow> nat \<Rightarrow> nat \<Rightarrow> nat \<times> nat" where
  "skipLines str pos line = (if pos < length str \<and> str ! pos = LF then skipLines str (pos + 1) (line + 1) else (pos, line))"
  by auto
termination
  by (relation "measure (\<lambda>(str, pos, line). length str - pos)") auto

declare skipLines.simps [simp del]

section \<open>Triggers and players\<close>

definition parsePartZero :: "string \<Rightarrow> ParseState \<Rightarrow> part" where
  "parsePartZero str st =
    (let pos = s_pos st;
         begin' = (\<lambda>st. goOn (st\<lparr>s_currTrig := newTrigger, s_currCondition := 0, s_currAction := 0\<rparr>))
     in if compare_at str pos 8 ''TRIGGER('' then begin' (st\<lparr>s_pos := pos + 8, s_expecting := Player_EndOfPlayers\<rparr>)
        else if compare_at str pos 7 ''TRIGGER'' then
          (case skipLines str (pos + 7) (s_line st) of (pos, line) \<Rightarrow>
             if str_at str pos = CHR ''('' then
               begin' (st\<lparr>s_pos := pos + 1, s_line := line, s_expecting := Player_EndOfPlayers\<rparr>)
             else compileError line (''Expected: '' @ tick ''(''))
        else if str_at str pos = NUL then begin' (st\<lparr>s_pos := pos + 1\<rparr>)
        else compileError (s_line st) (''Expected: '' @ quoted ''Trigger'' @ '' or End of Text''))"

text \<open>
  A player that executes the trigger. The colon is searched to the end of the text, and may be that of a later section: then \<open>end - pos\<close> wraps, \<open>parseByte\<close>
  fails and the value is one. The second try starts from the string after the one the first has read.
\<close>

definition parseExecutingPlayer ::
  "Compiler \<Rightarrow> string \<Rightarrow> string list \<Rightarrow> nat \<Rightarrow> Trigger \<Rightarrow> nat \<Rightarrow> nat \<Rightarrow> (bool \<times> Trigger \<times> nat) result" where
  "parseExecutingPlayer cmp str sc nextString currTrig pos end' =
    (let own = (\<lambda>group value. currTrig\<lparr>t_owners := (t_owners currTrig)[unat group := value]\<rparr>);
         second = (\<lambda>nextString group.
           bind_result (parsePlayer cmp str sc nextString group pos end') (\<lambda>(success, group, nextString).
             if success \<and> group < 27 then Inr (True, own group 1, nextString) else Inr (False, currTrig, nextString)))
     in case str_find (CHR '':'') str pos of
          None \<Rightarrow> second nextString 0
        | Some separator \<Rightarrow>
            bind_result (parsePlayer cmp str sc nextString 0 pos separator) (\<lambda>(success, group, nextString).
              if success \<and> group < 27 then
                Inr (True, own group (case parseByte str 0 (separator + 1) end' of (True, v) \<Rightarrow> v | (False, _) \<Rightarrow> 1), nextString)
              else second nextString group))"

definition orEnd :: "string \<Rightarrow> nat option \<Rightarrow> nat" where
  "orEnd str found = (case found of Some i \<Rightarrow> i | None \<Rightarrow> length str)"

definition parsePartOne :: "Compiler \<Rightarrow> string \<Rightarrow> string list \<Rightarrow> ParseState \<Rightarrow> part" where
  "parsePartOne cmp str sc st =
    (let pos = s_pos st in
     if str_at str pos = CHR '')'' then goOn (st\<lparr>s_pos := pos + 1, s_expecting := OpenTriggerBody\<rparr>)
     else
       case (case findNext str pos (CHR '','') (CHR ''{'') of Some i \<Rightarrow> Some i | None \<Rightarrow> findNext str pos (CHR '')'') (CHR ''{'')) of
         None \<Rightarrow> compileError (s_line st) (''Expected: '' @ tick '','' @ '' or '' @ tick '')'')
       | Some playerEnd \<Rightarrow>
           let playerEnd = min playerEnd (orEnd str (str_find LF str pos)) in
           bind_result (parseExecutingPlayer cmp str sc (s_nextString st) (s_currTrig st) pos playerEnd) (\<lambda>(success, trig, nextString).
             if success then
               case skipLines str playerEnd (s_line st) of (pos, line) \<Rightarrow>
                 goOn (st\<lparr>s_currTrig := trig, s_nextString := nextString, s_pos := pos + 1, s_line := line,
                          s_expecting := (if str_at str pos = CHR '')'' then OpenTriggerBody else s_expecting st)\<rparr>)
             else compileError (s_line st) ''Expected: Player Identifier''))"

definition parsePartTwo :: "string \<Rightarrow> ParseState \<Rightarrow> part" where
  "parsePartTwo str st =
    (if str_at str (s_pos st) = CHR ''{'' then goOn (st\<lparr>s_pos := s_pos st + 1, s_expecting := SectionStart_EndOfTrigger\<rparr>)
     else compileError (s_line st) (''Expected: '' @ tick ''{''))"

section \<open>Sections of a trigger\<close>

definition parsePartThree :: "string \<Rightarrow> ParseState \<Rightarrow> part" where
  "parsePartThree str st =
    (let pos = s_pos st in
     if compare_at str pos 11 ''CONDITIONS:'' then
       goOn (st\<lparr>s_pos := pos + 11, s_expecting := ConditionStart_NonConditionSectionStart\<rparr>)
     else if compare_at str pos 8 ''ACTIONS:'' then
       goOn (st\<lparr>s_pos := pos + 8, s_expecting := ActionStart_FlagSectionStart_EndOfTrigger\<rparr>)
     else if compare_at str pos 6 ''FLAGS:'' then goOn (st\<lparr>s_pos := pos + 6, s_expecting := ExecutionFlags\<rparr>)
     else if str_at str pos = CHR ''}'' then goOn (st\<lparr>s_pos := pos + 1, s_expecting := Last\<rparr>)
     else
       let hasConditions = compare_at str pos 10 ''CONDITIONS'' in
       if hasConditions \<or> compare_at str pos 7 ''ACTIONS'' then
         (case skipLines str (if hasConditions then pos + 10 else pos + 7) (s_line st) of (pos, line) \<Rightarrow>
            if str_at str pos = CHR '':'' then
              goOn (st\<lparr>s_pos := pos + 1, s_line := line,
                s_expecting := (if hasConditions then ConditionStart_NonConditionSectionStart
                                else ActionStart_FlagSectionStart_EndOfTrigger)\<rparr>)
            else compileError line (''Expected: '' @ tick '':''))
       else compileError (s_line st)
         (''Expected: '' @ quoted ''Conditions'' @ '' or '' @ quoted ''Actions'' @ '' or '' @ quoted ''Flags'' @ '' or '' @ tick ''}''))"

text \<open>The section that ends the conditions or the actions: \<open>FLAGS\<close> has to be followed by its colon at once.\<close>

definition flagSection :: "string \<Rightarrow> ParseState \<Rightarrow> part" where
  "flagSection str st =
    (let pos = s_pos st + 5 in
     if str_at str pos = CHR '':'' then goOn (st\<lparr>s_pos := pos + 1, s_expecting := ExecutionFlags\<rparr>)
     else compileError (s_line st) (''Expected: '' @ tick '':''))"

text \<open>
  A condition from its name up to the open parenthesis. The check of the number of conditions lets one more through than there are, and
  \<open>Trigger::condition\<close> throws for it. \<open>disabled\<close> is the flag to add; \<open>nameEnd\<close> is where the name ends.
\<close>

definition startCondition :: "string \<Rightarrow> ParseState \<Rightarrow> u8 \<Rightarrow> nat \<Rightarrow> part" where
  "startCondition str st disabled conditionEnd =
    (case parseCondition str (s_pos st) conditionEnd of
       (False, _) \<Rightarrow> compileError (s_line st) ''Expected: Condition Name''
     | (True, conditionId, flags) \<Rightarrow>
         if s_numConditions st > MaxConditions then compileError (s_line st) ''Condition Max Exceeded!''
         else
           bind_result (Trigger_condition (s_currTrig st) (s_numConditions st)) (\<lambda>condition.
             let n = s_numConditions st;
                 condition = condition\<lparr>c_flags := flags OR disabled, c_conditionType := regularConditionType conditionId\<rparr>;
                 trig = (s_currTrig st)\<lparr>t_conditions := (t_conditions (s_currTrig st))[n := condition]\<rparr>
             in case skipLines str conditionEnd (s_line st) of (pos, line) \<Rightarrow>
                  if str_at str pos = CHR ''('' then
                    goOn (st\<lparr>s_argIndex := 0, s_currTrig := trig, s_currCondition := n, s_conditionId := conditionId,
                      s_numConditions := n + 1, s_pos := pos + 1, s_line := line, s_expecting := ConditionArg_EndOfCondition\<rparr>)
                  else compileError line (''Expected: '' @ tick ''('')))"

text \<open>For a disabled condition the test for the end of the line is the wrong way round: the name ends at the parenthesis in any case.\<close>

definition parsePartFour :: "string \<Rightarrow> ParseState \<Rightarrow> part" where
  "parsePartFour str st =
    (let pos = s_pos st in
     if str_at str pos = CHR '';'' then
       (case skipLines str (pos + 1) (s_line st) of (pos, line) \<Rightarrow>
          case str_find (CHR ''('') str pos of
            None \<Rightarrow> compileError line (''Expected: '' @ tick ''('')
          | Some conditionEnd \<Rightarrow>
              startCondition str (st\<lparr>s_pos := pos, s_line := line\<rparr>) Flags_Disabled
                (case str_find LF str pos of Some _ \<Rightarrow> min conditionEnd (length str) | None \<Rightarrow> conditionEnd))
     else if str_at str pos = CHR ''}'' then goOn (st\<lparr>s_pos := pos + 1, s_expecting := Last\<rparr>)
     else if compare_at str pos 7 ''ACTIONS'' then
       (case skipLines str (pos + 7) (s_line st) of (pos, line) \<Rightarrow>
          if str_at str pos = CHR '':'' then
            goOn (st\<lparr>s_pos := pos + 1, s_line := line, s_expecting := ActionStart_FlagSectionStart_EndOfTrigger\<rparr>)
          else compileError line (''Expected: '' @ tick '':''))
     else if compare_at str pos 5 ''FLAGS'' then flagSection str st
     else
       case str_find (CHR ''('') str pos of
         None \<Rightarrow> compileError (s_line st) (''Expected: '' @ tick ''('')
       | Some conditionEnd \<Rightarrow> startCondition str st 0 (min conditionEnd (orEnd str (str_find LF str pos))))"

text \<open>The end of a condition or an action: the close parenthesis, and a semicolon after any line endings.\<close>

definition endOfCall :: "string \<Rightarrow> ParseState \<Rightarrow> Expecting \<Rightarrow> part" where
  "endOfCall str st expecting =
    (case skipLines str (s_pos st + 1) (s_line st) of (pos, line) \<Rightarrow>
       if str_at str pos = CHR '';'' then goOn (st\<lparr>s_pos := pos + 1, s_line := line, s_expecting := expecting\<rparr>)
       else compileError line (''Expected: '' @ tick '';''))"

text \<open>An argument of the current condition, up to \<open>argEnd\<close>; the next one starts at \<open>next\<close>.\<close>

definition conditionArgument ::
  "Compiler \<Rightarrow> string \<Rightarrow> string list \<Rightarrow> ParseState \<Rightarrow> Condition_Argument \<Rightarrow> nat \<Rightarrow> nat \<Rightarrow> part" where
  "conditionArgument cmp str sc st argument argEnd next =
    bind_result (at_unchecked (t_conditions (s_currTrig st)) (s_currCondition st)) (\<lambda>condition.
    bind_result (parseConditionArg cmp str sc (s_nextString st) condition (s_pos st) argEnd argument) (\<lambda>(error, condition, nextString).
      case error of
        Some msg \<Rightarrow> compileError (s_line st) msg
      | None \<Rightarrow>
          goOn (st\<lparr>s_currTrig := (s_currTrig st)\<lparr>t_conditions := (t_conditions (s_currTrig st))[s_currCondition st := condition]\<rparr>,
                   s_nextString := nextString, s_pos := next, s_argIndex := s_argIndex st + 1\<rparr>)))"

definition parsePartFive :: "Compiler \<Rightarrow> string \<Rightarrow> string list \<Rightarrow> ParseState \<Rightarrow> part" where
  "parsePartFive cmp str sc st =
    (let pos = s_pos st; argument = Condition_getTextArg (s_conditionId st) (s_argIndex st) in
     if str_at str pos = CHR '')'' then
       if fst argument \<noteq> Cnd_NoType then compileError (s_line st) ''Expected: Condition Argument''
       else endOfCall str st ConditionStart_NonConditionSectionStart
     else if fst argument = Cnd_NoType then compileError (s_line st) (''Expected: '' @ tick '')'')
     else if Condition_getTextArgType (s_conditionId st) (s_argIndex st + 1) = Cnd_NoType then
       (case str_find (CHR '')'') str pos of
          None \<Rightarrow> compileError (s_line st) (''Expected: '' @ tick '')'')
        | Some argEnd \<Rightarrow> conditionArgument cmp str sc st argument argEnd argEnd)
     else
       (case str_find (CHR '','') str pos of
          None \<Rightarrow> compileError (s_line st) (''Expected: '' @ tick '','')
        | Some argEnd \<Rightarrow> conditionArgument cmp str sc st argument argEnd (argEnd + 1)))"

definition parsePartSix :: "string \<Rightarrow> ParseState \<Rightarrow> part" where
  "parsePartSix str st =
    (let pos = s_pos st in
     if str_at str pos = CHR ''}'' then goOn (st\<lparr>s_pos := pos + 1, s_expecting := Last\<rparr>)
     else if compare_at str pos 8 ''ACTIONS:'' then
       goOn (st\<lparr>s_pos := pos + 8, s_expecting := ActionStart_FlagSectionStart_EndOfTrigger\<rparr>)
     else if compare_at str pos 6 ''FLAGS:'' then goOn (st\<lparr>s_pos := pos + 6, s_expecting := ExecutionFlags\<rparr>)
     else if compare_at str pos 7 ''ACTIONS'' \<or> compare_at str pos 5 ''FLAGS'' then compileError (s_line st) (''Expected: '' @ tick '':'')
     else compileError (s_line st) (''Expected: '' @ quoted ''Actions'' @ '' or '' @ quoted ''Flags'' @ '' or '' @ tick ''}''))"

section \<open>Actions\<close>

definition startAction :: "string \<Rightarrow> ParseState \<Rightarrow> u8 \<Rightarrow> nat \<Rightarrow> part" where
  "startAction str st disabled actionEnd =
    (case parseAction str (s_pos st) actionEnd of
       (False, _) \<Rightarrow> compileError (s_line st) (''Expected: Action Name or '' @ tick ''}'')
     | (True, actionId, flags) \<Rightarrow>
         if s_numActions st > MaxActions then compileError (s_line st) ''Action Max Exceeded!''
         else
           bind_result (Trigger_action (s_currTrig st) (s_numActions st)) (\<lambda>action.
             let n = s_numActions st;
                 action = action\<lparr>a_flags := flags OR disabled, a_actionType := regularActionType actionId\<rparr>;
                 trig = (s_currTrig st)\<lparr>t_actions := (t_actions (s_currTrig st))[n := action]\<rparr>
             in goOn (st\<lparr>s_argIndex := 0, s_currTrig := trig, s_currAction := n, s_actionId := actionId,
                  s_numActions := n + 1, s_pos := actionEnd + 1, s_expecting := ActionArg_EndOfAction\<rparr>)))"

text \<open>A semicolon with no parenthesis after it is passed over.\<close>

definition parsePartSeven :: "string \<Rightarrow> ParseState \<Rightarrow> part" where
  "parsePartSeven str st =
    (let pos = s_pos st in
     if str_at str pos = CHR '';'' then
       (let st = st\<lparr>s_pos := pos + 1\<rparr> in
        case str_find (CHR ''('') str (pos + 1) of
          None \<Rightarrow> goOn st
        | Some actionEnd \<Rightarrow> startAction str st Flags_Disabled (min actionEnd (orEnd str (str_find LF str (pos + 1)))))
     else if str_at str pos = CHR ''}'' then goOn (st\<lparr>s_pos := pos + 1, s_expecting := Last\<rparr>)
     else if compare_at str pos 5 ''FLAGS'' then flagSection str st
     else
       case str_find (CHR ''('') str pos of
         None \<Rightarrow> compileError (s_line st) (''Expected: '' @ tick ''('')
       | Some actionEnd \<Rightarrow> startAction str st 0 (min actionEnd (orEnd str (str_find LF str pos))))"

definition actionArgument ::
  "Compiler \<Rightarrow> string \<Rightarrow> string list \<Rightarrow> ParseState \<Rightarrow> Action_Argument \<Rightarrow> nat \<Rightarrow> nat \<Rightarrow> part" where
  "actionArgument cmp str sc st argument argEnd next =
    bind_result (at_unchecked (t_actions (s_currTrig st)) (s_currAction st)) (\<lambda>action.
    bind_result
      (parseActionArg cmp (length (s_output st), s_currAction st) str sc (s_nextString st) (s_newStrings st) action
         (s_pos st) argEnd argument)
      (\<lambda>(error, action, nextString, ns).
      case error of
        Some msg \<Rightarrow> compileError (s_line st) (''Expected: Action Argument'' @ [LF, LF] @ msg)
      | None \<Rightarrow>
          goOn (st\<lparr>s_currTrig := (s_currTrig st)\<lparr>t_actions := (t_actions (s_currTrig st))[s_currAction st := action]\<rparr>,
                   s_nextString := nextString, s_newStrings := ns, s_pos := next, s_argIndex := s_argIndex st + 1\<rparr>)))"

definition parsePartEight :: "Compiler \<Rightarrow> string \<Rightarrow> string list \<Rightarrow> ParseState \<Rightarrow> part" where
  "parsePartEight cmp str sc st =
    (let pos = s_pos st; argument = Action_getTextArg (s_actionId st) (s_argIndex st) in
     if str_at str pos = CHR '')'' then
       if fst argument \<noteq> Act_NoType then compileError (s_line st) ''Expected: Action Argument''
       else endOfCall str st ActionStart_FlagSectionStart_EndOfTrigger
     else if fst argument = Act_NoType then compileError (s_line st) (''Expected: '' @ tick '')'')
     else if Action_getTextArgType (s_actionId st) (s_argIndex st + 1) = Act_NoType then
       (case str_find (CHR '')'') str pos of
          None \<Rightarrow> compileError (s_line st) (''Expected: '' @ tick '')'')
        | Some argEnd \<Rightarrow> actionArgument cmp str sc st argument argEnd argEnd)
     else
       (case str_find (CHR '','') str pos of
          None \<Rightarrow> compileError (s_line st) ''Expected: Additional Arguments''
        | Some argEnd \<Rightarrow> actionArgument cmp str sc st argument argEnd (argEnd + 1)))"

definition parsePartNine :: "string \<Rightarrow> ParseState \<Rightarrow> part" where
  "parsePartNine str st =
    (let pos = s_pos st in
     if str_at str pos = CHR ''}'' then goOn (st\<lparr>s_pos := pos + 1, s_expecting := Last\<rparr>)
     else if compare_at str pos 6 ''FLAGS:'' then goOn (st\<lparr>s_pos := pos + 6, s_expecting := ExecutionFlags\<rparr>)
     else if compare_at str pos 5 ''FLAGS'' then compileError (s_line st) (''Expected: '' @ tick '':'')
     else compileError (s_line st) (''Expected: '' @ quoted ''Flags'' @ '' or '' @ tick ''}''))"

definition parsePartTen :: "string \<Rightarrow> ParseState \<Rightarrow> part" where
  "parsePartTen str st =
    (let pos = s_pos st in
     if str_at str pos = CHR '';'' then goOn (st\<lparr>s_pos := pos + 1, s_expecting := EndOfTrigger\<rparr>)
     else
       case str_find (CHR '';'') str pos of
         None \<Rightarrow> compileError (s_line st) (''Expected: '' @ tick '';'')
       | Some flagsEnd \<Rightarrow>
           (case parseExecutionFlags str pos flagsEnd of
              (True, flags) \<Rightarrow>
                goOn (st\<lparr>s_currTrig := (s_currTrig st)\<lparr>t_flags := flags\<rparr>, s_pos := flagsEnd + 1, s_expecting := EndOfTrigger\<rparr>)
            | (False, _) \<Rightarrow> compileError (s_line st) ''Expected: Binary Execution Flags (32-bit max).''))"

definition parsePartEleven :: "string \<Rightarrow> ParseState \<Rightarrow> part" where
  "parsePartEleven str st =
    (if str_at str (s_pos st) = CHR ''}'' then goOn (st\<lparr>s_pos := s_pos st + 1, s_expecting := Last\<rparr>)
     else compileError (s_line st) (''Expected: '' @ tick ''}''))"

section \<open>The loop\<close>

text \<open>A step of the loop; the end of the text after the last trigger ends it.\<close>

definition pushTrigger :: "ParseState \<Rightarrow> ParseState" where
  "pushTrigger st =
    st\<lparr>s_numConditions := 0, s_numActions := 0, s_output := s_output st @ [s_currTrig st], s_expecting := Trigger_EndOfText\<rparr>"

definition parseStep :: "Compiler \<Rightarrow> string \<Rightarrow> string list \<Rightarrow> ParseState \<Rightarrow> part" where
  "parseStep cmp str sc st =
    (if str_at str (s_pos st) = LF then goOn (st\<lparr>s_pos := s_pos st + 1, s_line := s_line st + 1\<rparr>)
     else case s_expecting st of
       Trigger_EndOfText \<Rightarrow> parsePartZero str st
     | Player_EndOfPlayers \<Rightarrow> parsePartOne cmp str sc st
     | OpenTriggerBody \<Rightarrow> parsePartTwo str st
     | SectionStart_EndOfTrigger \<Rightarrow> parsePartThree str st
     | ConditionStart_NonConditionSectionStart \<Rightarrow> parsePartFour str st
     | ConditionArg_EndOfCondition \<Rightarrow> parsePartFive cmp str sc st
     | NonConditionSectionStart_EndOfTrigger \<Rightarrow> parsePartSix str st
     | ActionStart_FlagSectionStart_EndOfTrigger \<Rightarrow> parsePartSeven str st
     | ActionArg_EndOfAction \<Rightarrow> parsePartEight cmp str sc st
     | FlagSectionStart_EndOfTrigger \<Rightarrow> parsePartNine str st
     | ExecutionFlags \<Rightarrow> parsePartTen str st
     | EndOfTrigger \<Rightarrow> parsePartEleven str st
     | Last \<Rightarrow> goOn (pushTrigger st))"

definition atEnd :: "string \<Rightarrow> ParseState \<Rightarrow> bool" where
  "atEnd str st \<longleftrightarrow> str_at str (s_pos st) \<noteq> LF \<and> s_expecting st = Last \<and> str_at str (s_pos st) = NUL"

subsection \<open>Every part moves on\<close>

lemma goOn_eq [simp]: "goOn st = Inr (Inr st') \<longleftrightarrow> st = st'"
  by (simp add: goOn_def)

lemma compileError_neq [simp]: "compileError line msg \<noteq> Inr (Inr st')"
  by (simp add: compileError_def)

lemma skipLines_ge: "skipLines str pos line = (pos', line') \<Longrightarrow> pos \<le> pos'"
proof (induction str pos line rule: skipLines.induct)
  case (1 str pos line)
  then show ?case by (cases "pos < length str \<and> str ! pos = LF") (auto simp: skipLines.simps [of str pos line])
qed

lemma findNext_ge: "findNext str pos c t = Some i \<Longrightarrow> pos \<le> i"
proof (induction str pos c t rule: findNext.induct)
  case (1 str pos c t)
  then show ?case by (subst (asm) (2) findNext.simps) (auto split: if_splits)
qed

lemma str_find_ge: "str_find c str pos = Some i \<Longrightarrow> pos \<le> i"
  using str_find_bounds by blast

lemma str_find_greater: "str_find c str pos = Some i \<Longrightarrow> str_at str pos \<noteq> c \<Longrightarrow> pos < i"
  using str_find_bounds [of c str pos i] by (auto simp: str_at_def le_less)

lemma orEnd_ge: "pos < length str \<Longrightarrow> pos \<le> orEnd str (str_find c str pos)"
  by (auto simp: orEnd_def dest: str_find_ge split: option.splits)

lemma orEnd_greater: "pos < length str \<Longrightarrow> str_at str pos \<noteq> c \<Longrightarrow> pos < orEnd str (str_find c str pos)"
  by (auto simp: orEnd_def dest: str_find_greater split: option.splits)

lemma parsePartZero_moves: "parsePartZero str st = Inr (Inr st') \<Longrightarrow> s_pos st < s_pos st'"
  by (auto simp: parsePartZero_def Let_def split: if_splits prod.splits dest!: skipLines_ge)

lemma parsePartOne_moves:
  "parsePartOne cmp str sc st = Inr (Inr st') \<Longrightarrow> s_pos st < length str \<Longrightarrow> s_pos st < s_pos st'"
  using orEnd_ge [of "s_pos st" str LF]
  by (auto simp: parsePartOne_def Let_def bind_result_eq_Inr split: if_splits prod.splits option.splits
      dest!: skipLines_ge findNext_ge)

lemma parsePartTwo_moves: "parsePartTwo str st = Inr (Inr st') \<Longrightarrow> s_pos st < s_pos st'"
  by (auto simp: parsePartTwo_def split: if_splits)

lemma parsePartThree_moves: "parsePartThree str st = Inr (Inr st') \<Longrightarrow> s_pos st < s_pos st'"
  by (auto simp: parsePartThree_def Let_def split: if_splits prod.splits dest!: skipLines_ge)

lemma flagSection_moves: "flagSection str st = Inr (Inr st') \<Longrightarrow> s_pos st < s_pos st'"
  by (auto simp: flagSection_def Let_def split: if_splits)

lemma startCondition_moves: "startCondition str st d e = Inr (Inr st') \<Longrightarrow> e < s_pos st'"
  by (cases "skipLines str e (s_line st)"; cases "parseCondition str (s_pos st) e")
    (auto simp: startCondition_def Let_def bind_result_eq_Inr split: if_splits bool.splits dest!: skipLines_ge)

lemma parsePartFour_moves:
  "parsePartFour str st = Inr (Inr st') \<Longrightarrow> s_pos st < length str \<Longrightarrow> s_pos st < s_pos st'"
  using orEnd_ge [of "s_pos st" str LF]
  by (auto simp: parsePartFour_def Let_def min_def split: if_splits prod.splits option.splits
      dest!: skipLines_ge startCondition_moves flagSection_moves str_find_ge)

lemma endOfCall_moves: "endOfCall str st e = Inr (Inr st') \<Longrightarrow> s_pos st < s_pos st'"
  by (auto simp: endOfCall_def split: if_splits prod.splits dest!: skipLines_ge)

lemma conditionArgument_moves: "conditionArgument cmp str sc st arg e n = Inr (Inr st') \<Longrightarrow> s_pos st' = n"
  by (auto simp: conditionArgument_def bind_result_eq_Inr split: option.splits)

lemma parsePartFive_moves: "parsePartFive cmp str sc st = Inr (Inr st') \<Longrightarrow> s_pos st < s_pos st'"
  by (auto simp: parsePartFive_def Let_def split: if_splits option.splits
      dest!: endOfCall_moves conditionArgument_moves dest: str_find_greater str_find_ge)

lemma parsePartSix_moves: "parsePartSix str st = Inr (Inr st') \<Longrightarrow> s_pos st < s_pos st'"
  by (auto simp: parsePartSix_def Let_def split: if_splits)

lemma startAction_moves: "startAction str st d e = Inr (Inr st') \<Longrightarrow> e < s_pos st'"
  by (auto simp: startAction_def Let_def bind_result_eq_Inr split: if_splits prod.splits bool.splits)

lemma parsePartSeven_moves:
  "parsePartSeven str st = Inr (Inr st') \<Longrightarrow> s_pos st < length str \<Longrightarrow> s_pos st < s_pos st'"
  using orEnd_ge [of "s_pos st" str LF]
  by (auto simp: parsePartSeven_def Let_def orEnd_def split: if_splits option.splits
      dest!: startAction_moves flagSection_moves str_find_ge)

lemma actionArgument_moves: "actionArgument cmp str sc st arg e n = Inr (Inr st') \<Longrightarrow> s_pos st' = n"
  by (auto simp: actionArgument_def bind_result_eq_Inr split: option.splits)

lemma parsePartEight_moves: "parsePartEight cmp str sc st = Inr (Inr st') \<Longrightarrow> s_pos st < s_pos st'"
  by (auto simp: parsePartEight_def Let_def split: if_splits option.splits
      dest!: endOfCall_moves actionArgument_moves dest: str_find_greater str_find_ge)

lemma parsePartNine_moves: "parsePartNine str st = Inr (Inr st') \<Longrightarrow> s_pos st < s_pos st'"
  by (auto simp: parsePartNine_def Let_def split: if_splits)

lemma parsePartTen_moves: "parsePartTen str st = Inr (Inr st') \<Longrightarrow> s_pos st < s_pos st'"
  by (auto simp: parsePartTen_def Let_def split: if_splits option.splits prod.splits bool.splits dest!: str_find_ge)

lemma parsePartEleven_moves: "parsePartEleven str st = Inr (Inr st') \<Longrightarrow> s_pos st < s_pos st'"
  by (auto simp: parsePartEleven_def split: if_splits)

lemmas parts_move = parsePartZero_moves parsePartOne_moves parsePartTwo_moves parsePartThree_moves parsePartFour_moves
  parsePartFive_moves parsePartSix_moves parsePartSeven_moves parsePartEight_moves parsePartNine_moves parsePartTen_moves
  parsePartEleven_moves

lemma parseStep_moves:
  assumes "parseStep cmp str sc st = Inr (Inr st')" "s_pos st < length str"
  shows "s_pos st < s_pos st' \<or> s_pos st' = s_pos st \<and> s_expecting st = Last \<and> s_expecting st' = Trigger_EndOfText"
  using assms by (auto simp: parseStep_def pushTrigger_def split: if_splits Expecting.splits dest: parts_move)

function parseTriggers_loop :: "Compiler \<Rightarrow> string \<Rightarrow> string list \<Rightarrow> ParseState \<Rightarrow> part" where
  "parseTriggers_loop cmp str sc st =
    (if s_pos st < length str then
       (case parseStep cmp str sc st of
          Inl e \<Rightarrow> Inl e
        | Inr (Inl msg) \<Rightarrow> Inr (Inl msg)
        | Inr (Inr st') \<Rightarrow> if atEnd str st then goOn st' else parseTriggers_loop cmp str sc st')
     else goOn st)"
  by auto
termination
proof (relation "measure (\<lambda>(cmp, str, sc, st). 2 * (length str - s_pos st) + (if s_expecting st = Last then 1 else 0))", goal_cases)
  case (2 cmp str sc st r st')
  then show ?case using parseStep_moves [of cmp str sc st st'] by (auto split: if_splits)
qed simp

declare parseTriggers_loop.simps [simp del]

definition parseTriggers :: "Compiler \<Rightarrow> NewStrings \<Rightarrow> string \<Rightarrow> string list \<Rightarrow> (string + Trigger list \<times> NewStrings) result" where
  "parseTriggers cmp ns str sc =
    bind_result (parseTriggers_loop cmp (str @ [NUL]) sc (startState ns)) (\<lambda>r.
      case r of
        Inl msg \<Rightarrow> Inr (Inl msg)
      | Inr st \<Rightarrow> Inr (Inr (s_output st, s_newStrings st)))"

section \<open>What the parser keeps\<close>

text \<open>
  The parser as a transition system: a step from any state at a position inside of the text.
\<close>

inductive parses :: "Compiler \<Rightarrow> string \<Rightarrow> string list \<Rightarrow> ParseState \<Rightarrow> ParseState \<Rightarrow> bool" for cmp str sc where
  parses_refl: "parses cmp str sc st st"
| parses_step: "parses cmp str sc st st' \<Longrightarrow> s_pos st' < length str \<Longrightarrow> parseStep cmp str sc st' = Inr (Inr st'') \<Longrightarrow>
    parses cmp str sc st st''"

lemma parses_trans: "parses cmp str sc st' st'' \<Longrightarrow> parses cmp str sc st st' \<Longrightarrow> parses cmp str sc st st''"
  by (induction rule: parses.induct) (auto intro: parses_step)

lemma parses_first:
  "s_pos st < length str \<Longrightarrow> parseStep cmp str sc st = Inr (Inr st') \<Longrightarrow> parses cmp str sc st' st'' \<Longrightarrow> parses cmp str sc st st''"
  by (rule parses_trans) (auto intro: parses_step parses_refl)

lemma loop_parses: "parseTriggers_loop cmp str sc st = Inr (Inr st') \<Longrightarrow> parses cmp str sc st st'"
proof (induction cmp str sc st rule: parseTriggers_loop.induct)
  case (1 cmp str sc st)
  show ?case
  proof (cases "s_pos st < length str")
    case False
    then show ?thesis using 1(2) by (simp add: parseTriggers_loop.simps [of cmp str sc st] parses_refl)
  next
    case True
    then obtain st1 where s: "parseStep cmp str sc st = Inr (Inr st1)"
      using 1(2) by (auto simp: parseTriggers_loop.simps [of cmp str sc st] split: sum.splits)
    show ?thesis
    proof (cases "atEnd str st")
      case True
      then show ?thesis
        using 1(2) s \<open>s_pos st < length str\<close> by (auto simp: parseTriggers_loop.simps [of cmp str sc st] intro: parses_step parses_refl)
    next
      case False
      then have "parses cmp str sc st1 st'"
        using 1 s True by (simp add: parseTriggers_loop.simps [of cmp str sc st])
      then show ?thesis using s True by (blast intro: parses_first)
    qed
  qed
qed

definition parseInv :: "ParseState \<Rightarrow> bool" where
  "parseInv st \<longleftrightarrow>
    wf_Trigger (s_currTrig st) \<and> list_all wf_Trigger (s_output st) \<and>
    s_numConditions st \<le> MaxConditions \<and> s_numActions st \<le> MaxActions \<and>
    s_currCondition st < MaxConditions \<and> s_currAction st < MaxActions"

lemma wf_newTrigger: "wf_Trigger newTrigger"
  by (simp add: newTrigger_def wf_Trigger_def)

lemma parseInv_start: "parseInv (startState ns)"
  by (simp add: parseInv_def startState_def wf_newTrigger MaxConditions_def MaxActions_def)

lemma parsePartZero_inv: "parsePartZero str st = Inr (Inr st') \<Longrightarrow> parseInv st \<Longrightarrow> parseInv st'"
  by (auto simp: parsePartZero_def Let_def parseInv_def wf_newTrigger MaxConditions_def MaxActions_def split: if_splits prod.splits)

lemma parseExecutingPlayer_inv:
  "parseExecutingPlayer cmp str sc n trig pos e = Inr (ok, trig', n') \<Longrightarrow> wf_Trigger trig \<Longrightarrow> wf_Trigger trig'"
  by (auto simp: parseExecutingPlayer_def Let_def bind_result_eq_Inr wf_Trigger_def split: if_splits option.splits prod.splits)

lemma parsePartOne_inv: "parsePartOne cmp str sc st = Inr (Inr st') \<Longrightarrow> parseInv st \<Longrightarrow> parseInv st'"
  by (auto simp: parsePartOne_def Let_def bind_result_eq_Inr parseInv_def split: if_splits option.splits prod.splits
      dest!: parseExecutingPlayer_inv)

lemma parsePartTwo_inv: "parsePartTwo str st = Inr (Inr st') \<Longrightarrow> parseInv st \<Longrightarrow> parseInv st'"
  by (auto simp: parsePartTwo_def parseInv_def split: if_splits)

lemma parsePartThree_inv: "parsePartThree str st = Inr (Inr st') \<Longrightarrow> parseInv st \<Longrightarrow> parseInv st'"
  by (auto simp: parsePartThree_def Let_def parseInv_def split: if_splits prod.splits)

lemma flagSection_inv: "flagSection str st = Inr (Inr st') \<Longrightarrow> parseInv st \<Longrightarrow> parseInv st'"
  by (auto simp: flagSection_def Let_def parseInv_def split: if_splits)

lemma startCondition_inv: "startCondition str st d e = Inr (Inr st') \<Longrightarrow> parseInv st \<Longrightarrow> parseInv st'"
  by (cases "skipLines str e (s_line st)"; cases "parseCondition str (s_pos st) e")
    (auto simp: startCondition_def Let_def bind_result_eq_Inr Trigger_condition_def parseInv_def wf_Trigger_def
      split: if_splits bool.splits)

lemma parsePartFour_inv:
  assumes "parsePartFour str st = Inr (Inr st')" "parseInv st"
  shows "parseInv st'"
proof -
  have upd: "parseInv (st\<lparr>s_pos := p, s_line := l\<rparr>)" "parseInv (st\<lparr>s_pos := p, s_expecting := x\<rparr>)"
    "parseInv (st\<lparr>s_pos := p, s_line := l, s_expecting := x\<rparr>)" for p l x
    using assms(2) by (simp_all add: parseInv_def)
  show ?thesis
    using assms(1)
    by (auto simp: parsePartFour_def Let_def upd assms(2) split: if_splits prod.splits option.splits
        dest!: startCondition_inv flagSection_inv)
qed

lemma endOfCall_inv: "endOfCall str st x = Inr (Inr st') \<Longrightarrow> parseInv st \<Longrightarrow> parseInv st'"
  by (auto simp: endOfCall_def parseInv_def split: if_splits prod.splits)

lemma conditionArgument_inv: "conditionArgument cmp str sc st a e n = Inr (Inr st') \<Longrightarrow> parseInv st \<Longrightarrow> parseInv st'"
  by (auto simp: conditionArgument_def bind_result_eq_Inr parseInv_def wf_Trigger_def split: option.splits)

lemma parsePartFive_inv: "parsePartFive cmp str sc st = Inr (Inr st') \<Longrightarrow> parseInv st \<Longrightarrow> parseInv st'"
  by (auto simp: parsePartFive_def Let_def split: if_splits option.splits dest: endOfCall_inv conditionArgument_inv)

lemma parsePartSix_inv: "parsePartSix str st = Inr (Inr st') \<Longrightarrow> parseInv st \<Longrightarrow> parseInv st'"
  by (auto simp: parsePartSix_def Let_def parseInv_def split: if_splits)

lemma startAction_inv: "startAction str st d e = Inr (Inr st') \<Longrightarrow> parseInv st \<Longrightarrow> parseInv st'"
  by (cases "parseAction str (s_pos st) e")
    (auto simp: startAction_def Let_def bind_result_eq_Inr Trigger_action_def parseInv_def wf_Trigger_def split: if_splits bool.splits)

lemma parsePartSeven_inv:
  assumes "parsePartSeven str st = Inr (Inr st')" "parseInv st"
  shows "parseInv st'"
proof -
  have upd: "parseInv (st\<lparr>s_pos := p\<rparr>)" "parseInv (st\<lparr>s_pos := p, s_expecting := x\<rparr>)" for p x
    using assms(2) by (simp_all add: parseInv_def)
  show ?thesis
    using assms(1)
    by (auto simp: parsePartSeven_def Let_def upd assms(2) split: if_splits option.splits dest!: startAction_inv flagSection_inv)
qed

lemma actionArgument_inv: "actionArgument cmp str sc st a e n = Inr (Inr st') \<Longrightarrow> parseInv st \<Longrightarrow> parseInv st'"
  by (auto simp: actionArgument_def bind_result_eq_Inr parseInv_def wf_Trigger_def split: option.splits)

lemma parsePartEight_inv: "parsePartEight cmp str sc st = Inr (Inr st') \<Longrightarrow> parseInv st \<Longrightarrow> parseInv st'"
  by (auto simp: parsePartEight_def Let_def split: if_splits option.splits dest: endOfCall_inv actionArgument_inv)

lemma parsePartNine_inv: "parsePartNine str st = Inr (Inr st') \<Longrightarrow> parseInv st \<Longrightarrow> parseInv st'"
  by (auto simp: parsePartNine_def Let_def parseInv_def split: if_splits)

lemma parsePartTen_inv: "parsePartTen str st = Inr (Inr st') \<Longrightarrow> parseInv st \<Longrightarrow> parseInv st'"
  by (auto simp: parsePartTen_def Let_def parseInv_def wf_Trigger_def split: if_splits option.splits prod.splits bool.splits)

lemma parsePartEleven_inv: "parsePartEleven str st = Inr (Inr st') \<Longrightarrow> parseInv st \<Longrightarrow> parseInv st'"
  by (auto simp: parsePartEleven_def parseInv_def split: if_splits)

lemmas parts_keep = parsePartZero_inv parsePartOne_inv parsePartTwo_inv parsePartThree_inv parsePartFour_inv parsePartFive_inv
  parsePartSix_inv parsePartSeven_inv parsePartEight_inv parsePartNine_inv parsePartTen_inv parsePartEleven_inv

lemma parseStep_inv:
  assumes "parseStep cmp str sc st = Inr (Inr st')" "parseInv st"
  shows "parseInv st'"
proof -
  have "parseInv (pushTrigger st)" "parseInv (st\<lparr>s_pos := p, s_line := l\<rparr>)" for p l
    using assms(2) by (simp_all add: parseInv_def pushTrigger_def)
  then show ?thesis
    using assms by (auto simp: parseStep_def split: if_splits Expecting.splits dest: parts_keep)
qed

lemma parses_inv: "parses cmp str sc st st' \<Longrightarrow> parseInv st \<Longrightarrow> parseInv st'"
  by (induction rule: parses.induct) (auto intro: parseStep_inv)

lemma parseTriggers_reached:
  assumes "parseTriggers cmp ns str sc = Inr (Inr (trigs, ns'))"
  obtains st where "parses cmp (str @ [NUL]) sc (startState ns) st" "trigs = s_output st" "ns' = s_newStrings st"
proof -
  obtain st where "parseTriggers_loop cmp (str @ [NUL]) sc (startState ns) = Inr (Inr st)" "trigs = s_output st" "ns' = s_newStrings st"
    using assms
    by (cases "parseTriggers_loop cmp (str @ [NUL]) sc (startState ns)") (auto simp: parseTriggers_def split: sum.splits)
  then show thesis using that loop_parses by blast
qed

subsection \<open>Too many conditions or actions\<close>

lemma startCondition_full:
  assumes "parseInv st" "s_numConditions st = MaxConditions" "fst (parseCondition str (s_pos st) e)"
  shows "startCondition str st d e = Inl OutOfRange"
  using assms by (auto simp: startCondition_def Trigger_condition_def parseInv_def wf_Trigger_def split: prod.splits bool.splits)

lemma startAction_full:
  assumes "parseInv st" "s_numActions st = MaxActions" "fst (parseAction str (s_pos st) e)"
  shows "startAction str st d e = Inl OutOfRange"
  using assms by (auto simp: startAction_def Trigger_action_def parseInv_def wf_Trigger_def split: prod.splits bool.splits)

fun parseSteps :: "nat \<Rightarrow> Compiler \<Rightarrow> string \<Rightarrow> string list \<Rightarrow> ParseState \<Rightarrow> part" where
  "parseSteps 0 cmp str sc st = goOn st"
| "parseSteps (Suc n) cmp str sc st =
    (if s_pos st < length str then
       (case parseStep cmp str sc st of Inr (Inr st') \<Rightarrow> parseSteps n cmp str sc st' | failed \<Rightarrow> failed)
     else goOn st)"

lemma parseSteps_parses: "parseSteps n cmp str sc st = Inr (Inr st') \<Longrightarrow> parses cmp str sc st st'"
  by (induction n arbitrary: st) (auto intro: parses_refl parses_first split: if_splits sum.splits)


definition noStrings :: NewStrings where
  "noStrings = \<lparr>newStringTable = [], unassignedStrings = []\<rparr>"

lemma compiled_example:
  "case parseTriggers exampleCompiler noStrings ''TRIGGER(){ACTIONS:WAIT(5);}'' [] of
     Inr (Inr (trigs, ns)) \<Rightarrow> map (\<lambda>trig. a_time (t_actions trig ! 0)) trigs = [5]
   | _ \<Rightarrow> False"
  by code_simp


text \<open>
  C39. Whatever the text, a state the parser reaches has at most \<open>MaxConditions\<close> conditions and \<open>MaxActions\<close> actions, and the name of one more condition or action
  makes \<open>Trigger::condition\<close> or \<open>Trigger::action\<close> throw: the message that the maximum is exceeded is never given.
\<close>

theorem parser_full_trigger:
  assumes "parses cmp str sc (startState ns) st"
  shows "s_numConditions st \<le> MaxConditions \<and> s_numActions st \<le> MaxActions \<and>
    (fst (parseCondition str (s_pos st) e) \<and> s_numConditions st = MaxConditions \<longrightarrow> startCondition str st d e = Inl OutOfRange) \<and>
    (fst (parseAction str (s_pos st) e) \<and> s_numActions st = MaxActions \<longrightarrow> startAction str st d e = Inl OutOfRange)"
  using parses_inv [OF assms parseInv_start] startCondition_full startAction_full by (auto simp: parseInv_def)

definition fullTrigger :: "nat \<Rightarrow> string" where
  "fullTrigger n = ''TRIGGER(){CONDITIONS:'' @ concat (replicate n ''ALWAYS();'') @ ''}'' @ [NUL]"

lemma fullTrigger_steps:
  "case parseSteps 36 exampleCompiler (fullTrigger 17) [] (startState noStrings) of
     Inr (Inr st) \<Rightarrow> s_numConditions st = MaxConditions \<and> fst (parseCondition (fullTrigger 17) (s_pos st) (s_pos st + 6))
   | _ \<Rightarrow> False"
  by code_simp

theorem parser_full_trigger_witness:
  "\<exists>st. parses exampleCompiler (fullTrigger 17) [] (startState noStrings) st \<and> s_numConditions st = MaxConditions \<and>
     startCondition (fullTrigger 17) st 0 (s_pos st + 6) = Inl OutOfRange"
proof -
  from fullTrigger_steps obtain st where "parseSteps 36 exampleCompiler (fullTrigger 17) [] (startState noStrings) = Inr (Inr st)"
    and full: "s_numConditions st = MaxConditions" "fst (parseCondition (fullTrigger 17) (s_pos st) (s_pos st + 6))"
    unfolding sum.case_eq_if by (metis sum.collapse(2))
  then have reached: "parses exampleCompiler (fullTrigger 17) [] (startState noStrings) st" using parseSteps_parses by blast
  show ?thesis using parser_full_trigger [OF reached, of "s_pos st + 6" 0] full reached by blast
qed

end
